(* ===== verification/Prelude.thy ===== *)
theory Prelude
  imports Complex_Main "HOL-Library.AList" "HOL-Library.List_Lexorder" "HOL-Library.Char_ord"
begin

section \<open>Shared vocabulary\<close>

text \<open>
  What the components share: Python's exceptions as values and the sequencing of fallible
  steps, truth values of optional strings, date-times, floating point numbers, the JSON values
  that events carry, insertion-ordered dictionaries and stable sorting.

  A Python exception is a value \<open>Inl e\<close> of the sum type \<open>py_error + 'a\<close>. A dictionary is an
  association list: \<open>map_of\<close> looks a key up, \<open>AList.update\<close> assigns (in place for a key that is
  present, at the end otherwise, which is Python's iteration order), \<open>AList.delete\<close> removes.
  Strings are lists of characters, one per code point, and only code points below 256 are
  represented; they are ordered lexicographically by code point, as in Python.
\<close>

named_theorems dict_simps "lookup after update, deletion and membership of association lists"
named_theorems inv_intros "invariants kept by the operations"

subsection \<open>Exceptions and fallible computations\<close>

datatype py_error =
    ValueError string
  | KeyError string
  | TypeError string
  | RuntimeError string
  | LookupError string
  | AssertionError string
  | ConnectionError string
  | ZeroDivisionError string
  | PermissionError string
  | OverflowError string
  | AttributeError string
  | TimeoutError string
  | SchemaValidationError string
  | StaleGovernanceDecisionError string
  | AttentionSemanticConflictError string
  | ConcurrentAppendError int int  \<comment> \<open>the expected and the actual head\<close>

type_synonym 'a result = "py_error + 'a"

definition rbind :: "'a result \<Rightarrow> ('a \<Rightarrow> 'b result) \<Rightarrow> 'b result" where
  "rbind m f = (case m of Inl e \<Rightarrow> Inl e | Inr x \<Rightarrow> f x)"

lemma rbind_simps [simp]: "rbind (Inl e) f = Inl e" "rbind (Inr x) f = f x"
  by (simp_all add: rbind_def)

lemma rbind_Inr_iff: "rbind m f = Inr y \<longleftrightarrow> (\<exists>x. m = Inr x \<and> f x = Inr y)"
  by (cases m) auto

lemma rbindE: "rbind m f = Inr y \<Longrightarrow> (\<And>x. m = Inr x \<Longrightarrow> f x = Inr y \<Longrightarrow> P) \<Longrightarrow> P"
  by (cases m) auto

lemma rbind_cong [fundef_cong]:
  "m = m' \<Longrightarrow> (\<And>x. m' = Inr x \<Longrightarrow> f x = f' x) \<Longrightarrow> rbind m f = rbind m' f'"
  by (cases m') auto

text \<open>Consecutive \<open>if cond: raise error\<close> statements: the first condition that holds decides.\<close>

fun raise_first :: "(bool \<times> py_error) list \<Rightarrow> unit result" where
  "raise_first [] = Inr ()"
| "raise_first ((bad, e) # cs) = (if bad then Inl e else raise_first cs)"

lemma raise_first_ok [simp]: "raise_first cs = Inr u \<longleftrightarrow> list_all (\<lambda>c. \<not> fst c) cs"
  by (induction cs rule: raise_first.induct) auto

lemma if_Inl_Inr [simp]: "(if bad then Inl e else m) = Inr x \<longleftrightarrow> \<not> bad \<and> m = Inr x"
  by simp

lemma raise_first_append:
  "raise_first (cs @ ds) = rbind (raise_first cs) (\<lambda>_. raise_first ds)"
  by (induction cs rule: raise_first.induct) auto

fun mapM :: "('a \<Rightarrow> 'b result) \<Rightarrow> 'a list \<Rightarrow> 'b list result" where
  "mapM f [] = Inr []"
| "mapM f (x # xs) = rbind (f x) (\<lambda>y. rbind (mapM f xs) (\<lambda>ys. Inr (y # ys)))"

lemma mapM_Inr_iff: "mapM f xs = Inr ys \<longleftrightarrow> list_all2 (\<lambda>x y. f x = Inr y) xs ys"
  by (induction xs arbitrary: ys) (auto simp: rbind_Inr_iff list_all2_Cons1)

lemma mapM_all_Inr: "(\<And>x. x \<in> set xs \<Longrightarrow> f x = Inr (g x)) \<Longrightarrow> mapM f xs = Inr (map g xs)"
  by (induction xs) auto

lemma mapM_mem: "mapM f xs = Inr ys \<Longrightarrow> y \<in> set ys \<Longrightarrow> \<exists>x \<in> set xs. f x = Inr y"
  by (induction xs arbitrary: ys) (auto simp: rbind_Inr_iff)

fun foldM :: "('s \<Rightarrow> 'a \<Rightarrow> 's result) \<Rightarrow> 's \<Rightarrow> 'a list \<Rightarrow> 's result" where
  "foldM f s [] = Inr s"
| "foldM f s (x # xs) = rbind (f s x) (\<lambda>s'. foldM f s' xs)"

lemma foldM_append: "foldM f s (xs @ ys) = rbind (foldM f s xs) (\<lambda>s'. foldM f s' ys)"
proof (induction xs arbitrary: s)
  case (Cons x xs)
  then show ?case by (cases "f s x") auto
qed simp

lemma foldM_invariant:
  assumes "foldM f s xs = Inr s'" "P s" "\<And>s x s'. x \<in> set xs \<Longrightarrow> P s \<Longrightarrow> f s x = Inr s' \<Longrightarrow> P s'"
  shows "P s'"
  using assms by (induction xs arbitrary: s) (auto simp: rbind_Inr_iff)

subsection \<open>Strings\<close>

text \<open>
  \<open>str.strip\<close> removes white space; \<open>not value.strip()\<close> is \<open>blank\<close>. The white space below 256 is
  the ASCII white space, the separators 28 to 31, and the code points 133 and 160.
\<close>

definition is_space :: "char \<Rightarrow> bool" where
  "is_space c = (c \<in> set [CHR 0x09, CHR 0x0A, CHR 0x0B, CHR 0x0C, CHR 0x0D, CHR 0x1C, CHR 0x1D,
     CHR 0x1E, CHR 0x1F, CHR '' '', CHR 0x85, CHR 0xA0])"

primrec blank :: "string \<Rightarrow> bool" where
  "blank [] = True"
| "blank (c # s) = (if is_space c then blank s else False)"

text \<open>\<open>value or default\<close> on an optional string: the empty string counts as absent.\<close>

definition str_or :: "string option \<Rightarrow> string \<Rightarrow> string" where
  "str_or v d = (case v of Some s \<Rightarrow> if s = [] then d else s | None \<Rightarrow> d)"

definition distinct_text :: "string list \<Rightarrow> bool" where
  "distinct_text xs = (list_all (\<lambda>x. \<not> blank x) xs \<and> distinct xs)"

text \<open>The decimal digits of a number, as \<open>str\<close> prints an \<open>int\<close>.\<close>

fun nat_digits :: "nat \<Rightarrow> string" where
  "nat_digits n = (if n < 10 then [char_of (48 + n)]
                   else nat_digits (n div 10) @ [char_of (48 + n mod 10)])"

declare nat_digits.simps [simp del]

text \<open>Equations for evaluation: digits from a table, characters compared bit by bit.\<close>

lemma digit_char: "(n :: nat) < 10 \<Longrightarrow> char_of (48 + n) = ''0123456789'' ! n"
proof -
  assume "n < 10"
  then have "n = 0 \<or> n = 1 \<or> n = 2 \<or> n = 3 \<or> n = 4 \<or> n = 5 \<or> n = 6 \<or> n = 7 \<or> n = 8 \<or> n = 9"
    by presburger
  then show ?thesis by (elim disjE; simp; code_simp)
qed

lemma nat_digits_code [code]:
  "nat_digits n = (if n < 10 then [''0123456789'' ! n]
     else nat_digits (n div 10) @ [''0123456789'' ! (n mod 10)])"
  by (subst nat_digits.simps) (simp add: digit_char)

lemma less_binary:
  "of_bool a + 2 * x < of_bool c + 2 * (y :: nat) \<longleftrightarrow> x < y \<or> x = y \<and> \<not> a \<and> c"
  "of_bool a + 2 * x = of_bool c + 2 * y \<longleftrightarrow> x = y \<and> (a \<longleftrightarrow> c)"
  by (cases a; cases c; simp; presburger)+

lemma less_char_code [code]:
  "Char a0 a1 a2 a3 a4 a5 a6 a7 < Char b0 b1 b2 b3 b4 b5 b6 b7 \<longleftrightarrow>
     (if a7 \<noteq> b7 then b7 else if a6 \<noteq> b6 then b6 else if a5 \<noteq> b5 then b5 else if a4 \<noteq> b4 then b4
      else if a3 \<noteq> b3 then b3 else if a2 \<noteq> b2 then b2 else if a1 \<noteq> b1 then b1 else a0 \<noteq> b0 \<and> b0)"
  unfolding less_char_def of_char_Char horner_sum_simps list.map foldr.simps less_binary
  by (simp add: less_binary) argo

lemma less_eq_char_code [code]: "(c :: char) \<le> d \<longleftrightarrow> \<not> d < c"
  by (rule linorder_not_less [symmetric])

definition digits_value :: "string \<Rightarrow> nat" where
  "digits_value s = foldl (\<lambda>v c. 10 * v + (of_char c - 48)) 0 s"

lemma digits_value_nat_digits: "digits_value (nat_digits n) = n"
proof (induction n rule: nat_digits.induct)
  case (1 n)
  have snoc: "digits_value (s @ [c]) = 10 * digits_value s + (of_char c - 48)" for s c
    by (simp add: digits_value_def)
  show ?case
  proof (cases "n < 10")
    case True
    then show ?thesis
      by (subst nat_digits.simps) (simp add: digits_value_def)
  next
    case False
    with 1 show ?thesis
      by (subst nat_digits.simps) (simp add: snoc)
  qed
qed

lemma nat_digits_inj [simp]: "nat_digits m = nat_digits n \<longleftrightarrow> m = n"
  by (metis digits_value_nat_digits)

definition str_int :: "int \<Rightarrow> string" where
  "str_int i = (if i < 0 then CHR ''-'' # nat_digits (nat (- i)) else nat_digits (nat i))"

subsection \<open>Date-times\<close>

text \<open>
  An aware date-time is the instant it denotes, in microseconds, the resolution of Python's
  \<open>datetime\<close>; time zones only affect how it is printed. A naive date-time (\<open>tzinfo is None\<close>) has
  no instant; its field is the wall-clock reading. Durations are integers of microseconds.
\<close>

datatype datetime = is_aware: Aware (instant: int) | is_naive: Naive (instant: int)

definition dt_before :: "datetime \<Rightarrow> datetime \<Rightarrow> bool" where
  "dt_before a b = (instant a < instant b)"

definition dt_le :: "datetime \<Rightarrow> datetime \<Rightarrow> bool" where
  "dt_le a b = (instant a \<le> instant b)"

fun dt_plus :: "datetime \<Rightarrow> int \<Rightarrow> datetime" where
  "dt_plus (Aware t) d = Aware (t + d)"
| "dt_plus (Naive t) d = Naive (t + d)"

lemma dt_simps [simp]:
  "dt_before (Aware a) (Aware b) = (a < b)" "dt_le (Aware a) (Aware b) = (a \<le> b)"
  by (simp_all add: dt_before_def dt_le_def)

lemma is_naive_iff [simp]: "is_naive t \<longleftrightarrow> \<not> is_aware t"
  by (cases t) auto

lemma instant_dt_plus [simp]: "instant (dt_plus t d) = instant t + d"
  by (cases t) auto

lemma is_aware_dt_plus [simp]: "is_aware (dt_plus t d) = is_aware t"
  by (cases t) auto

subsection \<open>Floating point numbers\<close>

text \<open>
  Python's \<open>float\<close>: a finite number, an infinity or not-a-number. Finite arithmetic is exact
  here; rounding, overflow to infinity and the sign of zero are the only IEEE behaviours left out.
  The comparisons are Python's: every comparison with \<open>NaN\<close> is false. The number 0 and 1 and the
  operations are those of the type classes, so that the formulas read as in the source.
\<close>

datatype pyfloat = Fin real | PosInf | NegInf | NaN

instantiation pyfloat :: "{zero, one, ord, plus, times, uminus, minus}"
begin

definition zero_pyfloat :: pyfloat where "zero_pyfloat = Fin 0"

definition one_pyfloat :: pyfloat where "one_pyfloat = Fin 1"

definition less_pyfloat :: "pyfloat \<Rightarrow> pyfloat \<Rightarrow> bool" where
  "less_pyfloat x y = (case x of
     Fin a \<Rightarrow> (case y of Fin b \<Rightarrow> a < b | PosInf \<Rightarrow> True | _ \<Rightarrow> False)
   | PosInf \<Rightarrow> False
   | NegInf \<Rightarrow> y \<noteq> NegInf \<and> y \<noteq> NaN
   | NaN \<Rightarrow> False)"

definition less_eq_pyfloat :: "pyfloat \<Rightarrow> pyfloat \<Rightarrow> bool" where
  "less_eq_pyfloat x y = (x \<noteq> NaN \<and> (x = y \<or> x < y))"

definition uminus_pyfloat :: "pyfloat \<Rightarrow> pyfloat" where
  "uminus_pyfloat x = (case x of Fin a \<Rightarrow> Fin (- a) | PosInf \<Rightarrow> NegInf | NegInf \<Rightarrow> PosInf | NaN \<Rightarrow> NaN)"

definition plus_pyfloat :: "pyfloat \<Rightarrow> pyfloat \<Rightarrow> pyfloat" where
  "plus_pyfloat x y = (case x of
     Fin a \<Rightarrow> (case y of Fin b \<Rightarrow> Fin (a + b) | _ \<Rightarrow> y)
   | PosInf \<Rightarrow> (if y = NegInf \<or> y = NaN then NaN else PosInf)
   | NegInf \<Rightarrow> (if y = PosInf \<or> y = NaN then NaN else NegInf)
   | NaN \<Rightarrow> NaN)"

definition minus_pyfloat :: "pyfloat \<Rightarrow> pyfloat \<Rightarrow> pyfloat" where
  "minus_pyfloat x y = x + (- y)"

definition times_pyfloat :: "pyfloat \<Rightarrow> pyfloat \<Rightarrow> pyfloat" where
  "times_pyfloat x y = (case x of
     Fin a \<Rightarrow> (case y of
         Fin b \<Rightarrow> Fin (a * b)
       | PosInf \<Rightarrow> (if a = 0 then NaN else if 0 < a then PosInf else NegInf)
       | NegInf \<Rightarrow> (if a = 0 then NaN else if 0 < a then NegInf else PosInf)
       | NaN \<Rightarrow> NaN)
   | PosInf \<Rightarrow> (if y = NaN \<or> y = Fin 0 then NaN else if 0 < y then PosInf else NegInf)
   | NegInf \<Rightarrow> (if y = NaN \<or> y = Fin 0 then NaN else if 0 < y then NegInf else PosInf)
   | NaN \<Rightarrow> NaN)"

instance ..

end

lemma pyfloat_Fin_simps [simp]:
  "Fin a < Fin b \<longleftrightarrow> a < b"
  "Fin a \<le> Fin b \<longleftrightarrow> a \<le> b"
  "Fin a + Fin b = Fin (a + b)"
  "Fin a - Fin b = Fin (a - b)"
  "Fin a * Fin b = Fin (a * b)"
  "- Fin a = Fin (- a)"
  by (auto simp: less_pyfloat_def less_eq_pyfloat_def plus_pyfloat_def minus_pyfloat_def
        times_pyfloat_def uminus_pyfloat_def)

lemma pyfloat_compare_simps [simp]:
  "\<not> NaN < x" "\<not> x < NaN" "\<not> NaN \<le> x" "\<not> x \<le> NaN"
  "\<not> PosInf < x" "Fin a < PosInf" "Fin a \<le> PosInf" "\<not> PosInf \<le> Fin a"
  "NegInf < Fin a" "NegInf \<le> Fin a" "\<not> Fin a < NegInf" "\<not> Fin a \<le> NegInf" "\<not> x < NegInf"
  by (auto simp: less_pyfloat_def less_eq_pyfloat_def split: pyfloat.splits)

lemma pyfloat_zero_one: "(0 :: pyfloat) = Fin 0" "(1 :: pyfloat) = Fin 1"
  by (simp_all add: zero_pyfloat_def one_pyfloat_def)

lemma pyfloat_trans:
  fixes x y z :: pyfloat
  shows "x < y \<Longrightarrow> y \<le> z \<Longrightarrow> x < z" "x \<le> y \<Longrightarrow> y < z \<Longrightarrow> x < z"
  by (cases x; cases y; cases z; auto simp: less_eq_pyfloat_def less_pyfloat_def)+

text \<open>\<open>math.isfinite\<close>, and the builtin \<open>max\<close> and \<open>min\<close>, which keep the first argument on ties.\<close>

definition fin :: "pyfloat \<Rightarrow> bool" where
  "fin x = (case x of Fin _ \<Rightarrow> True | _ \<Rightarrow> False)"

definition real_of :: "pyfloat \<Rightarrow> real" where
  "real_of x = (case x of Fin a \<Rightarrow> a | _ \<Rightarrow> 0)"

definition py_max :: "pyfloat \<Rightarrow> pyfloat \<Rightarrow> pyfloat" where
  "py_max a b = (if a < b then b else a)"

definition py_min :: "pyfloat \<Rightarrow> pyfloat \<Rightarrow> pyfloat" where
  "py_min a b = (if b < a then b else a)"

fun py_sum :: "pyfloat list \<Rightarrow> pyfloat" where
  "py_sum xs = foldl (+) 0 xs"

text \<open>
  Division for a divisor that is not zero (Python raises \<open>ZeroDivisionError\<close> for zero, which \<open>py_div\<close>
  does), and \<open>math.sqrt\<close>.
\<close>

definition fdiv :: "pyfloat \<Rightarrow> pyfloat \<Rightarrow> pyfloat" where
  "fdiv x y = (case y of
     Fin b \<Rightarrow> (case x of
         Fin a \<Rightarrow> Fin (a / b)
       | PosInf \<Rightarrow> (if 0 < b then PosInf else NegInf)
       | NegInf \<Rightarrow> (if 0 < b then NegInf else PosInf)
       | NaN \<Rightarrow> NaN)
   | NaN \<Rightarrow> NaN
   | _ \<Rightarrow> (case x of Fin _ \<Rightarrow> Fin 0 | _ \<Rightarrow> NaN))"

definition py_div :: "pyfloat \<Rightarrow> pyfloat \<Rightarrow> pyfloat result" where
  "py_div x y = (if y = Fin 0 then Inl (ZeroDivisionError ''float division by zero'') else Inr (fdiv x y))"

definition py_sqrt :: "pyfloat \<Rightarrow> pyfloat result" where
  "py_sqrt x = (case x of
     Fin a \<Rightarrow> if a < 0 then Inl (ValueError ''math domain error'') else Inr (Fin (sqrt a))
   | PosInf \<Rightarrow> Inr PosInf
   | NegInf \<Rightarrow> Inl (ValueError ''math domain error'')
   | NaN \<Rightarrow> Inr NaN)"

lemma py_div_Fin [simp]: "b \<noteq> 0 \<Longrightarrow> py_div (Fin a) (Fin b) = Inr (Fin (a / b))"
  by (simp add: py_div_def fdiv_def)

lemma py_sqrt_Fin [simp]: "0 \<le> a \<Longrightarrow> py_sqrt (Fin a) = Inr (Fin (sqrt a))"
  by (simp add: py_sqrt_def)

lemma fin_simps [simp]: "fin (Fin a)" "\<not> fin PosInf" "\<not> fin NegInf" "\<not> fin NaN"
  "real_of (Fin a) = a"
  by (simp_all add: fin_def real_of_def)

lemma fin_cases: "fin x \<Longrightarrow> (\<And>a. x = Fin a \<Longrightarrow> P) \<Longrightarrow> P"
  by (cases x) auto

lemma fin_iff: "fin x \<longleftrightarrow> x = Fin (real_of x)"
  by (cases x) auto

lemma py_min_max_Fin [simp]:
  "py_min (Fin a) (Fin b) = Fin (min a b)" "py_max (Fin a) (Fin b) = Fin (max a b)"
  by (auto simp: py_min_def py_max_def)

lemma foldl_plus_Fin: "foldl (+) (Fin c) (map Fin xs) = Fin (c + sum_list xs)"
  by (induction xs arbitrary: c) (simp_all add: add.assoc)

lemma py_sum_Fin: "py_sum (map Fin xs) = Fin (sum_list xs)"
  by (simp add: pyfloat_zero_one foldl_plus_Fin)

text \<open>\<open>not math.isfinite(v) or not 0.0 <= v <= 1.0\<close> is the negation of \<open>unit_interval\<close>.\<close>

definition unit_interval :: "pyfloat \<Rightarrow> bool" where
  "unit_interval x = (fin x \<and> 0 \<le> x \<and> x \<le> 1)"

lemma unit_interval_iff: "unit_interval x \<longleftrightarrow> (\<exists>a. x = Fin a \<and> 0 \<le> a \<and> a \<le> 1)"
  by (cases x) (auto simp: unit_interval_def pyfloat_zero_one)

text \<open>\<open>math.isclose\<close> with its default relative tolerance of one billionth.\<close>

definition is_close :: "pyfloat \<Rightarrow> pyfloat \<Rightarrow> bool" where
  "is_close x y = (case (x, y) of
     (Fin a, Fin c) \<Rightarrow> a = c \<or> \<bar>a - c\<bar> \<le> max \<bar>a\<bar> \<bar>c\<bar> / 1000000000
   | _ \<Rightarrow> x = y \<and> x \<noteq> NaN)"

lemma is_close_self: "fin x \<Longrightarrow> is_close x x"
  by (cases x) (simp_all add: is_close_def)

text \<open>\<open>round(x)\<close> of Python: to the nearest integer, halves to the even one.\<close>

definition round_half_even :: "real \<Rightarrow> int" where
  "round_half_even x = (let f = \<lfloor>x\<rfloor>; d = x - of_int f in
     if d < 1 / 2 then f else if 1 / 2 < d then f + 1 else if even f then f else f + 1)"

lemma round_half_even_le: "of_int (round_half_even x) \<le> x + 1 / 2"
  unfolding round_half_even_def Let_def by (auto split: if_splits) linarith+

lemma round_half_even_ge: "x - 1 / 2 \<le> of_int (round_half_even x)"
  unfolding round_half_even_def Let_def by (auto split: if_splits) linarith+

subsection \<open>JSON values\<close>

text \<open>
  The values an event payload carries. \<open>JTime\<close> is a string in ISO 8601 form, kept as the date-time
  it denotes: \<open>datetime.fromisoformat\<close> inverts \<open>datetime.isoformat\<close>, so printing and parsing such a
  string is the identity on this representation. Any other string is a \<open>JStr\<close>.
\<close>

datatype json =
    JNull
  | JBool bool
  | JInt int
  | JFloat pyfloat
  | JStr string
  | JTime datetime
  | JList "json list"
  | JObj "(string \<times> json) list"

type_synonym jobject = "(string \<times> json) list"

definition json_opt :: "('a \<Rightarrow> json) \<Rightarrow> 'a option \<Rightarrow> json" where
  "json_opt f v = (case v of None \<Rightarrow> JNull | Some x \<Rightarrow> f x)"

definition jget :: "jobject \<Rightarrow> string \<Rightarrow> json" where
  "jget d k = (case map_of d k of None \<Rightarrow> JNull | Some v \<Rightarrow> v)"

definition jitem :: "jobject \<Rightarrow> string \<Rightarrow> json result" where
  "jitem d k = (case map_of d k of None \<Rightarrow> Inl (KeyError k) | Some v \<Rightarrow> Inr v)"

lemma json_opt_simps [simp]: "json_opt f None = JNull" "json_opt f (Some x) = f x"
  by (simp_all add: json_opt_def)

subsection \<open>Dictionaries\<close>

lemma map_of_update [dict_simps]: "map_of (AList.update k v d) = (map_of d)(k \<mapsto> v)"
  by (simp add: update_conv')

lemma map_of_delete [dict_simps]: "map_of (AList.delete k d) = (map_of d)(k := None)"
  by (simp add: delete_conv')

lemma distinct_keys_update [inv_intros]:
  "distinct (map fst d) \<Longrightarrow> distinct (map fst (AList.update k v d))"
  by (rule distinct_update)

lemma distinct_keys_delete [inv_intros]:
  "distinct (map fst d) \<Longrightarrow> distinct (map fst (AList.delete k d))"
  by (rule distinct_delete)

lemma update_present: "map_of d k = Some v \<Longrightarrow> AList.update k v d = d"
  by (induction d) auto

lemma update_new: "map_of d k = None \<Longrightarrow> AList.update k v d = d @ [(k, v)]"
  by (induction d) (auto split: if_splits)

lemma map_of_Some_in: "map_of d k = Some v \<Longrightarrow> v \<in> snd ` set d"
  by (force dest: map_of_SomeD)

lemma filter_key_unique:
  "distinct (map f xs) \<Longrightarrow> x \<in> set xs \<Longrightarrow> filter (\<lambda>y. f y = f x) xs = [x]"
proof (induction xs)
  case (Cons a xs)
  show ?case
  proof (cases "f a = f x")
    case True
    with Cons.prems have "a = x" "f x \<notin> f ` set xs" by auto
    then show ?thesis by (simp add: filter_empty_conv) (metis image_eqI)
  next
    case False
    with Cons show ?thesis by auto
  qed
qed simp

subsection \<open>Stable sorting\<close>

text \<open>
  \<open>sorted(xs, key=...)\<close> is a stable sort. Keys of a linear order use the library's \<open>sort_key\<close>;
  keys that contain floats use \<open>py_sorted\<close> with the comparison written out, which is the result of
  Python's sort whenever the comparison is a strict weak order (no \<open>NaN\<close> among the keys).
\<close>

fun ins_by :: "('a \<Rightarrow> 'a \<Rightarrow> bool) \<Rightarrow> 'a \<Rightarrow> 'a list \<Rightarrow> 'a list" where
  "ins_by lt x [] = [x]"
| "ins_by lt x (y # ys) = (if lt y x then y # ins_by lt x ys else x # y # ys)"

definition py_sorted :: "('a \<Rightarrow> 'a \<Rightarrow> bool) \<Rightarrow> 'a list \<Rightarrow> 'a list" where
  "py_sorted lt xs = foldr (ins_by lt) xs []"

lemma py_sorted_simps [simp]:
  "py_sorted lt [] = []" "py_sorted lt (x # xs) = ins_by lt x (py_sorted lt xs)"
  by (simp_all add: py_sorted_def)

lemma set_ins_by [simp]: "set (ins_by lt x xs) = insert x (set xs)"
  by (induction xs) auto

lemma length_ins_by [simp]: "length (ins_by lt x xs) = Suc (length xs)"
  by (induction xs) auto

lemma distinct_ins_by [simp]: "distinct (ins_by lt x xs) \<longleftrightarrow> x \<notin> set xs \<and> distinct xs"
  by (induction xs) auto

lemma set_py_sorted [simp]: "set (py_sorted lt xs) = set xs"
  by (induction xs) auto

lemma length_py_sorted [simp]: "length (py_sorted lt xs) = length xs"
  by (induction xs) auto

lemma distinct_py_sorted [simp]: "distinct (py_sorted lt xs) \<longleftrightarrow> distinct xs"
  by (induction xs) auto

text \<open>The comparisons for which the result is sorted: asymmetric, with a transitive complement.\<close>

definition weak_order_on :: "'a set \<Rightarrow> ('a \<Rightarrow> 'a \<Rightarrow> bool) \<Rightarrow> bool" where
  "weak_order_on A lt \<longleftrightarrow>
     (\<forall>a\<in>A. \<forall>b\<in>A. lt a b \<longrightarrow> \<not> lt b a) \<and>
     (\<forall>a\<in>A. \<forall>b\<in>A. \<forall>c\<in>A. \<not> lt b a \<longrightarrow> \<not> lt c b \<longrightarrow> \<not> lt c a)"

lemma weak_order_on_subset: "weak_order_on A lt \<Longrightarrow> B \<subseteq> A \<Longrightarrow> weak_order_on B lt"
  unfolding weak_order_on_def by (meson subsetD)

lemma weak_order_on_key:
  fixes f :: "'a \<Rightarrow> 'b::linorder"
  shows "weak_order_on A (\<lambda>a b. f a < f b)"
  by (auto simp: weak_order_on_def)

lemma sorted_ins_by:
  "weak_order_on (insert x (set xs)) lt \<Longrightarrow> sorted_wrt (\<lambda>a b. \<not> lt b a) xs \<Longrightarrow>
   sorted_wrt (\<lambda>a b. \<not> lt b a) (ins_by lt x xs)"
proof (induction xs)
  case (Cons y ys)
  have wo: "weak_order_on (insert x (set ys)) lt"
    using Cons.prems(1) by (rule weak_order_on_subset) auto
  show ?case
  proof (cases "lt y x")
    case True
    then have "\<not> lt x y"
      using Cons.prems(1) by (auto simp: weak_order_on_def)
    moreover have "sorted_wrt (\<lambda>a b. \<not> lt b a) (ins_by lt x ys)"
      using Cons.IH [OF wo] Cons.prems(2) by simp
    ultimately show ?thesis
      using True Cons.prems(2) by simp
  next
    case False
    have "\<not> lt z x" if z: "z \<in> set ys" for z
    proof -
      have "\<not> lt z y" using Cons.prems(2) z by simp
      with False z Cons.prems(1) show ?thesis
        unfolding weak_order_on_def by (meson insertI1 insertI2 list.set_intros)
    qed
    with False Cons.prems(2) show ?thesis by simp
  qed
qed simp

lemma sorted_py_sorted: "weak_order_on (set xs) lt \<Longrightarrow> sorted_wrt (\<lambda>a b. \<not> lt b a) (py_sorted lt xs)"
proof (induction xs)
  case (Cons x xs)
  have "weak_order_on (set xs) lt"
    using Cons.prems by (rule weak_order_on_subset) auto
  then show ?case
    using Cons.IH Cons.prems by (simp add: sorted_ins_by)
qed simp

end
