(* ===== verification/Fnmatch.thy ===== *)
theory Fnmatch
  imports Prelude
begin

section \<open>Shell-style patterns\<close>

text \<open>
  \<open>fnmatch.fnmatchcase\<close> of Python's standard library, which the event bus and the in-memory broker
  use for topic patterns: \<open>*\<close> matches any string, \<open>?\<close> any character, \<open>[seq]\<close> and \<open>[!seq]\<close> a
  character in or not in a set of characters and ranges. A \<open>[\<close> without its closing bracket stands
  for itself. The lemmas say what the patterns in use (a literal topic, \<open>*\<close>, \<open>prefix.*\<close>) match.
\<close>

text \<open>The members of a bracket expression: a range \<open>a-b\<close> or a single character.\<close>

fun class_has :: "string \<Rightarrow> char \<Rightarrow> bool" where
  "class_has (a # d # b # rest) c =
     (if d = CHR ''-'' then (a \<le> c \<and> c \<le> b) \<or> class_has rest c
      else c = a \<or> class_has (d # b # rest) c)"
| "class_has (a # rest) c = (c = a \<or> class_has rest c)"
| "class_has [] c = False"

text \<open>
  The text between the brackets and what follows the closing one: a \<open>!\<close> and then a \<open>]\<close> right after
  the opening bracket do not close it.
\<close>

fun split_at_close :: "string \<Rightarrow> string \<Rightarrow> (string \<times> string) option" where
  "split_at_close acc [] = None"
| "split_at_close acc (c # cs) =
     (if c = CHR '']'' then Some (rev acc, cs) else split_at_close (c # acc) cs)"

definition bracket :: "string \<Rightarrow> (string \<times> string) option" where
  "bracket p =
     (let (pre, p1) = (case p of c # cs \<Rightarrow> if c = CHR ''!'' then ([c], cs) else ([], p) | [] \<Rightarrow> ([], p));
          (pre2, p2) = (case p1 of c # cs \<Rightarrow> if c = CHR '']'' then (c # pre, cs) else (pre, p1)
                        | [] \<Rightarrow> (pre, p1))
      in split_at_close pre2 p2)"

lemma split_at_close_length: "split_at_close acc p = Some (s, r) \<Longrightarrow> length r < length p"
  by (induction acc p rule: split_at_close.induct) (auto split: if_splits)

lemma bracket_length: "bracket p = Some (s, r) \<Longrightarrow> length r < length p"
  by (auto simp: bracket_def Let_def split: list.splits if_splits dest!: split_at_close_length)

definition class_match :: "string \<Rightarrow> char \<Rightarrow> bool" where
  "class_match s c = (case s of
     d # ds \<Rightarrow> if d = CHR ''!'' then \<not> class_has ds c else class_has s c
   | [] \<Rightarrow> False)"

function glob :: "string \<Rightarrow> string \<Rightarrow> bool" where
  "glob [] s = (s = [])"
| "glob (p # ps) s =
     (if p = CHR ''*'' then glob ps s \<or> (case s of [] \<Rightarrow> False | _ # t \<Rightarrow> glob (p # ps) t)
      else case s of
        [] \<Rightarrow> False
      | c # t \<Rightarrow>
          if p = CHR ''?'' then glob ps t
          else if p = CHR ''['' then
            (case bracket ps of
               None \<Rightarrow> c = p \<and> glob ps t
             | Some (cls, rest) \<Rightarrow> class_match cls c \<and> glob rest t)
          else c = p \<and> glob ps t)"
  by pat_completeness auto
termination
  by (relation "measure (\<lambda>(p, s). length p + length s)") (auto dest: bracket_length)

declare glob.simps(2) [simp del]

definition plain :: "string \<Rightarrow> bool" where
  "plain s = list_all (\<lambda>c. c \<noteq> CHR ''*'' \<and> c \<noteq> CHR ''?'' \<and> c \<noteq> CHR ''['') s"

lemma glob_star [simp]: "glob [CHR ''*''] s"
  by (induction s) (simp_all add: glob.simps(2))

lemma glob_plain_append: "plain p \<Longrightarrow> glob (p @ q) s \<longleftrightarrow> (\<exists>t. s = p @ t \<and> glob q t)"
  by (induction p arbitrary: s) (auto simp: plain_def glob.simps(2) split: list.splits)

lemma glob_literal: "plain p \<Longrightarrow> glob p s \<longleftrightarrow> s = p"
  using glob_plain_append [of p "[]" s] by auto

lemma glob_prefix: "plain p \<Longrightarrow> glob (p @ ''*'') s \<longleftrightarrow> (\<exists>t. s = p @ t)"
  using glob_plain_append [of p "''*''" s] by auto

end
