(* ===== verification/Events.thy ===== *)
theory Events
  imports Prelude
begin

section \<open>Events and the schema registry\<close>

text \<open>
  Models \<^verbatim>\<open>src/noema/events.py\<close> (the class \<open>Event\<close> and \<open>EventSchemaRegistry\<close>) and \<^verbatim>\<open>types.py\<close>. An
  event is a record over the type of its payload: the store and the projections that read payload
  keys use JSON objects, components with typed contracts use a datatype of their own. Fresh
  identifiers (\<open>uuid4\<close>) and the current time are arguments.
\<close>

record 'p event =
  ev_type :: string
  ev_source :: string
  ev_payload :: 'p
  ev_subject :: "string option"
  ev_id :: string
  ev_timestamp :: datetime
  ev_correlation_id :: "string option"
  ev_causation_id :: "string option"
  ev_priority :: int
  ev_sequence :: "int option"
  ev_metadata :: jobject
  ev_schema_version :: int

definition CURRENT_EVENT_SCHEMA_VERSION :: int where
  "CURRENT_EVENT_SCHEMA_VERSION = 1"

text \<open>\<open>event.sequence or 0\<close>\<close>

definition seq0 :: "'p event \<Rightarrow> int" where
  "seq0 e = (case ev_sequence e of None \<Rightarrow> 0 | Some n \<Rightarrow> n)"

text \<open>The constructor's checks, in order.\<close>

definition check_event :: "'p event \<Rightarrow> unit result" where
  "check_event e = raise_first
     [(blank (ev_type e), ValueError ''event type must be non-empty''),
      (blank (ev_source e), ValueError ''event source must be non-empty''),
      (is_naive (ev_timestamp e), ValueError ''event timestamp must be timezone-aware''),
      (ev_schema_version e \<le> 0, ValueError ''event schema_version must be positive'')]"

definition event_ok :: "'p event \<Rightarrow> bool" where
  "event_ok e = (check_event e = Inr ())"

lemma event_ok_iff:
  "event_ok e \<longleftrightarrow> \<not> blank (ev_type e) \<and> \<not> blank (ev_source e) \<and> is_aware (ev_timestamp e) \<and>
     0 < ev_schema_version e"
  by (auto simp: event_ok_def check_event_def)

text \<open>\<open>replace\<close> runs the constructor's checks again; none of them reads the sequence.\<close>

definition with_sequence :: "'p event \<Rightarrow> int \<Rightarrow> 'p event" where
  "with_sequence e n = e\<lparr>ev_sequence := Some n\<rparr>"

definition caused_by :: "'p event \<Rightarrow> 'q event \<Rightarrow> string option \<Rightarrow> 'p event result" where
  "caused_by e parent source =
     (let e' = e\<lparr>ev_source := str_or source (ev_source e),
                 ev_correlation_id := Some (str_or (ev_correlation_id parent) (ev_id parent)),
                 ev_causation_id := Some (ev_id parent)\<rparr>
      in rbind (check_event e') (\<lambda>_. Inr e'))"

lemma with_sequence_simps [simp]:
  "ev_sequence (with_sequence e n) = Some n" "ev_id (with_sequence e n) = ev_id e"
  "ev_type (with_sequence e n) = ev_type e" "ev_payload (with_sequence e n) = ev_payload e"
  "ev_timestamp (with_sequence e n) = ev_timestamp e" "ev_subject (with_sequence e n) = ev_subject e"
  "ev_causation_id (with_sequence e n) = ev_causation_id e"
  "ev_source (with_sequence e n) = ev_source e"
  "ev_schema_version (with_sequence e n) = ev_schema_version e"
  "seq0 (with_sequence e n) = n"
  by (simp_all add: with_sequence_def seq0_def)

lemma event_ok_with_sequence [simp]: "event_ok (with_sequence e n) = event_ok e"
  by (simp add: event_ok_iff)

subsection \<open>Conversion to and from JSON\<close>

text \<open>
  What the builtins \<open>str\<close>, \<open>int\<close>, \<open>float\<close>, \<open>dict\<close>, \<open>iter\<close> and \<open>datetime.fromisoformat\<close> do with a
  value that is not already of the expected JSON kind is a parameter, and so is the SHA-256 digest of
  the canonical JSON text of an object.
\<close>

record builtins =
  bi_str :: "json \<Rightarrow> string"
  bi_int :: "json \<Rightarrow> int result"
  bi_dict :: "json \<Rightarrow> jobject result"
  bi_float :: "json \<Rightarrow> pyfloat result"
  bi_iter :: "json \<Rightarrow> json list result"
  bi_fromiso :: "string \<Rightarrow> datetime result"
  bi_sha :: "jobject \<Rightarrow> string"

definition py_str :: "builtins \<Rightarrow> json \<Rightarrow> string" where
  "py_str b v = (case v of JStr s \<Rightarrow> s | _ \<Rightarrow> bi_str b v)"

definition py_int :: "builtins \<Rightarrow> json \<Rightarrow> int result" where
  "py_int b v = (case v of JInt n \<Rightarrow> Inr n | _ \<Rightarrow> bi_int b v)"

definition py_dict :: "builtins \<Rightarrow> json \<Rightarrow> jobject result" where
  "py_dict b v = (case v of JObj d \<Rightarrow> Inr d | _ \<Rightarrow> bi_dict b v)"

definition falsy :: "json \<Rightarrow> bool" where
  "falsy v = (v \<in> {JNull, JBool False, JInt 0, JFloat (Fin 0), JStr [], JList [], JObj []})"

fun as_utc :: "datetime \<Rightarrow> datetime" where
  "as_utc (Naive t) = Aware t"
| "as_utc (Aware t) = Aware t"

fun parse_datetime :: "builtins \<Rightarrow> json \<Rightarrow> datetime option result" where
  "parse_datetime b JNull = Inr None"
| "parse_datetime b (JTime t) = Inr (Some (as_utc t))"
| "parse_datetime b (JStr s) = rbind (bi_fromiso b s) (\<lambda>t. Inr (Some (as_utc t)))"
| "parse_datetime b _ = Inl (TypeError ''fromisoformat: argument must be str'')"

definition event_to_dict :: "jobject event \<Rightarrow> jobject" where
  "event_to_dict e =
     [(''id'', JStr (ev_id e)),
      (''type'', JStr (ev_type e)),
      (''source'', JStr (ev_source e)),
      (''subject'', json_opt JStr (ev_subject e)),
      (''timestamp'', JTime (ev_timestamp e)),
      (''correlation_id'', json_opt JStr (ev_correlation_id e)),
      (''causation_id'', json_opt JStr (ev_causation_id e)),
      (''priority'', JInt (ev_priority e)),
      (''sequence'', json_opt JInt (ev_sequence e)),
      (''payload'', JObj (ev_payload e)),
      (''metadata'', JObj (ev_metadata e)),
      (''schema_version'', JInt (ev_schema_version e))]"

text \<open>\<open>str(data[k]) if data.get(k) is not None else None\<close>, and \<open>data.get(k, default)\<close>\<close>

definition opt_str :: "builtins \<Rightarrow> jobject \<Rightarrow> string \<Rightarrow> string option" where
  "opt_str b d k = (if jget d k = JNull then None else Some (py_str b (jget d k)))"

definition opt_int :: "builtins \<Rightarrow> jobject \<Rightarrow> string \<Rightarrow> int option result" where
  "opt_int b d k = (if jget d k = JNull then Inr None
     else rbind (py_int b (jget d k)) (\<lambda>n. Inr (Some n)))"

definition jget_or :: "jobject \<Rightarrow> string \<Rightarrow> json \<Rightarrow> json" where
  "jget_or d k v = (case map_of d k of None \<Rightarrow> v | Some w \<Rightarrow> w)"

definition event_from_dict :: "builtins \<Rightarrow> string \<Rightarrow> datetime \<Rightarrow> jobject \<Rightarrow> jobject event result" where
  "event_from_dict b fresh now d =
     rbind (parse_datetime b (jget d ''timestamp'')) (\<lambda>ts.
     rbind (jitem d ''type'') (\<lambda>ty.
     rbind (jitem d ''source'') (\<lambda>src.
     rbind (py_int b (jget_or d ''priority'' (JInt 0))) (\<lambda>prio.
     rbind (opt_int b d ''sequence'') (\<lambda>sq.
     rbind (py_dict b (jget_or d ''payload'' (JObj []))) (\<lambda>payload.
     rbind (py_dict b (jget_or d ''metadata'' (JObj []))) (\<lambda>metadata.
     rbind (py_int b (jget_or d ''schema_version'' (JInt CURRENT_EVENT_SCHEMA_VERSION))) (\<lambda>sv.
     let e = \<lparr>ev_type = py_str b ty, ev_source = py_str b src, ev_payload = payload,
              ev_subject = opt_str b d ''subject'',
              ev_id = (if falsy (jget d ''id'') then fresh else py_str b (jget d ''id'')),
              ev_timestamp = (case ts of None \<Rightarrow> now | Some t \<Rightarrow> t),
              ev_correlation_id = opt_str b d ''correlation_id'',
              ev_causation_id = opt_str b d ''causation_id'',
              ev_priority = prio, ev_sequence = sq, ev_metadata = metadata,
              ev_schema_version = sv\<rparr>
     in rbind (check_event e) (\<lambda>_. Inr e)))))))))"

lemma as_utc_aware: "is_aware t \<Longrightarrow> as_utc t = t"
  by (cases t) auto

lemma opt_str_json_opt: "jget d k = json_opt JStr v \<Longrightarrow> opt_str b d k = v"
  by (cases v) (auto simp: opt_str_def py_str_def)

lemma opt_int_json_opt: "jget d k = json_opt JInt v \<Longrightarrow> opt_int b d k = Inr v"
  by (cases v) (auto simp: opt_int_def py_int_def)

lemma jget_event_to_dict:
  "jget (event_to_dict e) ''id'' = JStr (ev_id e)"
  "jget (event_to_dict e) ''subject'' = json_opt JStr (ev_subject e)"
  "jget (event_to_dict e) ''timestamp'' = JTime (ev_timestamp e)"
  "jget (event_to_dict e) ''correlation_id'' = json_opt JStr (ev_correlation_id e)"
  "jget (event_to_dict e) ''causation_id'' = json_opt JStr (ev_causation_id e)"
  "jget (event_to_dict e) ''sequence'' = json_opt JInt (ev_sequence e)"
  "jitem (event_to_dict e) ''type'' = Inr (JStr (ev_type e))"
  "jitem (event_to_dict e) ''source'' = Inr (JStr (ev_source e))"
  "jget_or (event_to_dict e) ''priority'' v = JInt (ev_priority e)"
  "jget_or (event_to_dict e) ''payload'' v = JObj (ev_payload e)"
  "jget_or (event_to_dict e) ''metadata'' v = JObj (ev_metadata e)"
  "jget_or (event_to_dict e) ''schema_version'' v = JInt (ev_schema_version e)"
  by (simp_all add: event_to_dict_def jget_def jget_or_def jitem_def)

lemma event_collapse:
  "\<lparr>ev_type = ev_type e, ev_source = ev_source e, ev_payload = ev_payload e,
    ev_subject = ev_subject e, ev_id = ev_id e, ev_timestamp = ev_timestamp e,
    ev_correlation_id = ev_correlation_id e, ev_causation_id = ev_causation_id e,
    ev_priority = ev_priority e, ev_sequence = ev_sequence e, ev_metadata = ev_metadata e,
    ev_schema_version = ev_schema_version e\<rparr> = (e :: 'p event)"
  by simp

lemma event_from_to_dict:
  assumes "event_ok e" "ev_id e \<noteq> []"
  shows "event_from_dict b fresh now (event_to_dict e) = Inr e"
proof -
  have ts: "as_utc (ev_timestamp e) = ev_timestamp e"
    using assms by (simp add: event_ok_iff as_utc_aware)
  have "check_event e = Inr ()"
    using assms by (simp add: event_ok_def)
  then show ?thesis
    using assms(2)
    by (simp add: event_from_dict_def jget_event_to_dict opt_str_json_opt opt_int_json_opt ts
        py_str_def py_int_def py_dict_def falsy_def Let_def event_collapse)
qed

subsection \<open>The schema registry\<close>

record 'p registry =
  reg_current :: "(string \<times> int) list"
  reg_validators :: "((string \<times> int) \<times> ('p event \<Rightarrow> unit result)) list"
  reg_upcasters :: "((string \<times> int) \<times> ('p event \<Rightarrow> 'p event result)) list"

definition empty_registry :: "'p registry" where
  "empty_registry = \<lparr>reg_current = [], reg_validators = [], reg_upcasters = []\<rparr>"

definition current_version :: "'p registry \<Rightarrow> string \<Rightarrow> int" where
  "current_version r ty =
     (case map_of (reg_current r) ty of None \<Rightarrow> CURRENT_EVENT_SCHEMA_VERSION | Some v \<Rightarrow> v)"

definition register ::
  "'p registry \<Rightarrow> string \<Rightarrow> int \<Rightarrow> ('p event \<Rightarrow> unit result) option
    \<Rightarrow> ('p event \<Rightarrow> 'p event result) option \<Rightarrow> 'p registry result" where
  "register r ty version validator upcast =
     (let key = (ty, version) in
      rbind (raise_first
        [(ty = [], ValueError ''event_type must be non-empty''),
         (version \<le> 0, ValueError ''schema version must be positive''),
         (map_of (reg_validators r) key \<noteq> None \<or> map_of (reg_upcasters r) key \<noteq> None,
          ValueError ''schema already registered'')]) (\<lambda>_.
      Inr (r\<lparr>reg_validators := (case validator of None \<Rightarrow> reg_validators r
               | Some f \<Rightarrow> AList.update key f (reg_validators r)),
             reg_upcasters := (case upcast of None \<Rightarrow> reg_upcasters r
               | Some f \<Rightarrow> AList.update key f (reg_upcasters r)),
             reg_current := AList.update ty
               (max version (case map_of (reg_current r) ty of None \<Rightarrow> 0 | Some v \<Rightarrow> v))
               (reg_current r)\<rparr>)))"

text \<open>
  The loop of \<open>normalize\<close>: an upcaster must raise the version by exactly one, so the distance to
  the current version decreases.
\<close>

function upcast_loop :: "'p registry \<Rightarrow> int \<Rightarrow> 'p event \<Rightarrow> 'p event result" where
  "upcast_loop r cur e =
     (if ev_schema_version e < cur then
        (case map_of (reg_upcasters r) (ev_type e, ev_schema_version e) of
           None \<Rightarrow> Inl (ValueError ''missing upcaster'')
         | Some up \<Rightarrow>
             (case up e of
                Inl x \<Rightarrow> Inl x
              | Inr e' \<Rightarrow>
                  if ev_schema_version e' \<noteq> ev_schema_version e + 1
                  then Inl (ValueError ''upcaster must produce the next version'')
                  else if ev_id e' \<noteq> ev_id e \<or> ev_sequence e' \<noteq> ev_sequence e
                  then Inl (ValueError ''event upcasters must preserve id and sequence'')
                  else upcast_loop r cur e'))
      else Inr e)"
  by pat_completeness auto
termination
  by (relation "measure (\<lambda>(r, cur, e). nat (cur - ev_schema_version e))") auto

declare upcast_loop.simps [simp del]

definition normalize :: "'p registry \<Rightarrow> 'p event \<Rightarrow> 'p event result" where
  "normalize r e =
     (let cur = current_version r (ev_type e) in
      if ev_schema_version e > cur then Inl (ValueError ''unsupported future schema'')
      else rbind (upcast_loop r cur e) (\<lambda>n.
        case map_of (reg_validators r) (ev_type n, ev_schema_version n) of
          None \<Rightarrow> Inr n
        | Some validator \<Rightarrow> rbind (validator n) (\<lambda>_. Inr n)))"

lemma upcast_loop_result:
  "upcast_loop r cur e = Inr n \<Longrightarrow> ev_schema_version e \<le> cur \<Longrightarrow>
   ev_schema_version n = cur \<and> ev_id n = ev_id e \<and> ev_sequence n = ev_sequence e"
proof (induction r cur e rule: upcast_loop.induct)
  case (1 r cur e)
  show ?case
  proof (cases "ev_schema_version e < cur")
    case True
    with "1.prems"(1) obtain up e' where
      up: "map_of (reg_upcasters r) (ev_type e, ev_schema_version e) = Some up" "up e = Inr e'" and
      step: "ev_schema_version e' = ev_schema_version e + 1"
        "ev_id e' = ev_id e" "ev_sequence e' = ev_sequence e" and
      rest: "upcast_loop r cur e' = Inr n"
      by (subst (asm) upcast_loop.simps) (auto split: if_splits option.splits sum.splits)
    show ?thesis
      using "1.IH" [OF True up _ _ rest] step True by simp
  next
    case False
    with "1.prems" show ?thesis by (subst (asm) upcast_loop.simps) auto
  qed
qed

lemma normalize_result:
  assumes "normalize r e = Inr n"
  shows "ev_schema_version n = current_version r (ev_type e)"
    and "ev_id n = ev_id e" and "ev_sequence n = ev_sequence e"
    and "\<And>v. map_of (reg_validators r) (ev_type n, ev_schema_version n) = Some v \<Longrightarrow> v n = Inr ()"
proof -
  from assms have le: "ev_schema_version e \<le> current_version r (ev_type e)"
    and up: "upcast_loop r (current_version r (ev_type e)) e = Inr n"
    and val: "\<And>v. map_of (reg_validators r) (ev_type n, ev_schema_version n) = Some v \<Longrightarrow> v n = Inr ()"
    by (auto simp: normalize_def Let_def rbind_Inr_iff split: if_splits option.splits)
  show "ev_schema_version n = current_version r (ev_type e)"
    and "ev_id n = ev_id e" and "ev_sequence n = ev_sequence e"
    using upcast_loop_result [OF up le] by auto
  show "\<And>v. map_of (reg_validators r) (ev_type n, ev_schema_version n) = Some v \<Longrightarrow> v n = Inr ()"
    by (rule val)
qed

lemma normalize_empty_registry:
  "ev_schema_version e = 1 \<Longrightarrow> normalize empty_registry e = Inr e"
  by (simp add: normalize_def current_version_def empty_registry_def
      CURRENT_EVENT_SCHEMA_VERSION_def upcast_loop.simps)

end
