(* ===== verification/Contracts.thy ===== *)
theory Contracts
  imports Events
begin

section \<open>Interfaces between the components\<close>

text \<open>
  The contracts that several components share, each with the consequences its clients rely on:
  the append-only event store (\<^verbatim>\<open>EventStore\<close> in \<^verbatim>\<open>store.py\<close>), claims guarded by fencing tokens (the
  outbox, the inbox and work leases), and projections rebuilt from the event log. Each is
  interpreted on the model's definitions where its provider is defined.
\<close>

subsection \<open>The append-only event store\<close>

text \<open>
  \<open>log\<close> lists the stored events in order; \<open>canon\<close> is what storing does to an event (key order of
  its JSON objects), \<open>ok\<close> the events that can be stored. Appending an event whose identifier is
  already stored returns the stored event and changes nothing; otherwise the event gets the next
  sequence number. The conditional append also requires the expected head.
\<close>

locale event_store =
  fixes inv :: "'s \<Rightarrow> bool"
    and log :: "'s \<Rightarrow> 'p event list"
    and head :: "'s \<Rightarrow> int"
    and canon :: "'p event \<Rightarrow> 'p event"
    and ok :: "'p event \<Rightarrow> bool"
    and append :: "'s \<Rightarrow> 'p event \<Rightarrow> ('p event \<times> 's) result"
    and append_if :: "'s \<Rightarrow> 'p event \<Rightarrow> int \<Rightarrow> ('p event \<times> 's) result"
  assumes head_log: "inv s \<Longrightarrow> head s = int (length (log s))"
    and canon_id: "ev_id (canon e) = ev_id e"
    and canon_sequence: "ev_sequence (canon e) = ev_sequence e"
    and append_old: "inv s \<Longrightarrow> x \<in> set (log s) \<Longrightarrow> ev_id x = ev_id e \<Longrightarrow> append s e = Inr (x, s)"
    and append_new: "inv s \<Longrightarrow> ok e \<Longrightarrow> ev_id e \<notin> ev_id ` set (log s) \<Longrightarrow>
      \<exists>s'. append s e = Inr (with_sequence e (head s + 1), s') \<and> inv s' \<and>
           log s' = log s @ [canon (with_sequence e (head s + 1))]"
    and append_if_old: "inv s \<Longrightarrow> x \<in> set (log s) \<Longrightarrow> ev_id x = ev_id e \<Longrightarrow> 0 \<le> h \<Longrightarrow>
      append_if s e h = Inr (x, s)"
    and append_if_stale: "inv s \<Longrightarrow> ev_id e \<notin> ev_id ` set (log s) \<Longrightarrow> 0 \<le> h \<Longrightarrow> h \<noteq> head s \<Longrightarrow>
      append_if s e h = Inl (ConcurrentAppendError h (head s))"
    and append_if_head: "inv s \<Longrightarrow> ev_id e \<notin> ev_id ` set (log s) \<Longrightarrow> 0 \<le> h \<Longrightarrow> h = head s \<Longrightarrow>
      append_if s e h = append s e"
begin

lemma append_cases:
  assumes "inv s" "ok e"
  obtains (old) x where "x \<in> set (log s)" "ev_id x = ev_id e" "append s e = Inr (x, s)"
  | (new) s' where "ev_id e \<notin> ev_id ` set (log s)" "inv s'"
      "append s e = Inr (with_sequence e (head s + 1), s')"
      "log s' = log s @ [canon (with_sequence e (head s + 1))]"
  using append_old [OF assms(1)] append_new [OF assms] by (metis imageE)

text \<open>Appending twice is appending once: the second call returns the first one's identity.\<close>

lemma append_idempotent:
  assumes "inv s" "ok e" "append s e = Inr (x, s1)"
  shows "\<exists>y. append s1 e = Inr (y, s1) \<and> ev_id y = ev_id e \<and> y \<in> set (log s1)"
  using assms(1,2)
proof (cases rule: append_cases)
  case (old y)
  with assms show ?thesis by auto
next
  case (new s')
  let ?y = "canon (with_sequence e (head s + 1))"
  from new assms(3) have "s1 = s'" by simp
  moreover have "?y \<in> set (log s')" "ev_id ?y = ev_id e"
    using new by (simp_all add: canon_id)
  ultimately show ?thesis
    using append_old [OF new(2)] by blast
qed

lemma append_extends:
  assumes "inv s" "ok e" "append s e = Inr (x, s1)"
  shows "inv s1 \<and> (\<exists>zs. log s1 = log s @ zs) \<and> ev_id x = ev_id e"
  using assms(1,2) by (cases rule: append_cases) (use assms in auto)

text \<open>
  Two writers that observed the same head: after one of them appended a new event, the other's
  conditional append is refused and names the head it missed.
\<close>

lemma append_if_one_winner:
  assumes "inv s" "ok e1" "ev_id e1 \<notin> ev_id ` set (log s)"
    and "ev_id e2 \<notin> ev_id ` set (log s)" "ev_id e1 \<noteq> ev_id e2"
    and "append_if s e1 (head s) = Inr (x, s1)"
  shows "append_if s1 e2 (head s) = Inl (ConcurrentAppendError (head s) (head s + 1))"
proof -
  have h: "0 \<le> head s" using head_log [OF assms(1)] by simp
  with assms have ap: "append s e1 = Inr (x, s1)"
    using append_if_head by metis
  with append_new [OF assms(1-3)] have s1: "inv s1"
    "log s1 = log s @ [canon (with_sequence e1 (head s + 1))]" by auto
  then have "head s1 = head s + 1"
    by (simp add: head_log [OF s1(1)] head_log [OF assms(1)])
  moreover have "ev_id e2 \<notin> ev_id ` set (log s1)"
    using s1(2) assms(4,5) by (auto simp: canon_id)
  ultimately show ?thesis
    using append_if_stale [OF s1(1) _ h] by simp
qed

text \<open>What every reachable log looks like: distinct identifiers, numbered from 1 without gaps.\<close>

lemma numbering_kept:
  assumes "inv s" "ok e" "append s e = Inr (x, s1)"
    and "distinct (map ev_id (log s))"
    and "map ev_sequence (log s) = map (\<lambda>i. Some (int i)) [1..<Suc (length (log s))]"
  shows "distinct (map ev_id (log s1)) \<and>
    map ev_sequence (log s1) = map (\<lambda>i. Some (int i)) [1..<Suc (length (log s1))]"
  using assms(1,2)
proof (cases rule: append_cases)
  case (old y)
  with assms show ?thesis by auto
next
  case (new s')
  with assms show ?thesis
    by (auto simp: canon_id canon_sequence head_log [OF assms(1)])
qed

end

subsection \<open>Claims guarded by fencing tokens\<close>

text \<open>
  A resource \<open>k\<close> has a current token. A claim raises the token by one and returns it; no operation
  lowers it; finishing the work demands the current token. Hence a holder whose claim was superseded
  can no longer finish.
\<close>

locale fenced_claims =
  fixes inv :: "'s \<Rightarrow> bool"
    and token :: "'s \<Rightarrow> 'k \<Rightarrow> int"
    and step :: "'s \<Rightarrow> 's \<Rightarrow> bool"
    and claimed :: "'s \<Rightarrow> 'k \<Rightarrow> int \<Rightarrow> 's \<Rightarrow> bool"
    and finished :: "'s \<Rightarrow> 'k \<Rightarrow> int \<Rightarrow> 's \<Rightarrow> bool"
  assumes inv_step: "inv s \<Longrightarrow> step s s' \<Longrightarrow> inv s'"
    and claim_step: "claimed s k t s' \<Longrightarrow> step s s'"
    and claim_token: "inv s \<Longrightarrow> claimed s k t s' \<Longrightarrow> t = token s k + 1 \<and> token s' k = t"
    and step_mono: "inv s \<Longrightarrow> step s s' \<Longrightarrow> token s k \<le> token s' k"
    and finish_token: "inv s \<Longrightarrow> finished s k t s' \<Longrightarrow> t = token s k"
begin

lemma steps_mono:
  assumes "step\<^sup>*\<^sup>* s s'" "inv s"
  shows "inv s' \<and> token s k \<le> token s' k"
  using assms
proof (induction rule: rtranclp_induct)
  case (step y z)
  then have "inv y" "token s k \<le> token y k" by auto
  with step(2) show ?case
    using inv_step step_mono [of y z k] by (metis order_trans)
qed simp

lemma tokens_increase:
  assumes "inv s" "claimed s k t s1" "step\<^sup>*\<^sup>* s1 s2" "claimed s2 k t' s3"
  shows "t < t' \<and> inv s3 \<and> token s3 k = t'"
proof -
  have 1: "inv s1" "token s1 k = t"
    using inv_step [OF assms(1) claim_step [OF assms(2)]] claim_token [OF assms(1,2)] by auto
  have 2: "inv s2" "t \<le> token s2 k"
    using steps_mono [OF assms(3) 1(1), of k] 1(2) by auto
  then show ?thesis
    using claim_token [OF 2(1) assms(4)] inv_step [OF 2(1) claim_step [OF assms(4)]] by auto
qed

lemma stale_holder_rejected:
  assumes "inv s" "claimed s k t s1" "step\<^sup>*\<^sup>* s1 s2" "claimed s2 k t' s3" "step\<^sup>*\<^sup>* s3 s4"
  shows "\<not> finished s4 k t s5"
proof
  assume f: "finished s4 k t s5"
  have 3: "t < t'" "inv s3" "token s3 k = t'"
    using tokens_increase [OF assms(1-4)] by auto
  with steps_mono [OF assms(5) 3(2), of k] finish_token [OF _ f] show False by auto
qed

end

subsection \<open>Projections\<close>

text \<open>
  State rebuilt from the event log: \<open>apply\<close> folds one event, \<open>rebuild\<close> starts from the empty state.
  Every projection keeps an invariant.
\<close>

locale projection =
  fixes empty :: 's
    and apply_event :: "'s \<Rightarrow> 'e \<Rightarrow> 's result"
    and inv :: "'s \<Rightarrow> bool"
  assumes inv_empty: "inv empty"
    and inv_apply: "inv s \<Longrightarrow> apply_event s e = Inr s' \<Longrightarrow> inv s'"
begin

lemma inv_rebuild: "foldM apply_event empty es = Inr s \<Longrightarrow> inv s"
  using foldM_invariant [of apply_event empty es s inv] inv_empty inv_apply by blast

lemma rebuild_append:
  "foldM apply_event empty es = Inr s \<Longrightarrow>
   foldM apply_event empty (es @ fs) = foldM apply_event s fs"
  by (simp add: foldM_append)

text \<open>A rebuilt state equals the incrementally maintained one.\<close>

lemma rebuild_snoc:
  "foldM apply_event empty es = Inr s \<Longrightarrow>
   foldM apply_event empty (es @ [e]) = apply_event s e"
  by (cases "apply_event s e") (simp_all add: foldM_append)

end

text \<open>
  A projection whose state only advances: what it has recorded, later events keep. \<open>advances\<close> compares
  an earlier with a later state.
\<close>

locale append_only = projection empty apply_event inv
  for empty :: 's and apply_event :: "'s \<Rightarrow> 'e \<Rightarrow> 's result" and inv :: "'s \<Rightarrow> bool" +
  fixes advances :: "'s \<Rightarrow> 's \<Rightarrow> bool"
  assumes advances_refl: "advances s s"
    and advances_trans: "advances s s' \<Longrightarrow> advances s' s'' \<Longrightarrow> advances s s''"
    and advances_apply: "inv s \<Longrightarrow> apply_event s e = Inr s' \<Longrightarrow> advances s s'"
begin

lemma fold_advances:
  assumes "foldM apply_event s es = Inr s'" "inv s"
  shows "inv s' \<and> advances s s'"
  by (rule foldM_invariant [OF assms(1), where P = "\<lambda>x. inv x \<and> advances s x"])
    (use assms(2) in \<open>auto simp: advances_refl intro: inv_apply advances_trans advances_apply\<close>)

lemma history_kept:
  assumes "foldM apply_event empty (es @ fs) = Inr s'"
  shows "\<exists>s. foldM apply_event empty es = Inr s \<and> inv s \<and> inv s' \<and> advances s s'"
proof -
  obtain s where s: "foldM apply_event empty es = Inr s" "foldM apply_event s fs = Inr s'"
    using assms by (auto simp: foldM_append elim: rbindE)
  with fold_advances [OF s(2)] inv_rebuild [OF s(1)] show ?thesis by blast
qed

end

end
