(* ===== verification/MemoryStore.thy ===== *)
theory MemoryStore
  imports Contracts
begin

section \<open>The in-memory event store\<close>

text \<open>
  Models \<open>InMemoryEventStore\<close> and \<open>copy_events\<close> of \<^verbatim>\<open>src/noema/store.py\<close>. Every method body runs under
  the store's lock, so a method call is one atomic step on the record below.
\<close>

record 'p mem_store =
  ms_events :: "'p event list"
  ms_by_id :: "(string \<times> 'p event) list"

definition mem_empty :: "'p mem_store" where
  "mem_empty = \<lparr>ms_events = [], ms_by_id = []\<rparr>"

definition mem_append_locked :: "'p mem_store \<Rightarrow> 'p event \<Rightarrow> 'p event \<times> 'p mem_store" where
  "mem_append_locked s e =
     (case map_of (ms_by_id s) (ev_id e) of
        Some existing \<Rightarrow> (existing, s)
      | None \<Rightarrow>
          (let stored = with_sequence e (int (length (ms_events s)) + 1)
           in (stored, s\<lparr>ms_events := ms_events s @ [stored],
                         ms_by_id := AList.update (ev_id e) stored (ms_by_id s)\<rparr>)))"

definition mem_append :: "'p mem_store \<Rightarrow> 'p event \<Rightarrow> ('p event \<times> 'p mem_store) result" where
  "mem_append s e = Inr (mem_append_locked s e)"

definition mem_append_if_head ::
  "'p mem_store \<Rightarrow> 'p event \<Rightarrow> int \<Rightarrow> ('p event \<times> 'p mem_store) result" where
  "mem_append_if_head s e expected =
     (if expected < 0 then Inl (ValueError ''expected event head sequence cannot be negative'')
      else case map_of (ms_by_id s) (ev_id e) of
        Some existing \<Rightarrow> Inr (existing, s)
      | None \<Rightarrow>
          (let actual = int (length (ms_events s)) in
           if actual \<noteq> expected then Inl (ConcurrentAppendError expected actual)
           else Inr (mem_append_locked s e)))"

text \<open>\<open>events[:limit]\<close>, which counts from the end when the limit is negative.\<close>

definition slice_to :: "int option \<Rightarrow> 'a list \<Rightarrow> 'a list" where
  "slice_to limit xs = (case limit of
     None \<Rightarrow> xs
   | Some n \<Rightarrow> if 0 \<le> n then take (nat n) xs else take (length xs - nat (- n)) xs)"

definition mem_read ::
  "'p mem_store \<Rightarrow> int \<Rightarrow> int option \<Rightarrow> string list option \<Rightarrow> 'p event list" where
  "mem_read s after limit types =
     slice_to limit (filter (\<lambda>e. seq0 e > after \<and>
       (case types of None \<Rightarrow> True | Some ts \<Rightarrow> ev_type e \<in> set ts)) (ms_events s))"

definition mem_latest_sequence :: "'p mem_store \<Rightarrow> int" where
  "mem_latest_sequence s = int (length (ms_events s))"

subsection \<open>Invariant and the store's contract\<close>

definition numbered :: "'p event list \<Rightarrow> bool" where
  "numbered es \<longleftrightarrow> map ev_sequence es = map (\<lambda>i. Some (int i)) [1..<Suc (length es)]"

definition mem_inv :: "'p mem_store \<Rightarrow> bool" where
  "mem_inv s \<longleftrightarrow> distinct (map ev_id (ms_events s)) \<and> numbered (ms_events s) \<and>
     ms_by_id s = map (\<lambda>e. (ev_id e, e)) (ms_events s)"

lemma numbered_Nil [simp]: "numbered []"
  by (simp add: numbered_def)

lemma numbered_snoc [simp]:
  "numbered (es @ [e]) \<longleftrightarrow> numbered es \<and> ev_sequence e = Some (int (length es) + 1)"
  by (auto simp: numbered_def)

lemma numbered_nth: "numbered es \<Longrightarrow> i < length es \<Longrightarrow> ev_sequence (es ! i) = Some (int i + 1)"
proof -
  assume n: "numbered es" and i: "i < length es"
  have "map ev_sequence es ! i = map (\<lambda>i. Some (int i)) [1..<Suc (length es)] ! i"
    using n by (simp add: numbered_def)
  with i show ?thesis by (simp del: upt_Suc)
qed

lemma map_of_by_id_None: "mem_inv s \<Longrightarrow> map_of (ms_by_id s) i = None \<longleftrightarrow> i \<notin> ev_id ` set (ms_events s)"
  by (auto simp: mem_inv_def map_of_eq_None_iff image_image)

lemma map_of_by_id_Some:
  "mem_inv s \<Longrightarrow> x \<in> set (ms_events s) \<Longrightarrow> map_of (ms_by_id s) (ev_id x) = Some x"
  by (auto simp: mem_inv_def comp_def intro: map_of_is_SomeI)

lemma mem_inv_empty: "mem_inv mem_empty"
  by (simp add: mem_inv_def mem_empty_def)

lemma mem_append_new:
  assumes "mem_inv s" "ev_id e \<notin> ev_id ` set (ms_events s)"
  shows "mem_append_locked s e =
    (let stored = with_sequence e (int (length (ms_events s)) + 1)
     in (stored, \<lparr>ms_events = ms_events s @ [stored],
                  ms_by_id = ms_by_id s @ [(ev_id e, stored)]\<rparr>))"
  using map_of_by_id_None [OF assms(1), of "ev_id e"] assms(2)
  by (cases s) (simp add: mem_append_locked_def Let_def update_new)

lemma mem_inv_append [inv_intros]: "mem_inv s \<Longrightarrow> mem_inv (snd (mem_append_locked s e))"
proof (cases "ev_id e \<in> ev_id ` set (ms_events s)")
  case True
  assume inv: "mem_inv s"
  with True show ?thesis
    by (auto simp: mem_append_locked_def dest: map_of_by_id_Some split: option.splits)
next
  case False
  assume inv: "mem_inv s"
  with False show ?thesis
    by (auto simp: mem_append_new Let_def mem_inv_def)
qed

interpretation mem: event_store mem_inv ms_events mem_latest_sequence id "\<lambda>_. True"
  mem_append mem_append_if_head
proof unfold_locales
  fix s :: "'a mem_store" and e x :: "'a event" and h :: int
  show "mem_inv s \<Longrightarrow> mem_latest_sequence s = int (length (ms_events s))"
    by (simp add: mem_latest_sequence_def)
  show "ev_id (id e) = ev_id e" "ev_sequence (id e) = ev_sequence e" by simp_all
  show "mem_inv s \<Longrightarrow> x \<in> set (ms_events s) \<Longrightarrow> ev_id x = ev_id e \<Longrightarrow> mem_append s e = Inr (x, s)"
    using map_of_by_id_Some [of s x] by (simp add: mem_append_def mem_append_locked_def)
  show "mem_inv s \<Longrightarrow> x \<in> set (ms_events s) \<Longrightarrow> ev_id x = ev_id e \<Longrightarrow> 0 \<le> h \<Longrightarrow>
      mem_append_if_head s e h = Inr (x, s)"
    using map_of_by_id_Some [of s x] by (simp add: mem_append_if_head_def)
  show "mem_inv s \<Longrightarrow> ev_id e \<notin> ev_id ` set (ms_events s) \<Longrightarrow> 0 \<le> h \<Longrightarrow>
      h \<noteq> mem_latest_sequence s \<Longrightarrow>
      mem_append_if_head s e h = Inl (ConcurrentAppendError h (mem_latest_sequence s))"
    using map_of_by_id_None [of s "ev_id e"]
    by (auto simp: mem_append_if_head_def mem_latest_sequence_def)
  show "mem_inv s \<Longrightarrow> ev_id e \<notin> ev_id ` set (ms_events s) \<Longrightarrow> 0 \<le> h \<Longrightarrow>
      h = mem_latest_sequence s \<Longrightarrow> mem_append_if_head s e h = mem_append s e"
    using map_of_by_id_None [of s "ev_id e"]
    by (auto simp: mem_append_if_head_def mem_append_def mem_latest_sequence_def)
  assume inv: "mem_inv s" and new: "ev_id e \<notin> ev_id ` set (ms_events s)"
  show "\<exists>s'. mem_append s e = Inr (with_sequence e (mem_latest_sequence s + 1), s') \<and> mem_inv s' \<and>
      ms_events s' = ms_events s @ [id (with_sequence e (mem_latest_sequence s + 1))]"
    using mem_inv_append [OF inv, of e]
    by (simp add: mem_append_def mem_append_new [OF inv new] mem_latest_sequence_def Let_def)
qed

subsection \<open>Reading\<close>

text \<open>With the numbering invariant, reading after a cursor drops exactly the first events.\<close>

lemma numbered_filter_after:
  "numbered es \<Longrightarrow> 0 \<le> c \<Longrightarrow> filter (\<lambda>e. seq0 e > c) es = drop (nat c) es"
proof (induction es rule: rev_induct)
  case (snoc e es)
  then show ?case by (cases "nat c \<le> length es") (auto simp: seq0_def)
qed simp

lemma mem_read_after:
  "mem_inv s \<Longrightarrow> 0 \<le> c \<Longrightarrow> mem_read s c None None = drop (nat c) (ms_events s)"
  by (simp add: mem_read_def slice_to_def mem_inv_def numbered_filter_after)

subsection \<open>Copying a store\<close>

text \<open>
  \<open>copy_events\<close> reads batches of 500 after a cursor and appends them to the target one by one. The
  target's \<open>append\<close> is an argument; the cursor only grows, so the loop ends.
\<close>

fun copy_batch ::
  "('t \<Rightarrow> 'p event \<Rightarrow> ('p event \<times> 't) result) \<Rightarrow> 'p event list \<Rightarrow> 't \<Rightarrow> nat \<Rightarrow> nat
    \<Rightarrow> ('t \<times> nat \<times> nat) result" where
  "copy_batch app [] t copied cursor = Inr (t, copied, cursor)"
| "copy_batch app (e # es) t copied cursor =
     rbind (app t e) (\<lambda>(_, t'). copy_batch app es t' (copied + 1)
       (if seq0 e = 0 then cursor else nat (seq0 e)))"

lemma copy_batch_cursor:
  "copy_batch app es t n c = Inr (t', n', c') \<Longrightarrow> es \<noteq> [] \<Longrightarrow> \<forall>e \<in> set es. seq0 e > 0 \<Longrightarrow>
   c' = nat (seq0 (last es))"
proof (induction es arbitrary: t n c)
  case (Cons e es)
  from Cons.prems(1) obtain y t1 where "app t e = Inr (y, t1)" and
    rest: "copy_batch app es t1 (n + 1) (if seq0 e = 0 then c else nat (seq0 e)) = Inr (t', n', c')"
    by (auto simp: rbind_Inr_iff)
  show ?case
  proof (cases "es = []")
    case True
    with rest Cons.prems show ?thesis by auto
  next
    case False
    with Cons.IH [OF rest] Cons.prems show ?thesis by simp
  qed
qed simp

function copy_loop ::
  "'p mem_store \<Rightarrow> ('t \<Rightarrow> 'p event \<Rightarrow> ('p event \<times> 't) result) \<Rightarrow> 't \<Rightarrow> nat \<Rightarrow> nat
    \<Rightarrow> ('t \<times> nat) result" where
  "copy_loop source app t copied cursor =
     (let batch = mem_read source (int cursor) (Some 500) None in
      if batch = [] then Inr (t, copied)
      else rbind (copy_batch app batch t copied cursor) (\<lambda>(t', copied', cursor').
        copy_loop source app t' copied' cursor'))"
  by pat_completeness auto
termination
proof (relation "measure (\<lambda>(source, app, t, copied, cursor).
    length (filter (\<lambda>e. seq0 e > int cursor) (ms_events source)))", simp)
  fix source :: "'p mem_store" and app :: "'t \<Rightarrow> 'p event \<Rightarrow> ('p event \<times> 't) result"
  fix t t' batch x y copied cursor copied' cursor'
  assume b: "batch = mem_read source (int cursor) (Some 500) None" and ne: "batch \<noteq> []"
    and cb: "copy_batch app batch t copied cursor = Inr x" and x: "(t', y) = x" "(copied', cursor') = y"
  let ?P = "\<lambda>c e. seq0 e > int c"
  have sub: "set batch \<subseteq> set (filter (?P cursor) (ms_events source))"
    by (auto simp: b mem_read_def slice_to_def dest: in_set_takeD)
  then have "\<forall>e \<in> set batch. seq0 e > 0" by auto
  with cb x ne have c': "cursor' = nat (seq0 (last batch))"
    using copy_batch_cursor [of app batch t copied cursor t' copied' cursor'] by auto
  have l: "last batch \<in> set (ms_events source)" "seq0 (last batch) > int cursor"
    using subsetD [OF sub last_in_set [OF ne]] by simp_all
  have "filter (?P cursor') (ms_events source)
      = filter (?P cursor') (filter (?P cursor) (ms_events source))"
    using l c' by (auto intro: filter_cong)
  also have "length \<dots> < length (filter (?P cursor) (ms_events source))"
    by (rule length_filter_less [of "last batch"]) (use l c' in auto)
  finally show "((source, app, t', copied', cursor'), source, app, t, copied, cursor)
    \<in> measure (\<lambda>(source, app, t, copied, cursor). length (filter (?P cursor) (ms_events source)))"
    by simp
qed

declare copy_loop.simps [simp del]

definition copy_events ::
  "'p mem_store \<Rightarrow> ('t \<Rightarrow> 'p event \<Rightarrow> ('p event \<times> 't) result) \<Rightarrow> 't \<Rightarrow> ('t \<times> nat) result" where
  "copy_events source app target = copy_loop source app target 0 0"

text \<open>
  Copying a store into an empty one reproduces it. The loop invariant: after \<open>c\<close> events the target
  holds the source's first \<open>c\<close> events.
\<close>

definition mem_of :: "'p event list \<Rightarrow> 'p mem_store" where
  "mem_of es = \<lparr>ms_events = es, ms_by_id = map (\<lambda>e. (ev_id e, e)) es\<rparr>"

lemma mem_inv_mem_of: "mem_inv s \<Longrightarrow> mem_of (ms_events s) = s"
  by (cases s) (simp add: mem_inv_def mem_of_def)

lemma mem_append_next:
  assumes "mem_inv (mem_of es)" "c < length es"
  shows "mem_append (mem_of (take c es)) (es ! c) = Inr (es ! c, mem_of (take (Suc c) es))"
proof -
  have d: "distinct (map ev_id es)" and n: "numbered es"
    using assms(1) by (simp_all add: mem_inv_def mem_of_def)
  have "ev_id (es ! c) \<notin> ev_id ` set (take c es)"
  proof
    assume "ev_id (es ! c) \<in> ev_id ` set (take c es)"
    then obtain i where i: "i < c" "map ev_id es ! c = map ev_id es ! i"
      using assms(2) by (auto simp: in_set_conv_nth)
    then show False
      using nth_eq_iff_index_eq [OF d, of c i] assms(2) by simp
  qed
  then have fresh: "map_of (ms_by_id (mem_of (take c es))) (ev_id (es ! c)) = None"
    by (auto simp: mem_of_def map_of_eq_None_iff image_image)
  have "ev_sequence (es ! c) = Some (int c + 1)"
    using n assms(2) by (rule numbered_nth)
  then have "with_sequence (es ! c) (int c + 1) = es ! c"
    by (simp add: with_sequence_def)
  with fresh assms(2) show ?thesis
    by (simp add: mem_append_def mem_append_locked_def Let_def update_new)
      (simp add: mem_of_def take_Suc_conv_app_nth)
qed

lemma copy_batch_mem:
  assumes "mem_inv (mem_of es)" "c + k \<le> length es"
  shows "copy_batch mem_append (take k (drop c es)) (mem_of (take c es)) n c
    = Inr (mem_of (take (c + k) es), n + k, c + k)"
  using assms(2)
proof (induction k arbitrary: c n)
  case (Suc k)
  then have c: "c < length es" by simp
  have "seq0 (es ! c) = int c + 1"
    using numbered_nth [OF _ c] assms(1) by (simp add: mem_inv_def mem_of_def seq0_def)
  with Suc mem_append_next [OF assms(1) c] c show ?case
    by (simp add: Cons_nth_drop_Suc [symmetric] nat_add_distrib)
qed simp

lemma take_min_length: "take n xs = take (min n (length xs)) xs"
  by (cases "n \<le> length xs") simp_all

lemma copy_loop_mem:
  assumes "mem_inv s" "c \<le> length (ms_events s)"
  shows "copy_loop s mem_append (mem_of (take c (ms_events s))) n c
    = Inr (s, n + (length (ms_events s) - c))"
  using assms(2)
proof (induction "length (ms_events s) - c" arbitrary: c n rule: less_induct)
  case less
  define es where "es = ms_events s"
  define k where "k = min 500 (length es - c)"
  have inv: "mem_inv (mem_of es)"
    using assms(1) by (simp add: es_def mem_inv_mem_of)
  have batch: "mem_read s (int c) (Some 500) None = take k (drop c es)"
    using numbered_filter_after [of "ms_events s" "int c"] assms(1)
      take_min_length [of 500 "drop c (ms_events s)"]
    by (simp add: mem_read_def slice_to_def mem_inv_def es_def k_def)
  show ?case
  proof (cases "c = length es")
    case True
    then have "mem_read s (int c) (Some 500) None = []" using batch by simp
    with True assms(1) show ?thesis
      by (subst copy_loop.simps) (simp add: es_def mem_inv_mem_of)
  next
    case False
    with less.prems have k: "0 < k" "c + k \<le> length es"
      by (simp_all add: k_def es_def)
    then have ne: "take k (drop c es) \<noteq> []" by auto
    have "copy_loop s mem_append (mem_of (take c es)) n c
        = copy_loop s mem_append (mem_of (take (c + k) es)) (n + k) (c + k)"
      by (subst copy_loop.simps)
        (simp only: batch Let_def ne if_False copy_batch_mem [OF inv k(2)] rbind_simps prod.case)
    also have "\<dots> = Inr (s, n + k + (length es - (c + k)))"
      using less.hyps [of "c + k" "n + k"] k by (simp add: es_def)
    finally show ?thesis using k by (simp add: es_def)
  qed
qed

end
