(* ===== verification/Codec.thy ===== *)
theory Codec
  imports Events
begin

section \<open>Reading and writing JSON payloads\<close>

text \<open>
  What the \<open>to_dict\<close>, \<open>from_dict\<close> and \<open>from_event\<close> methods of the contracts share: canonical JSON
  (\<open>json.dumps\<close> with sorted keys), content-derived identifiers, and the typed access to the keys of a
  payload with the conversions \<open>str\<close>, \<open>int\<close>, \<open>float\<close>, \<open>parse_datetime\<close> and \<open>tuple\<close>.
\<close>

subsection \<open>Canonical JSON\<close>

text \<open>
  \<open>json.dumps(..., sort_keys=True)\<close> followed by \<open>json.loads\<close>: the same value with the keys of every
  object in order.
\<close>

fun sort_keys :: "json \<Rightarrow> json" where
  "sort_keys (JList xs) = JList (map sort_keys xs)"
| "sort_keys (JObj d) = JObj (sort_key fst (map (\<lambda>(k, v). (k, sort_keys v)) d))"
| "sort_keys v = v"

definition dump_obj :: "jobject \<Rightarrow> jobject" where
  "dump_obj d = sort_key fst (map (\<lambda>(k, v). (k, sort_keys v)) d)"

lemma map_of_filter_key: "map_of xs k = map_of (filter (\<lambda>p. fst p = k) xs) k"
  by (induction xs) auto

lemma map_of_sort_key: "map_of (sort_key fst xs) k = map_of xs k"
  using sort_key_stable [of fst k xs] by (metis map_of_filter_key)

lemma map_of_dump_obj: "map_of (dump_obj d) k = map_option sort_keys (map_of d k)"
  unfolding dump_obj_def map_of_sort_key by (induction d) auto

text \<open>Serialising a second time changes nothing.\<close>

lemma sorted_dump_obj: "sorted (map fst (dump_obj d))"
  by (simp add: dump_obj_def)

lemma sort_keys_JObj [simp]: "sort_keys (JObj d) = JObj (dump_obj d)"
  by (simp add: dump_obj_def)

lemma sort_keys_idem [simp]: "sort_keys (sort_keys v) = sort_keys v"
proof (induction v)
  case (JObj d)
  have "dump_obj (dump_obj d) = sort_key fst (dump_obj d)"
    unfolding dump_obj_def [of "dump_obj d"]
  proof (rule arg_cong [where f = "sort_key fst"], rule map_idI)
    fix p assume "p \<in> set (dump_obj d)"
    then obtain k w where "(k, w) \<in> set d" "p = (k, sort_keys w)"
      by (auto simp: dump_obj_def)
    then show "(case p of (k, v) \<Rightarrow> (k, sort_keys v)) = p"
      using JObj.IH by (auto simp: snds.simps)
  qed
  also have "\<dots> = dump_obj d"
    by (rule sort_key_id_if_sorted) (rule sorted_dump_obj)
  finally show ?case by (simp del: sort_keys.simps)
qed (simp_all add: comp_def)

lemma dump_obj_idem [simp]: "dump_obj (dump_obj d) = dump_obj d"
  using sort_keys_idem [of "JObj d"] by (simp del: sort_keys.simps sort_keys_idem)

text \<open>
  \<open>_canonical_id\<close>: the first 32 digits of the SHA-256 of the canonical text. The digest of a payload
  is the function \<open>bi_sha\<close> of the builtins. \<open>allow_nan=False\<close> refuses floats that are not finite.
\<close>

fun json_finite :: "json \<Rightarrow> bool" where
  "json_finite (JFloat x) = fin x"
| "json_finite (JList xs) = list_all json_finite xs"
| "json_finite (JObj d) = list_all (\<lambda>(k, v). json_finite v) d"
| "json_finite v = True"

definition canonical_id :: "builtins \<Rightarrow> string \<Rightarrow> jobject \<Rightarrow> string result" where
  "canonical_id b prefix payload =
     (if json_finite (JObj payload) then Inr (prefix @ '':'' @ take 32 (bi_sha b (dump_obj payload)))
      else Inl (ValueError ''Out of range float values are not JSON compliant''))"

lemma canonical_id_finite: "canonical_id b prefix payload = Inr i \<Longrightarrow> json_finite (JObj payload)"
  by (simp add: canonical_id_def split: if_splits)

subsection \<open>Access to the keys of a payload\<close>

definition py_float :: "builtins \<Rightarrow> json \<Rightarrow> pyfloat result" where
  "py_float b v = (case v of JFloat x \<Rightarrow> Inr x | JInt n \<Rightarrow> Inr (Fin (of_int n)) | _ \<Rightarrow> bi_float b v)"

definition py_iter :: "builtins \<Rightarrow> json \<Rightarrow> json list result" where
  "py_iter b v = (case v of JList xs \<Rightarrow> Inr xs | _ \<Rightarrow> bi_iter b v)"

definition j_str :: "builtins \<Rightarrow> jobject \<Rightarrow> string \<Rightarrow> string result" where
  "j_str b d k = rbind (jitem d k) (\<lambda>v. Inr (py_str b v))"

definition j_int :: "builtins \<Rightarrow> jobject \<Rightarrow> string \<Rightarrow> int result" where
  "j_int b d k = rbind (jitem d k) (py_int b)"

definition j_float :: "builtins \<Rightarrow> jobject \<Rightarrow> string \<Rightarrow> pyfloat result" where
  "j_float b d k = rbind (jitem d k) (py_float b)"

definition j_time_opt :: "builtins \<Rightarrow> jobject \<Rightarrow> string \<Rightarrow> datetime option result" where
  "j_time_opt b d k = parse_datetime b (jget d k)"

definition j_time :: "builtins \<Rightarrow> jobject \<Rightarrow> string \<Rightarrow> datetime result" where
  "j_time b d k = rbind (j_time_opt b d k) (\<lambda>t. case t of
     None \<Rightarrow> Inl (ValueError (k @ '' is required'')) | Some t \<Rightarrow> Inr t)"

definition j_strs :: "builtins \<Rightarrow> jobject \<Rightarrow> string \<Rightarrow> string list result" where
  "j_strs b d k = rbind (py_iter b (jget_or d k (JList []))) (\<lambda>vs. Inr (map (py_str b) vs))"

definition j_list :: "builtins \<Rightarrow> (json \<Rightarrow> 'a result) \<Rightarrow> jobject \<Rightarrow> string \<Rightarrow> 'a list result" where
  "j_list b f d k = rbind (py_iter b (jget_or d k (JList []))) (mapM f)"

text \<open>\<open>bool(data.get(key, default))\<close>\<close>

definition j_bool_or :: "jobject \<Rightarrow> string \<Rightarrow> bool \<Rightarrow> bool" where
  "j_bool_or d k dflt = (case map_of d k of None \<Rightarrow> dflt | Some v \<Rightarrow> \<not> falsy v)"

text \<open>An element that must be a mapping; subscripting anything else raises.\<close>

definition as_obj :: "json \<Rightarrow> jobject result" where
  "as_obj v = (case v of JObj d \<Rightarrow> Inr d | _ \<Rightarrow> Inl (TypeError ''object is not subscriptable''))"

definition JStrs :: "string list \<Rightarrow> json" where
  "JStrs xs = JList (map JStr xs)"

subsection \<open>Reading what was written\<close>

named_theorems codec "reading a key of a written payload"

lemma j_skip [codec]:
  "k' \<noteq> k \<Longrightarrow> j_str b ((k', v) # d) k = j_str b d k"
  "k' \<noteq> k \<Longrightarrow> j_int b ((k', v) # d) k = j_int b d k"
  "k' \<noteq> k \<Longrightarrow> j_float b ((k', v) # d) k = j_float b d k"
  "k' \<noteq> k \<Longrightarrow> j_time b ((k', v) # d) k = j_time b d k"
  "k' \<noteq> k \<Longrightarrow> j_time_opt b ((k', v) # d) k = j_time_opt b d k"
  "k' \<noteq> k \<Longrightarrow> j_strs b ((k', v) # d) k = j_strs b d k"
  "k' \<noteq> k \<Longrightarrow> j_list b f ((k', v) # d) k = j_list b f d k"
  "k' \<noteq> k \<Longrightarrow> opt_str b ((k', v) # d) k = opt_str b d k"
  "k' \<noteq> k \<Longrightarrow> j_bool_or ((k', v) # d) k dflt = j_bool_or d k dflt"
  "k' \<noteq> k \<Longrightarrow> jget ((k', v) # d) k = jget d k"
  "k' \<noteq> k \<Longrightarrow> jitem ((k', v) # d) k = jitem d k"
  by (simp_all add: j_str_def j_int_def j_float_def j_time_def j_time_opt_def j_strs_def j_list_def
      jitem_def jget_def jget_or_def opt_str_def j_bool_or_def)

lemma j_hit [codec]:
  "j_str b ((k, JStr s) # d) k = Inr s"
  "j_int b ((k, JInt n) # d) k = Inr n"
  "j_float b ((k, JFloat x) # d) k = Inr x"
  "is_aware t \<Longrightarrow> j_time b ((k, JTime t) # d) k = Inr t"
  "(\<And>t. ot = Some t \<Longrightarrow> is_aware t) \<Longrightarrow> j_time_opt b ((k, json_opt JTime ot) # d) k = Inr ot"
  "j_strs b ((k, JStrs xs) # d) k = Inr xs"
  "j_list b f ((k, JList vs) # d) k = mapM f vs"
  "opt_str b ((k, json_opt JStr os) # d) k = os"
  "jget ((k, v) # d) k = v"
  "jitem ((k, v) # d) k = Inr v"
  by (auto simp: j_str_def j_int_def j_float_def j_time_def j_time_opt_def j_strs_def j_list_def
      jitem_def jget_def jget_or_def opt_str_def py_str_def py_int_def py_float_def py_iter_def
      as_utc_aware JStrs_def json_opt_def comp_def split: option.splits)

lemma j_bool_hit [codec]: "j_bool_or ((k, JBool x) # d) k dflt = x"
  by (simp add: j_bool_or_def falsy_def)

lemma j_strs_absent [codec]: "j_strs b [] k = Inr []"
  by (simp add: j_strs_def jget_or_def py_iter_def)

lemma as_obj_JObj [codec]: "as_obj (JObj d) = Inr d"
  by (simp add: as_obj_def)

text \<open>A field that is written only when its list is not empty reads back the same.\<close>

lemma j_strs_optional [codec]:
  "j_strs b (if xs = [] then [] else [(k, JStrs xs)]) k = Inr xs"
  by (simp add: codec)

lemma mapM_map: "mapM f (map g xs) = mapM (f \<circ> g) xs"
  by (induction xs) simp_all

lemma mapM_read_written:
  "(\<And>x. x \<in> set xs \<Longrightarrow> f (g x) = Inr x) \<Longrightarrow> mapM f (map g xs) = Inr xs"
  by (induction xs) simp_all

subsection \<open>Equality of payloads and events\<close>

text \<open>
  Python compares dictionaries without regard to the order of keys and numbers by value, whatever
  their type: \<open>1 == 1.0 == True\<close>.
\<close>

fun norm_json :: "json \<Rightarrow> json" where
  "norm_json (JBool x) = JFloat (if x then 1 else 0)"
| "norm_json (JInt n) = JFloat (Fin (of_int n))"
| "norm_json (JList xs) = JList (map norm_json xs)"
| "norm_json (JObj d) = JObj (sort_key fst (map (\<lambda>(k, v). (k, norm_json v)) d))"
| "norm_json v = v"

definition json_eq :: "json \<Rightarrow> json \<Rightarrow> bool" where
  "json_eq v w \<longleftrightarrow> norm_json v = norm_json w"

definition same_event :: "jobject event \<Rightarrow> jobject event \<Rightarrow> bool" where
  "same_event e e' \<longleftrightarrow> json_eq (JObj (ev_payload e)) (JObj (ev_payload e')) \<and>
     json_eq (JObj (ev_metadata e)) (JObj (ev_metadata e')) \<and>
     e\<lparr>ev_payload := [], ev_metadata := []\<rparr> = e'\<lparr>ev_payload := [], ev_metadata := []\<rparr>"

lemma json_eq_refl [simp]: "json_eq v v"
  by (simp add: json_eq_def)

lemma json_eq_simps [simp]: "json_eq (JStr s) (JStr t) = (s = t)" "json_eq (JInt m) (JInt n) = (m = n)"
  by (simp_all add: json_eq_def)

lemma same_event_refl [simp]: "same_event e e"
  by (simp add: same_event_def)

subsection \<open>Checks the constructors share\<close>

text \<open>\<open>_require_text\<close>, \<open>_require_aware\<close>, \<open>_bounded\<close> and \<open>_unique_text\<close> as entries of \<open>raise_first\<close>.\<close>

definition require_text :: "string \<Rightarrow> string \<Rightarrow> (bool \<times> py_error) list" where
  "require_text value name = [(blank value, ValueError (name @ '' must be non-empty''))]"

definition require_aware :: "datetime \<Rightarrow> string \<Rightarrow> (bool \<times> py_error) list" where
  "require_aware value name = [(is_naive value, ValueError (name @ '' must be timezone-aware''))]"

definition bounded :: "pyfloat \<Rightarrow> string \<Rightarrow> (bool \<times> py_error) list" where
  "bounded value name = [(\<not> unit_interval value, ValueError (name @ '' must be between zero and one''))]"

definition unique_text :: "string list \<Rightarrow> string \<Rightarrow> bool \<Rightarrow> (bool \<times> py_error) list" where
  "unique_text values name required =
     [(required \<and> values = [], ValueError (name @ '' must not be empty'')),
      (list_ex blank values, ValueError (name @ '' values must be non-empty'')),
      (\<not> distinct values, ValueError (name @ '' values must be unique''))]"

lemmas check_defs = require_text_def require_aware_def bounded_def unique_text_def

definition no_errors :: "(bool \<times> py_error) list \<Rightarrow> bool" where
  "no_errors cs = list_all (\<lambda>c. \<not> fst c) cs"

lemma raise_first_no_errors: "raise_first cs = Inr u \<longleftrightarrow> no_errors cs"
  by (simp add: no_errors_def)

lemma no_errors_simps [simp]:
  "no_errors []" "no_errors (c # cs) \<longleftrightarrow> \<not> fst c \<and> no_errors cs"
  "no_errors (cs @ ds) \<longleftrightarrow> no_errors cs \<and> no_errors ds"
  "no_errors (require_text v n) \<longleftrightarrow> \<not> blank v"
  "no_errors (require_aware t n) \<longleftrightarrow> is_aware t"
  "no_errors (bounded x n) \<longleftrightarrow> unit_interval x"
  "no_errors (unique_text xs n r) \<longleftrightarrow> (r \<longrightarrow> xs \<noteq> []) \<and> \<not> list_ex blank xs \<and> distinct xs"
  by (auto simp: no_errors_def check_defs)

text \<open>The identifiers that governance accepts: \<open>[a-z][a-z0-9_]{1,23}_[0-9a-f]{32}\<close>.\<close>

definition is_lower :: "char \<Rightarrow> bool" where
  "is_lower c = (CHR ''a'' \<le> c \<and> c \<le> CHR ''z'')"

definition is_digit :: "char \<Rightarrow> bool" where
  "is_digit c = (CHR ''0'' \<le> c \<and> c \<le> CHR ''9'')"

definition is_hex :: "char \<Rightarrow> bool" where
  "is_hex c = (is_digit c \<or> (CHR ''a'' \<le> c \<and> c \<le> CHR ''f''))"

definition opaque_id :: "string \<Rightarrow> bool" where
  "opaque_id s =
     (let n = length s - 33 in
      35 \<le> length s \<and> n \<le> 24 \<and> is_lower (hd s) \<and>
      list_all (\<lambda>c. is_lower c \<or> is_digit c \<or> c = CHR ''_'') (tl (take n s)) \<and>
      s ! n = CHR ''_'' \<and> list_all is_hex (drop (n + 1) s))"

definition require_opaque :: "string \<Rightarrow> string \<Rightarrow> (bool \<times> py_error) list" where
  "require_opaque value name =
     [(\<not> opaque_id value, ValueError (name @ '' must be an opaque governance identifier''))]"

text \<open>An event built by \<open>_event\<close>.\<close>

definition make_event ::
  "string \<Rightarrow> string \<Rightarrow> string \<Rightarrow> string \<Rightarrow> datetime \<Rightarrow> 'p \<Rightarrow> string option \<Rightarrow> 'p event result" where
  "make_event event_id event_type source subject timestamp payload causation_id =
     (let e = \<lparr>ev_type = event_type, ev_source = source, ev_payload = payload,
               ev_subject = Some subject, ev_id = event_id, ev_timestamp = timestamp,
               ev_correlation_id = None, ev_causation_id = causation_id, ev_priority = 0,
               ev_sequence = None, ev_metadata = [],
               ev_schema_version = CURRENT_EVENT_SCHEMA_VERSION\<rparr>
      in rbind (check_event e) (\<lambda>_. Inr e))"

lemma make_event_fields:
  assumes "make_event i ty src subj t p c = Inr e"
  shows "ev_id e = i" "ev_type e = ty" "ev_subject e = Some subj" "ev_timestamp e = t"
    "ev_payload e = p" "ev_causation_id e = c" "ev_sequence e = None" "is_aware t"
  using assms by (auto simp: make_event_def Let_def rbind_Inr_iff check_event_def)

end
