(* ===== verification/SqliteStore.thy ===== *)
theory SqliteStore
  imports Contracts MemoryStore Codec
begin

section \<open>The SQLite event store with its outbox and inbox\<close>

text \<open>
  Models \<open>SQLiteEventStore\<close> of \<^verbatim>\<open>src/noema/store.py\<close>: the tables \<open>events\<close>, \<open>outbox\<close> and \<open>inbox\<close> and every
  statement run against them. A method body is one transaction under the connection's lock, so it is
  one atomic step; a raised exception rolls back, so a failing method leaves the tables unchanged.
  The statements' effects are written out: \<open>update_where\<close> is \<open>UPDATE ... WHERE\<close>, \<open>count_where\<close> its
  row count. The clock is an argument. Stored timestamps are UTC ISO strings of one format, whose
  text order, which SQLite compares, is the order of the instants.
\<close>

subsection \<open>Serialisation\<close>

definition dump_event :: "jobject event \<Rightarrow> jobject event" where
  "dump_event e = e\<lparr>ev_payload := dump_obj (ev_payload e), ev_metadata := dump_obj (ev_metadata e)\<rparr>"

subsection \<open>Tables\<close>

record event_row =
  er_sequence :: int
  er_event_id :: string
  er_event_type :: string
  er_source :: string
  er_subject :: "string option"
  er_timestamp :: datetime
  er_correlation_id :: "string option"
  er_causation_id :: "string option"
  er_priority :: int
  er_payload_json :: jobject
  er_metadata_json :: jobject
  er_schema_version :: int

record outbox_row =
  ob_id :: int
  ob_event_id :: string
  ob_topic :: string
  ob_event_json :: jobject
  ob_attempts :: int
  ob_available_at :: datetime
  ob_lease_owner :: "string option"
  ob_lease_until :: "datetime option"
  ob_fencing_token :: int
  ob_last_error :: "string option"
  ob_created_at :: datetime
  ob_published_at :: "datetime option"

datatype inbox_status = Pending | Processing | Completed

record inbox_row =
  ib_status :: inbox_status
  ib_attempts :: int
  ib_available_at :: datetime
  ib_lease_until :: "datetime option"
  ib_fencing_token :: int
  ib_last_error :: "string option"
  ib_received_at :: datetime
  ib_completed_at :: "datetime option"

record sql_db =
  db_events :: "event_row list"
  db_outbox :: "outbox_row list"
  db_inbox :: "((string \<times> string) \<times> inbox_row) list"

definition sql_initialize :: sql_db where
  "sql_initialize = \<lparr>db_events = [], db_outbox = [], db_inbox = []\<rparr>"

definition update_where :: "('r \<Rightarrow> bool) \<Rightarrow> ('r \<Rightarrow> 'r) \<Rightarrow> 'r list \<Rightarrow> 'r list" where
  "update_where p f rows = map (\<lambda>r. if p r then f r else r) rows"

definition count_where :: "('r \<Rightarrow> bool) \<Rightarrow> 'r list \<Rightarrow> nat" where
  "count_where p rows = length (filter p rows)"

text \<open>\<open>LIMIT n\<close>: a negative limit is no limit.\<close>

definition sql_limit :: "int \<Rightarrow> 'r list \<Rightarrow> 'r list" where
  "sql_limit n rows = (if n < 0 then rows else take (nat n) rows)"

subsection \<open>The event table\<close>

definition row_to_event :: "builtins \<Rightarrow> string \<Rightarrow> datetime \<Rightarrow> event_row \<Rightarrow> jobject event result" where
  "row_to_event b fresh now r = event_from_dict b fresh now
     [(''id'', JStr (er_event_id r)),
      (''type'', JStr (er_event_type r)),
      (''source'', JStr (er_source r)),
      (''subject'', json_opt JStr (er_subject r)),
      (''timestamp'', JTime (er_timestamp r)),
      (''correlation_id'', json_opt JStr (er_correlation_id r)),
      (''causation_id'', json_opt JStr (er_causation_id r)),
      (''priority'', JInt (er_priority r)),
      (''sequence'', JInt (er_sequence r)),
      (''payload'', JObj (er_payload_json r)),
      (''metadata'', JObj (er_metadata_json r)),
      (''schema_version'', JInt (er_schema_version r))]"

text \<open>The row that \<open>INSERT INTO events\<close> writes, with the key \<open>AUTOINCREMENT\<close> assigns.\<close>

definition event_to_row :: "jobject event \<Rightarrow> int \<Rightarrow> event_row" where
  "event_to_row e rowid =
     \<lparr>er_sequence = rowid, er_event_id = ev_id e, er_event_type = ev_type e,
      er_source = ev_source e, er_subject = ev_subject e, er_timestamp = ev_timestamp e,
      er_correlation_id = ev_correlation_id e, er_causation_id = ev_causation_id e,
      er_priority = ev_priority e, er_payload_json = dump_obj (ev_payload e),
      er_metadata_json = dump_obj (ev_metadata e), er_schema_version = ev_schema_version e\<rparr>"

definition sql_latest_sequence :: "sql_db \<Rightarrow> int" where
  "sql_latest_sequence db = foldl max 0 (map er_sequence (db_events db))"

definition outbox_next_id :: "sql_db \<Rightarrow> int" where
  "outbox_next_id db = foldl max 0 (map ob_id (db_outbox db)) + 1"

definition new_outbox_row :: "sql_db \<Rightarrow> jobject event \<Rightarrow> string \<Rightarrow> datetime \<Rightarrow> outbox_row" where
  "new_outbox_row db stored topic now =
     \<lparr>ob_id = outbox_next_id db, ob_event_id = ev_id stored, ob_topic = topic,
      ob_event_json = dump_obj (event_to_dict stored), ob_attempts = 0, ob_available_at = now,
      ob_lease_owner = None, ob_lease_until = None, ob_fencing_token = 0, ob_last_error = None,
      ob_created_at = now, ob_published_at = None\<rparr>"

text \<open>\<open>INSERT INTO outbox ... ON CONFLICT(event_id) DO NOTHING\<close>\<close>

definition insert_outbox :: "sql_db \<Rightarrow> jobject event \<Rightarrow> string option \<Rightarrow> datetime \<Rightarrow> sql_db" where
  "insert_outbox db stored topic now =
     (case topic of
        None \<Rightarrow> db
      | Some t \<Rightarrow>
          if \<exists>r \<in> set (db_outbox db). ob_event_id r = ev_id stored then db
          else db\<lparr>db_outbox := db_outbox db @ [new_outbox_row db stored t now]\<rparr>)"

definition append_sync ::
  "builtins \<Rightarrow> string \<Rightarrow> datetime \<Rightarrow> sql_db \<Rightarrow> jobject event \<Rightarrow> string option \<Rightarrow> int option
    \<Rightarrow> (jobject event \<times> sql_db) result" where
  "append_sync b fresh now db e outbox_topic expected_head =
     rbind
       (case filter (\<lambda>r. er_event_id r = ev_id e) (db_events db) of
          existing # _ \<Rightarrow> rbind (row_to_event b fresh now existing) (\<lambda>stored. Inr (stored, db))
        | [] \<Rightarrow>
            (let actual = sql_latest_sequence db in
             if expected_head \<noteq> None \<and> actual \<noteq> the expected_head
             then Inl (ConcurrentAppendError (the expected_head) actual)
             else
               (let rowid = actual + 1
                in Inr (with_sequence e rowid,
                        db\<lparr>db_events := db_events db @ [event_to_row e rowid]\<rparr>))))
       (\<lambda>(stored, db'). Inr (stored, insert_outbox db' stored outbox_topic now))"

definition sql_append ::
  "builtins \<Rightarrow> string \<Rightarrow> datetime \<Rightarrow> sql_db \<Rightarrow> jobject event \<Rightarrow> (jobject event \<times> sql_db) result" where
  "sql_append b fresh now db e = append_sync b fresh now db e None None"

definition sql_append_if_head ::
  "builtins \<Rightarrow> string \<Rightarrow> datetime \<Rightarrow> sql_db \<Rightarrow> jobject event \<Rightarrow> int
    \<Rightarrow> (jobject event \<times> sql_db) result" where
  "sql_append_if_head b fresh now db e expected =
     (if expected < 0 then Inl (ValueError ''expected event head sequence cannot be negative'')
      else append_sync b fresh now db e None (Some expected))"

definition append_with_outbox ::
  "builtins \<Rightarrow> string \<Rightarrow> datetime \<Rightarrow> sql_db \<Rightarrow> jobject event \<Rightarrow> string
    \<Rightarrow> (jobject event \<times> sql_db) result" where
  "append_with_outbox b fresh now db e topic =
     (if topic = [] then Inl (ValueError ''outbox topic must be non-empty'')
      else append_sync b fresh now db e (Some topic) None)"

definition append_with_outbox_if_head ::
  "builtins \<Rightarrow> string \<Rightarrow> datetime \<Rightarrow> sql_db \<Rightarrow> jobject event \<Rightarrow> string \<Rightarrow> int
    \<Rightarrow> (jobject event \<times> sql_db) result" where
  "append_with_outbox_if_head b fresh now db e topic expected =
     (if topic = [] then Inl (ValueError ''outbox topic must be non-empty'')
      else if expected < 0
      then Inl (ValueError ''expected event head sequence cannot be negative'')
      else append_sync b fresh now db e (Some topic) (Some expected))"

text \<open>
  \<open>_read_sync\<close> adds the type filter only for a non-empty tuple of types (\<open>if types:\<close>), and a negative
  limit is no limit.
\<close>

definition read_sync ::
  "builtins \<Rightarrow> string \<Rightarrow> datetime \<Rightarrow> sql_db \<Rightarrow> int \<Rightarrow> int option \<Rightarrow> string list option
    \<Rightarrow> jobject event list result" where
  "read_sync b fresh now db after limit types =
     (let rows = sort_key er_sequence (filter (\<lambda>r. er_sequence r > after \<and>
            (case types of None \<Rightarrow> True | Some ts \<Rightarrow> ts = [] \<or> er_event_type r \<in> set ts))
            (db_events db));
          chosen = (case limit of None \<Rightarrow> rows | Some n \<Rightarrow> sql_limit n rows)
      in mapM (row_to_event b fresh now) chosen)"

subsection \<open>The outbox\<close>

record outbox_record =
  or_id :: int
  or_event :: "jobject event"
  or_topic :: string
  or_attempts :: int
  or_fencing_token :: int

definition outbox_ready :: "datetime \<Rightarrow> outbox_row \<Rightarrow> bool" where
  "outbox_ready now r \<longleftrightarrow> ob_published_at r = None \<and> dt_le (ob_available_at r) now \<and>
     (case ob_lease_until r of None \<Rightarrow> True | Some t \<Rightarrow> dt_le t now)"

text \<open>The statement executed for each selected row, with the values read before.\<close>

definition lease_outbox_row :: "string \<Rightarrow> datetime \<Rightarrow> outbox_row list \<Rightarrow> outbox_row \<Rightarrow> outbox_row list" where
  "lease_outbox_row worker lease_until rows row =
     update_where (\<lambda>r. ob_id r = ob_id row \<and> ob_published_at r = None)
       (\<lambda>r. r\<lparr>ob_lease_owner := Some worker, ob_lease_until := Some lease_until,
              ob_fencing_token := ob_fencing_token row + 1, ob_attempts := ob_attempts row + 1\<rparr>)
       rows"

definition outbox_record_of :: "builtins \<Rightarrow> string \<Rightarrow> datetime \<Rightarrow> outbox_row \<Rightarrow> outbox_record result" where
  "outbox_record_of b fresh now row =
     rbind (event_from_dict b fresh now (ob_event_json row)) (\<lambda>e.
     Inr \<lparr>or_id = ob_id row, or_event = e, or_topic = ob_topic row,
          or_attempts = ob_attempts row + 1, or_fencing_token = ob_fencing_token row + 1\<rparr>)"

definition claim_outbox ::
  "builtins \<Rightarrow> string \<Rightarrow> datetime \<Rightarrow> sql_db \<Rightarrow> string \<Rightarrow> int \<Rightarrow> int
    \<Rightarrow> (outbox_record list \<times> sql_db) result" where
  "claim_outbox b fresh now db worker limit lease =
     (let rows = sql_limit limit (sort_key ob_id (filter (outbox_ready now) (db_outbox db)))
      in rbind (mapM (outbox_record_of b fresh now) rows) (\<lambda>records.
         Inr (records,
              db\<lparr>db_outbox := foldl (lease_outbox_row worker (dt_plus now lease)) (db_outbox db) rows\<rparr>)))"

definition outbox_held :: "int \<Rightarrow> int \<Rightarrow> outbox_row \<Rightarrow> bool" where
  "outbox_held record_id fencing_token r \<longleftrightarrow>
     ob_id r = record_id \<and> ob_fencing_token r = fencing_token \<and> ob_published_at r = None"

definition complete_outbox :: "datetime \<Rightarrow> sql_db \<Rightarrow> int \<Rightarrow> int \<Rightarrow> bool \<times> sql_db" where
  "complete_outbox now db record_id fencing_token =
     (count_where (outbox_held record_id fencing_token) (db_outbox db) = 1,
      db\<lparr>db_outbox := update_where (outbox_held record_id fencing_token)
           (\<lambda>r. r\<lparr>ob_published_at := Some now, ob_lease_owner := None, ob_lease_until := None\<rparr>)
           (db_outbox db)\<rparr>)"

definition retry_outbox ::
  "sql_db \<Rightarrow> int \<Rightarrow> int \<Rightarrow> string \<Rightarrow> datetime \<Rightarrow> bool \<times> sql_db" where
  "retry_outbox db record_id fencing_token error available_at =
     (count_where (outbox_held record_id fencing_token) (db_outbox db) = 1,
      db\<lparr>db_outbox := update_where (outbox_held record_id fencing_token)
           (\<lambda>r. r\<lparr>ob_available_at := available_at, ob_last_error := Some error,
                  ob_lease_owner := None, ob_lease_until := None\<rparr>)
           (db_outbox db)\<rparr>)"

definition pending_outbox_count :: "sql_db \<Rightarrow> nat" where
  "pending_outbox_count db = count_where (\<lambda>r. ob_published_at r = None) (db_outbox db)"

subsection \<open>The inbox\<close>

datatype inbox_claim = Acquired int | Claim_Completed | Claim_Busy

definition claim_inbox ::
  "datetime \<Rightarrow> sql_db \<Rightarrow> string \<Rightarrow> string \<Rightarrow> int \<Rightarrow> inbox_claim \<times> sql_db" where
  "claim_inbox now db message_id consumer_id lease =
     (let key = (message_id, consumer_id); lease_until = dt_plus now lease in
      case map_of (db_inbox db) key of
        Some row \<Rightarrow>
          if ib_status row = Completed then (Claim_Completed, db)
          else if dt_before now (ib_available_at row) \<or>
                  (case ib_lease_until row of None \<Rightarrow> False | Some t \<Rightarrow> dt_before now t)
          then (Claim_Busy, db)
          else
            (let fencing_token = ib_fencing_token row + 1
             in (Acquired fencing_token,
                 db\<lparr>db_inbox := AList.update key
                      (row\<lparr>ib_status := Processing, ib_attempts := ib_attempts row + 1,
                           ib_lease_until := Some lease_until,
                           ib_fencing_token := fencing_token\<rparr>) (db_inbox db)\<rparr>))
      | None \<Rightarrow>
          (Acquired 1,
           db\<lparr>db_inbox := AList.update key
                \<lparr>ib_status = Processing, ib_attempts = 1, ib_available_at = now,
                 ib_lease_until = Some lease_until, ib_fencing_token = 1, ib_last_error = None,
                 ib_received_at = now, ib_completed_at = None\<rparr> (db_inbox db)\<rparr>))"

definition inbox_held :: "sql_db \<Rightarrow> string \<times> string \<Rightarrow> int \<Rightarrow> inbox_row option" where
  "inbox_held db key fencing_token =
     (case map_of (db_inbox db) key of
        None \<Rightarrow> None
      | Some row \<Rightarrow> if ib_fencing_token row = fencing_token \<and> ib_status row = Processing
                    then Some row else None)"

definition complete_inbox ::
  "datetime \<Rightarrow> sql_db \<Rightarrow> string \<Rightarrow> string \<Rightarrow> int \<Rightarrow> bool \<times> sql_db" where
  "complete_inbox now db message_id consumer_id fencing_token =
     (case inbox_held db (message_id, consumer_id) fencing_token of
        None \<Rightarrow> (False, db)
      | Some row \<Rightarrow>
          (True, db\<lparr>db_inbox := AList.update (message_id, consumer_id)
             (row\<lparr>ib_status := Completed, ib_completed_at := Some now, ib_lease_until := None\<rparr>)
             (db_inbox db)\<rparr>))"

definition retry_inbox ::
  "sql_db \<Rightarrow> string \<Rightarrow> string \<Rightarrow> int \<Rightarrow> string \<Rightarrow> datetime \<Rightarrow> bool \<times> sql_db" where
  "retry_inbox db message_id consumer_id fencing_token error available_at =
     (case inbox_held db (message_id, consumer_id) fencing_token of
        None \<Rightarrow> (False, db)
      | Some row \<Rightarrow>
          (True, db\<lparr>db_inbox := AList.update (message_id, consumer_id)
             (row\<lparr>ib_status := Pending, ib_available_at := available_at,
                  ib_last_error := Some error, ib_lease_until := None\<rparr>) (db_inbox db)\<rparr>))"

subsection \<open>Invariant of the event table and the store's contract\<close>

definition event_of_row :: "event_row \<Rightarrow> jobject event" where
  "event_of_row r =
     \<lparr>ev_type = er_event_type r, ev_source = er_source r, ev_payload = er_payload_json r,
      ev_subject = er_subject r, ev_id = er_event_id r, ev_timestamp = er_timestamp r,
      ev_correlation_id = er_correlation_id r, ev_causation_id = er_causation_id r,
      ev_priority = er_priority r, ev_sequence = Some (er_sequence r),
      ev_metadata = er_metadata_json r, ev_schema_version = er_schema_version r\<rparr>"

definition storable :: "jobject event \<Rightarrow> bool" where
  "storable e \<longleftrightarrow> event_ok e \<and> ev_id e \<noteq> []"

definition sql_log :: "sql_db \<Rightarrow> jobject event list" where
  "sql_log db = map event_of_row (db_events db)"

definition sql_dumped :: "sql_db \<Rightarrow> bool" where
  "sql_dumped db = list_all (\<lambda>x. dump_event x = x) (sql_log db)"

definition sql_inv :: "sql_db \<Rightarrow> bool" where
  "sql_inv db \<longleftrightarrow> distinct (map er_event_id (db_events db)) \<and> numbered (sql_log db) \<and>
     list_all storable (sql_log db) \<and> sql_dumped db"

lemma row_to_event_ok:
  assumes "storable (event_of_row r)"
  shows "row_to_event b fresh now r = Inr (event_of_row r)"
proof -
  have "row_to_event b fresh now r = event_from_dict b fresh now (event_to_dict (event_of_row r))"
    by (simp add: row_to_event_def event_to_dict_def event_of_row_def)
  then show ?thesis
    using assms by (simp add: storable_def event_from_to_dict)
qed

lemma sort_keys_json_opt: "sort_keys (json_opt JStr v) = json_opt JStr v"
  "sort_keys (json_opt JInt i) = json_opt JInt i"
  by (cases v; simp) (cases i; simp)

lemma event_from_dict_map_of:
  "map_of d = map_of d' \<Longrightarrow> event_from_dict b fresh now d = event_from_dict b fresh now d'"
  by (simp only: event_from_dict_def jget_def jget_or_def jitem_def opt_str_def opt_int_def)

lemma dump_event_to_dict:
  "map (\<lambda>(k, v). (k, sort_keys v)) (event_to_dict e) = event_to_dict (dump_event e)"
  by (simp add: event_to_dict_def dump_event_def sort_keys_json_opt del: sort_keys.simps(2))

text \<open>What the outbox stores of an event is the event.\<close>

lemma event_from_dumped:
  assumes "storable e"
  shows "event_from_dict b fresh now (dump_obj (event_to_dict e)) = Inr (dump_event e)"
proof -
  have "storable (dump_event e)"
    using assms by (simp add: dump_event_def storable_def event_ok_iff)
  then have "event_from_dict b fresh now (event_to_dict (dump_event e)) = Inr (dump_event e)"
    by (simp add: storable_def event_from_to_dict)
  moreover have "map_of (dump_obj (event_to_dict e)) = map_of (event_to_dict (dump_event e))"
    by (rule ext) (simp only: dump_obj_def map_of_sort_key dump_event_to_dict)
  ultimately show ?thesis using event_from_dict_map_of by metis
qed

lemma event_of_event_to_row: "event_of_row (event_to_row e n) = dump_event (with_sequence e n)"
  by (simp add: event_of_row_def event_to_row_def dump_event_def with_sequence_def)

lemma dump_event_simps [simp]:
  "ev_id (dump_event e) = ev_id e" "ev_sequence (dump_event e) = ev_sequence e"
  "ev_type (dump_event e) = ev_type e" "storable (dump_event e) = storable e"
  "dump_event (dump_event e) = dump_event e"
  by (simp_all add: dump_event_def storable_def event_ok_iff)

lemma storable_with_sequence [simp]: "storable (with_sequence e n) = storable e"
  by (simp add: storable_def)

lemma ev_id_event_of_row [simp]: "ev_id (event_of_row r) = er_event_id r"
  "ev_sequence (event_of_row r) = Some (er_sequence r)"
  by (simp_all add: event_of_row_def)

lemma sql_log_append [simp]:
  "sql_log (db\<lparr>db_events := db_events db @ [event_to_row e n]\<rparr>)
    = sql_log db @ [dump_event (with_sequence e n)]"
  "sql_log (db\<lparr>db_outbox := x\<rparr>) = sql_log db" "sql_log (db\<lparr>db_inbox := y\<rparr>) = sql_log db"
  by (simp_all add: sql_log_def event_of_event_to_row)

lemma foldl_max_upt: "foldl max 0 (map int [Suc 0..<Suc n]) = int n"
  by (induction n) (simp_all add: max_def)

lemma sql_latest_sequence_inv:
  assumes "sql_inv db"
  shows "sql_latest_sequence db = int (length (sql_log db))"
proof -
  have "map Some (map er_sequence (db_events db)) = map Some (map int [1..<Suc (length (db_events db))])"
    using assms by (simp add: sql_inv_def numbered_def sql_log_def comp_def del: upt_Suc)
  then have "map er_sequence (db_events db) = map int [1..<Suc (length (db_events db))]"
    by (metis inj_Some inj_map_eq_map)
  then show ?thesis
    by (simp add: sql_latest_sequence_def foldl_max_upt sql_log_def del: upt_Suc)
qed

lemma sql_append_found:
  assumes "sql_inv db" "x \<in> set (sql_log db)" "ev_id x = ev_id e"
  obtains r where "filter (\<lambda>q. er_event_id q = ev_id e) (db_events db) = [r]"
    "event_of_row r = x" "storable x"
proof -
  from assms(2) obtain r where r: "r \<in> set (db_events db)" "event_of_row r = x"
    by (auto simp: sql_log_def)
  moreover have "distinct (map er_event_id (db_events db))"
    using assms(1) by (simp add: sql_inv_def)
  ultimately show ?thesis
    using that assms filter_key_unique [of er_event_id "db_events db" r]
    by (auto simp: sql_inv_def list_all_iff)
qed

lemma sql_append_not_found:
  "ev_id e \<notin> ev_id ` set (sql_log db) \<Longrightarrow> filter (\<lambda>q. er_event_id q = ev_id e) (db_events db) = []"
  by (simp add: sql_log_def filter_empty_conv image_image) (metis image_eqI)

lemma sql_inv_initialize: "sql_inv sql_initialize"
  by (simp add: sql_inv_def sql_dumped_def sql_initialize_def sql_log_def)

lemma sql_inv_insert:
  assumes "sql_inv db" "storable e" "ev_id e \<notin> ev_id ` set (sql_log db)"
  shows "sql_inv (db\<lparr>db_events := db_events db @ [event_to_row e (sql_latest_sequence db + 1)]\<rparr>)"
  using assms sql_latest_sequence_inv [OF assms(1)]
  by (auto simp: sql_inv_def sql_dumped_def sql_log_def event_of_event_to_row image_image)
     (auto simp: event_to_row_def)

lemma insert_outbox_log [simp]:
  "db_events (insert_outbox db e t now) = db_events db" "sql_log (insert_outbox db e t now) = sql_log db"
  by (auto simp: insert_outbox_def sql_log_def split: option.splits)

interpretation sql: event_store sql_inv sql_log sql_latest_sequence dump_event storable
  "sql_append b fresh now" "sql_append_if_head b fresh now"
proof unfold_locales
  fix db :: sql_db and e x :: "jobject event" and h :: int
  show "sql_inv db \<Longrightarrow> sql_latest_sequence db = int (length (sql_log db))"
    by (rule sql_latest_sequence_inv)
  show "ev_id (dump_event e) = ev_id e" "ev_sequence (dump_event e) = ev_sequence e"
    by simp_all
  show "sql_inv db \<Longrightarrow> x \<in> set (sql_log db) \<Longrightarrow> ev_id x = ev_id e \<Longrightarrow>
      sql_append b fresh now db e = Inr (x, db)"
    by (elim sql_append_found)
      (auto simp: sql_append_def append_sync_def row_to_event_ok insert_outbox_def)
  show "sql_inv db \<Longrightarrow> x \<in> set (sql_log db) \<Longrightarrow> ev_id x = ev_id e \<Longrightarrow> 0 \<le> h \<Longrightarrow>
      sql_append_if_head b fresh now db e h = Inr (x, db)"
    by (elim sql_append_found)
      (auto simp: sql_append_if_head_def append_sync_def row_to_event_ok insert_outbox_def)
  show "sql_inv db \<Longrightarrow> ev_id e \<notin> ev_id ` set (sql_log db) \<Longrightarrow> 0 \<le> h \<Longrightarrow>
      h \<noteq> sql_latest_sequence db \<Longrightarrow> sql_append_if_head b fresh now db e h
        = Inl (ConcurrentAppendError h (sql_latest_sequence db))"
    by (simp add: sql_append_if_head_def append_sync_def sql_append_not_found)
  show "sql_inv db \<Longrightarrow> ev_id e \<notin> ev_id ` set (sql_log db) \<Longrightarrow> 0 \<le> h \<Longrightarrow>
      h = sql_latest_sequence db \<Longrightarrow> sql_append_if_head b fresh now db e h = sql_append b fresh now db e"
    by (simp add: sql_append_if_head_def sql_append_def append_sync_def sql_append_not_found)
  assume inv: "sql_inv db" and ok: "storable e" and new: "ev_id e \<notin> ev_id ` set (sql_log db)"
  show "\<exists>db'. sql_append b fresh now db e = Inr (with_sequence e (sql_latest_sequence db + 1), db') \<and>
      sql_inv db' \<and> sql_log db' = sql_log db @ [dump_event (with_sequence e (sql_latest_sequence db + 1))]"
    using sql_inv_insert [OF inv ok new]
    by (simp add: sql_append_def append_sync_def sql_append_not_found [OF new] insert_outbox_def
        Let_def)
qed

end
