(* ===== verification/DeliveryTables.thy ===== *)
theory DeliveryTables
  imports SqliteStore
begin

section \<open>Fencing and delivery guarantees of the outbox and inbox tables\<close>

text \<open>
  Every operation of the SQLite store as a step, the invariant of its outbox, and the two
  interpretations of the fencing contract: outbox rows (by row id) and inbox rows (by message and
  consumer).
\<close>

inductive sql_step :: "sql_db \<Rightarrow> sql_db \<Rightarrow> bool" where
  step_append: "append_sync b fresh now db e topic h = Inr (x, db') \<Longrightarrow> storable e \<Longrightarrow>
    sql_step db db'"
| step_claim_outbox: "claim_outbox b fresh now db worker limit lease = Inr (rs, db') \<Longrightarrow> sql_step db db'"
| step_complete_outbox: "complete_outbox now db k t = (ok, db') \<Longrightarrow> sql_step db db'"
| step_retry_outbox: "retry_outbox db k t err avail = (ok, db') \<Longrightarrow> sql_step db db'"
| step_claim_inbox: "claim_inbox now db m c lease = (cl, db') \<Longrightarrow> sql_step db db'"
| step_complete_inbox: "complete_inbox now db m c t = (ok, db') \<Longrightarrow> sql_step db db'"
| step_retry_inbox: "retry_inbox db m c t err avail = (ok, db') \<Longrightarrow> sql_step db db'"

subsection \<open>The outbox rows a step can produce\<close>

definition outbox_inv :: "sql_db \<Rightarrow> bool" where
  "outbox_inv db \<longleftrightarrow> distinct (map ob_id (db_outbox db)) \<and>
     distinct (map ob_event_id (db_outbox db)) \<and>
     (\<forall>r \<in> set (db_outbox db). 0 \<le> ob_fencing_token r)"

definition outbox_token :: "sql_db \<Rightarrow> int \<Rightarrow> int" where
  "outbox_token db k =
     (case map_of (map (\<lambda>r. (ob_id r, ob_fencing_token r)) (db_outbox db)) k of
        None \<Rightarrow> 0 | Some t \<Rightarrow> t)"

lemma outbox_token_row:
  "outbox_inv db \<Longrightarrow> r \<in> set (db_outbox db) \<Longrightarrow> outbox_token db (ob_id r) = ob_fencing_token r"
  unfolding outbox_token_def outbox_inv_def
  by (subst map_of_is_SomeI) (auto simp: comp_def)

lemma outbox_token_absent: "k \<notin> ob_id ` set (db_outbox db) \<Longrightarrow> outbox_token db k = 0"
  unfolding outbox_token_def
  by (subst map_of_eq_None_iff [THEN iffD2]) (simp_all add: image_image)

lemma outbox_token_nonneg: "outbox_inv db \<Longrightarrow> 0 \<le> outbox_token db k"
  by (cases "k \<in> ob_id ` set (db_outbox db)")
    (auto simp: outbox_token_row outbox_token_absent, auto simp: outbox_inv_def)

text \<open>A step that maps the rows one by one, keeps their identity and never lowers a token.\<close>

lemma outbox_map_step:
  assumes "outbox_inv db" "db_outbox db' = map f (db_outbox db)"
    and "\<And>r. ob_id (f r) = ob_id r \<and> ob_event_id (f r) = ob_event_id r \<and>
          ob_fencing_token r \<le> ob_fencing_token (f r)"
  shows "outbox_inv db' \<and> outbox_token db k \<le> outbox_token db' k"
proof -
  have inv: "outbox_inv db'"
    using assms by (auto simp: outbox_inv_def comp_def intro: order_trans)
  moreover have "outbox_token db k \<le> outbox_token db' k"
  proof (cases "k \<in> ob_id ` set (db_outbox db)")
    case True
    then obtain r where r: "r \<in> set (db_outbox db)" "ob_id r = k" by auto
    then have "f r \<in> set (db_outbox db')" "ob_id (f r) = k"
      using assms(2,3) by auto
    then show ?thesis
      using outbox_token_row [OF assms(1) r(1)] outbox_token_row [OF inv, of "f r"] r(2) assms(3)
      by auto
  next
    case False
    then show ?thesis
      using outbox_token_absent outbox_token_nonneg [OF inv] by metis
  qed
  ultimately show ?thesis by simp
qed

lemma le_foldl_max: "x \<in> set xs \<Longrightarrow> x \<le> foldl max (c :: int) xs" "c \<le> foldl max c xs"
proof (induction xs arbitrary: c)
  case (Cons y ys)
  { case 1 then show ?case using Cons.IH(1) [of "max c y"] Cons.IH(2) [of "max c y"] by auto }
  { case 2 then show ?case using Cons.IH(2) [of "max c y"] by auto }
qed auto

lemma outbox_insert_step:
  assumes "outbox_inv db"
  shows "outbox_inv (insert_outbox db e topic now) \<and>
    outbox_token db k \<le> outbox_token (insert_outbox db e topic now) k"
proof (cases "insert_outbox db e topic now = db")
  case False
  then obtain t where t: "topic = Some t" and new: "\<forall>r \<in> set (db_outbox db). ob_event_id r \<noteq> ev_id e"
    by (auto simp: insert_outbox_def split: option.splits if_splits)
  let ?db = "insert_outbox db e topic now" and ?row = "new_outbox_row db e t now"
  have rows: "db_outbox ?db = db_outbox db @ [?row]"
    using t new by (auto simp: insert_outbox_def)
  have "\<forall>r \<in> set (db_outbox db). ob_id r < outbox_next_id db"
    using le_foldl_max(1) [of _ "map ob_id (db_outbox db)" 0] by (force simp: outbox_next_id_def)
  then have inv: "outbox_inv ?db"
    using assms new by (auto simp: outbox_inv_def rows new_outbox_row_def)
  moreover have "outbox_token db k \<le> outbox_token ?db k"
  proof (cases "k \<in> ob_id ` set (db_outbox db)")
    case True
    then obtain r where r: "r \<in> set (db_outbox db)" "ob_id r = k" by auto
    then show ?thesis
      using outbox_token_row [OF assms r(1)] outbox_token_row [OF inv, of r] rows by auto
  next
    case False
    then show ?thesis using outbox_token_absent outbox_token_nonneg [OF inv] by metis
  qed
  ultimately show ?thesis by simp
qed (use assms in simp)

text \<open>What a claim does to the table: the selected rows get the next token, the others stay.\<close>

definition leased_row :: "string \<Rightarrow> datetime \<Rightarrow> outbox_row \<Rightarrow> outbox_row" where
  "leased_row worker until r =
     r\<lparr>ob_lease_owner := Some worker, ob_lease_until := Some until,
       ob_fencing_token := ob_fencing_token r + 1, ob_attempts := ob_attempts r + 1\<rparr>"

lemma leased_row_simps [simp]:
  "ob_id (leased_row w u r) = ob_id r" "ob_event_id (leased_row w u r) = ob_event_id r"
  "ob_fencing_token (leased_row w u r) = ob_fencing_token r + 1"
  "ob_published_at (leased_row w u r) = ob_published_at r"
  "ob_event_json (leased_row w u r) = ob_event_json r"
  "ob_lease_until (leased_row w u r) = Some u"
  by (simp_all add: leased_row_def)

lemma lease_outbox_rows:
  assumes "distinct (map ob_id tab)" "distinct (map ob_id rows)" "set rows \<subseteq> set tab"
    and "\<forall>r \<in> set rows. ob_published_at r = None"
  shows "foldl (lease_outbox_row w u) tab rows
    = map (\<lambda>r. if ob_id r \<in> ob_id ` set rows then leased_row w u r else r) tab"
  using assms
proof (induction rows arbitrary: tab)
  case (Cons r rows)
  let ?one = "\<lambda>q. if ob_id q = ob_id r then leased_row w u q else q"
  have r: "r \<in> set tab" "ob_published_at r = None" using Cons.prems by auto
  have same: "q = r" if "q \<in> set tab" "ob_id q = ob_id r" for q
    using that r(1) Cons.prems(1) by (auto simp: distinct_map inj_on_def)
  have one: "lease_outbox_row w u tab r = map ?one tab"
    unfolding lease_outbox_row_def update_where_def leased_row_def
  proof (rule map_cong [OF refl])
    fix q assume "q \<in> set tab"
    with same [of q] r(2) show "(if ob_id q = ob_id r \<and> ob_published_at q = None
          then q\<lparr>ob_lease_owner := Some w, ob_lease_until := Some u,
                 ob_fencing_token := ob_fencing_token r + 1, ob_attempts := ob_attempts r + 1\<rparr> else q)
        = (if ob_id q = ob_id r
          then q\<lparr>ob_lease_owner := Some w, ob_lease_until := Some u,
                 ob_fencing_token := ob_fencing_token q + 1, ob_attempts := ob_attempts q + 1\<rparr> else q)"
      by (cases "ob_id q = ob_id r") auto
  qed
  have notin: "ob_id r \<notin> ob_id ` set rows"
    using Cons.prems(2) by simp
  then have other: "ob_id q \<noteq> ob_id r" if "q \<in> set rows" for q
    using that by (metis imageI)
  have "foldl (lease_outbox_row w u) (map ?one tab) rows
      = map (\<lambda>q. if ob_id q \<in> ob_id ` set rows then leased_row w u q else q) (map ?one tab)"
  proof (rule Cons.IH)
    have "map ob_id (map ?one tab) = map ob_id tab" by simp
    then show "distinct (map ob_id (map ?one tab))" using Cons.prems(1) by metis
    show "set rows \<subseteq> set (map ?one tab)"
      using Cons.prems(3) other by force
  qed (use Cons.prems in auto)
  also have "\<dots> = map (\<lambda>q. if ob_id q \<in> ob_id ` set (r # rows) then leased_row w u q else q) tab"
    using notin by (auto simp: comp_def)
  finally show ?case by (simp add: one)
qed (simp add: comp_def)

definition claimed_rows :: "datetime \<Rightarrow> int \<Rightarrow> sql_db \<Rightarrow> outbox_row list" where
  "claimed_rows now limit db =
     sql_limit limit (sort_key ob_id (filter (outbox_ready now) (db_outbox db)))"

lemma claimed_rows_ready: "r \<in> set (claimed_rows now limit db) \<Longrightarrow>
    r \<in> set (db_outbox db) \<and> outbox_ready now r"
  by (auto simp: claimed_rows_def sql_limit_def dest: in_set_takeD split: if_splits)

lemma claim_outbox_rows:
  assumes "outbox_inv db" "claim_outbox b fresh now db w limit lease = Inr (rs, db')"
  shows "mapM (outbox_record_of b fresh now) (claimed_rows now limit db) = Inr rs"
    "distinct (map ob_id (claimed_rows now limit db))"
    "db' = db\<lparr>db_outbox := map (\<lambda>r. if ob_id r \<in> ob_id ` set (claimed_rows now limit db)
                then leased_row w (dt_plus now lease) r else r) (db_outbox db)\<rparr>"
proof -
  let ?rows = "claimed_rows now limit db"
  have "distinct (map ob_id (sort_key ob_id (filter (outbox_ready now) (db_outbox db))))"
    using assms(1) by (auto simp: outbox_inv_def distinct_map inj_on_def)
  then show dist: "distinct (map ob_id ?rows)"
    by (simp add: claimed_rows_def sql_limit_def take_map [symmetric] distinct_take)
  have "foldl (lease_outbox_row w (dt_plus now lease)) (db_outbox db) ?rows
     = map (\<lambda>r. if ob_id r \<in> ob_id ` set ?rows then leased_row w (dt_plus now lease) r else r)
        (db_outbox db)"
    by (rule lease_outbox_rows)
      (use assms(1) claimed_rows_ready dist in \<open>auto simp: outbox_inv_def outbox_ready_def\<close>)
  with assms(2) show "mapM (outbox_record_of b fresh now) ?rows = Inr rs"
    and "db' = db\<lparr>db_outbox := map (\<lambda>r. if ob_id r \<in> ob_id ` set ?rows
                then leased_row w (dt_plus now lease) r else r) (db_outbox db)\<rparr>"
    by (simp_all add: claim_outbox_def claimed_rows_def [symmetric] Let_def rbind_Inr_iff)
qed

subsection \<open>The fencing contract of the outbox\<close>

definition outbox_claimed :: "sql_db \<Rightarrow> int \<Rightarrow> int \<Rightarrow> sql_db \<Rightarrow> bool" where
  "outbox_claimed db k t db' \<longleftrightarrow> (\<exists>b fresh now w limit lease rs rec.
     claim_outbox b fresh now db w limit lease = Inr (rs, db') \<and> rec \<in> set rs \<and>
     or_id rec = k \<and> or_fencing_token rec = t)"

definition outbox_finished :: "sql_db \<Rightarrow> int \<Rightarrow> int \<Rightarrow> sql_db \<Rightarrow> bool" where
  "outbox_finished db k t db' \<longleftrightarrow>
     (\<exists>now. complete_outbox now db k t = (True, db')) \<or>
     (\<exists>err avail. retry_outbox db k t err avail = (True, db'))"

lemma outbox_update_where:
  assumes "outbox_inv db" "db_outbox db' = update_where p f (db_outbox db)"
    and "\<And>r. ob_id (f r) = ob_id r \<and> ob_event_id (f r) = ob_event_id r \<and>
          ob_fencing_token (f r) = ob_fencing_token r"
  shows "outbox_inv db' \<and> outbox_token db k \<le> outbox_token db' k"
  by (rule outbox_map_step [OF assms(1), of _ "\<lambda>r. if p r then f r else r"])
    (use assms in \<open>auto simp: update_where_def\<close>)

lemma outbox_unchanged: "db_outbox db' = db_outbox db \<Longrightarrow> outbox_inv db' = outbox_inv db"
  "db_outbox db' = db_outbox db \<Longrightarrow> outbox_token db' k = outbox_token db k"
  by (simp_all add: outbox_inv_def outbox_token_def)

lemma append_sync_outbox:
  assumes "append_sync b fresh now db e topic h = Inr (x, db')"
  obtains db1 where "db_outbox db1 = db_outbox db" "db' = insert_outbox db1 x topic now"
proof -
  from assms obtain y where y: "db' = insert_outbox (snd y) x topic now" "fst y = x" and
    "(case filter (\<lambda>r. er_event_id r = ev_id e) (db_events db) of
        existing # _ \<Rightarrow> rbind (row_to_event b fresh now existing) (\<lambda>stored. Inr (stored, db))
      | [] \<Rightarrow>
          (let actual = sql_latest_sequence db in
           if h \<noteq> None \<and> actual \<noteq> the h then Inl (ConcurrentAppendError (the h) actual)
           else (let rowid = actual + 1
                 in Inr (with_sequence e rowid,
                         db\<lparr>db_events := db_events db @ [event_to_row e rowid]\<rparr>)))) = Inr y"
    by (auto simp: append_sync_def rbind_Inr_iff)
  then have "db_outbox (snd y) = db_outbox db"
    by (auto simp: rbind_Inr_iff Let_def split: list.splits if_splits)
  with y that show ?thesis by blast
qed

lemma inbox_ops_outbox:
  "claim_inbox now db m c lease = (cl, db') \<Longrightarrow> db_outbox db' = db_outbox db"
  "complete_inbox now db m c t = (ok, db') \<Longrightarrow> db_outbox db' = db_outbox db"
  "retry_inbox db m c t err avail = (ok, db') \<Longrightarrow> db_outbox db' = db_outbox db"
  by (auto simp: claim_inbox_def complete_inbox_def retry_inbox_def Let_def
      split: option.splits if_splits)

lemma outbox_step:
  assumes "outbox_inv db" "sql_step db db'"
  shows "outbox_inv db' \<and> outbox_token db k \<le> outbox_token db' k"
  using assms(2,1)
proof (cases rule: sql_step.cases)
  case (step_append b fresh now e topic h x)
  from step_append(1) obtain db1 where
      "db_outbox db1 = db_outbox db" "db' = insert_outbox db1 x topic now"
    by (rule append_sync_outbox)
  with outbox_insert_step [of db1 x topic now k] assms(1) outbox_unchanged [of db1 db]
  show ?thesis by simp
next
  case (step_claim_outbox b fresh now worker limit lease rs)
  from claim_outbox_rows(3) [OF assms(1) this] show ?thesis
    using outbox_map_step [OF assms(1), of db'
        "\<lambda>r. if ob_id r \<in> ob_id ` set (claimed_rows now limit db)
             then leased_row worker (dt_plus now lease) r else r"] by simp
next
  case (step_complete_outbox now record_id t ok)
  then have "db_outbox db' = update_where (outbox_held record_id t)
      (\<lambda>r. r\<lparr>ob_published_at := Some now, ob_lease_owner := None, ob_lease_until := None\<rparr>) (db_outbox db)"
    by (auto simp: complete_outbox_def)
  from outbox_update_where [OF assms(1) this] show ?thesis by simp
next
  case (step_retry_outbox record_id t err avail ok)
  then have "db_outbox db' = update_where (outbox_held record_id t)
      (\<lambda>r. r\<lparr>ob_available_at := avail, ob_last_error := Some err, ob_lease_owner := None, ob_lease_until := None\<rparr>) (db_outbox db)"
    by (auto simp: retry_outbox_def)
  from outbox_update_where [OF assms(1) this] show ?thesis by simp
next
  case (step_claim_inbox now m c lease cl)
  from outbox_unchanged [OF inbox_ops_outbox(1) [OF this]] assms(1) show ?thesis by simp
next
  case (step_complete_inbox now m c t ok)
  from outbox_unchanged [OF inbox_ops_outbox(2) [OF this]] assms(1) show ?thesis by simp
next
  case (step_retry_inbox m c t err avail ok)
  from outbox_unchanged [OF inbox_ops_outbox(3) [OF this]] assms(1) show ?thesis by simp
qed


lemma outbox_claim_token:
  assumes "outbox_inv db" "outbox_claimed db k t db'"
  shows "t = outbox_token db k + 1 \<and> outbox_token db' k = t"
proof -
  from assms(2) obtain b fresh now w limit lease rs rec where
    claim: "claim_outbox b fresh now db w limit lease = Inr (rs, db')" and
    rec: "rec \<in> set rs" "or_id rec = k" "or_fencing_token rec = t"
    by (auto simp: outbox_claimed_def)
  note rows = claim_outbox_rows [OF assms(1) claim]
  obtain r where r: "r \<in> set (claimed_rows now limit db)"
      "outbox_record_of b fresh now r = Inr rec"
    by (rule bexE [OF mapM_mem [OF rows(1) rec(1)]])
  have old: "r \<in> set (db_outbox db)"
    using claimed_rows_ready [OF r(1)] by simp
  from r(2) have k: "k = ob_id r" "t = ob_fencing_token r + 1"
    using rec by (auto simp: outbox_record_of_def rbind_Inr_iff)
  have step: "outbox_inv db'"
    using outbox_step [OF assms(1) step_claim_outbox [OF claim]] by simp
  have "leased_row w (dt_plus now lease) r \<in> set (db_outbox db')"
    unfolding rows(3) using r(1) old by (force simp: image_iff)
  then have "outbox_token db' k = t"
    using outbox_token_row [OF step] k by fastforce
  then show ?thesis
    using outbox_token_row [OF assms(1) old] k by auto
qed

lemma outbox_finish_token:
  assumes "outbox_inv db" "outbox_finished db k t db'"
  shows "t = outbox_token db k"
proof -
  from assms(2) have "count_where (outbox_held k t) (db_outbox db) = 1"
    by (auto simp: outbox_finished_def complete_outbox_def retry_outbox_def)
  then obtain r where "r \<in> set (db_outbox db)" "outbox_held k t r"
    unfolding count_where_def
    by (metis filter_False length_0_conv zero_neq_one)
  then show ?thesis
    using outbox_token_row [OF assms(1), of r] by (auto simp: outbox_held_def)
qed

interpretation outbox: fenced_claims outbox_inv outbox_token sql_step outbox_claimed outbox_finished
proof unfold_locales
  fix db db' :: sql_db and k t :: int
  show "outbox_inv db \<Longrightarrow> sql_step db db' \<Longrightarrow> outbox_inv db'"
    using outbox_step by blast
  show "outbox_claimed db k t db' \<Longrightarrow> sql_step db db'"
    by (auto simp: outbox_claimed_def intro: step_claim_outbox)
  show "outbox_inv db \<Longrightarrow> sql_step db db' \<Longrightarrow> outbox_token db k \<le> outbox_token db' k"
    using outbox_step by blast
qed (use outbox_claim_token outbox_finish_token in blast)+

subsection \<open>The fencing contract of the inbox\<close>

definition inbox_token :: "sql_db \<Rightarrow> string \<times> string \<Rightarrow> int" where
  "inbox_token db key = (case map_of (db_inbox db) key of None \<Rightarrow> 0 | Some r \<Rightarrow> ib_fencing_token r)"

definition inbox_inv :: "sql_db \<Rightarrow> bool" where
  "inbox_inv db \<longleftrightarrow> (\<forall>key r. map_of (db_inbox db) key = Some r \<longrightarrow> 0 \<le> ib_fencing_token r)"

definition inbox_claimed :: "sql_db \<Rightarrow> string \<times> string \<Rightarrow> int \<Rightarrow> sql_db \<Rightarrow> bool" where
  "inbox_claimed db key t db' \<longleftrightarrow>
     (\<exists>now lease. claim_inbox now db (fst key) (snd key) lease = (Acquired t, db'))"

definition inbox_finished :: "sql_db \<Rightarrow> string \<times> string \<Rightarrow> int \<Rightarrow> sql_db \<Rightarrow> bool" where
  "inbox_finished db key t db' \<longleftrightarrow>
     (\<exists>now. complete_inbox now db (fst key) (snd key) t = (True, db')) \<or>
     (\<exists>err avail. retry_inbox db (fst key) (snd key) t err avail = (True, db'))"

text \<open>A step that assigns one row and does not lower its token.\<close>

lemma inbox_update_step:
  assumes "inbox_inv db" "db_inbox db' = AList.update key r (db_inbox db)"
    and "inbox_token db key \<le> ib_fencing_token r" "0 \<le> ib_fencing_token r"
  shows "inbox_inv db' \<and> inbox_token db k \<le> inbox_token db' k"
  using assms by (auto simp: inbox_inv_def inbox_token_def dict_simps split: option.splits if_splits)

lemma inbox_unchanged: "db_inbox db' = db_inbox db \<Longrightarrow> inbox_inv db' = inbox_inv db"
  "db_inbox db' = db_inbox db \<Longrightarrow> inbox_token db' k = inbox_token db k"
  by (simp_all add: inbox_inv_def inbox_token_def)

lemma append_sync_inbox:
  assumes "append_sync b fresh now db e topic h = Inr (x, db')"
  shows "db_inbox db' = db_inbox db"
proof -
  have "db_inbox (insert_outbox d y t n) = db_inbox d" for d y t n
    by (simp add: insert_outbox_def split: option.splits)
  with assms show ?thesis
    by (auto simp: append_sync_def rbind_Inr_iff Let_def split: list.splits if_splits)
qed

lemma claim_inbox_cases:
  assumes "claim_inbox now db m c lease = (cl, db')"
  obtains (acquired) r where "cl = Acquired (inbox_token db (m, c) + 1)"
      "db_inbox db' = AList.update (m, c) r (db_inbox db)"
      "ib_fencing_token r = inbox_token db (m, c) + 1"
  | (refused) "db' = db" "\<forall>t. cl \<noteq> Acquired t"
proof (cases "map_of (db_inbox db) (m, c)")
  case None
  with assms show ?thesis
    by (intro acquired) (auto simp: claim_inbox_def inbox_token_def)
next
  case (Some row)
  show ?thesis
  proof (cases "db' = db \<and> (\<forall>t. cl \<noteq> Acquired t)")
    case True
    then show ?thesis using refused by blast
  next
    case False
    with Some assms show ?thesis
      by (intro acquired) (auto simp: claim_inbox_def inbox_token_def Let_def split: if_splits)
  qed
qed

lemma inbox_heldD:
  assumes "inbox_inv db" "inbox_held db key t = Some row"
  shows "map_of (db_inbox db) key = Some row" "ib_fencing_token row = t" "ib_status row = Processing"
    "inbox_token db key = t" "0 \<le> t"
  using assms
  by (auto simp: inbox_held_def inbox_token_def inbox_inv_def split: option.splits if_splits)
    (metis prod.collapse)

lemma inbox_finish_update:
  assumes "inbox_inv db"
    and "complete_inbox now db m c t = (ok, db') \<or> retry_inbox db m c t err avail = (ok, db')"
  shows "inbox_inv db' \<and> inbox_token db k \<le> inbox_token db' k"
proof (cases "inbox_held db (m, c) t")
  case None
  with assms show ?thesis by (auto simp: complete_inbox_def retry_inbox_def)
next
  case (Some row)
  note row = inbox_heldD [OF assms(1) Some]
  from assms(2) Some obtain r where r: "db_inbox db' = AList.update (m, c) r (db_inbox db)"
      "ib_fencing_token r = ib_fencing_token row"
    by (auto simp: complete_inbox_def retry_inbox_def)
  from inbox_update_step [OF assms(1) r(1)] r(2) row show ?thesis by simp
qed

lemma inbox_step:
  assumes "inbox_inv db" "sql_step db db'"
  shows "inbox_inv db' \<and> inbox_token db k \<le> inbox_token db' k"
  using assms(2,1)
proof (cases rule: sql_step.cases)
  case (step_claim_inbox now m c lease cl)
  then show ?thesis
  proof (cases rule: claim_inbox_cases)
    case (acquired r)
    moreover have "0 \<le> inbox_token db (m, c)"
      using assms(1) by (auto simp: inbox_inv_def inbox_token_def split: option.splits)
    ultimately show ?thesis
      using inbox_update_step [OF assms(1) acquired(2)] by simp
  qed (use assms(1) in simp)
next
  case (step_complete_inbox now m c t ok)
  then show ?thesis
    by (intro inbox_finish_update [OF assms(1), where err = "[]" and avail = now]) (rule disjI1)
next
  case (step_retry_inbox m c t err avail ok)
  then show ?thesis
    by (intro inbox_finish_update [OF assms(1), where now = avail]) (rule disjI2)
next
  case (step_append b fresh now e topic h x)
  from inbox_unchanged [OF append_sync_inbox [OF step_append(1)]] assms(1) show ?thesis by simp
next
  case (step_claim_outbox b fresh now worker limit lease rs)
  then have "db_inbox db' = db_inbox db"
    by (auto simp: claim_outbox_def Let_def rbind_Inr_iff)
  from inbox_unchanged [OF this] assms(1) show ?thesis by simp
next
  case (step_complete_outbox now record_id t ok)
  then have "db_inbox db' = db_inbox db" by (auto simp: complete_outbox_def)
  from inbox_unchanged [OF this] assms(1) show ?thesis by simp
next
  case (step_retry_outbox record_id t err avail ok)
  then have "db_inbox db' = db_inbox db" by (auto simp: retry_outbox_def)
  from inbox_unchanged [OF this] assms(1) show ?thesis by simp
qed

interpretation inbox: fenced_claims inbox_inv inbox_token sql_step inbox_claimed inbox_finished
proof unfold_locales
  fix db db' :: sql_db and k :: "string \<times> string" and t :: int
  show "inbox_inv db \<Longrightarrow> sql_step db db' \<Longrightarrow> inbox_inv db'"
    using inbox_step by blast
  show "inbox_claimed db k t db' \<Longrightarrow> sql_step db db'"
    by (auto simp: inbox_claimed_def intro: step_claim_inbox)
  show "inbox_inv db \<Longrightarrow> inbox_claimed db k t db' \<Longrightarrow>
      t = inbox_token db k + 1 \<and> inbox_token db' k = t"
    unfolding inbox_claimed_def
    by (elim exE claim_inbox_cases) (auto simp: inbox_token_def dict_simps)
  show "inbox_inv db \<Longrightarrow> sql_step db db' \<Longrightarrow> inbox_token db k \<le> inbox_token db' k"
    using inbox_step by blast
  show "inbox_inv db \<Longrightarrow> inbox_finished db k t db' \<Longrightarrow> t = inbox_token db k"
    by (auto simp: inbox_finished_def complete_inbox_def retry_inbox_def inbox_held_def
        inbox_token_def split: option.splits if_splits)
qed

end
