(* ===== verification/StoreAgreement.thy ===== *)
theory StoreAgreement
  imports DeliveryTables
begin

section \<open>The two event stores implement the same log\<close>

text \<open>
  \<open>InMemoryEventStore\<close> and \<open>SQLiteEventStore\<close> (\<^verbatim>\<open>src/noema/store.py\<close>) implement one protocol. Here
  they are related: stores that hold the same events, up to the key order of their JSON objects,
  answer every append and every read alike. The one divergence, an empty sequence of types, is a
  theorem too. The properties of the two stores and of the outbox and inbox close the theory.
\<close>

definition same_log :: "jobject mem_store \<Rightarrow> sql_db \<Rightarrow> bool" where
  "same_log m db \<longleftrightarrow> mem_inv m \<and> sql_inv db \<and> sql_log db = map dump_event (ms_events m)"

definition same_answer :: "(jobject event \<times> jobject mem_store) result \<Rightarrow> (jobject event \<times> sql_db) result \<Rightarrow> bool" where
  "same_answer = rel_sum (=) (\<lambda>(x, m) (y, db). (y = x \<or> y = dump_event x) \<and> same_log m db)"

lemma same_log_ids:
  assumes "same_log m db"
  shows "ev_id ` set (sql_log db) = ev_id ` set (ms_events m)"
    "sql_latest_sequence db = mem_latest_sequence m" "0 \<le> mem_latest_sequence m"
  using assms by (auto simp: same_log_def image_image sql_latest_sequence_inv mem_latest_sequence_def)

lemma same_answer_append:
  assumes "same_log m db" "storable e"
  shows "same_answer (mem_append m e) (sql_append b fresh now db e)"
proof (cases "ev_id e \<in> ev_id ` set (ms_events m)")
  case True
  then obtain x where x: "x \<in> set (ms_events m)" "ev_id x = ev_id e" by auto
  then have "dump_event x \<in> set (sql_log db)" "ev_id (dump_event x) = ev_id e"
    using assms(1) by (auto simp: same_log_def)
  with x assms(1) show ?thesis
    using mem.append_old [of m x e] sql.append_old [of db "dump_event x" e b fresh now]
    by (auto simp: same_log_def same_answer_def)
next
  case False
  then have new: "ev_id e \<notin> ev_id ` set (sql_log db)"
    using same_log_ids [OF assms(1)] by simp
  from assms(1) have inv: "mem_inv m" "sql_inv db" and log: "sql_log db = map dump_event (ms_events m)"
    by (auto simp: same_log_def)
  from mem.append_new [OF inv(1) TrueI False] sql.append_new [OF inv(2) assms(2) new, of b fresh now]
  show ?thesis
    using log same_log_ids [OF assms(1)] by (auto simp: same_answer_def same_log_def)
qed

lemma same_answer_append_if:
  assumes "same_log m db" "storable e"
  shows "same_answer (mem_append_if_head m e h) (sql_append_if_head b fresh now db e h)"
proof (cases "h < 0")
  case True
  then show ?thesis
    by (simp add: mem_append_if_head_def sql_append_if_head_def same_answer_def)
next
  case False
  then have h: "0 \<le> h" by simp
  from assms(1) have inv: "mem_inv m" "sql_inv db" by (auto simp: same_log_def)
  note ids = same_log_ids [OF assms(1)]
  show ?thesis
  proof (cases "ev_id e \<in> ev_id ` set (ms_events m)")
    case True
    then obtain x where x: "x \<in> set (ms_events m)" "ev_id x = ev_id e" by auto
    then have "dump_event x \<in> set (sql_log db)" "ev_id (dump_event x) = ev_id e"
      using assms(1) by (auto simp: same_log_def)
    with x h assms(1) show ?thesis
      using mem.append_if_old [of m x e h] sql.append_if_old [of db "dump_event x" e h b fresh now]
      by (auto simp: same_log_def same_answer_def)
  next
    case False
    then have new: "ev_id e \<notin> ev_id ` set (sql_log db)" using ids by simp
    show ?thesis
    proof (cases "h = mem_latest_sequence m")
      case True
      with same_answer_append [OF assms, of b fresh now] ids show ?thesis
        using mem.append_if_head [OF inv(1) False h] sql.append_if_head [OF inv(2) new h, of b fresh now]
        by simp
    next
      case neq: False
      with ids show ?thesis
        using mem.append_if_stale [OF inv(1) False h] sql.append_if_stale [OF inv(2) new h, of b fresh now]
        by (simp add: same_answer_def)
    qed
  qed
qed

subsection \<open>Reading\<close>

lemma numbered_sorted: "numbered (map event_of_row rows) \<Longrightarrow> sorted (map er_sequence rows)"
proof -
  assume "numbered (map event_of_row rows)"
  then have "map Some (map er_sequence rows) = map Some (map int [1..<Suc (length rows)])"
    by (simp add: numbered_def comp_def del: upt_Suc)
  then have "map er_sequence rows = map int [1..<Suc (length rows)]"
    by (metis inj_Some inj_map_eq_map)
  moreover have "sorted (map int [1..<Suc (length rows)])"
    by (simp add: sorted_map sorted_wrt_mono_rel [of _ "(\<le>)"] del: upt_Suc)
  ultimately show ?thesis by simp
qed

lemma read_rows:
  assumes "sql_inv db" "types \<noteq> Some []" "\<forall>n. limit = Some n \<longrightarrow> 0 \<le> n"
  shows "read_sync b fresh now db after limit types = Inr (slice_to limit
    (filter (\<lambda>e. seq0 e > after \<and> (case types of None \<Rightarrow> True | Some ts \<Rightarrow> ev_type e \<in> set ts))
      (sql_log db)))"
proof -
  let ?p = "\<lambda>r. er_sequence r > after \<and>
            (case types of None \<Rightarrow> True | Some ts \<Rightarrow> ts = [] \<or> er_event_type r \<in> set ts)"
  let ?q = "\<lambda>e. seq0 e > after \<and> (case types of None \<Rightarrow> True | Some ts \<Rightarrow> ev_type e \<in> set ts)"
  have pq: "filter ?p rows = filter (?q \<circ> event_of_row) rows" for rows
    using assms(2) by (auto simp: seq0_def event_of_row_def intro!: filter_cong split: option.splits)
  define rows where "rows = filter ?p (db_events db)"
  have "sorted (map er_sequence rows)"
    using assms(1) unfolding rows_def
    by (intro sorted_filter numbered_sorted) (simp add: sql_inv_def sql_log_def)
  then have s: "sort_key er_sequence rows = rows"
    by (rule sort_key_id_if_sorted)
  have ok: "row_to_event b fresh now r = Inr (event_of_row r)" if "r \<in> set (db_events db)" for r
    using assms(1) that by (intro row_to_event_ok) (simp add: sql_inv_def sql_log_def list_all_iff)
  have m: "mapM (row_to_event b fresh now) (take n rows) = Inr (map event_of_row (take n rows))" for n
    by (intro mapM_all_Inr ok) (auto simp: rows_def dest: in_set_takeD)
  define log where "log = filter ?q (sql_log db)"
  have log: "log = map event_of_row rows"
    by (simp add: log_def rows_def pq sql_log_def filter_map)
  have "read_sync b fresh now db after limit types = Inr (slice_to limit log)"
  proof (cases limit)
    case None
    with m [of "length rows"] show ?thesis
      by (simp add: read_sync_def rows_def [symmetric] s Let_def slice_to_def log)
  next
    case (Some n)
    with assms(3) m [of "nat n"] show ?thesis
      by (simp add: read_sync_def rows_def [symmetric] s Let_def sql_limit_def slice_to_def log take_map)
  qed
  then show ?thesis by (simp only: log_def)
qed

subsection \<open>Every reachable database is well formed\<close>

text \<open>
  The tables together: a gapless log with unique identifiers, an outbox with at most one row per
  event, each row carrying a logged event.
\<close>

definition row_content :: "outbox_row \<Rightarrow> string \<times> jobject" where
  "row_content r = (ob_event_id r, ob_event_json r)"

definition logged :: "sql_db \<Rightarrow> (string \<times> jobject) set" where
  "logged db = (\<lambda>x. (ev_id x, dump_obj (event_to_dict x))) ` set (sql_log db)"

definition tables_inv :: "sql_db \<Rightarrow> bool" where
  "tables_inv db \<longleftrightarrow> sql_inv db \<and> outbox_inv db \<and> inbox_inv db \<and>
     row_content ` set (db_outbox db) \<subseteq> logged db"

lemma dump_obj_event_to_dict:
  "dump_obj (event_to_dict (dump_event x)) = dump_obj (event_to_dict x)"
  by (simp add: dump_obj_def dump_event_to_dict)

lemma append_sync_result:
  assumes "sql_inv db" "storable e" "append_sync b fresh now db e topic h = Inr (x, db')"
  shows "sql_inv db'" "set (sql_log db) \<subseteq> set (sql_log db')" "ev_id x = ev_id e"
    "(ev_id e, dump_obj (event_to_dict x)) \<in> logged db'"
    "\<exists>db1. db' = insert_outbox db1 x topic now \<and> db_outbox db1 = db_outbox db"
proof -
  have "sql_inv db' \<and> set (sql_log db) \<subseteq> set (sql_log db') \<and> ev_id x = ev_id e \<and>
      dump_event x \<in> set (sql_log db') \<and>
      (\<exists>db1. db' = insert_outbox db1 x topic now \<and> db_outbox db1 = db_outbox db)"
  proof (cases "ev_id e \<in> ev_id ` set (sql_log db)")
    case True
    then obtain y where y: "y \<in> set (sql_log db)" "ev_id y = ev_id e" by auto
    then obtain r where f: "filter (\<lambda>q. er_event_id q = ev_id e) (db_events db) = [r]"
      "event_of_row r = y" "storable y"
      using sql_append_found [OF assms(1) y] by blast
    then have "row_to_event b fresh now r = Inr y" using row_to_event_ok by simp
    with assms(3) f have "x = y" "db' = insert_outbox db y topic now"
      by (auto simp: append_sync_def)
    moreover have "dump_event y = y"
      using assms(1) y(1) by (auto simp: sql_inv_def sql_dumped_def list_all_iff)
    ultimately show ?thesis
      using assms(1) y by (auto simp: sql_inv_def sql_dumped_def)
  next
    case False
    let ?db1 = "db\<lparr>db_events := db_events db @ [event_to_row e (sql_latest_sequence db + 1)]\<rparr>"
    from assms(3) sql_append_not_found [OF False]
    have "x = with_sequence e (sql_latest_sequence db + 1)" "db' = insert_outbox ?db1 x topic now"
      by (auto simp: append_sync_def Let_def split: if_splits)
    moreover have "sql_inv ?db1" by (rule sql_inv_insert [OF assms(1,2) False])
    ultimately show ?thesis
      by (intro conjI exI [of _ ?db1]) (auto simp: sql_inv_def sql_dumped_def)
  qed
  then show "sql_inv db'" "set (sql_log db) \<subseteq> set (sql_log db')" "ev_id x = ev_id e"
    "\<exists>db1. db' = insert_outbox db1 x topic now \<and> db_outbox db1 = db_outbox db"
    and "(ev_id e, dump_obj (event_to_dict x)) \<in> logged db'"
    using dump_obj_event_to_dict [of x]
    by (auto simp: logged_def intro!: image_eqI [of _ _ "dump_event x"])
qed

lemma other_steps_content:
  "claim_outbox b fresh now db worker limit lease = Inr (rs, db') \<Longrightarrow> outbox_inv db \<Longrightarrow>
    db_events db' = db_events db \<and> map row_content (db_outbox db') = map row_content (db_outbox db)"
  "complete_outbox now db k t = (ok, db') \<Longrightarrow>
    db_events db' = db_events db \<and> map row_content (db_outbox db') = map row_content (db_outbox db)"
  "retry_outbox db k t err avail = (ok, db') \<Longrightarrow>
    db_events db' = db_events db \<and> map row_content (db_outbox db') = map row_content (db_outbox db)"
  "claim_inbox now db m c lease = (cl, db') \<Longrightarrow>
    db_events db' = db_events db \<and> map row_content (db_outbox db') = map row_content (db_outbox db)"
  "complete_inbox now db m c t = (ok, db') \<Longrightarrow>
    db_events db' = db_events db \<and> map row_content (db_outbox db') = map row_content (db_outbox db)"
  "retry_inbox db m c t err avail = (ok, db') \<Longrightarrow>
    db_events db' = db_events db \<and> map row_content (db_outbox db') = map row_content (db_outbox db)"
  using claim_outbox_rows(3) [of db b fresh now worker limit lease rs db']
  by (auto simp: complete_outbox_def retry_outbox_def claim_inbox_def complete_inbox_def
      retry_inbox_def Let_def update_where_def row_content_def split: option.splits if_splits)

lemma insert_outbox_content:
  "row_content ` set (db_outbox (insert_outbox db x topic now))
    \<subseteq> insert (ev_id x, dump_obj (event_to_dict x)) (row_content ` set (db_outbox db))"
  by (auto simp: insert_outbox_def new_outbox_row_def row_content_def split: option.splits)

lemma sql_step_content:
  assumes "sql_step db db'" "sql_inv db" "outbox_inv db"
  shows "sql_inv db' \<and> (row_content ` set (db_outbox db) \<subseteq> logged db \<longrightarrow>
    row_content ` set (db_outbox db') \<subseteq> logged db')"
proof -
  have same: ?thesis if "db_events db' = db_events db \<and>
      map row_content (db_outbox db') = map row_content (db_outbox db)"
  proof -
    from that have log: "sql_log db' = sql_log db" by (simp add: sql_log_def)
    with that assms(2) have "sql_inv db'" by (simp add: sql_inv_def sql_dumped_def)
    moreover have "row_content ` set (db_outbox db') = row_content ` set (db_outbox db)"
      using that by (metis list.set_map)
    ultimately show ?thesis by (simp add: logged_def log)
  qed
  from assms(1) show ?thesis
  proof (cases rule: sql_step.cases)
    case (step_append b fresh now e topic h x)
    note r = append_sync_result [OF assms(2) step_append(2,1)]
    from r(5) obtain db1 where db1: "db' = insert_outbox db1 x topic now" "db_outbox db1 = db_outbox db"
      by blast
    have new: "row_content ` set (db_outbox db')
        \<subseteq> insert (ev_id e, dump_obj (event_to_dict x)) (row_content ` set (db_outbox db))"
      using insert_outbox_content [of db1 x topic now] by (simp only: db1 r(3))
    have mono: "logged db \<subseteq> logged db'"
      unfolding logged_def using r(2) by (rule image_mono)
    have "insert (ev_id e, dump_obj (event_to_dict x)) (row_content ` set (db_outbox db)) \<subseteq> logged db'"
      if "row_content ` set (db_outbox db) \<subseteq> logged db"
      using r(4) order_trans [OF that mono] by (rule insert_subset [THEN iffD2, OF conjI])
    with r(1) order_trans [OF new] show ?thesis by iprover
  next
    case (step_claim_outbox b fresh now worker limit lease rs)
    show ?thesis by (rule same [OF other_steps_content(1) [OF step_claim_outbox assms(3)]])
  next
    case (step_complete_outbox now k t ok)
    show ?thesis by (rule same [OF other_steps_content(2) [OF step_complete_outbox]])
  next
    case (step_retry_outbox k t err avail ok)
    show ?thesis by (rule same [OF other_steps_content(3) [OF step_retry_outbox]])
  next
    case (step_claim_inbox now m c lease cl)
    show ?thesis by (rule same [OF other_steps_content(4) [OF step_claim_inbox]])
  next
    case (step_complete_inbox now m c t ok)
    show ?thesis by (rule same [OF other_steps_content(5) [OF step_complete_inbox]])
  next
    case (step_retry_inbox m c t err avail ok)
    show ?thesis by (rule same [OF other_steps_content(6) [OF step_retry_inbox]])
  qed
qed

lemma tables_inv_ids:
  assumes "tables_inv db"
  shows "ob_event_id ` set (db_outbox db) \<subseteq> ev_id ` set (sql_log db)"
proof -
  have "fst ` row_content ` set (db_outbox db) \<subseteq> fst ` logged db"
    using assms by (intro image_mono) (simp add: tables_inv_def)
  then show ?thesis by (simp add: logged_def row_content_def image_image)
qed

lemma tables_inv_initialize: "tables_inv sql_initialize"
  using sql_inv_initialize by (simp add: tables_inv_def outbox_inv_def inbox_inv_def sql_initialize_def)

lemma tables_inv_step: "tables_inv db \<Longrightarrow> sql_step db db' \<Longrightarrow> tables_inv db'"
  using sql_step_content [of db db'] outbox_step [of db db'] inbox_step [of db db']
  by (simp add: tables_inv_def)

lemma tables_inv_steps: "sql_step\<^sup>*\<^sup>* db db' \<Longrightarrow> tables_inv db \<Longrightarrow> tables_inv db'"
  by (induction rule: rtranclp_induct) (simp_all add: tables_inv_step)

lemma tables_inv_reachable: "sql_step\<^sup>*\<^sup>* sql_initialize db \<Longrightarrow> tables_inv db"
  by (rule tables_inv_steps [OF _ tables_inv_initialize])

text \<open>What a claim hands out are logged events, and completion is final.\<close>

lemma claimed_record_logged:
  assumes "tables_inv db" "claim_outbox b fresh now db w limit lease = Inr (rs, db')" "rec \<in> set rs"
  shows "\<exists>r \<in> set (claimed_rows now limit db). or_id rec = ob_id r \<and> or_topic rec = ob_topic r \<and>
    or_attempts rec = ob_attempts r + 1 \<and> or_fencing_token rec = ob_fencing_token r + 1 \<and>
    ev_id (or_event rec) = ob_event_id r \<and> or_event rec \<in> set (sql_log db)"
proof -
  have inv: "outbox_inv db" "sql_inv db" using assms(1) by (simp_all add: tables_inv_def)
  obtain r where r: "r \<in> set (claimed_rows now limit db)" "outbox_record_of b fresh now r = Inr rec"
    by (rule bexE [OF mapM_mem [OF claim_outbox_rows(1) [OF inv(1) assms(2)] assms(3)]])
  then have "row_content r \<in> logged db"
    using assms(1) claimed_rows_ready [OF r(1)] by (auto simp: tables_inv_def)
  then obtain x where x: "x \<in> set (sql_log db)" "ob_event_id r = ev_id x"
      "ob_event_json r = dump_obj (event_to_dict x)"
    by (auto simp: logged_def row_content_def)
  then have "dump_event x = x" "storable x"
    using inv(2) by (auto simp: sql_inv_def sql_dumped_def list_all_iff)
  with r(2) x show ?thesis
    by (intro bexI [OF _ r(1)]) (auto simp: outbox_record_of_def event_from_dumped)
qed

definition inbox_done :: "sql_db \<Rightarrow> string \<times> string \<Rightarrow> bool" where
  "inbox_done db key = (case map_of (db_inbox db) key of None \<Rightarrow> False | Some r \<Rightarrow> ib_status r = Completed)"

lemma inbox_done_step:
  assumes "sql_step db db'" "inbox_done db key"
  shows "inbox_done db' key"
  using assms(1)
proof (cases rule: sql_step.cases)
  case (step_append b fresh now e topic h x)
  from append_sync_inbox [OF step_append(1)] assms(2) show ?thesis by (simp add: inbox_done_def)
next
  case (step_claim_inbox now m c lease cl)
  with assms(2) show ?thesis
    by (auto simp: claim_inbox_def inbox_done_def dict_simps Let_def split: option.splits if_splits)
next
  case (step_complete_inbox now m c t ok)
  with assms(2) show ?thesis
    by (auto simp: complete_inbox_def inbox_done_def inbox_held_def dict_simps split: option.splits if_splits)
next
  case (step_retry_inbox m c t err avail ok)
  with assms(2) show ?thesis
    by (auto simp: retry_inbox_def inbox_done_def inbox_held_def dict_simps split: option.splits if_splits)
qed (use assms(2) in \<open>auto simp: claim_outbox_def complete_outbox_def retry_outbox_def Let_def
      rbind_Inr_iff inbox_done_def\<close>)

lemma inbox_done_steps: "sql_step\<^sup>*\<^sup>* db db' \<Longrightarrow> inbox_done db key \<Longrightarrow> inbox_done db' key"
  by (induction rule: rtranclp_induct) (simp_all add: inbox_done_step)

end
