(* ===== verification/StoreProperties.thy ===== *)
theory StoreProperties
  imports StoreAgreement
begin

section \<open>Properties of the event stores\<close>

text \<open>
  The properties of \<^verbatim>\<open>events.py\<close> and \<^verbatim>\<open>store.py\<close>, each with a witness on the sample data defined first.
\<close>

definition sample_builtins :: builtins where
  "sample_builtins = \<lparr>bi_str = (\<lambda>_. []), bi_int = (\<lambda>_. Inl (TypeError [])),
     bi_dict = (\<lambda>_. Inl (TypeError [])), bi_float = (\<lambda>_. Inl (TypeError [])),
     bi_iter = (\<lambda>_. Inl (TypeError [])), bi_fromiso = (\<lambda>_. Inl (ValueError [])), bi_sha = (\<lambda>_. [])\<rparr>"

definition sample_event :: "string \<Rightarrow> jobject event" where
  "sample_event i = \<lparr>ev_type = ''observed'', ev_source = ''sensor'', ev_payload = [], ev_subject = None,
     ev_id = i, ev_timestamp = Aware 5, ev_correlation_id = None, ev_causation_id = None,
     ev_priority = 0, ev_sequence = None, ev_metadata = [], ev_schema_version = 1\<rparr>"

lemma sample_event_simps [simp]:
  "ev_id (sample_event i) = i" "ev_type (sample_event i) = ''observed''"
  "storable (sample_event i) \<longleftrightarrow> i \<noteq> []" "event_ok (sample_event i)"
  by (simp_all add: sample_event_def storable_def event_ok_iff blank_def is_space_def)

definition sample_stored :: "string \<Rightarrow> jobject event" where
  "sample_stored i = with_sequence (sample_event i) 1"

definition sample_db :: sql_db where
  "sample_db = \<lparr>db_events = [event_to_row (sample_event ''e1'') 1],
     db_outbox = [new_outbox_row sql_initialize (sample_stored ''e1'') ''topic'' (Aware 10)],
     db_inbox = []\<rparr>"

lemma sample_append:
  "append_with_outbox sample_builtins ''f'' (Aware 10) sql_initialize (sample_event ''e1'') ''topic''
    = Inr (sample_stored ''e1'', sample_db)"
  by (simp add: append_with_outbox_def append_sync_def sql_initialize_def sample_db_def
      sql_latest_sequence_def insert_outbox_def sample_stored_def new_outbox_row_def outbox_next_id_def
      Let_def)

lemma sample_reachable: "sql_step\<^sup>*\<^sup>* sql_initialize sample_db"
  using sample_append
  by (intro r_into_rtranclp step_append [of sample_builtins "''f''" "Aware 10" _ "sample_event ''e1''"
      "Some ''topic''" None "sample_stored ''e1''"]) (simp_all add: append_with_outbox_def)

lemma sample_inv: "tables_inv sample_db" "sql_inv sample_db" "outbox_inv sample_db" "inbox_inv sample_db"
  using tables_inv_reachable [OF sample_reachable] by (simp_all add: tables_inv_def)

text \<open>
  C1: from the initialised database, any sequence of store, outbox and inbox operations keeps a
  gapless event log: sequences 1, 2, ... in insertion order, unique event identifiers, every event
  valid; and the outbox holds at most one row per event, each for an event of the log, with
  non-negative fencing tokens.
\<close>

theorem reachable_tables:
  assumes "sql_step\<^sup>*\<^sup>* sql_initialize db"
  shows "map ev_sequence (sql_log db) = map (\<lambda>i. Some (int i)) [1..<Suc (length (db_events db))] \<and>
    distinct (map ev_id (sql_log db)) \<and> list_all event_ok (sql_log db) \<and>
    distinct (map ob_event_id (db_outbox db)) \<and>
    ob_event_id ` set (db_outbox db) \<subseteq> ev_id ` set (sql_log db) \<and>
    list_all (\<lambda>r. 0 \<le> ob_fencing_token r) (db_outbox db)"
  using tables_inv_reachable [OF assms] tables_inv_ids [OF tables_inv_reachable [OF assms]]
  by (simp add: tables_inv_def sql_inv_def outbox_inv_def numbered_def list_all_iff storable_def)
    (simp add: sql_log_def comp_def)

lemma reachable_tables_witness:
  "sql_step\<^sup>*\<^sup>* sql_initialize sample_db \<and> length (db_outbox sample_db) = 1 \<and>
   ob_event_id ` set (db_outbox sample_db) \<subseteq> ev_id ` set (sql_log sample_db)"
  using reachable_tables [OF sample_reachable] sample_reachable by (simp add: sample_db_def)

text \<open>
  Appending is idempotent in the event identifier: after a first append, every further append of
  an event with that identifier returns the stored event and changes no table.
\<close>

theorem append_twice:
  assumes "sql_inv db" "storable e" "sql_append b fresh now db e = Inr (x, db1)" "ev_id e' = ev_id e"
  shows "\<exists>y \<in> set (sql_log db1). ev_id y = ev_id e \<and>
    sql_append b fresh' now' db1 e' = Inr (y, db1)"
proof -
  obtain y where y: "y \<in> set (sql_log db1)" "ev_id y = ev_id e"
    using sql.append_idempotent [OF assms(1-3)] by blast
  have "sql_inv db1" using sql.append_extends [OF assms(1-3)] by simp
  from sql.append_old [OF this y(1), of e' b fresh' now'] y assms(4) show ?thesis by auto
qed

lemma append_twice_witness:
  "sql_append sample_builtins ''g'' (Aware 12) (sample_db\<lparr>db_events := db_events sample_db @
       [event_to_row (sample_event ''e2'') 2]\<rparr>) (sample_event ''e2'')
     = Inr (dump_event (with_sequence (sample_event ''e2'') 2),
         sample_db\<lparr>db_events := db_events sample_db @ [event_to_row (sample_event ''e2'') 2]\<rparr>)"
proof -
  let ?db = "sample_db\<lparr>db_events := db_events sample_db @ [event_to_row (sample_event ''e2'') 2]\<rparr>"
  have first: "sql_append sample_builtins ''f'' (Aware 11) sample_db (sample_event ''e2'')
      = Inr (with_sequence (sample_event ''e2'') 2, ?db)"
    by (simp add: sql_append_def append_sync_def sample_db_def event_to_row_def sql_latest_sequence_def
        insert_outbox_def Let_def)
  have "\<exists>y \<in> set (sql_log ?db). ev_id y = ev_id (sample_event ''e2'') \<and>
      sql_append sample_builtins ''g'' (Aware 12) ?db (sample_event ''e2'') = Inr (y, ?db)"
    by (rule append_twice [OF sample_inv(2) _ first]) simp_all
  then show ?thesis
    by (auto simp: event_of_event_to_row)
      (auto simp: sample_db_def sql_log_def event_to_row_def event_of_row_def)
qed




lemma same_log_initial: "same_log mem_empty sql_initialize"
  using mem_inv_empty sql_inv_initialize
  by (simp add: same_log_def mem_empty_def sql_initialize_def sql_log_def)


text \<open>
  The two stores answer reads alike, for every cursor, non-negative limit and non-empty choice of
  types: the same events in order of sequence, up to the key order of their JSON objects.
\<close>

theorem stores_read_alike:
  assumes "same_log m db" "types \<noteq> Some []" "\<forall>n. limit = Some n \<longrightarrow> 0 \<le> n"
  shows "read_sync b fresh now db after limit types = Inr (map dump_event (mem_read m after limit types))"
proof -
  have "slice_to limit (map dump_event xs) = map dump_event (slice_to limit xs)" for xs
    by (simp add: slice_to_def take_map split: option.splits)
  moreover have "seq0 (dump_event e) = seq0 e" for e
    by (simp add: seq0_def)
  ultimately show ?thesis
    using read_rows [OF _ assms(2,3), of db b fresh now after] assms(1)
    by (cases types) (simp_all add: same_log_def mem_read_def filter_map comp_def)
qed

lemma stores_read_alike_witness:
  "read_sync sample_builtins ''f'' (Aware 10) sql_initialize 0 (Some 5) (Some [''observed'']) = Inr []"
  using stores_read_alike [OF same_log_initial, of "Some [''observed'']" "Some 5" sample_builtins "''f''"
      "Aware 10" 0]
  by (simp add: mem_read_def mem_empty_def slice_to_def)

text \<open>
  The one read on which the stores disagree: for an empty sequence of types the in-memory store
  returns nothing, whereas the SQLite store, which tests \<open>if types:\<close>, applies no filter and returns
  every event of the log.
\<close>

theorem empty_types_disagree:
  assumes "same_log m db"
  shows "mem_read m 0 None (Some []) = [] \<and> read_sync b fresh now db 0 None (Some []) = Inr (sql_log db)"
proof -
  have inv: "sql_inv db" using assms by (simp add: same_log_def)
  have "read_sync b fresh now db 0 None (Some []) = read_sync b fresh now db 0 None None"
    by (simp add: read_sync_def)
  also have "\<dots> = Inr (filter (\<lambda>e. seq0 e > 0) (sql_log db))"
    using read_rows [OF inv, of None None b fresh now 0] by (simp add: slice_to_def)
  also have "\<dots> = Inr (sql_log db)"
    using inv numbered_filter_after [of "sql_log db" 0] by (simp add: sql_inv_def)
  finally show ?thesis by (simp add: mem_read_def slice_to_def)
qed

definition sample_mem :: "jobject mem_store" where
  "sample_mem = snd (mem_append_locked mem_empty (sample_event ''e1''))"

lemma sample_same_log: "same_log sample_mem sample_db"
  using mem_inv_append [OF mem_inv_empty, of "sample_event ''e1''"] sample_inv
  by (simp add: same_log_def sample_mem_def mem_append_locked_def mem_empty_def Let_def sample_db_def
      sql_log_def event_of_event_to_row)

lemma empty_types_disagree_witness:
  "mem_read sample_mem 0 None (Some []) = [] \<and>
   read_sync sample_builtins ''f'' (Aware 10) sample_db 0 None (Some [])
     = Inr [dump_event (with_sequence (sample_event ''e1'') 1)]"
  using empty_types_disagree [OF sample_same_log, of sample_builtins "''f''" "Aware 10"]
  by (simp add: sample_db_def sql_log_def event_of_event_to_row)

text \<open>
  An event survives conversion to a dictionary and back unchanged, whatever its optional fields,
  provided the constructor accepts it and its identifier is not the empty string.
\<close>

theorem event_dict_round_trip:
  assumes "event_ok e" "ev_id e \<noteq> []"
  shows "event_from_dict b fresh now (event_to_dict e) = Inr e"
  by (rule event_from_to_dict [OF assms])

lemma event_dict_round_trip_witness:
  "event_from_dict sample_builtins ''f'' (Aware 10) (event_to_dict (sample_event ''e1''))
    = Inr (sample_event ''e1'')"
  by (rule event_dict_round_trip) simp_all

text \<open>
  An event with an empty identifier is accepted by the constructor but does not survive the
  conversion: reading it back gives it a fresh identifier.
\<close>

theorem empty_event_id_replaced:
  assumes "event_ok e" "ev_id e = []"
  shows "event_from_dict b fresh now (event_to_dict e) = Inr (e\<lparr>ev_id := fresh\<rparr>)"
proof -
  have ok: "check_event (e\<lparr>ev_id := fresh\<rparr>) = Inr ()" and ts: "as_utc (ev_timestamp e) = ev_timestamp e"
    using assms(1) by (simp_all add: event_ok_iff event_ok_def [symmetric] as_utc_aware)
  have collapse: "\<lparr>ev_type = ev_type e, ev_source = ev_source e, ev_payload = ev_payload e,
      ev_subject = ev_subject e, ev_id = fresh, ev_timestamp = ev_timestamp e,
      ev_correlation_id = ev_correlation_id e, ev_causation_id = ev_causation_id e,
      ev_priority = ev_priority e, ev_sequence = ev_sequence e, ev_metadata = ev_metadata e,
      ev_schema_version = ev_schema_version e\<rparr> = e\<lparr>ev_id := fresh\<rparr>"
    by (rule event.equality) simp_all
  show ?thesis
    using assms(2)
    by (simp add: event_from_dict_def jget_event_to_dict opt_str_json_opt opt_int_json_opt ts
        py_str_def py_int_def py_dict_def falsy_def Let_def) (simp only: collapse ok rbind_simps)
qed

lemma empty_event_id_replaced_witness:
  "event_from_dict sample_builtins ''f'' (Aware 10) (event_to_dict (sample_event []))
    = Inr (sample_event ''f'')"
  using empty_event_id_replaced [of "sample_event []" sample_builtins "''f''" "Aware 10"]
  by (simp add: sample_event_def event_ok_iff blank_def is_space_def)

text \<open>
  Whatever upcasters and validators are registered, an event that \<open>normalize\<close> returns is at the
  current version of its type, keeps the identifier and the sequence, and passed the validator of its
  version.
\<close>

theorem normalize_sound:
  assumes "normalize r e = Inr n"
  shows "ev_schema_version n = current_version r (ev_type e) \<and> ev_id n = ev_id e \<and>
    ev_sequence n = ev_sequence e \<and>
    (case map_of (reg_validators r) (ev_type n, ev_schema_version n) of
       None \<Rightarrow> True | Some validate \<Rightarrow> validate n = Inr ())"
  using normalize_result [OF assms] by (simp split: option.split)

definition sample_registry :: "jobject registry" where
  "sample_registry = \<lparr>reg_current = [(''observed'', 2)],
     reg_validators = [((''observed'', 2), \<lambda>e. if ev_payload e = [] then Inl (ValueError []) else Inr ())],
     reg_upcasters = [((''observed'', 1),
       \<lambda>e. Inr (e\<lparr>ev_schema_version := 2, ev_payload := [(''v'', JInt 0)]\<rparr>))]\<rparr>"

lemma normalize_sound_witness:
  "normalize sample_registry (sample_event ''e1'')
     = Inr ((sample_event ''e1'')\<lparr>ev_schema_version := 2, ev_payload := [(''v'', JInt 0)]\<rparr>) \<and>
   ev_schema_version ((sample_event ''e1'')\<lparr>ev_schema_version := 2, ev_payload := [(''v'', JInt 0)]\<rparr>)
     = current_version sample_registry ''observed''"
proof -
  have n: "normalize sample_registry (sample_event ''e1'')
     = Inr ((sample_event ''e1'')\<lparr>ev_schema_version := 2, ev_payload := [(''v'', JInt 0)]\<rparr>)"
    by (simp add: normalize_def current_version_def sample_registry_def sample_event_def
        upcast_loop.simps)
  with normalize_sound [OF n] show ?thesis by simp
qed

text \<open>
  Copying a store into an empty one, in batches of 500 by cursor, terminates and reproduces the
  source: the same events with the same sequences, and the count of events copied.
\<close>

theorem copy_reproduces:
  assumes "mem_inv s"
  shows "copy_events s mem_append mem_empty = Inr (s, length (ms_events s))"
  using copy_loop_mem [OF assms, of 0 0] by (simp add: copy_events_def mem_of_def mem_empty_def)

lemma copy_reproduces_witness:
  "copy_events sample_mem mem_append mem_empty = Inr (sample_mem, 1)"
  using copy_reproduces [of sample_mem] sample_same_log
  by (simp add: same_log_def) (simp add: sample_mem_def mem_append_locked_def mem_empty_def Let_def)

subsection \<open>Outbox and inbox\<close>

lemma not_held_unchanged:
  "count_where p rows \<noteq> 1 \<Longrightarrow> distinct (map ob_id rows) \<Longrightarrow> (\<And>r. p r \<Longrightarrow> ob_id r = k) \<Longrightarrow>
   update_where p f rows = rows"
proof -
  assume c: "count_where p rows \<noteq> 1" and d: "distinct (map ob_id rows)" and p: "\<And>r. p r \<Longrightarrow> ob_id r = k"
  have "\<not> p r" if "r \<in> set rows" for r
  proof
    assume "p r"
    then have "filter p rows = filter (\<lambda>q. p q) (filter (\<lambda>q. ob_id q = ob_id r) rows)"
      using p by (auto intro!: filter_cong)
    also have "\<dots> = [r]"
      using filter_key_unique [OF d that] \<open>p r\<close> by simp
    finally show False using c by (simp add: count_where_def)
  qed
  then show ?thesis by (simp add: update_where_def map_idI)
qed

text \<open>
  C4: a publisher whose outbox claim was superseded is fenced off: once another claim took the
  record, under whatever operations in between, completing or retrying the record with the old token
  reports failure and leaves every table unchanged; and the later claim has the larger token.
\<close>

theorem stale_publisher_fenced:
  assumes "sql_step\<^sup>*\<^sup>* sql_initialize db" "outbox_claimed db k t db1" "sql_step\<^sup>*\<^sup>* db1 db2"
    and "outbox_claimed db2 k t' db3" "sql_step\<^sup>*\<^sup>* db3 db4"
  shows "t < t' \<and> complete_outbox now db4 k t = (False, db4) \<and>
    retry_outbox db4 k t err avail = (False, db4)"
proof -
  have inv: "outbox_inv db" and inv4: "outbox_inv db4"
  proof -
    have "tables_inv db" by (rule tables_inv_reachable [OF assms(1)])
    then show "outbox_inv db" by (simp add: tables_inv_def)
    then show "outbox_inv db4"
      using outbox.tokens_increase [OF _ assms(2,3,4)] outbox.steps_mono [OF assms(5)] by blast
  qed
  note stale = outbox.stale_holder_rejected [OF inv assms(2-5)]
  have "count_where (outbox_held k t) (db_outbox db4) \<noteq> 1"
    using stale [of "snd (complete_outbox now db4 k t)"]
    by (auto simp: outbox_finished_def complete_outbox_def)
  moreover have "update_where (outbox_held k t) f (db_outbox db4) = db_outbox db4"
    if "count_where (outbox_held k t) (db_outbox db4) \<noteq> 1" for f
    by (rule not_held_unchanged [OF that]) (use inv4 in \<open>auto simp: outbox_inv_def outbox_held_def\<close>)
  ultimately show ?thesis
    using outbox.tokens_increase [OF inv assms(2-4)]
    by (simp add: complete_outbox_def retry_outbox_def)
qed

text \<open>A claim evaluated on the sample database, then a second one after the lease ran out.\<close>

definition sample_claim :: "datetime \<Rightarrow> sql_db \<Rightarrow> (outbox_record list \<times> sql_db) result" where
  "sample_claim now db = claim_outbox sample_builtins ''f'' now db ''w'' 10 100"

lemma event_from_sample:
  "i \<noteq> [] \<Longrightarrow> event_from_dict sample_builtins f now (dump_obj (event_to_dict (sample_stored i)))
    = Inr (dump_event (sample_stored i))"
  by (rule event_from_dumped) (simp add: sample_stored_def)

definition sample_row :: "int \<Rightarrow> int \<Rightarrow> outbox_row" where
  "sample_row t until = \<lparr>ob_id = 1, ob_event_id = ''e1'', ob_topic = ''topic'',
     ob_event_json = dump_obj (event_to_dict (sample_stored ''e1'')), ob_attempts = t,
     ob_available_at = Aware 10, ob_lease_owner = Some ''w'', ob_lease_until = Some (Aware until),
     ob_fencing_token = t, ob_last_error = None, ob_created_at = Aware 10, ob_published_at = None\<rparr>"

definition sample_record :: "int \<Rightarrow> outbox_record" where
  "sample_record t = \<lparr>or_id = 1, or_event = dump_event (sample_stored ''e1''), or_topic = ''topic'',
     or_attempts = t, or_fencing_token = t\<rparr>"

lemma sample_claim_first:
  "sample_claim (Aware 20) sample_db
    = Inr ([sample_record 1], sample_db\<lparr>db_outbox := [sample_row 1 120]\<rparr>)"
  by (simp add: sample_claim_def claim_outbox_def sample_db_def outbox_ready_def new_outbox_row_def
      sql_limit_def outbox_record_of_def event_from_sample lease_outbox_row_def update_where_def
      sample_row_def sample_record_def outbox_next_id_def sql_initialize_def sample_stored_def Let_def
      flip: sample_stored_def)
    (simp add: sample_stored_def)

lemma sample_claim_next:
  "u \<le> n \<Longrightarrow> 20 \<le> n \<Longrightarrow> sample_claim (Aware n) (sample_db\<lparr>db_outbox := [sample_row t u]\<rparr>)
    = Inr ([sample_record (t + 1)], sample_db\<lparr>db_outbox := [sample_row (t + 1) (n + 100)]\<rparr>)"
  by (simp add: sample_claim_def claim_outbox_def outbox_ready_def
      sql_limit_def outbox_record_of_def event_from_sample lease_outbox_row_def update_where_def
      sample_row_def sample_record_def Let_def)

lemma sample_claimed:
  "sample_claim now db = Inr ([sample_record t], db') \<Longrightarrow> outbox_claimed db 1 t db'"
  unfolding outbox_claimed_def sample_claim_def
  by (intro exI conjI, assumption) (auto simp: sample_record_def)

lemma stale_publisher_fenced_witness:
  "complete_outbox (Aware 300) (sample_db\<lparr>db_outbox := [sample_row 2 300]\<rparr>) 1 1
    = (False, sample_db\<lparr>db_outbox := [sample_row 2 300]\<rparr>)"
  using stale_publisher_fenced [OF sample_reachable sample_claimed [OF sample_claim_first]
      rtranclp.rtrancl_refl sample_claimed [OF sample_claim_next [of 120 200 1]] rtranclp.rtrancl_refl]
  by simp

text \<open>
  What a claim hands to the publisher: only unpublished rows that are due and not under an
  unexpired lease, each with an event of the log (the one the row was written for), its topic, and
  a token and an attempt count one above the row's.
\<close>

theorem claims_deliver_logged_events:
  assumes "sql_step\<^sup>*\<^sup>* sql_initialize db" "claim_outbox b fresh now db w limit lease = Inr (rs, db')"
    and "rec \<in> set rs"
  shows "\<exists>r \<in> set (db_outbox db). outbox_ready now r \<and> or_id rec = ob_id r \<and> or_topic rec = ob_topic r \<and>
    or_attempts rec = ob_attempts r + 1 \<and> or_fencing_token rec = ob_fencing_token r + 1 \<and>
    ev_id (or_event rec) = ob_event_id r \<and> or_event rec \<in> set (sql_log db)"
  using claimed_record_logged [OF tables_inv_reachable [OF assms(1)] assms(2,3)] claimed_rows_ready by blast

lemma claims_deliver_logged_events_witness:
  "or_event (sample_record 1) \<in> set (sql_log sample_db)"
  using claims_deliver_logged_events [OF sample_reachable sample_claim_first [unfolded sample_claim_def],
      of "sample_record 1"] by auto

text \<open>
  A consumer processes a message to completion once: after its inbox entry was completed, every
  later claim of that message by that consumer answers that it is completed and changes nothing, and
  no completion or retry succeeds, with whatever token.
\<close>

theorem inbox_completion_final:
  assumes "complete_inbox now db m c t = (True, db1)" "sql_step\<^sup>*\<^sup>* db1 db2"
  shows "claim_inbox now' db2 m c lease = (Claim_Completed, db2) \<and>
    complete_inbox now' db2 m c t' = (False, db2) \<and> retry_inbox db2 m c t' err avail = (False, db2)"
proof -
  have "inbox_done db1 (m, c)"
    using assms(1) by (auto simp: complete_inbox_def inbox_done_def dict_simps split: option.splits)
  with assms(2) have "inbox_done db2 (m, c)" by (rule inbox_done_steps)
  then show ?thesis
    by (auto simp: inbox_done_def claim_inbox_def complete_inbox_def retry_inbox_def inbox_held_def
        Let_def split: option.splits)
qed

lemma inbox_completion_final_witness:
  "fst (claim_inbox (Aware 30) (snd (complete_inbox (Aware 20)
      (snd (claim_inbox (Aware 10) sample_db ''m'' ''c'' 60)) ''m'' ''c'' 1)) ''m'' ''c'' 60) = Claim_Completed"
proof -
  let ?db = "snd (claim_inbox (Aware 10) sample_db ''m'' ''c'' 60)"
  have "complete_inbox (Aware 20) ?db ''m'' ''c'' 1 = (True, snd (complete_inbox (Aware 20) ?db ''m'' ''c'' 1))"
    by (simp add: complete_inbox_def inbox_held_def claim_inbox_def sample_db_def Let_def)
  from inbox_completion_final [OF this rtranclp.rtrancl_refl, of "Aware 30" 60] show ?thesis by simp
qed

text \<open>
  While a consumer's lease on a message runs, every other claim of it is answered busy; when the
  lease expired and the entry is due, a claim succeeds with the next token. A crashed consumer thus
  delays a message but never blocks it.
\<close>

theorem inbox_lease_exclusive_then_recoverable:
  assumes "claim_inbox now db m c lease = (Acquired t, db1)"
  shows "(dt_before now' (dt_plus now lease) \<longrightarrow> claim_inbox now' db1 m c lease' = (Claim_Busy, db1)) \<and>
    (\<not> dt_before now' (dt_plus now lease) \<and> \<not> dt_before now' now \<longrightarrow>
       (\<exists>db2. claim_inbox now' db1 m c lease' = (Acquired (t + 1), db2)))"
proof -
  obtain row where row: "map_of (db_inbox db1) (m, c) = Some row" "ib_status row = Processing"
    "ib_lease_until row = Some (dt_plus now lease)" "ib_fencing_token row = t"
    "\<not> dt_before now (ib_available_at row)"
    using assms by (auto simp: claim_inbox_def Let_def dict_simps dt_before_def split: option.splits if_splits)
  then show ?thesis
    by (auto simp: claim_inbox_def Let_def dt_before_def)
qed

lemma inbox_lease_exclusive_then_recoverable_witness:
  "fst (claim_inbox (Aware 40) (snd (claim_inbox (Aware 10) sample_db ''m'' ''c'' 60)) ''m'' ''c'' 60) = Claim_Busy \<and>
   fst (claim_inbox (Aware 70) (snd (claim_inbox (Aware 10) sample_db ''m'' ''c'' 60)) ''m'' ''c'' 60) = Acquired 2"
proof -
  have "claim_inbox (Aware 10) sample_db ''m'' ''c'' 60
      = (Acquired 1, snd (claim_inbox (Aware 10) sample_db ''m'' ''c'' 60))"
    by (simp add: claim_inbox_def sample_db_def)
  from inbox_lease_exclusive_then_recoverable [OF this, of "Aware 40" 60]
    inbox_lease_exclusive_then_recoverable [OF this, of "Aware 70" 60]
  show ?thesis by auto
qed

end
