(* ===== verification/Checkpoints.thy ===== *)
theory Checkpoints
  imports Contracts
begin

section \<open>Consumer checkpoints\<close>

text \<open>
  Models \<^verbatim>\<open>src/noema/checkpoints.py\<close>: the watermark of a consumer of the event log, its canonical event
  and the projection that rebuilds the latest watermark of every consumer. The hash of the canonical
  JSON text, from which the event's identifier is made, is an argument.
\<close>

definition CONSUMER_CHECKPOINT_EVENT :: string where
  "CONSUMER_CHECKPOINT_EVENT = ''runtime.consumer_checkpoint_advanced''"

record checkpoint =
  cp_consumer_id :: string
  cp_last_completed_sequence :: int
  cp_observed_head_sequence :: int
  cp_epoch_id :: "string option"
  cp_event_sequence :: "int option"

definition check_checkpoint :: "checkpoint \<Rightarrow> unit result" where
  "check_checkpoint c = raise_first
     [(blank (cp_consumer_id c), ValueError ''consumer checkpoint requires a non-empty consumer id''),
      (cp_last_completed_sequence c < 0, ValueError ''consumer checkpoint sequence cannot be negative''),
      (cp_observed_head_sequence c < cp_last_completed_sequence c,
       ValueError ''observed event-log head cannot precede completed sequence''),
      (case cp_epoch_id c of None \<Rightarrow> False | Some i \<Rightarrow> blank i,
       ValueError ''consumer checkpoint epoch id must be non-empty when supplied''),
      (case cp_event_sequence c of None \<Rightarrow> False | Some n \<Rightarrow> n \<le> 0,
       ValueError ''checkpoint event sequence must be positive when supplied'')]"

definition processing_lag :: "checkpoint \<Rightarrow> int" where
  "processing_lag c = cp_observed_head_sequence c - cp_last_completed_sequence c"

definition checkpoint_to_dict :: "checkpoint \<Rightarrow> jobject" where
  "checkpoint_to_dict c =
     [(''consumer_id'', JStr (cp_consumer_id c)),
      (''last_completed_sequence'', JInt (cp_last_completed_sequence c)),
      (''observed_head_sequence'', JInt (cp_observed_head_sequence c)),
      (''processing_lag'', JInt (processing_lag c)),
      (''epoch_id'', json_opt JStr (cp_epoch_id c))]"

definition checkpoint_to_event ::
  "(jobject \<Rightarrow> string) \<Rightarrow> checkpoint \<Rightarrow> string \<Rightarrow> datetime \<Rightarrow> string option \<Rightarrow> jobject event result" where
  "checkpoint_to_event sha c source timestamp causation_id =
     (let payload = checkpoint_to_dict c;
          e = \<lparr>ev_type = CONSUMER_CHECKPOINT_EVENT, ev_source = source, ev_payload = payload,
               ev_subject = Some (cp_consumer_id c),
               ev_id = ''consumer-checkpoint:'' @ take 32 (sha payload), ev_timestamp = timestamp,
               ev_correlation_id = None, ev_causation_id = causation_id, ev_priority = 0,
               ev_sequence = None, ev_metadata = [],
               ev_schema_version = CURRENT_EVENT_SCHEMA_VERSION\<rparr>
      in rbind (check_event e) (\<lambda>_. Inr e))"

definition checkpoint_from_event :: "builtins \<Rightarrow> jobject event \<Rightarrow> checkpoint result" where
  "checkpoint_from_event b e =
     (if ev_type e \<noteq> CONSUMER_CHECKPOINT_EVENT
      then Inl (ValueError ''not a consumer checkpoint event'')
      else if ev_sequence e = None
      then Inl (ValueError ''consumer checkpoint must be restored from a canonical event'')
      else
        rbind (jitem (ev_payload e) ''consumer_id'') (\<lambda>cid.
        rbind (rbind (jitem (ev_payload e) ''last_completed_sequence'') (py_int b)) (\<lambda>last.
        rbind (rbind (jitem (ev_payload e) ''observed_head_sequence'') (py_int b)) (\<lambda>head.
        let c = \<lparr>cp_consumer_id = py_str b cid, cp_last_completed_sequence = last,
                 cp_observed_head_sequence = head, cp_epoch_id = opt_str b (ev_payload e) ''epoch_id'',
                 cp_event_sequence = ev_sequence e\<rparr>
        in rbind (check_checkpoint c) (\<lambda>_.
           if ev_subject e \<noteq> Some (cp_consumer_id c)
           then Inl (ValueError ''consumer checkpoint subject does not match its consumer id'')
           else
             rbind (rbind (jitem (ev_payload e) ''processing_lag'') (py_int b)) (\<lambda>lag.
             if lag \<noteq> processing_lag c
             then Inl (ValueError ''consumer checkpoint processing lag is inconsistent'')
             else Inr c))))))"

subsection \<open>The projection\<close>

type_synonym checkpoints = "(string \<times> checkpoint) list"

definition checkpoints_sorted :: "checkpoints \<Rightarrow> checkpoint list" where
  "checkpoints_sorted d = map (the \<circ> map_of d) (sort (map fst d))"

definition checkpoint_get :: "checkpoints \<Rightarrow> string \<Rightarrow> checkpoint option" where
  "checkpoint_get d consumer_id = map_of d consumer_id"

definition checkpoint_apply ::
  "builtins \<Rightarrow> checkpoints \<Rightarrow> jobject event \<Rightarrow> (bool \<times> checkpoints) result" where
  "checkpoint_apply b d e =
     (if ev_type e \<noteq> CONSUMER_CHECKPOINT_EVENT then Inr (False, d)
      else
        rbind (checkpoint_from_event b e) (\<lambda>c.
        let current = map_of d (cp_consumer_id c) in
        rbind (raise_first
          [(case current of None \<Rightarrow> False
              | Some cur \<Rightarrow> cp_last_completed_sequence c < cp_last_completed_sequence cur,
            ValueError ''consumer checkpoint regressed''),
           (case current of None \<Rightarrow> False
              | Some cur \<Rightarrow> cp_observed_head_sequence c < cp_observed_head_sequence cur,
            ValueError ''consumer observed head regressed'')]) (\<lambda>_.
        Inr (True, AList.update (cp_consumer_id c) c d))))"

definition checkpoint_fold :: "builtins \<Rightarrow> checkpoints \<Rightarrow> jobject event \<Rightarrow> checkpoints result" where
  "checkpoint_fold b d e = rbind (checkpoint_apply b d e) (\<lambda>(_, d'). Inr d')"

definition checkpoint_rebuild :: "builtins \<Rightarrow> jobject event list \<Rightarrow> checkpoints result" where
  "checkpoint_rebuild b es = foldM (checkpoint_fold b) [] es"

subsection \<open>Lemmas\<close>

lemma check_checkpoint_ok:
  "check_checkpoint c = Inr () \<longleftrightarrow> \<not> blank (cp_consumer_id c) \<and> 0 \<le> cp_last_completed_sequence c \<and>
     cp_last_completed_sequence c \<le> cp_observed_head_sequence c \<and>
     (\<forall>i. cp_epoch_id c = Some i \<longrightarrow> \<not> blank i) \<and> (\<forall>n. cp_event_sequence c = Some n \<longrightarrow> 0 < n)"
  by (auto simp: check_checkpoint_def split: option.splits)

lemma checkpoint_from_event_sound:
  assumes "checkpoint_from_event b e = Inr c"
  shows "check_checkpoint c = Inr ()" "ev_subject e = Some (cp_consumer_id c)"
    "cp_event_sequence c = ev_sequence e" "ev_sequence e \<noteq> None" "ev_type e = CONSUMER_CHECKPOINT_EVENT"
  using assms by (auto simp: checkpoint_from_event_def Let_def rbind_Inr_iff split: if_splits)

lemma checkpoint_from_to_event:
  assumes "check_checkpoint c = Inr ()" "checkpoint_to_event sha c source t cause = Inr e" "0 < n"
  shows "checkpoint_from_event b (with_sequence e n) = Inr (c\<lparr>cp_event_sequence := Some n\<rparr>)"
proof -
  have e: "ev_type e = CONSUMER_CHECKPOINT_EVENT" "ev_payload e = checkpoint_to_dict c"
    "ev_subject e = Some (cp_consumer_id c)"
    using assms(2) by (auto simp: checkpoint_to_event_def Let_def rbind_Inr_iff)
  have fields: "jitem (checkpoint_to_dict c) ''consumer_id'' = Inr (JStr (cp_consumer_id c))"
    "jitem (checkpoint_to_dict c) ''last_completed_sequence'' = Inr (JInt (cp_last_completed_sequence c))"
    "jitem (checkpoint_to_dict c) ''observed_head_sequence'' = Inr (JInt (cp_observed_head_sequence c))"
    "jitem (checkpoint_to_dict c) ''processing_lag'' = Inr (JInt (processing_lag c))"
    "jget (checkpoint_to_dict c) ''epoch_id'' = json_opt JStr (cp_epoch_id c)"
    by (simp_all add: checkpoint_to_dict_def jitem_def jget_def)
  let ?c = "\<lparr>cp_consumer_id = cp_consumer_id c, cp_last_completed_sequence = cp_last_completed_sequence c,
      cp_observed_head_sequence = cp_observed_head_sequence c, cp_epoch_id = cp_epoch_id c,
      cp_event_sequence = Some n\<rparr>"
  have c: "?c = c\<lparr>cp_event_sequence := Some n\<rparr>" by simp
  have "check_checkpoint ?c = Inr ()"
    using assms(1,3) by (simp add: check_checkpoint_ok)
  then show ?thesis
    by (simp add: checkpoint_from_event_def e fields opt_str_json_opt py_str_def py_int_def Let_def
        processing_lag_def)
qed

lemma checkpoint_apply_cases:
  assumes "checkpoint_apply b d e = Inr (r, d')"
  obtains (skipped) "ev_type e \<noteq> CONSUMER_CHECKPOINT_EVENT" "d' = d" "\<not> r"
  | (applied) c where "r" "checkpoint_from_event b e = Inr c" "d' = AList.update (cp_consumer_id c) c d"
      "\<And>cur. map_of d (cp_consumer_id c) = Some cur \<Longrightarrow>
        cp_last_completed_sequence cur \<le> cp_last_completed_sequence c \<and>
        cp_observed_head_sequence cur \<le> cp_observed_head_sequence c"
proof (cases "ev_type e = CONSUMER_CHECKPOINT_EVENT")
  case True
  with assms obtain c where "checkpoint_from_event b e = Inr c" "r"
    "d' = AList.update (cp_consumer_id c) c d"
    "\<forall>cur. map_of d (cp_consumer_id c) = Some cur \<longrightarrow>
        cp_last_completed_sequence cur \<le> cp_last_completed_sequence c \<and>
        cp_observed_head_sequence cur \<le> cp_observed_head_sequence c"
    by (auto simp: checkpoint_apply_def Let_def rbind_Inr_iff split: option.splits)
  with applied show ?thesis by blast
next
  case False
  with assms skipped show ?thesis by (simp add: checkpoint_apply_def)
qed

definition checkpoints_inv :: "checkpoints \<Rightarrow> bool" where
  "checkpoints_inv d \<longleftrightarrow> distinct (map fst d) \<and>
     (\<forall>k c. map_of d k = Some c \<longrightarrow> cp_consumer_id c = k \<and> check_checkpoint c = Inr () \<and>
        cp_event_sequence c \<noteq> None)"

lemma checkpoints_inv_fold:
  assumes "checkpoints_inv d" "checkpoint_fold b d e = Inr d'"
  shows "checkpoints_inv d'"
proof -
  from assms(2) obtain r where "checkpoint_apply b d e = Inr (r, d')"
    by (auto simp: checkpoint_fold_def rbind_Inr_iff)
  then show ?thesis
  proof (cases rule: checkpoint_apply_cases)
    case (applied c)
    with assms(1) checkpoint_from_event_sound [OF applied(2)] show ?thesis
      by (auto simp: checkpoints_inv_def dict_simps distinct_keys_update split: if_splits)
  qed (use assms(1) in simp)
qed

interpretation checkpoints: projection "[]" "checkpoint_fold b" checkpoints_inv
  by unfold_locales (auto simp: checkpoints_inv_fold, simp add: checkpoints_inv_def)

lemma checkpoint_fold_mono:
  assumes "checkpoint_fold b d e = Inr d'" "map_of d k = Some c"
  shows "\<exists>c'. map_of d' k = Some c' \<and> cp_last_completed_sequence c \<le> cp_last_completed_sequence c' \<and>
    cp_observed_head_sequence c \<le> cp_observed_head_sequence c'"
proof -
  from assms(1) obtain r where "checkpoint_apply b d e = Inr (r, d')"
    by (auto simp: checkpoint_fold_def rbind_Inr_iff)
  then show ?thesis
    by (cases rule: checkpoint_apply_cases) (use assms(2) in \<open>auto simp: dict_simps\<close>)
qed

lemma checkpoint_folds_mono:
  assumes "foldM (checkpoint_fold b) d es = Inr d'" "map_of d k = Some c"
  shows "\<exists>c'. map_of d' k = Some c' \<and> cp_last_completed_sequence c \<le> cp_last_completed_sequence c' \<and>
    cp_observed_head_sequence c \<le> cp_observed_head_sequence c'"
  using assms
proof (induction es arbitrary: d c)
  case (Cons e es)
  then obtain d1 where d1: "checkpoint_fold b d e = Inr d1" "foldM (checkpoint_fold b) d1 es = Inr d'"
    by (auto simp: rbind_Inr_iff)
  obtain c1 where c1: "map_of d1 k = Some c1" "cp_last_completed_sequence c \<le> cp_last_completed_sequence c1"
    "cp_observed_head_sequence c \<le> cp_observed_head_sequence c1"
    using checkpoint_fold_mono [OF d1(1) Cons.prems(2)] by blast
  from Cons.IH [OF d1(2) c1(1)] c1 show ?case by force
qed auto

subsection \<open>Properties\<close>

text \<open>
  A checkpoint survives being written to the log: its event, once it has a sequence number, is
  read back as the same checkpoint with that number as its position.
\<close>

theorem checkpoint_round_trip:
  assumes "check_checkpoint c = Inr ()" "checkpoint_to_event sha c source t cause = Inr e" "0 < n"
  shows "checkpoint_from_event b (with_sequence e n) = Inr (c\<lparr>cp_event_sequence := Some n\<rparr>)"
  by (rule checkpoint_from_to_event [OF assms])

definition sample_checkpoint :: "int \<Rightarrow> checkpoint" where
  "sample_checkpoint n = \<lparr>cp_consumer_id = ''c'', cp_last_completed_sequence = n,
     cp_observed_head_sequence = 9, cp_epoch_id = None, cp_event_sequence = None\<rparr>"

definition sample_cp_event :: "int \<Rightarrow> jobject event" where
  "sample_cp_event n = \<lparr>ev_type = CONSUMER_CHECKPOINT_EVENT, ev_source = ''s'',
     ev_payload = checkpoint_to_dict (sample_checkpoint n), ev_subject = Some ''c'',
     ev_id = ''consumer-checkpoint:h'', ev_timestamp = Aware 1, ev_correlation_id = None,
     ev_causation_id = None, ev_priority = 0, ev_sequence = None, ev_metadata = [],
     ev_schema_version = 1\<rparr>"

lemma sample_cp_event:
  "checkpoint_to_event (\<lambda>_. ''h'') (sample_checkpoint n) ''s'' (Aware 1) None = Inr (sample_cp_event n)"
  by (simp add: checkpoint_to_event_def sample_checkpoint_def sample_cp_event_def check_event_def blank_def
      is_space_def CURRENT_EVENT_SCHEMA_VERSION_def CONSUMER_CHECKPOINT_EVENT_def Let_def)

lemma sample_checkpoint_ok: "0 \<le> n \<Longrightarrow> n \<le> 9 \<Longrightarrow> check_checkpoint (sample_checkpoint n) = Inr ()"
  by (simp add: check_checkpoint_ok sample_checkpoint_def blank_def is_space_def)

lemma checkpoint_round_trip_witness:
  "\<forall>b. checkpoint_from_event b (with_sequence (sample_cp_event 3) 7)
    = Inr ((sample_checkpoint 3)\<lparr>cp_event_sequence := Some 7\<rparr>)"
  by (intro allI checkpoint_round_trip [OF sample_checkpoint_ok sample_cp_event]) simp_all

text \<open>
  Watermarks never go back: when a history was accepted, every consumer that had a checkpoint
  after a prefix of it has one after the whole history, with a completed sequence and an observed head
  at least as large, and a lag that is not negative.
\<close>

theorem checkpoints_monotone:
  assumes "checkpoint_rebuild b es = Inr d" "checkpoint_rebuild b (es @ fs) = Inr d'"
    and "checkpoint_get d consumer = Some c"
  shows "\<exists>c'. checkpoint_get d' consumer = Some c' \<and>
    cp_last_completed_sequence c \<le> cp_last_completed_sequence c' \<and>
    cp_observed_head_sequence c \<le> cp_observed_head_sequence c' \<and> 0 \<le> processing_lag c'"
proof -
  have 1: "foldM (checkpoint_fold b) [] es = Inr d"
    using assms(1) by (simp add: checkpoint_rebuild_def)
  have 2: "foldM (checkpoint_fold b) d fs = Inr d'"
    using assms(2) checkpoints.rebuild_append [OF 1] by (simp add: checkpoint_rebuild_def)
  obtain c' where c': "map_of d' consumer = Some c'"
    "cp_last_completed_sequence c \<le> cp_last_completed_sequence c'"
    "cp_observed_head_sequence c \<le> cp_observed_head_sequence c'"
    using checkpoint_folds_mono [OF 2] assms(3) unfolding checkpoint_get_def by blast
  have "checkpoints_inv d'"
    by (rule checkpoints.inv_rebuild) (use assms(2) in \<open>simp add: checkpoint_rebuild_def\<close>)
  with c' show ?thesis
    by (auto simp: checkpoints_inv_def check_checkpoint_ok processing_lag_def checkpoint_get_def)
qed

lemma sample_cp_apply:
  assumes "0 \<le> n" "n \<le> 9" "0 < s" "\<forall>cur. map_of d ''c'' = Some cur \<longrightarrow>
    cp_last_completed_sequence cur \<le> n \<and> cp_observed_head_sequence cur \<le> 9"
  shows "checkpoint_fold b d (with_sequence (sample_cp_event n) s)
    = Inr (AList.update ''c'' ((sample_checkpoint n)\<lparr>cp_event_sequence := Some s\<rparr>) d)"
  using checkpoint_from_to_event [OF sample_checkpoint_ok [OF assms(1,2)] sample_cp_event assms(3), of b]
    assms(4)
  by (auto simp: checkpoint_fold_def checkpoint_apply_def sample_checkpoint_def sample_cp_event_def
      Let_def split: option.splits)

lemma checkpoints_monotone_witness:
  "checkpoint_get [(''c'', (sample_checkpoint 3)\<lparr>cp_event_sequence := Some 1\<rparr>)] ''c'' \<noteq> None \<and>
   (\<exists>c'. checkpoint_get [(''c'', (sample_checkpoint 5)\<lparr>cp_event_sequence := Some 2\<rparr>)] ''c'' = Some c' \<and>
     3 \<le> cp_last_completed_sequence c' \<and> 9 \<le> cp_observed_head_sequence c' \<and> 0 \<le> processing_lag c')"
proof -
  fix b
  let ?e = "with_sequence (sample_cp_event 3) 1" and ?f = "with_sequence (sample_cp_event 5) 2"
  have 1: "checkpoint_rebuild b [?e] = Inr [(''c'', (sample_checkpoint 3)\<lparr>cp_event_sequence := Some 1\<rparr>)]"
    by (simp add: checkpoint_rebuild_def sample_cp_apply)
  have 2: "checkpoint_rebuild b ([?e] @ [?f]) = Inr [(''c'', (sample_checkpoint 5)\<lparr>cp_event_sequence := Some 2\<rparr>)]"
    by (simp add: checkpoint_rebuild_def sample_cp_apply) (simp add: sample_cp_apply sample_checkpoint_def)
  have 3: "checkpoint_get [(''c'', (sample_checkpoint 3)\<lparr>cp_event_sequence := Some 1\<rparr>)] ''c''
      = Some ((sample_checkpoint 3)\<lparr>cp_event_sequence := Some 1\<rparr>)"
    by (simp add: checkpoint_get_def)
  from checkpoints_monotone [OF 1 2 3] 3 show ?thesis by (simp add: sample_checkpoint_def)
qed

end
