(* ===== verification/Authority.thy ===== *)
theory Authority
  imports Events
begin

section \<open>Authority, policy and trust\<close>

text \<open>
  Models \<^verbatim>\<open>src/noema/authority.py\<close> and the specification and registry of \<^verbatim>\<open>capabilities.py\<close>: action
  intents, the autonomy profile, the policy engine that authorises an intent against a capability,
  and the evidence-weighted trust ledger. The situation a custom rule inspects is a type parameter.
\<close>

subsection \<open>Levels\<close>

datatype authority_level = OBSERVE | PROPOSE | ACT_REVERSIBLE | ACT_IRREVERSIBLE | ADMINISTER

datatype risk_level = NEGLIGIBLE | LOW | MEDIUM | HIGH | CRITICAL

primrec authority_int :: "authority_level \<Rightarrow> int" where
  "authority_int OBSERVE = 0"
| "authority_int PROPOSE = 1"
| "authority_int ACT_REVERSIBLE = 2"
| "authority_int ACT_IRREVERSIBLE = 3"
| "authority_int ADMINISTER = 4"

primrec risk_int :: "risk_level \<Rightarrow> int" where
  "risk_int NEGLIGIBLE = 0"
| "risk_int LOW = 1"
| "risk_int MEDIUM = 2"
| "risk_int HIGH = 3"
| "risk_int CRITICAL = 4"

text \<open>\<open>AuthorityLevel(n)\<close> and \<open>RiskLevel(n)\<close>\<close>

definition authority_of_int :: "int \<Rightarrow> authority_level result" where
  "authority_of_int n =
     (if n = 0 then Inr OBSERVE else if n = 1 then Inr PROPOSE else if n = 2 then Inr ACT_REVERSIBLE
      else if n = 3 then Inr ACT_IRREVERSIBLE else if n = 4 then Inr ADMINISTER
      else Inl (ValueError ''not a valid AuthorityLevel''))"

definition risk_of_int :: "int \<Rightarrow> risk_level result" where
  "risk_of_int n =
     (if n = 0 then Inr NEGLIGIBLE else if n = 1 then Inr LOW else if n = 2 then Inr MEDIUM
      else if n = 3 then Inr HIGH else if n = 4 then Inr CRITICAL
      else Inl (ValueError ''not a valid RiskLevel''))"

lemma level_of_int [simp]: "authority_of_int (authority_int a) = Inr a" "risk_of_int (risk_int r) = Inr r"
  by (cases a; simp add: authority_of_int_def) (cases r; simp add: risk_of_int_def)

lemma level_int_inj: "authority_int a = authority_int a' \<longleftrightarrow> a = a'" "risk_int r = risk_int r' \<longleftrightarrow> r = r'"
  by (cases a; cases a'; simp) (cases r; cases r'; simp)

instantiation authority_level :: linorder
begin

definition less_authority_level :: "authority_level \<Rightarrow> authority_level \<Rightarrow> bool" where
  "a < b \<longleftrightarrow> authority_int a < authority_int b"

definition less_eq_authority_level :: "authority_level \<Rightarrow> authority_level \<Rightarrow> bool" where
  "a \<le> b \<longleftrightarrow> authority_int a \<le> authority_int b"

instance
  by intro_classes (auto simp: less_authority_level_def less_eq_authority_level_def level_int_inj)

end

instantiation risk_level :: linorder
begin

definition less_risk_level :: "risk_level \<Rightarrow> risk_level \<Rightarrow> bool" where
  "a < b \<longleftrightarrow> risk_int a < risk_int b"

definition less_eq_risk_level :: "risk_level \<Rightarrow> risk_level \<Rightarrow> bool" where
  "a \<le> b \<longleftrightarrow> risk_int a \<le> risk_int b"

instance
  by intro_classes (auto simp: less_risk_level_def less_eq_risk_level_def level_int_inj)

end

lemmas level_order_defs = less_authority_level_def less_eq_authority_level_def
  less_risk_level_def less_eq_risk_level_def

subsection \<open>Intents, capabilities and profiles\<close>

record action_intent =
  ai_capability :: string
  ai_arguments :: jobject
  ai_rationale :: string
  ai_expected_value :: pyfloat
  ai_information_value :: pyfloat
  ai_risk_reduction :: pyfloat
  ai_attention_cost :: pyfloat
  ai_switching_cost :: pyfloat
  ai_branch_cost :: pyfloat
  ai_risk :: risk_level
  ai_reversible :: bool
  ai_required_authority :: authority_level
  ai_confidence :: pyfloat
  ai_alternatives :: "string list"
  ai_falsifiers :: "string list"
  ai_idempotency_key :: "string option"
  ai_intent_id :: string
  ai_metadata :: jobject

definition check_intent :: "action_intent \<Rightarrow> unit result" where
  "check_intent i = raise_first
     [(ai_capability i = [], ValueError ''action intent requires a capability''),
      (\<not> (0 \<le> ai_confidence i \<and> ai_confidence i \<le> 1), ValueError ''confidence must be between 0 and 1''),
      (ai_attention_cost i < 0, ValueError ''attention_cost cannot be negative'')]"

definition intent_to_payload :: "action_intent \<Rightarrow> jobject" where
  "intent_to_payload i =
     [(''intent_id'', JStr (ai_intent_id i)), (''capability'', JStr (ai_capability i)),
      (''arguments'', JObj (ai_arguments i)), (''rationale'', JStr (ai_rationale i)),
      (''expected_value'', JFloat (ai_expected_value i)),
      (''information_value'', JFloat (ai_information_value i)),
      (''risk_reduction'', JFloat (ai_risk_reduction i)),
      (''attention_cost'', JFloat (ai_attention_cost i)),
      (''switching_cost'', JFloat (ai_switching_cost i)),
      (''branch_cost'', JFloat (ai_branch_cost i)),
      (''risk'', JInt (risk_int (ai_risk i))), (''reversible'', JBool (ai_reversible i)),
      (''required_authority'', JInt (authority_int (ai_required_authority i))),
      (''confidence'', JFloat (ai_confidence i)),
      (''alternatives'', JList (map JStr (ai_alternatives i))),
      (''falsifiers'', JList (map JStr (ai_falsifiers i))),
      (''idempotency_key'', json_opt JStr (ai_idempotency_key i)),
      (''metadata'', JObj (ai_metadata i))]"

record capability_spec =
  cs_name :: string
  cs_description :: string
  cs_input_schema :: jobject
  cs_output_schema :: jobject
  cs_risk_level :: risk_level
  cs_reversible :: bool
  cs_idempotent :: bool
  cs_required_authority :: authority_level
  cs_timeout_seconds :: pyfloat
  cs_max_retries :: int
  cs_tags :: "string list"

definition check_capability_spec :: "capability_spec \<Rightarrow> unit result" where
  "check_capability_spec s = raise_first
     [(cs_name s = [], ValueError ''capability name must be non-empty''),
      (cs_timeout_seconds s \<le> 0, ValueError ''capability timeout must be positive''),
      (cs_max_retries s < 0, ValueError ''max_retries cannot be negative'')]"

text \<open>The registry maps a name to a capability, its specification with whatever implements it.\<close>

type_synonym 'c capabilities = "(string \<times> (capability_spec \<times> 'c)) list"

definition register_capability ::
  "'c capabilities \<Rightarrow> capability_spec \<times> 'c \<Rightarrow> bool \<Rightarrow> 'c capabilities result" where
  "register_capability d c replace =
     (let name = cs_name (fst c) in
      if map_of d name \<noteq> None \<and> \<not> replace then Inl (ValueError ''capability already registered'')
      else Inr (AList.update name c d))"

definition get_capability :: "'c capabilities \<Rightarrow> string \<Rightarrow> (capability_spec \<times> 'c) result" where
  "get_capability d name =
     (case map_of d name of None \<Rightarrow> Inl (KeyError ''unknown capability'') | Some c \<Rightarrow> Inr c)"

definition capability_specs :: "'c capabilities \<Rightarrow> capability_spec list" where
  "capability_specs d = map (fst \<circ> snd) d"

record autonomy_profile =
  ap_authority_ceiling :: authority_level
  ap_max_risk :: risk_level
  ap_allow_irreversible :: bool
  ap_min_confidence :: pyfloat
  ap_max_attention_per_action :: pyfloat
  ap_require_falsifiers_above_risk :: risk_level

definition default_profile :: autonomy_profile where
  "default_profile = \<lparr>ap_authority_ceiling = ACT_REVERSIBLE, ap_max_risk = MEDIUM,
     ap_allow_irreversible = False, ap_min_confidence = Fin (1/2),
     ap_max_attention_per_action = Fin 20, ap_require_falsifiers_above_risk = HIGH\<rparr>"

definition sovereign :: autonomy_profile where
  "sovereign = \<lparr>ap_authority_ceiling = ADMINISTER, ap_max_risk = CRITICAL,
     ap_allow_irreversible = True, ap_min_confidence = Fin 0,
     ap_max_attention_per_action = PosInf, ap_require_falsifiers_above_risk = CRITICAL\<rparr>"

subsection \<open>The policy engine\<close>

record authorization =
  az_allowed :: bool
  az_reason :: string
  az_effective_authority :: authority_level
  az_effective_risk :: risk_level

type_synonym 's policy_rule = "action_intent \<Rightarrow> capability_spec \<Rightarrow> 's \<Rightarrow> string option"

record 's policy_engine =
  pe_profile :: autonomy_profile
  pe_rules :: "'s policy_rule list"

definition add_rule :: "'s policy_engine \<Rightarrow> 's policy_rule \<Rightarrow> 's policy_engine" where
  "add_rule p r = p\<lparr>pe_rules := pe_rules p @ [r]\<rparr>"

text \<open>The loop over the custom rules: the first non-empty denial.\<close>

fun first_denial :: "'s policy_rule list \<Rightarrow> action_intent \<Rightarrow> capability_spec \<Rightarrow> 's \<Rightarrow> string option" where
  "first_denial [] i c s = None"
| "first_denial (r # rs) i c s =
     (case r i c s of
        Some d \<Rightarrow> if d = [] then first_denial rs i c s else Some d
      | None \<Rightarrow> first_denial rs i c s)"

definition authorize ::
  "'s policy_engine \<Rightarrow> action_intent \<Rightarrow> capability_spec \<Rightarrow> 's \<Rightarrow> authorization" where
  "authorize p i c s =
     (let auth = max (ai_required_authority i) (cs_required_authority c);
          risk = max (ai_risk i) (cs_risk_level c);
          reversible = (ai_reversible i \<and> cs_reversible c);
          profile = pe_profile p;
          deny = (\<lambda>why. \<lparr>az_allowed = False, az_reason = why, az_effective_authority = auth,
                          az_effective_risk = risk\<rparr>)
      in if auth > ap_authority_ceiling profile
         then deny ''required authority exceeds agent authority ceiling''
         else if risk > ap_max_risk profile
         then deny ''effective risk exceeds agent risk ceiling''
         else if \<not> reversible \<and> \<not> ap_allow_irreversible profile
         then deny ''irreversible actions are disabled by the autonomy profile''
         else if ai_confidence i < ap_min_confidence profile
         then deny ''intent confidence is below the autonomy threshold''
         else if ai_attention_cost i > ap_max_attention_per_action profile
         then deny ''action exceeds the per-action attention budget''
         else if risk \<ge> ap_require_falsifiers_above_risk profile \<and> ai_falsifiers i = []
         then deny ''high-risk actions require explicit falsifiers''
         else (case first_denial (pe_rules p) i c s of
             Some d \<Rightarrow> deny d
           | None \<Rightarrow> \<lparr>az_allowed = True, az_reason = ''authorized'', az_effective_authority = auth,
                      az_effective_risk = risk\<rparr>))"

subsection \<open>Trust\<close>

record trust_estimate =
  te_successes :: pyfloat
  te_failures :: pyfloat

definition prior_trust :: trust_estimate where
  "prior_trust = \<lparr>te_successes = 1, te_failures = 1\<rparr>"

definition trust_mean :: "trust_estimate \<Rightarrow> pyfloat result" where
  "trust_mean t = py_div (te_successes t) (te_successes t + te_failures t)"

definition trust_evidence :: "trust_estimate \<Rightarrow> pyfloat" where
  "trust_evidence t = te_successes t + te_failures t - Fin 2"

definition trust_variance :: "trust_estimate \<Rightarrow> pyfloat result" where
  "trust_variance t = (let total = te_successes t + te_failures t in
     py_div (te_successes t * te_failures t) (total * total * (total + 1)))"

definition conservative_bound :: "trust_estimate \<Rightarrow> pyfloat result" where
  "conservative_bound t =
     rbind (trust_mean t) (\<lambda>m. rbind (rbind (trust_variance t) py_sqrt) (\<lambda>s.
       Inr (py_max 0 (m - Fin 2 * s))))"

definition trust_updated :: "trust_estimate \<Rightarrow> bool \<Rightarrow> pyfloat \<Rightarrow> trust_estimate result" where
  "trust_updated t success weight =
     (if weight \<le> 0 then Inl (ValueError ''weight must be positive'')
      else if success then Inr (t\<lparr>te_successes := te_successes t + weight\<rparr>)
      else Inr (t\<lparr>te_failures := te_failures t + weight\<rparr>))"

type_synonym trust_ledger = "((string \<times> string) \<times> trust_estimate) list"

definition trust_of :: "trust_ledger \<Rightarrow> string \<Rightarrow> string \<Rightarrow> trust_estimate" where
  "trust_of d actor domain = (case map_of d (actor, domain) of None \<Rightarrow> prior_trust | Some t \<Rightarrow> t)"

definition trust_record ::
  "trust_ledger \<Rightarrow> string \<Rightarrow> string \<Rightarrow> bool \<Rightarrow> pyfloat \<Rightarrow> (trust_estimate \<times> trust_ledger) result" where
  "trust_record d actor domain success weight =
     rbind (trust_updated (trust_of d actor domain) success weight) (\<lambda>t.
       Inr (t, AList.update (actor, domain) t d))"

definition recommended_authority ::
  "trust_ledger \<Rightarrow> string \<Rightarrow> string \<Rightarrow> bool \<Rightarrow> risk_level \<Rightarrow> authority_level result" where
  "recommended_authority d actor domain reversible risk =
     rbind (conservative_bound (trust_of d actor domain)) (\<lambda>score. Inr (
       if score < Fin (35/100) then OBSERVE
       else if score < Fin (55/100) then PROPOSE
       else if reversible \<and> Fin (55/100) \<le> score \<and> risk \<le> MEDIUM then ACT_REVERSIBLE
       else if Fin (85/100) \<le> score \<and> risk \<le> HIGH then ACT_IRREVERSIBLE
       else PROPOSE))"

subsection \<open>Lemmas\<close>

lemma first_denial_None:
  "first_denial rs i c s = None \<longleftrightarrow> (\<forall>r \<in> set rs. r i c s = None \<or> r i c s = Some [])"
  by (induction rs) (auto split: option.splits)

lemma authorize_allowed_iff:
  "az_allowed (authorize p i c s) \<longleftrightarrow>
     ai_required_authority i \<le> ap_authority_ceiling (pe_profile p) \<and>
     cs_required_authority c \<le> ap_authority_ceiling (pe_profile p) \<and>
     ai_risk i \<le> ap_max_risk (pe_profile p) \<and> cs_risk_level c \<le> ap_max_risk (pe_profile p) \<and>
     (ap_allow_irreversible (pe_profile p) \<or> ai_reversible i \<and> cs_reversible c) \<and>
     \<not> ai_confidence i < ap_min_confidence (pe_profile p) \<and>
     \<not> ap_max_attention_per_action (pe_profile p) < ai_attention_cost i \<and>
     (ai_falsifiers i \<noteq> [] \<or> ai_risk i < ap_require_falsifiers_above_risk (pe_profile p) \<and>
        cs_risk_level c < ap_require_falsifiers_above_risk (pe_profile p)) \<and>
     (\<forall>r \<in> set (pe_rules p). r i c s = None \<or> r i c s = Some [])"
  unfolding first_denial_None [symmetric] authorize_def
  by (auto simp: Let_def not_less le_max_iff_disj less_max_iff_disj split: option.splits)

text \<open>The score of an estimate with \<open>a\<close> successes and \<open>b\<close> failures.\<close>

definition trust_score :: "real \<Rightarrow> real \<Rightarrow> real" where
  "trust_score a b = max 0 (a / (a + b) - 2 * sqrt (a * b / ((a + b) * (a + b) * (a + b + 1))))"

lemma conservative_bound_ok:
  assumes "1 \<le> a" "1 \<le> b"
  shows "conservative_bound \<lparr>te_successes = Fin a, te_failures = Fin b\<rparr> = Inr (Fin (trust_score a b))"
proof -
  have n: "a + b \<noteq> 0" "(a + b) * (a + b) * (a + b + 1) \<noteq> 0"
    using assms by auto
  have v: "0 \<le> a * b / ((a + b) * (a + b) * (a + b + 1))"
    using assms by (intro divide_nonneg_nonneg mult_nonneg_nonneg) auto
  show ?thesis
    unfolding conservative_bound_def trust_mean_def trust_variance_def Let_def trust_score_def
    by (simp only: trust_estimate.simps pyfloat_Fin_simps pyfloat_zero_one py_div_Fin [OF n(1)]
        py_div_Fin [OF n(2)] py_sqrt_Fin [OF v] rbind_simps py_min_max_Fin)
qed

lemma trust_score_le: "1 \<le> a \<Longrightarrow> 1 \<le> b \<Longrightarrow> 0 \<le> trust_score a b \<and> trust_score a b \<le> a / (a + b)"
  by (auto simp: trust_score_def)

text \<open>Recorded evidence, and the estimate it leads to.\<close>

type_synonym evidence = "(string \<times> string) \<times> bool \<times> real"

definition record_evidence :: "trust_ledger \<Rightarrow> evidence \<Rightarrow> trust_ledger result" where
  "record_evidence d e = (case e of ((actor, domain), success, weight) \<Rightarrow>
     rbind (trust_record d actor domain success (Fin weight)) (\<lambda>(_, d'). Inr d'))"

fun evidence_sum :: "string \<times> string \<Rightarrow> bool \<Rightarrow> evidence list \<Rightarrow> real" where
  "evidence_sum k outcome [] = 0"
| "evidence_sum k outcome ((k', success, w) # es) =
     (if k' = k \<and> success = outcome then w else 0) + evidence_sum k outcome es"

lemma evidence_sum_nonneg: "\<forall>(_, _, w) \<in> set es. 0 < w \<Longrightarrow> 0 \<le> evidence_sum k outcome es"
  by (induction k outcome es rule: evidence_sum.induct) auto

lemma record_evidence_estimate:
  assumes "0 < w" "trust_of d (fst k) (snd k) = \<lparr>te_successes = Fin a, te_failures = Fin b\<rparr>"
    and "trust_of d (fst k') (snd k') = \<lparr>te_successes = Fin a', te_failures = Fin b'\<rparr>"
  shows "\<exists>d'. record_evidence d (k', ok, w) = Inr d' \<and> trust_of d' (fst k) (snd k)
    = \<lparr>te_successes = Fin (a + (if k' = k \<and> ok then w else 0)),
       te_failures = Fin (b + (if k' = k \<and> \<not> ok then w else 0))\<rparr>"
  using assms
  by (cases k; cases k'; cases ok)
    (auto simp: record_evidence_def trust_record_def trust_updated_def pyfloat_zero_one
      trust_of_def dict_simps)

lemma trust_of_fresh: "trust_of [] actor domain = \<lparr>te_successes = Fin 1, te_failures = Fin 1\<rparr>"
  by (simp add: trust_of_def prior_trust_def pyfloat_zero_one)

lemma record_evidence_all:
  assumes "\<forall>(_, _, w) \<in> set es. 0 < w"
    and "\<forall>k. \<exists>a b. trust_of d (fst k) (snd k) = \<lparr>te_successes = Fin a, te_failures = Fin b\<rparr>"
  shows "\<exists>d'. foldM record_evidence d es = Inr d' \<and> (\<forall>k a b.
    trust_of d (fst k) (snd k) = \<lparr>te_successes = Fin a, te_failures = Fin b\<rparr> \<longrightarrow>
    trust_of d' (fst k) (snd k) = \<lparr>te_successes = Fin (a + evidence_sum k True es),
      te_failures = Fin (b + evidence_sum k False es)\<rparr>)"
  using assms
proof (induction es arbitrary: d)
  case (Cons e es)
  obtain k' ok w where e: "e = (k', ok, w)" by (cases e)
  obtain a' b' where k': "trust_of d (fst k') (snd k') = \<lparr>te_successes = Fin a', te_failures = Fin b'\<rparr>"
    using Cons.prems(2) by blast
  have w: "0 < w" using Cons.prems(1) e by simp
  obtain d1 where d1: "record_evidence d e = Inr d1"
    using record_evidence_estimate [OF w k' k'] e by blast
  have step: "trust_of d1 (fst k) (snd k)
      = \<lparr>te_successes = Fin (a + (if k' = k \<and> ok then w else 0)),
         te_failures = Fin (b + (if k' = k \<and> \<not> ok then w else 0))\<rparr>"
    if "trust_of d (fst k) (snd k) = \<lparr>te_successes = Fin a, te_failures = Fin b\<rparr>" for k a b
    using record_evidence_estimate [OF w that k', of ok] d1 e by simp
  have "\<forall>k. \<exists>a b. trust_of d1 (fst k) (snd k) = \<lparr>te_successes = Fin a, te_failures = Fin b\<rparr>"
    using step Cons.prems(2) by blast
  then obtain d' where d': "foldM record_evidence d1 es = Inr d'"
    "\<And>k a b. trust_of d1 (fst k) (snd k) = \<lparr>te_successes = Fin a, te_failures = Fin b\<rparr> \<Longrightarrow>
      trust_of d' (fst k) (snd k) = \<lparr>te_successes = Fin (a + evidence_sum k True es),
        te_failures = Fin (b + evidence_sum k False es)\<rparr>"
    using Cons.IH [of d1] Cons.prems(1) by auto
  have "foldM record_evidence d (e # es) = Inr d'" using d1 d'(1) by simp
  moreover have "trust_of d' (fst k) (snd k) = \<lparr>te_successes = Fin (a + evidence_sum k True (e # es)),
        te_failures = Fin (b + evidence_sum k False (e # es))\<rparr>"
    if "trust_of d (fst k) (snd k) = \<lparr>te_successes = Fin a, te_failures = Fin b\<rparr>" for k a b
    using d'(2) [OF step [OF that]] e by (simp add: add.assoc)
  ultimately show ?case by blast
qed simp

lemma trust_of_evidence:
  assumes "\<forall>(_, _, w) \<in> set es. 0 < w"
  obtains d where "foldM record_evidence [] es = Inr d"
    "\<And>k. trust_of d (fst k) (snd k) = \<lparr>te_successes = Fin (1 + evidence_sum k True es),
        te_failures = Fin (1 + evidence_sum k False es)\<rparr>"
  using record_evidence_all [OF assms, of "[]"] trust_of_fresh by auto

subsection \<open>Properties\<close>


definition sample_intent :: action_intent where
  "sample_intent = \<lparr>ai_capability = ''deploy'', ai_arguments = [], ai_rationale = [],
     ai_expected_value = Fin 5, ai_information_value = Fin 0, ai_risk_reduction = Fin 0,
     ai_attention_cost = Fin 1, ai_switching_cost = Fin 0, ai_branch_cost = Fin 0, ai_risk = LOW,
     ai_reversible = True, ai_required_authority = ACT_REVERSIBLE, ai_confidence = Fin (3/4),
     ai_alternatives = [], ai_falsifiers = [], ai_idempotency_key = None, ai_intent_id = ''i1'',
     ai_metadata = []\<rparr>"

definition sample_spec :: capability_spec where
  "sample_spec = \<lparr>cs_name = ''deploy'', cs_description = [], cs_input_schema = [], cs_output_schema = [],
     cs_risk_level = LOW, cs_reversible = True, cs_idempotent = False,
     cs_required_authority = ACT_REVERSIBLE, cs_timeout_seconds = Fin 30, cs_max_retries = 0,
     cs_tags = []\<rparr>"


definition at_least_as_permissive :: "autonomy_profile \<Rightarrow> autonomy_profile \<Rightarrow> bool" where
  "at_least_as_permissive q p \<longleftrightarrow>
     ap_authority_ceiling p \<le> ap_authority_ceiling q \<and> ap_max_risk p \<le> ap_max_risk q \<and>
     (ap_allow_irreversible p \<longrightarrow> ap_allow_irreversible q) \<and>
     ap_min_confidence q \<le> ap_min_confidence p \<and>
     ap_max_attention_per_action p \<le> ap_max_attention_per_action q \<and>
     ap_require_falsifiers_above_risk p \<le> ap_require_falsifiers_above_risk q"

text \<open>
  Restricting can only deny: whatever a profile and a list of rules allow is also allowed by every
  profile at least as permissive in each respect with a sublist of the rules; in particular adding a
  rule never allows a denied action.
\<close>

theorem authorize_monotone:
  assumes "at_least_as_permissive q p" "set rs' \<subseteq> set rs"
    and "az_allowed (authorize \<lparr>pe_profile = p, pe_rules = rs\<rparr> i c s)"
  shows "az_allowed (authorize \<lparr>pe_profile = q, pe_rules = rs'\<rparr> i c s)"
proof -
  have q: "ap_authority_ceiling p \<le> ap_authority_ceiling q" "ap_max_risk p \<le> ap_max_risk q"
    "ap_allow_irreversible p \<Longrightarrow> ap_allow_irreversible q"
    "ap_min_confidence q \<le> ap_min_confidence p"
    "ap_max_attention_per_action p \<le> ap_max_attention_per_action q"
    "ap_require_falsifiers_above_risk p \<le> ap_require_falsifiers_above_risk q"
    using assms(1) by (auto simp: at_least_as_permissive_def)
  have "\<not> ai_confidence i < ap_min_confidence q"
    using assms(3) pyfloat_trans(1) [OF _ q(4)] by (auto simp: authorize_allowed_iff)
  moreover have "\<not> ap_max_attention_per_action q < ai_attention_cost i"
    using assms(3) pyfloat_trans(2) [OF q(5)] by (auto simp: authorize_allowed_iff)
  ultimately show ?thesis
    using assms(2,3) q by (simp add: authorize_allowed_iff) (meson order_trans less_le_trans subsetD)
qed

lemma authorize_monotone_witness:
  "az_allowed (authorize \<lparr>pe_profile = sovereign, pe_rules = []\<rparr> sample_intent sample_spec ())"
proof (rule authorize_monotone [of _ default_profile _ "[]"])
  show "at_least_as_permissive sovereign default_profile"
    by (simp add: at_least_as_permissive_def sovereign_def default_profile_def level_order_defs)
  show "az_allowed (authorize \<lparr>pe_profile = default_profile, pe_rules = []\<rparr> sample_intent sample_spec ())"
    by (simp add: authorize_allowed_iff default_profile_def sample_intent_def sample_spec_def
        level_order_defs)
qed simp

text \<open>
  C6: trust follows the evidence: after any history of recorded outcomes with positive weights, the
  authority recommended for an actor is computed without error, is never \<open>ADMINISTER\<close>, and lets the
  actor act only when at least 55 percent of its weighted outcomes in that domain, prior included, were
  successes and the risk is at most high; acting irreversibly needs 85 percent. An actor without
  evidence may only observe.
\<close>

theorem trust_follows_evidence:
  assumes "\<forall>(_, _, w) \<in> set es. 0 < w" "foldM record_evidence [] es = Inr d"
    and "good = 1 + evidence_sum (actor, domain) True es"
    and "bad = 1 + evidence_sum (actor, domain) False es"
  shows "\<exists>level. recommended_authority d actor domain reversible risk = Inr level \<and>
    level < ADMINISTER \<and>
    (ACT_REVERSIBLE \<le> level \<longrightarrow> risk \<le> HIGH \<and> good / (good + bad) \<ge> 55/100) \<and>
    (level = ACT_IRREVERSIBLE \<longrightarrow> good / (good + bad) \<ge> 85/100) \<and>
    (good = 1 \<and> bad = 1 \<longrightarrow> level = OBSERVE)"
proof -
  have t: "trust_of d actor domain = \<lparr>te_successes = Fin good, te_failures = Fin bad\<rparr>"
    using trust_of_evidence [OF assms(1)] assms(2) by (metis Inr_inject fst_conv assms(3,4) snd_conv)
  have g: "1 \<le> good" "1 \<le> bad"
    using evidence_sum_nonneg [OF assms(1)] by (simp_all add: assms(3,4))
  have le: "trust_score good bad \<le> good / (good + bad)"
    using trust_score_le [OF g] by simp
  have fresh: "trust_score 1 1 = 0"
  proof -
    have "1/16 \<le> (1::real)/12" by simp
    then have "sqrt (1/16) \<le> sqrt ((1::real)/12)" by (rule real_sqrt_le_mono)
    moreover have "sqrt (1/16) = (1/4::real)" by (rule real_sqrt_unique) (simp_all add: power2_eq_square)
    ultimately show ?thesis by (simp add: trust_score_def)
  qed
  define mean where "mean = good / (good + bad)"
  show ?thesis
    using le fresh unfolding mean_def [symmetric]
    by (auto simp: recommended_authority_def t conservative_bound_ok [OF g] level_order_defs)
qed

lemma trust_follows_evidence_witness:
  "\<exists>level d. foldM record_evidence [] [((''a'', ''x''), True, 1)] = Inr d \<and>
    recommended_authority d ''b'' ''x'' True LOW = Inr level \<and> level = OBSERVE"
proof -
  let ?es = "[((''a'', ''x''), True, 1 :: real)]"
  have w: "\<forall>(_, _, w) \<in> set ?es. 0 < w" by simp
  obtain d where d: "foldM record_evidence [] ?es = Inr d"
    using trust_of_evidence [OF w] by blast
  from trust_follows_evidence [OF w d, of 1 "''b''" "''x''" 1 True LOW] d show ?thesis by auto
qed

end
