(* ===== verification/Attention.thy ===== *)
theory Attention
  imports Prelude
begin

section \<open>Attention: portfolio selection and the concurrent budget\<close>

text \<open>
  Models \<^verbatim>\<open>src/noema/attention.py\<close>: the allocator's score and greedy selection, and the attention
  account with its leases. The clock is an argument. The account's methods run under its lock, so each
  is one step.
\<close>

subsection \<open>The allocator\<close>

record 'p work_item =
  wi_key :: string
  wi_impact :: pyfloat
  wi_urgency :: pyfloat
  wi_information_value :: pyfloat
  wi_risk_reduction :: pyfloat
  wi_maintenance_value :: pyfloat
  wi_attention_cost :: pyfloat
  wi_switching_cost :: pyfloat
  wi_branch_cost :: pyfloat
  wi_deadline :: "datetime option"
  wi_payload :: 'p

text \<open>A naive deadline is read as UTC.\<close>

definition overdue :: "datetime \<Rightarrow> 'p work_item \<Rightarrow> bool" where
  "overdue now i = (case wi_deadline i of None \<Rightarrow> False | Some d \<Rightarrow> instant d \<le> instant now)"

record attention_weights =
  aw_impact :: pyfloat
  aw_urgency :: pyfloat
  aw_information_value :: pyfloat
  aw_risk_reduction :: pyfloat
  aw_maintenance_value :: pyfloat
  aw_switching_cost :: pyfloat
  aw_branch_cost :: pyfloat
  aw_overdue_bonus :: pyfloat

definition default_weights :: attention_weights where
  "default_weights = \<lparr>aw_impact = Fin 1, aw_urgency = Fin 1, aw_information_value = Fin (8/10),
     aw_risk_reduction = Fin 1, aw_maintenance_value = Fin (7/10), aw_switching_cost = Fin 1,
     aw_branch_cost = Fin 1, aw_overdue_bonus = Fin 1000\<rparr>"

definition score :: "attention_weights \<Rightarrow> datetime \<Rightarrow> 'p work_item \<Rightarrow> pyfloat" where
  "score w now i =
     (let benefit = aw_impact w * wi_impact i + aw_urgency w * wi_urgency i
            + aw_information_value w * wi_information_value i
            + aw_risk_reduction w * wi_risk_reduction i
            + aw_maintenance_value w * wi_maintenance_value i;
          cost = wi_attention_cost i + aw_switching_cost w * wi_switching_cost i
            + aw_branch_cost w * wi_branch_cost i
      in benefit - cost + (if overdue now i then aw_overdue_bonus w else 0))"

text \<open>The sort key and its comparison: overdue first, then score per cost, then score, descending.\<close>

definition score_density :: "attention_weights \<Rightarrow> datetime \<Rightarrow> 'p work_item \<Rightarrow> pyfloat" where
  "score_density w now i = fdiv (score w now i) (py_max (wi_attention_cost i) (Fin (1/1000000000)))"

definition ranks_before :: "attention_weights \<Rightarrow> datetime \<Rightarrow> 'p work_item \<Rightarrow> 'p work_item \<Rightarrow> bool" where
  "ranks_before w now a b =
     (if overdue now a \<noteq> overdue now b then overdue now a
      else if score_density w now a \<noteq> score_density w now b
      then score_density w now b < score_density w now a
      else score w now b < score w now a)"

fun take_affordable ::
  "attention_weights \<Rightarrow> datetime \<Rightarrow> 'p work_item list \<Rightarrow> pyfloat \<Rightarrow> 'p work_item list" where
  "take_affordable w now [] remaining = []"
| "take_affordable w now (i # is) remaining =
     (if score w now i < 0 \<and> \<not> overdue now i then take_affordable w now is remaining
      else if wi_attention_cost i \<le> remaining
      then i # take_affordable w now is (remaining - wi_attention_cost i)
      else take_affordable w now is remaining)"

definition select ::
  "attention_weights \<Rightarrow> datetime \<Rightarrow> 'p work_item list \<Rightarrow> pyfloat \<Rightarrow> 'p work_item list result" where
  "select w now items budget =
     (if budget < 0 then Inl (ValueError ''attention budget cannot be negative'')
      else Inr (take_affordable w now (py_sorted (ranks_before w now) items) budget))"

subsection \<open>The account\<close>

record account =
  ac_capacity :: pyfloat
  ac_available :: pyfloat
  ac_leases :: "(string \<times> pyfloat) list"
  ac_spent_total :: pyfloat
  ac_counter :: nat

record attention_lease =
  al_lease_id :: string
  al_reserved :: pyfloat
  al_settled :: bool

definition new_account :: "pyfloat \<Rightarrow> account result" where
  "new_account capacity =
     (if capacity \<le> 0 then Inl (ValueError ''attention capacity must be positive'')
      else Inr \<lparr>ac_capacity = capacity, ac_available = capacity, ac_leases = [],
                ac_spent_total = 0, ac_counter = 0\<rparr>)"

definition lease_name :: "nat \<Rightarrow> string" where
  "lease_name n = ''attention-'' @ nat_digits n"

definition acquire :: "account \<Rightarrow> pyfloat \<Rightarrow> (attention_lease option \<times> account) result" where
  "acquire a amount =
     (if amount < 0 then Inl (ValueError ''attention amount cannot be negative'')
      else if amount > ac_available a then Inr (None, a)
      else
        (let n = ac_counter a + 1; lease_id = lease_name n
         in Inr (Some \<lparr>al_lease_id = lease_id, al_reserved = amount, al_settled = False\<rparr>,
                 a\<lparr>ac_counter := n, ac_available := ac_available a - amount,
                   ac_leases := AList.update lease_id amount (ac_leases a)\<rparr>)))"

definition settle_account :: "account \<Rightarrow> string \<Rightarrow> pyfloat \<Rightarrow> pyfloat option \<Rightarrow> account" where
  "settle_account a lease_id reserved actual_cost =
     (if map_of (ac_leases a) lease_id = None then a
      else
        (let actual = (case actual_cost of None \<Rightarrow> reserved | Some c \<Rightarrow> py_max 0 c)
         in a\<lparr>ac_leases := AList.delete lease_id (ac_leases a),
              ac_spent_total := ac_spent_total a + actual,
              ac_available := py_min (ac_capacity a) (ac_available a + reserved)\<rparr>))"

definition settle :: "attention_lease \<Rightarrow> account \<Rightarrow> pyfloat option \<Rightarrow> attention_lease \<times> account" where
  "settle l a actual_cost =
     (if al_settled l then (l, a)
      else (l\<lparr>al_settled := True\<rparr>, settle_account a (al_lease_id l) (al_reserved l) actual_cost))"

definition replenish :: "account \<Rightarrow> pyfloat option \<Rightarrow> account" where
  "replenish a amount = (case amount of
     None \<Rightarrow> a\<lparr>ac_available := ac_capacity a - py_sum (map snd (ac_leases a))\<rparr>
   | Some x \<Rightarrow> a\<lparr>ac_available := py_min (ac_capacity a) (ac_available a + py_max 0 x)\<rparr>)"

subsection \<open>Selection: lemmas\<close>

lemma take_affordable_subset: "set (take_affordable w now is r) \<subseteq> set is"
  by (induction w now "is" r rule: take_affordable.induct) auto

lemma take_affordable_worthwhile:
  "i \<in> set (take_affordable w now is r) \<Longrightarrow> \<not> score w now i < 0 \<or> overdue now i"
  by (induction w now "is" r rule: take_affordable.induct) (auto split: if_splits)

lemma take_affordable_budget:
  assumes "\<forall>i \<in> set is. \<exists>c \<ge> 0. wi_attention_cost i = Fin c" "0 \<le> r"
  shows "\<exists>spent. map wi_attention_cost (take_affordable w now is (Fin r)) = map Fin spent \<and>
    sum_list spent \<le> r"
  using assms
proof (induction "is" arbitrary: r)
  case (Cons i "is")
  obtain c where c: "0 \<le> c" "wi_attention_cost i = Fin c" using Cons.prems(1) by auto
  show ?case
  proof (cases "(score w now i < 0 \<and> \<not> overdue now i) \<or> r < c")
    case True
    then have "take_affordable w now (i # is) (Fin r) = take_affordable w now is (Fin r)"
      using c by auto
    then show ?thesis using Cons by simp
  next
    case False
    then obtain spent where s: "map wi_attention_cost (take_affordable w now is (Fin (r - c))) = map Fin spent"
      "sum_list spent \<le> r - c"
      using Cons.IH [of "r - c"] Cons.prems by auto
    with False c show ?thesis
      by (intro exI [of _ "c # spent"]) auto
  qed
qed simp

text \<open>An item that is left out was not worthwhile, or did not fit in what the others left.\<close>

lemma take_affordable_left_out:
  assumes "\<forall>i \<in> set is. \<exists>c \<ge> 0. wi_attention_cost i = Fin c"
    and "i \<in> set is" "i \<notin> set (take_affordable w now is (Fin r))"
    and "map wi_attention_cost (take_affordable w now is (Fin r)) = map Fin spent"
    and "wi_attention_cost i = Fin c" "\<not> score w now i < 0 \<or> overdue now i"
  shows "r < sum_list spent + c"
  using assms
proof (induction "is" arbitrary: r spent)
  case (Cons j "is")
  obtain d where d: "0 \<le> d" "wi_attention_cost j = Fin d" using Cons.prems(1) by auto
  have nonneg: "0 \<le> sum_list xs"
    if "map wi_attention_cost ys = map Fin xs" "set ys \<subseteq> set (j # is)" for ys xs
    using that Cons.prems(1) by (induction ys arbitrary: xs) (auto simp: Cons_eq_map_conv)
  show ?case
  proof (cases "(score w now j < 0 \<and> \<not> overdue now j) \<or> r < d")
    case True
    then have eq: "take_affordable w now (j # is) (Fin r) = take_affordable w now is (Fin r)"
      using d by auto
    show ?thesis
    proof (cases "i = j")
      case True
      then have "r < d" using \<open>(score w now j < 0 \<and> \<not> overdue now j) \<or> r < d\<close> Cons.prems(6) by auto
      moreover have "0 \<le> sum_list spent"
        by (rule nonneg [OF Cons.prems(4)]) (use take_affordable_subset in blast)
      ultimately show ?thesis using True d Cons.prems(5) by simp
    next
      case False
      with eq Cons show ?thesis by auto
    qed
  next
    case False
    then have eq: "take_affordable w now (j # is) (Fin r) = j # take_affordable w now is (Fin (r - d))"
      using d by auto
    with Cons.prems(4) d obtain rest where rest: "spent = d # rest"
      "map wi_attention_cost (take_affordable w now is (Fin (r - d))) = map Fin rest"
      by (auto simp: Cons_eq_map_conv)
    have "r - d < sum_list rest + c"
      by (rule Cons.IH [OF _ _ _ rest(2)]) (use Cons.prems eq in auto)
    with rest(1) show ?thesis by simp
  qed
qed simp

subsection \<open>The account as a state machine\<close>

text \<open>
  An account together with the leases handed out. The steps are the calls the lease's holder and the
  account's owner can make, with finite amounts: acquire, settle any lease (once or again), and
  replenish to the unreserved capacity.
\<close>

inductive account_step :: "account \<times> attention_lease list \<Rightarrow> account \<times> attention_lease list \<Rightarrow> bool" where
  granted: "acquire a (Fin x) = Inr (Some l, a') \<Longrightarrow> account_step (a, ls) (a', l # ls)"
| refused: "acquire a (Fin x) = Inr (None, a') \<Longrightarrow> account_step (a, ls) (a', ls)"
| settled: "settle l a cost = (l', a') \<Longrightarrow>
    account_step (a, ls1 @ l # ls2) (a', ls1 @ l' # ls2)"
| replenished: "account_step (a, ls) (replenish a None, ls)"

text \<open>The reservations of the leases that are not settled.\<close>

definition open_leases :: "attention_lease list \<Rightarrow> (string \<times> pyfloat) set" where
  "open_leases ls = (\<lambda>l. (al_lease_id l, al_reserved l)) ` {l \<in> set ls. \<not> al_settled l}"

definition budget_ok :: "real \<Rightarrow> account \<Rightarrow> bool" where
  "budget_ok cap a \<longleftrightarrow> (\<exists>rs. map snd (ac_leases a) = map Fin rs \<and> (\<forall>r \<in> set rs. 0 \<le> r) \<and>
     ac_available a = Fin (cap - sum_list rs) \<and> sum_list rs \<le> cap)"

definition account_inv :: "real \<Rightarrow> account \<times> attention_lease list \<Rightarrow> bool" where
  "account_inv cap = (\<lambda>(a, ls).
     ac_capacity a = Fin cap \<and> distinct (map fst (ac_leases a)) \<and> distinct (map al_lease_id ls) \<and>
     set (ac_leases a) = open_leases ls \<and>
     (\<forall>l \<in> set ls. \<exists>k. al_lease_id l = lease_name k \<and> k \<le> ac_counter a) \<and> budget_ok cap a)"

lemma open_leases_simps [simp]:
  "open_leases [] = {}"
  "open_leases (l # ls) = (if al_settled l then open_leases ls
     else insert (al_lease_id l, al_reserved l) (open_leases ls))"
  "open_leases (ls1 @ ls2) = open_leases ls1 \<union> open_leases ls2"
  by (auto simp: open_leases_def)

lemma open_leases_id: "p \<in> open_leases ls \<Longrightarrow> fst p \<in> al_lease_id ` set ls"
  by (auto simp: open_leases_def)

lemma lease_name_inj [simp]: "lease_name m = lease_name n \<longleftrightarrow> m = n"
  by (simp add: lease_name_def)

lemma account_inv_replenish: "account_inv cap (a, ls) \<Longrightarrow> account_inv cap (replenish a None, ls)"
  by (auto simp: account_inv_def budget_ok_def replenish_def py_sum_Fin simp del: py_sum.simps)

lemma account_inv_acquire:
  assumes "account_inv cap (a, ls)" "acquire a (Fin x) = Inr (r, a')"
  shows "account_inv cap (a', case r of None \<Rightarrow> ls | Some l \<Rightarrow> l # ls)"
proof (cases "Fin x > ac_available a")
  case True
  with assms show ?thesis by (auto simp: acquire_def split: if_splits)
next
  case False
  let ?n = "ac_counter a + 1"
  have fresh: "lease_name ?n \<notin> al_lease_id ` set ls"
    using assms(1) by (force simp: account_inv_def)
  then have new: "map_of (ac_leases a) (lease_name ?n) = None"
    using assms(1) open_leases_id [of _ ls] by (auto simp: account_inv_def map_of_eq_None_iff)
  from False assms(2) have r: "r = Some \<lparr>al_lease_id = lease_name ?n, al_reserved = Fin x, al_settled = False\<rparr>"
    "a' = a\<lparr>ac_counter := ?n, ac_available := ac_available a - Fin x,
            ac_leases := ac_leases a @ [(lease_name ?n, Fin x)]\<rparr>" "0 \<le> x"
    by (auto simp: acquire_def update_new [OF new, simplified] Let_def pyfloat_zero_one split: if_splits)
  obtain rs where rs: "map snd (ac_leases a) = map Fin rs" "\<forall>r \<in> set rs. 0 \<le> r"
      "ac_available a = Fin (cap - sum_list rs)"
    using assms(1) by (auto simp: account_inv_def budget_ok_def)
  then have avail: "budget_ok cap a'"
    unfolding budget_ok_def using r False by (intro exI [of _ "rs @ [x]"]) auto
  have "\<forall>l \<in> set ls. \<exists>k. al_lease_id l = lease_name k \<and> k \<le> ?n"
    using assms(1) by (auto simp: account_inv_def)
  moreover have "set (ac_leases a') = open_leases (the r # ls)"
    using assms(1) r by (auto simp: account_inv_def)
  moreover have "distinct (map fst (ac_leases a'))"
    using assms(1) r new by (auto simp: account_inv_def map_of_eq_None_iff)
  ultimately show ?thesis
    using assms(1) r avail fresh by (auto simp: account_inv_def)
qed

lemma sum_list_remove: "distinct (map fst d) \<Longrightarrow> (k, Fin x) \<in> set d \<Longrightarrow> map snd d = map Fin rs \<Longrightarrow>
  \<exists>rs'. map snd (AList.delete k d) = map Fin rs' \<and> set rs' \<subseteq> set rs \<and> sum_list rs = x + sum_list rs'"
proof (induction d arbitrary: rs)
  case (Cons p d)
  then obtain q qs where rs: "rs = q # qs" "snd p = Fin q" "map snd d = map Fin qs"
    by (auto simp: Cons_eq_map_conv)
  show ?case
  proof (cases "fst p = k")
    case True
    then have "k \<notin> fst ` set d" using Cons.prems(1) by auto
    then have "(k, Fin x) \<notin> set d" by force
    with Cons.prems(2) True rs have "q = x" by (cases p) auto
    moreover have "AList.delete k (p # d) = d"
      using True \<open>k \<notin> fst ` set d\<close> by (cases p) (simp add: delete_id)
    ultimately show ?thesis using rs by auto
  next
    case False
    with Cons.prems obtain rs' where "map snd (AList.delete k d) = map Fin rs'" "set rs' \<subseteq> set qs"
      "sum_list qs = x + sum_list rs'"
      using Cons.IH [OF _ _ rs(3)] by (cases p) auto
    with False rs show ?thesis
      by (cases p) (auto intro!: exI [of _ "q # rs'"])
  qed
qed simp

lemma account_inv_settle:
  assumes "account_inv cap (a, ls1 @ l # ls2)" "settle l a cost = (l', a')"
  shows "account_inv cap (a', ls1 @ l' # ls2)"
proof (cases "al_settled l")
  case True
  with assms show ?thesis by (simp add: settle_def)
next
  case False
  have lease: "(al_lease_id l, al_reserved l) \<in> set (ac_leases a)"
    using assms(1) False by (auto simp: account_inv_def)
  obtain rs where rs: "map snd (ac_leases a) = map Fin rs" "\<forall>r \<in> set rs. 0 \<le> r"
      "ac_available a = Fin (cap - sum_list rs)" "sum_list rs \<le> cap" "distinct (map fst (ac_leases a))"
    using assms(1) by (auto simp: account_inv_def budget_ok_def)
  have "al_reserved l \<in> snd ` set (ac_leases a)" using lease by force
  then have "al_reserved l \<in> set (map Fin rs)" using rs(1) by (metis list.set_map)
  then obtain x where x: "al_reserved l = Fin x" by auto
  obtain rs' where rs': "map snd (AList.delete (al_lease_id l) (ac_leases a)) = map Fin rs'"
      "set rs' \<subseteq> set rs" "sum_list rs = x + sum_list rs'"
    using sum_list_remove [OF rs(5) lease [unfolded x] rs(1)] by blast
  have pos: "0 \<le> sum_list rs'" using rs(2) rs'(2) by (intro sum_list_nonneg) auto
  have al_nonneg: "0 \<le> x" using \<open>al_reserved l \<in> set (map Fin rs)\<close> x rs(2) by auto
  have m: "map_of (ac_leases a) (al_lease_id l) \<noteq> None"
    using imageI [OF lease, of fst] by (simp add: map_of_eq_None_iff)
  have l': "l' = l\<lparr>al_settled := True\<rparr>" and a': "ac_capacity a' = Fin cap" "ac_counter a' = ac_counter a"
      "ac_leases a' = AList.delete (al_lease_id l) (ac_leases a)" "ac_available a' = Fin (cap - sum_list rs')"
    using assms False m rs(3,4) rs'(3) x pos
    by (auto simp: settle_def settle_account_def account_inv_def Let_def)
  have ids: "fst p \<noteq> al_lease_id l" if "p \<in> open_leases ls1 \<union> open_leases ls2" for p
    using that assms(1) open_leases_id [of p ls1] open_leases_id [of p ls2]
    by (auto simp: account_inv_def)
  have "set (ac_leases a') = {p \<in> open_leases (ls1 @ l # ls2). fst p \<noteq> al_lease_id l}"
    using assms(1) by (auto simp: a' AList.delete_eq account_inv_def)
  also have "\<dots> = open_leases (ls1 @ l' # ls2)"
    using ids False by (auto simp: l')
  finally have "set (ac_leases a') = open_leases (ls1 @ l' # ls2)" .
  moreover have "budget_ok cap a'"
    unfolding budget_ok_def using a' rs' rs(2,4) rs'(3) pos al_nonneg
    by (intro exI [of _ rs']) auto
  moreover have "distinct (map fst (ac_leases a'))"
    unfolding a' by (rule distinct_keys_delete [OF rs(5)])
  ultimately show ?thesis
    using assms(1) a' l' by (auto simp: account_inv_def)
qed

lemma account_inv_steps:
  "account_step\<^sup>*\<^sup>* s s' \<Longrightarrow> account_inv cap s \<Longrightarrow> account_inv cap s'"
proof (induction rule: rtranclp_induct)
  case (step s s')
  from step(2,3,4) show ?case
    by (induction rule: account_step.induct)
      (auto dest: account_inv_acquire account_inv_settle account_inv_replenish)
qed

subsection \<open>Properties\<close>


definition sample_item :: "string \<Rightarrow> real \<Rightarrow> real \<Rightarrow> unit work_item" where
  "sample_item k gain cost = \<lparr>wi_key = k, wi_impact = Fin gain, wi_urgency = Fin 0,
     wi_information_value = Fin 0, wi_risk_reduction = Fin 0, wi_maintenance_value = Fin 0,
     wi_attention_cost = Fin cost, wi_switching_cost = Fin 0, wi_branch_cost = Fin 0,
     wi_deadline = None, wi_payload = ()\<rparr>"


text \<open>
  C8: the account never over-commits: whatever sequence of acquisitions, settlements (also repeated
  ones) and replenishments to the unreserved capacity its users perform with finite amounts, the
  available attention plus what the unsettled leases reserve is the capacity, and neither is negative.
\<close>

theorem attention_conserved:
  assumes "new_account (Fin cap) = Inr a0" "account_step\<^sup>*\<^sup>* (a0, []) (a, ls)"
  shows "\<exists>avail reserved. ac_available a = Fin avail \<and> 0 \<le> avail \<and>
    map snd (ac_leases a) = map Fin reserved \<and> (\<forall>r \<in> set reserved. 0 \<le> r) \<and>
    avail + sum_list reserved = cap \<and>
    set (ac_leases a) = open_leases ls \<and> distinct (map fst (ac_leases a))"
proof -
  have "account_inv cap (a0, [])"
    using assms(1) by (auto simp: new_account_def account_inv_def budget_ok_def pyfloat_zero_one
        split: if_splits)
  with assms(2) have "account_inv cap (a, ls)" by (rule account_inv_steps)
  then obtain rs where "map snd (ac_leases a) = map Fin rs" "\<forall>r \<in> set rs. 0 \<le> r"
    "ac_available a = Fin (cap - sum_list rs)" "sum_list rs \<le> cap" "set (ac_leases a) = open_leases ls"
    "distinct (map fst (ac_leases a))"
    by (auto simp: account_inv_def budget_ok_def)
  then show ?thesis by (intro exI [of _ "cap - sum_list rs"] exI [of _ rs]) simp
qed

definition sample_account :: account where
  "sample_account = \<lparr>ac_capacity = Fin 10, ac_available = Fin 10, ac_leases = [],
     ac_spent_total = Fin 0, ac_counter = 0\<rparr>"

definition sample_account_leased :: account where
  "sample_account_leased = \<lparr>ac_capacity = Fin 10, ac_available = Fin 4,
     ac_leases = [(lease_name 1, Fin 6)], ac_spent_total = Fin 0, ac_counter = 1\<rparr>"

lemma sample_acquire: "acquire sample_account (Fin 6)
    = Inr (Some \<lparr>al_lease_id = lease_name 1, al_reserved = Fin 6, al_settled = False\<rparr>, sample_account_leased)"
  by (simp add: acquire_def sample_account_def sample_account_leased_def pyfloat_zero_one Let_def)

lemma attention_conserved_witness:
  "account_step\<^sup>*\<^sup>* (sample_account, [])
     (sample_account_leased, [\<lparr>al_lease_id = lease_name 1, al_reserved = Fin 6, al_settled = False\<rparr>]) \<and>
   (\<exists>avail reserved. ac_available sample_account_leased = Fin avail \<and>
      map snd (ac_leases sample_account_leased) = map Fin reserved \<and> avail + sum_list reserved = 10)"
proof -
  have new: "new_account (Fin 10) = Inr sample_account"
    by (simp add: new_account_def sample_account_def pyfloat_zero_one)
  have step: "account_step\<^sup>*\<^sup>* (sample_account, [])
     (sample_account_leased, [\<lparr>al_lease_id = lease_name 1, al_reserved = Fin 6, al_settled = False\<rparr>])"
    by (rule r_into_rtranclp, rule granted, rule sample_acquire)
  from attention_conserved [OF new step] step show ?thesis by blast
qed

text \<open>
  Replenishing by an amount does not account for outstanding leases: with capacity 10 and 6
  reserved, replenishing by 6 makes 10 available again, so leases for 16 can be out at once.
\<close>

theorem replenish_amount_overcommits:
  "\<exists>a1 a2 l1 l2. new_account (Fin 10) = Inr sample_account \<and>
     acquire sample_account (Fin 6) = Inr (Some l1, a1) \<and>
     acquire (replenish a1 (Some (Fin 6))) (Fin 10) = Inr (Some l2, a2) \<and>
     map snd (ac_leases a2) = [Fin 6, Fin 10] \<and> ac_capacity a2 = Fin 10"
  by (simp add: sample_acquire)
    (simp add: new_account_def sample_account_def acquire_def replenish_def sample_account_leased_def
      pyfloat_zero_one Let_def)

text \<open>
  A NaN amount passes every check: it is granted whatever is available, and from then on the
  available attention is NaN, against which every finite request is granted.
\<close>

theorem nan_amount_granted:
  "\<exists>l a'. acquire a NaN = Inr (Some l, a') \<and> ac_available a' = NaN \<and>
     (\<forall>x. 0 \<le> x \<longrightarrow> (\<exists>l' a''. acquire a' (Fin x) = Inr (Some l', a'')))"
proof -
  have "z - NaN = NaN" for z
    by (cases z) (simp_all add: minus_pyfloat_def plus_pyfloat_def uminus_pyfloat_def)
  then show ?thesis
    by (simp add: acquire_def pyfloat_zero_one Let_def)
qed

end
