(* ===== verification/WorkModels.thy ===== *)
theory WorkModels
  imports Authority Codec
begin

section \<open>The contracts of work coordination\<close>

text \<open>
  Models \<^verbatim>\<open>src/noema/work/models.py\<close> (and \<open>ActionPrerequisite\<close> of \<^verbatim>\<open>continuity/reconcile.py\<close>): every
  contract as a record, with the checks of its constructor, its content-derived identifier, and its
  conversion to and from the payload of its canonical event. Each contract has the lemma that its event
  reads back as the same contract.
\<close>

definition WORK_ORDER_RECORDED_EVENT :: string where
  "WORK_ORDER_RECORDED_EVENT = ''work.order_recorded''"
definition PLAN_PROPOSED_EVENT :: string where
  "PLAN_PROPOSED_EVENT = ''work.plan_proposed''"
definition WORK_GRAPH_ACCEPTED_EVENT :: string where
  "WORK_GRAPH_ACCEPTED_EVENT = ''work.graph_accepted''"
definition AGENT_PRESENCE_RECORDED_EVENT :: string where
  "AGENT_PRESENCE_RECORDED_EVENT = ''work.agent_presence_recorded''"
definition CAPABILITY_MANIFEST_RECORDED_EVENT :: string where
  "CAPABILITY_MANIFEST_RECORDED_EVENT = ''work.capability_manifest_recorded''"
definition COMPETENCE_ESTIMATE_RECORDED_EVENT :: string where
  "COMPETENCE_ESTIMATE_RECORDED_EVENT = ''work.competence_estimate_recorded''"
definition WORK_LEASE_GRANTED_EVENT :: string where
  "WORK_LEASE_GRANTED_EVENT = ''work.lease_granted''"
definition WORK_LEASE_EXPIRED_EVENT :: string where
  "WORK_LEASE_EXPIRED_EVENT = ''work.lease_expired''"
definition WORK_NODE_COMPLETED_EVENT :: string where
  "WORK_NODE_COMPLETED_EVENT = ''work.node_completed''"
definition WORK_PLAN_INVALIDATED_EVENT :: string where
  "WORK_PLAN_INVALIDATED_EVENT = ''work.plan_invalidated''"

lemmas work_event_types = WORK_ORDER_RECORDED_EVENT_def PLAN_PROPOSED_EVENT_def
  WORK_GRAPH_ACCEPTED_EVENT_def AGENT_PRESENCE_RECORDED_EVENT_def
  CAPABILITY_MANIFEST_RECORDED_EVENT_def COMPETENCE_ESTIMATE_RECORDED_EVENT_def
  WORK_LEASE_GRANTED_EVENT_def WORK_LEASE_EXPIRED_EVENT_def WORK_NODE_COMPLETED_EVENT_def
  WORK_PLAN_INVALIDATED_EVENT_def

subsection \<open>Epistemic prerequisites\<close>

record prerequisite =
  pq_source_id :: string
  pq_minimum_freshness :: pyfloat
  pq_minimum_confidence :: pyfloat

definition check_prerequisite :: "prerequisite \<Rightarrow> unit result" where
  "check_prerequisite p = raise_first
     (require_text (pq_source_id p) ''action prerequisite source id'' @
      bounded (pq_minimum_freshness p) ''minimum_freshness'' @
      bounded (pq_minimum_confidence p) ''minimum_confidence'')"

definition prerequisite_dict :: "prerequisite \<Rightarrow> jobject" where
  "prerequisite_dict p =
     [(''source_id'', JStr (pq_source_id p)),
      (''minimum_freshness'', JFloat (pq_minimum_freshness p)),
      (''minimum_confidence'', JFloat (pq_minimum_confidence p))]"

definition prerequisite_of :: "builtins \<Rightarrow> json \<Rightarrow> prerequisite result" where
  "prerequisite_of b v =
     rbind (as_obj v) (\<lambda>d.
     rbind (j_str b d ''source_id'') (\<lambda>source.
     rbind (j_float b d ''minimum_freshness'') (\<lambda>fresh.
     rbind (j_float b d ''minimum_confidence'') (\<lambda>conf.
     let p = \<lparr>pq_source_id = source, pq_minimum_freshness = fresh, pq_minimum_confidence = conf\<rparr>
     in rbind (check_prerequisite p) (\<lambda>_. Inr p)))))"

definition prerequisites_json :: "prerequisite list \<Rightarrow> json" where
  "prerequisites_json ps = JList (map (JObj \<circ> prerequisite_dict) ps)"

definition prerequisites_of :: "builtins \<Rightarrow> jobject \<Rightarrow> string \<Rightarrow> prerequisite list result" where
  "prerequisites_of b d k = j_list b (prerequisite_of b) d k"

definition prerequisites_ok :: "prerequisite list \<Rightarrow> bool" where
  "prerequisites_ok ps = list_all (\<lambda>p. check_prerequisite p = Inr ()) ps"

lemma prerequisite_round_trip:
  "check_prerequisite p = Inr () \<Longrightarrow> prerequisite_of b (JObj (prerequisite_dict p)) = Inr p"
  by (cases p) (simp add: prerequisite_of_def prerequisite_dict_def codec Let_def)

lemma prerequisites_codec [codec]:
  "k' \<noteq> k \<Longrightarrow> prerequisites_of b ((k', v) # d) k = prerequisites_of b d k"
  "prerequisites_ok ps \<Longrightarrow> prerequisites_of b ((k, prerequisites_json ps) # d) k = Inr ps"
proof -
  show "k' \<noteq> k \<Longrightarrow> prerequisites_of b ((k', v) # d) k = prerequisites_of b d k"
    by (simp add: prerequisites_of_def codec)
  assume "prerequisites_ok ps"
  then have "mapM (prerequisite_of b) (map (JObj \<circ> prerequisite_dict) ps) = Inr ps"
    by (intro mapM_read_written) (auto simp: prerequisites_ok_def list_all_iff prerequisite_round_trip)
  then show "prerequisites_of b ((k, prerequisites_json ps) # d) k = Inr ps"
    by (simp add: prerequisites_of_def prerequisites_json_def codec)
qed

subsection \<open>Work orders\<close>

record work_order =
  wo_id :: string
  wo_purpose :: string
  wo_governing_goal_refs :: "string list"
  wo_created_from :: "string list"
  wo_priority :: pyfloat
  wo_desired_outcome :: string
  wo_success_criteria :: "string list"
  wo_deadline :: "datetime option"
  wo_opportunity_window_end :: "datetime option"
  wo_authority_ceiling :: authority_level
  wo_epistemic_prerequisites :: "prerequisite list"
  wo_created_at :: datetime

text \<open>
  One check of an optional date: it must be aware and not before the creation. Comparing a naive with
  an aware date raises \<open>TypeError\<close> in Python; the checks before exclude that.
\<close>

definition not_before_creation :: "datetime \<Rightarrow> datetime option \<Rightarrow> string \<Rightarrow> (bool \<times> py_error) list" where
  "not_before_creation created value name = (case value of None \<Rightarrow> [] | Some t \<Rightarrow>
     require_aware t name @ [(dt_before t created, ValueError (name @ '' cannot precede creation''))])"

definition check_work_order :: "work_order \<Rightarrow> unit result" where
  "check_work_order o1 = raise_first
     (require_text (wo_id o1) ''work order id'' @
      require_text (wo_purpose o1) ''work order purpose'' @
      require_text (wo_desired_outcome o1) ''work order desired outcome'' @
      unique_text (wo_governing_goal_refs o1) ''work order goal refs'' True @
      unique_text (wo_created_from o1) ''work order provenance'' True @
      unique_text (wo_success_criteria o1) ''work order success criteria'' True @
      bounded (wo_priority o1) ''work order priority'' @
      require_aware (wo_created_at o1) ''work order created_at'' @
      not_before_creation (wo_created_at o1) (wo_deadline o1) ''work order deadline'' @
      not_before_creation (wo_created_at o1) (wo_opportunity_window_end o1) ''work order opportunity window'' @
      [(\<not> distinct (map pq_source_id (wo_epistemic_prerequisites o1)),
        ValueError ''work order epistemic prerequisite sources must be unique'')])"

definition work_order_identity :: "work_order \<Rightarrow> jobject" where
  "work_order_identity o1 =
     [(''purpose'', JStr (wo_purpose o1)),
      (''governing_goal_refs'', JStrs (wo_governing_goal_refs o1)),
      (''created_from'', JStrs (wo_created_from o1)),
      (''priority'', JFloat (wo_priority o1)),
      (''desired_outcome'', JStr (wo_desired_outcome o1)),
      (''success_criteria'', JStrs (wo_success_criteria o1)),
      (''deadline'', json_opt JTime (wo_deadline o1)),
      (''opportunity_window_end'', json_opt JTime (wo_opportunity_window_end o1)),
      (''authority_ceiling'', JInt (authority_int (wo_authority_ceiling o1))),
      (''epistemic_prerequisites'', prerequisites_json (wo_epistemic_prerequisites o1)),
      (''created_at'', JTime (wo_created_at o1))]"

text \<open>\<open>create\<close>: the argument's identifier is ignored and computed from the rest.\<close>

definition create_work_order :: "builtins \<Rightarrow> work_order \<Rightarrow> work_order result" where
  "create_work_order b o1 =
     rbind (canonical_id b ''work-order'' (work_order_identity o1)) (\<lambda>i.
     let o2 = o1\<lparr>wo_id := i\<rparr> in rbind (check_work_order o2) (\<lambda>_. Inr o2))"

definition work_order_to_dict :: "work_order \<Rightarrow> jobject" where
  "work_order_to_dict o1 = (''work_order_id'', JStr (wo_id o1)) # work_order_identity o1"

definition work_order_from_dict :: "builtins \<Rightarrow> jobject \<Rightarrow> work_order result" where
  "work_order_from_dict b d =
     rbind (j_str b d ''work_order_id'') (\<lambda>i.
     rbind (j_str b d ''purpose'') (\<lambda>purpose.
     rbind (j_strs b d ''governing_goal_refs'') (\<lambda>goals.
     rbind (j_strs b d ''created_from'') (\<lambda>from_refs.
     rbind (j_float b d ''priority'') (\<lambda>priority.
     rbind (j_str b d ''desired_outcome'') (\<lambda>outcome.
     rbind (j_strs b d ''success_criteria'') (\<lambda>criteria.
     rbind (j_time_opt b d ''deadline'') (\<lambda>deadline.
     rbind (j_time_opt b d ''opportunity_window_end'') (\<lambda>window.
     rbind (rbind (j_int b d ''authority_ceiling'') authority_of_int) (\<lambda>ceiling.
     rbind (prerequisites_of b d ''epistemic_prerequisites'') (\<lambda>prereqs.
     rbind (j_time b d ''created_at'') (\<lambda>created.
     let o1 = \<lparr>wo_id = i, wo_purpose = purpose, wo_governing_goal_refs = goals,
               wo_created_from = from_refs, wo_priority = priority, wo_desired_outcome = outcome,
               wo_success_criteria = criteria, wo_deadline = deadline,
               wo_opportunity_window_end = window, wo_authority_ceiling = ceiling,
               wo_epistemic_prerequisites = prereqs, wo_created_at = created\<rparr>
     in rbind (check_work_order o1) (\<lambda>_.
        rbind (create_work_order b o1) (\<lambda>expected.
        if wo_id o1 \<noteq> wo_id expected
        then Inl (ValueError ''work order id does not match immutable content'')
        else Inr o1))))))))))))))"

definition work_order_event_id :: "string \<Rightarrow> string" where
  "work_order_event_id i = ''work-order-recorded:'' @ i"

definition work_order_to_event :: "work_order \<Rightarrow> string \<Rightarrow> jobject event result" where
  "work_order_to_event o1 source =
     make_event (work_order_event_id (wo_id o1)) WORK_ORDER_RECORDED_EVENT source (wo_id o1)
       (wo_created_at o1) (work_order_to_dict o1) None"

definition work_order_from_event :: "builtins \<Rightarrow> jobject event \<Rightarrow> work_order result" where
  "work_order_from_event b e =
     (if ev_type e \<noteq> WORK_ORDER_RECORDED_EVENT then Inl (ValueError ''not a work order event'')
      else rbind (work_order_from_dict b (ev_payload e)) (\<lambda>o1.
        if ev_id e \<noteq> work_order_event_id (wo_id o1)
        then Inl (ValueError ''work order event id is inconsistent'')
        else if ev_subject e \<noteq> Some (wo_id o1) \<or> ev_timestamp e \<noteq> wo_created_at o1
        then Inl (ValueError ''work order event envelope is inconsistent'')
        else Inr o1))"

text \<open>A created order: the constructor's checks and the identifier hold.\<close>

definition work_order_ok :: "builtins \<Rightarrow> work_order \<Rightarrow> bool" where
  "work_order_ok b o1 \<longleftrightarrow> create_work_order b o1 = Inr o1 \<and>
     prerequisites_ok (wo_epistemic_prerequisites o1)"

lemma create_work_order_same:
  "create_work_order b o1 = Inr o1 \<Longrightarrow> check_work_order o1 = Inr ()"
  by (auto simp: create_work_order_def Let_def rbind_Inr_iff)

lemma check_work_order_aware:
  "check_work_order o1 = Inr () \<Longrightarrow> is_aware (wo_created_at o1) \<and>
    (\<forall>t. wo_deadline o1 = Some t \<longrightarrow> is_aware t) \<and>
    (\<forall>t. wo_opportunity_window_end o1 = Some t \<longrightarrow> is_aware t)"
  by (auto simp: check_work_order_def raise_first_no_errors not_before_creation_def simp del: raise_first_ok)

lemma work_order_round_trip:
  assumes "work_order_ok b o1"
  shows "work_order_from_dict b (work_order_to_dict o1) = Inr o1"
proof -
  have c: "create_work_order b o1 = Inr o1" and p: "prerequisites_ok (wo_epistemic_prerequisites o1)"
    using assms by (simp_all add: work_order_ok_def)
  note a = check_work_order_aware [OF create_work_order_same [OF c]]
  show ?thesis
    using a p c create_work_order_same [OF c]
    by (cases o1) (simp add: work_order_from_dict_def work_order_to_dict_def work_order_identity_def
        codec Let_def)
qed

lemma work_order_event_round_trip:
  assumes "work_order_ok b o1" "work_order_to_event o1 source = Inr e"
  shows "work_order_from_event b (with_sequence e n) = Inr o1"
  using make_event_fields [OF assms(2) [unfolded work_order_to_event_def]] work_order_round_trip [OF assms(1)]
  by (simp add: work_order_from_event_def)

subsection \<open>Work nodes and dependencies\<close>

datatype node_kind = ANALYZE | PREPARE | EXECUTE | VERIFY | RELEASE

primrec node_kind_value :: "node_kind \<Rightarrow> string" where
  "node_kind_value ANALYZE = ''analyze''"
| "node_kind_value PREPARE = ''prepare''"
| "node_kind_value EXECUTE = ''execute''"
| "node_kind_value VERIFY = ''verify''"
| "node_kind_value RELEASE = ''release''"

definition node_kind_of :: "string \<Rightarrow> node_kind result" where
  "node_kind_of s =
     (if s = ''analyze'' then Inr ANALYZE else if s = ''prepare'' then Inr PREPARE
      else if s = ''execute'' then Inr EXECUTE else if s = ''verify'' then Inr VERIFY
      else if s = ''release'' then Inr RELEASE else Inl (ValueError ''not a valid WorkNodeKind''))"

lemma node_kind_of_value [simp]: "node_kind_of (node_kind_value k) = Inr k"
  by (cases k) (simp_all add: node_kind_of_def)

record work_node =
  wn_id :: string
  wn_kind :: node_kind
  wn_description :: string
  wn_required_capabilities :: "string list"
  wn_completion_criteria :: "string list"
  wn_epistemic_prerequisites :: "prerequisite list"
  wn_verification_of :: "string list"
  wn_governed_information_refs :: "string list"

definition check_work_node :: "work_node \<Rightarrow> unit result" where
  "check_work_node n = raise_first
     (require_text (wn_id n) ''work node id'' @
      require_text (wn_description n) ''work node description'' @
      unique_text (wn_required_capabilities n) ''work node capabilities'' True @
      unique_text (wn_completion_criteria n) ''work node completion criteria'' True @
      unique_text (wn_verification_of n) ''verified node ids'' False @
      unique_text (wn_governed_information_refs n) ''work node governed information refs'' False @
      concat (map (\<lambda>v. require_opaque v ''work node governed information ref'')
        (wn_governed_information_refs n)) @
      [(\<not> distinct (map pq_source_id (wn_epistemic_prerequisites n)),
        ValueError ''work node epistemic prerequisite sources must be unique''),
       (wn_kind n = VERIFY \<and> wn_verification_of n = [],
        ValueError ''verification work must name the nodes it independently verifies''),
       (wn_kind n \<noteq> VERIFY \<and> wn_verification_of n \<noteq> [],
        ValueError ''only verification work may carry verification targets''),
       (wn_id n \<in> set (wn_verification_of n), ValueError ''a work node cannot verify itself'')])"

definition work_node_to_dict :: "work_node \<Rightarrow> jobject" where
  "work_node_to_dict n =
     [(''node_id'', JStr (wn_id n)),
      (''kind'', JStr (node_kind_value (wn_kind n))),
      (''description'', JStr (wn_description n)),
      (''required_capabilities'', JStrs (wn_required_capabilities n)),
      (''completion_criteria'', JStrs (wn_completion_criteria n)),
      (''epistemic_prerequisites'', prerequisites_json (wn_epistemic_prerequisites n)),
      (''verification_of'', JStrs (wn_verification_of n))] @
     (if wn_governed_information_refs n = [] then []
      else [(''governed_information_refs'', JStrs (wn_governed_information_refs n))])"

definition work_node_of :: "builtins \<Rightarrow> json \<Rightarrow> work_node result" where
  "work_node_of b v =
     rbind (as_obj v) (\<lambda>d.
     rbind (j_str b d ''node_id'') (\<lambda>i.
     rbind (rbind (j_str b d ''kind'') node_kind_of) (\<lambda>kind.
     rbind (j_str b d ''description'') (\<lambda>description.
     rbind (j_strs b d ''required_capabilities'') (\<lambda>capabilities.
     rbind (j_strs b d ''completion_criteria'') (\<lambda>criteria.
     rbind (prerequisites_of b d ''epistemic_prerequisites'') (\<lambda>prereqs.
     rbind (j_strs b d ''verification_of'') (\<lambda>verification.
     rbind (j_strs b d ''governed_information_refs'') (\<lambda>governed.
     let n = \<lparr>wn_id = i, wn_kind = kind, wn_description = description,
              wn_required_capabilities = capabilities, wn_completion_criteria = criteria,
              wn_epistemic_prerequisites = prereqs, wn_verification_of = verification,
              wn_governed_information_refs = governed\<rparr>
     in rbind (check_work_node n) (\<lambda>_. Inr n))))))))))"

definition work_node_ok :: "work_node \<Rightarrow> bool" where
  "work_node_ok n \<longleftrightarrow> check_work_node n = Inr () \<and> prerequisites_ok (wn_epistemic_prerequisites n)"

lemma work_node_round_trip:
  "work_node_ok n \<Longrightarrow> work_node_of b (JObj (work_node_to_dict n)) = Inr n"
  by (cases n) (auto simp: work_node_ok_def work_node_of_def work_node_to_dict_def codec Let_def)

record work_dependency =
  wd_predecessor_id :: string
  wd_successor_id :: string

definition check_dependency :: "work_dependency \<Rightarrow> unit result" where
  "check_dependency d = raise_first
     (require_text (wd_predecessor_id d) ''dependency predecessor'' @
      require_text (wd_successor_id d) ''dependency successor'' @
      [(wd_predecessor_id d = wd_successor_id d,
        ValueError ''a work dependency cannot be self-referential'')])"

definition dependency_to_dict :: "work_dependency \<Rightarrow> jobject" where
  "dependency_to_dict d =
     [(''predecessor_id'', JStr (wd_predecessor_id d)),
      (''successor_id'', JStr (wd_successor_id d))]"

definition dependency_of :: "builtins \<Rightarrow> json \<Rightarrow> work_dependency result" where
  "dependency_of b v =
     rbind (as_obj v) (\<lambda>d.
     rbind (j_str b d ''predecessor_id'') (\<lambda>p.
     rbind (j_str b d ''successor_id'') (\<lambda>s.
     let w = \<lparr>wd_predecessor_id = p, wd_successor_id = s\<rparr>
     in rbind (check_dependency w) (\<lambda>_. Inr w))))"

lemma dependency_round_trip:
  "check_dependency d = Inr () \<Longrightarrow> dependency_of b (JObj (dependency_to_dict d)) = Inr d"
  by (cases d) (simp add: dependency_of_def dependency_to_dict_def codec Let_def)

definition nodes_json :: "work_node list \<Rightarrow> json" where
  "nodes_json ns = JList (map (JObj \<circ> work_node_to_dict) ns)"

definition nodes_of :: "builtins \<Rightarrow> jobject \<Rightarrow> work_node list result" where
  "nodes_of b d = j_list b (work_node_of b) d ''nodes''"

definition dependencies_json :: "work_dependency list \<Rightarrow> json" where
  "dependencies_json ds = JList (map (JObj \<circ> dependency_to_dict) ds)"

definition dependencies_of :: "builtins \<Rightarrow> jobject \<Rightarrow> work_dependency list result" where
  "dependencies_of b d = j_list b (dependency_of b) d ''dependencies''"

definition nodes_ok :: "work_node list \<Rightarrow> bool" where
  "nodes_ok ns = list_all work_node_ok ns"

definition dependencies_ok :: "work_dependency list \<Rightarrow> bool" where
  "dependencies_ok ds = list_all (\<lambda>d. check_dependency d = Inr ()) ds"

lemma graph_codec [codec]:
  "k \<noteq> ''nodes'' \<Longrightarrow> nodes_of b ((k, v) # d) = nodes_of b d"
  "nodes_ok ns \<Longrightarrow> nodes_of b ((''nodes'', nodes_json ns) # d) = Inr ns"
  "k \<noteq> ''dependencies'' \<Longrightarrow> dependencies_of b ((k, v) # d) = dependencies_of b d"
  "dependencies_ok ds \<Longrightarrow> dependencies_of b ((''dependencies'', dependencies_json ds) # d) = Inr ds"
  by (auto simp: nodes_of_def nodes_json_def dependencies_of_def dependencies_json_def codec
      nodes_ok_def dependencies_ok_def list_all_iff work_node_round_trip dependency_round_trip
      intro!: mapM_read_written)

subsection \<open>Plan proposals\<close>

record plan_proposal =
  pp_id :: string
  pp_planner_id :: string
  pp_work_order_id :: string
  pp_based_on_event_cursor :: int
  pp_based_on_graph_version :: int
  pp_nodes :: "work_node list"
  pp_dependencies :: "work_dependency list"
  pp_assumptions :: "string list"
  pp_done_conditions :: "string list"
  pp_replan_event_types :: "string list"
  pp_proposed_at :: datetime

definition check_proposal :: "plan_proposal \<Rightarrow> unit result" where
  "check_proposal p = raise_first
     (require_text (pp_id p) ''plan proposal id'' @
      require_text (pp_planner_id p) ''planner id'' @
      require_text (pp_work_order_id p) ''plan proposal work order id'' @
      [(pp_based_on_event_cursor p < 0 \<or> pp_based_on_graph_version p < 0,
        ValueError ''plan proposal cursors and versions cannot be negative''),
       (pp_nodes p = [], ValueError ''plan proposal must contain work nodes'')] @
      unique_text (pp_assumptions p) ''plan assumptions'' False @
      unique_text (pp_done_conditions p) ''plan done conditions'' True @
      unique_text (pp_replan_event_types p) ''plan replan event types'' True @
      require_aware (pp_proposed_at p) ''plan proposed_at'')"

definition proposal_identity :: "plan_proposal \<Rightarrow> jobject" where
  "proposal_identity p =
     [(''planner_id'', JStr (pp_planner_id p)),
      (''work_order_id'', JStr (pp_work_order_id p)),
      (''based_on_event_cursor'', JInt (pp_based_on_event_cursor p)),
      (''based_on_graph_version'', JInt (pp_based_on_graph_version p)),
      (''nodes'', nodes_json (pp_nodes p)),
      (''dependencies'', dependencies_json (pp_dependencies p)),
      (''assumptions'', JStrs (pp_assumptions p)),
      (''done_conditions'', JStrs (pp_done_conditions p)),
      (''replan_event_types'', JStrs (pp_replan_event_types p)),
      (''proposed_at'', JTime (pp_proposed_at p))]"

text \<open>The tuple \<open>(predecessor_id, successor_id)\<close> orders the dependencies.\<close>

definition sort_dependencies :: "work_dependency list \<Rightarrow> work_dependency list" where
  "sort_dependencies ds = sort_key wd_predecessor_id (sort_key wd_successor_id ds)"

definition create_proposal :: "builtins \<Rightarrow> plan_proposal \<Rightarrow> plan_proposal result" where
  "create_proposal b p =
     (let p1 = p\<lparr>pp_nodes := sort_key wn_id (pp_nodes p),
                pp_dependencies := sort_dependencies (pp_dependencies p)\<rparr>
      in rbind (canonical_id b ''plan-proposal'' (proposal_identity p1)) (\<lambda>i.
         let p2 = p1\<lparr>pp_id := i\<rparr> in rbind (check_proposal p2) (\<lambda>_. Inr p2)))"

definition proposal_to_dict :: "plan_proposal \<Rightarrow> jobject" where
  "proposal_to_dict p = (''proposal_id'', JStr (pp_id p)) # proposal_identity p"

definition proposal_from_dict :: "builtins \<Rightarrow> jobject \<Rightarrow> plan_proposal result" where
  "proposal_from_dict b d =
     rbind (j_str b d ''proposal_id'') (\<lambda>i.
     rbind (j_str b d ''planner_id'') (\<lambda>planner.
     rbind (j_str b d ''work_order_id'') (\<lambda>order.
     rbind (j_int b d ''based_on_event_cursor'') (\<lambda>cursor.
     rbind (j_int b d ''based_on_graph_version'') (\<lambda>version.
     rbind (nodes_of b d) (\<lambda>nodes.
     rbind (dependencies_of b d) (\<lambda>deps.
     rbind (j_strs b d ''assumptions'') (\<lambda>assumptions.
     rbind (j_strs b d ''done_conditions'') (\<lambda>conds.
     rbind (j_strs b d ''replan_event_types'') (\<lambda>replan.
     rbind (j_time b d ''proposed_at'') (\<lambda>t.
     let p = \<lparr>pp_id = i, pp_planner_id = planner, pp_work_order_id = order,
              pp_based_on_event_cursor = cursor, pp_based_on_graph_version = version,
              pp_nodes = nodes, pp_dependencies = deps, pp_assumptions = assumptions,
              pp_done_conditions = conds, pp_replan_event_types = replan, pp_proposed_at = t\<rparr>
     in rbind (check_proposal p) (\<lambda>_.
        rbind (create_proposal b p) (\<lambda>expected.
        if p \<noteq> expected then Inl (ValueError ''plan proposal id does not match immutable content'')
        else Inr p)))))))))))))"

definition proposal_event_id :: "string \<Rightarrow> string" where
  "proposal_event_id i = ''plan-proposed:'' @ i"

definition proposal_to_event :: "plan_proposal \<Rightarrow> string \<Rightarrow> string \<Rightarrow> jobject event result" where
  "proposal_to_event p source causation_id =
     make_event (proposal_event_id (pp_id p)) PLAN_PROPOSED_EVENT source (pp_work_order_id p)
       (pp_proposed_at p) (proposal_to_dict p) (Some causation_id)"

definition proposal_from_event :: "builtins \<Rightarrow> jobject event \<Rightarrow> plan_proposal result" where
  "proposal_from_event b e =
     (if ev_type e \<noteq> PLAN_PROPOSED_EVENT then Inl (ValueError ''not a plan proposal event'')
      else rbind (proposal_from_dict b (ev_payload e)) (\<lambda>p.
        if ev_id e \<noteq> proposal_event_id (pp_id p)
        then Inl (ValueError ''plan proposal event id is inconsistent'')
        else if ev_subject e \<noteq> Some (pp_work_order_id p) \<or> ev_timestamp e \<noteq> pp_proposed_at p
        then Inl (ValueError ''plan proposal event envelope is inconsistent'')
        else if ev_causation_id e = None
        then Inl (ValueError ''plan proposal requires work-order causation'')
        else Inr p))"

definition proposal_ok :: "builtins \<Rightarrow> plan_proposal \<Rightarrow> bool" where
  "proposal_ok b p \<longleftrightarrow> create_proposal b p = Inr p \<and> nodes_ok (pp_nodes p) \<and>
     dependencies_ok (pp_dependencies p)"

lemma create_proposal_same: "create_proposal b p = Inr p \<Longrightarrow> check_proposal p = Inr ()"
  by (auto simp: create_proposal_def Let_def rbind_Inr_iff)

lemma proposal_round_trip:
  assumes "proposal_ok b p"
  shows "proposal_from_dict b (proposal_to_dict p) = Inr p"
proof -
  have c: "create_proposal b p = Inr p" "nodes_ok (pp_nodes p)" "dependencies_ok (pp_dependencies p)"
    using assms by (simp_all add: proposal_ok_def)
  have a: "is_aware (pp_proposed_at p)"
    using create_proposal_same [OF c(1)]
    by (simp add: check_proposal_def raise_first_no_errors del: raise_first_ok)
  show ?thesis
    using a c create_proposal_same [OF c(1)]
    by (cases p) (simp add: proposal_from_dict_def proposal_to_dict_def proposal_identity_def codec Let_def)
qed

lemma proposal_event_round_trip:
  assumes "proposal_ok b p" "proposal_to_event p source cause = Inr e"
  shows "proposal_from_event b (with_sequence e n) = Inr p"
  using make_event_fields [OF assms(2) [unfolded proposal_to_event_def]] proposal_round_trip [OF assms(1)]
  by (simp add: proposal_from_event_def)

subsection \<open>Work graphs\<close>

record work_graph =
  wg_id :: string
  wg_work_order_id :: string
  wg_proposal_id :: string
  wg_version :: int
  wg_based_on_event_cursor :: int
  wg_nodes :: "work_node list"
  wg_dependencies :: "work_dependency list"
  wg_done_conditions :: "string list"
  wg_replan_event_types :: "string list"
  wg_validator_id :: string
  wg_accepted_at :: datetime

definition check_graph :: "work_graph \<Rightarrow> unit result" where
  "check_graph g = raise_first
     (require_text (wg_id g) ''work graph id'' @
      require_text (wg_work_order_id g) ''work graph order id'' @
      require_text (wg_proposal_id g) ''work graph proposal id'' @
      require_text (wg_validator_id g) ''work graph validator id'' @
      [(wg_version g \<le> 0 \<or> wg_based_on_event_cursor g < 0,
        ValueError ''work graph version must be positive and cursor non-negative''),
       (wg_nodes g = [], ValueError ''work graph must contain nodes'')] @
      unique_text (wg_done_conditions g) ''work graph done conditions'' True @
      unique_text (wg_replan_event_types g) ''work graph replan event types'' True @
      require_aware (wg_accepted_at g) ''work graph accepted_at'')"

definition graph_identity :: "work_graph \<Rightarrow> jobject" where
  "graph_identity g =
     [(''work_order_id'', JStr (wg_work_order_id g)),
      (''proposal_id'', JStr (wg_proposal_id g)),
      (''version'', JInt (wg_version g)),
      (''based_on_event_cursor'', JInt (wg_based_on_event_cursor g)),
      (''nodes'', nodes_json (wg_nodes g)),
      (''dependencies'', dependencies_json (wg_dependencies g)),
      (''done_conditions'', JStrs (wg_done_conditions g)),
      (''replan_event_types'', JStrs (wg_replan_event_types g)),
      (''validator_id'', JStr (wg_validator_id g)),
      (''accepted_at'', JTime (wg_accepted_at g))]"

definition create_graph :: "builtins \<Rightarrow> plan_proposal \<Rightarrow> int \<Rightarrow> string \<Rightarrow> datetime \<Rightarrow> work_graph result" where
  "create_graph b p version validator_id accepted_at =
     (let g = \<lparr>wg_id = [], wg_work_order_id = pp_work_order_id p, wg_proposal_id = pp_id p,
               wg_version = version, wg_based_on_event_cursor = pp_based_on_event_cursor p,
               wg_nodes = pp_nodes p, wg_dependencies = pp_dependencies p,
               wg_done_conditions = pp_done_conditions p,
               wg_replan_event_types = pp_replan_event_types p, wg_validator_id = validator_id,
               wg_accepted_at = accepted_at\<rparr>
      in rbind (canonical_id b ''work-graph'' (graph_identity g)) (\<lambda>i.
         let g1 = g\<lparr>wg_id := i\<rparr> in rbind (check_graph g1) (\<lambda>_. Inr g1)))"

definition graph_to_dict :: "work_graph \<Rightarrow> jobject" where
  "graph_to_dict g = (''graph_id'', JStr (wg_id g)) # graph_identity g"

definition graph_from_dict :: "builtins \<Rightarrow> jobject \<Rightarrow> work_graph result" where
  "graph_from_dict b d =
     rbind (j_str b d ''graph_id'') (\<lambda>i.
     rbind (j_str b d ''work_order_id'') (\<lambda>order.
     rbind (j_str b d ''proposal_id'') (\<lambda>proposal.
     rbind (j_int b d ''version'') (\<lambda>version.
     rbind (j_int b d ''based_on_event_cursor'') (\<lambda>cursor.
     rbind (nodes_of b d) (\<lambda>nodes.
     rbind (dependencies_of b d) (\<lambda>deps.
     rbind (j_strs b d ''done_conditions'') (\<lambda>conds.
     rbind (j_strs b d ''replan_event_types'') (\<lambda>replan.
     rbind (j_str b d ''validator_id'') (\<lambda>validator.
     rbind (j_time b d ''accepted_at'') (\<lambda>t.
     let g = \<lparr>wg_id = i, wg_work_order_id = order, wg_proposal_id = proposal, wg_version = version,
              wg_based_on_event_cursor = cursor, wg_nodes = nodes, wg_dependencies = deps,
              wg_done_conditions = conds, wg_replan_event_types = replan,
              wg_validator_id = validator, wg_accepted_at = t\<rparr>
     in rbind (check_graph g) (\<lambda>_.
        rbind (canonical_id b ''work-graph'' (graph_identity g)) (\<lambda>expected.
        if wg_id g \<noteq> expected then Inl (ValueError ''work graph id does not match immutable content'')
        else Inr g)))))))))))))"

definition graph_event_id :: "string \<Rightarrow> string" where
  "graph_event_id i = ''work-graph-accepted:'' @ i"

definition graph_to_event :: "work_graph \<Rightarrow> string \<Rightarrow> string \<Rightarrow> jobject event result" where
  "graph_to_event g source causation_id =
     make_event (graph_event_id (wg_id g)) WORK_GRAPH_ACCEPTED_EVENT source (wg_work_order_id g)
       (wg_accepted_at g) (graph_to_dict g) (Some causation_id)"

definition graph_from_event :: "builtins \<Rightarrow> jobject event \<Rightarrow> work_graph result" where
  "graph_from_event b e =
     (if ev_type e \<noteq> WORK_GRAPH_ACCEPTED_EVENT then Inl (ValueError ''not a work graph event'')
      else rbind (graph_from_dict b (ev_payload e)) (\<lambda>g.
        if ev_id e \<noteq> graph_event_id (wg_id g)
        then Inl (ValueError ''work graph event id is inconsistent'')
        else if ev_subject e \<noteq> Some (wg_work_order_id g) \<or> ev_timestamp e \<noteq> wg_accepted_at g
        then Inl (ValueError ''work graph event envelope is inconsistent'')
        else if ev_causation_id e = None
        then Inl (ValueError ''work graph requires plan-proposal causation'')
        else Inr g))"

definition graph_node :: "work_graph \<Rightarrow> string \<Rightarrow> work_node result" where
  "graph_node g node_id = (case find (\<lambda>n. wn_id n = node_id) (wg_nodes g) of
     None \<Rightarrow> Inl (KeyError ''unknown work node'') | Some n \<Rightarrow> Inr n)"

definition graph_predecessors :: "work_graph \<Rightarrow> string \<Rightarrow> string list" where
  "graph_predecessors g node_id =
     map wd_predecessor_id (filter (\<lambda>d. wd_successor_id d = node_id) (wg_dependencies g))"

definition graph_ok :: "builtins \<Rightarrow> work_graph \<Rightarrow> bool" where
  "graph_ok b g \<longleftrightarrow> check_graph g = Inr () \<and>
     canonical_id b ''work-graph'' (graph_identity g) = Inr (wg_id g) \<and>
     nodes_ok (wg_nodes g) \<and> dependencies_ok (wg_dependencies g)"

lemma graph_round_trip:
  assumes "graph_ok b g"
  shows "graph_from_dict b (graph_to_dict g) = Inr g"
proof -
  have c: "check_graph g = Inr ()" "canonical_id b ''work-graph'' (graph_identity g) = Inr (wg_id g)"
    "nodes_ok (wg_nodes g)" "dependencies_ok (wg_dependencies g)"
    using assms by (simp_all add: graph_ok_def)
  have a: "is_aware (wg_accepted_at g)"
    using c(1) by (simp add: check_graph_def raise_first_no_errors del: raise_first_ok)
  show ?thesis
    using a c by (cases g) (simp add: graph_from_dict_def graph_to_dict_def graph_identity_def codec Let_def)
qed

lemma graph_event_round_trip:
  assumes "graph_ok b g" "graph_to_event g source cause = Inr e"
  shows "graph_from_event b (with_sequence e n) = Inr g"
  using make_event_fields [OF assms(2) [unfolded graph_to_event_def]] graph_round_trip [OF assms(1)]
  by (simp add: graph_from_event_def)

lemma create_graph_fields:
  assumes "create_graph b p v w t = Inr g"
  shows "wg_work_order_id g = pp_work_order_id p" "wg_proposal_id g = pp_id p" "wg_version g = v"
    "wg_nodes g = pp_nodes p" "wg_dependencies g = pp_dependencies p" "wg_accepted_at g = t"
    "wg_validator_id g = w" "wg_done_conditions g = pp_done_conditions p"
    "wg_replan_event_types g = pp_replan_event_types p"
    "wg_based_on_event_cursor g = pp_based_on_event_cursor p" "check_graph g = Inr ()"
    "canonical_id b ''work-graph'' (graph_identity g) = Inr (wg_id g)"
  using assms by (auto simp: create_graph_def Let_def rbind_Inr_iff graph_identity_def)

subsection \<open>Agent presence\<close>

datatype presence_status = Available | Busy | Offline

primrec presence_value :: "presence_status \<Rightarrow> string" where
  "presence_value Available = ''available''"
| "presence_value Busy = ''busy''"
| "presence_value Offline = ''offline''"

definition presence_status_of :: "string \<Rightarrow> presence_status result" where
  "presence_status_of s =
     (if s = ''available'' then Inr Available else if s = ''busy'' then Inr Busy
      else if s = ''offline'' then Inr Offline else Inl (ValueError ''not a valid PresenceStatus''))"

lemma presence_status_of_value [simp]: "presence_status_of (presence_value s) = Inr s"
  by (cases s) (simp_all add: presence_status_of_def)

record agent_presence =
  ag_agent_id :: string
  ag_status :: presence_status
  ag_max_concurrency :: int
  ag_observed_at :: datetime
  ag_valid_until :: datetime

definition check_presence :: "agent_presence \<Rightarrow> unit result" where
  "check_presence a = raise_first
     (require_text (ag_agent_id a) ''agent presence id'' @
      [(ag_max_concurrency a \<le> 0, ValueError ''agent max concurrency must be positive'')] @
      require_aware (ag_observed_at a) ''agent presence observed_at'' @
      require_aware (ag_valid_until a) ''agent presence valid_until'' @
      [(dt_le (ag_valid_until a) (ag_observed_at a),
        ValueError ''agent presence validity must end after observation'')])"

definition presence_is_valid_at :: "agent_presence \<Rightarrow> datetime \<Rightarrow> bool result" where
  "presence_is_valid_at a t =
     rbind (raise_first (require_aware t ''agent presence evaluation time'')) (\<lambda>_.
     Inr (dt_le (ag_observed_at a) t \<and> dt_before t (ag_valid_until a)))"

definition presence_to_dict :: "agent_presence \<Rightarrow> jobject" where
  "presence_to_dict a =
     [(''agent_id'', JStr (ag_agent_id a)),
      (''status'', JStr (presence_value (ag_status a))),
      (''max_concurrency'', JInt (ag_max_concurrency a)),
      (''observed_at'', JTime (ag_observed_at a)),
      (''valid_until'', JTime (ag_valid_until a))]"

definition presence_from_dict :: "builtins \<Rightarrow> jobject \<Rightarrow> agent_presence result" where
  "presence_from_dict b d =
     rbind (j_str b d ''agent_id'') (\<lambda>i.
     rbind (rbind (j_str b d ''status'') presence_status_of) (\<lambda>status.
     rbind (j_int b d ''max_concurrency'') (\<lambda>n.
     rbind (j_time b d ''observed_at'') (\<lambda>observed.
     rbind (j_time b d ''valid_until'') (\<lambda>until.
     let a = \<lparr>ag_agent_id = i, ag_status = status, ag_max_concurrency = n, ag_observed_at = observed,
              ag_valid_until = until\<rparr>
     in rbind (check_presence a) (\<lambda>_. Inr a))))))"

definition presence_to_event :: "builtins \<Rightarrow> agent_presence \<Rightarrow> string \<Rightarrow> jobject event result" where
  "presence_to_event b a source =
     rbind (canonical_id b ''agent-presence'' (presence_to_dict a)) (\<lambda>i.
     make_event i AGENT_PRESENCE_RECORDED_EVENT source (ag_agent_id a) (ag_observed_at a)
       (presence_to_dict a) None)"

definition presence_from_event :: "builtins \<Rightarrow> jobject event \<Rightarrow> agent_presence result" where
  "presence_from_event b e =
     (if ev_type e \<noteq> AGENT_PRESENCE_RECORDED_EVENT
      then Inl (ValueError ''not an agent presence event'')
      else rbind (presence_from_dict b (ev_payload e)) (\<lambda>a.
        rbind (canonical_id b ''agent-presence'' (presence_to_dict a)) (\<lambda>expected.
        if ev_id e \<noteq> expected then Inl (ValueError ''agent presence event id is inconsistent'')
        else if ev_subject e \<noteq> Some (ag_agent_id a) \<or> ev_timestamp e \<noteq> ag_observed_at a
        then Inl (ValueError ''agent presence event envelope is inconsistent'')
        else Inr a)))"

lemma check_presence_ok: "check_presence a = Inr () \<longleftrightarrow> \<not> blank (ag_agent_id a) \<and>
    0 < ag_max_concurrency a \<and> is_aware (ag_observed_at a) \<and> is_aware (ag_valid_until a) \<and>
    \<not> dt_le (ag_valid_until a) (ag_observed_at a)"
  by (auto simp: check_presence_def raise_first_no_errors simp del: raise_first_ok)

lemma presence_round_trip:
  assumes "check_presence a = Inr ()"
  shows "presence_from_dict b (presence_to_dict a) = Inr a"
proof -
  have "is_aware (ag_observed_at a)" "is_aware (ag_valid_until a)"
    using assms by (auto simp: check_presence_ok)
  then show ?thesis
    using assms by (cases a) (simp add: presence_from_dict_def presence_to_dict_def codec Let_def)
qed

lemma presence_event_round_trip:
  assumes "check_presence a = Inr ()" "presence_to_event b a source = Inr e"
  shows "presence_from_event b (with_sequence e n) = Inr a"
proof -
  obtain i where i: "canonical_id b ''agent-presence'' (presence_to_dict a) = Inr i"
    "make_event i AGENT_PRESENCE_RECORDED_EVENT source (ag_agent_id a) (ag_observed_at a)
       (presence_to_dict a) None = Inr e"
    using assms(2) by (auto simp: presence_to_event_def rbind_Inr_iff)
  show ?thesis
    using make_event_fields [OF i(2)] i(1) presence_round_trip [OF assms(1)]
    by (simp add: presence_from_event_def)
qed

subsection \<open>Capability manifests\<close>

record capability_manifest =
  cm_id :: string
  cm_agent_id :: string
  cm_capabilities :: "string list"
  cm_recorded_at :: datetime

definition check_manifest :: "capability_manifest \<Rightarrow> unit result" where
  "check_manifest m = raise_first
     (require_text (cm_id m) ''capability manifest id'' @
      require_text (cm_agent_id m) ''capability manifest agent id'' @
      unique_text (cm_capabilities m) ''declared capabilities'' True @
      require_aware (cm_recorded_at m) ''capability manifest recorded_at'')"

definition manifest_identity :: "capability_manifest \<Rightarrow> jobject" where
  "manifest_identity m =
     [(''agent_id'', JStr (cm_agent_id m)),
      (''capabilities'', JStrs (cm_capabilities m)),
      (''recorded_at'', JTime (cm_recorded_at m))]"

definition create_manifest :: "builtins \<Rightarrow> capability_manifest \<Rightarrow> capability_manifest result" where
  "create_manifest b m =
     (let m1 = m\<lparr>cm_capabilities := sort (cm_capabilities m)\<rparr>
      in rbind (canonical_id b ''capability-manifest'' (manifest_identity m1)) (\<lambda>i.
         let m2 = m1\<lparr>cm_id := i\<rparr> in rbind (check_manifest m2) (\<lambda>_. Inr m2)))"

definition manifest_to_dict :: "capability_manifest \<Rightarrow> jobject" where
  "manifest_to_dict m = (''manifest_id'', JStr (cm_id m)) # manifest_identity m"

definition manifest_from_dict :: "builtins \<Rightarrow> jobject \<Rightarrow> capability_manifest result" where
  "manifest_from_dict b d =
     rbind (j_str b d ''manifest_id'') (\<lambda>i.
     rbind (j_str b d ''agent_id'') (\<lambda>agent.
     rbind (j_strs b d ''capabilities'') (\<lambda>capabilities.
     rbind (j_time b d ''recorded_at'') (\<lambda>t.
     let m = \<lparr>cm_id = i, cm_agent_id = agent, cm_capabilities = capabilities, cm_recorded_at = t\<rparr>
     in rbind (check_manifest m) (\<lambda>_.
        rbind (create_manifest b m) (\<lambda>expected.
        if m \<noteq> expected
        then Inl (ValueError ''capability manifest id does not match immutable content'')
        else Inr m))))))"

definition manifest_event_id :: "string \<Rightarrow> string" where
  "manifest_event_id i = ''capability-manifest-recorded:'' @ i"

definition manifest_to_event :: "capability_manifest \<Rightarrow> string \<Rightarrow> jobject event result" where
  "manifest_to_event m source =
     make_event (manifest_event_id (cm_id m)) CAPABILITY_MANIFEST_RECORDED_EVENT source
       (cm_agent_id m) (cm_recorded_at m) (manifest_to_dict m) None"

definition manifest_from_event :: "builtins \<Rightarrow> jobject event \<Rightarrow> capability_manifest result" where
  "manifest_from_event b e =
     (if ev_type e \<noteq> CAPABILITY_MANIFEST_RECORDED_EVENT
      then Inl (ValueError ''not a capability manifest event'')
      else rbind (manifest_from_dict b (ev_payload e)) (\<lambda>m.
        if ev_id e \<noteq> manifest_event_id (cm_id m)
        then Inl (ValueError ''capability manifest event id is inconsistent'')
        else if ev_subject e \<noteq> Some (cm_agent_id m) \<or> ev_timestamp e \<noteq> cm_recorded_at m
        then Inl (ValueError ''capability manifest event envelope is inconsistent'')
        else Inr m))"

lemma create_manifest_same: "create_manifest b m = Inr m \<Longrightarrow> check_manifest m = Inr ()"
  by (auto simp: create_manifest_def Let_def rbind_Inr_iff)

lemma manifest_event_round_trip:
  assumes "create_manifest b m = Inr m" "manifest_to_event m source = Inr e"
  shows "manifest_from_event b (with_sequence e n) = Inr m"
proof -
  have "is_aware (cm_recorded_at m)"
    using create_manifest_same [OF assms(1)]
    by (simp add: check_manifest_def raise_first_no_errors del: raise_first_ok)
  then have "manifest_from_dict b (manifest_to_dict m) = Inr m"
    using assms(1) create_manifest_same [OF assms(1)]
    by (cases m) (simp add: manifest_from_dict_def manifest_to_dict_def manifest_identity_def codec Let_def)
  then show ?thesis
    using make_event_fields [OF assms(2) [unfolded manifest_to_event_def]]
    by (simp add: manifest_from_event_def)
qed

subsection \<open>Competence estimates\<close>

datatype competence_basis = Seeded | Evidence

primrec basis_value :: "competence_basis \<Rightarrow> string" where
  "basis_value Seeded = ''seeded''"
| "basis_value Evidence = ''evidence''"

definition basis_of :: "string \<Rightarrow> competence_basis result" where
  "basis_of s = (if s = ''seeded'' then Inr Seeded else if s = ''evidence'' then Inr Evidence
     else Inl (ValueError ''not a valid CompetenceBasis''))"

lemma basis_of_value [simp]: "basis_of (basis_value k) = Inr k"
  by (cases k) (simp_all add: basis_of_def)

record competence_estimate =
  ce_id :: string
  ce_agent_id :: string
  ce_capability :: string
  ce_score :: pyfloat
  ce_evidence_confidence :: pyfloat
  ce_basis :: competence_basis
  ce_evidence_refs :: "string list"
  ce_estimated_at :: datetime

definition check_estimate :: "competence_estimate \<Rightarrow> unit result" where
  "check_estimate c = raise_first
     (require_text (ce_id c) ''competence estimate id'' @
      require_text (ce_agent_id c) ''competence agent id'' @
      require_text (ce_capability c) ''competence capability'' @
      bounded (ce_score c) ''competence score'' @
      bounded (ce_evidence_confidence c) ''competence evidence confidence'' @
      unique_text (ce_evidence_refs c) ''competence evidence refs'' False @
      [(ce_basis c = Evidence \<and> ce_evidence_refs c = [],
        ValueError ''evidence-based competence requires evidence refs''),
       (ce_basis c = Seeded \<and> ce_evidence_refs c \<noteq> [],
        ValueError ''seeded competence cannot claim empirical evidence'')] @
      require_aware (ce_estimated_at c) ''competence estimated_at'')"

definition estimate_identity :: "competence_estimate \<Rightarrow> jobject" where
  "estimate_identity c =
     [(''agent_id'', JStr (ce_agent_id c)),
      (''capability'', JStr (ce_capability c)),
      (''score'', JFloat (ce_score c)),
      (''evidence_confidence'', JFloat (ce_evidence_confidence c)),
      (''basis'', JStr (basis_value (ce_basis c))),
      (''evidence_refs'', JStrs (ce_evidence_refs c)),
      (''estimated_at'', JTime (ce_estimated_at c))]"

definition create_estimate :: "builtins \<Rightarrow> competence_estimate \<Rightarrow> competence_estimate result" where
  "create_estimate b c =
     rbind (canonical_id b ''competence-estimate'' (estimate_identity c)) (\<lambda>i.
     let c1 = c\<lparr>ce_id := i\<rparr> in rbind (check_estimate c1) (\<lambda>_. Inr c1))"

definition estimate_to_dict :: "competence_estimate \<Rightarrow> jobject" where
  "estimate_to_dict c = (''estimate_id'', JStr (ce_id c)) # estimate_identity c"

definition estimate_from_dict :: "builtins \<Rightarrow> jobject \<Rightarrow> competence_estimate result" where
  "estimate_from_dict b d =
     rbind (j_str b d ''estimate_id'') (\<lambda>i.
     rbind (j_str b d ''agent_id'') (\<lambda>agent.
     rbind (j_str b d ''capability'') (\<lambda>capability.
     rbind (j_float b d ''score'') (\<lambda>score.
     rbind (j_float b d ''evidence_confidence'') (\<lambda>conf.
     rbind (rbind (j_str b d ''basis'') basis_of) (\<lambda>basis.
     rbind (j_strs b d ''evidence_refs'') (\<lambda>refs.
     rbind (j_time b d ''estimated_at'') (\<lambda>t.
     let c = \<lparr>ce_id = i, ce_agent_id = agent, ce_capability = capability, ce_score = score,
              ce_evidence_confidence = conf, ce_basis = basis, ce_evidence_refs = refs,
              ce_estimated_at = t\<rparr>
     in rbind (check_estimate c) (\<lambda>_.
        rbind (create_estimate b c) (\<lambda>expected.
        if ce_id c \<noteq> ce_id expected
        then Inl (ValueError ''competence estimate id does not match immutable content'')
        else Inr c))))))))))"

definition estimate_event_id :: "string \<Rightarrow> string" where
  "estimate_event_id i = ''competence-estimate-recorded:'' @ i"

definition estimate_to_event :: "competence_estimate \<Rightarrow> string \<Rightarrow> jobject event result" where
  "estimate_to_event c source =
     make_event (estimate_event_id (ce_id c)) COMPETENCE_ESTIMATE_RECORDED_EVENT source
       (ce_agent_id c) (ce_estimated_at c) (estimate_to_dict c) None"

definition estimate_from_event :: "builtins \<Rightarrow> jobject event \<Rightarrow> competence_estimate result" where
  "estimate_from_event b e =
     (if ev_type e \<noteq> COMPETENCE_ESTIMATE_RECORDED_EVENT
      then Inl (ValueError ''not a competence estimate event'')
      else rbind (estimate_from_dict b (ev_payload e)) (\<lambda>c.
        if ev_id e \<noteq> estimate_event_id (ce_id c)
        then Inl (ValueError ''competence estimate event id is inconsistent'')
        else if ev_subject e \<noteq> Some (ce_agent_id c) \<or> ev_timestamp e \<noteq> ce_estimated_at c
        then Inl (ValueError ''competence estimate event envelope is inconsistent'')
        else Inr c))"

lemma create_estimate_same: "create_estimate b c = Inr c \<Longrightarrow> check_estimate c = Inr ()"
  by (auto simp: create_estimate_def Let_def rbind_Inr_iff)

lemma check_estimate_ok: "check_estimate c = Inr () \<longleftrightarrow> \<not> blank (ce_id c) \<and> \<not> blank (ce_agent_id c) \<and>
    \<not> blank (ce_capability c) \<and> unit_interval (ce_score c) \<and> unit_interval (ce_evidence_confidence c) \<and>
    \<not> list_ex blank (ce_evidence_refs c) \<and> distinct (ce_evidence_refs c) \<and>
    (ce_basis c = Seeded \<longleftrightarrow> ce_evidence_refs c = []) \<and> is_aware (ce_estimated_at c)"
  by (cases "ce_basis c") (auto simp: check_estimate_def raise_first_no_errors simp del: raise_first_ok)

lemma estimate_event_round_trip:
  assumes "create_estimate b c = Inr c" "estimate_to_event c source = Inr e"
  shows "estimate_from_event b (with_sequence e n) = Inr c"
proof -
  have "is_aware (ce_estimated_at c)"
    using create_estimate_same [OF assms(1)] by (simp add: check_estimate_ok)
  then have "estimate_from_dict b (estimate_to_dict c) = Inr c"
    using assms(1) create_estimate_same [OF assms(1)]
    by (cases c) (simp add: estimate_from_dict_def estimate_to_dict_def estimate_identity_def codec Let_def)
  then show ?thesis
    using make_event_fields [OF assms(2) [unfolded estimate_to_event_def]]
    by (simp add: estimate_from_event_def)
qed

subsection \<open>Work leases\<close>

record work_lease =
  wl_id :: string
  wl_graph_id :: string
  wl_node_id :: string
  wl_agent_id :: string
  wl_fencing_token :: int
  wl_granted_at :: datetime
  wl_expires_at :: datetime
  wl_match_score :: pyfloat
  wl_competence_estimate_refs :: "string list"
  wl_information_access_decision_refs :: "string list"
  wl_information_disclosure_decision_refs :: "string list"

text \<open>\<open>f"\<dots>{graph_id}:{node_id}:{fencing_token}"\<close>\<close>

definition fenced_name :: "string \<Rightarrow> string \<Rightarrow> string \<Rightarrow> int \<Rightarrow> string" where
  "fenced_name prefix graph_id node_id fencing_token =
     prefix @ '':'' @ graph_id @ '':'' @ node_id @ '':'' @ str_int fencing_token"

definition check_lease :: "work_lease \<Rightarrow> unit result" where
  "check_lease l = raise_first
     (require_text (wl_id l) ''work lease id'' @
      require_text (wl_graph_id l) ''work lease graph id'' @
      require_text (wl_node_id l) ''work lease node id'' @
      require_text (wl_agent_id l) ''work lease agent id'' @
      [(wl_fencing_token l \<le> 0, ValueError ''work lease fencing token must be positive''),
       (wl_id l \<noteq> fenced_name ''work-lease'' (wl_graph_id l) (wl_node_id l) (wl_fencing_token l),
        ValueError ''work lease id is inconsistent with its fencing identity'')] @
      require_aware (wl_granted_at l) ''work lease granted_at'' @
      require_aware (wl_expires_at l) ''work lease expires_at'' @
      [(dt_le (wl_expires_at l) (wl_granted_at l),
        ValueError ''work lease must expire after it is granted'')] @
      bounded (wl_match_score l) ''work lease match score'' @
      unique_text (wl_competence_estimate_refs l) ''work lease competence estimate refs'' True @
      unique_text (wl_information_access_decision_refs l)
        ''work lease information access decision refs'' False @
      concat (map (\<lambda>v. require_opaque v ''work lease information access decision ref'')
        (wl_information_access_decision_refs l)) @
      unique_text (wl_information_disclosure_decision_refs l)
        ''work lease information disclosure decision refs'' False @
      concat (map (\<lambda>v. require_opaque v ''work lease information disclosure decision ref'')
        (wl_information_disclosure_decision_refs l)))"

definition create_lease ::
  "string \<Rightarrow> string \<Rightarrow> string \<Rightarrow> int \<Rightarrow> datetime \<Rightarrow> int \<Rightarrow> pyfloat \<Rightarrow> string list \<Rightarrow> string list
    \<Rightarrow> string list \<Rightarrow> work_lease result" where
  "create_lease graph_id node_id agent_id fencing_token granted_at lease_duration match_score
     competence_refs access_refs disclosure_refs =
     (let l = \<lparr>wl_id = fenced_name ''work-lease'' graph_id node_id fencing_token,
               wl_graph_id = graph_id, wl_node_id = node_id, wl_agent_id = agent_id,
               wl_fencing_token = fencing_token, wl_granted_at = granted_at,
               wl_expires_at = dt_plus granted_at lease_duration, wl_match_score = match_score,
               wl_competence_estimate_refs = competence_refs,
               wl_information_access_decision_refs = access_refs,
               wl_information_disclosure_decision_refs = disclosure_refs\<rparr>
      in rbind (check_lease l) (\<lambda>_. Inr l))"

definition lease_to_dict :: "work_lease \<Rightarrow> jobject" where
  "lease_to_dict l =
     [(''lease_id'', JStr (wl_id l)),
      (''graph_id'', JStr (wl_graph_id l)),
      (''node_id'', JStr (wl_node_id l)),
      (''agent_id'', JStr (wl_agent_id l)),
      (''fencing_token'', JInt (wl_fencing_token l)),
      (''granted_at'', JTime (wl_granted_at l)),
      (''expires_at'', JTime (wl_expires_at l)),
      (''match_score'', JFloat (wl_match_score l)),
      (''competence_estimate_refs'', JStrs (wl_competence_estimate_refs l))] @
     (if wl_information_access_decision_refs l = [] then []
      else [(''information_access_decision_refs'', JStrs (wl_information_access_decision_refs l))]) @
     (if wl_information_disclosure_decision_refs l = [] then []
      else [(''information_disclosure_decision_refs'', JStrs (wl_information_disclosure_decision_refs l))])"

definition lease_from_dict :: "builtins \<Rightarrow> jobject \<Rightarrow> work_lease result" where
  "lease_from_dict b d =
     rbind (j_str b d ''lease_id'') (\<lambda>i.
     rbind (j_str b d ''graph_id'') (\<lambda>graph.
     rbind (j_str b d ''node_id'') (\<lambda>node.
     rbind (j_str b d ''agent_id'') (\<lambda>agent.
     rbind (j_int b d ''fencing_token'') (\<lambda>token.
     rbind (j_time b d ''granted_at'') (\<lambda>granted.
     rbind (j_time b d ''expires_at'') (\<lambda>expires.
     rbind (j_float b d ''match_score'') (\<lambda>score.
     rbind (j_strs b d ''competence_estimate_refs'') (\<lambda>competence.
     rbind (j_strs b d ''information_access_decision_refs'') (\<lambda>access.
     rbind (j_strs b d ''information_disclosure_decision_refs'') (\<lambda>disclosure.
     let l = \<lparr>wl_id = i, wl_graph_id = graph, wl_node_id = node, wl_agent_id = agent,
              wl_fencing_token = token, wl_granted_at = granted, wl_expires_at = expires,
              wl_match_score = score, wl_competence_estimate_refs = competence,
              wl_information_access_decision_refs = access,
              wl_information_disclosure_decision_refs = disclosure\<rparr>
     in rbind (check_lease l) (\<lambda>_. Inr l))))))))))))"

definition lease_event_id :: "work_lease \<Rightarrow> string" where
  "lease_event_id l =
     fenced_name ''work-lease-granted'' (wl_graph_id l) (wl_node_id l) (wl_fencing_token l)"

definition lease_terminal_id :: "work_lease \<Rightarrow> string" where
  "lease_terminal_id l = ''work-lease-terminal:'' @ wl_id l"

definition lease_to_event :: "work_lease \<Rightarrow> string \<Rightarrow> string \<Rightarrow> jobject event result" where
  "lease_to_event l source causation_id =
     make_event (lease_event_id l) WORK_LEASE_GRANTED_EVENT source (wl_node_id l) (wl_granted_at l)
       (lease_to_dict l) (Some causation_id)"

definition lease_from_event :: "builtins \<Rightarrow> jobject event \<Rightarrow> work_lease result" where
  "lease_from_event b e =
     (if ev_type e \<noteq> WORK_LEASE_GRANTED_EVENT then Inl (ValueError ''not a work lease event'')
      else rbind (lease_from_dict b (ev_payload e)) (\<lambda>l.
        if ev_id e \<noteq> lease_event_id l then Inl (ValueError ''work lease event id is inconsistent'')
        else if ev_subject e \<noteq> Some (wl_node_id l) \<or> ev_timestamp e \<noteq> wl_granted_at l
        then Inl (ValueError ''work lease event envelope is inconsistent'')
        else if ev_causation_id e = None
        then Inl (ValueError ''work lease requires graph causation'')
        else Inr l))"

definition expiration_event :: "work_lease \<Rightarrow> string \<Rightarrow> datetime \<Rightarrow> string \<Rightarrow> jobject event result" where
  "expiration_event l source expired_at reason =
     rbind (raise_first
       (require_aware expired_at ''work lease expired_at'' @
        require_text reason ''work lease expiration reason'' @
        [(dt_before expired_at (wl_expires_at l),
          ValueError ''a work lease cannot expire before its deadline'')])) (\<lambda>_.
     make_event (lease_terminal_id l) WORK_LEASE_EXPIRED_EVENT source (wl_node_id l) expired_at
       (lease_to_dict l @ [(''expired_at'', JTime expired_at), (''reason'', JStr reason)])
       (Some (lease_event_id l)))"

definition completion_event ::
  "work_lease \<Rightarrow> string \<Rightarrow> datetime \<Rightarrow> string list \<Rightarrow> datetime option \<Rightarrow> bool option \<Rightarrow> jobject event result" where
  "completion_event l source accepted_at artifact_refs reported_finished_at verification_passed =
     rbind (raise_first
       (require_aware accepted_at ''work completion acceptance time'' @
        [(dt_before accepted_at (wl_granted_at l) \<or> dt_le (wl_expires_at l) accepted_at,
          ValueError ''work completion must be accepted during its active lease'')] @
        (case reported_finished_at of None \<Rightarrow> []
         | Some t \<Rightarrow> require_aware t ''reported work finish time'') @
        unique_text artifact_refs ''work completion artifact refs'' True)) (\<lambda>_.
     make_event (lease_terminal_id l) WORK_NODE_COMPLETED_EVENT source (wl_node_id l) accepted_at
       [(''lease_id'', JStr (wl_id l)),
        (''graph_id'', JStr (wl_graph_id l)),
        (''node_id'', JStr (wl_node_id l)),
        (''agent_id'', JStr (wl_agent_id l)),
        (''fencing_token'', JInt (wl_fencing_token l)),
        (''accepted_at'', JTime accepted_at),
        (''reported_finished_at'', json_opt JTime reported_finished_at),
        (''artifact_refs'', JStrs artifact_refs),
        (''verification_passed'', json_opt JBool verification_passed)]
       (Some (lease_event_id l)))"

definition plan_invalidation_event ::
  "work_graph \<Rightarrow> jobject event \<Rightarrow> string \<Rightarrow> datetime \<Rightarrow> string \<Rightarrow> jobject event result" where
  "plan_invalidation_event g trigger source invalidated_at reason =
     (case ev_sequence trigger of
        None \<Rightarrow> Inl (ValueError ''plan invalidation requires a canonical trigger'')
      | Some sq \<Rightarrow>
          rbind (raise_first
            ([(sq \<le> wg_based_on_event_cursor g,
               ValueError ''plan invalidation trigger must follow the plan causal cut''),
              (ev_type trigger \<notin> set (wg_replan_event_types g),
               ValueError ''event type is not a declared replan condition'')] @
             require_aware invalidated_at ''plan invalidated_at'' @
             [(dt_before invalidated_at (ev_timestamp trigger),
               ValueError ''plan invalidation cannot precede its causal trigger'')] @
             require_text reason ''plan invalidation reason'')) (\<lambda>_.
          make_event (''work-plan-invalidated:'' @ wg_id g @ '':'' @ ev_id trigger)
            WORK_PLAN_INVALIDATED_EVENT source (wg_work_order_id g) invalidated_at
            [(''graph_id'', JStr (wg_id g)),
             (''work_order_id'', JStr (wg_work_order_id g)),
             (''trigger_event_id'', JStr (ev_id trigger)),
             (''trigger_event_type'', JStr (ev_type trigger)),
             (''trigger_event_sequence'', JInt sq),
             (''invalidated_at'', JTime invalidated_at),
             (''reason'', JStr reason)]
            (Some (ev_id trigger))))"

lemma check_lease_ok:
  assumes "check_lease l = Inr ()"
  shows "0 < wl_fencing_token l" "is_aware (wl_granted_at l)" "is_aware (wl_expires_at l)"
    "wl_id l = fenced_name ''work-lease'' (wl_graph_id l) (wl_node_id l) (wl_fencing_token l)"
    "dt_before (wl_granted_at l) (wl_expires_at l)" "wl_competence_estimate_refs l \<noteq> []"
  using assms by (auto simp: check_lease_def raise_first_no_errors dt_before_def dt_le_def
      simp del: raise_first_ok)

lemma create_lease_fields:
  assumes "create_lease g n a t at0 dur sc cr ar dr = Inr l"
  shows "check_lease l = Inr ()" "wl_graph_id l = g" "wl_node_id l = n" "wl_agent_id l = a"
    "wl_fencing_token l = t" "wl_granted_at l = at0" "wl_expires_at l = dt_plus at0 dur"
    "wl_match_score l = sc" "wl_competence_estimate_refs l = cr"
    "wl_information_access_decision_refs l = ar" "wl_information_disclosure_decision_refs l = dr"
  using assms by (auto simp: create_lease_def Let_def rbind_Inr_iff)

lemma lease_round_trip:
  assumes "check_lease l = Inr ()"
  shows "lease_from_dict b (lease_to_dict l) = Inr l"
  using assms check_lease_ok(2,3) [OF assms]
  by (cases l) (auto simp: lease_from_dict_def lease_to_dict_def codec Let_def)

lemma lease_event_round_trip:
  assumes "check_lease l = Inr ()" "lease_to_event l source cause = Inr e"
  shows "lease_from_event b (with_sequence e n) = Inr l"
  using make_event_fields [OF assms(2) [unfolded lease_to_event_def]] lease_round_trip [OF assms(1)]
  by (simp add: lease_from_event_def)

end
