(* ===== verification/WorkPlanning.thy ===== *)
theory WorkPlanning
  imports WorkModels
begin

section \<open>Plan validation\<close>

text \<open>
  Models \<^verbatim>\<open>src/noema/work/planning.py\<close>: the fake planner and \<open>PlanValidator.validate\<close>, with its
  topological sort, its ancestor sets and every admission check. The sort is proved to visit every node
  exactly when the dependencies are acyclic, and the ancestor sets to be the transitive closure.
\<close>

definition propose ::
  "builtins \<Rightarrow> string \<Rightarrow> plan_proposal \<Rightarrow> datetime \<Rightarrow> work_order \<Rightarrow> int \<Rightarrow> int \<Rightarrow> plan_proposal result" where
  "propose b planner_id template now order cursor version =
     create_proposal b (template\<lparr>pp_planner_id := planner_id, pp_work_order_id := wo_id order,
       pp_based_on_event_cursor := cursor, pp_based_on_graph_version := version,
       pp_proposed_at := now\<rparr>)"

subsection \<open>The topological sort\<close>

definition deps_predecessors :: "work_dependency list \<Rightarrow> string \<Rightarrow> string set" where
  "deps_predecessors ds n = wd_predecessor_id ` {d \<in> set ds. wd_successor_id d = n}"

definition deps_successors :: "work_dependency list \<Rightarrow> string \<Rightarrow> string set" where
  "deps_successors ds n = wd_successor_id ` {d \<in> set ds. wd_predecessor_id d = n}"

text \<open>The inner loop, over the sorted successors of the node just visited.\<close>

fun release_successors ::
  "string \<Rightarrow> string list \<Rightarrow> string list \<Rightarrow> string list \<Rightarrow> (string \<Rightarrow> string set)
    \<Rightarrow> string list \<times> (string \<Rightarrow> string set)" where
  "release_successors n [] visited ready remaining = (ready, remaining)"
| "release_successors n (s # ss) visited ready remaining =
     (let remaining' = remaining(s := remaining s - {n});
          ready' = (if remaining' s = {} \<and> s \<notin> set visited then
                      (if s \<notin> set ready then sort (ready @ [s]) else ready)
                    else ready)
      in release_successors n ss visited ready' remaining')"

text \<open>
  The outer loop \<open>while ready\<close>. Every round visits a node that was not visited before, so as many
  rounds as there are nodes are enough (\<open>kahn_rounds_enough\<close>).
\<close>

fun kahn_rounds ::
  "nat \<Rightarrow> work_dependency list \<Rightarrow> string list \<Rightarrow> string list \<Rightarrow> (string \<Rightarrow> string set)
    \<Rightarrow> string list \<times> string list" where
  "kahn_rounds 0 ds ready visited remaining = (ready, visited)"
| "kahn_rounds (Suc k) ds [] visited remaining = ([], visited)"
| "kahn_rounds (Suc k) ds (n # ready) visited remaining =
     (let visited' = visited @ [n];
          (ready', remaining') = release_successors n (sorted_list_of_set (deps_successors ds n))
            visited' ready remaining
      in kahn_rounds k ds ready' visited' remaining')"

definition topological_visit :: "string list \<Rightarrow> work_dependency list \<Rightarrow> string list" where
  "topological_visit ids ds =
     snd (kahn_rounds (length ids) ds (sort (filter (\<lambda>n. deps_predecessors ds n = {}) ids)) []
       (deps_predecessors ds))"

definition ancestor_sets ::
  "work_dependency list \<Rightarrow> string list \<Rightarrow> string \<Rightarrow> string set" where
  "ancestor_sets ds visited =
     foldl (\<lambda>anc n. anc(n := anc n \<union> (\<Union>p \<in> deps_predecessors ds n. insert p (anc p))))
       (\<lambda>_. {}) visited"

subsection \<open>Admission\<close>

text \<open>\<open>sorted(set(xs)) == xs\<close>\<close>

definition strictly_ordered :: "int list \<Rightarrow> bool" where
  "strictly_ordered xs \<longleftrightarrow> xs = sorted_list_of_set (set xs)"

definition validate_plan ::
  "builtins \<Rightarrow> string \<Rightarrow> plan_proposal \<Rightarrow> work_order \<Rightarrow> int \<Rightarrow> int \<Rightarrow> int \<Rightarrow> string list
    \<Rightarrow> jobject event list \<Rightarrow> datetime \<Rightarrow> work_graph result" where
  "validate_plan b validator_id p order causal_cursor acceptance_cursor graph_version available
     intervening accepted_at =
     rbind (raise_first
       [(is_naive accepted_at, ValueError ''plan acceptance time must be timezone-aware''),
        (pp_work_order_id p \<noteq> wo_id order, ValueError ''plan proposal targets a different work order''),
        (dt_before (pp_proposed_at p) (wo_created_at order),
         ValueError ''plan proposal cannot precede its work order''),
        (dt_before accepted_at (pp_proposed_at p),
         ValueError ''plan acceptance cannot precede its proposal''),
        (pp_based_on_event_cursor p \<noteq> causal_cursor,
         ValueError ''plan proposal does not match the captured causal event cursor''),
        (acceptance_cursor < causal_cursor,
         ValueError ''plan acceptance head cannot precede the planning cut''),
        (list_ex (\<lambda>e. ev_sequence e = None) intervening,
         ValueError ''plan admission requires canonical intervening events'')]) (\<lambda>_.
     let sequences = map seq0 intervening;
         observed_head = (if sequences = [] then causal_cursor else last sequences);
         ids = map wn_id (pp_nodes p);
         ds = pp_dependencies p
     in
     rbind (raise_first
       [(\<not> strictly_ordered sequences,
         ValueError ''plan admission events must be unique and canonically ordered''),
        (list_ex (\<lambda>s. s \<le> causal_cursor \<or> acceptance_cursor < s) sequences,
         ValueError ''plan admission events fall outside the planning window''),
        (observed_head \<noteq> acceptance_cursor,
         ValueError ''plan admission events do not reach the acceptance head''),
        (pp_based_on_graph_version p \<noteq> graph_version,
         ValueError ''plan proposal does not match the current graph version''),
        (list_ex (\<lambda>e. ev_type e \<in> set (pp_replan_event_types p) \<and>
             pp_based_on_event_cursor p < seq0 e) intervening,
         ValueError ''plan proposal is stale at admission due to intervening events''),
        (\<not> set (wo_success_criteria order) \<subseteq> set (pp_done_conditions p),
         ValueError ''plan done conditions do not cover work-order success criteria''),
        (\<not> distinct ids, ValueError ''plan node ids must be unique''),
        (\<not> distinct (map (\<lambda>d. (wd_predecessor_id d, wd_successor_id d)) ds),
         ValueError ''plan dependencies must be unique''),
        (list_ex (\<lambda>d. wd_predecessor_id d \<notin> set ids \<or> wd_successor_id d \<notin> set ids) ds,
         ValueError ''plan dependencies reference unknown nodes''),
        (list_ex (\<lambda>n. list_ex (\<lambda>c. c \<notin> set available) (wn_required_capabilities n)) (pp_nodes p),
         ValueError ''plan requires unavailable capability types'')]) (\<lambda>_.
     let visited = topological_visit ids ds; ancestors = ancestor_sets ds visited in
     rbind (raise_first
       [(length visited \<noteq> length ids,
         ValueError ''plan dependencies must form a directed acyclic graph''),
        (list_ex (\<lambda>n. set (wn_verification_of n) - ancestors (wn_id n) \<noteq> {}) (pp_nodes p),
         ValueError ''verification node must depend on its targets'')]) (\<lambda>_.
     create_graph b p (graph_version + 1) validator_id accepted_at)))"

subsection \<open>Correctness of the sort\<close>

text \<open>The order \<open>p \<rightarrow> n\<close>: \<open>p\<close> is a predecessor of \<open>n\<close>.\<close>

definition dep_rel :: "work_dependency list \<Rightarrow> (string \<times> string) set" where
  "dep_rel ds = (\<lambda>d. (wd_predecessor_id d, wd_successor_id d)) ` set ds"

lemma deps_predecessors_rel: "p \<in> deps_predecessors ds n \<longleftrightarrow> (p, n) \<in> dep_rel ds"
  by (auto simp: deps_predecessors_def dep_rel_def)

lemma deps_successors_rel: "s \<in> deps_successors ds n \<longleftrightarrow> (n, s) \<in> dep_rel ds"
  by (auto simp: deps_successors_def dep_rel_def)

lemma finite_deps [simp]: "finite (deps_successors ds n)" "finite (deps_predecessors ds n)"
  "finite (dep_rel ds)"
  by (simp_all add: deps_successors_def deps_predecessors_def dep_rel_def)

lemma release_successors_remaining:
  "distinct ss \<Longrightarrow> snd (release_successors n ss visited ready remaining) =
     (\<lambda>m. if m \<in> set ss then remaining m - {n} else remaining m)"
  by (induction n ss visited ready remaining rule: release_successors.induct)
    (auto simp: Let_def fun_eq_iff)

lemma release_successors_ready:
  "distinct ss \<Longrightarrow> set (fst (release_successors n ss visited ready remaining)) =
     set ready \<union> {s \<in> set ss. remaining s - {n} = {} \<and> s \<notin> set visited}"
proof (induction n ss visited ready remaining rule: release_successors.induct)
  case (2 n s ss visited ready remaining)
  then have s: "s \<notin> set ss" "distinct ss" by auto
  let ?rem = "remaining(s := remaining s - {n})"
  have "{t \<in> set ss. ?rem t - {n} = {} \<and> t \<notin> set visited} =
      {t \<in> set ss. remaining t - {n} = {} \<and> t \<notin> set visited}"
    using s(1) by auto
  moreover have "?rem s = remaining s - {n}" by simp
  moreover have "{t \<in> set (s # ss). remaining t - {n} = {} \<and> t \<notin> set visited} =
      (if remaining s - {n} = {} \<and> s \<notin> set visited then {s} else {}) \<union>
      {t \<in> set ss. remaining t - {n} = {} \<and> t \<notin> set visited}"
    by auto
  ultimately show ?case
    using "2.IH" [OF refl refl s(2)] by (simp only: release_successors.simps Let_def) (simp add: insert_absorb Un_assoc)
qed auto

lemma release_successors_distinct:
  "distinct ready \<Longrightarrow> distinct (fst (release_successors n ss visited ready remaining))"
  by (induction n ss visited ready remaining rule: release_successors.induct) (auto simp: Let_def)

lemma release_successors_result:
  assumes "release_successors n ss visited ready remaining = (ready', remaining')" "distinct ss"
  shows "remaining' = (\<lambda>m. if m \<in> set ss then remaining m - {n} else remaining m)"
    "set ready' = set ready \<union> {s \<in> set ss. remaining s - {n} = {} \<and> s \<notin> set visited}"
    "distinct ready \<Longrightarrow> distinct ready'"
  using release_successors_remaining [OF assms(2), of n visited ready remaining]
    release_successors_ready [OF assms(2), of n visited ready remaining]
    release_successors_distinct [of ready n ss visited remaining] assms(1) by simp_all

text \<open>The invariant of the outer loop.\<close>

definition kahn_inv ::
  "string set \<Rightarrow> work_dependency list \<Rightarrow> string list \<Rightarrow> string list \<Rightarrow> (string \<Rightarrow> string set) \<Rightarrow> bool" where
  "kahn_inv N ds ready visited remaining \<longleftrightarrow>
     distinct (visited @ ready) \<and> set visited \<union> set ready \<subseteq> N \<and>
     (\<forall>n \<in> N. remaining n = deps_predecessors ds n - set visited) \<and>
     (\<forall>n \<in> N. n \<in> set visited \<union> set ready \<longleftrightarrow> deps_predecessors ds n \<subseteq> set visited) \<and>
     (\<forall>i < length visited. deps_predecessors ds (visited ! i) \<subseteq> set (take i visited))"

lemma kahn_inv_step:
  assumes "kahn_inv N ds (n # ready) visited remaining" "dep_rel ds \<subseteq> N \<times> N"
    and "release_successors n ss (visited @ [n]) ready remaining = (ready', remaining')"
    and succ: "distinct ss" "set ss = deps_successors ds n"
  shows "kahn_inv N ds ready' (visited @ [n]) remaining'"
proof -
  note rel = release_successors_result [OF assms(3) succ(1), unfolded succ(2)]
  have inv: "distinct (visited @ n # ready)" "insert n (set visited \<union> set ready) \<subseteq> N"
    "\<And>m. m \<in> N \<Longrightarrow> remaining m = deps_predecessors ds m - set visited"
    "\<And>m. m \<in> N \<Longrightarrow> m \<in> set visited \<or> m = n \<or> m \<in> set ready \<longleftrightarrow> deps_predecessors ds m \<subseteq> set visited"
    "\<And>i. i < length visited \<Longrightarrow> deps_predecessors ds (visited ! i) \<subseteq> set (take i visited)"
    using assms(1) by (auto simp: kahn_inv_def)
  have preds_n: "deps_predecessors ds n \<subseteq> set visited" using inv(2,4) by auto
  have succN: "deps_successors ds n \<subseteq> N"
    using assms(2) by (auto simp: deps_successors_rel)
  have remaining: "remaining' m = deps_predecessors ds m - set (visited @ [n])" if "m \<in> N" for m
    using inv(3) [OF that] rel(1) by (auto simp: deps_successors_rel deps_predecessors_rel)
  have ready: "set ready' = set ready \<union> {s \<in> deps_successors ds n.
      deps_predecessors ds s \<subseteq> set (visited @ [n]) \<and> s \<notin> set (visited @ [n])}"
  proof -
    have "remaining s - {n} = {} \<longleftrightarrow> deps_predecessors ds s \<subseteq> set (visited @ [n])"
      if "s \<in> deps_successors ds n" for s
      using inv(3) [of s] succN that by auto
    then show ?thesis using rel(2) by blast
  qed
  have "m \<in> set (visited @ [n]) \<union> set ready' \<longleftrightarrow> deps_predecessors ds m \<subseteq> set (visited @ [n])"
    if m: "m \<in> N" for m
  proof (cases "n \<in> deps_predecessors ds m")
    case True
    then have "m \<in> deps_successors ds n" by (simp add: deps_successors_rel deps_predecessors_rel)
    moreover have "n \<notin> set visited" using inv(1) by auto
    then have "m \<notin> set visited" "m \<noteq> n" "m \<notin> set ready" using True inv(4) [OF m] by auto
    ultimately show ?thesis using ready by auto
  next
    case False
    then have "deps_predecessors ds m \<subseteq> set (visited @ [n]) \<longleftrightarrow> deps_predecessors ds m \<subseteq> set visited"
      by auto
    then show ?thesis using inv(4) [OF m] ready False
      by (auto simp: deps_successors_rel deps_predecessors_rel)
  qed
  moreover have "deps_predecessors ds ((visited @ [n]) ! i) \<subseteq> set (take i (visited @ [n]))"
    if "i < length (visited @ [n])" for i
    using inv(5) [of i] preds_n that by (cases "i = length visited") (auto simp: nth_append)
  moreover have "distinct (visited @ [n]) \<and> distinct ready' \<and> set (visited @ [n]) \<inter> set ready' = {}"
    using inv(1) rel(3) ready by auto
  ultimately show ?thesis
    using remaining inv(2) ready succN unfolding kahn_inv_def by auto
qed

lemma kahn_inv_initial:
  "distinct ids \<Longrightarrow> kahn_inv (set ids) ds (sort (filter (\<lambda>n. deps_predecessors ds n = {}) ids)) []
     (deps_predecessors ds)"
  by (auto simp: kahn_inv_def)

lemma kahn_rounds_inv:
  assumes "kahn_inv N ds ready visited remaining" "dep_rel ds \<subseteq> N \<times> N" "finite N"
    and "card N \<le> k + length visited" "kahn_rounds k ds ready visited remaining = (ready', visited')"
  shows "ready' = [] \<and> (\<exists>remaining'. kahn_inv N ds [] visited' remaining')"
  using assms(1,2,4,5)
proof (induction k ds ready visited remaining rule: kahn_rounds.induct)
  case (1 ds ready visited remaining)
  then have d: "distinct (visited @ ready)" "set (visited @ ready) \<subseteq> N" "card N \<le> length visited"
    by (auto simp: kahn_inv_def)
  have "length (visited @ ready) = card (set (visited @ ready))"
    by (rule distinct_card [OF d(1), symmetric])
  also have "\<dots> \<le> card N" by (rule card_mono [OF assms(3) d(2)])
  finally have "length visited + length ready \<le> card N" by simp
  then have "length visited + length ready \<le> length visited" using d(3) by linarith
  then have "ready = []" by simp
  with 1 show ?case by auto
next
  case (3 k ds n ready visited remaining)
  obtain r1 m1 where rel: "release_successors n (sorted_list_of_set (deps_successors ds n)) (visited @ [n])
      ready remaining = (r1, m1)" by fastforce
  have inv: "kahn_inv N ds r1 (visited @ [n]) m1"
    by (rule kahn_inv_step [OF "3.prems"(1,2) rel]) simp_all
  show ?case
    using "3.IH" [OF refl rel [symmetric] refl inv "3.prems"(2)] "3.prems"(3,4) rel by (simp add: Let_def)
qed auto

text \<open>A list in which every node stands after its predecessors.\<close>

definition topological :: "work_dependency list \<Rightarrow> string list \<Rightarrow> bool" where
  "topological ds vs \<longleftrightarrow> distinct vs \<and> (\<forall>i < length vs. deps_predecessors ds (vs ! i) \<subseteq> set (take i vs))"

lemma topological_snoc:
  "topological ds (vs @ [n]) \<longleftrightarrow> topological ds vs \<and> n \<notin> set vs \<and> deps_predecessors ds n \<subseteq> set vs"
  by (auto simp: topological_def nth_append All_less_Suc)

lemma topological_Nil [simp]: "topological ds []"
  by (simp add: topological_def)

lemma topological_closed:
  "topological ds vs \<Longrightarrow> n \<in> set vs \<Longrightarrow> (p, n) \<in> (dep_rel ds)\<^sup>+ \<Longrightarrow> p \<in> set vs \<and> p \<noteq> n"
proof (induction vs arbitrary: n p rule: rev_induct)
  case (snoc v vs)
  then have vs: "topological ds vs" "v \<notin> set vs" "deps_predecessors ds v \<subseteq> set vs"
    by (auto simp: topological_snoc)
  obtain q where q: "(p, q) \<in> (dep_rel ds)\<^sup>*" "(q, n) \<in> dep_rel ds"
    using tranclD2 [OF snoc.prems(3)] by blast
  show ?case
  proof (cases "n = v")
    case True
    then have "q \<in> set vs" using q(2) vs(3) by (auto simp: deps_predecessors_rel)
    then have "p \<in> set vs" using q(1) snoc.IH [OF vs(1), of q p] by (auto simp: rtrancl_eq_or_trancl)
    then show ?thesis using True vs(2) by auto
  next
    case False
    then have "n \<in> set vs" using snoc.prems(2) by auto
    then show ?thesis using snoc.IH [OF vs(1) _ snoc.prems(3)] by auto
  qed
qed simp

lemma topological_acyclic:
  assumes "topological ds vs" "dep_rel ds \<subseteq> set vs \<times> set vs"
  shows "acyclic (dep_rel ds)"
proof (rule acyclicI, rule allI, rule notI)
  fix n assume n: "(n, n) \<in> (dep_rel ds)\<^sup>+"
  then have "n \<in> set vs" using assms(2) by (auto dest: tranclD)
  then show False using topological_closed [OF assms(1) _ n] by blast
qed

text \<open>When the loop ends, it has visited every node exactly when there is no cycle.\<close>

lemma kahn_inv_complete_iff:
  assumes "kahn_inv (set ids) ds [] v remaining" "distinct ids" "dep_rel ds \<subseteq> set ids \<times> set ids"
  shows "topological ds v" "set v \<subseteq> set ids" "length v = length ids \<longleftrightarrow> acyclic (dep_rel ds)"
proof -
  have v: "topological ds v" "set v \<subseteq> set ids"
    and closed: "\<And>n. n \<in> set ids \<Longrightarrow> deps_predecessors ds n \<subseteq> set v \<Longrightarrow> n \<in> set v"
    using assms(1) by (auto simp: kahn_inv_def topological_def)
  show "topological ds v" "set v \<subseteq> set ids" by (rule v)+
  have len: "length v = length ids \<longleftrightarrow> set v = set ids"
    using distinct_card [OF assms(2)] distinct_card [of v] v card_subset_eq [of "set ids" "set v"]
    by (simp add: topological_def) metis
  have "set ids \<subseteq> set v" if "acyclic (dep_rel ds)"
  proof
    have wf: "wf (dep_rel ds)" by (rule finite_acyclic_wf [OF finite_deps(3) that])
    fix n show "n \<in> set ids \<Longrightarrow> n \<in> set v"
    proof (induction n rule: wf_induct_rule [OF wf])
      case (1 n)
      then have "deps_predecessors ds n \<subseteq> set v"
        using assms(3) by (auto simp: deps_predecessors_rel)
      with 1 show ?case by (intro closed)
    qed
  qed
  with len v topological_acyclic [OF v(1)] assms(3) show "length v = length ids \<longleftrightarrow> acyclic (dep_rel ds)" by auto
qed

lemma topological_visit_result:
  assumes "distinct ids" "dep_rel ds \<subseteq> set ids \<times> set ids"
  shows "topological ds (topological_visit ids ds)" "set (topological_visit ids ds) \<subseteq> set ids"
    and topological_visit_complete_iff: "length (topological_visit ids ds) = length ids \<longleftrightarrow> acyclic (dep_rel ds)"
proof -
  obtain r v where run: "kahn_rounds (length ids) ds (sort (filter (\<lambda>n. deps_predecessors ds n = {}) ids)) []
      (deps_predecessors ds) = (r, v)" by fastforce
  have "card (set ids) \<le> length ids + length []" by (simp add: card_length)
  then obtain rem where inv: "kahn_inv (set ids) ds [] v rem"
    using kahn_rounds_inv [OF kahn_inv_initial [OF assms(1)] assms(2) finite_set _ run] by blast
  have v: "topological_visit ids ds = v" using run by (simp add: topological_visit_def)
  show "topological ds (topological_visit ids ds)" "set (topological_visit ids ds) \<subseteq> set ids"
    "length (topological_visit ids ds) = length ids \<longleftrightarrow> acyclic (dep_rel ds)"
    unfolding v by (rule kahn_inv_complete_iff [OF inv assms])+
qed

lemma trancl_last: "(p, n) \<in> R\<^sup>+ \<longleftrightarrow> (\<exists>q. (q, n) \<in> R \<and> (p = q \<or> (p, q) \<in> R\<^sup>+))"
proof
  assume "(p, n) \<in> R\<^sup>+"
  then obtain q where "(p, q) \<in> R\<^sup>*" "(q, n) \<in> R" by (blast dest: tranclD2)
  then show "\<exists>q. (q, n) \<in> R \<and> (p = q \<or> (p, q) \<in> R\<^sup>+)" by (blast dest: rtranclD)
qed (blast intro: trancl_into_trancl)

lemma ancestor_sets_trancl:
  "topological ds vs \<Longrightarrow> n \<in> set vs \<Longrightarrow> ancestor_sets ds vs n = {p. (p, n) \<in> (dep_rel ds)\<^sup>+}"
proof (induction vs arbitrary: n rule: rev_induct)
  case (snoc v vs)
  then have vs: "topological ds vs" "v \<notin> set vs" "deps_predecessors ds v \<subseteq> set vs"
    by (auto simp: topological_snoc)
  have unseen: "m \<notin> set ws \<Longrightarrow> ancestor_sets ds ws m = {}" for m ws
    by (induction ws rule: rev_induct) (auto simp: ancestor_sets_def)
  have step: "ancestor_sets ds (vs @ [v]) = (ancestor_sets ds vs)(v := ancestor_sets ds vs v \<union>
      (\<Union>p \<in> deps_predecessors ds v. insert p (ancestor_sets ds vs p)))"
    by (simp add: ancestor_sets_def)
  show ?case
  proof (cases "n = v")
    case True
    have "(\<Union>p \<in> deps_predecessors ds v. insert p (ancestor_sets ds vs p)) =
        (\<Union>p \<in> deps_predecessors ds v. insert p {q. (q, p) \<in> (dep_rel ds)\<^sup>+})"
      using snoc.IH [OF vs(1)] vs(3) by auto
    also have "\<dots> = {p. (p, v) \<in> (dep_rel ds)\<^sup>+}"
      by (subst trancl_last) (auto simp: deps_predecessors_rel)
    finally show ?thesis using unseen [OF vs(2)] True by (simp add: step)
  next
    case False
    then show ?thesis using snoc by (simp add: step vs(1))
  qed
qed simp

subsection \<open>What admission means\<close>

text \<open>
  The conditions a plan is admitted under, stated of the proposal, the work order and the stretch of the
  log read since the planning cut: nothing about sorting or visiting.
\<close>

definition admissible_plan ::
  "plan_proposal \<Rightarrow> work_order \<Rightarrow> int \<Rightarrow> int \<Rightarrow> int \<Rightarrow> string list \<Rightarrow> jobject event list \<Rightarrow> datetime \<Rightarrow> bool" where
  "admissible_plan p order causal_cursor acceptance_cursor graph_version available intervening accepted_at
    \<longleftrightarrow>
     \<not> is_naive accepted_at \<and> pp_work_order_id p = wo_id order \<and>
     \<not> dt_before (pp_proposed_at p) (wo_created_at order) \<and> \<not> dt_before accepted_at (pp_proposed_at p) \<and>
     pp_based_on_event_cursor p = causal_cursor \<and> pp_based_on_graph_version p = graph_version \<and>
     (\<forall>e \<in> set intervening. ev_sequence e \<noteq> None \<and> causal_cursor < seq0 e \<and> seq0 e \<le> acceptance_cursor \<and>
        ev_type e \<notin> set (pp_replan_event_types p)) \<and>
     sorted_wrt (\<lambda>d e. seq0 d < seq0 e) intervening \<and>
     (if intervening = [] then acceptance_cursor = causal_cursor
      else seq0 (last intervening) = acceptance_cursor) \<and>
     set (wo_success_criteria order) \<subseteq> set (pp_done_conditions p) \<and>
     distinct (map wn_id (pp_nodes p)) \<and>
     distinct (map (\<lambda>d. (wd_predecessor_id d, wd_successor_id d)) (pp_dependencies p)) \<and>
     dep_rel (pp_dependencies p) \<subseteq> set (map wn_id (pp_nodes p)) \<times> set (map wn_id (pp_nodes p)) \<and>
     acyclic (dep_rel (pp_dependencies p)) \<and>
     (\<forall>n \<in> set (pp_nodes p). set (wn_required_capabilities n) \<subseteq> set available \<and>
        (\<forall>t \<in> set (wn_verification_of n). (t, wn_id n) \<in> (dep_rel (pp_dependencies p))\<^sup>+))"

lemma strictly_ordered_sorted: "strictly_ordered xs \<longleftrightarrow> sorted_wrt (<) xs"
  unfolding strictly_ordered_def
  by (metis sorted_list_of_set.idem_if_sorted_distinct distinct_sorted_list_of_set
      sorted_list_of_set.sorted_sorted_key_list_of_set strict_sorted_iff strict_sorted_list_of_set)


lemma validate_plan_Inr_iff:
  "validate_plan b w p order causal_cursor acceptance_cursor graph_version available intervening
       accepted_at = Inr g \<longleftrightarrow>
     admissible_plan p order causal_cursor acceptance_cursor graph_version available intervening
       accepted_at \<and> create_graph b p (graph_version + 1) w accepted_at = Inr g"
proof -
  let ?ids = "map wn_id (pp_nodes p)" and ?ds = "pp_dependencies p"
  let ?known = "distinct ?ids \<and> dep_rel ?ds \<subseteq> set ?ids \<times> set ?ids"
  let ?v = "topological_visit ?ids ?ds"
  have known: "(\<forall>d \<in> set ?ds. wd_predecessor_id d \<in> set ?ids \<and> wd_successor_id d \<in> set ?ids) \<longleftrightarrow>
      dep_rel ?ds \<subseteq> set ?ids \<times> set ?ids"
    by (auto simp: dep_rel_def)
  have anc: "ancestor_sets ?ds ?v (wn_id n) = {t. (t, wn_id n) \<in> (dep_rel ?ds)\<^sup>+}"
    if "?known" "acyclic (dep_rel ?ds)" "n \<in> set (pp_nodes p)" for n
  proof (rule ancestor_sets_trancl)
    show "topological ?ds ?v" using that(1) by (intro topological_visit_result) auto
    have "length ?v = length ?ids" using topological_visit_complete_iff that(1,2) by blast
    then have "set ?v = set ?ids"
      using topological_visit_result [of ?ids ?ds] that(1)
      by (metis card_subset_eq distinct_card finite_set topological_def)
    then show "wn_id n \<in> set ?v" using that(3) by auto
  qed
  have complete: "length ?v = length ?ids \<longleftrightarrow> acyclic (dep_rel ?ds)" if "?known"
    using topological_visit_complete_iff that by blast
  have verified: "(\<forall>n \<in> set (pp_nodes p). set (wn_verification_of n) - ancestor_sets ?ds ?v (wn_id n) = {})
      \<longleftrightarrow> (\<forall>n \<in> set (pp_nodes p). \<forall>t \<in> set (wn_verification_of n). (t, wn_id n) \<in> (dep_rel ?ds)\<^sup>+)"
    if "?known" "acyclic (dep_rel ?ds)"
  proof (rule ball_cong [OF refl])
    fix n assume "n \<in> set (pp_nodes p)"
    from anc [OF that this] show "(set (wn_verification_of n) - ancestor_sets ?ds ?v (wn_id n) = {}) \<longleftrightarrow>
        (\<forall>t \<in> set (wn_verification_of n). (t, wn_id n) \<in> (dep_rel ?ds)\<^sup>+)" by auto
  qed
  have head: "causal_cursor \<le> acceptance_cursor \<and>
      (if map seq0 intervening = [] then causal_cursor else last (map seq0 intervening)) = acceptance_cursor
      \<and> (\<forall>s \<in> set (map seq0 intervening). \<not> (s \<le> causal_cursor \<or> acceptance_cursor < s)) \<longleftrightarrow>
    (\<forall>e \<in> set intervening. causal_cursor < seq0 e \<and> seq0 e \<le> acceptance_cursor) \<and>
     (if intervening = [] then acceptance_cursor = causal_cursor
      else seq0 (last intervening) = acceptance_cursor)"
    by (cases intervening rule: rev_cases) auto
  show ?thesis
  proof (cases "?known \<and> acyclic (dep_rel ?ds)")
    case True
    let ?seqs = "map seq0 intervening"
    have "validate_plan b w p order causal_cursor acceptance_cursor graph_version available intervening
       accepted_at = Inr g \<longleftrightarrow>
      (\<not> is_naive accepted_at \<and> pp_work_order_id p = wo_id order \<and>
       \<not> dt_before (pp_proposed_at p) (wo_created_at order) \<and> \<not> dt_before accepted_at (pp_proposed_at p) \<and>
       pp_based_on_event_cursor p = causal_cursor \<and> (\<forall>e \<in> set intervening. ev_sequence e \<noteq> None)) \<and>
      (causal_cursor \<le> acceptance_cursor \<and>
       (if ?seqs = [] then causal_cursor else last ?seqs) = acceptance_cursor \<and>
       (\<forall>s \<in> set ?seqs. \<not> (s \<le> causal_cursor \<or> acceptance_cursor < s))) \<and>
      (sorted_wrt (\<lambda>d e. seq0 d < seq0 e) intervening \<and> pp_based_on_graph_version p = graph_version \<and>
       (\<forall>e \<in> set intervening. \<not> (ev_type e \<in> set (pp_replan_event_types p) \<and>
          pp_based_on_event_cursor p < seq0 e)) \<and>
       set (wo_success_criteria order) \<subseteq> set (pp_done_conditions p) \<and>
       distinct (map (\<lambda>d. (wd_predecessor_id d, wd_successor_id d)) ?ds) \<and>
       (\<forall>n \<in> set (pp_nodes p). \<forall>c \<in> set (wn_required_capabilities n). c \<in> set available)) \<and>
      (\<forall>n \<in> set (pp_nodes p). set (wn_verification_of n) - ancestor_sets ?ds ?v (wn_id n) = {}) \<and>
      create_graph b p (graph_version + 1) w accepted_at = Inr g"
      using True complete known
      by (simp add: validate_plan_def Let_def rbind_Inr_iff list_all_iff list_ex_iff
          strictly_ordered_sorted sorted_wrt_map not_less not_le) argo
    note steps = this [unfolded head]
    show ?thesis
    proof (rule iffI)
      assume "validate_plan b w p order causal_cursor acceptance_cursor graph_version available intervening
        accepted_at = Inr g"
      note f = this [unfolded steps]
      then have "\<forall>e \<in> set intervening. ev_type e \<notin> set (pp_replan_event_types p)" by auto
      with f True verified show "admissible_plan p order causal_cursor acceptance_cursor graph_version
          available intervening accepted_at \<and> create_graph b p (graph_version + 1) w accepted_at = Inr g"
        unfolding admissible_plan_def by (elim conjE, intro conjI) (assumption | blast)+
    next
      assume "admissible_plan p order causal_cursor acceptance_cursor graph_version
          available intervening accepted_at \<and> create_graph b p (graph_version + 1) w accepted_at = Inr g"
      then show "validate_plan b w p order causal_cursor acceptance_cursor graph_version available
          intervening accepted_at = Inr g"
        unfolding steps admissible_plan_def using verified True
        by (elim conjE, intro conjI) (assumption | blast)+
    qed
  next
    case False
    then show ?thesis
      using known complete
      by (auto simp: validate_plan_def admissible_plan_def Let_def rbind_Inr_iff list_all_iff list_ex_iff)
  qed
qed

subsection \<open>Properties\<close>

text \<open>
  C9: A plan is accepted exactly when it is admissible: it targets the work order, was made at the
  planning cut and at the current graph version, nothing that invalidates it happened up to the acceptance
  head, its dependencies are acyclic over its own nodes, every verification node has its targets as
  ancestors and every capability type is available. The result is then the next version of the graph.
\<close>

theorem plan_admitted_exactly:
  "validate_plan b w p order causal_cursor acceptance_cursor graph_version available intervening
       accepted_at = Inr g \<longleftrightarrow>
     admissible_plan p order causal_cursor acceptance_cursor graph_version available intervening
       accepted_at \<and> create_graph b p (graph_version + 1) w accepted_at = Inr g"
  by (rule validate_plan_Inr_iff)

text \<open>
  C10: The topological sort of the validator ends: within as many rounds as there are nodes nothing is left
  ready; and it has then visited every node exactly when the dependencies form a directed acyclic graph.
\<close>

theorem sort_detects_cycles:
  assumes "distinct ids" "dep_rel ds \<subseteq> set ids \<times> set ids"
  shows "fst (kahn_rounds (length ids) ds (sort (filter (\<lambda>n. deps_predecessors ds n = {}) ids)) []
      (deps_predecessors ds)) = [] \<and>
    (length (topological_visit ids ds) = length ids \<longleftrightarrow> acyclic (dep_rel ds))"
proof -
  have "card (set ids) \<le> length ids + length []" by (simp add: card_length)
  from kahn_rounds_inv [OF kahn_inv_initial [OF assms(1)] assms(2) finite_set this]
  show ?thesis
    by (metis prod.collapse topological_visit_complete_iff [OF assms])
qed

theorem sort_detects_cycles_witness:
  "length (topological_visit [''b'', ''a''] [\<lparr>wd_predecessor_id = ''a'', wd_successor_id = ''b''\<rparr>]) = 2 \<and>
   \<not> acyclic (dep_rel [\<lparr>wd_predecessor_id = ''a'', wd_successor_id = ''b''\<rparr>,
      \<lparr>wd_predecessor_id = ''b'', wd_successor_id = ''a''\<rparr>])"
proof -
  let ?up = "[\<lparr>wd_predecessor_id = ''a'', wd_successor_id = ''b''\<rparr>]"
  let ?cycle = "?up @ [\<lparr>wd_predecessor_id = ''b'', wd_successor_id = ''a''\<rparr>]"
  have "acyclic (dep_rel ?up)" by (auto simp: dep_rel_def acyclic_def trancl_insert)
  moreover have "length (topological_visit [''b'', ''a''] ?cycle) \<noteq> length [''b'', ''a'']"
    by code_simp
  ultimately show ?thesis
    using sort_detects_cycles [of "[''b'', ''a'']" ?up] sort_detects_cycles [of "[''b'', ''a'']" ?cycle]
    by (simp add: dep_rel_def)
qed

end
