(* ===== verification/WorkProjection.thy ===== *)
theory WorkProjection
  imports WorkPlanning Contracts "HOL-Library.Product_Lexorder"
begin

section \<open>The projection of work control\<close>

text \<open>
  Models \<open>WorkProjection\<close> of \<^verbatim>\<open>src/noema/work/coordination.py\<close>: the state rebuilt from the canonical event
  log, the handler of each event type with every check it makes, and the queries. The decisions of
  information governance that a lease cites are read through two decoders, arguments of the model, since
  the projection only uses the fields collected in \<open>governance_decision\<close>.
\<close>

definition INFORMATION_ACCESS_DECIDED_EVENT :: string where
  "INFORMATION_ACCESS_DECIDED_EVENT = ''information.access_decided''"

definition DISCLOSURE_DECIDED_EVENT :: string where
  "DISCLOSURE_DECIDED_EVENT = ''information.disclosure_decided''"

subsection \<open>State\<close>

record node_completion =
  nc_graph_id :: string
  nc_node_id :: string
  nc_agent_id :: string
  nc_lease_id :: string
  nc_fencing_token :: int
  nc_accepted_at :: datetime
  nc_reported_finished_at :: "datetime option"
  nc_artifact_refs :: "string list"
  nc_verification_passed :: "bool option"

record plan_invalidation =
  pi_graph_id :: string
  pi_trigger_event_id :: string
  pi_trigger_event_sequence :: int
  pi_invalidated_at :: datetime
  pi_reason :: string

datatype lease_outcome = Active | Expired | Completed

record work_state =
  ws_events :: "(string \<times> jobject event) list"
  ws_last_sequence :: int
  ws_orders :: "(string \<times> work_order) list"
  ws_proposals :: "(string \<times> plan_proposal) list"
  ws_graphs :: "(string \<times> work_graph) list"
  ws_latest :: "(string \<times> string) list"
  ws_invalidations :: "(string \<times> plan_invalidation) list"
  ws_presence :: "(string \<times> agent_presence) list"
  ws_manifests :: "(string \<times> capability_manifest) list"
  ws_competence :: "((string \<times> string) \<times> competence_estimate) list"
  ws_leases :: "(string \<times> work_lease) list"
  ws_outcomes :: "(string \<times> lease_outcome) list"
  ws_completions :: "((string \<times> string) \<times> node_completion) list"
  ws_tokens :: "((string \<times> string) \<times> int) list"

definition empty_work :: work_state where
  "empty_work = \<lparr>ws_events = [], ws_last_sequence = 0, ws_orders = [], ws_proposals = [],
     ws_graphs = [], ws_latest = [], ws_invalidations = [], ws_presence = [], ws_manifests = [],
     ws_competence = [], ws_leases = [], ws_outcomes = [], ws_completions = [], ws_tokens = []\<rparr>"

text \<open>What the projection reads of an access or disclosure decision.\<close>

record governance_decision =
  gd_decision_id :: string
  gd_information_id :: string
  gd_allowed :: bool
  gd_operation :: string
  gd_principal_id :: string
  gd_recipient :: string
  gd_source_domain :: string
  gd_destination_domain :: string
  gd_decided_at :: datetime
  gd_causal_event_cursor :: int

record decoders =
  dec_builtins :: builtins
  dec_access :: "jobject event \<Rightarrow> governance_decision result"
  dec_disclosure :: "jobject event \<Rightarrow> governance_decision result"

definition WORK_ASSIGN :: string where
  "WORK_ASSIGN = ''work_assign''"

subsection \<open>Queries\<close>

definition latest_graph :: "work_state \<Rightarrow> string \<Rightarrow> work_graph option" where
  "latest_graph s order_id = (case map_of (ws_latest s) order_id of
     None \<Rightarrow> None | Some g \<Rightarrow> map_of (ws_graphs s) g)"

definition graph_is_active :: "work_state \<Rightarrow> string \<Rightarrow> bool" where
  "graph_is_active s graph_id = (case map_of (ws_graphs s) graph_id of
     None \<Rightarrow> False
   | Some g \<Rightarrow> map_of (ws_invalidations s) graph_id = None \<and>
       map_of (ws_latest s) (wg_work_order_id g) = Some graph_id)"

definition lease_less :: "work_lease \<Rightarrow> work_lease \<Rightarrow> bool" where
  "lease_less l m = ((wl_graph_id l, wl_node_id l, wl_fencing_token l)
     < (wl_graph_id m, wl_node_id m, wl_fencing_token m))"

definition sorted_leases :: "work_state \<Rightarrow> work_lease list" where
  "sorted_leases s = py_sorted lease_less (map snd (ws_leases s))"

definition active_leases :: "work_state \<Rightarrow> work_lease list" where
  "active_leases s = filter (\<lambda>l. map_of (ws_outcomes s) (wl_id l) = Some Active) (sorted_leases s)"

definition active_lease_for_node :: "work_state \<Rightarrow> string \<Rightarrow> string \<Rightarrow> work_lease option" where
  "active_lease_for_node s g n =
     find (\<lambda>l. wl_graph_id l = g \<and> wl_node_id l = n) (active_leases s)"

definition active_lease :: "work_state \<Rightarrow> string \<Rightarrow> work_lease option" where
  "active_lease s lease_id = (case map_of (ws_leases s) lease_id of
     None \<Rightarrow> None
   | Some l \<Rightarrow> if map_of (ws_outcomes s) (wl_id l) \<noteq> Some Active then None else Some l)"

definition completed :: "work_state \<Rightarrow> string \<Rightarrow> string \<Rightarrow> bool" where
  "completed s g n = (map_of (ws_completions s) (g, n) \<noteq> None)"

definition worker_for_node :: "work_state \<Rightarrow> string \<Rightarrow> string \<Rightarrow> string option" where
  "worker_for_node s g n = map_option nc_agent_id (map_of (ws_completions s) (g, n))"

definition highest_token :: "work_state \<Rightarrow> string \<times> string \<Rightarrow> int" where
  "highest_token s k = (case map_of (ws_tokens s) k of None \<Rightarrow> 0 | Some t \<Rightarrow> t)"

definition next_fencing_token :: "work_state \<Rightarrow> string \<Rightarrow> string \<Rightarrow> int" where
  "next_fencing_token s g n = highest_token s (g, n) + 1"

definition active_lease_count :: "work_state \<Rightarrow> string \<Rightarrow> int" where
  "active_lease_count s agent = int (length (filter (\<lambda>l. wl_agent_id l = agent) (active_leases s)))"

text \<open>\<open>available_capability_types\<close>, with the cut as an optional argument.\<close>

definition available_capability_types :: "builtins \<Rightarrow> work_state \<Rightarrow> int option \<Rightarrow> string list result" where
  "available_capability_types b s through =
     rbind (case through of
         None \<Rightarrow> Inr (ws_manifests s)
       | Some bound \<Rightarrow>
           foldM (\<lambda>ms e. rbind (manifest_from_event b e) (\<lambda>m. Inr (AList.update (cm_agent_id m) m ms))) []
             (filter (\<lambda>e. ev_type e = CAPABILITY_MANIFEST_RECORDED_EVENT \<and> seq0 e \<le> bound)
               (map snd (ws_events s))))
       (\<lambda>ms. Inr (sort (remdups (concat (map (cm_capabilities \<circ> snd) ms)))))"

definition events_after :: "work_state \<Rightarrow> int \<Rightarrow> int option \<Rightarrow> jobject event list" where
  "events_after s sequence through =
     filter (\<lambda>e. sequence < seq0 e \<and> (case through of None \<Rightarrow> True | Some bound \<Rightarrow> seq0 e \<le> bound))
       (map snd (ws_events s))"

subsection \<open>The grant of a lease\<close>

text \<open>\<open>min(value.score * value.evidence_confidence for value in estimates)\<close>\<close>

definition min_score :: "competence_estimate list \<Rightarrow> pyfloat result" where
  "min_score es = (case map (\<lambda>c. ce_score c * ce_evidence_confidence c) es of
     [] \<Rightarrow> Inl (ValueError ''min() iterable argument is empty'')
   | x # xs \<Rightarrow> Inr (foldl py_min x xs))"

definition current_estimates :: "work_state \<Rightarrow> string \<Rightarrow> work_node \<Rightarrow> competence_estimate option list" where
  "current_estimates s agent n = map (\<lambda>c. map_of (ws_competence s) (agent, c)) (wn_required_capabilities n)"

definition excluded_workers :: "work_state \<Rightarrow> string \<Rightarrow> work_node \<Rightarrow> string list" where
  "excluded_workers s g n = List.map_filter (worker_for_node s g) (wn_verification_of n)"

definition has_exact_predecessor_head :: "work_state \<Rightarrow> jobject event \<Rightarrow> int \<Rightarrow> bool" where
  "has_exact_predecessor_head s e cursor = (case ev_sequence e of
     None \<Rightarrow> False
   | Some sq \<Rightarrow> cursor < sq \<and>
       (let earlier = filter (\<lambda>n. n < sq) (map (seq0 \<circ> snd) (ws_events s))
        in (if earlier = [] then 0 else Max (set earlier)) = cursor))"

text \<open>One cited decision: its canonical event, which was admitted at the exact head, and its content.\<close>

definition cited_decision ::
  "(jobject event \<Rightarrow> governance_decision result) \<Rightarrow> work_state \<Rightarrow> string \<Rightarrow> string
    \<Rightarrow> (jobject event \<times> governance_decision) result" where
  "cited_decision decode s prefix decision_id =
     (case map_of (ws_events s) (prefix @ '':'' @ decision_id) of
        None \<Rightarrow> Inl (ValueError ''work lease cites a non-canonical decision'')
      | Some e \<Rightarrow> rbind (decode e) (\<lambda>d.
          if \<not> has_exact_predecessor_head s e (gd_causal_event_cursor d)
          then Inl (ValueError ''work lease decision lacks exact-head admission'')
          else Inr (e, d)))"

text \<open>The conditions on a decision that permits assigning work to the lease's agent.\<close>

definition decision_applies :: "work_lease \<Rightarrow> governance_decision \<Rightarrow> bool" where
  "decision_applies l d \<longleftrightarrow> gd_allowed d \<and> gd_operation d = WORK_ASSIGN \<and>
     gd_principal_id d = wl_agent_id l \<and> gd_recipient d = wl_agent_id l \<and> gd_decided_at d = wl_granted_at l"

definition crosses_domain :: "governance_decision \<Rightarrow> bool" where
  "crosses_domain d \<longleftrightarrow> gd_destination_domain d \<noteq> gd_source_domain d"

definition validate_information_access ::
  "decoders \<Rightarrow> work_state \<Rightarrow> work_lease \<Rightarrow> work_node \<Rightarrow> unit result" where
  "validate_information_access dec s l n =
     (if wn_governed_information_refs n = [] then
        raise_first [(wl_information_access_decision_refs l \<noteq> [] \<or>
            wl_information_disclosure_decision_refs l \<noteq> [],
          ValueError ''ungoverned work cannot cite information decisions'')]
      else
        rbind (raise_first [(length (wl_information_access_decision_refs l) \<noteq>
            length (wn_governed_information_refs n),
          ValueError ''work lease lacks complete information access evidence'')]) (\<lambda>_.
        rbind (mapM (cited_decision (dec_access dec) s ''information-access-decided'')
          (wl_information_access_decision_refs l)) (\<lambda>access.
        let decisions = map snd access;
            crossing = map gd_information_id (filter crosses_domain decisions)
        in
        rbind (raise_first
          [(set (map gd_information_id decisions) \<noteq> set (wn_governed_information_refs n),
            ValueError ''work lease access evidence covers different information''),
           (\<not> list_all (decision_applies l) decisions,
            ValueError ''work lease information access evidence is inapplicable''),
           (length (wl_information_disclosure_decision_refs l) \<noteq> length (remdups crossing),
            ValueError ''work lease lacks required cross-domain disclosure evidence'')]) (\<lambda>_.
        rbind (mapM (cited_decision (dec_disclosure dec) s ''information-disclosure-decided'')
          (wl_information_disclosure_decision_refs l)) (\<lambda>disclosure.
        let disclosures = map snd disclosure;
            bound = Min (set (map (seq0 \<circ> fst) (access @ disclosure)))
        in
        raise_first
          [(set (map gd_information_id disclosures) \<noteq> set crossing,
            ValueError ''work lease disclosure evidence covers different information''),
           (\<not> list_all (\<lambda>d. decision_applies l d \<and> crosses_domain d) disclosures,
            ValueError ''work lease disclosure evidence is inapplicable''),
           (list_ex (\<lambda>e. bound < seq0 e \<and> ev_type e \<notin>
                {INFORMATION_ACCESS_DECIDED_EVENT, DISCLOSURE_DECIDED_EVENT}) (map snd (ws_events s)),
            ValueError ''work lease access evidence is stale across an intervening canonical event'')])))))"

text \<open>\<open>node_of s l\<close>: the node the lease is about, in its graph.\<close>

definition validate_lease_grant :: "decoders \<Rightarrow> work_state \<Rightarrow> work_lease \<Rightarrow> unit result" where
  "validate_lease_grant dec s l =
     (case map_of (ws_graphs s) (wl_graph_id l) of
        None \<Rightarrow> Inl (ValueError ''work lease requires an active work graph'')
      | Some g \<Rightarrow>
        if \<not> graph_is_active s (wl_graph_id l)
        then Inl (ValueError ''work lease requires an active work graph'') else
        rbind (graph_node g (wl_node_id l)) (\<lambda>n.
        rbind (raise_first
          [(completed s (wg_id g) (wn_id n), ValueError ''completed work cannot receive another lease''),
           (active_lease_for_node s (wg_id g) (wn_id n) \<noteq> None,
            ValueError ''work node already has an active lease''),
           (list_ex (\<lambda>p. \<not> completed s (wg_id g) p) (graph_predecessors g (wn_id n)),
            ValueError ''work node dependencies are not complete''),
           (wl_fencing_token l \<noteq> next_fencing_token s (wg_id g) (wn_id n),
            ValueError ''work lease fencing token is not the next token'')]) (\<lambda>_.
        case map_of (ws_presence s) (wl_agent_id l) of
          None \<Rightarrow> Inl (ValueError ''work lease requires an available agent'')
        | Some a \<Rightarrow>
          if ag_status a \<noteq> Available then Inl (ValueError ''work lease requires an available agent'') else
          rbind (presence_is_valid_at a (wl_granted_at l)) (\<lambda>valid.
          rbind (raise_first
            [(\<not> valid, ValueError ''work lease requires an available agent''),
             (ag_max_concurrency a \<le> active_lease_count s (wl_agent_id l),
              ValueError ''work lease exceeds agent concurrency capacity''),
             (case map_of (ws_manifests s) (wl_agent_id l) of None \<Rightarrow> True
              | Some m \<Rightarrow> \<not> set (wn_required_capabilities n) \<subseteq> set (cm_capabilities m),
              ValueError ''work lease agent lacks a declared capability''),
             (None \<in> set (current_estimates s (wl_agent_id l) n),
              ValueError ''work lease requires competence estimates for every capability'')]) (\<lambda>_.
          let estimates = map the (current_estimates s (wl_agent_id l) n) in
          rbind (raise_first
            [(list_ex (\<lambda>c. ce_basis c \<noteq> Seeded) estimates,
              ValueError ''v0.5 work leases require seeded competence estimates''),
             (wl_competence_estimate_refs l \<noteq> map ce_id estimates,
              ValueError ''work lease competence evidence is not the current estimate set'')]) (\<lambda>_.
          rbind (min_score estimates) (\<lambda>expected.
          rbind (raise_first
            [(\<not> is_close (wl_match_score l) expected,
              ValueError ''work lease match score is inconsistent with competence evidence''),
             (wl_agent_id l \<in> set (excluded_workers s (wg_id g) n),
              ValueError ''verification work must use a worker independent of its target'')]) (\<lambda>_.
          validate_information_access dec s l n))))))))"

subsection \<open>Handlers\<close>

text \<open>Each handler checks the event against the state and returns the new state.\<close>

definition apply_order :: "builtins \<Rightarrow> work_state \<Rightarrow> jobject event \<Rightarrow> work_state result" where
  "apply_order b s e =
     rbind (work_order_from_event b e) (\<lambda>o1.
     if (case map_of (ws_orders s) (wo_id o1) of None \<Rightarrow> False | Some old \<Rightarrow> old \<noteq> o1)
     then Inl (ValueError ''work order changed'')
     else Inr (s\<lparr>ws_orders := AList.update (wo_id o1) o1 (ws_orders s)\<rparr>))"

definition apply_proposal :: "builtins \<Rightarrow> work_state \<Rightarrow> jobject event \<Rightarrow> work_state result" where
  "apply_proposal b s e =
     rbind (proposal_from_event b e) (\<lambda>p.
     rbind (raise_first
       [(map_of (ws_orders s) (pp_work_order_id p) = None,
         ValueError ''plan proposal references an unknown work order''),
        (ev_causation_id e \<noteq> Some (work_order_event_id (pp_work_order_id p)),
         ValueError ''plan proposal causation is inconsistent''),
        (case map_of (ws_proposals s) (pp_id p) of None \<Rightarrow> False | Some old \<Rightarrow> old \<noteq> p,
         ValueError ''plan proposal changed'')]) (\<lambda>_.
     Inr (s\<lparr>ws_proposals := AList.update (pp_id p) p (ws_proposals s)\<rparr>)))"

definition apply_graph :: "builtins \<Rightarrow> work_state \<Rightarrow> jobject event \<Rightarrow> work_state result" where
  "apply_graph b s e =
     rbind (graph_from_event b e) (\<lambda>g.
     case (map_of (ws_proposals s) (wg_proposal_id g), map_of (ws_orders s) (wg_work_order_id g)) of
       (Some p, Some order) \<Rightarrow>
         if ev_causation_id e \<noteq> Some (proposal_event_id (wg_proposal_id g))
         then Inl (ValueError ''work graph causation is inconsistent'') else
         let version = (case latest_graph s (wg_work_order_id g) of None \<Rightarrow> 0 | Some c \<Rightarrow> wg_version c)
         in rbind (available_capability_types b s (Some (pp_based_on_event_cursor p))) (\<lambda>available.
            rbind (validate_plan b (wg_validator_id g) p order (pp_based_on_event_cursor p)
                (ws_last_sequence s) version available
                (events_after s (pp_based_on_event_cursor p) (Some (seq0 e - 1))) (wg_accepted_at g))
              (\<lambda>expected.
            if g \<noteq> expected
            then Inl (ValueError ''accepted work graph differs from deterministic validation'')
            else Inr (s\<lparr>ws_graphs := AList.update (wg_id g) g (ws_graphs s),
                        ws_latest := AList.update (wg_work_order_id g) (wg_id g) (ws_latest s)\<rparr>)))
     | _ \<Rightarrow> Inl (ValueError ''work graph references unknown planning state''))"

definition apply_presence :: "builtins \<Rightarrow> work_state \<Rightarrow> jobject event \<Rightarrow> work_state result" where
  "apply_presence b s e =
     rbind (presence_from_event b e) (\<lambda>a.
     if (case map_of (ws_presence s) (ag_agent_id a) of None \<Rightarrow> False
         | Some old \<Rightarrow> dt_before (ag_observed_at a) (ag_observed_at old))
     then Inl (ValueError ''agent presence regressed'')
     else Inr (s\<lparr>ws_presence := AList.update (ag_agent_id a) a (ws_presence s)\<rparr>))"

definition apply_manifest :: "builtins \<Rightarrow> work_state \<Rightarrow> jobject event \<Rightarrow> work_state result" where
  "apply_manifest b s e =
     rbind (manifest_from_event b e) (\<lambda>m.
     if (case map_of (ws_manifests s) (cm_agent_id m) of None \<Rightarrow> False
         | Some old \<Rightarrow> dt_before (cm_recorded_at m) (cm_recorded_at old))
     then Inl (ValueError ''capability manifest regressed'')
     else Inr (s\<lparr>ws_manifests := AList.update (cm_agent_id m) m (ws_manifests s)\<rparr>))"

definition apply_estimate :: "builtins \<Rightarrow> work_state \<Rightarrow> jobject event \<Rightarrow> work_state result" where
  "apply_estimate b s e =
     rbind (estimate_from_event b e) (\<lambda>c.
     let key = (ce_agent_id c, ce_capability c) in
     rbind (raise_first
       [(ce_basis c \<noteq> Seeded, ValueError ''evidence-based competence is non-operational in v0.5''),
        (case map_of (ws_competence s) key of None \<Rightarrow> False
         | Some old \<Rightarrow> dt_before (ce_estimated_at c) (ce_estimated_at old),
         ValueError ''competence estimate regressed'')]) (\<lambda>_.
     Inr (s\<lparr>ws_competence := AList.update key c (ws_competence s)\<rparr>)))"

definition apply_lease :: "decoders \<Rightarrow> work_state \<Rightarrow> jobject event \<Rightarrow> work_state result" where
  "apply_lease dec s e =
     rbind (lease_from_event (dec_builtins dec) e) (\<lambda>l.
     if ev_causation_id e \<noteq> Some (graph_event_id (wl_graph_id l))
     then Inl (ValueError ''work lease causation is inconsistent'') else
     rbind (validate_lease_grant dec s l) (\<lambda>_.
     Inr (s\<lparr>ws_leases := AList.update (wl_id l) l (ws_leases s),
            ws_outcomes := AList.update (wl_id l) Active (ws_outcomes s),
            ws_tokens := AList.update (wl_graph_id l, wl_node_id l) (wl_fencing_token l) (ws_tokens s)\<rparr>)))"

text \<open>The lease a terminal event is about, when it is active.\<close>

definition active_lease_of :: "builtins \<Rightarrow> work_state \<Rightarrow> jobject event \<Rightarrow> string \<Rightarrow> work_lease result" where
  "active_lease_of b s e message =
     rbind (j_str b (ev_payload e) ''lease_id'') (\<lambda>i.
     case map_of (ws_leases s) i of
       None \<Rightarrow> Inl (ValueError message)
     | Some l \<Rightarrow> if map_of (ws_outcomes s) i \<noteq> Some Active then Inl (ValueError message) else Inr l)"

text \<open>\<open>event.payload.get(key) != expected\<close> for some of the keys.\<close>

definition payload_differs :: "jobject \<Rightarrow> jobject \<Rightarrow> bool" where
  "payload_differs payload expected = list_ex (\<lambda>(k, v). \<not> json_eq (jget payload k) v) expected"

definition apply_expiration :: "builtins \<Rightarrow> work_state \<Rightarrow> jobject event \<Rightarrow> work_state result" where
  "apply_expiration b s e =
     rbind (active_lease_of b s e ''lease expiration references a non-active lease'') (\<lambda>l.
     if payload_differs (ev_payload e) (lease_to_dict l)
     then Inl (ValueError ''lease expiration payload differs from the granted lease'') else
     rbind (j_time_opt b (ev_payload e) ''expired_at'') (\<lambda>expired_at.
     rbind (raise_first
       [(case expired_at of None \<Rightarrow> True
         | Some t \<Rightarrow> ev_timestamp e \<noteq> t \<or> dt_before t (wl_expires_at l),
         ValueError ''lease expiration time is inconsistent''),
        (ev_id e \<noteq> lease_terminal_id l, ValueError ''lease expiration event id is inconsistent''),
        (ev_subject e \<noteq> Some (wl_node_id l),
         ValueError ''lease expiration event subject is inconsistent''),
        (ev_causation_id e \<noteq> Some (lease_event_id l),
         ValueError ''lease expiration event causation is inconsistent''),
        (blank (py_str b (jget_or (ev_payload e) ''reason'' (JStr []))),
         ValueError ''lease expiration requires a reason'')]) (\<lambda>_.
     Inr (s\<lparr>ws_outcomes := AList.update (wl_id l) Expired (ws_outcomes s)\<rparr>))))"

definition completion_keys :: "work_lease \<Rightarrow> jobject" where
  "completion_keys l = [(''graph_id'', JStr (wl_graph_id l)), (''node_id'', JStr (wl_node_id l)),
     (''agent_id'', JStr (wl_agent_id l)), (''fencing_token'', JInt (wl_fencing_token l))]"

definition apply_completion :: "builtins \<Rightarrow> work_state \<Rightarrow> jobject event \<Rightarrow> work_state result" where
  "apply_completion b s e =
     rbind (active_lease_of b s e ''work completion requires an active lease'') (\<lambda>l.
     rbind (raise_first
       [(\<not> graph_is_active s (wl_graph_id l),
         ValueError ''work completion cannot advance an invalidated graph''),
        (ev_id e \<noteq> lease_terminal_id l, ValueError ''work completion event id is inconsistent''),
        (ev_subject e \<noteq> Some (wl_node_id l),
         ValueError ''work completion event subject is inconsistent''),
        (ev_causation_id e \<noteq> Some (lease_event_id l),
         ValueError ''work completion event causation is inconsistent''),
        (payload_differs (ev_payload e) (completion_keys l),
         ValueError ''work completion does not match its fenced lease'')]) (\<lambda>_.
     rbind (j_time_opt b (ev_payload e) ''accepted_at'') (\<lambda>accepted.
     case accepted of
       None \<Rightarrow> Inl (ValueError ''work completion acceptance time is outside the active lease'')
     | Some at0 \<Rightarrow>
       if ev_timestamp e \<noteq> at0 \<or> dt_before at0 (wl_granted_at l) \<or> dt_le (wl_expires_at l) at0
       then Inl (ValueError ''work completion acceptance time is outside the active lease'') else
       rbind (j_time_opt b (ev_payload e) ''reported_finished_at'') (\<lambda>reported.
       rbind (j_strs b (ev_payload e) ''artifact_refs'') (\<lambda>artifacts.
       if artifacts = [] \<or> list_ex blank artifacts \<or> \<not> distinct artifacts
       then Inl (ValueError ''work completion requires unique non-empty artifact refs'') else
       let v = jget (ev_payload e) ''verification_passed'';
           passed = (if v = JNull then None else Some (\<not> falsy v))
       in case map_of (ws_graphs s) (wl_graph_id l) of
         None \<Rightarrow> Inl (TypeError ''None has no attribute node'')
       | Some g \<Rightarrow> rbind (graph_node g (wl_node_id l)) (\<lambda>n.
         rbind (raise_first
           [(wn_kind n = VERIFY \<and> passed \<noteq> Some True,
             ValueError ''verification work completes only with an explicit passing result''),
            (wn_kind n \<noteq> VERIFY \<and> passed \<noteq> None,
             ValueError ''non-verification work cannot claim a verification result'')]) (\<lambda>_.
         let c = \<lparr>nc_graph_id = wl_graph_id l, nc_node_id = wl_node_id l, nc_agent_id = wl_agent_id l,
                  nc_lease_id = wl_id l, nc_fencing_token = wl_fencing_token l, nc_accepted_at = at0,
                  nc_reported_finished_at = reported, nc_artifact_refs = artifacts,
                  nc_verification_passed = passed\<rparr>
         in Inr (s\<lparr>ws_completions := AList.update (wl_graph_id l, wl_node_id l) c (ws_completions s),
                   ws_outcomes := AList.update (wl_id l) Completed (ws_outcomes s)\<rparr>))))))))"

definition apply_invalidation :: "builtins \<Rightarrow> work_state \<Rightarrow> jobject event \<Rightarrow> work_state result" where
  "apply_invalidation b s e =
     (let payload = ev_payload e in
     rbind (j_str b payload ''graph_id'') (\<lambda>graph_id.
     case map_of (ws_graphs s) graph_id of
       None \<Rightarrow> Inl (ValueError ''plan invalidation requires an active graph'')
     | Some g \<Rightarrow>
       if \<not> graph_is_active s graph_id
       then Inl (ValueError ''plan invalidation requires an active graph'') else
       rbind (j_str b payload ''trigger_event_id'') (\<lambda>trigger_id.
       case map_of (ws_events s) trigger_id of
         None \<Rightarrow> Inl (ValueError ''plan invalidation references an unknown canonical trigger'')
       | Some trigger \<Rightarrow>
         if ev_sequence trigger = None
         then Inl (ValueError ''plan invalidation references an unknown canonical trigger'') else
         rbind (j_int b payload ''trigger_event_sequence'') (\<lambda>trigger_sequence.
         rbind (if ev_sequence trigger \<noteq> Some trigger_sequence
           then Inl (ValueError ''plan invalidation trigger identity is inconsistent'')
           else j_str b payload ''trigger_event_type'') (\<lambda>trigger_type.
         rbind (raise_first
           [(ev_type trigger \<noteq> trigger_type,
             ValueError ''plan invalidation trigger identity is inconsistent''),
            (trigger_sequence \<le> wg_based_on_event_cursor g,
             ValueError ''plan invalidation trigger does not follow the plan causal cut''),
            (ev_type trigger \<notin> set (wg_replan_event_types g),
             ValueError ''plan invalidation trigger is not a replan condition'')]) (\<lambda>_.
         rbind (j_time_opt b payload ''invalidated_at'') (\<lambda>invalidated.
         case invalidated of
           None \<Rightarrow> Inl (ValueError ''plan invalidation time is inconsistent'')
         | Some at0 \<Rightarrow>
           if ev_timestamp e \<noteq> at0 \<or> dt_before at0 (ev_timestamp trigger)
           then Inl (ValueError ''plan invalidation time is inconsistent'') else
           rbind (j_str b payload ''reason'') (\<lambda>reason.
           rbind (raise_first
             [(blank reason, ValueError ''plan invalidation requires a reason''),
              (ev_id e \<noteq> ''work-plan-invalidated:'' @ wg_id g @ '':'' @ ev_id trigger \<or>
                 ev_causation_id e \<noteq> Some (ev_id trigger),
               ValueError ''plan invalidation event identity is inconsistent'')]) (\<lambda>_.
           Inr (s\<lparr>ws_invalidations := AList.update graph_id
             \<lparr>pi_graph_id = graph_id, pi_trigger_event_id = ev_id trigger,
               pi_trigger_event_sequence = trigger_sequence, pi_invalidated_at = at0,
               pi_reason = reason\<rparr> (ws_invalidations s)\<rparr>))))))))))"

subsection \<open>Applying an event and rebuilding\<close>

text \<open>The first component says whether the event was one of work control.\<close>

definition handle_work_event ::
  "decoders \<Rightarrow> work_state \<Rightarrow> jobject event \<Rightarrow> (bool \<times> work_state) result" where
  "handle_work_event dec s e =
     (let b = dec_builtins dec; ty = ev_type e; handled = (\<lambda>r. rbind r (\<lambda>s'. Inr (True, s'))) in
      if ty = WORK_ORDER_RECORDED_EVENT then handled (apply_order b s e)
      else if ty = PLAN_PROPOSED_EVENT then handled (apply_proposal b s e)
      else if ty = WORK_GRAPH_ACCEPTED_EVENT then handled (apply_graph b s e)
      else if ty = AGENT_PRESENCE_RECORDED_EVENT then handled (apply_presence b s e)
      else if ty = CAPABILITY_MANIFEST_RECORDED_EVENT then handled (apply_manifest b s e)
      else if ty = COMPETENCE_ESTIMATE_RECORDED_EVENT then handled (apply_estimate b s e)
      else if ty = WORK_LEASE_GRANTED_EVENT then handled (apply_lease dec s e)
      else if ty = WORK_LEASE_EXPIRED_EVENT then handled (apply_expiration b s e)
      else if ty = WORK_NODE_COMPLETED_EVENT then handled (apply_completion b s e)
      else if ty = WORK_PLAN_INVALIDATED_EVENT then handled (apply_invalidation b s e)
      else Inr (False, s))"

definition work_apply ::
  "decoders \<Rightarrow> work_state \<Rightarrow> jobject event \<Rightarrow> (bool \<times> work_state) result" where
  "work_apply dec s e =
     (case map_of (ws_events s) (ev_id e) of
        Some old \<Rightarrow> if \<not> same_event old e then Inl (ValueError ''conflicting canonical work event identity'')
          else Inr (False, s)
      | None \<Rightarrow>
        (case ev_sequence e of
           None \<Rightarrow> Inl (ValueError ''work projection requires canonical sequenced events'')
         | Some sq \<Rightarrow>
           if sq \<le> ws_last_sequence s
           then Inl (ValueError ''work projection events must be applied in canonical sequence order'')
           else rbind (handle_work_event dec s e) (\<lambda>(handled, s').
             Inr (handled, s'\<lparr>ws_events := AList.update (ev_id e) e (ws_events s'),
                              ws_last_sequence := sq\<rparr>))))"

definition work_fold :: "decoders \<Rightarrow> work_state \<Rightarrow> jobject event \<Rightarrow> work_state result" where
  "work_fold dec s e = rbind (work_apply dec s e) (\<lambda>r. Inr (snd r))"

definition work_rebuild :: "decoders \<Rightarrow> jobject event list \<Rightarrow> int option \<Rightarrow> work_state result" where
  "work_rebuild dec es through = foldM (work_fold dec) empty_work
     (filter (\<lambda>e. case through of None \<Rightarrow> True | Some n \<Rightarrow> seq0 e \<le> n) es)"

end
