(* ===== verification/WorkSafety.thy ===== *)
theory WorkSafety
  imports WorkProjection
begin

section \<open>Safety of work control\<close>

text \<open>
  The invariant of the projection's state and its preservation by every event. From it follow the safety
  properties of work control: one active lease for a node, work only after what it depends on,
  verification by an independent worker, and fencing of superseded leases.
\<close>

subsection \<open>The invariant\<close>

text \<open>What plan validation guarantees of an accepted graph.\<close>

definition well_planned :: "work_graph \<Rightarrow> bool" where
  "well_planned g \<longleftrightarrow>
     (let ids = map wn_id (wg_nodes g); order = dep_rel (wg_dependencies g) in
      distinct ids \<and> order \<subseteq> set ids \<times> set ids \<and> acyclic order \<and>
      (\<forall>n \<in> set (wg_nodes g). \<forall>t \<in> set (wn_verification_of n). (t, wn_id n) \<in> order\<^sup>+))"

text \<open>A granted lease, seen from any later state.\<close>

definition lease_sound :: "string set \<Rightarrow> work_state \<Rightarrow> string \<Rightarrow> work_lease \<Rightarrow> bool" where
  "lease_sound K s i l \<longleftrightarrow>
     wl_id l = i \<and> lease_event_id l \<in> K \<and> check_lease l = Inr () \<and>
     wl_fencing_token l \<le> highest_token s (wl_graph_id l, wl_node_id l) \<and>
     map_of (ws_outcomes s) i \<noteq> None \<and>
     (map_of (ws_outcomes s) i = Some Active \<longrightarrow>
        wl_fencing_token l = highest_token s (wl_graph_id l, wl_node_id l) \<and>
        \<not> completed s (wl_graph_id l) (wl_node_id l)) \<and>
     (\<exists>g n. map_of (ws_graphs s) (wl_graph_id l) = Some g \<and> graph_node g (wl_node_id l) = Inr n \<and>
        (\<forall>p \<in> set (graph_predecessors g (wl_node_id l)). completed s (wl_graph_id l) p) \<and>
        (\<forall>t \<in> set (wn_verification_of n).
           \<exists>w. worker_for_node s (wl_graph_id l) t = Some w \<and> w \<noteq> wl_agent_id l))"

definition completion_sound :: "work_state \<Rightarrow> string \<times> string \<Rightarrow> node_completion \<Rightarrow> bool" where
  "completion_sound s k c \<longleftrightarrow> (\<exists>l g n.
     map_of (ws_leases s) (nc_lease_id c) = Some l \<and>
     map_of (ws_outcomes s) (nc_lease_id c) = Some Completed \<and>
     k = (wl_graph_id l, wl_node_id l) \<and> nc_graph_id c = wl_graph_id l \<and> nc_node_id c = wl_node_id l \<and>
     nc_agent_id c = wl_agent_id l \<and> nc_fencing_token c = wl_fencing_token l \<and>
     dt_le (wl_granted_at l) (nc_accepted_at c) \<and> dt_before (nc_accepted_at c) (wl_expires_at l) \<and>
     nc_artifact_refs c \<noteq> [] \<and> distinct (nc_artifact_refs c) \<and>
     map_of (ws_graphs s) (wl_graph_id l) = Some g \<and> graph_node g (wl_node_id l) = Inr n \<and>
     nc_verification_passed c = (if wn_kind n = VERIFY then Some True else None))"

definition control_inv :: "string set \<Rightarrow> work_state \<Rightarrow> bool" where
  "control_inv K s \<longleftrightarrow>
     distinct (map fst (ws_leases s)) \<and>
     (\<forall>i g. map_of (ws_graphs s) i = Some g \<longrightarrow> wg_id g = i \<and> graph_event_id i \<in> K \<and> well_planned g) \<and>
     (\<forall>i l. map_of (ws_leases s) i = Some l \<longrightarrow> lease_sound K s i l) \<and>
     (\<forall>k c. map_of (ws_completions s) k = Some c \<longrightarrow> completion_sound s k c)"

definition work_inv :: "work_state \<Rightarrow> bool" where
  "work_inv s \<longleftrightarrow> control_inv (dom (map_of (ws_events s))) s"

text \<open>The invariant reads five fields of the state.\<close>

definition same_control :: "work_state \<Rightarrow> work_state \<Rightarrow> bool" where
  "same_control s s' \<longleftrightarrow> ws_graphs s' = ws_graphs s \<and> ws_leases s' = ws_leases s \<and>
     ws_outcomes s' = ws_outcomes s \<and> ws_completions s' = ws_completions s \<and> ws_tokens s' = ws_tokens s"

lemma control_inv_frame:
  assumes "control_inv K s" "same_control s s'" "K \<subseteq> K'"
  shows "control_inv K' s'"
  using assms unfolding control_inv_def same_control_def lease_sound_def completion_sound_def
    completed_def worker_for_node_def highest_token_def
  by (simp only:) blast

text \<open>These handlers revive no graph either.\<close>

definition closes_no_less :: "work_state \<Rightarrow> work_state \<Rightarrow> bool" where
  "closes_no_less s s' \<longleftrightarrow> ws_latest s' = ws_latest s \<and>
     dom (map_of (ws_invalidations s)) \<subseteq> dom (map_of (ws_invalidations s'))"

lemma same_control_handlers:
  "apply_order b s e = Inr s' \<Longrightarrow> same_control s s' \<and> closes_no_less s s'"
  "apply_proposal b s e = Inr s' \<Longrightarrow> same_control s s' \<and> closes_no_less s s'"
  "apply_presence b s e = Inr s' \<Longrightarrow> same_control s s' \<and> closes_no_less s s'"
  "apply_manifest b s e = Inr s' \<Longrightarrow> same_control s s' \<and> closes_no_less s s'"
  "apply_estimate b s e = Inr s' \<Longrightarrow> same_control s s' \<and> closes_no_less s s'"
  by (auto simp: apply_order_def apply_proposal_def apply_presence_def apply_manifest_def
      apply_estimate_def rbind_Inr_iff Let_def same_control_def closes_no_less_def
      simp del: raise_first_ok)

lemma apply_invalidation_result:
  assumes "apply_invalidation b s e = Inr s'"
  shows "\<exists>i g v. map_of (ws_graphs s) i = Some g \<and> graph_is_active s i \<and>
    s' = s\<lparr>ws_invalidations := AList.update i v (ws_invalidations s)\<rparr>"
  using assms unfolding apply_invalidation_def Let_def rbind_Inr_iff
  by (auto split: option.splits if_splits simp: rbind_Inr_iff simp del: raise_first_ok) blast

lemma same_control_invalidation:
  "apply_invalidation b s e = Inr s' \<Longrightarrow> same_control s s' \<and> closes_no_less s s'"
  by (auto dest!: apply_invalidation_result simp: same_control_def closes_no_less_def dict_simps)

subsection \<open>Active leases and completed nodes\<close>

lemma set_active_leases:
  assumes "control_inv K s"
  shows "l \<in> set (active_leases s) \<longleftrightarrow>
    map_of (ws_leases s) (wl_id l) = Some l \<and> map_of (ws_outcomes s) (wl_id l) = Some Active"
proof -
  have d: "distinct (map fst (ws_leases s))" using assms by (simp add: control_inv_def)
  have "l \<in> snd ` set (ws_leases s) \<longleftrightarrow> map_of (ws_leases s) (wl_id l) = Some l"
  proof
    assume "l \<in> snd ` set (ws_leases s)"
    then obtain i where "(i, l) \<in> set (ws_leases s)" by auto
    then have "map_of (ws_leases s) i = Some l" using d by simp
    moreover from this have "wl_id l = i" using assms by (auto simp: control_inv_def lease_sound_def)
    ultimately show "map_of (ws_leases s) (wl_id l) = Some l" by simp
  qed (rule map_of_Some_in)
  then show ?thesis by (auto simp: active_leases_def sorted_leases_def)
qed

lemma active_lease_for_node_None:
  assumes "control_inv K s"
  shows "active_lease_for_node s g n = None \<longleftrightarrow>
    (\<forall>i l. map_of (ws_leases s) i = Some l \<longrightarrow> wl_graph_id l = g \<longrightarrow> wl_node_id l = n \<longrightarrow>
      map_of (ws_outcomes s) i \<noteq> Some Active)"
proof -
  have id: "map_of (ws_leases s) i = Some l \<Longrightarrow> wl_id l = i" for i l
    using assms by (auto simp: control_inv_def lease_sound_def)
  show ?thesis
    unfolding active_lease_for_node_def find_None_iff
    using set_active_leases [OF assms] id by metis
qed

lemma completed_lease:
  assumes "control_inv K s" "completed s g n"
  shows "\<exists>i l. map_of (ws_leases s) i = Some l \<and> wl_graph_id l = g \<and> wl_node_id l = n \<and>
    worker_for_node s g n = Some (wl_agent_id l) \<and> lease_sound K s i l"
proof -
  obtain c where c: "map_of (ws_completions s) (g, n) = Some c"
    using assms(2) by (auto simp: completed_def)
  then have "completion_sound s (g, n) c" using assms(1) by (auto simp: control_inv_def)
  then obtain l where l: "map_of (ws_leases s) (nc_lease_id c) = Some l" "wl_graph_id l = g" "wl_node_id l = n"
    "nc_agent_id c = wl_agent_id l" by (auto simp: completion_sound_def)
  then have "lease_sound K s (nc_lease_id c) l" using assms(1) by (auto simp: control_inv_def)
  moreover have "worker_for_node s g n = Some (wl_agent_id l)" using c l(4) by (simp add: worker_for_node_def)
  ultimately show ?thesis using l(1-3) by blast
qed

lemma set_graph_predecessors: "p \<in> set (graph_predecessors g n) \<longleftrightarrow> (p, n) \<in> dep_rel (wg_dependencies g)"
  by (auto simp: graph_predecessors_def dep_rel_def)

text \<open>Whatever a node with all predecessors completed depends on, directly or not, is completed.\<close>

lemma ancestors_completed:
  assumes "control_inv K s" "map_of (ws_graphs s) i = Some g"
    and "(t, n) \<in> (dep_rel (wg_dependencies g))\<^sup>+"
    and "\<forall>p \<in> set (graph_predecessors g n). completed s i p"
  shows "completed s i t"
  using assms(3,4)
proof (induction n rule: trancl_induct)
  case (base n)
  then show ?case by (simp add: set_graph_predecessors)
next
  case (step m n)
  have "completed s i m" using step.hyps(2) step.prems by (simp add: set_graph_predecessors)
  from completed_lease [OF assms(1) this] obtain l where
    "wl_graph_id l = i" "wl_node_id l = m" "lease_sound K s (wl_id l) l"
    by (auto simp: lease_sound_def)
  then have "\<forall>p \<in> set (graph_predecessors g m). completed s i p"
    using assms(2) by (auto simp: lease_sound_def)
  then show ?case by (rule step.IH)
qed

subsection \<open>Preservation\<close>

lemma well_planned_accepted:
  assumes "validate_plan b w p order c a v avail evs t = Inr g"
  shows "well_planned g"
proof -
  have "admissible_plan p order c a v avail evs t" "create_graph b p (v + 1) w t = Inr g"
    using assms by (simp_all add: validate_plan_Inr_iff)
  then show ?thesis
    using create_graph_fields [of b p "v + 1" w t g]
    by (simp add: admissible_plan_def well_planned_def Let_def)
qed

lemma apply_graph_result:
  assumes "apply_graph b s e = Inr s'"
  shows "\<exists>g p order available.
    map_of (ws_proposals s) (wg_proposal_id g) = Some p \<and>
    map_of (ws_orders s) (wg_work_order_id g) = Some order \<and>
    validate_plan b (wg_validator_id g) p order (pp_based_on_event_cursor p) (ws_last_sequence s)
      (case latest_graph s (wg_work_order_id g) of None \<Rightarrow> 0 | Some c \<Rightarrow> wg_version c) available
      (events_after s (pp_based_on_event_cursor p) (Some (seq0 e - 1))) (wg_accepted_at g) = Inr g \<and>
    ev_id e = graph_event_id (wg_id g) \<and>
    s' = s\<lparr>ws_graphs := AList.update (wg_id g) g (ws_graphs s),
           ws_latest := AList.update (wg_work_order_id g) (wg_id g) (ws_latest s)\<rparr>"
proof -
  obtain g where g: "graph_from_event b e = Inr g"
    using assms by (auto simp: apply_graph_def rbind_Inr_iff)
  then have id: "ev_id e = graph_event_id (wg_id g)"
    by (auto simp: graph_from_event_def rbind_Inr_iff split: if_splits)
  obtain p order where po: "map_of (ws_proposals s) (wg_proposal_id g) = Some p"
    "map_of (ws_orders s) (wg_work_order_id g) = Some order"
    using assms g by (auto simp: apply_graph_def split: option.splits)
  show ?thesis
    using assms g id po by (fastforce simp: apply_graph_def Let_def rbind_Inr_iff split: if_splits)
qed

lemma apply_lease_result:
  assumes "apply_lease dec s e = Inr s'"
  shows "\<exists>l. check_lease l = Inr () \<and> ev_id e = lease_event_id l \<and> validate_lease_grant dec s l = Inr () \<and>
    s' = s\<lparr>ws_leases := AList.update (wl_id l) l (ws_leases s),
           ws_outcomes := AList.update (wl_id l) Active (ws_outcomes s),
           ws_tokens := AList.update (wl_graph_id l, wl_node_id l) (wl_fencing_token l) (ws_tokens s)\<rparr>"
proof -
  obtain l where l: "lease_from_event (dec_builtins dec) e = Inr l"
    using assms by (auto simp: apply_lease_def rbind_Inr_iff)
  then have "check_lease l = Inr ()" "ev_id e = lease_event_id l"
    by (auto simp: lease_from_event_def lease_from_dict_def Let_def rbind_Inr_iff simp del: raise_first_ok
        split: if_splits)
  then show ?thesis
    using assms l by (auto simp: apply_lease_def rbind_Inr_iff simp del: raise_first_ok)
qed

text \<open>What a valid grant says of the state, in terms of the queries.\<close>

lemma validate_lease_grant_result:
  assumes "validate_lease_grant dec s l = Inr ()"
  shows "\<exists>g n a m. map_of (ws_graphs s) (wl_graph_id l) = Some g \<and> graph_is_active s (wl_graph_id l) \<and>
    graph_node g (wl_node_id l) = Inr n \<and> \<not> completed s (wg_id g) (wn_id n) \<and>
    active_lease_for_node s (wg_id g) (wn_id n) = None \<and>
    (\<forall>p \<in> set (graph_predecessors g (wn_id n)). completed s (wg_id g) p) \<and>
    wl_fencing_token l = next_fencing_token s (wg_id g) (wn_id n) \<and>
    map_of (ws_presence s) (wl_agent_id l) = Some a \<and> ag_status a = Available \<and>
    presence_is_valid_at a (wl_granted_at l) = Inr True \<and>
    active_lease_count s (wl_agent_id l) < ag_max_concurrency a \<and>
    map_of (ws_manifests s) (wl_agent_id l) = Some m \<and>
    set (wn_required_capabilities n) \<subseteq> set (cm_capabilities m) \<and>
    wl_agent_id l \<notin> set (excluded_workers s (wg_id g) n) \<and>
    validate_information_access dec s l n = Inr ()"
proof -
  obtain g where g: "map_of (ws_graphs s) (wl_graph_id l) = Some g" "graph_is_active s (wl_graph_id l)"
    using assms by (auto simp: validate_lease_grant_def split: option.splits if_splits)
  obtain n where n: "graph_node g (wl_node_id l) = Inr n"
    using assms g by (auto simp: validate_lease_grant_def rbind_Inr_iff)
  obtain a where a: "map_of (ws_presence s) (wl_agent_id l) = Some a" "ag_status a = Available"
    using assms g n by (auto simp: validate_lease_grant_def rbind_Inr_iff split: option.splits if_splits)
  obtain m where m: "map_of (ws_manifests s) (wl_agent_id l) = Some m"
    using assms g n a by (auto simp: validate_lease_grant_def rbind_Inr_iff Let_def split: option.splits)
  show ?thesis
    using assms g n a m
    by (auto simp: validate_lease_grant_def rbind_Inr_iff Let_def list_ex_iff not_le)
qed

lemma graph_node_id: "graph_node g i = Inr n \<Longrightarrow> n \<in> set (wg_nodes g) \<and> wn_id n = i"
  by (auto simp: graph_node_def find_Some_iff split: option.splits)

text \<open>How the two records of work survive a step.\<close>

lemma lease_sound_later:
  assumes "lease_sound K s i l" "K \<subseteq> K'"
    and "map_of (ws_graphs s) \<subseteq>\<^sub>m map_of (ws_graphs s')"
    and "map_of (ws_completions s) \<subseteq>\<^sub>m map_of (ws_completions s')"
    and "highest_token s (wl_graph_id l, wl_node_id l) \<le> highest_token s' (wl_graph_id l, wl_node_id l)"
    and "map_of (ws_outcomes s') i \<noteq> None"
    and "map_of (ws_outcomes s') i = Some Active \<Longrightarrow> map_of (ws_outcomes s) i = Some Active \<and>
      highest_token s' (wl_graph_id l, wl_node_id l) = highest_token s (wl_graph_id l, wl_node_id l) \<and>
      (completed s' (wl_graph_id l) (wl_node_id l) \<longrightarrow> completed s (wl_graph_id l) (wl_node_id l))"
  shows "lease_sound K' s' i l"
proof -
  have graphs: "map_of (ws_graphs s) j = Some g \<Longrightarrow> map_of (ws_graphs s') j = Some g" for j g
    using assms(3) by (auto simp: map_le_def dom_def)
  have done1: "completed s g n \<Longrightarrow> completed s' g n" for g n
    using assms(4) by (auto simp: map_le_def completed_def dom_def)
  have worker: "worker_for_node s g n = Some w \<Longrightarrow> worker_for_node s' g n = Some w" for g n w
    using assms(4) by (auto simp: map_le_def worker_for_node_def dom_def)
  obtain g n where gn: "map_of (ws_graphs s) (wl_graph_id l) = Some g" "graph_node g (wl_node_id l) = Inr n"
    "\<forall>p \<in> set (graph_predecessors g (wl_node_id l)). completed s (wl_graph_id l) p"
    "\<forall>t \<in> set (wn_verification_of n). \<exists>w. worker_for_node s (wl_graph_id l) t = Some w \<and> w \<noteq> wl_agent_id l"
    using assms(1) by (auto simp: lease_sound_def)
  have "\<exists>g n. map_of (ws_graphs s') (wl_graph_id l) = Some g \<and> graph_node g (wl_node_id l) = Inr n \<and>
      (\<forall>p \<in> set (graph_predecessors g (wl_node_id l)). completed s' (wl_graph_id l) p) \<and>
      (\<forall>t \<in> set (wn_verification_of n). \<exists>w. worker_for_node s' (wl_graph_id l) t = Some w \<and> w \<noteq> wl_agent_id l)"
    using graphs [OF gn(1)] gn(2-4) done1 worker by blast
  moreover have base: "wl_id l = i" "lease_event_id l \<in> K" "check_lease l = Inr ()"
    "wl_fencing_token l \<le> highest_token s (wl_graph_id l, wl_node_id l)"
    "map_of (ws_outcomes s) i = Some Active \<Longrightarrow>
      wl_fencing_token l = highest_token s (wl_graph_id l, wl_node_id l) \<and>
      \<not> completed s (wl_graph_id l) (wl_node_id l)"
    using assms(1) by (simp_all add: lease_sound_def)
  ultimately show ?thesis
    using assms(2,5-7) unfolding lease_sound_def by (intro conjI impI) auto
qed

lemma completion_sound_later:
  assumes "completion_sound s k c"
    and "map_of (ws_graphs s) \<subseteq>\<^sub>m map_of (ws_graphs s')"
    and "map_of (ws_leases s) \<subseteq>\<^sub>m map_of (ws_leases s')"
    and "map_of (ws_outcomes s) (nc_lease_id c) = Some Completed \<Longrightarrow>
      map_of (ws_leases s) (nc_lease_id c) \<noteq> None \<Longrightarrow> map_of (ws_outcomes s') (nc_lease_id c) = Some Completed"
  shows "completion_sound s' k c"
proof -
  have later: "map_of (ws_graphs s) j = Some g \<Longrightarrow> map_of (ws_graphs s') j = Some g"
    "map_of (ws_leases s) j = Some l \<Longrightarrow> map_of (ws_leases s') j = Some l" for j g l
    using assms(2,3) by (auto simp: map_le_def dom_def)
  show ?thesis
    using assms(1,4) later unfolding completion_sound_def by (elim exE conjE) (intro exI conjI; fastforce)
qed

lemma control_inv_parts:
  assumes "control_inv K s"
  shows "distinct (map fst (ws_leases s))"
    "map_of (ws_graphs s) i = Some g \<Longrightarrow> wg_id g = i \<and> graph_event_id i \<in> K \<and> well_planned g"
    "map_of (ws_leases s) i = Some l \<Longrightarrow> lease_sound K s i l"
    "map_of (ws_completions s) k = Some c \<Longrightarrow> completion_sound s k c"
  using assms unfolding control_inv_def by blast+

lemma control_inv_graph:
  assumes inv: "control_inv K s" and e: "ev_id e \<notin> K" "apply_graph b s e = Inr s'"
  shows "control_inv (insert (ev_id e) K) s'"
proof -
  obtain g p order avail where g: "ev_id e = graph_event_id (wg_id g)"
    "validate_plan b (wg_validator_id g) p order (pp_based_on_event_cursor p) (ws_last_sequence s)
      (case latest_graph s (wg_work_order_id g) of None \<Rightarrow> 0 | Some c \<Rightarrow> wg_version c) avail
      (events_after s (pp_based_on_event_cursor p) (Some (seq0 e - 1))) (wg_accepted_at g) = Inr g"
    "s' = s\<lparr>ws_graphs := AList.update (wg_id g) g (ws_graphs s),
           ws_latest := AList.update (wg_work_order_id g) (wg_id g) (ws_latest s)\<rparr>"
    using apply_graph_result [OF e(2)] by blast
  have "map_of (ws_graphs s) (wg_id g) = None"
    using control_inv_parts(2) [OF inv, of "wg_id g"] e(1) g(1) by (cases "map_of (ws_graphs s) (wg_id g)") auto
  then have graphs: "map_of (ws_graphs s) \<subseteq>\<^sub>m map_of (ws_graphs s')"
    by (auto simp: map_le_def g(3) dict_simps)
  have same: "ws_leases s' = ws_leases s" "ws_outcomes s' = ws_outcomes s"
    "ws_completions s' = ws_completions s" "ws_tokens s' = ws_tokens s"
    by (simp_all add: g(3))
  have "lease_sound (insert (ev_id e) K) s' i l" if "map_of (ws_leases s') i = Some l" for i l
  proof (rule lease_sound_later [OF _ _ graphs])
    show "lease_sound K s i l" using control_inv_parts(3) [OF inv] that by (simp add: same)
    then show "map_of (ws_outcomes s') i \<noteq> None" by (simp add: lease_sound_def same)
  qed (auto simp: same completed_def highest_token_def)
  moreover have "completion_sound s' k c" if "map_of (ws_completions s') k = Some c" for k c
    by (rule completion_sound_later [OF control_inv_parts(4) [OF inv] graphs]) (use that in \<open>auto simp: same\<close>)
  moreover have "wg_id h = i \<and> graph_event_id i \<in> insert (ev_id e) K \<and> well_planned h"
    if "map_of (ws_graphs s') i = Some h" for i h
    using that control_inv_parts(2) [OF inv] well_planned_accepted [OF g(2)] g(1)
    by (auto simp: g(3) dict_simps split: if_splits)
  ultimately show ?thesis
    using control_inv_parts(1) [OF inv] unfolding control_inv_def same by blast
qed

lemma lease_names:
  assumes "check_lease l = Inr ()" "check_lease m = Inr ()"
  shows "wl_id l = wl_id m \<longleftrightarrow> lease_event_id l = lease_event_id m"
  using check_lease_ok(4) [OF assms(1)] check_lease_ok(4) [OF assms(2)]
  by (simp add: lease_event_id_def fenced_name_def)

lemma control_inv_lease:
  assumes inv: "control_inv K s" and e: "ev_id e \<notin> K" "apply_lease dec s e = Inr s'"
  shows "control_inv (insert (ev_id e) K) s'"
proof -
  obtain l where l: "check_lease l = Inr ()" "ev_id e = lease_event_id l" "validate_lease_grant dec s l = Inr ()"
    and s': "s' = s\<lparr>ws_leases := AList.update (wl_id l) l (ws_leases s),
      ws_outcomes := AList.update (wl_id l) Active (ws_outcomes s),
      ws_tokens := AList.update (wl_graph_id l, wl_node_id l) (wl_fencing_token l) (ws_tokens s)\<rparr>"
    using apply_lease_result [OF e(2)] by blast
  obtain g n where g: "map_of (ws_graphs s) (wl_graph_id l) = Some g" and n: "graph_node g (wl_node_id l) = Inr n"
    and grant: "\<not> completed s (wg_id g) (wn_id n)" "active_lease_for_node s (wg_id g) (wn_id n) = None"
      "\<forall>p \<in> set (graph_predecessors g (wn_id n)). completed s (wg_id g) p"
      "wl_fencing_token l = next_fencing_token s (wg_id g) (wn_id n)"
      "wl_agent_id l \<notin> set (excluded_workers s (wg_id g) n)"
    using validate_lease_grant_result [OF l(3)] by blast
  have ids: "wg_id g = wl_graph_id l" "wn_id n = wl_node_id l" "n \<in> set (wg_nodes g)" "well_planned g"
    using control_inv_parts(2) [OF inv g] graph_node_id [OF n] by auto
  note grant = grant [unfolded ids(1,2)]
  have fresh: "map_of (ws_leases s) (wl_id l) = None"
  proof (rule ccontr)
    assume "map_of (ws_leases s) (wl_id l) \<noteq> None"
    then obtain m where "map_of (ws_leases s) (wl_id l) = Some m" by auto
    then have "wl_id m = wl_id l" "lease_event_id m \<in> K" "check_lease m = Inr ()"
      using control_inv_parts(3) [OF inv] by (auto simp: lease_sound_def)
    then show False using lease_names [OF l(1)] e(1) l(2) by metis
  qed
  have workers: "\<exists>w. worker_for_node s (wl_graph_id l) t = Some w \<and> w \<noteq> wl_agent_id l"
    if t: "t \<in> set (wn_verification_of n)" for t
  proof -
    have "(t, wl_node_id l) \<in> (dep_rel (wg_dependencies g))\<^sup>+"
      using ids t by (auto simp: well_planned_def Let_def)
    then have "completed s (wl_graph_id l) t" by (rule ancestors_completed [OF inv g _ grant(3)])
    then obtain w where w: "worker_for_node s (wl_graph_id l) t = Some w"
      by (auto simp: completed_def worker_for_node_def)
    then have "w \<in> set (excluded_workers s (wl_graph_id l) n)"
      using t by (force simp: excluded_workers_def List.map_filter_def)
    then show ?thesis using w grant(5) by auto
  qed
  have new: "lease_sound (insert (ev_id e) K) s' (wl_id l) l"
    using l(1,2) g n grant(1,3) workers
    by (simp add: lease_sound_def s' dict_simps highest_token_def completed_def worker_for_node_def)
  have old: "lease_sound (insert (ev_id e) K) s' i m" if m: "map_of (ws_leases s) i = Some m" for i m
  proof (rule lease_sound_later [OF control_inv_parts(3) [OF inv m]])
    have "i \<noteq> wl_id l" using m fresh by auto
    then have outcome: "map_of (ws_outcomes s') i = map_of (ws_outcomes s) i" by (simp add: s' dict_simps)
    then show "map_of (ws_outcomes s') i \<noteq> None"
      using control_inv_parts(3) [OF inv m] by (simp add: lease_sound_def)
    show "highest_token s (wl_graph_id m, wl_node_id m) \<le> highest_token s' (wl_graph_id m, wl_node_id m)"
      using grant(4) by (auto simp: s' highest_token_def next_fencing_token_def dict_simps split: option.splits)
    assume a: "map_of (ws_outcomes s') i = Some Active"
    then have "(wl_graph_id m, wl_node_id m) \<noteq> (wl_graph_id l, wl_node_id l)"
      using active_lease_for_node_None [OF inv] grant(2) m outcome by auto
    then show "map_of (ws_outcomes s) i = Some Active \<and>
        highest_token s' (wl_graph_id m, wl_node_id m) = highest_token s (wl_graph_id m, wl_node_id m) \<and>
        (completed s' (wl_graph_id m) (wl_node_id m) \<longrightarrow> completed s (wl_graph_id m) (wl_node_id m))"
      using a outcome by (auto simp: s' highest_token_def completed_def dict_simps)
  qed (auto simp: s')
  have leases: "lease_sound (insert (ev_id e) K) s' i m" if "map_of (ws_leases s') i = Some m" for i m
    using that new old by (auto simp: s' dict_simps split: if_splits)
  have completions: "completion_sound s' k c" if "map_of (ws_completions s') k = Some c" for k c
  proof (rule completion_sound_later [OF control_inv_parts(4) [OF inv]])
    show "map_of (ws_completions s) k = Some c" using that by (simp add: s')
    show "map_of (ws_leases s) \<subseteq>\<^sub>m map_of (ws_leases s')"
      using fresh by (auto simp: map_le_def s' dict_simps)
  qed (use fresh in \<open>auto simp: s' dict_simps\<close>)
  have "wg_id h = i \<and> graph_event_id i \<in> insert (ev_id e) K \<and> well_planned h"
    if "map_of (ws_graphs s') i = Some h" for i h
    using that control_inv_parts(2) [OF inv] by (simp add: s')
  moreover have "distinct (map fst (ws_leases s'))"
    using control_inv_parts(1) [OF inv] by (simp add: s' distinct_keys_update)
  ultimately show ?thesis using leases completions unfolding control_inv_def by blast
qed

lemma active_lease_of_result:
  assumes "active_lease_of b s e msg = Inr l" "control_inv K s"
  shows "j_str b (ev_payload e) ''lease_id'' = Inr (wl_id l)" "map_of (ws_leases s) (wl_id l) = Some l"
    "map_of (ws_outcomes s) (wl_id l) = Some Active"
proof -
  obtain i where i: "j_str b (ev_payload e) ''lease_id'' = Inr i" "map_of (ws_leases s) i = Some l"
    "map_of (ws_outcomes s) i = Some Active"
    using assms(1) by (auto simp: active_lease_of_def rbind_Inr_iff split: option.splits if_splits)
  moreover have "wl_id l = i" using control_inv_parts(3) [OF assms(2) i(2)] by (simp add: lease_sound_def)
  ultimately show "j_str b (ev_payload e) ''lease_id'' = Inr (wl_id l)"
    "map_of (ws_leases s) (wl_id l) = Some l" "map_of (ws_outcomes s) (wl_id l) = Some Active" by auto
qed

lemma apply_expiration_result:
  assumes "apply_expiration b s e = Inr s'" "control_inv K s"
  shows "\<exists>l. map_of (ws_leases s) (wl_id l) = Some l \<and> map_of (ws_outcomes s) (wl_id l) = Some Active \<and>
    dt_le (wl_expires_at l) (ev_timestamp e) \<and> ev_id e = lease_terminal_id l \<and>
    s' = s\<lparr>ws_outcomes := AList.update (wl_id l) Expired (ws_outcomes s)\<rparr>"
proof -
  obtain l where l: "active_lease_of b s e ''lease expiration references a non-active lease'' = Inr l"
    using assms(1) by (auto simp: apply_expiration_def rbind_Inr_iff simp del: raise_first_ok)
  obtain t where t: "j_time_opt b (ev_payload e) ''expired_at'' = Inr (Some t)"
    using assms(1) l by (auto simp: apply_expiration_def rbind_Inr_iff split: option.splits)
  show ?thesis
    using assms(1) l t active_lease_of_result [OF l assms(2)]
    by (auto simp: apply_expiration_def rbind_Inr_iff dt_before_def dt_le_def)
qed

lemma control_inv_expiration:
  assumes inv: "control_inv K s" and e: "apply_expiration b s e = Inr s'" and K: "K \<subseteq> K'"
  shows "control_inv K' s'"
proof -
  obtain l where l: "map_of (ws_leases s) (wl_id l) = Some l" "map_of (ws_outcomes s) (wl_id l) = Some Active"
    and s': "s' = s\<lparr>ws_outcomes := AList.update (wl_id l) Expired (ws_outcomes s)\<rparr>"
    using apply_expiration_result [OF e inv] by blast
  have "lease_sound K' s' i m" if m: "map_of (ws_leases s) i = Some m" for i m
    using control_inv_parts(3) [OF inv m] K
    by (intro lease_sound_later [OF control_inv_parts(3) [OF inv m]])
      (auto simp: s' dict_simps highest_token_def completed_def lease_sound_def split: if_splits)
  moreover have "completion_sound s' k c" if "map_of (ws_completions s) k = Some c" for k c
    using l by (intro completion_sound_later [OF control_inv_parts(4) [OF inv that]]) (auto simp: s' dict_simps)
  moreover have "wg_id h = i \<and> graph_event_id i \<in> K' \<and> well_planned h"
    if "map_of (ws_graphs s) i = Some h" for i h
    using control_inv_parts(2) [OF inv that] K by auto
  ultimately show ?thesis
    using control_inv_parts(1) [OF inv] unfolding control_inv_def by (simp add: s')
qed

lemma apply_completion_result:
  assumes "apply_completion b s e = Inr s'" "control_inv K s"
  shows "\<exists>l g n c. map_of (ws_leases s) (wl_id l) = Some l \<and> map_of (ws_outcomes s) (wl_id l) = Some Active \<and>
    graph_is_active s (wl_graph_id l) \<and> map_of (ws_graphs s) (wl_graph_id l) = Some g \<and>
    graph_node g (wl_node_id l) = Inr n \<and> ev_id e = lease_terminal_id l \<and>
    jget (ev_payload e) ''fencing_token'' \<noteq> JNull \<and>
    json_eq (jget (ev_payload e) ''fencing_token'') (JInt (wl_fencing_token l)) \<and>
    nc_graph_id c = wl_graph_id l \<and> nc_node_id c = wl_node_id l \<and> nc_agent_id c = wl_agent_id l \<and>
    nc_lease_id c = wl_id l \<and> nc_fencing_token c = wl_fencing_token l \<and>
    nc_accepted_at c = ev_timestamp e \<and>
    nc_verification_passed c = (if wn_kind n = VERIFY then Some True else None) \<and>
    dt_le (wl_granted_at l) (ev_timestamp e) \<and> dt_before (ev_timestamp e) (wl_expires_at l) \<and>
    nc_artifact_refs c \<noteq> [] \<and> distinct (nc_artifact_refs c) \<and>
    s' = s\<lparr>ws_completions := AList.update (wl_graph_id l, wl_node_id l) c (ws_completions s),
           ws_outcomes := AList.update (wl_id l) Completed (ws_outcomes s)\<rparr>"
proof -
  obtain l where l: "active_lease_of b s e ''work completion requires an active lease'' = Inr l"
    using assms(1) by (auto simp: apply_completion_def rbind_Inr_iff simp del: raise_first_ok)
  note lease = active_lease_of_result [OF l assms(2)]
  have active: "graph_is_active s (wl_graph_id l)" "ev_id e = lease_terminal_id l"
    "\<not> payload_differs (ev_payload e) (completion_keys l)"
    using assms(1) l by (simp_all add: apply_completion_def rbind_Inr_iff)
  then obtain g where g: "map_of (ws_graphs s) (wl_graph_id l) = Some g"
    by (auto simp: graph_is_active_def split: option.splits)
  obtain t where t: "j_time_opt b (ev_payload e) ''accepted_at'' = Inr (Some t)"
    using assms(1) l by (auto simp: apply_completion_def rbind_Inr_iff simp del: raise_first_ok split: option.splits)
  then have time: "ev_timestamp e = t" "\<not> dt_before t (wl_granted_at l)" "\<not> dt_le (wl_expires_at l) t"
    using assms(1) l by (simp_all add: apply_completion_def rbind_Inr_iff Let_def del: raise_first_ok)
  obtain r where r: "j_time_opt b (ev_payload e) ''reported_finished_at'' = Inr r"
    using assms(1) l t time by (auto simp: apply_completion_def rbind_Inr_iff simp del: raise_first_ok)
  obtain a where a: "j_strs b (ev_payload e) ''artifact_refs'' = Inr a"
    using assms(1) l t time r by (auto simp: apply_completion_def rbind_Inr_iff simp del: raise_first_ok)
  then have arts: "a \<noteq> []" "distinct a"
    using assms(1) l t time r by (simp_all add: apply_completion_def rbind_Inr_iff Let_def del: raise_first_ok)
  obtain n where n: "graph_node g (wl_node_id l) = Inr n"
    using assms(1) l t time r a g
    by (auto simp: apply_completion_def rbind_Inr_iff Let_def simp del: raise_first_ok)
  let ?c = "\<lparr>nc_graph_id = wl_graph_id l, nc_node_id = wl_node_id l, nc_agent_id = wl_agent_id l,
      nc_lease_id = wl_id l, nc_fencing_token = wl_fencing_token l, nc_accepted_at = t,
      nc_reported_finished_at = r, nc_artifact_refs = a,
      nc_verification_passed = (if wn_kind n = VERIFY then Some True else None)\<rparr>"
  have "s' = s\<lparr>ws_completions := AList.update (wl_graph_id l, wl_node_id l) ?c (ws_completions s),
      ws_outcomes := AList.update (wl_id l) Completed (ws_outcomes s)\<rparr>"
    using assms(1) l t time r a g n
    by (auto simp: apply_completion_def rbind_Inr_iff Let_def split: if_splits)
  moreover have "json_eq (jget (ev_payload e) ''fencing_token'') (JInt (wl_fencing_token l))"
    using active(3) by (simp add: payload_differs_def completion_keys_def)
  moreover from this have "jget (ev_payload e) ''fencing_token'' \<noteq> JNull"
    by (auto simp: json_eq_def)
  ultimately show ?thesis
    using lease active g n time arts
    by (intro exI [of _ l] exI [of _ g] exI [of _ n] exI [of _ ?c]) (simp add: dt_le_def dt_before_def not_le not_less)
qed

lemma active_leases_unique:
  assumes "control_inv K s" "map_of (ws_leases s) i = Some l" "map_of (ws_leases s) j = Some m"
    and "map_of (ws_outcomes s) i = Some Active" "map_of (ws_outcomes s) j = Some Active"
    and "wl_graph_id l = wl_graph_id m" "wl_node_id l = wl_node_id m"
  shows "i = j"
proof -
  have "lease_sound K s i l" "lease_sound K s j m"
    using control_inv_parts(3) [OF assms(1)] assms(2,3) by auto
  then have "wl_fencing_token l = wl_fencing_token m" "check_lease l = Inr ()" "check_lease m = Inr ()"
    "wl_id l = i" "wl_id m = j"
    using assms(4-7) by (auto simp: lease_sound_def)
  then show ?thesis using check_lease_ok(4) [of l] check_lease_ok(4) [of m] assms(6,7) by simp
qed

lemma control_inv_completion:
  assumes inv: "control_inv K s" and e: "apply_completion b s e = Inr s'" and K: "K \<subseteq> K'"
  shows "control_inv K' s'"
proof -
  obtain l g n c where l: "map_of (ws_leases s) (wl_id l) = Some l" "map_of (ws_outcomes s) (wl_id l) = Some Active"
    and g: "map_of (ws_graphs s) (wl_graph_id l) = Some g" "graph_node g (wl_node_id l) = Inr n"
    and c: "nc_graph_id c = wl_graph_id l" "nc_node_id c = wl_node_id l" "nc_agent_id c = wl_agent_id l"
      "nc_lease_id c = wl_id l" "nc_fencing_token c = wl_fencing_token l"
      "nc_accepted_at c = ev_timestamp e"
      "nc_verification_passed c = (if wn_kind n = VERIFY then Some True else None)"
      "dt_le (wl_granted_at l) (ev_timestamp e)" "dt_before (ev_timestamp e) (wl_expires_at l)"
      "nc_artifact_refs c \<noteq> []" "distinct (nc_artifact_refs c)"
    and s': "s' = s\<lparr>ws_completions := AList.update (wl_graph_id l, wl_node_id l) c (ws_completions s),
           ws_outcomes := AList.update (wl_id l) Completed (ws_outcomes s)\<rparr>"
    using apply_completion_result [OF e inv] by blast
  have "map_of (ws_completions s) (wl_graph_id l, wl_node_id l) = None"
    using control_inv_parts(3) [OF inv l(1)] l(2) by (simp add: lease_sound_def completed_def)
  then have more: "map_of (ws_completions s) \<subseteq>\<^sub>m map_of (ws_completions s')"
    by (auto simp: map_le_def s' dict_simps)
  have "lease_sound K' s' i m" if m: "map_of (ws_leases s) i = Some m" for i m
  proof (rule lease_sound_later [OF control_inv_parts(3) [OF inv m] K _ more])
    show "map_of (ws_outcomes s') i \<noteq> None"
      using control_inv_parts(3) [OF inv m] by (auto simp: s' dict_simps lease_sound_def)
    assume "map_of (ws_outcomes s') i = Some Active"
    then have "map_of (ws_outcomes s) i = Some Active" "i \<noteq> wl_id l"
      by (auto simp: s' dict_simps split: if_splits)
    moreover from this have "(wl_graph_id m, wl_node_id m) \<noteq> (wl_graph_id l, wl_node_id l)"
      using active_leases_unique [OF inv m l(1) _ l(2)] by auto
    ultimately show "map_of (ws_outcomes s) i = Some Active \<and>
        highest_token s' (wl_graph_id m, wl_node_id m) = highest_token s (wl_graph_id m, wl_node_id m) \<and>
        (completed s' (wl_graph_id m) (wl_node_id m) \<longrightarrow> completed s (wl_graph_id m) (wl_node_id m))"
      by (auto simp: s' highest_token_def completed_def dict_simps)
  qed (auto simp: s' highest_token_def)
  moreover have "completion_sound s' k d" if "map_of (ws_completions s') k = Some d" for k d
  proof (cases "k = (wl_graph_id l, wl_node_id l)")
    case True
    then have d: "d = c" using that by (simp add: s' dict_simps)
    show ?thesis
      unfolding completion_sound_def d using True l g c by (auto simp: s' dict_simps)
  next
    case False
    then have "map_of (ws_completions s) k = Some d" using that by (simp add: s' dict_simps)
    then show ?thesis
      using l by (intro completion_sound_later [OF control_inv_parts(4) [OF inv]]) (auto simp: s' dict_simps)
  qed
  moreover have "wg_id h = i \<and> graph_event_id i \<in> K' \<and> well_planned h"
    if "map_of (ws_graphs s) i = Some h" for i h
    using control_inv_parts(2) [OF inv that] K by auto
  ultimately show ?thesis
    using control_inv_parts(1) [OF inv] unfolding control_inv_def by (simp add: s')
qed

subsection \<open>Every event keeps the invariant\<close>

lemma handle_work_event_cases:
  assumes "handle_work_event dec s e = Inr (h, s')"
  obtains (frame) "same_control s s'" "closes_no_less s s'"
  | (graph) "ev_type e = WORK_GRAPH_ACCEPTED_EVENT" "apply_graph (dec_builtins dec) s e = Inr s'"
  | (lease) "ev_type e = WORK_LEASE_GRANTED_EVENT" "apply_lease dec s e = Inr s'"
  | (expiration) "ev_type e = WORK_LEASE_EXPIRED_EVENT" "apply_expiration (dec_builtins dec) s e = Inr s'"
  | (completion) "ev_type e = WORK_NODE_COMPLETED_EVENT" "apply_completion (dec_builtins dec) s e = Inr s'"
  using assms same_control_handlers [of "dec_builtins dec" s e s']
    same_control_invalidation [of "dec_builtins dec" s e s']
  unfolding handle_work_event_def Let_def
  by (auto simp: rbind_Inr_iff same_control_def closes_no_less_def split: if_splits)

lemma handle_work_event_inv:
  assumes "control_inv K s" "ev_id e \<notin> K" "handle_work_event dec s e = Inr (h, s')"
  shows "control_inv (insert (ev_id e) K) s'"
  using assms(3)
proof (cases rule: handle_work_event_cases)
  case frame
  then show ?thesis using control_inv_frame [OF assms(1)] by blast
next
  case graph
  then show ?thesis using control_inv_graph [OF assms(1,2)] by blast
next
  case lease
  then show ?thesis using control_inv_lease [OF assms(1,2)] by blast
next
  case expiration
  then show ?thesis using control_inv_expiration [OF assms(1)] by blast
next
  case completion
  then show ?thesis using control_inv_completion [OF assms(1)] by blast
qed

lemma small_handlers_log:
  "apply_order b s e = Inr s' \<Longrightarrow> ws_events s' = ws_events s"
  "apply_proposal b s e = Inr s' \<Longrightarrow> ws_events s' = ws_events s"
  "apply_presence b s e = Inr s' \<Longrightarrow> ws_events s' = ws_events s"
  "apply_manifest b s e = Inr s' \<Longrightarrow> ws_events s' = ws_events s"
  "apply_estimate b s e = Inr s' \<Longrightarrow> ws_events s' = ws_events s"
  by (auto simp: apply_order_def apply_proposal_def apply_presence_def apply_manifest_def
      apply_estimate_def rbind_Inr_iff Let_def simp del: raise_first_ok)

lemma large_handlers_log:
  assumes "control_inv K s"
  shows "apply_graph b s e = Inr s' \<Longrightarrow> ws_events s' = ws_events s"
    "apply_lease dec s e = Inr s' \<Longrightarrow> ws_events s' = ws_events s"
    "apply_expiration b s e = Inr s' \<Longrightarrow> ws_events s' = ws_events s"
    "apply_completion b s e = Inr s' \<Longrightarrow> ws_events s' = ws_events s"
    "apply_invalidation b s e = Inr s' \<Longrightarrow> ws_events s' = ws_events s"
  subgoal by (drule apply_graph_result) fastforce
  subgoal by (drule apply_lease_result) fastforce
  subgoal by (drule apply_expiration_result [OF _ assms]) fastforce
  subgoal by (drule apply_completion_result [OF _ assms]) fastforce
  subgoal by (drule apply_invalidation_result) fastforce
  done

lemma handle_work_event_log:
  assumes "control_inv K s" "handle_work_event dec s e = Inr (h, s')"
  shows "ws_events s' = ws_events s"
  using assms(2) small_handlers_log [of "dec_builtins dec" s e s']
    large_handlers_log(1,3,4,5) [OF assms(1), of "dec_builtins dec" e s']
    large_handlers_log(2) [OF assms(1), of dec e s']
  unfolding handle_work_event_def Let_def by (simp add: rbind_Inr_iff split: if_splits)

text \<open>A new event that was applied: its handler ran, and it was recorded.\<close>

lemma work_fold_cases:
  assumes "work_inv s" "work_fold dec s e = Inr s'"
  obtains (known) "s' = s" "map_of (ws_events s) (ev_id e) \<noteq> None"
  | (new) h s1 sq where "map_of (ws_events s) (ev_id e) = None" "ev_sequence e = Some sq"
      "ws_last_sequence s < sq" "handle_work_event dec s e = Inr (h, s1)"
      "s' = s1\<lparr>ws_events := AList.update (ev_id e) e (ws_events s), ws_last_sequence := sq\<rparr>"
proof (cases "map_of (ws_events s) (ev_id e)")
  case None
  then obtain sq h s1 where "ev_sequence e = Some sq" "ws_last_sequence s < sq"
    "handle_work_event dec s e = Inr (h, s1)"
    "s' = s1\<lparr>ws_events := AList.update (ev_id e) e (ws_events s1), ws_last_sequence := sq\<rparr>"
    using assms(2) by (auto simp: work_fold_def work_apply_def rbind_Inr_iff split: option.splits if_splits)
  with None show ?thesis
    using new handle_work_event_log [OF assms(1) [unfolded work_inv_def]] by metis
next
  case (Some old)
  then have "s' = s" using assms(2) by (auto simp: work_fold_def work_apply_def split: if_splits)
  with Some show ?thesis using known by simp
qed

lemma work_inv_fold:
  assumes "work_inv s" "work_fold dec s e = Inr s'"
  shows "work_inv s'"
  using assms
proof (cases rule: work_fold_cases)
  case known
  with assms(1) show ?thesis by simp
next
  case (new h s1 sq)
  let ?K = "dom (map_of (ws_events s))"
  have "control_inv (insert (ev_id e) ?K) s1"
    using handle_work_event_inv [OF assms(1) [unfolded work_inv_def] _ new(4)] new(1) by auto
  moreover have "same_control s1 s'" by (simp add: new(5) same_control_def)
  ultimately show ?thesis
    unfolding work_inv_def using control_inv_frame by (force simp: new(5) dict_simps)
qed

lemma work_fold_recorded:
  assumes "work_inv s" "work_fold dec s e = Inr s'"
  shows "dom (map_of (ws_events s')) = insert (ev_id e) (dom (map_of (ws_events s)))"
  using assms by (cases rule: work_fold_cases) (auto simp: dict_simps)

lemma work_inv_empty: "work_inv empty_work"
  by (simp add: work_inv_def control_inv_def empty_work_def)

interpretation work: projection empty_work "work_fold dec" work_inv
  by unfold_locales (auto simp: work_inv_empty intro: work_inv_fold)

lemma rebuilt_inv:
  assumes "work_rebuild dec es through = Inr s"
  shows "work_inv s"
  using assms unfolding work_rebuild_def by (rule work.inv_rebuild)

subsection \<open>Leases as fenced claims\<close>

definition work_step :: "decoders \<Rightarrow> work_state \<Rightarrow> work_state \<Rightarrow> bool" where
  "work_step dec s s' \<longleftrightarrow> (\<exists>e. work_fold dec s e = Inr s')"

definition lease_granted :: "decoders \<Rightarrow> work_state \<Rightarrow> string \<times> string \<Rightarrow> int \<Rightarrow> work_state \<Rightarrow> bool" where
  "lease_granted dec s k t s' \<longleftrightarrow> (\<exists>e l. map_of (ws_events s) (ev_id e) = None \<and>
     lease_from_event (dec_builtins dec) e = Inr l \<and> k = (wl_graph_id l, wl_node_id l) \<and>
     t = wl_fencing_token l \<and> work_fold dec s e = Inr s')"

definition work_finished :: "decoders \<Rightarrow> work_state \<Rightarrow> string \<times> string \<Rightarrow> int \<Rightarrow> work_state \<Rightarrow> bool" where
  "work_finished dec s k t s' \<longleftrightarrow> (\<exists>e c. work_fold dec s e = Inr s' \<and>
     map_of (ws_completions s) k = None \<and> map_of (ws_completions s') k = Some c \<and> nc_fencing_token c = t)"

lemma handle_tokens:
  assumes "control_inv K s" "handle_work_event dec s e = Inr (h, s')"
  shows "highest_token s k \<le> highest_token s' k"
  using assms(2)
proof (cases rule: handle_work_event_cases)
  case frame
  then show ?thesis by (simp add: same_control_def highest_token_def)
next
  case graph
  then have "ws_tokens s' = ws_tokens s" by (auto dest!: apply_graph_result)
  then show ?thesis by (simp add: highest_token_def)
next
  case lease
  then obtain l where l: "validate_lease_grant dec s l = Inr ()" and
    s': "ws_tokens s' = AList.update (wl_graph_id l, wl_node_id l) (wl_fencing_token l) (ws_tokens s)"
    by (auto dest!: apply_lease_result)
  obtain g n where "map_of (ws_graphs s) (wl_graph_id l) = Some g" "graph_node g (wl_node_id l) = Inr n"
    "wl_fencing_token l = next_fencing_token s (wg_id g) (wn_id n)"
    using validate_lease_grant_result [OF l] by blast
  then have "wl_fencing_token l = highest_token s (wl_graph_id l, wl_node_id l) + 1"
    using control_inv_parts(2) [OF assms(1)] graph_node_id by (auto simp: next_fencing_token_def)
  then show ?thesis by (auto simp: highest_token_def s' dict_simps)
next
  case expiration
  then have "ws_tokens s' = ws_tokens s" by (auto dest!: apply_expiration_result [OF _ assms(1)])
  then show ?thesis by (simp add: highest_token_def)
next
  case completion
  then have "ws_tokens s' = ws_tokens s" by (auto dest!: apply_completion_result [OF _ assms(1)])
  then show ?thesis by (simp add: highest_token_def)
qed

lemma work_step_inv: "work_inv s \<Longrightarrow> work_step dec s s' \<Longrightarrow> work_inv s'"
  by (auto simp: work_step_def intro: work_inv_fold)

lemma work_step_tokens:
  assumes "work_inv s" "work_step dec s s'"
  shows "highest_token s k \<le> highest_token s' k"
proof -
  obtain e where e: "work_fold dec s e = Inr s'" using assms(2) by (auto simp: work_step_def)
  show ?thesis
    using assms(1) e
  proof (cases rule: work_fold_cases)
    case known
    then show ?thesis by simp
  next
    case (new h s1 sq)
    then show ?thesis
      using handle_tokens [OF assms(1) [unfolded work_inv_def] new(4), of k] by (simp add: highest_token_def)
  qed
qed

lemma lease_granted_token:
  assumes "work_inv s" "lease_granted dec s k t s'"
  shows "t = highest_token s k + 1 \<and> highest_token s' k = t"
proof -
  obtain e l where e: "map_of (ws_events s) (ev_id e) = None" "lease_from_event (dec_builtins dec) e = Inr l"
    "k = (wl_graph_id l, wl_node_id l)" "t = wl_fencing_token l" "work_fold dec s e = Inr s'"
    using assms(2) by (auto simp: lease_granted_def)
  have ty: "ev_type e = WORK_LEASE_GRANTED_EVENT"
    using e(2) by (auto simp: lease_from_event_def split: if_splits)
  show ?thesis
    using assms(1) e(5)
  proof (cases rule: work_fold_cases)
    case known
    with e(1) show ?thesis by simp
  next
    case (new h s1 sq)
    have ap: "apply_lease dec s e = Inr s1"
      using new(4) ty by (auto simp: handle_work_event_def Let_def work_event_types rbind_Inr_iff)
    then have grant: "validate_lease_grant dec s l = Inr ()"
      and s1: "ws_tokens s1 = AList.update k t (ws_tokens s)"
      using e(2-4) by (auto simp: apply_lease_def rbind_Inr_iff split: if_splits)
    obtain g n where "map_of (ws_graphs s) (wl_graph_id l) = Some g" "graph_node g (wl_node_id l) = Inr n"
      "wl_fencing_token l = next_fencing_token s (wg_id g) (wn_id n)"
      using validate_lease_grant_result [OF grant] by blast
    then have "t = highest_token s k + 1"
      using control_inv_parts(2) [OF assms(1) [unfolded work_inv_def]] graph_node_id e(3,4)
      by (auto simp: next_fencing_token_def)
    then show ?thesis by (simp add: new(5) s1 highest_token_def dict_simps)
  qed
qed

lemma work_finished_token:
  assumes "work_inv s" "work_finished dec s k t s'"
  shows "t = highest_token s k"
proof -
  obtain e c where e: "work_fold dec s e = Inr s'" "map_of (ws_completions s) k = None"
    "map_of (ws_completions s') k = Some c" "nc_fencing_token c = t"
    using assms(2) by (auto simp: work_finished_def)
  note inv = assms(1) [unfolded work_inv_def]
  show ?thesis
    using assms(1) e(1)
  proof (cases rule: work_fold_cases)
    case known
    with e show ?thesis by simp
  next
    case (new h s1 sq)
    have c1: "map_of (ws_completions s1) k = Some c" using e(3) new(5) by simp
    show ?thesis
      using new(4)
    proof (cases rule: handle_work_event_cases)
      case frame
      then show ?thesis using c1 e(2) by (simp add: same_control_def)
    next
      case graph
      then have "ws_completions s1 = ws_completions s" by (auto dest!: apply_graph_result)
      then show ?thesis using c1 e(2) by simp
    next
      case lease
      then have "ws_completions s1 = ws_completions s" by (auto dest!: apply_lease_result)
      then show ?thesis using c1 e(2) by simp
    next
      case expiration
      then have "ws_completions s1 = ws_completions s" by (auto dest!: apply_expiration_result [OF _ inv])
      then show ?thesis using c1 e(2) by simp
    next
      case completion
      obtain l c' where l: "map_of (ws_leases s) (wl_id l) = Some l"
          "map_of (ws_outcomes s) (wl_id l) = Some Active" "nc_fencing_token c' = wl_fencing_token l"
        and s1: "s1 = s\<lparr>ws_completions := AList.update (wl_graph_id l, wl_node_id l) c' (ws_completions s),
           ws_outcomes := AList.update (wl_id l) Completed (ws_outcomes s)\<rparr>"
        using apply_completion_result [OF completion(2) inv] by blast
      have "k = (wl_graph_id l, wl_node_id l)" "c' = c"
        using c1 e(2) by (auto simp: s1 dict_simps split: if_splits)
      moreover have "wl_fencing_token l = highest_token s (wl_graph_id l, wl_node_id l)"
        using control_inv_parts(3) [OF inv l(1)] l(2) by (simp add: lease_sound_def)
      ultimately show ?thesis using e(4) l(3) by simp
    qed
  qed
qed

interpretation work_leases: fenced_claims work_inv highest_token "work_step dec" "lease_granted dec"
  "work_finished dec"
proof unfold_locales
  fix s s' :: work_state and k and t :: int
  show "work_inv s \<Longrightarrow> work_step dec s s' \<Longrightarrow> work_inv s'" by (rule work_step_inv)
  show "lease_granted dec s k t s' \<Longrightarrow> work_step dec s s'"
    by (auto simp: lease_granted_def work_step_def)
  show "work_inv s \<Longrightarrow> lease_granted dec s k t s' \<Longrightarrow> t = highest_token s k + 1 \<and> highest_token s' k = t"
    by (rule lease_granted_token)
  show "work_inv s \<Longrightarrow> work_step dec s s' \<Longrightarrow> highest_token s k \<le> highest_token s' k"
    by (rule work_step_tokens)
  show "work_inv s \<Longrightarrow> work_finished dec s k t s' \<Longrightarrow> t = highest_token s k"
    by (rule work_finished_token)
qed

subsection \<open>Superseded and invalidated graphs\<close>

text \<open>An accepted graph that is no longer the active one of its order.\<close>

definition graph_closed :: "work_state \<Rightarrow> string \<Rightarrow> bool" where
  "graph_closed s i \<longleftrightarrow> map_of (ws_graphs s) i \<noteq> None \<and> \<not> graph_is_active s i"

text \<open>What is recorded of the work on a graph.\<close>

definition same_work :: "string \<Rightarrow> work_state \<Rightarrow> work_state \<Rightarrow> bool" where
  "same_work i s s' \<longleftrightarrow> (\<forall>n. map_of (ws_completions s') (i, n) = map_of (ws_completions s) (i, n) \<and>
     highest_token s' (i, n) = highest_token s (i, n))"

lemma same_work_trans: "same_work i s s' \<Longrightarrow> same_work i s' s'' \<Longrightarrow> same_work i s s''"
  by (simp add: same_work_def)

lemma closed_handle:
  assumes "control_inv K s" "ev_id e \<notin> K" "graph_closed s i" "handle_work_event dec s e = Inr (h, s')"
  shows "graph_closed s' i \<and> same_work i s s'"
  using assms(4)
proof (cases rule: handle_work_event_cases)
  case frame
  then show ?thesis
    using assms(3) by (auto simp: graph_closed_def same_work_def same_control_def closes_no_less_def
        graph_is_active_def highest_token_def split: option.splits)
next
  case graph
  then obtain g where g: "ev_id e = graph_event_id (wg_id g)" and
    s': "s' = s\<lparr>ws_graphs := AList.update (wg_id g) g (ws_graphs s),
           ws_latest := AList.update (wg_work_order_id g) (wg_id g) (ws_latest s)\<rparr>"
    using apply_graph_result by blast
  have "wg_id g \<noteq> i"
    using control_inv_parts(2) [OF assms(1), of i] assms(2,3) g by (auto simp: graph_closed_def)
  then show ?thesis
    using assms(3) by (auto simp: s' graph_closed_def same_work_def graph_is_active_def highest_token_def
        dict_simps split: option.splits)
next
  case lease
  then obtain l where l: "validate_lease_grant dec s l = Inr ()" and
    s': "s' = s\<lparr>ws_leases := AList.update (wl_id l) l (ws_leases s),
           ws_outcomes := AList.update (wl_id l) Active (ws_outcomes s),
           ws_tokens := AList.update (wl_graph_id l, wl_node_id l) (wl_fencing_token l) (ws_tokens s)\<rparr>"
    using apply_lease_result by blast
  have "wl_graph_id l \<noteq> i"
    using validate_lease_grant_result [OF l] assms(3) by (auto simp: graph_closed_def)
  then show ?thesis
    using assms(3) by (auto simp: s' graph_closed_def same_work_def graph_is_active_def highest_token_def
        dict_simps split: option.splits)
next
  case expiration
  obtain l :: work_lease where s': "s' = s\<lparr>ws_outcomes := AList.update (wl_id l) Expired (ws_outcomes s)\<rparr>"
    using apply_expiration_result [OF expiration(2) assms(1)] by blast
  then show ?thesis
    using assms(3) by (auto simp: graph_closed_def same_work_def graph_is_active_def highest_token_def
        split: option.splits)
next
  case completion
  obtain l :: work_lease and c where l: "graph_is_active s (wl_graph_id l)" and
    s': "s' = s\<lparr>ws_completions := AList.update (wl_graph_id l, wl_node_id l) c (ws_completions s),
           ws_outcomes := AList.update (wl_id l) Completed (ws_outcomes s)\<rparr>"
    using apply_completion_result [OF completion(2) assms(1)] by blast
  then show ?thesis
    using assms(3) by (auto simp: graph_closed_def same_work_def graph_is_active_def highest_token_def
        dict_simps split: option.splits)
qed

lemma closed_fold:
  assumes "work_inv s" "graph_closed s i" "work_fold dec s e = Inr s'"
  shows "graph_closed s' i \<and> same_work i s s'"
  using assms(1,3)
proof (cases rule: work_fold_cases)
  case known
  then show ?thesis using assms(2) by (simp add: same_work_def)
next
  case (new h s1 sq)
  have "ev_id e \<notin> dom (map_of (ws_events s))" using new(1) by auto
  from closed_handle [OF assms(1) [unfolded work_inv_def] this assms(2) new(4)]
  show ?thesis
    by (simp add: new(5) graph_closed_def same_work_def graph_is_active_def highest_token_def
        split: option.splits)
qed

lemma closed_forever:
  assumes "work_inv s" "graph_closed s i" "foldM (work_fold dec) s es = Inr s'"
  shows "graph_closed s' i \<and> same_work i s s'"
proof -
  have "work_inv s' \<and> graph_closed s' i \<and> same_work i s s'"
    by (rule foldM_invariant [OF assms(3)])
      (use assms(1,2) in \<open>auto simp: same_work_def intro: work_inv_fold dest: closed_fold\<close>)
  then show ?thesis by blast
qed

end
