(* ===== verification/WorkScenario.thy ===== *)
theory WorkScenario
  imports WorkSafety
begin

section \<open>A run of work control\<close>

text \<open>
  A concrete log on which the properties of work control are applied: an order with a plan of two nodes,
  one to build and one to verify it; the first lease expires, a second worker completes the node, and
  the first worker verifies it. All values are computed with the operations of the model.
\<close>

definition rights :: "'a result list \<Rightarrow> 'a list" where
  "rights rs = concat (map (case_sum (\<lambda>_. []) (\<lambda>x. [x])) rs)"

text \<open>A digest that separates the objects of the run: the first two of their texts.\<close>

definition demo_builtins :: builtins where
  "demo_builtins = \<lparr>bi_str = (\<lambda>_. ''?''), bi_int = (\<lambda>_. Inl (TypeError ''int'')),
     bi_dict = (\<lambda>_. Inl (TypeError ''dict'')), bi_float = (\<lambda>_. Inl (TypeError ''float'')),
     bi_iter = (\<lambda>_. Inl (TypeError ''iter'')), bi_fromiso = (\<lambda>_. Inl (ValueError ''iso'')),
     bi_sha = (\<lambda>d. take 2 (concat (map (\<lambda>(k, v). case v of JStr s \<Rightarrow> s | _ \<Rightarrow> []) d)))\<rparr>"

definition demo_decoders :: decoders where
  "demo_decoders = \<lparr>dec_builtins = demo_builtins, dec_access = (\<lambda>_. Inl (ValueError ''access'')),
     dec_disclosure = (\<lambda>_. Inl (ValueError ''disclosure''))\<rparr>"

definition demo_order :: work_order where
  "demo_order = \<lparr>wo_id = ''work-order:xy'', wo_purpose = ''y'',
     wo_governing_goal_refs = [''g''], wo_created_from = [''r''], wo_priority = Fin 1,
     wo_desired_outcome = ''x'', wo_success_criteria = [''ok''], wo_deadline = None,
     wo_opportunity_window_end = None, wo_authority_ceiling = OBSERVE,
     wo_epistemic_prerequisites = [], wo_created_at = Aware 0\<rparr>"

definition demo_node :: "string \<Rightarrow> node_kind \<Rightarrow> string list \<Rightarrow> work_node" where
  "demo_node i kind targets = \<lparr>wn_id = i, wn_kind = kind, wn_description = i,
     wn_required_capabilities = [''code''], wn_completion_criteria = [''ok''],
     wn_epistemic_prerequisites = [], wn_verification_of = targets, wn_governed_information_refs = []\<rparr>"

text \<open>The node \<open>b\<close> (build) and the node \<open>c\<close> (check), which verifies it.\<close>

definition demo_proposal :: plan_proposal where
  "demo_proposal = \<lparr>pp_id = ''plan-proposal:pw'', pp_planner_id = ''p'',
     pp_work_order_id = ''work-order:xy'', pp_based_on_event_cursor = 7, pp_based_on_graph_version = 0,
     pp_nodes = [demo_node ''b'' EXECUTE [], demo_node ''c'' VERIFY [''b'']],
     pp_dependencies = [\<lparr>wd_predecessor_id = ''b'', wd_successor_id = ''c''\<rparr>],
     pp_assumptions = [], pp_done_conditions = [''ok''], pp_replan_event_types = [''change''],
     pp_proposed_at = Aware 1\<rparr>"

definition demo_graph :: work_graph where
  "demo_graph = \<lparr>wg_id = ''work-graph:pl'', wg_work_order_id = ''work-order:xy'',
     wg_proposal_id = ''plan-proposal:pw'', wg_version = 1, wg_based_on_event_cursor = 7,
     wg_nodes = pp_nodes demo_proposal, wg_dependencies = pp_dependencies demo_proposal,
     wg_done_conditions = [''ok''], wg_replan_event_types = [''change''],
     wg_validator_id = ''v'', wg_accepted_at = Aware 2\<rparr>"

definition demo_presence :: "string \<Rightarrow> agent_presence" where
  "demo_presence i = \<lparr>ag_agent_id = i, ag_status = Available, ag_max_concurrency = 1,
     ag_observed_at = Aware 0, ag_valid_until = Aware 1000\<rparr>"

definition demo_manifest :: "string \<Rightarrow> capability_manifest" where
  "demo_manifest i = \<lparr>cm_id = ''capability-manifest:'' @ i, cm_agent_id = i,
     cm_capabilities = [''code''], cm_recorded_at = Aware 0\<rparr>"

definition demo_estimate :: "string \<Rightarrow> competence_estimate" where
  "demo_estimate i = \<lparr>ce_id = ''competence-estimate:'' @ i, ce_agent_id = i, ce_capability = ''code'',
     ce_score = Fin 1, ce_evidence_confidence = Fin 1, ce_basis = Seeded, ce_evidence_refs = [],
     ce_estimated_at = Aware 0\<rparr>"

definition demo_lease :: "string \<Rightarrow> string \<Rightarrow> int \<Rightarrow> int \<Rightarrow> work_lease" where
  "demo_lease node agent token t = \<lparr>wl_id = fenced_name ''work-lease'' ''work-graph:pl'' node token,
     wl_graph_id = ''work-graph:pl'', wl_node_id = node, wl_agent_id = agent, wl_fencing_token = token,
     wl_granted_at = Aware t, wl_expires_at = Aware (t + 100), wl_match_score = Fin 1,
     wl_competence_estimate_refs = [''competence-estimate:'' @ agent],
     wl_information_access_decision_refs = [], wl_information_disclosure_decision_refs = []\<rparr>"

lemma demo_created:
  "create_work_order demo_builtins demo_order = Inr demo_order"
  "create_proposal demo_builtins demo_proposal = Inr demo_proposal"
  "create_graph demo_builtins demo_proposal 1 ''v'' (Aware 2) = Inr demo_graph"
  by code_simp+

definition demo_trigger :: "jobject event" where
  "demo_trigger = hd (rights [make_event ''t'' ''change'' ''w'' ''w'' (Aware 170) [] None])"

definition demo_log :: "jobject event list" where
  "demo_log = map2 with_sequence (rights
     [work_order_to_event demo_order ''d'',
      presence_to_event demo_builtins (demo_presence ''a1'') ''d'',
      presence_to_event demo_builtins (demo_presence ''a2'') ''d'',
      manifest_to_event (demo_manifest ''a1'') ''d'',
      manifest_to_event (demo_manifest ''a2'') ''d'',
      estimate_to_event (demo_estimate ''a1'') ''d'',
      estimate_to_event (demo_estimate ''a2'') ''d'',
      proposal_to_event demo_proposal ''d'' (work_order_event_id ''work-order:xy''),
      graph_to_event demo_graph ''d'' (proposal_event_id ''plan-proposal:pw''),
      lease_to_event (demo_lease ''b'' ''a1'' 1 10) ''d'' (graph_event_id ''work-graph:pl''),
      expiration_event (demo_lease ''b'' ''a1'' 1 10) ''d'' (Aware 120) ''late'',
      lease_to_event (demo_lease ''b'' ''a2'' 2 130) ''d'' (graph_event_id ''work-graph:pl''),
      completion_event (demo_lease ''b'' ''a2'' 2 130) ''d'' (Aware 140) [''o''] None None,
      lease_to_event (demo_lease ''c'' ''a1'' 1 150) ''d'' (graph_event_id ''work-graph:pl''),
      completion_event (demo_lease ''c'' ''a1'' 1 150) ''d'' (Aware 160) [''r''] None (Some True),
      Inr demo_trigger,
      plan_invalidation_event demo_graph (with_sequence demo_trigger 16) ''d'' (Aware 180) ''new''])
     (map int [1..<18])"

text \<open>The state after planning, before any lease.\<close>

definition keyed :: "jobject event list \<Rightarrow> (string \<times> jobject event) list" where
  "keyed es = map (\<lambda>e. (ev_id e, e)) es"

definition demo_planned :: work_state where
  "demo_planned = \<lparr>ws_events = keyed (take 9 demo_log), ws_last_sequence = 9,
     ws_orders = [(wo_id demo_order, demo_order)],
     ws_proposals = [(pp_id demo_proposal, demo_proposal)],
     ws_graphs = [(wg_id demo_graph, demo_graph)],
     ws_latest = [(wo_id demo_order, wg_id demo_graph)], ws_invalidations = [],
     ws_presence = [(''a1'', demo_presence ''a1''), (''a2'', demo_presence ''a2'')],
     ws_manifests = [(''a1'', demo_manifest ''a1''), (''a2'', demo_manifest ''a2'')],
     ws_competence = [((''a1'', ''code''), demo_estimate ''a1''), ((''a2'', ''code''), demo_estimate ''a2'')],
     ws_leases = [], ws_outcomes = [], ws_completions = [], ws_tokens = []\<rparr>"

text \<open>After the first lease expired and the second worker took the node over.\<close>

definition demo_retaken :: work_state where
  "demo_retaken = demo_planned\<lparr>ws_events := keyed (take 12 demo_log), ws_last_sequence := 12,
     ws_leases := [(wl_id (demo_lease ''b'' ''a1'' 1 10), demo_lease ''b'' ''a1'' 1 10),
       (wl_id (demo_lease ''b'' ''a2'' 2 130), demo_lease ''b'' ''a2'' 2 130)],
     ws_outcomes := [(wl_id (demo_lease ''b'' ''a1'' 1 10), Expired),
       (wl_id (demo_lease ''b'' ''a2'' 2 130), Active)],
     ws_tokens := [((wg_id demo_graph, ''b''), 2)]\<rparr>"

definition demo_completion :: "work_lease \<Rightarrow> int \<Rightarrow> string \<Rightarrow> bool option \<Rightarrow> node_completion" where
  "demo_completion l t artifact passed = \<lparr>nc_graph_id = wl_graph_id l, nc_node_id = wl_node_id l,
     nc_agent_id = wl_agent_id l, nc_lease_id = wl_id l, nc_fencing_token = wl_fencing_token l,
     nc_accepted_at = Aware t, nc_reported_finished_at = None, nc_artifact_refs = [artifact],
     nc_verification_passed = passed\<rparr>"

text \<open>After the second worker completed the node and the first one verified it.\<close>

definition demo_verified :: work_state where
  "demo_verified = demo_retaken\<lparr>ws_events := keyed (take 15 demo_log), ws_last_sequence := 15,
     ws_leases := ws_leases demo_retaken @
       [(wl_id (demo_lease ''c'' ''a1'' 1 150), demo_lease ''c'' ''a1'' 1 150)],
     ws_outcomes := [(wl_id (demo_lease ''b'' ''a1'' 1 10), Expired),
       (wl_id (demo_lease ''b'' ''a2'' 2 130), Completed),
       (wl_id (demo_lease ''c'' ''a1'' 1 150), Completed)],
     ws_completions :=
       [((wg_id demo_graph, ''b''), demo_completion (demo_lease ''b'' ''a2'' 2 130) 140 ''o'' None),
        ((wg_id demo_graph, ''c''),
         demo_completion (demo_lease ''c'' ''a1'' 1 150) 160 ''r'' (Some True))],
     ws_tokens := [((wg_id demo_graph, ''b''), 2), ((wg_id demo_graph, ''c''), 1)]\<rparr>"

text \<open>After the trigger that invalidates the plan.\<close>

definition demo_closed :: work_state where
  "demo_closed = demo_verified\<lparr>ws_events := keyed demo_log, ws_last_sequence := 17,
     ws_invalidations := [(wg_id demo_graph, \<lparr>pi_graph_id = wg_id demo_graph,
       pi_trigger_event_id = ''t'', pi_trigger_event_sequence = 16, pi_invalidated_at = Aware 180,
       pi_reason = ''new''\<rparr>)]\<rparr>"

lemma demo_planned: "foldM (work_fold demo_decoders) empty_work (take 9 demo_log) = Inr demo_planned"
  by code_simp

lemma demo_retaken:
  "foldM (work_fold demo_decoders) demo_planned (take 3 (drop 9 demo_log)) = Inr demo_retaken"
  by code_simp

lemma demo_verified:
  "foldM (work_fold demo_decoders) demo_retaken (take 3 (drop 12 demo_log)) = Inr demo_verified"
  by code_simp

lemma demo_closed: "foldM (work_fold demo_decoders) demo_verified (drop 15 demo_log) = Inr demo_closed"
  by code_simp

lemma work_rebuild_all: "work_rebuild dec es None = foldM (work_fold dec) empty_work es"
  by (simp add: work_rebuild_def)

lemma demo_rebuilt:
  "work_rebuild demo_decoders (take 9 demo_log) None = Inr demo_planned"
  "work_rebuild demo_decoders (take 12 demo_log) None = Inr demo_retaken"
  "work_rebuild demo_decoders (take 15 demo_log) None = Inr demo_verified"
proof -
  have "take 12 demo_log = take 9 demo_log @ take 3 (drop 9 demo_log)"
    "take 15 demo_log = take 12 demo_log @ take 3 (drop 12 demo_log)"
    by (simp_all flip: take_add)
  then show "work_rebuild demo_decoders (take 9 demo_log) None = Inr demo_planned"
    "work_rebuild demo_decoders (take 12 demo_log) None = Inr demo_retaken"
    "work_rebuild demo_decoders (take 15 demo_log) None = Inr demo_verified"
    using demo_planned demo_retaken demo_verified by (simp_all add: work_rebuild_all foldM_append)
qed

end
