(* ===== verification/WorkProperties.thy ===== *)
theory WorkProperties
  imports WorkScenario
begin

section \<open>Properties of work control\<close>

text \<open>
  The safety properties of the projection of work control, each for every log that it accepts, with its
  application to the run of \<open>WorkScenario\<close>.
\<close>

text \<open>
  C11: In every state rebuilt from a log, a node of a work graph has at most one active lease; that lease
  carries the highest fencing token ever granted for the node, and the node is not complete.
\<close>

theorem one_worker_per_node:
  assumes "work_rebuild dec es through = Inr s" "l \<in> set (active_leases s)" "m \<in> set (active_leases s)"
    and "wl_graph_id l = wl_graph_id m" "wl_node_id l = wl_node_id m"
  shows "l = m \<and> wl_fencing_token l = highest_token s (wl_graph_id l, wl_node_id l) \<and>
    \<not> completed s (wl_graph_id l) (wl_node_id l)"
proof -
  have inv: "control_inv (dom (map_of (ws_events s))) s"
    using rebuilt_inv [OF assms(1)] by (simp add: work_inv_def)
  note l = set_active_leases [OF inv, THEN iffD1, OF assms(2)]
  note m = set_active_leases [OF inv, THEN iffD1, OF assms(3)]
  have id: "wl_id l = wl_id m"
    by (rule active_leases_unique [OF inv conjunct1 [OF l] conjunct1 [OF m] conjunct2 [OF l] conjunct2 [OF m]
      assms(4,5)])
  have "Some l = Some m" using conjunct1 [OF l] conjunct1 [OF m] unfolding id by metis
  moreover have "lease_sound (dom (map_of (ws_events s))) s (wl_id l) l"
    by (rule control_inv_parts(3) [OF inv conjunct1 [OF l]])
  ultimately show ?thesis using conjunct2 [OF l] unfolding lease_sound_def by blast
qed

text \<open>The lease of the second worker in the run.\<close>

lemma demo_retaken_active:
  "demo_lease ''b'' ''a2'' 2 130 \<in> set (active_leases demo_retaken)"
  by (simp add: active_leases_def sorted_leases_def demo_retaken_def demo_lease_def fenced_name_def
      str_int_def nat_digits.simps)

theorem one_worker_per_node_witness:
  "highest_token demo_retaken (''work-graph:pl'', ''b'') = 2 \<and> \<not> completed demo_retaken ''work-graph:pl'' ''b''"
  using one_worker_per_node [OF demo_rebuilt(2) demo_retaken_active demo_retaken_active refl refl]
  by (simp add: demo_lease_def)

text \<open>
  C12: Work is granted in dependency order: whenever a lease was granted for a node, everything the node
  depends on in its accepted graph, directly or through other nodes, is complete.
\<close>

theorem dependencies_complete_first:
  assumes "work_rebuild dec es through = Inr s" "map_of (ws_leases s) i = Some l"
    and "map_of (ws_graphs s) (wl_graph_id l) = Some g"
    and "(p, wl_node_id l) \<in> (dep_rel (wg_dependencies g))\<^sup>+"
  shows "completed s (wl_graph_id l) p"
proof -
  have inv: "control_inv (dom (map_of (ws_events s))) s"
    using rebuilt_inv [OF assms(1)] by (simp add: work_inv_def)
  show ?thesis
    using ancestors_completed [OF inv assms(3,4)] control_inv_parts(3) [OF inv assms(2)] assms(3)
    by (auto simp: lease_sound_def)
qed

lemma demo_graph_found: "map_of (ws_graphs demo_verified) ''work-graph:pl'' = Some demo_graph"
  by (simp add: demo_verified_def demo_retaken_def demo_planned_def demo_graph_def)

theorem dependencies_complete_first_witness: "completed demo_verified ''work-graph:pl'' ''b''"
proof -
  let ?l = "demo_lease ''c'' ''a1'' 1 150"
  have "map_of (ws_leases demo_verified) (wl_id ?l) = Some ?l"
    by (simp add: demo_verified_def demo_retaken_def demo_lease_def fenced_name_def str_int_def nat_digits.simps)
  moreover have "(''b'', wl_node_id ?l) \<in> (dep_rel (wg_dependencies demo_graph))\<^sup>+"
    by (rule r_into_trancl) (simp add: demo_lease_def demo_graph_def demo_proposal_def dep_rel_def)
  ultimately show ?thesis
    using dependencies_complete_first [OF demo_rebuilt(3), of "wl_id ?l" ?l demo_graph "''b''"] demo_graph_found
    by (simp add: demo_lease_def)
qed

text \<open>
  C13: Verification is independent: when a node is complete, every node it verifies was completed by another
  agent, and a verification node is complete only with an explicit passing result.
\<close>

theorem verification_is_independent:
  assumes "work_rebuild dec es through = Inr s" "map_of (ws_completions s) (i, k) = Some c"
    and "map_of (ws_graphs s) i = Some g" "graph_node g k = Inr n" "t \<in> set (wn_verification_of n)"
  shows "(\<exists>d. map_of (ws_completions s) (i, t) = Some d \<and> nc_agent_id d \<noteq> nc_agent_id c) \<and>
    nc_verification_passed c = (if wn_kind n = VERIFY then Some True else None)"
proof -
  have inv: "control_inv (dom (map_of (ws_events s))) s"
    using rebuilt_inv [OF assms(1)] by (simp add: work_inv_def)
  have c: "completion_sound s (i, k) c" by (rule control_inv_parts(4) [OF inv assms(2)])
  then obtain l where l: "map_of (ws_leases s) (nc_lease_id c) = Some l" "wl_graph_id l = i"
    "wl_node_id l = k" "nc_agent_id c = wl_agent_id l"
    by (auto simp: completion_sound_def)
  have "\<exists>w. worker_for_node s i t = Some w \<and> w \<noteq> nc_agent_id c"
    using control_inv_parts(3) [OF inv l(1)] l(2-4) assms(3-5) by (auto simp: lease_sound_def)
  moreover have "nc_verification_passed c = (if wn_kind n = VERIFY then Some True else None)"
    using c assms(3,4) by (auto simp: completion_sound_def)
  ultimately show ?thesis by (auto simp: worker_for_node_def)
qed

theorem verification_is_independent_witness:
  "\<exists>d. map_of (ws_completions demo_verified) (''work-graph:pl'', ''b'') = Some d \<and> nc_agent_id d \<noteq> ''a1''"
proof -
  let ?c = "demo_completion (demo_lease ''c'' ''a1'' 1 150) 160 ''r'' (Some True)"
  have c: "map_of (ws_completions demo_verified) (''work-graph:pl'', ''c'') = Some ?c"
    by (simp add: demo_verified_def demo_graph_def)
  have n: "graph_node demo_graph ''c'' = Inr (demo_node ''c'' VERIFY [''b''])"
    by (simp add: graph_node_def demo_graph_def demo_proposal_def demo_node_def)
  from verification_is_independent [OF demo_rebuilt(3) c demo_graph_found n, of "''b''"] show ?thesis
    by (simp add: demo_node_def demo_completion_def demo_lease_def)
qed

text \<open>
  Fencing: when a node was leased again, the new lease has a greater token, and whatever happened since
  then, no event can complete the node under the older lease.
\<close>

theorem superseded_lease_cannot_finish:
  assumes "work_rebuild dec es through = Inr s" "lease_granted dec s k t s1" "(work_step dec)\<^sup>*\<^sup>* s1 s2"
    and "lease_granted dec s2 k t' s3" "(work_step dec)\<^sup>*\<^sup>* s3 s4"
  shows "t < t' \<and> \<not> work_finished dec s4 k t s5"
  using work_leases.tokens_increase [OF rebuilt_inv [OF assms(1)] assms(2-4)]
    work_leases.stale_holder_rejected [OF rebuilt_inv [OF assms(1)] assms(2-5)] by blast

text \<open>The two leases of the run, granted by the tenth and the twelfth event.\<close>

lemma demo_grants:
  "\<exists>s1 s2. lease_granted demo_decoders demo_planned (''work-graph:pl'', ''b'') 1 s1 \<and>
     (work_step demo_decoders)\<^sup>*\<^sup>* s1 s2 \<and>
     lease_granted demo_decoders s2 (''work-graph:pl'', ''b'') 2 demo_retaken"
proof -
  have log: "take 3 (drop 9 demo_log) = [demo_log ! 9, demo_log ! 10, demo_log ! 11]"
    by code_simp
  obtain s1 s2 where run: "work_fold demo_decoders demo_planned (demo_log ! 9) = Inr s1"
    "work_fold demo_decoders s1 (demo_log ! 10) = Inr s2"
    "work_fold demo_decoders s2 (demo_log ! 11) = Inr demo_retaken"
    using demo_retaken unfolding log by (auto simp: rbind_Inr_iff)
  have decoded: "lease_from_event demo_builtins (demo_log ! 9) = Inr (demo_lease ''b'' ''a1'' 1 10)"
    "lease_from_event demo_builtins (demo_log ! 11) = Inr (demo_lease ''b'' ''a2'' 2 130)"
    by code_simp+
  have fresh: "map_of (ws_events demo_planned) (ev_id (demo_log ! 9)) = None"
    by code_simp+
  have inv: "work_inv demo_planned" by (rule rebuilt_inv [OF demo_rebuilt(1)])
  have inv1: "work_inv s1" by (rule work_inv_fold [OF inv run(1)])
  have "dom (map_of (ws_events demo_planned)) = ev_id ` set (take 9 demo_log)"
    by (simp add: demo_planned_def keyed_def dom_map_of_conv_image_fst image_image)
  then have "dom (map_of (ws_events s2)) = ev_id ` set (take 9 demo_log @ [demo_log ! 9, demo_log ! 10])"
    using work_fold_recorded [OF inv run(1)] work_fold_recorded [OF inv1 run(2)] by auto
  moreover have "ev_id (demo_log ! 11) \<notin> ev_id ` set (take 9 demo_log @ [demo_log ! 9, demo_log ! 10])"
    by code_simp
  ultimately have fresh2: "map_of (ws_events s2) (ev_id (demo_log ! 11)) = None" by blast
  have keys: "(''work-graph:pl'', ''b'') = (wl_graph_id (demo_lease ''b'' a t n), wl_node_id (demo_lease ''b'' a t n))"
    "t = wl_fencing_token (demo_lease ''b'' a t n)" for a t n
    by (simp_all add: demo_lease_def)
  have b: "dec_builtins demo_decoders = demo_builtins" by (simp add: demo_decoders_def)
  have "lease_granted demo_decoders demo_planned (''work-graph:pl'', ''b'') 1 s1"
    unfolding lease_granted_def b using run(1) decoded(1) fresh keys by blast
  moreover have "lease_granted demo_decoders s2 (''work-graph:pl'', ''b'') 2 demo_retaken"
    unfolding lease_granted_def b using run(3) decoded(2) fresh2 keys by blast
  moreover have "(work_step demo_decoders)\<^sup>*\<^sup>* s1 s2"
    using run(2) by (intro r_into_rtranclp) (auto simp: work_step_def)
  ultimately show ?thesis by blast
qed

theorem superseded_lease_cannot_finish_witness:
  "\<not> work_finished demo_decoders demo_retaken (''work-graph:pl'', ''b'') 1 demo_verified"
proof -
  obtain s1 s2 where "lease_granted demo_decoders demo_planned (''work-graph:pl'', ''b'') 1 s1"
    "(work_step demo_decoders)\<^sup>*\<^sup>* s1 s2"
    "lease_granted demo_decoders s2 (''work-graph:pl'', ''b'') 2 demo_retaken"
    using demo_grants by blast
  from superseded_lease_cannot_finish [OF demo_rebuilt(1) this] show ?thesis by blast
qed

text \<open>
  A graph that was invalidated or superseded by a newer version of the plan stays so: whatever events
  follow, it is never active again, no further node of it is completed and no further lease granted on it.
\<close>

theorem closed_graph_stays_closed:
  assumes "work_rebuild dec es None = Inr s" "map_of (ws_graphs s) i \<noteq> None" "\<not> graph_is_active s i"
    and "work_rebuild dec (es @ fs) None = Inr s'"
  shows "\<not> graph_is_active s' i \<and>
    map_of (ws_completions s') (i, n) = map_of (ws_completions s) (i, n) \<and>
    highest_token s' (i, n) = highest_token s (i, n)"
proof -
  have "foldM (work_fold dec) s fs = Inr s'"
    using assms(1,4) work.rebuild_append [of dec es s fs] by (simp add: work_rebuild_all)
  then show ?thesis
    using closed_forever [OF rebuilt_inv [OF assms(1)] _ , of i dec fs s'] assms(2,3)
    by (simp add: graph_closed_def same_work_def)
qed

theorem closed_graph_stays_closed_witness:
  "\<not> graph_is_active demo_closed ''work-graph:pl'' \<and> highest_token demo_closed (''work-graph:pl'', ''b'') = 2"
proof -
  have all: "work_rebuild demo_decoders demo_log None = Inr demo_closed"
    using foldM_append [of "work_fold demo_decoders" empty_work "take 15 demo_log" "drop 15 demo_log"]
      demo_rebuilt(3) demo_closed by (simp add: work_rebuild_all)
  have "map_of (ws_graphs demo_closed) ''work-graph:pl'' \<noteq> None" "\<not> graph_is_active demo_closed ''work-graph:pl''"
    by (simp_all add: demo_closed_def demo_verified_def demo_retaken_def demo_planned_def demo_graph_def
        graph_is_active_def)
  from closed_graph_stays_closed [OF all this, of "[]" demo_closed "''b''"] all show ?thesis
    by (simp add: highest_token_def demo_closed_def demo_verified_def demo_graph_def)
qed

end
