(* ===== verification/JsonFields.thy ===== *)
theory JsonFields
  imports Codec
begin

section \<open>More fields of JSON payloads\<close>

text \<open>
  What the contracts of the cognitive packages (\<open>memory\<close>, \<open>intent\<close>, \<open>information\<close>, \<open>endogenous\<close>,
  \<open>reconsideration\<close>, \<open>deliberative_attention\<close>, \<open>autonomic\<close>) read and write beyond the fields of \<open>Codec\<close>:
  required lists, nested objects, optional fields with a conversion, and fields with a default.
\<close>

subsection \<open>Text\<close>

fun starts_with :: "string \<Rightarrow> string \<Rightarrow> bool" where
  "starts_with [] s = True"
| "starts_with (c # p) [] = False"
| "starts_with (c # p) (d # s) = (c = d \<and> starts_with p s)"

lemma starts_with_append [simp]: "starts_with p (p @ s)"
  by (induction p) auto

text \<open>\<open>tuple(sorted(set(values)))\<close>\<close>

definition ordered :: "string list \<Rightarrow> string list" where
  "ordered xs = sort (remdups xs)"

lemma ordered_ordered [simp]: "ordered (ordered xs) = ordered xs"
  by (simp add: ordered_def sorted_sort_id)

lemma ordered_facts [simp]: "distinct (ordered xs)" "set (ordered xs) = set xs" "sorted (ordered xs)"
  by (simp_all add: ordered_def)

subsection \<open>Reading\<close>

definition j_obj :: "jobject \<Rightarrow> string \<Rightarrow> jobject result" where
  "j_obj d k = rbind (jitem d k) as_obj"

definition j_bool :: "jobject \<Rightarrow> string \<Rightarrow> bool result" where
  "j_bool d k = rbind (jitem d k) (\<lambda>v. Inr (\<not> falsy v))"

definition j_items :: "builtins \<Rightarrow> (json \<Rightarrow> 'a result) \<Rightarrow> jobject \<Rightarrow> string \<Rightarrow> 'a list result" where
  "j_items b f d k = rbind (rbind (jitem d k) (py_iter b)) (mapM f)"

definition j_strs_req :: "builtins \<Rightarrow> jobject \<Rightarrow> string \<Rightarrow> string list result" where
  "j_strs_req b d k = rbind (rbind (jitem d k) (py_iter b)) (\<lambda>vs. Inr (map (py_str b) vs))"

text \<open>\<open>f(data[k]) if data.get(k) is not None else None\<close>, and the same with \<open>if data.get(k)\<close>\<close>

definition j_opt :: "(json \<Rightarrow> 'a result) \<Rightarrow> jobject \<Rightarrow> string \<Rightarrow> 'a option result" where
  "j_opt f d k = (if jget d k = JNull then Inr None else rbind (f (jget d k)) (\<lambda>v. Inr (Some v)))"

definition j_opt_truthy :: "(json \<Rightarrow> 'a result) \<Rightarrow> jobject \<Rightarrow> string \<Rightarrow> 'a option result" where
  "j_opt_truthy f d k = (if falsy (jget d k) then Inr None else rbind (f (jget d k)) (\<lambda>v. Inr (Some v)))"

text \<open>\<open>str(data[k]) if data.get(k) else None\<close>: a falsy value reads as absent.\<close>

definition opt_str_truthy :: "builtins \<Rightarrow> jobject \<Rightarrow> string \<Rightarrow> string option" where
  "opt_str_truthy b d k = (if falsy (jget d k) then None else Some (py_str b (jget d k)))"

text \<open>\<open>_optional_text\<close>: an absent value and one whose text is empty read as absent.\<close>

definition opt_text :: "builtins \<Rightarrow> jobject \<Rightarrow> string \<Rightarrow> string option" where
  "opt_text b d k = (if jget d k = JNull \<or> py_str b (jget d k) = [] then None else Some (py_str b (jget d k)))"

text \<open>A mapping of names to numbers.\<close>

definition JFloats :: "(string \<times> pyfloat) list \<Rightarrow> json" where
  "JFloats d = JObj (map (\<lambda>(k, x). (k, JFloat x)) d)"

definition j_floats :: "builtins \<Rightarrow> jobject \<Rightarrow> string \<Rightarrow> (string \<times> pyfloat) list result" where
  "j_floats b d k = rbind (j_obj d k) (mapM (\<lambda>(n, v). rbind (py_float b v) (\<lambda>x. Inr (n, x))))"

subsection \<open>Reading what was written\<close>

lemma j_fields_skip [codec]:
  "k' \<noteq> k \<Longrightarrow> j_obj ((k', v) # d) k = j_obj d k"
  "k' \<noteq> k \<Longrightarrow> j_bool ((k', v) # d) k = j_bool d k"
  "k' \<noteq> k \<Longrightarrow> j_items b f ((k', v) # d) k = j_items b f d k"
  "k' \<noteq> k \<Longrightarrow> j_strs_req b ((k', v) # d) k = j_strs_req b d k"
  "k' \<noteq> k \<Longrightarrow> j_opt g ((k', v) # d) k = j_opt g d k"
  "k' \<noteq> k \<Longrightarrow> j_opt_truthy g ((k', v) # d) k = j_opt_truthy g d k"
  "k' \<noteq> k \<Longrightarrow> opt_str_truthy b ((k', v) # d) k = opt_str_truthy b d k"
  "k' \<noteq> k \<Longrightarrow> opt_text b ((k', v) # d) k = opt_text b d k"
  "k' \<noteq> k \<Longrightarrow> j_floats b ((k', v) # d) k = j_floats b d k"
  "k' \<noteq> k \<Longrightarrow> jget_or ((k', v) # d) k dflt = jget_or d k dflt"
  by (simp_all add: j_obj_def j_bool_def j_items_def j_strs_req_def j_opt_def j_opt_truthy_def opt_str_truthy_def
      opt_text_def j_floats_def jitem_def jget_def jget_or_def)

lemma j_fields_hit [codec]:
  "j_obj ((k, JObj v) # d) k = Inr v"
  "j_bool ((k, JBool x) # d) k = Inr x"
  "j_items b f ((k, JList vs) # d) k = mapM f vs"
  "j_strs_req b ((k, JStrs xs) # d) k = Inr xs"
  "jget_or ((k, w) # d) k dflt = w"
  by (simp_all add: j_obj_def j_bool_def j_items_def j_strs_req_def falsy_def jitem_def jget_or_def py_iter_def py_str_def
      JStrs_def comp_def codec)

lemma opt_str_hit [codec]:
  assumes "os \<noteq> Some []"
  shows "opt_str_truthy b ((k, json_opt JStr os) # d) k = os" "opt_text b ((k, json_opt JStr os) # d) k = os"
  using assms by (cases os; simp add: opt_str_truthy_def opt_text_def falsy_def jget_def py_str_def)+

lemma j_opt_hit [codec]:
  assumes "\<And>x. v = Some x \<Longrightarrow> f (g x) = Inr x \<and> g x \<noteq> JNull"
  shows "j_opt f ((k, json_opt g v) # d) k = Inr v"
  using assms by (cases v) (simp_all add: j_opt_def jget_def)

lemma j_opt_truthy_hit [codec]:
  assumes "\<And>x. v = Some x \<Longrightarrow> f (g x) = Inr x \<and> \<not> falsy (g x)"
  shows "j_opt_truthy f ((k, json_opt g v) # d) k = Inr v"
  using assms by (cases v) (simp_all add: j_opt_truthy_def jget_def falsy_def)

lemma j_floats_hit [codec]: "j_floats b ((k, JFloats xs) # d) k = Inr xs"
proof -
  have "mapM (\<lambda>(n, v). rbind (py_float b v) (\<lambda>x. Inr (n, x))) (map (\<lambda>(k, x). (k, JFloat x)) xs) = Inr xs"
    by (rule mapM_read_written) (auto simp: py_float_def)
  then show ?thesis by (simp add: j_floats_def JFloats_def j_obj_def codec)
qed

lemma py_read [codec]: "py_str b (JStr s) = s" "py_int b (JInt n) = Inr n" "py_float b (JFloat x) = Inr x"
  by (simp_all add: py_str_def py_int_def py_float_def)

subsection \<open>Checks and events\<close>

definition non_negative :: "pyfloat \<Rightarrow> string \<Rightarrow> (bool \<times> py_error) list" where
  "non_negative value name = [(\<not> fin value \<or> value < 0, ValueError (name @ '' must be finite and non-negative''))]"

lemma no_errors_more [simp]:
  "no_errors (non_negative x n) \<longleftrightarrow> fin x \<and> \<not> x < 0"
  "no_errors (require_opaque v n) \<longleftrightarrow> opaque_id v"
  "no_errors (concat css) \<longleftrightarrow> list_all no_errors css"
  by (auto simp: no_errors_def non_negative_def require_opaque_def list_all_iff)

text \<open>\<open>_canonical_id\<close> of the information package separates with an underscore.\<close>

definition governance_id :: "builtins \<Rightarrow> string \<Rightarrow> jobject \<Rightarrow> string result" where
  "governance_id b prefix payload =
     (if json_finite (JObj payload) then Inr (prefix @ ''_'' @ take 32 (bi_sha b (dump_obj payload)))
      else Inl (ValueError ''Out of range float values are not JSON compliant''))"

text \<open>The envelope that an event of a contract must have.\<close>

definition expect_envelope :: "'p event \<Rightarrow> string \<Rightarrow> string \<Rightarrow> datetime \<Rightarrow> unit result" where
  "expect_envelope e i subject timestamp =
     (if ev_id e \<noteq> i \<or> ev_subject e \<noteq> Some subject \<or> ev_timestamp e \<noteq> timestamp
      then Inl (ValueError ''event envelope is inconsistent'') else Inr ())"

end
