(* ===== verification/Continuity.thy ===== *)
theory Continuity
  imports WorkModels JsonFields
begin

section \<open>The contracts of continuity\<close>

text \<open>
  Models \<^verbatim>\<open>src/noema/continuity/models.py\<close>: wake epochs, the states of observed sources, the demand for
  awareness and its coverage, refresh requests, decisions and orientation reports, each with the checks of
  its constructor, its content-derived identifier and its conversion to and from JSON.
\<close>

definition AWAKE_EPOCH_STARTED_EVENT :: string where
  "AWAKE_EPOCH_STARTED_EVENT = ''continuity.awake_epoch_started''"
definition AWAKE_EPOCH_COMPLETED_EVENT :: string where
  "AWAKE_EPOCH_COMPLETED_EVENT = ''continuity.awake_epoch_completed''"
definition SOURCE_STATE_RECORDED_EVENT :: string where
  "SOURCE_STATE_RECORDED_EVENT = ''continuity.source_state_recorded''"
definition REFRESH_REQUESTED_EVENT :: string where
  "REFRESH_REQUESTED_EVENT = ''continuity.refresh_requested''"
definition ORIENTATION_COMPLETED_EVENT :: string where
  "ORIENTATION_COMPLETED_EVENT = ''continuity.orientation_completed''"

lemmas continuity_event_types = AWAKE_EPOCH_STARTED_EVENT_def AWAKE_EPOCH_COMPLETED_EVENT_def
  SOURCE_STATE_RECORDED_EVENT_def REFRESH_REQUESTED_EVENT_def ORIENTATION_COMPLETED_EVENT_def

datatype orientation_status = ORIENTING | ORIENTED | INCOMPLETE

primrec orientation_value :: "orientation_status \<Rightarrow> string" where
  "orientation_value ORIENTING = ''orienting''"
| "orientation_value ORIENTED = ''oriented''"
| "orientation_value INCOMPLETE = ''incomplete''"

definition orientation_status_of :: "string \<Rightarrow> orientation_status result" where
  "orientation_status_of s =
     (if s = ''orienting'' then Inr ORIENTING else if s = ''oriented'' then Inr ORIENTED
      else if s = ''incomplete'' then Inr INCOMPLETE
      else Inl (ValueError ''not a valid OrientationStatus''))"

lemma orientation_status_of_value [simp]: "orientation_status_of (orientation_value s) = Inr s"
  by (cases s) (simp_all add: orientation_status_of_def)

datatype disposition = REFRESH | ACCEPT_EXISTING | MARK_UNCERTAIN | DEFER

primrec disposition_value :: "disposition \<Rightarrow> string" where
  "disposition_value REFRESH = ''refresh''"
| "disposition_value ACCEPT_EXISTING = ''accept_existing''"
| "disposition_value MARK_UNCERTAIN = ''mark_uncertain''"
| "disposition_value DEFER = ''defer''"

definition disposition_of :: "string \<Rightarrow> disposition result" where
  "disposition_of s =
     (if s = ''refresh'' then Inr REFRESH else if s = ''accept_existing'' then Inr ACCEPT_EXISTING
      else if s = ''mark_uncertain'' then Inr MARK_UNCERTAIN else if s = ''defer'' then Inr DEFER
      else Inl (ValueError ''not a valid ReconciliationDisposition''))"

lemma disposition_of_value [simp]: "disposition_of (disposition_value s) = Inr s"
  by (cases s) (simp_all add: disposition_of_def)

text \<open>\<open>not math.isfinite(v) or v < 0.0\<close>\<close>

definition negative :: "pyfloat \<Rightarrow> string \<Rightarrow> (bool \<times> py_error) list" where
  "negative value name = [(\<not> fin value \<or> value < 0, ValueError (name @ '' cannot be negative''))]"

lemma no_errors_negative [simp]: "no_errors (negative x n) \<longleftrightarrow> fin x \<and> \<not> x < 0"
  by (auto simp: negative_def)

subsection \<open>Durations\<close>

text \<open>
  A \<open>timedelta\<close> is a number of microseconds. \<open>total_seconds\<close> prints it as a float of seconds and
  \<open>timedelta(seconds=x)\<close> rounds to the nearest microsecond, ties to even.
\<close>

definition dt_minus :: "datetime \<Rightarrow> datetime \<Rightarrow> int result" where
  "dt_minus a b = (if is_aware a \<noteq> is_aware b
     then Inl (TypeError ''can't subtract offset-naive and offset-aware datetimes'')
     else Inr (instant a - instant b))"

definition total_seconds :: "int \<Rightarrow> pyfloat" where
  "total_seconds d = Fin (of_int d / 1000000)"

definition timedelta_of :: "pyfloat \<Rightarrow> int result" where
  "timedelta_of x = (case x of
     Fin a \<Rightarrow> Inr (round_half_even (a * 1000000))
   | NaN \<Rightarrow> Inl (ValueError ''cannot convert float NaN to integer'')
   | _ \<Rightarrow> Inl (OverflowError ''cannot convert float infinity to integer''))"

lemma timedelta_total_seconds [simp]: "timedelta_of (total_seconds d) = Inr d"
  by (simp add: timedelta_of_def total_seconds_def round_half_even_def)

subsection \<open>Awake epochs\<close>

record awake_epoch =
  ae_id :: string
  ae_woke_at :: datetime
  ae_previous_active_at :: datetime
  ae_elapsed :: int
  ae_cursor_before :: int
  ae_cursor_after :: int
  ae_evaluation_epoch_id :: "string option"
  ae_status :: orientation_status
  ae_oriented_at :: "datetime option"

definition check_epoch :: "awake_epoch \<Rightarrow> unit result" where
  "check_epoch a = raise_first
     (require_text (ae_id a) ''awake epoch id'' @
      require_aware (ae_woke_at a) ''woke_at'' @
      require_aware (ae_previous_active_at a) ''previous_active_at'' @
      [(dt_before (ae_woke_at a) (ae_previous_active_at a),
        ValueError ''awake epoch cannot precede previous activity''),
       (ae_elapsed a \<noteq> instant (ae_woke_at a) - instant (ae_previous_active_at a),
        ValueError ''awake epoch elapsed wall time is inconsistent''),
       (ae_cursor_before a < 0, ValueError ''awake epoch cursor cannot be negative''),
       (ae_cursor_after a < ae_cursor_before a, ValueError ''awake epoch cursor cannot regress''),
       (ae_evaluation_epoch_id a = Some [], ValueError ''active evaluation epoch id must be non-empty''),
       (ae_status a = ORIENTING \<and> ae_oriented_at a \<noteq> None,
        ValueError ''an orienting epoch cannot have oriented_at''),
       (ae_status a \<noteq> ORIENTING \<and> ae_oriented_at a = None,
        ValueError ''a completed awake epoch requires oriented_at'')] @
      (case ae_oriented_at a of None \<Rightarrow> []
       | Some t \<Rightarrow> require_aware t ''oriented_at'' @
           [(dt_before t (ae_woke_at a), ValueError ''orientation cannot complete before wake'')]))"

definition start_epoch ::
  "builtins \<Rightarrow> datetime \<Rightarrow> datetime \<Rightarrow> int \<Rightarrow> int \<Rightarrow> string option \<Rightarrow> awake_epoch result" where
  "start_epoch b woke previous before after evaluation =
     rbind (canonical_id b ''awake-epoch''
       [(''woke_at'', JTime woke), (''previous_active_at'', JTime previous),
        (''event_log_cursor_before'', JInt before), (''event_log_cursor_after'', JInt after),
        (''active_evaluation_epoch_id'', json_opt JStr evaluation)]) (\<lambda>i.
     rbind (dt_minus woke previous) (\<lambda>elapsed.
     let a = \<lparr>ae_id = i, ae_woke_at = woke, ae_previous_active_at = previous, ae_elapsed = elapsed,
              ae_cursor_before = before, ae_cursor_after = after, ae_evaluation_epoch_id = evaluation,
              ae_status = ORIENTING, ae_oriented_at = None\<rparr>
     in rbind (check_epoch a) (\<lambda>_. Inr a)))"

definition complete_epoch :: "awake_epoch \<Rightarrow> orientation_status \<Rightarrow> datetime \<Rightarrow> int \<Rightarrow> awake_epoch result" where
  "complete_epoch a status oriented_at after =
     (if status = ORIENTING
      then Inl (ValueError ''completed awake epoch requires a terminal orientation status'')
      else let a' = a\<lparr>ae_status := status, ae_oriented_at := Some oriented_at, ae_cursor_after := after\<rparr>
           in rbind (check_epoch a') (\<lambda>_. Inr a'))"

definition epoch_to_dict :: "awake_epoch \<Rightarrow> jobject" where
  "epoch_to_dict a =
     [(''epoch_id'', JStr (ae_id a)),
      (''woke_at'', JTime (ae_woke_at a)),
      (''previous_active_at'', JTime (ae_previous_active_at a)),
      (''elapsed_wall_seconds'', JFloat (total_seconds (ae_elapsed a))),
      (''event_log_cursor_before'', JInt (ae_cursor_before a)),
      (''event_log_cursor_after'', JInt (ae_cursor_after a)),
      (''active_evaluation_epoch_id'', json_opt JStr (ae_evaluation_epoch_id a)),
      (''orientation_status'', JStr (orientation_value (ae_status a))),
      (''oriented_at'', json_opt JTime (ae_oriented_at a))]"

text \<open>\<open>self.oriented_at or self.woke_at\<close>\<close>

definition epoch_time :: "awake_epoch \<Rightarrow> datetime" where
  "epoch_time a = (case ae_oriented_at a of None \<Rightarrow> ae_woke_at a | Some t \<Rightarrow> t)"

definition epoch_to_event :: "builtins \<Rightarrow> awake_epoch \<Rightarrow> string \<Rightarrow> jobject event result" where
  "epoch_to_event b a source =
     (let ty = (if ae_status a = ORIENTING then AWAKE_EPOCH_STARTED_EVENT else AWAKE_EPOCH_COMPLETED_EVENT)
      in rbind (canonical_id b (''event:'' @ ty) (epoch_to_dict a)) (\<lambda>i.
         make_event i ty source (ae_id a) (epoch_time a) (epoch_to_dict a) None))"

definition epoch_from_dict :: "builtins \<Rightarrow> jobject \<Rightarrow> awake_epoch result" where
  "epoch_from_dict b d =
     rbind (j_str b d ''epoch_id'') (\<lambda>i.
     rbind (j_time b d ''woke_at'') (\<lambda>woke.
     rbind (j_time b d ''previous_active_at'') (\<lambda>previous.
     rbind (rbind (j_float b d ''elapsed_wall_seconds'') timedelta_of) (\<lambda>elapsed.
     rbind (j_int b d ''event_log_cursor_before'') (\<lambda>before.
     rbind (j_int b d ''event_log_cursor_after'') (\<lambda>after.
     rbind (rbind (j_str b d ''orientation_status'') orientation_status_of) (\<lambda>status.
     rbind (j_time_opt b d ''oriented_at'') (\<lambda>oriented.
     let a = \<lparr>ae_id = i, ae_woke_at = woke, ae_previous_active_at = previous, ae_elapsed = elapsed,
              ae_cursor_before = before, ae_cursor_after = after,
              ae_evaluation_epoch_id = opt_str b d ''active_evaluation_epoch_id'',
              ae_status = status, ae_oriented_at = oriented\<rparr>
     in rbind (check_epoch a) (\<lambda>_. Inr a)))))))))"

definition epoch_from_event :: "builtins \<Rightarrow> jobject event \<Rightarrow> awake_epoch result" where
  "epoch_from_event b e =
     (if ev_type e \<notin> {AWAKE_EPOCH_STARTED_EVENT, AWAKE_EPOCH_COMPLETED_EVENT}
      then Inl (ValueError ''not an awake epoch event'')
      else rbind (epoch_from_dict b (ev_payload e)) (\<lambda>a.
        if ev_subject e \<noteq> Some (ae_id a) then Inl (ValueError ''awake epoch event subject is inconsistent'')
        else if ev_timestamp e \<noteq> epoch_time a
        then Inl (ValueError ''awake epoch event timestamp is inconsistent'')
        else Inr a))"

lemma check_epoch_aware:
  "check_epoch a = Inr () \<Longrightarrow> is_aware (ae_woke_at a) \<and> is_aware (ae_previous_active_at a) \<and>
    (\<forall>t. ae_oriented_at a = Some t \<longrightarrow> is_aware t)"
  by (auto simp: check_epoch_def raise_first_no_errors simp del: raise_first_ok)

lemma epoch_round_trip:
  assumes "check_epoch a = Inr ()"
  shows "epoch_from_dict b (epoch_to_dict a) = Inr a"
  using assms check_epoch_aware [OF assms]
  by (cases a) (simp add: epoch_from_dict_def epoch_to_dict_def codec Let_def)

lemma epoch_event_round_trip:
  assumes "check_epoch a = Inr ()" "epoch_to_event b a source = Inr e"
  shows "epoch_from_event b (with_sequence e n) = Inr a"
proof -
  let ?ty = "if ae_status a = ORIENTING then AWAKE_EPOCH_STARTED_EVENT else AWAKE_EPOCH_COMPLETED_EVENT"
  obtain i where "make_event i ?ty source (ae_id a) (epoch_time a) (epoch_to_dict a) None = Inr e"
    using assms(2) by (auto simp: epoch_to_event_def Let_def rbind_Inr_iff)
  from make_event_fields [OF this] show ?thesis
    using epoch_round_trip [OF assms(1)] by (simp add: epoch_from_event_def)
qed

subsection \<open>The states of sources\<close>

record source_state =
  so_source_id :: string
  so_domain :: string
  so_last_observed_at :: datetime
  so_last_cursor :: "string option"
  so_change_hazard :: pyfloat
  so_confidence :: pyfloat
  so_refresh_cost :: pyfloat
  so_captured_at :: datetime

definition check_source :: "source_state \<Rightarrow> unit result" where
  "check_source s = raise_first
     ([(blank (so_source_id s) \<or> blank (so_domain s), ValueError ''source id and domain must be non-empty'')] @
      require_aware (so_last_observed_at s) ''last_observed_at'' @
      require_aware (so_captured_at s) ''captured_at'' @
      [(dt_before (so_captured_at s) (so_last_observed_at s),
        ValueError ''source state cannot be captured before observation''),
       (case so_last_cursor s of None \<Rightarrow> False | Some c \<Rightarrow> blank c,
        ValueError ''source cursor must be non-empty when supplied'')] @
      negative (so_change_hazard s) ''source change hazard'' @
      bounded (so_confidence s) ''confidence'' @
      negative (so_refresh_cost s) ''source refresh cost'')"

definition refreshed :: "source_state \<Rightarrow> datetime \<Rightarrow> string option \<Rightarrow> pyfloat \<Rightarrow> source_state result" where
  "refreshed s observed_at cursor confidence =
     (let s' = s\<lparr>so_last_observed_at := observed_at, so_last_cursor := cursor,
                 so_confidence := confidence, so_captured_at := observed_at\<rparr>
      in rbind (check_source s') (\<lambda>_. Inr s'))"

definition source_to_dict :: "source_state \<Rightarrow> jobject" where
  "source_to_dict s =
     [(''source_id'', JStr (so_source_id s)),
      (''domain'', JStr (so_domain s)),
      (''last_observed_at'', JTime (so_last_observed_at s)),
      (''last_cursor'', json_opt JStr (so_last_cursor s)),
      (''change_hazard'', JFloat (so_change_hazard s)),
      (''confidence'', JFloat (so_confidence s)),
      (''refresh_cost'', JFloat (so_refresh_cost s)),
      (''captured_at'', JTime (so_captured_at s))]"

definition source_to_event ::
  "builtins \<Rightarrow> source_state \<Rightarrow> string \<Rightarrow> string option \<Rightarrow> jobject event result" where
  "source_to_event b s source causation_id =
     rbind (canonical_id b ''event:continuity.source-state'' (source_to_dict s)) (\<lambda>i.
     make_event i SOURCE_STATE_RECORDED_EVENT source (so_source_id s) (so_captured_at s)
       (source_to_dict s) causation_id)"

definition source_from_event :: "builtins \<Rightarrow> jobject event \<Rightarrow> source_state result" where
  "source_from_event b e =
     (let d = ev_payload e in
      if ev_type e \<noteq> SOURCE_STATE_RECORDED_EVENT then Inl (ValueError ''not a source-state event'') else
      rbind (j_str b d ''source_id'') (\<lambda>i.
      rbind (j_str b d ''domain'') (\<lambda>domain.
      rbind (j_time b d ''last_observed_at'') (\<lambda>observed.
      rbind (j_float b d ''change_hazard'') (\<lambda>hazard.
      rbind (j_float b d ''confidence'') (\<lambda>confidence.
      rbind (j_float b d ''refresh_cost'') (\<lambda>cost.
      rbind (j_time b d ''captured_at'') (\<lambda>captured.
      let s = \<lparr>so_source_id = i, so_domain = domain, so_last_observed_at = observed,
               so_last_cursor = opt_str_truthy b d ''last_cursor'', so_change_hazard = hazard,
               so_confidence = confidence, so_refresh_cost = cost, so_captured_at = captured\<rparr>
      in rbind (check_source s) (\<lambda>_.
         if ev_subject e \<noteq> Some (so_source_id s) \<or> ev_timestamp e \<noteq> so_captured_at s
         then Inl (ValueError ''source-state event envelope is inconsistent'')
         else Inr s)))))))))"

lemma check_source_facts:
  assumes "check_source s = Inr ()"
  shows "is_aware (so_last_observed_at s)" "is_aware (so_captured_at s)" "so_last_cursor s \<noteq> Some []"
    "unit_interval (so_confidence s)" "fin (so_refresh_cost s)" "\<not> so_refresh_cost s < 0"
    "\<not> blank (so_source_id s)" "fin (so_change_hazard s)" "\<not> so_change_hazard s < 0"
  using assms by (auto simp: check_source_def raise_first_no_errors simp del: raise_first_ok)

lemma source_event_round_trip:
  assumes "check_source s = Inr ()" "source_to_event b s source c = Inr e"
  shows "source_from_event b (with_sequence e n) = Inr s"
proof -
  obtain i where "make_event i SOURCE_STATE_RECORDED_EVENT source (so_source_id s) (so_captured_at s)
      (source_to_dict s) c = Inr e"
    using assms(2) by (auto simp: source_to_event_def rbind_Inr_iff)
  from make_event_fields [OF this] show ?thesis
    using check_source_facts [OF assms(1)] assms(1)
    by (cases s) (simp add: source_from_event_def source_to_dict_def codec Let_def)
qed

subsection \<open>The demand for awareness\<close>

record awareness_demand =
  dm_source_id :: string
  dm_goal_refs :: "string list"
  dm_relevance :: pyfloat
  dm_sensitivity :: pyfloat
  dm_required_freshness :: pyfloat
  dm_required_confidence :: pyfloat

definition check_demand :: "awareness_demand \<Rightarrow> unit result" where
  "check_demand d = raise_first
     (require_text (dm_source_id d) ''awareness demand source id'' @
      unique_text (dm_goal_refs d) ''awareness demand goal refs'' False @
      bounded (dm_relevance d) ''relevance'' @
      bounded (dm_sensitivity d) ''decision_sensitivity'' @
      bounded (dm_required_freshness d) ''required_freshness'' @
      bounded (dm_required_confidence d) ''required_confidence'' @
      [(dm_required_freshness d = 0 \<or> dm_required_confidence d = 0,
        ValueError ''awareness demand requirements must be greater than zero'')])"

definition demand_importance :: "awareness_demand \<Rightarrow> pyfloat" where
  "demand_importance d = dm_relevance d * dm_sensitivity d"

definition demand_to_dict :: "awareness_demand \<Rightarrow> jobject" where
  "demand_to_dict d =
     [(''source_id'', JStr (dm_source_id d)),
      (''governing_goal_refs'', JStrs (dm_goal_refs d)),
      (''relevance'', JFloat (dm_relevance d)),
      (''decision_sensitivity'', JFloat (dm_sensitivity d)),
      (''required_freshness'', JFloat (dm_required_freshness d)),
      (''required_confidence'', JFloat (dm_required_confidence d))]"

definition demand_from_dict :: "builtins \<Rightarrow> jobject \<Rightarrow> awareness_demand result" where
  "demand_from_dict b d =
     rbind (j_str b d ''source_id'') (\<lambda>i.
     rbind (j_strs b d ''governing_goal_refs'') (\<lambda>goals.
     rbind (j_float b d ''relevance'') (\<lambda>relevance.
     rbind (j_float b d ''decision_sensitivity'') (\<lambda>sensitivity.
     rbind (j_float b d ''required_freshness'') (\<lambda>fresh.
     rbind (j_float b d ''required_confidence'') (\<lambda>confidence.
     let m = \<lparr>dm_source_id = i, dm_goal_refs = goals, dm_relevance = relevance,
              dm_sensitivity = sensitivity, dm_required_freshness = fresh,
              dm_required_confidence = confidence\<rparr>
     in rbind (check_demand m) (\<lambda>_. Inr m)))))))"

lemma demand_round_trip:
  "check_demand d = Inr () \<Longrightarrow> demand_from_dict b (demand_to_dict d) = Inr d"
  by (cases d) (simp add: demand_from_dict_def demand_to_dict_def codec Let_def)

lemma check_demand_facts:
  assumes "check_demand d = Inr ()"
  shows "unit_interval (dm_relevance d)" "unit_interval (dm_sensitivity d)"
    "unit_interval (dm_required_freshness d)" "unit_interval (dm_required_confidence d)"
    "dm_required_freshness d \<noteq> 0" "dm_required_confidence d \<noteq> 0"
  using assms by (auto simp: check_demand_def raise_first_no_errors simp del: raise_first_ok)

subsection \<open>Coverage\<close>

record coverage_entry =
  cv_source_id :: string
  cv_domain :: string
  cv_goal_refs :: "string list"
  cv_confidence :: pyfloat
  cv_freshness :: pyfloat
  cv_relevance :: pyfloat
  cv_sensitivity :: pyfloat
  cv_required_freshness :: pyfloat
  cv_required_confidence :: pyfloat

definition check_coverage_entry :: "coverage_entry \<Rightarrow> unit result" where
  "check_coverage_entry c = raise_first
     ([(blank (cv_source_id c) \<or> blank (cv_domain c), ValueError ''coverage source id and domain must be non-empty'')] @
      unique_text (cv_goal_refs c) ''coverage goal refs'' False @
      bounded (cv_confidence c) ''confidence'' @
      bounded (cv_freshness c) ''freshness'' @
      bounded (cv_relevance c) ''relevance'' @
      bounded (cv_sensitivity c) ''decision_sensitivity'' @
      bounded (cv_required_freshness c) ''required_freshness'' @
      bounded (cv_required_confidence c) ''required_confidence'' @
      [(cv_required_freshness c = 0 \<or> cv_required_confidence c = 0,
        ValueError ''coverage requirements must be greater than zero'')])"

definition entry_importance :: "coverage_entry \<Rightarrow> pyfloat" where
  "entry_importance c = cv_relevance c * cv_sensitivity c"

text \<open>The constructor excludes required values of zero, so that the divisions are defined.\<close>

definition freshness_gap :: "coverage_entry \<Rightarrow> pyfloat" where
  "freshness_gap c = py_max 0 (1 - fdiv (cv_freshness c) (cv_required_freshness c))"

definition confidence_gap :: "coverage_entry \<Rightarrow> pyfloat" where
  "confidence_gap c = py_max 0 (1 - fdiv (cv_confidence c) (cv_required_confidence c))"

definition epistemic_gap :: "coverage_entry \<Rightarrow> pyfloat" where
  "epistemic_gap c = 1 - (1 - freshness_gap c) * (1 - confidence_gap c)"

definition entry_sufficient :: "coverage_entry \<Rightarrow> bool" where
  "entry_sufficient c \<longleftrightarrow> cv_required_freshness c \<le> cv_freshness c \<and> cv_required_confidence c \<le> cv_confidence c"

definition entry_uncertainty :: "coverage_entry \<Rightarrow> pyfloat" where
  "entry_uncertainty c = entry_importance c * epistemic_gap c"

definition entry_to_dict :: "coverage_entry \<Rightarrow> jobject" where
  "entry_to_dict c =
     [(''source_id'', JStr (cv_source_id c)),
      (''domain'', JStr (cv_domain c)),
      (''governing_goal_refs'', JStrs (cv_goal_refs c)),
      (''confidence'', JFloat (cv_confidence c)),
      (''freshness'', JFloat (cv_freshness c)),
      (''relevance'', JFloat (cv_relevance c)),
      (''decision_sensitivity'', JFloat (cv_sensitivity c)),
      (''importance'', JFloat (entry_importance c)),
      (''required_freshness'', JFloat (cv_required_freshness c)),
      (''required_confidence'', JFloat (cv_required_confidence c)),
      (''sufficient'', JBool (entry_sufficient c))]"

definition entry_from_dict :: "builtins \<Rightarrow> jobject \<Rightarrow> coverage_entry result" where
  "entry_from_dict b d =
     rbind (j_str b d ''source_id'') (\<lambda>i.
     rbind (j_str b d ''domain'') (\<lambda>domain.
     rbind (j_strs b d ''governing_goal_refs'') (\<lambda>goals.
     rbind (j_float b d ''confidence'') (\<lambda>confidence.
     rbind (j_float b d ''freshness'') (\<lambda>freshness.
     rbind (j_float b d ''relevance'') (\<lambda>relevance.
     rbind (j_float b d ''decision_sensitivity'') (\<lambda>sensitivity.
     rbind (j_float b d ''required_freshness'') (\<lambda>req_fresh.
     rbind (j_float b d ''required_confidence'') (\<lambda>req_conf.
     let c = \<lparr>cv_source_id = i, cv_domain = domain, cv_goal_refs = goals, cv_confidence = confidence,
              cv_freshness = freshness, cv_relevance = relevance, cv_sensitivity = sensitivity,
              cv_required_freshness = req_fresh, cv_required_confidence = req_conf\<rparr>
     in rbind (check_coverage_entry c) (\<lambda>_.
        rbind (j_float b d ''importance'') (\<lambda>importance.
        if \<not> is_close importance (entry_importance c)
        then Inl (ValueError ''coverage importance is inconsistent'')
        else if j_bool_or d ''sufficient'' (entry_sufficient c) \<noteq> entry_sufficient c
        then Inl (ValueError ''coverage entry sufficiency is inconsistent'')
        else Inr c)))))))))))"

lemma fin_times: "unit_interval x \<Longrightarrow> unit_interval y \<Longrightarrow> unit_interval (x * y)"
  by (auto simp: unit_interval_iff mult_le_one)

lemma unit_interval_fin: "unit_interval x \<Longrightarrow> fin x"
  by (simp add: unit_interval_def)

lemma check_coverage_entry_facts:
  assumes "check_coverage_entry c = Inr ()"
  shows "unit_interval (cv_confidence c)" "unit_interval (cv_freshness c)"
    "unit_interval (cv_relevance c)" "unit_interval (cv_sensitivity c)"
    "unit_interval (cv_required_freshness c)" "unit_interval (cv_required_confidence c)"
    "cv_required_freshness c \<noteq> 0" "cv_required_confidence c \<noteq> 0"
  using assms by (auto simp: check_coverage_entry_def raise_first_no_errors simp del: raise_first_ok)

lemma entry_round_trip:
  assumes "check_coverage_entry c = Inr ()"
  shows "entry_from_dict b (entry_to_dict c) = Inr c"
proof -
  have "is_close (entry_importance c) (entry_importance c)"
    using check_coverage_entry_facts(3,4) [OF assms]
    by (simp add: entry_importance_def is_close_self unit_interval_fin fin_times)
  then show ?thesis
    using assms by (cases c) (simp add: entry_from_dict_def entry_to_dict_def codec Let_def)
qed

record awareness_coverage =
  aw_entries :: "coverage_entry list"
  aw_relevance_floor :: pyfloat

definition check_coverage :: "awareness_coverage \<Rightarrow> unit result" where
  "check_coverage a = raise_first
     (bounded (aw_relevance_floor a) ''relevance_floor'' @
      [(\<not> distinct (map cv_source_id (aw_entries a)),
        ValueError ''awareness coverage source ids must be unique'')])"

text \<open>
  \<open>from_inputs\<close>: the identifiers of states and of demands are checked to be unique before the
  dictionaries over them are read, so that looking one up is \<open>map_of\<close>.
\<close>

definition by_source :: "('a \<Rightarrow> string) \<Rightarrow> 'a list \<Rightarrow> string \<Rightarrow> 'a option" where
  "by_source f xs = map_of (map (\<lambda>x. (f x, x)) xs)"

definition coverage_from_inputs ::
  "source_state list \<Rightarrow> awareness_demand list \<Rightarrow> (string \<times> pyfloat) list \<Rightarrow> pyfloat \<Rightarrow> awareness_coverage result" where
  "coverage_from_inputs states demands freshness relevance_floor =
     rbind (raise_first
       [(\<not> distinct (map so_source_id states), ValueError ''awareness input source ids must be unique''),
        (\<not> distinct (map dm_source_id demands), ValueError ''awareness demand source ids must be unique''),
        (\<not> set (map dm_source_id demands) \<subseteq> set (map so_source_id states),
         ValueError ''awareness demands reference unknown sources''),
        (\<not> set (map dm_source_id demands) \<subseteq> set (map fst freshness),
         ValueError ''awareness demands lack freshness estimates'')]) (\<lambda>_.
     rbind (mapM (\<lambda>d.
         let s = the (by_source so_source_id states (dm_source_id d));
             c = \<lparr>cv_source_id = dm_source_id d, cv_domain = so_domain s, cv_goal_refs = dm_goal_refs d,
                  cv_confidence = so_confidence s,
                  cv_freshness = the (map_of freshness (dm_source_id d)),
                  cv_relevance = dm_relevance d, cv_sensitivity = dm_sensitivity d,
                  cv_required_freshness = dm_required_freshness d,
                  cv_required_confidence = dm_required_confidence d\<rparr>
         in rbind (check_coverage_entry c) (\<lambda>_. Inr c))
       (sort_key dm_source_id demands)) (\<lambda>entries.
     let a = \<lparr>aw_entries = entries, aw_relevance_floor = relevance_floor\<rparr>
     in rbind (check_coverage a) (\<lambda>_. Inr a)))"

definition relevant_entries :: "awareness_coverage \<Rightarrow> coverage_entry list" where
  "relevant_entries a = filter (\<lambda>c. aw_relevance_floor a \<le> entry_importance c) (aw_entries a)"

definition coverage_gaps :: "awareness_coverage \<Rightarrow> coverage_entry list" where
  "coverage_gaps a = filter (\<lambda>c. \<not> entry_sufficient c) (relevant_entries a)"

definition coverage_sufficient :: "awareness_coverage \<Rightarrow> bool" where
  "coverage_sufficient a \<longleftrightarrow> coverage_gaps a = []"

definition coverage_uncertainty :: "awareness_coverage \<Rightarrow> pyfloat" where
  "coverage_uncertainty a = py_sum (map entry_uncertainty (relevant_entries a))"

definition coverage_get :: "awareness_coverage \<Rightarrow> string \<Rightarrow> coverage_entry option" where
  "coverage_get a source = find (\<lambda>c. cv_source_id c = source) (aw_entries a)"

definition coverage_to_dict :: "awareness_coverage \<Rightarrow> jobject" where
  "coverage_to_dict a =
     [(''entries'', JList (map (JObj \<circ> entry_to_dict) (aw_entries a))),
      (''relevance_floor'', JFloat (aw_relevance_floor a)),
      (''sufficient'', JBool (coverage_sufficient a))]"

definition coverage_from_dict :: "builtins \<Rightarrow> jobject \<Rightarrow> awareness_coverage result" where
  "coverage_from_dict b d =
     rbind (j_list b (\<lambda>v. rbind (as_obj v) (entry_from_dict b)) d ''entries'') (\<lambda>entries.
     rbind (j_float b d ''relevance_floor'') (\<lambda>relevance_floor.
     let a = \<lparr>aw_entries = entries, aw_relevance_floor = relevance_floor\<rparr>
     in rbind (check_coverage a) (\<lambda>_.
        if j_bool_or d ''sufficient'' (coverage_sufficient a) \<noteq> coverage_sufficient a
        then Inl (ValueError ''awareness coverage sufficiency is inconsistent'')
        else Inr a)))"

definition coverage_ok :: "awareness_coverage \<Rightarrow> bool" where
  "coverage_ok a \<longleftrightarrow> check_coverage a = Inr () \<and> list_all (\<lambda>c. check_coverage_entry c = Inr ()) (aw_entries a)"

lemma objs_round_trip:
  assumes "list_all ok xs" "\<And>x. ok x \<Longrightarrow> from (to x) = Inr x"
  shows "mapM (\<lambda>v. rbind (as_obj v) from) (map (JObj \<circ> to) xs) = Inr xs"
  by (rule mapM_read_written) (use assms in \<open>auto simp: list_all_iff codec\<close>)

lemma coverage_round_trip:
  assumes "coverage_ok a"
  shows "coverage_from_dict b (coverage_to_dict a) = Inr a"
proof -
  have "mapM (\<lambda>v. rbind (as_obj v) (entry_from_dict b)) (map (JObj \<circ> entry_to_dict) (aw_entries a)) =
      Inr (aw_entries a)"
    by (rule objs_round_trip [of "\<lambda>c. check_coverage_entry c = Inr ()"])
      (use assms in \<open>simp_all add: coverage_ok_def entry_round_trip\<close>)
  then show ?thesis
    using assms by (cases a) (simp add: coverage_from_dict_def coverage_to_dict_def codec Let_def coverage_ok_def)
qed

end
