(* ===== verification/Orientation.thy ===== *)
theory Orientation
  imports Continuity Contracts
begin

section \<open>Refresh requests, reconciliation and orientation reports\<close>

text \<open>
  The second half of \<^verbatim>\<open>src/noema/continuity/models.py\<close>: observation budgets, refresh requests,
  reconciliation decisions and plans, orientation issues, metrics and reports, and the class
  \<open>ContinuityProjection\<close>, which rebuilds source states, epochs and reports from events.
\<close>

record observation_budget =
  ob_max_cost :: pyfloat
  ob_max_sources :: int

definition check_observation_budget :: "observation_budget \<Rightarrow> unit result" where
  "check_observation_budget o1 = raise_first
     (negative (ob_max_cost o1) ''observation budget cost'' @
      [(ob_max_sources o1 < 0, ValueError ''observation budget source count cannot be negative'')])"

subsection \<open>Refresh requests\<close>

record refresh_request =
  rr_id :: string
  rr_source_id :: string
  rr_reason :: string
  rr_desired_freshness :: pyfloat
  rr_desired_confidence :: pyfloat
  rr_priority :: pyfloat
  rr_max_cost :: pyfloat
  rr_created_at :: datetime

definition check_refresh_request :: "refresh_request \<Rightarrow> unit result" where
  "check_refresh_request r = raise_first
     ([(blank (rr_id r) \<or> blank (rr_source_id r) \<or> blank (rr_reason r),
        ValueError ''refresh request identity, source, and reason must be non-empty'')] @
      bounded (rr_desired_freshness r) ''desired_freshness'' @
      bounded (rr_desired_confidence r) ''desired_confidence'' @
      bounded (rr_priority r) ''priority'' @
      negative (rr_max_cost r) ''refresh request max cost'' @
      require_aware (rr_created_at r) ''created_at'')"

definition request_identity :: "refresh_request \<Rightarrow> jobject" where
  "request_identity r =
     [(''source_id'', JStr (rr_source_id r)),
      (''reason'', JStr (rr_reason r)),
      (''desired_freshness'', JFloat (rr_desired_freshness r)),
      (''desired_confidence'', JFloat (rr_desired_confidence r)),
      (''priority'', JFloat (rr_priority r)),
      (''max_cost'', JFloat (rr_max_cost r)),
      (''created_at'', JTime (rr_created_at r))]"

text \<open>\<open>create\<close>: the argument's identifier is ignored and computed from the rest.\<close>

definition create_request :: "builtins \<Rightarrow> refresh_request \<Rightarrow> refresh_request result" where
  "create_request b r =
     rbind (canonical_id b ''refresh-request'' (request_identity r)) (\<lambda>i.
     let r' = r\<lparr>rr_id := i\<rparr> in rbind (check_refresh_request r') (\<lambda>_. Inr r'))"

definition request_to_dict :: "refresh_request \<Rightarrow> jobject" where
  "request_to_dict r = (''request_id'', JStr (rr_id r)) # request_identity r"

definition request_to_event :: "refresh_request \<Rightarrow> string \<Rightarrow> string \<Rightarrow> jobject event result" where
  "request_to_event r source causation_id =
     make_event (''continuity-refresh:'' @ rr_id r) REFRESH_REQUESTED_EVENT source (rr_source_id r)
       (rr_created_at r) (request_to_dict r) (Some causation_id)"

definition request_from_dict :: "builtins \<Rightarrow> jobject \<Rightarrow> refresh_request result" where
  "request_from_dict b d =
     rbind (j_str b d ''request_id'') (\<lambda>i.
     rbind (j_str b d ''source_id'') (\<lambda>source.
     rbind (j_str b d ''reason'') (\<lambda>reason.
     rbind (j_float b d ''desired_freshness'') (\<lambda>fresh.
     rbind (j_float b d ''desired_confidence'') (\<lambda>confidence.
     rbind (j_float b d ''priority'') (\<lambda>priority.
     rbind (j_float b d ''max_cost'') (\<lambda>cost.
     rbind (j_time b d ''created_at'') (\<lambda>created.
     let r = \<lparr>rr_id = i, rr_source_id = source, rr_reason = reason, rr_desired_freshness = fresh,
              rr_desired_confidence = confidence, rr_priority = priority, rr_max_cost = cost,
              rr_created_at = created\<rparr>
     in rbind (check_refresh_request r) (\<lambda>_.
        rbind (create_request b r) (\<lambda>expected.
        if rr_id r \<noteq> rr_id expected
        then Inl (ValueError ''refresh request id does not match its immutable content'')
        else Inr r))))))))))"

text \<open>The requests that \<open>create\<close> returns.\<close>

definition request_ok :: "builtins \<Rightarrow> refresh_request \<Rightarrow> bool" where
  "request_ok b r \<longleftrightarrow> create_request b r = Inr r"

lemma create_request_ok: "create_request b r = Inr r' \<Longrightarrow> request_ok b r'"
  by (auto simp: create_request_def request_ok_def rbind_Inr_iff request_identity_def Let_def)

lemma request_ok_check: "request_ok b r \<Longrightarrow> check_refresh_request r = Inr ()"
  by (auto simp: request_ok_def create_request_def rbind_Inr_iff Let_def)

lemma request_round_trip:
  assumes "request_ok b r"
  shows "request_from_dict b (request_to_dict r) = Inr r"
proof -
  have "is_aware (rr_created_at r)"
    using request_ok_check [OF assms]
    by (auto simp: check_refresh_request_def raise_first_no_errors simp del: raise_first_ok)
  then show ?thesis
    using request_ok_check [OF assms] assms
    by (cases r) (simp add: request_from_dict_def request_to_dict_def request_identity_def codec Let_def
        request_ok_def)
qed

subsection \<open>Decisions and plans\<close>

record reconciliation_decision =
  rd_source_id :: string
  rd_disposition :: disposition
  rd_refresh_need :: pyfloat
  rd_reason :: string
  rd_request :: "refresh_request option"

definition check_decision :: "reconciliation_decision \<Rightarrow> unit result" where
  "check_decision r = raise_first
     ([(blank (rd_source_id r) \<or> blank (rd_reason r),
        ValueError ''reconciliation source and reason must be non-empty'')] @
      bounded (rd_refresh_need r) ''refresh_need'' @
      [((rd_disposition r = REFRESH) \<noteq> (rd_request r \<noteq> None),
        ValueError ''only refresh decisions carry a refresh request''),
       (case rd_request r of None \<Rightarrow> False | Some q \<Rightarrow> rr_source_id q \<noteq> rd_source_id r,
        ValueError ''refresh decision and request source ids must match'')])"

definition decision_to_dict :: "reconciliation_decision \<Rightarrow> jobject" where
  "decision_to_dict r =
     [(''source_id'', JStr (rd_source_id r)),
      (''disposition'', JStr (disposition_value (rd_disposition r))),
      (''refresh_need'', JFloat (rd_refresh_need r)),
      (''reason'', JStr (rd_reason r)),
      (''request'', json_opt (JObj \<circ> request_to_dict) (rd_request r))]"

text \<open>\<open>f(data[key]) if data.get(key) is not None else None\<close> for a nested object.\<close>

definition j_obj_opt :: "(jobject \<Rightarrow> 'a result) \<Rightarrow> jobject \<Rightarrow> string \<Rightarrow> 'a option result" where
  "j_obj_opt from d k = (case jget d k of JNull \<Rightarrow> Inr None
     | v \<Rightarrow> rbind (rbind (as_obj v) from) (\<lambda>x. Inr (Some x)))"

lemma j_obj_opt_codec [codec]:
  "k' \<noteq> k \<Longrightarrow> j_obj_opt from ((k', v) # d) k = j_obj_opt from d k"
  "(\<And>x. ov = Some x \<Longrightarrow> from (to x) = Inr x) \<Longrightarrow>
   j_obj_opt from ((k, json_opt (JObj \<circ> to) ov) # d) k = Inr ov"
  by (cases ov; simp add: j_obj_opt_def jget_def as_obj_def)+

definition decision_from_dict :: "builtins \<Rightarrow> jobject \<Rightarrow> reconciliation_decision result" where
  "decision_from_dict b d =
     rbind (j_obj_opt (request_from_dict b) d ''request'') (\<lambda>request.
     rbind (j_str b d ''source_id'') (\<lambda>source.
     rbind (rbind (j_str b d ''disposition'') disposition_of) (\<lambda>disp.
     rbind (j_float b d ''refresh_need'') (\<lambda>need.
     rbind (j_str b d ''reason'') (\<lambda>reason.
     let r = \<lparr>rd_source_id = source, rd_disposition = disp, rd_refresh_need = need, rd_reason = reason,
              rd_request = request\<rparr>
     in rbind (check_decision r) (\<lambda>_. Inr r))))))"

definition decision_ok :: "builtins \<Rightarrow> reconciliation_decision \<Rightarrow> bool" where
  "decision_ok b r \<longleftrightarrow> check_decision r = Inr () \<and> (\<forall>q. rd_request r = Some q \<longrightarrow> request_ok b q)"

lemma decision_round_trip:
  assumes "decision_ok b r"
  shows "decision_from_dict b (decision_to_dict r) = Inr r"
  using assms by (cases r)
    (simp add: decision_from_dict_def decision_to_dict_def decision_ok_def codec Let_def request_round_trip
      del: comp_apply)

record reconciliation_plan =
  rp_decisions :: "reconciliation_decision list"
  rp_total_cost :: pyfloat

definition check_reconciliation_plan :: "reconciliation_plan \<Rightarrow> unit result" where
  "check_reconciliation_plan p = raise_first
     ((\<not> distinct (map rd_source_id (rp_decisions p)),
       ValueError ''reconciliation plan source ids must be unique'') #
      negative (rp_total_cost p) ''reconciliation plan refresh cost'')"

definition plan_requests :: "reconciliation_plan \<Rightarrow> refresh_request list" where
  "plan_requests p = List.map_filter rd_request (rp_decisions p)"

subsection \<open>Issues and metrics\<close>

record orientation_issue =
  oi_source_id :: string
  oi_summary :: string
  oi_priority :: pyfloat
  oi_affects_plan :: bool

definition check_issue :: "orientation_issue \<Rightarrow> unit result" where
  "check_issue i = raise_first
     ((blank (oi_source_id i) \<or> blank (oi_summary i),
       ValueError ''orientation issue source and summary must be non-empty'') #
      bounded (oi_priority i) ''issue priority'')"

definition issue_to_dict :: "orientation_issue \<Rightarrow> jobject" where
  "issue_to_dict i =
     [(''source_id'', JStr (oi_source_id i)),
      (''summary'', JStr (oi_summary i)),
      (''priority'', JFloat (oi_priority i)),
      (''affects_current_plan'', JBool (oi_affects_plan i))]"

definition issue_from_dict :: "builtins \<Rightarrow> jobject \<Rightarrow> orientation_issue result" where
  "issue_from_dict b d =
     rbind (j_str b d ''source_id'') (\<lambda>source.
     rbind (j_str b d ''summary'') (\<lambda>summary.
     rbind (j_float b d ''priority'') (\<lambda>priority.
     let i = \<lparr>oi_source_id = source, oi_summary = summary, oi_priority = priority,
              oi_affects_plan = j_bool_or d ''affects_current_plan'' True\<rparr>
     in rbind (check_issue i) (\<lambda>_. Inr i))))"

lemma issue_round_trip: "check_issue i = Inr () \<Longrightarrow> issue_from_dict b (issue_to_dict i) = Inr i"
  by (cases i) (simp add: issue_from_dict_def issue_to_dict_def codec Let_def)

record orientation_metrics =
  om_sources_considered :: int
  om_sources_refreshed :: int
  om_events_fetched :: int
  om_beliefs_updated :: int
  om_stale_beliefs_retained :: int
  om_observation_cost :: pyfloat
  om_unnecessary_refresh_rate :: pyfloat
  om_missed_change_rate :: pyfloat
  om_uncertainty_removed :: pyfloat

definition check_metrics :: "orientation_metrics \<Rightarrow> unit result" where
  "check_metrics m = raise_first
     ([(list_ex (\<lambda>v. v < 0) [om_sources_considered m, om_sources_refreshed m, om_events_fetched m,
          om_beliefs_updated m, om_stale_beliefs_retained m],
        ValueError ''orientation metric counts cannot be negative''),
       (om_sources_considered m < om_sources_refreshed m,
        ValueError ''refreshed source count cannot exceed considered sources''),
       (om_sources_considered m < om_stale_beliefs_retained m,
        ValueError ''retained stale source count cannot exceed considered sources'')] @
      negative (om_observation_cost m) ''observation_cost'' @
      negative (om_uncertainty_removed m) ''decision_relevant_uncertainty_removed'' @
      bounded (om_unnecessary_refresh_rate m) ''unnecessary_refresh_rate'' @
      bounded (om_missed_change_rate m) ''missed_change_rate'')"

definition orientation_efficiency :: "orientation_metrics \<Rightarrow> pyfloat" where
  "orientation_efficiency m =
     (if om_observation_cost m = 0 then (if om_uncertainty_removed m = 0 then 0 else 1)
      else fdiv (om_uncertainty_removed m) (om_observation_cost m))"

definition metrics_to_dict :: "orientation_metrics \<Rightarrow> jobject" where
  "metrics_to_dict m =
     [(''sources_considered'', JInt (om_sources_considered m)),
      (''sources_refreshed'', JInt (om_sources_refreshed m)),
      (''events_fetched'', JInt (om_events_fetched m)),
      (''beliefs_updated'', JInt (om_beliefs_updated m)),
      (''stale_beliefs_retained'', JInt (om_stale_beliefs_retained m)),
      (''observation_cost'', JFloat (om_observation_cost m)),
      (''unnecessary_refresh_rate'', JFloat (om_unnecessary_refresh_rate m)),
      (''missed_change_rate'', JFloat (om_missed_change_rate m)),
      (''decision_relevant_uncertainty_removed'', JFloat (om_uncertainty_removed m)),
      (''orientation_efficiency'', JFloat (orientation_efficiency m))]"

definition metrics_from_dict :: "builtins \<Rightarrow> jobject \<Rightarrow> orientation_metrics result" where
  "metrics_from_dict b d =
     rbind (j_int b d ''sources_considered'') (\<lambda>considered.
     rbind (j_int b d ''sources_refreshed'') (\<lambda>refreshed_count.
     rbind (j_int b d ''events_fetched'') (\<lambda>fetched.
     rbind (j_int b d ''beliefs_updated'') (\<lambda>updated.
     rbind (j_int b d ''stale_beliefs_retained'') (\<lambda>stale.
     rbind (j_float b d ''observation_cost'') (\<lambda>cost.
     rbind (j_float b d ''unnecessary_refresh_rate'') (\<lambda>unnecessary.
     rbind (j_float b d ''missed_change_rate'') (\<lambda>missed.
     rbind (j_float b d ''decision_relevant_uncertainty_removed'') (\<lambda>removed.
     let m = \<lparr>om_sources_considered = considered, om_sources_refreshed = refreshed_count,
              om_events_fetched = fetched, om_beliefs_updated = updated,
              om_stale_beliefs_retained = stale, om_observation_cost = cost,
              om_unnecessary_refresh_rate = unnecessary, om_missed_change_rate = missed,
              om_uncertainty_removed = removed\<rparr>
     in rbind (check_metrics m) (\<lambda>_.
        rbind (case map_of d ''orientation_efficiency'' of None \<Rightarrow> Inr (orientation_efficiency m)
               | Some v \<Rightarrow> py_float b v) (\<lambda>recorded.
        if \<not> is_close recorded (orientation_efficiency m)
        then Inl (ValueError ''orientation efficiency is inconsistent with its components'')
        else Inr m)))))))))))"

lemma metrics_round_trip:
  assumes "check_metrics m = Inr ()"
  shows "metrics_from_dict b (metrics_to_dict m) = Inr m"
proof -
  have "fin (om_uncertainty_removed m)" "fin (om_observation_cost m)"
    using assms by (auto simp: check_metrics_def raise_first_no_errors simp del: raise_first_ok)
  then have "fin (orientation_efficiency m)"
    by (auto simp: orientation_efficiency_def pyfloat_zero_one fdiv_def elim!: fin_cases)
  then have "is_close (orientation_efficiency m) (orientation_efficiency m)" by (rule is_close_self)
  then show ?thesis
    using assms
    by (cases m) (simp add: metrics_from_dict_def metrics_to_dict_def codec Let_def py_float_def)
qed

subsection \<open>Orientation reports\<close>

record orientation_report =
  op_id :: string
  op_epoch :: awake_epoch
  op_status :: orientation_status
  op_coverage :: awareness_coverage
  op_decisions :: "reconciliation_decision list"
  op_refreshed_source_ids :: "string list"
  op_changed_source_ids :: "string list"
  op_unavailable_source_ids :: "string list"
  op_issues :: "orientation_issue list"
  op_highest_value_issue :: "orientation_issue option"
  op_metrics :: orientation_metrics
  op_summary :: string

definition unique_ids :: "string list \<Rightarrow> string \<Rightarrow> bool \<times> py_error" where
  "unique_ids values name = (\<not> distinct values \<or> list_ex blank values,
     ValueError (''orientation report '' @ name @ '' ids must be unique and non-empty''))"

definition check_report :: "orientation_report \<Rightarrow> unit result" where
  "check_report r =
     (let coverage_ids = set (map cv_source_id (aw_entries (op_coverage r)));
          decision_ids = set (map rd_source_id (op_decisions r))
      in raise_first
       [(blank (op_id r) \<or> blank (op_summary r), ValueError ''orientation report id and summary must be non-empty''),
        (op_status r = ORIENTING, ValueError ''orientation report requires a terminal status''),
        (ae_status (op_epoch r) \<noteq> op_status r,
         ValueError ''orientation report and awake epoch status must match''),
        ((op_status r = ORIENTED) \<noteq> coverage_sufficient (op_coverage r),
         ValueError ''orientation report status and coverage must agree''),
        unique_ids (op_refreshed_source_ids r) ''refreshed source'',
        unique_ids (op_changed_source_ids r) ''changed source'',
        unique_ids (op_unavailable_source_ids r) ''unavailable source'',
        (set (op_refreshed_source_ids r) \<inter> set (op_unavailable_source_ids r) \<noteq> {},
         ValueError ''a source cannot be both refreshed and unavailable''),
        (\<not> set (op_changed_source_ids r) \<subseteq> set (op_refreshed_source_ids r),
         ValueError ''changed sources must have been refreshed''),
        (om_sources_refreshed (op_metrics r) \<noteq> int (length (op_refreshed_source_ids r)),
         ValueError ''orientation report refresh count is inconsistent''),
        (om_sources_considered (op_metrics r) \<noteq> int (length (remdups (map rd_source_id (op_decisions r)))),
         ValueError ''orientation report considered-source count is inconsistent''),
        (\<not> coverage_ids \<subseteq> decision_ids \<or> \<not> distinct (map rd_source_id (op_decisions r)),
         ValueError ''orientation report requires one decision per considered source''),
        (\<not> set (op_refreshed_source_ids r) \<union> set (op_unavailable_source_ids r) \<union>
            set (op_changed_source_ids r) \<subseteq> coverage_ids,
         ValueError ''orientation report source outcomes require coverage entries''),
        (list_ex (\<lambda>i. oi_source_id i \<notin> coverage_ids) (op_issues r),
         ValueError ''orientation report issues require coverage entries''),
        (case op_highest_value_issue r of None \<Rightarrow> False | Some h \<Rightarrow> h \<notin> set (op_issues r),
         ValueError ''highest-value issue must be present in report issues''),
        (case op_highest_value_issue r of None \<Rightarrow> False
         | Some h \<Rightarrow> list_ex (\<lambda>i. oi_priority h < oi_priority i) (op_issues r),
         ValueError ''highest-value issue does not have the greatest priority'')])"

definition report_identity :: "orientation_report \<Rightarrow> jobject" where
  "report_identity r =
     [(''epoch'', JObj (epoch_to_dict (op_epoch r))),
      (''status'', JStr (orientation_value (op_status r))),
      (''coverage'', JObj (coverage_to_dict (op_coverage r))),
      (''decisions'', JList (map (JObj \<circ> decision_to_dict) (op_decisions r))),
      (''refreshed_source_ids'', JStrs (op_refreshed_source_ids r)),
      (''changed_source_ids'', JStrs (op_changed_source_ids r)),
      (''unavailable_source_ids'', JStrs (op_unavailable_source_ids r)),
      (''issues'', JList (map (JObj \<circ> issue_to_dict) (op_issues r))),
      (''highest_value_issue'', json_opt (JObj \<circ> issue_to_dict) (op_highest_value_issue r)),
      (''metrics'', JObj (metrics_to_dict (op_metrics r))),
      (''summary'', JStr (op_summary r))]"

definition create_report :: "builtins \<Rightarrow> orientation_report \<Rightarrow> orientation_report result" where
  "create_report b r =
     rbind (canonical_id b ''orientation-report'' (report_identity r)) (\<lambda>i.
     let r' = r\<lparr>op_id := i\<rparr> in rbind (check_report r') (\<lambda>_. Inr r'))"

definition report_to_dict :: "orientation_report \<Rightarrow> jobject" where
  "report_to_dict r = (''report_id'', JStr (op_id r)) # report_identity r"

definition report_event_id :: "orientation_report \<Rightarrow> string" where
  "report_event_id r = ''continuity-orientation:'' @ op_id r"

definition report_to_event :: "orientation_report \<Rightarrow> string \<Rightarrow> string \<Rightarrow> jobject event result" where
  "report_to_event r source causation_id =
     make_event (report_event_id r) ORIENTATION_COMPLETED_EVENT source (ae_id (op_epoch r))
       (epoch_time (op_epoch r)) (report_to_dict r) (Some causation_id)"

definition j_obj :: "(jobject \<Rightarrow> 'a result) \<Rightarrow> jobject \<Rightarrow> string \<Rightarrow> 'a result" where
  "j_obj from d k = rbind (jitem d k) (\<lambda>v. rbind (as_obj v) from)"

lemma j_obj_codec [codec]:
  "k' \<noteq> k \<Longrightarrow> j_obj from ((k', v) # d) k = j_obj from d k"
  "j_obj from ((k, JObj x) # d) k = from x"
  by (simp_all add: j_obj_def codec)

definition j_objs :: "builtins \<Rightarrow> (jobject \<Rightarrow> 'a result) \<Rightarrow> jobject \<Rightarrow> string \<Rightarrow> 'a list result" where
  "j_objs b from d k = j_list b (\<lambda>v. rbind (as_obj v) from) d k"

lemma j_objs_codec [codec]:
  "k' \<noteq> k \<Longrightarrow> j_objs b from ((k', v) # d) k = j_objs b from d k"
  "(\<And>x. x \<in> set xs \<Longrightarrow> from (to x) = Inr x) \<Longrightarrow>
   j_objs b from ((k, JList (map (JObj \<circ> to) xs)) # d) k = Inr xs"
proof -
  show "k' \<noteq> k \<Longrightarrow> j_objs b from ((k', v) # d) k = j_objs b from d k"
    by (simp add: j_objs_def codec)
  assume "\<And>x. x \<in> set xs \<Longrightarrow> from (to x) = Inr x"
  then have "mapM (\<lambda>v. rbind (as_obj v) from) (map (JObj \<circ> to) xs) = Inr xs"
    by (intro mapM_read_written) (simp add: codec)
  then show "j_objs b from ((k, JList (map (JObj \<circ> to) xs)) # d) k = Inr xs"
    by (simp add: j_objs_def codec)
qed

definition report_from_event :: "builtins \<Rightarrow> jobject event \<Rightarrow> orientation_report result" where
  "report_from_event b e =
     (let d = ev_payload e in
      if ev_type e \<noteq> ORIENTATION_COMPLETED_EVENT then Inl (ValueError ''not an orientation report event'') else
      rbind (j_str b d ''report_id'') (\<lambda>i.
      rbind (j_obj (epoch_from_dict b) d ''epoch'') (\<lambda>epoch.
      rbind (rbind (j_str b d ''status'') orientation_status_of) (\<lambda>status.
      rbind (j_obj (coverage_from_dict b) d ''coverage'') (\<lambda>coverage.
      rbind (j_objs b (decision_from_dict b) d ''decisions'') (\<lambda>decisions.
      rbind (j_strs b d ''refreshed_source_ids'') (\<lambda>refreshed_ids.
      rbind (j_strs b d ''changed_source_ids'') (\<lambda>changed_ids.
      rbind (j_strs b d ''unavailable_source_ids'') (\<lambda>unavailable_ids.
      rbind (j_objs b (issue_from_dict b) d ''issues'') (\<lambda>issues.
      rbind (j_obj_opt (issue_from_dict b) d ''highest_value_issue'') (\<lambda>highest.
      rbind (j_obj (metrics_from_dict b) d ''metrics'') (\<lambda>metrics.
      rbind (j_str b d ''summary'') (\<lambda>summary.
      let r = \<lparr>op_id = i, op_epoch = epoch, op_status = status, op_coverage = coverage,
               op_decisions = decisions, op_refreshed_source_ids = refreshed_ids,
               op_changed_source_ids = changed_ids, op_unavailable_source_ids = unavailable_ids,
               op_issues = issues, op_highest_value_issue = highest, op_metrics = metrics,
               op_summary = summary\<rparr>
      in rbind (check_report r) (\<lambda>_.
         rbind (create_report b r) (\<lambda>expected.
         rbind (raise_first
           [(op_id r \<noteq> op_id expected,
             ValueError ''orientation report id does not match its immutable content''),
            (ev_id e \<noteq> report_event_id r, ValueError ''orientation report event id is inconsistent''),
            (ev_subject e \<noteq> Some (ae_id epoch), ValueError ''orientation report event subject is inconsistent''),
            (ev_timestamp e \<noteq> epoch_time epoch,
             ValueError ''orientation report event timestamp is inconsistent''),
            (ev_causation_id e = None,
             ValueError ''orientation report event requires completed-epoch causation'')]) (\<lambda>_.
         Inr r))))))))))))))))"

text \<open>The reports that \<open>create\<close> returns for parts that passed their own constructors.\<close>

definition report_ok :: "builtins \<Rightarrow> orientation_report \<Rightarrow> bool" where
  "report_ok b r \<longleftrightarrow> create_report b r = Inr r \<and> check_epoch (op_epoch r) = Inr () \<and>
     coverage_ok (op_coverage r) \<and> (\<forall>x\<in>set (op_decisions r). decision_ok b x) \<and>
     (\<forall>i\<in>set (op_issues r). check_issue i = Inr ()) \<and> check_metrics (op_metrics r) = Inr ()"

lemma create_report_check:
  assumes "create_report b r = Inr r"
  shows "check_report r = Inr ()"
proof -
  obtain i where "check_report (r\<lparr>op_id := i\<rparr>) = Inr ()" "r\<lparr>op_id := i\<rparr> = r"
    using assms by (auto simp: create_report_def rbind_Inr_iff Let_def)
  then show ?thesis by simp
qed

lemma report_highest_check:
  assumes "report_ok b r" "op_highest_value_issue r = Some h"
  shows "check_issue h = Inr ()"
proof -
  have "check_report r = Inr ()"
    using assms(1) create_report_check [of b r] by (simp add: report_ok_def)
  then have "h \<in> set (op_issues r)"
    using assms(2) by (simp add: check_report_def Let_def raise_first_no_errors del: raise_first_ok)
  then show ?thesis using assms(1) by (simp add: report_ok_def)
qed

lemma report_event_round_trip:
  assumes "report_ok b r" "report_to_event r source c = Inr e"
  shows "report_from_event b (with_sequence e n) = Inr r"
proof -
  note ok = assms(1) [unfolded report_ok_def]
  have f: "make_event (report_event_id r) ORIENTATION_COMPLETED_EVENT source (ae_id (op_epoch r))
       (epoch_time (op_epoch r)) (report_to_dict r) (Some c) = Inr e"
    using assms(2) by (simp add: report_to_event_def)
  have check: "check_report r = Inr ()"
    using ok create_report_check [of b r] by simp
  have highest: "\<And>x. op_highest_value_issue r = Some x \<Longrightarrow> issue_from_dict b (issue_to_dict x) = Inr x"
    using report_highest_check [OF assms(1)] issue_round_trip by blast
  show ?thesis
    using ok check highest make_event_fields [OF f]
    by (cases r) (simp add: report_from_event_def report_to_dict_def report_identity_def codec Let_def
        epoch_round_trip coverage_round_trip decision_round_trip issue_round_trip metrics_round_trip
        del: comp_apply raise_first_ok)
qed

subsection \<open>The projection\<close>

record continuity_state =
  ct_source_states :: "(string \<times> source_state) list"
  ct_epochs :: "(string \<times> awake_epoch) list"
  ct_reports :: "(string \<times> orientation_report) list"

definition empty_continuity :: continuity_state where
  "empty_continuity = \<lparr>ct_source_states = [], ct_epochs = [], ct_reports = []\<rparr>"

definition ct_states :: "continuity_state \<Rightarrow> source_state list" where
  "ct_states c = map snd (sort_key fst (ct_source_states c))"

definition ct_sorted_epochs :: "continuity_state \<Rightarrow> awake_epoch list" where
  "ct_sorted_epochs c =
     sort_key (\<lambda>a. instant (ae_woke_at a)) (sort_key ae_id (map snd (ct_epochs c)))"

definition ct_latest_epoch :: "continuity_state \<Rightarrow> awake_epoch option" where
  "ct_latest_epoch c = (if ct_epochs c = [] then None else Some (last (ct_sorted_epochs c)))"

definition ct_sorted_reports :: "continuity_state \<Rightarrow> orientation_report list" where
  "ct_sorted_reports c =
     sort_key (\<lambda>r. instant (epoch_time (op_epoch r))) (sort_key op_id (map snd (ct_reports c)))"

definition ct_latest_report :: "continuity_state \<Rightarrow> orientation_report option" where
  "ct_latest_report c = (if ct_reports c = [] then None else Some (last (ct_sorted_reports c)))"

definition continuity_apply :: "builtins \<Rightarrow> continuity_state \<Rightarrow> jobject event \<Rightarrow> (bool \<times> continuity_state) result" where
  "continuity_apply b c e =
     (if ev_type e = SOURCE_STATE_RECORDED_EVENT then
        rbind (source_from_event b e) (\<lambda>s.
        case map_of (ct_source_states c) (so_source_id s) of
          Some old \<Rightarrow> if dt_before (so_captured_at s) (so_captured_at old)
            then Inl (ValueError ''source state regressed'')
            else Inr (True, c\<lparr>ct_source_states := AList.update (so_source_id s) s (ct_source_states c)\<rparr>)
        | None \<Rightarrow> Inr (True, c\<lparr>ct_source_states := AList.update (so_source_id s) s (ct_source_states c)\<rparr>))
      else if ev_type e \<in> {AWAKE_EPOCH_STARTED_EVENT, AWAKE_EPOCH_COMPLETED_EVENT} then
        rbind (epoch_from_event b e) (\<lambda>a.
        if (case map_of (ct_epochs c) (ae_id a) of None \<Rightarrow> False
            | Some old \<Rightarrow> ae_status old \<noteq> ORIENTING \<and> a \<noteq> old)
        then Inl (ValueError ''completed awake epoch changed'')
        else Inr (True, c\<lparr>ct_epochs := AList.update (ae_id a) a (ct_epochs c)\<rparr>))
      else if ev_type e = ORIENTATION_COMPLETED_EVENT then
        rbind (report_from_event b e) (\<lambda>r.
        if (case map_of (ct_reports c) (op_id r) of None \<Rightarrow> False | Some old \<Rightarrow> old \<noteq> r)
        then Inl (ValueError ''orientation report changed'')
        else Inr (True, c\<lparr>ct_reports := AList.update (op_id r) r (ct_reports c)\<rparr>))
      else Inr (False, c))"

definition continuity_step :: "builtins \<Rightarrow> continuity_state \<Rightarrow> jobject event \<Rightarrow> continuity_state result" where
  "continuity_step b c e = rbind (continuity_apply b c e) (\<lambda>p. Inr (snd p))"

text \<open>\<open>rebuild\<close> clears the three dictionaries, so that the state before does not matter.\<close>

definition continuity_rebuild :: "builtins \<Rightarrow> jobject event list \<Rightarrow> continuity_state result" where
  "continuity_rebuild b es = foldM (continuity_step b) empty_continuity es"

subsection \<open>What the projection keeps\<close>

text \<open>
  Every entry passed its constructor and is stored under its identifier. From one state to the next
  the capture times of sources do not go back, and completed epochs and reports stay as they are.
\<close>

definition continuity_inv :: "continuity_state \<Rightarrow> bool" where
  "continuity_inv c \<longleftrightarrow>
     (\<forall>i s. map_of (ct_source_states c) i = Some s \<longrightarrow> so_source_id s = i \<and> check_source s = Inr ()) \<and>
     (\<forall>i a. map_of (ct_epochs c) i = Some a \<longrightarrow> ae_id a = i \<and> check_epoch a = Inr ()) \<and>
     (\<forall>i r. map_of (ct_reports c) i = Some r \<longrightarrow> op_id r = i \<and> check_report r = Inr ())"

definition continuity_advances :: "continuity_state \<Rightarrow> continuity_state \<Rightarrow> bool" where
  "continuity_advances c c' \<longleftrightarrow>
     (\<forall>i s. map_of (ct_source_states c) i = Some s \<longrightarrow>
        (\<exists>s'. map_of (ct_source_states c') i = Some s' \<and> instant (so_captured_at s) \<le> instant (so_captured_at s'))) \<and>
     (\<forall>i a. map_of (ct_epochs c) i = Some a \<longrightarrow> ae_status a \<noteq> ORIENTING \<longrightarrow> map_of (ct_epochs c') i = Some a) \<and>
     (\<forall>i r. map_of (ct_reports c) i = Some r \<longrightarrow> map_of (ct_reports c') i = Some r)"

lemma source_from_event_check: "source_from_event b e = Inr s \<Longrightarrow> check_source s = Inr ()"
  by (auto simp: source_from_event_def Let_def rbind_Inr_iff split: if_splits)

lemma epoch_from_event_check: "epoch_from_event b e = Inr a \<Longrightarrow> check_epoch a = Inr ()"
  by (auto simp: epoch_from_event_def epoch_from_dict_def Let_def rbind_Inr_iff split: if_splits)

lemma report_from_event_check: "report_from_event b e = Inr r \<Longrightarrow> check_report r = Inr ()"
  by (auto simp: report_from_event_def Let_def rbind_Inr_iff simp del: raise_first_ok split: if_splits)

text \<open>The three kinds of change.\<close>

lemma continuity_apply_cases:
  assumes "continuity_apply b c e = Inr (k, c')"
  obtains (source) s where "source_from_event b e = Inr s"
      "c' = c\<lparr>ct_source_states := AList.update (so_source_id s) s (ct_source_states c)\<rparr>"
      "\<And>old. map_of (ct_source_states c) (so_source_id s) = Some old \<Longrightarrow>
        instant (so_captured_at old) \<le> instant (so_captured_at s)"
  | (epoch) a where "epoch_from_event b e = Inr a"
      "c' = c\<lparr>ct_epochs := AList.update (ae_id a) a (ct_epochs c)\<rparr>"
      "\<And>old. map_of (ct_epochs c) (ae_id a) = Some old \<Longrightarrow> ae_status old \<noteq> ORIENTING \<Longrightarrow> a = old"
  | (report) r where "report_from_event b e = Inr r"
      "c' = c\<lparr>ct_reports := AList.update (op_id r) r (ct_reports c)\<rparr>"
      "\<And>old. map_of (ct_reports c) (op_id r) = Some old \<Longrightarrow> r = old"
  | (other) "c' = c" "\<not> k"
  using assms
  by (auto simp: continuity_apply_def rbind_Inr_iff dt_before_def not_less split: if_splits option.splits)

lemma continuity_apply_inv:
  assumes "continuity_inv c" "continuity_apply b c e = Inr (k, c')"
  shows "continuity_inv c' \<and> continuity_advances c c'"
  using assms(2)
proof (cases rule: continuity_apply_cases)
  case (source s)
  with assms(1) source_from_event_check [OF source(1)] show ?thesis
    by (simp add: continuity_inv_def continuity_advances_def dict_simps)
next
  case (epoch a)
  with assms(1) epoch_from_event_check [OF epoch(1)] show ?thesis
    by (simp add: continuity_inv_def continuity_advances_def dict_simps)
next
  case (report r)
  with assms(1) report_from_event_check [OF report(1)] show ?thesis
    by (simp add: continuity_inv_def continuity_advances_def dict_simps)
next
  case other
  with assms(1) show ?thesis by (simp add: continuity_advances_def)
qed

lemma continuity_step_inv:
  assumes "continuity_inv c" "continuity_step b c e = Inr c'"
  shows "continuity_inv c' \<and> continuity_advances c c'"
proof -
  obtain k where "continuity_apply b c e = Inr (k, c')"
    using assms(2) by (auto simp: continuity_step_def rbind_Inr_iff)
  with assms(1) show ?thesis by (rule continuity_apply_inv)
qed

lemma continuity_advances_refl: "continuity_advances c c"
  by (simp add: continuity_advances_def)

lemma continuity_advances_trans:
  assumes "continuity_advances c c'" "continuity_advances c' c''"
  shows "continuity_advances c c''"
  using assms unfolding continuity_advances_def by (meson order_trans)

interpretation continuity: append_only empty_continuity "continuity_step b" continuity_inv continuity_advances
proof unfold_locales
  show "continuity_inv empty_continuity" by (simp add: continuity_inv_def empty_continuity_def)
qed (fact continuity_step_inv [THEN conjunct1] continuity_step_inv [THEN conjunct2] continuity_advances_refl
    continuity_advances_trans)+

end
