(* ===== verification/Reconciliation.thy ===== *)
theory Reconciliation
  imports Orientation
begin

section \<open>Freshness, time and the planning of refreshes\<close>

text \<open>
  Models \<^verbatim>\<open>src/noema/continuity/freshness.py\<close> (\<open>FreshnessModel\<close>), \<^verbatim>\<open>temporal.py\<close> (\<open>TemporalService\<close>, whose
  two clocks are arguments) and \<^verbatim>\<open>reconcile.py\<close>: \<open>WakeReconciler.plan\<close>, which chooses the sources to refresh
  under an observation budget, and \<open>OrientationBarrier.evaluate\<close>. The lemmas show that a plan has one
  decision per source, stays within the budget, refreshes only what is relevant and insufficient, and defers
  only what the budget does not pay for.
\<close>

subsection \<open>Freshness\<close>

record freshness_model =
  fm_unit :: int

definition default_freshness :: freshness_model where
  "default_freshness = \<lparr>fm_unit = 24 * 60 * 60 * 1000000\<rparr>"

definition check_freshness_model :: "freshness_model \<Rightarrow> unit result" where
  "check_freshness_model m = raise_first
     [(fm_unit m \<le> 0, ValueError ''freshness hazard time unit must be positive'')]"

definition freshness_evaluate :: "freshness_model \<Rightarrow> pyfloat \<Rightarrow> int \<Rightarrow> pyfloat \<Rightarrow> pyfloat result" where
  "freshness_evaluate m hazard elapsed initial =
     rbind (raise_first
       [(hazard < 0 \<or> \<not> fin hazard, ValueError ''change hazard cannot be negative''),
        (elapsed < 0, ValueError ''freshness elapsed time cannot be negative''),
        (\<not> (0 \<le> initial \<and> initial \<le> 1), ValueError ''initial freshness must be between zero and one'')])
     (\<lambda>_. Inr (initial * Fin (exp (- real_of hazard * (of_int elapsed / of_int (fm_unit m))))))"

definition source_freshness :: "freshness_model \<Rightarrow> source_state \<Rightarrow> datetime \<Rightarrow> pyfloat result" where
  "source_freshness m s time =
     (if is_naive time then Inl (ValueError ''freshness evaluation time must be timezone-aware'')
      else rbind (dt_minus time (so_last_observed_at s)) (\<lambda>elapsed.
           freshness_evaluate m (so_change_hazard s) elapsed 1))"

definition fresh_until :: "freshness_model \<Rightarrow> datetime \<Rightarrow> pyfloat \<Rightarrow> pyfloat \<Rightarrow> datetime result" where
  "fresh_until m observed_at hazard minimum =
     rbind (raise_first
       [(is_naive observed_at, ValueError ''observation time must be timezone-aware''),
        (hazard < 0 \<or> \<not> fin hazard, ValueError ''change hazard cannot be negative''),
        (\<not> (0 < minimum \<and> minimum < 1), ValueError ''minimum freshness must be strictly between zero and one'')])
     (\<lambda>_. if hazard = 0 then Inr (dt_plus observed_at (36500 * 24 * 60 * 60 * 1000000))
          else Inr (dt_plus observed_at
            (round_half_even (of_int (fm_unit m) * (- ln (real_of minimum) / real_of hazard)))))"

subsection \<open>Clocks\<close>

text \<open>The wall clock's reading (already converted to the service's zone) and the monotonic reading.\<close>

record sleep_interval =
  sl_started_at :: datetime
  sl_woke_at :: datetime

definition check_sleep_interval :: "sleep_interval \<Rightarrow> unit result" where
  "check_sleep_interval s = raise_first
     (require_aware (sl_started_at s) ''started_at'' @ require_aware (sl_woke_at s) ''woke_at'' @
      [(dt_before (sl_woke_at s) (sl_started_at s), ValueError ''wake time cannot precede sleep time'')])"

definition sleep_elapsed :: "sleep_interval \<Rightarrow> int" where
  "sleep_elapsed s = instant (sl_woke_at s) - instant (sl_started_at s)"

definition wall_now :: "datetime \<Rightarrow> datetime result" where
  "wall_now clock = (if is_naive clock then Inl (ValueError ''wall clock must be timezone-aware'') else Inr clock)"

definition monotonic_now :: "pyfloat \<Rightarrow> pyfloat result" where
  "monotonic_now clock = (if \<not> fin clock then Inl (ValueError ''monotonic clock must return a finite value'')
     else Inr clock)"

definition elapsed_wall :: "datetime \<Rightarrow> datetime \<Rightarrow> datetime option \<Rightarrow> int result" where
  "elapsed_wall clock since until =
     (if is_naive since then Inl (ValueError ''since must be timezone-aware'')
      else rbind (case until of None \<Rightarrow> wall_now clock | Some t \<Rightarrow> Inr t) (\<lambda>stop.
        if is_naive stop then Inl (ValueError ''until must be timezone-aware'')
        else if dt_before stop since
        then Inl (ValueError ''wall time cannot move backwards across an awake epoch'')
        else Inr (instant stop - instant since)))"

definition elapsed_monotonic :: "pyfloat \<Rightarrow> pyfloat \<Rightarrow> int result" where
  "elapsed_monotonic started ended =
     (if \<not> fin started \<or> \<not> fin ended then Inl (ValueError ''monotonic time must be finite'')
      else if ended < started then Inl (ValueError ''monotonic time cannot move backwards'')
      else timedelta_of (ended - started))"

definition deadline_after :: "datetime \<Rightarrow> int \<Rightarrow> datetime option \<Rightarrow> datetime result" where
  "deadline_after clock duration from_time =
     (if duration < 0 then Inl (ValueError ''deadline duration cannot be negative'')
      else rbind (case from_time of None \<Rightarrow> wall_now clock | Some t \<Rightarrow> Inr t) (\<lambda>start.
        if is_naive start then Inl (ValueError ''from_time must be timezone-aware'')
        else Inr (dt_plus start duration)))"

definition sleep_interval_of :: "datetime \<Rightarrow> datetime \<Rightarrow> datetime option \<Rightarrow> sleep_interval result" where
  "sleep_interval_of clock started woke =
     rbind (case woke of None \<Rightarrow> wall_now clock | Some t \<Rightarrow> Inr t) (\<lambda>w.
     let s = \<lparr>sl_started_at = started, sl_woke_at = w\<rparr>
     in rbind (check_sleep_interval s) (\<lambda>_. Inr s))"

subsection \<open>The need for a refresh\<close>

definition refresh_need :: "source_state \<Rightarrow> awareness_demand \<Rightarrow> pyfloat \<Rightarrow> pyfloat result" where
  "refresh_need s d freshness =
     (if so_source_id s \<noteq> dm_source_id d
      then Inl (ValueError ''refresh-need source and demand ids must match'')
      else if \<not> unit_interval freshness
      then Inl (ValueError ''current freshness must be between zero and one'')
      else
        let fgap = py_max 0 (1 - fdiv freshness (dm_required_freshness d));
            cgap = py_max 0 (1 - fdiv (so_confidence s) (dm_required_confidence d))
        in Inr (demand_importance d * (1 - (1 - fgap) * (1 - cgap))))"

text \<open>What a demand leaves open: the source is relevant, and not fresh or not certain enough.\<close>

definition relevant :: "pyfloat \<Rightarrow> awareness_demand \<Rightarrow> bool" where
  "relevant floor_value d \<longleftrightarrow> floor_value \<le> demand_importance d"

definition insufficient :: "source_state \<Rightarrow> awareness_demand \<Rightarrow> pyfloat \<Rightarrow> bool" where
  "insufficient s d freshness \<longleftrightarrow>
     freshness < dm_required_freshness d \<or> so_confidence s < dm_required_confidence d"

lemma gap_bounds:
  assumes "unit_interval x" "unit_interval r" "r \<noteq> 0"
  obtains g where "py_max 0 (1 - fdiv x r) = Fin g" "0 \<le> g" "g \<le> 1" "g = 0 \<longleftrightarrow> r \<le> x"
proof -
  obtain a c where ac: "x = Fin a" "0 \<le> a" "r = Fin c" "0 < c"
    using assms by (auto simp: unit_interval_iff pyfloat_zero_one less_le)
  have "py_max 0 (1 - fdiv x r) = Fin (max 0 (1 - a / c))"
    by (simp add: ac fdiv_def pyfloat_zero_one)
  moreover have "max 0 (1 - a / c) = 0 \<longleftrightarrow> r \<le> x"
    using ac by (auto simp: max_def field_simps)
  moreover have "max 0 (1 - a / c) \<le> 1" using ac by simp
  ultimately show ?thesis using that by simp
qed

lemma refresh_need_value:
  assumes "check_source s = Inr ()" "check_demand d = Inr ()" "so_source_id s = dm_source_id d"
    and "unit_interval freshness"
  obtains x where "refresh_need s d freshness = Inr (Fin x)" "0 \<le> x" "x \<le> 1"
    "\<not> insufficient s d freshness \<Longrightarrow> x = 0"
    "insufficient s d freshness \<Longrightarrow> 0 < demand_importance d \<Longrightarrow> 0 < x"
proof -
  note d = check_demand_facts [OF assms(2)] and s = check_source_facts [OF assms(1)]
  obtain f where f: "py_max 0 (1 - fdiv freshness (dm_required_freshness d)) = Fin f"
      "0 \<le> f" "f \<le> 1" "f = 0 \<longleftrightarrow> dm_required_freshness d \<le> freshness"
    using gap_bounds [OF assms(4) d(3,5)] by blast
  obtain c where c: "py_max 0 (1 - fdiv (so_confidence s) (dm_required_confidence d)) = Fin c"
      "0 \<le> c" "c \<le> 1" "c = 0 \<longleftrightarrow> dm_required_confidence d \<le> so_confidence s"
    using gap_bounds [OF s(4) d(4,6)] by blast
  obtain i where i: "demand_importance d = Fin i" "0 \<le> i" "i \<le> 1"
    using fin_times [OF d(1,2)] by (auto simp: demand_importance_def unit_interval_iff)
  let ?x = "i * (1 - (1 - f) * (1 - c))"
  have u: "0 \<le> (1 - f) * (1 - c)" "(1 - f) * (1 - c) \<le> 1"
    using f(2,3) c(2,3) by (simp_all add: mult_le_one)
  have ins: "insufficient s d freshness \<longleftrightarrow> f \<noteq> 0 \<or> c \<noteq> 0"
    using assms(4) s(4) d(3,4) f(4) c(4) by (auto simp: insufficient_def unit_interval_iff)
  have "refresh_need s d freshness = Inr (Fin ?x)"
    using assms(3,4) by (simp add: refresh_need_def Let_def f(1) c(1) i(1)) (simp add: pyfloat_zero_one)
  moreover have "0 \<le> ?x" "?x \<le> 1"
    using u i(2,3) by (simp_all add: mult_le_one)
  moreover have "\<not> insufficient s d freshness \<Longrightarrow> ?x = 0" using ins by simp
  moreover have "0 < ?x" if "insufficient s d freshness" "0 < demand_importance d"
  proof -
    have "(1 - f) * (1 - c) < 1"
    proof (cases "f = 0")
      case True
      with ins that(1) c(2) show ?thesis by simp
    next
      case False
      with f(2) have "1 - f < 1" by simp
      moreover have "(1 - f) * (1 - c) \<le> 1 - f"
        using f(2,3) c(2,3) by (intro mult_left_le) simp_all
      ultimately show ?thesis by linarith
    qed
    with that(2) i show ?thesis by (simp add: pyfloat_zero_one)
  qed
  ultimately show ?thesis using that by blast
qed

subsection \<open>The plan\<close>

definition check_reconciler :: "pyfloat \<Rightarrow> unit result" where
  "check_reconciler relevance_floor = raise_first
     [(\<not> (0 \<le> relevance_floor \<and> relevance_floor \<le> 1),
       ValueError ''relevance floor must be between zero and one'')]"

text \<open>
  The needs of all states, in order: the first one that cannot be computed ends the call. A state
  without a demand has need zero.
\<close>

definition source_needs ::
  "source_state list \<Rightarrow> awareness_demand list \<Rightarrow> (string \<times> pyfloat) list \<Rightarrow> (string \<times> pyfloat) list result" where
  "source_needs states demands freshness = mapM (\<lambda>s.
     rbind (case by_source dm_source_id demands (so_source_id s) of
         Some d \<Rightarrow> refresh_need s d (the (map_of freshness (so_source_id s)))
       | None \<Rightarrow> Inr 0) (\<lambda>need. Inr (so_source_id s, need))) states"

definition is_candidate ::
  "pyfloat \<Rightarrow> awareness_demand list \<Rightarrow> (string \<times> pyfloat) list \<Rightarrow> source_state \<Rightarrow> bool" where
  "is_candidate relevance_floor demands freshness s =
     (case by_source dm_source_id demands (so_source_id s) of None \<Rightarrow> False
      | Some d \<Rightarrow> relevant relevance_floor d \<and> insufficient s d (the (map_of freshness (so_source_id s))))"

definition need_of :: "(string \<times> pyfloat) list \<Rightarrow> source_state \<Rightarrow> pyfloat" where
  "need_of needs s = the (map_of needs (so_source_id s))"

text \<open>The order of candidates: need per cost, then need, both descending, then the identifier.\<close>

definition candidate_before :: "(string \<times> pyfloat) list \<Rightarrow> source_state \<Rightarrow> source_state \<Rightarrow> bool" where
  "candidate_before needs s t =
     (let rate = (\<lambda>u. - fdiv (need_of needs u) (py_max (so_refresh_cost u) (Fin (1 / 1000000000000))))
      in rate s < rate t \<or> rate s = rate t \<and>
         (- need_of needs s < - need_of needs t \<or> need_of needs s = need_of needs t \<and>
          so_source_id s < so_source_id t))"

text \<open>The selection: stop at the source count, skip what the remaining budget does not pay for.\<close>

fun select_refreshes ::
  "int \<Rightarrow> source_state list \<Rightarrow> string list \<Rightarrow> pyfloat \<Rightarrow> string list \<times> pyfloat" where
  "select_refreshes max_sources [] selected remaining = (selected, remaining)"
| "select_refreshes max_sources (s # ss) selected remaining =
     (if max_sources \<le> int (length selected) then (selected, remaining)
      else if remaining < so_refresh_cost s then select_refreshes max_sources ss selected remaining
      else select_refreshes max_sources ss (selected @ [so_source_id s]) (remaining - so_refresh_cost s))"

definition decide ::
  "builtins \<Rightarrow> pyfloat \<Rightarrow> awareness_demand list \<Rightarrow> (string \<times> pyfloat) list \<Rightarrow> (string \<times> pyfloat) list \<Rightarrow>
   string list \<Rightarrow> datetime \<Rightarrow> source_state \<Rightarrow> reconciliation_decision result" where
  "decide b relevance_floor demands freshness needs selected created_at s =
     (let demand = by_source dm_source_id demands (so_source_id s);
          build = (\<lambda>disp reason request.
            let r = \<lparr>rd_source_id = so_source_id s, rd_disposition = disp, rd_refresh_need = need_of needs s,
                     rd_reason = reason, rd_request = request\<rparr>
            in rbind (check_decision r) (\<lambda>_. Inr r))
      in if so_source_id s \<in> set selected then
           (case demand of
              None \<Rightarrow> Inl (AssertionError ''selected refresh source requires awareness demand'')
            | Some d \<Rightarrow>
                rbind (create_request b
                  \<lparr>rr_id = [], rr_source_id = so_source_id s,
                   rr_reason = ''insufficient decision-relevant freshness or confidence'',
                   rr_desired_freshness = dm_required_freshness d,
                   rr_desired_confidence = dm_required_confidence d,
                   rr_priority = need_of needs s, rr_max_cost = so_refresh_cost s,
                   rr_created_at = created_at\<rparr>) (\<lambda>q.
                build REFRESH ''epistemic coverage is below the decision threshold'' (Some q)))
         else (case demand of
              None \<Rightarrow> build ACCEPT_EXISTING ''source is not relevant to the current decision'' None
            | Some d \<Rightarrow>
                if demand_importance d < relevance_floor
                then build ACCEPT_EXISTING ''source is not relevant to the current decision'' None
                else if dm_required_freshness d \<le> the (map_of freshness (so_source_id s)) \<and>
                     dm_required_confidence d \<le> so_confidence s
                then build ACCEPT_EXISTING ''existing source state is sufficiently fresh'' None
                else build DEFER ''observation budget exhausted'' None))"

definition reconcile ::
  "builtins \<Rightarrow> pyfloat \<Rightarrow> source_state list \<Rightarrow> awareness_demand list \<Rightarrow> (string \<times> pyfloat) list \<Rightarrow>
   observation_budget \<Rightarrow> datetime \<Rightarrow> reconciliation_plan result" where
  "reconcile b relevance_floor states demands freshness budget created_at =
     rbind (raise_first
       [(is_naive created_at, ValueError ''wake reconciliation time must be timezone-aware''),
        (\<not> distinct (map so_source_id states), ValueError ''wake reconciliation source ids must be unique''),
        (\<not> distinct (map dm_source_id demands),
         ValueError ''wake reconciliation demand source ids must be unique''),
        (\<not> set (map dm_source_id demands) \<subseteq> set (map so_source_id states),
         ValueError ''wake reconciliation demands reference unknown sources''),
        (\<not> set (map dm_source_id demands) \<subseteq> set (map fst freshness),
         ValueError ''wake reconciliation demands lack freshness estimates'')]) (\<lambda>_.
     rbind (source_needs states demands freshness) (\<lambda>needs.
     let candidates = py_sorted (candidate_before needs) (filter (is_candidate relevance_floor demands freshness) states);
         (selected, remaining) = select_refreshes (ob_max_sources budget) candidates [] (ob_max_cost budget)
     in rbind (mapM (decide b relevance_floor demands freshness needs selected created_at)
          (sort_key so_source_id states)) (\<lambda>decisions.
        let p = \<lparr>rp_decisions = decisions, rp_total_cost = ob_max_cost budget - remaining\<rparr>
        in rbind (check_reconciliation_plan p) (\<lambda>_. Inr p))))"

definition mark_unavailable :: "reconciliation_decision \<Rightarrow> reconciliation_decision result" where
  "mark_unavailable r =
     (let r' = \<lparr>rd_source_id = rd_source_id r, rd_disposition = MARK_UNCERTAIN,
                rd_refresh_need = rd_refresh_need r,
                rd_reason = ''source unavailable; existing state remains stale'', rd_request = None\<rparr>
      in rbind (check_decision r') (\<lambda>_. Inr r'))"

subsection \<open>The orientation barrier\<close>

record barrier_decision =
  bd_action_id :: string
  bd_would_block :: bool
  bd_missing :: "prerequisite list"
  bd_shadow :: bool

definition satisfies :: "prerequisite \<Rightarrow> awareness_coverage \<Rightarrow> bool" where
  "satisfies p a = (case coverage_get a (pq_source_id p) of None \<Rightarrow> False
     | Some c \<Rightarrow> pq_minimum_freshness p \<le> cv_freshness c \<and> pq_minimum_confidence p \<le> cv_confidence c)"

definition barrier_evaluate ::
  "string \<Rightarrow> prerequisite list \<Rightarrow> awareness_coverage \<Rightarrow> barrier_decision result" where
  "barrier_evaluate action_id prerequisites coverage =
     (if blank action_id then Inl (ValueError ''orientation barrier action id must be non-empty'')
      else let missing = filter (\<lambda>p. \<not> satisfies p coverage) prerequisites
        in Inr \<lparr>bd_action_id = action_id, bd_would_block = (missing \<noteq> []), bd_missing = missing,
                bd_shadow = True\<rparr>)"

end
