(* ===== verification/ReconciliationProperties.thy ===== *)
theory ReconciliationProperties
  imports Reconciliation "HOL-Library.Sublist"
begin

section \<open>What a reconciliation plan guarantees\<close>

text \<open>
  The lemmas behind the properties of \<open>WakeReconciler.plan\<close>, then the properties of continuity: the plan's
  decisions and budget, freshness and its horizon, and the history that the continuity projection keeps.
\<close>

lemma by_source_Some: "by_source f xs k = Some x \<Longrightarrow> x \<in> set xs \<and> f x = k"
  by (auto simp: by_source_def dest: map_of_SomeD)

lemma by_source_None: "by_source f xs k = None \<longleftrightarrow> k \<notin> f ` set xs"
  by (simp add: by_source_def map_of_eq_None_iff image_comp comp_def)

lemma by_source_distinct:
  "distinct (map f xs) \<Longrightarrow> x \<in> set xs \<Longrightarrow> by_source f xs (f x) = Some x"
  unfolding by_source_def by (rule map_of_is_SomeI) (auto simp: comp_def)

lemma subseq_subset: "subseq xs ys \<Longrightarrow> set xs \<subseteq> set ys"
  by (auto elim: list_emb_set)

subsection \<open>The selection\<close>

definition paid :: "source_state list \<Rightarrow> real" where
  "paid ss = sum_list (map (\<lambda>s. real_of (so_refresh_cost s)) ss)"

definition priced :: "source_state \<Rightarrow> bool" where
  "priced s \<longleftrightarrow> fin (so_refresh_cost s) \<and> \<not> so_refresh_cost s < 0"

lemma priced_cost: "priced s \<Longrightarrow> so_refresh_cost s = Fin (real_of (so_refresh_cost s)) \<and> 0 \<le> real_of (so_refresh_cost s)"
  by (auto simp: priced_def pyfloat_zero_one elim!: fin_cases)

lemma select_refreshes_spec:
  assumes "\<forall>s\<in>set cs. priced s" "0 \<le> r0"
  shows "\<exists>chosen r. select_refreshes k cs sel (Fin r0) = (sel @ map so_source_id chosen, Fin r) \<and>
    subseq chosen cs \<and> 0 \<le> r \<and> r0 = r + paid chosen \<and>
    int (length sel + length chosen) \<le> max k (int (length sel)) \<and>
    (\<forall>s\<in>set cs. s \<notin> set chosen \<longrightarrow> k \<le> int (length sel + length chosen) \<or> Fin r < so_refresh_cost s)"
  using assms
proof (induction cs arbitrary: sel r0)
  case Nil
  then show ?case by (intro exI [of _ "[]"]) (simp add: paid_def)
next
  case (Cons s ss)
  let ?c = "real_of (so_refresh_cost s)"
  from Cons.prems priced_cost have c: "so_refresh_cost s = Fin ?c" "0 \<le> ?c" by auto
  consider (full) "k \<le> int (length sel)" | (skip) "\<not> k \<le> int (length sel)" "r0 < ?c"
    | (take) "\<not> k \<le> int (length sel)" "?c \<le> r0" by linarith
  then show ?case
  proof cases
    case full
    with Cons.prems show ?thesis by (intro exI [of _ "[]"]) (simp add: paid_def)
  next
    case skip
    obtain chosen r where IH: "select_refreshes k ss sel (Fin r0) = (sel @ map so_source_id chosen, Fin r)"
      "subseq chosen ss" "0 \<le> r" "r0 = r + paid chosen"
      "int (length sel + length chosen) \<le> max k (int (length sel))"
      "\<forall>s\<in>set ss. s \<notin> set chosen \<longrightarrow> k \<le> int (length sel + length chosen) \<or> Fin r < so_refresh_cost s"
      using Cons.IH [of r0 sel] Cons.prems by auto
    have "0 \<le> paid chosen"
      using Cons.prems(1) subseq_subset [OF IH(2)] unfolding paid_def
      by (intro sum_list_nonneg) (auto intro!: priced_cost [THEN conjunct2])
    then have "Fin r < so_refresh_cost s" using skip(2) IH(4) by (subst c) simp
    moreover have "select_refreshes k (s # ss) sel (Fin r0) = select_refreshes k ss sel (Fin r0)"
      using skip by (subst select_refreshes.simps, subst c) simp
    ultimately show ?thesis
      using IH by (intro exI [of _ chosen] exI [of _ r]) auto
  next
    case take
    obtain chosen r where IH: "select_refreshes k ss (sel @ [so_source_id s]) (Fin (r0 - ?c)) =
        ((sel @ [so_source_id s]) @ map so_source_id chosen, Fin r)"
      "subseq chosen ss" "0 \<le> r" "r0 - ?c = r + paid chosen"
      "int (length (sel @ [so_source_id s]) + length chosen) \<le> max k (int (length (sel @ [so_source_id s])))"
      "\<forall>t\<in>set ss. t \<notin> set chosen \<longrightarrow>
        k \<le> int (length (sel @ [so_source_id s]) + length chosen) \<or> Fin r < so_refresh_cost t"
      using Cons.IH [of "r0 - ?c" "sel @ [so_source_id s]"] Cons.prems take(2) by auto
    moreover have "select_refreshes k (s # ss) sel (Fin r0) =
        select_refreshes k ss (sel @ [so_source_id s]) (Fin (r0 - ?c))"
      using take c(2) by (subst select_refreshes.simps, subst (1 2) c) simp
    ultimately show ?thesis
      using take by (intro exI [of _ "s # chosen"] exI [of _ r]) (auto simp: paid_def)
  qed
qed

subsection \<open>The decisions\<close>

definition valid_inputs :: "source_state list \<Rightarrow> awareness_demand list \<Rightarrow> observation_budget \<Rightarrow> pyfloat \<Rightarrow> bool" where
  "valid_inputs states demands budget relevance_floor \<longleftrightarrow>
     (\<forall>s\<in>set states. check_source s = Inr ()) \<and> (\<forall>d\<in>set demands. check_demand d = Inr ()) \<and>
     check_observation_budget budget = Inr () \<and> check_reconciler relevance_floor = Inr ()"

text \<open>The conditions under which a plan exists.\<close>

definition reconcilable ::
  "source_state list \<Rightarrow> awareness_demand list \<Rightarrow> (string \<times> pyfloat) list \<Rightarrow> datetime \<Rightarrow> bool" where
  "reconcilable states demands freshness created_at \<longleftrightarrow>
     is_aware created_at \<and> distinct (map so_source_id states) \<and> distinct (map dm_source_id demands) \<and>
     dm_source_id ` set demands \<subseteq> so_source_id ` set states \<and>
     (\<forall>d\<in>set demands. \<exists>x. map_of freshness (dm_source_id d) = Some x \<and> unit_interval x)"

lemma importance_fin: "check_demand d = Inr () \<Longrightarrow> unit_interval (demand_importance d)"
  using check_demand_facts by (simp add: demand_importance_def fin_times)

lemma not_less_pyfloat: "fin x \<Longrightarrow> fin y \<Longrightarrow> \<not> x < y \<longleftrightarrow> y \<le> x"
  by (auto elim!: fin_cases)

lemma source_needs_value:
  assumes "source_needs states demands freshness = Inr needs" "distinct (map so_source_id states)" "s \<in> set states"
  shows "(case by_source dm_source_id demands (so_source_id s) of
      Some d \<Rightarrow> refresh_need s d (the (map_of freshness (so_source_id s))) | None \<Rightarrow> Inr 0) = Inr (need_of needs s)"
  using assms unfolding source_needs_def need_of_def
proof (induction states arbitrary: needs)
  case (Cons t ts)
  then obtain x ns where x: "(case by_source dm_source_id demands (so_source_id t) of
      Some d \<Rightarrow> refresh_need t d (the (map_of freshness (so_source_id t))) | None \<Rightarrow> Inr 0) = Inr x"
    "needs = (so_source_id t, x) # ns" and rest: "mapM (\<lambda>s.
     rbind (case by_source dm_source_id demands (so_source_id s) of
         Some d \<Rightarrow> refresh_need s d (the (map_of freshness (so_source_id s)))
       | None \<Rightarrow> Inr 0) (\<lambda>need. Inr (so_source_id s, need))) ts = Inr ns"
    by (auto simp: rbind_Inr_iff)
  show ?case
  proof (cases "s = t")
    case True
    show ?thesis unfolding True using x by simp
  next
    case False
    with Cons.prems(2,3) have "s \<in> set ts" "so_source_id s \<noteq> so_source_id t"
      by (auto simp: image_iff)
    with Cons.IH [OF rest] Cons.prems x(2) show ?thesis by simp
  qed
qed simp

lemma decide_cases:
  assumes "decide b relevance_floor demands freshness needs selected created s = Inr r"
  shows "rd_source_id r = so_source_id s" "rd_refresh_need r = need_of needs s" "check_decision r = Inr ()"
    "rd_disposition r = REFRESH \<longleftrightarrow> so_source_id s \<in> set selected"
    "rd_disposition r = REFRESH \<Longrightarrow> \<exists>q. rd_request r = Some q \<and> rr_source_id q = so_source_id s \<and>
       rr_max_cost q = so_refresh_cost s \<and> request_ok b q"
    "rd_disposition r \<noteq> REFRESH \<Longrightarrow> rd_request r = None"
    "rd_disposition r \<noteq> MARK_UNCERTAIN"
    "rd_disposition r = DEFER \<Longrightarrow> \<exists>d. by_source dm_source_id demands (so_source_id s) = Some d \<and>
       \<not> demand_importance d < relevance_floor \<and>
       \<not> (dm_required_freshness d \<le> the (map_of freshness (so_source_id s)) \<and>
          dm_required_confidence d \<le> so_confidence s)"
    "rd_disposition r = ACCEPT_EXISTING \<Longrightarrow> (\<forall>d. by_source dm_source_id demands (so_source_id s) = Some d \<longrightarrow>
       demand_importance d < relevance_floor \<or>
       dm_required_freshness d \<le> the (map_of freshness (so_source_id s)) \<and>
       dm_required_confidence d \<le> so_confidence s)"
  using assms
  by (auto simp: decide_def Let_def rbind_Inr_iff create_request_def request_ok_def request_identity_def
      simp del: raise_first_ok split: option.splits if_splits)

text \<open>The requests of a plan are the selected states, in the order of identifiers.\<close>

lemma decided_requests:
  assumes "list_all2 (\<lambda>s r. decide b relevance_floor demands freshness needs selected created s = Inr r) ss rs"
  shows "map rd_source_id rs = map so_source_id ss \<and>
    map rr_max_cost (List.map_filter rd_request rs) =
      map so_refresh_cost (filter (\<lambda>s. so_source_id s \<in> set selected) ss)"
  using assms
proof (induction rule: list_all2_induct)
  case (Cons s ss r rs)
  note d = decide_cases [OF Cons(1)]
  show ?case
  proof (cases "so_source_id s \<in> set selected")
    case True
    then obtain q where "rd_request r = Some q" "rr_max_cost q = so_refresh_cost s"
      using d(4,5) by blast
    with True Cons.IH d(1) show ?thesis by (simp add: List.map_filter_simps)
  next
    case False
    with d(4,6) have "rd_request r = None" by blast
    with False Cons.IH d(1) show ?thesis by (simp add: List.map_filter_simps)
  qed
qed (simp add: List.map_filter_simps)

definition selection ::
  "pyfloat \<Rightarrow> source_state list \<Rightarrow> awareness_demand list \<Rightarrow> (string \<times> pyfloat) list \<Rightarrow> observation_budget \<Rightarrow>
   (string \<times> pyfloat) list \<Rightarrow> string list \<times> pyfloat" where
  "selection relevance_floor states demands freshness budget needs =
     select_refreshes (ob_max_sources budget)
       (py_sorted (candidate_before needs) (filter (is_candidate relevance_floor demands freshness) states))
       [] (ob_max_cost budget)"

lemma reconcile_Inr_iff:
  "reconcile b relevance_floor states demands freshness budget created = Inr p \<longleftrightarrow>
     is_aware created \<and> distinct (map so_source_id states) \<and> distinct (map dm_source_id demands) \<and>
     dm_source_id ` set demands \<subseteq> so_source_id ` set states \<and> dm_source_id ` set demands \<subseteq> fst ` set freshness \<and>
     (\<exists>needs. source_needs states demands freshness = Inr needs \<and>
        mapM (decide b relevance_floor demands freshness needs
          (fst (selection relevance_floor states demands freshness budget needs)) created)
          (sort_key so_source_id states) = Inr (rp_decisions p) \<and>
        rp_total_cost p = ob_max_cost budget - snd (selection relevance_floor states demands freshness budget needs) \<and>
        check_reconciliation_plan p = Inr ())"
  unfolding reconcile_def Let_def selection_def [symmetric] case_prod_unfold
  by (cases p) (auto simp: rbind_Inr_iff raise_first_no_errors simp del: raise_first_ok)

lemma valid_inputs_facts:
  assumes "valid_inputs states demands budget relevance_floor"
  shows "\<forall>s\<in>set states. priced s" "\<exists>m\<ge>0. ob_max_cost budget = Fin m" "0 \<le> ob_max_sources budget"
    "fin relevance_floor"
proof -
  show "\<forall>s\<in>set states. priced s"
    using assms check_source_facts(5,6) by (auto simp: valid_inputs_def priced_def)
  have "fin (ob_max_cost budget)" "\<not> ob_max_cost budget < 0"
    using assms by (auto simp: valid_inputs_def check_observation_budget_def raise_first_no_errors simp del: raise_first_ok)
  then show "\<exists>m\<ge>0. ob_max_cost budget = Fin m"
    by (auto simp: pyfloat_zero_one not_less elim!: fin_cases)
  show "0 \<le> ob_max_sources budget"
    using assms by (auto simp: valid_inputs_def check_observation_budget_def raise_first_no_errors simp del: raise_first_ok)
  show "fin relevance_floor"
    using assms by (cases relevance_floor) (auto simp: valid_inputs_def check_reconciler_def pyfloat_zero_one)
qed

text \<open>The selection of a plan as a set of states.\<close>

lemma reconcile_selection:
  assumes "valid_inputs states demands budget relevance_floor" "distinct (map so_source_id states)"
    and "selection relevance_floor states demands freshness budget needs = (selected, remaining)"
  shows "\<exists>m r. ob_max_cost budget = Fin m \<and> remaining = Fin r \<and> 0 \<le> r \<and>
      m = r + paid (filter (\<lambda>s. so_source_id s \<in> set selected) (sort_key so_source_id states)) \<and>
      int (length (filter (\<lambda>s. so_source_id s \<in> set selected) (sort_key so_source_id states))) \<le> ob_max_sources budget \<and>
      length selected = length (filter (\<lambda>s. so_source_id s \<in> set selected) (sort_key so_source_id states)) \<and>
      (\<forall>s\<in>set states. so_source_id s \<in> set selected \<longrightarrow> is_candidate relevance_floor demands freshness s) \<and>
      (\<forall>s\<in>set states. is_candidate relevance_floor demands freshness s \<longrightarrow> so_source_id s \<notin> set selected \<longrightarrow>
         ob_max_sources budget \<le> int (length selected) \<or> Fin r < so_refresh_cost s)"
proof -
  let ?cs = "py_sorted (candidate_before needs) (filter (is_candidate relevance_floor demands freshness) states)"
  let ?F = "filter (\<lambda>s. so_source_id s \<in> set selected) (sort_key so_source_id states)"
  obtain m where m: "ob_max_cost budget = Fin m" "0 \<le> m"
    using valid_inputs_facts(2) [OF assms(1)] by blast
  have "\<forall>s\<in>set ?cs. priced s"
    using valid_inputs_facts(1) [OF assms(1)] by simp
  from select_refreshes_spec [OF this m(2), of "ob_max_sources budget" "[]"] assms(3) [unfolded selection_def] m(1)
  obtain chosen r where c: "selected = map so_source_id chosen" "remaining = Fin r" "subseq chosen ?cs" "0 \<le> r"
      "m = r + paid chosen" "int (length chosen) \<le> max (ob_max_sources budget) 0"
      "\<forall>s\<in>set ?cs. s \<notin> set chosen \<longrightarrow> ob_max_sources budget \<le> int (length chosen) \<or> Fin r < so_refresh_cost s"
    by auto
  have inj: "inj_on so_source_id (set states)" and dist: "distinct states"
    using assms(2) by (auto simp: distinct_map)
  have sub: "set chosen \<subseteq> {s \<in> set states. is_candidate relevance_floor demands freshness s}"
    using subseq_subset [OF c(3)] by auto
  have mem: "so_source_id s \<in> set selected \<longleftrightarrow> s \<in> set chosen" if "s \<in> set states" for s
    using that inj sub c(1) by (auto simp: inj_on_def)
  have "distinct ?cs" using dist by simp
  have dc: "distinct chosen"
    by (rule subseqs_distinctD [OF _ \<open>distinct ?cs\<close>]) (use c(3) in simp)
  have set: "set ?F = set chosen" using mem sub by auto
  have dF: "distinct ?F" using dist by simp
  have "length ?F = length chosen"
    using set dF dc by (metis distinct_card)
  moreover have "paid ?F = paid chosen"
    using set dF dc by (simp add: paid_def sum_list_distinct_conv_sum_set del: set_filter)
  ultimately show ?thesis
    using m c(1,2,4-7) mem sub valid_inputs_facts(3) [OF assms(1)] by auto
qed

text \<open>The bounds of a plan, and its decisions.\<close>

lemma py_sum_fins:
  assumes "\<forall>x\<in>set xs. fin (f x)"
  shows "py_sum (map f xs) = Fin (sum_list (map (\<lambda>x. real_of (f x)) xs))"
proof -
  have "map f xs = map Fin (map (\<lambda>x. real_of (f x)) xs)"
    using assms by (auto simp: fin_iff [symmetric] elim!: fin_cases)
  then show ?thesis by (simp add: py_sum_Fin del: py_sum.simps map_map)
qed

lemma plan_bounds:
  assumes "valid_inputs states demands budget relevance_floor"
    and "reconcile b relevance_floor states demands freshness budget created = Inr p"
  shows "map rd_source_id (rp_decisions p) = sort (map so_source_id states) \<and>
    int (length (plan_requests p)) \<le> ob_max_sources budget \<and>
    rp_total_cost p = py_sum (map rr_max_cost (plan_requests p)) \<and>
    rp_total_cost p \<le> ob_max_cost budget"
proof -
  obtain needs where n: "distinct (map so_source_id states)"
      "mapM (decide b relevance_floor demands freshness needs
         (fst (selection relevance_floor states demands freshness budget needs)) created)
         (sort_key so_source_id states) = Inr (rp_decisions p)"
      "rp_total_cost p = ob_max_cost budget - snd (selection relevance_floor states demands freshness budget needs)"
    using assms(2) unfolding reconcile_Inr_iff by blast
  obtain selected remaining where sel: "selection relevance_floor states demands freshness budget needs = (selected, remaining)"
    by (cases "selection relevance_floor states demands freshness budget needs")
  let ?F = "filter (\<lambda>s. so_source_id s \<in> set selected) (sort_key so_source_id states)"
  obtain m r where mr: "ob_max_cost budget = Fin m" "remaining = Fin r" "0 \<le> r" "m = r + paid ?F"
      "int (length ?F) \<le> ob_max_sources budget"
    using reconcile_selection [OF assms(1) n(1) sel] by blast
  have rs: "map rd_source_id (rp_decisions p) = map so_source_id (sort_key so_source_id states)"
      "map rr_max_cost (plan_requests p) = map so_refresh_cost ?F"
    using decided_requests n(2) unfolding mapM_Inr_iff sel plan_requests_def by fastforce+
  have len: "length (plan_requests p) = length ?F"
    using rs(2) by (metis length_map)
  have "\<forall>s\<in>set ?F. fin (so_refresh_cost s)"
    using valid_inputs_facts(1) [OF assms(1)] by (simp add: priced_def)
  then have "py_sum (map rr_max_cost (plan_requests p)) = Fin (paid ?F)"
    unfolding rs(2) paid_def by (rule py_sum_fins)
  moreover have "sort (map so_source_id states) = map so_source_id (sort_key so_source_id states)"
    by (rule sorted_distinct_set_unique) (use n(1) in \<open>simp_all add: distinct_map\<close>)
  ultimately show ?thesis
    using mr rs(1) len n(3) by (simp add: sel)
qed

lemma candidate_iff:
  assumes "check_source s = Inr ()" "check_demand d = Inr ()" "fin relevance_floor" "fin x"
  shows "relevant relevance_floor d \<and> insufficient s d x \<longleftrightarrow> \<not> demand_importance d < relevance_floor \<and>
    \<not> (dm_required_freshness d \<le> x \<and> dm_required_confidence d \<le> so_confidence s)"
  using importance_fin [OF assms(2)] check_source_facts(4) [OF assms(1)] check_demand_facts(3,4) [OF assms(2)] assms(3,4)
  by (auto simp: relevant_def insufficient_def unit_interval_iff elim!: fin_cases)

text \<open>Which states are refreshed, deferred and accepted.\<close>

lemma plan_choices:
  assumes "valid_inputs states demands budget relevance_floor"
    and "reconcile b relevance_floor states demands freshness budget created = Inr p"
    and "r \<in> set (rp_decisions p)" "s \<in> set states" "so_source_id s = rd_source_id r"
  shows "(rd_disposition r = ACCEPT_EXISTING \<longleftrightarrow> \<not> is_candidate relevance_floor demands freshness s) \<and>
    (rd_disposition r = REFRESH \<or> rd_disposition r = DEFER \<longleftrightarrow> is_candidate relevance_floor demands freshness s) \<and>
    (rd_disposition r = DEFER \<longrightarrow> ob_max_sources budget \<le> int (length (plan_requests p)) \<or>
       ob_max_cost budget < rp_total_cost p + so_refresh_cost s)"
proof -
  obtain needs where n: "distinct (map so_source_id states)" "source_needs states demands freshness = Inr needs"
      "mapM (decide b relevance_floor demands freshness needs
         (fst (selection relevance_floor states demands freshness budget needs)) created)
         (sort_key so_source_id states) = Inr (rp_decisions p)"
      "rp_total_cost p = ob_max_cost budget - snd (selection relevance_floor states demands freshness budget needs)"
    using assms(2) unfolding reconcile_Inr_iff by blast
  obtain selected remaining where sel: "selection relevance_floor states demands freshness budget needs = (selected, remaining)"
    by (cases "selection relevance_floor states demands freshness budget needs")
  let ?F = "filter (\<lambda>s. so_source_id s \<in> set selected) (sort_key so_source_id states)"
  obtain m r' where mr: "ob_max_cost budget = Fin m" "remaining = Fin r'" "length selected = length ?F"
      "\<forall>s\<in>set states. so_source_id s \<in> set selected \<longrightarrow> is_candidate relevance_floor demands freshness s"
      "\<forall>s\<in>set states. is_candidate relevance_floor demands freshness s \<longrightarrow> so_source_id s \<notin> set selected \<longrightarrow>
         ob_max_sources budget \<le> int (length selected) \<or> Fin r' < so_refresh_cost s"
    using reconcile_selection [OF assms(1) n(1) sel] by blast
  have "map rr_max_cost (plan_requests p) = map so_refresh_cost ?F"
    using decided_requests n(3) unfolding mapM_Inr_iff sel plan_requests_def by fastforce
  then have len: "length (plan_requests p) = length selected"
    using mr(3) by (metis length_map)
  obtain t where t: "t \<in> set states" "decide b relevance_floor demands freshness needs selected created t = Inr r"
    using mapM_mem [OF n(3) assms(3)] sel by auto
  have "so_source_id t = so_source_id s"
    using decide_cases(1) [OF t(2)] assms(5) by simp
  then have ts: "t = s"
    using n(1) t(1) assms(4) by (auto simp: distinct_map inj_on_def)
  note d = decide_cases [OF t(2) [unfolded ts]]
  have cand: "is_candidate relevance_floor demands freshness s \<longleftrightarrow>
      (\<exists>d. by_source dm_source_id demands (so_source_id s) = Some d \<and> \<not> demand_importance d < relevance_floor \<and>
        \<not> (dm_required_freshness d \<le> the (map_of freshness (so_source_id s)) \<and>
           dm_required_confidence d \<le> so_confidence s))"
  proof (cases "by_source dm_source_id demands (so_source_id s)")
    case None
    then show ?thesis by (simp add: is_candidate_def)
  next
    case (Some d)
    have d: "check_demand d = Inr ()" "check_source s = Inr ()" "so_source_id s = dm_source_id d"
      using by_source_Some [OF Some] assms(1,4) by (auto simp: valid_inputs_def)
    have "refresh_need s d (the (map_of freshness (so_source_id s))) = Inr (need_of needs s)"
      using source_needs_value [OF n(2,1) assms(4)] Some by simp
    then have "fin (the (map_of freshness (so_source_id s)))"
      by (auto simp: refresh_need_def unit_interval_fin split: if_splits)
    then show ?thesis
      using candidate_iff [OF d(2,1) valid_inputs_facts(4) [OF assms(1)]] Some
      by (simp add: is_candidate_def)
  qed
  show ?thesis
  proof (cases "rd_disposition r")
    case REFRESH
    with d(4) mr(4) assms(4) show ?thesis by simp
  next
    case ACCEPT_EXISTING
    with d(9) cand show ?thesis by auto
  next
    case MARK_UNCERTAIN
    with d(7) show ?thesis by simp
  next
    case DEFER
    with d(8) cand have c: "is_candidate relevance_floor demands freshness s" by auto
    moreover have "so_source_id s \<notin> set selected" using d(4) DEFER by simp
    ultimately have "ob_max_sources budget \<le> int (length selected) \<or> Fin r' < so_refresh_cost s"
      using mr(5) assms(4) by blast
    moreover have "fin (so_refresh_cost s)"
      using valid_inputs_facts(1) [OF assms(1)] assms(4) by (simp add: priced_def)
    ultimately show ?thesis
      using DEFER c len mr(1,2) n(4) by (auto simp: sel elim!: fin_cases)
  qed
qed

text \<open>When a plan exists.\<close>

lemma mapM_total: "(\<And>x. x \<in> set xs \<Longrightarrow> \<exists>y. f x = Inr y) \<Longrightarrow> \<exists>ys. mapM f xs = Inr ys"
proof (induction xs)
  case (Cons x xs)
  obtain y where "f x = Inr y" using Cons.prems by auto
  moreover obtain ys where "mapM f xs = Inr ys" using Cons by auto
  ultimately show ?case by simp
qed simp

lemma needs_exist:
  assumes "valid_inputs states demands budget relevance_floor" "reconcilable states demands freshness created"
  shows "\<exists>needs. source_needs states demands freshness = Inr needs"
  unfolding source_needs_def
proof (rule mapM_total)
  fix s assume s: "s \<in> set states"
  show "\<exists>y. rbind (case by_source dm_source_id demands (so_source_id s) of
         Some d \<Rightarrow> refresh_need s d (the (map_of freshness (so_source_id s)))
       | None \<Rightarrow> Inr 0) (\<lambda>need. Inr (so_source_id s, need)) = Inr y"
  proof (cases "by_source dm_source_id demands (so_source_id s)")
    case (Some d)
    have d: "d \<in> set demands" "dm_source_id d = so_source_id s" using by_source_Some [OF Some] by simp_all
    have "\<forall>d\<in>set demands. \<exists>x. map_of freshness (dm_source_id d) = Some x \<and> unit_interval x"
      using assms(2) by (simp add: reconcilable_def)
    with d(1) obtain x where "map_of freshness (dm_source_id d) = Some x" "unit_interval x" by blast
    with d(2) show ?thesis by (simp add: Some refresh_need_def Let_def)
  qed simp
qed

lemma need_bounds:
  assumes "valid_inputs states demands budget relevance_floor" "distinct (map so_source_id states)"
    and "source_needs states demands freshness = Inr needs" "s \<in> set states"
  shows "unit_interval (need_of needs s)"
proof (cases "by_source dm_source_id demands (so_source_id s)")
  case None
  with source_needs_value [OF assms(3,2,4)] have "need_of needs s = 0" by simp
  then show ?thesis by (simp add: unit_interval_iff pyfloat_zero_one)
next
  case (Some d)
  let ?x = "the (map_of freshness (so_source_id s))"
  have need: "refresh_need s d ?x = Inr (need_of needs s)"
    using source_needs_value [OF assms(3,2,4)] Some by simp
  then have "so_source_id s = dm_source_id d" "unit_interval ?x"
    by (auto simp: refresh_need_def split: if_splits)
  moreover have "check_source s = Inr ()" "check_demand d = Inr ()"
    using by_source_Some [OF Some] assms(1,4) by (auto simp: valid_inputs_def)
  ultimately obtain x where "refresh_need s d ?x = Inr (Fin x)" "0 \<le> x" "x \<le> 1"
    using refresh_need_value by blast
  with need have "need_of needs s = Fin x" by simp
  with \<open>0 \<le> x\<close> \<open>x \<le> 1\<close> show ?thesis by (simp add: unit_interval_iff)
qed

lemma check_source_text: "check_source s = Inr () \<Longrightarrow> \<not> blank (so_source_id s)"
  by (rule check_source_facts)

lemma decision_exists:
  assumes "\<not> blank (so_source_id s)" "unit_interval (need_of needs s)" "priced s" "is_aware created"
    and "so_source_id s \<in> set selected \<Longrightarrow> \<exists>d. by_source dm_source_id demands (so_source_id s) = Some d \<and>
      check_demand d = Inr ()"
  shows "\<exists>r. decide b relevance_floor demands freshness needs selected created s = Inr r"
proof (cases "so_source_id s \<in> set selected")
  case True
  then obtain d where d: "by_source dm_source_id demands (so_source_id s) = Some d" "check_demand d = Inr ()"
    using assms(5) by blast
  note f = check_demand_facts(3,4) [OF d(2)]
  define q where "q = \<lparr>rr_id = [], rr_source_id = so_source_id s,
     rr_reason = ''insufficient decision-relevant freshness or confidence'',
     rr_desired_freshness = dm_required_freshness d, rr_desired_confidence = dm_required_confidence d,
     rr_priority = need_of needs s, rr_max_cost = so_refresh_cost s, rr_created_at = created\<rparr>"
  have "json_finite (JObj (request_identity q))"
    using f assms(2,3) by (simp add: q_def request_identity_def unit_interval_fin priced_def)
  then obtain i where i: "canonical_id b ''refresh-request'' (request_identity q) = Inr (''refresh-request:'' @ i)"
    by (simp add: canonical_id_def)
  have "check_refresh_request (q\<lparr>rr_id := ''refresh-request:'' @ i\<rparr>) = Inr ()"
    using f assms(1-4) by (simp add: q_def check_refresh_request_def raise_first_no_errors priced_def is_space_def
        del: raise_first_ok)
  with i have "create_request b q = Inr (q\<lparr>rr_id := ''refresh-request:'' @ i\<rparr>)"
    by (simp add: create_request_def)
  then have "\<exists>q'. create_request b q = Inr q' \<and> rr_source_id q' = so_source_id s"
    by (auto simp: q_def)
  with True d(1) assms(1,2) show ?thesis
    by (auto simp: decide_def Let_def q_def check_decision_def raise_first_no_errors is_space_def rbind_Inr_iff
        simp del: raise_first_ok)
next
  case False
  with assms(1,2) show ?thesis
    by (auto simp: decide_def Let_def check_decision_def raise_first_no_errors is_space_def rbind_Inr_iff
        simp del: raise_first_ok split: option.splits)
qed

lemma candidate_demand:
  assumes "is_candidate relevance_floor demands freshness s"
  shows "\<exists>d\<in>set demands. by_source dm_source_id demands (so_source_id s) = Some d"
proof (cases "by_source dm_source_id demands (so_source_id s)")
  case None
  with assms show ?thesis by (simp add: is_candidate_def)
next
  case (Some d)
  then show ?thesis using by_source_Some [OF Some] by blast
qed

lemma reconcile_defined:
  assumes valid: "valid_inputs states demands budget relevance_floor"
    and rec: "reconcilable states demands freshness created"
  shows "\<exists>p. reconcile b relevance_floor states demands freshness budget created = Inr p"
proof -
  obtain needs where needs: "source_needs states demands freshness = Inr needs"
    using needs_exist [OF assms] by blast
  have dist: "distinct (map so_source_id states)" using rec by (simp add: reconcilable_def)
  let ?S = "selection relevance_floor states demands freshness budget needs"
  obtain selected remaining where sel: "?S = (selected, remaining)" by (cases ?S)
  let ?F = "filter (\<lambda>s. so_source_id s \<in> set selected) (sort_key so_source_id states)"
  obtain m r where mr: "ob_max_cost budget = Fin m" "remaining = Fin r" "m = r + paid ?F"
      "\<forall>s\<in>set states. so_source_id s \<in> set selected \<longrightarrow> is_candidate relevance_floor demands freshness s"
    using reconcile_selection [OF valid dist sel] by blast
  have "\<exists>rs. mapM (decide b relevance_floor demands freshness needs selected created)
      (sort_key so_source_id states) = Inr rs"
  proof (rule mapM_total, rule decision_exists)
    fix s assume s: "s \<in> set (sort_key so_source_id states)"
    then show "\<not> blank (so_source_id s)" "unit_interval (need_of needs s)" "priced s"
      using valid check_source_text need_bounds [OF valid dist needs] valid_inputs_facts(1) [OF valid]
      by (simp_all add: valid_inputs_def)
    show "is_aware created" using rec by (simp add: reconcilable_def)
    assume "so_source_id s \<in> set selected"
    then have "is_candidate relevance_floor demands freshness s" using mr(4) s by simp
    with candidate_demand obtain d where "d \<in> set demands" "by_source dm_source_id demands (so_source_id s) = Some d"
      by blast
    then show "\<exists>d. by_source dm_source_id demands (so_source_id s) = Some d \<and> check_demand d = Inr ()"
      using valid by (auto simp: valid_inputs_def)
  qed
  then obtain rs where rs: "mapM (decide b relevance_floor demands freshness needs selected created)
      (sort_key so_source_id states) = Inr rs" by blast
  let ?p = "\<lparr>rp_decisions = rs, rp_total_cost = ob_max_cost budget - remaining\<rparr>"
  have "map rd_source_id rs = map so_source_id (sort_key so_source_id states)"
    using decided_requests rs unfolding mapM_Inr_iff by fastforce
  then have "distinct (map rd_source_id rs)" using dist by (simp add: distinct_map)
  moreover have "0 \<le> paid ?F"
    using valid_inputs_facts(1) [OF valid] unfolding paid_def
    by (intro sum_list_nonneg) (auto intro!: priced_cost [THEN conjunct2])
  ultimately have "check_reconciliation_plan ?p = Inr ()"
    using mr(1-3) by (simp add: check_reconciliation_plan_def raise_first_no_errors pyfloat_zero_one del: raise_first_ok)
  moreover have "dm_source_id ` set demands \<subseteq> fst ` set freshness"
  proof
    fix k assume "k \<in> dm_source_id ` set demands"
    then obtain x where "map_of freshness k = Some x" using rec by (auto simp: reconcilable_def)
    then show "k \<in> fst ` set freshness" by (force dest: map_of_SomeD)
  qed
  ultimately have "reconcile b relevance_floor states demands freshness budget created = Inr ?p"
    unfolding reconcile_Inr_iff using rec needs rs by (simp add: reconcilable_def sel)
  then show ?thesis by blast
qed

lemma reconcilable_if_defined:
  assumes "reconcile b relevance_floor states demands freshness budget created = Inr p"
  shows "reconcilable states demands freshness created"
proof -
  obtain needs where n: "is_aware created" "distinct (map so_source_id states)" "distinct (map dm_source_id demands)"
      "dm_source_id ` set demands \<subseteq> so_source_id ` set states" "dm_source_id ` set demands \<subseteq> fst ` set freshness"
      "source_needs states demands freshness = Inr needs"
    using assms unfolding reconcile_Inr_iff by blast
  have "\<exists>x. map_of freshness (dm_source_id d) = Some x \<and> unit_interval x" if d: "d \<in> set demands" for d
  proof -
    obtain s where s: "s \<in> set states" "so_source_id s = dm_source_id d"
      using n(4) d by (auto simp: image_iff subset_iff)
    obtain x where x: "map_of freshness (dm_source_id d) = Some x"
      using n(5) d by (cases "map_of freshness (dm_source_id d)") (auto simp: map_of_eq_None_iff)
    have "refresh_need s d x = Inr (need_of needs s)"
      using source_needs_value [OF n(6,2) s(1)] by_source_distinct [OF n(3) d] s(2) x by simp
    then have "unit_interval x" by (simp add: refresh_need_def split: if_splits)
    with x show ?thesis by blast
  qed
  with n show ?thesis by (simp add: reconcilable_def)
qed

subsection \<open>Freshness and its horizon\<close>

lemma fresh_until_Inr:
  assumes "fresh_until m observed hazard minimum = Inr t"
  obtains h q where "hazard = Fin h" "0 \<le> h" "minimum = Fin q" "0 < q" "q < 1" "is_aware observed"
    "h = 0 \<Longrightarrow> instant t = instant observed + 36500 * 24 * 60 * 60 * 1000000"
    "0 < h \<Longrightarrow> instant t = instant observed + round_half_even (of_int (fm_unit m) * (- ln q / h))"
proof -
  have "fin hazard" "\<not> hazard < 0" "0 < minimum" "minimum < 1" "is_aware observed"
    using assms by (auto simp: fresh_until_def rbind_Inr_iff)
  then obtain h q where hq: "hazard = Fin h" "0 \<le> h" "minimum = Fin q" "0 < q" "q < 1" "is_aware observed"
    by (cases minimum) (auto simp: pyfloat_zero_one elim!: fin_cases)
  moreover have "h = 0 \<Longrightarrow> instant t = instant observed + 36500 * 24 * 60 * 60 * 1000000"
    "0 < h \<Longrightarrow> instant t = instant observed + round_half_even (of_int (fm_unit m) * (- ln q / h))"
    using assms hq by (auto simp: fresh_until_def rbind_Inr_iff pyfloat_zero_one)
  ultimately show ?thesis using that by blast
qed

lemma exp_bounds:
  fixes q x :: real
  assumes "0 < q"
  shows "x \<le> - ln q \<Longrightarrow> q \<le> exp (- x)" "- ln q \<le> x \<Longrightarrow> exp (- x) \<le> q"
proof -
  assume "x \<le> - ln q"
  then have "exp (ln q) \<le> exp (- x)" by (subst exp_le_cancel_iff) linarith
  with assms show "q \<le> exp (- x)" by simp
next
  assume "- ln q \<le> x"
  then have "exp (- x) \<le> exp (ln q)" by (subst exp_le_cancel_iff) linarith
  with assms show "exp (- x) \<le> q" by simp
qed

lemma freshness_at:
  assumes "is_aware time" "is_aware (so_last_observed_at s)" "so_change_hazard s = Fin h" "0 \<le> h"
    and "instant (so_last_observed_at s) \<le> instant time"
  shows "source_freshness m s time =
    Inr (Fin (exp (- (h * (of_int (instant time - instant (so_last_observed_at s)) / of_int (fm_unit m))))))"
  using assms
  by (simp add: source_freshness_def dt_minus_def freshness_evaluate_def pyfloat_zero_one del: of_int_diff)

text \<open>The exponent against the horizon, away from the rounding of the last microsecond.\<close>

lemma horizon:
  fixes h u q :: real
  assumes "0 < h" "0 < u"
  shows "of_int e + 1 \<le> (of_int (round_half_even (u * (- ln q / h))) :: real) \<Longrightarrow> h * (of_int e / u) \<le> - ln q"
    "(of_int (round_half_even (u * (- ln q / h))) :: real) + 1 \<le> of_int e \<Longrightarrow> - ln q \<le> h * (of_int e / u)"
proof -
  let ?x = "u * (- ln q / h)"
  have eq: "h * (?x / u) = - ln q" using assms by (simp add: field_simps)
  assume "of_int e + 1 \<le> (of_int (round_half_even ?x) :: real)"
  then have "of_int e \<le> ?x" using round_half_even_le [of ?x] by linarith
  then have "h * (of_int e / u) \<le> h * (?x / u)"
    using assms by (intro mult_left_mono divide_right_mono) simp_all
  then show "h * (of_int e / u) \<le> - ln q" by (simp only: eq)
next
  let ?x = "u * (- ln q / h)"
  have eq: "h * (?x / u) = - ln q" using assms by (simp add: field_simps)
  assume "(of_int (round_half_even ?x) :: real) + 1 \<le> of_int e"
  then have "?x \<le> of_int e" using round_half_even_ge [of ?x] by linarith
  then have "h * (?x / u) \<le> h * (of_int e / u)"
    using assms by (intro mult_left_mono divide_right_mono) simp_all
  then show "- ln q \<le> h * (of_int e / u)" by (simp only: eq)
qed

subsection \<open>Properties\<close>

text \<open>
  C14: WakeReconciler.plan returns a plan for valid sources, demands and budget exactly when the time is
  aware, source and demand identifiers are unique, every demand names a known source, and every demanded
  source has a freshness between zero and one.
\<close>

theorem plan_exists_exactly:
  assumes "valid_inputs states demands budget relevance_floor"
  shows "(\<exists>p. reconcile b relevance_floor states demands freshness budget created = Inr p) \<longleftrightarrow>
    reconcilable states demands freshness created"
  using reconcile_defined [OF assms] reconcilable_if_defined by blast

text \<open>
  C15: A plan has one decision per source, in the order of source identifiers; its refresh requests are at
  most the budget's number of sources, and their costs add up to the plan's total, which the budget's cost
  pays for.
\<close>

theorem plan_within_budget:
  assumes "valid_inputs states demands budget relevance_floor"
    and "reconcile b relevance_floor states demands freshness budget created = Inr p"
  shows "map rd_source_id (rp_decisions p) = sort (map so_source_id states) \<and>
    int (length (plan_requests p)) \<le> ob_max_sources budget \<and>
    rp_total_cost p = py_sum (map rr_max_cost (plan_requests p)) \<and>
    rp_total_cost p \<le> ob_max_cost budget"
  using plan_bounds [OF assms] .

text \<open>
  A plan accepts the existing state of exactly the sources that are not relevant or already fresh and
  certain enough; the others are refreshed or deferred, and one is deferred only when the number of sources
  is used up or its cost exceeds what is left of the budget.
\<close>

theorem plan_defers_only_without_budget:
  assumes "valid_inputs states demands budget relevance_floor"
    and "reconcile b relevance_floor states demands freshness budget created = Inr p"
    and "r \<in> set (rp_decisions p)" "s \<in> set states" "so_source_id s = rd_source_id r"
  shows "(rd_disposition r = ACCEPT_EXISTING \<longleftrightarrow> \<not> is_candidate relevance_floor demands freshness s) \<and>
    (rd_disposition r = REFRESH \<or> rd_disposition r = DEFER \<longleftrightarrow> is_candidate relevance_floor demands freshness s) \<and>
    (rd_disposition r = DEFER \<longrightarrow> ob_max_sources budget \<le> int (length (plan_requests p)) \<or>
       ob_max_cost budget < rp_total_cost p + so_refresh_cost s)"
  using plan_choices [OF assms] .

text \<open>
  FreshnessModel.fresh_until names the time at which a source's freshness falls to the minimum: until a
  microsecond before it the freshness is at least the minimum, and from a microsecond after it, when the
  source has a positive change hazard, at most.
\<close>

theorem fresh_until_is_the_horizon:
  assumes "check_freshness_model m = Inr ()" "is_aware time"
    and "fresh_until m (so_last_observed_at s) (so_change_hazard s) minimum = Inr t"
    and "instant (so_last_observed_at s) \<le> instant time"
  shows "\<exists>f. source_freshness m s time = Inr f \<and>
    (instant time + 1 \<le> instant t \<longrightarrow> minimum \<le> f) \<and>
    (instant t + 1 \<le> instant time \<longrightarrow> 0 < so_change_hazard s \<longrightarrow> f \<le> minimum)"
proof -
  obtain h q where f: "so_change_hazard s = Fin h" "0 \<le> h" "minimum = Fin q" "0 < q" "q < 1"
      "is_aware (so_last_observed_at s)"
      "0 < h \<Longrightarrow> instant t = instant (so_last_observed_at s) + round_half_even (of_int (fm_unit m) * (- ln q / h))"
    using fresh_until_Inr [OF assms(3)] by metis
  define e where "e = instant time - instant (so_last_observed_at s)"
  have u: "0 < (of_int (fm_unit m) :: real)"
    using assms(1) by (simp add: check_freshness_model_def)
  have v: "source_freshness m s time = Inr (Fin (exp (- (h * (of_int e / of_int (fm_unit m))))))"
    unfolding e_def by (rule freshness_at [OF assms(2) f(6,1,2) assms(4)])
  have "q \<le> exp (- (h * (of_int e / of_int (fm_unit m))))" if "instant time + 1 \<le> instant t"
  proof (cases "h = 0")
    case True
    with f(5) show ?thesis by simp
  next
    case False
    with f(2) have h: "0 < h" by simp
    have "e + 1 \<le> round_half_even (of_int (fm_unit m) * (- ln q / h))"
      using f(7) [OF h] that by (simp add: e_def)
    then have "of_int e + 1 \<le> (of_int (round_half_even (of_int (fm_unit m) * (- ln q / h))) :: real)" by linarith
    then show ?thesis by (intro exp_bounds [OF f(4)] horizon [OF h u])
  qed
  moreover have "exp (- (h * (of_int e / of_int (fm_unit m)))) \<le> q" if "instant t + 1 \<le> instant time" "0 < h"
  proof -
    have "round_half_even (of_int (fm_unit m) * (- ln q / h)) + 1 \<le> e"
      using f(7) [OF that(2)] that(1) by (simp add: e_def)
    then have "(of_int (round_half_even (of_int (fm_unit m) * (- ln q / h))) :: real) + 1 \<le> of_int e" by linarith
    then show ?thesis by (intro exp_bounds [OF f(4)] horizon [OF that(2) u])
  qed
  ultimately show ?thesis
    using v f(1,3) by (simp add: pyfloat_zero_one)
qed

text \<open>
  C16: Replaying more continuity events never lets a source's capture time go back and never changes a
  completed awake epoch or a recorded orientation report; every entry of the rebuilt state passed the checks
  of its constructor and is stored under its own identifier.
\<close>

theorem continuity_history_is_kept:
  assumes "continuity_rebuild b es = Inr c" "continuity_rebuild b (es @ fs) = Inr c'"
  shows "continuity_advances c c' \<and> continuity_inv c'"
  using continuity.history_kept [of b es fs c'] assms by (auto simp: continuity_rebuild_def)

subsection \<open>Witnesses\<close>

text \<open>Two stale sources of equal need, and a budget that pays for one of them.\<close>

definition demo_source :: "string \<Rightarrow> source_state" where
  "demo_source i = \<lparr>so_source_id = i, so_domain = ''mail'', so_last_observed_at = Aware 0, so_last_cursor = None,
     so_change_hazard = Fin 1, so_confidence = Fin (1/2), so_refresh_cost = Fin 1, so_captured_at = Aware 0\<rparr>"

definition demo_demand :: "string \<Rightarrow> awareness_demand" where
  "demo_demand i = \<lparr>dm_source_id = i, dm_goal_refs = [], dm_relevance = Fin 1, dm_sensitivity = Fin 1,
     dm_required_freshness = Fin (4/5), dm_required_confidence = Fin (4/5)\<rparr>"

definition demo_sources :: "source_state list" where
  "demo_sources = [demo_source ''b'', demo_source ''a'']"

definition demo_demands :: "awareness_demand list" where
  "demo_demands = [demo_demand ''a'', demo_demand ''b'']"

definition demo_freshness :: "(string \<times> pyfloat) list" where
  "demo_freshness = [(''a'', Fin (1/2)), (''b'', Fin (1/4))]"

definition demo_budget :: observation_budget where
  "demo_budget = \<lparr>ob_max_cost = Fin (3/2), ob_max_sources = 2\<rparr>"

lemmas demo_defs = demo_source_def demo_demand_def demo_sources_def demo_demands_def demo_freshness_def demo_budget_def

lemma demo_valid: "valid_inputs demo_sources demo_demands demo_budget (Fin (1/10))"
  by (simp add: valid_inputs_def demo_defs check_source_def check_demand_def check_observation_budget_def
      check_reconciler_def raise_first_no_errors is_space_def unit_interval_def pyfloat_zero_one del: raise_first_ok)

lemma demo_reconcilable: "reconcilable demo_sources demo_demands demo_freshness (Aware 9)"
  by (simp add: reconcilable_def demo_defs unit_interval_def pyfloat_zero_one)

lemma demo_plan:
  obtains p where "reconcile b (Fin (1/10)) demo_sources demo_demands demo_freshness demo_budget (Aware 9) = Inr p"
  using reconcile_defined [OF demo_valid demo_reconcilable] by blast

theorem plan_exists_exactly_witness:
  "\<forall>b. \<exists>p. reconcile b (Fin (1/10)) demo_sources demo_demands demo_freshness demo_budget (Aware 9) = Inr p"
  using plan_exists_exactly [OF demo_valid, of _ demo_freshness "Aware 9"] demo_reconcilable by simp

theorem plan_within_budget_witness:
  "\<forall>b. \<exists>p. reconcile b (Fin (1/10)) demo_sources demo_demands demo_freshness demo_budget (Aware 9) = Inr p \<and>
     map rd_source_id (rp_decisions p) = [''a'', ''b''] \<and> rp_total_cost p \<le> Fin (3/2)"
proof
  fix b
  obtain p where p: "reconcile b (Fin (1/10)) demo_sources demo_demands demo_freshness demo_budget (Aware 9) = Inr p"
    by (rule demo_plan)
  have "sort (map so_source_id demo_sources) = [''a'', ''b'']"
    by (simp add: demo_defs less_char_def)
  with plan_within_budget [OF demo_valid p] p
  show "\<exists>p. reconcile b (Fin (1/10)) demo_sources demo_demands demo_freshness demo_budget (Aware 9) = Inr p \<and>
     map rd_source_id (rp_decisions p) = [''a'', ''b''] \<and> rp_total_cost p \<le> Fin (3/2)"
    by (auto simp: demo_budget_def)
qed

theorem plan_defers_only_without_budget_witness:
  "\<forall>b. \<exists>p r. reconcile b (Fin (1/10)) demo_sources demo_demands demo_freshness demo_budget (Aware 9) = Inr p \<and>
     r \<in> set (rp_decisions p) \<and> rd_source_id r = ''a'' \<and> (rd_disposition r = REFRESH \<or> rd_disposition r = DEFER)"
proof
  fix b
  obtain p where p: "reconcile b (Fin (1/10)) demo_sources demo_demands demo_freshness demo_budget (Aware 9) = Inr p"
    by (rule demo_plan)
  have "sort (map so_source_id demo_sources) = [''a'', ''b'']"
    by (simp add: demo_defs less_char_def)
  with plan_bounds [OF demo_valid p] have "''a'' \<in> rd_source_id ` set (rp_decisions p)"
    by (metis list.set_intros(1) set_map)
  then obtain r where r: "r \<in> set (rp_decisions p)" "rd_source_id r = ''a''" by auto
  have "is_candidate (Fin (1/10)) demo_demands demo_freshness (demo_source ''a'')"
    by (simp add: is_candidate_def demo_defs by_source_def relevant_def insufficient_def demand_importance_def)
  with plan_defers_only_without_budget [OF demo_valid p r(1), of "demo_source ''a''"] r p
  show "\<exists>p r. reconcile b (Fin (1/10)) demo_sources demo_demands demo_freshness demo_budget (Aware 9) = Inr p \<and>
     r \<in> set (rp_decisions p) \<and> rd_source_id r = ''a'' \<and> (rd_disposition r = REFRESH \<or> rd_disposition r = DEFER)"
    by (auto simp: demo_sources_def demo_source_def)
qed

theorem fresh_until_is_the_horizon_witness:
  "\<exists>t f. fresh_until default_freshness (Aware 0) (Fin 1) (Fin (1/2)) = Inr t \<and>
     source_freshness default_freshness (demo_source ''a'') (Aware 7) = Inr f \<and>
     (Aware 8 = t \<longrightarrow> Fin (1/2) \<le> f)"
proof -
  obtain t where t: "fresh_until default_freshness (Aware 0) (Fin 1) (Fin (1/2)) = Inr t"
    by (simp add: fresh_until_def rbind_def pyfloat_zero_one)
  have "check_freshness_model default_freshness = Inr ()"
    by (simp add: check_freshness_model_def default_freshness_def)
  with fresh_until_is_the_horizon [of default_freshness "Aware 7" "demo_source ''a''" "Fin (1/2)" t] t
  show ?thesis by (auto simp: demo_source_def)
qed

text \<open>A completed awake epoch, recorded twice.\<close>

definition demo_epoch :: awake_epoch where
  "demo_epoch = \<lparr>ae_id = ''awake-epoch:1'', ae_woke_at = Aware 5, ae_previous_active_at = Aware 2, ae_elapsed = 3,
     ae_cursor_before = 1, ae_cursor_after = 4, ae_evaluation_epoch_id = None, ae_status = INCOMPLETE,
     ae_oriented_at = Some (Aware 6)\<rparr>"

definition demo_epoch_event :: "jobject event" where
  "demo_epoch_event = \<lparr>ev_type = AWAKE_EPOCH_COMPLETED_EVENT, ev_source = ''runtime'',
     ev_payload = epoch_to_dict demo_epoch, ev_subject = Some ''awake-epoch:1'', ev_id = ''e1'',
     ev_timestamp = Aware 6, ev_correlation_id = None, ev_causation_id = None, ev_priority = 0,
     ev_sequence = Some 1, ev_metadata = [], ev_schema_version = 1\<rparr>"

definition demo_continuity :: continuity_state where
  "demo_continuity = empty_continuity\<lparr>ct_epochs := [(''awake-epoch:1'', demo_epoch)]\<rparr>"

lemma demo_rebuild:
  "continuity_rebuild b [demo_epoch_event] = Inr demo_continuity"
  "continuity_rebuild b [demo_epoch_event, demo_epoch_event] = Inr demo_continuity"
proof -
  have "check_epoch demo_epoch = Inr ()"
    by (simp add: check_epoch_def demo_epoch_def raise_first_no_errors is_space_def del: raise_first_ok)
  then have "epoch_from_event b demo_epoch_event = Inr demo_epoch"
    using epoch_round_trip [of demo_epoch b]
    by (simp add: epoch_from_event_def demo_epoch_event_def epoch_time_def)
       (simp add: demo_epoch_def)
  then show "continuity_rebuild b [demo_epoch_event] = Inr demo_continuity"
    "continuity_rebuild b [demo_epoch_event, demo_epoch_event] = Inr demo_continuity"
    by (simp_all add: continuity_rebuild_def continuity_step_def continuity_apply_def demo_epoch_event_def
        continuity_event_types demo_continuity_def empty_continuity_def) (simp_all add: demo_epoch_def)
qed

theorem continuity_history_is_kept_witness:
  "\<forall>b :: builtins. continuity_inv demo_continuity \<and> map_of (ct_epochs demo_continuity) ''awake-epoch:1'' = Some demo_epoch"
  using continuity_history_is_kept [of _ "[demo_epoch_event]" demo_continuity "[demo_epoch_event]" demo_continuity]
    demo_rebuild by (simp add: demo_continuity_def)

end
