(* ===== verification/Matching.thy ===== *)
theory Matching
  imports WorkProjection Reconciliation
begin

section \<open>The ready frontier and the matching of workers\<close>

text \<open>
  Models \<open>ReadyFrontier\<close> and \<open>WorkerMatcher\<close> of \<^verbatim>\<open>src/noema/work/coordination.py\<close>: which nodes of a graph can
  be worked on now, and which available worker gets one. The access evaluator of governed work is an
  argument; its decisions are the fields that the matcher reads.
\<close>

subsection \<open>Queries of the projection in the order they list\<close>

definition event_cursor :: "work_state \<Rightarrow> int" where
  "event_cursor s = ws_last_sequence s"

definition presences :: "work_state \<Rightarrow> agent_presence list" where
  "presences s = map snd (sort_key fst (ws_presence s))"

definition sorted_graphs :: "work_state \<Rightarrow> work_graph list" where
  "sorted_graphs s =
     sort_key (\<lambda>g. (wg_work_order_id g, wg_version g, wg_id g)) (map snd (ws_graphs s))"

subsection \<open>The ready frontier\<close>

record ready_frontier =
  fr_graph_id :: string
  fr_ready :: "work_node list"
  fr_dependency_blocked :: "string list"
  fr_epistemic_blocked :: "string list"
  fr_leased :: "string list"
  fr_completed :: "string list"
  fr_invalidated :: bool

text \<open>
  The requirements of a node by source: those of the work order, made stricter by the node's own.
\<close>

fun stricter :: "prerequisite list \<Rightarrow> (string \<times> prerequisite) list \<Rightarrow> (string \<times> prerequisite) list result" where
  "stricter [] reqs = Inr reqs"
| "stricter (v # vs) reqs =
     rbind (case map_of reqs (pq_source_id v) of
         None \<Rightarrow> Inr v
       | Some current \<Rightarrow>
           let p = \<lparr>pq_source_id = pq_source_id v,
                    pq_minimum_freshness = py_max (pq_minimum_freshness current) (pq_minimum_freshness v),
                    pq_minimum_confidence = py_max (pq_minimum_confidence current) (pq_minimum_confidence v)\<rparr>
           in rbind (check_prerequisite p) (\<lambda>_. Inr p)) (\<lambda>p.
     stricter vs (AList.update (pq_source_id v) p reqs))"

definition node_requirements :: "work_order \<Rightarrow> work_node \<Rightarrow> prerequisite list result" where
  "node_requirements ord n =
     rbind (stricter (wn_epistemic_prerequisites n)
       (map (\<lambda>v. (pq_source_id v, v)) (wo_epistemic_prerequisites ord))) (\<lambda>reqs.
     Inr (map snd (sort_key fst reqs)))"

definition epistemically_blocked ::
  "awareness_coverage option \<Rightarrow> work_order \<Rightarrow> work_node \<Rightarrow> bool result" where
  "epistemically_blocked coverage ord n =
     rbind (node_requirements ord n) (\<lambda>reqs.
     if reqs = [] then Inr False
     else case coverage of
       None \<Rightarrow> Inr True
     | Some c \<Rightarrow> rbind (barrier_evaluate (wn_id n) reqs c) (\<lambda>d. Inr (bd_would_block d)))"

fun classify_nodes ::
  "awareness_coverage option \<Rightarrow> work_order \<Rightarrow> work_state \<Rightarrow> work_graph \<Rightarrow> work_node list \<Rightarrow> ready_frontier
    \<Rightarrow> ready_frontier result" where
  "classify_nodes coverage ord s g [] f = Inr f"
| "classify_nodes coverage ord s g (n # ns) f =
     (if completed s (wg_id g) (wn_id n)
      then classify_nodes coverage ord s g ns (f\<lparr>fr_completed := fr_completed f @ [wn_id n]\<rparr>)
      else if active_lease_for_node s (wg_id g) (wn_id n) \<noteq> None
      then classify_nodes coverage ord s g ns (f\<lparr>fr_leased := fr_leased f @ [wn_id n]\<rparr>)
      else if list_ex (\<lambda>p. \<not> completed s (wg_id g) p) (graph_predecessors g (wn_id n))
      then classify_nodes coverage ord s g ns
             (f\<lparr>fr_dependency_blocked := fr_dependency_blocked f @ [wn_id n]\<rparr>)
      else rbind (epistemically_blocked coverage ord n) (\<lambda>blocked.
        if blocked
        then classify_nodes coverage ord s g ns
               (f\<lparr>fr_epistemic_blocked := fr_epistemic_blocked f @ [wn_id n]\<rparr>)
        else classify_nodes coverage ord s g ns (f\<lparr>fr_ready := fr_ready f @ [n]\<rparr>)))"

definition derive_frontier ::
  "work_graph \<Rightarrow> work_state \<Rightarrow> awareness_coverage option \<Rightarrow> ready_frontier result" where
  "derive_frontier g s coverage =
     (let f = \<lparr>fr_graph_id = wg_id g, fr_ready = [], fr_dependency_blocked = [], fr_epistemic_blocked = [],
               fr_leased = [], fr_completed = [], fr_invalidated = False\<rparr>
      in if \<not> graph_is_active s (wg_id g)
         then Inr (f\<lparr>fr_completed := map wn_id (filter (\<lambda>n. completed s (wg_id g) (wn_id n)) (wg_nodes g)),
                     fr_invalidated := True\<rparr>)
         else case map_of (ws_orders s) (wg_work_order_id g) of
           None \<Rightarrow> Inl (ValueError ''ready frontier requires the graph work order'')
         | Some ord \<Rightarrow> classify_nodes coverage ord s g (wg_nodes g) f)"

subsection \<open>Matching\<close>

datatype access_evidence = AccessDecided governance_decision | DisclosureDecided governance_decision

primrec evidence_decision :: "access_evidence \<Rightarrow> governance_decision" where
  "evidence_decision (AccessDecided d) = d"
| "evidence_decision (DisclosureDecided d) = d"

definition access_of :: "access_evidence list \<Rightarrow> governance_decision list" where
  "access_of evs = List.map_filter (\<lambda>e. case e of AccessDecided d \<Rightarrow> Some d | _ \<Rightarrow> None) evs"

definition disclosures_of :: "access_evidence list \<Rightarrow> governance_decision list" where
  "disclosures_of evs = List.map_filter (\<lambda>e. case e of DisclosureDecided d \<Rightarrow> Some d | _ \<Rightarrow> None) evs"

type_synonym access_evaluator =
  "work_graph \<Rightarrow> work_node \<Rightarrow> string \<Rightarrow> datetime \<Rightarrow> access_evidence list result"

record worker_match =
  wm_node_id :: string
  wm_agent_id :: string
  wm_score :: pyfloat
  wm_competence_refs :: "string list"
  wm_access :: "governance_decision list"
  wm_disclosures :: "governance_decision list"

definition assignable :: "string \<Rightarrow> datetime \<Rightarrow> governance_decision \<Rightarrow> bool" where
  "assignable agent time d \<longleftrightarrow> gd_allowed d \<and> gd_operation d = WORK_ASSIGN \<and>
     gd_principal_id d = agent \<and> gd_recipient d = agent \<and> gd_decided_at d = time"

definition access_is_feasible ::
  "work_node \<Rightarrow> string \<Rightarrow> datetime \<Rightarrow> governance_decision list \<Rightarrow> governance_decision list \<Rightarrow> bool" where
  "access_is_feasible n agent time access disclosures =
     (let governed = remdups (wn_governed_information_refs n);
          crossing = remdups (map gd_information_id (filter crosses_domain access))
      in if length access \<noteq> length governed \<or> set (map gd_information_id access) \<noteq> set governed \<or>
            \<not> list_all (assignable agent time) access
         then False
         else length disclosures = length crossing \<and> set (map gd_information_id disclosures) = set crossing \<and>
              list_all (\<lambda>d. assignable agent time d \<and> crosses_domain d) disclosures)"

text \<open>
  One presence: the match it offers, if any, and the access evidence collected on the way. The presence is
  available, valid at the time, not excluded by independence, below its capacity, declares every required
  capability and has seeded estimates of them; governed work also needs feasible access decisions.
\<close>

definition match_presence ::
  "access_evaluator option \<Rightarrow> work_graph \<Rightarrow> work_node \<Rightarrow> work_state \<Rightarrow> datetime \<Rightarrow> agent_presence
    \<Rightarrow> (worker_match option \<times> access_evidence list) result" where
  "match_presence evaluator g n s time a =
     (let agent = ag_agent_id a in
      if ag_status a \<noteq> Available then Inr (None, []) else
      rbind (presence_is_valid_at a time) (\<lambda>valid.
      if \<not> valid then Inr (None, [])
      else if agent \<in> set (excluded_workers s (wg_id g) n) then Inr (None, [])
      else if ag_max_concurrency a \<le> active_lease_count s agent then Inr (None, [])
      else if (case map_of (ws_manifests s) agent of None \<Rightarrow> True
               | Some m \<Rightarrow> \<not> set (wn_required_capabilities n) \<subseteq> set (cm_capabilities m)) then Inr (None, [])
      else if None \<in> set (current_estimates s agent n) then Inr (None, [])
      else
        let estimates = map the (current_estimates s agent n);
            offer = (\<lambda>access disclosures.
              rbind (min_score estimates) (\<lambda>best.
              Inr \<lparr>wm_node_id = wn_id n, wm_agent_id = agent, wm_score = best,
                   wm_competence_refs = map ce_id estimates, wm_access = access, wm_disclosures = disclosures\<rparr>))
        in
        if list_ex (\<lambda>c. ce_basis c \<noteq> Seeded) estimates then Inr (None, [])
        else if wn_governed_information_refs n = []
        then rbind (offer [] []) (\<lambda>m. Inr (Some m, []))
        else case evaluator of
            None \<Rightarrow> Inr (None, [])
          | Some evaluate \<Rightarrow>
              rbind (evaluate g n agent time) (\<lambda>evs.
              if \<not> access_is_feasible n agent time (access_of evs) (disclosures_of evs) then Inr (None, evs)
              else rbind (offer (access_of evs) (disclosures_of evs)) (\<lambda>m. Inr (Some m, evs)))))"

text \<open>\<open>candidates.sort(key=lambda value: (-value.score, value.agent_id))\<close>\<close>

definition better_match :: "worker_match \<Rightarrow> worker_match \<Rightarrow> bool" where
  "better_match m m' \<longleftrightarrow> - wm_score m < - wm_score m' \<or>
     - wm_score m = - wm_score m' \<and> wm_agent_id m < wm_agent_id m'"

definition match_with_evidence ::
  "access_evaluator option \<Rightarrow> work_graph \<Rightarrow> work_node \<Rightarrow> work_state \<Rightarrow> datetime
    \<Rightarrow> (worker_match option \<times> access_evidence list) result" where
  "match_with_evidence evaluator g n s time =
     (if is_naive time then Inl (ValueError ''worker matching time must be timezone-aware'')
      else rbind (mapM (match_presence evaluator g n s time) (presences s)) (\<lambda>offers.
        let candidates = py_sorted better_match (List.map_filter fst offers)
        in Inr (if candidates = [] then None else Some (hd candidates), concat (map snd offers))))"

definition match_worker ::
  "access_evaluator option \<Rightarrow> work_graph \<Rightarrow> work_node \<Rightarrow> work_state \<Rightarrow> datetime \<Rightarrow> worker_match option result" where
  "match_worker evaluator g n s time = rbind (match_with_evidence evaluator g n s time) (\<lambda>p. Inr (fst p))"

subsection \<open>What the frontier lists\<close>

text \<open>A node is ready exactly when a lease for it passes the checks on the node itself.\<close>

definition node_free :: "work_state \<Rightarrow> work_graph \<Rightarrow> work_node \<Rightarrow> bool" where
  "node_free s g n \<longleftrightarrow> \<not> completed s (wg_id g) (wn_id n) \<and>
     active_lease_for_node s (wg_id g) (wn_id n) = None \<and>
     list_all (completed s (wg_id g)) (graph_predecessors g (wn_id n))"

lemma classify_nodes_ready:
  assumes "classify_nodes coverage ord s g ns f = Inr f'"
  shows "fr_ready f' = fr_ready f @ filter (\<lambda>n. node_free s g n \<and> epistemically_blocked coverage ord n = Inr False) ns \<and>
    fr_invalidated f' = fr_invalidated f"
  using assms
proof (induction ns arbitrary: f)
  case (Cons n ns)
  note step = Cons.prems [unfolded classify_nodes.simps]
  show ?case
  proof (cases "node_free s g n")
    case False
    then show ?thesis
      using Cons.IH step
      by (fastforce simp: node_free_def list_all_iff list_ex_iff rbind_Inr_iff split: if_splits)
  next
    case True
    then obtain blocked where "epistemically_blocked coverage ord n = Inr blocked"
      using step by (auto simp: node_free_def list_all_iff list_ex_iff rbind_Inr_iff split: if_splits)
    with True show ?thesis
      using step Cons.IH
      by (cases blocked) (force simp: node_free_def list_all_iff list_ex_iff)+
  qed
qed simp

lemma frontier_ready:
  assumes "derive_frontier g s coverage = Inr f" "n \<in> set (fr_ready f)"
  shows "graph_is_active s (wg_id g) \<and> n \<in> set (wg_nodes g) \<and> node_free s g n \<and>
    (\<exists>ord. map_of (ws_orders s) (wg_work_order_id g) = Some ord \<and> epistemically_blocked coverage ord n = Inr False)"
proof (cases "graph_is_active s (wg_id g)")
  case True
  then obtain ord where "map_of (ws_orders s) (wg_work_order_id g) = Some ord"
    "classify_nodes coverage ord s g (wg_nodes g) \<lparr>fr_graph_id = wg_id g, fr_ready = [],
       fr_dependency_blocked = [], fr_epistemic_blocked = [], fr_leased = [], fr_completed = [],
       fr_invalidated = False\<rparr> = Inr f"
    using assms(1) by (auto simp: derive_frontier_def Let_def split: option.splits)
  with classify_nodes_ready [OF this(2)] assms(2) True show ?thesis by auto
next
  case False
  with assms show ?thesis by (auto simp: derive_frontier_def Let_def)
qed

end
