(* ===== verification/MatchingProperties.thy ===== *)
theory MatchingProperties
  imports Matching WorkScenario
begin

section \<open>Matched work is admitted\<close>

text \<open>
  The matcher and the frontier against the projection's own rule for granting a lease: whatever worker the
  matcher chooses for a ready node without governed information, the lease that the coordinator creates for
  it passes \<open>WorkProjection._validate_lease_grant\<close>.
\<close>

subsection \<open>What is recorded of workers\<close>

text \<open>Presences are stored under their agent, estimates under agent and capability, all checked.\<close>

definition workers_inv :: "work_state \<Rightarrow> bool" where
  "workers_inv s \<longleftrightarrow> distinct (map fst (ws_presence s)) \<and>
     (\<forall>i a. map_of (ws_presence s) i = Some a \<longrightarrow> ag_agent_id a = i) \<and>
     (\<forall>k c. map_of (ws_competence s) k = Some c \<longrightarrow> check_estimate c = Inr ())"

definition same_workers :: "work_state \<Rightarrow> work_state \<Rightarrow> bool" where
  "same_workers s s' \<longleftrightarrow> ws_presence s' = ws_presence s \<and> ws_competence s' = ws_competence s"

lemma workers_inv_same: "workers_inv s \<Longrightarrow> same_workers s s' \<Longrightarrow> workers_inv s'"
  by (simp add: workers_inv_def same_workers_def)

lemma estimate_from_event_check: "estimate_from_event b e = Inr c \<Longrightarrow> check_estimate c = Inr ()"
  by (auto simp: estimate_from_event_def estimate_from_dict_def Let_def rbind_Inr_iff simp del: raise_first_ok
      split: if_splits)

lemma workers_handlers:
  "apply_order b s e = Inr s' \<Longrightarrow> same_workers s s'"
  "apply_proposal b s e = Inr s' \<Longrightarrow> same_workers s s'"
  "apply_manifest b s e = Inr s' \<Longrightarrow> same_workers s s'"
  "apply_presence b s e = Inr s' \<Longrightarrow> workers_inv s \<Longrightarrow> workers_inv s'"
  "apply_estimate b s e = Inr s' \<Longrightarrow> workers_inv s \<Longrightarrow> workers_inv s'"
  by (auto simp: apply_order_def apply_proposal_def apply_manifest_def apply_presence_def apply_estimate_def
      rbind_Inr_iff Let_def same_workers_def workers_inv_def dict_simps distinct_keys_update
      simp del: raise_first_ok dest!: estimate_from_event_check split: if_splits)

lemma workers_large_handlers:
  assumes "control_inv K s"
  shows "apply_graph b s e = Inr s' \<Longrightarrow> same_workers s s'"
    "apply_lease dec s e = Inr s' \<Longrightarrow> same_workers s s'"
    "apply_expiration b s e = Inr s' \<Longrightarrow> same_workers s s'"
    "apply_completion b s e = Inr s' \<Longrightarrow> same_workers s s'"
    "apply_invalidation b s e = Inr s' \<Longrightarrow> same_workers s s'"
  unfolding same_workers_def
  subgoal by (drule apply_graph_result) fastforce
  subgoal by (drule apply_lease_result) fastforce
  subgoal by (drule apply_expiration_result [OF _ assms]) fastforce
  subgoal by (drule apply_completion_result [OF _ assms]) fastforce
  subgoal by (drule apply_invalidation_result) fastforce
  done

lemma workers_inv_handle:
  assumes "control_inv K s" "workers_inv s" "handle_work_event dec s e = Inr (h, s')"
  shows "workers_inv s'"
  using assms(3) workers_handlers [of "dec_builtins dec" s e s'] workers_inv_same [OF assms(2), of s'] assms(2)
    workers_large_handlers(1,3,4,5) [OF assms(1), of "dec_builtins dec" e s']
    workers_large_handlers(2) [OF assms(1), of dec e s']
  unfolding handle_work_event_def Let_def by (simp add: rbind_Inr_iff same_workers_def split: if_splits)

lemma workers_inv_fold:
  assumes "work_inv s \<and> workers_inv s" "work_fold dec s e = Inr s'"
  shows "work_inv s' \<and> workers_inv s'"
proof -
  have "workers_inv s'"
    using assms(1)[THEN conjunct1] assms(2)
  proof (cases rule: work_fold_cases)
    case known
    with assms(1) show ?thesis by simp
  next
    case (new h s1 sq)
    then have "workers_inv s1" using workers_inv_handle assms(1) unfolding work_inv_def by blast
    then show ?thesis by (simp add: new(5) workers_inv_def)
  qed
  then show ?thesis using assms work_inv_fold by blast
qed

interpretation workers: projection empty_work "work_fold dec" "\<lambda>s. work_inv s \<and> workers_inv s"
proof unfold_locales
  show "work_inv empty_work \<and> workers_inv empty_work"
    by (simp add: work_inv_empty) (simp add: workers_inv_def empty_work_def)
qed (rule workers_inv_fold)

lemma rebuilt_workers:
  assumes "work_rebuild dec es through = Inr s"
  shows "workers_inv s"
  using workers.inv_rebuild assms unfolding work_rebuild_def by blast

lemma set_presences:
  assumes "workers_inv s"
  shows "a \<in> set (presences s) \<longleftrightarrow> map_of (ws_presence s) (ag_agent_id a) = Some a"
proof
  assume "a \<in> set (presences s)"
  then obtain i where "(i, a) \<in> set (ws_presence s)" by (auto simp: presences_def)
  then have "map_of (ws_presence s) i = Some a" using assms by (simp add: workers_inv_def)
  moreover from this have "ag_agent_id a = i" using assms by (auto simp: workers_inv_def)
  ultimately show "map_of (ws_presence s) (ag_agent_id a) = Some a" by simp
next
  assume "map_of (ws_presence s) (ag_agent_id a) = Some a"
  then show "a \<in> set (presences s)" by (auto simp: presences_def intro: map_of_Some_in)
qed

subsection \<open>The chosen worker\<close>

lemma match_presence_Some:
  assumes "match_presence evaluator g n s time a = Inr (Some m, evs)"
  obtains mf where "ag_status a = Available" "presence_is_valid_at a time = Inr True"
    "ag_agent_id a \<notin> set (excluded_workers s (wg_id g) n)"
    "active_lease_count s (ag_agent_id a) < ag_max_concurrency a"
    "map_of (ws_manifests s) (ag_agent_id a) = Some mf" "set (wn_required_capabilities n) \<subseteq> set (cm_capabilities mf)"
    "None \<notin> set (current_estimates s (ag_agent_id a) n)"
    "\<not> list_ex (\<lambda>c. ce_basis c \<noteq> Seeded) (map the (current_estimates s (ag_agent_id a) n))"
    "min_score (map the (current_estimates s (ag_agent_id a) n)) = Inr (wm_score m)"
    "wm_agent_id m = ag_agent_id a" "wm_node_id m = wn_id n"
    "wm_competence_refs m = map ce_id (map the (current_estimates s (ag_agent_id a) n))"
proof -
  obtain mf where "map_of (ws_manifests s) (ag_agent_id a) = Some mf"
    using assms by (auto simp: match_presence_def Let_def rbind_Inr_iff split: if_splits option.splits)
  with assms that [of mf] show ?thesis
    by (auto simp: match_presence_def Let_def rbind_Inr_iff not_le split: if_splits option.splits)
qed

lemma match_chosen:
  assumes "match_with_evidence evaluator g n s time = Inr (Some m, evs)"
  shows "\<exists>a \<in> set (presences s). \<exists>evs. match_presence evaluator g n s time a = Inr (Some m, evs)"
proof -
  obtain offers where o1: "mapM (match_presence evaluator g n s time) (presences s) = Inr offers"
      "py_sorted better_match (List.map_filter fst offers) \<noteq> []"
      "m = hd (py_sorted better_match (List.map_filter fst offers))"
    using assms by (auto simp: match_with_evidence_def rbind_Inr_iff Let_def split: if_splits)
  then have "m \<in> set (List.map_filter fst offers)"
    using hd_in_set [OF o1(2)] by simp
  then obtain b where "(Some m, b) \<in> set offers"
    by (auto simp: List.map_filter_def)
  then show ?thesis using mapM_mem [OF o1(1)] by blast
qed

lemma graph_node_member:
  assumes "well_planned g" "n \<in> set (wg_nodes g)"
  shows "graph_node g (wn_id n) = Inr n"
proof -
  have d: "distinct (map wn_id (wg_nodes g))" using assms(1) by (simp add: well_planned_def Let_def)
  obtain n' where n': "find (\<lambda>x. wn_id x = wn_id n) (wg_nodes g) = Some n'"
    using assms(2) by (cases "find (\<lambda>x. wn_id x = wn_id n) (wg_nodes g)") (auto simp: find_None_iff)
  then have "n' \<in> set (wg_nodes g)" "wn_id n' = wn_id n" by (auto simp: find_Some_iff)
  then have "n' = n" using d assms(2) by (auto simp: distinct_map inj_on_def)
  with n' show ?thesis by (simp add: graph_node_def)
qed

lemma matched_lease_fields:
  assumes "create_lease gi ni agent token time duration match_score refs acc disc = Inr l"
  shows "wl_graph_id l = gi" "wl_node_id l = ni" "wl_agent_id l = agent" "wl_fencing_token l = token"
    "wl_granted_at l = time" "wl_match_score l = match_score" "wl_competence_estimate_refs l = refs"
    "wl_information_access_decision_refs l = acc" "wl_information_disclosure_decision_refs l = disc"
    "check_lease l = Inr ()" "fin match_score"
proof -
  show f: "wl_graph_id l = gi" "wl_node_id l = ni" "wl_agent_id l = agent" "wl_fencing_token l = token"
    "wl_granted_at l = time" "wl_match_score l = match_score" "wl_competence_estimate_refs l = refs"
    "wl_information_access_decision_refs l = acc" "wl_information_disclosure_decision_refs l = disc"
    and c: "check_lease l = Inr ()"
    using assms by (auto simp: create_lease_def Let_def rbind_Inr_iff simp del: raise_first_ok)
  show "fin match_score"
    using c f(6) by (auto simp: check_lease_def raise_first_no_errors unit_interval_def simp del: raise_first_ok)
qed

lemma free_match_valid:
  assumes "workers_inv s" "map_of (ws_graphs s) (wg_id g) = Some g" "well_planned g"
    and "graph_is_active s (wg_id g)" "n \<in> set (wg_nodes g)" "node_free s g n" "wn_governed_information_refs n = []"
    and "match_with_evidence evaluator g n s time = Inr (Some m, evs)"
    and "create_lease (wg_id g) (wn_id n) (wm_agent_id m) (next_fencing_token s (wg_id g) (wn_id n)) time
      duration (wm_score m) (wm_competence_refs m) [] [] = Inr l"
  shows "validate_lease_grant dec s l = Inr ()"
proof -
  obtain a evs' where a: "a \<in> set (presences s)" "match_presence evaluator g n s time a = Inr (Some m, evs')"
    using match_chosen [OF assms(8)] by blast
  obtain mf where p: "ag_status a = Available" "presence_is_valid_at a time = Inr True"
    "ag_agent_id a \<notin> set (excluded_workers s (wg_id g) n)"
    "active_lease_count s (ag_agent_id a) < ag_max_concurrency a"
    "map_of (ws_manifests s) (ag_agent_id a) = Some mf" "set (wn_required_capabilities n) \<subseteq> set (cm_capabilities mf)"
    "None \<notin> set (current_estimates s (ag_agent_id a) n)"
    "\<not> list_ex (\<lambda>c. ce_basis c \<noteq> Seeded) (map the (current_estimates s (ag_agent_id a) n))"
    "min_score (map the (current_estimates s (ag_agent_id a) n)) = Inr (wm_score m)"
    "wm_agent_id m = ag_agent_id a"
    "wm_competence_refs m = map ce_id (map the (current_estimates s (ag_agent_id a) n))"
    using match_presence_Some [OF a(2)] by metis
  note l = matched_lease_fields [OF assms(9), unfolded p(10)]
  have node: "graph_node g (wn_id n) = Inr n"
    by (rule graph_node_member [OF assms(3,5)])
  have presence: "map_of (ws_presence s) (ag_agent_id a) = Some a"
    using set_presences [OF assms(1)] a(1) by blast
  have preds: "\<not> list_ex (\<lambda>q. \<not> completed s (wg_id g) q) (graph_predecessors g (wn_id n))"
    using assms(6) by (auto simp: node_free_def list_all_iff list_ex_iff)
  have access: "validate_information_access dec s l n = Inr ()"
    by (simp add: validate_information_access_def assms(7) l)
  have "graph_is_active s (wg_id g)" "\<not> completed s (wg_id g) (wn_id n)"
    "active_lease_for_node s (wg_id g) (wn_id n) = None"
    using assms(4,6) by (auto simp: node_free_def)
  then show ?thesis
    using p(1-9) p(11) assms(2) node presence preds access
    by (simp add: validate_lease_grant_def l Let_def is_close_self [OF l(11)] not_le)
qed

lemma matched_lease_valid:
  assumes "workers_inv s" "map_of (ws_graphs s) (wg_id g) = Some g" "well_planned g"
    and "derive_frontier g s coverage = Inr f" "n \<in> set (fr_ready f)" "wn_governed_information_refs n = []"
    and "match_with_evidence evaluator g n s time = Inr (Some m, evs)"
    and "create_lease (wg_id g) (wn_id n) (wm_agent_id m) (next_fencing_token s (wg_id g) (wn_id n)) time
      duration (wm_score m) (wm_competence_refs m) [] [] = Inr l"
  shows "validate_lease_grant dec s l = Inr ()"
  using free_match_valid [OF assms(1-3) _ _ _ assms(6-8)] frontier_ready [OF assms(4,5)] by blast

subsection \<open>The best of the workers\<close>

lemma min_score_fin:
  assumes "min_score es = Inr x" "\<forall>c\<in>set es. check_estimate c = Inr ()"
  shows "fin x"
proof -
  have fin: "\<forall>c\<in>set es. fin (ce_score c * ce_evidence_confidence c)"
    using assms(2) fin_times unit_interval_fin by (auto simp: check_estimate_ok)
  have "fin (foldl py_min y ys)" if "fin y" "\<forall>z\<in>set ys. fin z" for y ys
    using that by (induction ys arbitrary: y) (auto simp: py_min_def)
  with fin assms(1) show ?thesis
    by (auto simp: min_score_def split: list.splits)
qed

lemma current_estimates_checked:
  assumes "workers_inv s" "None \<notin> set (current_estimates s agent n)"
  shows "\<forall>c\<in>set (map the (current_estimates s agent n)). check_estimate c = Inr ()"
proof
  fix c assume "c \<in> set (map the (current_estimates s agent n))"
  then obtain o1 where o1: "o1 \<in> set (current_estimates s agent n)" "c = the o1" by auto
  with assms(2) obtain k where "map_of (ws_competence s) k = Some c"
    by (cases o1) (auto simp: current_estimates_def)
  with assms(1) show "check_estimate c = Inr ()" unfolding workers_inv_def by blast
qed

lemma weak_order_on_cong:
  assumes "weak_order_on A lt'" "\<And>a b. a \<in> A \<Longrightarrow> b \<in> A \<Longrightarrow> lt a b = lt' a b"
  shows "weak_order_on A lt"
  unfolding weak_order_on_def
proof (intro conjI ballI impI)
  fix a c assume "a \<in> A" "c \<in> A" "lt a c"
  with assms show "\<not> lt c a" unfolding weak_order_on_def by metis
next
  fix a c d assume "a \<in> A" "c \<in> A" "d \<in> A" "\<not> lt c a" "\<not> lt d c"
  then have "\<not> lt' c a" "\<not> lt' d c" by (simp_all add: assms(2))
  with assms(1) \<open>a \<in> A\<close> \<open>c \<in> A\<close> \<open>d \<in> A\<close> have "\<not> lt' d a" unfolding weak_order_on_def by blast
  then show "\<not> lt d a" by (simp add: assms(2) \<open>a \<in> A\<close> \<open>d \<in> A\<close>)
qed

lemma better_match_order:
  assumes "\<forall>m\<in>M. fin (wm_score m)"
  shows "weak_order_on M better_match"
proof (rule weak_order_on_cong)
  let ?f = "\<lambda>m. (- real_of (wm_score m), wm_agent_id m)"
  show "weak_order_on M (\<lambda>m m'. ?f m < ?f m')" by (rule weak_order_on_key)
  fix m m' assume "m \<in> M" "m' \<in> M"
  with assms have "fin (wm_score m)" "fin (wm_score m')" by blast+
  then show "better_match m m' \<longleftrightarrow> ?f m < ?f m'"
    by (auto simp: better_match_def elim!: fin_cases)
qed

lemma offers_fin:
  assumes "workers_inv s" "match_presence evaluator g n s time a = Inr (Some m, evs)"
  shows "fin (wm_score m)"
proof -
  have "None \<notin> set (current_estimates s (ag_agent_id a) n)"
    "min_score (map the (current_estimates s (ag_agent_id a) n)) = Inr (wm_score m)"
    by (rule match_presence_Some [OF assms(2)]; simp)+
  with current_estimates_checked [OF assms(1)] show ?thesis using min_score_fin by blast
qed

lemma chosen_is_best:
  assumes "workers_inv s" "match_with_evidence evaluator g n s time = Inr (Some m, evs)"
    and "a \<in> set (presences s)" "match_presence evaluator g n s time a = Inr (Some m', evs')"
  shows "\<not> better_match m' m"
proof -
  obtain offers where o1: "mapM (match_presence evaluator g n s time) (presences s) = Inr offers"
      and ne: "py_sorted better_match (List.map_filter fst offers) \<noteq> []"
      and hd: "m = hd (py_sorted better_match (List.map_filter fst offers))"
    using assms(2) by (auto simp: match_with_evidence_def rbind_Inr_iff Let_def split: if_splits)
  let ?M = "List.map_filter fst offers"
  have fin: "fin (wm_score x)" if x: "x \<in> set ?M" for x
  proof -
    obtain b where "(Some x, b) \<in> set offers" using x by (auto simp: List.map_filter_def)
    then show ?thesis using mapM_mem [OF o1] offers_fin [OF assms(1)] by blast
  qed
  have "(Some m', evs') \<in> set offers"
    using o1 assms(3,4) by (auto simp: mapM_Inr_iff in_set_conv_nth list_all2_conv_all_nth)
  then have mem: "m' \<in> set ?M" by (force simp: List.map_filter_def)
  have wo: "weak_order_on (set ?M) better_match"
    by (rule better_match_order) (use fin in blast)
  have sorted: "sorted_wrt (\<lambda>x y. \<not> better_match y x) (py_sorted better_match ?M)"
    by (rule sorted_py_sorted [OF wo])
  obtain ms where ms: "py_sorted better_match ?M = m # ms"
    using ne hd by (cases "py_sorted better_match ?M") auto
  have "m' \<in> set (m # ms)" using mem unfolding ms [symmetric] by simp
  moreover have "m \<in> set ?M" using ms by (metis list.set_intros(1) set_py_sorted)
  ultimately consider "m' = m" "m \<in> set ?M" | "m' \<in> set ms" by auto
  then show ?thesis
  proof cases
    case 1
    with wo show ?thesis unfolding weak_order_on_def by blast
  next
    case 2
    with sorted show ?thesis unfolding ms by simp
  qed
qed


text \<open>In the run, the first node after planning goes to the worker \<open>a1\<close>.\<close>

definition demo_match :: worker_match where
  "demo_match = \<lparr>wm_node_id = ''b'', wm_agent_id = ''a1'', wm_score = Fin 1,
     wm_competence_refs = [''competence-estimate:a1''], wm_access = [], wm_disclosures = []\<rparr>"

definition demo_frontier :: ready_frontier where
  "demo_frontier = \<lparr>fr_graph_id = ''work-graph:pl'', fr_ready = [demo_node ''b'' EXECUTE []],
     fr_dependency_blocked = [''c''], fr_epistemic_blocked = [], fr_leased = [], fr_completed = [],
     fr_invalidated = False\<rparr>"

lemma demo_matching:
  "derive_frontier demo_graph demo_planned None = Inr demo_frontier"
  "match_with_evidence None demo_graph (demo_node ''b'' EXECUTE []) demo_planned (Aware 10) = Inr (Some demo_match, [])"
  "create_lease ''work-graph:pl'' ''b'' ''a1'' 1 (Aware 10) 100 (Fin 1) [''competence-estimate:a1''] [] [] =
     Inr (demo_lease ''b'' ''a1'' 1 10)"
  by code_simp+


end
