(* ===== verification/Situation.thy ===== *)
theory Situation
  imports Continuity Contracts
begin

section \<open>The situation model\<close>

text \<open>
  Models \<^verbatim>\<open>src/noema/situation.py\<close>: the typed projection of facts, entities, relations, goals, commitments,
  risks, opportunities and resources, \<open>SituationModel._apply_builtin\<close> with the branch of every event type,
  and the queries of \<open>SituationSnapshot\<close>. Projectors that a deployment registers are functions, arguments of
  the model. The reading of the current time is an argument.
\<close>

subsection \<open>Values\<close>

datatype goal_status = GProposed | GActive | GBlocked | GCompleted | GFailed | GCancelled

primrec goal_status_value :: "goal_status \<Rightarrow> string" where
  "goal_status_value GProposed = ''proposed''"
| "goal_status_value GActive = ''active''"
| "goal_status_value GBlocked = ''blocked''"
| "goal_status_value GCompleted = ''completed''"
| "goal_status_value GFailed = ''failed''"
| "goal_status_value GCancelled = ''cancelled''"

definition enum_of :: "('a \<Rightarrow> string) \<Rightarrow> 'a list \<Rightarrow> string \<Rightarrow> 'a result" where
  "enum_of value members s = (case find (\<lambda>x. value x = s) members of
     Some x \<Rightarrow> Inr x | None \<Rightarrow> Inl (ValueError (s @ '' is not a valid member'')))"

definition goal_status_of :: "string \<Rightarrow> goal_status result" where
  "goal_status_of = enum_of goal_status_value
     [GProposed, GActive, GBlocked, GCompleted, GFailed, GCancelled]"

datatype commitment_status =
  CProposed | CAccepted | CActive | CSuspended | CClosed
  | COpen | CInProgress | CCompleted | CFailed | CCancelled

primrec commitment_status_value :: "commitment_status \<Rightarrow> string" where
  "commitment_status_value CProposed = ''proposed''"
| "commitment_status_value CAccepted = ''accepted''"
| "commitment_status_value CActive = ''active''"
| "commitment_status_value CSuspended = ''suspended''"
| "commitment_status_value CClosed = ''closed''"
| "commitment_status_value COpen = ''open''"
| "commitment_status_value CInProgress = ''in_progress''"
| "commitment_status_value CCompleted = ''completed''"
| "commitment_status_value CFailed = ''failed''"
| "commitment_status_value CCancelled = ''cancelled''"

definition commitment_status_of :: "string \<Rightarrow> commitment_status result" where
  "commitment_status_of = enum_of commitment_status_value
     [CProposed, CAccepted, CActive, CSuspended, CClosed, COpen, CInProgress, CCompleted, CFailed, CCancelled]"

datatype closure_reason = RFulfilled | RCancelled | RSuperseded | RFailed | RBreached

primrec closure_reason_value :: "closure_reason \<Rightarrow> string" where
  "closure_reason_value RFulfilled = ''fulfilled''"
| "closure_reason_value RCancelled = ''cancelled''"
| "closure_reason_value RSuperseded = ''superseded''"
| "closure_reason_value RFailed = ''failed''"
| "closure_reason_value RBreached = ''breached''"

definition closure_reason_of :: "string \<Rightarrow> closure_reason result" where
  "closure_reason_of = enum_of closure_reason_value [RFulfilled, RCancelled, RSuperseded, RFailed, RBreached]"

record fact =
  fa_key :: string
  fa_value :: json
  fa_confidence :: pyfloat
  fa_source :: string
  fa_observed_at :: datetime
  fa_expires_at :: "datetime option"
  fa_evidence_event_id :: string

record entity =
  en_id :: string
  en_kind :: string
  en_attributes :: jobject
  en_updated_at :: datetime

record relation_record =
  re_id :: string
  re_source_id :: string
  re_target_id :: string
  re_kind :: string
  re_attributes :: jobject
  re_updated_at :: datetime

record goal =
  go_id :: string
  go_description :: string
  go_priority :: pyfloat
  go_utility :: pyfloat
  go_status :: goal_status
  go_deadline :: "datetime option"
  go_success_criteria :: "string list"
  go_owner :: "string option"
  go_created_at :: datetime
  go_updated_at :: datetime

record commitment =
  co_id :: string
  co_description :: string
  co_owner :: string
  co_priority :: pyfloat
  co_status :: commitment_status
  co_deadline :: "datetime option"
  co_terminal :: bool
  co_attention_cost :: pyfloat
  co_social_cost :: pyfloat
  co_created_at :: datetime
  co_updated_at :: datetime
  co_closure_reason :: "closure_reason option"
  co_goal_refs :: "string list"
  co_roadmap_revision_id :: "string option"
  co_outcome_node_id :: "string option"
  co_role_assignment_id :: "string option"
  co_assistance_envelope_id :: "string option"
  co_activation_due_at :: "datetime option"
  co_lead_time_evidence_refs :: "string list"

record risk =
  ri_id :: string
  ri_description :: string
  ri_severity :: pyfloat
  ri_probability :: pyfloat
  ri_impact :: pyfloat
  ri_mitigation :: "string option"
  ri_source :: string
  ri_active :: bool
  ri_created_at :: datetime
  ri_updated_at :: datetime

definition expected_loss :: "risk \<Rightarrow> pyfloat" where
  "expected_loss r = ri_severity r * ri_probability r * ri_impact r"

record opportunity =
  ot_id :: string
  ot_description :: string
  ot_expected_value :: pyfloat
  ot_uncertainty :: pyfloat
  ot_attention_cost :: pyfloat
  ot_expires_at :: "datetime option"
  ot_active :: bool
  ot_source :: string
  ot_created_at :: datetime
  ot_updated_at :: datetime

record situation =
  si_facts :: "(string \<times> fact) list"
  si_entities :: "(string \<times> entity) list"
  si_relations :: "(string \<times> relation_record) list"
  si_goals :: "(string \<times> goal) list"
  si_commitments :: "(string \<times> commitment) list"
  si_risks :: "(string \<times> risk) list"
  si_opportunities :: "(string \<times> opportunity) list"
  si_resources :: "(string \<times> pyfloat) list"
  si_version :: int
  si_observed_at :: datetime

definition empty_situation :: "datetime \<Rightarrow> situation" where
  "empty_situation now = \<lparr>si_facts = [], si_entities = [], si_relations = [], si_goals = [], si_commitments = [],
     si_risks = [], si_opportunities = [], si_resources = [], si_version = 0, si_observed_at = now\<rparr>"

subsection \<open>Reading payloads\<close>

text \<open>
  \<open>payload.get(k, default)\<close> with the conversions \<open>float\<close>, \<open>str\<close> and \<open>parse_datetime\<close>; an absent key gives
  the default.
\<close>

definition j_float_or :: "builtins \<Rightarrow> jobject \<Rightarrow> string \<Rightarrow> pyfloat \<Rightarrow> pyfloat result" where
  "j_float_or b d k dflt = (case map_of d k of None \<Rightarrow> Inr dflt | Some v \<Rightarrow> py_float b v)"

definition j_str_or :: "builtins \<Rightarrow> jobject \<Rightarrow> string \<Rightarrow> string \<Rightarrow> string" where
  "j_str_or b d k dflt = (case map_of d k of None \<Rightarrow> dflt | Some v \<Rightarrow> py_str b v)"

definition j_time_or :: "builtins \<Rightarrow> jobject \<Rightarrow> string \<Rightarrow> datetime option \<Rightarrow> datetime option result" where
  "j_time_or b d k dflt = (case map_of d k of None \<Rightarrow> Inr dflt | Some v \<Rightarrow> parse_datetime b v)"

definition j_strs_or :: "builtins \<Rightarrow> jobject \<Rightarrow> string \<Rightarrow> string list \<Rightarrow> string list result" where
  "j_strs_or b d k dflt = (case map_of d k of None \<Rightarrow> Inr dflt
     | Some v \<Rightarrow> rbind (py_iter b v) (\<lambda>vs. Inr (map (py_str b) vs)))"

text \<open>\<open>str(payload.get(k) or other)\<close>\<close>

definition truthy_str :: "builtins \<Rightarrow> jobject \<Rightarrow> string \<Rightarrow> string \<Rightarrow> string" where
  "truthy_str b d k other = (if falsy (jget d k) then other else py_str b (jget d k))"

text \<open>\<open>_optional_text\<close>, on a JSON value and on a string that is already one.\<close>

definition optional_text :: "builtins \<Rightarrow> json \<Rightarrow> string option" where
  "optional_text b v = (if v = JNull \<or> py_str b v = [] then None else Some (py_str b v))"

definition optional_text_or :: "builtins \<Rightarrow> jobject \<Rightarrow> string \<Rightarrow> string option \<Rightarrow> string option" where
  "optional_text_or b d k current = (case map_of d k of
     None \<Rightarrow> (if current = Some [] then None else current)
   | Some v \<Rightarrow> optional_text b v)"

definition closure_reason_json :: "builtins \<Rightarrow> json \<Rightarrow> closure_reason option result" where
  "closure_reason_json b v = (if v = JNull then Inr None
     else rbind (closure_reason_of (py_str b v)) (\<lambda>r. Inr (Some r)))"

text \<open>
  The identifier of the subject: \<open>str(payload.get("id") or event.subject)\<close>, where \<open>str(None)\<close> is the
  text \<open>None\<close>, and with \<open>or event.id\<close> at the end.
\<close>

definition subject_text :: "jobject event \<Rightarrow> string" where
  "subject_text e = (case ev_subject e of None \<Rightarrow> ''None'' | Some s \<Rightarrow> s)"

definition id_or_subject :: "builtins \<Rightarrow> jobject event \<Rightarrow> string" where
  "id_or_subject b e = truthy_str b (ev_payload e) ''id'' (subject_text e)"

definition id_or_event :: "builtins \<Rightarrow> jobject event \<Rightarrow> string" where
  "id_or_event b e = truthy_str b (ev_payload e) ''id'' (str_or (ev_subject e) (ev_id e))"

definition dict_update :: "('k \<times> 'v) list \<Rightarrow> ('k \<times> 'v) list \<Rightarrow> ('k \<times> 'v) list" where
  "dict_update d new = foldl (\<lambda>acc (k, v). AList.update k v acc) d new"

text \<open>\<open>dict(current.attributes)\<close> updated with \<open>dict(payload.get("attributes", {}))\<close>\<close>

definition merged_attributes :: "builtins \<Rightarrow> jobject \<Rightarrow> jobject \<Rightarrow> jobject result" where
  "merged_attributes b current d =
     rbind (py_dict b (jget_or d ''attributes'' (JObj []))) (\<lambda>new. Inr (dict_update current new))"

subsection \<open>Handlers\<close>

definition apply_fact :: "builtins \<Rightarrow> situation \<Rightarrow> jobject event \<Rightarrow> situation result" where
  "apply_fact b si e =
     (let d = ev_payload e; now = ev_timestamp e in
      rbind (j_str b d ''key'') (\<lambda>key.
      rbind (if jget d ''ttl_seconds'' \<noteq> JNull
             then rbind (rbind (py_float b (jget d ''ttl_seconds'')) timedelta_of) (\<lambda>ttl. Inr (Some (dt_plus now ttl)))
             else j_time_opt b d ''expires_at'') (\<lambda>expires.
      rbind (j_float_or b d ''confidence'' 1) (\<lambda>confidence.
      Inr (si\<lparr>si_facts := AList.update key
        \<lparr>fa_key = key, fa_value = jget d ''value'', fa_confidence = confidence,
         fa_source = truthy_str b d ''source'' (ev_source e), fa_observed_at = now,
         fa_expires_at = expires, fa_evidence_event_id = ev_id e\<rparr> (si_facts si)\<rparr>)))))"

definition apply_fact_retracted :: "builtins \<Rightarrow> situation \<Rightarrow> jobject event \<Rightarrow> situation result" where
  "apply_fact_retracted b si e =
     rbind (j_str b (ev_payload e) ''key'') (\<lambda>key. Inr (si\<lparr>si_facts := AList.delete key (si_facts si)\<rparr>))"

definition apply_entity :: "builtins \<Rightarrow> situation \<Rightarrow> jobject event \<Rightarrow> situation result" where
  "apply_entity b si e =
     (let d = ev_payload e; i = id_or_subject b e; current = map_of (si_entities si) i in
      if i = [] then Inl (ValueError ''entity.upserted requires id or subject'') else
      rbind (merged_attributes b (case current of None \<Rightarrow> [] | Some c \<Rightarrow> en_attributes c) d) (\<lambda>attributes.
      Inr (si\<lparr>si_entities := AList.update i
        \<lparr>en_id = i,
         en_kind = truthy_str b d ''kind'' (case current of None \<Rightarrow> ''entity'' | Some c \<Rightarrow> en_kind c),
         en_attributes = attributes, en_updated_at = ev_timestamp e\<rparr> (si_entities si)\<rparr>)))"

definition apply_entity_removed :: "builtins \<Rightarrow> situation \<Rightarrow> jobject event \<Rightarrow> situation" where
  "apply_entity_removed b si e =
     (let i = id_or_subject b e in
      si\<lparr>si_entities := AList.delete i (si_entities si),
         si_relations := filter (\<lambda>(_, r). re_source_id r \<noteq> i \<and> re_target_id r \<noteq> i) (si_relations si)\<rparr>)"

definition apply_relation :: "builtins \<Rightarrow> situation \<Rightarrow> jobject event \<Rightarrow> situation result" where
  "apply_relation b si e =
     (let d = ev_payload e; i = id_or_subject b e; current = map_of (si_relations si) i in
      if i = [] then Inl (ValueError ''relation.upserted requires id or subject'') else
      rbind (merged_attributes b (case current of None \<Rightarrow> [] | Some c \<Rightarrow> re_attributes c) d) (\<lambda>attributes.
      rbind (j_str b d ''source_id'') (\<lambda>source.
      rbind (j_str b d ''target_id'') (\<lambda>target.
      rbind (j_str b d ''kind'') (\<lambda>kind.
      Inr (si\<lparr>si_relations := AList.update i
        \<lparr>re_id = i, re_source_id = source, re_target_id = target, re_kind = kind,
         re_attributes = attributes, re_updated_at = ev_timestamp e\<rparr> (si_relations si)\<rparr>))))))"

definition apply_relation_removed :: "builtins \<Rightarrow> situation \<Rightarrow> jobject event \<Rightarrow> situation" where
  "apply_relation_removed b si e = si\<lparr>si_relations := AList.delete (id_or_subject b e) (si_relations si)\<rparr>"

definition put_goal :: "situation \<Rightarrow> goal \<Rightarrow> situation" where
  "put_goal si g = si\<lparr>si_goals := AList.update (go_id g) g (si_goals si)\<rparr>"

definition apply_goal_revision :: "builtins \<Rightarrow> situation \<Rightarrow> jobject event \<Rightarrow> situation result" where
  "apply_goal_revision b si e =
     (let d = ev_payload e; now = ev_timestamp e in
      rbind (j_str b d ''goal_id'') (\<lambda>i.
      rbind (j_str b d ''description'') (\<lambda>description.
      rbind (j_float b d ''priority'') (\<lambda>priority.
      rbind (j_float b d ''utility'') (\<lambda>utility.
      rbind (rbind (j_str b d ''status'') goal_status_of) (\<lambda>status.
      rbind (j_time_opt b d ''deadline'') (\<lambda>deadline.
      rbind (j_strs b d ''success_criteria'') (\<lambda>criteria.
      rbind (j_str b d ''owner'') (\<lambda>owner.
      Inr (put_goal si
        \<lparr>go_id = i, go_description = description, go_priority = priority, go_utility = utility,
         go_status = status, go_deadline = deadline, go_success_criteria = criteria, go_owner = Some owner,
         go_created_at = (case map_of (si_goals si) i of None \<Rightarrow> now | Some g \<Rightarrow> go_created_at g),
         go_updated_at = now\<rparr>))))))))))"

definition apply_goal_created :: "builtins \<Rightarrow> situation \<Rightarrow> jobject event \<Rightarrow> situation result" where
  "apply_goal_created b si e =
     (let d = ev_payload e; now = ev_timestamp e in
      rbind (j_str b d ''description'') (\<lambda>description.
      rbind (j_float_or b d ''priority'' (Fin (1/2))) (\<lambda>priority.
      rbind (j_float_or b d ''utility'' 1) (\<lambda>utility.
      rbind (goal_status_of (j_str_or b d ''status'' ''active'')) (\<lambda>status.
      rbind (j_time_opt b d ''deadline'') (\<lambda>deadline.
      rbind (j_strs b d ''success_criteria'') (\<lambda>criteria.
      Inr (put_goal si
        \<lparr>go_id = id_or_event b e, go_description = description, go_priority = priority, go_utility = utility,
         go_status = status, go_deadline = deadline, go_success_criteria = criteria,
         go_owner = opt_str_truthy b d ''owner'', go_created_at = now, go_updated_at = now\<rparr>))))))))"

text \<open>A branch that returns \<open>False\<close> for an unknown identifier changes nothing.\<close>

definition apply_goal_updated :: "builtins \<Rightarrow> situation \<Rightarrow> jobject event \<Rightarrow> (bool \<times> situation) result" where
  "apply_goal_updated b si e =
     (let d = ev_payload e in
      case map_of (si_goals si) (id_or_subject b e) of
        None \<Rightarrow> Inr (False, si)
      | Some g \<Rightarrow>
          rbind (j_float_or b d ''priority'' (go_priority g)) (\<lambda>priority.
          rbind (j_float_or b d ''utility'' (go_utility g)) (\<lambda>utility.
          rbind (goal_status_of (j_str_or b d ''status'' (goal_status_value (go_status g)))) (\<lambda>status.
          rbind (j_time_or b d ''deadline'' (go_deadline g)) (\<lambda>deadline.
          Inr (True, si\<lparr>si_goals := AList.update (id_or_subject b e)
            (g\<lparr>go_description := j_str_or b d ''description'' (go_description g), go_priority := priority,
               go_utility := utility, go_status := status, go_deadline := deadline,
               go_owner := (case map_of d ''owner'' of
                   None \<Rightarrow> (if go_owner g = Some [] then None else go_owner g)
                 | Some _ \<Rightarrow> opt_str_truthy b d ''owner''),
               go_updated_at := ev_timestamp e\<rparr>) (si_goals si)\<rparr>))))))"

text \<open>The fields that the two creating events of a commitment read alike.\<close>

definition read_commitment ::
  "builtins \<Rightarrow> jobject \<Rightarrow> string \<Rightarrow> string \<Rightarrow> (jobject \<Rightarrow> string result) \<Rightarrow> (jobject \<Rightarrow> datetime result) \<Rightarrow>
   (jobject \<Rightarrow> datetime result) \<Rightarrow> string result \<Rightarrow> commitment result" where
  "read_commitment b d i owner status_text created updated description_text =
     rbind description_text (\<lambda>description.
     rbind (j_float_or b d ''priority'' (Fin (1/2))) (\<lambda>priority.
     rbind (rbind (status_text d) commitment_status_of) (\<lambda>status.
     rbind (j_time_opt b d ''deadline'') (\<lambda>deadline.
     rbind (j_float_or b d ''attention_cost'' 1) (\<lambda>cost.
     rbind (j_float_or b d ''social_cost_of_failure'' 0) (\<lambda>social.
     rbind (created d) (\<lambda>created_at.
     rbind (updated d) (\<lambda>updated_at.
     rbind (closure_reason_json b (jget d ''closure_reason'')) (\<lambda>reason.
     rbind (j_strs b d ''governing_goal_refs'') (\<lambda>goals.
     rbind (j_time_opt b d ''activation_due_at'') (\<lambda>due.
     rbind (j_strs b d ''lead_time_evidence_refs'') (\<lambda>lead.
     Inr \<lparr>co_id = i, co_description = description, co_owner = owner, co_priority = priority,
          co_status = status, co_deadline = deadline, co_terminal = j_bool_or d ''terminal'' True,
          co_attention_cost = cost, co_social_cost = social, co_created_at = created_at,
          co_updated_at = updated_at, co_closure_reason = reason, co_goal_refs = goals,
          co_roadmap_revision_id = optional_text b (jget d ''roadmap_revision_id''),
          co_outcome_node_id = optional_text b (jget d ''outcome_node_id''),
          co_role_assignment_id = optional_text b (jget d ''role_assignment_id''),
          co_assistance_envelope_id = optional_text b (jget d ''assistance_envelope_id''),
          co_activation_due_at = due, co_lead_time_evidence_refs = lead\<rparr>))))))))))))"

definition put_commitment :: "situation \<Rightarrow> string \<Rightarrow> commitment \<Rightarrow> situation" where
  "put_commitment si i c = si\<lparr>si_commitments := AList.update i c (si_commitments si)\<rparr>"

definition time_or_now :: "builtins \<Rightarrow> string \<Rightarrow> datetime \<Rightarrow> jobject \<Rightarrow> datetime result" where
  "time_or_now b k now d = rbind (j_time_opt b d k) (\<lambda>t. Inr (case t of None \<Rightarrow> now | Some t \<Rightarrow> t))"

definition apply_commitment_recorded :: "builtins \<Rightarrow> situation \<Rightarrow> jobject event \<Rightarrow> situation result" where
  "apply_commitment_recorded b si e =
     (let d = ev_payload e; now = ev_timestamp e in
      rbind (j_str b d ''id'') (\<lambda>i.
      rbind (j_str b d ''description'') (\<lambda>description.
      rbind (j_str b d ''owner'') (\<lambda>owner.
      rbind (read_commitment b d i owner (\<lambda>d. j_str b d ''status'') (time_or_now b ''created_at'' now)
               (time_or_now b ''updated_at'' now) (Inr description)) (\<lambda>c.
      Inr (put_commitment si i c))))))"

definition apply_commitment_created :: "builtins \<Rightarrow> situation \<Rightarrow> jobject event \<Rightarrow> situation result" where
  "apply_commitment_created b si e =
     (let d = ev_payload e; now = ev_timestamp e; i = id_or_event b e in
      rbind (read_commitment b d i (truthy_str b d ''owner'' (ev_source e))
               (\<lambda>d. Inr (j_str_or b d ''status'' ''open'')) (\<lambda>_. Inr now) (\<lambda>_. Inr now)
               (j_str b d ''description'')) (\<lambda>c.
      Inr (put_commitment si i c)))"

definition some_or :: "'a option \<Rightarrow> 'a option \<Rightarrow> 'a option" where
  "some_or v w = (case v of None \<Rightarrow> w | Some _ \<Rightarrow> v)"

definition apply_commitment_transitioned ::
  "builtins \<Rightarrow> situation \<Rightarrow> jobject event \<Rightarrow> (bool \<times> situation) result" where
  "apply_commitment_transitioned b si e =
     (let d = ev_payload e in
      rbind (j_str b d ''commitment_id'') (\<lambda>i.
      case map_of (si_commitments si) i of
        None \<Rightarrow> Inr (False, si)
      | Some c \<Rightarrow>
          rbind (rbind (j_str b d ''to_state'') commitment_status_of) (\<lambda>status.
          rbind (closure_reason_json b (jget d ''closure_reason'')) (\<lambda>reason.
          Inr (True, put_commitment si i (c\<lparr>co_status := status, co_closure_reason := reason,
            co_roadmap_revision_id := some_or (optional_text b (jget d ''reactivation_roadmap_revision_id''))
              (co_roadmap_revision_id c),
            co_role_assignment_id := some_or (optional_text b (jget d ''reactivation_role_assignment_id''))
              (co_role_assignment_id c),
            co_assistance_envelope_id :=
              (if jget d ''reactivation_roadmap_revision_id'' \<noteq> JNull
               then optional_text b (jget d ''reactivation_assistance_envelope_id'')
               else co_assistance_envelope_id c),
            co_updated_at := ev_timestamp e\<rparr>))))))"

definition apply_commitment_updated ::
  "builtins \<Rightarrow> situation \<Rightarrow> jobject event \<Rightarrow> (bool \<times> situation) result" where
  "apply_commitment_updated b si e =
     (let d = ev_payload e; i = id_or_subject b e in
      case map_of (si_commitments si) i of
        None \<Rightarrow> Inr (False, si)
      | Some c \<Rightarrow>
          rbind (j_float_or b d ''priority'' (co_priority c)) (\<lambda>priority.
          rbind (commitment_status_of (j_str_or b d ''status'' (commitment_status_value (co_status c)))) (\<lambda>status.
          rbind (j_time_or b d ''deadline'' (co_deadline c)) (\<lambda>deadline.
          rbind (j_float_or b d ''attention_cost'' (co_attention_cost c)) (\<lambda>cost.
          rbind (j_float_or b d ''social_cost_of_failure'' (co_social_cost c)) (\<lambda>social.
          rbind (case map_of d ''closure_reason'' of None \<Rightarrow> Inr (co_closure_reason c)
                 | Some v \<Rightarrow> closure_reason_json b v) (\<lambda>reason.
          rbind (j_strs_or b d ''governing_goal_refs'' (co_goal_refs c)) (\<lambda>goals.
          rbind (j_time_or b d ''activation_due_at'' (co_activation_due_at c)) (\<lambda>due.
          rbind (j_strs_or b d ''lead_time_evidence_refs'' (co_lead_time_evidence_refs c)) (\<lambda>lead.
          Inr (True, put_commitment si i (c\<lparr>
            co_description := j_str_or b d ''description'' (co_description c),
            co_owner := j_str_or b d ''owner'' (co_owner c), co_priority := priority, co_status := status,
            co_deadline := deadline, co_terminal := j_bool_or d ''terminal'' (co_terminal c),
            co_attention_cost := cost, co_social_cost := social, co_updated_at := ev_timestamp e,
            co_closure_reason := reason, co_goal_refs := goals,
            co_roadmap_revision_id := optional_text_or b d ''roadmap_revision_id'' (co_roadmap_revision_id c),
            co_outcome_node_id := optional_text_or b d ''outcome_node_id'' (co_outcome_node_id c),
            co_role_assignment_id := optional_text_or b d ''role_assignment_id'' (co_role_assignment_id c),
            co_assistance_envelope_id := optional_text_or b d ''assistance_envelope_id'' (co_assistance_envelope_id c),
            co_activation_due_at := due, co_lead_time_evidence_refs := lead\<rparr>))))))))))))"

definition apply_commitment_closed ::
  "builtins \<Rightarrow> situation \<Rightarrow> jobject event \<Rightarrow> closure_reason \<Rightarrow> bool \<times> situation" where
  "apply_commitment_closed b si e reason =
     (let i = id_or_subject b e in
      case map_of (si_commitments si) i of
        None \<Rightarrow> (False, si)
      | Some c \<Rightarrow> (True, put_commitment si i (c\<lparr>co_status := CClosed, co_closure_reason := Some reason,
          co_updated_at := ev_timestamp e\<rparr>)))"

definition apply_risk_detected :: "builtins \<Rightarrow> situation \<Rightarrow> jobject event \<Rightarrow> situation result" where
  "apply_risk_detected b si e =
     (let d = ev_payload e; now = ev_timestamp e; i = id_or_event b e in
      rbind (j_str b d ''description'') (\<lambda>description.
      rbind (j_float_or b d ''severity'' (Fin (1/2))) (\<lambda>severity.
      rbind (j_float_or b d ''probability'' 1) (\<lambda>probability.
      rbind (j_float_or b d ''impact'' 1) (\<lambda>impact.
      Inr (si\<lparr>si_risks := AList.update i
        \<lparr>ri_id = i, ri_description = description, ri_severity = severity, ri_probability = probability,
         ri_impact = impact, ri_mitigation = opt_str_truthy b d ''mitigation'',
         ri_source = truthy_str b d ''source'' (ev_source e), ri_active = True, ri_created_at = now,
         ri_updated_at = now\<rparr> (si_risks si)\<rparr>))))))"

definition apply_risk_resolved :: "builtins \<Rightarrow> situation \<Rightarrow> jobject event \<Rightarrow> bool \<times> situation" where
  "apply_risk_resolved b si e =
     (let i = id_or_subject b e in
      case map_of (si_risks si) i of
        None \<Rightarrow> (False, si)
      | Some r \<Rightarrow> (True, si\<lparr>si_risks := AList.update i (r\<lparr>ri_active := False, ri_updated_at := ev_timestamp e\<rparr>)
          (si_risks si)\<rparr>))"

definition apply_opportunity_detected :: "builtins \<Rightarrow> situation \<Rightarrow> jobject event \<Rightarrow> situation result" where
  "apply_opportunity_detected b si e =
     (let d = ev_payload e; now = ev_timestamp e; i = id_or_event b e in
      rbind (j_str b d ''description'') (\<lambda>description.
      rbind (j_float_or b d ''expected_value'' 0) (\<lambda>expected.
      rbind (j_float_or b d ''uncertainty'' (Fin (1/2))) (\<lambda>uncertainty.
      rbind (j_float_or b d ''attention_cost'' 1) (\<lambda>cost.
      rbind (j_time_opt b d ''expires_at'') (\<lambda>expires.
      Inr (si\<lparr>si_opportunities := AList.update i
        \<lparr>ot_id = i, ot_description = description, ot_expected_value = expected, ot_uncertainty = uncertainty,
         ot_attention_cost = cost, ot_expires_at = expires, ot_active = True,
         ot_source = truthy_str b d ''source'' (ev_source e), ot_created_at = now, ot_updated_at = now\<rparr>
        (si_opportunities si)\<rparr>)))))))"

definition apply_opportunity_closed :: "builtins \<Rightarrow> situation \<Rightarrow> jobject event \<Rightarrow> bool \<times> situation" where
  "apply_opportunity_closed b si e =
     (let i = id_or_subject b e in
      case map_of (si_opportunities si) i of
        None \<Rightarrow> (False, si)
      | Some o1 \<Rightarrow> (True, si\<lparr>si_opportunities := AList.update i
          (o1\<lparr>ot_active := False, ot_updated_at := ev_timestamp e\<rparr>) (si_opportunities si)\<rparr>))"

definition apply_resource :: "builtins \<Rightarrow> situation \<Rightarrow> jobject event \<Rightarrow> situation result" where
  "apply_resource b si e =
     rbind (j_str b (ev_payload e) ''name'') (\<lambda>name.
     rbind (j_float b (ev_payload e) ''amount'') (\<lambda>amount.
     Inr (si\<lparr>si_resources := AList.update name amount (si_resources si)\<rparr>)))"

definition apply_builtin :: "builtins \<Rightarrow> situation \<Rightarrow> jobject event \<Rightarrow> (bool \<times> situation) result" where
  "apply_builtin b si e =
     (let ty = ev_type e; handled = (\<lambda>r. rbind r (\<lambda>si'. Inr (True, si'))) in
      if ty = ''fact.observed'' then handled (apply_fact b si e)
      else if ty = ''fact.retracted'' then handled (apply_fact_retracted b si e)
      else if ty = ''entity.upserted'' then handled (apply_entity b si e)
      else if ty = ''entity.removed'' then Inr (True, apply_entity_removed b si e)
      else if ty = ''relation.upserted'' then handled (apply_relation b si e)
      else if ty = ''relation.removed'' then Inr (True, apply_relation_removed b si e)
      else if ty = ''intent.goal_revision_recorded'' then handled (apply_goal_revision b si e)
      else if ty = ''goal.created'' then handled (apply_goal_created b si e)
      else if ty = ''goal.updated'' then apply_goal_updated b si e
      else if ty = ''intent.commitment_recorded'' then handled (apply_commitment_recorded b si e)
      else if ty = ''intent.commitment_transitioned'' then apply_commitment_transitioned b si e
      else if ty = ''commitment.created'' then handled (apply_commitment_created b si e)
      else if ty = ''commitment.updated'' then apply_commitment_updated b si e
      else if ty = ''commitment.completed'' then Inr (apply_commitment_closed b si e RFulfilled)
      else if ty = ''commitment.failed'' then Inr (apply_commitment_closed b si e RFailed)
      else if ty = ''commitment.cancelled'' then Inr (apply_commitment_closed b si e RCancelled)
      else if ty = ''risk.detected'' then handled (apply_risk_detected b si e)
      else if ty = ''risk.resolved'' then Inr (apply_risk_resolved b si e)
      else if ty = ''opportunity.detected'' then handled (apply_opportunity_detected b si e)
      else if ty = ''opportunity.closed'' then Inr (apply_opportunity_closed b si e)
      else if ty = ''resource.updated'' then handled (apply_resource b si e)
      else Inr (False, si))"

subsection \<open>Applying events and rebuilding\<close>

text \<open>
  A projector may change the situation before it raises, so applying an event returns the situation in
  every case, with the exception if there is one. No built-in branch changes anything before it raises.
\<close>

type_synonym projector = "situation \<Rightarrow> jobject event \<Rightarrow> py_error option \<times> situation"

fun run_projectors :: "projector list \<Rightarrow> situation \<Rightarrow> jobject event \<Rightarrow> py_error option \<times> situation" where
  "run_projectors [] si e = (None, si)"
| "run_projectors (p # ps) si e = (case p si e of
     (Some err, si') \<Rightarrow> (Some err, si')
   | (None, si') \<Rightarrow> run_projectors ps si' e)"

text \<open>\<open>event.sequence or self._version + 1\<close>\<close>

definition next_version :: "situation \<Rightarrow> jobject event \<Rightarrow> int" where
  "next_version si e = (case ev_sequence e of
     None \<Rightarrow> si_version si + 1 | Some n \<Rightarrow> if n = 0 then si_version si + 1 else n)"

definition situation_apply ::
  "builtins \<Rightarrow> projector list \<Rightarrow> situation \<Rightarrow> jobject event \<Rightarrow> py_error option \<times> situation" where
  "situation_apply b ps si e = (case apply_builtin b si e of
     Inl err \<Rightarrow> (Some err, si)
   | Inr (_, si1) \<Rightarrow> (case run_projectors ps si1 e of
       (Some err, si2) \<Rightarrow> (Some err, si2)
     | (None, si2) \<Rightarrow> (None, si2\<lparr>si_version := next_version si2 e, si_observed_at := ev_timestamp e\<rparr>)))"

text \<open>The events come from an iterator that may raise itself.\<close>

fun situation_replay ::
  "builtins \<Rightarrow> projector list \<Rightarrow> situation \<Rightarrow> jobject event result list \<Rightarrow> py_error option \<times> situation" where
  "situation_replay b ps si [] = (None, si)"
| "situation_replay b ps si (Inl err # es) = (Some err, si)"
| "situation_replay b ps si (Inr e # es) = (case situation_apply b ps si e of
     (Some err, si') \<Rightarrow> (Some err, si')
   | (None, si') \<Rightarrow> situation_replay b ps si' es)"

definition situation_rebuild ::
  "builtins \<Rightarrow> projector list \<Rightarrow> datetime \<Rightarrow> jobject event result list \<Rightarrow> py_error option \<times> situation" where
  "situation_rebuild b ps now es = situation_replay b ps (empty_situation now) es"

subsection \<open>Snapshots\<close>

definition not_expired :: "datetime \<Rightarrow> datetime option \<Rightarrow> bool" where
  "not_expired now expires = (case expires of None \<Rightarrow> True | Some t \<Rightarrow> dt_before now t)"

definition snapshot :: "situation \<Rightarrow> datetime \<Rightarrow> situation" where
  "snapshot si now = si\<lparr>si_facts := filter (\<lambda>(_, f). not_expired now (fa_expires_at f)) (si_facts si)\<rparr>"

definition snapshot_fact :: "situation \<Rightarrow> datetime \<Rightarrow> string \<Rightarrow> json \<Rightarrow> json" where
  "snapshot_fact si now key dflt = (case map_of (si_facts si) key of
     None \<Rightarrow> dflt | Some f \<Rightarrow> if not_expired now (fa_expires_at f) then fa_value f else dflt)"

definition active_goals :: "situation \<Rightarrow> goal list" where
  "active_goals si = filter (\<lambda>g. go_status g = GActive) (map snd (si_goals si))"

definition open_commitments :: "situation \<Rightarrow> commitment list" where
  "open_commitments si =
     filter (\<lambda>c. co_status c \<in> {CAccepted, CActive, COpen, CInProgress}) (map snd (si_commitments si))"

definition active_risks :: "situation \<Rightarrow> risk list" where
  "active_risks si = filter ri_active (map snd (si_risks si))"

definition active_opportunities :: "situation \<Rightarrow> datetime \<Rightarrow> opportunity list" where
  "active_opportunities si now =
     filter (\<lambda>o1. ot_active o1 \<and> not_expired now (ot_expires_at o1)) (map snd (si_opportunities si))"

definition relations_from :: "situation \<Rightarrow> string \<Rightarrow> string option \<Rightarrow> relation_record list" where
  "relations_from si i kind =
     filter (\<lambda>r. re_source_id r = i \<and> (kind = None \<or> kind = Some (re_kind r))) (map snd (si_relations si))"

definition relations_to :: "situation \<Rightarrow> string \<Rightarrow> string option \<Rightarrow> relation_record list" where
  "relations_to si i kind =
     filter (\<lambda>r. re_target_id r = i \<and> (kind = None \<or> kind = Some (re_kind r))) (map snd (si_relations si))"

subsection \<open>Every entry is stored under its identifier\<close>

definition keyed_by :: "('a \<Rightarrow> string) \<Rightarrow> (string \<times> 'a) list \<Rightarrow> bool" where
  "keyed_by f d \<longleftrightarrow> distinct (map fst d) \<and> (\<forall>(k, v) \<in> set d. f v = k)"

lemma set_update_subset: "set (AList.update k v d) \<subseteq> insert (k, v) (set d)"
  by (induction d) auto

lemma keyed_by_update: "keyed_by f d \<Longrightarrow> f v = k \<Longrightarrow> keyed_by f (AList.update k v d)"
  using set_update_subset [of k v d] by (auto simp: keyed_by_def distinct_update)

lemma keyed_by_filter: "keyed_by f d \<Longrightarrow> keyed_by f (filter P d)"
  by (auto simp: keyed_by_def distinct_map_filter)

lemma keyed_by_delete: "keyed_by f d \<Longrightarrow> keyed_by f (AList.delete k d)"
  unfolding AList.delete_eq by (rule keyed_by_filter)

lemma keyed_by_lookup: "keyed_by f d \<Longrightarrow> map_of d k = Some v \<Longrightarrow> f v = k"
  by (auto simp: keyed_by_def dest: map_of_SomeD)

definition situation_inv :: "situation \<Rightarrow> bool" where
  "situation_inv si \<longleftrightarrow> keyed_by fa_key (si_facts si) \<and> keyed_by en_id (si_entities si) \<and>
     keyed_by re_id (si_relations si) \<and> keyed_by go_id (si_goals si) \<and> keyed_by co_id (si_commitments si) \<and>
     keyed_by ri_id (si_risks si) \<and> keyed_by ot_id (si_opportunities si) \<and> distinct (map fst (si_resources si))"

lemma read_commitment_id: "read_commitment b d i owner st cr up descr = Inr c \<Longrightarrow> co_id c = i"
  by (auto simp: read_commitment_def rbind_Inr_iff)

named_theorems situation_inv_intros "handlers of the situation keep its invariant"

lemma fact_inv [situation_inv_intros]:
  "situation_inv si \<Longrightarrow> apply_fact b si e = Inr si' \<Longrightarrow> situation_inv si'"
  "situation_inv si \<Longrightarrow> apply_fact_retracted b si e = Inr si' \<Longrightarrow> situation_inv si'"
  by (auto simp: apply_fact_def apply_fact_retracted_def situation_inv_def Let_def rbind_Inr_iff
      intro!: keyed_by_update keyed_by_delete)

lemma graph_inv [situation_inv_intros]:
  "situation_inv si \<Longrightarrow> apply_entity b si e = Inr si' \<Longrightarrow> situation_inv si'"
  "situation_inv si \<Longrightarrow> situation_inv (apply_entity_removed b si e)"
  "situation_inv si \<Longrightarrow> apply_relation b si e = Inr si' \<Longrightarrow> situation_inv si'"
  "situation_inv si \<Longrightarrow> situation_inv (apply_relation_removed b si e)"
  by (auto simp: apply_entity_def apply_entity_removed_def apply_relation_def apply_relation_removed_def
      situation_inv_def Let_def rbind_Inr_iff intro!: keyed_by_update keyed_by_delete keyed_by_filter
      split: if_splits)

lemma put_goal_inv: "situation_inv si \<Longrightarrow> go_id g = i \<Longrightarrow> situation_inv (si\<lparr>si_goals := AList.update i g (si_goals si)\<rparr>)"
  by (simp add: situation_inv_def keyed_by_update)

lemma put_commitment_inv: "situation_inv si \<Longrightarrow> co_id c = i \<Longrightarrow> situation_inv (put_commitment si i c)"
  by (simp add: situation_inv_def put_commitment_def keyed_by_update)

lemma known_goal_id: "situation_inv si \<Longrightarrow> map_of (si_goals si) i = Some g \<Longrightarrow> go_id g = i"
  unfolding situation_inv_def by (blast intro: keyed_by_lookup)

lemma known_commitment_id: "situation_inv si \<Longrightarrow> map_of (si_commitments si) i = Some c \<Longrightarrow> co_id c = i"
  unfolding situation_inv_def by (blast intro: keyed_by_lookup)

lemma goal_inv [situation_inv_intros]:
  "situation_inv si \<Longrightarrow> apply_goal_revision b si e = Inr si' \<Longrightarrow> situation_inv si'"
  "situation_inv si \<Longrightarrow> apply_goal_created b si e = Inr si' \<Longrightarrow> situation_inv si'"
  by (auto simp: apply_goal_revision_def apply_goal_created_def put_goal_def Let_def rbind_Inr_iff
      intro!: put_goal_inv)

lemma goal_updated_inv [situation_inv_intros]:
  assumes "situation_inv si" "apply_goal_updated b si e = Inr (h, si')"
  shows "situation_inv si'"
proof (cases "map_of (si_goals si) (id_or_subject b e)")
  case None
  with assms show ?thesis by (simp add: apply_goal_updated_def)
next
  case (Some g)
  have "go_id g = id_or_subject b e" by (rule known_goal_id [OF assms(1) Some])
  with assms show ?thesis
    by (auto simp: apply_goal_updated_def Some Let_def rbind_Inr_iff intro!: put_goal_inv)
qed

lemma commitment_inv [situation_inv_intros]:
  "situation_inv si \<Longrightarrow> apply_commitment_recorded b si e = Inr si' \<Longrightarrow> situation_inv si'"
  "situation_inv si \<Longrightarrow> apply_commitment_created b si e = Inr si' \<Longrightarrow> situation_inv si'"
  by (auto simp: apply_commitment_recorded_def apply_commitment_created_def Let_def rbind_Inr_iff
      intro!: put_commitment_inv read_commitment_id)

lemma commitment_transitioned_inv [situation_inv_intros]:
  assumes "situation_inv si" "apply_commitment_transitioned b si e = Inr (h, si')"
  shows "situation_inv si'"
proof -
  obtain i where i: "j_str b (ev_payload e) ''commitment_id'' = Inr i"
    using assms(2) by (auto simp: apply_commitment_transitioned_def Let_def rbind_Inr_iff)
  show ?thesis
  proof (cases "map_of (si_commitments si) i")
    case None
    with assms show ?thesis by (simp add: apply_commitment_transitioned_def i)
  next
    case (Some c)
    have "co_id c = i" by (rule known_commitment_id [OF assms(1) Some])
    with assms show ?thesis
      by (auto simp: apply_commitment_transitioned_def i Some Let_def rbind_Inr_iff intro!: put_commitment_inv)
  qed
qed

lemma commitment_updated_inv [situation_inv_intros]:
  assumes "situation_inv si" "apply_commitment_updated b si e = Inr (h, si')"
  shows "situation_inv si'"
proof (cases "map_of (si_commitments si) (id_or_subject b e)")
  case None
  with assms show ?thesis by (simp add: apply_commitment_updated_def)
next
  case (Some c)
  have "co_id c = id_or_subject b e" by (rule known_commitment_id [OF assms(1) Some])
  with assms show ?thesis
    by (auto simp: apply_commitment_updated_def Some Let_def rbind_Inr_iff intro!: put_commitment_inv)
qed

lemma commitment_closed_inv [situation_inv_intros]:
  assumes "situation_inv si"
  shows "situation_inv (snd (apply_commitment_closed b si e reason))"
proof (cases "map_of (si_commitments si) (id_or_subject b e)")
  case None
  with assms show ?thesis by (simp add: apply_commitment_closed_def Let_def)
next
  case (Some c)
  have "co_id c = id_or_subject b e" by (rule known_commitment_id [OF assms Some])
  with assms show ?thesis by (simp add: apply_commitment_closed_def Some Let_def put_commitment_inv)
qed

lemma known_risk_id:
  "situation_inv si \<Longrightarrow> map_of (si_risks si) i = Some r \<Longrightarrow> ri_id r = i"
  "situation_inv si \<Longrightarrow> map_of (si_opportunities si) i = Some o1 \<Longrightarrow> ot_id o1 = i"
  unfolding situation_inv_def by (blast intro: keyed_by_lookup)+

lemma risk_inv [situation_inv_intros]:
  "situation_inv si \<Longrightarrow> apply_risk_detected b si e = Inr si' \<Longrightarrow> situation_inv si'"
  "situation_inv si \<Longrightarrow> apply_opportunity_detected b si e = Inr si' \<Longrightarrow> situation_inv si'"
  "situation_inv si \<Longrightarrow> apply_resource b si e = Inr si' \<Longrightarrow> situation_inv si'"
  by (auto simp: apply_risk_detected_def apply_opportunity_detected_def apply_resource_def situation_inv_def
      Let_def rbind_Inr_iff intro!: keyed_by_update distinct_update)

lemma risk_closed_inv [situation_inv_intros]:
  assumes "situation_inv si"
  shows "situation_inv (snd (apply_risk_resolved b si e))" "situation_inv (snd (apply_opportunity_closed b si e))"
  using assms known_risk_id [OF assms]
  by (auto simp: apply_risk_resolved_def apply_opportunity_closed_def situation_inv_def Let_def
      intro!: keyed_by_update split: option.splits)

lemma handled_inv:
  assumes "rbind r (\<lambda>si'. Inr (True, si')) = Inr (h, si')" "\<And>x. r = Inr x \<Longrightarrow> situation_inv x"
  shows "situation_inv si'"
  using assms by (auto simp: rbind_Inr_iff)

lemma returned_inv: "situation_inv (snd p) \<Longrightarrow> p = (h, si') \<Longrightarrow> situation_inv si'"
  by simp

lemma apply_builtin_inv:
  assumes "situation_inv si" "apply_builtin b si e = Inr (h, si')"
  shows "situation_inv si'"
  using assms unfolding apply_builtin_def Let_def
  by (auto split: if_split_asm elim!: handled_inv intro: situation_inv_intros
      dest: returned_inv [OF commitment_closed_inv, rotated] returned_inv [OF risk_closed_inv(1), rotated]
        returned_inv [OF risk_closed_inv(2), rotated])

text \<open>Without registered projectors the situation is a projection in the sense of \<open>Contracts\<close>.\<close>

definition situation_step :: "builtins \<Rightarrow> situation \<Rightarrow> jobject event \<Rightarrow> situation result" where
  "situation_step b si e = (case situation_apply b [] si e of (Some err, _) \<Rightarrow> Inl err | (None, si') \<Rightarrow> Inr si')"

lemma situation_step_inv:
  assumes "situation_inv si" "situation_step b si e = Inr si'"
  shows "situation_inv si'"
proof -
  obtain h si1 where h: "apply_builtin b si e = Inr (h, si1)"
      "si' = si1\<lparr>si_version := next_version si1 e, si_observed_at := ev_timestamp e\<rparr>"
    using assms(2) by (auto simp: situation_step_def situation_apply_def split: sum.splits)
  with apply_builtin_inv [OF assms(1) h(1)] show ?thesis by (simp add: situation_inv_def)
qed

lemma situation_inv_empty: "situation_inv (empty_situation now)"
  by (simp add: situation_inv_def empty_situation_def keyed_by_def)

interpretation situation: projection "empty_situation now" "situation_step b" situation_inv
  by unfold_locales (rule situation_inv_empty, rule situation_step_inv)

end
