(* ===== verification/Kernel.thy ===== *)
theory Kernel
  imports Situation MemoryStore Fnmatch
begin

section \<open>The event bus and the kernel\<close>

text \<open>
  Models \<open>AsyncEventBus\<close> of \<^verbatim>\<open>src/noema/events.py\<close> and \<open>NoemaKernel\<close> of \<^verbatim>\<open>kernel.py\<close>: committing an event
  to the store, projecting it into the situation, publishing it to the subscribers, and replaying the log at
  the start. The store's operations, the schema registry and the registered projectors are arguments. The
  commit runs under the kernel's lock and is one step. An operation returns its value or exception together
  with the state it leaves, since an exception after the append leaves a changed store.
\<close>

subsection \<open>The bus\<close>

text \<open>
  A worker drains the queue of its subscription in order; \<open>None\<close> ends it. The queue is unbounded, which is
  the default. \<open>wk_handled\<close> lists the events that were passed to the handler.
\<close>

record bus_worker =
  wk_queue :: "jobject event option list"
  wk_handled :: "jobject event list"

record event_bus =
  eb_started :: bool
  eb_closed :: bool
  eb_subscriptions :: "(string \<times> string) list"
  eb_workers :: "(string \<times> bus_worker) list"
  eb_errors :: "(jobject event \<times> py_error) list"

definition new_bus :: event_bus where
  "new_bus = \<lparr>eb_started = False, eb_closed = False, eb_subscriptions = [], eb_workers = [], eb_errors = []\<rparr>"

definition bus_start :: "event_bus \<Rightarrow> event_bus result" where
  "bus_start bus = (if eb_closed bus then Inl (RuntimeError ''event bus has already been closed'')
     else Inr (bus\<lparr>eb_started := True\<rparr>))"

definition subscribe :: "event_bus \<Rightarrow> string \<Rightarrow> string \<Rightarrow> event_bus result" where
  "subscribe bus fresh pattern =
     (if pattern = [] then Inl (ValueError ''subscription pattern must be non-empty'')
      else rbind (if eb_started bus then Inr bus else bus_start bus) (\<lambda>bus.
        Inr (bus\<lparr>eb_subscriptions := AList.update fresh pattern (eb_subscriptions bus),
                 eb_workers := AList.update fresh \<lparr>wk_queue = [], wk_handled = []\<rparr> (eb_workers bus)\<rparr>)))"

definition enqueue :: "string set \<Rightarrow> jobject event option \<Rightarrow> (string \<times> bus_worker) list \<Rightarrow> (string \<times> bus_worker) list" where
  "enqueue ids item workers =
     map (\<lambda>(i, w). (i, if i \<in> ids then w\<lparr>wk_queue := wk_queue w @ [item]\<rparr> else w)) workers"

definition unsubscribe :: "event_bus \<Rightarrow> string \<Rightarrow> event_bus" where
  "unsubscribe bus i = (case map_of (eb_subscriptions bus) i of
     None \<Rightarrow> bus
   | Some _ \<Rightarrow> bus\<lparr>eb_subscriptions := AList.delete i (eb_subscriptions bus),
                   eb_workers := enqueue {i} None (eb_workers bus)\<rparr>)"

definition matching :: "event_bus \<Rightarrow> jobject event \<Rightarrow> string set" where
  "matching bus e = {i. \<exists>pattern. map_of (eb_subscriptions bus) i = Some pattern \<and> glob pattern (ev_type e)}"

lemma matching_code [code]:
  "matching bus e = set (filter (\<lambda>i. case map_of (eb_subscriptions bus) i of
     None \<Rightarrow> False | Some pattern \<Rightarrow> glob pattern (ev_type e)) (map fst (eb_subscriptions bus)))"
  by (force simp: matching_def dest: map_of_SomeD split: option.splits)

definition bus_publish :: "event_bus \<Rightarrow> jobject event \<Rightarrow> event_bus result" where
  "bus_publish bus e =
     (if eb_closed bus then Inl (RuntimeError ''cannot publish to a closed event bus'')
      else rbind (if eb_started bus then Inr bus else bus_start bus) (\<lambda>bus.
        Inr (bus\<lparr>eb_workers := enqueue (matching bus e) (Some e) (eb_workers bus)\<rparr>)))"

text \<open>One step of a worker; the handler's outcome is an argument. A failure is recorded and isolated.\<close>

definition bus_work :: "event_bus \<Rightarrow> string \<Rightarrow> py_error option \<Rightarrow> event_bus" where
  "bus_work bus i failure = (case map_of (eb_workers bus) i of
     None \<Rightarrow> bus
   | Some w \<Rightarrow> (case wk_queue w of
       [] \<Rightarrow> bus
     | None # _ \<Rightarrow> bus\<lparr>eb_workers := AList.delete i (eb_workers bus)\<rparr>
     | Some e # q \<Rightarrow>
         bus\<lparr>eb_workers := AList.update i \<lparr>wk_queue = q, wk_handled = wk_handled w @ [e]\<rparr> (eb_workers bus),
             eb_errors := eb_errors bus @ (case failure of None \<Rightarrow> [] | Some err \<Rightarrow> [(e, err)])\<rparr>))"

text \<open>\<open>stop\<close> once every queue is drained, which it waits for.\<close>

definition bus_drained :: "event_bus \<Rightarrow> bool" where
  "bus_drained bus \<longleftrightarrow> list_all (\<lambda>(i, w). wk_queue w = []) (eb_workers bus)"

definition bus_stop :: "event_bus \<Rightarrow> event_bus" where
  "bus_stop bus = (if eb_closed bus then bus
     else bus\<lparr>eb_subscriptions := [], eb_workers := [], eb_closed := True, eb_started := False\<rparr>)"

datatype bus_op =
    Publish "jobject event"
  | Work string "py_error option"
  | Subscribe string string
  | Unsubscribe string

fun bus_step :: "event_bus \<Rightarrow> bus_op \<Rightarrow> event_bus" where
  "bus_step bus (Publish e) = (case bus_publish bus e of Inl _ \<Rightarrow> bus | Inr bus' \<Rightarrow> bus')"
| "bus_step bus (Work i failure) = bus_work bus i failure"
| "bus_step bus (Subscribe i pattern) = (case subscribe bus i pattern of Inl _ \<Rightarrow> bus | Inr bus' \<Rightarrow> bus')"
| "bus_step bus (Unsubscribe i) = unsubscribe bus i"

subsection \<open>The kernel\<close>

record 's kernel_env =
  ke_append :: "'s \<Rightarrow> jobject event \<Rightarrow> (jobject event \<times> 's) result"
  ke_append_if :: "'s \<Rightarrow> jobject event \<Rightarrow> int \<Rightarrow> (jobject event \<times> 's) result"
  ke_append_outbox :: "'s \<Rightarrow> jobject event \<Rightarrow> string \<Rightarrow> (jobject event \<times> 's) result"
  ke_append_outbox_if :: "'s \<Rightarrow> jobject event \<Rightarrow> string \<Rightarrow> int \<Rightarrow> (jobject event \<times> 's) result"
  ke_read :: "'s \<Rightarrow> jobject event list result"
  ke_latest :: "'s \<Rightarrow> int"
  ke_registry :: "jobject registry"
  ke_projectors :: "projector list"
  ke_builtins :: builtins
  ke_distributed :: bool
  ke_topic_prefix :: string

record 's kernel =
  kn_store :: 's
  kn_situation :: situation
  kn_bus :: event_bus
  kn_started :: bool
  kn_stopped :: bool
  kn_startup_sequence :: int
  kn_echoes :: "string list"

definition new_kernel :: "'s \<Rightarrow> datetime \<Rightarrow> 's kernel" where
  "new_kernel store now = \<lparr>kn_store = store, kn_situation = empty_situation now, kn_bus = new_bus,
     kn_started = False, kn_stopped = False, kn_startup_sequence = 0, kn_echoes = []\<rparr>"

definition event_topic :: "string \<Rightarrow> jobject event \<Rightarrow> string" where
  "event_topic prefix e = prefix @ ''.'' @ ev_type e"

definition rebuild_situation :: "'s kernel_env \<Rightarrow> datetime \<Rightarrow> 's kernel \<Rightarrow> py_error option \<times> 's kernel" where
  "rebuild_situation env now k = (case ke_read env (kn_store k) of
     Inl err \<Rightarrow> (Some err, k)
   | Inr es \<Rightarrow>
       (let (err, si) = situation_rebuild (ke_builtins env) (ke_projectors env) now
              (map (normalize (ke_registry env)) es)
        in (err, k\<lparr>kn_situation := si\<rparr>)))"

definition kernel_start :: "'s kernel_env \<Rightarrow> datetime \<Rightarrow> bool \<Rightarrow> 's kernel \<Rightarrow> unit result \<times> 's kernel" where
  "kernel_start env now replay k =
     (if kn_stopped k then (Inl (RuntimeError ''kernel has already been stopped''), k)
      else if kn_started k then (Inr (), k)
      else case (if replay then rebuild_situation env now k else (None, k)) of
          (Some err, k1) \<Rightarrow> (Inl err, k1)
        | (None, k1) \<Rightarrow>
            (let k2 = k1\<lparr>kn_startup_sequence := ke_latest env (kn_store k1)\<rparr> in
             case bus_start (kn_bus k2) of
               Inl err \<Rightarrow> (Inl err, k2)
             | Inr bus \<Rightarrow> (Inr (), k2\<lparr>kn_bus := bus, kn_started := True\<rparr>)))"

text \<open>The append that the commit chooses.\<close>

definition commit_append ::
  "'s kernel_env \<Rightarrow> 's \<Rightarrow> jobject event \<Rightarrow> bool \<Rightarrow> int option \<Rightarrow> (jobject event \<times> 's) result" where
  "commit_append env s e distribute expected =
     (if ke_distributed env \<and> distribute then
        (case expected of
           None \<Rightarrow> ke_append_outbox env s e (event_topic (ke_topic_prefix env) e)
         | Some h \<Rightarrow> ke_append_outbox_if env s e (event_topic (ke_topic_prefix env) e) h)
      else (case expected of None \<Rightarrow> ke_append env s e | Some h \<Rightarrow> ke_append_if env s e h))"

text \<open>\<open>self.schemas.normalize(stored)\<close> and \<open>self.bus.publish\<close>, without and with \<open>self.situation.apply\<close>.\<close>

definition publish_stored :: "'s kernel_env \<Rightarrow> 's kernel \<Rightarrow> jobject event \<Rightarrow> jobject event result \<times> 's kernel" where
  "publish_stored env k stored = (case normalize (ke_registry env) stored of
     Inl err \<Rightarrow> (Inl err, k)
   | Inr projected \<Rightarrow> (case bus_publish (kn_bus k) projected of
       Inl err \<Rightarrow> (Inl err, k)
     | Inr bus \<Rightarrow> (Inr stored, k\<lparr>kn_bus := bus\<rparr>)))"

definition project_stored ::
  "'s kernel_env \<Rightarrow> 's kernel \<Rightarrow> jobject event \<Rightarrow> bool \<Rightarrow> jobject event result \<times> 's kernel" where
  "project_stored env k stored distribute = (case normalize (ke_registry env) stored of
     Inl err \<Rightarrow> (Inl err, k)
   | Inr projected \<Rightarrow>
       (case situation_apply (ke_builtins env) (ke_projectors env) (kn_situation k) projected of
          (Some err, si) \<Rightarrow> (Inl err, k\<lparr>kn_situation := si\<rparr>)
        | (None, si) \<Rightarrow> (case bus_publish (kn_bus k) projected of
            Inl err \<Rightarrow> (Inl err, k\<lparr>kn_situation := si\<rparr>)
          | Inr bus \<Rightarrow> (Inr stored, k\<lparr>kn_situation := si, kn_bus := bus,
              kn_echoes := (if distribute then List.insert (ev_id stored) (kn_echoes k) else kn_echoes k)\<rparr>))))"

definition commit_stored ::
  "'s kernel_env \<Rightarrow> datetime \<Rightarrow> 's kernel \<Rightarrow> jobject event \<Rightarrow> bool \<Rightarrow> jobject event result \<times> 's kernel" where
  "commit_stored env now k stored distribute =
     (if (case ev_sequence stored of None \<Rightarrow> False | Some n \<Rightarrow> n \<le> si_version (kn_situation k)) then
        (if distribute then (Inr stored, k)
         else if ev_id stored \<in> set (kn_echoes k)
         then (Inr stored, k\<lparr>kn_echoes := remove1 (ev_id stored) (kn_echoes k)\<rparr>)
         else if seq0 stored \<le> kn_startup_sequence k then (Inr stored, k)
         else case rebuild_situation env now k of
             (Some err, k1) \<Rightarrow> (Inl err, k1)
           | (None, k1) \<Rightarrow> publish_stored env k1 stored)
      else project_stored env k stored distribute)"

definition commit ::
  "'s kernel_env \<Rightarrow> datetime \<Rightarrow> 's kernel \<Rightarrow> jobject event \<Rightarrow> bool \<Rightarrow> int option \<Rightarrow> jobject event result \<times> 's kernel" where
  "commit env now k e distribute expected =
     (case (if kn_started k then (Inr (), k) else kernel_start env now True k) of
        (Inl err, k1) \<Rightarrow> (Inl err, k1)
      | (Inr _, k1) \<Rightarrow> (case commit_append env (kn_store k1) e distribute expected of
          Inl err \<Rightarrow> (Inl err, k1)
        | Inr (stored, store') \<Rightarrow> commit_stored env now (k1\<lparr>kn_store := store'\<rparr>) stored distribute))"

definition emit :: "'s kernel_env \<Rightarrow> datetime \<Rightarrow> 's kernel \<Rightarrow> jobject event \<Rightarrow> jobject event result \<times> 's kernel" where
  "emit env now k e = commit env now k e True None"

definition emit_if_head ::
  "'s kernel_env \<Rightarrow> datetime \<Rightarrow> 's kernel \<Rightarrow> jobject event \<Rightarrow> int \<Rightarrow> jobject event result \<times> 's kernel" where
  "emit_if_head env now k e expected = commit env now k e True (Some expected)"

definition ingest :: "'s kernel_env \<Rightarrow> datetime \<Rightarrow> 's kernel \<Rightarrow> jobject event \<Rightarrow> jobject event result \<times> 's kernel" where
  "ingest env now k e = commit env now k e False None"

fun emit_many ::
  "'s kernel_env \<Rightarrow> datetime \<Rightarrow> 's kernel \<Rightarrow> jobject event list \<Rightarrow> jobject event list result \<times> 's kernel" where
  "emit_many env now k [] = (Inr [], k)"
| "emit_many env now k (e # es) = (case emit env now k e of
     (Inl err, k1) \<Rightarrow> (Inl err, k1)
   | (Inr stored, k1) \<Rightarrow> (case emit_many env now k1 es of
       (Inl err, k2) \<Rightarrow> (Inl err, k2)
     | (Inr rest, k2) \<Rightarrow> (Inr (stored # rest), k2)))"

definition kernel_snapshot :: "'s kernel \<Rightarrow> datetime \<Rightarrow> situation" where
  "kernel_snapshot k now = snapshot (kn_situation k) now"

definition kernel_stop :: "'s kernel \<Rightarrow> 's kernel" where
  "kernel_stop k = (if kn_stopped k then k
     else k\<lparr>kn_bus := bus_stop (kn_bus k), kn_stopped := True, kn_started := False\<rparr>)"

end
