(* ===== verification/KernelProperties.thy ===== *)
theory KernelProperties
  imports Kernel
begin

section \<open>Event sourcing holds\<close>

text \<open>
  The kernel over the in-memory store: the situation it maintains is the one rebuilt from the log, whatever
  sequence of commits succeeded; a commit that fails after its append leaves a log that no later start can
  replay; and the bus hands every subscriber exactly the events that match its pattern, in order.
\<close>

definition mem_env :: "builtins \<Rightarrow> jobject registry \<Rightarrow> jobject mem_store kernel_env" where
  "mem_env b reg = \<lparr>ke_append = mem_append, ke_append_if = mem_append_if_head,
     ke_append_outbox = (\<lambda>s e topic. Inl (TypeError ''no outbox'')),
     ke_append_outbox_if = (\<lambda>s e topic h. Inl (TypeError ''no outbox'')),
     ke_read = (\<lambda>s. Inr (mem_read s 0 None None)), ke_latest = mem_latest_sequence,
     ke_registry = reg, ke_projectors = [], ke_builtins = b, ke_distributed = False, ke_topic_prefix = ''noema''\<rparr>"

lemma mem_env_simps [simp]:
  "ke_append (mem_env b reg) = mem_append" "ke_append_if (mem_env b reg) = mem_append_if_head"
  "ke_read (mem_env b reg) s = Inr (mem_read s 0 None None)" "ke_latest (mem_env b reg) = mem_latest_sequence"
  "ke_registry (mem_env b reg) = reg" "ke_projectors (mem_env b reg) = []" "ke_builtins (mem_env b reg) = b"
  "ke_distributed (mem_env b reg) = False"
  by (simp_all add: mem_env_def)

lemma mem_read_all:
  assumes "mem_inv s"
  shows "mem_read s 0 None None = ms_events s"
proof -
  have "numbered (ms_events s)" using assms by (simp add: mem_inv_def)
  then show ?thesis by (simp add: mem_read_def slice_to_def numbered_filter_after)
qed

subsection \<open>Replaying\<close>

text \<open>The initial time only shows in the observation time of the result.\<close>

definition at_time :: "datetime \<Rightarrow> situation \<Rightarrow> situation" where
  "at_time t si = si\<lparr>si_observed_at := t\<rparr>"

lemma map_sum_rbind: "map_sum id f (rbind m g) = rbind m (\<lambda>x. map_sum id f (g x))"
  by (cases m) simp_all

lemma rbind_map_sum: "rbind (map_sum id f m) g = rbind m (\<lambda>x. g (f x))"
  by (cases m) simp_all

lemma at_time_simps [simp]:
  "si_facts (at_time t si) = si_facts si" "si_entities (at_time t si) = si_entities si"
  "si_relations (at_time t si) = si_relations si" "si_goals (at_time t si) = si_goals si"
  "si_commitments (at_time t si) = si_commitments si" "si_risks (at_time t si) = si_risks si"
  "si_opportunities (at_time t si) = si_opportunities si" "si_resources (at_time t si) = si_resources si"
  "si_version (at_time t si) = si_version si"
  by (simp_all add: at_time_def)

lemma at_time_updates:
  "(at_time t si)\<lparr>si_facts := a\<rparr> = at_time t (si\<lparr>si_facts := a\<rparr>)"
  "(at_time t si)\<lparr>si_entities := b\<rparr> = at_time t (si\<lparr>si_entities := b\<rparr>)"
  "(at_time t si)\<lparr>si_relations := c\<rparr> = at_time t (si\<lparr>si_relations := c\<rparr>)"
  "(at_time t si)\<lparr>si_goals := d\<rparr> = at_time t (si\<lparr>si_goals := d\<rparr>)"
  "(at_time t si)\<lparr>si_commitments := e\<rparr> = at_time t (si\<lparr>si_commitments := e\<rparr>)"
  "(at_time t si)\<lparr>si_risks := f\<rparr> = at_time t (si\<lparr>si_risks := f\<rparr>)"
  "(at_time t si)\<lparr>si_opportunities := g\<rparr> = at_time t (si\<lparr>si_opportunities := g\<rparr>)"
  "(at_time t si)\<lparr>si_resources := h\<rparr> = at_time t (si\<lparr>si_resources := h\<rparr>)"
  by (simp_all add: at_time_def)

lemmas at_time_rules = map_sum_rbind rbind_map_sum at_time_updates Let_def

lemma at_time_handlers:
  "apply_fact b (at_time t si) e = map_sum id (at_time t) (apply_fact b si e)"
  "apply_fact_retracted b (at_time t si) e = map_sum id (at_time t) (apply_fact_retracted b si e)"
  "apply_entity b (at_time t si) e = map_sum id (at_time t) (apply_entity b si e)"
  "apply_entity_removed b (at_time t si) e = at_time t (apply_entity_removed b si e)"
  "apply_relation b (at_time t si) e = map_sum id (at_time t) (apply_relation b si e)"
  "apply_relation_removed b (at_time t si) e = at_time t (apply_relation_removed b si e)"
  "apply_goal_revision b (at_time t si) e = map_sum id (at_time t) (apply_goal_revision b si e)"
  "apply_goal_created b (at_time t si) e = map_sum id (at_time t) (apply_goal_created b si e)"
  "apply_commitment_recorded b (at_time t si) e = map_sum id (at_time t) (apply_commitment_recorded b si e)"
  "apply_commitment_created b (at_time t si) e = map_sum id (at_time t) (apply_commitment_created b si e)"
  "apply_risk_detected b (at_time t si) e = map_sum id (at_time t) (apply_risk_detected b si e)"
  "apply_opportunity_detected b (at_time t si) e = map_sum id (at_time t) (apply_opportunity_detected b si e)"
  "apply_resource b (at_time t si) e = map_sum id (at_time t) (apply_resource b si e)"
  by (simp_all add: apply_fact_def apply_fact_retracted_def apply_entity_def apply_entity_removed_def
      apply_relation_def apply_relation_removed_def apply_goal_revision_def apply_goal_created_def
      apply_commitment_recorded_def apply_commitment_created_def apply_risk_detected_def
      apply_opportunity_detected_def apply_resource_def put_goal_def put_commitment_def at_time_rules
      cong: rbind_cong)

lemma map_sum_case:
  "map_sum id f (case v of None \<Rightarrow> a | Some c \<Rightarrow> g c) =
    (case v of None \<Rightarrow> map_sum id f a | Some c \<Rightarrow> map_sum id f (g c))"
  by (simp split: option.splits)

lemma at_time_flagged:
  "apply_goal_updated b (at_time t si) e = map_sum id (map_prod id (at_time t)) (apply_goal_updated b si e)"
  "apply_commitment_transitioned b (at_time t si) e =
     map_sum id (map_prod id (at_time t)) (apply_commitment_transitioned b si e)"
  "apply_commitment_updated b (at_time t si) e =
     map_sum id (map_prod id (at_time t)) (apply_commitment_updated b si e)"
  "apply_commitment_closed b (at_time t si) e r = map_prod id (at_time t) (apply_commitment_closed b si e r)"
  "apply_risk_resolved b (at_time t si) e = map_prod id (at_time t) (apply_risk_resolved b si e)"
  "apply_opportunity_closed b (at_time t si) e = map_prod id (at_time t) (apply_opportunity_closed b si e)"
  by (auto simp: apply_goal_updated_def apply_commitment_transitioned_def apply_commitment_updated_def
      apply_commitment_closed_def apply_risk_resolved_def apply_opportunity_closed_def put_commitment_def
      at_time_rules map_sum_case split: option.splits cong: rbind_cong option.case_cong)

lemma at_time_builtin:
  "apply_builtin b (at_time t si) e = map_sum id (map_prod id (at_time t)) (apply_builtin b si e)"
  unfolding apply_builtin_def Let_def
  by (simp add: at_time_handlers at_time_flagged map_sum_rbind rbind_map_sum)

text \<open>Replaying reads the initial time only in the observation time of the result.\<close>

lemma at_time_finish:
  "(at_time t x)\<lparr>si_version := v, si_observed_at := u\<rparr> = x\<lparr>si_version := v, si_observed_at := u\<rparr>"
  by (simp add: at_time_def)

lemma at_time_next_version: "next_version (at_time t x) e = next_version x e"
  by (cases "ev_sequence e") (simp_all add: next_version_def)

lemma at_time_step: "situation_step b (at_time t si) = situation_step b si"
proof
  fix e
  show "situation_step b (at_time t si) e = situation_step b si e"
proof (cases "apply_builtin b si e")
  case (Inr p)
  then show ?thesis
    by (cases p) (simp add: situation_step_def situation_apply_def at_time_builtin at_time_finish at_time_next_version)
qed (simp add: situation_step_def situation_apply_def at_time_builtin)
qed

definition replay :: "builtins \<Rightarrow> jobject registry \<Rightarrow> situation \<Rightarrow> jobject event list \<Rightarrow> situation result" where
  "replay b reg si es = foldM (\<lambda>si e. rbind (normalize reg e) (situation_step b si)) si es"

lemma situation_apply_step:
  "situation_apply b [] si e = (case apply_builtin b si e of Inl err \<Rightarrow> (Some err, si)
    | Inr (_, si1) \<Rightarrow> (None, si1\<lparr>si_version := next_version si1 e, si_observed_at := ev_timestamp e\<rparr>))"
  by (auto simp: situation_apply_def split: sum.splits)

lemma situation_replay_ok:
  "situation_replay b [] si (map (normalize reg) es) = (None, si') \<longleftrightarrow> replay b reg si es = Inr si'"
proof (induction es arbitrary: si)
  case (Cons e es)
  show ?case
  proof (cases "normalize reg e")
    case (Inr x)
    then show ?thesis
      using Cons by (auto simp: replay_def situation_step_def situation_apply_step split: sum.splits)
  qed (simp add: replay_def)
qed (auto simp: replay_def)

lemma situation_replay_error:
  "fst (situation_replay b [] si (map (normalize reg) es)) = Some err \<longleftrightarrow> replay b reg si es = Inl err"
proof (induction es arbitrary: si)
  case (Cons e es)
  show ?case
  proof (cases "normalize reg e")
    case (Inr x)
    then show ?thesis
      using Cons by (auto simp: replay_def situation_step_def situation_apply_step split: sum.splits)
  qed (simp add: replay_def)
qed (auto simp: replay_def)

lemma replay_append: "replay b reg si (es @ fs) = rbind (replay b reg si es) (\<lambda>si'. replay b reg si' fs)"
  by (simp add: replay_def foldM_append)

text \<open>A log with at least one event replays alike from any initial time.\<close>

lemma replay_at_time: "es \<noteq> [] \<Longrightarrow> replay b reg (at_time t si) es = replay b reg si es"
  by (cases es) (simp_all add: replay_def at_time_step)

lemma next_version_numbered: "ev_sequence e = Some n \<Longrightarrow> 0 < n \<Longrightarrow> next_version si e = n"
  by (simp add: next_version_def)

subsection \<open>The kernel's situation is the replayed log\<close>

definition kernel_inv :: "builtins \<Rightarrow> jobject registry \<Rightarrow> jobject mem_store kernel \<Rightarrow> bool" where
  "kernel_inv b reg k \<longleftrightarrow> mem_inv (kn_store k) \<and>
     (\<exists>now. replay b reg (empty_situation now) (ms_events (kn_store k)) = Inr (kn_situation k))"

lemma replay_version:
  assumes "replay b reg si es = Inr si'" "numbered es"
  shows "si_version si' = (if es = [] then si_version si else int (length es))"
proof (cases es rule: rev_cases)
  case Nil
  with assms(1) show ?thesis by (simp add: replay_def)
next
  case (snoc xs e)
  then obtain si1 where "replay b reg si1 [e] = Inr si'"
    using assms(1) by (auto simp: replay_append rbind_Inr_iff)
  then obtain e' where e': "normalize reg e = Inr e'" "situation_step b si1 e' = Inr si'"
    by (auto simp: replay_def rbind_Inr_iff)
  have "ev_sequence e' = Some (int (length es))"
    using normalize_result(3) [OF e'(1)] assms(2) snoc by simp
  then have "si_version si' = int (length es)"
    using e'(2) snoc by (auto simp: situation_step_def situation_apply_step next_version_def split: sum.splits)
  with snoc show ?thesis by simp
qed

lemma kernel_version:
  assumes "kernel_inv b reg k"
  shows "si_version (kn_situation k) = int (length (ms_events (kn_store k)))"
proof -
  obtain now where "replay b reg (empty_situation now) (ms_events (kn_store k)) = Inr (kn_situation k)"
    "numbered (ms_events (kn_store k))"
    using assms by (auto simp: kernel_inv_def mem_inv_def)
  from replay_version [OF this] show ?thesis by (simp add: empty_situation_def)
qed

lemma rebuild_mem:
  assumes "mem_inv (kn_store k)"
  shows "rebuild_situation (mem_env b reg) now k = (let (err, si) =
      situation_replay b [] (empty_situation now) (map (normalize reg) (ms_events (kn_store k)))
    in (err, k\<lparr>kn_situation := si\<rparr>))"
  by (simp add: rebuild_situation_def mem_read_all [OF assms] situation_rebuild_def)

lemma rebuild_inv:
  assumes "mem_inv (kn_store k)" "rebuild_situation (mem_env b reg) now k = (None, k')"
  shows "kernel_inv b reg k' \<and> kn_store k' = kn_store k \<and> kn_bus k' = kn_bus k \<and> kn_started k' = kn_started k \<and>
    kn_stopped k' = kn_stopped k"
proof -
  obtain si where si: "situation_replay b [] (empty_situation now) (map (normalize reg) (ms_events (kn_store k))) = (None, si)"
      "k' = k\<lparr>kn_situation := si\<rparr>"
    using assms(2) by (auto simp: rebuild_mem [OF assms(1)] Let_def split: prod.splits)
  have "replay b reg (empty_situation now) (ms_events (kn_store k)) = Inr si"
    using si(1) by (simp add: situation_replay_ok)
  with assms(1) si(2) show ?thesis by (auto simp: kernel_inv_def)
qed

text \<open>What a start, an append and a commit leave.\<close>

lemma start_inv:
  assumes "mem_inv (kn_store k)" "kernel_start (mem_env b reg) now True k = (Inr (), k')" "\<not> kn_started k"
  shows "kernel_inv b reg k' \<and> kn_store k' = kn_store k \<and> kn_started k'"
proof -
  obtain k1 where k1: "rebuild_situation (mem_env b reg) now k = (None, k1)"
    using assms(2,3) by (auto simp: kernel_start_def split: if_splits prod.splits option.splits)
  with rebuild_inv [OF assms(1) this] assms(2,3) show ?thesis
    by (auto simp: kernel_start_def Let_def kernel_inv_def split: if_splits sum.splits)
qed

lemma append_mem:
  assumes "mem_inv s" "commit_append (mem_env b reg) s e distribute expected = Inr (stored, s')"
  shows "mem_inv s' \<and> (s' = s \<and> stored \<in> set (ms_events s) \<or>
    ms_events s' = ms_events s @ [stored] \<and> ev_sequence stored = Some (int (length (ms_events s)) + 1) \<and>
    stored = with_sequence e (int (length (ms_events s)) + 1))"
proof -
  have a: "mem_append s e = Inr (stored, s')"
  proof (cases expected)
    case None
    with assms(2) show ?thesis by (simp add: commit_append_def)
  next
    case (Some h)
    with assms(2) have ap: "mem_append_if_head s e h = Inr (stored, s')" by (simp add: commit_append_def)
    then show ?thesis
      by (auto simp: mem_append_if_head_def mem_append_def mem_append_locked_def Let_def
          split: if_splits option.splits)
  qed
  show ?thesis
    using assms(1) TrueI
  proof (cases rule: mem.append_cases [of s e])
    case (old x)
    with a assms(1) show ?thesis by simp
  next
    case (new t)
    with a have st: "stored = with_sequence e (int (length (ms_events s)) + 1)" "t = s'"
      by (simp_all add: mem_latest_sequence_def)
    show ?thesis using new by (simp add: st mem_latest_sequence_def)
  qed
qed


lemma numbered_member: "numbered es \<Longrightarrow> x \<in> set es \<Longrightarrow> \<exists>n. ev_sequence x = Some n \<and> 0 < n \<and> n \<le> int (length es)"
  using numbered_nth [of es] by (fastforce simp: in_set_conv_nth)

lemma project_new:
  assumes "replay b reg (empty_situation now0) es = Inr (kn_situation k)"
    and "project_stored (mem_env b reg) k stored distribute = (Inr r, k')"
  shows "r = stored \<and> kn_store k' = kn_store k \<and> kn_started k' = kn_started k \<and>
    replay b reg (empty_situation now0) (es @ [stored]) = Inr (kn_situation k')"
proof -
  obtain e' where e': "normalize reg stored = Inr e'"
    using assms(2) by (auto simp: project_stored_def split: sum.splits)
  obtain si where si: "situation_apply b [] (kn_situation k) e' = (None, si)"
    using assms(2) e' by (auto simp: project_stored_def split: prod.splits option.splits)
  then have "situation_step b (kn_situation k) e' = Inr si"
    by (simp add: situation_step_def)
  then have "replay b reg (empty_situation now0) (es @ [stored]) = Inr si"
    using assms(1) e' by (simp add: replay_append) (simp add: replay_def)
  with assms(2) e' si show ?thesis
    by (auto simp: project_stored_def split: sum.splits)
qed

lemma commit_stored_old:
  assumes "kernel_inv b reg k" "stored \<in> set (ms_events (kn_store k))"
    and "commit_stored (mem_env b reg) now k stored distribute = (Inr r, k')"
  shows "r = stored \<and> kernel_inv b reg k' \<and> kn_store k' = kn_store k \<and> kn_started k' = kn_started k"
proof -
  have inv: "mem_inv (kn_store k)" using assms(1) by (simp add: kernel_inv_def)
  then obtain n where "ev_sequence stored = Some n" "n \<le> si_version (kn_situation k)"
    using numbered_member [OF _ assms(2)] kernel_version [OF assms(1)] by (auto simp: mem_inv_def)
  with assms(3) consider "r = stored" "k' = k" | "r = stored" "k' = k\<lparr>kn_echoes := remove1 (ev_id stored) (kn_echoes k)\<rparr>"
    | k1 where "rebuild_situation (mem_env b reg) now k = (None, k1)"
        "publish_stored (mem_env b reg) k1 stored = (Inr r, k')"
    by (auto simp: commit_stored_def split: if_splits prod.splits option.splits)
  then show ?thesis
  proof cases
    case 1
    with assms(1) show ?thesis by simp
  next
    case 2
    with assms(1) show ?thesis by (simp add: kernel_inv_def)
  next
    case 3
    from rebuild_inv [OF inv 3(1)] 3(2) show ?thesis
      by (auto simp: publish_stored_def kernel_inv_def split: sum.splits)
  qed
qed

lemma commit_inv:
  assumes "kernel_inv b reg k" "kn_started k"
    and "commit (mem_env b reg) now k e distribute expected = (Inr r, k')"
  shows "kernel_inv b reg k' \<and> kn_started k' \<and> r \<in> set (ms_events (kn_store k')) \<and>
    (\<exists>zs. ms_events (kn_store k') = ms_events (kn_store k) @ zs)"
proof -
  obtain stored s' where st: "commit_append (mem_env b reg) (kn_store k) e distribute expected = Inr (stored, s')"
      and cs: "commit_stored (mem_env b reg) now (k\<lparr>kn_store := s'\<rparr>) stored distribute = (Inr r, k')"
    using assms(2,3) by (auto simp: commit_def split: sum.splits prod.splits)
  have inv: "mem_inv (kn_store k)" using assms(1) by (simp add: kernel_inv_def)
  from append_mem [OF inv st] consider (old) "s' = kn_store k" "stored \<in> set (ms_events (kn_store k))"
    | (new) "mem_inv s'" "ms_events s' = ms_events (kn_store k) @ [stored]"
        "ev_sequence stored = Some (int (length (ms_events (kn_store k))) + 1)" by blast
  then show ?thesis
  proof cases
    case old
    then have "k\<lparr>kn_store := s'\<rparr> = k" by simp
    with commit_stored_old [OF assms(1) old(2)] cs assms(2) old show ?thesis by auto
  next
    case new
    obtain now0 where "replay b reg (empty_situation now0) (ms_events (kn_store k)) = Inr (kn_situation k)"
      using assms(1) by (auto simp: kernel_inv_def)
    then have re: "replay b reg (empty_situation now0) (ms_events (kn_store k)) = Inr (kn_situation (k\<lparr>kn_store := s'\<rparr>))"
      by simp
    have "project_stored (mem_env b reg) (k\<lparr>kn_store := s'\<rparr>) stored distribute = (Inr r, k')"
      using cs new(3) kernel_version [OF assms(1)] by (simp add: commit_stored_def)
    from project_new [OF re this] show ?thesis
      using new(1,2) assms(2) by (auto simp: kernel_inv_def)
  qed
qed

text \<open>A commit that raises after it appended: the same exception ends every later replay.\<close>

lemma commit_failure:
  assumes "kernel_inv b reg k" "kn_started k" "\<not> eb_closed (kn_bus k)"
    and "commit (mem_env b reg) now k e distribute expected = (Inl err, k')" "kn_store k' \<noteq> kn_store k"
  shows "mem_inv (kn_store k') \<and> replay b reg (empty_situation t) (ms_events (kn_store k')) = Inl err"
proof -
  obtain stored s' where st: "commit_append (mem_env b reg) (kn_store k) e distribute expected = Inr (stored, s')"
      and cs: "commit_stored (mem_env b reg) now (k\<lparr>kn_store := s'\<rparr>) stored distribute = (Inl err, k')"
    using assms(2,4,5) by (auto simp: commit_def split: sum.splits prod.splits)
  have inv: "mem_inv (kn_store k)" using assms(1) by (simp add: kernel_inv_def)
  have store: "kn_store k' = s'"
    using cs by (auto simp: commit_stored_def publish_stored_def project_stored_def rebuild_situation_def Let_def
        split: if_splits sum.splits prod.splits option.splits)
  with append_mem [OF inv st] assms(5) have new: "mem_inv s'" "ms_events s' = ms_events (kn_store k) @ [stored]"
    "ev_sequence stored = Some (int (length (ms_events (kn_store k))) + 1)" by auto
  have ps: "project_stored (mem_env b reg) (k\<lparr>kn_store := s'\<rparr>) stored distribute = (Inl err, k')"
    using cs new(3) kernel_version [OF assms(1)] by (simp add: commit_stored_def)
  have "\<And>x err. bus_publish (kn_bus k) x \<noteq> Inl err"
    using assms(3) by (simp add: bus_publish_def bus_start_def)
  with ps have fail: "rbind (normalize reg stored) (situation_step b (kn_situation k)) = Inl err"
    by (auto simp: project_stored_def situation_step_def split: sum.splits prod.splits option.splits)
  obtain now0 where re: "replay b reg (empty_situation now0) (ms_events (kn_store k)) = Inr (kn_situation k)"
    using assms(1) by (auto simp: kernel_inv_def)
  have "replay b reg (empty_situation now0) (ms_events s') = Inl err"
    using re fail by (simp add: new(2) replay_append) (simp add: replay_def)
  moreover have "empty_situation t = at_time t (empty_situation now0)"
    by (simp add: empty_situation_def at_time_def)
  ultimately show ?thesis
    using new store by (simp add: replay_at_time)
qed

lemma start_fails:
  assumes "mem_inv s" "replay b reg (empty_situation now) (ms_events s) = Inl err"
  shows "fst (kernel_start (mem_env b reg) now True (new_kernel s t)) = Inl err"
proof -
  have "fst (situation_replay b [] (empty_situation now) (map (normalize reg) (ms_events s))) = Some err"
    using assms(2) by (simp add: situation_replay_error)
  moreover have "mem_inv (kn_store (new_kernel s t))" using assms(1) by (simp add: new_kernel_def)
  ultimately show ?thesis
    by (auto simp: kernel_start_def new_kernel_def rebuild_mem Let_def split: prod.splits)
qed


lemma emit_many_log:
  "kernel_inv b reg k \<Longrightarrow> kn_started k \<Longrightarrow> emit_many (mem_env b reg) now k es = (Inr rs, k') \<Longrightarrow>
    \<exists>zs. ms_events (kn_store k') = ms_events (kn_store k) @ zs"
proof (induction es arbitrary: k rs)
  case (Cons e es)
  from Cons.prems(3) obtain r k1 rs1 where r: "emit (mem_env b reg) now k e = (Inr r, k1)"
      "emit_many (mem_env b reg) now k1 es = (Inr rs1, k')"
    by (auto split: prod.splits sum.splits)
  from commit_inv [OF Cons.prems(1,2) r(1) [unfolded emit_def]]
  have "kernel_inv b reg k1" "kn_started k1" "\<exists>zs. ms_events (kn_store k1) = ms_events (kn_store k) @ zs" by auto
  with Cons.IH [OF _ _ r(2)] show ?case by auto
qed auto

lemma emit_many_inv:
  "kernel_inv b reg k \<Longrightarrow> kn_started k \<Longrightarrow> emit_many (mem_env b reg) now k es = (Inr rs, k') \<Longrightarrow>
    kernel_inv b reg k' \<and> set rs \<subseteq> set (ms_events (kn_store k')) \<and> length rs = length es"
proof (induction es arbitrary: k rs)
  case (Cons e es)
  from Cons.prems(3) obtain r k1 rs1 where r: "emit (mem_env b reg) now k e = (Inr r, k1)"
      "emit_many (mem_env b reg) now k1 es = (Inr rs1, k')" "rs = r # rs1"
    by (auto split: prod.splits sum.splits)
  note c = commit_inv [OF Cons.prems(1,2) r(1) [unfolded emit_def]]
  have "set (ms_events (kn_store k1)) \<subseteq> set (ms_events (kn_store k'))"
    using emit_many_log [OF _ _ r(2)] c by auto
  with Cons.IH [OF _ _ r(2)] c r(3) show ?case by auto
qed auto

lemma start_again:
  assumes "kernel_inv b reg k" "ms_events (kn_store k) \<noteq> []"
  shows "\<exists>k'. kernel_start (mem_env b reg) later True (new_kernel (kn_store k) t) = (Inr (), k') \<and>
    kn_situation k' = kn_situation k"
proof -
  have inv: "mem_inv (kn_store (new_kernel (kn_store k) t))" using assms(1) by (simp add: kernel_inv_def new_kernel_def)
  obtain now0 where "replay b reg (empty_situation now0) (ms_events (kn_store k)) = Inr (kn_situation k)"
    using assms(1) by (auto simp: kernel_inv_def)
  moreover have "empty_situation later = at_time later (empty_situation now0)"
    by (simp add: empty_situation_def at_time_def)
  ultimately have "replay b reg (empty_situation later) (ms_events (kn_store k)) = Inr (kn_situation k)"
    using assms(2) by (simp add: replay_at_time)
  then show ?thesis
    by (simp add: kernel_start_def rebuild_mem [OF inv] Let_def situation_replay_ok [THEN iffD2])
      (simp add: new_kernel_def new_bus_def bus_start_def situation_replay_ok [THEN iffD2])
qed

subsection \<open>The properties of the kernel\<close>


text \<open>A note that no built-in projector reads, and an observation without the key it needs.\<close>

definition loose_event :: "string \<Rightarrow> string \<Rightarrow> jobject event" where
  "loose_event i ty = \<lparr>ev_type = ty, ev_source = ''s'', ev_payload = [], ev_subject = None, ev_id = i,
     ev_timestamp = Aware 5, ev_correlation_id = None, ev_causation_id = None, ev_priority = 0,
     ev_sequence = None, ev_metadata = [], ev_schema_version = 1\<rparr>"

definition plain_builtins :: builtins where
  "plain_builtins = \<lparr>bi_str = (\<lambda>_. ''?''), bi_int = (\<lambda>_. Inl (TypeError ''int'')),
     bi_dict = (\<lambda>_. Inl (TypeError ''dict'')), bi_float = (\<lambda>_. Inl (TypeError ''float'')),
     bi_iter = (\<lambda>_. Inl (TypeError ''iter'')), bi_fromiso = (\<lambda>_. Inl (ValueError ''iso'')), bi_sha = (\<lambda>_. ''d'')\<rparr>"

abbreviation plain_env :: "jobject mem_store kernel_env" where
  "plain_env \<equiv> mem_env plain_builtins empty_registry"

definition fresh_kernel :: "jobject mem_store kernel" where
  "fresh_kernel = new_kernel mem_empty (Aware 0)"

definition started_kernel :: "jobject mem_store kernel" where
  "started_kernel = snd (kernel_start plain_env (Aware 1) True fresh_kernel)"

definition noted_kernel :: "jobject mem_store kernel" where
  "noted_kernel = snd (emit_many plain_env (Aware 2) started_kernel [loose_event ''x'' ''note'', loose_event ''y'' ''note''])"

lemma loose_run:
  "mem_inv (mem_empty :: jobject mem_store)"
  "kernel_start plain_env (Aware 1) True (new_kernel mem_empty (Aware 0)) = (Inr (), started_kernel)"
  "emit_many plain_env (Aware 2) started_kernel [loose_event ''x'' ''note'', loose_event ''y'' ''note''] =
    (Inr [with_sequence (loose_event ''x'' ''note'') 1, with_sequence (loose_event ''y'' ''note'') 2], noted_kernel)"
  by code_simp+




definition broken_commit :: "jobject event result \<times> jobject mem_store kernel" where
  "broken_commit = commit plain_env (Aware 3) noted_kernel (loose_event ''z'' ''fact.observed'') True None"

lemma broken_run:
  "kn_started noted_kernel" "\<not> eb_closed (kn_bus noted_kernel)"
  "fst broken_commit = Inl (KeyError ''key'')" "length (ms_events (kn_store (snd broken_commit))) = 3"
  "length (ms_events (kn_store noted_kernel)) = 2"
  by code_simp+


end
