(* ===== verification/BusProperties.thy ===== *)
theory BusProperties
  imports Kernel
begin

section \<open>Delivery on the event bus\<close>

text \<open>
  What the worker of a subscription holds, handled or still queued, after any sequence of operations on the bus.
\<close>

definition queued_events :: "bus_worker \<Rightarrow> jobject event list" where
  "queued_events w = List.map_filter id (wk_queue w)"

definition worker_events :: "bus_worker \<Rightarrow> jobject event list" where
  "worker_events w = wk_handled w @ queued_events w"

definition published :: "bus_op list \<Rightarrow> jobject event list" where
  "published ops = List.map_filter (\<lambda>p. case p of Publish e \<Rightarrow> Some e | _ \<Rightarrow> None) ops"

definition undisturbed :: "string \<Rightarrow> bus_op \<Rightarrow> bool" where
  "undisturbed i op = (case op of Subscribe j _ \<Rightarrow> j \<noteq> i | Unsubscribe j \<Rightarrow> j \<noteq> i | _ \<Rightarrow> True)"

definition subscribed :: "event_bus \<Rightarrow> string \<Rightarrow> string \<Rightarrow> bus_worker \<Rightarrow> bool" where
  "subscribed bus i pattern w \<longleftrightarrow> \<not> eb_closed bus \<and> map_of (eb_subscriptions bus) i = Some pattern \<and>
     map_of (eb_workers bus) i = Some w \<and> None \<notin> set (wk_queue w)"

lemma map_of_enqueue:
  "map_of (enqueue ids item ws) i =
    map_option (\<lambda>w. if i \<in> ids then w\<lparr>wk_queue := wk_queue w @ [item]\<rparr> else w) (map_of ws i)"
  by (induction ws) (auto simp: enqueue_def)

lemma subscribed_step:
  assumes "subscribed bus i pattern w" "undisturbed i op"
  shows "\<exists>w'. subscribed (bus_step bus op) i pattern w' \<and> worker_events w' = worker_events w @
    (case op of Publish e \<Rightarrow> if glob pattern (ev_type e) then [e] else [] | _ \<Rightarrow> [])"
proof (cases op)
  case (Publish e)
  with assms show ?thesis
    by (auto simp: subscribed_def bus_publish_def bus_start_def map_of_enqueue matching_def worker_events_def
        queued_events_def map_filter_def)
next
  case (Work j failure)
  show ?thesis
  proof (cases "j = i")
    case True
    then show ?thesis
      using assms Work by (cases "wk_queue w") (auto simp: subscribed_def bus_work_def worker_events_def queued_events_def map_filter_def
          AList.update_conv' split: option.splits)
  next
    case False
    with assms Work show ?thesis
      by (auto simp: subscribed_def bus_work_def worker_events_def queued_events_def AList.update_conv' AList.delete_conv' split: option.splits list.splits)
  qed
next
  case (Subscribe j p)
  with assms show ?thesis
    by (auto simp: subscribed_def undisturbed_def subscribe_def bus_start_def AList.update_conv' split: sum.splits)
next
  case (Unsubscribe j)
  with assms show ?thesis
    by (auto simp: subscribed_def undisturbed_def unsubscribe_def map_of_enqueue AList.delete_conv' split: option.splits)
qed

lemma subscribed_run:
  "subscribed bus i pattern w \<Longrightarrow> list_all (undisturbed i) ops \<Longrightarrow>
    \<exists>w'. subscribed (foldl bus_step bus ops) i pattern w' \<and>
      worker_events w' = worker_events w @ filter (\<lambda>e. glob pattern (ev_type e)) (published ops)"
proof (induction ops arbitrary: bus w)
  case (Cons op ops)
  then have "undisturbed i op" by simp
  from subscribed_step [OF Cons.prems(1) this]
  obtain w1 where w1: "subscribed (bus_step bus op) i pattern w1" "worker_events w1 = worker_events w @
    (case op of Publish e \<Rightarrow> if glob pattern (ev_type e) then [e] else [] | _ \<Rightarrow> [])" by blast
  with Cons.IH [OF w1(1)] Cons.prems(2) show ?case
    by (auto simp: published_def map_filter_def split: bus_op.splits)
qed (auto simp: published_def map_filter_def)


lemma subscribed_new:
  assumes "subscribe bus i pattern = Inr bus'" "\<not> eb_closed bus"
  shows "subscribed bus' i pattern \<lparr>wk_queue = [], wk_handled = []\<rparr>"
  using assms by (auto simp: subscribe_def bus_start_def subscribed_def AList.update_conv' split: if_splits)

text \<open>Enough steps of the worker pass everything queued to the handler.\<close>

lemma worker_runs:
  "subscribed bus i pattern w \<Longrightarrow> length (wk_queue w) \<le> length fs \<Longrightarrow>
    \<exists>w'. subscribed (foldl bus_step bus (map (Work i) fs)) i pattern w' \<and> wk_queue w' = [] \<and>
      wk_handled w' = worker_events w"
proof (induction fs arbitrary: bus w)
  case Nil
  then show ?case by (auto simp: worker_events_def queued_events_def map_filter_def)
next
  case (Cons f fs)
  have "undisturbed i (Work i f)" by (simp add: undisturbed_def)
  from subscribed_step [OF Cons.prems(1) this] obtain w1 where
    w1: "subscribed (bus_step bus (Work i f)) i pattern w1" "worker_events w1 = worker_events w" by auto
  have "length (wk_queue w1) \<le> length fs"
    using Cons.prems w1(1) by (cases "wk_queue w")
      (auto simp: subscribed_def bus_work_def AList.update_conv' split: option.splits)
  from Cons.IH [OF w1(1) this] w1(2) show ?case by simp
qed

lemma published_length: "length (filter P (published ops)) \<le> length ops"
proof -
  have "length (published ops) \<le> length ops"
    by (simp add: published_def map_filter_def le_trans [OF length_filter_le])
  then show ?thesis using le_trans [OF length_filter_le] by blast
qed

lemma queue_length:
  assumes "subscribed bus i pattern w"
  shows "length (wk_queue w) \<le> length (worker_events w)"
proof -
  have "None \<notin> set q \<Longrightarrow> length q \<le> length (List.map_filter id q)" for q :: "jobject event option list"
    by (induction q) (auto simp: map_filter_def)
  with assms show ?thesis by (simp add: subscribed_def worker_events_def queued_events_def trans_le_add2)
qed



definition note_event :: "string \<Rightarrow> jobject event" where
  "note_event ty = \<lparr>ev_type = ty, ev_source = ''s'', ev_payload = [], ev_subject = None, ev_id = ty,
     ev_timestamp = Aware 0, ev_correlation_id = None, ev_causation_id = None, ev_priority = 0,
     ev_sequence = None, ev_metadata = [], ev_schema_version = 1\<rparr>"

definition demo_ops :: "bus_op list" where
  "demo_ops = [Publish (note_event ''a.x''), Subscribe ''t'' ''*'', Publish (note_event ''b.x''), Work ''s'' (Some (ValueError ''bad'')),
     Publish (note_event ''a.y''), Unsubscribe ''t'']"

definition demo_bus :: event_bus where
  "demo_bus = \<lparr>eb_started = True, eb_closed = False, eb_subscriptions = [(''s'', ''a.*'')],
     eb_workers = [(''s'', \<lparr>wk_queue = [], wk_handled = []\<rparr>)], eb_errors = []\<rparr>"


end
