(* ===== verification/Commands.thy ===== *)
theory Commands
  imports Prelude
begin

section \<open>Commands on a state\<close>

text \<open>
  A method that changes its object and may raise: it takes the state and returns its value or exception together
  with the state it leaves. The agent, the work coordinator and the intent steward are written with these.
\<close>

type_synonym ('s, 'a) stateful = "'s \<Rightarrow> 'a result \<times> 's"

definition cbind :: "('s, 'a) stateful \<Rightarrow> ('a \<Rightarrow> ('s, 'b) stateful) \<Rightarrow> ('s, 'b) stateful" where
  "cbind m f c = (case m c of (Inl err, c1) \<Rightarrow> (Inl err, c1) | (Inr x, c1) \<Rightarrow> f x c1)"

definition pure_result :: "'a result \<Rightarrow> ('s, 'a) stateful" where
  "pure_result r c = (r, c)"

definition failing :: "py_error \<Rightarrow> ('s, 'a) stateful" where
  "failing err = pure_result (Inl err)"

lemma cbind_ok: "cbind m f c = (Inr y, c') \<longleftrightarrow> (\<exists>x c1. m c = (Inr x, c1) \<and> f x c1 = (Inr y, c'))"
  by (auto simp: cbind_def split: prod.splits sum.splits)

lemma pure_result_ok [simp]: "pure_result r c = (q, c') \<longleftrightarrow> r = q \<and> c = c'"
  by (simp add: pure_result_def)

end
