(* ===== verification/Coordinator.thy ===== *)
theory Coordinator
  imports Kernel Matching Commands
begin

section \<open>The durable work coordinator\<close>

text \<open>
  Models \<open>DurableWorkCoordinator\<close> of \<^verbatim>\<open>src/noema/work/coordination.py\<close>: the commands that reload the work
  projection from the kernel's log, decide, emit events through the kernel and apply what was stored. It is
  modelled without a governance projection, which is the default; matching then asks no access evaluator. The
  planner is an argument. A command runs without interleaving, except \<open>plan\<close>, whose two suspension points
  (the planner, and every round of the conditional append) take what others did to the kernel meanwhile as
  arguments. A command returns its value or exception together with the state it leaves.
\<close>

record 's coordinator =
  co_kernel :: "'s kernel"
  co_projection :: work_state

record 's coordinator_env =
  ce_kernel :: "'s kernel_env"
  ce_decoders :: decoders
  ce_lease_duration :: int
  ce_source :: string
  ce_validator_id :: string

type_synonym ('s, 'a) command = "('s coordinator, 'a) stateful"

definition with_projection :: "(work_state \<Rightarrow> ('s, 'a) command) \<Rightarrow> ('s, 'a) command" where
  "with_projection f c = f (co_projection c) c"

definition check_coordinator :: "'s coordinator_env \<Rightarrow> unit result" where
  "check_coordinator env = raise_first
     [(ce_lease_duration env \<le> 0, ValueError ''work lease duration must be positive''),
      (blank (ce_source env), ValueError ''work coordinator source must be non-empty'')]"

definition new_coordinator :: "'s coordinator_env \<Rightarrow> 's kernel \<Rightarrow> 's coordinator result" where
  "new_coordinator env k =
     rbind (check_coordinator env) (\<lambda>_. Inr \<lparr>co_kernel = k, co_projection = empty_work\<rparr>)"

subsection \<open>Reloading and emitting\<close>

text \<open>\<open>rebuild\<close> leaves the projection where the first failing event found it.\<close>

fun work_replay :: "decoders \<Rightarrow> work_state \<Rightarrow> jobject event list \<Rightarrow> unit result \<times> work_state" where
  "work_replay dec s [] = (Inr (), s)"
| "work_replay dec s (e # es) = (case work_fold dec s e of
     Inl err \<Rightarrow> (Inl err, s)
   | Inr s' \<Rightarrow> work_replay dec s' es)"

definition reload :: "'s coordinator_env \<Rightarrow> ('s, unit) command" where
  "reload env c = (case ke_read (ce_kernel env) (kn_store (co_kernel c)) of
     Inl err \<Rightarrow> (Inl err, c)
   | Inr es \<Rightarrow> (let (r, s) = work_replay (ce_decoders env) empty_work es in (r, c\<lparr>co_projection := s\<rparr>)))"

text \<open>\<open>replace(stored, sequence=None) != event\<close>, then the projection of the stored event.\<close>

definition apply_emitted :: "'s coordinator_env \<Rightarrow> jobject event \<Rightarrow> jobject event \<Rightarrow> ('s, jobject event) command" where
  "apply_emitted env e stored c =
     (if \<not> same_event (stored\<lparr>ev_sequence := None\<rparr>) e
      then (Inl (ValueError ''canonical event id conflict''), c)
      else case work_fold (ce_decoders env) (co_projection c) stored of
          Inl err \<Rightarrow> (Inl err, c)
        | Inr s \<Rightarrow> (Inr stored, c\<lparr>co_projection := s\<rparr>))"

definition emit_work :: "'s coordinator_env \<Rightarrow> datetime \<Rightarrow> jobject event \<Rightarrow> ('s, jobject event) command" where
  "emit_work env now e c = (case emit (ce_kernel env) now (co_kernel c) e of
     (Inl err, k) \<Rightarrow> (Inl err, c\<lparr>co_kernel := k\<rparr>)
   | (Inr stored, k) \<Rightarrow> apply_emitted env e stored (c\<lparr>co_kernel := k\<rparr>))"

definition emit_work_if_head ::
  "'s coordinator_env \<Rightarrow> datetime \<Rightarrow> jobject event \<Rightarrow> int \<Rightarrow> ('s, jobject event) command" where
  "emit_work_if_head env now e expected c = (case emit_if_head (ce_kernel env) now (co_kernel c) e expected of
     (Inl err, k) \<Rightarrow> (Inl err, c\<lparr>co_kernel := k\<rparr>)
   | (Inr stored, k) \<Rightarrow> apply_emitted env e stored (c\<lparr>co_kernel := k\<rparr>))"

subsection \<open>Recording\<close>

text \<open>\<open>_reload\<close>, then \<open>_emit\<close> of the event of a contract, then the contract read back.\<close>

definition record_with ::
  "'s coordinator_env \<Rightarrow> datetime \<Rightarrow> jobject event result \<Rightarrow> (jobject event \<Rightarrow> 'a result) \<Rightarrow> ('s, 'a) command" where
  "record_with env now event decode =
     cbind (reload env) (\<lambda>_. cbind (pure_result event) (\<lambda>e.
     cbind (emit_work env now e) (\<lambda>stored. pure_result (decode stored))))"

definition record_work_order :: "'s coordinator_env \<Rightarrow> datetime \<Rightarrow> work_order \<Rightarrow> ('s, work_order) command" where
  "record_work_order env now ord = record_with env now (work_order_to_event ord (ce_source env))
     (work_order_from_event (dec_builtins (ce_decoders env)))"

definition record_presence :: "'s coordinator_env \<Rightarrow> datetime \<Rightarrow> agent_presence \<Rightarrow> ('s, agent_presence) command" where
  "record_presence env now a =
     record_with env now (presence_to_event (dec_builtins (ce_decoders env)) a (ce_source env))
       (presence_from_event (dec_builtins (ce_decoders env)))"

definition record_manifest ::
  "'s coordinator_env \<Rightarrow> datetime \<Rightarrow> capability_manifest \<Rightarrow> ('s, capability_manifest) command" where
  "record_manifest env now m = record_with env now (manifest_to_event m (ce_source env))
     (manifest_from_event (dec_builtins (ce_decoders env)))"

definition record_competence ::
  "'s coordinator_env \<Rightarrow> datetime \<Rightarrow> competence_estimate \<Rightarrow> ('s, competence_estimate) command" where
  "record_competence env now x =
     (if ce_basis x \<noteq> Seeded
      then pure_result (Inl (ValueError ''evidence-based competence is non-operational in v0.5''))
      else record_with env now (estimate_to_event x (ce_source env))
        (estimate_from_event (dec_builtins (ce_decoders env))))"

subsection \<open>Planning\<close>

type_synonym planner = "work_order \<Rightarrow> int \<Rightarrow> int \<Rightarrow> string list \<Rightarrow> plan_proposal result"

definition graph_version :: "work_state \<Rightarrow> string \<Rightarrow> int" where
  "graph_version s order_id = (case latest_graph s order_id of None \<Rightarrow> 0 | Some g \<Rightarrow> wg_version g)"

text \<open>The causal cut and the planner's answer to it.\<close>

definition request_plan ::
  "'s coordinator_env \<Rightarrow> planner \<Rightarrow> string \<Rightarrow> ('s, work_order \<times> int \<times> plan_proposal) command" where
  "request_plan env planner order_id = cbind (reload env) (\<lambda>_. with_projection (\<lambda>s.
     case map_of (ws_orders s) order_id of
       None \<Rightarrow> failing (KeyError ''unknown work order'')
     | Some ord \<Rightarrow> pure_result
         (rbind (available_capability_types (dec_builtins (ce_decoders env)) s None) (\<lambda>caps.
          rbind (planner ord (event_cursor s) (graph_version s order_id) caps) (\<lambda>p.
          Inr (ord, event_cursor s, p))))))"

definition record_proposal ::
  "'s coordinator_env \<Rightarrow> datetime \<Rightarrow> work_order \<Rightarrow> plan_proposal \<Rightarrow> ('s, jobject event) command" where
  "record_proposal env now ord p = cbind (reload env) (\<lambda>_.
     cbind (pure_result (proposal_to_event p (ce_source env) (work_order_event_id (wo_id ord)))) (\<lambda>e.
     emit_work env now e))"

text \<open>One round: validation against the reloaded history, at the head that the append then expects.\<close>

definition validate_at_head ::
  "'s coordinator_env \<Rightarrow> datetime \<Rightarrow> work_order \<Rightarrow> int \<Rightarrow> plan_proposal \<Rightarrow> ('s, work_graph \<times> int) command" where
  "validate_at_head env time ord cursor p = cbind (reload env) (\<lambda>_. with_projection (\<lambda>s.
     let b = dec_builtins (ce_decoders env) in
     pure_result
       (rbind (available_capability_types b s (Some cursor)) (\<lambda>caps.
        rbind (validate_plan b (ce_validator_id env) p ord cursor (event_cursor s)
          (graph_version s (wo_id ord)) caps (events_after s cursor None) time) (\<lambda>g.
        Inr (g, event_cursor s))))))"

definition accept_graph ::
  "'s coordinator_env \<Rightarrow> datetime \<Rightarrow> string \<Rightarrow> work_graph \<Rightarrow> int \<Rightarrow> ('s, work_graph) command" where
  "accept_graph env now proposal_event g expected =
     cbind (pure_result (graph_to_event g (ce_source env) proposal_event)) (\<lambda>e.
     cbind (emit_work_if_head env now e expected) (\<lambda>stored.
     pure_result (graph_from_event (dec_builtins (ce_decoders env)) stored)))"

definition interfere :: "('s kernel \<Rightarrow> 's kernel) \<Rightarrow> 's coordinator \<Rightarrow> 's coordinator" where
  "interfere f c = c\<lparr>co_kernel := f (co_kernel c)\<rparr>"

text \<open>
  The loop repeats while the conditional append reports a conflict. Each entry of the list is what others did
  between the reload and the append of one round; after the last entry nobody interferes.
\<close>

primrec plan_rounds ::
  "'s coordinator_env \<Rightarrow> datetime \<Rightarrow> datetime \<Rightarrow> string \<Rightarrow> work_order \<Rightarrow> int \<Rightarrow> plan_proposal
    \<Rightarrow> ('s kernel \<Rightarrow> 's kernel) list \<Rightarrow> ('s, work_graph) command" where
  "plan_rounds env now time proposal_event ord cursor p [] =
     cbind (validate_at_head env time ord cursor p) (\<lambda>(g, head). accept_graph env now proposal_event g head)"
| "plan_rounds env now time proposal_event ord cursor p (f # fs) =
     cbind (validate_at_head env time ord cursor p) (\<lambda>(g, head) c.
       case accept_graph env now proposal_event g head (interfere f c) of
         (Inl (ConcurrentAppendError _ _), c1) \<Rightarrow> plan_rounds env now time proposal_event ord cursor p fs c1
       | other \<Rightarrow> other)"

definition plan ::
  "'s coordinator_env \<Rightarrow> planner \<Rightarrow> datetime \<Rightarrow> datetime \<Rightarrow> ('s kernel \<Rightarrow> 's kernel)
    \<Rightarrow> ('s kernel \<Rightarrow> 's kernel) list \<Rightarrow> string \<Rightarrow> ('s, work_graph) command" where
  "plan env planner now time f fs order_id =
     cbind (request_plan env planner order_id) (\<lambda>(ord, cursor, p) c.
     cbind (record_proposal env now ord p) (\<lambda>proposal_event.
       plan_rounds env now time (ev_id proposal_event) ord cursor p fs) (interfere f c))"

subsection \<open>Assigning and completing\<close>

definition current_graph :: "'s coordinator_env \<Rightarrow> string \<Rightarrow> ('s, work_graph) command" where
  "current_graph env order_id = cbind (reload env) (\<lambda>_. with_projection (\<lambda>s.
     case latest_graph s order_id of
       None \<Rightarrow> failing (KeyError ''work order has no accepted graph'')
     | Some g \<Rightarrow> pure_result (Inr g)))"

definition frontier ::
  "'s coordinator_env \<Rightarrow> awareness_coverage option \<Rightarrow> string \<Rightarrow> ('s, ready_frontier) command" where
  "frontier env coverage order_id = cbind (current_graph env order_id) (\<lambda>g. with_projection (\<lambda>s.
     pure_result (derive_frontier g s coverage)))"

definition grant_lease ::
  "'s coordinator_env \<Rightarrow> datetime \<Rightarrow> datetime \<Rightarrow> work_graph \<Rightarrow> work_node \<Rightarrow> worker_match \<Rightarrow> ('s, work_lease) command" where
  "grant_lease env now time g n m = with_projection (\<lambda>s.
     cbind (pure_result (rbind
       (create_lease (wg_id g) (wn_id n) (wm_agent_id m) (next_fencing_token s (wg_id g) (wn_id n)) time
          (ce_lease_duration env) (wm_score m) (wm_competence_refs m) [] []) (\<lambda>l.
        lease_to_event l (ce_source env) (graph_event_id (wg_id g))))) (\<lambda>e.
     cbind (emit_work env now e) (\<lambda>stored.
     pure_result (lease_from_event (dec_builtins (ce_decoders env)) stored))))"

primrec assign_nodes ::
  "'s coordinator_env \<Rightarrow> datetime \<Rightarrow> datetime \<Rightarrow> work_graph \<Rightarrow> work_node list \<Rightarrow> ('s, work_lease list) command" where
  "assign_nodes env now time g [] = pure_result (Inr [])"
| "assign_nodes env now time g (n # ns) = with_projection (\<lambda>s.
     cbind (pure_result (match_worker None g n s time)) (\<lambda>match.
     case match of
       None \<Rightarrow> assign_nodes env now time g ns
     | Some m \<Rightarrow>
         cbind (grant_lease env now time g n m) (\<lambda>l.
         cbind (assign_nodes env now time g ns) (\<lambda>ls. pure_result (Inr (l # ls))))))"

definition assign_ready ::
  "'s coordinator_env \<Rightarrow> datetime \<Rightarrow> datetime \<Rightarrow> awareness_coverage option \<Rightarrow> string \<Rightarrow> ('s, work_lease list) command" where
  "assign_ready env now time coverage order_id = cbind (current_graph env order_id) (\<lambda>g. with_projection (\<lambda>s.
     cbind (pure_result (derive_frontier g s coverage)) (\<lambda>f. assign_nodes env now time g (fr_ready f))))"

definition complete_work ::
  "'s coordinator_env \<Rightarrow> datetime \<Rightarrow> datetime \<Rightarrow> string \<Rightarrow> int \<Rightarrow> string list \<Rightarrow> datetime option \<Rightarrow> bool option
    \<Rightarrow> ('s, node_completion) command" where
  "complete_work env now time lease_id token artifacts reported passed =
     cbind (reload env) (\<lambda>_. with_projection (\<lambda>s.
     case active_lease s lease_id of
       None \<Rightarrow> failing (ValueError ''work completion requires an active lease'')
     | Some l \<Rightarrow>
         if wl_fencing_token l \<noteq> token then failing (ValueError ''stale work lease fencing token'')
         else cbind (pure_result (completion_event l (ce_source env) time artifacts reported passed)) (\<lambda>e.
           cbind (emit_work env now e) (\<lambda>_. with_projection (\<lambda>s'.
           case map_of (ws_completions s') (wl_graph_id l, wl_node_id l) of
             None \<Rightarrow> failing (AssertionError ''canonical completion was not projected'')
           | Some x \<Rightarrow> pure_result (Inr x))))))"

primrec expire_leases :: "'s coordinator_env \<Rightarrow> datetime \<Rightarrow> datetime \<Rightarrow> work_lease list \<Rightarrow> ('s, unit) command" where
  "expire_leases env now time [] = pure_result (Inr ())"
| "expire_leases env now time (l # ls) =
     cbind (pure_result (expiration_event l (ce_source env) time
       ''lease deadline elapsed without canonical completion'')) (\<lambda>e.
     cbind (emit_work env now e) (\<lambda>_. expire_leases env now time ls))"

definition recover_expired :: "'s coordinator_env \<Rightarrow> datetime \<Rightarrow> datetime \<Rightarrow> ('s, work_lease list) command" where
  "recover_expired env now time = cbind (reload env) (\<lambda>_. with_projection (\<lambda>s.
     if is_naive time \<and> active_leases s \<noteq> []
     then failing (TypeError ''can't compare offset-naive and offset-aware datetimes'')
     else (let expired = filter (\<lambda>l. dt_le (wl_expires_at l) time) (active_leases s)
           in cbind (expire_leases env now time expired) (\<lambda>_. pure_result (Inr expired)))))"

primrec invalidate_graphs ::
  "'s coordinator_env \<Rightarrow> datetime \<Rightarrow> datetime \<Rightarrow> string \<Rightarrow> jobject event \<Rightarrow> work_graph list
    \<Rightarrow> ('s, work_graph list) command" where
  "invalidate_graphs env now time reason trigger [] = pure_result (Inr [])"
| "invalidate_graphs env now time reason trigger (g # gs) = with_projection (\<lambda>s.
     if graph_is_active s (wg_id g) \<and> ev_type trigger \<in> set (wg_replan_event_types g) \<and>
        wg_based_on_event_cursor g < seq0 trigger
     then cbind (pure_result (plan_invalidation_event g trigger (ce_source env) time reason)) (\<lambda>e.
          cbind (emit_work env now e) (\<lambda>_.
          cbind (invalidate_graphs env now time reason trigger gs) (\<lambda>hs. pure_result (Inr (g # hs)))))
     else invalidate_graphs env now time reason trigger gs)"

definition with_history :: "'s coordinator_env \<Rightarrow> (jobject event list \<Rightarrow> ('s, 'a) command) \<Rightarrow> ('s, 'a) command" where
  "with_history env f c = cbind (pure_result (ke_read (ce_kernel env) (kn_store (co_kernel c)))) f c"

definition invalidate_for ::
  "'s coordinator_env \<Rightarrow> datetime \<Rightarrow> datetime \<Rightarrow> string \<Rightarrow> jobject event \<Rightarrow> ('s, work_graph list) command" where
  "invalidate_for env now time reason trigger =
     cbind (reload env) (\<lambda>_. with_history env (\<lambda>history.
     case find (\<lambda>e. ev_id e = ev_id trigger) history of
       None \<Rightarrow> failing (ValueError ''plan invalidation requires the canonical trigger event'')
     | Some canonical \<Rightarrow>
         if \<not> same_event canonical trigger
         then failing (ValueError ''plan invalidation requires the canonical trigger event'')
         else with_projection (\<lambda>s. invalidate_graphs env now time reason trigger (sorted_graphs s))))"

subsection \<open>Commands as data\<close>

datatype work_command =
    Record_order work_order
  | Record_presence agent_presence
  | Record_manifest capability_manifest
  | Record_competence competence_estimate
  | Plan planner string
  | Frontier "awareness_coverage option" string
  | Assign_ready "awareness_coverage option" string
  | Complete string int "string list" "datetime option" "bool option"
  | Recover_expired
  | Invalidate string "jobject event"

definition ignored :: "('s, 'a) command \<Rightarrow> ('s, unit) command" where
  "ignored m = cbind m (\<lambda>_. pure_result (Inr ()))"

primrec run_command :: "'s coordinator_env \<Rightarrow> datetime \<Rightarrow> work_command \<Rightarrow> ('s, unit) command" where
  "run_command env t (Record_order ord) = ignored (record_work_order env t ord)"
| "run_command env t (Record_presence a) = ignored (record_presence env t a)"
| "run_command env t (Record_manifest m) = ignored (record_manifest env t m)"
| "run_command env t (Record_competence x) = ignored (record_competence env t x)"
| "run_command env t (Plan planner order_id) = ignored (plan env planner t t id [] order_id)"
| "run_command env t (Frontier coverage order_id) = ignored (frontier env coverage order_id)"
| "run_command env t (Assign_ready coverage order_id) = ignored (assign_ready env t t coverage order_id)"
| "run_command env t (Complete lease_id token artifacts reported passed) =
     ignored (complete_work env t t lease_id token artifacts reported passed)"
| "run_command env t Recover_expired = ignored (recover_expired env t t)"
| "run_command env t (Invalidate reason trigger) = ignored (invalidate_for env t t reason trigger)"

primrec run_commands :: "'s coordinator_env \<Rightarrow> (datetime \<times> work_command) list \<Rightarrow> ('s, unit) command" where
  "run_commands env [] = pure_result (Inr ())"
| "run_commands env (x # xs) = cbind (run_command env (fst x) (snd x)) (\<lambda>_. run_commands env xs)"

end
