(* ===== verification/CoordinatorProperties.thy ===== *)
theory CoordinatorProperties
  imports Coordinator KernelProperties MatchingProperties "HOL-Library.Sublist"
begin

section \<open>The coordinator follows the log\<close>

text \<open>
  The commands of the coordinator over a kernel with the in-memory store: whatever commands succeed, the
  projection the coordinator holds is the one rebuilt from the kernel's log; assigning ready work never leaves
  an event in the log that the projection rejects; and recording a presence report that arrives late does.
\<close>

abbreviation work_log :: "jobject mem_store coordinator \<Rightarrow> jobject event list" where
  "work_log c \<equiv> ms_events (kn_store (co_kernel c))"

definition running :: "builtins \<Rightarrow> jobject registry \<Rightarrow> jobject mem_store kernel \<Rightarrow> bool" where
  "running b reg k \<longleftrightarrow> kernel_inv b reg k \<and> kn_started k"

definition follows :: "builtins \<Rightarrow> jobject registry \<Rightarrow> decoders \<Rightarrow> jobject mem_store coordinator \<Rightarrow> bool" where
  "follows b reg dec c \<longleftrightarrow> running b reg (co_kernel c) \<and> work_rebuild dec (work_log c) None = Inr (co_projection c)"

definition over_memory :: "builtins \<Rightarrow> jobject registry \<Rightarrow> jobject mem_store coordinator_env \<Rightarrow> bool" where
  "over_memory b reg env \<longleftrightarrow> ce_kernel env = mem_env b reg"

subsection \<open>Reloading and emitting\<close>

lemma work_replay_ok: "work_replay dec s es = (Inr u, s') \<longleftrightarrow> foldM (work_fold dec) s es = Inr s'"
  by (induction es arbitrary: s) (auto split: sum.splits)

lemma work_replay_error: "fst (work_replay dec s es) = Inl err \<longleftrightarrow> foldM (work_fold dec) s es = Inl err"
  by (induction es arbitrary: s) (auto split: sum.splits)

lemma running_store: "running b reg k \<Longrightarrow> mem_inv (kn_store k)"
  by (simp add: running_def kernel_inv_def)

lemma reload_mem:
  assumes "over_memory b reg env" "running b reg (co_kernel c)"
  shows "reload env c = (let (r, s) = work_replay (ce_decoders env) empty_work (work_log c) in (r, c\<lparr>co_projection := s\<rparr>))"
  using assms mem_read_all [OF running_store [OF assms(2)]] by (simp add: reload_def over_memory_def)

lemma reload_follows:
  assumes "over_memory b reg env" "running b reg (co_kernel c)" "reload env c = (Inr u, c')"
  shows "follows b reg (ce_decoders env) c' \<and> co_kernel c' = co_kernel c"
proof -
  obtain s where "work_replay (ce_decoders env) empty_work (work_log c) = (Inr u, s)" "c' = c\<lparr>co_projection := s\<rparr>"
    using assms(3) by (auto simp: reload_mem [OF assms(1,2)] Let_def split: prod.splits)
  then show ?thesis using assms(2) by (simp add: follows_def work_rebuild_all work_replay_ok)
qed

lemma follows_reload:
  assumes "over_memory b reg env" "follows b reg (ce_decoders env) c"
  shows "reload env c = (Inr (), c)"
proof -
  have "work_replay (ce_decoders env) empty_work (work_log c) = (Inr (), co_projection c)"
    using assms(2) by (simp add: follows_def work_rebuild_all work_replay_ok)
  then show ?thesis using assms by (simp add: reload_mem follows_def)
qed

text \<open>What a successful commit adds to the log: nothing, or the stored event.\<close>

lemma commit_log:
  assumes "running b reg k" "commit (mem_env b reg) now k e distribute expected = (Inr r, k')"
  shows "running b reg k' \<and> (ms_events (kn_store k') = ms_events (kn_store k) \<and> r \<in> set (ms_events (kn_store k)) \<or>
    ms_events (kn_store k') = ms_events (kn_store k) @ [r])"
proof -
  have run: "kernel_inv b reg k" "kn_started k" using assms(1) by (simp_all add: running_def)
  note inv = commit_inv [OF run assms(2)]
  obtain stored s' where st: "commit_append (mem_env b reg) (kn_store k) e distribute expected = Inr (stored, s')"
      and cs: "commit_stored (mem_env b reg) now (k\<lparr>kn_store := s'\<rparr>) stored distribute = (Inr r, k')"
    using assms(2) run(2) by (auto simp: commit_def split: sum.splits prod.splits)
  have "kn_store k' = s' \<and> r = stored"
    using cs by (auto simp: commit_stored_def publish_stored_def project_stored_def rebuild_situation_def Let_def
        split: if_splits sum.splits prod.splits option.splits)
  with append_mem [OF running_store [OF assms(1)] st] inv show ?thesis
    by (auto simp: running_def)
qed

lemma rebuilt_recorded:
  assumes "work_rebuild dec es None = Inr s"
  shows "dom (map_of (ws_events s)) = ev_id ` set es"
proof -
  have "work_inv s' \<Longrightarrow> foldM (work_fold dec) s' es = Inr s \<Longrightarrow>
      dom (map_of (ws_events s)) = dom (map_of (ws_events s')) \<union> ev_id ` set es" for s'
  proof (induction es arbitrary: s')
    case (Cons e es)
    then obtain s1 where s1: "work_fold dec s' e = Inr s1" "foldM (work_fold dec) s1 es = Inr s"
      by (auto simp: rbind_Inr_iff)
    with Cons.IH [OF work_inv_fold [OF Cons.prems(1) s1(1)] s1(2)] work_fold_recorded [OF Cons.prems(1) s1(1)]
    show ?case by auto
  qed simp
  from this [OF work_inv_empty] assms show ?thesis by (simp add: work_rebuild_all) (simp add: empty_work_def)
qed

lemma apply_emitted_ok:
  "apply_emitted env e stored c = (Inr r, c') \<longleftrightarrow> r = stored \<and> same_event (stored\<lparr>ev_sequence := None\<rparr>) e \<and>
    (\<exists>s. work_fold (ce_decoders env) (co_projection c) stored = Inr s \<and> c' = c\<lparr>co_projection := s\<rparr>)"
  by (auto simp: apply_emitted_def split: sum.splits)

lemma apply_known:
  assumes "work_rebuild dec es None = Inr s" "e \<in> set es" "work_fold dec s e = Inr s'"
  shows "s' = s"
proof -
  have "map_of (ws_events s) (ev_id e) \<noteq> None" using rebuilt_recorded [OF assms(1)] assms(2) by blast
  with rebuilt_inv [OF assms(1)] assms(3) show ?thesis by (cases rule: work_fold_cases) auto
qed

lemma committed_follows:
  assumes "over_memory b reg env" "follows b reg (ce_decoders env) c"
    and "commit (mem_env b reg) now (co_kernel c) e True expected = (Inr stored, k)"
    and "apply_emitted env e stored (c\<lparr>co_kernel := k\<rparr>) = (Inr r, c')"
  shows "follows b reg (ce_decoders env) c' \<and> prefix (work_log c) (work_log c') \<and> r \<in> set (work_log c')"
proof -
  have run: "running b reg (co_kernel c)" and re: "work_rebuild (ce_decoders env) (work_log c) None = Inr (co_projection c)"
    using assms(2) by (simp_all add: follows_def)
  obtain s where s: "r = stored" "work_fold (ce_decoders env) (co_projection c) stored = Inr s"
      "c' = c\<lparr>co_kernel := k, co_projection := s\<rparr>"
    using assms(4) by (auto simp: apply_emitted_ok)
  from commit_log [OF run assms(3)] consider
      (old) "running b reg k" "ms_events (kn_store k) = work_log c" "stored \<in> set (work_log c)"
    | (new) "running b reg k" "ms_events (kn_store k) = work_log c @ [stored]" by blast
  then show ?thesis
  proof cases
    case old
    with apply_known [OF re old(3) s(2)] re s show ?thesis by (simp add: follows_def)
  next
    case new
    with re s show ?thesis by (simp add: follows_def work_rebuild_all foldM_append)
  qed
qed


subsection \<open>Commands that keep the projection in step\<close>

text \<open>
  \<open>keeps\<close>: from a coordinator in step with the log, success leaves it in step with a longer log.
  \<open>starts\<close>: the same from any running kernel, which is what a command that reloads first gives.
\<close>

definition keeps ::
  "builtins \<Rightarrow> jobject registry \<Rightarrow> decoders \<Rightarrow> (jobject mem_store, 'a) command \<Rightarrow> bool" where
  "keeps b reg dec m \<longleftrightarrow> (\<forall>c x c'. follows b reg dec c \<longrightarrow> m c = (Inr x, c') \<longrightarrow>
     follows b reg dec c' \<and> prefix (work_log c) (work_log c'))"

definition starts ::
  "builtins \<Rightarrow> jobject registry \<Rightarrow> decoders \<Rightarrow> (jobject mem_store, 'a) command \<Rightarrow> bool" where
  "starts b reg dec m \<longleftrightarrow> (\<forall>c x c'. running b reg (co_kernel c) \<longrightarrow> m c = (Inr x, c') \<longrightarrow>
     follows b reg dec c' \<and> prefix (work_log c) (work_log c'))"

named_theorems keeps_intros "commands that keep the projection in step with the log"

lemma keeps_pure [keeps_intros]: "keeps b reg dec (pure_result r)"
  by (simp add: keeps_def)

lemma keeps_bind [keeps_intros]:
  assumes "keeps b reg dec m" "\<And>x. keeps b reg dec (f x)"
  shows "keeps b reg dec (cbind m f)"
  unfolding keeps_def
proof (intro allI impI)
  fix c y c' assume c: "follows b reg dec c" "cbind m f c = (Inr y, c')"
  then obtain x c1 where x: "m c = (Inr x, c1)" "f x c1 = (Inr y, c')" by (auto simp: cbind_ok)
  have "follows b reg dec c1" "prefix (work_log c) (work_log c1)"
    using assms(1) c(1) x(1) unfolding keeps_def by blast+
  then show "follows b reg dec c' \<and> prefix (work_log c) (work_log c')"
    using assms(2) [of x] x(2) prefix_order.trans unfolding keeps_def by blast
qed

lemma keeps_failing [keeps_intros]: "keeps b reg dec (failing err)"
  by (simp add: failing_def keeps_pure)

lemma keeps_with_projection [keeps_intros]:
  "(\<And>s. keeps b reg dec (f s)) \<Longrightarrow> keeps b reg dec (with_projection f)"
  by (simp add: keeps_def with_projection_def)

lemma keeps_with_history [keeps_intros]:
  assumes "\<And>h. keeps b reg dec (f h)"
  shows "keeps b reg dec (with_history env f)"
  using assms by (auto simp: keeps_def with_history_def cbind_ok)

lemma keeps_ignored [keeps_intros]: "keeps b reg dec m \<Longrightarrow> keeps b reg dec (ignored m)"
  unfolding ignored_def by (intro keeps_intros)

lemma keeps_emit [keeps_intros]:
  assumes "over_memory b reg env" "dec = ce_decoders env"
  shows "keeps b reg dec (emit_work env now e)"
  using committed_follows [OF assms(1)] assms
  by (fastforce simp: keeps_def emit_work_def emit_def over_memory_def split: prod.splits sum.splits)

lemma keeps_emit_if [keeps_intros]:
  assumes "over_memory b reg env" "dec = ce_decoders env"
  shows "keeps b reg dec (emit_work_if_head env now e h)"
  using committed_follows [OF assms(1)] assms
  by (fastforce simp: keeps_def emit_work_if_head_def emit_if_head_def over_memory_def split: prod.splits sum.splits)

lemma starts_reload:
  assumes "over_memory b reg env" "dec = ce_decoders env" "\<And>x. keeps b reg dec (f x)"
  shows "starts b reg dec (cbind (reload env) f)"
  unfolding starts_def
proof (intro allI impI)
  fix c y c' assume c: "running b reg (co_kernel c)" "cbind (reload env) f c = (Inr y, c')"
  then obtain x c1 where x: "reload env c = (Inr x, c1)" "f x c1 = (Inr y, c')" by (auto simp: cbind_ok)
  from reload_follows [OF assms(1) c(1) x(1)] assms(2)
  have "follows b reg dec c1" "work_log c1 = work_log c" by simp_all
  with assms(3) x(2) show "follows b reg dec c' \<and> prefix (work_log c) (work_log c')"
    unfolding keeps_def by metis
qed

lemma starts_bind:
  assumes "starts b reg dec m" "\<And>x. keeps b reg dec (f x)"
  shows "starts b reg dec (cbind m f)"
  unfolding starts_def
proof (intro allI impI)
  fix c y c' assume c: "running b reg (co_kernel c)" "cbind m f c = (Inr y, c')"
  then obtain x c1 where x: "m c = (Inr x, c1)" "f x c1 = (Inr y, c')" by (auto simp: cbind_ok)
  have "follows b reg dec c1" "prefix (work_log c) (work_log c1)"
    using assms(1) c(1) x(1) unfolding starts_def by blast+
  then show "follows b reg dec c' \<and> prefix (work_log c) (work_log c')"
    using assms(2) [of x] x(2) prefix_order.trans unfolding keeps_def by blast
qed

lemma starts_keeps: "starts b reg dec m \<Longrightarrow> keeps b reg dec m"
  unfolding keeps_def starts_def by (metis follows_def)

subsection \<open>Every command\<close>

lemma keeps_grant [keeps_intros]:
  assumes "over_memory b reg env" "dec = ce_decoders env"
  shows "keeps b reg dec (grant_lease env now time g n m)"
  unfolding grant_lease_def by (intro keeps_intros assms)

lemma keeps_assign [keeps_intros]:
  assumes "over_memory b reg env" "dec = ce_decoders env"
  shows "keeps b reg dec (assign_nodes env now time g ns)"
  by (induction ns) (auto intro!: keeps_intros assms split: option.splits)

lemma keeps_expire [keeps_intros]:
  assumes "over_memory b reg env" "dec = ce_decoders env"
  shows "keeps b reg dec (expire_leases env now time ls)"
  by (induction ls) (auto intro!: keeps_intros assms)

lemma keeps_invalidate [keeps_intros]:
  assumes "over_memory b reg env" "dec = ce_decoders env"
  shows "keeps b reg dec (invalidate_graphs env now time reason trigger gs)"
  by (induction gs) (auto intro!: keeps_intros assms)

lemma keeps_accept [keeps_intros]:
  assumes "over_memory b reg env" "dec = ce_decoders env"
  shows "keeps b reg dec (accept_graph env now i g h)"
  unfolding accept_graph_def by (intro keeps_intros assms)

named_theorems starts_intros "commands that bring the projection in step with the log"

lemma starts_ignored: "starts b reg dec m \<Longrightarrow> starts b reg dec (ignored m)"
  unfolding ignored_def by (intro starts_bind keeps_intros)

lemma starts_record [starts_intros]:
  assumes "over_memory b reg env" "dec = ce_decoders env"
  shows "starts b reg dec (record_with env now event decode)"
  unfolding record_with_def by (intro starts_reload keeps_intros assms)

lemma starts_current_graph:
  assumes "over_memory b reg env" "dec = ce_decoders env"
  shows "starts b reg dec (current_graph env order_id)"
  unfolding current_graph_def by (auto intro!: starts_reload keeps_intros assms split: option.splits)

lemma starts_planning:
  assumes "over_memory b reg env" "dec = ce_decoders env"
  shows "starts b reg dec (request_plan env planner order_id)" "starts b reg dec (record_proposal env now ord p)"
    "starts b reg dec (validate_at_head env time ord cursor p)"
  unfolding request_plan_def record_proposal_def validate_at_head_def
  by (auto intro!: starts_reload keeps_intros assms split: option.splits simp: Let_def)

lemma interfere_id: "interfere id c = c"
  by (simp add: interfere_def)

lemma keeps_undisturbed_round [keeps_intros]:
  assumes "over_memory b reg env" "dec = ce_decoders env"
  shows "keeps b reg dec (plan_rounds env now time i ord cursor p [])"
  by (auto intro!: keeps_bind starts_keeps [OF starts_planning(3)] keeps_accept assms)

lemma starts_plan [starts_intros]:
  assumes "over_memory b reg env" "dec = ce_decoders env"
  shows "starts b reg dec (plan env planner now time id [] order_id)"
  unfolding plan_def interfere_id
  by (auto intro!: starts_bind starts_planning(1) keeps_intros starts_keeps [OF starts_planning(2)] assms
      simp del: plan_rounds.simps)

lemma starts_reading [starts_intros]:
  assumes "over_memory b reg env" "dec = ce_decoders env"
  shows "starts b reg dec (frontier env coverage order_id)"
    "starts b reg dec (assign_ready env now time coverage order_id)"
  unfolding frontier_def assign_ready_def by (intro starts_bind starts_current_graph keeps_intros assms)+

lemma starts_closing [starts_intros]:
  assumes "over_memory b reg env" "dec = ce_decoders env"
  shows "starts b reg dec (complete_work env now time lease_id token artifacts reported passed)"
    "starts b reg dec (recover_expired env now time)" "starts b reg dec (invalidate_for env now time reason trigger)"
  unfolding complete_work_def recover_expired_def invalidate_for_def Let_def
  by (auto intro!: starts_reload keeps_intros assms split: option.splits)


lemma starts_command:
  assumes "over_memory b reg env" "dec = ce_decoders env"
  shows "starts b reg dec (run_command env t x)"
proof (cases x)
  case (Record_competence estimate)
  have "starts b reg dec (pure_result (Inl err))" for err
    by (simp add: starts_def)
  then show ?thesis
    using assms by (auto simp: Record_competence record_competence_def intro!: starts_ignored starts_intros)
qed (simp_all add: record_work_order_def record_presence_def record_manifest_def starts_ignored starts_intros assms)

lemma keeps_commands:
  assumes "over_memory b reg env" "dec = ce_decoders env"
  shows "keeps b reg dec (run_commands env xs)"
  by (induction xs) (auto intro!: keeps_intros starts_keeps [OF starts_command] assms)

subsection \<open>A coordinator over the run's log\<close>

definition demo_env :: "jobject mem_store coordinator_env" where
  "demo_env = \<lparr>ce_kernel = mem_env demo_builtins empty_registry, ce_decoders = demo_decoders,
     ce_lease_duration = 100, ce_source = ''d'', ce_validator_id = ''v''\<rparr>"

definition demo_kernel :: "jobject mem_store kernel" where
  "demo_kernel = snd (kernel_start (mem_env demo_builtins empty_registry) (Aware 0) True
     (new_kernel (mem_of (take 9 demo_log)) (Aware 0)))"

definition demo_coordinator :: "jobject mem_store coordinator" where
  "demo_coordinator = \<lparr>co_kernel = demo_kernel, co_projection = empty_work\<rparr>"

lemma demo_kernel_started:
  "mem_inv (mem_of (take 9 demo_log))" "\<not> eb_closed (kn_bus demo_kernel)"
  "fst (kernel_start (mem_env demo_builtins empty_registry) (Aware 0) True
     (new_kernel (mem_of (take 9 demo_log)) (Aware 0))) = Inr ()"
  by code_simp+

lemma demo_coordinator_runs:
  "over_memory demo_builtins empty_registry demo_env" "running demo_builtins empty_registry (co_kernel demo_coordinator)"
  "\<not> eb_closed (kn_bus (co_kernel demo_coordinator))"
  "work_rebuild (ce_decoders demo_env) (work_log demo_coordinator) None = Inr demo_planned"
proof -
  have "kernel_start (mem_env demo_builtins empty_registry) (Aware 0) True
     (new_kernel (mem_of (take 9 demo_log)) (Aware 0)) = (Inr (), demo_kernel)"
    using demo_kernel_started(3) by (simp add: demo_kernel_def prod_eq_iff)
  from start_inv [OF _ this] demo_kernel_started(1)
  have k: "kernel_inv demo_builtins empty_registry demo_kernel" "kn_store demo_kernel = mem_of (take 9 demo_log)"
    "kn_started demo_kernel" by (simp_all add: new_kernel_def)
  then show "running demo_builtins empty_registry (co_kernel demo_coordinator)"
    by (simp add: running_def demo_coordinator_def)
  show "work_rebuild (ce_decoders demo_env) (work_log demo_coordinator) None = Inr demo_planned"
    using demo_rebuilt(1) k(2) by (simp add: demo_env_def demo_coordinator_def mem_of_def)
qed (use demo_kernel_started(2) in \<open>simp_all add: over_memory_def demo_env_def demo_coordinator_def\<close>)

definition demo_commands :: "(datetime \<times> work_command) list" where
  "demo_commands = [(Aware 20, Record_presence (demo_presence ''z1'')),
     (Aware 21, Frontier None ''work-order:xy'')]"

lemma demo_commands_run: "fst (run_commands demo_env demo_commands demo_coordinator) = Inr ()"
  by code_simp



subsection \<open>Emitting an event that only the work projection reads\<close>

definition open_memory :: "builtins \<Rightarrow> jobject mem_store coordinator_env \<Rightarrow> jobject mem_store coordinator \<Rightarrow> bool" where
  "open_memory b env c \<longleftrightarrow> over_memory b empty_registry env \<and>
     follows b empty_registry (ce_decoders env) c \<and> \<not> eb_closed (kn_bus (co_kernel c))"

definition inert :: "jobject event \<Rightarrow> bool" where
  "inert e \<longleftrightarrow> ev_schema_version e = 1 \<and> ev_type e \<in> {WORK_ORDER_RECORDED_EVENT, PLAN_PROPOSED_EVENT,
     WORK_GRAPH_ACCEPTED_EVENT, AGENT_PRESENCE_RECORDED_EVENT, CAPABILITY_MANIFEST_RECORDED_EVENT,
     COMPETENCE_ESTIMATE_RECORDED_EVENT, WORK_LEASE_GRANTED_EVENT, WORK_LEASE_EXPIRED_EVENT,
     WORK_NODE_COMPLETED_EVENT, WORK_PLAN_INVALIDATED_EVENT}"

lemmas work_event_types = WORK_ORDER_RECORDED_EVENT_def PLAN_PROPOSED_EVENT_def WORK_GRAPH_ACCEPTED_EVENT_def
  AGENT_PRESENCE_RECORDED_EVENT_def CAPABILITY_MANIFEST_RECORDED_EVENT_def
  COMPETENCE_ESTIMATE_RECORDED_EVENT_def WORK_LEASE_GRANTED_EVENT_def WORK_LEASE_EXPIRED_EVENT_def
  WORK_NODE_COMPLETED_EVENT_def WORK_PLAN_INVALIDATED_EVENT_def

lemma inert_builtin: "inert e \<Longrightarrow> apply_builtin b si (with_sequence e n) = Inr (False, si)"
  unfolding inert_def apply_builtin_def Let_def
  by (elim conjE insertE emptyE) (simp_all add: work_event_types)

lemma commit_inert:
  assumes "running b empty_registry k" "\<not> eb_closed (kn_bus k)" "inert e"
    and "commit (mem_env b empty_registry) now k e True None = (r, k')"
  obtains (old) x where "r = Inr x" "k' = k" "x \<in> set (ms_events (kn_store k))" "ev_id x = ev_id e"
  | (new) x where "r = Inr x" "x = with_sequence e (int (length (ms_events (kn_store k))) + 1)"
      "ms_events (kn_store k') = ms_events (kn_store k) @ [x]" "ev_id e \<notin> ev_id ` set (ms_events (kn_store k))"
      "running b empty_registry k'" "\<not> eb_closed (kn_bus k')"
proof (cases "ev_id e \<in> ev_id ` set (ms_events (kn_store k))")
  case True
  note inv = running_store [OF assms(1)]
  have kinv: "kernel_inv b empty_registry k" "kn_started k" using assms(1) by (simp_all add: running_def)
  obtain x where x: "x \<in> set (ms_events (kn_store k))" "ev_id x = ev_id e" using True by auto
  have ap: "mem_append (kn_store k) e = Inr (x, kn_store k)" by (rule mem.append_old [OF inv x])
  obtain n where "ev_sequence x = Some n" "n \<le> si_version (kn_situation k)"
    using numbered_member [OF _ x(1)] kernel_version [OF kinv(1)] inv by (auto simp: mem_inv_def)
  then have "commit (mem_env b empty_registry) now k e True None = (Inr x, k)"
    using kinv(2) by (simp add: commit_def commit_append_def ap commit_stored_def)
  with assms(4) have "r = Inr x" "k' = k" by simp_all
  with old x show ?thesis by blast
next
  case False
  note inv = running_store [OF assms(1)]
  have kinv: "kernel_inv b empty_registry k" "kn_started k" using assms(1) by (simp_all add: running_def)
  let ?x = "with_sequence e (int (length (ms_events (kn_store k))) + 1)"
  obtain s' where s': "mem_append (kn_store k) e = Inr (?x, s')" "mem_inv s'"
      "ms_events s' = ms_events (kn_store k) @ [?x]"
    using mem.append_new [OF inv TrueI False] by (auto simp: mem_latest_sequence_def)
  have norm: "normalize empty_registry ?x = Inr ?x"
    using assms(3) by (simp add: inert_def normalize_empty_registry)
  have "apply_builtin b si ?x = Inr (False, si)" for si by (rule inert_builtin [OF assms(3)])
  then have app: "\<exists>si. situation_apply b [] (kn_situation k) ?x = (None, si)"
    by (simp add: situation_apply_def)
  have pub: "\<exists>bus. bus_publish (kn_bus k) ?x = Inr bus \<and> \<not> eb_closed bus"
    using assms(2) by (auto simp: bus_publish_def bus_start_def)
  have "si_version (kn_situation k) = int (length (ms_events (kn_store k)))" by (rule kernel_version [OF kinv(1)])
  then have "\<exists>k'. commit (mem_env b empty_registry) now k e True None = (Inr ?x, k') \<and> kn_store k' = s' \<and>
      \<not> eb_closed (kn_bus k')"
    using kinv(2) s'(1) norm app pub
    by (auto simp: commit_def commit_append_def commit_stored_def project_stored_def)
  then have r: "r = Inr ?x" "kn_store k' = s'" "\<not> eb_closed (kn_bus k')" using assms(4) by auto
  moreover have "running b empty_registry k'"
    using commit_log [OF assms(1)] assms(4) r(1) by blast
  ultimately show ?thesis using new s'(3) False by simp
qed

lemma rebuilt_cursor:
  assumes "work_rebuild dec es None = Inr s" "numbered es"
  shows "ws_last_sequence s \<le> int (length es)"
  using assms
proof (induction es arbitrary: s rule: rev_induct)
  case Nil
  then show ?case by (auto simp: work_rebuild_all empty_work_def)
next
  case (snoc e es)
  then obtain s1 where s1: "work_rebuild dec es None = Inr s1" "work_fold dec s1 e = Inr s"
    by (auto simp: work_rebuild_all foldM_append rbind_Inr_iff)
  from snoc.IH [OF s1(1)] snoc.prems(2) have le: "ws_last_sequence s1 \<le> int (length es)" by simp
  from rebuilt_inv [OF s1(1)] s1(2) show ?case
    by (cases rule: work_fold_cases) (use le snoc.prems(2) in auto)
qed


subsection \<open>Assigning keeps the log admissible\<close>

definition with_lease :: "work_lease \<Rightarrow> work_state \<Rightarrow> work_state \<Rightarrow> bool" where
  "with_lease l s s' \<longleftrightarrow> ws_graphs s' = ws_graphs s \<and> ws_latest s' = ws_latest s \<and>
     ws_invalidations s' = ws_invalidations s \<and> ws_completions s' = ws_completions s \<and>
     ws_leases s' = AList.update (wl_id l) l (ws_leases s) \<and>
     ws_outcomes s' = AList.update (wl_id l) Active (ws_outcomes s)"

text \<open>An unchanged projection, or one more lease, leaves the other nodes free.\<close>

lemma with_lease_free:
  assumes "work_inv s" "work_inv s'" "with_lease l s s'" "node_free s g n" "(wl_graph_id l, wl_node_id l) \<noteq> (wg_id g, wn_id n)"
  shows "node_free s' g n"
proof -
  have "active_lease_for_node s (wg_id g) (wn_id n) = None" using assms(4) by (simp add: node_free_def)
  then have "active_lease_for_node s' (wg_id g) (wn_id n) = None"
    using assms(3,5)
    unfolding active_lease_for_node_None [OF assms(1) [unfolded work_inv_def]]
      active_lease_for_node_None [OF assms(2) [unfolded work_inv_def]]
    by (auto simp: with_lease_def AList.update_conv' split: if_splits)
  then show ?thesis using assms(3,4) by (simp add: node_free_def completed_def with_lease_def list_all_iff)
qed

lemma matched_ungoverned:
  assumes "match_with_evidence None g n s time = Inr (Some m, evs)"
  shows "wn_governed_information_refs n = []"
  using match_chosen [OF assms] by (auto simp: match_presence_def Let_def rbind_Inr_iff split: if_splits)

lemma lease_event_fold:
  assumes "follows b reg dec c" "validate_lease_grant dec (co_projection c) l = Inr ()" "check_lease l = Inr ()"
    and "lease_to_event l source (graph_event_id (wl_graph_id l)) = Inr e" "ev_id e \<notin> ev_id ` set (work_log c)"
  shows "\<exists>s'. work_fold dec (co_projection c) (with_sequence e (int (length (work_log c)) + 1)) = Inr s' \<and>
    with_lease l (co_projection c) s'"
proof -
  let ?s = "co_projection c" and ?n = "int (length (work_log c)) + 1"
  have re: "work_rebuild dec (work_log c) None = Inr ?s" and "numbered (work_log c)"
    using assms(1) running_store by (auto simp: follows_def mem_inv_def)
  then have "ws_last_sequence ?s < ?n" using rebuilt_cursor by force
  moreover have "map_of (ws_events ?s) (ev_id e) = None"
    using rebuilt_recorded [OF re] assms(5) by auto
  moreover note f = make_event_fields [OF assms(4) [unfolded lease_to_event_def]]
  have "lease_from_event (dec_builtins dec) (with_sequence e ?n) = Inr l"
    by (rule lease_event_round_trip [OF assms(3,4)])
  then have "apply_lease dec ?s (with_sequence e ?n) = Inr (?s\<lparr>ws_leases := AList.update (wl_id l) l (ws_leases ?s),
      ws_outcomes := AList.update (wl_id l) Active (ws_outcomes ?s),
      ws_tokens := AList.update (wl_graph_id l, wl_node_id l) (wl_fencing_token l) (ws_tokens ?s)\<rparr>)"
    using assms(2) f by (simp add: apply_lease_def)
  moreover have "handle_work_event dec ?s (with_sequence e ?n) =
      rbind (apply_lease dec ?s (with_sequence e ?n)) (\<lambda>s'. Inr (True, s'))"
    using f(2) by (simp add: handle_work_event_def Let_def work_event_types)
  ultimately show ?thesis
    using f by (simp add: work_fold_def work_apply_def with_lease_def)
qed

lemma emit_work_result:
  assumes "open_memory b env c" "inert e" "ev_sequence e = None" "emit_work env now e c = (r, c')"
    and "ev_id e \<notin> ev_id ` set (work_log c) \<Longrightarrow>
      \<exists>s'. work_fold (ce_decoders env) (co_projection c) (with_sequence e (int (length (work_log c)) + 1)) = Inr s' \<and> P s'"
  shows "open_memory b env c' \<and> prefix (work_log c) (work_log c') \<and>
    (co_projection c' = co_projection c \<or> P (co_projection c')) \<and> (\<forall>x. r = Inr x \<longrightarrow> x \<in> set (work_log c'))"
proof -
  let ?s = "co_projection c" and ?dec = "ce_decoders env"
  have mem: "over_memory b empty_registry env" and fol: "follows b empty_registry ?dec c"
    and op: "\<not> eb_closed (kn_bus (co_kernel c))"
    using assms(1) by (simp_all add: open_memory_def)
  have run: "running b empty_registry (co_kernel c)" and re: "work_rebuild ?dec (work_log c) None = Inr ?s"
    using fol by (simp_all add: follows_def)
  obtain x k where k: "commit (mem_env b empty_registry) now (co_kernel c) e True None = (x, k)" by fastforce
  have cmd: "emit_work env now e c = (case x of Inl err \<Rightarrow> (Inl err, c\<lparr>co_kernel := k\<rparr>)
      | Inr stored \<Rightarrow> apply_emitted env e stored (c\<lparr>co_kernel := k\<rparr>))"
    using k mem by (simp add: emit_work_def emit_def over_memory_def split: sum.splits)
  show ?thesis
    using run op assms(2) k
  proof (cases rule: commit_inert)
    case (old stored)
    then have "emit_work env now e c = apply_emitted env e stored c" by (simp add: cmd)
    then have "c' = c \<and> (\<forall>x. r = Inr x \<longrightarrow> x = stored)"
      using assms(4) apply_known [OF re old(3)] by (auto simp: apply_emitted_def split: if_splits sum.splits)
    then show ?thesis using assms(1) old(3) by auto
  next
    case (new stored)
    obtain s' where s': "work_fold ?dec ?s stored = Inr s'" "P s'" using assms(5) [OF new(4)] new(2) by auto
    have "stored\<lparr>ev_sequence := None\<rparr> = e" using assms(3) by (simp add: new(2) with_sequence_def)
    then have "emit_work env now e c = (Inr stored, c\<lparr>co_kernel := k, co_projection := s'\<rparr>)"
      using s'(1) new(1) by (simp add: cmd apply_emitted_def)
    then have c': "r = Inr stored" "c' = c\<lparr>co_kernel := k, co_projection := s'\<rparr>" using assms(4) by simp_all
    have "work_rebuild ?dec (work_log c @ [stored]) None = Inr s'"
      using re s'(1) by (simp add: work_rebuild_all foldM_append)
    then have "open_memory b env c'"
      using new(3,5,6) mem by (simp add: open_memory_def follows_def c')
    then show ?thesis using s'(2) new(3) by (simp add: c')
  qed
qed

definition logged_lease :: "decoders \<Rightarrow> jobject mem_store coordinator \<Rightarrow> work_lease \<Rightarrow> bool" where
  "logged_lease dec c l \<longleftrightarrow> (\<exists>e \<in> set (work_log c). lease_from_event (dec_builtins dec) e = Inr l)"

lemma logged_lease_later: "logged_lease dec c l \<Longrightarrow> prefix (work_log c) (work_log c') \<Longrightarrow> logged_lease dec c' l"
  using set_mono_prefix unfolding logged_lease_def by blast

text \<open>
  Granting a lease for a matched free node: whatever the outcome, the coordinator stays in step with the log;
  the projection is unchanged or has the lease.
\<close>

lemma grant_lease_result:
  assumes "open_memory b env c" "map_of (ws_graphs (co_projection c)) (wg_id g) = Some g"
    and "graph_is_active (co_projection c) (wg_id g)" "n \<in> set (wg_nodes g)" "node_free (co_projection c) g n"
    and "match_worker None g n (co_projection c) time = Inr (Some m)"
    and "grant_lease env now time g n m c = (r, c')"
  shows "open_memory b env c' \<and> prefix (work_log c) (work_log c') \<and>
    (co_projection c' = co_projection c \<or>
     (\<exists>l. wl_graph_id l = wg_id g \<and> wl_node_id l = wn_id n \<and> with_lease l (co_projection c) (co_projection c'))) \<and>
    (\<forall>l. r = Inr l \<longrightarrow> logged_lease (ce_decoders env) c' l)"
proof -
  let ?s = "co_projection c" and ?dec = "ce_decoders env"
  have mem: "over_memory b empty_registry env" and fol: "follows b empty_registry ?dec c"
    and op: "\<not> eb_closed (kn_bus (co_kernel c))"
    using assms(1) by (simp_all add: open_memory_def)
  have run: "running b empty_registry (co_kernel c)" and re: "work_rebuild ?dec (work_log c) None = Inr ?s"
    using fol by (simp_all add: follows_def)
  obtain evs where m: "match_with_evidence None g n ?s time = Inr (Some m, evs)"
    using assms(6) by (auto simp: match_worker_def rbind_Inr_iff)
  let ?make = "rbind (create_lease (wg_id g) (wn_id n) (wm_agent_id m) (next_fencing_token ?s (wg_id g) (wn_id n))
      time (ce_lease_duration env) (wm_score m) (wm_competence_refs m) [] []) (\<lambda>l.
    lease_to_event l (ce_source env) (graph_event_id (wg_id g)))"
  show ?thesis
  proof (cases ?make)
    case (Inl err)
    then have "r = Inl err" "c' = c"
      using assms(7) by (simp_all add: grant_lease_def with_projection_def cbind_def pure_result_def)
    with assms(1) show ?thesis by simp
  next
    case (Inr e)
    then obtain l where l: "create_lease (wg_id g) (wn_id n) (wm_agent_id m)
        (next_fencing_token ?s (wg_id g) (wn_id n)) time (ce_lease_duration env) (wm_score m)
        (wm_competence_refs m) [] [] = Inr l" "lease_to_event l (ce_source env) (graph_event_id (wg_id g)) = Inr e"
      by (auto simp: rbind_Inr_iff)
    note lf = matched_lease_fields [OF l(1)]
    note ef = make_event_fields [OF l(2) [unfolded lease_to_event_def]]
    have inert: "inert e"
      using l(2) by (auto simp: inert_def lease_to_event_def make_event_def Let_def rbind_Inr_iff
          CURRENT_EVENT_SCHEMA_VERSION_def)
    have "well_planned g" using rebuilt_inv [OF re] assms(2) by (auto simp: work_inv_def control_inv_def)
    then have valid: "validate_lease_grant ?dec ?s l = Inr ()"
      using free_match_valid [OF rebuilt_workers [OF re] assms(2) _ assms(3-5) matched_ungoverned [OF m] m l(1)] by blast
    obtain r1 c1 where e1: "emit_work env now e c = (r1, c1)" by fastforce
    have er: "open_memory b env c1 \<and> prefix (work_log c) (work_log c1) \<and>
        (co_projection c1 = ?s \<or> with_lease l ?s (co_projection c1)) \<and> (\<forall>x. r1 = Inr x \<longrightarrow> x \<in> set (work_log c1))"
    proof (rule emit_work_result [OF assms(1) inert ef(7) e1])
      assume "ev_id e \<notin> ev_id ` set (work_log c)"
      with lease_event_fold [OF fol valid lf(10)] l(2) lf(1)
      show "\<exists>s'. work_fold ?dec ?s (with_sequence e (int (length (work_log c)) + 1)) = Inr s' \<and> with_lease l ?s s'"
        by simp
    qed
    have "grant_lease env now time g n m c = cbind (emit_work env now e) (\<lambda>stored.
        pure_result (lease_from_event (dec_builtins ?dec) stored)) c"
      using Inr by (simp add: grant_lease_def with_projection_def cbind_def pure_result_def)
    then have "c' = c1 \<and> (\<forall>l. r = Inr l \<longrightarrow> (\<exists>x. r1 = Inr x \<and> lease_from_event (dec_builtins ?dec) x = Inr l))"
      using assms(7) e1 by (auto simp: cbind_def pure_result_def split: sum.splits)
    then show ?thesis
      using er lf(1,2) unfolding logged_lease_def by (intro conjI allI impI) (fast | metis)+
  qed
qed

lemma assign_nodes_result:
  assumes "open_memory b env c" "map_of (ws_graphs (co_projection c)) (wg_id g) = Some g"
    and "graph_is_active (co_projection c) (wg_id g)" "set ns \<subseteq> set (wg_nodes g)" "distinct (map wn_id ns)"
    and "\<forall>n \<in> set ns. node_free (co_projection c) g n"
    and "assign_nodes env now time g ns c = (r, c')"
  shows "open_memory b env c' \<and> prefix (work_log c) (work_log c') \<and>
    (\<forall>ls. r = Inr ls \<longrightarrow> list_all (logged_lease (ce_decoders env) c') ls)"
  using assms
proof (induction ns arbitrary: c r c')
  case Nil
  then show ?case by (auto simp: pure_result_def)
next
  case (Cons n ns)
  have rest: "set ns \<subseteq> set (wg_nodes g)" "distinct (map wn_id ns)" "\<forall>n \<in> set ns. node_free (co_projection c) g n"
    using Cons.prems by simp_all
  consider (fail) err where "match_worker None g n (co_projection c) time = Inl err"
    | (none) "match_worker None g n (co_projection c) time = Inr None"
    | (some) m where "match_worker None g n (co_projection c) time = Inr (Some m)"
    by (cases "match_worker None g n (co_projection c) time") auto
  then show ?case
  proof cases
    case fail
    then show ?thesis
      using Cons.prems(1,7) by (auto simp: with_projection_def cbind_def pure_result_def)
  next
    case none
    then have "assign_nodes env now time g ns c = (r, c')"
      using Cons.prems(7) by (simp add: with_projection_def cbind_def pure_result_def)
    from Cons.IH [OF Cons.prems(1-3) rest this] show ?thesis .
  next
    case some
    obtain r1 c1 where g1: "grant_lease env now time g n m c = (r1, c1)" by fastforce
    have "n \<in> set (wg_nodes g)" "node_free (co_projection c) g n" using Cons.prems(4,6) by simp_all
    note gr = grant_lease_result [OF Cons.prems(1-3) this some g1]
    show ?thesis
    proof (cases r1)
      case (Inl err)
      then have "r = Inl err" "c' = c1"
        using some g1 Cons.prems(7) by (simp_all add: with_projection_def cbind_def pure_result_def)
      with gr show ?thesis by simp
    next
      case (Inr l)
      obtain r2 c2 where a2: "assign_nodes env now time g ns c1 = (r2, c2)" by fastforce
      have rc: "c' = c2" "\<And>ls. r = Inr ls \<Longrightarrow> \<exists>ls2. r2 = Inr ls2 \<and> ls = l # ls2"
        using some g1 Cons.prems(7) Inr a2
        by (auto simp: with_projection_def cbind_def pure_result_def split: sum.splits)
      have inv: "work_inv (co_projection c)" "work_inv (co_projection c1)"
        using Cons.prems(1) gr rebuilt_inv by (auto simp: open_memory_def follows_def)
      have st: "map_of (ws_graphs (co_projection c1)) (wg_id g) = Some g" "graph_is_active (co_projection c1) (wg_id g)"
        using gr Cons.prems(2,3) by (auto simp: with_lease_def graph_is_active_def)
      have "\<forall>n' \<in> set ns. node_free (co_projection c1) g n'"
      proof
        fix n' assume n': "n' \<in> set ns"
        then have ne: "wn_id n \<noteq> wn_id n'" using Cons.prems(5) by (metis distinct.simps(2) image_eqI list.set_map list.simps(9))
        have fr: "node_free (co_projection c) g n'" using rest(3) n' by blast
        from gr consider "co_projection c1 = co_projection c"
          | l where "wl_graph_id l = wg_id g" "wl_node_id l = wn_id n" "with_lease l (co_projection c) (co_projection c1)" by blast
        then show "node_free (co_projection c1) g n'"
        proof cases
          case 1 with fr show ?thesis by simp
        next
          case (2 l) with with_lease_free [OF inv 2(3) fr] ne show ?thesis by simp
        qed
      qed
      note ih = Cons.IH [OF gr [THEN conjunct1] st rest(1,2) this a2]
      have "logged_lease (ce_decoders env) c1 l" using gr Inr by blast
      moreover have "prefix (work_log c1) (work_log c2)" using ih by blast
      ultimately have "logged_lease (ce_decoders env) c2 l" by (rule logged_lease_later)
      with ih gr rc Inr show ?thesis by (auto intro: prefix_order.trans)
    qed
  qed
qed


lemma frontier_nodes:
  assumes "derive_frontier g s coverage = Inr f" "well_planned g"
  shows "distinct (map wn_id (fr_ready f))"
proof (cases "graph_is_active s (wg_id g)")
  case True
  then obtain ord where "classify_nodes coverage ord s g (wg_nodes g) \<lparr>fr_graph_id = wg_id g, fr_ready = [],
       fr_dependency_blocked = [], fr_epistemic_blocked = [], fr_leased = [], fr_completed = [],
       fr_invalidated = False\<rparr> = Inr f"
    using assms(1) by (auto simp: derive_frontier_def Let_def split: option.splits)
  from classify_nodes_ready [OF this] assms(2) show ?thesis
    by (simp add: well_planned_def Let_def distinct_map_filter)
next
  case False
  with assms show ?thesis by (auto simp: derive_frontier_def Let_def)
qed

lemma current_graph_result:
  assumes "over_memory b reg env" "follows b reg (ce_decoders env) c" "current_graph env i c = (Inr g, c1)"
  shows "c1 = c \<and> map_of (ws_graphs (co_projection c)) (wg_id g) = Some g"
proof -
  have g: "c1 = c" "latest_graph (co_projection c) i = Some g"
    using assms(3) follows_reload [OF assms(1,2)]
    by (auto simp: current_graph_def cbind_def with_projection_def failing_def pure_result_def split: option.splits)
  then obtain j where j: "map_of (ws_graphs (co_projection c)) j = Some g"
    by (auto simp: latest_graph_def split: option.splits)
  moreover have "work_inv (co_projection c)" using assms(2) rebuilt_inv by (auto simp: follows_def)
  ultimately show ?thesis using g by (auto simp: work_inv_def control_inv_def)
qed

lemma assign_ready_result:
  assumes "open_memory b env c" "assign_ready env now time coverage i c = (r, c')"
  shows "open_memory b env c' \<and> prefix (work_log c) (work_log c') \<and>
    (\<forall>ls. r = Inr ls \<longrightarrow> list_all (logged_lease (ce_decoders env) c') ls)"
proof -
  have mem: "over_memory b empty_registry env" and fol: "follows b empty_registry (ce_decoders env) c"
    using assms(1) by (simp_all add: open_memory_def)
  show ?thesis
  proof (cases "current_graph env i c")
    case (Pair r1 c1)
    show ?thesis
    proof (cases r1)
      case (Inl err)
      have "c1 = c"
        using Pair follows_reload [OF mem fol]
        by (auto simp: current_graph_def cbind_def with_projection_def failing_def pure_result_def split: option.splits)
      then have "c' = c \<and> r = Inl err"
        using assms(2) Pair Inl by (simp add: assign_ready_def cbind_def)
      then show ?thesis using assms(1) by simp
    next
      case (Inr g)
      note g = current_graph_result [OF mem fol Pair [unfolded Inr]]
      show ?thesis
      proof (cases "derive_frontier g (co_projection c) coverage")
        case (Inl err)
        then have "c' = c \<and> r = Inl err"
          using assms(2) Pair g \<open>r1 = Inr g\<close>
          by (simp add: assign_ready_def cbind_def with_projection_def pure_result_def)
        then show ?thesis using assms(1) by simp
      next
        case (Inr f)
        have inv: "work_inv (co_projection c)" using fol rebuilt_inv by (auto simp: follows_def)
        then have wp: "well_planned g" using g by (auto simp: work_inv_def control_inv_def)
        note fr = frontier_ready [OF Inr]
        have "assign_nodes env now time g (fr_ready f) c = (r, c')"
          using assms(2) Pair g \<open>r1 = Inr g\<close> Inr
          by (simp add: assign_ready_def cbind_def with_projection_def pure_result_def)
        moreover have "graph_is_active (co_projection c) (wg_id g)" if "fr_ready f \<noteq> []"
          using fr that by (meson hd_in_set)
        moreover have "set (fr_ready f) \<subseteq> set (wg_nodes g)" "\<forall>n \<in> set (fr_ready f). node_free (co_projection c) g n"
          using fr by blast+
        ultimately show ?thesis
          using assign_nodes_result [OF assms(1) _ _ _ frontier_nodes [OF Inr wp]] g assms(1)
          by (cases "fr_ready f = []") (auto simp: pure_result_def)
      qed
    qed
  qed
qed



lemma reload_first:
  assumes "reload env c = (Inr u, c1)" "reload env c1 = (Inr u, c1)"
  shows "cbind (reload env) f c = cbind (reload env) f c1"
  using assms by (simp add: cbind_def)

lemma assign_ready_reloaded:
  assumes "reload env c = (Inr (), c1)" "reload env c1 = (Inr (), c1)"
  shows "assign_ready env now time coverage i c = assign_ready env now time coverage i c1"
proof -
  have "current_graph env i c = current_graph env i c1"
    unfolding current_graph_def by (rule reload_first [OF assms])
  then show ?thesis by (simp add: assign_ready_def cbind_def)
qed

lemma rebuilt_reload:
  assumes "over_memory b reg env" "running b reg (co_kernel c)" "work_rebuild (ce_decoders env) (work_log c) None = Inr s"
  shows "reload env c = (Inr (), c\<lparr>co_projection := s\<rparr>)"
proof -
  have "work_replay (ce_decoders env) empty_work (work_log c) = (Inr (), s)"
    using assms(3) by (simp add: work_rebuild_all work_replay_ok)
  then show ?thesis by (simp add: reload_mem [OF assms(1,2)])
qed

lemma reload_fails:
  assumes "over_memory b reg env" "running b reg (co_kernel c)" "work_rebuild (ce_decoders env) (work_log c) None = Inl err"
  shows "fst (reload env c) = Inl err"
proof -
  have "fst (work_replay (ce_decoders env) empty_work (work_log c)) = Inl err"
    using assms(3) by (simp add: work_rebuild_all work_replay_error)
  then show ?thesis
    by (cases "work_replay (ce_decoders env) empty_work (work_log c)") (simp add: reload_mem [OF assms(1,2)])
qed

lemma commands_reload:
  assumes "fst (reload env c) = Inl err"
  shows "fst (run_command env t x c) \<noteq> Inr ()"
proof -
  have no: "fst (cbind (reload env) f c) = Inl err" for f :: "unit \<Rightarrow> (_, 'y) command"
    using assms by (auto simp: cbind_def split: prod.splits sum.splits)
  have no2: "fst (cbind m g c) = Inl e" if "fst (m c) = Inl e" for m :: "(_, 'y) command" and g :: "'y \<Rightarrow> (_, 'z) command" and e
    using that by (auto simp: cbind_def split: prod.splits sum.splits)
  have ig: "fst (ignored m c) \<noteq> Inr ()" if "fst (m c) = Inl e" for m :: "(_, 'y) command" and e
    using that by (auto simp: ignored_def cbind_def split: prod.splits sum.splits)
  note start = record_with_def request_plan_def current_graph_def complete_work_def recover_expired_def invalidate_for_def
  show ?thesis
  proof (cases x)
    case (Record_competence estimate)
    show ?thesis
      by (cases "ce_basis estimate = Seeded")
        (auto simp: Record_competence record_competence_def record_with_def pure_result_def intro!: ig no)
  qed (auto simp: record_work_order_def record_presence_def record_manifest_def plan_def frontier_def assign_ready_def start
      intro!: ig no no2 assms)
qed

text \<open>
  Assigning ready work never puts an event into the log that the projection rejects. From any running
  kernel whose log rebuilds, \<open>assign_ready\<close> only appends events with which the log still rebuilds, whether it
  returns or raises half way, and every lease it returns is decoded from a logged event.
\<close>

theorem assign_ready_keeps_history:
  assumes "over_memory b empty_registry env" "running b empty_registry (co_kernel c)" "\<not> eb_closed (kn_bus (co_kernel c))"
    and "work_rebuild (ce_decoders env) (work_log c) None = Inr s"
    and "assign_ready env now time coverage i c = (r, c')"
  shows "work_rebuild (ce_decoders env) (work_log c') None = Inr (co_projection c') \<and> prefix (work_log c) (work_log c') \<and>
    (\<forall>ls. r = Inr ls \<longrightarrow> list_all (logged_lease (ce_decoders env) c') ls)"
proof -
  let ?c = "c\<lparr>co_projection := s\<rparr>"
  have rel: "reload env c = (Inr (), ?c)" by (rule rebuilt_reload [OF assms(1,2,4)])
  have om: "open_memory b env ?c"
    using assms(1-4) by (simp add: open_memory_def follows_def)
  then have "reload env ?c = (Inr (), ?c)"
    using follows_reload [OF assms(1)] by (simp add: open_memory_def)
  with rel assms(5) have "assign_ready env now time coverage i ?c = (r, c')"
    using assign_ready_reloaded by metis
  from assign_ready_result [OF om this] show ?thesis by (simp add: open_memory_def follows_def)
qed

theorem assign_ready_keeps_history_witness:
  "prefix (work_log demo_coordinator)
     (work_log (snd (assign_ready demo_env (Aware 20) (Aware 20) None ''work-order:xy'' demo_coordinator)))"
  using assign_ready_keeps_history [OF demo_coordinator_runs prod.collapse [symmetric]] by blast

lemma late_presence_fold:
  assumes "work_rebuild dec (work_log c) None = Inr s" "numbered (work_log c)" "check_presence a = Inr ()"
    and "presence_to_event (dec_builtins dec) a source = Inr e" "ev_id e \<notin> ev_id ` set (work_log c)"
    and "map_of (ws_presence s) (ag_agent_id a) = Some old" "dt_before (ag_observed_at a) (ag_observed_at old)"
  shows "work_fold dec s (with_sequence e (int (length (work_log c)) + 1)) = Inl (ValueError ''agent presence regressed'')"
proof -
  let ?n = "int (length (work_log c)) + 1"
  have "ws_last_sequence s < ?n" using rebuilt_cursor [OF assms(1,2)] by simp
  moreover have "map_of (ws_events s) (ev_id e) = None"
    using rebuilt_recorded [OF assms(1)] assms(5) by auto
  moreover have "presence_from_event (dec_builtins dec) (with_sequence e ?n) = Inr a"
    by (rule presence_event_round_trip [OF assms(3,4)])
  moreover have "ev_type e = AGENT_PRESENCE_RECORDED_EVENT"
    using assms(4) by (auto simp: presence_to_event_def rbind_Inr_iff dest: make_event_fields)
  ultimately show ?thesis
    using assms(6,7)
    by (simp add: work_fold_def work_apply_def handle_work_event_def work_event_types apply_presence_def)
qed




text \<open>A log with one presence report, and a digest that shows when a report was observed.\<close>

definition timed_decoders :: decoders where
  "timed_decoders = demo_decoders\<lparr>dec_builtins := demo_builtins\<lparr>bi_sha := (\<lambda>d. case jget d ''observed_at'' of
     JTime t \<Rightarrow> str_int (instant t) | _ \<Rightarrow> [])\<rparr>\<rparr>"

definition seen_at :: "int \<Rightarrow> agent_presence" where
  "seen_at t = (demo_presence ''a1'')\<lparr>ag_observed_at := Aware t\<rparr>"

definition seen_event :: "int \<Rightarrow> jobject event" where
  "seen_event t = hd (rights [presence_to_event (dec_builtins timed_decoders) (seen_at t) ''d''])"

definition timed_env :: "jobject mem_store coordinator_env" where
  "timed_env = demo_env\<lparr>ce_decoders := timed_decoders\<rparr>"

definition seen_state :: work_state where
  "seen_state = empty_work\<lparr>ws_events := [(ev_id (seen_event 9), with_sequence (seen_event 9) 1)],
     ws_last_sequence := 1, ws_presence := [(''a1'', seen_at 9)]\<rparr>"

definition seen_kernel :: "jobject mem_store kernel" where
  "seen_kernel = snd (kernel_start (mem_env demo_builtins empty_registry) (Aware 0) True
     (new_kernel (mem_of [with_sequence (seen_event 9) 1]) (Aware 0)))"

definition seen_coordinator :: "jobject mem_store coordinator" where
  "seen_coordinator = \<lparr>co_kernel = seen_kernel, co_projection = empty_work\<rparr>"

lemma seen_facts:
  "mem_inv (mem_of [with_sequence (seen_event 9) 1])" "\<not> eb_closed (kn_bus seen_kernel)"
  "fst (kernel_start (mem_env demo_builtins empty_registry) (Aware 0) True
     (new_kernel (mem_of [with_sequence (seen_event 9) 1]) (Aware 0))) = Inr ()"
  "work_rebuild timed_decoders [with_sequence (seen_event 9) 1] None = Inr seen_state"
  "check_presence (seen_at 5) = Inr ()"
  "presence_to_event (dec_builtins timed_decoders) (seen_at 5) ''d'' = Inr (seen_event 5)"
  "ev_id (seen_event 5) \<notin> ev_id ` set [with_sequence (seen_event 9) 1]"
  by code_simp+


end
