(* ===== verification/Delivery.thy ===== *)
theory Delivery
  imports StoreAgreement Kernel
begin

section \<open>Delivery: broker, outbox publisher and inbox consumer\<close>

text \<open>
  Models \<^verbatim>\<open>src/noema/delivery.py\<close> over the SQLite store: the in-memory broker, one pass of the publisher over
  the claimed outbox rows, and the consumer's treatment of one message. The bytes of a message are the JSON
  object they decode to, or the exception that \<open>json.loads\<close> raises on them. The queues of the broker are
  unbounded, and a negative acknowledgement puts the message back at the end of its queue at once. The clock
  readings, the handler and the broker that a publisher talks to are arguments.
\<close>

subsection \<open>The in-memory broker\<close>

record message =
  bm_id :: string
  bm_subject :: string
  bm_payload :: "json result"
  bm_attempts :: int

type_synonym message_queue = "message option list"  \<comment> \<open>\<open>None\<close> ends a subscription\<close>

record broker =
  br_fail_publishes :: int
  br_published :: "(string \<times> string) list"
  br_subscriptions :: "((string \<times> string) \<times> message_queue) list"
  br_closed :: bool

definition new_broker :: "int \<Rightarrow> broker" where
  "new_broker fail_publishes = \<lparr>br_fail_publishes = fail_publishes, br_published = [], br_subscriptions = [],
     br_closed = False\<rparr>"

definition subject_matches :: "string \<Rightarrow> string \<Rightarrow> bool" where
  "subject_matches subject pattern = glob (map (\<lambda>c. if c = CHR ''>'' then CHR ''*'' else c) pattern) subject"

definition deliver :: "string \<Rightarrow> message \<Rightarrow> ((string \<times> string) \<times> message_queue) list
    \<Rightarrow> ((string \<times> string) \<times> message_queue) list" where
  "deliver subject m subs =
     map (\<lambda>((pattern, durable), q). ((pattern, durable), if subject_matches subject pattern then q @ [Some m] else q)) subs"

definition broker_publish :: "broker \<Rightarrow> string \<Rightarrow> json result \<Rightarrow> string \<Rightarrow> unit result \<times> broker" where
  "broker_publish br subject payload message_id =
     (if br_closed br then (Inl (RuntimeError ''broker is closed''), br)
      else if 0 < br_fail_publishes br
      then (Inl (ConnectionError ''injected broker publish failure''),
            br\<lparr>br_fail_publishes := br_fail_publishes br - 1\<rparr>)
      else (Inr (), br\<lparr>br_published := br_published br @ [(subject, message_id)],
             br_subscriptions := deliver subject \<lparr>bm_id = message_id, bm_subject = subject, bm_payload = payload,
               bm_attempts = 1\<rparr> (br_subscriptions br)\<rparr>))"

definition broker_subscribe :: "broker \<Rightarrow> string \<Rightarrow> string \<Rightarrow> broker result" where
  "broker_subscribe br subject durable =
     (if br_closed br then Inl (RuntimeError ''broker is closed'')
      else if map_of (br_subscriptions br) (subject, durable) \<noteq> None
      then Inl (ValueError ''durable subscription already active'')
      else Inr (br\<lparr>br_subscriptions := AList.update (subject, durable) [] (br_subscriptions br)\<rparr>))"

text \<open>The subscriptions keep their queues, which end with \<open>None\<close>; no operation finds them any more.\<close>

definition broker_close :: "broker \<Rightarrow> broker" where
  "broker_close br = (if br_closed br then br
     else br\<lparr>br_subscriptions := map (\<lambda>(k, q). (k, q @ [None])) (br_subscriptions br), br_closed := True\<rparr>)"

definition nak :: "message \<Rightarrow> message" where
  "nak m = m\<lparr>bm_attempts := bm_attempts m + 1\<rparr>"

subsection \<open>The outbox publisher\<close>

record publisher =
  pb_worker_id :: string
  pb_batch_size :: int
  pb_lease :: int
  pb_poll_seconds :: pyfloat
  pb_max_backoff_seconds :: pyfloat

definition check_publisher :: "publisher \<Rightarrow> unit result" where
  "check_publisher p = raise_first
     [(pb_batch_size p \<le> 0 \<or> pb_lease p \<le> 0 \<or> pb_poll_seconds p \<le> 0,
       ValueError ''outbox publisher limits must be positive'')]"

type_synonym 'b publish = "'b \<Rightarrow> string \<Rightarrow> json result \<Rightarrow> string \<Rightarrow> unit result \<times> 'b"

text \<open>\<open>min(max_backoff_seconds, poll_seconds * (2 ** min(attempts, 12)))\<close>\<close>

definition retry_delay :: "publisher \<Rightarrow> outbox_record \<Rightarrow> int result" where
  "retry_delay p r = timedelta_of (py_min (pb_max_backoff_seconds p)
     (pb_poll_seconds p * Fin (2 ^ nat (min (or_attempts r) 12))))"

definition encoded :: "jobject event \<Rightarrow> json result" where
  "encoded e = Inr (JObj (dump_obj (event_to_dict e)))"

text \<open>The claimed records in turn; \<open>describe\<close> is \<open>repr\<close> of the exception.\<close>

fun publish_records ::
  "publisher \<Rightarrow> 'b publish \<Rightarrow> (py_error \<Rightarrow> string) \<Rightarrow> (outbox_record \<Rightarrow> datetime) \<Rightarrow> outbox_record list \<Rightarrow> nat
    \<Rightarrow> sql_db \<Rightarrow> 'b \<Rightarrow> nat result \<times> sql_db \<times> 'b" where
  "publish_records p publish describe clock [] count db br = (Inr count, db, br)"
| "publish_records p publish describe clock (r # rs) count db br =
     (case publish br (or_topic r) (encoded (or_event r)) (ev_id (or_event r)) of
        (Inl err, br1) \<Rightarrow>
          (case retry_delay p r of
             Inl e \<Rightarrow> (Inl e, db, br1)
           | Inr d \<Rightarrow> publish_records p publish describe clock rs count
               (snd (retry_outbox db (or_id r) (or_fencing_token r) (describe err) (dt_plus (clock r) d))) br1)
      | (Inr _, br1) \<Rightarrow>
          (let (held, db1) = complete_outbox (clock r) db (or_id r) (or_fencing_token r)
           in publish_records p publish describe clock rs (if held then count + 1 else count) db1 br1))"

definition run_once ::
  "builtins \<Rightarrow> string \<Rightarrow> publisher \<Rightarrow> 'b publish \<Rightarrow> (py_error \<Rightarrow> string) \<Rightarrow> datetime \<Rightarrow> (outbox_record \<Rightarrow> datetime)
    \<Rightarrow> sql_db \<Rightarrow> 'b \<Rightarrow> nat result \<times> sql_db \<times> 'b" where
  "run_once b fresh p publish describe now clock db br =
     (case claim_outbox b fresh now db (pb_worker_id p) (pb_batch_size p) (pb_lease p) of
        Inl err \<Rightarrow> (Inl err, db, br)
      | Inr (records, db1) \<Rightarrow> publish_records p publish describe clock records 0 db1 br)"

subsection \<open>The inbox consumer\<close>

record consumer =
  ic_subject :: string
  ic_consumer_id :: string
  ic_lease :: int
  ic_retry_seconds :: pyfloat

definition check_consumer :: "consumer \<Rightarrow> unit result" where
  "check_consumer c = raise_first [(ic_consumer_id c = [], ValueError ''consumer_id must be non-empty'')]"

definition consumer_start :: "consumer \<Rightarrow> broker \<Rightarrow> broker result" where
  "consumer_start c br = broker_subscribe br (ic_subject c) (ic_consumer_id c)"

type_synonym 'w handler = "jobject event \<Rightarrow> 'w \<Rightarrow> unit result \<times> 'w"

definition handle_message :: "builtins \<Rightarrow> string \<Rightarrow> datetime \<Rightarrow> 'w handler \<Rightarrow> message \<Rightarrow> 'w \<Rightarrow> unit result \<times> 'w" where
  "handle_message b fresh now handler m w =
     (case rbind (bm_payload m) (\<lambda>payload. case payload of
          JObj d \<Rightarrow> event_from_dict b fresh now d
        | _ \<Rightarrow> Inl (ValueError ''broker event payload must be a JSON object'')) of
        Inl err \<Rightarrow> (Inl err, w)
      | Inr e \<Rightarrow> handler e w)"

text \<open>One message; an empty queue is a fetch that timed out.\<close>

definition process_once ::
  "builtins \<Rightarrow> string \<Rightarrow> consumer \<Rightarrow> 'w handler \<Rightarrow> (py_error \<Rightarrow> string) \<Rightarrow> datetime \<Rightarrow> sql_db \<Rightarrow> message_queue \<Rightarrow> 'w
    \<Rightarrow> bool result \<times> sql_db \<times> message_queue \<times> 'w" where
  "process_once b fresh c handler describe now db queue w =
     (case queue of
        [] \<Rightarrow> (Inr False, db, [], w)
      | None # q \<Rightarrow> (Inr False, db, q, w)
      | Some m # q \<Rightarrow>
          (case claim_inbox now db (bm_id m) (ic_consumer_id c) (ic_lease c) of
             (Claim_Completed, db1) \<Rightarrow> (Inr True, db1, q, w)
           | (Claim_Busy, db1) \<Rightarrow> (Inr False, db1, q @ [Some (nak m)], w)
           | (Acquired token, db1) \<Rightarrow>
               (case handle_message b fresh now handler m w of
                  (Inl err, w1) \<Rightarrow>
                    (case timedelta_of (ic_retry_seconds c) of
                       Inl e \<Rightarrow> (Inl e, db1, q, w1)
                     | Inr d \<Rightarrow> (Inr False,
                         snd (retry_inbox db1 (bm_id m) (ic_consumer_id c) token (describe err) (dt_plus now d)),
                         q @ [Some (nak m)], w1))
                | (Inr _, w1) \<Rightarrow>
                    (let (done, db2) = complete_inbox now db1 (bm_id m) (ic_consumer_id c) token
                     in (Inr done, db2, if done then q else q @ [Some (nak m)], w1)))))"

subsection \<open>A producer, the broker and a consumer\<close>

text \<open>
  The producer commits events with outbox rows to its store and runs its publisher; the consumer's runtime has a
  store of its own for its inbox. \<open>sy_handled\<close> records the messages whose handler returned.
\<close>

record 'w delivery_system =
  sy_store :: sql_db
  sy_broker :: broker
  sy_inbox :: sql_db
  sy_world :: 'w
  sy_handled :: "string list"

datatype delivery_step =
    Produce "jobject event" string datetime
  | Publish_batch publisher datetime "outbox_record \<Rightarrow> datetime"
  | Consume datetime

definition queue_of :: "consumer \<Rightarrow> broker \<Rightarrow> message_queue" where
  "queue_of c br = (case map_of (br_subscriptions br) (ic_subject c, ic_consumer_id c) of None \<Rightarrow> [] | Some q \<Rightarrow> q)"

definition handled_message ::
  "builtins \<Rightarrow> string \<Rightarrow> consumer \<Rightarrow> 'w handler \<Rightarrow> datetime \<Rightarrow> sql_db \<Rightarrow> message_queue \<Rightarrow> 'w \<Rightarrow> string list" where
  "handled_message b fresh c handler now db queue w = (case queue of
     Some m # _ \<Rightarrow>
       (case fst (claim_inbox now db (bm_id m) (ic_consumer_id c) (ic_lease c)) of
          Acquired _ \<Rightarrow> if fst (handle_message b fresh now handler m w) = Inr () then [bm_id m] else []
        | _ \<Rightarrow> [])
   | _ \<Rightarrow> [])"

definition delivery_run_step ::
  "builtins \<Rightarrow> string \<Rightarrow> consumer \<Rightarrow> 'w handler \<Rightarrow> (py_error \<Rightarrow> string) \<Rightarrow> 'w delivery_system \<Rightarrow> delivery_step
    \<Rightarrow> 'w delivery_system" where
  "delivery_run_step b fresh c handler describe sy step = (case step of
     Produce e prefix now \<Rightarrow>
       (case append_with_outbox b fresh now (sy_store sy) e (event_topic prefix e) of
          Inl err \<Rightarrow> sy
        | Inr (stored, db) \<Rightarrow> sy\<lparr>sy_store := db\<rparr>)
   | Publish_batch p now clock \<Rightarrow>
       (let (r, db, br) = run_once b fresh p broker_publish describe now clock (sy_store sy) (sy_broker sy)
        in sy\<lparr>sy_store := db, sy_broker := br\<rparr>)
   | Consume now \<Rightarrow>
       (let queue = queue_of c (sy_broker sy);
            (r, db, q, w) = process_once b fresh c handler describe now (sy_inbox sy) queue (sy_world sy)
        in sy\<lparr>sy_inbox := db, sy_world := w,
              sy_broker := (sy_broker sy)\<lparr>br_subscriptions :=
                AList.update (ic_subject c, ic_consumer_id c) q (br_subscriptions (sy_broker sy))\<rparr>,
              sy_handled := sy_handled sy @ handled_message b fresh c handler now (sy_inbox sy) queue (sy_world sy)\<rparr>))"

definition delivery_run ::
  "builtins \<Rightarrow> string \<Rightarrow> consumer \<Rightarrow> 'w handler \<Rightarrow> (py_error \<Rightarrow> string) \<Rightarrow> 'w delivery_system \<Rightarrow> delivery_step list
    \<Rightarrow> 'w delivery_system" where
  "delivery_run b fresh c handler describe = foldl (delivery_run_step b fresh c handler describe)"

end
