(* ===== verification/DeliveryProperties.thy ===== *)
theory DeliveryProperties
  imports Delivery
begin

section \<open>Nothing is lost, nothing is handled twice\<close>

text \<open>
  A producer with its outbox, the broker and a consumer with its inbox, run in any order of their steps: what
  the outbox marks as published the broker has accepted, and a message the consumer subscribes to stays in its
  queue until its handler returned, which happens once.
\<close>

subsection \<open>Rows keep what they carry\<close>

definition row_key :: "outbox_row \<Rightarrow> int \<times> string \<times> string" where
  "row_key r = (ob_id r, ob_topic r, ob_event_id r)"

lemma row_key_updates:
  "map row_key (db_outbox (snd (complete_outbox now db i t))) = map row_key (db_outbox db)"
  "map row_key (db_outbox (snd (retry_outbox db i t err avail))) = map row_key (db_outbox db)"
  by (auto simp: complete_outbox_def retry_outbox_def update_where_def row_key_def)

lemma row_key_claim:
  assumes "outbox_inv db" "claim_outbox b fresh now db w limit lease = Inr (rs, db')"
  shows "map row_key (db_outbox db') = map row_key (db_outbox db)"
    "map ob_published_at (db_outbox db') = map ob_published_at (db_outbox db)"
  using claim_outbox_rows(3) [OF assms] by (auto simp: row_key_def leased_row_def)

definition carries :: "sql_db \<Rightarrow> outbox_record \<Rightarrow> bool" where
  "carries db r \<longleftrightarrow> (or_id r, or_topic r, ev_id (or_event r)) \<in> row_key ` set (db_outbox db)"

lemma carries_same: "map row_key (db_outbox db') = map row_key (db_outbox db) \<Longrightarrow> carries db' r = carries db r"
  unfolding carries_def by (metis set_map)

lemma carries_claimed:
  assumes "tables_inv db" "claim_outbox b fresh now db w limit lease = Inr (rs, db')" "r \<in> set rs"
  shows "carries db' r"
proof -
  obtain row where row: "row \<in> set (claimed_rows now limit db)" "or_id r = ob_id row" "or_topic r = ob_topic row"
      "ev_id (or_event r) = ob_event_id row"
    using claimed_record_logged [OF assms] by blast
  then have "row_key row = (or_id r, or_topic r, ev_id (or_event r))" by (simp add: row_key_def)
  then have "carries db r" using claimed_rows_ready [OF row(1)] unfolding carries_def by (metis image_eqI)
  moreover have "outbox_inv db" using assms(1) by (simp add: tables_inv_def)
  ultimately show ?thesis using carries_same [OF row_key_claim(1) [OF _ assms(2)]] by blast
qed

subsection \<open>Publishing\<close>

text \<open>The broker accepted the message, and a subscriber to its topic still has it or is done with it.\<close>

definition waiting :: "message_queue \<Rightarrow> string \<Rightarrow> bool" where
  "waiting q i \<longleftrightarrow> (\<exists>m. Some m \<in> set q \<and> bm_id m = i)"

definition shipped :: "consumer \<Rightarrow> broker \<Rightarrow> sql_db \<Rightarrow> string \<Rightarrow> string \<Rightarrow> bool" where
  "shipped c br inbox topic i \<longleftrightarrow> (topic, i) \<in> set (br_published br) \<and>
     (subject_matches topic (ic_subject c) \<longrightarrow> waiting (queue_of c br) i \<or> inbox_done inbox (i, ic_consumer_id c))"

definition outbox_shipped :: "consumer \<Rightarrow> broker \<Rightarrow> sql_db \<Rightarrow> sql_db \<Rightarrow> bool" where
  "outbox_shipped c br inbox db \<longleftrightarrow>
     (\<forall>r \<in> set (db_outbox db). ob_published_at r \<noteq> None \<longrightarrow> shipped c br inbox (ob_topic r) (ob_event_id r))"

definition attached :: "consumer \<Rightarrow> broker \<Rightarrow> bool" where
  "attached c br \<longleftrightarrow> map_of (br_subscriptions br) (ic_subject c, ic_consumer_id c) \<noteq> None"

lemma map_of_deliver:
  "map_of (deliver subject m subs) (pattern, durable) =
    map_option (\<lambda>q. if subject_matches subject pattern then q @ [Some m] else q) (map_of subs (pattern, durable))"
  by (induction subs) (auto simp: deliver_def)

lemma publish_grows:
  assumes "broker_publish br subject payload i = (r, br')"
  shows "set (br_published br) \<subseteq> set (br_published br')" "set (queue_of c br) \<subseteq> set (queue_of c br')"
    "attached c br' = attached c br"
proof -
  show "set (br_published br) \<subseteq> set (br_published br')"
    using assms by (auto simp: broker_publish_def split: if_splits)
  show "attached c br' = attached c br"
    using assms by (auto simp: broker_publish_def attached_def map_of_deliver split: if_splits)
  show "set (queue_of c br) \<subseteq> set (queue_of c br')"
    using assms by (cases "map_of (br_subscriptions br) (ic_subject c, ic_consumer_id c)")
      (auto simp: broker_publish_def queue_of_def map_of_deliver split: if_splits)
qed

lemma shipped_mono:
  assumes "shipped c br inbox topic i" "set (br_published br) \<subseteq> set (br_published br')"
    and "set (queue_of c br) \<subseteq> set (queue_of c br')"
  shows "shipped c br' inbox topic i"
  using assms unfolding shipped_def waiting_def by blast

lemma publish_ships:
  assumes "broker_publish br subject payload i = (Inr u, br')" "attached c br"
  shows "shipped c br' inbox subject i"
  using assms by (auto simp: broker_publish_def shipped_def waiting_def queue_of_def attached_def map_of_deliver
      split: if_splits)

lemma outbox_shipped_publish:
  assumes "outbox_shipped c br inbox db" "broker_publish br subject payload i = (r, br')"
  shows "outbox_shipped c br' inbox db"
  using assms(1) shipped_mono publish_grows(1,2) [OF assms(2)] unfolding outbox_shipped_def by blast

lemma outbox_shipped_retry:
  assumes "outbox_shipped c br inbox db"
  shows "outbox_shipped c br inbox (snd (retry_outbox db i t err avail))"
  using assms by (auto simp: outbox_shipped_def retry_outbox_def update_where_def)

lemma outbox_shipped_complete:
  assumes "outbox_shipped c br inbox db" "outbox_inv db" "carries db rec"
    and "shipped c br inbox (or_topic rec) (ev_id (or_event rec))"
  shows "outbox_shipped c br inbox (snd (complete_outbox now db (or_id rec) t))"
  unfolding outbox_shipped_def
proof (intro ballI impI)
  fix r assume r: "r \<in> set (db_outbox (snd (complete_outbox now db (or_id rec) t)))" "ob_published_at r \<noteq> None"
  then obtain r0 where r0: "r0 \<in> set (db_outbox db)" "ob_topic r = ob_topic r0" "ob_event_id r = ob_event_id r0"
      "ob_published_at r0 \<noteq> None \<or> ob_id r0 = or_id rec"
    by (auto simp: complete_outbox_def update_where_def outbox_held_def split: if_splits)
  show "shipped c br inbox (ob_topic r) (ob_event_id r)"
  proof (cases "ob_id r0 = or_id rec")
    case True
    obtain r1 where r1: "r1 \<in> set (db_outbox db)" "row_key r1 = (or_id rec, or_topic rec, ev_id (or_event rec))"
      using assms(3) by (auto simp: carries_def)
    have "distinct (map ob_id (db_outbox db))" using assms(2) by (simp add: outbox_inv_def)
    then have "r1 = r0"
      using r0(1) r1 True by (auto simp: row_key_def distinct_map inj_on_def)
    with r1(2) assms(4) r0(2,3) show ?thesis by (simp add: row_key_def)
  next
    case False
    with r0 assms(1) show ?thesis by (simp add: outbox_shipped_def)
  qed
qed

lemma publish_records_ships:
  assumes "publish_records p broker_publish describe clock rs n db br = (r, db', br')"
    and "tables_inv db" "attached c br" "outbox_shipped c br inbox db" "\<forall>rec \<in> set rs. carries db rec"
  shows "tables_inv db' \<and> attached c br' \<and> outbox_shipped c br' inbox db' \<and> set (queue_of c br) \<subseteq> set (queue_of c br')"
  using assms
proof (induction rs arbitrary: n db br)
  case (Cons rec rs)
  obtain q br1 where q: "broker_publish br (or_topic rec) (encoded (or_event rec)) (ev_id (or_event rec)) = (q, br1)"
    by fastforce
  note grow = publish_grows [OF q]
  have conn: "attached c br1" using grow(3) Cons.prems(3) by blast
  have ship: "outbox_shipped c br1 inbox db" by (rule outbox_shipped_publish [OF Cons.prems(4) q])
  have inv: "outbox_inv db" using Cons.prems(2) by (simp add: tables_inv_def)
  show ?case
  proof (cases q)
    case (Inl err)
    show ?thesis
    proof (cases "retry_delay p rec")
      case (Inl e)
      then show ?thesis using Cons.prems q \<open>q = Inl err\<close> conn ship grow(2) by auto
    next
      case (Inr d)
      let ?db = "snd (retry_outbox db (or_id rec) (or_fencing_token rec) (describe err) (dt_plus (clock rec) d))"
      have "publish_records p broker_publish describe clock rs n ?db br1 = (r, db', br')"
        using Cons.prems(1) q \<open>q = Inl err\<close> Inr by simp
      moreover have "tables_inv ?db"
        using tables_inv_step [OF Cons.prems(2) step_retry_outbox] by (metis prod.collapse)
      moreover have "\<forall>rec \<in> set rs. carries ?db rec"
        using Cons.prems(5) carries_same [OF row_key_updates(2)] by simp
      ultimately show ?thesis
        using Cons.IH conn outbox_shipped_retry [OF ship] grow(2) by blast
    qed
  next
    case (Inr u)
    let ?db = "snd (complete_outbox (clock rec) db (or_id rec) (or_fencing_token rec))"
    obtain held db1 where cdb: "complete_outbox (clock rec) db (or_id rec) (or_fencing_token rec) = (held, db1)" by fastforce
    then have db1: "?db = db1" by simp
    have "publish_records p broker_publish describe clock rs (if held then n + 1 else n) db1 br1 = (r, db', br')"
      using Cons.prems(1) q Inr cdb by simp
    moreover have "tables_inv db1" by (rule tables_inv_step [OF Cons.prems(2) step_complete_outbox [OF cdb]])
    moreover have "\<forall>rec \<in> set rs. carries db1 rec"
      using Cons.prems(5) carries_same [OF row_key_updates(1) [of "clock rec" db "or_id rec" "or_fencing_token rec"]]
      by (simp add: db1)
    moreover have "outbox_shipped c br1 inbox db1"
      using outbox_shipped_complete [OF ship inv _ publish_ships [OF q [unfolded Inr] Cons.prems(3)]] Cons.prems(5) db1
      by auto
    ultimately show ?thesis using Cons.IH conn grow(2) by blast
  qed
qed auto

lemma publish_records_published:
  "publish_records p broker_publish describe clock rs n db br = (r, db', br') \<Longrightarrow>
    set (br_published br) \<subseteq> set (br_published br')"
proof (induction rs arbitrary: n db br)
  case (Cons rec rs)
  obtain q br1 where q: "broker_publish br (or_topic rec) (encoded (or_event rec)) (ev_id (or_event rec)) = (q, br1)"
    by fastforce
  have "set (br_published br1) \<subseteq> set (br_published br')"
    using Cons.prems q by (cases q) (auto split: sum.splits prod.splits dest: Cons.IH)
  then show ?case using publish_grows(1) [OF q] by blast
qed simp

lemma run_once_published:
  "run_once b fresh p broker_publish describe now clock db br = (r, db', br') \<Longrightarrow>
    set (br_published br) \<subseteq> set (br_published br')"
  by (auto simp: run_once_def split: sum.splits dest: publish_records_published)

lemma run_once_ships:
  assumes "run_once b fresh p broker_publish describe now clock db br = (r, db', br')"
    and "tables_inv db" "attached c br" "outbox_shipped c br inbox db"
  shows "tables_inv db' \<and> attached c br' \<and> outbox_shipped c br' inbox db' \<and> set (queue_of c br) \<subseteq> set (queue_of c br')"
proof (cases "claim_outbox b fresh now db (pb_worker_id p) (pb_batch_size p) (pb_lease p)")
  case (Inl err)
  with assms show ?thesis by (simp add: run_once_def)
next
  case (Inr x)
  then obtain rs db1 where cl: "claim_outbox b fresh now db (pb_worker_id p) (pb_batch_size p) (pb_lease p) = Inr (rs, db1)"
    by (cases x) auto
  have inv: "outbox_inv db" using assms(2) by (simp add: tables_inv_def)
  have "publish_records p broker_publish describe clock rs 0 db1 br = (r, db', br')"
    using assms(1) cl by (simp add: run_once_def)
  moreover have "tables_inv db1" by (rule tables_inv_step [OF assms(2) step_claim_outbox [OF cl]])
  moreover have "outbox_shipped c br inbox db1"
  proof -
    have "\<exists>r0 \<in> set (db_outbox db). ob_topic r = ob_topic r0 \<and> ob_event_id r = ob_event_id r0 \<and> ob_published_at r = ob_published_at r0"
      if "r \<in> set (db_outbox db1)" for r
      using that claim_outbox_rows(3) [OF inv cl] by (auto simp: leased_row_def split: if_splits)
    then show ?thesis
      using assms(4) unfolding outbox_shipped_def by metis
  qed
  moreover have "\<forall>rec \<in> set rs. carries db1 rec" using carries_claimed [OF assms(2) cl] by blast
  ultimately show ?thesis using publish_records_ships assms(3) by blast
qed

subsection \<open>Consuming\<close>

lemma claim_inbox_result:
  assumes "claim_inbox now db m c lease = (cl, db1)"
  obtains (completed) "cl = Claim_Completed" "db1 = db" "inbox_done db (m, c)"
    | (busy) "cl = Claim_Busy" "db1 = db" "\<not> inbox_done db (m, c)"
    | (acquired) row where "cl = Acquired (ib_fencing_token row)" "ib_status row = Processing"
        "db1 = db\<lparr>db_inbox := AList.update (m, c) row (db_inbox db)\<rparr>" "\<not> inbox_done db (m, c)"
proof (cases "map_of (db_inbox db) (m, c)")
  case None
  with assms show ?thesis by (intro acquired) (auto simp: claim_inbox_def inbox_done_def)
next
  case (Some row)
  show ?thesis
  proof (cases cl)
    case (Acquired t)
    with assms Some show ?thesis
      by (intro acquired) (auto simp: claim_inbox_def inbox_done_def Let_def split: if_splits)
  next
    case Claim_Completed
    with assms Some completed show ?thesis
      by (auto simp: claim_inbox_def inbox_done_def Let_def split: if_splits)
  next
    case Claim_Busy
    with assms Some busy show ?thesis
      by (auto simp: claim_inbox_def inbox_done_def Let_def split: if_splits)
  qed
qed

lemma inbox_done_update:
  "inbox_done (db\<lparr>db_inbox := AList.update key row (db_inbox db)\<rparr>) k \<longleftrightarrow>
    (if k = key then ib_status row = Completed else inbox_done db k)"
  by (simp add: inbox_done_def dict_simps)

lemma inbox_held_update:
  "ib_status row = Processing \<Longrightarrow>
    inbox_held (db\<lparr>db_inbox := AList.update key row tbl\<rparr>) key (ib_fencing_token row) = Some row"
  by (simp add: inbox_held_def dict_simps)

lemma inbox_done_finish:
  assumes "ib_status row = Processing"
  shows "complete_inbox now (db\<lparr>db_inbox := AList.update (m, c) row (db_inbox db)\<rparr>) m c (ib_fencing_token row) = (ok, db2)
      \<Longrightarrow> ok \<and> (inbox_done db2 k \<longleftrightarrow> k = (m, c) \<or> inbox_done db k)"
    and "retry_inbox (db\<lparr>db_inbox := AList.update (m, c) row (db_inbox db)\<rparr>) m c (ib_fencing_token row) err avail = (ok, db2)
      \<Longrightarrow> inbox_done db2 k \<longleftrightarrow> k \<noteq> (m, c) \<and> inbox_done db k"
  using inbox_held_update [OF assms, where key = "(m, c)" and tbl = "db_inbox db" and db = db]
  by (auto simp: complete_inbox_def retry_inbox_def inbox_done_update split: if_splits)

text \<open>What one pass does, given what the claim returned.\<close>

lemma process_once_unclaimed:
  assumes "process_once b fresh c handler describe now db q w = (r, db', q', w')"
    and "\<forall>m rest t db1. q = Some m # rest \<longrightarrow> claim_inbox now db (bm_id m) (ic_consumer_id c) (ic_lease c) \<noteq> (Acquired t, db1)"
  shows "db' = db" "handled_message b fresh c handler now db q w = []"
    "waiting q i \<Longrightarrow> waiting q' i \<or> inbox_done db (i, ic_consumer_id c)"
proof -
  have "db' = db \<and> handled_message b fresh c handler now db q w = []
    \<and> (waiting q i \<longrightarrow> waiting q' i \<or> inbox_done db (i, ic_consumer_id c))"
  proof (cases q)
    case Nil
    with assms(1) show ?thesis by (simp add: process_once_def handled_message_def waiting_def)
  next
    case (Cons x rest)
    show ?thesis
    proof (cases x)
      case None
      with Cons assms(1) show ?thesis by (simp add: process_once_def handled_message_def waiting_def)
    next
      case (Some m)
      obtain cl db1 where cl: "claim_inbox now db (bm_id m) (ic_consumer_id c) (ic_lease c) = (cl, db1)" by fastforce
      then show ?thesis
      proof (cases rule: claim_inbox_result)
        case completed
        with Cons Some cl assms(1) show ?thesis
          by (auto simp: process_once_def handled_message_def waiting_def)
      next
        case busy
        with Cons Some cl assms(1) show ?thesis
          by (auto simp: process_once_def handled_message_def waiting_def nak_def)
      next
        case (acquired row)
        with Cons Some cl assms(2) show ?thesis by blast
      qed
    qed
  qed
  then show "db' = db" "handled_message b fresh c handler now db q w = []"
    "waiting q i \<Longrightarrow> waiting q' i \<or> inbox_done db (i, ic_consumer_id c)" by blast+
qed

lemma process_once_claimed:
  assumes "process_once b fresh c handler describe now db (Some m # rest) w = (r, db', q', w')"
    and "claim_inbox now db (bm_id m) (ic_consumer_id c) (ic_lease c) = (Acquired t, db1)"
    and "handle_message b fresh now handler m w = (res, w1)"
  shows "res = Inl err \<Longrightarrow> timedelta_of (ic_retry_seconds c) = Inr d \<Longrightarrow>
      db' = snd (retry_inbox db1 (bm_id m) (ic_consumer_id c) t (describe err) (dt_plus now d)) \<and> q' = rest @ [Some (nak m)]"
    and "res = Inr u \<Longrightarrow> complete_inbox now db1 (bm_id m) (ic_consumer_id c) t = (True, db2) \<Longrightarrow> db' = db2 \<and> q' = rest"
    and "handled_message b fresh c handler now db (Some m # rest) w = (if res = Inr () then [bm_id m] else [])"
  using assms by (simp_all add: process_once_def handled_message_def)

definition accounts :: "consumer \<Rightarrow> string list \<Rightarrow> sql_db \<Rightarrow> message_queue \<Rightarrow> sql_db \<Rightarrow> message_queue \<Rightarrow> bool" where
  "accounts c hs db q db' q' \<longleftrightarrow>
     (\<forall>k. inbox_done db' k \<longleftrightarrow> inbox_done db k \<or> snd k = ic_consumer_id c \<and> fst k \<in> set hs) \<and>
     (\<forall>i \<in> set hs. \<not> inbox_done db (i, ic_consumer_id c)) \<and> distinct hs \<and>
     (\<forall>i. waiting q i \<longrightarrow> waiting q' i \<or> inbox_done db' (i, ic_consumer_id c))"

text \<open>No message appears from nowhere.\<close>

lemma waiting_simps:
  "\<not> waiting [] i" "waiting (None # q) i \<longleftrightarrow> waiting q i" "waiting (Some m # q) i \<longleftrightarrow> bm_id m = i \<or> waiting q i"
  "waiting (q @ q') i \<longleftrightarrow> waiting q i \<or> waiting q' i" "bm_id (nak m) = bm_id m"
  by (auto simp: waiting_def nak_def)

lemma process_once_queue:
  assumes "process_once b fresh c handler describe now db q w = (r, db', q', w')" "waiting q' i"
  shows "waiting q i"
  using assms by (auto simp: process_once_def waiting_simps Let_def
      split: list.splits option.splits prod.splits inbox_claim.splits sum.splits if_splits)

lemma handled_waiting:
  "i \<in> set (handled_message b fresh c handler now db q w) \<Longrightarrow> waiting q i"
  by (auto simp: handled_message_def waiting_def split: list.splits option.splits inbox_claim.splits if_splits)

lemma process_once_accounts:
  assumes "process_once b fresh c handler describe now db q w = (r, db', q', w')"
    and "timedelta_of (ic_retry_seconds c) = Inr d"
  shows "accounts c (handled_message b fresh c handler now db q w) db q db' q'"
proof (cases "\<exists>m rest t db1. q = Some m # rest \<and> claim_inbox now db (bm_id m) (ic_consumer_id c) (ic_lease c) = (Acquired t, db1)")
  case False
  then have "\<forall>m rest t db1. q = Some m # rest \<longrightarrow> claim_inbox now db (bm_id m) (ic_consumer_id c) (ic_lease c) \<noteq> (Acquired t, db1)"
    by blast
  note none = process_once_unclaimed [OF assms(1) this]
  show ?thesis unfolding accounts_def none(1) none(2) using none(3) by simp
next
  case True
  then obtain m rest t db1 where q: "q = Some m # rest"
    and cl: "claim_inbox now db (bm_id m) (ic_consumer_id c) (ic_lease c) = (Acquired t, db1)" by blast
  let ?key = "(bm_id m, ic_consumer_id c)"
  obtain row where row: "t = ib_fencing_token row" "ib_status row = Processing"
      "db1 = db\<lparr>db_inbox := AList.update ?key row (db_inbox db)\<rparr>" "\<not> inbox_done db ?key"
    using cl by (cases rule: claim_inbox_result) auto
  note fin = inbox_done_finish [OF row(2), where db = db and m = "bm_id m" and c = "ic_consumer_id c", folded row(1,3)]
  obtain res w1 where h: "handle_message b fresh now handler m w = (res, w1)" by fastforce
  note step = process_once_claimed [OF assms(1) [unfolded q] cl h]
  show ?thesis
  proof (cases res)
    case (Inl err)
    obtain ok db2 where retry: "retry_inbox db1 (bm_id m) (ic_consumer_id c) t (describe err) (dt_plus now d) = (ok, db2)"
      by fastforce
    have "db' = db2" using step(1) [OF Inl assms(2)] retry by simp
    then have "inbox_done db' k = inbox_done db k" for k
      using fin(2) [OF retry, of k] row(4) by (cases "k = ?key") simp_all
    moreover have "q' = rest @ [Some (nak m)]" using step(1) [OF Inl assms(2)] by blast
    ultimately show ?thesis using step(3) Inl q by (auto simp: accounts_def waiting_def nak_def)
  next
    case (Inr u)
    obtain ok db2 where comp: "complete_inbox now db1 (bm_id m) (ic_consumer_id c) t = (ok, db2)" by fastforce
    note fin1 = fin(1) [OF comp]
    have "db' = db2" "q' = rest" using step(2) [OF Inr] comp fin1 by simp_all
    moreover have "inbox_done db2 k \<longleftrightarrow> k = ?key \<or> inbox_done db k" for k using fin1 by simp
    ultimately show ?thesis using step(3) Inr q row(4) by (auto simp: accounts_def waiting_def)
  qed
qed

subsection \<open>Only committed events are delivered\<close>

definition genuine :: "consumer \<Rightarrow> broker \<Rightarrow> sql_db \<Rightarrow> bool" where
  "genuine c br db \<longleftrightarrow> set (br_published br) \<subseteq> snd ` row_key ` set (db_outbox db) \<and>
     (\<forall>i. waiting (queue_of c br) i \<longrightarrow> i \<in> snd ` set (br_published br))"

lemma genuine_same: "map row_key (db_outbox db') = map row_key (db_outbox db) \<Longrightarrow> genuine c br db' = genuine c br db"
  unfolding genuine_def by (metis set_map)

lemma queue_of_publish:
  assumes "broker_publish br subject payload i = (r, br')" "waiting (queue_of c br') j"
  shows "waiting (queue_of c br) j \<or> j = i \<and> (subject, i) \<in> set (br_published br')"
  using assms by (cases "map_of (br_subscriptions br) (ic_subject c, ic_consumer_id c)")
    (auto simp: broker_publish_def queue_of_def map_of_deliver waiting_def split: if_splits)

lemma genuine_publish:
  assumes "genuine c br db" "broker_publish br subject payload i = (r, br')"
    and "(subject, i) \<in> snd ` row_key ` set (db_outbox db)"
  shows "genuine c br' db"
proof -
  have "set (br_published br') \<subseteq> insert (subject, i) (set (br_published br))"
    using assms(2) by (auto simp: broker_publish_def split: if_splits)
  then have "set (br_published br') \<subseteq> snd ` row_key ` set (db_outbox db)"
    using assms(1,3) unfolding genuine_def by blast
  moreover have "j \<in> snd ` set (br_published br')" if "waiting (queue_of c br') j" for j
  proof (cases "waiting (queue_of c br) j")
    case True
    then have "j \<in> snd ` set (br_published br)" using assms(1) unfolding genuine_def by blast
    then show ?thesis using publish_grows(1) [OF assms(2)] by (meson image_mono subsetD)
  next
    case False
    then have "j = i" "(subject, i) \<in> set (br_published br')" using queue_of_publish [OF assms(2) that] by blast+
    then show ?thesis by (metis image_eqI snd_conv)
  qed
  ultimately show ?thesis unfolding genuine_def by blast
qed

lemma publish_records_genuine:
  assumes "publish_records p broker_publish describe clock rs n db br = (r, db', br')"
    and "genuine c br db" "\<forall>rec \<in> set rs. carries db rec"
  shows "genuine c br' db'"
  using assms
proof (induction rs arbitrary: n db br)
  case (Cons rec rs)
  obtain q br1 where q: "broker_publish br (or_topic rec) (encoded (or_event rec)) (ev_id (or_event rec)) = (q, br1)"
    by fastforce
  have "carries db rec" using Cons.prems(3) by simp
  then have "(or_topic rec, ev_id (or_event rec)) \<in> snd ` row_key ` set (db_outbox db)"
    unfolding carries_def by (metis image_eqI snd_conv)
  then have gen: "genuine c br1 db" by (rule genuine_publish [OF Cons.prems(2) q])
  have next1: "genuine c br' db'"
    if "publish_records p broker_publish describe clock rs m db1 br1 = (r, db', br')"
      "map row_key (db_outbox db1) = map row_key (db_outbox db)" for m db1
    using Cons.IH [OF that(1)] gen genuine_same [OF that(2)] carries_same [OF that(2)] Cons.prems(3) by simp
  show ?case
  proof (cases q)
    case (Inl err)
    with Cons.prems(1) q gen show ?thesis
      by (auto split: sum.splits intro: next1 [OF _ row_key_updates(2)])
  next
    case (Inr u)
    obtain held db1 where comp: "complete_outbox (clock rec) db (or_id rec) (or_fencing_token rec) = (held, db1)" by fastforce
    have "publish_records p broker_publish describe clock rs (if held then n + 1 else n) db1 br1 = (r, db', br')"
      using Cons.prems(1) q Inr comp by simp
    moreover have "map row_key (db_outbox db1) = map row_key (db_outbox db)"
      using row_key_updates(1) [of "clock rec" db "or_id rec" "or_fencing_token rec"] comp by simp
    ultimately show ?thesis by (rule next1)
  qed
qed auto

lemma run_once_genuine:
  assumes "run_once b fresh p broker_publish describe now clock db br = (r, db', br')"
    and "tables_inv db" "genuine c br db"
  shows "genuine c br' db'"
proof (cases "claim_outbox b fresh now db (pb_worker_id p) (pb_batch_size p) (pb_lease p)")
  case (Inl err)
  with assms show ?thesis by (simp add: run_once_def)
next
  case (Inr x)
  then obtain rs db1 where cl: "claim_outbox b fresh now db (pb_worker_id p) (pb_batch_size p) (pb_lease p) = Inr (rs, db1)"
    by (cases x) auto
  have inv: "outbox_inv db" using assms(2) by (simp add: tables_inv_def)
  have run: "publish_records p broker_publish describe clock rs 0 db1 br = (r, db', br')"
    using assms(1) cl by (simp add: run_once_def)
  have "genuine c br db1" using genuine_same [OF row_key_claim(1) [OF inv cl]] assms(3) by simp
  moreover have "\<forall>rec \<in> set rs. carries db1 rec" using carries_claimed [OF assms(2) cl] by blast
  ultimately show ?thesis by (rule publish_records_genuine [OF run])
qed

subsection \<open>The whole path\<close>

definition delivery_inv :: "consumer \<Rightarrow> 'w delivery_system \<Rightarrow> bool" where
  "delivery_inv c sy \<longleftrightarrow> tables_inv (sy_store sy) \<and> attached c (sy_broker sy) \<and>
     outbox_shipped c (sy_broker sy) (sy_inbox sy) (sy_store sy) \<and> genuine c (sy_broker sy) (sy_store sy) \<and>
     distinct (sy_handled sy) \<and> (\<forall>i. inbox_done (sy_inbox sy) (i, ic_consumer_id c) \<longleftrightarrow> i \<in> set (sy_handled sy)) \<and>
     set (sy_handled sy) \<subseteq> snd ` set (br_published (sy_broker sy))"

lemma produce_keeps:
  assumes "append_with_outbox b fresh now db e topic = Inr (x, db')" "storable e"
  shows "tables_inv db \<Longrightarrow> tables_inv db'"
    and "outbox_shipped c br inbox db \<Longrightarrow> outbox_shipped c br inbox db'"
    and "genuine c br db \<Longrightarrow> genuine c br db'"
proof -
  have app: "append_sync b fresh now db e (Some topic) None = Inr (x, db')"
    using assms(1) by (simp add: append_with_outbox_def split: if_splits)
  then show "tables_inv db \<Longrightarrow> tables_inv db'" using tables_inv_step [OF _ step_append [OF app assms(2)]] by blast
  obtain db1 where db1: "db_outbox db1 = db_outbox db" "db' = insert_outbox db1 x (Some topic) now"
    by (rule append_sync_outbox [OF app])
  have rows: "db_outbox db' = db_outbox db \<or> db_outbox db' = db_outbox db @ [new_outbox_row db1 x topic now]"
    using db1 by (auto simp: insert_outbox_def)
  then show "outbox_shipped c br inbox db \<Longrightarrow> outbox_shipped c br inbox db'"
    by (auto simp: outbox_shipped_def new_outbox_row_def)
  have "snd ` row_key ` set (db_outbox db) \<subseteq> snd ` row_key ` set (db_outbox db')"
    using rows by auto
  then show "genuine c br db \<Longrightarrow> genuine c br db'" unfolding genuine_def by blast
qed

lemma consume_keeps:
  assumes "delivery_inv c sy" "timedelta_of (ic_retry_seconds c) = Inr d"
  shows "delivery_inv c (delivery_run_step b fresh c handler describe sy (Consume now))"
proof -
  let ?q = "queue_of c (sy_broker sy)" and ?k = "(ic_subject c, ic_consumer_id c)"
  let ?hs = "handled_message b fresh c handler now (sy_inbox sy) ?q (sy_world sy)"
  obtain r inbox q w where run: "process_once b fresh c handler describe now (sy_inbox sy) ?q (sy_world sy) = (r, inbox, q, w)"
    by (metis prod_cases4)
  let ?br = "(sy_broker sy)\<lparr>br_subscriptions := AList.update ?k q (br_subscriptions (sy_broker sy))\<rparr>"
  have step: "delivery_run_step b fresh c handler describe sy (Consume now) =
      sy\<lparr>sy_inbox := inbox, sy_world := w, sy_broker := ?br, sy_handled := sy_handled sy @ ?hs\<rparr>"
    using run by (simp add: delivery_run_step_def Let_def)
  have br: "queue_of c ?br = q" "attached c ?br" "br_published ?br = br_published (sy_broker sy)"
    by (simp_all add: queue_of_def attached_def dict_simps)
  note acc = process_once_accounts [OF run assms(2)]
  have inv: "outbox_shipped c (sy_broker sy) (sy_inbox sy) (sy_store sy)" "genuine c (sy_broker sy) (sy_store sy)"
      "distinct (sy_handled sy)" "\<And>i. inbox_done (sy_inbox sy) (i, ic_consumer_id c) \<longleftrightarrow> i \<in> set (sy_handled sy)"
      "set (sy_handled sy) \<subseteq> snd ` set (br_published (sy_broker sy))" "tables_inv (sy_store sy)"
    using assms(1) by (simp_all add: delivery_inv_def)
  have completed_ids: "inbox_done inbox (i, ic_consumer_id c) \<longleftrightarrow> i \<in> set (sy_handled sy @ ?hs)" for i
    using acc inv(4) unfolding accounts_def by auto
  have fresh: "distinct (sy_handled sy @ ?hs)"
    using acc inv(3,4) unfolding accounts_def by auto
  have "outbox_shipped c ?br inbox (sy_store sy)"
    unfolding outbox_shipped_def
  proof (intro ballI impI)
    fix row assume row: "row \<in> set (db_outbox (sy_store sy))" "ob_published_at row \<noteq> None"
    then have ship: "shipped c (sy_broker sy) (sy_inbox sy) (ob_topic row) (ob_event_id row)"
      using inv(1) by (simp add: outbox_shipped_def)
    then have "waiting q (ob_event_id row) \<or> inbox_done inbox (ob_event_id row, ic_consumer_id c)"
      if "subject_matches (ob_topic row) (ic_subject c)"
      using that acc unfolding shipped_def accounts_def by blast
    with ship show "shipped c ?br inbox (ob_topic row) (ob_event_id row)"
      unfolding shipped_def br(1) br(3) by blast
  qed
  moreover have known: "i \<in> snd ` set (br_published (sy_broker sy))" if "waiting ?q i" for i
    using that inv(2) unfolding genuine_def by blast
  have "genuine c ?br (sy_store sy)"
    using inv(2) known process_once_queue [OF run] unfolding genuine_def br(1) br(3) by blast
  moreover have "set ?hs \<subseteq> snd ` set (br_published (sy_broker sy))"
    by (intro subsetI known) (erule handled_waiting)
  then have "set (sy_handled sy @ ?hs) \<subseteq> snd ` set (br_published ?br)"
    using inv(5) unfolding br(3) set_append by (rule Un_least [rotated])
  ultimately show ?thesis
    unfolding step delivery_inv_def using inv(6) br(2) completed_ids fresh
    by (intro conjI) simp_all
qed

lemma delivery_inv_step:
  assumes "delivery_inv c sy" "timedelta_of (ic_retry_seconds c) = Inr d"
    and "\<And>e prefix now. step = Produce e prefix now \<Longrightarrow> storable e"
  shows "delivery_inv c (delivery_run_step b fresh c handler describe sy step)"
proof (cases step)
  case (Produce e prefix now)
  show ?thesis
  proof (cases "append_with_outbox b fresh now (sy_store sy) e (event_topic prefix e)")
    case (Inl err)
    with Produce assms(1) show ?thesis by (simp add: delivery_run_step_def)
  next
    case (Inr x)
    obtain stored db where x: "x = (stored, db)" by fastforce
    note keep = produce_keeps [OF Inr [unfolded x] assms(3) [OF Produce]]
    from Produce Inr x assms(1) keep show ?thesis by (simp add: delivery_run_step_def delivery_inv_def)
  qed
next
  case (Publish_batch p now clock)
  obtain r db br where run: "run_once b fresh p broker_publish describe now clock (sy_store sy) (sy_broker sy) = (r, db, br)"
    by (metis prod_cases3)
  have step: "delivery_run_step b fresh c handler describe sy step = sy\<lparr>sy_store := db, sy_broker := br\<rparr>"
    using Publish_batch run by (simp add: delivery_run_step_def)
  have inv: "tables_inv (sy_store sy)" "attached c (sy_broker sy)"
      "outbox_shipped c (sy_broker sy) (sy_inbox sy) (sy_store sy)" "genuine c (sy_broker sy) (sy_store sy)"
    using assms(1) by (simp_all add: delivery_inv_def)
  have "set (br_published (sy_broker sy)) \<subseteq> set (br_published br)" by (rule run_once_published [OF run])
  then have "snd ` set (br_published (sy_broker sy)) \<subseteq> snd ` set (br_published br)" by (rule image_mono)
  then show ?thesis
    using run_once_ships [OF run inv(1-3)] run_once_genuine [OF run inv(1,4)] assms(1)
    unfolding step delivery_inv_def by auto
next
  case (Consume now)
  with consume_keeps [OF assms(1,2)] show ?thesis by simp
qed

definition start_delivery :: "broker \<Rightarrow> 'w \<Rightarrow> 'w delivery_system" where
  "start_delivery br w = \<lparr>sy_store = sql_initialize, sy_broker = br, sy_inbox = sql_initialize, sy_world = w, sy_handled = []\<rparr>"

lemma delivery_inv_run:
  assumes "consumer_start c (new_broker n) = Inr br" "timedelta_of (ic_retry_seconds c) = Inr d"
    and "\<And>e prefix now. Produce e prefix now \<in> set steps \<Longrightarrow> storable e"
  shows "delivery_inv c (delivery_run b fresh c handler describe (start_delivery br w) steps)"
  using assms(3)
proof (induction steps rule: rev_induct)
  case Nil
  have "br = (new_broker n)\<lparr>br_subscriptions := [((ic_subject c, ic_consumer_id c), [])]\<rparr>"
    using assms(1) by (simp add: consumer_start_def broker_subscribe_def new_broker_def)
  then show ?case
    using tables_inv_initialize
    by (simp add: delivery_run_def start_delivery_def delivery_inv_def attached_def outbox_shipped_def genuine_def
        new_broker_def queue_of_def waiting_def inbox_done_def sql_initialize_def)
next
  case (snoc step steps)
  have "delivery_inv c (delivery_run b fresh c handler describe (start_delivery br w) steps)"
    by (rule snoc.IH) (use snoc.prems in auto)
  then have "delivery_inv c (delivery_run_step b fresh c handler describe
      (delivery_run b fresh c handler describe (start_delivery br w) steps) step)"
    by (rule delivery_inv_step [OF _ assms(2)]) (use snoc.prems in auto)
  then show ?case by (simp add: delivery_run_def)
qed


definition demo_delivery_builtins :: builtins where
  "demo_delivery_builtins = \<lparr>bi_str = (\<lambda>_. ''?''), bi_int = (\<lambda>_. Inl (TypeError ''int'')),
     bi_dict = (\<lambda>_. Inl (TypeError ''dict'')), bi_float = (\<lambda>_. Inl (TypeError ''float'')),
     bi_iter = (\<lambda>_. Inl (TypeError ''iter'')), bi_fromiso = (\<lambda>_. Inl (ValueError ''iso'')), bi_sha = (\<lambda>_. ''d'')\<rparr>"

definition demo_consumer :: consumer where
  "demo_consumer = \<lparr>ic_subject = ''noema.>'', ic_consumer_id = ''c1'', ic_lease = 30, ic_retry_seconds = Fin 1\<rparr>"

definition demo_observed :: "jobject event" where
  "demo_observed = \<lparr>ev_type = ''observed'', ev_source = ''sensor'', ev_payload = [], ev_subject = None,
     ev_id = ''e1'', ev_timestamp = Aware 5, ev_correlation_id = None, ev_causation_id = None,
     ev_priority = 0, ev_sequence = None, ev_metadata = [], ev_schema_version = 1\<rparr>"

definition demo_delivery_steps :: "delivery_step list" where
  "demo_delivery_steps = [Produce demo_observed ''noema'' (Aware 10),
     Publish_batch \<lparr>pb_worker_id = ''w'', pb_batch_size = 5, pb_lease = 30, pb_poll_seconds = Fin 1,
       pb_max_backoff_seconds = Fin 30\<rparr> (Aware 11) (\<lambda>_. Aware 12), Consume (Aware 13)]"

definition demo_delivery :: "string list delivery_system" where
  "demo_delivery = delivery_run demo_delivery_builtins ''f'' demo_consumer (\<lambda>e w. (Inr (), w @ [ev_type e])) (\<lambda>_. ''err'')
     (start_delivery ((new_broker 0)\<lparr>br_subscriptions := [((''noema.>'', ''c1''), [])]\<rparr>) []) demo_delivery_steps"

lemma demo_delivery_handles: "sy_handled demo_delivery = [''e1''] \<and> sy_world demo_delivery = [''observed'']"
  by code_simp


end
