(* ===== verification/Schema.thy ===== *)
theory Schema
  imports Authority Codec
begin

section \<open>The boundary validator of structured cognition\<close>

text \<open>
  Models \<^verbatim>\<open>src/noema/schema.py\<close> and \<open>ActionIntent.from_payload\<close> of \<^verbatim>\<open>src/noema/authority.py\<close>. A schema is a JSON
  object itself, so nothing says that its parts have the shape the validator expects; where they do not, the
  model raises an error other than \<open>SchemaValidationError\<close>, as Python does. The declarative reading of the
  supported subset is the relation \<open>conforms\<close>.
\<close>

subsection \<open>The validator\<close>

fun is_text :: "json \<Rightarrow> bool" where
  "is_text (JStr s) = True"
| "is_text (JTime t) = True"
| "is_text v = False"

text \<open>A number, booleans included, as the comparison operators see it.\<close>

fun number_of :: "json \<Rightarrow> pyfloat option" where
  "number_of (JInt n) = Some (Fin (of_int n))"
| "number_of (JFloat x) = Some x"
| "number_of (JBool c) = Some (if c then 1 else 0)"
| "number_of v = None"

definition in_enum :: "json \<Rightarrow> json \<Rightarrow> bool result" where
  "in_enum v allowed = (case allowed of
     JList xs \<Rightarrow> Inr (list_ex (json_eq v) xs)
   | _ \<Rightarrow> Inl (TypeError ''argument is not a container''))"

definition compare_bound :: "(pyfloat \<Rightarrow> pyfloat \<Rightarrow> bool) \<Rightarrow> pyfloat \<Rightarrow> json \<Rightarrow> py_error \<Rightarrow> unit result" where
  "compare_bound beyond x limit err = (if limit = JNull then Inr ()
     else case number_of limit of
       None \<Rightarrow> Inl (TypeError ''comparison not supported'')
     | Some y \<Rightarrow> if beyond x y then Inl err else Inr ())"

definition validate_number :: "pyfloat \<Rightarrow> jobject \<Rightarrow> string \<Rightarrow> unit result" where
  "validate_number x schema path =
     rbind (compare_bound (<) x (jget schema ''minimum'') (SchemaValidationError (path @ '': value is below minimum'')))
       (\<lambda>_. compare_bound (\<lambda>x y. y < x) x (jget schema ''maximum'')
          (SchemaValidationError (path @ '': value is above maximum'')))"

primrec each :: "('a \<Rightarrow> unit result) \<Rightarrow> 'a list \<Rightarrow> unit result" where
  "each f [] = Inr ()"
| "each f (x # xs) = rbind (f x) (\<lambda>_. each f xs)"

text \<open>The first option that does not raise \<open>SchemaValidationError\<close> decides.\<close>

definition schema_invalid :: "unit result \<Rightarrow> bool" where
  "schema_invalid r = (case r of Inl (SchemaValidationError m) \<Rightarrow> True | _ \<Rightarrow> False)"

primrec first_option :: "('a \<Rightarrow> unit result) \<Rightarrow> py_error \<Rightarrow> 'a list \<Rightarrow> unit result" where
  "first_option f none [] = Inl none"
| "first_option f none (x # xs) = (if schema_invalid (f x) then first_option f none xs else f x)"

lemma each_cong [fundef_cong]:
  "xs = ys \<Longrightarrow> (\<And>x. x \<in> set ys \<Longrightarrow> f x = g x) \<Longrightarrow> each f xs = each g ys"
  by (induction xs arbitrary: ys) auto

lemma first_option_cong [fundef_cong]:
  "xs = ys \<Longrightarrow> none = none' \<Longrightarrow> (\<And>x. x \<in> set ys \<Longrightarrow> f x = g x) \<Longrightarrow> first_option f none xs = first_option g none' ys"
  by (induction xs arbitrary: ys) auto

definition check_required :: "jobject \<Rightarrow> json \<Rightarrow> string \<Rightarrow> unit result" where
  "check_required d required path = (case required of
     JList ks \<Rightarrow> each (\<lambda>k. case k of
         JStr s \<Rightarrow> if map_of d s = None
           then Inl (SchemaValidationError (path @ ''.'' @ s @ '': required property is missing'')) else Inr ()
       | _ \<Rightarrow> Inl (SchemaValidationError (path @ '': required property is missing''))) ks
   | _ \<Rightarrow> Inl (TypeError ''required is not iterable''))"

definition as_properties :: "json \<Rightarrow> jobject result" where
  "as_properties v = (case v of JObj p \<Rightarrow> Inr p | _ \<Rightarrow> Inl (AttributeError ''get''))"

definition check_additional :: "jobject \<Rightarrow> jobject \<Rightarrow> jobject \<Rightarrow> string \<Rightarrow> unit result" where
  "check_additional schema props d path = raise_first
     [(jget schema ''additionalProperties'' = JBool False \<and> \<not> set (map fst d) \<subseteq> set (map fst props),
       SchemaValidationError (path @ '': unexpected properties''))]"

function validate :: "json \<Rightarrow> jobject \<Rightarrow> string \<Rightarrow> unit result" where
  "validate value schema path =
     rbind (case map_of schema ''enum'' of None \<Rightarrow> Inr True | Some allowed \<Rightarrow> in_enum value allowed) (\<lambda>member.
     if \<not> member then Inl (SchemaValidationError (path @ '': value is not in the allowed enum''))
     else (case jget schema ''type'' of
       JList options \<Rightarrow>
         first_option (\<lambda>option. validate value (AList.update ''type'' option schema) path)
           (SchemaValidationError (path @ '': value did not match any permitted type'')) options
     | JNull \<Rightarrow> Inr ()
     | JStr kind \<Rightarrow>
         (if kind = ''null'' then
            if value = JNull then Inr () else Inl (SchemaValidationError (path @ '': expected null''))
          else if kind = ''object'' then
            (case value of
               JObj d \<Rightarrow>
                 rbind (check_required d (jget_or schema ''required'' (JList [])) path) (\<lambda>_.
                 rbind (as_properties (jget_or schema ''properties'' (JObj []))) (\<lambda>props.
                 rbind (check_additional schema props d path) (\<lambda>_.
                 each (\<lambda>(key, item). case jget props key of
                     JNull \<Rightarrow> Inr ()
                   | JObj child \<Rightarrow> validate item child (path @ ''.'' @ key)
                   | _ \<Rightarrow> Inl (TypeError ''schema is not a mapping'')) d)))
             | _ \<Rightarrow> Inl (SchemaValidationError (path @ '': expected object'')))
          else if kind = ''array'' then
            (case value of
               JList xs \<Rightarrow>
                 (case jget schema ''items'' of
                    JNull \<Rightarrow> Inr ()
                  | JObj child \<Rightarrow>
                      each (\<lambda>(index, item). validate item child (path @ ''['' @ nat_digits index @ '']'')) (enumerate 0 xs)
                  | _ \<Rightarrow> if xs = [] then Inr () else Inl (TypeError ''schema is not a mapping''))
             | _ \<Rightarrow> Inl (SchemaValidationError (path @ '': expected array'')))
          else if kind = ''string'' then
            if is_text value then Inr () else Inl (SchemaValidationError (path @ '': expected string''))
          else if kind = ''boolean'' then
            (case value of JBool _ \<Rightarrow> Inr () | _ \<Rightarrow> Inl (SchemaValidationError (path @ '': expected boolean'')))
          else if kind = ''integer'' then
            (case value of
               JInt n \<Rightarrow> validate_number (Fin (of_int n)) schema path
             | _ \<Rightarrow> Inl (SchemaValidationError (path @ '': expected integer'')))
          else if kind = ''number'' then
            (case value of
               JInt n \<Rightarrow> validate_number (Fin (of_int n)) schema path
             | JFloat x \<Rightarrow> validate_number x schema path
             | _ \<Rightarrow> Inl (SchemaValidationError (path @ '': expected number'')))
          else Inl (SchemaValidationError (path @ '': unsupported schema type'')))
     | _ \<Rightarrow> Inl (SchemaValidationError (path @ '': unsupported schema type''))))"
  by pat_completeness auto

lemma size_json_member:
  "(k, v) \<in> set d \<Longrightarrow> size v < size (JObj d)" "v \<in> set xs \<Longrightarrow> size v < size (JList xs)"
  "(i, v) \<in> set (enumerate n xs) \<Longrightarrow> size v < size (JList xs)"
proof -
  show "(k, v) \<in> set d \<Longrightarrow> size v < size (JObj d)" by (induction d) auto
  show list: "v \<in> set xs \<Longrightarrow> size v < size (JList xs)" for v by (induction xs) auto
  show "(i, v) \<in> set (enumerate n xs) \<Longrightarrow> size v < size (JList xs)"
    by (rule list) (auto simp: in_set_enumerate_eq)
qed

termination validate
proof (relation "measures [\<lambda>(v, s, p). size v, \<lambda>(v, s, p). size (jget s ''type'')]")
qed (auto simp: jget_def dict_simps dest: size_json_member split: option.splits)

declare validate.simps [simp del]

subsection \<open>What conforming means\<close>

text \<open>The conditions on a value that hold whatever the type is, and the bounds of a number.\<close>

definition enum_admits :: "jobject \<Rightarrow> json \<Rightarrow> bool" where
  "enum_admits s v \<longleftrightarrow> (\<forall>allowed. map_of s ''enum'' = Some allowed \<longrightarrow> (\<exists>xs. allowed = JList xs \<and> (\<exists>x \<in> set xs. json_eq v x)))"

definition number_within :: "jobject \<Rightarrow> pyfloat \<Rightarrow> bool" where
  "number_within s x \<longleftrightarrow>
     (jget s ''minimum'' = JNull \<or> (\<exists>m. number_of (jget s ''minimum'') = Some m \<and> \<not> x < m)) \<and>
     (jget s ''maximum'' = JNull \<or> (\<exists>m. number_of (jget s ''maximum'') = Some m \<and> \<not> m < x))"

inductive conforms :: "json \<Rightarrow> jobject \<Rightarrow> bool" where
  untyped: "enum_admits s v \<Longrightarrow> jget s ''type'' = JNull \<Longrightarrow> conforms v s"
| null: "enum_admits s JNull \<Longrightarrow> jget s ''type'' = JStr ''null'' \<Longrightarrow> conforms JNull s"
| textual: "enum_admits s v \<Longrightarrow> jget s ''type'' = JStr ''string'' \<Longrightarrow> is_text v \<Longrightarrow> conforms v s"
| boolean: "enum_admits s (JBool c) \<Longrightarrow> jget s ''type'' = JStr ''boolean'' \<Longrightarrow> conforms (JBool c) s"
| integer: "enum_admits s (JInt n) \<Longrightarrow> jget s ''type'' = JStr ''integer'' \<Longrightarrow> number_within s (Fin (of_int n))
    \<Longrightarrow> conforms (JInt n) s"
| whole_number: "enum_admits s (JInt n) \<Longrightarrow> jget s ''type'' = JStr ''number'' \<Longrightarrow> number_within s (Fin (of_int n))
    \<Longrightarrow> conforms (JInt n) s"
| number: "enum_admits s (JFloat x) \<Longrightarrow> jget s ''type'' = JStr ''number'' \<Longrightarrow> number_within s x \<Longrightarrow> conforms (JFloat x) s"
| array: "enum_admits s (JList xs) \<Longrightarrow> jget s ''type'' = JStr ''array'' \<Longrightarrow>
    (\<And>x. x \<in> set xs \<Longrightarrow> jget s ''items'' \<noteq> JNull \<Longrightarrow> \<exists>child. jget s ''items'' = JObj child \<and> conforms x child)
    \<Longrightarrow> conforms (JList xs) s"
| object: "enum_admits s (JObj d) \<Longrightarrow> jget s ''type'' = JStr ''object'' \<Longrightarrow>
    jget_or s ''required'' (JList []) = JList required \<Longrightarrow> (\<And>k. k \<in> set required \<Longrightarrow> \<exists>name. k = JStr name \<and> name \<in> fst ` set d) \<Longrightarrow>
    jget_or s ''properties'' (JObj []) = JObj props \<Longrightarrow>
    (jget s ''additionalProperties'' = JBool False \<Longrightarrow> fst ` set d \<subseteq> fst ` set props) \<Longrightarrow>
    (\<And>k x. (k, x) \<in> set d \<Longrightarrow> jget props k \<noteq> JNull \<Longrightarrow> \<exists>child. jget props k = JObj child \<and> conforms x child)
    \<Longrightarrow> conforms (JObj d) s"
| union: "enum_admits s v \<Longrightarrow> jget s ''type'' = JList options \<Longrightarrow> option \<in> set options \<Longrightarrow>
    conforms v (AList.update ''type'' option s) \<Longrightarrow> conforms v s"

inductive_simps conforms_kind: "conforms v s"

text \<open>A schema whose parts have the shape the subset gives them.\<close>

definition limit_ok :: "json \<Rightarrow> bool" where
  "limit_ok v \<longleftrightarrow> v = JNull \<or> number_of v \<noteq> None"

fun schema_ok :: "json \<Rightarrow> bool" where
  "schema_ok (JObj s) \<longleftrightarrow>
     (case map_of s ''enum'' of None \<Rightarrow> True | Some (JList xs) \<Rightarrow> True | Some _ \<Rightarrow> False) \<and>
     limit_ok (jget s ''minimum'') \<and> limit_ok (jget s ''maximum'') \<and>
     (case jget_or s ''required'' (JList []) of JList ks \<Rightarrow> True | _ \<Rightarrow> False) \<and>
     (case jget_or s ''properties'' (JObj []) of JObj p \<Rightarrow> True | _ \<Rightarrow> False) \<and>
     list_all (\<lambda>(k, v).
       if k = ''items'' then v = JNull \<or> schema_ok v
       else if k = ''properties''
       then (case v of JObj p \<Rightarrow> list_all (\<lambda>(name, w). w = JNull \<or> schema_ok w) p | _ \<Rightarrow> True)
       else True) s"
| "schema_ok v \<longleftrightarrow> False"

declare schema_ok.simps(1) [simp del]

subsection \<open>The validator decides conformance\<close>

lemma each_ok: "each f xs = Inr () \<longleftrightarrow> (\<forall>x \<in> set xs. f x = Inr ())"
  by (induction xs) (auto simp: rbind_Inr_iff)

lemma first_option_ok: "first_option f none xs = Inr () \<Longrightarrow> \<exists>x \<in> set xs. f x = Inr ()"
  by (induction xs) (auto split: if_splits)

lemma first_option_total:
  "(\<And>x. x \<in> set xs \<Longrightarrow> f x = Inr () \<or> schema_invalid (f x)) \<Longrightarrow> x \<in> set xs \<Longrightarrow> f x = Inr () \<Longrightarrow> first_option f none xs = Inr ()"
  by (induction xs) (auto simp: schema_invalid_def)

lemma enum_ok:
  "(case map_of s ''enum'' of None \<Rightarrow> Inr True | Some allowed \<Rightarrow> in_enum v allowed) = Inr True \<longleftrightarrow> enum_admits s v"
  by (auto simp: enum_admits_def in_enum_def list_ex_iff split: option.splits json.splits)

lemma validate_number_ok: "validate_number x s p = Inr () \<longleftrightarrow> number_within s x"
  by (auto simp: validate_number_def number_within_def compare_bound_def rbind_Inr_iff split: option.splits if_splits)

lemma check_required_ok:
  "check_required d r p = Inr () \<longleftrightarrow>
    (\<exists>required. r = JList required \<and> (\<forall>k \<in> set required. \<exists>name. k = JStr name \<and> name \<in> fst ` set d))"
proof (cases r)
  case (JList ks)
  have "(case k of JStr name \<Rightarrow> if map_of d name = None
      then Inl (SchemaValidationError (p @ ''.'' @ name @ '': required property is missing'')) else Inr ()
    | _ \<Rightarrow> Inl (SchemaValidationError (p @ '': required property is missing''))) = Inr () \<longleftrightarrow>
      (\<exists>name. k = JStr name \<and> name \<in> fst ` set d)" for k
    by (cases k) (auto simp: map_of_eq_None_iff)
  then show ?thesis by (simp add: check_required_def JList each_ok)
qed (simp_all add: check_required_def)

lemma check_additional_ok:
  "check_additional s props d p = Inr () \<longleftrightarrow> (jget s ''additionalProperties'' = JBool False \<longrightarrow> fst ` set d \<subseteq> fst ` set props)"
  by (auto simp: check_additional_def)

lemmas validator_ok = each_ok enum_ok validate_number_ok check_required_ok check_additional_ok

lemma member_ok:
  "rbind (case map_of s ''enum'' of None \<Rightarrow> Inr True | Some allowed \<Rightarrow> in_enum v allowed)
      (\<lambda>member. if \<not> member then Inl e else r) = Inr () \<longleftrightarrow> enum_admits s v \<and> r = Inr ()"
  unfolding enum_ok [symmetric] rbind_Inr_iff by auto

lemma validate_item:
  "(case w of JNull \<Rightarrow> Inr () | JObj child \<Rightarrow> validate x child p | _ \<Rightarrow> Inl e) = Inr () \<longleftrightarrow>
    (w \<noteq> JNull \<longrightarrow> (\<exists>child. w = JObj child \<and> validate x child p = Inr ()))"
  by (cases w) auto

lemma validate_object:
  assumes "jget s ''type'' = JStr ''object''"
  shows "validate v s p = Inr () \<longleftrightarrow> enum_admits s v \<and> (\<exists>d required props. v = JObj d \<and>
     jget_or s ''required'' (JList []) = JList required \<and>
     (\<forall>k \<in> set required. \<exists>name. k = JStr name \<and> name \<in> fst ` set d) \<and>
     jget_or s ''properties'' (JObj []) = JObj props \<and>
     (jget s ''additionalProperties'' = JBool False \<longrightarrow> fst ` set d \<subseteq> fst ` set props) \<and>
     (\<forall>(k, x) \<in> set d. jget props k \<noteq> JNull \<longrightarrow>
        (\<exists>child. jget props k = JObj child \<and> validate x child (p @ ''.'' @ k) = Inr ())))"
proof (cases v)
  case (JObj d)
  have props: "as_properties w = Inr q \<longleftrightarrow> w = JObj q" for w q
    by (cases w) (auto simp: as_properties_def)
  have "validate v s p = Inr () \<longleftrightarrow> enum_admits s v \<and>
      rbind (check_required d (jget_or s ''required'' (JList [])) p) (\<lambda>_.
      rbind (as_properties (jget_or s ''properties'' (JObj []))) (\<lambda>props.
      rbind (check_additional s props d p) (\<lambda>_.
      each (\<lambda>(key, item). case jget props key of
          JNull \<Rightarrow> Inr ()
        | JObj child \<Rightarrow> validate item child (p @ ''.'' @ key)
        | _ \<Rightarrow> Inl (TypeError ''schema is not a mapping'')) d))) = Inr ()"
    by (subst validate.simps) (simp add: member_ok assms JObj)
  then show ?thesis
    by (auto simp: JObj rbind_Inr_iff validator_ok props validate_item split_beta)
qed (subst validate.simps, simp add: member_ok assms)+

lemma all_enumerate: "(\<forall>x \<in> set (enumerate 0 xs). P x) \<longleftrightarrow> (\<forall>i < length xs. P (i, xs ! i))"
  by (auto simp: in_set_enumerate_eq)

lemma validate_array:
  assumes "jget s ''type'' = JStr ''array''"
  shows "validate v s p = Inr () \<longleftrightarrow> enum_admits s v \<and> (\<exists>xs. v = JList xs \<and>
     (\<forall>i < length xs. jget s ''items'' \<noteq> JNull \<longrightarrow>
        (\<exists>child. jget s ''items'' = JObj child \<and> validate (xs ! i) child (p @ ''['' @ nat_digits i @ '']'') = Inr ())))"
proof (cases v)
  case (JList xs)
  have "validate v s p = Inr () \<longleftrightarrow> enum_admits s v \<and>
      (case jget s ''items'' of
         JNull \<Rightarrow> Inr ()
       | JObj child \<Rightarrow> each (\<lambda>(index, item). validate item child (p @ ''['' @ nat_digits index @ '']'')) (enumerate 0 xs)
       | _ \<Rightarrow> if xs = [] then Inr () else Inl (TypeError ''schema is not a mapping'')) = Inr ()"
    by (subst validate.simps) (simp add: member_ok assms JList)
  then show ?thesis
    by (cases "jget s ''items''") (auto simp: JList each_ok all_enumerate split_beta)
qed (subst validate.simps, simp add: member_ok assms)+

lemma validate_scalar:
  "jget s ''type'' = JNull \<Longrightarrow> validate v s p = Inr () \<longleftrightarrow> enum_admits s v"
  "jget s ''type'' = JStr ''null'' \<Longrightarrow> validate v s p = Inr () \<longleftrightarrow> enum_admits s v \<and> v = JNull"
  "jget s ''type'' = JStr ''string'' \<Longrightarrow> validate v s p = Inr () \<longleftrightarrow> enum_admits s v \<and> is_text v"
  "jget s ''type'' = JStr ''boolean'' \<Longrightarrow> validate v s p = Inr () \<longleftrightarrow> enum_admits s v \<and> (\<exists>c. v = JBool c)"
  "jget s ''type'' = JStr ''integer'' \<Longrightarrow> validate v s p = Inr () \<longleftrightarrow> enum_admits s v \<and>
     (\<exists>n. v = JInt n \<and> number_within s (Fin (of_int n)))"
  "jget s ''type'' = JStr ''number'' \<Longrightarrow> validate v s p = Inr () \<longleftrightarrow> enum_admits s v \<and>
     ((\<exists>n. v = JInt n \<and> number_within s (Fin (of_int n))) \<or> (\<exists>x. v = JFloat x \<and> number_within s x))"
  by (subst validate.simps, simp add: member_ok; cases v; simp add: validate_number_ok)+

lemma validate_union:
  assumes "jget s ''type'' = JList options"
  shows "validate v s p = Inr () \<longleftrightarrow> enum_admits s v \<and>
    first_option (\<lambda>option. validate v (AList.update ''type'' option s) p)
      (SchemaValidationError (p @ '': value did not match any permitted type'')) options = Inr ()"
  by (subst validate.simps) (simp add: member_ok assms)

lemma validate_unsupported:
  "jget s ''type'' = JStr kind \<Longrightarrow> kind \<notin> {''null'', ''object'', ''array'', ''string'', ''boolean'', ''integer'', ''number''} \<Longrightarrow>
    validate v s p \<noteq> Inr ()"
  "jget s ''type'' = JBool c \<Longrightarrow> validate v s p \<noteq> Inr ()" "jget s ''type'' = JInt n \<Longrightarrow> validate v s p \<noteq> Inr ()"
  "jget s ''type'' = JFloat x \<Longrightarrow> validate v s p \<noteq> Inr ()" "jget s ''type'' = JTime t \<Longrightarrow> validate v s p \<noteq> Inr ()"
  "jget s ''type'' = JObj d \<Longrightarrow> validate v s p \<noteq> Inr ()"
  by (subst validate.simps, simp add: member_ok)+

lemma json_schema_induct [case_names step]:
  assumes "\<And>v s. (\<And>w t. size w < size v \<Longrightarrow> P w t) \<Longrightarrow>
      (\<And>t. size (jget t ''type'') < size (jget s ''type'') \<Longrightarrow> P v t) \<Longrightarrow> P v (s :: jobject)"
  shows "P v s"
  by (induction "(v, s)" arbitrary: v s rule: wf_induct_rule [OF wf_measures [of "[\<lambda>(v, s). size v, \<lambda>(v, s). size (jget s ''type'')]"]])
    (rule assms; simp)

lemma validate_sound: "validate v s p = Inr () \<Longrightarrow> conforms v s"
proof (induction v s arbitrary: p rule: json_schema_induct)
  case (step v s)
  show ?case
  proof (cases "jget s ''type''")
    case JNull
    with step.prems show ?thesis by (simp add: validate_scalar untyped)
  next
    case (JList options)
    with step.prems obtain opt where opt: "opt \<in> set options" "validate v (AList.update ''type'' opt s) p = Inr ()"
      and "enum_admits s v"
      by (auto simp: validate_union dest: first_option_ok)
    have "size (jget (AList.update ''type'' opt s) ''type'') < size (jget s ''type'')"
      using size_json_member(2) [OF opt(1)] JList by (simp add: jget_def dict_simps)
    from step.IH(2) [OF this opt(2)] show ?thesis by (rule union [OF \<open>enum_admits s v\<close> JList opt(1)])
  next
    case (JStr kind)
    consider "kind = ''null''" | "kind = ''string''" | "kind = ''boolean''" | "kind = ''integer''" | "kind = ''number''"
      | "kind = ''array''" | "kind = ''object''"
      using validate_unsupported(1) [OF JStr, of v p] step.prems unfolding insert_iff empty_iff by argo
    then show ?thesis
    proof cases
      case 6
      with JStr have ty: "jget s ''type'' = JStr ''array''" by simp
      from step.prems obtain xs where xs: "v = JList xs" "enum_admits s v" and
        items: "\<And>i. i < length xs \<Longrightarrow> jget s ''items'' \<noteq> JNull \<Longrightarrow>
          \<exists>child. jget s ''items'' = JObj child \<and> validate (xs ! i) child (p @ ''['' @ nat_digits i @ '']'') = Inr ()"
        unfolding validate_array [OF ty] by blast
      show ?thesis unfolding xs(1)
      proof (rule array [OF _ ty])
        show "enum_admits s (JList xs)" using xs by simp
        fix x assume x: "x \<in> set xs" "jget s ''items'' \<noteq> JNull"
        then obtain i where i: "i < length xs" "x = xs ! i" by (metis in_set_conv_nth)
        from items [OF i(1) x(2)] i(2) obtain child where child: "jget s ''items'' = JObj child"
          "validate x child (p @ ''['' @ nat_digits i @ '']'') = Inr ()" by blast
        have "conforms x child"
          by (rule step.IH(1) [OF _ child(2)]) (use size_json_member(2) [OF x(1)] xs(1) in simp)
        with child(1) show "\<exists>child. jget s ''items'' = JObj child \<and> conforms x child" by blast
      qed
    next
      case 7
      with JStr have ty: "jget s ''type'' = JStr ''object''" by simp
      from step.prems obtain d required props where d: "v = JObj d" "enum_admits s v"
          "jget_or s ''required'' (JList []) = JList required"
          "\<forall>k \<in> set required. \<exists>name. k = JStr name \<and> name \<in> fst ` set d"
          "jget_or s ''properties'' (JObj []) = JObj props"
          "jget s ''additionalProperties'' = JBool False \<longrightarrow> fst ` set d \<subseteq> fst ` set props"
        and members: "\<forall>(k, x) \<in> set d. jget props k \<noteq> JNull \<longrightarrow>
          (\<exists>child. jget props k = JObj child \<and> validate x child (p @ ''.'' @ k) = Inr ())"
        unfolding validate_object [OF ty] by blast
      have "\<exists>child. jget props k = JObj child \<and> conforms x child" if x: "(k, x) \<in> set d" "jget props k \<noteq> JNull" for k x
      proof -
        from x members obtain child where child: "jget props k = JObj child" "validate x child (p @ ''.'' @ k) = Inr ()"
          by fastforce
        have "conforms x child"
          by (rule step.IH(1) [OF _ child(2)]) (use size_json_member(1) [OF x(1)] d(1) in simp)
        with child(1) show ?thesis by blast
      qed
      note inner = this
      show ?thesis unfolding d(1)
        by (rule object [OF _ ty d(3) _ d(5)]) (use d inner in blast)+
    qed (use step.prems JStr in \<open>auto simp: validate_scalar intro: conforms.intros\<close>)
  qed (use step.prems validate_unsupported(2-6) in blast)+
qed

text \<open>On a schema of the right shape nothing but \<open>SchemaValidationError\<close> is raised.\<close>

definition decided :: "unit result \<Rightarrow> bool" where
  "decided r \<longleftrightarrow> r = Inr () \<or> schema_invalid r"

lemma decided_simps [simp]: "decided (Inr u)" "decided (Inl (SchemaValidationError m))"
  by (simp_all add: decided_def schema_invalid_def)

lemma decided_rbind: "decided r \<Longrightarrow> decided (q ()) \<Longrightarrow> decided (rbind r (\<lambda>_. q ()))"
  by (cases r) (auto simp: decided_def schema_invalid_def)

lemma decided_each: "(\<And>x. x \<in> set xs \<Longrightarrow> decided (f x)) \<Longrightarrow> decided (each f xs)"
  by (induction xs) (auto intro: decided_rbind)

lemma decided_first_option:
  "(\<And>x. x \<in> set xs \<Longrightarrow> decided (f x)) \<Longrightarrow> decided (first_option f (SchemaValidationError m) xs)"
  by (induction xs) (auto simp: decided_def schema_invalid_def)

lemma schema_ok_limits: "limit_ok (jget s ''minimum'') \<Longrightarrow> limit_ok (jget s ''maximum'') \<Longrightarrow> decided (validate_number x s p)"
  unfolding validate_number_def
  by (rule decided_rbind) (auto simp: compare_bound_def limit_ok_def)

lemma schema_ok_parts:
  assumes "schema_ok (JObj s)"
  shows "decided (rbind (case map_of s ''enum'' of None \<Rightarrow> Inr True | Some allowed \<Rightarrow> in_enum v allowed)
      (\<lambda>member. if \<not> member then Inl (SchemaValidationError m) else r)) \<longleftrightarrow> (enum_admits s v \<longrightarrow> decided r)"
    and "decided (validate_number x s p)"
    and "decided (check_required d (jget_or s ''required'' (JList [])) p)"
    and "\<exists>props. jget_or s ''properties'' (JObj []) = JObj props \<and>
      (\<forall>k. jget props k = JNull \<or> (\<exists>child. jget props k = JObj child \<and> schema_ok (JObj child)))"
    and "jget s ''items'' = JNull \<or> (\<exists>child. jget s ''items'' = JObj child \<and> schema_ok (JObj child))"
proof -
  note ok = assms [unfolded schema_ok.simps(1)]
  show "decided (validate_number x s p)" using ok by (intro schema_ok_limits) simp_all
  obtain member where member: "(case map_of s ''enum'' of None \<Rightarrow> Inr True | Some allowed \<Rightarrow> in_enum v allowed) = Inr member"
    using ok by (cases "map_of s ''enum''") (auto simp: in_enum_def split: json.splits)
  then have "enum_admits s v \<longleftrightarrow> member" unfolding enum_ok [symmetric] by simp
  then show "decided (rbind (case map_of s ''enum'' of None \<Rightarrow> Inr True | Some allowed \<Rightarrow> in_enum v allowed)
      (\<lambda>member. if \<not> member then Inl (SchemaValidationError m) else r)) \<longleftrightarrow> (enum_admits s v \<longrightarrow> decided r)"
    unfolding member by simp
  obtain ks where "jget_or s ''required'' (JList []) = JList ks"
    using ok by (cases "jget_or s ''required'' (JList [])") auto
  then show "decided (check_required d (jget_or s ''required'' (JList [])) p)"
    by (auto simp: check_required_def intro!: decided_each split: json.splits)
  have member_ok: "if k = ''items'' then w = JNull \<or> schema_ok w
       else if k = ''properties'' then (case w of JObj p \<Rightarrow> list_all (\<lambda>(name, w). w = JNull \<or> schema_ok w) p | _ \<Rightarrow> True)
       else True" if "map_of s k = Some w" for k w
    using ok map_of_SomeD [OF that] by (auto simp: list_all_iff)
  have obj: "schema_ok w \<Longrightarrow> \<exists>child. w = JObj child \<and> schema_ok (JObj child)" for w by (cases w) auto
  show "jget s ''items'' = JNull \<or> (\<exists>child. jget s ''items'' = JObj child \<and> schema_ok (JObj child))"
  proof (cases "map_of s ''items''")
    case None
    then show ?thesis by (simp add: jget_def)
  next
    case (Some w)
    with member_ok [OF Some] obj show ?thesis by (auto simp: jget_def)
  qed
  show "\<exists>props. jget_or s ''properties'' (JObj []) = JObj props \<and>
      (\<forall>k. jget props k = JNull \<or> (\<exists>child. jget props k = JObj child \<and> schema_ok (JObj child)))"
  proof (cases "map_of s ''properties''")
    case None
    then show ?thesis by (simp add: jget_or_def jget_def)
  next
    case (Some w)
    moreover have "case jget_or s ''properties'' (JObj []) of JObj p \<Rightarrow> True | _ \<Rightarrow> False" using ok by simp
    ultimately obtain props where props: "w = JObj props" by (cases w) (auto simp: jget_or_def)
    have "jget props k = JNull \<or> (\<exists>child. jget props k = JObj child \<and> schema_ok (JObj child))" for k
    proof (cases "map_of props k")
      case (Some x)
      then have "x = JNull \<or> schema_ok x"
        using member_ok [OF \<open>map_of s ''properties'' = Some w\<close>] props map_of_SomeD [OF Some] by (auto simp: list_all_iff)
      then show ?thesis using obj Some by (auto simp: jget_def)
    qed (simp add: jget_def)
    with Some props show ?thesis by (simp add: jget_or_def)
  qed
qed

lemma in_set_update: "x \<in> set (AList.update k v d) \<Longrightarrow> x = (k, v) \<or> x \<in> set d"
  by (induction d) (auto split: if_splits)

lemma schema_ok_option: "schema_ok (JObj s) \<Longrightarrow> schema_ok (JObj (AList.update ''type'' opt s))"
  unfolding schema_ok.simps(1) list_all_iff
  by (auto simp: jget_def jget_or_def dict_simps dest!: in_set_update)

lemma validate_decided: "schema_ok (JObj s) \<Longrightarrow> decided (validate v s p)"
proof (induction v s arbitrary: p rule: json_schema_induct)
  case (step v s)
  note parts = schema_ok_parts [OF step.prems]
  show ?case
  proof (cases "jget s ''type''")
    case (JList options)
    have "decided (validate v (AList.update ''type'' opt s) p)" if "opt \<in> set options" for opt
    proof (rule step.IH(2))
      show "size (jget (AList.update ''type'' opt s) ''type'') < size (jget s ''type'')"
        using size_json_member(2) [OF that] JList by (simp add: jget_def dict_simps)
    qed (rule schema_ok_option [OF step.prems])
    then show ?thesis
      by (subst validate.simps) (simp add: JList parts(1) decided_first_option)
  next
    case (JStr kind)
    have array: "decided (each (\<lambda>(index, item). validate item child (p @ ''['' @ nat_digits index @ '']'')) (enumerate 0 xs))"
      if "v = JList xs" "schema_ok (JObj child)" for xs child
      using that step.IH(1) size_json_member(3) by (intro decided_each) fastforce
    have object: "decided (each (\<lambda>(key, item). case jget props key of
          JNull \<Rightarrow> Inr ()
        | JObj child \<Rightarrow> validate item child (p @ ''.'' @ key)
        | _ \<Rightarrow> Inl (TypeError ''schema is not a mapping'')) d)"
      if "v = JObj d" "\<forall>k. jget props k = JNull \<or> (\<exists>child. jget props k = JObj child \<and> schema_ok (JObj child))" for d props
    proof (rule decided_each)
      fix m assume m: "m \<in> set d"
      obtain key item where km: "m = (key, item)" by fastforce
      from that(2) consider "jget props key = JNull" | child where "jget props key = JObj child" "schema_ok (JObj child)" by blast
      then show "decided (case m of (key, item) \<Rightarrow> case jget props key of
          JNull \<Rightarrow> Inr ()
        | JObj child \<Rightarrow> validate item child (p @ ''.'' @ key)
        | _ \<Rightarrow> Inl (TypeError ''schema is not a mapping''))"
      proof cases
        case 2
        have "decided (validate item child (p @ ''.'' @ key))"
          by (rule step.IH(1) [OF _ 2(2)]) (use size_json_member(1) m km that(1) in simp)
        with km 2(1) show ?thesis by simp
      qed (simp add: km)
    qed
    obtain props where props: "jget_or s ''properties'' (JObj []) = JObj props"
        "\<forall>k. jget props k = JNull \<or> (\<exists>child. jget props k = JObj child \<and> schema_ok (JObj child))"
      using parts(4) by blast
    have required: "decided (rbind (check_required d (jget_or s ''required'' (JList [])) p) (\<lambda>_.
        rbind (as_properties (JObj props)) (\<lambda>props. rbind (check_additional s props d p) (\<lambda>_.
        each (\<lambda>(key, item). case jget props key of
            JNull \<Rightarrow> Inr ()
          | JObj child \<Rightarrow> validate item child (p @ ''.'' @ key)
          | _ \<Rightarrow> Inl (TypeError ''schema is not a mapping'')) d))))" if "v = JObj d" for d
      using object [OF that props(2)] parts(3)
      by (intro decided_rbind) (auto simp: as_properties_def check_additional_def intro: decided_rbind)
    from parts(5) have items: "v = JList xs \<Longrightarrow> decided (case jget s ''items'' of
                    JNull \<Rightarrow> Inr ()
                  | JObj child \<Rightarrow>
                      each (\<lambda>(index, item). validate item child (p @ ''['' @ nat_digits index @ '']'')) (enumerate 0 xs)
                  | _ \<Rightarrow> if xs = [] then Inr () else Inl (TypeError ''schema is not a mapping''))" for xs
      using array by auto
    show ?thesis
      by (subst validate.simps, simp only: JStr json.case parts(1), intro impI, cases v)
        (simp_all add: parts(2) required props(1) items)
  qed (subst validate.simps, simp add: parts(1))+
qed

lemma validate_complete: "conforms v s \<Longrightarrow> schema_ok (JObj s) \<Longrightarrow> validate v s p = Inr ()"
proof (induction arbitrary: p rule: conforms.induct)
  case (array s xs)
  have "\<exists>child. jget s ''items'' = JObj child \<and> validate x child q = Inr ()"
    if "x \<in> set xs" "jget s ''items'' \<noteq> JNull" for x q
    using array.IH [OF that] schema_ok_parts(5) [OF array.prems] that(2) by auto
  then show ?case unfolding validate_array [OF array.hyps(2)] using array.hyps(1) by auto
next
  case (object s d required props)
  obtain props' where props: "jget_or s ''properties'' (JObj []) = JObj props'"
      "\<forall>k. jget props' k = JNull \<or> (\<exists>child. jget props' k = JObj child \<and> schema_ok (JObj child))"
    using schema_ok_parts(4) [OF object.prems] by blast
  have "\<exists>child. jget props k = JObj child \<and> validate x child q = Inr ()"
    if mem: "(k, x) \<in> set d" "jget props k \<noteq> JNull" for k x q
  proof -
    have "props' = props" using props(1) object.hyps(5) by simp
    then obtain child where "jget props k = JObj child" "schema_ok (JObj child)" using props(2) mem(2) by blast
    with object.IH [OF mem] show ?thesis by auto
  qed
  then show ?case unfolding validate_object [OF object.hyps(2)] using object.hyps by auto
next
  case (union s v options opt)
  have "decided (validate v (AList.update ''type'' x s) p)" for x
    by (rule validate_decided) (rule schema_ok_option [OF union.prems])
  then have "first_option (\<lambda>x. validate v (AList.update ''type'' x s) p)
      (SchemaValidationError (p @ '': value did not match any permitted type'')) options = Inr ()"
    using union.IH schema_ok_option [OF union.prems] union.hyps(3)
    by (intro first_option_total) (auto simp: decided_def)
  then show ?case unfolding validate_union [OF union.hyps(2)] using union.hyps(1) by blast
qed (auto simp: validate_scalar)

subsection \<open>Payloads of action intents\<close>

abbreviation typed :: "string \<Rightarrow> json" where
  "typed kind \<equiv> JObj [(''type'', JStr kind)]"

abbreviation strings_schema :: json where
  "strings_schema \<equiv> JObj [(''type'', JStr ''array''), (''items'', typed ''string'')]"

abbreviation cost_schema :: json where
  "cost_schema \<equiv> JObj [(''type'', JStr ''number''), (''minimum'', JInt 0)]"

abbreviation probability_schema :: json where
  "probability_schema \<equiv> JObj [(''type'', JStr ''number''), (''minimum'', JInt 0), (''maximum'', JInt 1)]"

abbreviation level_schema :: json where
  "level_schema \<equiv> JObj [(''type'', JStr ''integer''), (''enum'', JList [JInt 0, JInt 1, JInt 2, JInt 3, JInt 4])]"

definition intent_properties :: jobject where
  "intent_properties =
    [(''intent_id'', typed ''string''), (''capability'', typed ''string''), (''arguments'', typed ''object''),
     (''rationale'', typed ''string''), (''expected_value'', typed ''number''),
     (''information_value'', typed ''number''), (''risk_reduction'', typed ''number''),
     (''attention_cost'', cost_schema), (''switching_cost'', cost_schema), (''branch_cost'', cost_schema),
     (''risk'', level_schema), (''reversible'', typed ''boolean''), (''required_authority'', level_schema),
     (''confidence'', probability_schema), (''alternatives'', strings_schema), (''falsifiers'', strings_schema),
     (''idempotency_key'', JObj [(''type'', JList [JStr ''string'', JStr ''null''])]),
     (''metadata'', typed ''object'')]"

definition intent_required :: "string list" where
  "intent_required = [''intent_id'', ''capability'', ''arguments'', ''rationale'', ''expected_value'', ''information_value'',
     ''risk_reduction'', ''attention_cost'', ''switching_cost'', ''branch_cost'', ''risk'', ''reversible'',
     ''required_authority'', ''confidence'', ''alternatives'', ''falsifiers'', ''idempotency_key'', ''metadata'']"

definition ACTION_INTENT_JSON_SCHEMA :: jobject where
  "ACTION_INTENT_JSON_SCHEMA =
    [(''type'', JStr ''object''), (''properties'', JObj intent_properties),
     (''required'', JList (map JStr intent_required)), (''additionalProperties'', JBool False)]"

definition j_texts :: "builtins \<Rightarrow> jobject \<Rightarrow> string \<Rightarrow> string list result" where
  "j_texts b d k = rbind (jitem d k) (\<lambda>v. rbind (py_iter b v) (\<lambda>xs. Inr (map (py_str b) xs)))"

definition intent_from_payload :: "builtins \<Rightarrow> jobject \<Rightarrow> action_intent result" where
  "intent_from_payload b d =
     rbind (validate (JObj d) ACTION_INTENT_JSON_SCHEMA ''$'') (\<lambda>_.
     rbind (j_str b d ''capability'') (\<lambda>capability.
     rbind (rbind (jitem d ''arguments'') (py_dict b)) (\<lambda>arguments.
     rbind (j_str b d ''rationale'') (\<lambda>rationale.
     rbind (j_float b d ''expected_value'') (\<lambda>expected.
     rbind (j_float b d ''information_value'') (\<lambda>information.
     rbind (j_float b d ''risk_reduction'') (\<lambda>reduction.
     rbind (j_float b d ''attention_cost'') (\<lambda>attention.
     rbind (j_float b d ''switching_cost'') (\<lambda>switching.
     rbind (j_float b d ''branch_cost'') (\<lambda>branch.
     rbind (rbind (j_int b d ''risk'') risk_of_int) (\<lambda>risk.
     rbind (jitem d ''reversible'') (\<lambda>reversible.
     rbind (rbind (j_int b d ''required_authority'') authority_of_int) (\<lambda>authority.
     rbind (j_float b d ''confidence'') (\<lambda>confidence.
     rbind (j_texts b d ''alternatives'') (\<lambda>alternatives.
     rbind (j_texts b d ''falsifiers'') (\<lambda>falsifiers.
     rbind (rbind (jitem d ''idempotency_key'') (\<lambda>_. Inr (opt_str b d ''idempotency_key''))) (\<lambda>key.
     rbind (j_str b d ''intent_id'') (\<lambda>intent_id.
     rbind (rbind (jitem d ''metadata'') (py_dict b)) (\<lambda>metadata.
     let i = \<lparr>ai_capability = capability, ai_arguments = arguments, ai_rationale = rationale,
              ai_expected_value = expected, ai_information_value = information, ai_risk_reduction = reduction,
              ai_attention_cost = attention, ai_switching_cost = switching, ai_branch_cost = branch,
              ai_risk = risk, ai_reversible = \<not> falsy reversible, ai_required_authority = authority,
              ai_confidence = confidence, ai_alternatives = alternatives, ai_falsifiers = falsifiers,
              ai_idempotency_key = key, ai_intent_id = intent_id, ai_metadata = metadata\<rparr>
     in rbind (check_intent i) (\<lambda>_. Inr i))))))))))))))))))))"

lemma conforms_iff: "schema_ok (JObj s) \<Longrightarrow> conforms v s \<longleftrightarrow> validate v s p = Inr ()"
  using validate_sound validate_complete by blast

lemma enum_free: "map_of s ''enum'' = None \<Longrightarrow> enum_admits s v"
  by (simp add: enum_admits_def)

lemma schema_ok_simple:
  "schema_ok (typed k)" "schema_ok cost_schema" "schema_ok probability_schema" "schema_ok level_schema"
  "schema_ok strings_schema" "schema_ok (JObj [(''type'', JList ts)])"
  by (simp_all add: schema_ok.simps(1) limit_ok_def jget_def jget_or_def)

lemma conforms_simple:
  "conforms v [(''type'', JStr ''string'')] \<longleftrightarrow> is_text v"
  "conforms v [(''type'', JStr ''object'')] \<longleftrightarrow> (\<exists>d. v = JObj d)"
  "conforms v [(''type'', JStr ''boolean'')] \<longleftrightarrow> (\<exists>c. v = JBool c)"
  "conforms v [(''type'', JStr ''number'')] \<longleftrightarrow> (\<exists>n. v = JInt n) \<or> (\<exists>x. v = JFloat x)"
  using conforms_iff [OF schema_ok_simple(1), of v _ "''$''"]
  by (simp_all add: validate_scalar validate_object enum_free jget_def jget_or_def number_within_def)

lemma level_enum:
  "enum_admits [(''type'', JStr ''integer''), (''enum'', JList [JInt 0, JInt 1, JInt 2, JInt 3, JInt 4])] v \<and> (\<exists>n. v = JInt n) \<longleftrightarrow>
    (\<exists>n. v = JInt n \<and> n \<in> {0, 1, 2, 3, 4})"
  by (auto simp: enum_admits_def)

lemma conforms_bounded:
  "conforms v [(''type'', JStr ''number''), (''minimum'', JInt 0)] \<longleftrightarrow>
    (\<exists>n. v = JInt n \<and> 0 \<le> n) \<or> (\<exists>x. v = JFloat x \<and> \<not> x < 0)"
  "conforms v [(''type'', JStr ''number''), (''minimum'', JInt 0), (''maximum'', JInt 1)] \<longleftrightarrow>
    (\<exists>n. v = JInt n \<and> 0 \<le> n \<and> n \<le> 1) \<or> (\<exists>x. v = JFloat x \<and> \<not> x < 0 \<and> \<not> 1 < x)"
  "conforms v [(''type'', JStr ''integer''), (''enum'', JList [JInt 0, JInt 1, JInt 2, JInt 3, JInt 4])] \<longleftrightarrow>
    (\<exists>n. v = JInt n \<and> n \<in> {0, 1, 2, 3, 4})"
  by (simp_all add: conforms_iff [OF schema_ok_simple(2), of _ "''$''"] conforms_iff [OF schema_ok_simple(3), of _ "''$''"]
      conforms_iff [OF schema_ok_simple(4), of _ "''$''"] validate_scalar enum_free jget_def number_within_def
      pyfloat_zero_one not_less level_enum cong: conj_cong)

lemma conforms_compound:
  "conforms v [(''type'', JStr ''array''), (''items'', typed ''string'')] \<longleftrightarrow> (\<exists>xs. v = JList xs \<and> list_all is_text xs)"
  "conforms v [(''type'', JList [JStr ''string'', JStr ''null''])] \<longleftrightarrow> is_text v \<or> v = JNull"
proof -
  show "conforms v [(''type'', JStr ''array''), (''items'', typed ''string'')] \<longleftrightarrow> (\<exists>xs. v = JList xs \<and> list_all is_text xs)"
    using conforms_iff [OF schema_ok_simple(5), of v "''$''"]
    by (simp add: validate_array enum_free jget_def validate_scalar list_all_length)
  have "validate v [(''type'', JStr k)] p = Inr () \<or> schema_invalid (validate v [(''type'', JStr k)] p)" for k p
    using validate_decided [OF schema_ok_simple(1)] by (auto simp: decided_def)
  moreover have "\<not> schema_invalid (Inr ())" by (simp add: schema_invalid_def)
  ultimately have "validate v [(''type'', JList [JStr ''string'', JStr ''null''])] p = Inr () \<longleftrightarrow>
      validate v [(''type'', JStr ''string'')] p = Inr () \<or> validate v [(''type'', JStr ''null'')] p = Inr ()" for p
    by (subst validate_union [of _ "[JStr ''string'', JStr ''null'']"]) (auto simp: jget_def enum_free)
  then show "conforms v [(''type'', JList [JStr ''string'', JStr ''null''])] \<longleftrightarrow> is_text v \<or> v = JNull"
    using conforms_iff [OF schema_ok_simple(6), of v _ "''$''"] by (auto simp: validate_scalar enum_free jget_def)
qed

lemmas conforms_parts = conforms_simple conforms_bounded conforms_compound

text \<open>What the schema says of each field.\<close>

lemma schema_ok_properties: "(k, w) \<in> set intent_properties \<Longrightarrow> schema_ok w"
  by (auto simp: intent_properties_def schema_ok_simple simp del: list.map)

lemma schema_ok_intent: "schema_ok (JObj ACTION_INTENT_JSON_SCHEMA)"
  unfolding ACTION_INTENT_JSON_SCHEMA_def
  by (subst schema_ok.simps(1)) (auto simp: jget_def jget_or_def limit_ok_def list_all_iff intro: schema_ok_properties)

lemma conforms_object:
  assumes "jget s ''type'' = JStr ''object''" "map_of s ''enum'' = None" "jget_or s ''required'' (JList []) = JList (map JStr ks)"
    and "jget_or s ''properties'' (JObj []) = JObj props" "schema_ok (JObj s)"
  shows "conforms (JObj d) s \<longleftrightarrow> set ks \<subseteq> fst ` set d \<and>
    (jget s ''additionalProperties'' = JBool False \<longrightarrow> fst ` set d \<subseteq> fst ` set props) \<and>
    (\<forall>(k, v) \<in> set d. \<forall>child. jget props k = JObj child \<longrightarrow> conforms v child)"
proof -
  obtain props' where "jget_or s ''properties'' (JObj []) = JObj props'"
      "\<forall>k. jget props' k = JNull \<or> (\<exists>child. jget props' k = JObj child \<and> schema_ok (JObj child))"
    using schema_ok_parts(4) [OF assms(5)] by blast
  then have child: "jget props k \<noteq> JNull \<Longrightarrow> \<exists>child. jget props k = JObj child \<and> schema_ok (JObj child)" for k
    using assms(4) by auto
  have "(jget props k \<noteq> JNull \<longrightarrow> (\<exists>child. jget props k = JObj child \<and> validate v child p = Inr ())) \<longleftrightarrow>
      (\<forall>child. jget props k = JObj child \<longrightarrow> conforms v child)" for k v p
    using child [of k] conforms_iff by (cases "jget props k") auto
  then show ?thesis
    unfolding conforms_iff [OF assms(5), of _ "''$''"] validate_object [OF assms(1)]
    using assms(2-4) by (auto simp: enum_free image_subset_iff)
qed

lemma intent_required_keys: "map fst intent_properties = intent_required"
  by (simp add: intent_properties_def intent_required_def)

lemma conforms_intent:
  "conforms (JObj d) ACTION_INTENT_JSON_SCHEMA \<longleftrightarrow> set intent_required = fst ` set d \<and>
    (\<forall>(k, v) \<in> set d. \<forall>child. jget intent_properties k = JObj child \<longrightarrow> conforms v child)"
proof -
  have "fst ` set intent_properties = set intent_required" using intent_required_keys by (metis set_map)
  then show ?thesis
    using conforms_object [of ACTION_INTENT_JSON_SCHEMA intent_required intent_properties d] schema_ok_intent
    by (auto simp: jget_or_def jget_def ACTION_INTENT_JSON_SCHEMA_def)
qed

lemma intent_field:
  assumes "conforms (JObj d) ACTION_INTENT_JSON_SCHEMA" "map_of intent_properties k = Some (JObj child)"
  shows "\<exists>v. map_of d k = Some v \<and> conforms v child"
proof -
  have "k \<in> set intent_required" using map_of_SomeD [OF assms(2)] intent_required_keys by (metis fst_conv image_eqI set_map)
  then obtain v where v: "map_of d k = Some v" using assms(1) unfolding conforms_intent by (metis map_of_eq_None_iff not_None_eq)
  then show ?thesis
    using assms map_of_SomeD [OF v] unfolding conforms_intent by (fastforce simp: jget_def)
qed

text \<open>Reading the fields of a validated payload cannot fail.\<close>

lemma read_field:
  assumes "conforms (JObj d) ACTION_INTENT_JSON_SCHEMA"
  shows "map_of intent_properties k = Some (typed ''string'') \<Longrightarrow> \<exists>x. j_str b d k = Inr x"
    "map_of intent_properties k = Some (typed ''object'') \<Longrightarrow> \<exists>x. rbind (jitem d k) (py_dict b) = Inr x"
    "map_of intent_properties k = Some (typed ''number'') \<Longrightarrow> \<exists>x. j_float b d k = Inr x"
    "map_of intent_properties k = Some cost_schema \<Longrightarrow> \<exists>x. j_float b d k = Inr x \<and> \<not> x < 0"
    "map_of intent_properties k = Some probability_schema \<Longrightarrow> \<exists>x. j_float b d k = Inr x \<and> (x = NaN \<or> 0 \<le> x \<and> x \<le> 1)"
    "map_of intent_properties k = Some level_schema \<Longrightarrow> \<exists>x y. rbind (j_int b d k) risk_of_int = Inr x \<and> rbind (j_int b d k) authority_of_int = Inr y"
    "map_of intent_properties k = Some strings_schema \<Longrightarrow> \<exists>x. j_texts b d k = Inr x"
    "map_of intent_properties k = Some (JObj child) \<Longrightarrow> \<exists>x. jitem d k = Inr x"
proof -
  note field = intent_field [OF assms, of k]
  show "map_of intent_properties k = Some (typed ''string'') \<Longrightarrow> \<exists>x. j_str b d k = Inr x"
    using field by (auto simp: j_str_def jitem_def)
  show "map_of intent_properties k = Some (typed ''object'') \<Longrightarrow> \<exists>x. rbind (jitem d k) (py_dict b) = Inr x"
    using field by (auto simp: jitem_def py_dict_def conforms_parts)
  show "map_of intent_properties k = Some (typed ''number'') \<Longrightarrow> \<exists>x. j_float b d k = Inr x"
    using field by (auto simp: j_float_def jitem_def py_float_def conforms_parts)
  show "map_of intent_properties k = Some cost_schema \<Longrightarrow> \<exists>x. j_float b d k = Inr x \<and> \<not> x < 0"
    using field by (auto simp: j_float_def jitem_def py_float_def conforms_parts pyfloat_zero_one)
  show "\<exists>x. j_float b d k = Inr x \<and> (x = NaN \<or> 0 \<le> x \<and> x \<le> 1)"
    if prob: "map_of intent_properties k = Some probability_schema"
  proof -
    obtain v where v: "map_of d k = Some v"
      and "(\<exists>n. v = JInt n \<and> 0 \<le> n \<and> n \<le> 1) \<or> (\<exists>x. v = JFloat x \<and> \<not> x < 0 \<and> \<not> 1 < x)"
      using field [OF prob] unfolding conforms_parts by blast
    moreover have "\<not> x < 0 \<Longrightarrow> \<not> 1 < x \<Longrightarrow> x = NaN \<or> 0 \<le> x \<and> x \<le> 1" for x :: pyfloat
      by (cases x) (auto simp: pyfloat_zero_one)
    ultimately show ?thesis
      by (auto simp: j_float_def jitem_def py_float_def pyfloat_zero_one)
  qed
  show "\<exists>x y. rbind (j_int b d k) risk_of_int = Inr x \<and> rbind (j_int b d k) authority_of_int = Inr y"
    if level: "map_of intent_properties k = Some level_schema"
  proof -
    obtain n where "map_of d k = Some (JInt n)" "n \<in> {0, 1, 2, 3, 4}"
      using field [OF level] unfolding conforms_parts by blast
    then show ?thesis by (auto simp: j_int_def jitem_def py_int_def risk_of_int_def authority_of_int_def)
  qed
  show "map_of intent_properties k = Some strings_schema \<Longrightarrow> \<exists>x. j_texts b d k = Inr x"
    using field by (auto simp: j_texts_def jitem_def py_iter_def conforms_parts)
  show "map_of intent_properties k = Some (JObj child) \<Longrightarrow> \<exists>x. jitem d k = Inr x"
    using field by (auto simp: jitem_def)
qed

text \<open>
  C24: the validator decides the declarative reading of the schema language: on a well-formed schema it accepts
  exactly the values that conform to it, and every error it raises is a \<open>SchemaValidationError\<close>. For action
  intents this makes the payload type-safe: a payload that does not conform is refused by the validator, and on
  one that conforms \<open>from_payload\<close> never fails for a missing or ill-typed field, but builds the intent unless
  the capability is empty or the confidence is not a number.
\<close>

theorem payload_type_safe:
  "schema_ok (JObj ACTION_INTENT_JSON_SCHEMA) \<and>
   (schema_ok (JObj s) \<longrightarrow> (validate v s p = Inr () \<longleftrightarrow> conforms v s) \<and>
      (\<forall>e. validate v s p = Inl e \<longrightarrow> (\<exists>m. e = SchemaValidationError m))) \<and>
   (\<not> conforms (JObj d) ACTION_INTENT_JSON_SCHEMA \<longrightarrow> (\<exists>m. intent_from_payload b d = Inl (SchemaValidationError m))) \<and>
   (conforms (JObj d) ACTION_INTENT_JSON_SCHEMA \<longrightarrow>
      (\<exists>i. intent_from_payload b d = Inr i \<and> ai_capability i \<noteq> []) \<or>
      (j_str b d ''capability'' = Inr [] \<or> j_float b d ''confidence'' = Inr NaN) \<and> (\<exists>m. intent_from_payload b d = Inl (ValueError m)))"
proof -
  have errors: "\<exists>m. e = SchemaValidationError m" if "schema_ok (JObj s)" "validate v s p = Inl e" for s v p e
    using validate_decided [OF that(1), of v p] that(2) by (auto simp: decided_def schema_invalid_def split: sum.splits py_error.splits)
  note intent = conforms_iff [OF schema_ok_intent, of "JObj d" "''$''"]
  have refused: "\<exists>m. intent_from_payload b d = Inl (SchemaValidationError m)" if bad: "\<not> conforms (JObj d) ACTION_INTENT_JSON_SCHEMA"
  proof -
    obtain e where e: "validate (JObj d) ACTION_INTENT_JSON_SCHEMA ''$'' = Inl e"
      using bad intent by (cases "validate (JObj d) ACTION_INTENT_JSON_SCHEMA ''$''") auto
    with errors [OF schema_ok_intent] show ?thesis by (auto simp: intent_from_payload_def)
  qed
  have built: "(\<exists>i. intent_from_payload b d = Inr i \<and> ai_capability i \<noteq> []) \<or>
      (j_str b d ''capability'' = Inr [] \<or> j_float b d ''confidence'' = Inr NaN) \<and> (\<exists>m. intent_from_payload b d = Inl (ValueError m))"
    if ok: "conforms (JObj d) ACTION_INTENT_JSON_SCHEMA"
  proof -
    note read = read_field(1-7) [OF ok, where b = b]
    obtain capability where capability: "j_str b d ''capability'' = Inr capability"
      using read(1) [of "''capability''"] by (auto simp: intent_properties_def)
    obtain arguments where arguments: "rbind (jitem d ''arguments'') (py_dict b) = Inr arguments"
      using read(2) [of "''arguments''"] by (auto simp: intent_properties_def)
    obtain metadata where metadata: "rbind (jitem d ''metadata'') (py_dict b) = Inr metadata"
      using read(2) [of "''metadata''"] by (auto simp: intent_properties_def)
    obtain rationale where rationale: "j_str b d ''rationale'' = Inr rationale"
      using read(1) [of "''rationale''"] by (auto simp: intent_properties_def)
    obtain intent_id where intent_id: "j_str b d ''intent_id'' = Inr intent_id"
      using read(1) [of "''intent_id''"] by (auto simp: intent_properties_def)
    obtain x1 where expected: "j_float b d ''expected_value'' = Inr x1"
      using read(3) [of "''expected_value''"] by (auto simp: intent_properties_def)
    obtain x2 where information: "j_float b d ''information_value'' = Inr x2"
      using read(3) [of "''information_value''"] by (auto simp: intent_properties_def)
    obtain x3 where reduction: "j_float b d ''risk_reduction'' = Inr x3"
      using read(3) [of "''risk_reduction''"] by (auto simp: intent_properties_def)
    obtain x4 where attention: "j_float b d ''attention_cost'' = Inr x4" "\<not> x4 < 0"
      using read(4) [of "''attention_cost''"] by (auto simp: intent_properties_def)
    obtain x5 where switching: "j_float b d ''switching_cost'' = Inr x5"
      using read(4) [of "''switching_cost''"] by (auto simp: intent_properties_def)
    obtain x6 where branch: "j_float b d ''branch_cost'' = Inr x6"
      using read(4) [of "''branch_cost''"] by (auto simp: intent_properties_def)
    obtain x7 where confidence: "j_float b d ''confidence'' = Inr x7" "x7 = NaN \<or> 0 \<le> x7 \<and> x7 \<le> 1"
      using read(5) [of "''confidence''"] by (auto simp: intent_properties_def)
    obtain risk where risk: "rbind (j_int b d ''risk'') risk_of_int = Inr risk"
      using read(6) [of "''risk''"] by (auto simp: intent_properties_def)
    obtain authority where authority: "rbind (j_int b d ''required_authority'') authority_of_int = Inr authority"
      using read(6) [of "''required_authority''"] by (auto simp: intent_properties_def)
    obtain alternatives where alternatives: "j_texts b d ''alternatives'' = Inr alternatives"
      using read(7) [of "''alternatives''"] by (auto simp: intent_properties_def)
    obtain falsifiers where falsifiers: "j_texts b d ''falsifiers'' = Inr falsifiers"
      using read(7) [of "''falsifiers''"] by (auto simp: intent_properties_def)
    obtain reversible key where item: "jitem d ''reversible'' = Inr reversible" "jitem d ''idempotency_key'' = Inr key"
      using read_field(8) [OF ok, of "''reversible''"] read_field(8) [OF ok, of "''idempotency_key''"] by (auto simp: intent_properties_def)
    have "validate (JObj d) ACTION_INTENT_JSON_SCHEMA ''$'' = Inr ()" using ok intent by simp
    note fields = this capability arguments metadata rationale intent_id expected information reduction attention(1)
      switching branch confidence(1) risk authority alternatives falsifiers item
    show ?thesis
      using attention(2) confidence(2) unfolding intent_from_payload_def fields rbind_simps Let_def
      by (auto simp: check_intent_def pyfloat_zero_one)
  qed
  show ?thesis
    using schema_ok_intent conforms_iff errors refused built by blast
qed

subsection \<open>Intents that survive their payload\<close>

lemma intent_conforms:
  assumes "check_intent i = Inr ()"
  shows "conforms (JObj (intent_to_payload i)) ACTION_INTENT_JSON_SCHEMA \<longleftrightarrow> \<not> ai_switching_cost i < 0 \<and> \<not> ai_branch_cost i < 0"
proof -
  have "\<not> ai_attention_cost i < 0" "\<not> ai_confidence i < 0 \<and> \<not> 1 < ai_confidence i"
    using assms by (cases "ai_confidence i"; auto simp: check_intent_def pyfloat_zero_one)+
  moreover have "risk_int (ai_risk i) \<in> {0, 1, 2, 3, 4}" "authority_int (ai_required_authority i) \<in> {0, 1, 2, 3, 4}"
    by (cases "ai_risk i"; simp) (cases "ai_required_authority i"; simp)
  moreover have "set intent_required = fst ` set (intent_to_payload i)"
    by (auto simp: intent_required_def intent_to_payload_def)
  moreover have "is_text (json_opt JStr k) \<or> json_opt JStr k = JNull" for k
    by (cases k) simp_all
  moreover have "list_all is_text (map JStr xs)" for xs
    by (simp add: list_all_iff)
  ultimately show ?thesis
    unfolding conforms_intent
    by (simp add: intent_to_payload_def jget_def intent_properties_def conforms_parts)
qed

lemma j_texts_hit: "j_texts b ((k, JList (map JStr xs)) # d) k = Inr xs"
  by (simp add: j_texts_def jitem_def py_iter_def py_str_def comp_def)

lemma j_texts_skip: "k' \<noteq> k \<Longrightarrow> j_texts b ((k', v) # d) k = j_texts b d k"
  by (simp add: j_texts_def jitem_def)

lemma intent_collapse:
  "\<lparr>ai_capability = ai_capability i, ai_arguments = ai_arguments i, ai_rationale = ai_rationale i,
    ai_expected_value = ai_expected_value i, ai_information_value = ai_information_value i,
    ai_risk_reduction = ai_risk_reduction i, ai_attention_cost = ai_attention_cost i,
    ai_switching_cost = ai_switching_cost i, ai_branch_cost = ai_branch_cost i, ai_risk = ai_risk i,
    ai_reversible = ai_reversible i, ai_required_authority = ai_required_authority i,
    ai_confidence = ai_confidence i, ai_alternatives = ai_alternatives i, ai_falsifiers = ai_falsifiers i,
    ai_idempotency_key = ai_idempotency_key i, ai_intent_id = ai_intent_id i, ai_metadata = ai_metadata i\<rparr> = i"
  by (cases i) simp

lemma opt_str_item: "rbind (jitem d k) (\<lambda>_. Inr (opt_str b d k)) = (case map_of d k of None \<Rightarrow> Inl (KeyError k) | Some v \<Rightarrow> Inr (opt_str b d k))"
  by (simp add: jitem_def split: option.splits)

text \<open>
  C25: an intent survives its payload exactly when neither its switching cost nor its branch cost is negative. The
  constructor admits such costs and \<open>to_payload\<close> writes them, but \<open>from_payload\<close> then refuses the payload.
\<close>

theorem intent_payload_round_trip:
  assumes "check_intent i = Inr ()"
  shows "if ai_switching_cost i < 0 \<or> ai_branch_cost i < 0
    then \<exists>m. intent_from_payload b (intent_to_payload i) = Inl (SchemaValidationError m)
    else intent_from_payload b (intent_to_payload i) = Inr i"
proof (cases "ai_switching_cost i < 0 \<or> ai_branch_cost i < 0")
  case True
  then have "validate (JObj (intent_to_payload i)) ACTION_INTENT_JSON_SCHEMA ''$'' \<noteq> Inr ()"
    using intent_conforms [OF assms] conforms_iff [OF schema_ok_intent] by blast
  then have "\<exists>m. validate (JObj (intent_to_payload i)) ACTION_INTENT_JSON_SCHEMA ''$'' = Inl (SchemaValidationError m)"
    using validate_decided [OF schema_ok_intent, of "JObj (intent_to_payload i)" "''$''"]
    by (auto simp: decided_def schema_invalid_def split: sum.splits py_error.splits)
  with True show ?thesis by (auto simp: intent_from_payload_def)
next
  case False
  then have "validate (JObj (intent_to_payload i)) ACTION_INTENT_JSON_SCHEMA ''$'' = Inr ()"
    using intent_conforms [OF assms] conforms_iff [OF schema_ok_intent] by blast
  then have "intent_from_payload b (intent_to_payload i) = Inr i"
    unfolding intent_from_payload_def
    by (simp add: intent_to_payload_def codec j_texts_hit j_texts_skip opt_str_item py_dict_def assms falsy_def Let_def
        intent_collapse)
  with False show ?thesis by simp
qed

definition plain_intent :: "pyfloat \<Rightarrow> action_intent" where
  "plain_intent switching = \<lparr>ai_capability = ''mail'', ai_arguments = [], ai_rationale = [], ai_expected_value = 1,
     ai_information_value = 0, ai_risk_reduction = 0, ai_attention_cost = 1, ai_switching_cost = switching,
     ai_branch_cost = 0, ai_risk = LOW, ai_reversible = True, ai_required_authority = ACT_REVERSIBLE,
     ai_confidence = Fin (1 / 2), ai_alternatives = [], ai_falsifiers = [], ai_idempotency_key = None,
     ai_intent_id = ''i1'', ai_metadata = []\<rparr>"

lemma plain_intent_ok: "check_intent (plain_intent x) = Inr ()"
  by (simp add: check_intent_def plain_intent_def pyfloat_zero_one)

lemma intent_payload_round_trip_witness:
  "\<forall>b. intent_from_payload b (intent_to_payload (plain_intent 0)) = Inr (plain_intent 0) \<and>
    (\<exists>m. intent_from_payload b (intent_to_payload (plain_intent (- 1))) = Inl (SchemaValidationError m))"
  using intent_payload_round_trip [OF plain_intent_ok, of 0] intent_payload_round_trip [OF plain_intent_ok, of "- 1"]
  by (simp add: plain_intent_def pyfloat_zero_one)

lemma payload_type_safe_witness:
  "\<forall>b. (\<exists>m. intent_from_payload b [] = Inl (SchemaValidationError m)) \<and>
    (\<exists>i. intent_from_payload b (intent_to_payload (plain_intent 0)) = Inr i) \<and>
    (validate (JInt 3) [(''type'', JStr ''string'')] ''$'' = Inr () \<longleftrightarrow> conforms (JInt 3) [(''type'', JStr ''string'')])"
proof -
  have "\<not> conforms (JObj []) ACTION_INTENT_JSON_SCHEMA"
    by (simp add: conforms_intent intent_required_def)
  moreover have "conforms (JObj (intent_to_payload (plain_intent 0))) ACTION_INTENT_JSON_SCHEMA"
    using intent_conforms [OF plain_intent_ok, of 0] by (simp add: plain_intent_def pyfloat_zero_one)
  moreover have "j_str b (intent_to_payload (plain_intent 0)) ''capability'' \<noteq> Inr []"
      "j_float b (intent_to_payload (plain_intent 0)) ''confidence'' \<noteq> Inr NaN" for b
    by (simp_all add: intent_to_payload_def codec plain_intent_def)
  ultimately show ?thesis
    using payload_type_safe [of "[]" "JNull" "[]" "[]"] payload_type_safe [of "[(''type'', JStr ''string'')]" "JInt 3" "''$''" "intent_to_payload (plain_intent 0)"]
      schema_ok_simple(1) by blast
qed

end
