(* ===== verification/Reasoning.thy ===== *)
theory Reasoning
  imports Authority Situation
begin

section \<open>Reasoning and review\<close>

text \<open>
  Models \<^verbatim>\<open>src/noema/reasoning.py\<close> and the capability results of \<^verbatim>\<open>capabilities.py\<close>. A reasoner, a rule and a critic are
  functions that return a value or raise; that they may be coroutines is not visible here, except that the
  reasoners of a composite run side by side: they share no state, so their results are those of any order.
\<close>

subsection \<open>Values\<close>

datatype cognitive_mode = OBSERVE | EXPAND | STRUCTURE | FORMALIZE | FALSIFY | OPERATIONALIZE | GOVERN | REOPEN | RESTORE

primrec mode_value :: "cognitive_mode \<Rightarrow> string" where
  "mode_value OBSERVE = ''observe''"
| "mode_value EXPAND = ''expand''"
| "mode_value STRUCTURE = ''structure''"
| "mode_value FORMALIZE = ''formalize''"
| "mode_value FALSIFY = ''falsify''"
| "mode_value OPERATIONALIZE = ''operationalize''"
| "mode_value GOVERN = ''govern''"
| "mode_value REOPEN = ''reopen''"
| "mode_value RESTORE = ''restore''"

definition all_modes :: "cognitive_mode list" where
  "all_modes = [OBSERVE, EXPAND, STRUCTURE, FORMALIZE, FALSIFY, OPERATIONALIZE, GOVERN, REOPEN, RESTORE]"

definition mode_of :: "string \<Rightarrow> cognitive_mode result" where
  "mode_of = enum_of mode_value all_modes"

record hypothesis =
  hy_statement :: string
  hy_probability :: pyfloat
  hy_evidence_for :: "string list"
  hy_evidence_against :: "string list"
  hy_falsifiers :: "string list"

definition check_hypothesis :: "hypothesis \<Rightarrow> unit result" where
  "check_hypothesis h = raise_first
     [(\<not> (0 \<le> hy_probability h \<and> hy_probability h \<le> 1), ValueError ''hypothesis probability must be between 0 and 1'')]"

record deliberation_request =
  dq_agent_id :: string
  dq_trigger :: "jobject event"
  dq_situation :: situation
  dq_capabilities :: "capability_spec list"
  dq_attention_available :: pyfloat
  dq_metadata :: jobject

record deliberation_result =
  dr_intents :: "action_intent list"
  dr_hypotheses :: "hypothesis list"
  dr_alternatives :: "string list"
  dr_modes :: "cognitive_mode list"
  dr_notes :: "string list"
  dr_confidence :: pyfloat

record critique =
  cq_approved :: bool
  cq_reason :: string
  cq_confidence_delta :: pyfloat
  cq_revised_intent :: "action_intent option"

record intent_review =
  iv_original :: action_intent
  iv_final :: "action_intent option"
  iv_critiques :: "critique list"

definition review_approved :: "intent_review \<Rightarrow> bool" where
  "review_approved r = (iv_final r \<noteq> None)"

record decision_trace =
  dt_request :: deliberation_request
  dt_result :: deliberation_result
  dt_reviews :: "intent_review list"
  dt_started_at :: datetime
  dt_finished_at :: datetime

definition accepted_intents :: "decision_trace \<Rightarrow> action_intent list" where
  "accepted_intents t = List.map_filter iv_final (dt_reviews t)"

record capability_result =
  cr_success :: bool
  cr_output :: jobject
  cr_facts :: jobject
  cr_events :: "jobject event list"
  cr_error :: "string option"
  cr_retryable :: bool

definition result_ok :: "jobject \<Rightarrow> jobject \<Rightarrow> jobject event list \<Rightarrow> capability_result" where
  "result_ok out facts es = \<lparr>cr_success = True, cr_output = out, cr_facts = facts, cr_events = es,
     cr_error = None, cr_retryable = False\<rparr>"

definition result_fail :: "string \<Rightarrow> bool \<Rightarrow> capability_result" where
  "result_fail err retryable = \<lparr>cr_success = False, cr_output = [], cr_facts = [], cr_events = [],
     cr_error = Some err, cr_retryable = retryable\<rparr>"

record action_outcome =
  ao_intent :: action_intent
  ao_result :: capability_result
  ao_attempts :: int
  ao_started_at :: datetime
  ao_finished_at :: datetime

type_synonym reasoner = "deliberation_request \<Rightarrow> deliberation_result result"
type_synonym critic = "action_intent \<Rightarrow> deliberation_request \<Rightarrow> critique result"
type_synonym reflection = "action_outcome \<Rightarrow> deliberation_request \<Rightarrow> jobject event list result"

subsection \<open>Reasoners\<close>

text \<open>A rule answers \<open>None\<close>, one intent or a sequence of them; the last two are a list here.\<close>

type_synonym rule = "deliberation_request \<Rightarrow> action_intent list option result"

fun apply_rules :: "rule list \<Rightarrow> deliberation_request \<Rightarrow> action_intent list result" where
  "apply_rules [] q = Inr []"
| "apply_rules (r # rs) q = rbind (r q) (\<lambda>answer. rbind (apply_rules rs q) (\<lambda>is.
     Inr (case answer of None \<Rightarrow> is | Some js \<Rightarrow> js @ is)))"

definition rule_modes :: "action_intent list \<Rightarrow> cognitive_mode list" where
  "rule_modes is = [OBSERVE] @ (if length is > 1 then [EXPAND, STRUCTURE] else []) @ (if is \<noteq> [] then [OPERATIONALIZE] else [])"

text \<open>\<open>max(..., default=0.5)\<close> keeps the first of equal values.\<close>

definition best_confidence :: "action_intent list \<Rightarrow> pyfloat" where
  "best_confidence is = (case map ai_confidence is of [] \<Rightarrow> Fin (1/2) | c # cs \<Rightarrow> foldl py_max c cs)"

definition rule_based :: "rule list \<Rightarrow> reasoner" where
  "rule_based rules q = rbind (apply_rules rules q) (\<lambda>is.
     Inr \<lparr>dr_intents = is, dr_hypotheses = [], dr_alternatives = [], dr_modes = rule_modes is, dr_notes = [],
          dr_confidence = best_confidence is\<rparr>)"

text \<open>
  The key under which \<open>_deduplicate_intents\<close> finds an intent again: \<open>repr\<close> of the sorted arguments tells apart
  what the JSON values tell apart.
\<close>

definition intent_key :: "action_intent \<Rightarrow> string \<times> string option \<times> jobject" where
  "intent_key i = (ai_capability i, ai_idempotency_key i, sort_key fst (ai_arguments i))"

fun dedup_intents :: "(string \<times> string option \<times> jobject) list \<Rightarrow> action_intent list \<Rightarrow> action_intent list" where
  "dedup_intents seen [] = []"
| "dedup_intents seen (i # is) =
     (if intent_key i \<in> set seen then dedup_intents seen is else i # dedup_intents (intent_key i # seen) is)"

definition deduplicate_intents :: "action_intent list \<Rightarrow> action_intent list" where
  "deduplicate_intents is = dedup_intents [] is"

text \<open>Appends the modes that are not there yet; \<open>dict.fromkeys\<close> keeps first occurrences.\<close>

definition add_new :: "'a list \<Rightarrow> 'a list \<Rightarrow> 'a list" where
  "add_new xs ys = foldl (\<lambda>acc y. if y \<in> set acc then acc else acc @ [y]) xs ys"

definition merge_results :: "deliberation_result list \<Rightarrow> deliberation_result result" where
  "merge_results rs =
     (let is = concat (map dr_intents rs);
          modes = add_new [OBSERVE, EXPAND] (concat (map dr_modes rs));
          modes' = (if is \<noteq> [] \<and> OPERATIONALIZE \<notin> set modes then modes @ [OPERATIONALIZE] else modes)
      in rbind (py_div (py_sum (map dr_confidence rs)) (Fin (of_nat (length rs)))) (\<lambda>confidence.
         Inr \<lparr>dr_intents = deduplicate_intents is, dr_hypotheses = concat (map dr_hypotheses rs),
              dr_alternatives = add_new [] (concat (map dr_alternatives rs)), dr_modes = modes',
              dr_notes = concat (map dr_notes rs), dr_confidence = confidence\<rparr>))"

definition composite :: "reasoner list \<Rightarrow> reasoner result" where
  "composite reasoners =
     (if reasoners = [] then Inl (ValueError ''CompositeReasoner requires at least one reasoner'')
      else Inr (\<lambda>q. rbind (mapM (\<lambda>r. r q) reasoners) merge_results))"

subsection \<open>Critics\<close>

definition approve :: "string \<Rightarrow> critique" where
  "approve reason = \<lparr>cq_approved = True, cq_reason = reason, cq_confidence_delta = 0, cq_revised_intent = None\<rparr>"

definition disapprove :: "string \<Rightarrow> critique" where
  "disapprove reason = (approve reason)\<lparr>cq_approved := False\<rparr>"

definition net_value :: "action_intent \<Rightarrow> pyfloat" where
  "net_value i = (ai_expected_value i + ai_information_value i + ai_risk_reduction i)
     - (ai_attention_cost i + ai_switching_cost i + ai_branch_cost i)"

definition opportunity_cost_critic :: "pyfloat \<Rightarrow> critic" where
  "opportunity_cost_critic minimum_net_value i q = Inr
     (if minimum_net_value \<le> net_value i then approve ''net modeled value meets threshold''
      else disapprove ''net modeled value is below threshold'')"

definition falsification_critic :: "risk_level \<Rightarrow> critic" where
  "falsification_critic from_risk i q = Inr
     (if ai_risk i < from_risk \<or> ai_falsifiers i \<noteq> [] then approve ''falsification requirement satisfied''
      else disapprove ''consequential action has no explicit falsifier'')"

definition capability_existence_critic :: critic where
  "capability_existence_critic i q = Inr
     (if ai_capability i \<in> set (map cs_name (dq_capabilities q)) then approve ''capability is available''
      else disapprove ''capability is not available'')"

subsection \<open>The controller\<close>

text \<open>\<open>replace(current, confidence=...)\<close> runs the checks of the constructor again.\<close>

definition with_confidence :: "action_intent \<Rightarrow> pyfloat \<Rightarrow> action_intent result" where
  "with_confidence i delta =
     (let j = i\<lparr>ai_confidence := py_min 1 (py_max 0 (ai_confidence i + delta))\<rparr>
      in rbind (check_intent j) (\<lambda>_. Inr j))"

definition revised :: "action_intent \<Rightarrow> critique \<Rightarrow> action_intent result" where
  "revised i c = (case cq_revised_intent c of
     Some j \<Rightarrow> Inr j
   | None \<Rightarrow> if cq_confidence_delta c \<noteq> 0 then with_confidence i (cq_confidence_delta c) else Inr i)"

fun review_intent ::
  "critic list \<Rightarrow> deliberation_request \<Rightarrow> action_intent \<Rightarrow> (action_intent option \<times> critique list) result" where
  "review_intent [] q i = Inr (Some i, [])"
| "review_intent (critic # cs) q i =
     rbind (critic i q) (\<lambda>c.
     if \<not> cq_approved c then Inr (None, [c])
     else rbind (revised i c) (\<lambda>j.
          rbind (review_intent cs q j) (\<lambda>(final, critiques). Inr (final, c # critiques))))"

definition review :: "critic list \<Rightarrow> deliberation_request \<Rightarrow> action_intent \<Rightarrow> intent_review result" where
  "review critics q i = rbind (review_intent critics q i) (\<lambda>(final, critiques).
     Inr \<lparr>iv_original = i, iv_final = final, iv_critiques = critiques\<rparr>)"

record controller =
  ctl_reasoner :: reasoner
  ctl_critics :: "critic list"
  ctl_reflect :: "reflection option"

definition deliberate ::
  "controller \<Rightarrow> datetime \<Rightarrow> datetime \<Rightarrow> deliberation_request \<Rightarrow> decision_trace result" where
  "deliberate ctl started finished q =
     rbind (ctl_reasoner ctl q) (\<lambda>res.
     rbind (mapM (review (ctl_critics ctl) q) (dr_intents res)) (\<lambda>reviews.
     Inr \<lparr>dt_request = q, dt_result = res, dt_reviews = reviews, dt_started_at = started, dt_finished_at = finished\<rparr>))"

definition reflect :: "controller \<Rightarrow> reflection" where
  "reflect ctl outcome q = (case ctl_reflect ctl of None \<Rightarrow> Inr [] | Some f \<Rightarrow> f outcome q)"

subsection \<open>What a review guarantees\<close>

lemma review_intent_chain:
  assumes "review_intent cs q i = Inr (final, critiques)"
  shows "length critiques \<le> length cs" "final = None \<longleftrightarrow> critiques \<noteq> [] \<and> \<not> cq_approved (last critiques)"
    "list_all cq_approved (butlast critiques)" "final \<noteq> None \<longrightarrow> length critiques = length cs"
  using assms
proof (induction cs q i arbitrary: final critiques rule: review_intent.induct)
  case (2 critic cs q i)
  {
    case 1
    with 2 show ?case by (auto simp: rbind_Inr_iff split: if_splits)
  next
    case 2
    with "2.IH"(2) "2.IH"(4) show ?case
      by (fastforce simp: rbind_Inr_iff split: if_splits)
  next
    case 3
    with "2.IH"(3) show ?case by (fastforce simp: rbind_Inr_iff split: if_splits)
  next
    case 4
    with "2.IH"(4) show ?case by (fastforce simp: rbind_Inr_iff split: if_splits)
  }
qed auto

text \<open>A critic that only judges leaves the intent as it is.\<close>

definition judging :: "critic \<Rightarrow> bool" where
  "judging critic \<longleftrightarrow> (\<forall>i q c. critic i q = Inr c \<longrightarrow> cq_revised_intent c = None \<and> cq_confidence_delta c = 0)"

lemma builtin_critics_judge:
  "judging (opportunity_cost_critic m)" "judging (falsification_critic r)" "judging capability_existence_critic"
  by (auto simp: judging_def opportunity_cost_critic_def falsification_critic_def capability_existence_critic_def
      approve_def disapprove_def)

lemma judging_revised: "judging critic \<Longrightarrow> critic i q = Inr c \<Longrightarrow> revised i c = Inr i"
  by (auto simp: revised_def judging_def)

lemma review_intent_judged:
  assumes "review_intent cs q i = Inr (final, critiques)" "\<forall>c \<in> set cs. judging c"
  shows "case final of
      Some j \<Rightarrow> j = i \<and> (\<forall>critic \<in> set cs. \<exists>c. critic i q = Inr c \<and> cq_approved c)
    | None \<Rightarrow> \<exists>critic \<in> set cs. \<exists>c. critic i q = Inr c \<and> \<not> cq_approved c"
  using assms
proof (induction cs arbitrary: critiques)
  case (Cons critic cs)
  obtain c where c: "critic i q = Inr c" using Cons.prems(1) by (auto simp: rbind_Inr_iff)
  show ?case
  proof (cases "cq_approved c")
    case True
    have "revised i c = Inr i" using Cons.prems(2) c by (auto intro: judging_revised)
    with Cons.prems(1) c True obtain ks where "review_intent cs q i = Inr (final, ks)" by (auto simp: rbind_Inr_iff)
    with Cons.IH Cons.prems(2) have "case final of
        Some j \<Rightarrow> j = i \<and> (\<forall>critic \<in> set cs. \<exists>c. critic i q = Inr c \<and> cq_approved c)
      | None \<Rightarrow> \<exists>critic \<in> set cs. \<exists>c. critic i q = Inr c \<and> \<not> cq_approved c" by simp
    with c True show ?thesis by (cases final) auto
  next
    case False
    with Cons.prems(1) c show ?thesis by auto
  qed
qed auto

definition revises_validly :: "critic \<Rightarrow> bool" where
  "revises_validly critic \<longleftrightarrow>
     (\<forall>i q c k. critic i q = Inr c \<longrightarrow> cq_revised_intent c = Some k \<longrightarrow> check_intent k = Inr ())"

lemma review_keeps_valid:
  assumes "review_intent cs q i = Inr (Some j, critiques)" "check_intent i = Inr ()" "\<forall>c \<in> set cs. revises_validly c"
  shows "check_intent j = Inr ()"
  using assms
proof (induction cs arbitrary: i critiques)
  case (Cons critic cs)
  then obtain c i' ks where c: "critic i q = Inr c" "revised i c = Inr i'" "review_intent cs q i' = Inr (Some j, ks)"
    by (auto simp: rbind_Inr_iff split: if_splits)
  have "revises_validly critic" using Cons.prems(3) by simp
  then have "check_intent i' = Inr ()"
    using c(1,2) Cons.prems(2)
    by (auto simp: revised_def with_confidence_def revises_validly_def Let_def rbind_Inr_iff split: option.splits if_splits)
  with Cons.IH c(3) Cons.prems(3) show ?case by simp
qed auto

end
