(* ===== verification/Agent.thy ===== *)
theory Agent
  imports Reasoning Schema Attention Fnmatch Commands
begin

section \<open>The autonomous agent\<close>

text \<open>
  Models \<^verbatim>\<open>src/noema/agent.py\<close>: the intake of events, one cycle from a trigger through deliberation, allocation,
  authorisation and execution to reflection, and the recovery of unfinished actions at the start. The kernel is
  an argument (what the agent calls of it), and so are the capabilities, whose answer may depend on the moment of
  the call. The tasks that execute the actions of a cycle interleave at their awaits: a task is a state machine
  whose steps are the code between two awaits, and a schedule is any sequence of such steps. Tracing, telemetry,
  sleeping between attempts and the cancellation of tasks are left out.
\<close>

subsection \<open>Configuration and state\<close>

record agent_config =
  gc_agent_id :: string
  gc_trigger_patterns :: "string list"
  gc_ignored_patterns :: "string list"
  gc_workers :: int
  gc_max_concurrent_actions :: int
  gc_max_actions_per_cycle :: int
  gc_attention_capacity :: pyfloat
  gc_attention_budget_per_cycle :: pyfloat
  gc_retry_jitter_fraction :: pyfloat
  gc_processed_event_cache :: int

definition check_config :: "agent_config \<Rightarrow> unit result" where
  "check_config c = raise_first
     [(gc_agent_id c = [], ValueError ''agent_id must be non-empty''),
      (gc_workers c \<le> 0, ValueError ''workers must be positive''),
      (gc_max_concurrent_actions c \<le> 0, ValueError ''max_concurrent_actions must be positive''),
      (gc_max_actions_per_cycle c \<le> 0, ValueError ''max_actions_per_cycle must be positive''),
      (gc_attention_capacity c \<le> 0 \<or> gc_attention_budget_per_cycle c \<le> 0, ValueError ''attention budgets must be positive''),
      (\<not> (0 \<le> gc_retry_jitter_fraction c \<and> gc_retry_jitter_fraction c \<le> 1),
       ValueError ''retry_jitter_fraction must be between 0 and 1'')]"

record capability_context =
  cx_agent_id :: string
  cx_trigger :: "jobject event"
  cx_situation :: situation
  cx_attempt :: int
  cx_idempotency_key :: "string option"

text \<open>How an attempt ends: with a result, by \<open>asyncio.timeout\<close>, or with an exception, given by its \<open>repr\<close>.\<close>

datatype attempt = Returned capability_result | Timed_out | Raised string

record capability_code =
  cc_invoke :: "nat \<Rightarrow> jobject \<Rightarrow> capability_context \<Rightarrow> attempt"
  cc_compensate :: "nat \<Rightarrow> jobject \<Rightarrow> capability_result \<Rightarrow> capability_context \<Rightarrow> capability_result result"

record 'k agent_env =
  ge_config :: agent_config
  ge_builtins :: builtins
  ge_emit :: "datetime \<Rightarrow> 'k \<Rightarrow> jobject event \<Rightarrow> jobject event result \<times> 'k"
  ge_snapshot :: "'k \<Rightarrow> datetime \<Rightarrow> situation"
  ge_history :: "'k \<Rightarrow> string list \<Rightarrow> jobject event list result"
  ge_controller :: controller
  ge_capabilities :: "capability_code capabilities"
  ge_policy :: "situation policy_engine"
  ge_weights :: attention_weights
  ge_uuid :: "nat \<Rightarrow> string"
  ge_clock :: "nat \<Rightarrow> datetime"
  ge_repr :: "py_error \<Rightarrow> string"

text \<open>
  \<open>an_trace\<close> records what the agent does to its surroundings, in order: the events it hands to the kernel and the
  kernel accepts, and the capabilities it invokes. The code keeps no such list.
\<close>

datatype deed = Emitted "jobject event" | Called action_intent

record 'k agent =
  an_kernel :: 'k
  an_attention :: account
  an_queue :: "(int \<times> int \<times> jobject event option) list"
  an_counter :: int
  an_seen :: "string list"
  an_ledger :: "(string \<times> capability_result) list"
  an_active :: int
  an_ticks :: nat
  an_trace :: "deed list"

definition new_agent :: "'k agent_env \<Rightarrow> 'k \<Rightarrow> 'k agent result" where
  "new_agent env k =
     rbind (check_config (ge_config env)) (\<lambda>_.
     rbind (new_account (gc_attention_capacity (ge_config env))) (\<lambda>account.
     Inr \<lparr>an_kernel = k, an_attention = account, an_queue = [], an_counter = 0, an_seen = [], an_ledger = [],
          an_active = 0, an_ticks = 0, an_trace = []\<rparr>))"

type_synonym ('k, 'a) act = "('k agent, 'a) stateful"

text \<open>A moment: the next reading of the clock and of \<open>uuid4\<close>.\<close>

definition tick :: "('k, nat) act" where
  "tick = (\<lambda>a. (Inr (an_ticks a), a\<lparr>an_ticks := an_ticks a + 1\<rparr>))"

definition emit_raw :: "'k agent_env \<Rightarrow> jobject event \<Rightarrow> ('k, jobject event) act" where
  "emit_raw env e = cbind tick (\<lambda>n a. case ge_emit env (ge_clock env n) (an_kernel a) e of
     (Inl err, k) \<Rightarrow> (Inl err, a\<lparr>an_kernel := k\<rparr>)
   | (Inr stored, k) \<Rightarrow> (Inr stored, a\<lparr>an_kernel := k, an_trace := an_trace a @ [Emitted e]\<rparr>))"

definition emit_new ::
  "'k agent_env \<Rightarrow> string \<Rightarrow> string \<Rightarrow> string option \<Rightarrow> string option \<Rightarrow> jobject \<Rightarrow> ('k, jobject event) act" where
  "emit_new env ty subject correlation causation payload = cbind tick (\<lambda>n.
     let e = \<lparr>ev_type = ty, ev_source = gc_agent_id (ge_config env), ev_payload = payload, ev_subject = Some subject,
              ev_id = ge_uuid env n, ev_timestamp = ge_clock env n, ev_correlation_id = correlation,
              ev_causation_id = causation, ev_priority = 0, ev_sequence = None, ev_metadata = [],
              ev_schema_version = CURRENT_EVENT_SCHEMA_VERSION\<rparr>
     in cbind (pure_result (check_event e)) (\<lambda>_. emit_raw env e))"

primrec emit_each :: "'k agent_env \<Rightarrow> jobject event result list \<Rightarrow> ('k, unit) act" where
  "emit_each env [] = pure_result (Inr ())"
| "emit_each env (r # rs) = cbind (pure_result r) (\<lambda>e. cbind (emit_raw env e) (\<lambda>_. emit_each env rs))"

definition correlation_of :: "jobject event \<Rightarrow> string option" where
  "correlation_of trigger = Some (str_or (ev_correlation_id trigger) (ev_id trigger))"

subsection \<open>Taking events in\<close>

definition material :: "agent_config \<Rightarrow> jobject event \<Rightarrow> bool" where
  "material c e = (if list_ex (\<lambda>p. glob p (ev_type e)) (gc_ignored_patterns c) then False
     else list_ex (\<lambda>p. glob p (ev_type e)) (gc_trigger_patterns c))"

text \<open>\<open>while len(order) > cache: order.popleft()\<close>\<close>

definition trim_seen :: "agent_config \<Rightarrow> string list \<Rightarrow> string list" where
  "trim_seen c seen = drop (length seen - nat (gc_processed_event_cache c)) seen"

definition on_event :: "'k agent_env \<Rightarrow> jobject event \<Rightarrow> 'k agent \<Rightarrow> 'k agent" where
  "on_event env e a =
     (if \<not> material (ge_config env) e then a
      else if ev_id e \<in> set (an_seen a) then a
      else a\<lparr>an_seen := trim_seen (ge_config env) (an_seen a @ [ev_id e]), an_counter := an_counter a + 1,
             an_queue := an_queue a @ [(- ev_priority e, an_counter a + 1, Some e)]\<rparr>)"

text \<open>The priority queue yields the entry with the least priority and counter; counters differ.\<close>

definition entry_before :: "int \<times> int \<times> 'e \<Rightarrow> int \<times> int \<times> 'e \<Rightarrow> bool" where
  "entry_before x y \<longleftrightarrow> fst x < fst y \<or> fst x = fst y \<and> fst (snd x) \<le> fst (snd y)"

fun least_entry :: "(int \<times> int \<times> 'e) list \<Rightarrow> (int \<times> int \<times> 'e) option" where
  "least_entry [] = None"
| "least_entry (x # xs) = (case least_entry xs of None \<Rightarrow> Some x | Some y \<Rightarrow> Some (if entry_before x y then x else y))"

definition take_entry :: "(int \<times> int \<times> 'e) list \<Rightarrow> (int \<times> int \<times> 'e) \<Rightarrow> (int \<times> int \<times> 'e) list" where
  "take_entry q x = filter (\<lambda>y. fst (snd y) \<noteq> fst (snd x)) q"

subsection \<open>Deliberation and allocation\<close>

definition deliberation_request_of ::
  "'k agent_env \<Rightarrow> 'k agent \<Rightarrow> situation \<Rightarrow> jobject event \<Rightarrow> jobject \<Rightarrow> deliberation_request" where
  "deliberation_request_of env a si trigger metadata =
     \<lparr>dq_agent_id = gc_agent_id (ge_config env), dq_trigger = trigger, dq_situation = si,
      dq_capabilities = capability_specs (ge_capabilities env),
      dq_attention_available = py_min (ac_available (an_attention a)) (gc_attention_budget_per_cycle (ge_config env)),
      dq_metadata = metadata\<rparr>"

definition critique_json :: "critique \<Rightarrow> json" where
  "critique_json c = JObj [(''approved'', JBool (cq_approved c)), (''reason'', JStr (cq_reason c))]"

definition review_json :: "intent_review \<Rightarrow> json" where
  "review_json r = JObj [(''intent_id'', JStr (ai_intent_id (iv_original r))), (''approved'', JBool (review_approved r)),
     (''critiques'', JList (map critique_json (iv_critiques r)))]"

definition hypothesis_json :: "hypothesis \<Rightarrow> json" where
  "hypothesis_json h = JObj [(''statement'', JStr (hy_statement h)), (''probability'', JFloat (hy_probability h)),
     (''falsifiers'', JStrs (hy_falsifiers h))]"

definition trace_payload :: "decision_trace \<Rightarrow> jobject" where
  "trace_payload t =
     [(''trigger_type'', JStr (ev_type (dq_trigger (dt_request t)))),
      (''modes'', JStrs (map mode_value (dr_modes (dt_result t)))),
      (''proposed'', JInt (int (length (dr_intents (dt_result t))))),
      (''intents'', JList (map (\<lambda>i. JObj (intent_to_payload i)) (dr_intents (dt_result t)))),
      (''accepted_after_critique'', JInt (int (length (accepted_intents t)))),
      (''hypotheses'', JList (map hypothesis_json (dr_hypotheses (dt_result t)))),
      (''reviews'', JList (map review_json (dt_reviews t))),
      (''duration_seconds'', JFloat (total_seconds (instant (dt_finished_at t) - instant (dt_started_at t))))]"

definition emit_decision_trace :: "'k agent_env \<Rightarrow> decision_trace \<Rightarrow> ('k, unit) act" where
  "emit_decision_trace env t =
     (let trigger = dq_trigger (dt_request t) in
      cbind (emit_new env ''decision.proposed'' (gc_agent_id (ge_config env)) (correlation_of trigger)
        (Some (ev_id trigger)) (trace_payload t)) (\<lambda>_. pure_result (Inr ())))"

text \<open>\<open>float(v) if isinstance(v, (int, float)) else 0.0\<close>, and the deadline when it is a string.\<close>

definition metadata_number :: "jobject \<Rightarrow> string \<Rightarrow> pyfloat" where
  "metadata_number d k = (case number_of (jget_or d k (JFloat 0)) of Some x \<Rightarrow> x | None \<Rightarrow> 0)"

definition metadata_deadline :: "builtins \<Rightarrow> jobject \<Rightarrow> datetime option result" where
  "metadata_deadline b d = (case jget d ''deadline'' of
     JTime t \<Rightarrow> Inr (Some t)
   | JStr s \<Rightarrow> rbind (bi_fromiso b s) (\<lambda>t. Inr (Some t))
   | _ \<Rightarrow> Inr None)"

definition intent_to_work_item :: "builtins \<Rightarrow> action_intent \<Rightarrow> action_intent work_item result" where
  "intent_to_work_item b i =
     rbind (metadata_deadline b (ai_metadata i)) (\<lambda>deadline.
     Inr \<lparr>wi_key = ai_intent_id i, wi_impact = ai_expected_value i, wi_urgency = metadata_number (ai_metadata i) ''urgency'',
          wi_information_value = ai_information_value i, wi_risk_reduction = ai_risk_reduction i,
          wi_maintenance_value = metadata_number (ai_metadata i) ''maintenance_value'',
          wi_attention_cost = ai_attention_cost i, wi_switching_cost = ai_switching_cost i,
          wi_branch_cost = ai_branch_cost i, wi_deadline = deadline, wi_payload = i\<rparr>)"

definition allocate :: "'k agent_env \<Rightarrow> action_intent list \<Rightarrow> ('k, action_intent list) act" where
  "allocate env is = cbind tick (\<lambda>n a.
     (rbind (mapM (intent_to_work_item (ge_builtins env)) is) (\<lambda>items.
      rbind (select (ge_weights env) (ge_clock env n) items
        (py_min (ac_available (an_attention a)) (gc_attention_budget_per_cycle (ge_config env)))) (\<lambda>chosen.
      Inr (map wi_payload (take (nat (gc_max_actions_per_cycle (ge_config env))) chosen)))), a))"

subsection \<open>Executing one action\<close>

datatype phase =
    Waiting                                         \<comment> \<open>for the semaphore, with its lease\<close>
  | Skipping
  | Dispatching
  | Starting "jobject event"                        \<comment> \<open>the dispatched event\<close>
  | Attempting "jobject event" datetime int capability_result
  | Reporting "jobject event" datetime action_outcome
  | Publishing "jobject event" "(string \<times> json) list" "jobject event list" action_outcome
  | Compensating "jobject event" action_outcome
  | Finished "action_outcome option"
  | Failed py_error

record task =
  tk_intent :: action_intent
  tk_request :: deliberation_request
  tk_authorization :: "jobject event"
  tk_lease :: attention_lease
  tk_phase :: phase

definition task_done :: "task \<Rightarrow> bool" where
  "task_done t = (case tk_phase t of Finished _ \<Rightarrow> True | Failed _ \<Rightarrow> True | _ \<Rightarrow> False)"

definition task_context :: "'k agent_env \<Rightarrow> task \<Rightarrow> int \<Rightarrow> capability_context" where
  "task_context env t attempt = \<lparr>cx_agent_id = gc_agent_id (ge_config env), cx_trigger = dq_trigger (tk_request t),
     cx_situation = dq_situation (tk_request t), cx_attempt = attempt, cx_idempotency_key = ai_idempotency_key (tk_intent t)\<rparr>"

definition key_json :: "task \<Rightarrow> string \<times> json" where
  "key_json t = (''idempotency_key'', json_opt JStr (ai_idempotency_key (tk_intent t)))"

definition task_emit :: "'k agent_env \<Rightarrow> task \<Rightarrow> string \<Rightarrow> string option \<Rightarrow> string \<Rightarrow> jobject \<Rightarrow> ('k, jobject event) act" where
  "task_emit env t ty correlation causation payload =
     emit_new env ty (ai_intent_id (tk_intent t)) correlation (Some causation) payload"

definition ledger_success :: "'k agent \<Rightarrow> string option \<Rightarrow> bool" where
  "ledger_success a key = (case key of None \<Rightarrow> False
     | Some k \<Rightarrow> (case map_of (an_ledger a) k of None \<Rightarrow> False | Some r \<Rightarrow> cr_success r))"

text \<open>Entering the semaphore and the look at the ledger, up to the first await of \<open>_execute_intent\<close>.\<close>

definition enter_task :: "'k agent_env \<Rightarrow> task \<Rightarrow> 'k agent \<Rightarrow> phase result \<times> 'k agent" where
  "enter_task env t a =
     (if gc_max_concurrent_actions (ge_config env) \<le> an_active a then (Inr Waiting, a)
      else (rbind (get_capability (ge_capabilities env) (ai_capability (tk_intent t))) (\<lambda>_.
              Inr (if ledger_success a (ai_idempotency_key (tk_intent t)) then Skipping else Dispatching)),
            a\<lparr>an_active := an_active a + 1\<rparr>))"

definition skip_task :: "'k agent_env \<Rightarrow> task \<Rightarrow> ('k, phase) act" where
  "skip_task env t =
     cbind (task_emit env t ''action.skipped'' (ev_correlation_id (tk_authorization t)) (ev_id (tk_authorization t))
       [(''reason'', JStr ''idempotency key already succeeded''), key_json t]) (\<lambda>_. pure_result (Inr (Finished None)))"

definition dispatch_task :: "'k agent_env \<Rightarrow> task \<Rightarrow> ('k, phase) act" where
  "dispatch_task env t =
     cbind (task_emit env t ''action.dispatched'' (ev_correlation_id (tk_authorization t)) (ev_id (tk_authorization t))
       [(''intent'', JObj (intent_to_payload (tk_intent t))), key_json t]) (\<lambda>e. pure_result (Inr (Starting e)))"

definition start_task :: "'k agent_env \<Rightarrow> task \<Rightarrow> jobject event \<Rightarrow> ('k, phase) act" where
  "start_task env t dispatched =
     cbind tick (\<lambda>n.
     cbind (task_emit env t ''action.started'' (ev_correlation_id (tk_authorization t)) (ev_id dispatched)
       [(''intent'', JObj (intent_to_payload (tk_intent t))), key_json t]) (\<lambda>e.
     pure_result (Inr (Attempting e (ge_clock env n) 0 (result_fail ''capability was not invoked'' False)))))"

definition retry_limit :: "capability_spec \<Rightarrow> int" where
  "retry_limit spec = (if cs_idempotent spec then cs_max_retries spec else 0)"

definition attempt_result :: "attempt \<Rightarrow> capability_result" where
  "attempt_result r = (case r of
     Returned res \<Rightarrow> res
   | Timed_out \<Rightarrow> result_fail ''capability timed out'' True
   | Raised description \<Rightarrow> result_fail description False)"

text \<open>One round of the retry loop; the loop ends with \<open>finished_at = utc_now()\<close>.\<close>

definition attempt_task ::
  "'k agent_env \<Rightarrow> task \<Rightarrow> jobject event \<Rightarrow> datetime \<Rightarrow> int \<Rightarrow> capability_result \<Rightarrow> ('k, phase) act" where
  "attempt_task env t started began attempts previous =
     cbind (pure_result (get_capability (ge_capabilities env) (ai_capability (tk_intent t)))) (\<lambda>(spec, code).
     cbind tick (\<lambda>n.
     if retry_limit spec < attempts
     then pure_result (Inr (Reporting started began \<lparr>ao_intent = tk_intent t, ao_result = previous, ao_attempts = attempts,
            ao_started_at = began, ao_finished_at = ge_clock env n\<rparr>))
     else (\<lambda>a.
       (let res = attempt_result (cc_invoke code n (ai_arguments (tk_intent t)) (task_context env t (attempts + 1)));
            a1 = a\<lparr>an_trace := an_trace a @ [Called (tk_intent t)]\<rparr>
        in if cr_success res \<or> \<not> cr_retryable res \<or> retry_limit spec < attempts + 1
           then (Inr (Reporting started began \<lparr>ao_intent = tk_intent t, ao_result = res, ao_attempts = attempts + 1,
                   ao_started_at = began, ao_finished_at = ge_clock env n\<rparr>), a1)
           else (Inr (Attempting started began (attempts + 1) res), a1)))))"

definition seconds_between :: "datetime \<Rightarrow> datetime \<Rightarrow> json" where
  "seconds_between t u = JFloat (total_seconds (instant u - instant t))"

definition report_task :: "'k agent_env \<Rightarrow> task \<Rightarrow> jobject event \<Rightarrow> datetime \<Rightarrow> action_outcome \<Rightarrow> ('k, phase) act" where
  "report_task env t started began out =
     (let res = ao_result out; name = (''capability'', JStr (ai_capability (tk_intent t)));
          tries = (''attempts'', JInt (ao_attempts out));
          time = (''duration_seconds'', seconds_between began (ao_finished_at out)) in
      if cr_success res then
        cbind (task_emit env t ''action.succeeded'' (ev_correlation_id started) (ev_id started)
          [name, tries, (''output'', JObj (cr_output res)), key_json t, time]) (\<lambda>e a.
          (Inr (Publishing e (cr_facts res) (cr_events res) out),
           case ai_idempotency_key (tk_intent t) of
             None \<Rightarrow> a
           | Some key \<Rightarrow> a\<lparr>an_ledger := AList.update key res (an_ledger a)\<rparr>))
      else
        cbind (task_emit env t ''action.failed'' (ev_correlation_id started) (ev_id started)
          [name, tries, (''error'', json_opt JStr (cr_error res)), (''retryable'', JBool (cr_retryable res)),
           key_json t, time]) (\<lambda>e.
        cbind (pure_result (get_capability (ge_capabilities env) (ai_capability (tk_intent t)))) (\<lambda>(spec, code).
        pure_result (Inr (if \<not> falsy (jget (ai_metadata (tk_intent t)) ''compensate_on_failure'') \<and> cs_reversible spec
                   then Compensating e out else Finished (Some out))))))"

text \<open>The facts and then the events of a successful result, one at a time.\<close>

definition publish_task ::
  "'k agent_env \<Rightarrow> task \<Rightarrow> jobject event \<Rightarrow> (string \<times> json) list \<Rightarrow> jobject event list \<Rightarrow> action_outcome \<Rightarrow> ('k, phase) act" where
  "publish_task env t completed facts es out = (case (facts, es) of
     ((key, v) # rest, _) \<Rightarrow>
       cbind (emit_new env ''fact.observed'' key (ev_correlation_id completed) (Some (ev_id completed))
         [(''key'', JStr key), (''value'', v), (''confidence'', JFloat 1)]) (\<lambda>_. pure_result (Inr (Publishing completed rest es out)))
   | ([], e # rest) \<Rightarrow>
       cbind (pure_result (caused_by e completed None)) (\<lambda>e'. cbind (emit_raw env e') (\<lambda>_. pure_result (Inr (Publishing completed [] rest out))))
   | ([], []) \<Rightarrow> pure_result (Inr (Finished (Some out))))"

definition compensate_task :: "'k agent_env \<Rightarrow> task \<Rightarrow> jobject event \<Rightarrow> action_outcome \<Rightarrow> ('k, phase) act" where
  "compensate_task env t failed out =
     cbind (pure_result (get_capability (ge_capabilities env) (ai_capability (tk_intent t)))) (\<lambda>(spec, code).
     cbind tick (\<lambda>n.
     cbind (pure_result (cc_compensate code n (ai_arguments (tk_intent t)) (ao_result out) (task_context env t (ao_attempts out)))) (\<lambda>c.
     cbind (task_emit env t (if cr_success c then ''action.compensated'' else ''action.compensation_failed'')
       (ev_correlation_id failed) (ev_id failed)
       [(''success'', JBool (cr_success c)), (''output'', JObj (cr_output c)), (''error'', json_opt JStr (cr_error c))]) (\<lambda>_.
     pure_result (Inr (Finished (Some out)))))))"

definition phase_step :: "'k agent_env \<Rightarrow> task \<Rightarrow> ('k, phase) act" where
  "phase_step env t = (case tk_phase t of
     Waiting \<Rightarrow> enter_task env t
   | Skipping \<Rightarrow> skip_task env t
   | Dispatching \<Rightarrow> dispatch_task env t
   | Starting e \<Rightarrow> start_task env t e
   | Attempting e began n res \<Rightarrow> attempt_task env t e began n res
   | Reporting e began out \<Rightarrow> report_task env t e began out
   | Publishing e facts es out \<Rightarrow> publish_task env t e facts es out
   | Compensating e out \<Rightarrow> compensate_task env t e out
   | p \<Rightarrow> pure_result (Inr p))"

text \<open>Leaving the semaphore (when it was entered) and the lease, whatever the outcome.\<close>

definition leave_task :: "task \<Rightarrow> 'k agent \<Rightarrow> 'k agent" where
  "leave_task t a = a\<lparr>an_active := an_active a - 1, an_attention := snd (settle (tk_lease t) (an_attention a) None)\<rparr>"

definition task_step :: "'k agent_env \<Rightarrow> task \<Rightarrow> 'k agent \<Rightarrow> task \<times> 'k agent" where
  "task_step env t a =
     (if task_done t then (t, a)
      else case phase_step env t a of
          (Inl err, a1) \<Rightarrow> (t\<lparr>tk_phase := Failed err, tk_lease := fst (settle (tk_lease t) (an_attention a1) None)\<rparr>, leave_task t a1)
        | (Inr (Finished out), a1) \<Rightarrow>
            (t\<lparr>tk_phase := Finished out, tk_lease := fst (settle (tk_lease t) (an_attention a1) None)\<rparr>, leave_task t a1)
        | (Inr p, a1) \<Rightarrow> (t\<lparr>tk_phase := p\<rparr>, a1))"

subsection \<open>One cycle\<close>

record 'k cycle =
  cy_agent :: "'k agent"
  cy_request :: deliberation_request
  cy_pending :: "action_intent list"
  cy_tasks :: "task list"
  cy_raised :: "py_error option"

definition authorization_payload :: "action_intent \<Rightarrow> authorization \<Rightarrow> jobject" where
  "authorization_payload i z = [(''intent'', JObj (intent_to_payload i)), (''reason'', JStr (az_reason z)),
     (''effective_authority'', JInt (authority_int (az_effective_authority z))),
     (''effective_risk'', JInt (risk_int (az_effective_risk z)))]"

definition acquire_attention :: "pyfloat \<Rightarrow> ('k, attention_lease option) act" where
  "acquire_attention amount = (\<lambda>a. case acquire (an_attention a) amount of
     Inl err \<Rightarrow> (Inl err, a)
   | Inr (lease, account) \<Rightarrow> (Inr lease, a\<lparr>an_attention := account\<rparr>))"

definition new_task :: "action_intent \<Rightarrow> deliberation_request \<Rightarrow> jobject event \<Rightarrow> attention_lease \<Rightarrow> task" where
  "new_task i q e lease = \<lparr>tk_intent = i, tk_request = q, tk_authorization = e, tk_lease = lease, tk_phase = Waiting\<rparr>"

text \<open>One selected intent: the decision of the policy, its event, and a task when attention can be reserved.\<close>

definition authorize_intent ::
  "'k agent_env \<Rightarrow> deliberation_request \<Rightarrow> action_intent \<Rightarrow> ('k, task option) act" where
  "authorize_intent env q i =
     cbind (pure_result (get_capability (ge_capabilities env) (ai_capability i))) (\<lambda>(spec, code).
     let z = authorize (ge_policy env) i spec (dq_situation q); trigger = dq_trigger q in
     cbind (emit_new env (if az_allowed z then ''decision.authorized'' else ''decision.denied'') (ai_intent_id i)
       (correlation_of trigger) (Some (ev_id trigger)) (authorization_payload i z)) (\<lambda>e.
     if \<not> az_allowed z then pure_result (Inr None)
     else cbind (acquire_attention (ai_attention_cost i)) (\<lambda>lease. case lease of
         None \<Rightarrow> cbind (emit_new env ''decision.deferred'' (ai_intent_id i) (ev_correlation_id e) (Some (ev_id e))
             [(''reason'', JStr ''insufficient concurrent attention capacity''), (''intent'', JObj (intent_to_payload i))])
             (\<lambda>_. pure_result (Inr None))
       | Some l \<Rightarrow> pure_result (Inr (Some (new_task i q e l))))))"

datatype cycle_step = Authorize | Run nat

text \<open>An exception in the loop ends it; the tasks that exist go on.\<close>

definition authorize_next :: "'k agent_env \<Rightarrow> 'k cycle \<Rightarrow> 'k cycle" where
  "authorize_next env cy = (case cy_pending cy of
     [] \<Rightarrow> cy
   | i # rest \<Rightarrow> (case authorize_intent env (cy_request cy) i (cy_agent cy) of
       (Inl err, a) \<Rightarrow> cy\<lparr>cy_agent := a, cy_pending := [], cy_raised := Some err\<rparr>
     | (Inr None, a) \<Rightarrow> cy\<lparr>cy_agent := a, cy_pending := rest\<rparr>
     | (Inr (Some t), a) \<Rightarrow> cy\<lparr>cy_agent := a, cy_pending := rest, cy_tasks := cy_tasks cy @ [t]\<rparr>))"

definition run_step :: "'k agent_env \<Rightarrow> nat \<Rightarrow> 'k cycle \<Rightarrow> 'k cycle" where
  "run_step env i cy =
     (if i < length (cy_tasks cy) then
        (let (t, a) = task_step env (cy_tasks cy ! i) (cy_agent cy)
         in cy\<lparr>cy_agent := a, cy_tasks := (cy_tasks cy)[i := t]\<rparr>)
      else cy)"

primrec take_step :: "'k agent_env \<Rightarrow> 'k cycle \<Rightarrow> cycle_step \<Rightarrow> 'k cycle" where
  "take_step env cy Authorize = authorize_next env cy"
| "take_step env cy (Run i) = run_step env i cy"

definition run_schedule :: "'k agent_env \<Rightarrow> cycle_step list \<Rightarrow> 'k cycle \<Rightarrow> 'k cycle" where
  "run_schedule env steps cy = foldl (take_step env) cy steps"

text \<open>Snapshot, deliberation and allocation: the part of \<open>_handle_trigger\<close> before the loop.\<close>

definition begin_cycle :: "'k agent_env \<Rightarrow> jobject event \<Rightarrow> ('k, deliberation_request \<times> action_intent list) act" where
  "begin_cycle env trigger = cbind tick (\<lambda>n a.
     (let q = deliberation_request_of env a (ge_snapshot env (an_kernel a) (ge_clock env n)) trigger [] in
      cbind tick (\<lambda>m.
      cbind (pure_result (deliberate (ge_controller env) (ge_clock env n) (ge_clock env m) q)) (\<lambda>trace.
      cbind (emit_decision_trace env trace) (\<lambda>_.
      cbind (if accepted_intents trace = [] then pure_result (Inr []) else allocate env (accepted_intents trace)) (\<lambda>chosen.
      pure_result (Inr (q, chosen)))))) a))"

text \<open>The results of \<open>gather\<close>, in the order of the tasks; the first exception is raised.\<close>

fun gather :: "task list \<Rightarrow> action_outcome list result" where
  "gather [] = Inr []"
| "gather (t # ts) = (case tk_phase t of
     Failed err \<Rightarrow> Inl err
   | Finished None \<Rightarrow> gather ts
   | Finished (Some out) \<Rightarrow> rbind (gather ts) (\<lambda>outs. Inr (out # outs))
   | _ \<Rightarrow> Inl (RuntimeError ''task is not done''))"

primrec reflect_each :: "'k agent_env \<Rightarrow> deliberation_request \<Rightarrow> jobject event \<Rightarrow> action_outcome list \<Rightarrow> ('k, unit) act" where
  "reflect_each env q parent [] = pure_result (Inr ())"
| "reflect_each env q parent (out # outs) =
     cbind (pure_result (reflect (ge_controller env) out q)) (\<lambda>es.
     cbind (emit_each env (map (\<lambda>e. caused_by e parent (Some (str_or (Some (ev_source e)) (gc_agent_id (ge_config env))))) es)) (\<lambda>_.
     reflect_each env q parent outs))"

text \<open>
  A whole cycle under a schedule; \<open>None\<close> for a schedule that stops before every task has ended. When the loop
  raised, the tasks it had created are not awaited; their steps come before the end of the cycle here.
\<close>

definition cycle_finished :: "'k cycle \<Rightarrow> bool" where
  "cycle_finished cy \<longleftrightarrow> cy_pending cy = [] \<and> list_all task_done (cy_tasks cy)"

definition end_cycle :: "'k agent_env \<Rightarrow> jobject event \<Rightarrow> 'k cycle \<Rightarrow> unit result \<times> 'k agent" where
  "end_cycle env trigger cy = (case cy_raised cy of
     Some err \<Rightarrow> (Inl err, cy_agent cy)
   | None \<Rightarrow> cbind (pure_result (gather (cy_tasks cy))) (reflect_each env (cy_request cy) trigger) (cy_agent cy))"

definition new_cycle :: "'k agent \<Rightarrow> deliberation_request \<Rightarrow> action_intent list \<Rightarrow> 'k cycle" where
  "new_cycle a q chosen = \<lparr>cy_agent = a, cy_request = q, cy_pending = chosen, cy_tasks = [], cy_raised = None\<rparr>"

definition handle_trigger ::
  "'k agent_env \<Rightarrow> jobject event \<Rightarrow> cycle_step list \<Rightarrow> 'k agent \<Rightarrow> (unit result \<times> 'k agent) option" where
  "handle_trigger env trigger steps a = (case begin_cycle env trigger a of
     (Inl err, a1) \<Rightarrow> Some (Inl err, a1)
   | (Inr (q, chosen), a1) \<Rightarrow>
       (let cy = run_schedule env steps (new_cycle a1 q chosen)
        in if cycle_finished cy then Some (end_cycle env trigger cy) else None))"

text \<open>One round of a worker; an empty queue makes it wait.\<close>

definition work_once :: "'k agent_env \<Rightarrow> cycle_step list \<Rightarrow> 'k agent \<Rightarrow> (unit result \<times> 'k agent) option" where
  "work_once env steps a = (case least_entry (an_queue a) of
     None \<Rightarrow> Some (Inr (), a)
   | Some x \<Rightarrow>
       (let a1 = a\<lparr>an_queue := take_entry (an_queue a) x\<rparr> in
        case snd (snd x) of
          None \<Rightarrow> Some (Inr (), a1)
        | Some trigger \<Rightarrow> (case handle_trigger env trigger steps a1 of
            None \<Rightarrow> None
          | Some (Inr _, a2) \<Rightarrow> Some (Inr (), a2)
          | Some (Inl err, a2) \<Rightarrow> Some (cbind (emit_new env ''agent.cycle_failed'' (gc_agent_id (ge_config env))
                (correlation_of trigger) (Some (ev_id trigger))
                [(''trigger_id'', JStr (ev_id trigger)), (''trigger_type'', JStr (ev_type trigger)),
                 (''error'', JStr (ge_repr env err))]) (\<lambda>_. pure_result (Inr ())) a2))))"

subsection \<open>A task alone\<close>

definition phase_rank :: "phase \<Rightarrow> nat" where
  "phase_rank p = (case p of
     Waiting \<Rightarrow> 9 | Skipping \<Rightarrow> 8 | Dispatching \<Rightarrow> 7 | Starting _ \<Rightarrow> 6 | Attempting _ _ _ _ \<Rightarrow> 5 | Reporting _ _ _ \<Rightarrow> 4
   | Publishing _ _ _ _ \<Rightarrow> 3 | Compensating _ _ \<Rightarrow> 2 | Finished _ \<Rightarrow> 0 | Failed _ \<Rightarrow> 0)"

definition phase_rest :: "'k agent_env \<Rightarrow> task \<Rightarrow> nat" where
  "phase_rest env t = (case tk_phase t of
     Attempting _ _ n _ \<Rightarrow> (case map_of (ge_capabilities env) (ai_capability (tk_intent t)) of
         None \<Rightarrow> 0 | Some (spec, code) \<Rightarrow> nat (retry_limit spec + 1 - n))
   | Publishing _ facts es _ \<Rightarrow> length facts + length es
   | _ \<Rightarrow> 0)"

definition task_measure :: "'k agent_env \<Rightarrow> task \<Rightarrow> nat \<times> nat" where
  "task_measure env t = (phase_rank (tk_phase t), phase_rest env t)"

lemma tick_ok [simp]: "tick a = (r, a') \<longleftrightarrow> r = Inr (an_ticks a) \<and> a' = a\<lparr>an_ticks := an_ticks a + 1\<rparr>"
  by (auto simp: tick_def)

lemmas act_ok = cbind_ok task_emit_def

text \<open>The phases that can follow a phase.\<close>

inductive follows_phase :: "'k agent_env \<Rightarrow> task \<Rightarrow> phase \<Rightarrow> bool" for env t where
  "tk_phase t = Waiting \<Longrightarrow> p \<in> {Waiting, Skipping, Dispatching} \<Longrightarrow> follows_phase env t p"
| "tk_phase t = Skipping \<Longrightarrow> follows_phase env t (Finished None)"
| "tk_phase t = Dispatching \<Longrightarrow> follows_phase env t (Starting e)"
| "tk_phase t = Starting e \<Longrightarrow> follows_phase env t (Attempting e' began 0 res)"
| "tk_phase t = Attempting e began n res \<Longrightarrow> follows_phase env t (Reporting e began out)"
| "tk_phase t = Attempting e began n res \<Longrightarrow> map_of (ge_capabilities env) (ai_capability (tk_intent t)) = Some (spec, code) \<Longrightarrow>
    n + 1 \<le> retry_limit spec \<Longrightarrow> follows_phase env t (Attempting e began (n + 1) res')"
| "tk_phase t = Reporting e began out \<Longrightarrow> follows_phase env t (Publishing e' facts es out)"
| "tk_phase t = Reporting e began out \<Longrightarrow> follows_phase env t (Compensating e' out)"
| "tk_phase t = Reporting e began out \<Longrightarrow> follows_phase env t (Finished (Some out))"
| "tk_phase t = Publishing e (f # facts) es out \<Longrightarrow> follows_phase env t (Publishing e facts es out)"
| "tk_phase t = Publishing e [] (x # es) out \<Longrightarrow> follows_phase env t (Publishing e [] es out)"
| "tk_phase t = Publishing e [] [] out \<Longrightarrow> follows_phase env t (Finished (Some out))"
| "tk_phase t = Compensating e out \<Longrightarrow> follows_phase env t (Finished (Some out))"

lemma get_capability_ok: "get_capability d i = Inr c \<longleftrightarrow> map_of d i = Some c"
  by (auto simp: get_capability_def split: option.splits)

lemma attempt_follows:
  assumes "attempt_task env t e began n res a = (Inr p, a')" "tk_phase t = Attempting e began n res"
  shows "follows_phase env t p"
proof -
  obtain spec code where cap: "map_of (ge_capabilities env) (ai_capability (tk_intent t)) = Some (spec, code)"
    using assms(1) by (auto simp: attempt_task_def act_ok get_capability_ok)
  show ?thesis
  proof (cases "retry_limit spec < n")
    case True
    with assms cap show ?thesis
      by (auto simp: attempt_task_def act_ok get_capability_ok intro: follows_phase.intros)
  next
    case False
    let ?res = "attempt_result (cc_invoke code (an_ticks a) (ai_arguments (tk_intent t)) (task_context env t (n + 1)))"
    show ?thesis
    proof (cases "cr_success ?res \<or> \<not> cr_retryable ?res \<or> retry_limit spec < n + 1")
      case True
      with assms cap False show ?thesis
        by (auto simp: attempt_task_def act_ok get_capability_ok Let_def split: if_splits intro: follows_phase.intros)
    next
      case again: False
      then have "p = Attempting e began (n + 1) ?res" "n + 1 \<le> retry_limit spec"
        using assms cap False by (auto simp: attempt_task_def act_ok get_capability_ok Let_def split: if_splits)
      then show ?thesis using assms(2) cap by (metis follows_phase.intros(6))
    qed
  qed
qed

lemma phase_step_follows:
  assumes "phase_step env t a = (Inr p, a')" "\<not> task_done t"
  shows "follows_phase env t p"
proof (cases "tk_phase t")
  case Waiting
  with assms(1) show ?thesis
    by (intro follows_phase.intros(1)) (auto simp: phase_step_def enter_task_def rbind_Inr_iff split: if_splits)
next
  case Skipping
  with assms(1) show ?thesis by (auto simp: phase_step_def skip_task_def act_ok intro: follows_phase.intros)
next
  case Dispatching
  with assms(1) show ?thesis by (auto simp: phase_step_def dispatch_task_def act_ok intro: follows_phase.intros)
next
  case (Starting e)
  with assms(1) show ?thesis by (auto simp: phase_step_def start_task_def act_ok intro: follows_phase.intros)
next
  case (Attempting e began n res)
  with assms(1) show ?thesis by (auto simp: phase_step_def intro: attempt_follows)
next
  case (Reporting e began out)
  with assms(1) show ?thesis
    by (auto simp: phase_step_def report_task_def act_ok Let_def split: if_splits intro: follows_phase.intros)
next
  case (Publishing e facts es out)
  with assms(1) show ?thesis
    by (auto simp: phase_step_def publish_task_def act_ok split: list.splits intro: follows_phase.intros)
next
  case (Compensating e out)
  with assms(1) show ?thesis by (auto simp: phase_step_def compensate_task_def act_ok intro: follows_phase.intros)
qed (use assms in \<open>simp_all add: task_done_def\<close>)

lemma follows_decreases:
  assumes "follows_phase env t p" "p \<noteq> Waiting" "tk_intent t' = tk_intent t" "tk_phase t' = p"
  shows "(task_measure env t', task_measure env t) \<in> less_than <*lex*> less_than"
  using assms by (cases rule: follows_phase.cases) (auto simp: task_measure_def phase_rank_def phase_rest_def)

lemma task_step_decreases:
  assumes "\<not> task_done t" "task_step env t a = (t', a')" "tk_phase t' \<noteq> Waiting"
  shows "(task_measure env t', task_measure env t) \<in> less_than <*lex*> less_than"
proof (cases "phase_step env t a")
  case (Pair r a1)
  show ?thesis
  proof (cases r)
    case (Inl err)
    with Pair assms have "tk_phase t' = Failed err" by (auto simp: task_step_def)
    moreover have "0 < phase_rank (tk_phase t)" using assms(1) by (cases "tk_phase t") (auto simp: task_done_def phase_rank_def)
    ultimately show ?thesis by (simp add: task_measure_def phase_rank_def)
  next
    case (Inr p)
    have "follows_phase env t p" by (rule phase_step_follows [OF Pair [unfolded Inr] assms(1)])
    moreover have "tk_intent t' = tk_intent t" "tk_phase t' = p"
      using Pair Inr assms(1,2) by (auto simp: task_step_def split: phase.splits)
    ultimately show ?thesis using assms(3) by (blast intro: follows_decreases)
  qed
qed

function run_task :: "'k agent_env \<Rightarrow> task \<Rightarrow> 'k agent \<Rightarrow> task \<times> 'k agent" where
  "run_task env t a =
     (if task_done t then (t, a)
      else let (t', a') = task_step env t a
           in if tk_phase t' = Waiting then (t', a') else run_task env t' a')"
  by pat_completeness auto

termination run_task
proof (relation "inv_image (less_than <*lex*> less_than) (\<lambda>(env, t, a). task_measure env t)")
  fix env :: "'k agent_env" and t :: task and a :: "'k agent" and x t' a'
  assume prem: "\<not> task_done t" "x = task_step env t a" "(t', a') = x" "tk_phase t' \<noteq> Waiting"
  then have "task_step env t a = (t', a')" by simp
  then have "(task_measure env t', task_measure env t) \<in> less_than <*lex*> less_than"
    by (rule task_step_decreases [OF prem(1) _ prem(4)])
  then show "((env, t', a'), env, t, a) \<in> inv_image (less_than <*lex*> less_than) (\<lambda>(env, t, a). task_measure env t)"
    by (simp only: in_inv_image case_prod_conv)
qed (intro wf_inv_image wf_lex_prod wf_less_than)

declare run_task.simps [simp del]

subsection \<open>Recovery at the start\<close>

definition lifecycle_types :: "string list" where
  "lifecycle_types = [''decision.authorized'', ''action.succeeded'', ''action.failed'', ''action.skipped'',
     ''action.compensated'', ''action.compensation_failed'', ''action.abandoned'']"

record recovery =
  rv_authorized :: "(string \<times> (jobject event \<times> action_intent)) list"
  rv_terminal :: "string list"
  rv_ledger :: "(string \<times> capability_result) list"

definition record_success :: "jobject event \<Rightarrow> (string \<times> capability_result) list \<Rightarrow> (string \<times> capability_result) list" where
  "record_success e ledger = (case jget (ev_payload e) ''idempotency_key'' of
     JStr key \<Rightarrow> AList.update key
       (result_ok (case jget (ev_payload e) ''output'' of JObj d \<Rightarrow> d | _ \<Rightarrow> []) [] []) ledger
   | _ \<Rightarrow> ledger)"

definition scan_event :: "'k agent_env \<Rightarrow> recovery \<Rightarrow> jobject event \<Rightarrow> recovery result" where
  "scan_event env rv e = (case ev_subject e of
     None \<Rightarrow> Inr rv
   | Some subject \<Rightarrow>
       if ev_source e \<noteq> gc_agent_id (ge_config env) then Inr rv
       else if ev_type e = ''decision.authorized'' then
         (case jget (ev_payload e) ''intent'' of
            JObj d \<Rightarrow> rbind (intent_from_payload (ge_builtins env) d) (\<lambda>i.
              Inr (rv\<lparr>rv_authorized := AList.update subject (e, i) (rv_authorized rv)\<rparr>))
          | _ \<Rightarrow> Inr rv)
       else Inr (rv\<lparr>rv_terminal := rv_terminal rv @ [subject],
          rv_ledger := (if ev_type e = ''action.succeeded'' then record_success e (rv_ledger rv) else rv_ledger rv)\<rparr>))"

text \<open>The loop over the history; what it recorded before an exception stays.\<close>

primrec scan_history :: "'k agent_env \<Rightarrow> recovery \<Rightarrow> jobject event list \<Rightarrow> unit result \<times> recovery" where
  "scan_history env rv [] = (Inr (), rv)"
| "scan_history env rv (e # es) = (case scan_event env rv e of
     Inl err \<Rightarrow> (Inl err, rv)
   | Inr rv' \<Rightarrow> scan_history env rv' es)"

definition pending_actions :: "recovery \<Rightarrow> (jobject event \<times> action_intent) list" where
  "pending_actions rv = sort_key (\<lambda>(e, i). seq0 e)
     (map snd (filter (\<lambda>(subject, _). subject \<notin> set (rv_terminal rv)) (rv_authorized rv)))"

definition abandon :: "'k agent_env \<Rightarrow> jobject event \<Rightarrow> jobject event \<Rightarrow> action_intent \<Rightarrow> string \<Rightarrow> jobject \<Rightarrow> ('k, unit) act" where
  "abandon env started e i reason extra =
     cbind (emit_new env ''action.abandoned'' (ai_intent_id i) (ev_correlation_id e) (Some (ev_id started))
       ([(''reason'', JStr reason), (''capability'', JStr (ai_capability i))] @ extra)) (\<lambda>_. pure_result (Inr ()))"

text \<open>
  The recovered action runs to its end before the next one. A task that must wait for the semaphore waits for
  the tasks of the workers, which are not part of this step; it is left there.
\<close>

definition execute_recovered :: "'k agent_env \<Rightarrow> task \<Rightarrow> jobject event \<Rightarrow> ('k, unit) act" where
  "execute_recovered env t recovery_event = (\<lambda>a. case run_task env t a of
     (t', a1) \<Rightarrow> (case tk_phase t' of
         Failed err \<Rightarrow> (Inl err, a1)
       | Finished (Some out) \<Rightarrow>
           cbind (pure_result (reflect (ge_controller env) out (tk_request t))) (\<lambda>es.
           emit_each env (map (\<lambda>e. caused_by e recovery_event None) es)) a1
       | _ \<Rightarrow> (Inr (), a1)))"

text \<open>Attention for the recovered action, then its run; without attention it stays for the next start.\<close>

definition resume :: "'k agent_env \<Rightarrow> situation \<Rightarrow> jobject event \<Rightarrow> action_intent \<Rightarrow> ('k, unit) act" where
  "resume env si requested i = (\<lambda>a.
     cbind (acquire_attention (ai_attention_cost i)) (\<lambda>lease. case lease of
         None \<Rightarrow> pure_result (Inr ())
       | Some l \<Rightarrow> execute_recovered env
           (new_task i (deliberation_request_of env a si requested [(''recovery'', JBool True)]) requested l) requested) a)"

definition reauthorize ::
  "'k agent_env \<Rightarrow> jobject event \<Rightarrow> jobject event \<Rightarrow> action_intent \<Rightarrow> capability_spec \<Rightarrow> situation \<Rightarrow> ('k, unit) act" where
  "reauthorize env started e i spec si =
     (let z = authorize (ge_policy env) i spec si in
      if \<not> cs_idempotent spec
      then abandon env started e i
        ''non-idempotent capability requires explicit operator reconciliation after crash''
        [(''idempotency_key'', json_opt JStr (ai_idempotency_key i))]
      else if \<not> az_allowed z
      then abandon env started e i (''recovery reauthorization failed: '' @ az_reason z) []
      else cbind (emit_new env ''decision.reauthorized'' (ai_intent_id i) (ev_correlation_id e) (Some (ev_id started))
          [(''original_authorization_event_id'', JStr (ev_id e)), (''reason'', JStr (az_reason z)),
           (''effective_authority'', JInt (authority_int (az_effective_authority z))),
           (''effective_risk'', JInt (risk_int (az_effective_risk z)))]) (\<lambda>again.
        cbind (emit_new env ''action.recovery_requested'' (ai_intent_id i) (ev_correlation_id e) (Some (ev_id again))
          [(''authorization_event_id'', JStr (ev_id e)), (''intent'', JObj (intent_to_payload i))]) (\<lambda>requested.
        resume env si requested i)))"

definition recover_one :: "'k agent_env \<Rightarrow> jobject event \<Rightarrow> jobject event \<times> action_intent \<Rightarrow> ('k, unit) act" where
  "recover_one env started = (\<lambda>(e, i).
     case map_of (ge_capabilities env) (ai_capability i) of
       None \<Rightarrow> abandon env started e i ''capability unavailable during crash recovery'' []
     | Some (spec, code) \<Rightarrow> cbind tick (\<lambda>n a.
         reauthorize env started e i spec (ge_snapshot env (an_kernel a) (ge_clock env n)) a))"

primrec recover_all :: "'k agent_env \<Rightarrow> jobject event \<Rightarrow> (jobject event \<times> action_intent) list \<Rightarrow> ('k, unit) act" where
  "recover_all env started [] = pure_result (Inr ())"
| "recover_all env started (p # ps) = cbind (recover_one env started p) (\<lambda>_. recover_all env started ps)"

definition restore_state :: "'k agent_env \<Rightarrow> jobject event \<Rightarrow> ('k, unit) act" where
  "restore_state env started = cbind (\<lambda>a. pure_result (ge_history env (an_kernel a) lifecycle_types) a) (\<lambda>es a.
     case scan_history env \<lparr>rv_authorized = [], rv_terminal = [], rv_ledger = an_ledger a\<rparr> es of
       (r, rv) \<Rightarrow> cbind (pure_result r) (\<lambda>_. recover_all env started (pending_actions rv)) (a\<lparr>an_ledger := rv_ledger rv\<rparr>))"

text \<open>The end of \<open>start\<close>, once the kernel runs and the workers wait.\<close>

definition announce_start :: "'k agent_env \<Rightarrow> ('k, unit) act" where
  "announce_start env = cbind (emit_new env ''agent.started'' (gc_agent_id (ge_config env)) None None
     [(''workers'', JInt (gc_workers (ge_config env)))]) (restore_state env)"

end
