(* ===== verification/AgentProperties.thy ===== *)
theory AgentProperties
  imports Agent "HOL-Library.Multiset"
begin

section \<open>What the agent may do\<close>

text \<open>
  Under every schedule of a cycle's tasks: a capability is invoked only for an intent that the policy allows, after
  the events that record the authorisation and the start of the action were accepted, and no more often than its
  specification permits; attention and the slots of the semaphore are given back; and no schedule can reach a
  deadlock. The recovery at the start invokes idempotent capabilities only.
\<close>

subsection \<open>Acts that only emit\<close>

definition quiet :: "('k, 'a) act \<Rightarrow> bool" where
  "quiet m \<longleftrightarrow> (\<forall>a r a'. m a = (r, a') \<longrightarrow> (\<exists>es. an_trace a' = an_trace a @ map Emitted es) \<and>
     an_active a' = an_active a \<and> an_attention a' = an_attention a)"

named_theorems quiet_intros "acts that only emit"

lemma quiet_pure [quiet_intros]: "quiet (pure_result r)"
  by (auto simp: quiet_def intro: exI [of _ "[]"])

lemma quiet_tick [quiet_intros]: "quiet tick"
  by (auto simp: quiet_def intro: exI [of _ "[]"])

lemma quiet_bind [quiet_intros]:
  assumes "quiet m" "\<And>x. quiet (f x)"
  shows "quiet (cbind m f)"
  unfolding quiet_def
proof (intro allI impI)
  fix a r a' assume run: "cbind m f a = (r, a')"
  obtain q a1 where m: "m a = (q, a1)" by fastforce
  obtain es where es: "an_trace a1 = an_trace a @ map Emitted es" "an_active a1 = an_active a" "an_attention a1 = an_attention a"
    using assms(1) m unfolding quiet_def by blast
  show "(\<exists>es. an_trace a' = an_trace a @ map Emitted es) \<and> an_active a' = an_active a \<and> an_attention a' = an_attention a"
  proof (cases q)
    case (Inl err)
    with run m es show ?thesis by (auto simp: cbind_def)
  next
    case (Inr x)
    with run m have "f x a1 = (r, a')" by (simp add: cbind_def)
    then obtain es' where "an_trace a' = an_trace a1 @ map Emitted es'" "an_active a' = an_active a1" "an_attention a' = an_attention a1"
      using assms(2) unfolding quiet_def by blast
    with es show ?thesis by (auto intro: exI [of _ "es @ es'"])
  qed
qed

lemma quiet_emit_raw [quiet_intros]: "quiet (emit_raw env e)"
  unfolding emit_raw_def
proof (rule quiet_bind [OF quiet_tick])
  fix n
  show "quiet (\<lambda>a. case ge_emit env (ge_clock env n) (an_kernel a) e of
      (Inl err, k) \<Rightarrow> (Inl err, a\<lparr>an_kernel := k\<rparr>)
    | (Inr stored, k) \<Rightarrow> (Inr stored, a\<lparr>an_kernel := k, an_trace := an_trace a @ [Emitted e]\<rparr>))"
    by (auto simp: quiet_def split: prod.splits sum.splits intro: exI [of _ "[]"] exI [of _ "[e]"])
qed

lemma quiet_emit_new [quiet_intros]: "quiet (emit_new env ty subj corr caus payload)"
  unfolding emit_new_def Let_def by (intro quiet_intros)

lemma quiet_task_emit [quiet_intros]: "quiet (task_emit env t ty corr caus payload)"
  unfolding task_emit_def by (intro quiet_intros)

lemma quiet_emit_each [quiet_intros]: "quiet (emit_each env rs)"
  by (induction rs) (auto intro!: quiet_intros)

lemma quiet_case_prod [quiet_intros]: "(\<And>x y. quiet (f x y)) \<Longrightarrow> quiet (case p of (x, y) \<Rightarrow> f x y)"
  by (cases p) simp

lemma quiet_if [quiet_intros]: "quiet m \<Longrightarrow> quiet m' \<Longrightarrow> quiet (if c then m else m')"
  by simp

lemma quiet_option [quiet_intros]: "quiet m \<Longrightarrow> (\<And>x. quiet (f x)) \<Longrightarrow> quiet (case v of None \<Rightarrow> m | Some x \<Rightarrow> f x)"
  by (cases v) auto

lemma quiet_phases:
  "quiet (skip_task env t)" "quiet (dispatch_task env t)" "quiet (start_task env t e)" "quiet (publish_task env t e facts es out)"
  "quiet (compensate_task env t e out)" "quiet (report_task env t e began out)"
proof -
  show "quiet (skip_task env t)" "quiet (dispatch_task env t)" "quiet (start_task env t e)" "quiet (compensate_task env t e out)"
    unfolding skip_task_def dispatch_task_def start_task_def compensate_task_def by (intro quiet_intros)+
  show "quiet (publish_task env t e facts es out)"
    unfolding publish_task_def by (auto intro!: quiet_intros split: list.split)
  have "quiet (\<lambda>a. (Inr p, case key of None \<Rightarrow> a | Some k \<Rightarrow> a\<lparr>an_ledger := f k a\<rparr>))" for p :: phase and key :: "string option" and f
    by (auto simp: quiet_def split: option.splits intro: exI [of _ "[]"])
  then show "quiet (report_task env t e began out)"
    unfolding report_task_def Let_def by (intro quiet_intros)
qed

subsection \<open>The steps of a task\<close>

lemma cbind_cases:
  assumes "cbind m f a = (r, a')"
  obtains (raised) err where "m a = (Inl err, a')" "r = Inl err"
    | (went_on) x a1 where "m a = (Inr x, a1)" "f x a1 = (r, a')"
  using assms by (cases "m a") (auto simp: cbind_def split: sum.splits)

lemma attempt_effect:
  assumes "attempt_task env t e began n res a = (r, a')"
  obtains (raised) err where "r = Inl err" "an_trace a' = an_trace a" "an_active a' = an_active a" "an_attention a' = an_attention a"
    | (over) out where "r = Inr (Reporting e began out)" "an_trace a' = an_trace a" "an_active a' = an_active a"
        "an_attention a' = an_attention a"
    | (called) spec code p where "map_of (ge_capabilities env) (ai_capability (tk_intent t)) = Some (spec, code)" "n \<le> retry_limit spec"
        "r = Inr p" "(\<exists>out. p = Reporting e began out) \<or> (\<exists>res'. p = Attempting e began (n + 1) res')"
        "an_trace a' = an_trace a @ [Called (tk_intent t)]" "an_active a' = an_active a" "an_attention a' = an_attention a"
  using assms unfolding attempt_task_def
proof (cases rule: cbind_cases)
  case (raised err)
  then show ?thesis using that(1) by auto
next
  case (went_on sc a1)
  obtain spec code where sc: "sc = (spec, code)" by fastforce
  with went_on have cap: "map_of (ge_capabilities env) (ai_capability (tk_intent t)) = Some (spec, code)" "a1 = a"
    by (auto simp: get_capability_ok)
  show ?thesis
  proof (cases "retry_limit spec < n")
    case True
    with went_on(2) sc cap(2) show ?thesis by (intro that(2)) (auto simp: cbind_def tick_def)
  next
    case False
    let ?res = "attempt_result (cc_invoke code (an_ticks a) (ai_arguments (tk_intent t)) (task_context env t (n + 1)))"
    show ?thesis
    proof (cases "cr_success ?res \<or> \<not> cr_retryable ?res \<or> retry_limit spec < n + 1")
      case True
      with went_on(2) sc cap False show ?thesis by (intro that(3) [OF cap(1)]) (auto simp: cbind_def tick_def Let_def)
    next
      case again: False
      with went_on(2) sc cap False show ?thesis by (intro that(3) [OF cap(1)]) (auto simp: cbind_def tick_def Let_def)
    qed
  qed
qed

lemma phase_step_effect:
  assumes "phase_step env t a = (r, a')" "\<not> task_done t"
  obtains (entered) "tk_phase t = Waiting" "an_trace a' = an_trace a" "an_attention a' = an_attention a"
      "r = Inr Waiting \<and> an_active a' = an_active a \<and> gc_max_concurrent_actions (ge_config env) \<le> an_active a \<or>
       r \<noteq> Inr Waiting \<and> an_active a' = an_active a + 1"
    | (emitted) es where "tk_phase t \<noteq> Waiting" "an_trace a' = an_trace a @ map Emitted es" "an_active a' = an_active a"
        "an_attention a' = an_attention a"
    | (called) e began n res spec code p where "tk_phase t = Attempting e began n res"
        "map_of (ge_capabilities env) (ai_capability (tk_intent t)) = Some (spec, code)" "n \<le> retry_limit spec"
        "r = Inr p" "(\<exists>out. p = Reporting e began out) \<or> (\<exists>res'. p = Attempting e began (n + 1) res')"
        "an_trace a' = an_trace a @ [Called (tk_intent t)]" "an_active a' = an_active a" "an_attention a' = an_attention a"
proof (cases "tk_phase t")
  case Waiting
  with assms(1) show ?thesis
    by (intro entered) (auto simp: phase_step_def enter_task_def rbind_Inr_iff split: if_splits)
next
  case (Attempting e began n res)
  with assms(1) have "attempt_task env t e began n res a = (r, a')" by (simp add: phase_step_def)
  then show ?thesis
  proof (cases rule: attempt_effect)
    case (called spec code p)
    then show ?thesis using that(3) [OF Attempting] by blast
  qed (use Attempting in \<open>auto intro!: emitted [of "[]"]\<close>)
next
  case Skipping
  with assms(1) have "skip_task env t a = (r, a')" by (simp add: phase_step_def)
  with quiet_phases(1) Skipping show ?thesis unfolding quiet_def by (metis emitted phase.distinct(1))
next
  case Dispatching
  with assms(1) have "dispatch_task env t a = (r, a')" by (simp add: phase_step_def)
  with quiet_phases(2) Dispatching show ?thesis unfolding quiet_def by (metis emitted phase.distinct(3))
next
  case (Starting e)
  with assms(1) have "start_task env t e a = (r, a')" by (simp add: phase_step_def)
  with quiet_phases(3) Starting show ?thesis unfolding quiet_def by (metis emitted phase.distinct(5))
next
  case (Reporting e began out)
  with assms(1) have "report_task env t e began out a = (r, a')" by (simp add: phase_step_def)
  with quiet_phases(6) Reporting show ?thesis unfolding quiet_def by (metis emitted phase.distinct(9))
next
  case (Publishing e facts es out)
  with assms(1) have "publish_task env t e facts es out a = (r, a')" by (simp add: phase_step_def)
  with quiet_phases(4) Publishing show ?thesis unfolding quiet_def by (metis emitted phase.distinct(11))
next
  case (Compensating e out)
  with assms(1) have "compensate_task env t e out a = (r, a')" by (simp add: phase_step_def)
  with quiet_phases(5) Compensating show ?thesis unfolding quiet_def by (metis emitted phase.distinct(13))
qed (use assms(2) in \<open>simp_all add: task_done_def\<close>)

subsection \<open>The record of what was done\<close>

definition recorded :: "string \<Rightarrow> deed list \<Rightarrow> action_intent \<Rightarrow> bool" where
  "recorded ty past i \<longleftrightarrow> (\<exists>e. Emitted e \<in> set past \<and> ev_type e = ty \<and> ev_subject e = Some (ai_intent_id i) \<and>
     jget (ev_payload e) ''intent'' = JObj (intent_to_payload i))"

text \<open>Every invocation comes after the events that record its authorisation and its start.\<close>

fun guarded :: "deed list \<Rightarrow> deed list \<Rightarrow> bool" where
  "guarded past [] = True"
| "guarded past (Emitted e # ds) = guarded (past @ [Emitted e]) ds"
| "guarded past (Called i # ds) = (recorded ''decision.authorized'' past i \<and> recorded ''action.started'' past i \<and>
     guarded (past @ [Called i]) ds)"

lemma guarded_append: "guarded past (xs @ ys) \<longleftrightarrow> guarded past xs \<and> guarded (past @ xs) ys"
  by (induction past xs rule: guarded.induct) auto

lemma guarded_emitted [simp]: "guarded past (map Emitted es)"
  by (induction es arbitrary: past) auto

lemma recorded_mono: "recorded ty past i \<Longrightarrow> recorded ty (past @ later) i"
  unfolding recorded_def by auto

definition calls_of :: "deed list \<Rightarrow> action_intent list" where
  "calls_of ds = List.map_filter (\<lambda>d. case d of Called i \<Rightarrow> Some i | Emitted _ \<Rightarrow> None) ds"

lemma calls_of_simps [simp]:
  "calls_of [] = []" "calls_of (Called i # ds) = i # calls_of ds" "calls_of (Emitted e # ds) = calls_of ds"
  "calls_of (ds @ es) = calls_of ds @ calls_of es"
  by (simp_all add: calls_of_def List.map_filter_def)

lemma calls_of_emitted [simp]: "calls_of (map Emitted es) = []"
  by (induction es) auto

definition policy_allows :: "'k agent_env \<Rightarrow> situation \<Rightarrow> action_intent \<Rightarrow> bool" where
  "policy_allows env si i \<longleftrightarrow> (\<exists>spec code. map_of (ge_capabilities env) (ai_capability i) = Some (spec, code) \<and>
     az_allowed (authorize (ge_policy env) i spec si))"

definition begun :: "task \<Rightarrow> bool" where
  "begun t \<longleftrightarrow> (\<exists>e began n res. tk_phase t = Attempting e began n res)"

definition task_ok :: "'k agent_env \<Rightarrow> deliberation_request \<Rightarrow> deed list \<Rightarrow> task \<Rightarrow> bool" where
  "task_ok env q past t \<longleftrightarrow> tk_request t = q \<and> policy_allows env (dq_situation q) (tk_intent t) \<and>
     recorded ''decision.authorized'' past (tk_intent t) \<and> (begun t \<longrightarrow> recorded ''action.started'' past (tk_intent t))"

lemma task_ok_mono: "task_ok env q past t \<Longrightarrow> task_ok env q (past @ later) t"
  unfolding task_ok_def by (blast intro: recorded_mono)

lemma emit_raw_records: "emit_raw env e a = (Inr x, a') \<Longrightarrow> an_trace a' = an_trace a @ [Emitted e]"
  by (auto simp: emit_raw_def cbind_ok split: prod.splits sum.splits)

lemma emit_new_records:
  assumes "emit_new env ty subj corr caus payload a = (Inr x, a')"
  shows "\<exists>e. an_trace a' = an_trace a @ [Emitted e] \<and> ev_type e = ty \<and> ev_subject e = Some subj \<and> ev_payload e = payload"
  using assms emit_raw_records unfolding emit_new_def Let_def by (fastforce simp: cbind_ok)

lemma start_records:
  assumes "start_task env t e a = (Inr p, a')"
  shows "recorded ''action.started'' (an_trace a') (tk_intent t)"
proof -
  obtain x a1 a2 where "emit_new env ''action.started'' (ai_intent_id (tk_intent t)) (ev_correlation_id (tk_authorization t))
      (Some (ev_id e)) [(''intent'', JObj (intent_to_payload (tk_intent t))), key_json t] a1 = (Inr x, a2)" "a' = a2"
    using assms by (auto simp: start_task_def act_ok)
  from emit_new_records [OF this(1)] this(2) show ?thesis
    unfolding recorded_def by (fastforce simp: jget_def)
qed

text \<open>One step of a task, as far as the record goes.\<close>

lemma task_step_result:
  assumes "\<not> task_done t" "phase_step env t a = (r, a1)"
  shows "tk_intent (fst (task_step env t a)) = tk_intent t" "tk_request (fst (task_step env t a)) = tk_request t"
    "an_trace (snd (task_step env t a)) = an_trace a1"
    "tk_phase (fst (task_step env t a)) = (case r of Inl err \<Rightarrow> Failed err | Inr p \<Rightarrow> p)"
  using assms by (auto simp: task_step_def leave_task_def split: sum.splits phase.splits)

lemma task_step_ok:
  assumes "task_step env t a = (t', a')" "task_ok env q (an_trace a) t"
  shows "\<exists>new. an_trace a' = an_trace a @ new \<and> guarded (an_trace a) new \<and> set (calls_of new) \<subseteq> {tk_intent t} \<and>
    task_ok env q (an_trace a') t' \<and> tk_intent t' = tk_intent t"
proof (cases "task_done t")
  case True
  with assms show ?thesis by (intro exI [of _ "[]"]) (auto simp: task_step_def)
next
  case False
  obtain r a1 where run: "phase_step env t a = (r, a1)" by fastforce
  note res = task_step_result [OF False run]
  have t': "tk_intent t' = tk_intent t" "tk_request t' = tk_request t" "an_trace a' = an_trace a1"
      "tk_phase t' = (case r of Inl err \<Rightarrow> Failed err | Inr p \<Rightarrow> p)"
    using res assms(1) by simp_all
  have ok: "recorded ''decision.authorized'' (an_trace a) (tk_intent t)" "policy_allows env (dq_situation q) (tk_intent t)" "tk_request t = q"
    using assms(2) by (simp_all add: task_ok_def)
  have "\<exists>new. an_trace a1 = an_trace a @ new \<and> guarded (an_trace a) new \<and> set (calls_of new) \<subseteq> {tk_intent t}"
    using run False
  proof (cases rule: phase_step_effect)
    case (emitted es)
    then show ?thesis by (intro exI [of _ "map Emitted es"]) simp
  next
    case (called e began n res spec code p)
    then have "recorded ''action.started'' (an_trace a) (tk_intent t)" using assms(2) by (simp add: task_ok_def begun_def)
    with called ok show ?thesis by (intro exI [of _ "[Called (tk_intent t)]"]) simp
  qed (auto intro: exI [of _ "[]"])
  then obtain new where new: "an_trace a1 = an_trace a @ new" "guarded (an_trace a) new" "set (calls_of new) \<subseteq> {tk_intent t}" by blast
  have "recorded ''action.started'' (an_trace a1) (tk_intent t)" if trying: "begun t'"
  proof -
    obtain e began n res where p: "r = Inr (Attempting e began n res)"
      using trying t'(4) by (auto simp: begun_def split: sum.splits)
    have "follows_phase env t (Attempting e began n res)" by (rule phase_step_follows [OF run [unfolded p] False])
    then show ?thesis
    proof (cases rule: follows_phase.cases)
      case (4 e')
      then have "start_task env t e' a = (Inr (Attempting e began n res), a1)" using run p by (simp add: phase_step_def)
      then show ?thesis by (rule start_records)
    next
      case (6 res' spec code)
      then show ?thesis using assms(2) new(1) recorded_mono by (auto simp: task_ok_def begun_def)
    qed auto
  qed
  then have "task_ok env q (an_trace a1) t'"
    using ok t'(1,2) new(1) recorded_mono unfolding task_ok_def by metis
  with new t' show ?thesis by auto
qed

subsection \<open>A cycle under any schedule\<close>

definition cycle_ok :: "'k agent_env \<Rightarrow> deed list \<Rightarrow> 'k cycle \<Rightarrow> bool" where
  "cycle_ok env past cy \<longleftrightarrow>
     (\<exists>new. an_trace (cy_agent cy) = past @ new \<and> guarded past new \<and> set (calls_of new) \<subseteq> tk_intent ` set (cy_tasks cy)) \<and>
     (\<forall>t \<in> set (cy_tasks cy). task_ok env (cy_request cy) (an_trace (cy_agent cy)) t)"

lemma quiet_trace: "quiet m \<Longrightarrow> m a = (r, a') \<Longrightarrow> \<exists>es. an_trace a' = an_trace a @ map Emitted es"
  unfolding quiet_def by blast

lemma authorize_intent_parts:
  assumes "authorize_intent env q i a = (r, a')"
  obtains (plain) es where "an_trace a' = an_trace a @ map Emitted es" "an_active a' = an_active a" "an_attention a' = an_attention a"
      "\<forall>t. r \<noteq> Inr (Some t)"
    | (granted) es e l where "an_trace a' = an_trace a @ map Emitted es" "an_active a' = an_active a"
        "acquire (an_attention a) (ai_attention_cost i) = Inr (Some l, an_attention a')" "r = Inr (Some (new_task i q e l))"
        "policy_allows env (dq_situation q) i" "recorded ''decision.authorized'' (an_trace a') i"
proof -
  note quiet = quiet_emit_new [unfolded quiet_def, rule_format]
  from assms show thesis unfolding authorize_intent_def
  proof (cases rule: cbind_cases)
    case (raised err)
    then show ?thesis by (intro plain [of "[]"]) auto
  next
    case (went_on sc a1)
    obtain spec code where sc: "sc = (spec, code)" by fastforce
    let ?z = "authorize (ge_policy env) i spec (dq_situation q)"
    have cap: "map_of (ge_capabilities env) (ai_capability i) = Some (spec, code)" "a1 = a"
      using went_on sc by (auto simp: get_capability_ok)
    from went_on(2) show ?thesis unfolding sc case_prod_conv Let_def
    proof (cases rule: cbind_cases)
      case (raised err)
      then show ?thesis using quiet [OF raised(1)] plain cap(2) by auto
    next
      case (went_on e a2)
      note emitted = this
      obtain es where es: "an_trace a2 = an_trace a @ map Emitted es" "an_active a2 = an_active a" "an_attention a2 = an_attention a"
        using quiet [OF emitted(1)] cap(2) by auto
      show ?thesis
      proof (cases "az_allowed ?z")
        case False
        with emitted(2) es show ?thesis by (intro plain [of es]) auto
      next
        case True
        then have rec: "recorded ''decision.authorized'' (an_trace a2) i"
          using emit_new_records [OF emitted(1)] unfolding recorded_def by (fastforce simp: authorization_payload_def jget_def)
        have allows: "policy_allows env (dq_situation q) i" using cap(1) True unfolding policy_allows_def by blast
        show ?thesis
        proof (cases "acquire (an_attention a2) (ai_attention_cost i)")
          case (Inl err)
          with True emitted(2) es show ?thesis by (intro plain [of es]) (auto simp: cbind_def acquire_attention_def)
        next
          case (Inr x)
          obtain lease account where x: "x = (lease, account)" by fastforce
          show ?thesis
          proof (cases lease)
            case (Some l)
            with True emitted(2) Inr x es rec allows show ?thesis
              by (intro granted [of es l]) (auto simp: cbind_def acquire_attention_def)
          next
            case None
            then have same: "account = an_attention a2" using Inr x by (auto simp: acquire_def Let_def split: if_splits)
            let ?m = "cbind (emit_new env ''decision.deferred'' (ai_intent_id i) (ev_correlation_id e) (Some (ev_id e))
             [(''reason'', JStr ''insufficient concurrent attention capacity''), (''intent'', JObj (intent_to_payload i))])
             (\<lambda>_. pure_result (Inr None :: task option result))"
            have "?m (a2\<lparr>an_attention := account\<rparr>) = (r, a')"
              using True emitted(2) Inr x None by (simp add: cbind_def acquire_attention_def)
            moreover have "quiet ?m" by (intro quiet_intros)
            ultimately obtain es' where "an_trace a' = an_trace a2 @ map Emitted es'" "an_active a' = an_active a2"
                "an_attention a' = account"
              unfolding quiet_def by fastforce
            moreover have "\<forall>t. r \<noteq> Inr (Some t)"
              using \<open>?m _ = (r, a')\<close> by (auto simp: cbind_def split: prod.splits sum.splits)
            ultimately show ?thesis using es same by (intro plain [of "es @ es'"]) auto
          qed
        qed
      qed
    qed
  qed
qed

lemma cycle_ok_extends:
  assumes "cycle_ok env past cy" "an_trace a' = an_trace (cy_agent cy) @ new" "guarded (an_trace (cy_agent cy)) new"
    and "set (calls_of new) \<subseteq> tk_intent ` set ts" "tk_intent ` set (cy_tasks cy) \<subseteq> tk_intent ` set ts"
    and "\<forall>t \<in> set ts. task_ok env (cy_request cy) (an_trace a') t"
  shows "cycle_ok env past (cy\<lparr>cy_agent := a', cy_tasks := ts\<rparr>)"
proof -
  obtain old where old: "an_trace (cy_agent cy) = past @ old" "guarded past old" "set (calls_of old) \<subseteq> tk_intent ` set (cy_tasks cy)"
    using assms(1) unfolding cycle_ok_def by blast
  then have "an_trace a' = past @ (old @ new)" "guarded past (old @ new)"
    using assms(2,3) by (simp_all add: guarded_append)
  moreover have "set (calls_of (old @ new)) \<subseteq> tk_intent ` set ts" using old(3) assms(4,5) by auto
  ultimately show ?thesis using assms(6) unfolding cycle_ok_def by auto
qed

lemma cycle_ok_pending: "cycle_ok env past (cy\<lparr>cy_pending := p\<rparr>) = cycle_ok env past cy"
  "cycle_ok env past (cy\<lparr>cy_raised := e\<rparr>) = cycle_ok env past cy"
  by (simp_all add: cycle_ok_def)

lemma cycle_ok_authorize:
  assumes "cycle_ok env past cy"
  shows "cycle_ok env past (authorize_next env cy)"
proof (cases "cy_pending cy")
  case Nil
  with assms show ?thesis by (simp add: authorize_next_def)
next
  case (Cons i rest)
  obtain r a where run: "authorize_intent env (cy_request cy) i (cy_agent cy) = (r, a)" by fastforce
  have tasks: "\<forall>t \<in> set (cy_tasks cy). task_ok env (cy_request cy) (an_trace (cy_agent cy) @ more') t" for more'
    using assms task_ok_mono unfolding cycle_ok_def by blast
  from run show ?thesis
  proof (cases rule: authorize_intent_parts)
    case (plain es)
    have "cycle_ok env past (cy\<lparr>cy_agent := a, cy_tasks := cy_tasks cy\<rparr>)"
      by (rule cycle_ok_extends [OF assms plain(1)]) (use tasks plain(1) in simp_all)
    then have "cycle_ok env past (cy\<lparr>cy_agent := a\<rparr>)" by simp
    with plain(4) show ?thesis
      by (cases r) (auto simp: authorize_next_def Cons run cycle_ok_def split: option.splits)
  next
    case (granted es e l)
    let ?ts = "cy_tasks cy @ [new_task i (cy_request cy) e l]"
    have "task_ok env (cy_request cy) (an_trace a) (new_task i (cy_request cy) e l)"
      using granted(5,6) by (simp add: task_ok_def new_task_def begun_def)
    then have "cycle_ok env past (cy\<lparr>cy_agent := a, cy_tasks := ?ts\<rparr>)"
      by (intro cycle_ok_extends [OF assms granted(1)]) (use tasks granted(1) in auto)
    with granted(4) show ?thesis by (simp add: authorize_next_def Cons run cycle_ok_def)
  qed
qed

lemma cycle_ok_run:
  assumes "cycle_ok env past cy"
  shows "cycle_ok env past (run_step env i cy)"
proof (cases "i < length (cy_tasks cy)")
  case True
  let ?t = "cy_tasks cy ! i"
  obtain t a where run: "task_step env ?t (cy_agent cy) = (t, a)" by fastforce
  have "task_ok env (cy_request cy) (an_trace (cy_agent cy)) ?t" using assms True unfolding cycle_ok_def by simp
  then obtain new where new: "an_trace a = an_trace (cy_agent cy) @ new" "guarded (an_trace (cy_agent cy)) new"
      "set (calls_of new) \<subseteq> {tk_intent ?t}" "task_ok env (cy_request cy) (an_trace a) t" "tk_intent t = tk_intent ?t"
    using task_step_ok [OF run] by blast
  have intents: "map tk_intent ((cy_tasks cy)[i := t]) = map tk_intent (cy_tasks cy)"
    using new(5) True by (simp add: map_update list_update_same_conv)
  then have same: "tk_intent ` set ((cy_tasks cy)[i := t]) = tk_intent ` set (cy_tasks cy)" by (metis set_map)
  have "cycle_ok env past (cy\<lparr>cy_agent := a, cy_tasks := (cy_tasks cy)[i := t]\<rparr>)"
  proof (rule cycle_ok_extends [OF assms new(1,2)])
    show "set (calls_of new) \<subseteq> tk_intent ` set ((cy_tasks cy)[i := t])" using new(3) True unfolding same by auto
    show "\<forall>u \<in> set ((cy_tasks cy)[i := t]). task_ok env (cy_request cy) (an_trace a) u"
    proof
      fix u assume "u \<in> set ((cy_tasks cy)[i := t])"
      then consider "u = t" | "u \<in> set (cy_tasks cy)" using set_update_subset_insert by fastforce
      then show "task_ok env (cy_request cy) (an_trace a) u"
      proof cases
        case 2
        then have "task_ok env (cy_request cy) (an_trace (cy_agent cy)) u" using assms by (simp add: cycle_ok_def)
        from task_ok_mono [OF this, of new] show ?thesis by (simp add: new(1))
      qed (use new(4) in simp)
    qed
  qed (use same in simp)
  then show ?thesis using True run by (simp add: run_step_def)
qed (use assms in \<open>simp add: run_step_def\<close>)

lemma cycle_ok_schedule: "cycle_ok env past cy \<Longrightarrow> cycle_ok env past (run_schedule env steps cy)"
proof (induction steps arbitrary: cy)
  case (Cons x steps)
  have "cycle_ok env past (take_step env cy x)"
    by (cases x) (simp_all add: cycle_ok_authorize cycle_ok_run Cons.prems)
  with Cons.IH show ?case by (simp add: run_schedule_def)
qed (simp add: run_schedule_def)

lemma cycle_request [simp]: "cy_request (run_schedule env steps cy) = cy_request cy"
proof (induction steps arbitrary: cy)
  case (Cons x steps)
  have "cy_request (take_step env cy x) = cy_request cy"
    by (cases x) (auto simp: authorize_next_def run_step_def Let_def split: list.splits prod.splits sum.splits option.splits)
  with Cons show ?case by (simp add: run_schedule_def)
qed (simp add: run_schedule_def)

subsection \<open>How often\<close>

text \<open>What the specification permits, and what a task may still do of it.\<close>

definition tries :: "'k agent_env \<Rightarrow> action_intent \<Rightarrow> nat" where
  "tries env i = (case map_of (ge_capabilities env) (ai_capability i) of None \<Rightarrow> 0 | Some (spec, code) \<Rightarrow> nat (retry_limit spec + 1))"

definition potential :: "'k agent_env \<Rightarrow> task \<Rightarrow> nat" where
  "potential env t = (case tk_phase t of
     Waiting \<Rightarrow> tries env (tk_intent t) | Skipping \<Rightarrow> tries env (tk_intent t) | Dispatching \<Rightarrow> tries env (tk_intent t)
   | Starting _ \<Rightarrow> tries env (tk_intent t)
   | Attempting _ _ n _ \<Rightarrow> tries env (tk_intent t) - nat n
   | _ \<Rightarrow> 0)"

definition sound_attempts :: "task \<Rightarrow> bool" where
  "sound_attempts t \<longleftrightarrow> (\<forall>e began n res. tk_phase t = Attempting e began n res \<longrightarrow> 0 \<le> n)"

lemma task_step_potential:
  assumes "task_step env t a = (t', a')" "sound_attempts t" "an_trace a' = an_trace a @ new"
  shows "potential env t' + length (calls_of new) \<le> potential env t" "sound_attempts t'"
proof -
  have "potential env t' + length (calls_of new) \<le> potential env t \<and> sound_attempts t'"
  proof (cases "task_done t")
    case True
    with assms show ?thesis by (simp add: task_step_def)
  next
    case False
    obtain r a1 where run: "phase_step env t a = (r, a1)" by fastforce
    note res = task_step_result [OF False run]
    have t': "tk_intent t' = tk_intent t" "an_trace a' = an_trace a1" "tk_phase t' = (case r of Inl err \<Rightarrow> Failed err | Inr p \<Rightarrow> p)"
      using res assms(1) by simp_all
    show ?thesis
    proof (cases r)
      case (Inl err)
      with run False assms(3) t' have "calls_of new = []"
        by (cases rule: phase_step_effect) auto
      with Inl t' show ?thesis by (simp add: potential_def sound_attempts_def)
    next
      case (Inr p)
      have follows: "follows_phase env t p" by (rule phase_step_follows [OF run [unfolded Inr] False])
      show ?thesis
        using run False
      proof (cases rule: phase_step_effect)
        case entered
        with follows t' Inr assms(3) show ?thesis
          by (cases rule: follows_phase.cases) (auto simp: potential_def sound_attempts_def)
      next
        case (emitted es)
        with follows t' Inr assms(2,3) show ?thesis
          by (cases rule: follows_phase.cases) (auto simp: potential_def sound_attempts_def)
      next
        case (called e began n res spec code p')
        then have n: "0 \<le> n" "new = [Called (tk_intent t)]" "tries env (tk_intent t) = nat (retry_limit spec + 1)"
          using assms(2,3) t'(2) by (auto simp: sound_attempts_def tries_def)
        then have "Suc (nat (retry_limit spec + 1) - nat (n + 1)) \<le> nat (retry_limit spec + 1) - nat n" "n + 1 \<ge> 0"
          using called(3) by arith+
        with called n t' Inr show ?thesis by (auto simp: potential_def sound_attempts_def)
      qed
    qed
  qed
  then show "potential env t' + length (calls_of new) \<le> potential env t" "sound_attempts t'" by blast+
qed

definition own :: "(task \<Rightarrow> nat) \<Rightarrow> action_intent \<Rightarrow> task list \<Rightarrow> nat" where
  "own f i ts = sum_list (map (\<lambda>t. if tk_intent t = i then f t else 0) ts)"

lemma own_simps [simp]: "own f i [] = 0" "own f i (t # ts) = (if tk_intent t = i then f t else 0) + own f i ts"
  "own f i (ts @ us) = own f i ts + own f i us"
  by (simp_all add: own_def)

lemma own_update:
  assumes "k < length ts" "tk_intent t = tk_intent (ts ! k)"
  shows "own f i (ts[k := t]) + (if tk_intent t = i then f (ts ! k) else 0) = own f i ts + (if tk_intent t = i then f t else 0)"
  using assms
proof (induction ts arbitrary: k)
  case (Cons u ts)
  show ?case
  proof (cases k)
    case (Suc m)
    then show ?thesis using Cons.IH [of m] Cons.prems by (auto split: if_splits)
  qed (use Cons.prems in auto)
qed simp

definition calls_bounded :: "'k agent_env \<Rightarrow> deed list \<Rightarrow> 'k cycle \<Rightarrow> bool" where
  "calls_bounded env past cy \<longleftrightarrow> list_all sound_attempts (cy_tasks cy) \<and> (\<exists>new. an_trace (cy_agent cy) = past @ new \<and>
     (\<forall>i. count_list (calls_of new) i + own (potential env) i (cy_tasks cy) \<le> own (\<lambda>_. tries env i) i (cy_tasks cy)))"

lemma count_calls: "set cs \<subseteq> {j} \<Longrightarrow> count_list cs i = (if i = j then length cs else 0)"
  by (induction cs) auto

lemma calls_bounded_run:
  assumes "calls_bounded env past cy" "cycle_ok env past cy"
  shows "calls_bounded env past (run_step env k cy)"
proof (cases "k < length (cy_tasks cy)")
  case True
  let ?t = "cy_tasks cy ! k"
  obtain t a where run: "task_step env ?t (cy_agent cy) = (t, a)" by fastforce
  have "task_ok env (cy_request cy) (an_trace (cy_agent cy)) ?t" using assms(2) True unfolding cycle_ok_def by simp
  then obtain new where new: "an_trace a = an_trace (cy_agent cy) @ new" "set (calls_of new) \<subseteq> {tk_intent ?t}" "tk_intent t = tk_intent ?t"
    using task_step_ok [OF run] by blast
  have sound: "list_all sound_attempts (cy_tasks cy)" using assms(1) by (simp add: calls_bounded_def)
  then have "sound_attempts ?t" using True by (simp add: list_all_length)
  note pot = task_step_potential [OF run this new(1)]
  obtain old where old: "an_trace (cy_agent cy) = past @ old"
      "\<And>i. count_list (calls_of old) i + own (potential env) i (cy_tasks cy) \<le> own (\<lambda>_. tries env i) i (cy_tasks cy)"
    using assms(1) unfolding calls_bounded_def by blast
  have "count_list (calls_of (old @ new)) i + own (potential env) i ((cy_tasks cy)[k := t]) \<le> own (\<lambda>_. tries env i) i ((cy_tasks cy)[k := t])" for i
    using own_update [OF True new(3), of "potential env" i] own_update [OF True new(3), of "\<lambda>_. tries env i" i]
      old(2) [of i] pot(1) count_calls [OF new(2), of i] new(3) by (auto split: if_splits)
  moreover have "list_all sound_attempts ((cy_tasks cy)[k := t])"
    using sound pot(2) set_update_subset_insert [of "cy_tasks cy" k t] by (auto simp: list_all_iff)
  ultimately show ?thesis
    using True run old(1) new(1) by (auto simp: run_step_def calls_bounded_def)
qed (use assms in \<open>simp add: run_step_def\<close>)

lemma calls_bounded_authorize:
  assumes "calls_bounded env past cy"
  shows "calls_bounded env past (authorize_next env cy)"
proof (cases "cy_pending cy")
  case Nil
  with assms show ?thesis by (simp add: authorize_next_def)
next
  case (Cons i rest)
  obtain r a where run: "authorize_intent env (cy_request cy) i (cy_agent cy) = (r, a)" by fastforce
  obtain old where old: "an_trace (cy_agent cy) = past @ old" "list_all sound_attempts (cy_tasks cy)"
      "\<And>i. count_list (calls_of old) i + own (potential env) i (cy_tasks cy) \<le> own (\<lambda>_. tries env i) i (cy_tasks cy)"
    using assms unfolding calls_bounded_def by blast
  from run show ?thesis
  proof (cases rule: authorize_intent_parts)
    case (plain es)
    then have "an_trace a = past @ (old @ map Emitted es)" using old(1) by simp
    moreover have "count_list (calls_of (old @ map Emitted es)) i + own (potential env) i (cy_tasks cy) \<le> own (\<lambda>_. tries env i) i (cy_tasks cy)" for i
      using old(3) by simp
    ultimately have "calls_bounded env past (cy\<lparr>cy_agent := a\<rparr>)"
      using old(2) unfolding calls_bounded_def by auto
    with plain(4) show ?thesis
      by (cases r) (auto simp: authorize_next_def Cons run calls_bounded_def split: option.splits)
  next
    case (granted es e l)
    let ?t = "new_task i (cy_request cy) e l"
    have "an_trace a = past @ (old @ map Emitted es)" using old(1) granted(1) by simp
    moreover have "count_list (calls_of (old @ map Emitted es)) j + own (potential env) j (cy_tasks cy @ [?t])
        \<le> own (\<lambda>_. tries env j) j (cy_tasks cy @ [?t])" for j
      using old(3) [of j] by (simp add: new_task_def potential_def)
    moreover have "sound_attempts ?t" by (simp add: new_task_def sound_attempts_def)
    ultimately have "calls_bounded env past (cy\<lparr>cy_agent := a, cy_tasks := cy_tasks cy @ [?t]\<rparr>)"
      using old(2) unfolding calls_bounded_def by auto
    with granted(4) show ?thesis by (simp add: authorize_next_def Cons run calls_bounded_def)
  qed
qed

lemma calls_bounded_schedule:
  "calls_bounded env past cy \<Longrightarrow> cycle_ok env past cy \<Longrightarrow> calls_bounded env past (run_schedule env steps cy)"
proof (induction steps arbitrary: cy)
  case (Cons x steps)
  have "calls_bounded env past (take_step env cy x)" "cycle_ok env past (take_step env cy x)"
    using Cons.prems by (cases x; simp add: calls_bounded_authorize calls_bounded_run cycle_ok_authorize cycle_ok_run)+
  with Cons.IH show ?case by (simp add: run_schedule_def)
qed (simp add: run_schedule_def)

lemma own_count: "own (\<lambda>_. n) i ts = count_list (map tk_intent ts) i * n"
  by (induction ts) auto

subsection \<open>Attention, slots and progress\<close>

definition entered :: "task \<Rightarrow> bool" where
  "entered t \<longleftrightarrow> tk_phase t \<noteq> Waiting \<and> \<not> task_done t"

text \<open>The leases and the slots of the semaphore that the tasks of a cycle hold, over what others hold.\<close>

definition resources_ok :: "'k agent_env \<Rightarrow> real \<Rightarrow> attention_lease list \<Rightarrow> int \<Rightarrow> 'k cycle \<Rightarrow> bool" where
  "resources_ok env cap base n0 cy \<longleftrightarrow>
     account_inv cap (an_attention (cy_agent cy), map tk_lease (rev (cy_tasks cy)) @ base) \<and>
     an_active (cy_agent cy) = n0 + int (length (filter entered (cy_tasks cy))) \<and>
     (\<forall>t \<in> set (cy_tasks cy). task_done t = al_settled (tk_lease t)) \<and>
     (\<forall>i \<in> set (cy_pending cy). \<exists>x. ai_attention_cost i = Fin x)"

lemma task_step_resources:
  assumes "task_step env t a = (t', a')" "\<not> task_done t" "\<not> al_settled (tk_lease t)"
  shows "an_active a' = an_active a + (if entered t' then 1 else 0) - (if entered t then 1 else 0)"
    "\<not> task_done t' \<Longrightarrow> tk_lease t' = tk_lease t \<and> an_attention a' = an_attention a"
    "task_done t' \<Longrightarrow> settle (tk_lease t) (an_attention a) None = (tk_lease t', an_attention a')"
proof -
  obtain r a1 where run: "phase_step env t a = (r, a1)" by fastforce
  have held: "an_attention a1 = an_attention a"
    using run assms(2) by (cases rule: phase_step_effect) simp_all
  have parts: "(\<not> task_done t' \<longrightarrow> tk_lease t' = tk_lease t \<and> an_attention a' = an_attention a1) \<and>
    (task_done t' \<longrightarrow> settle (tk_lease t) (an_attention a1) None = (tk_lease t', an_attention a')) \<and>
    an_active a' = an_active a1 - (if task_done t' then 1 else 0)"
  proof (cases r)
    case (Inl err)
    with assms(1,2) run show ?thesis by (auto simp: task_step_def leave_task_def task_done_def)
  next
    case (Inr p)
    have "follows_phase env t p" by (rule phase_step_follows [OF run [unfolded Inr] assms(2)])
    then have "p \<noteq> Failed err" for err by (cases rule: follows_phase.cases) auto
    with Inr assms(1,2) run show ?thesis by (cases p) (simp_all add: task_step_def leave_task_def task_done_def, auto)
  qed
  then show "\<not> task_done t' \<Longrightarrow> tk_lease t' = tk_lease t \<and> an_attention a' = an_attention a"
    "task_done t' \<Longrightarrow> settle (tk_lease t) (an_attention a) None = (tk_lease t', an_attention a')"
    using held by simp_all
  have ended: "an_active a' = an_active a1 - (if task_done t' then 1 else 0)" using parts by blast
  have phase: "tk_phase t' = (case r of Inl err \<Rightarrow> Failed err | Inr p \<Rightarrow> p)"
    using task_step_result(4) [OF assms(2) run] assms(1) by simp
  show "an_active a' = an_active a + (if entered t' then 1 else 0) - (if entered t then 1 else 0)"
    using run assms(2)
  proof (cases rule: phase_step_effect)
    case entered
    have "\<not> AgentProperties.entered t" using entered(1) by (simp add: AgentProperties.entered_def)
    moreover have "tk_phase t' \<noteq> Waiting" if "r \<noteq> Inr Waiting" using phase that by (cases r) auto
    moreover have "\<not> task_done t'" "tk_phase t' = Waiting" if "r = Inr Waiting" using phase that by (simp_all add: task_done_def)
    ultimately show ?thesis using entered(4) ended unfolding AgentProperties.entered_def by auto
  next
    case (emitted es)
    have "tk_phase t' \<noteq> Waiting"
    proof (cases r)
      case (Inr p)
      have "follows_phase env t p" by (rule phase_step_follows [OF run [unfolded Inr] assms(2)])
      then show ?thesis using phase Inr emitted(1) by (cases rule: follows_phase.cases) auto
    qed (use phase in simp)
    then show ?thesis using emitted(1,3) ended assms(2) by (simp add: entered_def)
  next
    case (called e began n res spec code p)
    then have "tk_phase t' \<noteq> Waiting" "\<not> task_done t'" using phase by (auto simp: task_done_def)
    then show ?thesis using called(1,7) ended assms(2) by (simp add: entered_def)
  qed
qed

lemma count_update:
  assumes "k < length ts"
  shows "int (length (filter P (ts[k := t]))) = int (length (filter P ts)) + (if P t then 1 else 0) - (if P (ts ! k) then 1 else 0)"
  using assms
proof (induction ts arbitrary: k)
  case (Cons u ts)
  show ?case
  proof (cases k)
    case (Suc m)
    then show ?thesis using Cons.IH [of m] Cons.prems by (auto split: if_splits)
  qed (use Cons.prems in auto)
qed simp

lemma settle_settles: "settle l a c = (l', a') \<Longrightarrow> al_settled l'"
  by (auto simp: settle_def split: if_splits)

lemma resources_run:
  assumes "resources_ok env cap base n0 cy"
  shows "resources_ok env cap base n0 (run_step env k cy)"
proof (cases "k < length (cy_tasks cy)")
  case True
  let ?t = "cy_tasks cy ! k"
  obtain t a where run: "task_step env ?t (cy_agent cy) = (t, a)" by fastforce
  have step: "run_step env k cy = cy\<lparr>cy_agent := a, cy_tasks := (cy_tasks cy)[k := t]\<rparr>"
    using True run by (simp add: run_step_def)
  have inv: "account_inv cap (an_attention (cy_agent cy), map tk_lease (rev (cy_tasks cy)) @ base)"
      "an_active (cy_agent cy) = n0 + int (length (filter entered (cy_tasks cy)))"
      "\<forall>t \<in> set (cy_tasks cy). task_done t = al_settled (tk_lease t)" "\<forall>i \<in> set (cy_pending cy). \<exists>x. ai_attention_cost i = Fin x"
    using assms unfolding resources_ok_def by blast+
  show ?thesis
  proof (cases "task_done ?t")
    case over: True
    then have "t = ?t" "a = cy_agent cy" using run by (simp_all add: task_step_def)
    then have "run_step env k cy = cy" using step by simp
    with assms show ?thesis by simp
  next
    case False
    then have open_lease: "\<not> al_settled (tk_lease ?t)" using inv(3) True by simp
    note res = task_step_resources [OF run False open_lease]
    let ?ls1 = "map tk_lease (rev (drop (Suc k) (cy_tasks cy)))" and ?ls2 = "map tk_lease (rev (take k (cy_tasks cy))) @ base"
    have old: "map tk_lease (rev (cy_tasks cy)) @ base = ?ls1 @ tk_lease ?t # ?ls2"
      by (subst id_take_nth_drop [OF True]) simp
    have new: "map tk_lease (rev ((cy_tasks cy)[k := t])) @ base = ?ls1 @ tk_lease t # ?ls2"
      using True by (simp add: upd_conv_take_nth_drop)
    have "account_inv cap (an_attention a, map tk_lease (rev ((cy_tasks cy)[k := t])) @ base)"
      unfolding new
    proof (cases "task_done t")
      case True
      from account_inv_settle [OF inv(1) [unfolded old] res(3) [OF True]]
      show "account_inv cap (an_attention a, ?ls1 @ tk_lease t # ?ls2)" .
    next
      case False
      with res(2) inv(1) old show "account_inv cap (an_attention a, ?ls1 @ tk_lease t # ?ls2)" by simp
    qed
    moreover have "an_active a = n0 + int (length (filter entered ((cy_tasks cy)[k := t])))"
      using res(1) inv(2) count_update [OF True, of entered t] by simp
    moreover have "task_done t = al_settled (tk_lease t)"
    proof (cases "task_done t")
      case True
      with settle_settles [OF res(3)] show ?thesis by simp
    qed (use res(2) open_lease in simp)
    then have "\<forall>u \<in> set ((cy_tasks cy)[k := t]). task_done u = al_settled (tk_lease u)"
      using inv(3) set_update_subset_insert [of "cy_tasks cy" k t] by blast
    ultimately show ?thesis using inv(4) unfolding resources_ok_def step by simp
  qed
qed (use assms in \<open>simp add: run_step_def\<close>)

lemma resources_authorize:
  assumes "resources_ok env cap base n0 cy"
  shows "resources_ok env cap base n0 (authorize_next env cy)"
proof (cases "cy_pending cy")
  case Nil
  with assms show ?thesis by (simp add: authorize_next_def)
next
  case (Cons i rest)
  obtain r a where run: "authorize_intent env (cy_request cy) i (cy_agent cy) = (r, a)" by fastforce
  have inv: "account_inv cap (an_attention (cy_agent cy), map tk_lease (rev (cy_tasks cy)) @ base)"
      "an_active (cy_agent cy) = n0 + int (length (filter entered (cy_tasks cy)))"
      "\<forall>t \<in> set (cy_tasks cy). task_done t = al_settled (tk_lease t)" "\<forall>i \<in> set (cy_pending cy). \<exists>x. ai_attention_cost i = Fin x"
    using assms unfolding resources_ok_def by blast+
  from run show ?thesis
  proof (cases rule: authorize_intent_parts)
    case (plain es)
    show ?thesis
    proof (cases r)
      case (Inl err)
      with plain inv show ?thesis by (simp add: authorize_next_def Cons run resources_ok_def)
    next
      case (Inr x)
      with plain(4) have "x = None" by (cases x) auto
      with Inr plain inv show ?thesis by (simp add: authorize_next_def Cons run resources_ok_def)
    qed
  next
    case (granted es e l)
    obtain x where x: "ai_attention_cost i = Fin x" using inv(4) Cons by auto
    let ?t = "new_task i (cy_request cy) e l"
    have "account_inv cap (an_attention a, l # map tk_lease (rev (cy_tasks cy)) @ base)"
      using account_inv_acquire [OF inv(1) granted(3) [unfolded x]] by simp
    moreover have "\<not> al_settled l" using granted(3) by (auto simp: acquire_def Let_def split: if_splits)
    moreover have "\<not> task_done ?t" "\<not> entered ?t" "tk_lease ?t = l" by (simp_all add: new_task_def task_done_def entered_def)
    ultimately show ?thesis
      using granted(2,4) inv Cons by (simp add: authorize_next_def run resources_ok_def)
  qed
qed

lemma resources_schedule: "resources_ok env cap base n0 cy \<Longrightarrow> resources_ok env cap base n0 (run_schedule env steps cy)"
proof (induction steps arbitrary: cy)
  case (Cons x steps)
  have "resources_ok env cap base n0 (take_step env cy x)"
    by (cases x) (simp_all add: resources_authorize resources_run Cons.prems)
  with Cons.IH show ?case by (simp add: run_schedule_def)
qed (simp add: run_schedule_def)

text \<open>What is left once every task has ended.\<close>

lemma open_leases_settled: "\<forall>l \<in> set ls. al_settled l \<Longrightarrow> open_leases ls = {}"
  by (induction ls) auto

lemma account_available:
  assumes "account_inv cap (a, ls)" "account_inv cap (b, ls')" "open_leases ls = open_leases ls'"
  shows "ac_available a = ac_available b" "mset (ac_leases a) = mset (ac_leases b)"
proof -
  have leases: "set (ac_leases a) = set (ac_leases b)" "distinct (ac_leases a)" "distinct (ac_leases b)"
    using assms by (auto simp: account_inv_def distinct_map)
  then show m: "mset (ac_leases a) = mset (ac_leases b)" by (simp add: set_eq_iff_mset_eq_distinct)
  obtain rs where rs: "map snd (ac_leases a) = map Fin rs" "ac_available a = Fin (cap - sum_list rs)"
    using assms(1) unfolding account_inv_def budget_ok_def by auto
  obtain rs' where rs': "map snd (ac_leases b) = map Fin rs'" "ac_available b = Fin (cap - sum_list rs')"
    using assms(2) unfolding account_inv_def budget_ok_def by auto
  have "image_mset Fin (mset rs) = image_mset Fin (mset rs')"
    using rs(1) rs'(1) m by (metis mset_map)
  then have "mset rs = mset rs'" using injD [OF multiset.inj_map, of Fin] by (simp add: inj_def)
  then have "sum_list rs = sum_list rs'" by (metis sum_mset_sum_list)
  then show "ac_available a = ac_available b" using rs rs' by simp
qed

subsection \<open>No deadlock\<close>

lemma run_schedule_append: "run_schedule env (xs @ ys) cy = run_schedule env ys (run_schedule env xs cy)"
  by (simp add: run_schedule_def)

lemma run_schedule_simps [simp]: "run_schedule env [] cy = cy" "run_schedule env (x # xs) cy = run_schedule env xs (take_step env cy x)"
  by (simp_all add: run_schedule_def)

lemma run_step_frame: "length (cy_tasks (run_step env k cy)) = length (cy_tasks cy)" "cy_pending (run_step env k cy) = cy_pending cy"
  "j \<noteq> k \<Longrightarrow> cy_tasks (run_step env k cy) ! j = cy_tasks cy ! j"
  by (simp_all add: run_step_def Let_def split: prod.splits)

lemma all_authorized: "\<exists>n. cy_pending (run_schedule env (replicate n Authorize) cy) = []"
proof (induction "length (cy_pending cy)" arbitrary: cy rule: less_induct)
  case less
  show ?case
  proof (cases "cy_pending cy")
    case Nil
    then show ?thesis by (intro exI [of _ 0]) simp
  next
    case (Cons i rest)
    then have "length (cy_pending (authorize_next env cy)) < length (cy_pending cy)"
      by (auto simp: authorize_next_def split: prod.splits sum.splits option.splits)
    from less [OF this] obtain n where "cy_pending (run_schedule env (replicate n Authorize) (authorize_next env cy)) = []" by blast
    then show ?thesis by (intro exI [of _ "Suc n"]) simp
  qed
qed

text \<open>A task that has a slot, or can have one, runs to its end.\<close>

lemma task_runs_out:
  assumes "k < length (cy_tasks cy)" "entered (cy_tasks cy ! k) \<or> an_active (cy_agent cy) < gc_max_concurrent_actions (ge_config env)"
  shows "\<exists>n. task_done (cy_tasks (run_schedule env (replicate n (Run k)) cy) ! k)"
  using wf_lex_prod [OF wf_less_than wf_less_than] assms
proof (induction "task_measure env (cy_tasks cy ! k)" arbitrary: cy rule: wf_induct_rule)
  case less
  let ?t = "cy_tasks cy ! k"
  show ?case
  proof (cases "task_done ?t")
    case True
    then show ?thesis by (intro exI [of _ 0]) simp
  next
    case False
    obtain t a where run: "task_step env ?t (cy_agent cy) = (t, a)" by fastforce
    then have cy': "run_step env k cy = cy\<lparr>cy_agent := a, cy_tasks := (cy_tasks cy)[k := t]\<rparr>"
      using less(2) by (simp add: run_step_def)
    obtain r a1 where ph: "phase_step env ?t (cy_agent cy) = (r, a1)" by fastforce
    have phase: "tk_phase t = (case r of Inl err \<Rightarrow> Failed err | Inr p \<Rightarrow> p)"
      using task_step_result(4) [OF False ph] run by simp
    have moves: "tk_phase t \<noteq> Waiting"
    proof (cases r)
      case (Inr p)
      have "follows_phase env ?t p" by (rule phase_step_follows [OF ph [unfolded Inr] False])
      then show ?thesis
      proof (cases "tk_phase ?t = Waiting")
        case True
        with False less(3) ph Inr phase show ?thesis
          by (auto simp: entered_def phase_step_def enter_task_def rbind_Inr_iff split: if_splits)
      next
        case False
        with \<open>follows_phase env ?t p\<close> have "p \<noteq> Waiting" by (cases rule: follows_phase.cases) auto
        then show ?thesis using phase Inr by simp
      qed
    qed (use phase in simp)
    have "(task_measure env (cy_tasks (run_step env k cy) ! k), task_measure env ?t) \<in> less_than <*lex*> less_than"
      using task_step_decreases [OF False run moves] less(2) by (simp add: cy')
    moreover have "k < length (cy_tasks (run_step env k cy))" using less(2) by (simp add: run_step_frame)
    ultimately have "\<exists>n. task_done (cy_tasks (run_schedule env (replicate n (Run k)) (run_step env k cy)) ! k)"
    proof (cases "task_done t")
      case True
      then show ?thesis using less(2) by (intro exI [of _ 0]) (simp add: cy')
    next
      case False
      with moves less(2) have "entered (cy_tasks (run_step env k cy) ! k)" by (simp add: cy' entered_def)
      with less(1) less(2) \<open>(task_measure env (cy_tasks (run_step env k cy) ! k), task_measure env ?t) \<in> _\<close> show ?thesis
        by (simp add: run_step_frame)
    qed
    then obtain n where "task_done (cy_tasks (run_schedule env (replicate n (Run k)) (run_step env k cy)) ! k)" by blast
    then show ?thesis by (intro exI [of _ "Suc n"]) simp
  qed
qed

lemma run_other: "j \<noteq> k \<Longrightarrow> cy_tasks (run_schedule env (replicate n (Run k)) cy) ! j = cy_tasks cy ! j"
  "length (cy_tasks (run_schedule env (replicate n (Run k)) cy)) = length (cy_tasks cy)"
  "cy_pending (run_schedule env (replicate n (Run k)) cy) = cy_pending cy"
  by (induction n arbitrary: cy) (simp_all add: run_step_frame)

lemma filter_less:
  assumes "length xs = length ys" "k < length xs" "\<not> P (xs ! k)" "P (ys ! k)" "\<And>j. j \<noteq> k \<Longrightarrow> xs ! j = ys ! j"
  shows "length (filter P xs) < length (filter P ys)"
proof -
  have "xs = ys[k := xs ! k]"
    using assms by (intro nth_equalityI) (auto simp: nth_list_update)
  then show ?thesis using count_update [of k ys P "xs ! k"] assms by simp
qed

lemma cycle_can_finish:
  assumes "resources_ok env cap base n0 cy" "n0 < gc_max_concurrent_actions (ge_config env)"
  shows "\<exists>steps. cycle_finished (run_schedule env steps cy)"
proof -
  obtain n where pending: "cy_pending (run_schedule env (replicate n Authorize) cy) = []" using all_authorized by blast
  have "\<exists>steps. cycle_finished (run_schedule env steps cy')" if "resources_ok env cap base n0 cy'" "cy_pending cy' = []" for cy'
    using that
  proof (induction "length (filter (\<lambda>t. \<not> task_done t) (cy_tasks cy'))" arbitrary: cy' rule: less_induct)
    case less
    show ?case
    proof (cases "\<exists>k < length (cy_tasks cy'). \<not> task_done (cy_tasks cy' ! k) \<and>
        (entered (cy_tasks cy' ! k) \<or> an_active (cy_agent cy') < gc_max_concurrent_actions (ge_config env))")
      case True
      then obtain k where k: "k < length (cy_tasks cy')" "\<not> task_done (cy_tasks cy' ! k)"
          "entered (cy_tasks cy' ! k) \<or> an_active (cy_agent cy') < gc_max_concurrent_actions (ge_config env)" by blast
      obtain m where m: "task_done (cy_tasks (run_schedule env (replicate m (Run k)) cy') ! k)"
        using task_runs_out [OF k(1,3)] by blast
      let ?next = "run_schedule env (replicate m (Run k)) cy'"
      have "length (filter (\<lambda>t. \<not> task_done t) (cy_tasks ?next)) < length (filter (\<lambda>t. \<not> task_done t) (cy_tasks cy'))"
        by (rule filter_less [of _ _ k]) (use m k in \<open>simp_all add: run_other\<close>)
      moreover have "resources_ok env cap base n0 ?next" by (rule resources_schedule [OF less(2)])
      moreover have "cy_pending ?next = []" using less(3) by (simp add: run_other)
      ultimately obtain steps where "cycle_finished (run_schedule env steps ?next)" using less(1) by blast
      then show ?thesis by (intro exI [of _ "replicate m (Run k) @ steps"]) (simp add: run_schedule_append)
    next
      case False
      have "task_done t" if member: "t \<in> set (cy_tasks cy')" for t
      proof (rule ccontr)
        assume "\<not> task_done t"
        with member False have busy: "\<not> an_active (cy_agent cy') < gc_max_concurrent_actions (ge_config env)"
          by (auto simp: in_set_conv_nth)
        have "\<not> entered u" if "u \<in> set (cy_tasks cy')" for u
          using that False by (auto simp: in_set_conv_nth entered_def)
        then have "filter entered (cy_tasks cy') = []" by simp
        with less(2) busy assms(2) show False by (simp add: resources_ok_def)
      qed
      then have "cycle_finished (run_schedule env [] cy')" using less(3) by (simp add: cycle_finished_def list_all_iff)
      then show ?thesis by blast
    qed
  qed
  from this [OF resources_schedule [OF assms(1)] pending] obtain steps
    where "cycle_finished (run_schedule env steps (run_schedule env (replicate n Authorize) cy))" by blast
  then show ?thesis by (intro exI [of _ "replicate n Authorize @ steps"]) (simp add: run_schedule_append)
qed

subsection \<open>Recovery\<close>

definition calls_within :: "(action_intent \<Rightarrow> bool) \<Rightarrow> ('k, 'a) act \<Rightarrow> bool" where
  "calls_within P m \<longleftrightarrow> (\<forall>a r a'. m a = (r, a') \<longrightarrow> (\<exists>new. an_trace a' = an_trace a @ new \<and> (\<forall>i \<in> set (calls_of new). P i)))"

lemma quiet_calls: "quiet m \<Longrightarrow> calls_within P m"
  unfolding quiet_def calls_within_def by (metis calls_of_emitted empty_iff empty_set)

lemma calls_within_bind:
  assumes "calls_within P m" "\<And>x. calls_within P (f x)"
  shows "calls_within P (cbind m f)"
  unfolding calls_within_def
proof (intro allI impI)
  fix a r a' assume "cbind m f a = (r, a')"
  then show "\<exists>new. an_trace a' = an_trace a @ new \<and> (\<forall>i \<in> set (calls_of new). P i)"
  proof (cases rule: cbind_cases)
    case (raised err)
    with assms(1) show ?thesis unfolding calls_within_def by blast
  next
    case (went_on x a1)
    obtain n1 where "an_trace a1 = an_trace a @ n1" "\<forall>i \<in> set (calls_of n1). P i"
      using assms(1) went_on(1) unfolding calls_within_def by blast
    moreover obtain n2 where "an_trace a' = an_trace a1 @ n2" "\<forall>i \<in> set (calls_of n2). P i"
      using assms(2) went_on(2) unfolding calls_within_def by blast
    ultimately show ?thesis by (intro exI [of _ "n1 @ n2"]) auto
  qed
qed

lemma calls_within_diag: "(\<And>b. calls_within P (f b)) \<Longrightarrow> calls_within P (\<lambda>a. f a a)"
  unfolding calls_within_def by blast

lemma task_step_calls:
  assumes "task_step env t a = (t', a')"
  shows "\<exists>new. an_trace a' = an_trace a @ new \<and> set (calls_of new) \<subseteq> {tk_intent t} \<and> tk_intent t' = tk_intent t"
proof (cases "task_done t")
  case True
  with assms show ?thesis by (intro exI [of _ "[]"]) (auto simp: task_step_def)
next
  case False
  obtain r a1 where run: "phase_step env t a = (r, a1)" by fastforce
  have same: "tk_intent t' = tk_intent t" "an_trace a' = an_trace a1"
    using task_step_result(1,3) [OF False run] assms by simp_all
  from run False show ?thesis
  proof (cases rule: phase_step_effect)
    case (emitted es)
    then show ?thesis using same by (intro exI [of _ "map Emitted es"]) simp
  next
    case (called e began n res spec code p)
    then show ?thesis using same by (intro exI [of _ "[Called (tk_intent t)]"]) simp
  qed (use same in \<open>auto intro: exI [of _ "[]"]\<close>)
qed

lemma run_task_calls:
  "run_task env t a = (t', a') \<Longrightarrow> \<exists>new. an_trace a' = an_trace a @ new \<and> set (calls_of new) \<subseteq> {tk_intent t}"
proof (induction env t a rule: run_task.induct)
  case (1 env t a)
  show ?case
  proof (cases "task_done t")
    case True
    with 1(2) show ?thesis by (intro exI [of _ "[]"]) (simp add: run_task.simps)
  next
    case False
    obtain u b where step: "task_step env t a = (u, b)" by fastforce
    obtain n1 where n1: "an_trace b = an_trace a @ n1" "set (calls_of n1) \<subseteq> {tk_intent t}" "tk_intent u = tk_intent t"
      using task_step_calls [OF step] by blast
    show ?thesis
    proof (cases "tk_phase u = Waiting")
      case True
      with 1(2) False step n1 show ?thesis by (auto simp: run_task.simps [of env t])
    next
      case moved: False
      then have "run_task env u b = (t', a')" using 1(2) False step by (simp add: run_task.simps [of env t])
      from 1(1) [OF False step [symmetric] refl moved this] obtain n2
        where "an_trace a' = an_trace b @ n2" "set (calls_of n2) \<subseteq> {tk_intent u}" by blast
      with n1 show ?thesis by (intro exI [of _ "n1 @ n2"]) auto
    qed
  qed
qed

lemma calls_within_recovered:
  assumes "P (tk_intent t)"
  shows "calls_within P (execute_recovered env t e)"
  unfolding calls_within_def
proof (intro allI impI)
  fix a r a' assume run: "execute_recovered env t e a = (r, a')"
  obtain t' a1 where t': "run_task env t a = (t', a1)" by fastforce
  obtain n1 where n1: "an_trace a1 = an_trace a @ n1" "set (calls_of n1) \<subseteq> {tk_intent t}"
    using run_task_calls [OF t'] by blast
  have "\<exists>es. an_trace a' = an_trace a1 @ map Emitted es"
  proof (cases "\<exists>out. tk_phase t' = Finished (Some out)")
    case True
    then obtain out where "tk_phase t' = Finished (Some out)" by blast
    then have "cbind (pure_result (reflect (ge_controller env) out (tk_request t))) (\<lambda>es.
           emit_each env (map (\<lambda>e'. caused_by e' e None) es)) a1 = (r, a')"
      using run t' by (simp add: execute_recovered_def)
    then show ?thesis by (rule quiet_trace [rotated]) (intro quiet_intros)
  next
    case False
    then have "a' = a1" using run t'
      by (auto simp: execute_recovered_def split: phase.splits option.splits)
    then show ?thesis by (intro exI [of _ "[]"]) simp
  qed
  then obtain es where "an_trace a' = an_trace a @ (n1 @ map Emitted es)" using n1 by auto
  moreover have "\<forall>i \<in> set (calls_of (n1 @ map Emitted es)). P i" using n1(2) assms by auto
  ultimately show "\<exists>new. an_trace a' = an_trace a @ new \<and> (\<forall>i \<in> set (calls_of new). P i)" by blast
qed

lemma quiet_acquire_attention: "calls_within P (acquire_attention x)"
  by (auto simp: calls_within_def acquire_attention_def split: sum.splits intro: exI [of _ "[]"])

definition may_repeat :: "'k agent_env \<Rightarrow> action_intent \<Rightarrow> bool" where
  "may_repeat env i \<longleftrightarrow> (\<exists>spec code k t. map_of (ge_capabilities env) (ai_capability i) = Some (spec, code) \<and>
     cs_idempotent spec \<and> az_allowed (authorize (ge_policy env) i spec (ge_snapshot env k t)))"

lemma resume_calls: "P i \<Longrightarrow> calls_within P (resume env si requested i)"
  unfolding calls_within_def
proof (intro allI impI)
  fix a r a' assume ok: "P i" and run: "resume env si requested i a = (r, a')"
  let ?f = "\<lambda>lease. case lease of
         None \<Rightarrow> pure_result (Inr ())
       | Some l \<Rightarrow> execute_recovered env
           (new_task i (deliberation_request_of env a si requested [(''recovery'', JBool True)]) requested l) requested"
  have "calls_within P (?f lease)" for lease
  proof (cases lease)
    case None
    then show ?thesis using quiet_pure quiet_calls by auto
  next
    case (Some l)
    have "calls_within P (execute_recovered env
        (new_task i (deliberation_request_of env a si requested [(''recovery'', JBool True)]) requested l) requested)"
      by (rule calls_within_recovered) (simp add: new_task_def ok)
    with Some show ?thesis by simp
  qed
  then have "calls_within P (cbind (acquire_attention (ai_attention_cost i)) ?f)"
    by (intro calls_within_bind quiet_acquire_attention)
  with run show "\<exists>new. an_trace a' = an_trace a @ new \<and> (\<forall>i \<in> set (calls_of new). P i)"
    unfolding resume_def calls_within_def by blast
qed

lemma reauthorize_calls:
  assumes "cs_idempotent spec \<and> az_allowed (authorize (ge_policy env) i spec si) \<longrightarrow> P i"
  shows "calls_within P (reauthorize env started e i spec si)"
proof -
  have abandoned: "calls_within P (abandon env started e i reason extra)" for reason extra
    unfolding abandon_def by (intro quiet_calls quiet_intros)
  have emitted: "calls_within P (emit_new env ty subj corr caus payload)" for ty subj corr caus payload
    by (intro quiet_calls quiet_intros)
  show ?thesis
  proof (cases "cs_idempotent spec \<and> az_allowed (authorize (ge_policy env) i spec si)")
    case True
    with assms have "P i" by blast
    with True show ?thesis unfolding reauthorize_def Let_def by (simp, intro calls_within_bind emitted resume_calls)
  next
    case False
    then show ?thesis unfolding reauthorize_def Let_def using abandoned by auto
  qed
qed

lemma recover_one_calls: "calls_within (\<lambda>j. j = i \<and> may_repeat env i) (recover_one env started (e, i))"
proof (cases "map_of (ge_capabilities env) (ai_capability i)")
  case None
  then show ?thesis unfolding recover_one_def abandon_def by (simp, intro quiet_calls quiet_intros)
next
  case (Some c)
  obtain spec code where c: "c = (spec, code)" by fastforce
  let ?P = "\<lambda>j. j = i \<and> may_repeat env i"
  have "calls_within ?P (\<lambda>a. reauthorize env started e i spec (ge_snapshot env (an_kernel a) (ge_clock env n)) a)" for n
  proof (rule calls_within_diag [of ?P "\<lambda>b. reauthorize env started e i spec (ge_snapshot env (an_kernel b) (ge_clock env n))"])
    fix b :: "'a agent"
    show "calls_within ?P (reauthorize env started e i spec (ge_snapshot env (an_kernel b) (ge_clock env n)))"
      by (rule reauthorize_calls) (use Some c in \<open>auto simp: may_repeat_def\<close>)
  qed
  moreover have "calls_within ?P (tick :: ('a, nat) act)" by (intro quiet_calls quiet_intros)
  ultimately show ?thesis using Some c unfolding recover_one_def by (simp add: calls_within_bind)
qed

lemma calls_within_mono: "calls_within P m \<Longrightarrow> (\<And>i. P i \<Longrightarrow> Q i) \<Longrightarrow> calls_within Q m"
  unfolding calls_within_def by blast

lemma recover_all_calls: "calls_within (\<lambda>j. j \<in> snd ` set ps \<and> may_repeat env j) (recover_all env started ps)"
proof (induction ps)
  case Nil
  then show ?case by (simp, intro quiet_calls quiet_intros)
next
  case (Cons p ps)
  show ?case unfolding recover_all.simps
  proof (rule calls_within_bind)
    have "calls_within (\<lambda>j. j = snd p \<and> may_repeat env (snd p)) (recover_one env started p)"
      using recover_one_calls [of "snd p" env started "fst p"] by simp
    then show "calls_within (\<lambda>j. j \<in> snd ` set (p # ps) \<and> may_repeat env j) (recover_one env started p)"
      by (rule calls_within_mono) auto
    show "calls_within (\<lambda>j. j \<in> snd ` set (p # ps) \<and> may_repeat env j) (recover_all env started ps)"
      by (rule calls_within_mono [OF Cons]) auto
  qed
qed

text \<open>What the scan of the history collects.\<close>

lemma pending_from: "p \<in> set (pending_actions rv) \<Longrightarrow> \<exists>s. (s, fst p, snd p) \<in> set (rv_authorized rv) \<and> s \<notin> set (rv_terminal rv)"
  by (auto simp: pending_actions_def)

definition authorized_by :: "'k agent_env \<Rightarrow> jobject event list \<Rightarrow> jobject event \<Rightarrow> action_intent \<Rightarrow> bool" where
  "authorized_by env es e i \<longleftrightarrow> e \<in> set es \<and> ev_type e = ''decision.authorized'' \<and> ev_source e = gc_agent_id (ge_config env) \<and>
     (\<exists>d. jget (ev_payload e) ''intent'' = JObj d \<and> intent_from_payload (ge_builtins env) d = Inr i)"

definition scanned :: "'k agent_env \<Rightarrow> jobject event list \<Rightarrow> recovery \<Rightarrow> bool" where
  "scanned env es rv \<longleftrightarrow>
     (\<forall>(s, e, i) \<in> set (rv_authorized rv). ev_subject e = Some s \<and> authorized_by env es e i) \<and>
     (\<forall>x \<in> set es. \<forall>s. ev_subject x = Some s \<and> ev_source x = gc_agent_id (ge_config env) \<and> ev_type x \<noteq> ''decision.authorized'' \<longrightarrow>
        s \<in> set (rv_terminal rv))"

lemma scanned_grows: "scanned env es rv \<Longrightarrow>
    (\<And>s. ev_subject x = Some s \<Longrightarrow> ev_source x = gc_agent_id (ge_config env) \<Longrightarrow> ev_type x \<noteq> ''decision.authorized'' \<Longrightarrow>
      s \<in> set (rv_terminal rv)) \<Longrightarrow> scanned env (es @ [x]) rv"
  unfolding scanned_def authorized_by_def by fastforce

lemma update_members: "p \<in> set (AList.update k v d) \<Longrightarrow> p = (k, v) \<or> p \<in> set d"
  by (induction d) (auto split: if_splits)

lemma scan_event_keeps:
  assumes "scan_event env rv x = Inr rv'" "scanned env es rv"
  shows "scanned env (es @ [x]) rv'"
proof (cases "ev_subject x")
  case None
  with assms show ?thesis by (auto simp: scan_event_def intro: scanned_grows)
next
  case (Some s)
  show ?thesis
  proof (cases "ev_source x = gc_agent_id (ge_config env)")
    case False
    with assms Some show ?thesis by (auto simp: scan_event_def intro: scanned_grows)
  next
    case own: True
    show ?thesis
    proof (cases "ev_type x = ''decision.authorized''")
      case False
      with assms(1) Some own have "rv_authorized rv' = rv_authorized rv" "rv_terminal rv' = rv_terminal rv @ [s]"
        by (auto simp: scan_event_def)
      then show ?thesis using assms(2) Some unfolding scanned_def authorized_by_def by fastforce
    next
      case True
      have grown: "scanned env (es @ [x]) rv" using assms(2) True by (auto intro: scanned_grows)
      show ?thesis
      proof (cases "\<exists>d. jget (ev_payload x) ''intent'' = JObj d")
        case False
        then have "rv' = rv" using assms(1) Some own True by (auto simp: scan_event_def split: json.splits)
        with grown show ?thesis by simp
      next
        case obj: True
        then obtain d i where d: "jget (ev_payload x) ''intent'' = JObj d" "intent_from_payload (ge_builtins env) d = Inr i"
            "rv' = rv\<lparr>rv_authorized := AList.update s (x, i) (rv_authorized rv)\<rparr>"
          using assms(1) Some own True by (auto simp: scan_event_def rbind_Inr_iff)
        have this_one: "authorized_by env (es @ [x]) x i" using d own True by (auto simp: authorized_by_def)
        have rv': "rv_authorized rv' = AList.update s (x, i) (rv_authorized rv)" "rv_terminal rv' = rv_terminal rv"
          using d(3) by simp_all
        have "ev_subject (fst (snd p)) = Some (fst p) \<and> authorized_by env (es @ [x]) (fst (snd p)) (snd (snd p))"
          if member: "p \<in> set (rv_authorized rv')" for p
          using update_members [OF member [unfolded rv'(1)]] grown this_one Some unfolding scanned_def by fastforce
        then show ?thesis using grown rv'(2) unfolding scanned_def by (simp add: case_prod_beta)
      qed
    qed
  qed
qed

lemma scan_history_keeps:
  assumes "scan_history env rv rest = (Inr (), rv')" "scanned env es rv"
  shows "scanned env (es @ rest) rv'"
  using assms
proof (induction rest arbitrary: es rv)
  case (Cons x rest)
  then obtain rv1 where "scan_event env rv x = Inr rv1" "scan_history env rv1 rest = (Inr (), rv')"
    by (auto split: sum.splits)
  then show ?case using Cons.IH [of rv1 "es @ [x]"] scan_event_keeps Cons.prems(2) by fastforce
qed simp

subsection \<open>Properties\<close>

definition intents_within :: "action_intent list \<Rightarrow> 'k cycle \<Rightarrow> bool" where
  "intents_within chosen cy \<longleftrightarrow> (\<forall>i. count_list (map tk_intent (cy_tasks cy) @ cy_pending cy) i \<le> count_list chosen i)"

lemma intents_within_step: "intents_within chosen cy \<Longrightarrow> intents_within chosen (take_step env cy x)"
proof (cases x)
  case Authorize
  assume within: "intents_within chosen cy"
  show ?thesis
  proof (cases "cy_pending cy")
    case Nil
    with within Authorize show ?thesis by (simp add: authorize_next_def)
  next
    case (Cons i rest)
    obtain r a where run: "authorize_intent env (cy_request cy) i (cy_agent cy) = (r, a)" by fastforce
    have fewer: "count_list (map tk_intent (cy_tasks cy)) j \<le> count_list chosen j"
        "count_list (map tk_intent (cy_tasks cy)) j + count_list rest j \<le> count_list chosen j"
        "count_list (map tk_intent (cy_tasks cy)) j + count_list (i # rest) j \<le> count_list chosen j" for j
      using within [unfolded intents_within_def Cons, rule_format, of j] by (auto split: if_splits)
    from run show ?thesis
    proof (cases rule: authorize_intent_parts)
      case (plain es)
      with fewer(1,2) show ?thesis
        by (auto simp: Authorize authorize_next_def Cons run intents_within_def split: sum.splits option.splits)
    next
      case (granted es e l)
      have "tk_intent (new_task i (cy_request cy) e l) = i" by (simp add: new_task_def)
      with granted(4) fewer(3) show ?thesis by (simp add: Authorize authorize_next_def Cons run intents_within_def)
    qed
  qed
next
  case (Run k)
  assume "intents_within chosen cy"
  then show ?thesis
  proof (cases "k < length (cy_tasks cy)")
    case True
    obtain t a where run: "task_step env (cy_tasks cy ! k) (cy_agent cy) = (t, a)" by fastforce
    have "tk_intent t = tk_intent (cy_tasks cy ! k)" using task_step_calls [OF run] by blast
    then have "map tk_intent ((cy_tasks cy)[k := t]) = map tk_intent (cy_tasks cy)"
      using True by (simp add: map_update list_update_same_conv)
    then show ?thesis using \<open>intents_within chosen cy\<close> Run True run by (simp add: run_step_def intents_within_def)
  qed (simp add: Run run_step_def)
qed

lemma intents_within_schedule: "intents_within chosen cy \<Longrightarrow> intents_within chosen (run_schedule env steps cy)"
  by (induction steps arbitrary: cy) (simp_all add: intents_within_step)

text \<open>
  C26: whatever the schedule of a cycle's tasks, a capability is invoked only after the events that record the
  authorisation of its intent and the start of its action were accepted, only for an intent that was selected and
  that the policy allows in the situation of the cycle, and no more often than its specification permits for each
  time the intent was selected: once, or once and its retries when it is idempotent.
\<close>

theorem calls_are_authorized:
  "\<exists>new. an_trace (cy_agent (run_schedule env steps (new_cycle a q chosen))) = an_trace a @ new \<and> guarded (an_trace a) new \<and>
     (\<forall>i \<in> set (calls_of new). policy_allows env (dq_situation q) i) \<and>
     (\<forall>i. count_list (calls_of new) i \<le> count_list chosen i * tries env i)"
proof -
  let ?cy = "run_schedule env steps (new_cycle a q chosen)"
  have ok: "cycle_ok env (an_trace a) (new_cycle a q chosen)" "calls_bounded env (an_trace a) (new_cycle a q chosen)"
    by (auto simp: new_cycle_def cycle_ok_def calls_bounded_def)
  have "cycle_ok env (an_trace a) ?cy" by (rule cycle_ok_schedule [OF ok(1)])
  moreover have "cy_request ?cy = q" by (simp add: new_cycle_def)
  ultimately obtain new where new: "an_trace (cy_agent ?cy) = an_trace a @ new" "guarded (an_trace a) new"
      "set (calls_of new) \<subseteq> tk_intent ` set (cy_tasks ?cy)" "\<forall>t \<in> set (cy_tasks ?cy). policy_allows env (dq_situation q) (tk_intent t)"
    unfolding cycle_ok_def task_ok_def by metis
  have "calls_bounded env (an_trace a) ?cy" by (rule calls_bounded_schedule [OF ok(2,1)])
  then have bound: "count_list (calls_of new) i \<le> count_list (map tk_intent (cy_tasks ?cy)) i * tries env i" for i
    using new(1) own_count [of "tries env i" i "cy_tasks ?cy"] unfolding calls_bounded_def by (metis add_leE same_append_eq)
  have "intents_within chosen ?cy" by (rule intents_within_schedule) (simp add: intents_within_def new_cycle_def)
  then have "count_list (map tk_intent (cy_tasks ?cy)) i \<le> count_list chosen i" for i
    unfolding intents_within_def by (metis add_leE count_list_append)
  then have "count_list (calls_of new) i \<le> count_list chosen i * tries env i" for i
    using bound [of i] by (meson le_trans mult_le_mono1)
  with new show ?thesis by (intro exI [of _ new]) auto
qed

text \<open>
  C28: attention and slots are given back: when every task of a cycle has ended, under any schedule and whatever the
  outcome of each (a result, an exception, an intent without a capability), the semaphore is where it was, the
  account holds the same leases and the same attention is available as before the cycle.
\<close>

theorem cycle_returns_resources:
  assumes "account_inv cap (an_attention a, base)" "\<forall>i \<in> set chosen. \<exists>x. ai_attention_cost i = Fin x"
    and "cycle_finished (run_schedule env steps (new_cycle a q chosen))"
  shows "an_active (cy_agent (run_schedule env steps (new_cycle a q chosen))) = an_active a \<and>
    ac_available (an_attention (cy_agent (run_schedule env steps (new_cycle a q chosen)))) = ac_available (an_attention a) \<and>
    mset (ac_leases (an_attention (cy_agent (run_schedule env steps (new_cycle a q chosen))))) = mset (ac_leases (an_attention a))"
proof -
  let ?cy = "run_schedule env steps (new_cycle a q chosen)"
  have "resources_ok env cap base (an_active a) (new_cycle a q chosen)"
    using assms(1,2) by (simp add: resources_ok_def new_cycle_def)
  then have inv: "resources_ok env cap base (an_active a) ?cy" by (rule resources_schedule)
  have over: "task_done t" if "t \<in> set (cy_tasks ?cy)" for t
    using that assms(3) by (simp add: cycle_finished_def list_all_iff)
  then have "filter entered (cy_tasks ?cy) = []" by (auto simp: entered_def filter_empty_conv)
  then have "an_active (cy_agent ?cy) = an_active a" using inv by (simp add: resources_ok_def)
  moreover have "al_settled (tk_lease t)" if "t \<in> set (cy_tasks ?cy)" for t
    using that over inv by (simp add: resources_ok_def)
  then have "open_leases (map tk_lease (rev (cy_tasks ?cy)) @ base) = open_leases base"
    using open_leases_settled [of "map tk_lease (rev (cy_tasks ?cy))"] by auto
  moreover have "account_inv cap (an_attention (cy_agent ?cy), map tk_lease (rev (cy_tasks ?cy)) @ base)"
    using inv by (simp add: resources_ok_def)
  ultimately show ?thesis using account_available [OF _ assms(1)] by blast
qed

text \<open>
  C27: no deadlock: as long as the slots held outside the cycle leave one free, every schedule of a cycle can be
  continued until all its intents are decided and all its tasks have ended.
\<close>

theorem cycle_never_stuck:
  assumes "account_inv cap (an_attention a, base)" "\<forall>i \<in> set chosen. \<exists>x. ai_attention_cost i = Fin x"
    and "an_active a < gc_max_concurrent_actions (ge_config env)"
  shows "\<exists>later. cycle_finished (run_schedule env (steps @ later) (new_cycle a q chosen))"
proof -
  have "resources_ok env cap base (an_active a) (new_cycle a q chosen)"
    using assms(1,2) by (simp add: resources_ok_def new_cycle_def)
  from cycle_can_finish [OF resources_schedule [OF this] assms(3)] show ?thesis by (simp add: run_schedule_append)
qed

text \<open>
  C29: the recovery at the start repeats nothing that is not safe to repeat: every capability it invokes is for an
  intent that this agent had authorised in the history and for which the history holds no terminal event, the
  capability is declared idempotent, and the policy allows the intent again in a situation read from the kernel.
\<close>

theorem recovery_repeats_safely:
  assumes "ge_history env (an_kernel a) lifecycle_types = Inr es" "restore_state env started a = (r, a')"
  shows "\<exists>new. an_trace a' = an_trace a @ new \<and>
    (\<forall>i \<in> set (calls_of new). may_repeat env i \<and>
      (\<exists>e. authorized_by env es e i \<and>
        \<not> (\<exists>x \<in> set es. ev_subject x = ev_subject e \<and> ev_source x = gc_agent_id (ge_config env) \<and> ev_type x \<noteq> ''decision.authorized'')))"
proof -
  let ?rv0 = "\<lparr>rv_authorized = [], rv_terminal = [], rv_ledger = an_ledger a\<rparr>"
  obtain q rv where scan: "scan_history env ?rv0 es = (q, rv)" by fastforce
  have run: "cbind (pure_result q) (\<lambda>_. recover_all env started (pending_actions rv)) (a\<lparr>an_ledger := rv_ledger rv\<rparr>) = (r, a')"
    using assms scan by (simp add: restore_state_def cbind_def pure_result_def)
  show ?thesis
  proof (cases q)
    case (Inl err)
    with run have "an_trace a' = an_trace a" by (auto simp: cbind_def pure_result_def)
    then show ?thesis by (intro exI [of _ "[]"]) simp
  next
    case (Inr u)
    then have sc: "scanned env es rv"
      using scan_history_keeps [of env ?rv0 es rv "[]"] scan by (simp add: scanned_def)
    have "recover_all env started (pending_actions rv) (a\<lparr>an_ledger := rv_ledger rv\<rparr>) = (r, a')"
      using run Inr by (simp add: cbind_def pure_result_def)
    then obtain new where new: "an_trace a' = an_trace a @ new"
        "\<forall>i \<in> set (calls_of new). i \<in> snd ` set (pending_actions rv) \<and> may_repeat env i"
      using recover_all_calls unfolding calls_within_def by fastforce
    have "\<exists>e. authorized_by env es e i \<and>
        \<not> (\<exists>x \<in> set es. ev_subject x = ev_subject e \<and> ev_source x = gc_agent_id (ge_config env) \<and> ev_type x \<noteq> ''decision.authorized'')"
      if called: "i \<in> set (calls_of new)" for i
    proof -
      obtain p where p: "p \<in> set (pending_actions rv)" "i = snd p" using new(2) called by blast
      obtain s e where e: "(s, e, i) \<in> set (rv_authorized rv)" "s \<notin> set (rv_terminal rv)"
        using pending_from [OF p(1)] unfolding p(2) by blast
      then have who: "ev_subject e = Some s" "authorized_by env es e i" using sc unfolding scanned_def by auto
      have closed: "s \<in> set (rv_terminal rv)"
        if "x \<in> set es" "ev_subject x = Some s" "ev_source x = gc_agent_id (ge_config env)" "ev_type x \<noteq> ''decision.authorized''" for x
        using that sc unfolding scanned_def by blast
      show ?thesis by (rule exI [of _ e]) (use who e(2) closed in auto)
    qed
    with new show ?thesis by blast
  qed
qed

subsection \<open>A small agent\<close>

text \<open>
  An agent with one capability, over a kernel that accepts every event: \<open>answer n\<close> is what the capability returns
  at the moment \<open>n\<close>.
\<close>

definition small_config :: agent_config where
  "small_config = \<lparr>gc_agent_id = ''a'', gc_trigger_patterns = [''*''], gc_ignored_patterns = [''decision.*''], gc_workers = 1,
     gc_max_concurrent_actions = 2, gc_max_actions_per_cycle = 4, gc_attention_capacity = Fin 10,
     gc_attention_budget_per_cycle = Fin 10, gc_retry_jitter_fraction = 0, gc_processed_event_cache = 100\<rparr>"

definition small_spec :: "bool \<Rightarrow> capability_spec" where
  "small_spec idempotent = \<lparr>cs_name = ''mail'', cs_description = [], cs_input_schema = [], cs_output_schema = [],
     cs_risk_level = LOW, cs_reversible = True, cs_idempotent = idempotent, cs_required_authority = ACT_REVERSIBLE,
     cs_timeout_seconds = Fin 30, cs_max_retries = 2, cs_tags = []\<rparr>"

definition small_env :: "bool \<Rightarrow> (nat \<Rightarrow> attempt) \<Rightarrow> (unit \<Rightarrow> string list \<Rightarrow> jobject event list result) \<Rightarrow> unit agent_env" where
  "small_env idempotent answer history = \<lparr>ge_config = small_config,
     ge_builtins = \<lparr>bi_str = (\<lambda>_. ''?''), bi_int = (\<lambda>_. Inl (TypeError ''int'')),
       bi_dict = (\<lambda>_. Inl (TypeError ''dict'')), bi_float = (\<lambda>_. Inl (TypeError ''float'')),
       bi_iter = (\<lambda>_. Inl (TypeError ''iter'')), bi_fromiso = (\<lambda>_. Inl (ValueError ''iso'')), bi_sha = (\<lambda>_. ''d'')\<rparr>,
     ge_emit = (\<lambda>t k e. (Inr e, k)), ge_snapshot = (\<lambda>k t. empty_situation t), ge_history = history,
     ge_controller = \<lparr>ctl_reasoner = rule_based [], ctl_critics = [], ctl_reflect = None\<rparr>,
     ge_capabilities = [(''mail'', small_spec idempotent, \<lparr>cc_invoke = (\<lambda>n _ _. answer n), cc_compensate = (\<lambda>_ _ r _. Inr r)\<rparr>)],
     ge_policy = \<lparr>pe_profile = default_profile, pe_rules = []\<rparr>, ge_weights = default_weights,
     ge_uuid = (\<lambda>n. ''u''), ge_clock = (\<lambda>n. Aware 0), ge_repr = (\<lambda>_. ''error'')\<rparr>"

definition small_agent :: "unit agent" where
  "small_agent = \<lparr>an_kernel = (), an_attention = \<lparr>ac_capacity = Fin 10, ac_available = Fin 10, ac_leases = [], ac_spent_total = 0, ac_counter = 0\<rparr>,
     an_queue = [], an_counter = 0, an_seen = [], an_ledger = [], an_active = 0, an_ticks = 0, an_trace = []\<rparr>"

definition small_trigger :: "jobject event" where
  "small_trigger = \<lparr>ev_type = ''ping'', ev_source = ''s'', ev_payload = [], ev_subject = None, ev_id = ''t'', ev_timestamp = Aware 0,
     ev_correlation_id = None, ev_causation_id = None, ev_priority = 0, ev_sequence = None, ev_metadata = [],
     ev_schema_version = CURRENT_EVENT_SCHEMA_VERSION\<rparr>"

definition small_request :: deliberation_request where
  "small_request = \<lparr>dq_agent_id = ''a'', dq_trigger = small_trigger, dq_situation = empty_situation (Aware 0),
     dq_capabilities = [], dq_attention_available = Fin 10, dq_metadata = []\<rparr>"

definition mail :: "string \<Rightarrow> action_intent" where
  "mail i = (plain_intent 0)\<lparr>ai_intent_id := i, ai_idempotency_key := Some ''letter''\<rparr>"

text \<open>
  The ledger is read when a task enters the semaphore and written when its success has been reported: two intents
  with the same idempotency key that are both in flight are both executed, and the second is skipped only when it
  enters after the first has succeeded.
\<close>

lemma same_key_called_twice:
  fixes env defines "env \<equiv> small_env True (\<lambda>_. Returned (result_ok [] [] [])) (\<lambda>_ _. Inr [])"
  shows "calls_of (an_trace (cy_agent (run_schedule env ([Authorize, Authorize, Run 0, Run 1] @ replicate 5 (Run 0) @ replicate 5 (Run 1))
      (new_cycle small_agent small_request [mail ''i'', mail ''j''])))) = [mail ''i'', mail ''j'']"
    "calls_of (an_trace (cy_agent (run_schedule env ([Authorize, Authorize] @ replicate 6 (Run 0) @ replicate 6 (Run 1))
      (new_cycle small_agent small_request [mail ''i'', mail ''j''])))) = [mail ''i'']"
  unfolding env_def by code_simp+

text \<open>One intent, dispatched, called and reported.\<close>

definition once :: "cycle_step list" where
  "once = Authorize # replicate 6 (Run 0)"

definition retried :: "nat \<Rightarrow> attempt" where
  "retried n = (if n < 8 then Timed_out else Returned (result_ok [] [] []))"

lemma small_account: "account_inv 10 (an_attention small_agent, [])"
  by (simp add: small_agent_def account_inv_def budget_ok_def)

lemma once_finished: "cycle_finished (run_schedule (small_env False retried (\<lambda>_ _. Inr [])) once (new_cycle small_agent small_request [mail ''i'']))"
  by code_simp

lemma mail_cost: "ai_attention_cost (mail i) = Fin 1"
  by (simp add: mail_def plain_intent_def pyfloat_zero_one)

lemma cycle_returns_resources_witness:
  "ac_available (an_attention (cy_agent (run_schedule (small_env False retried (\<lambda>_ _. Inr [])) once
     (new_cycle small_agent small_request [mail ''i''])))) = Fin 10"
  using cycle_returns_resources [OF small_account _ once_finished] by (simp add: mail_cost small_agent_def)

lemma cycle_never_stuck_witness:
  "\<exists>later. cycle_finished (run_schedule (small_env False retried (\<lambda>_ _. Inr [])) ([Authorize, Run 0, Authorize] @ later)
     (new_cycle small_agent small_request [mail ''i'', mail ''j'']))"
  by (rule cycle_never_stuck [OF small_account])
    (auto simp: mail_cost small_env_def small_config_def small_agent_def)

lemma calls_are_authorized_witness:
  "calls_of (an_trace (cy_agent (run_schedule (small_env True retried (\<lambda>_ _. Inr [])) (Authorize # replicate 7 (Run 0))
      (new_cycle small_agent small_request [mail ''i''])))) = [mail ''i'', mail ''i''] \<and>
   policy_allows (small_env True retried (\<lambda>_ _. Inr [])) (empty_situation (Aware 0)) (mail ''i'')"
proof -
  let ?env = "small_env True retried (\<lambda>_ _. Inr [])"
  let ?a = "cy_agent (run_schedule ?env (Authorize # replicate 7 (Run 0)) (new_cycle small_agent small_request [mail ''i'']))"
  have calls: "calls_of (an_trace ?a) = [mail ''i'', mail ''i'']" by code_simp
  obtain new where "an_trace ?a = an_trace small_agent @ new" "\<forall>i \<in> set (calls_of new). policy_allows ?env (dq_situation small_request) i"
    using calls_are_authorized [of ?env "Authorize # replicate 7 (Run 0)" small_agent small_request "[mail ''i'']"] by blast
  moreover have "an_trace small_agent = []" "dq_situation small_request = empty_situation (Aware 0)"
    by (simp_all add: small_agent_def small_request_def)
  ultimately show ?thesis using calls by auto
qed

text \<open>A history with one authorised intent that has no terminal event, and one that has.\<close>

definition authorized_event :: "string \<Rightarrow> jobject event" where
  "authorized_event i = small_trigger\<lparr>ev_type := ''decision.authorized'', ev_source := ''a'', ev_subject := Some i,
     ev_payload := [(''intent'', JObj (intent_to_payload (mail i)))]\<rparr>"

definition small_history :: "jobject event list" where
  "small_history = [authorized_event ''i'', authorized_event ''j'',
     small_trigger\<lparr>ev_type := ''action.failed'', ev_source := ''a'', ev_subject := Some ''j''\<rparr>]"

lemma recovery_repeats_safely_witness:
  fixes env defines "env \<equiv> small_env True retried (\<lambda>_ _. Inr small_history)"
  shows "calls_of (an_trace (snd (restore_state env small_trigger small_agent))) = [mail ''i''] \<and> may_repeat env (mail ''i'')"
proof -
  have calls: "calls_of (an_trace (snd (restore_state env small_trigger small_agent))) = [mail ''i'']"
    unfolding env_def by code_simp
  obtain r a' where run: "restore_state env small_trigger small_agent = (r, a')" by fastforce
  have "ge_history env (an_kernel small_agent) lifecycle_types = Inr small_history" by (simp add: env_def small_env_def)
  from recovery_repeats_safely [OF this run] obtain new where
    new: "an_trace a' = an_trace small_agent @ new" "\<forall>i \<in> set (calls_of new). may_repeat env i" by blast
  then have "calls_of new = [mail ''i'']" using calls run by (simp add: small_agent_def)
  with new(2) calls show ?thesis by simp
qed

end
