(* ===== verification/MemoryModels.thy ===== *)
theory MemoryModels
  imports JsonFields
begin

section \<open>Records of the cognitive memory\<close>

text \<open>
  Models \<^verbatim>\<open>src/noema/memory/models.py\<close>: the immutable records that memory events carry
  (\<open>SemanticAssertion\<close>, \<open>EvidenceLink\<close>, \<open>AssertionSupersession\<close>, \<open>ValidityClosure\<close>,
  \<open>MemoryContradiction\<close>), the checks of their constructors, their identifiers derived from their
  content, and their conversions to and from payloads and events. Each record has a lemma that what
  its event carries reads back as the record.
\<close>

subsection \<open>Vocabulary\<close>

definition ASSERTION_RECORDED_EVENT :: string where "ASSERTION_RECORDED_EVENT = ''memory.assertion_recorded''"
definition ASSERTION_SUPERSEDED_EVENT :: string where "ASSERTION_SUPERSEDED_EVENT = ''memory.assertion_superseded''"
definition EVIDENCE_LINKED_EVENT :: string where "EVIDENCE_LINKED_EVENT = ''memory.evidence_linked''"
definition VALIDITY_CLOSED_EVENT :: string where "VALIDITY_CLOSED_EVENT = ''memory.validity_closed''"
definition CONTRADICTION_DETECTED_EVENT :: string where "CONTRADICTION_DETECTED_EVENT = ''memory.contradiction_detected''"
definition CONTRADICTION_RESOLVED_EVENT :: string where "CONTRADICTION_RESOLVED_EVENT = ''memory.contradiction_resolved''"

datatype epistemic_type = OBSERVED | INFERRED | REPORTED | ASSUMED | SIMULATED

primrec epistemic_type_value :: "epistemic_type \<Rightarrow> string" where
  "epistemic_type_value OBSERVED = ''observed''"
| "epistemic_type_value INFERRED = ''inferred''"
| "epistemic_type_value REPORTED = ''reported''"
| "epistemic_type_value ASSUMED = ''assumed''"
| "epistemic_type_value SIMULATED = ''simulated''"

definition epistemic_type_of :: "string \<Rightarrow> epistemic_type result" where
  "epistemic_type_of s =
     (if s = ''observed'' then Inr OBSERVED
      else if s = ''inferred'' then Inr INFERRED
      else if s = ''reported'' then Inr REPORTED
      else if s = ''assumed'' then Inr ASSUMED
      else if s = ''simulated'' then Inr SIMULATED
      else Inl (ValueError ''not a valid EpistemicType''))"

lemma epistemic_type_of_value [simp]: "epistemic_type_of (epistemic_type_value x) = Inr x"
  by (cases x) (simp_all add: epistemic_type_of_def)

datatype assertion_status = ACTIVE | HYPOTHESIS

primrec assertion_status_value :: "assertion_status \<Rightarrow> string" where
  "assertion_status_value ACTIVE = ''active''"
| "assertion_status_value HYPOTHESIS = ''hypothesis''"

definition assertion_status_of :: "string \<Rightarrow> assertion_status result" where
  "assertion_status_of s =
     (if s = ''active'' then Inr ACTIVE
      else if s = ''hypothesis'' then Inr HYPOTHESIS
      else Inl (ValueError ''not a valid AssertionStatus''))"

lemma assertion_status_of_value [simp]: "assertion_status_of (assertion_status_value x) = Inr x"
  by (cases x) (simp_all add: assertion_status_of_def)

datatype evidence_relation = SUPPORTS | CONTRADICTS | REFINES | SUPERSEDES | DERIVED_FROM

primrec evidence_relation_value :: "evidence_relation \<Rightarrow> string" where
  "evidence_relation_value SUPPORTS = ''supports''"
| "evidence_relation_value CONTRADICTS = ''contradicts''"
| "evidence_relation_value REFINES = ''refines''"
| "evidence_relation_value SUPERSEDES = ''supersedes''"
| "evidence_relation_value DERIVED_FROM = ''derived_from''"

definition evidence_relation_of :: "string \<Rightarrow> evidence_relation result" where
  "evidence_relation_of s =
     (if s = ''supports'' then Inr SUPPORTS
      else if s = ''contradicts'' then Inr CONTRADICTS
      else if s = ''refines'' then Inr REFINES
      else if s = ''supersedes'' then Inr SUPERSEDES
      else if s = ''derived_from'' then Inr DERIVED_FROM
      else Inl (ValueError ''not a valid EvidenceRelation''))"

lemma evidence_relation_of_value [simp]: "evidence_relation_of (evidence_relation_value x) = Inr x"
  by (cases x) (simp_all add: evidence_relation_of_def)

subsection \<open>SemanticAssertion\<close>

record semantic_assertion =
  sa_assertion_id :: string
  sa_subject :: string
  sa_predicate :: string
  sa_value :: json
  sa_epistemic_type :: epistemic_type
  sa_confidence :: pyfloat
  sa_valid_from :: datetime
  sa_valid_to :: "datetime option"
  sa_recorded_at :: datetime
  sa_fresh_until :: "datetime option"
  sa_source_refs :: "string list"
  sa_derivation_refs :: "string list"
  sa_supersedes :: "string option"
  sa_status :: assertion_status
  sa_mutable_world :: bool

definition check_semantic_assertion :: "semantic_assertion \<Rightarrow> unit result" where
  "check_semantic_assertion x = raise_first
     ([(blank (sa_assertion_id x), ValueError ''assertion id must be non-empty''),
       (blank (sa_subject x) \<or> blank (sa_predicate x),
        ValueError ''assertion subject and predicate must be non-empty''),
       (case sa_value x of JFloat f \<Rightarrow> \<not> fin f | _ \<Rightarrow> False,
        ValueError ''assertion value must be finite''),
       (\<not> unit_interval (sa_confidence x), ValueError ''assertion confidence must be between zero and one'')] @
      require_aware (sa_valid_from x) ''valid_from'' @
      require_aware (sa_recorded_at x) ''recorded_at'' @
      (case sa_valid_to x of None \<Rightarrow> [] | Some v1 \<Rightarrow>
        require_aware v1 ''valid_to'' @
        [(dt_le v1 (sa_valid_from x), ValueError ''valid_to must be later than valid_from'')]) @
      (case sa_fresh_until x of None \<Rightarrow> [] | Some f1 \<Rightarrow>
        require_aware f1 ''fresh_until'' @
        [(dt_le f1 (sa_recorded_at x), ValueError ''fresh_until must be later than recorded_at'')]) @
      [(sa_mutable_world x \<and> sa_fresh_until x = None \<and> sa_valid_to x = None,
       ValueError ''mutable-world assertions require fresh_until or a closed validity interval''),
       (list_ex blank ((sa_source_refs x) @ (sa_derivation_refs x)),
        ValueError ''assertion source and derivation refs must be non-empty''),
       (\<not> distinct (sa_source_refs x), ValueError ''assertion source refs must be unique''),
       (\<not> distinct (sa_derivation_refs x), ValueError ''assertion derivation refs must be unique'')] @
      (if sa_epistemic_type x = ASSUMED then [(sa_derivation_refs x \<noteq> [],
       ValueError ''assumptions cannot claim derivation evidence'')]
       else [(sa_source_refs x = [] \<and> sa_derivation_refs x = [],
        ValueError ''non-assumed assertions require a source or derivation'')]) @
      [(sa_epistemic_type x = OBSERVED
         \<and> list_ex (\<lambda>ref. starts_with ''simulation:'' ref) (sa_source_refs x),
          ValueError ''simulated evidence cannot be recorded as an observation''),
       (sa_epistemic_type x = INFERRED \<and> sa_derivation_refs x = [],
        ValueError ''inferred assertions require explicit derivation refs'')] @
      (case sa_supersedes x of None \<Rightarrow> [] | Some s1 \<Rightarrow>
        [(blank s1, ValueError ''supersedes must be non-empty when supplied'')] @
        [(s1 = sa_assertion_id x, ValueError ''an assertion cannot supersede itself'')]))"

definition semantic_assertion_identity :: "semantic_assertion \<Rightarrow> jobject" where
  "semantic_assertion_identity x =
     [(''subject'', JStr (sa_subject x)),
      (''predicate'', JStr (sa_predicate x)),
      (''value'', (sa_value x)),
      (''epistemic_type'', JStr (epistemic_type_value (sa_epistemic_type x))),
      (''confidence'', JFloat (sa_confidence x)),
      (''valid_from'', JTime (sa_valid_from x)),
      (''valid_to'', json_opt JTime (sa_valid_to x)),
      (''recorded_at'', JTime (sa_recorded_at x)),
      (''fresh_until'', json_opt JTime (sa_fresh_until x)),
      (''source_refs'', JStrs (sa_source_refs x)),
      (''derivation_refs'', JStrs (sa_derivation_refs x)),
      (''supersedes'', json_opt JStr (sa_supersedes x)),
      (''status'', JStr (assertion_status_value (sa_status x))),
      (''mutable_world'', JBool (sa_mutable_world x))]"

definition create_semantic_assertion :: "builtins \<Rightarrow> semantic_assertion \<Rightarrow> semantic_assertion result" where
  "create_semantic_assertion b x =
           rbind (canonical_id b ''assertion'' (semantic_assertion_identity x)) (\<lambda>i.
      let y = x\<lparr>sa_assertion_id := i\<rparr> in rbind (check_semantic_assertion y) (\<lambda>_. Inr y))"

definition semantic_assertion_to_dict :: "semantic_assertion \<Rightarrow> jobject" where
  "semantic_assertion_to_dict x =
     (''assertion_id'', JStr (sa_assertion_id x)) # semantic_assertion_identity x"

definition semantic_assertion_from_dict :: "builtins \<Rightarrow> jobject \<Rightarrow> semantic_assertion result" where
  "semantic_assertion_from_dict b d =
     rbind (j_str b d ''assertion_id'') (\<lambda>assertion_id.
     rbind (j_str b d ''subject'') (\<lambda>subject.
     rbind (j_str b d ''predicate'') (\<lambda>predicate.
     rbind (rbind (j_str b d ''epistemic_type'') epistemic_type_of) (\<lambda>epistemic_type.
     rbind (j_float b d ''confidence'') (\<lambda>confidence.
     rbind (j_time b d ''valid_from'') (\<lambda>valid_from.
     rbind (j_time_opt b d ''valid_to'') (\<lambda>valid_to.
     rbind (j_time b d ''recorded_at'') (\<lambda>recorded_at.
     rbind (j_time_opt b d ''fresh_until'') (\<lambda>fresh_until.
     rbind (j_strs b d ''source_refs'') (\<lambda>source_refs.
     rbind (j_strs b d ''derivation_refs'') (\<lambda>derivation_refs.
     rbind (assertion_status_of (py_str b (jget_or d ''status'' (JStr ''active'')))) (\<lambda>status.
     let x = \<lparr>sa_assertion_id = assertion_id, sa_subject = subject, sa_predicate = predicate,
              sa_value = jget d ''value'', sa_epistemic_type = epistemic_type, sa_confidence = confidence,
              sa_valid_from = valid_from, sa_valid_to = valid_to, sa_recorded_at = recorded_at,
              sa_fresh_until = fresh_until, sa_source_refs = source_refs, sa_derivation_refs = derivation_refs,
              sa_supersedes = opt_str_truthy b d ''supersedes'', sa_status = status,
              sa_mutable_world = j_bool_or d ''mutable_world'' False\<rparr> in
     rbind (check_semantic_assertion x) (\<lambda>_.
     rbind (canonical_id b ''assertion'' (semantic_assertion_identity x)) (\<lambda>expected.
     (if sa_assertion_id x \<noteq> expected
        then Inl (ValueError ''assertion id does not match its immutable content'') else
     Inr x)))))))))))))))"

definition semantic_assertion_to_event :: "semantic_assertion \<Rightarrow> string \<Rightarrow> jobject event result" where
  "semantic_assertion_to_event x source =
     make_event (''memory-assertion:'' @ (sa_assertion_id x)) ASSERTION_RECORDED_EVENT source (sa_subject x)
       (sa_recorded_at x) (semantic_assertion_to_dict x) None"

definition semantic_assertion_from_event :: "builtins \<Rightarrow> jobject event \<Rightarrow> semantic_assertion result" where
  "semantic_assertion_from_event b e =
     (if ev_type e \<noteq> ASSERTION_RECORDED_EVENT then Inl (ValueError ''not an assertion event'') else
     rbind (semantic_assertion_from_dict b (ev_payload e)) (\<lambda>x.
     (if ev_subject e \<noteq> Some (sa_subject x)
        then Inl (ValueError ''assertion event subject does not match its assertion'') else
     (if ev_timestamp e \<noteq> sa_recorded_at x
        then Inl (ValueError ''assertion event timestamp does not match recorded_at'') else
     Inr x))))"

definition semantic_assertion_ok :: "builtins \<Rightarrow> semantic_assertion \<Rightarrow> bool" where
  "semantic_assertion_ok b x \<longleftrightarrow> create_semantic_assertion b x = Inr x \<and>
     sa_supersedes x \<noteq> Some []"

lemma create_semantic_assertion_same:
  "create_semantic_assertion b x = Inr x \<Longrightarrow> canonical_id b ''assertion'' (semantic_assertion_identity x) = Inr (sa_assertion_id x) \<and> check_semantic_assertion x = Inr ()"
  by (cases x) (auto simp: create_semantic_assertion_def Let_def rbind_Inr_iff)

lemma check_semantic_assertion_aware:
  "check_semantic_assertion x = Inr () \<Longrightarrow> is_aware (sa_valid_from x) \<and>
     (\<forall>t. sa_valid_to x = Some t \<longrightarrow> is_aware t) \<and>
     is_aware (sa_recorded_at x) \<and>
     (\<forall>t. sa_fresh_until x = Some t \<longrightarrow> is_aware t)"
  by (auto simp: check_semantic_assertion_def raise_first_no_errors simp del: raise_first_ok split: option.splits if_splits)

lemma semantic_assertion_round_trip:
  assumes "semantic_assertion_ok b x"
  shows "semantic_assertion_from_dict b (semantic_assertion_to_dict x) = Inr x"
proof -
  have c: "create_semantic_assertion b x = Inr x" using assms by (simp add: semantic_assertion_ok_def)
  note k = create_semantic_assertion_same [OF c]
  note a = check_semantic_assertion_aware [OF k [THEN conjunct2]]
  show ?thesis
    using c k a assms
    by (cases x) (simp add: semantic_assertion_ok_def semantic_assertion_from_dict_def semantic_assertion_to_dict_def semantic_assertion_identity_def codec Let_def)
qed

lemma semantic_assertion_event_round_trip:
  assumes "semantic_assertion_ok b x" "semantic_assertion_to_event x source = Inr e"
  shows "semantic_assertion_from_event b (with_sequence e n) = Inr x"
  using make_event_fields [OF assms(2) [unfolded semantic_assertion_to_event_def]] semantic_assertion_round_trip [OF assms(1)]
  by (simp add: semantic_assertion_from_event_def expect_envelope_def)

subsection \<open>EvidenceLink\<close>

record evidence_link =
  el_link_id :: string
  el_evidence_ref :: string
  el_assertion_ref :: string
  el_relation :: evidence_relation
  el_strength :: pyfloat
  el_evidence_type :: epistemic_type
  el_recorded_at :: datetime

definition check_evidence_link :: "evidence_link \<Rightarrow> unit result" where
  "check_evidence_link x = raise_first
     ([(blank (el_link_id x) \<or> blank (el_evidence_ref x),
      ValueError ''evidence link id and evidence ref must be non-empty''),
       (blank (el_assertion_ref x), ValueError ''evidence link assertion ref must be non-empty''),
       (\<not> unit_interval (el_strength x), ValueError ''evidence strength must be between zero and one'')] @
      require_aware (el_recorded_at x) ''recorded_at'')"

definition evidence_link_identity :: "evidence_link \<Rightarrow> jobject" where
  "evidence_link_identity x =
     [(''evidence_ref'', JStr (el_evidence_ref x)),
      (''assertion_ref'', JStr (el_assertion_ref x)),
      (''relation'', JStr (evidence_relation_value (el_relation x))),
      (''strength'', JFloat (el_strength x)),
      (''evidence_type'', JStr (epistemic_type_value (el_evidence_type x))),
      (''recorded_at'', JTime (el_recorded_at x))]"

definition create_evidence_link :: "builtins \<Rightarrow> evidence_link \<Rightarrow> evidence_link result" where
  "create_evidence_link b x =
           rbind (canonical_id b ''evidence-link'' (evidence_link_identity x)) (\<lambda>i.
      let y = x\<lparr>el_link_id := i\<rparr> in rbind (check_evidence_link y) (\<lambda>_. Inr y))"

definition evidence_link_to_dict :: "evidence_link \<Rightarrow> jobject" where
  "evidence_link_to_dict x =
     (''link_id'', JStr (el_link_id x)) # evidence_link_identity x"

definition evidence_link_from_dict :: "builtins \<Rightarrow> jobject \<Rightarrow> evidence_link result" where
  "evidence_link_from_dict b d =
     rbind (j_str b d ''link_id'') (\<lambda>link_id.
     rbind (j_str b d ''evidence_ref'') (\<lambda>evidence_ref.
     rbind (j_str b d ''assertion_ref'') (\<lambda>assertion_ref.
     rbind (rbind (j_str b d ''relation'') evidence_relation_of) (\<lambda>relation.
     rbind (j_float b d ''strength'') (\<lambda>strength.
     rbind (rbind (j_str b d ''evidence_type'') epistemic_type_of) (\<lambda>evidence_type.
     rbind (j_time b d ''recorded_at'') (\<lambda>recorded_at.
     let x = \<lparr>el_link_id = link_id, el_evidence_ref = evidence_ref, el_assertion_ref = assertion_ref,
              el_relation = relation, el_strength = strength, el_evidence_type = evidence_type,
              el_recorded_at = recorded_at\<rparr> in
     rbind (check_evidence_link x) (\<lambda>_.
     rbind (create_evidence_link b x) (\<lambda>expected.
     (if el_link_id x \<noteq> el_link_id expected
        then Inl (ValueError ''evidence link id does not match its immutable content'') else
     Inr x))))))))))"

definition evidence_link_to_event :: "evidence_link \<Rightarrow> string \<Rightarrow> jobject event result" where
  "evidence_link_to_event x source =
     make_event (''memory-evidence:'' @ (el_link_id x)) EVIDENCE_LINKED_EVENT source (el_assertion_ref x)
       (el_recorded_at x) (evidence_link_to_dict x) None"

definition evidence_link_from_event :: "builtins \<Rightarrow> jobject event \<Rightarrow> evidence_link result" where
  "evidence_link_from_event b e =
     (if ev_type e \<noteq> EVIDENCE_LINKED_EVENT then Inl (ValueError ''not an evidence-link event'') else
     rbind (evidence_link_from_dict b (ev_payload e)) (\<lambda>x.
     (if ev_subject e \<noteq> Some (el_assertion_ref x)
        then Inl (ValueError ''evidence-link event subject does not match its assertion'') else
     (if ev_timestamp e \<noteq> el_recorded_at x
        then Inl (ValueError ''evidence-link timestamp does not match recorded_at'') else
     Inr x))))"

definition evidence_link_ok :: "builtins \<Rightarrow> evidence_link \<Rightarrow> bool" where
  "evidence_link_ok b x \<longleftrightarrow> create_evidence_link b x = Inr x"

lemma create_evidence_link_same:
  "create_evidence_link b x = Inr x \<Longrightarrow> canonical_id b ''evidence-link'' (evidence_link_identity x) = Inr (el_link_id x) \<and> check_evidence_link x = Inr ()"
  by (cases x) (auto simp: create_evidence_link_def Let_def rbind_Inr_iff)

lemma check_evidence_link_aware:
  "check_evidence_link x = Inr () \<Longrightarrow> is_aware (el_recorded_at x)"
  by (auto simp: check_evidence_link_def raise_first_no_errors simp del: raise_first_ok split: option.splits if_splits)

lemma evidence_link_round_trip:
  assumes "evidence_link_ok b x"
  shows "evidence_link_from_dict b (evidence_link_to_dict x) = Inr x"
proof -
  have c: "create_evidence_link b x = Inr x" using assms by (simp add: evidence_link_ok_def)
  note k = create_evidence_link_same [OF c]
  note a = check_evidence_link_aware [OF k [THEN conjunct2]]
  show ?thesis
    using c k a assms
    by (cases x) (simp add: evidence_link_ok_def evidence_link_from_dict_def evidence_link_to_dict_def evidence_link_identity_def codec Let_def)
qed

lemma evidence_link_event_round_trip:
  assumes "evidence_link_ok b x" "evidence_link_to_event x source = Inr e"
  shows "evidence_link_from_event b (with_sequence e n) = Inr x"
  using make_event_fields [OF assms(2) [unfolded evidence_link_to_event_def]] evidence_link_round_trip [OF assms(1)]
  by (simp add: evidence_link_from_event_def expect_envelope_def)

subsection \<open>AssertionSupersession\<close>

record assertion_supersession =
  su_transition_id :: string
  su_prior_assertion_ref :: string
  su_new_assertion_ref :: string
  su_effective_at :: datetime
  su_recorded_at :: datetime

definition assertion_supersession_identity :: "assertion_supersession \<Rightarrow> jobject" where
  "assertion_supersession_identity x =
     [(''prior_assertion_ref'', JStr (su_prior_assertion_ref x)),
      (''new_assertion_ref'', JStr (su_new_assertion_ref x)),
      (''effective_at'', JTime (su_effective_at x)),
      (''recorded_at'', JTime (su_recorded_at x))]"

definition create_assertion_supersession :: "builtins \<Rightarrow> assertion_supersession \<Rightarrow> assertion_supersession result" where
  "create_assertion_supersession b x =
     rbind (raise_first (require_aware (su_effective_at x) ''effective_at'' @
       require_aware (su_recorded_at x) ''recorded_at'' @
       [(blank (su_prior_assertion_ref x) \<or> blank (su_new_assertion_ref x),
        ValueError ''supersession assertion refs must be non-empty''),
       (su_prior_assertion_ref x = su_new_assertion_ref x,
        ValueError ''an assertion cannot supersede itself'')])) (\<lambda>_.
      rbind (canonical_id b ''supersession'' (assertion_supersession_identity x)) (\<lambda>i.
      let y = x\<lparr>su_transition_id := i\<rparr> in Inr y))"

definition assertion_supersession_to_dict :: "assertion_supersession \<Rightarrow> jobject" where
  "assertion_supersession_to_dict x =
     (''transition_id'', JStr (su_transition_id x)) # assertion_supersession_identity x"

definition assertion_supersession_to_event :: "assertion_supersession \<Rightarrow> string \<Rightarrow> string option \<Rightarrow> jobject event result" where
  "assertion_supersession_to_event x source causation =
     make_event (''memory-supersession:'' @ (su_transition_id x)) ASSERTION_SUPERSEDED_EVENT
        source (su_prior_assertion_ref x)
       (su_recorded_at x) (assertion_supersession_to_dict x) causation"

definition assertion_supersession_from_event :: "builtins \<Rightarrow> jobject event \<Rightarrow> assertion_supersession result" where
  "assertion_supersession_from_event b e =
     (if ev_type e \<noteq> ASSERTION_SUPERSEDED_EVENT
        then Inl (ValueError ''not an assertion-superseded event'') else
     rbind (j_str b (ev_payload e) ''prior_assertion_ref'') (\<lambda>prior_assertion_ref.
     rbind (j_str b (ev_payload e) ''new_assertion_ref'') (\<lambda>new_assertion_ref.
     rbind (j_time b (ev_payload e) ''effective_at'') (\<lambda>effective_at.
     rbind (j_time b (ev_payload e) ''recorded_at'') (\<lambda>recorded_at.
     rbind (create_assertion_supersession b \<lparr>su_transition_id = [], su_prior_assertion_ref = prior_assertion_ref,
              su_new_assertion_ref = new_assertion_ref, su_effective_at = effective_at,
              su_recorded_at = recorded_at\<rparr>) (\<lambda>x.
     rbind (j_str b (ev_payload e) ''transition_id'') (\<lambda>found.
     (if found \<noteq> su_transition_id x
        then Inl (ValueError ''supersession id does not match its immutable content'') else
     (if ev_subject e \<noteq> Some (su_prior_assertion_ref x)
        then Inl (ValueError ''supersession event subject does not match prior assertion'') else
     (if ev_timestamp e \<noteq> su_recorded_at x
        then Inl (ValueError ''supersession timestamp does not match recorded_at'') else
     Inr x))))))))))"

definition assertion_supersession_ok :: "builtins \<Rightarrow> assertion_supersession \<Rightarrow> bool" where
  "assertion_supersession_ok b x \<longleftrightarrow> create_assertion_supersession b x = Inr x"

lemma create_assertion_supersession_same:
  "create_assertion_supersession b x = Inr x \<Longrightarrow> canonical_id b ''supersession'' (assertion_supersession_identity x) = Inr (su_transition_id x)"
  by (cases x) (auto simp: create_assertion_supersession_def Let_def rbind_Inr_iff)

lemma create_assertion_supersession_id: "create_assertion_supersession b (x\<lparr>su_transition_id := i\<rparr>) = create_assertion_supersession b x"
  by (cases x) (simp add: create_assertion_supersession_def assertion_supersession_identity_def Let_def)

lemma create_assertion_supersession_aware:
  "create_assertion_supersession b x = Inr x \<Longrightarrow> is_aware (su_effective_at x) \<and>
     is_aware (su_recorded_at x)"
  by (auto simp: create_assertion_supersession_def rbind_Inr_iff raise_first_no_errors simp del: raise_first_ok split: option.splits if_splits)

lemma assertion_supersession_event_round_trip:
  assumes "assertion_supersession_ok b x" "assertion_supersession_to_event x source causation = Inr e"
  shows "assertion_supersession_from_event b (with_sequence e n) = Inr x"
  using make_event_fields [OF assms(2) [unfolded assertion_supersession_to_event_def]] assms(1)
    create_assertion_supersession_aware [of b x] create_assertion_supersession_id [where b = b and x = x and i = "[]"]
  by (cases x) (simp add: assertion_supersession_ok_def assertion_supersession_from_event_def assertion_supersession_to_dict_def assertion_supersession_identity_def codec Let_def)

subsection \<open>ValidityClosure\<close>

record validity_closure =
  vc_closure_id :: string
  vc_assertion_ref :: string
  vc_valid_to :: datetime
  vc_recorded_at :: datetime

definition validity_closure_identity :: "validity_closure \<Rightarrow> jobject" where
  "validity_closure_identity x =
     [(''assertion_ref'', JStr (vc_assertion_ref x)),
      (''valid_to'', JTime (vc_valid_to x)),
      (''recorded_at'', JTime (vc_recorded_at x))]"

definition create_validity_closure :: "builtins \<Rightarrow> validity_closure \<Rightarrow> validity_closure result" where
  "create_validity_closure b x =
     rbind (raise_first ([(blank (vc_assertion_ref x),
      ValueError ''validity closure assertion ref must be non-empty'')] @
       require_aware (vc_valid_to x) ''valid_to'' @
       require_aware (vc_recorded_at x) ''recorded_at'')) (\<lambda>_.
      rbind (canonical_id b ''validity-closure'' (validity_closure_identity x)) (\<lambda>i.
      let y = x\<lparr>vc_closure_id := i\<rparr> in Inr y))"

definition validity_closure_to_dict :: "validity_closure \<Rightarrow> jobject" where
  "validity_closure_to_dict x =
     (''closure_id'', JStr (vc_closure_id x)) # validity_closure_identity x"

definition validity_closure_to_event :: "validity_closure \<Rightarrow> string \<Rightarrow> jobject event result" where
  "validity_closure_to_event x source =
     make_event (''memory-validity:'' @ (vc_closure_id x)) VALIDITY_CLOSED_EVENT source (vc_assertion_ref x)
       (vc_recorded_at x) (validity_closure_to_dict x) None"

definition validity_closure_from_event :: "builtins \<Rightarrow> jobject event \<Rightarrow> validity_closure result" where
  "validity_closure_from_event b e =
     (if ev_type e \<noteq> VALIDITY_CLOSED_EVENT then Inl (ValueError ''not a validity-closed event'') else
     rbind (j_str b (ev_payload e) ''assertion_ref'') (\<lambda>assertion_ref.
     rbind (j_time b (ev_payload e) ''valid_to'') (\<lambda>valid_to.
     rbind (j_time b (ev_payload e) ''recorded_at'') (\<lambda>recorded_at.
     rbind (create_validity_closure b \<lparr>vc_closure_id = [], vc_assertion_ref = assertion_ref, vc_valid_to = valid_to,
              vc_recorded_at = recorded_at\<rparr>) (\<lambda>x.
     rbind (j_str b (ev_payload e) ''closure_id'') (\<lambda>found.
     (if found \<noteq> vc_closure_id x
        then Inl (ValueError ''validity closure id does not match its immutable content'') else
     (if ev_subject e \<noteq> Some (vc_assertion_ref x)
        then Inl (ValueError ''validity-closure subject does not match its assertion'') else
     (if ev_timestamp e \<noteq> vc_recorded_at x
        then Inl (ValueError ''validity-closure timestamp does not match recorded_at'') else
     Inr x)))))))))"

definition validity_closure_ok :: "builtins \<Rightarrow> validity_closure \<Rightarrow> bool" where
  "validity_closure_ok b x \<longleftrightarrow> create_validity_closure b x = Inr x"

lemma create_validity_closure_same:
  "create_validity_closure b x = Inr x \<Longrightarrow> canonical_id b ''validity-closure'' (validity_closure_identity x) = Inr (vc_closure_id x)"
  by (cases x) (auto simp: create_validity_closure_def Let_def rbind_Inr_iff)

lemma create_validity_closure_id: "create_validity_closure b (x\<lparr>vc_closure_id := i\<rparr>) = create_validity_closure b x"
  by (cases x) (simp add: create_validity_closure_def validity_closure_identity_def Let_def)

lemma create_validity_closure_aware:
  "create_validity_closure b x = Inr x \<Longrightarrow> is_aware (vc_valid_to x) \<and>
     is_aware (vc_recorded_at x)"
  by (auto simp: create_validity_closure_def rbind_Inr_iff raise_first_no_errors simp del: raise_first_ok split: option.splits if_splits)

lemma validity_closure_event_round_trip:
  assumes "validity_closure_ok b x" "validity_closure_to_event x source = Inr e"
  shows "validity_closure_from_event b (with_sequence e n) = Inr x"
  using make_event_fields [OF assms(2) [unfolded validity_closure_to_event_def]] assms(1)
    create_validity_closure_aware [of b x] create_validity_closure_id [where b = b and x = x and i = "[]"]
  by (cases x) (simp add: validity_closure_ok_def validity_closure_from_event_def validity_closure_to_dict_def validity_closure_identity_def codec Let_def)

subsection \<open>MemoryContradiction\<close>

record memory_contradiction =
  mc_contradiction_id :: string
  mc_assertion_refs :: "string \<times> string"
  mc_subject :: string
  mc_predicate :: string
  mc_detected_at :: datetime
  mc_resolved_at :: "datetime option"
  mc_resolution_reason :: "string option"

definition contradiction_refs :: "memory_contradiction \<Rightarrow> string list" where
  "contradiction_refs c = [fst (mc_assertion_refs c), snd (mc_assertion_refs c)]"

definition detect_contradiction ::
  "builtins \<Rightarrow> string \<times> string \<Rightarrow> string \<Rightarrow> string \<Rightarrow> datetime \<Rightarrow> memory_contradiction result" where
  "detect_contradiction b assertion_refs subject predicate detected_at =
     (let refs = (min (fst assertion_refs) (snd assertion_refs), max (fst assertion_refs) (snd assertion_refs)) in
      rbind (raise_first
        ([(fst refs = snd refs \<or> blank (fst refs) \<or> blank (snd refs),
           ValueError ''a contradiction requires two distinct assertion refs''),
          (blank subject \<or> blank predicate, ValueError ''contradiction subject and predicate must be non-empty'')] @
         require_aware detected_at ''detected_at'')) (\<lambda>_.
      rbind (canonical_id b ''contradiction'' [(''assertion_refs'', JStrs [fst refs, snd refs])]) (\<lambda>i.
      Inr \<lparr>mc_contradiction_id = i, mc_assertion_refs = refs, mc_subject = subject, mc_predicate = predicate,
           mc_detected_at = detected_at, mc_resolved_at = None, mc_resolution_reason = None\<rparr>)))"

definition resolve_contradiction ::
  "memory_contradiction \<Rightarrow> datetime \<Rightarrow> string \<Rightarrow> memory_contradiction result" where
  "resolve_contradiction c resolved_at reason =
     rbind (raise_first
       (require_aware resolved_at ''resolved_at'' @
        [(dt_before resolved_at (mc_detected_at c), ValueError ''a contradiction cannot resolve before detection''),
         (blank reason, ValueError ''contradiction resolution reason must be non-empty'')]))
       (\<lambda>_. Inr (c\<lparr>mc_resolved_at := Some resolved_at, mc_resolution_reason := Some reason\<rparr>))"

definition detection_event :: "memory_contradiction \<Rightarrow> string \<Rightarrow> string option \<Rightarrow> jobject event result" where
  "detection_event c source causation =
     make_event (''memory-contradiction-detected:'' @ mc_contradiction_id c) CONTRADICTION_DETECTED_EVENT source
       (mc_subject c) (mc_detected_at c)
       [(''contradiction_id'', JStr (mc_contradiction_id c)),
        (''assertion_refs'', JStrs (contradiction_refs c)),
        (''subject'', JStr (mc_subject c)),
        (''predicate'', JStr (mc_predicate c)),
        (''detected_at'', JTime (mc_detected_at c))] causation"

definition resolution_event ::
  "builtins \<Rightarrow> memory_contradiction \<Rightarrow> string \<Rightarrow> string option \<Rightarrow> jobject event result" where
  "resolution_event b c source causation =
     (case (mc_resolved_at c, mc_resolution_reason c) of
        (Some resolved_at, Some reason) \<Rightarrow>
          let payload = [(''contradiction_id'', JStr (mc_contradiction_id c)),
                         (''resolved_at'', JTime resolved_at),
                         (''reason'', JStr reason)] in
          rbind (canonical_id b ''resolution'' payload) (\<lambda>i.
          make_event (''memory-contradiction-resolved:'' @ i) CONTRADICTION_RESOLVED_EVENT source
            (mc_contradiction_id c) resolved_at payload causation)
      | _ \<Rightarrow> Inl (ValueError ''cannot create a resolution event for an unresolved contradiction''))"

end
