(* ===== verification/Memory.thy ===== *)
theory Memory
  imports MemoryModels "HOL-Library.Product_Lexorder"
begin

section \<open>The projection of the cognitive memory\<close>

text \<open>
  Models \<^verbatim>\<open>src/noema/memory/projection.py\<close>: the episodic view of canonical events
  (\<open>EpisodicMemory\<close>), the projection of assertions, evidence, supersessions, validity closures and
  contradictions (\<open>MemoryProjection\<close>), the events that applying one event entails, and the bitemporal
  queries over it. The dictionaries are association lists in insertion order. An operation that can
  raise after it has changed the projection returns the result together with the projection left
  behind. The times of a query are arguments (\<open>None\<close> would stand for \<open>utc_now()\<close>).
\<close>

subsection \<open>Query results\<close>

datatype belief_disposition = BELIEF_UNKNOWN | BELIEF_HELD | BELIEF_UNCERTAIN

record belief_state =
  bs_subject :: string
  bs_predicate :: string
  bs_disposition :: belief_disposition
  bs_value :: json
  bs_max_assertion_confidence :: pyfloat
  bs_assertions :: "semantic_assertion list"
  bs_evidence :: "evidence_link list"
  bs_contradictions :: "memory_contradiction list"
  bs_valid_at :: datetime
  bs_known_at :: datetime

definition belief_uncertain :: "belief_state \<Rightarrow> bool" where
  "belief_uncertain s = (bs_disposition s = BELIEF_UNCERTAIN)"

record temporal_neighbors_result =
  tn_predecessor :: "semantic_assertion option"
  tn_successor :: "semantic_assertion option"
  tn_ambiguous :: bool

record evidence_object =
  eo_reference :: string
  eo_namespace :: string
  eo_value :: "jobject event + semantic_assertion"
  eo_epistemic_type :: "epistemic_type option"

subsection \<open>Episodic memory\<close>

type_synonym episodes = "(string \<times> jobject event) list"

definition episodic_events :: "episodes \<Rightarrow> jobject event list" where
  "episodic_events eps = sort_key (\<lambda>e. (seq0 e, instant (ev_timestamp e), ev_id e)) (map snd eps)"

definition episodic_apply :: "episodes \<Rightarrow> jobject event \<Rightarrow> (episodes \<times> bool) result" where
  "episodic_apply eps e =
     (case map_of eps (ev_id e) of
        Some existing \<Rightarrow>
          if \<not> same_event existing e then Inl (ValueError ''conflicting canonical event identity'') else Inr (eps, False)
      | None \<Rightarrow> Inr (AList.update (ev_id e) e eps, True))"

definition episodic_query ::
  "episodes \<Rightarrow> datetime option \<Rightarrow> datetime option \<Rightarrow> string option \<Rightarrow> string list option \<Rightarrow> jobject event list" where
  "episodic_query eps after before subj event_types =
     filter (\<lambda>e. (case after of None \<Rightarrow> True | Some t \<Rightarrow> dt_le t (ev_timestamp e)) \<and>
                 (case before of None \<Rightarrow> True | Some t \<Rightarrow> dt_before (ev_timestamp e) t) \<and>
                 (case subj of None \<Rightarrow> True | Some s \<Rightarrow> ev_subject e = Some s) \<and>
                 (case event_types of None \<Rightarrow> True | Some ts \<Rightarrow> ev_type e \<in> set ts))
       (episodic_events eps)"

subsection \<open>State\<close>

record memory =
  my_episodes :: episodes
  my_assertions :: "(string \<times> semantic_assertion) list"
  my_evidence :: "(string \<times> evidence_link) list"
  my_supersessions :: "(string \<times> assertion_supersession) list"
  my_closures :: "(string \<times> validity_closure) list"
  my_contradictions :: "(string \<times> memory_contradiction) list"
  my_applied :: "(string \<times> jobject event) list"

definition empty_memory :: memory where
  "empty_memory = \<lparr>my_episodes = [], my_assertions = [], my_evidence = [], my_supersessions = [],
     my_closures = [], my_contradictions = [], my_applied = []\<rparr>"

definition by_key :: "(string \<times> 'a) list \<Rightarrow> 'a list" where
  "by_key d = map snd (sort_key fst d)"

definition memory_assertions :: "memory \<Rightarrow> semantic_assertion list" where
  "memory_assertions m = by_key (my_assertions m)"

definition evidence_links :: "memory \<Rightarrow> evidence_link list" where
  "evidence_links m = by_key (my_evidence m)"

definition memory_supersessions :: "memory \<Rightarrow> assertion_supersession list" where
  "memory_supersessions m = by_key (my_supersessions m)"

definition validity_closures :: "memory \<Rightarrow> validity_closure list" where
  "validity_closures m = by_key (my_closures m)"

definition memory_contradictions :: "memory \<Rightarrow> memory_contradiction list" where
  "memory_contradictions m = by_key (my_contradictions m)"

definition get_assertion :: "memory \<Rightarrow> string \<Rightarrow> semantic_assertion option" where
  "get_assertion m i = map_of (my_assertions m) i"

definition require_assertion :: "memory \<Rightarrow> string \<Rightarrow> semantic_assertion result" where
  "require_assertion m i =
     (case map_of (my_assertions m) i of
        None \<Rightarrow> Inl (ValueError ''memory transition references unknown assertion'') | Some a \<Rightarrow> Inr a)"

text \<open>The equality of the dataclass: the scalar values compare as Python compares them.\<close>

definition same_assertion :: "semantic_assertion \<Rightarrow> semantic_assertion \<Rightarrow> bool" where
  "same_assertion x y \<longleftrightarrow> json_eq (sa_value x) (sa_value y) \<and> x\<lparr>sa_value := JNull\<rparr> = y\<lparr>sa_value := JNull\<rparr>"

subsection \<open>Provenance\<close>

definition event_epistemic_type :: "builtins \<Rightarrow> jobject event \<Rightarrow> epistemic_type option result" where
  "event_epistemic_type b e =
     (let value = jget (ev_metadata e) ''epistemic_type'' in
      if value = JNull then Inr (if starts_with ''simulation.'' (ev_type e) then Some SIMULATED else None)
      else (case epistemic_type_of (py_str b value) of
              Inl _ \<Rightarrow> Inl (ValueError ''canonical event has invalid epistemic provenance'')
            | Inr t \<Rightarrow> Inr (Some t)))"

text \<open>\<open>ref.partition(":")\<close>\<close>

definition partition_colon :: "string \<Rightarrow> string \<times> bool \<times> string" where
  "partition_colon s =
     (takeWhile (\<lambda>c. c \<noteq> CHR '':'') s, CHR '':'' \<in> set s, tl (dropWhile (\<lambda>c. c \<noteq> CHR '':'') s))"

definition resolve_evidence_ref :: "builtins \<Rightarrow> memory \<Rightarrow> string \<Rightarrow> evidence_object result" where
  "resolve_evidence_ref b m ref =
     (let (namespace, separator, identifier) = partition_colon ref in
      if \<not> separator \<or> namespace = [] \<or> identifier = []
      then Inl (ValueError ''evidence refs require a non-empty namespace and identity'')
      else if namespace = ''event'' then
        (case map_of (my_episodes m) identifier of
           None \<Rightarrow> Inl (ValueError ''unknown canonical evidence event'')
         | Some e \<Rightarrow> rbind (event_epistemic_type b e) (\<lambda>t.
             Inr \<lparr>eo_reference = ref, eo_namespace = namespace, eo_value = Inl e, eo_epistemic_type = t\<rparr>))
      else if namespace = ''assertion'' then
        (case map_of (my_assertions m) ref of
           None \<Rightarrow> Inl (ValueError ''unknown evidence assertion'')
         | Some a \<Rightarrow> Inr \<lparr>eo_reference = ref, eo_namespace = namespace, eo_value = Inr a,
                          eo_epistemic_type = Some (sa_epistemic_type a)\<rparr>)
      else if namespace = ''simulation'' then
        (case map_of (my_episodes m) identifier of
           None \<Rightarrow> Inl (ValueError ''unknown simulation artifact'')
         | Some e \<Rightarrow> rbind (event_epistemic_type b e) (\<lambda>t.
             if t \<noteq> Some SIMULATED
             then Inl (ValueError ''simulation reference is not a registered simulation artifact'')
             else Inr \<lparr>eo_reference = ref, eo_namespace = namespace, eo_value = Inl e, eo_epistemic_type = t\<rparr>))
      else Inl (ValueError ''unsupported evidence reference namespace''))"

definition validate_assertion_provenance :: "builtins \<Rightarrow> memory \<Rightarrow> semantic_assertion \<Rightarrow> unit result" where
  "validate_assertion_provenance b m a =
     rbind (mapM (resolve_evidence_ref b m) (sa_source_refs a @ sa_derivation_refs a)) (\<lambda>anchors.
       if sa_epistemic_type a = OBSERVED \<and> list_ex (\<lambda>o'. eo_epistemic_type o' = Some SIMULATED) anchors
       then Inl (ValueError ''simulated provenance cannot support an observed assertion'') else Inr ())"

subsection \<open>Validity in both times\<close>

definition boundaries :: "memory \<Rightarrow> semantic_assertion \<Rightarrow> datetime \<Rightarrow> datetime list" where
  "boundaries m a known_at =
     (case sa_valid_to a of None \<Rightarrow> [] | Some t \<Rightarrow> [t]) @
     map vc_valid_to (filter (\<lambda>c. vc_assertion_ref c = sa_assertion_id a \<and> dt_le (vc_recorded_at c) known_at)
       (map snd (my_closures m))) @
     map su_effective_at (filter (\<lambda>t. su_prior_assertion_ref t = sa_assertion_id a \<and> dt_le (su_recorded_at t) known_at)
       (map snd (my_supersessions m))) @
     map sa_valid_from (filter (\<lambda>c. sa_supersedes c = Some (sa_assertion_id a) \<and> dt_le (sa_recorded_at c) known_at)
       (map snd (my_assertions m)))"

text \<open>\<open>min\<close> of a list that is not empty: the first of the smallest.\<close>

definition earliest :: "datetime list \<Rightarrow> datetime" where
  "earliest ts = foldl (\<lambda>t t'. if dt_before t' t then t' else t) (hd ts) (tl ts)"

definition effective_valid_to :: "memory \<Rightarrow> semantic_assertion \<Rightarrow> datetime \<Rightarrow> datetime option" where
  "effective_valid_to m a known_at =
     (case boundaries m a known_at of [] \<Rightarrow> None | ts \<Rightarrow> Some (earliest ts))"

definition is_visible :: "memory \<Rightarrow> datetime \<Rightarrow> datetime \<Rightarrow> bool \<Rightarrow> semantic_assertion \<Rightarrow> bool" where
  "is_visible m valid_at known_at include_stale a =
     (if dt_before known_at (sa_recorded_at a) \<or> dt_before valid_at (sa_valid_from a) then False
      else if (case effective_valid_to m a known_at of None \<Rightarrow> False | Some t \<Rightarrow> dt_le t valid_at) then False
      else if \<not> include_stale \<and> (case sa_fresh_until a of None \<Rightarrow> False | Some t \<Rightarrow> dt_le t valid_at) then False
      else \<not> list_ex (\<lambda>t. su_prior_assertion_ref t = sa_assertion_id a \<and> dt_le (su_recorded_at t) known_at \<and>
                           dt_le (su_effective_at t) valid_at) (map snd (my_supersessions m)) \<and>
           \<not> list_ex (\<lambda>c. sa_supersedes c = Some (sa_assertion_id a) \<and> dt_le (sa_recorded_at c) known_at \<and>
                           dt_le (sa_valid_from c) valid_at) (map snd (my_assertions m)))"

definition intervals_overlap :: "memory \<Rightarrow> semantic_assertion \<Rightarrow> semantic_assertion \<Rightarrow> datetime \<Rightarrow> bool" where
  "intervals_overlap m l r known_at \<longleftrightarrow>
     (case effective_valid_to m l known_at of None \<Rightarrow> True | Some t \<Rightarrow> dt_before (sa_valid_from r) t) \<and>
     (case effective_valid_to m r known_at of None \<Rightarrow> True | Some t \<Rightarrow> dt_before (sa_valid_from l) t)"

definition has_supersession :: "memory \<Rightarrow> string \<Rightarrow> string \<Rightarrow> bool" where
  "has_supersession m prior_id new_id =
     list_ex (\<lambda>t. su_prior_assertion_ref t = prior_id \<and> su_new_assertion_ref t = new_id) (map snd (my_supersessions m))"

definition directly_superseded :: "memory \<Rightarrow> string \<Rightarrow> string \<Rightarrow> bool" where
  "directly_superseded m l r \<longleftrightarrow> has_supersession m l r \<or> has_supersession m r l"

subsection \<open>Events that an event entails\<close>

definition contradiction_candidate :: "memory \<Rightarrow> semantic_assertion \<Rightarrow> semantic_assertion \<Rightarrow> bool" where
  "contradiction_candidate m a other \<longleftrightarrow>
     sa_assertion_id other \<noteq> sa_assertion_id a \<and>
     (sa_subject other, sa_predicate other) = (sa_subject a, sa_predicate a) \<and>
     sa_value other \<noteq> sa_value a \<and>
     \<not> (sa_supersedes a = Some (sa_assertion_id other) \<or> sa_supersedes other = Some (sa_assertion_id a)) \<and>
     \<not> (has_supersession m (sa_assertion_id other) (sa_assertion_id a) \<or>
        has_supersession m (sa_assertion_id a) (sa_assertion_id other)) \<and>
     intervals_overlap m a other (sa_recorded_at a)"

definition contradiction_event ::
  "builtins \<Rightarrow> memory \<Rightarrow> semantic_assertion \<Rightarrow> string \<Rightarrow> string \<Rightarrow> semantic_assertion \<Rightarrow> jobject event list result" where
  "contradiction_event b m a trigger_id source other =
     rbind (detect_contradiction b (sa_assertion_id a, sa_assertion_id other) (sa_subject a) (sa_predicate a)
              (sa_recorded_at a)) (\<lambda>c.
     if map_of (my_contradictions m) (mc_contradiction_id c) \<noteq> None then Inr []
     else rbind (detection_event c source (Some trigger_id)) (\<lambda>e. Inr [e]))"

definition new_contradiction_events ::
  "builtins \<Rightarrow> memory \<Rightarrow> semantic_assertion \<Rightarrow> jobject event \<Rightarrow> string \<Rightarrow> jobject event list result" where
  "new_contradiction_events b m a trigger source =
     map_sum id concat (mapM (contradiction_event b m a (ev_id trigger) source)
       (filter (contradiction_candidate m a) (map snd (my_assertions m))))"

definition contradiction_resolution ::
  "builtins \<Rightarrow> memory \<Rightarrow> datetime \<Rightarrow> string \<Rightarrow> string \<Rightarrow> string \<Rightarrow> memory_contradiction \<Rightarrow> jobject event list result" where
  "contradiction_resolution b m t trigger_id source reason c =
     (if mc_resolved_at c \<noteq> None then Inr [] else
      rbind (require_assertion m (fst (mc_assertion_refs c))) (\<lambda>l.
      rbind (require_assertion m (snd (mc_assertion_refs c))) (\<lambda>r.
      if intervals_overlap m l r t \<and> \<not> directly_superseded m (sa_assertion_id l) (sa_assertion_id r) then Inr []
      else rbind (resolve_contradiction c t reason) (\<lambda>resolved.
           rbind (resolution_event b resolved source (Some trigger_id)) (\<lambda>e. Inr [e])))))"

definition new_resolution_events ::
  "builtins \<Rightarrow> memory \<Rightarrow> datetime \<Rightarrow> jobject event \<Rightarrow> string \<Rightarrow> string \<Rightarrow> jobject event list result" where
  "new_resolution_events b m t trigger source reason =
     map_sum id concat (mapM (contradiction_resolution b m t (ev_id trigger) source reason)
       (map snd (my_contradictions m)))"

text \<open>\<open>len(refs)\<close> and the elements \<open>refs[0]\<close>, \<open>refs[1]\<close> of a value that should be a list of two.\<close>

definition two_refs :: "json \<Rightarrow> (json \<times> json) result" where
  "two_refs v =
     (let wrong = Inl (ValueError ''contradiction event requires exactly two assertion refs'') in
      case v of
        JList xs \<Rightarrow> if length xs \<noteq> 2 then wrong else Inr (xs ! 0, xs ! 1)
      | JStr s \<Rightarrow> if length s \<noteq> 2 then wrong else Inr (JStr [s ! 0], JStr [s ! 1])
      | JObj d \<Rightarrow> if length d \<noteq> 2 then wrong else Inl (KeyError ''0'')
      | _ \<Rightarrow> Inl (TypeError ''object has no len''))"

definition contradiction_from_detection :: "builtins \<Rightarrow> jobject event \<Rightarrow> memory_contradiction result" where
  "contradiction_from_detection b e =
     (if ev_subject e = None then Inl (ValueError ''contradiction event requires a subject'') else
      rbind (rbind (jitem (ev_payload e) ''assertion_refs'') two_refs) (\<lambda>(l, r).
      rbind (rbind (jitem (ev_payload e) ''detected_at'') (parse_datetime b)) (\<lambda>detected.
      case detected of
        None \<Rightarrow> Inl (ValueError ''contradiction detection timestamp is inconsistent'')
      | Some detected_at \<Rightarrow>
        if detected_at \<noteq> ev_timestamp e
        then Inl (ValueError ''contradiction detection timestamp is inconsistent'') else
        rbind (j_str b (ev_payload e) ''subject'') (\<lambda>subj.
        rbind (j_str b (ev_payload e) ''predicate'') (\<lambda>pred.
        rbind (detect_contradiction b (py_str b l, py_str b r) subj pred detected_at) (\<lambda>c.
        if ev_subject e \<noteq> Some (mc_subject c)
        then Inl (ValueError ''contradiction event subject is inconsistent'') else
        rbind (j_str b (ev_payload e) ''contradiction_id'') (\<lambda>i.
        if i \<noteq> mc_contradiction_id c
        then Inl (ValueError ''contradiction id does not match its assertions'') else Inr c)))))))"

subsection \<open>Applying an event\<close>

text \<open>
  A handler gives the events entailed and the projection it leaves. What it stored before an error in
  the derivation is removed again, unless it was there before the call.
\<close>

type_synonym handled = "jobject event list result \<times> memory"

definition apply_assertion :: "builtins \<Rightarrow> memory \<Rightarrow> jobject event \<Rightarrow> string option \<Rightarrow> handled" where
  "apply_assertion b m e derived_source =
     (case rbind (semantic_assertion_from_event b e) (\<lambda>a.
           rbind (validate_assertion_provenance b m a) (\<lambda>_.
           rbind (case map_of (my_assertions m) (sa_assertion_id a) of
                    Some existing \<Rightarrow> if \<not> same_assertion existing a
                      then Inl (ValueError ''conflicting assertion identity'') else Inr ()
                  | None \<Rightarrow> Inr ()) (\<lambda>_.
           rbind (case sa_supersedes a of
                    None \<Rightarrow> Inr ()
                  | Some p \<Rightarrow> rbind (require_assertion m p) (\<lambda>prior.
                      if (sa_subject prior, sa_predicate prior) \<noteq> (sa_subject a, sa_predicate a)
                      then Inl (ValueError ''an assertion may only supersede the same semantic key'')
                      else Inr ())) (\<lambda>_. Inr a)))) of
        Inl err \<Rightarrow> (Inl err, m)
      | Inr a \<Rightarrow>
          let i = sa_assertion_id a;
              m' = m\<lparr>my_assertions := AList.update i a (my_assertions m)\<rparr>;
              derived =
                rbind (case (derived_source, sa_supersedes a) of
                         (Some src, Some p) \<Rightarrow>
                           if has_supersession m' p i then Inr []
                           else rbind (require_assertion m' p) (\<lambda>prior.
                                rbind (create_assertion_supersession b
                                  \<lparr>su_transition_id = [], su_prior_assertion_ref = sa_assertion_id prior,
                                   su_new_assertion_ref = i, su_effective_at = sa_valid_from a,
                                   su_recorded_at = sa_recorded_at a\<rparr>) (\<lambda>t.
                                rbind (assertion_supersession_to_event t src (Some (ev_id e))) (\<lambda>d. Inr [d])))
                       | _ \<Rightarrow> Inr []) (\<lambda>ds.
                rbind (case derived_source of
                         None \<Rightarrow> Inr []
                       | Some src \<Rightarrow> new_contradiction_events b m' a e src) (\<lambda>cs. Inr (ds @ cs))) in
          case derived of
            Inl err \<Rightarrow> (Inl err, if map_of (my_assertions m) i = None
                                then m'\<lparr>my_assertions := AList.delete i (my_assertions m')\<rparr> else m')
          | Inr ds \<Rightarrow> (Inr ds, m'))"

definition apply_evidence :: "builtins \<Rightarrow> memory \<Rightarrow> jobject event \<Rightarrow> handled" where
  "apply_evidence b m e =
     (case rbind (evidence_link_from_event b e) (\<lambda>l.
           rbind (require_assertion m (el_assertion_ref l)) (\<lambda>target.
           rbind (resolve_evidence_ref b m (el_evidence_ref l)) (\<lambda>object.
           rbind (raise_first
             [(eo_epistemic_type object \<noteq> None \<and> eo_epistemic_type object \<noteq> Some (el_evidence_type l),
               ValueError ''evidence link provenance does not match its source''),
              (sa_epistemic_type target = OBSERVED \<and> el_evidence_type l = SIMULATED \<and>
               el_relation l \<in> {SUPPORTS, REFINES, SUPERSEDES, DERIVED_FROM},
               ValueError ''simulated evidence cannot support an observed assertion''),
              (case map_of (my_evidence m) (el_link_id l) of None \<Rightarrow> False | Some existing \<Rightarrow> existing \<noteq> l,
               ValueError ''conflicting evidence-link identity'')]) (\<lambda>_. Inr l)))) of
        Inl err \<Rightarrow> (Inl err, m)
      | Inr l \<Rightarrow> (Inr [], m\<lparr>my_evidence := AList.update (el_link_id l) l (my_evidence m)\<rparr>))"

definition apply_supersession :: "builtins \<Rightarrow> memory \<Rightarrow> jobject event \<Rightarrow> string option \<Rightarrow> handled" where
  "apply_supersession b m e derived_source =
     (case rbind (assertion_supersession_from_event b e) (\<lambda>t.
           rbind (require_assertion m (su_prior_assertion_ref t)) (\<lambda>prior.
           rbind (require_assertion m (su_new_assertion_ref t)) (\<lambda>new.
           rbind (raise_first
             [((sa_subject prior, sa_predicate prior) \<noteq> (sa_subject new, sa_predicate new),
               ValueError ''supersession must preserve the semantic key''),
              (sa_supersedes new \<noteq> None \<and> sa_supersedes new \<noteq> Some (sa_assertion_id prior),
               ValueError ''supersession conflicts with the new assertion record''),
              (case map_of (my_supersessions m) (su_transition_id t) of None \<Rightarrow> False | Some existing \<Rightarrow> existing \<noteq> t,
               ValueError ''conflicting supersession identity'')]) (\<lambda>_. Inr t)))) of
        Inl err \<Rightarrow> (Inl err, m)
      | Inr t \<Rightarrow>
          let i = su_transition_id t;
              m' = m\<lparr>my_supersessions := AList.update i t (my_supersessions m)\<rparr> in
          case (case derived_source of
                  None \<Rightarrow> Inr []
                | Some src \<Rightarrow> new_resolution_events b m' (su_recorded_at t) e src ''superseded'') of
            Inl err \<Rightarrow> (Inl err, if map_of (my_supersessions m) i = None
                                then m'\<lparr>my_supersessions := AList.delete i (my_supersessions m')\<rparr> else m')
          | Inr ds \<Rightarrow> (Inr ds, m'))"

definition apply_closure :: "builtins \<Rightarrow> memory \<Rightarrow> jobject event \<Rightarrow> string option \<Rightarrow> handled" where
  "apply_closure b m e derived_source =
     (case rbind (validity_closure_from_event b e) (\<lambda>c.
           rbind (require_assertion m (vc_assertion_ref c)) (\<lambda>a.
           rbind (raise_first
             [(dt_le (vc_valid_to c) (sa_valid_from a),
               ValueError ''validity closure must follow assertion valid_from''),
              (case map_of (my_closures m) (vc_closure_id c) of None \<Rightarrow> False | Some existing \<Rightarrow> existing \<noteq> c,
               ValueError ''conflicting validity-closure identity'')]) (\<lambda>_. Inr c))) of
        Inl err \<Rightarrow> (Inl err, m)
      | Inr c \<Rightarrow>
          let i = vc_closure_id c;
              m' = m\<lparr>my_closures := AList.update i c (my_closures m)\<rparr> in
          case (case derived_source of
                  None \<Rightarrow> Inr []
                | Some src \<Rightarrow> new_resolution_events b m' (vc_recorded_at c) e src ''validity_closed'') of
            Inl err \<Rightarrow> (Inl err, if map_of (my_closures m) i = None
                                then m'\<lparr>my_closures := AList.delete i (my_closures m')\<rparr> else m')
          | Inr ds \<Rightarrow> (Inr ds, m'))"

definition apply_detection :: "builtins \<Rightarrow> memory \<Rightarrow> jobject event \<Rightarrow> handled" where
  "apply_detection b m e =
     (case rbind (contradiction_from_detection b e) (\<lambda>c.
           rbind (mapM (require_assertion m) (contradiction_refs c)) (\<lambda>_.
           if (case map_of (my_contradictions m) (mc_contradiction_id c) of None \<Rightarrow> False | Some existing \<Rightarrow> existing \<noteq> c)
           then Inl (ValueError ''conflicting contradiction identity'') else Inr c)) of
        Inl err \<Rightarrow> (Inl err, m)
      | Inr c \<Rightarrow> (Inr [], m\<lparr>my_contradictions := AList.update (mc_contradiction_id c) c (my_contradictions m)\<rparr>))"

definition apply_resolution :: "builtins \<Rightarrow> memory \<Rightarrow> jobject event \<Rightarrow> handled" where
  "apply_resolution b m e =
     (case rbind (j_str b (ev_payload e) ''contradiction_id'') (\<lambda>i.
           case map_of (my_contradictions m) i of
             None \<Rightarrow> Inl (ValueError ''resolution references unknown contradiction'')
           | Some existing \<Rightarrow>
             rbind (rbind (jitem (ev_payload e) ''resolved_at'') (parse_datetime b)) (\<lambda>resolved_at.
             case resolved_at of
               None \<Rightarrow> Inl (ValueError ''contradiction resolution timestamp is inconsistent'')
             | Some t \<Rightarrow>
               if ev_timestamp e \<noteq> t
               then Inl (ValueError ''contradiction resolution timestamp is inconsistent'') else
               rbind (j_str b (ev_payload e) ''reason'') (\<lambda>reason.
               rbind (resolve_contradiction existing t reason) (\<lambda>resolved.
               if mc_resolved_at existing \<noteq> None \<and> existing \<noteq> resolved
               then Inl (ValueError ''conflicting contradiction resolution'') else Inr (i, resolved))))) of
        Inl err \<Rightarrow> (Inl err, m)
      | Inr (i, resolved) \<Rightarrow> (Inr [], m\<lparr>my_contradictions := AList.update i resolved (my_contradictions m)\<rparr>))"

definition handle_memory_event :: "builtins \<Rightarrow> memory \<Rightarrow> jobject event \<Rightarrow> string option \<Rightarrow> handled" where
  "handle_memory_event b m e derived_source =
     (if ev_type e = ASSERTION_RECORDED_EVENT then apply_assertion b m e derived_source
      else if ev_type e = EVIDENCE_LINKED_EVENT then apply_evidence b m e
      else if ev_type e = ASSERTION_SUPERSEDED_EVENT then apply_supersession b m e derived_source
      else if ev_type e = VALIDITY_CLOSED_EVENT then apply_closure b m e derived_source
      else if ev_type e = CONTRADICTION_DETECTED_EVENT then apply_detection b m e
      else if ev_type e = CONTRADICTION_RESOLVED_EVENT then apply_resolution b m e
      else (Inl (ValueError ''unsupported memory event type''), m))"

definition memory_apply :: "builtins \<Rightarrow> memory \<Rightarrow> jobject event \<Rightarrow> string option \<Rightarrow> handled" where
  "memory_apply b m e derived_source =
     (case episodic_apply (my_episodes m) e of
        Inl err \<Rightarrow> (Inl err, m)
      | Inr (eps, _) \<Rightarrow>
          let m1 = m\<lparr>my_episodes := eps\<rparr> in
          if \<not> starts_with ''memory.'' (ev_type e) then (Inr [], m1)
          else (case map_of (my_applied m1) (ev_id e) of
                  Some existing \<Rightarrow>
                    if \<not> same_event existing e then (Inl (ValueError ''conflicting memory event identity''), m1)
                    else (Inr [], m1)
                | None \<Rightarrow>
                    (case handle_memory_event b m1 e derived_source of
                       (Inl err, m2) \<Rightarrow> (Inl err, m2)
                     | (Inr ds, m2) \<Rightarrow>
                         (Inr (sort_key ev_id ds), m2\<lparr>my_applied := AList.update (ev_id e) e (my_applied m2)\<rparr>))))"

text \<open>\<open>rebuild\<close>: the loop stops at the first error.\<close>

fun memory_applies :: "builtins \<Rightarrow> memory \<Rightarrow> jobject event list \<Rightarrow> unit result \<times> memory" where
  "memory_applies b m [] = (Inr (), m)"
| "memory_applies b m (e # es) =
     (case memory_apply b m e None of (Inl err, m') \<Rightarrow> (Inl err, m') | (Inr _, m') \<Rightarrow> memory_applies b m' es)"

definition memory_rebuild :: "builtins \<Rightarrow> jobject event list \<Rightarrow> int option \<Rightarrow> unit result \<times> memory" where
  "memory_rebuild b events through_sequence =
     memory_applies b empty_memory
       (filter (\<lambda>e. case through_sequence of None \<Rightarrow> True | Some n \<Rightarrow> \<not> n < seq0 e) events)"

subsection \<open>Queries\<close>

definition validate_query_times :: "datetime \<Rightarrow> datetime \<Rightarrow> unit result" where
  "validate_query_times valid_at known_at =
     (if is_naive valid_at \<or> is_naive known_at
      then Inl (ValueError ''memory query times must be timezone-aware'') else Inr ())"

definition visible_assertions ::
  "memory \<Rightarrow> datetime \<Rightarrow> datetime \<Rightarrow> bool \<Rightarrow> bool \<Rightarrow> semantic_assertion list result" where
  "visible_assertions m valid_at known_at include_hypotheses include_stale =
     rbind (validate_query_times valid_at known_at) (\<lambda>_.
     Inr (sort_key (\<lambda>a. (sa_subject a, sa_predicate a, instant (sa_recorded_at a), sa_assertion_id a))
       (filter (\<lambda>a. is_visible m valid_at known_at include_stale a \<and> (include_hypotheses \<or> sa_status a = ACTIVE))
         (map snd (my_assertions m)))))"

definition unresolved_contradictions :: "memory \<Rightarrow> datetime \<Rightarrow> memory_contradiction list" where
  "unresolved_contradictions m known_at =
     filter (\<lambda>c. dt_le (mc_detected_at c) known_at \<and>
                 (case mc_resolved_at c of None \<Rightarrow> True | Some t \<Rightarrow> dt_before known_at t))
       (memory_contradictions m)"

definition visible_contradictions ::
  "memory \<Rightarrow> semantic_assertion list \<Rightarrow> datetime \<Rightarrow> memory_contradiction list" where
  "visible_contradictions m assertions known_at =
     filter (\<lambda>c. set (contradiction_refs c) \<subseteq> sa_assertion_id ` set assertions) (unresolved_contradictions m known_at)"

definition max_confidence :: "semantic_assertion list \<Rightarrow> pyfloat" where
  "max_confidence as = foldl (\<lambda>c a. py_max c (sa_confidence a)) (sa_confidence (hd as)) (tl as)"

definition belief :: "memory \<Rightarrow> string \<Rightarrow> string \<Rightarrow> datetime \<Rightarrow> datetime \<Rightarrow> bool \<Rightarrow> belief_state result" where
  "belief m subj pred valid_at known_at include_stale =
     rbind (visible_assertions m valid_at known_at False include_stale) (\<lambda>visible.
     let assertions = filter (\<lambda>a. sa_subject a = subj \<and> sa_predicate a = pred) visible;
         values = remdups (map sa_value assertions);
         contradictions = visible_contradictions m assertions known_at;
         evidence = filter (\<lambda>l. el_assertion_ref l \<in> sa_assertion_id ` set assertions \<and>
                                dt_le (el_recorded_at l) known_at) (evidence_links m);
         (disposition, value, confidence) =
           (if assertions = [] then (BELIEF_UNKNOWN, JNull, 0)
            else if 1 < length values \<or> contradictions \<noteq> []
            then (BELIEF_UNCERTAIN, JNull, max_confidence assertions)
            else (BELIEF_HELD, sa_value (last assertions), max_confidence assertions)) in
     Inr \<lparr>bs_subject = subj, bs_predicate = pred, bs_disposition = disposition, bs_value = value,
          bs_max_assertion_confidence = confidence, bs_assertions = assertions, bs_evidence = evidence,
          bs_contradictions = contradictions, bs_valid_at = valid_at, bs_known_at = known_at\<rparr>)"

definition hypotheses :: "memory \<Rightarrow> datetime \<Rightarrow> datetime \<Rightarrow> semantic_assertion list result" where
  "hypotheses m valid_at known_at =
     rbind (visible_assertions m valid_at known_at True False) (\<lambda>as. Inr (filter (\<lambda>a. sa_status a = HYPOTHESIS) as))"

definition is_contradicted :: "memory \<Rightarrow> string \<Rightarrow> datetime \<Rightarrow> datetime \<Rightarrow> bool \<Rightarrow> bool result" where
  "is_contradicted m i valid_at known_at include_stale =
     rbind (visible_assertions m valid_at known_at True include_stale) (\<lambda>visible.
     let ids = sa_assertion_id ` set visible in
     if i \<notin> ids then Inr False
     else Inr (list_ex (\<lambda>c. i \<in> set (contradiction_refs c) \<and> set (contradiction_refs c) \<subseteq> ids)
                 (unresolved_contradictions m known_at)))"

definition temporal_neighbors ::
  "memory \<Rightarrow> string \<Rightarrow> string \<Rightarrow> datetime \<Rightarrow> datetime \<Rightarrow> temporal_neighbors_result result" where
  "temporal_neighbors m subj pred valid_at known_at =
     (if blank subj \<or> blank pred then Inl (ValueError ''temporal-neighbor semantic key must be non-empty'') else
      rbind (validate_query_times valid_at known_at) (\<lambda>_.
      let assertions = filter (\<lambda>a. sa_subject a = subj \<and> sa_predicate a = pred \<and> sa_status a = ACTIVE \<and>
                                   dt_le (sa_recorded_at a) known_at) (map snd (my_assertions m));
          visible_at = filter (is_visible m valid_at known_at True) assertions;
          predecessors = filter (\<lambda>a. dt_before (sa_valid_from a) valid_at \<and>
              (case effective_valid_to m a known_at of None \<Rightarrow> True | Some t \<Rightarrow> dt_le valid_at t)) assertions;
          ambiguous = 1 < length visible_at \<or> 1 < length predecessors;
          future = filter (\<lambda>a. dt_before valid_at (sa_valid_from a) \<and>
                               is_visible m (sa_valid_from a) known_at True a) assertions;
          first = filter (\<lambda>a. sa_valid_from a = earliest (map sa_valid_from future)) future in
      Inr \<lparr>tn_predecessor = (if length predecessors = 1 \<and> \<not> ambiguous then Some (hd predecessors) else None),
           tn_successor = (if future \<noteq> [] \<and> length first = 1 then Some (hd first) else None),
           tn_ambiguous = ambiguous\<rparr>))"

end
