(* ===== verification/MemoryProperties.thy ===== *)
theory MemoryProperties
  imports Memory
begin

section \<open>Properties of the cognitive memory\<close>

text \<open>
  Knowledge time: what a query sees as known at a time is a function of the records up to that time
  (\<open>as_of\<close>), which later events do not change. Provenance: no observation rests on a simulation.
\<close>

subsection \<open>Dictionaries of records\<close>

lemma delete_updated: "map_of d k = None \<Longrightarrow> AList.delete k (AList.update k v d) = d"
  by (induction d) (auto split: if_splits)

definition view :: "('v \<Rightarrow> bool) \<Rightarrow> ('v \<Rightarrow> 'w) \<Rightarrow> ('k \<times> 'v) list \<Rightarrow> ('k \<times> 'w) list" where
  "view P f d = map (apsnd f) (filter (P \<circ> snd) d)"

lemma view_update:
  assumes "\<And>w. map_of d k = Some w \<Longrightarrow> P w = P v \<and> (P v \<longrightarrow> f w = f v)"
    and "map_of d k = None \<Longrightarrow> \<not> P v"
  shows "view P f (AList.update k v d) = view P f d"
  using assms by (induction d) (auto simp: view_def split: if_splits)

lemma view_values: "map snd (view P f d) = map f (filter P (map snd d))"
  by (induction d) (auto simp: view_def)

lemma sort_key_map: "sort_key f (map g xs) = map g (sort_key (f \<circ> g) xs)"
proof (induction xs)
  case (Cons x xs)
  have "insort_key f (g x) (map g ys) = map g (insort_key (f \<circ> g) x ys)" for ys
    by (induction ys) auto
  with Cons show ?case by (simp add: comp_def)
qed simp

lemma by_key_view: "by_key (view P f d) = map f (filter P (by_key d))"
  by (simp add: by_key_def view_def sort_key_map filter_map comp_def apsnd_def map_prod_def
      case_prod_beta filter_sort)

subsection \<open>What is known at a time\<close>

text \<open>A contradiction as it was known at \<open>k\<close>: a later resolution is not there yet.\<close>

definition unresolved_at :: "datetime \<Rightarrow> memory_contradiction \<Rightarrow> memory_contradiction" where
  "unresolved_at k c = (case mc_resolved_at c of
     Some t \<Rightarrow> if dt_before k t then c\<lparr>mc_resolved_at := None, mc_resolution_reason := None\<rparr> else c
   | None \<Rightarrow> c\<lparr>mc_resolution_reason := None\<rparr>)"

definition as_of :: "datetime \<Rightarrow> memory \<Rightarrow> memory" where
  "as_of k m = \<lparr>my_episodes = [],
     my_assertions = view (\<lambda>a. dt_le (sa_recorded_at a) k) id (my_assertions m),
     my_evidence = view (\<lambda>l. dt_le (el_recorded_at l) k) id (my_evidence m),
     my_supersessions = view (\<lambda>t. dt_le (su_recorded_at t) k) id (my_supersessions m),
     my_closures = view (\<lambda>c. dt_le (vc_recorded_at c) k) id (my_closures m),
     my_contradictions = view (\<lambda>c. dt_le (mc_detected_at c) k) (unresolved_at k) (my_contradictions m),
     my_applied = []\<rparr>"

lemma as_of_updates [simp]:
  "as_of k (m\<lparr>my_episodes := x\<rparr>) = as_of k m" "as_of k (m\<lparr>my_applied := y\<rparr>) = as_of k m"
  by (simp_all add: as_of_def)

text \<open>The records of an event carry its time.\<close>

lemma assertion_event_time:
  assumes "semantic_assertion_from_event b e = Inr a"
  shows "sa_recorded_at a = ev_timestamp e"
  using assms unfolding semantic_assertion_from_event_def by (simp add: rbind_Inr_iff split: if_splits)

lemma evidence_event_time:
  assumes "evidence_link_from_event b e = Inr l"
  shows "el_recorded_at l = ev_timestamp e"
  using assms unfolding evidence_link_from_event_def by (simp add: rbind_Inr_iff split: if_splits)

lemma supersession_event_time:
  assumes "assertion_supersession_from_event b e = Inr t"
  shows "su_recorded_at t = ev_timestamp e"
  using assms unfolding assertion_supersession_from_event_def by (clarsimp simp add: rbind_Inr_iff split: if_splits)

lemma closure_event_time:
  assumes "validity_closure_from_event b e = Inr c"
  shows "vc_recorded_at c = ev_timestamp e"
  using assms unfolding validity_closure_from_event_def by (clarsimp simp add: rbind_Inr_iff split: if_splits)

lemma detect_time: "detect_contradiction b rs s p t = Inr c \<Longrightarrow> mc_detected_at c = t"
  by (auto simp: detect_contradiction_def rbind_Inr_iff Let_def)

lemma detection_time: "contradiction_from_detection b e = Inr c \<Longrightarrow> mc_detected_at c = ev_timestamp e"
  unfolding contradiction_from_detection_def
  by (auto elim!: rbindE split: if_splits option.splits prod.splits simp del: not_None_eq) (erule detect_time)

lemma resolve_contradiction_result:
  "resolve_contradiction c t reason = Inr c' \<Longrightarrow>
   c' = c\<lparr>mc_resolved_at := Some t, mc_resolution_reason := Some reason\<rparr>"
  by (auto simp: resolve_contradiction_def elim: rbindE)

lemma dt_before_le: "dt_before k t \<Longrightarrow> \<not> dt_le t k"
  by (simp add: dt_before_def dt_le_def)

lemma same_assertion_time: "same_assertion x y \<Longrightarrow> sa_recorded_at x = sa_recorded_at y"
  by (cases x; cases y) (simp add: same_assertion_def)

text \<open>What the handlers do to the projection.\<close>

lemma apply_assertion_effect:
  assumes "apply_assertion b m e src = (r, m')"
  shows "m' = m \<or> (\<exists>a. semantic_assertion_from_event b e = Inr a \<and> validate_assertion_provenance b m a = Inr () \<and>
     (\<forall>x. map_of (my_assertions m) (sa_assertion_id a) = Some x \<longrightarrow> same_assertion x a) \<and>
     m' = m\<lparr>my_assertions := AList.update (sa_assertion_id a) a (my_assertions m)\<rparr>)"
  using assms
  by (auto simp: apply_assertion_def Let_def rbind_Inr_iff delete_updated split: sum.splits option.splits if_splits)


lemma apply_evidence_effect:
  assumes "apply_evidence b m e = (r, m')"
  shows "m' = m \<or> (\<exists>l a obj. evidence_link_from_event b e = Inr l \<and> map_of (my_assertions m) (el_assertion_ref l) = Some a \<and>
     resolve_evidence_ref b m (el_evidence_ref l) = Inr obj \<and>
     eo_epistemic_type obj \<in> {None, Some (el_evidence_type l)} \<and>
     \<not> (sa_epistemic_type a = OBSERVED \<and> el_evidence_type l = SIMULATED \<and> el_relation l \<noteq> CONTRADICTS) \<and>
     (\<forall>x. map_of (my_evidence m) (el_link_id l) = Some x \<longrightarrow> x = l) \<and>
     m' = m\<lparr>my_evidence := AList.update (el_link_id l) l (my_evidence m)\<rparr>)"
proof (cases r)
  case (Inl err)
  then show ?thesis using assms by (auto simp: apply_evidence_def split: sum.splits)
next
  case (Inr ds)
  then obtain l where l: "m' = m\<lparr>my_evidence := AList.update (el_link_id l) l (my_evidence m)\<rparr>"
    and *: "rbind (evidence_link_from_event b e) (\<lambda>l.
           rbind (require_assertion m (el_assertion_ref l)) (\<lambda>target.
           rbind (resolve_evidence_ref b m (el_evidence_ref l)) (\<lambda>object.
           rbind (raise_first
             [(eo_epistemic_type object \<noteq> None \<and> eo_epistemic_type object \<noteq> Some (el_evidence_type l),
               ValueError ''evidence link provenance does not match its source''),
              (sa_epistemic_type target = OBSERVED \<and> el_evidence_type l = SIMULATED \<and>
               el_relation l \<in> {SUPPORTS, REFINES, SUPERSEDES, DERIVED_FROM},
               ValueError ''simulated evidence cannot support an observed assertion''),
              (case map_of (my_evidence m) (el_link_id l) of None \<Rightarrow> False | Some existing \<Rightarrow> existing \<noteq> l,
               ValueError ''conflicting evidence-link identity'')]) (\<lambda>_. Inr l)))) = Inr l"
    using assms by (auto simp: apply_evidence_def split: sum.splits)
  from * show ?thesis
    using l by (auto elim!: rbindE simp: require_assertion_def split: option.splits) (metis evidence_relation.exhaust)+
qed

lemma apply_supersession_effect:
  assumes "apply_supersession b m e src = (r, m')"
  shows "m' = m \<or> (\<exists>t. assertion_supersession_from_event b e = Inr t \<and>
     (\<forall>x. map_of (my_supersessions m) (su_transition_id t) = Some x \<longrightarrow> x = t) \<and>
     m' = m\<lparr>my_supersessions := AList.update (su_transition_id t) t (my_supersessions m)\<rparr>)"
  using assms unfolding apply_supersession_def
  by (auto simp: Let_def delete_updated elim!: rbindE split: sum.splits option.splits if_splits)

lemma apply_closure_effect:
  assumes "apply_closure b m e src = (r, m')"
  shows "m' = m \<or> (\<exists>c. validity_closure_from_event b e = Inr c \<and>
     (\<forall>x. map_of (my_closures m) (vc_closure_id c) = Some x \<longrightarrow> x = c) \<and>
     m' = m\<lparr>my_closures := AList.update (vc_closure_id c) c (my_closures m)\<rparr>)"
  using assms unfolding apply_closure_def
  by (auto simp: Let_def delete_updated elim!: rbindE split: sum.splits option.splits if_splits)

lemma apply_detection_effect:
  assumes "apply_detection b m e = (r, m')"
  shows "m' = m \<or> (\<exists>c. contradiction_from_detection b e = Inr c \<and>
     (\<forall>x. map_of (my_contradictions m) (mc_contradiction_id c) = Some x \<longrightarrow> x = c) \<and>
     m' = m\<lparr>my_contradictions := AList.update (mc_contradiction_id c) c (my_contradictions m)\<rparr>)"
  using assms unfolding apply_detection_def
  by (auto elim!: rbindE split: sum.splits option.splits if_splits)

lemma apply_resolution_effect:
  assumes "apply_resolution b m e = (r, m')"
  shows "m' = m \<or> (\<exists>i c c'. map_of (my_contradictions m) i = Some c \<and>
     (\<exists>reason. c' = c\<lparr>mc_resolved_at := Some (ev_timestamp e), mc_resolution_reason := Some reason\<rparr>) \<and>
     (mc_resolved_at c \<noteq> None \<longrightarrow> c' = c) \<and>
     m' = m\<lparr>my_contradictions := AList.update i c' (my_contradictions m)\<rparr>)"
proof (cases r)
  case (Inl err)
  then show ?thesis using assms by (auto simp: apply_resolution_def split: sum.splits prod.splits)
next
  case (Inr ds)
  then obtain i c' where m': "m' = m\<lparr>my_contradictions := AList.update i c' (my_contradictions m)\<rparr>"
    and *: "rbind (j_str b (ev_payload e) ''contradiction_id'') (\<lambda>i.
           case map_of (my_contradictions m) i of
             None \<Rightarrow> Inl (ValueError ''resolution references unknown contradiction'')
           | Some existing \<Rightarrow>
             rbind (rbind (jitem (ev_payload e) ''resolved_at'') (parse_datetime b)) (\<lambda>resolved_at.
             case resolved_at of
               None \<Rightarrow> Inl (ValueError ''contradiction resolution timestamp is inconsistent'')
             | Some t \<Rightarrow>
               if ev_timestamp e \<noteq> t
               then Inl (ValueError ''contradiction resolution timestamp is inconsistent'') else
               rbind (j_str b (ev_payload e) ''reason'') (\<lambda>reason.
               rbind (resolve_contradiction existing t reason) (\<lambda>resolved.
               if mc_resolved_at existing \<noteq> None \<and> existing \<noteq> resolved
               then Inl (ValueError ''conflicting contradiction resolution'') else Inr (i, resolved))))) = Inr (i, c')"
    using assms by (auto simp: apply_resolution_def split: sum.splits prod.splits)
  from * obtain c reason where "map_of (my_contradictions m) i = Some c"
    "resolve_contradiction c (ev_timestamp e) reason = Inr c'" "mc_resolved_at c = None \<or> c' = c"
    by (auto elim!: rbindE split: option.splits if_splits)
  with m' show ?thesis
    by (metis resolve_contradiction_result)
qed

subsection \<open>Later events do not change what was known\<close>

lemma later_assertion:
  assumes "apply_assertion b m e src = (r, m')" "dt_before k (ev_timestamp e)"
  shows "as_of k m' = as_of k m"
  using apply_assertion_effect [OF assms(1)]
proof (elim disjE exE conjE)
  fix a assume a: "semantic_assertion_from_event b e = Inr a"
    and x: "\<forall>x. map_of (my_assertions m) (sa_assertion_id a) = Some x \<longrightarrow> same_assertion x a"
    and m': "m' = m\<lparr>my_assertions := AList.update (sa_assertion_id a) a (my_assertions m)\<rparr>"
  have new: "\<not> dt_le (sa_recorded_at a) k"
    using dt_before_le [OF assms(2)] by (simp add: assertion_event_time [OF a])
  have "view (\<lambda>a. dt_le (sa_recorded_at a) k) id (AList.update (sa_assertion_id a) a (my_assertions m)) =
    view (\<lambda>a. dt_le (sa_recorded_at a) k) id (my_assertions m)"
  proof (rule view_update)
    fix w assume "map_of (my_assertions m) (sa_assertion_id a) = Some w"
    with x have "sa_recorded_at w = sa_recorded_at a" by (intro same_assertion_time) simp
    with new show "dt_le (sa_recorded_at w) k = dt_le (sa_recorded_at a) k \<and>
      (dt_le (sa_recorded_at a) k \<longrightarrow> id w = id a)" by simp
  qed (rule new)
  then show ?thesis by (simp add: as_of_def m')
qed simp

lemma later_evidence:
  assumes "apply_evidence b m e = (r, m')" "dt_before k (ev_timestamp e)"
  shows "as_of k m' = as_of k m"
  using apply_evidence_effect [OF assms(1)]
proof (elim disjE exE conjE)
  fix l assume l: "evidence_link_from_event b e = Inr l"
    and x: "\<forall>x. map_of (my_evidence m) (el_link_id l) = Some x \<longrightarrow> x = l"
    and m': "m' = m\<lparr>my_evidence := AList.update (el_link_id l) l (my_evidence m)\<rparr>"
  have "view (\<lambda>l. dt_le (el_recorded_at l) k) id (AList.update (el_link_id l) l (my_evidence m)) =
    view (\<lambda>l. dt_le (el_recorded_at l) k) id (my_evidence m)"
    using dt_before_le [OF assms(2)] x by (intro view_update) (auto simp: evidence_event_time [OF l])
  then show ?thesis by (simp add: as_of_def m')
qed simp

lemma later_supersession:
  assumes "apply_supersession b m e src = (r, m')" "dt_before k (ev_timestamp e)"
  shows "as_of k m' = as_of k m"
  using apply_supersession_effect [OF assms(1)]
proof (elim disjE exE conjE)
  fix t assume t: "assertion_supersession_from_event b e = Inr t"
    and x: "\<forall>x. map_of (my_supersessions m) (su_transition_id t) = Some x \<longrightarrow> x = t"
    and m': "m' = m\<lparr>my_supersessions := AList.update (su_transition_id t) t (my_supersessions m)\<rparr>"
  have "view (\<lambda>t. dt_le (su_recorded_at t) k) id (AList.update (su_transition_id t) t (my_supersessions m)) =
    view (\<lambda>t. dt_le (su_recorded_at t) k) id (my_supersessions m)"
    using dt_before_le [OF assms(2)] x by (intro view_update) (auto simp: supersession_event_time [OF t])
  then show ?thesis by (simp add: as_of_def m')
qed simp

lemma later_closure:
  assumes "apply_closure b m e src = (r, m')" "dt_before k (ev_timestamp e)"
  shows "as_of k m' = as_of k m"
  using apply_closure_effect [OF assms(1)]
proof (elim disjE exE conjE)
  fix c assume c: "validity_closure_from_event b e = Inr c"
    and x: "\<forall>x. map_of (my_closures m) (vc_closure_id c) = Some x \<longrightarrow> x = c"
    and m': "m' = m\<lparr>my_closures := AList.update (vc_closure_id c) c (my_closures m)\<rparr>"
  have "view (\<lambda>c. dt_le (vc_recorded_at c) k) id (AList.update (vc_closure_id c) c (my_closures m)) =
    view (\<lambda>c. dt_le (vc_recorded_at c) k) id (my_closures m)"
    using dt_before_le [OF assms(2)] x by (intro view_update) (auto simp: closure_event_time [OF c])
  then show ?thesis by (simp add: as_of_def m')
qed simp

lemma later_detection:
  assumes "apply_detection b m e = (r, m')" "dt_before k (ev_timestamp e)"
  shows "as_of k m' = as_of k m"
  using apply_detection_effect [OF assms(1)]
proof (elim disjE exE conjE)
  fix c assume c: "contradiction_from_detection b e = Inr c"
    and x: "\<forall>x. map_of (my_contradictions m) (mc_contradiction_id c) = Some x \<longrightarrow> x = c"
    and m': "m' = m\<lparr>my_contradictions := AList.update (mc_contradiction_id c) c (my_contradictions m)\<rparr>"
  have "view (\<lambda>c. dt_le (mc_detected_at c) k) (unresolved_at k)
      (AList.update (mc_contradiction_id c) c (my_contradictions m)) =
    view (\<lambda>c. dt_le (mc_detected_at c) k) (unresolved_at k) (my_contradictions m)"
    using dt_before_le [OF assms(2)] x by (intro view_update) (auto simp: detection_time [OF c])
  then show ?thesis by (simp add: as_of_def m')
qed simp

lemma later_resolution:
  assumes "apply_resolution b m e = (r, m')" "dt_before k (ev_timestamp e)"
  shows "as_of k m' = as_of k m"
  using apply_resolution_effect [OF assms(1)]
proof (elim disjE exE conjE)
  fix i c c' reason
  assume i: "map_of (my_contradictions m) i = Some c"
    and c': "c' = c\<lparr>mc_resolved_at := Some (ev_timestamp e), mc_resolution_reason := Some reason\<rparr>"
    and c: "mc_resolved_at c \<noteq> None \<longrightarrow> c' = c"
    and m': "m' = m\<lparr>my_contradictions := AList.update i c' (my_contradictions m)\<rparr>"
  have "unresolved_at k c = unresolved_at k c'"
    by (insert c assms(2), cases c) (auto simp: unresolved_at_def c')
  then have "view (\<lambda>c. dt_le (mc_detected_at c) k) (unresolved_at k) (AList.update i c' (my_contradictions m)) =
    view (\<lambda>c. dt_le (mc_detected_at c) k) (unresolved_at k) (my_contradictions m)"
    using i by (intro view_update) (auto simp: c')
  then show ?thesis by (simp add: as_of_def m')
qed simp

lemma later_event:
  assumes "memory_apply b m e src = (r, m')" "dt_before k (ev_timestamp e)"
  shows "as_of k m' = as_of k m"
proof -
  have handled: "as_of k m2 = as_of k m1" if "handle_memory_event b m1 e src = (r2, m2)" for m1 m2 r2
    using that assms(2) unfolding handle_memory_event_def
    by (auto split: if_splits dest: later_assertion later_evidence later_supersession later_closure later_detection
        later_resolution)
  show ?thesis
    using assms(1) unfolding memory_apply_def
    by (auto simp: Let_def dest: handled split: sum.splits prod.splits if_splits option.splits)
qed


text \<open>The projection after any sequence of events, whether they are accepted or raise.\<close>

definition memory_after :: "builtins \<Rightarrow> memory \<Rightarrow> (jobject event \<times> string option) list \<Rightarrow> memory" where
  "memory_after b m es = foldl (\<lambda>m (e, src). snd (memory_apply b m e src)) m es"

lemma later_events:
  "list_all (\<lambda>(e, src). dt_before k (ev_timestamp e)) es \<Longrightarrow> as_of k (memory_after b m es) = as_of k m"
proof (induction es arbitrary: m)
  case (Cons x es)
  obtain e src where x: "x = (e, src)" by (cases x)
  have "as_of k (snd (memory_apply b m e src)) = as_of k m"
    using Cons.prems x by (intro later_event [OF surjective_pairing]) simp
  with Cons show ?case by (simp add: memory_after_def x)
qed (simp add: memory_after_def)

subsection \<open>Queries read what is known\<close>

lemma as_of_values:
  "map snd (my_assertions (as_of k m)) = filter (\<lambda>a. dt_le (sa_recorded_at a) k) (map snd (my_assertions m))"
  "map snd (my_supersessions (as_of k m)) = filter (\<lambda>t. dt_le (su_recorded_at t) k) (map snd (my_supersessions m))"
  "map snd (my_closures (as_of k m)) = filter (\<lambda>c. dt_le (vc_recorded_at c) k) (map snd (my_closures m))"
  "evidence_links (as_of k m) = filter (\<lambda>l. dt_le (el_recorded_at l) k) (evidence_links m)"
  "memory_contradictions (as_of k m) =
     map (unresolved_at k) (filter (\<lambda>c. dt_le (mc_detected_at c) k) (memory_contradictions m))"
  by (simp_all add: as_of_def view_values evidence_links_def memory_contradictions_def by_key_view)

lemma effective_valid_to_as_of: "effective_valid_to (as_of k m) a k = effective_valid_to m a k"
proof -
  have "boundaries (as_of k m) a k = boundaries m a k"
    by (simp add: boundaries_def as_of_values conj_commute)
  then show ?thesis by (simp add: effective_valid_to_def)
qed

lemma is_visible_as_of: "is_visible (as_of k m) v k s a = is_visible m v k s a"
  by (auto simp: is_visible_def effective_valid_to_as_of as_of_values list_ex_iff)

lemma is_visible_recorded: "is_visible m v k s a \<Longrightarrow> dt_le (sa_recorded_at a) k"
  by (auto simp: is_visible_def dt_before_def dt_le_def split: if_splits)

lemma visible_filter:
  "filter (\<lambda>a. dt_le (sa_recorded_at a) k \<and> is_visible m v k s a \<and> P a) as =
   filter (\<lambda>a. is_visible m v k s a \<and> P a) as"
  by (induction as) (auto dest: is_visible_recorded)

lemma visible_assertions_as_of: "visible_assertions (as_of k m) v k h s = visible_assertions m v k h s"
  by (simp add: visible_assertions_def is_visible_as_of as_of_values visible_filter)

definition as_detected :: "memory_contradiction \<Rightarrow> memory_contradiction" where
  "as_detected c = c\<lparr>mc_resolved_at := None, mc_resolution_reason := None\<rparr>"

lemma as_detected_unresolved_at: "mc_resolved_at c = None \<or> dt_before k (the (mc_resolved_at c)) \<Longrightarrow>
   as_detected (unresolved_at k c) = as_detected c"
  by (auto simp: as_detected_def unresolved_at_def split: option.splits)

lemma unresolved_contradictions_as_of:
  "map as_detected (unresolved_contradictions (as_of k m) k) = map as_detected (unresolved_contradictions m k)"
proof -
  have *: "map as_detected (filter P (map (unresolved_at k) (filter (\<lambda>c. dt_le (mc_detected_at c) k) cs))) =
    map as_detected (filter P cs)"
    if P: "P = (\<lambda>c. dt_le (mc_detected_at c) k \<and>
                 (case mc_resolved_at c of None \<Rightarrow> True | Some t \<Rightarrow> dt_before k t))" for P cs
    unfolding P
    by (induction cs) (auto simp: unresolved_at_def as_detected_def split: option.splits)
  show ?thesis
    unfolding unresolved_contradictions_def as_of_values by (rule *) (rule refl)
qed

lemma contradiction_refs_detected [simp]: "contradiction_refs (as_detected c) = contradiction_refs c"
  by (simp add: contradiction_refs_def as_detected_def)

lemma visible_contradictions_as_of:
  "map as_detected (visible_contradictions (as_of k m) as k) = map as_detected (visible_contradictions m as k)"
proof -
  have *: "map as_detected (filter (\<lambda>c. P (contradiction_refs c)) cs) =
      filter (\<lambda>c. P (contradiction_refs c)) (map as_detected cs)" for P cs
    by (induction cs) auto
  show ?thesis
    unfolding visible_contradictions_def * [of "\<lambda>r. set r \<subseteq> sa_assertion_id ` set as"]
    by (simp add: unresolved_contradictions_as_of)
qed

text \<open>A belief without what later events tell about its contradictions.\<close>

definition belief_as_detected :: "belief_state \<Rightarrow> belief_state" where
  "belief_as_detected s = s\<lparr>bs_contradictions := map as_detected (bs_contradictions s)\<rparr>"

lemma belief_as_of:
  "map_sum id belief_as_detected (belief (as_of k m) subj pred v k s) =
   map_sum id belief_as_detected (belief m subj pred v k s)"
proof -
  have ev: "filter (\<lambda>l. P l \<and> dt_le (el_recorded_at l) k) (evidence_links (as_of k m)) =
    filter (\<lambda>l. P l \<and> dt_le (el_recorded_at l) k) (evidence_links m)" for P
    by (simp add: as_of_values conj_ac)
  have empty: "(visible_contradictions (as_of k m) as k = []) = (visible_contradictions m as k = [])" for as
    using visible_contradictions_as_of [of k m as] by (metis map_is_Nil_conv)
  show ?thesis
    by (cases "visible_assertions m v k False s")
      (simp_all add: belief_def visible_assertions_as_of ev empty belief_as_detected_def visible_contradictions_as_of Let_def)
qed

lemma is_contradicted_as_of: "is_contradicted (as_of k m) i v k s = is_contradicted m i v k s"
proof -
  have *: "list_ex (\<lambda>c. P (contradiction_refs c)) cs = list_ex (\<lambda>c. P (contradiction_refs c)) (map as_detected cs)" for P cs
    by (induction cs) auto
  show ?thesis
    unfolding is_contradicted_def visible_assertions_as_of
    by (subst (1 2) * [of "\<lambda>r. i \<in> set r \<and> set r \<subseteq> _"])
      (simp add: unresolved_contradictions_as_of cong: if_cong)
qed

lemma temporal_neighbors_as_of: "temporal_neighbors (as_of k m) subj pred v k = temporal_neighbors m subj pred v k"
proof -
  have "filter (\<lambda>a. sa_subject a = subj \<and> sa_predicate a = pred \<and> sa_status a = ACTIVE \<and> dt_le (sa_recorded_at a) k)
      (map snd (my_assertions (as_of k m))) =
    filter (\<lambda>a. sa_subject a = subj \<and> sa_predicate a = pred \<and> sa_status a = ACTIVE \<and> dt_le (sa_recorded_at a) k)
      (map snd (my_assertions m))"
    by (simp add: as_of_values conj_ac)
  then show ?thesis
    by (simp add: temporal_neighbors_def is_visible_as_of effective_valid_to_as_of)
qed

lemma hypotheses_as_of: "hypotheses (as_of k m) v k = hypotheses m v k"
  by (simp add: hypotheses_def visible_assertions_as_of)



subsection \<open>Provenance\<close>

text \<open>References that resolve keep resolving to something of the same epistemic type.\<close>

definition keeps_references :: "memory \<Rightarrow> memory \<Rightarrow> bool" where
  "keeps_references m m' \<longleftrightarrow>
     (\<forall>i e. map_of (my_episodes m) i = Some e \<longrightarrow> map_of (my_episodes m') i = Some e) \<and>
     (\<forall>i a. map_of (my_assertions m) i = Some a \<longrightarrow>
        (\<exists>a'. map_of (my_assertions m') i = Some a' \<and> same_assertion a a'))"

lemma same_assertion_fields:
  "same_assertion x y \<Longrightarrow> sa_epistemic_type x = sa_epistemic_type y"
  "same_assertion x y \<Longrightarrow> sa_source_refs x = sa_source_refs y"
  "same_assertion x y \<Longrightarrow> sa_derivation_refs x = sa_derivation_refs y"
  by (cases x; cases y; simp add: same_assertion_def)+

lemma same_assertion_refl [simp]: "same_assertion x x"
  by (simp add: same_assertion_def)

lemma same_assertion_trans: "same_assertion x y \<Longrightarrow> same_assertion y z \<Longrightarrow> same_assertion x z"
  by (simp add: same_assertion_def json_eq_def)

text \<open>A reference that is known not to lead to a simulation.\<close>

definition grounded :: "builtins \<Rightarrow> memory \<Rightarrow> string \<Rightarrow> bool" where
  "grounded b m ref = (case resolve_evidence_ref b m ref of
     Inl _ \<Rightarrow> False | Inr obj \<Rightarrow> eo_epistemic_type obj \<noteq> Some SIMULATED)"

lemma grounded_frame:
  assumes "my_episodes m' = my_episodes m" "my_assertions m' = my_assertions m"
  shows "grounded b m' = grounded b m"
  by (rule ext) (unfold grounded_def resolve_evidence_ref_def assms, rule refl)

lemma grounded_keeps:
  assumes "keeps_references m m'" "grounded b m ref"
  shows "grounded b m' ref"
proof -
  obtain ns sep i where p: "partition_colon ref = (ns, sep, i)" by (cases "partition_colon ref")
  have ep: "map_of (my_episodes m') i = Some e" if "map_of (my_episodes m) i = Some e" for e
    using assms(1) that by (simp add: keeps_references_def)
  have "grounded b m' ref" if "ns = ''assertion''"
    using assms p that same_assertion_fields(1)
    by (fastforce simp: grounded_def resolve_evidence_ref_def keeps_references_def split: option.splits if_splits)
  moreover have "grounded b m' ref" if "ns \<noteq> ''assertion''"
    using assms(2) p that ep
    by (auto simp: grounded_def resolve_evidence_ref_def split: option.splits if_splits)
  ultimately show ?thesis by blast
qed

definition provenance_inv :: "builtins \<Rightarrow> memory \<Rightarrow> bool" where
  "provenance_inv b m \<longleftrightarrow> distinct (map fst (my_assertions m)) \<and> distinct (map fst (my_evidence m)) \<and>
     (\<forall>i a. map_of (my_assertions m) i = Some a \<longrightarrow> sa_epistemic_type a = OBSERVED \<longrightarrow>
        list_all (grounded b m) (sa_source_refs a @ sa_derivation_refs a)) \<and>
     (\<forall>i l. map_of (my_evidence m) i = Some l \<longrightarrow>
        (\<exists>a. map_of (my_assertions m) (el_assertion_ref l) = Some a \<and>
           (sa_epistemic_type a = OBSERVED \<longrightarrow> el_relation l \<noteq> CONTRADICTS \<longrightarrow>
              el_evidence_type l \<noteq> SIMULATED \<and> grounded b m (el_evidence_ref l))))"

lemma provenance_inv_keeps:
  assumes "provenance_inv b m" "keeps_references m m'" "distinct (map fst (my_assertions m'))"
    "my_evidence m' = my_evidence m"
    and new: "\<And>i a. map_of (my_assertions m') i = Some a \<Longrightarrow>
      (\<exists>a'. map_of (my_assertions m) i = Some a' \<and> same_assertion a' a) \<or>
      (sa_epistemic_type a = OBSERVED \<longrightarrow> list_all (grounded b m) (sa_source_refs a @ sa_derivation_refs a))"
  shows "provenance_inv b m'"
  unfolding provenance_inv_def
proof (intro conjI allI impI)
  fix i a assume a: "map_of (my_assertions m') i = Some a" "sa_epistemic_type a = OBSERVED"
  have "list_all (grounded b m) (sa_source_refs a @ sa_derivation_refs a)"
    using new [OF a(1)]
  proof
    assume "\<exists>a'. map_of (my_assertions m) i = Some a' \<and> same_assertion a' a"
    then obtain a' where a': "map_of (my_assertions m) i = Some a'" "same_assertion a' a" by blast
    then have "list_all (grounded b m) (sa_source_refs a' @ sa_derivation_refs a')"
      using assms(1) a(2) same_assertion_fields(1) unfolding provenance_inv_def by metis
    then show ?thesis by (simp add: same_assertion_fields [OF a'(2)])
  qed (use a(2) in simp)
  then show "list_all (grounded b m') (sa_source_refs a @ sa_derivation_refs a)"
    using grounded_keeps [OF assms(2)] by (auto simp: list_all_iff)
next
  fix i l assume l: "map_of (my_evidence m') i = Some l"
  then obtain a where a: "map_of (my_assertions m) (el_assertion_ref l) = Some a"
    and g: "sa_epistemic_type a = OBSERVED \<longrightarrow> el_relation l \<noteq> CONTRADICTS \<longrightarrow>
      el_evidence_type l \<noteq> SIMULATED \<and> grounded b m (el_evidence_ref l)"
    using assms(1,4) unfolding provenance_inv_def by metis
  obtain a' where a': "map_of (my_assertions m') (el_assertion_ref l) = Some a'" "same_assertion a a'"
    using assms(2) a unfolding keeps_references_def by blast
  then show "\<exists>a. map_of (my_assertions m') (el_assertion_ref l) = Some a \<and>
      (sa_epistemic_type a = OBSERVED \<longrightarrow> el_relation l \<noteq> CONTRADICTS \<longrightarrow>
         el_evidence_type l \<noteq> SIMULATED \<and> grounded b m' (el_evidence_ref l))"
    using g grounded_keeps [OF assms(2)] same_assertion_fields(1) [OF a'(2)] by auto
qed (use assms(1,3,4) in \<open>simp_all add: provenance_inv_def\<close>)

lemma keeps_references_refl: "my_episodes m' = my_episodes m \<Longrightarrow> my_assertions m' = my_assertions m \<Longrightarrow> keeps_references m m'"
  by (simp add: keeps_references_def)

lemma provenance_frame:
  "provenance_inv b m \<Longrightarrow> my_episodes m' = my_episodes m \<Longrightarrow> my_assertions m' = my_assertions m \<Longrightarrow>
   my_evidence m' = my_evidence m \<Longrightarrow> provenance_inv b m'"
  by (rule provenance_inv_keeps [OF _ keeps_references_refl]) (auto simp: provenance_inv_def)

lemma validated_grounded:
  assumes "validate_assertion_provenance b m a = Inr ()" "sa_epistemic_type a = OBSERVED"
  shows "list_all (grounded b m) (sa_source_refs a @ sa_derivation_refs a)"
proof -
  obtain objs where o: "mapM (resolve_evidence_ref b m) (sa_source_refs a @ sa_derivation_refs a) = Inr objs"
    and ns: "\<not> list_ex (\<lambda>o'. eo_epistemic_type o' = Some SIMULATED) objs"
    using assms by (auto simp: validate_assertion_provenance_def elim!: rbindE)
  have "list_all2 (\<lambda>r obj. resolve_evidence_ref b m r = Inr obj) (sa_source_refs a @ sa_derivation_refs a) objs"
    using o by (simp only: mapM_Inr_iff)
  then have "list_all (grounded b m) xs" if "xs = sa_source_refs a @ sa_derivation_refs a" for xs
    using ns unfolding that [symmetric]
    by (induction xs objs rule: list_all2_induct) (auto simp: grounded_def)
  then show ?thesis by simp
qed

lemma provenance_assertion:
  assumes "provenance_inv b m" "apply_assertion b m e src = (r, m')"
  shows "provenance_inv b m'"
  using apply_assertion_effect [OF assms(2)]
proof (elim disjE exE conjE)
  fix a assume v: "validate_assertion_provenance b m a = Inr ()"
    and x: "\<forall>x. map_of (my_assertions m) (sa_assertion_id a) = Some x \<longrightarrow> same_assertion x a"
    and m': "m' = m\<lparr>my_assertions := AList.update (sa_assertion_id a) a (my_assertions m)\<rparr>"
  show ?thesis
  proof (rule provenance_inv_keeps [OF assms(1)])
    show "keeps_references m m'"
      using x by (auto simp: keeps_references_def m' dict_simps)
    show "distinct (map fst (my_assertions m'))"
      using assms(1) by (simp add: m' provenance_inv_def distinct_keys_update)
    fix i a' assume "map_of (my_assertions m') i = Some a'"
    then show "(\<exists>a''. map_of (my_assertions m) i = Some a'' \<and> same_assertion a'' a') \<or>
      (sa_epistemic_type a' = OBSERVED \<longrightarrow> list_all (grounded b m) (sa_source_refs a' @ sa_derivation_refs a'))"
      using validated_grounded [OF v] by (auto simp: m' dict_simps split: if_splits)
  qed (simp add: m')
qed (use assms(1) in simp)

lemma provenance_evidence:
  assumes "provenance_inv b m" "apply_evidence b m e = (r, m')"
  shows "provenance_inv b m'"
  using apply_evidence_effect [OF assms(2)]
proof (elim disjE exE conjE)
  fix l a obj
  assume a: "map_of (my_assertions m) (el_assertion_ref l) = Some a"
    and r: "resolve_evidence_ref b m (el_evidence_ref l) = Inr obj"
    and ty: "eo_epistemic_type obj \<in> {None, Some (el_evidence_type l)}"
    and ns: "\<not> (sa_epistemic_type a = OBSERVED \<and> el_evidence_type l = SIMULATED \<and> el_relation l \<noteq> CONTRADICTS)"
    and m': "m' = m\<lparr>my_evidence := AList.update (el_link_id l) l (my_evidence m)\<rparr>"
  have g: "grounded b m' = grounded b m"
    by (rule grounded_frame) (simp_all add: m')
  have new: "sa_epistemic_type a = OBSERVED \<Longrightarrow> el_relation l \<noteq> CONTRADICTS \<Longrightarrow>
      el_evidence_type l \<noteq> SIMULATED \<and> grounded b m (el_evidence_ref l)"
    using ns r ty by (auto simp: grounded_def)
  show ?thesis
    unfolding provenance_inv_def g
  proof (intro conjI allI impI)
    fix i l' assume "map_of (my_evidence m') i = Some l'"
    then have "l' = l \<or> map_of (my_evidence m) i = Some l'" by (auto simp: m' dict_simps split: if_splits)
    then show "\<exists>a. map_of (my_assertions m') (el_assertion_ref l') = Some a \<and>
        (sa_epistemic_type a = OBSERVED \<longrightarrow> el_relation l' \<noteq> CONTRADICTS \<longrightarrow>
           el_evidence_type l' \<noteq> SIMULATED \<and> grounded b m (el_evidence_ref l'))"
    proof
      assume "l' = l"
      then show ?thesis using a new by (auto simp: m')
    next
      assume "map_of (my_evidence m) i = Some l'"
      then have "\<exists>a. map_of (my_assertions m) (el_assertion_ref l') = Some a \<and>
          (sa_epistemic_type a = OBSERVED \<longrightarrow> el_relation l' \<noteq> CONTRADICTS \<longrightarrow>
             el_evidence_type l' \<noteq> SIMULATED \<and> grounded b m (el_evidence_ref l'))"
        using assms(1) unfolding provenance_inv_def by blast
      then show ?thesis by (simp add: m')
    qed
  qed (use assms(1) in \<open>auto simp: m' provenance_inv_def distinct_keys_update\<close>)
qed (use assms(1) in simp)

lemma provenance_event:
  assumes "provenance_inv b m" "memory_apply b m e src = (r, m')"
  shows "provenance_inv b m'"
proof -
  have handled: "provenance_inv b m2" if "handle_memory_event b m1 e src = (r2, m2)" "provenance_inv b m1" for m1 m2 r2
  proof -
    have frame: "provenance_inv b m2" if "my_episodes m2 = my_episodes m1 \<and> my_assertions m2 = my_assertions m1 \<and>
        my_evidence m2 = my_evidence m1"
      using that \<open>provenance_inv b m1\<close> by (intro provenance_frame [of b m1 m2]) auto
    show ?thesis
    proof (rule ccontr)
      assume "\<not> provenance_inv b m2"
      with that frame show False
        unfolding handle_memory_event_def
        by (auto split: if_splits dest: provenance_assertion provenance_evidence apply_supersession_effect
            apply_closure_effect apply_detection_effect apply_resolution_effect)
    qed
  qed
  show ?thesis
  proof (cases "episodic_apply (my_episodes m) e")
    case (Inl err)
    then show ?thesis using assms by (simp add: memory_apply_def)
  next
    case (Inr x)
    obtain eps new where x: "x = (eps, new)" by (cases x)
    have m1: "provenance_inv b (m\<lparr>my_episodes := eps\<rparr>)"
    proof (rule provenance_inv_keeps [OF assms(1)])
      show "keeps_references m (m\<lparr>my_episodes := eps\<rparr>)"
        using Inr x by (auto simp: keeps_references_def episodic_apply_def dict_simps split: option.splits if_splits)
    qed (use assms(1) in \<open>auto simp: provenance_inv_def\<close>)
    show ?thesis
      using assms(2) Inr x m1 unfolding memory_apply_def
      by (auto simp: Let_def split: sum.splits prod.splits if_splits option.splits
          intro: handled [OF _ m1] provenance_frame [OF handled [OF _ m1]])
  qed
qed

lemma provenance_after: "provenance_inv b m \<Longrightarrow> provenance_inv b (memory_after b m es)"
proof (induction es arbitrary: m)
  case (Cons x es)
  obtain e src where x: "x = (e, src)" by (cases x)
  have "provenance_inv b (snd (memory_apply b m e src))"
    using Cons.prems by (rule provenance_event [OF _ surjective_pairing])
  with Cons.IH show ?case by (simp add: memory_after_def x)
qed (simp add: memory_after_def)


text \<open>
  C31: No observation rests directly on a simulation. In every projection that a sequence of events
  builds, whatever else was refused on the way: every source and derivation reference of an observed
  assertion resolves to canonical evidence that is not simulated; and evidence that supports, refines,
  supersedes or derives an observed assertion is neither labelled as simulated nor resolves to something
  simulated.
\<close>

theorem observations_never_simulated:
  assumes "m = memory_after b empty_memory history"
  shows "(\<forall>a \<in> set (memory_assertions m). sa_epistemic_type a = OBSERVED \<longrightarrow>
      (\<forall>ref \<in> set (sa_source_refs a @ sa_derivation_refs a). \<exists>obj.
         resolve_evidence_ref b m ref = Inr obj \<and> eo_epistemic_type obj \<noteq> Some SIMULATED)) \<and>
    (\<forall>l \<in> set (evidence_links m). \<exists>a. get_assertion m (el_assertion_ref l) = Some a \<and>
      (sa_epistemic_type a = OBSERVED \<longrightarrow> el_relation l \<noteq> CONTRADICTS \<longrightarrow> el_evidence_type l \<noteq> SIMULATED \<and>
        (\<exists>obj. resolve_evidence_ref b m (el_evidence_ref l) = Inr obj \<and> eo_epistemic_type obj \<noteq> Some SIMULATED)))"
proof -
  have "provenance_inv b empty_memory" by (simp add: provenance_inv_def empty_memory_def)
  then have inv: "provenance_inv b m" unfolding assms by (rule provenance_after)
  have g: "grounded b m ref \<longleftrightarrow> (\<exists>obj. resolve_evidence_ref b m ref = Inr obj \<and> eo_epistemic_type obj \<noteq> Some SIMULATED)"
    for ref by (simp add: grounded_def split: sum.splits)
  show ?thesis
    unfolding g [symmetric]
    using inv by (auto simp: provenance_inv_def memory_assertions_def evidence_links_def by_key_def get_assertion_def
        list_all_iff)
qed

subsection \<open>A run\<close>

text \<open>A digest that separates the assertions of the run by their values.\<close>

definition value_builtins :: builtins where
  "value_builtins = \<lparr>bi_str = (\<lambda>_. ''?''), bi_int = (\<lambda>_. Inl (TypeError ''int'')),
     bi_dict = (\<lambda>_. Inl (TypeError ''dict'')), bi_float = (\<lambda>_. Inl (TypeError ''float'')),
     bi_iter = (\<lambda>_. Inl (TypeError ''iter'')), bi_fromiso = (\<lambda>_. Inl (ValueError ''iso'')),
     bi_sha = (\<lambda>d. case jget d ''value'' of JStr s \<Rightarrow> s | _ \<Rightarrow> ''x'')\<rparr>"

definition said :: "string \<Rightarrow> epistemic_type \<Rightarrow> string list \<Rightarrow> string list \<Rightarrow> int \<Rightarrow> semantic_assertion" where
  "said v ty sources derivations t = \<lparr>sa_assertion_id = ''assertion:'' @ v, sa_subject = ''pr'', sa_predicate = ''state'',
     sa_value = JStr v, sa_epistemic_type = ty, sa_confidence = 1, sa_valid_from = Aware t, sa_valid_to = None,
     sa_recorded_at = Aware t, sa_fresh_until = None, sa_source_refs = sources, sa_derivation_refs = derivations,
     sa_supersedes = None, sa_status = ACTIVE, sa_mutable_world = False\<rparr>"

definition raw_event :: "string \<Rightarrow> string \<Rightarrow> string \<Rightarrow> int \<Rightarrow> jobject \<Rightarrow> jobject event" where
  "raw_event i ty subj t payload = \<lparr>ev_type = ty, ev_source = ''run'', ev_payload = payload, ev_subject = Some subj,
     ev_id = i, ev_timestamp = Aware t, ev_correlation_id = None, ev_causation_id = None, ev_priority = 0,
     ev_sequence = Some t, ev_metadata = [], ev_schema_version = 1\<rparr>"

definition said_event :: "semantic_assertion \<Rightarrow> jobject event" where
  "said_event a = raw_event (''memory-assertion:'' @ sa_assertion_id a) ASSERTION_RECORDED_EVENT (sa_subject a)
     (instant (sa_recorded_at a)) (semantic_assertion_to_dict a)"

definition seen_open :: "(jobject event \<times> string option) list" where
  "seen_open = [(raw_event ''o'' ''pr.seen'' ''pr'' 1 [], None),
     (said_event (said ''open'' OBSERVED [''event:o''] [] 10), Some ''m'')]"

definition told_merged :: "(jobject event \<times> string option) list" where
  "told_merged = [(said_event (said ''merged'' REPORTED [''event:o''] [] 20), Some ''m'')]"

definition dreamt :: "(jobject event \<times> string option) list" where
  "dreamt = [(raw_event ''s'' ''simulation.done'' ''pr'' 1 [], None),
     (said_event (said ''dream'' SIMULATED [''simulation:s''] [] 10), Some ''m''),
     (said_event (said ''guess'' INFERRED [] [''assertion:dream''] 20), Some ''m''),
     (said_event (said ''fact'' OBSERVED [''assertion:guess''] [] 30), Some ''m''),
     (said_event (said ''seen'' OBSERVED [''assertion:dream''] [] 40), Some ''m'')]"


lemma seen_open_later: "list_all (\<lambda>(e, src). dt_before (Aware 15) (ev_timestamp e)) told_merged"
  by code_simp


theorem observations_never_simulated_witness:
  "let m = memory_after value_builtins empty_memory (seen_open @ told_merged) in
   map (\<lambda>a. (sa_assertion_id a, sa_epistemic_type a)) (memory_assertions m) =
     [(''assertion:merged'', REPORTED), (''assertion:open'', OBSERVED)] \<and>
   (\<forall>a \<in> set (memory_assertions m). sa_epistemic_type a = OBSERVED \<longrightarrow>
      (\<forall>ref \<in> set (sa_source_refs a @ sa_derivation_refs a). \<exists>obj.
         resolve_evidence_ref value_builtins m ref = Inr obj \<and> eo_epistemic_type obj \<noteq> Some SIMULATED))"
proof -
  have "map (\<lambda>a. (sa_assertion_id a, sa_epistemic_type a)) (memory_assertions
      (memory_after value_builtins empty_memory (seen_open @ told_merged))) =
     [(''assertion:merged'', REPORTED), (''assertion:open'', OBSERVED)]"
    by code_simp
  with observations_never_simulated [OF refl, of value_builtins "seen_open @ told_merged"] show ?thesis
    unfolding Let_def by blast
qed

text \<open>
  The rule looks one step back only: an observation is accepted whose source is an inference from a
  simulation (the observation that cites the simulated assertion itself is refused).
\<close>

lemma simulation_laundered:
  "map (\<lambda>a. (sa_assertion_id a, sa_epistemic_type a, sa_source_refs a @ sa_derivation_refs a))
     (memory_assertions (memory_after value_builtins empty_memory dreamt)) =
   [(''assertion:dream'', SIMULATED, [''simulation:s'']),
    (''assertion:fact'', OBSERVED, [''assertion:guess'']),
    (''assertion:guess'', INFERRED, [''assertion:dream''])]"
  by code_simp

end
