(* ===== verification/InformationModels.thy ===== *)
theory InformationModels
  imports JsonFields "HOL-Library.Product_Lexorder"
begin

section \<open>Contracts of information governance\<close>

text \<open>
  Models the first part of \<^verbatim>\<open>src/noema/information/models.py\<close>: opaque identifiers and the event
  envelope, policies with their retention and holds, principals, access contexts, lineage, policy
  bindings, quarantine, compositions of policies and policy decisions. Each record comes with the checks
  of its constructor, its identifier derived from its content, its conversions to and from payloads
  and events, and lemmas that what was written reads back.
\<close>

subsection \<open>Event types\<close>

definition POLICY_RECORDED_EVENT :: string where "POLICY_RECORDED_EVENT = ''information.policy_recorded''"
definition LINEAGE_RECORDED_EVENT :: string where "LINEAGE_RECORDED_EVENT = ''information.lineage_recorded''"
definition POLICY_BOUND_EVENT :: string where "POLICY_BOUND_EVENT = ''information.policy_bound''"
definition INFORMATION_QUARANTINED_EVENT :: string where "INFORMATION_QUARANTINED_EVENT = ''information.quarantined''"
definition INFORMATION_ACCESS_DECIDED_EVENT :: string where "INFORMATION_ACCESS_DECIDED_EVENT = ''information.access_decided''"
definition DISCLOSURE_DECIDED_EVENT :: string where "DISCLOSURE_DECIDED_EVENT = ''information.disclosure_decided''"
definition DECLASSIFICATION_DECIDED_EVENT :: string where "DECLASSIFICATION_DECIDED_EVENT = ''information.declassification_decided''"
definition DECLASSIFIED_VIEW_RECORDED_EVENT :: string where "DECLASSIFIED_VIEW_RECORDED_EVENT = ''information.declassified_view_recorded''"
definition SECURITY_AUDIT_RECEIPT_EVENT :: string where "SECURITY_AUDIT_RECEIPT_EVENT = ''information.security_audit_receipt''"

subsection \<open>Opaque identifiers\<close>

text \<open>
  A port derives the identifier of governed information from a namespace and a stable key; the keyed
  digest is a parameter.
\<close>

definition hmac_derive ::
  "(string \<Rightarrow> jobject \<Rightarrow> string) \<Rightarrow> string \<Rightarrow> string \<Rightarrow> string \<Rightarrow> string result" where
  "hmac_derive hmac key namespace stable_key =
     rbind (raise_first
       ([(length key < 32, ValueError ''opaque identifier derivation key must contain at least 32 bytes'')] @
        require_text namespace ''information namespace'' @
        require_text stable_key ''information stable key'')) (\<lambda>_.
     Inr (''info_'' @ take 32 (hmac key [(''namespace'', JStr namespace), (''stable_key'', JStr stable_key)])))"

definition opaque_information_id ::
  "(string \<Rightarrow> jobject \<Rightarrow> string) \<Rightarrow> string \<Rightarrow> string \<Rightarrow> string \<Rightarrow> string result" where
  "opaque_information_id hmac namespace stable_key derivation_key = hmac_derive hmac derivation_key namespace stable_key"

subsection \<open>The event envelope\<close>

definition information_governance_event_types :: "string list" where
  "information_governance_event_types =
     [POLICY_RECORDED_EVENT, LINEAGE_RECORDED_EVENT, POLICY_BOUND_EVENT, INFORMATION_QUARANTINED_EVENT,
      INFORMATION_ACCESS_DECIDED_EVENT, DISCLOSURE_DECIDED_EVENT, DECLASSIFICATION_DECIDED_EVENT,
      DECLASSIFIED_VIEW_RECORDED_EVENT, SECURITY_AUDIT_RECEIPT_EVENT]"

definition occurs_in :: "string \<Rightarrow> string \<Rightarrow> bool" where
  "occurs_in secret field = list_ex (\<lambda>n. starts_with secret (drop n field)) [0..<Suc (length field)]"

text \<open>The text of the metadata is the result of \<open>json.dumps\<close>, a parameter.\<close>

definition validate_governance_event_envelope ::
  "(jobject \<Rightarrow> string) \<Rightarrow> jobject event \<Rightarrow> string list \<Rightarrow> unit result" where
  "validate_governance_event_envelope dumps e protected_values =
     raise_first
       [(ev_type e \<notin> set information_governance_event_types,
         ValueError ''event is outside the information-governance envelope''),
        (list_ex (\<lambda>secret. list_ex (occurs_in secret)
             [ev_id e, ev_source e, str_or (ev_subject e) [], str_or (ev_correlation_id e) [],
              str_or (ev_causation_id e) [], dumps (ev_metadata e)])
           (filter (\<lambda>v. v \<noteq> []) protected_values),
         ValueError ''unsafe information-governance event envelope''),
        (case ev_subject e of None \<Rightarrow> True | Some s \<Rightarrow> \<not> opaque_id s,
         ValueError ''information-governance event subject must be opaque'')]"

text \<open>Without protected values the text of the metadata is not looked at.\<close>

definition governance_event ::
  "int \<Rightarrow> string \<Rightarrow> string \<Rightarrow> string \<Rightarrow> string \<Rightarrow> datetime \<Rightarrow> jobject \<Rightarrow> jobject event result" where
  "governance_event schema_version event_id event_type source subject timestamp payload =
     (let e = \<lparr>ev_type = event_type, ev_source = source, ev_payload = payload, ev_subject = Some subject,
               ev_id = event_id, ev_timestamp = timestamp, ev_correlation_id = None, ev_causation_id = None,
               ev_priority = 0, ev_sequence = None, ev_metadata = [], ev_schema_version = schema_version\<rparr>
      in rbind (check_event e) (\<lambda>_. rbind (validate_governance_event_envelope (\<lambda>_. []) e []) (\<lambda>_. Inr e)))"

definition validate_envelope :: "jobject event \<Rightarrow> string \<Rightarrow> string \<Rightarrow> datetime \<Rightarrow> unit result" where
  "validate_envelope e event_id subject timestamp =
     rbind (validate_governance_event_envelope (\<lambda>_. []) e []) (\<lambda>_.
     if ev_id e \<noteq> event_id \<or> ev_subject e \<noteq> Some subject \<or> ev_timestamp e \<noteq> timestamp
     then Inl (ValueError ''information-governance event envelope is inconsistent'') else Inr ())"

lemma governance_event_fields:
  assumes "governance_event v i ty src subj t p = Inr e"
  shows "ev_type e = ty" "ev_payload e = p" "ev_schema_version e = v"
    "validate_envelope (with_sequence e n) i subj t = Inr ()"
  using assms
  by (auto simp: governance_event_def Let_def rbind_Inr_iff validate_envelope_def validate_governance_event_envelope_def)

subsection \<open>Vocabulary\<close>

datatype classification = PUBLIC | INTERNAL | CONFIDENTIAL | RESTRICTED | UNKNOWN

primrec classification_value :: "classification \<Rightarrow> string" where
  "classification_value PUBLIC = ''public''"
| "classification_value INTERNAL = ''internal''"
| "classification_value CONFIDENTIAL = ''confidential''"
| "classification_value RESTRICTED = ''restricted''"
| "classification_value UNKNOWN = ''unknown''"

definition classification_of :: "string \<Rightarrow> classification result" where
  "classification_of s =
     (if s = ''public'' then Inr PUBLIC
      else if s = ''internal'' then Inr INTERNAL
      else if s = ''confidential'' then Inr CONFIDENTIAL
      else if s = ''restricted'' then Inr RESTRICTED
      else if s = ''unknown'' then Inr UNKNOWN
      else Inl (ValueError ''not a valid Classification''))"

lemma classification_of_value [simp]: "classification_of (classification_value x) = Inr x"
  by (cases x) (simp_all add: classification_of_def)

lemma classification_of_values [simp]: "mapM classification_of (map classification_value xs) = Inr xs"
  by (rule mapM_read_written) simp

datatype information_operation = READ | RETRIEVE | REASON | MODEL_CONTEXT | WORK_ASSIGN | DISCLOSE | DELETE | DECLASSIFY | CLASSIFY
    | SHARED_INDEX | TELEMETRY | EXTERNAL_CONNECTOR | CROSS_AGENT_SHARE | LEARN | EVALUATE
    | InformationOperation_UNKNOWN

primrec information_operation_value :: "information_operation \<Rightarrow> string" where
  "information_operation_value READ = ''read''"
| "information_operation_value RETRIEVE = ''retrieve''"
| "information_operation_value REASON = ''reason''"
| "information_operation_value MODEL_CONTEXT = ''model_context''"
| "information_operation_value WORK_ASSIGN = ''work_assign''"
| "information_operation_value DISCLOSE = ''disclose''"
| "information_operation_value DELETE = ''delete''"
| "information_operation_value DECLASSIFY = ''declassify''"
| "information_operation_value CLASSIFY = ''classify''"
| "information_operation_value SHARED_INDEX = ''shared_index''"
| "information_operation_value TELEMETRY = ''telemetry''"
| "information_operation_value EXTERNAL_CONNECTOR = ''external_connector''"
| "information_operation_value CROSS_AGENT_SHARE = ''cross_agent_share''"
| "information_operation_value LEARN = ''learn''"
| "information_operation_value EVALUATE = ''evaluate''"
| "information_operation_value InformationOperation_UNKNOWN = ''unknown''"

definition information_operation_of :: "string \<Rightarrow> information_operation result" where
  "information_operation_of s =
     (if s = ''read'' then Inr READ
      else if s = ''retrieve'' then Inr RETRIEVE
      else if s = ''reason'' then Inr REASON
      else if s = ''model_context'' then Inr MODEL_CONTEXT
      else if s = ''work_assign'' then Inr WORK_ASSIGN
      else if s = ''disclose'' then Inr DISCLOSE
      else if s = ''delete'' then Inr DELETE
      else if s = ''declassify'' then Inr DECLASSIFY
      else if s = ''classify'' then Inr CLASSIFY
      else if s = ''shared_index'' then Inr SHARED_INDEX
      else if s = ''telemetry'' then Inr TELEMETRY
      else if s = ''external_connector'' then Inr EXTERNAL_CONNECTOR
      else if s = ''cross_agent_share'' then Inr CROSS_AGENT_SHARE
      else if s = ''learn'' then Inr LEARN
      else if s = ''evaluate'' then Inr EVALUATE
      else if s = ''unknown'' then Inr InformationOperation_UNKNOWN
      else Inl (ValueError ''not a valid InformationOperation''))"

lemma information_operation_of_value [simp]: "information_operation_of (information_operation_value x) = Inr x"
  by (cases x) (simp_all add: information_operation_of_def)

lemma information_operation_of_values [simp]: "mapM information_operation_of (map information_operation_value xs) = Inr xs"
  by (rule mapM_read_written) simp

datatype decision_disposition = ALLOW | DENY

primrec decision_disposition_value :: "decision_disposition \<Rightarrow> string" where
  "decision_disposition_value ALLOW = ''allow''"
| "decision_disposition_value DENY = ''deny''"

definition decision_disposition_of :: "string \<Rightarrow> decision_disposition result" where
  "decision_disposition_of s =
     (if s = ''allow'' then Inr ALLOW
      else if s = ''deny'' then Inr DENY
      else Inl (ValueError ''not a valid DecisionDisposition''))"

lemma decision_disposition_of_value [simp]: "decision_disposition_of (decision_disposition_value x) = Inr x"
  by (cases x) (simp_all add: decision_disposition_of_def)

lemma decision_disposition_of_values [simp]: "mapM decision_disposition_of (map decision_disposition_value xs) = Inr xs"
  by (rule mapM_read_written) simp

datatype disclosure_form = FULL | REDACTED | ABSTRACTED

primrec disclosure_form_value :: "disclosure_form \<Rightarrow> string" where
  "disclosure_form_value FULL = ''full''"
| "disclosure_form_value REDACTED = ''redacted''"
| "disclosure_form_value ABSTRACTED = ''abstracted''"

definition disclosure_form_of :: "string \<Rightarrow> disclosure_form result" where
  "disclosure_form_of s =
     (if s = ''full'' then Inr FULL
      else if s = ''redacted'' then Inr REDACTED
      else if s = ''abstracted'' then Inr ABSTRACTED
      else Inl (ValueError ''not a valid DisclosureForm''))"

lemma disclosure_form_of_value [simp]: "disclosure_form_of (disclosure_form_value x) = Inr x"
  by (cases x) (simp_all add: disclosure_form_of_def)

lemma disclosure_form_of_values [simp]: "mapM disclosure_form_of (map disclosure_form_value xs) = Inr xs"
  by (rule mapM_read_written) simp

datatype lineage_transformation = SOURCE | DERIVATION | REDACTION | ABSTRACTION

primrec lineage_transformation_value :: "lineage_transformation \<Rightarrow> string" where
  "lineage_transformation_value SOURCE = ''source''"
| "lineage_transformation_value DERIVATION = ''derivation''"
| "lineage_transformation_value REDACTION = ''redaction''"
| "lineage_transformation_value ABSTRACTION = ''abstraction''"

definition lineage_transformation_of :: "string \<Rightarrow> lineage_transformation result" where
  "lineage_transformation_of s =
     (if s = ''source'' then Inr SOURCE
      else if s = ''derivation'' then Inr DERIVATION
      else if s = ''redaction'' then Inr REDACTION
      else if s = ''abstraction'' then Inr ABSTRACTION
      else Inl (ValueError ''not a valid LineageTransformation''))"

lemma lineage_transformation_of_value [simp]: "lineage_transformation_of (lineage_transformation_value x) = Inr x"
  by (cases x) (simp_all add: lineage_transformation_of_def)

lemma lineage_transformation_of_values [simp]: "mapM lineage_transformation_of (map lineage_transformation_value xs) = Inr xs"
  by (rule mapM_read_written) simp

datatype policy_conflict_kind = UNKNOWN_CLASSIFICATION | EMPTY_PURPOSES | EMPTY_RECIPIENTS | EMPTY_TRUST_DOMAINS | EMPTY_LOCALITIES
    | EMPTY_PROVIDERS | EMPTY_DISCLOSURE_FORMS | EMPTY_SECONDARY_USES | RETENTION_WINDOW
    | LEGAL_HOLD_DELETION | NO_DECLASSIFICATION_AUTHORITY | INCOMPLETE_LINEAGE | MISSING_POLICY_VERSION
    | QUARANTINED

primrec policy_conflict_kind_value :: "policy_conflict_kind \<Rightarrow> string" where
  "policy_conflict_kind_value UNKNOWN_CLASSIFICATION = ''unknown_classification''"
| "policy_conflict_kind_value EMPTY_PURPOSES = ''empty_purposes''"
| "policy_conflict_kind_value EMPTY_RECIPIENTS = ''empty_recipients''"
| "policy_conflict_kind_value EMPTY_TRUST_DOMAINS = ''empty_trust_domains''"
| "policy_conflict_kind_value EMPTY_LOCALITIES = ''empty_localities''"
| "policy_conflict_kind_value EMPTY_PROVIDERS = ''empty_providers''"
| "policy_conflict_kind_value EMPTY_DISCLOSURE_FORMS = ''empty_disclosure_forms''"
| "policy_conflict_kind_value EMPTY_SECONDARY_USES = ''empty_secondary_uses''"
| "policy_conflict_kind_value RETENTION_WINDOW = ''retention_window''"
| "policy_conflict_kind_value LEGAL_HOLD_DELETION = ''legal_hold_deletion''"
| "policy_conflict_kind_value NO_DECLASSIFICATION_AUTHORITY = ''no_declassification_authority''"
| "policy_conflict_kind_value INCOMPLETE_LINEAGE = ''incomplete_lineage''"
| "policy_conflict_kind_value MISSING_POLICY_VERSION = ''missing_policy_version''"
| "policy_conflict_kind_value QUARANTINED = ''quarantined''"

definition policy_conflict_kind_of :: "string \<Rightarrow> policy_conflict_kind result" where
  "policy_conflict_kind_of s =
     (if s = ''unknown_classification'' then Inr UNKNOWN_CLASSIFICATION
      else if s = ''empty_purposes'' then Inr EMPTY_PURPOSES
      else if s = ''empty_recipients'' then Inr EMPTY_RECIPIENTS
      else if s = ''empty_trust_domains'' then Inr EMPTY_TRUST_DOMAINS
      else if s = ''empty_localities'' then Inr EMPTY_LOCALITIES
      else if s = ''empty_providers'' then Inr EMPTY_PROVIDERS
      else if s = ''empty_disclosure_forms'' then Inr EMPTY_DISCLOSURE_FORMS
      else if s = ''empty_secondary_uses'' then Inr EMPTY_SECONDARY_USES
      else if s = ''retention_window'' then Inr RETENTION_WINDOW
      else if s = ''legal_hold_deletion'' then Inr LEGAL_HOLD_DELETION
      else if s = ''no_declassification_authority'' then Inr NO_DECLASSIFICATION_AUTHORITY
      else if s = ''incomplete_lineage'' then Inr INCOMPLETE_LINEAGE
      else if s = ''missing_policy_version'' then Inr MISSING_POLICY_VERSION
      else if s = ''quarantined'' then Inr QUARANTINED
      else Inl (ValueError ''not a valid PolicyConflictKind''))"

lemma policy_conflict_kind_of_value [simp]: "policy_conflict_kind_of (policy_conflict_kind_value x) = Inr x"
  by (cases x) (simp_all add: policy_conflict_kind_of_def)

lemma policy_conflict_kind_of_values [simp]: "mapM policy_conflict_kind_of (map policy_conflict_kind_value xs) = Inr xs"
  by (rule mapM_read_written) simp

datatype decision_reason = PERMITTED | POLICY_CONFLICT | PURPOSE_NOT_PERMITTED | RECIPIENT_NOT_PERMITTED
    | TRUST_DOMAIN_NOT_PERMITTED | PRINCIPAL_TRUST_DOMAIN_MISMATCH | LOCALITY_NOT_PERMITTED
    | PROVIDER_NOT_PERMITTED | SHARING_NOT_PERMITTED | DISCLOSURE_FORM_NOT_PERMITTED
    | SECONDARY_USE_NOT_PERMITTED | RETENTION_REQUIRES_PRESERVATION
    | DECLASSIFICATION_AUTHORITY_REQUIRED | CONTEXT_POLICY_MISMATCH | CONTEXT_LINEAGE_MISMATCH
    | DecisionReason_QUARANTINED | UNKNOWN_OPERATION

primrec decision_reason_value :: "decision_reason \<Rightarrow> string" where
  "decision_reason_value PERMITTED = ''permitted''"
| "decision_reason_value POLICY_CONFLICT = ''policy_conflict''"
| "decision_reason_value PURPOSE_NOT_PERMITTED = ''purpose_not_permitted''"
| "decision_reason_value RECIPIENT_NOT_PERMITTED = ''recipient_not_permitted''"
| "decision_reason_value TRUST_DOMAIN_NOT_PERMITTED = ''trust_domain_not_permitted''"
| "decision_reason_value PRINCIPAL_TRUST_DOMAIN_MISMATCH = ''principal_trust_domain_mismatch''"
| "decision_reason_value LOCALITY_NOT_PERMITTED = ''locality_not_permitted''"
| "decision_reason_value PROVIDER_NOT_PERMITTED = ''provider_not_permitted''"
| "decision_reason_value SHARING_NOT_PERMITTED = ''sharing_not_permitted''"
| "decision_reason_value DISCLOSURE_FORM_NOT_PERMITTED = ''disclosure_form_not_permitted''"
| "decision_reason_value SECONDARY_USE_NOT_PERMITTED = ''secondary_use_not_permitted''"
| "decision_reason_value RETENTION_REQUIRES_PRESERVATION = ''retention_requires_preservation''"
| "decision_reason_value DECLASSIFICATION_AUTHORITY_REQUIRED = ''declassification_authority_required''"
| "decision_reason_value CONTEXT_POLICY_MISMATCH = ''context_policy_mismatch''"
| "decision_reason_value CONTEXT_LINEAGE_MISMATCH = ''context_lineage_mismatch''"
| "decision_reason_value DecisionReason_QUARANTINED = ''quarantined''"
| "decision_reason_value UNKNOWN_OPERATION = ''unknown_operation''"

definition decision_reason_of :: "string \<Rightarrow> decision_reason result" where
  "decision_reason_of s =
     (if s = ''permitted'' then Inr PERMITTED
      else if s = ''policy_conflict'' then Inr POLICY_CONFLICT
      else if s = ''purpose_not_permitted'' then Inr PURPOSE_NOT_PERMITTED
      else if s = ''recipient_not_permitted'' then Inr RECIPIENT_NOT_PERMITTED
      else if s = ''trust_domain_not_permitted'' then Inr TRUST_DOMAIN_NOT_PERMITTED
      else if s = ''principal_trust_domain_mismatch'' then Inr PRINCIPAL_TRUST_DOMAIN_MISMATCH
      else if s = ''locality_not_permitted'' then Inr LOCALITY_NOT_PERMITTED
      else if s = ''provider_not_permitted'' then Inr PROVIDER_NOT_PERMITTED
      else if s = ''sharing_not_permitted'' then Inr SHARING_NOT_PERMITTED
      else if s = ''disclosure_form_not_permitted'' then Inr DISCLOSURE_FORM_NOT_PERMITTED
      else if s = ''secondary_use_not_permitted'' then Inr SECONDARY_USE_NOT_PERMITTED
      else if s = ''retention_requires_preservation'' then Inr RETENTION_REQUIRES_PRESERVATION
      else if s = ''declassification_authority_required'' then Inr DECLASSIFICATION_AUTHORITY_REQUIRED
      else if s = ''context_policy_mismatch'' then Inr CONTEXT_POLICY_MISMATCH
      else if s = ''context_lineage_mismatch'' then Inr CONTEXT_LINEAGE_MISMATCH
      else if s = ''quarantined'' then Inr DecisionReason_QUARANTINED
      else if s = ''unknown_operation'' then Inr UNKNOWN_OPERATION
      else Inl (ValueError ''not a valid DecisionReason''))"

lemma decision_reason_of_value [simp]: "decision_reason_of (decision_reason_value x) = Inr x"
  by (cases x) (simp_all add: decision_reason_of_def)

lemma decision_reason_of_values [simp]: "mapM decision_reason_of (map decision_reason_value xs) = Inr xs"
  by (rule mapM_read_written) simp

subsection \<open>HoldConstraint\<close>

record hold_constraint =
  hc_hold_id :: string
  hc_authority_id :: string
  hc_active :: bool

definition check_hold_constraint :: "hold_constraint \<Rightarrow> unit result" where
  "check_hold_constraint x = raise_first
     (require_opaque (hc_hold_id x) ''hold id'' @
      require_text (hc_authority_id x) ''hold authority'')"

definition create_hold_constraint :: "builtins \<Rightarrow> string \<Rightarrow> string \<Rightarrow> bool \<Rightarrow> hold_constraint result" where
  "create_hold_constraint b authority_id stable_key active =
     rbind (governance_id b ''hold'' [(''authority_id'', JStr authority_id), (''stable_key'', JStr stable_key),
       (''active'', JBool active)]) (\<lambda>i.
     let x = \<lparr>hc_hold_id = i, hc_authority_id = authority_id, hc_active = active\<rparr> in
     rbind (check_hold_constraint x) (\<lambda>_. Inr x))"

definition hold_constraint_to_dict :: "hold_constraint \<Rightarrow> jobject" where
  "hold_constraint_to_dict x =
     [(''hold_id'', JStr (hc_hold_id x)),
      (''authority_id'', JStr (hc_authority_id x)),
      (''active'', JBool (hc_active x))]"

definition hold_constraint_from_dict :: "builtins \<Rightarrow> jobject \<Rightarrow> hold_constraint result" where
  "hold_constraint_from_dict b d =
     rbind (j_str b d ''hold_id'') (\<lambda>hold_id.
     rbind (j_str b d ''authority_id'') (\<lambda>authority_id.
     let x = \<lparr>hc_hold_id = hold_id, hc_authority_id = authority_id, hc_active = j_bool_or d ''active'' True\<rparr> in
     rbind (check_hold_constraint x) (\<lambda>_.
     Inr x)))"

definition hold_constraint_ok :: "builtins \<Rightarrow> hold_constraint \<Rightarrow> bool" where
  "hold_constraint_ok b x \<longleftrightarrow> check_hold_constraint x = Inr ()"

lemma hold_constraint_round_trip:
  assumes "hold_constraint_ok b x"
  shows "hold_constraint_from_dict b (hold_constraint_to_dict x) = Inr x"
proof -
  have k: "check_hold_constraint x = Inr ()" using assms by (simp add: hold_constraint_ok_def)
  show ?thesis
    using k assms
    by (cases x) (simp add: hold_constraint_ok_def hold_constraint_from_dict_def hold_constraint_to_dict_def codec Let_def)
qed

lemma hold_constraint_list_round_trip:
  "list_all (hold_constraint_ok b) xs \<Longrightarrow> mapM (\<lambda>v. rbind (as_obj v) (hold_constraint_from_dict b)) (map (JObj \<circ> hold_constraint_to_dict) xs) = Inr xs"
  by (rule mapM_read_written) (auto simp: list_all_iff hold_constraint_round_trip codec)

subsection \<open>RetentionPolicy\<close>

record retention_policy =
  rp_retain_until :: "datetime option"
  rp_delete_after :: "datetime option"
  rp_deletion_required :: bool
  rp_holds :: "hold_constraint list"

definition check_retention_policy :: "retention_policy \<Rightarrow> unit result" where
  "check_retention_policy x = raise_first
     ((case rp_retain_until x of None \<Rightarrow> [] | Some r1 \<Rightarrow>
        require_aware r1 ''retention lower bound'') @
      (case rp_delete_after x of None \<Rightarrow> [] | Some d1 \<Rightarrow>
        require_aware d1 ''deletion duty'') @
      [(rp_deletion_required x \<and> rp_delete_after x = None,
       ValueError ''required deletion needs an explicit deletion time''),
       (\<not> distinct (map hc_hold_id (rp_holds x)), ValueError ''retention holds must be unique'')])"

definition retention_policy_to_dict :: "retention_policy \<Rightarrow> jobject" where
  "retention_policy_to_dict x =
     [(''retain_until'', json_opt JTime (rp_retain_until x)),
      (''delete_after'', json_opt JTime (rp_delete_after x)),
      (''deletion_required'', JBool (rp_deletion_required x)),
      (''holds'', JList (map (JObj \<circ> hold_constraint_to_dict) (rp_holds x)))]"

definition retention_policy_from_dict :: "builtins \<Rightarrow> jobject \<Rightarrow> retention_policy result" where
  "retention_policy_from_dict b d =
     rbind (j_time_opt b d ''retain_until'') (\<lambda>retain_until.
     rbind (j_time_opt b d ''delete_after'') (\<lambda>delete_after.
     rbind (j_list b (\<lambda>v. rbind (as_obj v) (hold_constraint_from_dict b)) d ''holds'') (\<lambda>holds.
     let x = \<lparr>rp_retain_until = retain_until, rp_delete_after = delete_after,
              rp_deletion_required = j_bool_or d ''deletion_required'' False, rp_holds = holds\<rparr> in
     rbind (check_retention_policy x) (\<lambda>_.
     Inr x))))"

definition retention_policy_ok :: "builtins \<Rightarrow> retention_policy \<Rightarrow> bool" where
  "retention_policy_ok b x \<longleftrightarrow> check_retention_policy x = Inr () \<and>
     list_all (\<lambda>v. hold_constraint_ok b v) (rp_holds x)"

lemma check_retention_policy_aware:
  "check_retention_policy x = Inr () \<Longrightarrow> (\<forall>t. rp_retain_until x = Some t \<longrightarrow> is_aware t) \<and>
     (\<forall>t. rp_delete_after x = Some t \<longrightarrow> is_aware t)"
  by (auto simp: check_retention_policy_def raise_first_no_errors simp del: raise_first_ok split: option.splits if_splits)

lemma retention_policy_round_trip:
  assumes "retention_policy_ok b x"
  shows "retention_policy_from_dict b (retention_policy_to_dict x) = Inr x"
proof -
  have k: "check_retention_policy x = Inr ()" using assms by (simp add: retention_policy_ok_def)
  note a = check_retention_policy_aware [OF k]
  show ?thesis
    using k a assms
    by (cases x) (simp add: retention_policy_ok_def retention_policy_from_dict_def retention_policy_to_dict_def codec hold_constraint_list_round_trip Let_def)
qed

definition active_holds :: "retention_policy \<Rightarrow> hold_constraint list" where
  "active_holds x = filter hc_active (rp_holds x)"

subsection \<open>InformationPolicy\<close>

record information_policy =
  ip_policy_id :: string
  ip_version :: int
  ip_origin_domains :: "string list"
  ip_classification :: classification
  ip_allowed_purposes :: "string list"
  ip_allowed_recipients :: "string list"
  ip_allowed_trust_domains :: "string list"
  ip_allowed_localities :: "string list"
  ip_allowed_providers :: "string list"
  ip_cross_agent_sharing :: bool
  ip_retention :: retention_policy
  ip_disclosure_forms :: "disclosure_form list"
  ip_declassification_authorities :: "string list"
  ip_recorded_at :: datetime
  ip_allowed_secondary_uses :: "information_operation list"
  ip_secondary_use_semantics_version :: int

definition check_information_policy :: "information_policy \<Rightarrow> unit result" where
  "check_information_policy x = raise_first
     (require_opaque (ip_policy_id x) ''information policy id'' @
      [(ip_version x \<le> 0, ValueError ''information policy version must be positive'')] @
      unique_text (ip_origin_domains x) ''policy origin domains'' True @
      unique_text (ip_allowed_purposes x) ''policy purposes'' False @
      unique_text (ip_allowed_recipients x) ''policy recipients'' False @
      unique_text (ip_allowed_trust_domains x) ''policy trust domains'' False @
      unique_text (ip_allowed_localities x) ''policy localities'' False @
      unique_text (ip_allowed_providers x) ''policy providers'' False @
      unique_text (ip_declassification_authorities x) ''policy declassification authorities'' False @
      [(\<not> distinct (ip_disclosure_forms x), ValueError ''policy disclosure forms must be unique''),
       (ip_secondary_use_semantics_version x \<notin> {1, 2},
        ValueError ''unsupported secondary-use policy semantics''),
       (list_ex (\<lambda>value. value \<notin> {LEARN, EVALUATE}) (ip_allowed_secondary_uses x),
        ValueError ''policy secondary uses may contain only learn/evaluate''),
       (\<not> distinct (ip_allowed_secondary_uses x), ValueError ''policy secondary uses must be unique''),
       (ip_secondary_use_semantics_version x = 1 \<and> ip_allowed_secondary_uses x \<noteq> [],
        ValueError ''legacy policies cannot grant secondary use'')] @
      require_aware (ip_recorded_at x) ''policy recorded_at'')"

text \<open>The order that \<open>create\<close> gives to its arguments.\<close>

definition normal_information_policy :: "information_policy \<Rightarrow> information_policy" where
  "normal_information_policy x = x\<lparr>ip_origin_domains := ordered (ip_origin_domains x),
     ip_allowed_purposes := ordered (ip_allowed_purposes x),
     ip_allowed_recipients := ordered (ip_allowed_recipients x),
     ip_allowed_trust_domains := ordered (ip_allowed_trust_domains x),
     ip_allowed_localities := ordered (ip_allowed_localities x),
     ip_allowed_providers := ordered (ip_allowed_providers x),
     ip_disclosure_forms := sort_key (\<lambda>value. disclosure_form_value value) (remdups (ip_disclosure_forms x)),
     ip_declassification_authorities := ordered (ip_declassification_authorities x),
     ip_allowed_secondary_uses := sort_key (\<lambda>value. information_operation_value value) (remdups (ip_allowed_secondary_uses x)),
     ip_secondary_use_semantics_version := 2\<rparr>"

definition legacy_information_policy_identity :: "information_policy \<Rightarrow> jobject" where
  "legacy_information_policy_identity x =
     [(''version'', JInt (ip_version x)),
      (''origin_domains'', JStrs (ip_origin_domains x)),
      (''classification'', JStr (classification_value (ip_classification x))),
      (''allowed_purposes'', JStrs (ip_allowed_purposes x)),
      (''allowed_recipients'', JStrs (ip_allowed_recipients x)),
      (''allowed_trust_domains'', JStrs (ip_allowed_trust_domains x)),
      (''allowed_localities'', JStrs (ip_allowed_localities x)),
      (''allowed_providers'', JStrs (ip_allowed_providers x)),
      (''cross_agent_sharing'', JBool (ip_cross_agent_sharing x)),
      (''retention'', JObj (retention_policy_to_dict (ip_retention x))),
      (''disclosure_forms'', JStrs (map disclosure_form_value (ip_disclosure_forms x))),
      (''declassification_authorities'', JStrs (ip_declassification_authorities x)),
      (''recorded_at'', JTime (ip_recorded_at x))]"

definition information_policy_identity :: "information_policy \<Rightarrow> jobject" where
  "information_policy_identity x =
     legacy_information_policy_identity x @
     [(''allowed_secondary_uses'', JStrs (map information_operation_value (ip_allowed_secondary_uses x))),
      (''secondary_use_semantics_version'', JInt 2)]"

definition create_information_policy :: "builtins \<Rightarrow> information_policy \<Rightarrow> information_policy result" where
  "create_information_policy b x0 =
     (let x = normal_information_policy x0 in
      rbind (governance_id b ''ipol'' (information_policy_identity x)) (\<lambda>i.
      let y = x\<lparr>ip_policy_id := i\<rparr> in rbind (check_information_policy y) (\<lambda>_. Inr y)))"

definition information_policy_to_dict :: "information_policy \<Rightarrow> jobject" where
  "information_policy_to_dict x =
     [(''policy_id'', JStr (ip_policy_id x)),
      (''version'', JInt (ip_version x)),
      (''origin_domains'', JStrs (ip_origin_domains x)),
      (''classification'', JStr (classification_value (ip_classification x))),
      (''allowed_purposes'', JStrs (ip_allowed_purposes x)),
      (''allowed_recipients'', JStrs (ip_allowed_recipients x)),
      (''allowed_trust_domains'', JStrs (ip_allowed_trust_domains x)),
      (''allowed_localities'', JStrs (ip_allowed_localities x)),
      (''allowed_providers'', JStrs (ip_allowed_providers x)),
      (''cross_agent_sharing'', JBool (ip_cross_agent_sharing x)),
      (''retention'', JObj (retention_policy_to_dict (ip_retention x))),
      (''disclosure_forms'', JStrs (map disclosure_form_value (ip_disclosure_forms x))),
      (''declassification_authorities'', JStrs (ip_declassification_authorities x)),
      (''recorded_at'', JTime (ip_recorded_at x)),
      (''allowed_secondary_uses'', JStrs (map information_operation_value (ip_allowed_secondary_uses x))),
      (''secondary_use_semantics_version'', JInt (ip_secondary_use_semantics_version x))]"

definition information_policy_from_dict :: "builtins \<Rightarrow> jobject \<Rightarrow> information_policy result" where
  "information_policy_from_dict b d =
     rbind (rbind (j_strs b d ''allowed_secondary_uses'') (mapM information_operation_of)) (\<lambda>secondary_uses.
     rbind (py_int b (jget_or d ''secondary_use_semantics_version''
              (JInt (if map_of d ''allowed_secondary_uses'' = None then 1 else 2)))) (\<lambda>semantics_version.
     rbind (j_str b d ''policy_id'') (\<lambda>policy_id.
     rbind (j_int b d ''version'') (\<lambda>version.
     rbind (j_strs b d ''origin_domains'') (\<lambda>origin_domains.
     rbind (rbind (j_str b d ''classification'') classification_of) (\<lambda>classification.
     rbind (j_strs b d ''allowed_purposes'') (\<lambda>allowed_purposes.
     rbind (j_strs b d ''allowed_recipients'') (\<lambda>allowed_recipients.
     rbind (j_strs b d ''allowed_trust_domains'') (\<lambda>allowed_trust_domains.
     rbind (j_strs b d ''allowed_localities'') (\<lambda>allowed_localities.
     rbind (j_strs b d ''allowed_providers'') (\<lambda>allowed_providers.
     rbind (j_bool d ''cross_agent_sharing'') (\<lambda>cross_agent_sharing.
     rbind (rbind (j_obj d ''retention'') (retention_policy_from_dict b)) (\<lambda>retention.
     rbind (rbind (j_strs_req b d ''disclosure_forms'') (mapM disclosure_form_of)) (\<lambda>disclosure_forms.
     rbind (j_strs b d ''declassification_authorities'') (\<lambda>declassification_authorities.
     rbind (j_time b d ''recorded_at'') (\<lambda>recorded_at.
     let x = \<lparr>ip_policy_id = policy_id, ip_version = version, ip_origin_domains = origin_domains,
              ip_classification = classification, ip_allowed_purposes = allowed_purposes,
              ip_allowed_recipients = allowed_recipients, ip_allowed_trust_domains = allowed_trust_domains,
              ip_allowed_localities = allowed_localities, ip_allowed_providers = allowed_providers,
              ip_cross_agent_sharing = cross_agent_sharing, ip_retention = retention,
              ip_disclosure_forms = disclosure_forms,
              ip_declassification_authorities = declassification_authorities, ip_recorded_at = recorded_at,
              ip_allowed_secondary_uses = secondary_uses,
              ip_secondary_use_semantics_version = semantics_version\<rparr> in
     rbind (check_information_policy x) (\<lambda>_.
     if semantics_version = 1 then
       rbind (governance_id b ''ipol'' (legacy_information_policy_identity x)) (\<lambda>expected.
       if ip_policy_id x \<noteq> expected
       then Inl (ValueError ''legacy information policy id does not match immutable content'') else Inr x)
     else
     rbind (create_information_policy b x) (\<lambda>expected.
     (if x \<noteq> expected then Inl (ValueError ''information policy id does not match immutable content'') else
     Inr x)))))))))))))))))))"

definition information_policy_to_event :: "information_policy \<Rightarrow> string \<Rightarrow> jobject event result" where
  "information_policy_to_event x source =
     governance_event 2 (''information-policy-recorded:'' @ (ip_policy_id x)) POLICY_RECORDED_EVENT
        source (ip_policy_id x)
       (ip_recorded_at x) (information_policy_to_dict x)"

definition information_policy_from_event :: "builtins \<Rightarrow> jobject event \<Rightarrow> information_policy result" where
  "information_policy_from_event b e =
     (if ev_type e \<noteq> POLICY_RECORDED_EVENT
        then Inl (ValueError ''event is not an information policy record'') else
     rbind (information_policy_from_dict b
       (if ev_schema_version e = 1
        then AList.delete ''secondary_use_semantics_version'' (AList.delete ''allowed_secondary_uses'' (ev_payload e))
        else ev_payload e)) (\<lambda>x.
     rbind (validate_envelope e (''information-policy-recorded:''
        @ (ip_policy_id x)) (ip_policy_id x) (ip_recorded_at x)) (\<lambda>_.
     Inr x)))"

definition information_policy_ok :: "builtins \<Rightarrow> information_policy \<Rightarrow> bool" where
  "information_policy_ok b x \<longleftrightarrow> create_information_policy b x = Inr x \<and>
     retention_policy_ok b (ip_retention x)"

lemma create_information_policy_same:
  "create_information_policy b x = Inr x \<Longrightarrow> governance_id b ''ipol'' (information_policy_identity x) = Inr (ip_policy_id x) \<and> check_information_policy x = Inr ()"
  by (cases x) (auto simp: create_information_policy_def normal_information_policy_def Let_def rbind_Inr_iff)

lemma check_information_policy_aware:
  "check_information_policy x = Inr () \<Longrightarrow> is_aware (ip_recorded_at x)"
  by (auto simp: check_information_policy_def raise_first_no_errors simp del: raise_first_ok split: option.splits if_splits)

lemma create_information_policy_version: "create_information_policy b x0 = Inr x \<Longrightarrow> ip_secondary_use_semantics_version x = 2"
  by (auto simp: create_information_policy_def normal_information_policy_def Let_def rbind_Inr_iff)

lemma information_policy_round_trip:
  assumes "information_policy_ok b x"
  shows "information_policy_from_dict b (information_policy_to_dict x) = Inr x"
proof -
  have c: "create_information_policy b x = Inr x" using assms by (simp add: information_policy_ok_def)
  note k = create_information_policy_same [OF c]
  note a = check_information_policy_aware [OF k [THEN conjunct2]]
  note v = create_information_policy_version [OF c]
  show ?thesis
    using c k a v assms
    by (cases x) (simp add: information_policy_ok_def information_policy_from_dict_def information_policy_to_dict_def information_policy_identity_def legacy_information_policy_identity_def codec retention_policy_round_trip Let_def)
qed

lemma information_policy_event_round_trip:
  assumes "information_policy_ok b x" "information_policy_to_event x source = Inr e"
  shows "information_policy_from_event b (with_sequence e n) = Inr x"
  using governance_event_fields [OF assms(2) [unfolded information_policy_to_event_def]] information_policy_round_trip [OF assms(1)]
  by (simp add: information_policy_from_event_def expect_envelope_def)

subsection \<open>PrincipalSnapshot\<close>

record principal_snapshot =
  ps_snapshot_id :: string
  ps_principal_id :: string
  ps_roles :: "string list"
  ps_groups :: "string list"
  ps_trust_domains :: "string list"
  ps_captured_at :: datetime

definition check_principal_snapshot :: "principal_snapshot \<Rightarrow> unit result" where
  "check_principal_snapshot x = raise_first
     (require_opaque (ps_snapshot_id x) ''principal snapshot id'' @
      require_text (ps_principal_id x) ''principal id'' @
      unique_text (ps_roles x) ''principal roles'' False @
      unique_text (ps_groups x) ''principal groups'' False @
      unique_text (ps_trust_domains x) ''principal trust domains'' True @
      require_aware (ps_captured_at x) ''principal snapshot time'')"

text \<open>The order that \<open>create\<close> gives to its arguments.\<close>

definition normal_principal_snapshot :: "principal_snapshot \<Rightarrow> principal_snapshot" where
  "normal_principal_snapshot x = x\<lparr>ps_roles := ordered (ps_roles x), ps_groups := ordered (ps_groups x),
     ps_trust_domains := ordered (ps_trust_domains x)\<rparr>"

definition principal_snapshot_identity :: "principal_snapshot \<Rightarrow> jobject" where
  "principal_snapshot_identity x =
     [(''principal_id'', JStr (ps_principal_id x)),
      (''roles'', JStrs (ps_roles x)),
      (''groups'', JStrs (ps_groups x)),
      (''trust_domains'', JStrs (ps_trust_domains x)),
      (''captured_at'', JTime (ps_captured_at x))]"

definition create_principal_snapshot :: "builtins \<Rightarrow> principal_snapshot \<Rightarrow> principal_snapshot result" where
  "create_principal_snapshot b x0 =
     (let x = normal_principal_snapshot x0 in
      rbind (governance_id b ''principal'' (principal_snapshot_identity x)) (\<lambda>i.
      let y = x\<lparr>ps_snapshot_id := i\<rparr> in rbind (check_principal_snapshot y) (\<lambda>_. Inr y)))"

definition principal_snapshot_to_dict :: "principal_snapshot \<Rightarrow> jobject" where
  "principal_snapshot_to_dict x =
     (''snapshot_id'', JStr (ps_snapshot_id x)) # principal_snapshot_identity x"

definition principal_snapshot_from_dict :: "builtins \<Rightarrow> jobject \<Rightarrow> principal_snapshot result" where
  "principal_snapshot_from_dict b d =
     rbind (j_str b d ''snapshot_id'') (\<lambda>snapshot_id.
     rbind (j_str b d ''principal_id'') (\<lambda>principal_id.
     rbind (j_strs b d ''roles'') (\<lambda>roles.
     rbind (j_strs b d ''groups'') (\<lambda>groups.
     rbind (j_strs b d ''trust_domains'') (\<lambda>trust_domains.
     rbind (j_time b d ''captured_at'') (\<lambda>captured_at.
     let x = \<lparr>ps_snapshot_id = snapshot_id, ps_principal_id = principal_id, ps_roles = roles, ps_groups = groups,
              ps_trust_domains = trust_domains, ps_captured_at = captured_at\<rparr> in
     rbind (check_principal_snapshot x) (\<lambda>_.
     rbind (create_principal_snapshot b x) (\<lambda>expected.
     (if x \<noteq> expected then Inl (ValueError ''principal snapshot id does not match immutable content'') else
     Inr x)))))))))"

definition principal_snapshot_ok :: "builtins \<Rightarrow> principal_snapshot \<Rightarrow> bool" where
  "principal_snapshot_ok b x \<longleftrightarrow> create_principal_snapshot b x = Inr x"

lemma create_principal_snapshot_same:
  "create_principal_snapshot b x = Inr x \<Longrightarrow> governance_id b ''principal'' (principal_snapshot_identity x) = Inr (ps_snapshot_id x) \<and> check_principal_snapshot x = Inr ()"
  by (cases x) (auto simp: create_principal_snapshot_def normal_principal_snapshot_def Let_def rbind_Inr_iff)

lemma check_principal_snapshot_aware:
  "check_principal_snapshot x = Inr () \<Longrightarrow> is_aware (ps_captured_at x)"
  by (auto simp: check_principal_snapshot_def raise_first_no_errors simp del: raise_first_ok split: option.splits if_splits)

lemma principal_snapshot_round_trip:
  assumes "principal_snapshot_ok b x"
  shows "principal_snapshot_from_dict b (principal_snapshot_to_dict x) = Inr x"
proof -
  have c: "create_principal_snapshot b x = Inr x" using assms by (simp add: principal_snapshot_ok_def)
  note k = create_principal_snapshot_same [OF c]
  note a = check_principal_snapshot_aware [OF k [THEN conjunct2]]
  show ?thesis
    using c k a assms
    by (cases x) (simp add: principal_snapshot_ok_def principal_snapshot_from_dict_def principal_snapshot_to_dict_def principal_snapshot_identity_def codec Let_def)
qed

definition recipient_identities :: "principal_snapshot \<Rightarrow> string list" where
  "recipient_identities x = ps_principal_id x # ps_roles x @ ps_groups x"

subsection \<open>AccessContext\<close>

record access_context =
  ac_context_id :: string
  ac_actor_id :: string
  ac_principal :: principal_snapshot
  ac_purpose :: string
  ac_operation :: information_operation
  ac_source_trust_domain :: string
  ac_destination_trust_domain :: "string option"
  ac_recipient :: "string option"
  ac_decision_time :: datetime
  ac_policy_ids :: "string list"
  ac_source_lineage_refs :: "string list"
  ac_locality :: string
  ac_provider_id :: "string option"
  ac_provider_security_posture :: "string list"
  ac_disclosure_form :: "disclosure_form option"

definition check_access_context :: "access_context \<Rightarrow> unit result" where
  "check_access_context x = raise_first
     (require_opaque (ac_context_id x) ''access context id'' @
      require_text (ac_actor_id x) ''access actor'' @
      require_text (ac_purpose x) ''access purpose'' @
      require_text (ac_source_trust_domain x) ''source trust domain'' @
      require_text (ac_locality x) ''processing locality'' @
      require_aware (ac_decision_time x) ''access decision time'' @
      unique_text (ac_policy_ids x) ''access policy ids'' False @
      unique_text (ac_source_lineage_refs x) ''access lineage refs'' False @
      unique_text (ac_provider_security_posture x) ''provider posture'' False @
      concat (map (\<lambda>value. require_opaque value ''access policy id'') (ac_policy_ids x)) @
      concat (map (\<lambda>value. require_opaque value ''access lineage ref'') (ac_source_lineage_refs x)))"

text \<open>The order that \<open>create\<close> gives to its arguments.\<close>

definition normal_access_context :: "access_context \<Rightarrow> access_context" where
  "normal_access_context x = x\<lparr>ac_policy_ids := ordered (ac_policy_ids x),
     ac_source_lineage_refs := ordered (ac_source_lineage_refs x),
     ac_provider_security_posture := ordered (ac_provider_security_posture x)\<rparr>"

definition access_context_identity :: "access_context \<Rightarrow> jobject" where
  "access_context_identity x =
     [(''actor_id'', JStr (ac_actor_id x)),
      (''principal'', JObj (principal_snapshot_to_dict (ac_principal x))),
      (''purpose'', JStr (ac_purpose x)),
      (''operation'', JStr (information_operation_value (ac_operation x))),
      (''source_trust_domain'', JStr (ac_source_trust_domain x)),
      (''destination_trust_domain'', json_opt JStr (ac_destination_trust_domain x)),
      (''recipient'', json_opt JStr (ac_recipient x)),
      (''decision_time'', JTime (ac_decision_time x)),
      (''policy_ids'', JStrs (ac_policy_ids x)),
      (''source_lineage_refs'', JStrs (ac_source_lineage_refs x)),
      (''locality'', JStr (ac_locality x)),
      (''provider_id'', json_opt JStr (ac_provider_id x)),
      (''provider_security_posture'', JStrs (ac_provider_security_posture x)),
      (''disclosure_form'', json_opt (JStr \<circ> disclosure_form_value) (ac_disclosure_form x))]"

definition create_access_context :: "builtins \<Rightarrow> access_context \<Rightarrow> access_context result" where
  "create_access_context b x0 =
     (let x = normal_access_context x0 in
      rbind (governance_id b ''access'' (access_context_identity x)) (\<lambda>i.
      let y = x\<lparr>ac_context_id := i\<rparr> in rbind (check_access_context y) (\<lambda>_. Inr y)))"

definition access_context_to_dict :: "access_context \<Rightarrow> jobject" where
  "access_context_to_dict x =
     (''context_id'', JStr (ac_context_id x)) # access_context_identity x"

definition access_context_from_dict :: "builtins \<Rightarrow> jobject \<Rightarrow> access_context result" where
  "access_context_from_dict b d =
     rbind (j_str b d ''actor_id'') (\<lambda>actor_id.
     rbind (rbind (j_obj d ''principal'') (principal_snapshot_from_dict b)) (\<lambda>principal.
     rbind (j_str b d ''purpose'') (\<lambda>purpose.
     rbind (rbind (j_str b d ''operation'') information_operation_of) (\<lambda>operation.
     rbind (j_str b d ''source_trust_domain'') (\<lambda>source_trust_domain.
     rbind (j_time b d ''decision_time'') (\<lambda>decision_time.
     rbind (j_strs b d ''policy_ids'') (\<lambda>policy_ids.
     rbind (j_strs b d ''source_lineage_refs'') (\<lambda>source_lineage_refs.
     rbind (j_str b d ''locality'') (\<lambda>locality.
     rbind (j_strs b d ''provider_security_posture'') (\<lambda>provider_security_posture.
     rbind (j_opt (\<lambda>v. disclosure_form_of (py_str b v)) d ''disclosure_form'') (\<lambda>disclosure_form.
     rbind (create_access_context b \<lparr>ac_context_id = [], ac_actor_id = actor_id, ac_principal = principal, ac_purpose = purpose,
              ac_operation = operation, ac_source_trust_domain = source_trust_domain,
              ac_destination_trust_domain = opt_str b d ''destination_trust_domain'',
              ac_recipient = opt_str b d ''recipient'', ac_decision_time = decision_time,
              ac_policy_ids = policy_ids, ac_source_lineage_refs = source_lineage_refs, ac_locality = locality,
              ac_provider_id = opt_str_truthy b d ''provider_id'',
              ac_provider_security_posture = provider_security_posture, ac_disclosure_form = disclosure_form\<rparr>) (\<lambda>x.
     rbind (j_str b d ''context_id'') (\<lambda>found.
     (if found \<noteq> ac_context_id x
        then Inl (ValueError ''access context id does not match immutable content'') else
     Inr x))))))))))))))"

definition access_context_ok :: "builtins \<Rightarrow> access_context \<Rightarrow> bool" where
  "access_context_ok b x \<longleftrightarrow> create_access_context b x = Inr x \<and>
     principal_snapshot_ok b (ac_principal x) \<and>
     ac_provider_id x \<noteq> Some []"

lemma create_access_context_same:
  "create_access_context b x = Inr x \<Longrightarrow> governance_id b ''access'' (access_context_identity x) = Inr (ac_context_id x) \<and> check_access_context x = Inr ()"
  by (cases x) (auto simp: create_access_context_def normal_access_context_def Let_def rbind_Inr_iff)

lemma create_access_context_id: "create_access_context b (x\<lparr>ac_context_id := i\<rparr>) = create_access_context b x"
  by (cases x) (simp add: create_access_context_def access_context_identity_def normal_access_context_def Let_def)

lemma check_access_context_aware:
  "check_access_context x = Inr () \<Longrightarrow> is_aware (ac_decision_time x)"
  by (auto simp: check_access_context_def raise_first_no_errors simp del: raise_first_ok split: option.splits if_splits)

lemma access_context_round_trip:
  assumes "access_context_ok b x"
  shows "access_context_from_dict b (access_context_to_dict x) = Inr x"
proof -
  have c: "create_access_context b x = Inr x" using assms by (simp add: access_context_ok_def)
  note k = create_access_context_same [OF c]
  note a = check_access_context_aware [OF k [THEN conjunct2]]
  note n = create_access_context_id [where b = b and x = x and i = "[]"]
  show ?thesis
    using c k a n assms
    by (cases x) (simp add: access_context_ok_def access_context_from_dict_def access_context_to_dict_def access_context_identity_def codec principal_snapshot_round_trip Let_def)
qed

subsection \<open>GovernedInformationRef\<close>

record governed_information_ref =
  gi_information_id :: string

definition check_governed_information_ref :: "governed_information_ref \<Rightarrow> unit result" where
  "check_governed_information_ref x = raise_first
     (require_opaque (gi_information_id x) ''governed information id'')"

definition create_governed_information_ref ::
  "(string \<Rightarrow> string \<Rightarrow> string result) \<Rightarrow> string \<Rightarrow> string \<Rightarrow> governed_information_ref result" where
  "create_governed_information_ref derive namespace stable_key =
     rbind (derive namespace stable_key) (\<lambda>i.
     let x = \<lparr>gi_information_id = i\<rparr> in rbind (check_governed_information_ref x) (\<lambda>_. Inr x))"

definition governed_information_ref_to_dict :: "governed_information_ref \<Rightarrow> jobject" where
  "governed_information_ref_to_dict x =
     [(''information_id'', JStr (gi_information_id x))]"

definition governed_information_ref_from_dict :: "builtins \<Rightarrow> jobject \<Rightarrow> governed_information_ref result" where
  "governed_information_ref_from_dict b d =
     rbind (j_str b d ''information_id'') (\<lambda>information_id.
     let x = \<lparr>gi_information_id = information_id\<rparr> in
     rbind (check_governed_information_ref x) (\<lambda>_.
     Inr x))"

definition governed_information_ref_ok :: "builtins \<Rightarrow> governed_information_ref \<Rightarrow> bool" where
  "governed_information_ref_ok b x \<longleftrightarrow> check_governed_information_ref x = Inr ()"

lemma governed_information_ref_round_trip:
  assumes "governed_information_ref_ok b x"
  shows "governed_information_ref_from_dict b (governed_information_ref_to_dict x) = Inr x"
proof -
  have k: "check_governed_information_ref x = Inr ()" using assms by (simp add: governed_information_ref_ok_def)
  show ?thesis
    using k assms
    by (cases x) (simp add: governed_information_ref_ok_def governed_information_ref_from_dict_def governed_information_ref_to_dict_def codec Let_def)
qed

subsection \<open>InformationLineage\<close>

record information_lineage =
  il_lineage_id :: string
  il_information_id :: string
  il_source_information_ids :: "string list"
  il_transformation :: lineage_transformation
  il_recorded_at :: datetime

definition check_information_lineage :: "information_lineage \<Rightarrow> unit result" where
  "check_information_lineage x = raise_first
     (require_opaque (il_lineage_id x) ''information lineage id'' @
      require_opaque (il_information_id x) ''lineage information id'' @
      concat (map (\<lambda>value. require_opaque value ''lineage source information id'') (il_source_information_ids x)) @
      [(\<not> distinct (il_source_information_ids x),
       ValueError ''lineage source information ids must be unique'')] @
      (if il_transformation x = SOURCE then [(il_source_information_ids x \<noteq> [],
       ValueError ''source lineage cannot name parent information'')]
       else [(il_source_information_ids x = [], ValueError ''derived lineage requires source information'')]) @
      [(il_information_id x \<in> set (il_source_information_ids x),
       ValueError ''information lineage cannot reference itself'')] @
      require_aware (il_recorded_at x) ''lineage recorded_at'')"

text \<open>The order that \<open>create\<close> gives to its arguments.\<close>

definition normal_information_lineage :: "information_lineage \<Rightarrow> information_lineage" where
  "normal_information_lineage x = x\<lparr>il_source_information_ids := ordered (il_source_information_ids x)\<rparr>"

definition information_lineage_identity :: "information_lineage \<Rightarrow> jobject" where
  "information_lineage_identity x =
     [(''information_id'', JStr (il_information_id x)),
      (''source_information_ids'', JStrs (il_source_information_ids x)),
      (''transformation'', JStr (lineage_transformation_value (il_transformation x))),
      (''recorded_at'', JTime (il_recorded_at x))]"

definition create_information_lineage :: "builtins \<Rightarrow> information_lineage \<Rightarrow> information_lineage result" where
  "create_information_lineage b x0 =
     (let x = normal_information_lineage x0 in
      rbind (governance_id b ''lineage'' (information_lineage_identity x)) (\<lambda>i.
      let y = x\<lparr>il_lineage_id := i\<rparr> in rbind (check_information_lineage y) (\<lambda>_. Inr y)))"

definition information_lineage_to_dict :: "information_lineage \<Rightarrow> jobject" where
  "information_lineage_to_dict x =
     (''lineage_id'', JStr (il_lineage_id x)) # information_lineage_identity x"

definition information_lineage_from_dict :: "builtins \<Rightarrow> jobject \<Rightarrow> information_lineage result" where
  "information_lineage_from_dict b d =
     rbind (j_str b d ''information_id'') (\<lambda>information_id.
     rbind (j_strs b d ''source_information_ids'') (\<lambda>source_information_ids.
     rbind (rbind (j_str b d ''transformation'') lineage_transformation_of) (\<lambda>transformation.
     rbind (j_time b d ''recorded_at'') (\<lambda>recorded_at.
     rbind (create_information_lineage b \<lparr>il_lineage_id = [], il_information_id = information_id,
              il_source_information_ids = source_information_ids, il_transformation = transformation,
              il_recorded_at = recorded_at\<rparr>) (\<lambda>x.
     rbind (j_str b d ''lineage_id'') (\<lambda>found.
     (if found \<noteq> il_lineage_id x then Inl (ValueError ''lineage id does not match immutable content'') else
     Inr x)))))))"

definition information_lineage_to_event :: "information_lineage \<Rightarrow> string \<Rightarrow> jobject event result" where
  "information_lineage_to_event x source =
     governance_event 1 (''information-lineage-recorded:'' @ (il_lineage_id x)) LINEAGE_RECORDED_EVENT
        source (il_information_id x)
       (il_recorded_at x) (information_lineage_to_dict x)"

definition information_lineage_from_event :: "builtins \<Rightarrow> jobject event \<Rightarrow> information_lineage result" where
  "information_lineage_from_event b e =
     (if ev_type e \<noteq> LINEAGE_RECORDED_EVENT
        then Inl (ValueError ''event is not an information lineage record'') else
     rbind (information_lineage_from_dict b (ev_payload e)) (\<lambda>x.
     rbind (validate_envelope e (''information-lineage-recorded:''
        @ (il_lineage_id x)) (il_information_id x) (il_recorded_at x)) (\<lambda>_.
     Inr x)))"

definition information_lineage_ok :: "builtins \<Rightarrow> information_lineage \<Rightarrow> bool" where
  "information_lineage_ok b x \<longleftrightarrow> create_information_lineage b x = Inr x"

lemma create_information_lineage_same:
  "create_information_lineage b x = Inr x \<Longrightarrow> governance_id b ''lineage'' (information_lineage_identity x) = Inr (il_lineage_id x) \<and> check_information_lineage x = Inr ()"
  by (cases x) (auto simp: create_information_lineage_def normal_information_lineage_def Let_def rbind_Inr_iff)

lemma create_information_lineage_id: "create_information_lineage b (x\<lparr>il_lineage_id := i\<rparr>) = create_information_lineage b x"
  by (cases x) (simp add: create_information_lineage_def information_lineage_identity_def normal_information_lineage_def Let_def)

lemma check_information_lineage_aware:
  "check_information_lineage x = Inr () \<Longrightarrow> is_aware (il_recorded_at x)"
  by (auto simp: check_information_lineage_def raise_first_no_errors simp del: raise_first_ok split: option.splits if_splits)

lemma information_lineage_round_trip:
  assumes "information_lineage_ok b x"
  shows "information_lineage_from_dict b (information_lineage_to_dict x) = Inr x"
proof -
  have c: "create_information_lineage b x = Inr x" using assms by (simp add: information_lineage_ok_def)
  note k = create_information_lineage_same [OF c]
  note a = check_information_lineage_aware [OF k [THEN conjunct2]]
  note n = create_information_lineage_id [where b = b and x = x and i = "[]"]
  show ?thesis
    using c k a n assms
    by (cases x) (simp add: information_lineage_ok_def information_lineage_from_dict_def information_lineage_to_dict_def information_lineage_identity_def codec Let_def)
qed

lemma information_lineage_event_round_trip:
  assumes "information_lineage_ok b x" "information_lineage_to_event x source = Inr e"
  shows "information_lineage_from_event b (with_sequence e n) = Inr x"
  using governance_event_fields [OF assms(2) [unfolded information_lineage_to_event_def]] information_lineage_round_trip [OF assms(1)]
  by (simp add: information_lineage_from_event_def expect_envelope_def)

subsection \<open>PolicyBinding\<close>

record policy_binding =
  pb_binding_id :: string
  pb_information_id :: string
  pb_lineage_id :: string
  pb_policy_ids :: "string list"
  pb_bound_at :: datetime

definition check_policy_binding :: "policy_binding \<Rightarrow> unit result" where
  "check_policy_binding x = raise_first
     (require_opaque (pb_binding_id x) ''policy binding id'' @
      require_opaque (pb_information_id x) ''bound information id'' @
      require_opaque (pb_lineage_id x) ''binding lineage id'' @
      concat (map (\<lambda>value. require_opaque value ''bound policy id'') (pb_policy_ids x)) @
      require_aware (pb_bound_at x) ''policy binding time'')"

text \<open>The order that \<open>create\<close> gives to its arguments.\<close>

definition normal_policy_binding :: "policy_binding \<Rightarrow> policy_binding" where
  "normal_policy_binding x = x\<lparr>pb_policy_ids := ordered (pb_policy_ids x)\<rparr>"

definition policy_binding_identity :: "policy_binding \<Rightarrow> jobject" where
  "policy_binding_identity x =
     [(''information_id'', JStr (pb_information_id x)),
      (''lineage_id'', JStr (pb_lineage_id x)),
      (''policy_ids'', JStrs (pb_policy_ids x)),
      (''bound_at'', JTime (pb_bound_at x))]"

definition create_policy_binding :: "builtins \<Rightarrow> policy_binding \<Rightarrow> policy_binding result" where
  "create_policy_binding b x0 =
     (let x = normal_policy_binding x0 in
      rbind (governance_id b ''binding'' (policy_binding_identity x)) (\<lambda>i.
      let y = x\<lparr>pb_binding_id := i\<rparr> in rbind (check_policy_binding y) (\<lambda>_. Inr y)))"

definition policy_binding_to_dict :: "policy_binding \<Rightarrow> jobject" where
  "policy_binding_to_dict x =
     (''binding_id'', JStr (pb_binding_id x)) # policy_binding_identity x"

definition policy_binding_from_dict :: "builtins \<Rightarrow> jobject \<Rightarrow> policy_binding result" where
  "policy_binding_from_dict b d =
     rbind (j_str b d ''information_id'') (\<lambda>information_id.
     rbind (j_str b d ''lineage_id'') (\<lambda>lineage_id.
     rbind (j_strs b d ''policy_ids'') (\<lambda>policy_ids.
     rbind (j_time b d ''bound_at'') (\<lambda>bound_at.
     rbind (create_policy_binding b \<lparr>pb_binding_id = [], pb_information_id = information_id, pb_lineage_id = lineage_id,
              pb_policy_ids = policy_ids, pb_bound_at = bound_at\<rparr>) (\<lambda>x.
     rbind (j_str b d ''binding_id'') (\<lambda>found.
     (if found \<noteq> pb_binding_id x
        then Inl (ValueError ''policy binding id does not match immutable content'') else
     Inr x)))))))"

definition policy_binding_to_event :: "policy_binding \<Rightarrow> string \<Rightarrow> jobject event result" where
  "policy_binding_to_event x source =
     governance_event 1 (''information-policy-bound:'' @ (pb_binding_id x)) POLICY_BOUND_EVENT
        source (pb_information_id x)
       (pb_bound_at x) (policy_binding_to_dict x)"

definition policy_binding_from_event :: "builtins \<Rightarrow> jobject event \<Rightarrow> policy_binding result" where
  "policy_binding_from_event b e =
     (if ev_type e \<noteq> POLICY_BOUND_EVENT
        then Inl (ValueError ''event is not an information policy binding'') else
     rbind (policy_binding_from_dict b (ev_payload e)) (\<lambda>x.
     rbind (validate_envelope e (''information-policy-bound:''
        @ (pb_binding_id x)) (pb_information_id x) (pb_bound_at x)) (\<lambda>_.
     Inr x)))"

definition policy_binding_ok :: "builtins \<Rightarrow> policy_binding \<Rightarrow> bool" where
  "policy_binding_ok b x \<longleftrightarrow> create_policy_binding b x = Inr x"

lemma create_policy_binding_same:
  "create_policy_binding b x = Inr x \<Longrightarrow> governance_id b ''binding'' (policy_binding_identity x) = Inr (pb_binding_id x) \<and> check_policy_binding x = Inr ()"
  by (cases x) (auto simp: create_policy_binding_def normal_policy_binding_def Let_def rbind_Inr_iff)

lemma create_policy_binding_id: "create_policy_binding b (x\<lparr>pb_binding_id := i\<rparr>) = create_policy_binding b x"
  by (cases x) (simp add: create_policy_binding_def policy_binding_identity_def normal_policy_binding_def Let_def)

lemma check_policy_binding_aware:
  "check_policy_binding x = Inr () \<Longrightarrow> is_aware (pb_bound_at x)"
  by (auto simp: check_policy_binding_def raise_first_no_errors simp del: raise_first_ok split: option.splits if_splits)

lemma policy_binding_round_trip:
  assumes "policy_binding_ok b x"
  shows "policy_binding_from_dict b (policy_binding_to_dict x) = Inr x"
proof -
  have c: "create_policy_binding b x = Inr x" using assms by (simp add: policy_binding_ok_def)
  note k = create_policy_binding_same [OF c]
  note a = check_policy_binding_aware [OF k [THEN conjunct2]]
  note n = create_policy_binding_id [where b = b and x = x and i = "[]"]
  show ?thesis
    using c k a n assms
    by (cases x) (simp add: policy_binding_ok_def policy_binding_from_dict_def policy_binding_to_dict_def policy_binding_identity_def codec Let_def)
qed

lemma policy_binding_event_round_trip:
  assumes "policy_binding_ok b x" "policy_binding_to_event x source = Inr e"
  shows "policy_binding_from_event b (with_sequence e n) = Inr x"
  using governance_event_fields [OF assms(2) [unfolded policy_binding_to_event_def]] policy_binding_round_trip [OF assms(1)]
  by (simp add: policy_binding_from_event_def expect_envelope_def)

subsection \<open>QuarantinePolicy\<close>

record quarantine_policy =
  qp_allowed_localities :: "string list"
  qp_allowed_trust_domains :: "string list"
  qp_human_resolution_required :: bool

definition check_quarantine_policy :: "quarantine_policy \<Rightarrow> unit result" where
  "check_quarantine_policy x = raise_first
     (unique_text (qp_allowed_localities x) ''quarantine localities'' True @
      unique_text (qp_allowed_trust_domains x) ''quarantine trust domains'' True)"

definition quarantine_policy_to_dict :: "quarantine_policy \<Rightarrow> jobject" where
  "quarantine_policy_to_dict x =
     [(''allowed_localities'', JStrs (qp_allowed_localities x)),
      (''allowed_trust_domains'', JStrs (qp_allowed_trust_domains x)),
      (''human_resolution_required'', JBool (qp_human_resolution_required x))]"

definition quarantine_policy_from_dict :: "builtins \<Rightarrow> jobject \<Rightarrow> quarantine_policy result" where
  "quarantine_policy_from_dict b d =
     rbind (j_strs b d ''allowed_localities'') (\<lambda>allowed_localities.
     rbind (j_strs b d ''allowed_trust_domains'') (\<lambda>allowed_trust_domains.
     let x = \<lparr>qp_allowed_localities = allowed_localities, qp_allowed_trust_domains = allowed_trust_domains,
              qp_human_resolution_required = j_bool_or d ''human_resolution_required'' False\<rparr> in
     rbind (check_quarantine_policy x) (\<lambda>_.
     Inr x)))"

definition quarantine_policy_ok :: "builtins \<Rightarrow> quarantine_policy \<Rightarrow> bool" where
  "quarantine_policy_ok b x \<longleftrightarrow> check_quarantine_policy x = Inr ()"

lemma quarantine_policy_round_trip:
  assumes "quarantine_policy_ok b x"
  shows "quarantine_policy_from_dict b (quarantine_policy_to_dict x) = Inr x"
proof -
  have k: "check_quarantine_policy x = Inr ()" using assms by (simp add: quarantine_policy_ok_def)
  show ?thesis
    using k assms
    by (cases x) (simp add: quarantine_policy_ok_def quarantine_policy_from_dict_def quarantine_policy_to_dict_def codec Let_def)
qed

subsection \<open>QuarantinedInformationRef\<close>

record quarantined_information_ref =
  qir_quarantine_id :: string
  qir_information_id :: string
  qir_policy :: quarantine_policy
  qir_quarantined_at :: datetime

definition check_quarantined_information_ref :: "quarantined_information_ref \<Rightarrow> unit result" where
  "check_quarantined_information_ref x = raise_first
     (require_opaque (qir_quarantine_id x) ''quarantine id'' @
      require_opaque (qir_information_id x) ''quarantined information id'' @
      require_aware (qir_quarantined_at x) ''quarantine time'')"

definition quarantined_information_ref_identity :: "quarantined_information_ref \<Rightarrow> jobject" where
  "quarantined_information_ref_identity x =
     [(''information_id'', JStr (qir_information_id x)),
      (''policy'', JObj (quarantine_policy_to_dict (qir_policy x))),
      (''quarantined_at'', JTime (qir_quarantined_at x))]"

definition create_quarantined_information_ref :: "builtins \<Rightarrow> quarantined_information_ref \<Rightarrow> quarantined_information_ref result" where
  "create_quarantined_information_ref b x =
           rbind (governance_id b ''quarantine'' (quarantined_information_ref_identity x)) (\<lambda>i.
      let y = x\<lparr>qir_quarantine_id := i\<rparr> in rbind (check_quarantined_information_ref y) (\<lambda>_. Inr y))"

definition quarantined_information_ref_to_dict :: "quarantined_information_ref \<Rightarrow> jobject" where
  "quarantined_information_ref_to_dict x =
     (''quarantine_id'', JStr (qir_quarantine_id x)) # quarantined_information_ref_identity x"

definition quarantined_information_ref_from_dict :: "builtins \<Rightarrow> jobject \<Rightarrow> quarantined_information_ref result" where
  "quarantined_information_ref_from_dict b d =
     rbind (j_str b d ''information_id'') (\<lambda>information_id.
     rbind (rbind (j_obj d ''policy'') (quarantine_policy_from_dict b)) (\<lambda>policy.
     rbind (j_time b d ''quarantined_at'') (\<lambda>quarantined_at.
     rbind (create_quarantined_information_ref b \<lparr>qir_quarantine_id = [], qir_information_id = information_id, qir_policy = policy,
              qir_quarantined_at = quarantined_at\<rparr>) (\<lambda>x.
     rbind (j_str b d ''quarantine_id'') (\<lambda>found.
     (if found \<noteq> qir_quarantine_id x
        then Inl (ValueError ''quarantine id does not match immutable content'') else
     Inr x))))))"

definition quarantined_information_ref_to_event :: "quarantined_information_ref \<Rightarrow> string \<Rightarrow> jobject event result" where
  "quarantined_information_ref_to_event x source =
     governance_event 1 (''information-quarantined:'' @ (qir_quarantine_id x)) INFORMATION_QUARANTINED_EVENT
        source (qir_information_id x)
       (qir_quarantined_at x) (quarantined_information_ref_to_dict x)"

definition quarantined_information_ref_from_event :: "builtins \<Rightarrow> jobject event \<Rightarrow> quarantined_information_ref result" where
  "quarantined_information_ref_from_event b e =
     (if ev_type e \<noteq> INFORMATION_QUARANTINED_EVENT
        then Inl (ValueError ''event is not an information quarantine record'') else
     rbind (quarantined_information_ref_from_dict b (ev_payload e)) (\<lambda>x.
     rbind (validate_envelope e (''information-quarantined:''
        @ (qir_quarantine_id x)) (qir_information_id x) (qir_quarantined_at x)) (\<lambda>_.
     Inr x)))"

definition quarantined_information_ref_ok :: "builtins \<Rightarrow> quarantined_information_ref \<Rightarrow> bool" where
  "quarantined_information_ref_ok b x \<longleftrightarrow> create_quarantined_information_ref b x = Inr x \<and>
     quarantine_policy_ok b (qir_policy x)"

lemma create_quarantined_information_ref_same:
  "create_quarantined_information_ref b x = Inr x \<Longrightarrow> governance_id b ''quarantine'' (quarantined_information_ref_identity x) = Inr (qir_quarantine_id x) \<and> check_quarantined_information_ref x = Inr ()"
  by (cases x) (auto simp: create_quarantined_information_ref_def Let_def rbind_Inr_iff)

lemma create_quarantined_information_ref_id: "create_quarantined_information_ref b (x\<lparr>qir_quarantine_id := i\<rparr>) = create_quarantined_information_ref b x"
  by (cases x) (simp add: create_quarantined_information_ref_def quarantined_information_ref_identity_def Let_def)

lemma check_quarantined_information_ref_aware:
  "check_quarantined_information_ref x = Inr () \<Longrightarrow> is_aware (qir_quarantined_at x)"
  by (auto simp: check_quarantined_information_ref_def raise_first_no_errors simp del: raise_first_ok split: option.splits if_splits)

lemma quarantined_information_ref_round_trip:
  assumes "quarantined_information_ref_ok b x"
  shows "quarantined_information_ref_from_dict b (quarantined_information_ref_to_dict x) = Inr x"
proof -
  have c: "create_quarantined_information_ref b x = Inr x" using assms by (simp add: quarantined_information_ref_ok_def)
  note k = create_quarantined_information_ref_same [OF c]
  note a = check_quarantined_information_ref_aware [OF k [THEN conjunct2]]
  note n = create_quarantined_information_ref_id [where b = b and x = x and i = "[]"]
  show ?thesis
    using c k a n assms
    by (cases x) (simp add: quarantined_information_ref_ok_def quarantined_information_ref_from_dict_def quarantined_information_ref_to_dict_def quarantined_information_ref_identity_def codec quarantine_policy_round_trip Let_def)
qed

lemma quarantined_information_ref_event_round_trip:
  assumes "quarantined_information_ref_ok b x" "quarantined_information_ref_to_event x source = Inr e"
  shows "quarantined_information_ref_from_event b (with_sequence e n) = Inr x"
  using governance_event_fields [OF assms(2) [unfolded quarantined_information_ref_to_event_def]] quarantined_information_ref_round_trip [OF assms(1)]
  by (simp add: quarantined_information_ref_from_event_def expect_envelope_def)

subsection \<open>PolicyConflict\<close>

record policy_conflict =
  pf_kind :: policy_conflict_kind
  pf_affected_operations :: "information_operation list"

definition check_policy_conflict :: "policy_conflict \<Rightarrow> unit result" where
  "check_policy_conflict x = raise_first
     ([(pf_affected_operations x = [], ValueError ''policy conflict must affect at least one operation''),
       (\<not> distinct (pf_affected_operations x), ValueError ''policy conflict operations must be unique'')])"

definition policy_conflict_to_dict :: "policy_conflict \<Rightarrow> jobject" where
  "policy_conflict_to_dict x =
     [(''kind'', JStr (policy_conflict_kind_value (pf_kind x))),
      (''affected_operations'', JStrs (map information_operation_value (pf_affected_operations x)))]"

definition policy_conflict_from_dict :: "builtins \<Rightarrow> jobject \<Rightarrow> policy_conflict result" where
  "policy_conflict_from_dict b d =
     rbind (rbind (j_str b d ''kind'') policy_conflict_kind_of) (\<lambda>kind1.
     rbind (rbind (j_strs_req b d ''affected_operations'') (mapM information_operation_of)) (\<lambda>affected_operations.
     let x = \<lparr>pf_kind = kind1, pf_affected_operations = affected_operations\<rparr> in
     rbind (check_policy_conflict x) (\<lambda>_.
     Inr x)))"

definition policy_conflict_ok :: "builtins \<Rightarrow> policy_conflict \<Rightarrow> bool" where
  "policy_conflict_ok b x \<longleftrightarrow> check_policy_conflict x = Inr ()"

lemma policy_conflict_round_trip:
  assumes "policy_conflict_ok b x"
  shows "policy_conflict_from_dict b (policy_conflict_to_dict x) = Inr x"
proof -
  have k: "check_policy_conflict x = Inr ()" using assms by (simp add: policy_conflict_ok_def)
  show ?thesis
    using k assms
    by (cases x) (simp add: policy_conflict_ok_def policy_conflict_from_dict_def policy_conflict_to_dict_def codec Let_def)
qed

lemma policy_conflict_list_round_trip:
  "list_all (policy_conflict_ok b) xs \<Longrightarrow> mapM (\<lambda>v. rbind (as_obj v) (policy_conflict_from_dict b)) (map (JObj \<circ> policy_conflict_to_dict) xs) = Inr xs"
  by (rule mapM_read_written) (auto simp: list_all_iff policy_conflict_round_trip codec)

subsection \<open>PolicyComposition\<close>

record policy_composition =
  pc_composition_id :: string
  pc_source_policy_ids :: "string list"
  pc_source_information_ids :: "string list"
  pc_origin_domains :: "string list"
  pc_classification :: classification
  pc_allowed_purposes :: "string list"
  pc_allowed_recipients :: "string list"
  pc_allowed_trust_domains :: "string list"
  pc_allowed_localities :: "string list"
  pc_allowed_providers :: "string list"
  pc_cross_agent_sharing :: bool
  pc_retention :: retention_policy
  pc_disclosure_forms :: "disclosure_form list"
  pc_declassification_authorities :: "string list"
  pc_allowed_secondary_uses :: "information_operation list"
  pc_secondary_use_semantics_version :: int
  pc_conflicts :: "policy_conflict list"

definition check_policy_composition :: "policy_composition \<Rightarrow> unit result" where
  "check_policy_composition x = raise_first
     (require_opaque (pc_composition_id x) ''policy composition id'' @
      concat (map (\<lambda>value. require_opaque value ''policy composition reference'') ((pc_source_policy_ids x) @ (pc_source_information_ids x))) @
      unique_text (pc_source_policy_ids x) ''composition policy ids'' False @
      unique_text (pc_source_information_ids x) ''composition information ids'' False @
      unique_text (pc_origin_domains x) ''composition origin domains'' False @
      unique_text (pc_allowed_purposes x) ''composition purposes'' False @
      unique_text (pc_allowed_recipients x) ''composition recipients'' False @
      unique_text (pc_allowed_trust_domains x) ''composition trust domains'' False @
      unique_text (pc_allowed_localities x) ''composition localities'' False @
      unique_text (pc_allowed_providers x) ''composition providers'' False @
      unique_text (pc_declassification_authorities x) ''composition declassification authorities'' False @
      [(\<not> distinct (pc_disclosure_forms x), ValueError ''composition disclosure forms must be unique''),
       (\<not> distinct (pc_allowed_secondary_uses x), ValueError ''composition secondary uses must be unique''),
       (pc_secondary_use_semantics_version x \<notin> {1, 2},
        ValueError ''unsupported composition secondary-use semantics''),
       (pc_secondary_use_semantics_version x = 1 \<and> pc_allowed_secondary_uses x \<noteq> [],
        ValueError ''legacy compositions cannot grant secondary use''),
       (\<not> distinct (pc_conflicts x), ValueError ''composition conflicts must be unique'')])"

text \<open>The order that \<open>create\<close> gives to its arguments.\<close>

definition normal_policy_composition :: "policy_composition \<Rightarrow> policy_composition" where
  "normal_policy_composition x = x\<lparr>pc_source_policy_ids := ordered (pc_source_policy_ids x),
     pc_source_information_ids := ordered (pc_source_information_ids x),
     pc_origin_domains := ordered (pc_origin_domains x),
     pc_allowed_purposes := ordered (pc_allowed_purposes x),
     pc_allowed_recipients := ordered (pc_allowed_recipients x),
     pc_allowed_trust_domains := ordered (pc_allowed_trust_domains x),
     pc_allowed_localities := ordered (pc_allowed_localities x),
     pc_allowed_providers := ordered (pc_allowed_providers x),
     pc_disclosure_forms := sort_key (\<lambda>value. disclosure_form_value value) (remdups (pc_disclosure_forms x)),
     pc_declassification_authorities := ordered (pc_declassification_authorities x),
     pc_allowed_secondary_uses := sort_key (\<lambda>value. information_operation_value value) (remdups (pc_allowed_secondary_uses x)),
     pc_conflicts := sort_key (\<lambda>value. (policy_conflict_kind_value (pf_kind value), map information_operation_value (pf_affected_operations value))) (remdups (pc_conflicts x))\<rparr>"

definition policy_composition_identity :: "policy_composition \<Rightarrow> jobject" where
  "policy_composition_identity x =
     [(''source_policy_ids'', JStrs (pc_source_policy_ids x)),
      (''source_information_ids'', JStrs (pc_source_information_ids x)),
      (''origin_domains'', JStrs (pc_origin_domains x)),
      (''classification'', JStr (classification_value (pc_classification x))),
      (''allowed_purposes'', JStrs (pc_allowed_purposes x)),
      (''allowed_recipients'', JStrs (pc_allowed_recipients x)),
      (''allowed_trust_domains'', JStrs (pc_allowed_trust_domains x)),
      (''allowed_localities'', JStrs (pc_allowed_localities x)),
      (''allowed_providers'', JStrs (pc_allowed_providers x)),
      (''cross_agent_sharing'', JBool (pc_cross_agent_sharing x)),
      (''retention'', JObj (retention_policy_to_dict (pc_retention x))),
      (''disclosure_forms'', JStrs (map disclosure_form_value (pc_disclosure_forms x))),
      (''declassification_authorities'', JStrs (pc_declassification_authorities x))] @
     (if pc_secondary_use_semantics_version x = 1
      then [(''conflicts'', JList (map (JObj \<circ> policy_conflict_to_dict)
              (filter (\<lambda>c. pf_kind c \<noteq> EMPTY_SECONDARY_USES) (pc_conflicts x))))]
      else [(''allowed_secondary_uses'', JStrs (map information_operation_value (pc_allowed_secondary_uses x))),
            (''secondary_use_semantics_version'', JInt (pc_secondary_use_semantics_version x)),
            (''conflicts'', JList (map (JObj \<circ> policy_conflict_to_dict) (pc_conflicts x)))])"

definition create_policy_composition :: "builtins \<Rightarrow> policy_composition \<Rightarrow> policy_composition result" where
  "create_policy_composition b x0 =
     (let x = normal_policy_composition x0 in
      rbind (governance_id b ''composition'' (policy_composition_identity x)) (\<lambda>i.
      let y = x\<lparr>pc_composition_id := i\<rparr> in rbind (check_policy_composition y) (\<lambda>_. Inr y)))"

definition policy_composition_to_dict :: "policy_composition \<Rightarrow> jobject" where
  "policy_composition_to_dict x =
     [(''composition_id'', JStr (pc_composition_id x)),
      (''source_policy_ids'', JStrs (pc_source_policy_ids x)),
      (''source_information_ids'', JStrs (pc_source_information_ids x)),
      (''origin_domains'', JStrs (pc_origin_domains x)),
      (''classification'', JStr (classification_value (pc_classification x))),
      (''allowed_purposes'', JStrs (pc_allowed_purposes x)),
      (''allowed_recipients'', JStrs (pc_allowed_recipients x)),
      (''allowed_trust_domains'', JStrs (pc_allowed_trust_domains x)),
      (''allowed_localities'', JStrs (pc_allowed_localities x)),
      (''allowed_providers'', JStrs (pc_allowed_providers x)),
      (''cross_agent_sharing'', JBool (pc_cross_agent_sharing x)),
      (''retention'', JObj (retention_policy_to_dict (pc_retention x))),
      (''disclosure_forms'', JStrs (map disclosure_form_value (pc_disclosure_forms x))),
      (''declassification_authorities'', JStrs (pc_declassification_authorities x)),
      (''allowed_secondary_uses'', JStrs (map information_operation_value (pc_allowed_secondary_uses x))),
      (''secondary_use_semantics_version'', JInt (pc_secondary_use_semantics_version x)),
      (''conflicts'', JList (map (JObj \<circ> policy_conflict_to_dict) (pc_conflicts x)))]"

definition conflicts_for :: "policy_composition \<Rightarrow> information_operation \<Rightarrow> policy_conflict list" where
  "conflicts_for x operation = filter (\<lambda>c. operation \<in> set (pf_affected_operations c)) (pc_conflicts x)"

subsection \<open>PolicyDecision\<close>

record policy_decision =
  pd_operation :: information_operation
  pd_disposition :: decision_disposition
  pd_reasons :: "decision_reason list"
  pd_conflicts :: "policy_conflict_kind list"

definition check_policy_decision :: "policy_decision \<Rightarrow> unit result" where
  "check_policy_decision x = raise_first
     ([(pd_reasons x = [], ValueError ''policy decision must explain its disposition''),
       (\<not> distinct (pd_reasons x), ValueError ''policy decision reasons must be unique''),
       (\<not> distinct (pd_conflicts x), ValueError ''policy decision conflicts must be unique'')] @
      (if pd_disposition x = ALLOW then [(pd_reasons x \<noteq> [PERMITTED]
         \<or> pd_conflicts x \<noteq> [], ValueError ''allowed policy decision must be unambiguously permitted'')]
       else [(PERMITTED \<in> set (pd_reasons x), ValueError ''denied policy decision cannot claim permission'')]))"

definition policy_decision_to_dict :: "policy_decision \<Rightarrow> jobject" where
  "policy_decision_to_dict x =
     [(''operation'', JStr (information_operation_value (pd_operation x))),
      (''disposition'', JStr (decision_disposition_value (pd_disposition x))),
      (''reasons'', JStrs (map decision_reason_value (pd_reasons x))),
      (''conflicts'', JStrs (map policy_conflict_kind_value (pd_conflicts x)))]"

definition policy_decision_from_dict :: "builtins \<Rightarrow> jobject \<Rightarrow> policy_decision result" where
  "policy_decision_from_dict b d =
     rbind (rbind (j_str b d ''operation'') information_operation_of) (\<lambda>operation.
     rbind (rbind (j_str b d ''disposition'') decision_disposition_of) (\<lambda>disposition.
     rbind (rbind (j_strs_req b d ''reasons'') (mapM decision_reason_of)) (\<lambda>reasons.
     rbind (rbind (j_strs_req b d ''conflicts'') (mapM policy_conflict_kind_of)) (\<lambda>conflicts.
     let x = \<lparr>pd_operation = operation, pd_disposition = disposition, pd_reasons = reasons,
              pd_conflicts = conflicts\<rparr> in
     rbind (check_policy_decision x) (\<lambda>_.
     Inr x)))))"

definition policy_decision_ok :: "builtins \<Rightarrow> policy_decision \<Rightarrow> bool" where
  "policy_decision_ok b x \<longleftrightarrow> check_policy_decision x = Inr ()"

lemma policy_decision_round_trip:
  assumes "policy_decision_ok b x"
  shows "policy_decision_from_dict b (policy_decision_to_dict x) = Inr x"
proof -
  have k: "check_policy_decision x = Inr ()" using assms by (simp add: policy_decision_ok_def)
  show ?thesis
    using k assms
    by (cases x) (simp add: policy_decision_ok_def policy_decision_from_dict_def policy_decision_to_dict_def codec Let_def)
qed

definition policy_decision_allowed :: "policy_decision \<Rightarrow> bool" where
  "policy_decision_allowed x = (pd_disposition x = ALLOW)"

end
