(* ===== verification/InformationDecisions.thy ===== *)
theory InformationDecisions
  imports InformationModels
begin

section \<open>Requests, decisions and views of information governance\<close>

text \<open>
  Models the second part of \<^verbatim>\<open>src/noema/information/models.py\<close>: requests to access, disclose and
  declassify information, the decisions on them, the views that a disclosure or a declassification
  creates, and the receipts of the security audit.
\<close>

subsection \<open>InformationAccessRequest\<close>

record information_access_request =
  iar_request_id :: string
  iar_information_ref :: governed_information_ref
  iar_context :: access_context

definition check_information_access_request :: "information_access_request \<Rightarrow> unit result" where
  "check_information_access_request x = raise_first
     (require_opaque (iar_request_id x) ''information access request id'' @
      [(ac_operation (iar_context x) \<in> {DISCLOSE, DECLASSIFY},
       ValueError ''internal access request uses a disclosure-only operation'')])"

definition information_access_request_identity :: "information_access_request \<Rightarrow> jobject" where
  "information_access_request_identity x =
     [(''information_ref'', JObj (governed_information_ref_to_dict (iar_information_ref x))),
      (''context'', JObj (access_context_to_dict (iar_context x)))]"

definition create_information_access_request :: "builtins \<Rightarrow> information_access_request \<Rightarrow> information_access_request result" where
  "create_information_access_request b x =
           rbind (governance_id b ''iarequest'' (information_access_request_identity x)) (\<lambda>i.
      let y = x\<lparr>iar_request_id := i\<rparr> in rbind (check_information_access_request y) (\<lambda>_. Inr y))"

definition information_access_request_to_dict :: "information_access_request \<Rightarrow> jobject" where
  "information_access_request_to_dict x =
     (''request_id'', JStr (iar_request_id x)) # information_access_request_identity x"

definition information_access_request_from_dict :: "builtins \<Rightarrow> jobject \<Rightarrow> information_access_request result" where
  "information_access_request_from_dict b d =
     rbind (rbind (j_obj d ''information_ref'') (governed_information_ref_from_dict b)) (\<lambda>information_ref.
     rbind (rbind (j_obj d ''context'') (access_context_from_dict b)) (\<lambda>context.
     rbind (create_information_access_request b \<lparr>iar_request_id = [], iar_information_ref = information_ref, iar_context = context\<rparr>) (\<lambda>x.
     rbind (j_str b d ''request_id'') (\<lambda>found.
     (if found \<noteq> iar_request_id x
        then Inl (ValueError ''access request id does not match immutable content'') else
     Inr x)))))"

definition information_access_request_ok :: "builtins \<Rightarrow> information_access_request \<Rightarrow> bool" where
  "information_access_request_ok b x \<longleftrightarrow> create_information_access_request b x = Inr x \<and>
     governed_information_ref_ok b (iar_information_ref x) \<and>
     access_context_ok b (iar_context x)"

lemma create_information_access_request_same:
  "create_information_access_request b x = Inr x \<Longrightarrow> governance_id b ''iarequest'' (information_access_request_identity x) = Inr (iar_request_id x) \<and> check_information_access_request x = Inr ()"
  by (cases x) (auto simp: create_information_access_request_def Let_def rbind_Inr_iff)

lemma create_information_access_request_id: "create_information_access_request b (x\<lparr>iar_request_id := i\<rparr>) = create_information_access_request b x"
  by (cases x) (simp add: create_information_access_request_def information_access_request_identity_def Let_def)

lemma information_access_request_round_trip:
  assumes "information_access_request_ok b x"
  shows "information_access_request_from_dict b (information_access_request_to_dict x) = Inr x"
proof -
  have c: "create_information_access_request b x = Inr x" using assms by (simp add: information_access_request_ok_def)
  note k = create_information_access_request_same [OF c]
  note n = create_information_access_request_id [where b = b and x = x and i = "[]"]
  show ?thesis
    using c k n assms
    by (cases x) (simp add: information_access_request_ok_def information_access_request_from_dict_def information_access_request_to_dict_def information_access_request_identity_def codec access_context_round_trip governed_information_ref_round_trip Let_def)
qed

subsection \<open>InformationAccessDecision\<close>

record information_access_decision =
  iad_decision_id :: string
  iad_request :: information_access_request
  iad_composition_id :: string
  iad_policy_decision :: policy_decision
  iad_decided_at :: datetime
  iad_causal_event_cursor :: int

definition check_information_access_decision :: "information_access_decision \<Rightarrow> unit result" where
  "check_information_access_decision x = raise_first
     (require_opaque (iad_decision_id x) ''information access decision id'' @
      require_opaque (iad_composition_id x) ''decision composition id'' @
      require_aware (iad_decided_at x) ''access decision time'' @
      [(iad_causal_event_cursor x < 0, ValueError ''access decision causal cursor cannot be negative''),
       (iad_decided_at x \<noteq> ac_decision_time (iar_context (iad_request x)),
        ValueError ''access decision must use its immutable context time''),
       (pd_operation (iad_policy_decision x) \<noteq> ac_operation (iar_context (iad_request x)),
        ValueError ''access decision operation differs from its context'')])"

definition information_access_decision_identity :: "information_access_decision \<Rightarrow> jobject" where
  "information_access_decision_identity x =
     [(''request'', JObj (information_access_request_to_dict (iad_request x))),
      (''composition_id'', JStr (iad_composition_id x)),
      (''policy_decision'', JObj (policy_decision_to_dict (iad_policy_decision x))),
      (''decided_at'', JTime (iad_decided_at x)),
      (''causal_event_cursor'', JInt (iad_causal_event_cursor x))]"

definition create_information_access_decision :: "builtins \<Rightarrow> information_access_decision \<Rightarrow> information_access_decision result" where
  "create_information_access_decision b x =
           rbind (governance_id b ''iadecision'' (information_access_decision_identity x)) (\<lambda>i.
      let y = x\<lparr>iad_decision_id := i\<rparr> in rbind (check_information_access_decision y) (\<lambda>_. Inr y))"

definition information_access_decision_to_dict :: "information_access_decision \<Rightarrow> jobject" where
  "information_access_decision_to_dict x =
     (''decision_id'', JStr (iad_decision_id x)) # information_access_decision_identity x"

definition information_access_decision_from_dict :: "builtins \<Rightarrow> jobject \<Rightarrow> information_access_decision result" where
  "information_access_decision_from_dict b d =
     rbind (rbind (j_obj d ''request'') (information_access_request_from_dict b)) (\<lambda>request.
     rbind (j_str b d ''composition_id'') (\<lambda>composition_id.
     rbind (rbind (j_obj d ''policy_decision'') (policy_decision_from_dict b)) (\<lambda>policy_decision.
     rbind (j_time b d ''decided_at'') (\<lambda>decided_at.
     rbind (j_int b d ''causal_event_cursor'') (\<lambda>causal_event_cursor.
     rbind (create_information_access_decision b \<lparr>iad_decision_id = [], iad_request = request, iad_composition_id = composition_id,
              iad_policy_decision = policy_decision, iad_decided_at = decided_at,
              iad_causal_event_cursor = causal_event_cursor\<rparr>) (\<lambda>x.
     rbind (j_str b d ''decision_id'') (\<lambda>found.
     (if found \<noteq> iad_decision_id x
        then Inl (ValueError ''access decision id does not match immutable content'') else
     Inr x))))))))"

definition information_access_decision_to_event :: "information_access_decision \<Rightarrow> string \<Rightarrow> jobject event result" where
  "information_access_decision_to_event x source =
     governance_event 1 (''information-access-decided:''
        @ (iad_decision_id x)) INFORMATION_ACCESS_DECIDED_EVENT source (iad_decision_id x)
       (iad_decided_at x) (information_access_decision_to_dict x)"

definition information_access_decision_from_event :: "builtins \<Rightarrow> jobject event \<Rightarrow> information_access_decision result" where
  "information_access_decision_from_event b e =
     (if ev_type e \<noteq> INFORMATION_ACCESS_DECIDED_EVENT
        then Inl (ValueError ''event is not an information access decision'') else
     rbind (information_access_decision_from_dict b (ev_payload e)) (\<lambda>x.
     rbind (validate_envelope e (''information-access-decided:''
        @ (iad_decision_id x)) (iad_decision_id x) (iad_decided_at x)) (\<lambda>_.
     Inr x)))"

definition information_access_decision_ok :: "builtins \<Rightarrow> information_access_decision \<Rightarrow> bool" where
  "information_access_decision_ok b x \<longleftrightarrow> create_information_access_decision b x = Inr x \<and>
     information_access_request_ok b (iad_request x) \<and>
     policy_decision_ok b (iad_policy_decision x)"

lemma create_information_access_decision_same:
  "create_information_access_decision b x = Inr x \<Longrightarrow> governance_id b ''iadecision'' (information_access_decision_identity x) = Inr (iad_decision_id x) \<and> check_information_access_decision x = Inr ()"
  by (cases x) (auto simp: create_information_access_decision_def Let_def rbind_Inr_iff)

lemma create_information_access_decision_id: "create_information_access_decision b (x\<lparr>iad_decision_id := i\<rparr>) = create_information_access_decision b x"
  by (cases x) (simp add: create_information_access_decision_def information_access_decision_identity_def Let_def)

lemma check_information_access_decision_aware:
  "check_information_access_decision x = Inr () \<Longrightarrow> is_aware (iad_decided_at x)"
  by (auto simp: check_information_access_decision_def raise_first_no_errors simp del: raise_first_ok split: option.splits if_splits)

lemma information_access_decision_round_trip:
  assumes "information_access_decision_ok b x"
  shows "information_access_decision_from_dict b (information_access_decision_to_dict x) = Inr x"
proof -
  have c: "create_information_access_decision b x = Inr x" using assms by (simp add: information_access_decision_ok_def)
  note k = create_information_access_decision_same [OF c]
  note a = check_information_access_decision_aware [OF k [THEN conjunct2]]
  note n = create_information_access_decision_id [where b = b and x = x and i = "[]"]
  show ?thesis
    using c k a n assms
    by (cases x) (simp add: information_access_decision_ok_def information_access_decision_from_dict_def information_access_decision_to_dict_def information_access_decision_identity_def codec information_access_request_round_trip policy_decision_round_trip Let_def)
qed

lemma information_access_decision_event_round_trip:
  assumes "information_access_decision_ok b x" "information_access_decision_to_event x source = Inr e"
  shows "information_access_decision_from_event b (with_sequence e n) = Inr x"
  using governance_event_fields [OF assms(2) [unfolded information_access_decision_to_event_def]] information_access_decision_round_trip [OF assms(1)]
  by (simp add: information_access_decision_from_event_def expect_envelope_def)

definition information_access_decision_allowed :: "information_access_decision \<Rightarrow> bool" where
  "information_access_decision_allowed x = (policy_decision_allowed (iad_policy_decision x))"

subsection \<open>DisclosureRequest\<close>

record disclosure_request =
  dr_request_id :: string
  dr_information_ref :: governed_information_ref
  dr_context :: access_context

definition check_disclosure_request :: "disclosure_request \<Rightarrow> unit result" where
  "check_disclosure_request x = raise_first
     (require_opaque (dr_request_id x) ''disclosure request id'' @
      [(ac_destination_trust_domain (dr_context x) = None \<or> ac_recipient (dr_context x) = None,
       ValueError ''disclosure request requires destination and recipient''),
       (ac_disclosure_form (dr_context x) = None, ValueError ''disclosure request requires a disclosure form'')])"

definition disclosure_request_identity :: "disclosure_request \<Rightarrow> jobject" where
  "disclosure_request_identity x =
     [(''information_ref'', JObj (governed_information_ref_to_dict (dr_information_ref x))),
      (''context'', JObj (access_context_to_dict (dr_context x)))]"

definition create_disclosure_request :: "builtins \<Rightarrow> disclosure_request \<Rightarrow> disclosure_request result" where
  "create_disclosure_request b x =
           rbind (governance_id b ''disrequest'' (disclosure_request_identity x)) (\<lambda>i.
      let y = x\<lparr>dr_request_id := i\<rparr> in rbind (check_disclosure_request y) (\<lambda>_. Inr y))"

definition disclosure_request_to_dict :: "disclosure_request \<Rightarrow> jobject" where
  "disclosure_request_to_dict x =
     (''request_id'', JStr (dr_request_id x)) # disclosure_request_identity x"

definition disclosure_request_from_dict :: "builtins \<Rightarrow> jobject \<Rightarrow> disclosure_request result" where
  "disclosure_request_from_dict b d =
     rbind (rbind (j_obj d ''information_ref'') (governed_information_ref_from_dict b)) (\<lambda>information_ref.
     rbind (rbind (j_obj d ''context'') (access_context_from_dict b)) (\<lambda>context.
     rbind (create_disclosure_request b \<lparr>dr_request_id = [], dr_information_ref = information_ref, dr_context = context\<rparr>) (\<lambda>x.
     rbind (j_str b d ''request_id'') (\<lambda>found.
     (if found \<noteq> dr_request_id x
        then Inl (ValueError ''disclosure request id does not match immutable content'') else
     Inr x)))))"

definition disclosure_request_ok :: "builtins \<Rightarrow> disclosure_request \<Rightarrow> bool" where
  "disclosure_request_ok b x \<longleftrightarrow> create_disclosure_request b x = Inr x \<and>
     governed_information_ref_ok b (dr_information_ref x) \<and>
     access_context_ok b (dr_context x)"

lemma create_disclosure_request_same:
  "create_disclosure_request b x = Inr x \<Longrightarrow> governance_id b ''disrequest'' (disclosure_request_identity x) = Inr (dr_request_id x) \<and> check_disclosure_request x = Inr ()"
  by (cases x) (auto simp: create_disclosure_request_def Let_def rbind_Inr_iff)

lemma create_disclosure_request_id: "create_disclosure_request b (x\<lparr>dr_request_id := i\<rparr>) = create_disclosure_request b x"
  by (cases x) (simp add: create_disclosure_request_def disclosure_request_identity_def Let_def)

lemma disclosure_request_round_trip:
  assumes "disclosure_request_ok b x"
  shows "disclosure_request_from_dict b (disclosure_request_to_dict x) = Inr x"
proof -
  have c: "create_disclosure_request b x = Inr x" using assms by (simp add: disclosure_request_ok_def)
  note k = create_disclosure_request_same [OF c]
  note n = create_disclosure_request_id [where b = b and x = x and i = "[]"]
  show ?thesis
    using c k n assms
    by (cases x) (simp add: disclosure_request_ok_def disclosure_request_from_dict_def disclosure_request_to_dict_def disclosure_request_identity_def codec access_context_round_trip governed_information_ref_round_trip Let_def)
qed

subsection \<open>DisclosureDecision\<close>

record disclosure_decision =
  dd_decision_id :: string
  dd_request :: disclosure_request
  dd_composition_id :: string
  dd_policy_decision :: policy_decision
  dd_decided_at :: datetime
  dd_causal_event_cursor :: int

definition check_disclosure_decision :: "disclosure_decision \<Rightarrow> unit result" where
  "check_disclosure_decision x = raise_first
     (require_opaque (dd_decision_id x) ''disclosure decision id'' @
      require_opaque (dd_composition_id x) ''disclosure composition id'' @
      require_aware (dd_decided_at x) ''disclosure decision time'' @
      [(dd_causal_event_cursor x < 0, ValueError ''disclosure decision causal cursor cannot be negative''),
       (dd_decided_at x \<noteq> ac_decision_time (dr_context (dd_request x)),
        ValueError ''disclosure decision must use its immutable context time''),
       (pd_operation (dd_policy_decision x) \<noteq> DISCLOSE,
        ValueError ''disclosure decision requires a disclosure operation'')])"

definition disclosure_decision_identity :: "disclosure_decision \<Rightarrow> jobject" where
  "disclosure_decision_identity x =
     [(''request'', JObj (disclosure_request_to_dict (dd_request x))),
      (''composition_id'', JStr (dd_composition_id x)),
      (''policy_decision'', JObj (policy_decision_to_dict (dd_policy_decision x))),
      (''decided_at'', JTime (dd_decided_at x)),
      (''causal_event_cursor'', JInt (dd_causal_event_cursor x))]"

definition create_disclosure_decision :: "builtins \<Rightarrow> disclosure_decision \<Rightarrow> disclosure_decision result" where
  "create_disclosure_decision b x =
           rbind (governance_id b ''disdecision'' (disclosure_decision_identity x)) (\<lambda>i.
      let y = x\<lparr>dd_decision_id := i\<rparr> in rbind (check_disclosure_decision y) (\<lambda>_. Inr y))"

definition disclosure_decision_to_dict :: "disclosure_decision \<Rightarrow> jobject" where
  "disclosure_decision_to_dict x =
     (''decision_id'', JStr (dd_decision_id x)) # disclosure_decision_identity x"

definition disclosure_decision_from_dict :: "builtins \<Rightarrow> jobject \<Rightarrow> disclosure_decision result" where
  "disclosure_decision_from_dict b d =
     rbind (rbind (j_obj d ''request'') (disclosure_request_from_dict b)) (\<lambda>request.
     rbind (j_str b d ''composition_id'') (\<lambda>composition_id.
     rbind (rbind (j_obj d ''policy_decision'') (policy_decision_from_dict b)) (\<lambda>policy_decision.
     rbind (j_time b d ''decided_at'') (\<lambda>decided_at.
     rbind (j_int b d ''causal_event_cursor'') (\<lambda>causal_event_cursor.
     rbind (create_disclosure_decision b \<lparr>dd_decision_id = [], dd_request = request, dd_composition_id = composition_id,
              dd_policy_decision = policy_decision, dd_decided_at = decided_at,
              dd_causal_event_cursor = causal_event_cursor\<rparr>) (\<lambda>x.
     rbind (j_str b d ''decision_id'') (\<lambda>found.
     (if found \<noteq> dd_decision_id x
        then Inl (ValueError ''disclosure decision id does not match immutable content'') else
     Inr x))))))))"

definition disclosure_decision_to_event :: "disclosure_decision \<Rightarrow> string \<Rightarrow> jobject event result" where
  "disclosure_decision_to_event x source =
     governance_event 1 (''information-disclosure-decided:'' @ (dd_decision_id x)) DISCLOSURE_DECIDED_EVENT
        source (dd_decision_id x)
       (dd_decided_at x) (disclosure_decision_to_dict x)"

definition disclosure_decision_from_event :: "builtins \<Rightarrow> jobject event \<Rightarrow> disclosure_decision result" where
  "disclosure_decision_from_event b e =
     (if ev_type e \<noteq> DISCLOSURE_DECIDED_EVENT then Inl (ValueError ''event is not a disclosure decision'') else
     rbind (disclosure_decision_from_dict b (ev_payload e)) (\<lambda>x.
     rbind (validate_envelope e (''information-disclosure-decided:''
        @ (dd_decision_id x)) (dd_decision_id x) (dd_decided_at x)) (\<lambda>_.
     Inr x)))"

definition disclosure_decision_ok :: "builtins \<Rightarrow> disclosure_decision \<Rightarrow> bool" where
  "disclosure_decision_ok b x \<longleftrightarrow> create_disclosure_decision b x = Inr x \<and>
     disclosure_request_ok b (dd_request x) \<and>
     policy_decision_ok b (dd_policy_decision x)"

lemma create_disclosure_decision_same:
  "create_disclosure_decision b x = Inr x \<Longrightarrow> governance_id b ''disdecision'' (disclosure_decision_identity x) = Inr (dd_decision_id x) \<and> check_disclosure_decision x = Inr ()"
  by (cases x) (auto simp: create_disclosure_decision_def Let_def rbind_Inr_iff)

lemma create_disclosure_decision_id: "create_disclosure_decision b (x\<lparr>dd_decision_id := i\<rparr>) = create_disclosure_decision b x"
  by (cases x) (simp add: create_disclosure_decision_def disclosure_decision_identity_def Let_def)

lemma check_disclosure_decision_aware:
  "check_disclosure_decision x = Inr () \<Longrightarrow> is_aware (dd_decided_at x)"
  by (auto simp: check_disclosure_decision_def raise_first_no_errors simp del: raise_first_ok split: option.splits if_splits)

lemma disclosure_decision_round_trip:
  assumes "disclosure_decision_ok b x"
  shows "disclosure_decision_from_dict b (disclosure_decision_to_dict x) = Inr x"
proof -
  have c: "create_disclosure_decision b x = Inr x" using assms by (simp add: disclosure_decision_ok_def)
  note k = create_disclosure_decision_same [OF c]
  note a = check_disclosure_decision_aware [OF k [THEN conjunct2]]
  note n = create_disclosure_decision_id [where b = b and x = x and i = "[]"]
  show ?thesis
    using c k a n assms
    by (cases x) (simp add: disclosure_decision_ok_def disclosure_decision_from_dict_def disclosure_decision_to_dict_def disclosure_decision_identity_def codec disclosure_request_round_trip policy_decision_round_trip Let_def)
qed

lemma disclosure_decision_event_round_trip:
  assumes "disclosure_decision_ok b x" "disclosure_decision_to_event x source = Inr e"
  shows "disclosure_decision_from_event b (with_sequence e n) = Inr x"
  using governance_event_fields [OF assms(2) [unfolded disclosure_decision_to_event_def]] disclosure_decision_round_trip [OF assms(1)]
  by (simp add: disclosure_decision_from_event_def expect_envelope_def)

definition disclosure_decision_allowed :: "disclosure_decision \<Rightarrow> bool" where
  "disclosure_decision_allowed x = (policy_decision_allowed (dd_policy_decision x))"

subsection \<open>DeclassificationRequest\<close>

record declassification_request =
  dq_request_id :: string
  dq_information_ref :: governed_information_ref
  dq_proposed_policy_id :: string
  dq_context :: access_context

definition check_declassification_request :: "declassification_request \<Rightarrow> unit result" where
  "check_declassification_request x = raise_first
     (require_opaque (dq_request_id x) ''declassification request id'' @
      require_opaque (dq_proposed_policy_id x) ''proposed policy id'' @
      [(ac_operation (dq_context x) \<noteq> DECLASSIFY,
       ValueError ''declassification request requires declassify operation'')])"

definition declassification_request_identity :: "declassification_request \<Rightarrow> jobject" where
  "declassification_request_identity x =
     [(''information_ref'', JObj (governed_information_ref_to_dict (dq_information_ref x))),
      (''proposed_policy_id'', JStr (dq_proposed_policy_id x)),
      (''context'', JObj (access_context_to_dict (dq_context x)))]"

definition create_declassification_request :: "builtins \<Rightarrow> declassification_request \<Rightarrow> declassification_request result" where
  "create_declassification_request b x =
           rbind (governance_id b ''declassrequest'' (declassification_request_identity x)) (\<lambda>i.
      let y = x\<lparr>dq_request_id := i\<rparr> in rbind (check_declassification_request y) (\<lambda>_. Inr y))"

definition declassification_request_to_dict :: "declassification_request \<Rightarrow> jobject" where
  "declassification_request_to_dict x =
     (''request_id'', JStr (dq_request_id x)) # declassification_request_identity x"

definition declassification_request_from_dict :: "builtins \<Rightarrow> jobject \<Rightarrow> declassification_request result" where
  "declassification_request_from_dict b d =
     rbind (rbind (j_obj d ''information_ref'') (governed_information_ref_from_dict b)) (\<lambda>information_ref.
     rbind (j_str b d ''proposed_policy_id'') (\<lambda>proposed_policy_id.
     rbind (rbind (j_obj d ''context'') (access_context_from_dict b)) (\<lambda>context.
     rbind (create_declassification_request b \<lparr>dq_request_id = [], dq_information_ref = information_ref, dq_proposed_policy_id = proposed_policy_id,
              dq_context = context\<rparr>) (\<lambda>x.
     rbind (j_str b d ''request_id'') (\<lambda>found.
     (if found \<noteq> dq_request_id x
        then Inl (ValueError ''declassification request id does not match immutable content'') else
     Inr x))))))"

definition declassification_request_ok :: "builtins \<Rightarrow> declassification_request \<Rightarrow> bool" where
  "declassification_request_ok b x \<longleftrightarrow> create_declassification_request b x = Inr x \<and>
     governed_information_ref_ok b (dq_information_ref x) \<and>
     access_context_ok b (dq_context x)"

lemma create_declassification_request_same:
  "create_declassification_request b x = Inr x \<Longrightarrow> governance_id b ''declassrequest'' (declassification_request_identity x) = Inr (dq_request_id x) \<and> check_declassification_request x = Inr ()"
  by (cases x) (auto simp: create_declassification_request_def Let_def rbind_Inr_iff)

lemma create_declassification_request_id: "create_declassification_request b (x\<lparr>dq_request_id := i\<rparr>) = create_declassification_request b x"
  by (cases x) (simp add: create_declassification_request_def declassification_request_identity_def Let_def)

lemma declassification_request_round_trip:
  assumes "declassification_request_ok b x"
  shows "declassification_request_from_dict b (declassification_request_to_dict x) = Inr x"
proof -
  have c: "create_declassification_request b x = Inr x" using assms by (simp add: declassification_request_ok_def)
  note k = create_declassification_request_same [OF c]
  note n = create_declassification_request_id [where b = b and x = x and i = "[]"]
  show ?thesis
    using c k n assms
    by (cases x) (simp add: declassification_request_ok_def declassification_request_from_dict_def declassification_request_to_dict_def declassification_request_identity_def codec access_context_round_trip governed_information_ref_round_trip Let_def)
qed

subsection \<open>DeclassificationDecision\<close>

record declassification_decision =
  dn_decision_id :: string
  dn_request :: declassification_request
  dn_composition_id :: string
  dn_policy_decision :: policy_decision
  dn_decided_at :: datetime
  dn_causal_event_cursor :: int

definition check_declassification_decision :: "declassification_decision \<Rightarrow> unit result" where
  "check_declassification_decision x = raise_first
     (require_opaque (dn_decision_id x) ''declassification decision id'' @
      require_opaque (dn_composition_id x) ''declassification composition id'' @
      require_aware (dn_decided_at x) ''declassification decision time'' @
      [(dn_causal_event_cursor x < 0, ValueError ''declassification decision causal cursor cannot be negative''),
       (dn_decided_at x \<noteq> ac_decision_time (dq_context (dn_request x)),
        ValueError ''declassification decision must use its immutable context time''),
       (pd_operation (dn_policy_decision x) \<noteq> DECLASSIFY,
        ValueError ''declassification decision requires a declassify operation'')])"

definition declassification_decision_identity :: "declassification_decision \<Rightarrow> jobject" where
  "declassification_decision_identity x =
     [(''request'', JObj (declassification_request_to_dict (dn_request x))),
      (''composition_id'', JStr (dn_composition_id x)),
      (''policy_decision'', JObj (policy_decision_to_dict (dn_policy_decision x))),
      (''decided_at'', JTime (dn_decided_at x)),
      (''causal_event_cursor'', JInt (dn_causal_event_cursor x))]"

definition create_declassification_decision :: "builtins \<Rightarrow> declassification_decision \<Rightarrow> declassification_decision result" where
  "create_declassification_decision b x =
           rbind (governance_id b ''declassdecision'' (declassification_decision_identity x)) (\<lambda>i.
      let y = x\<lparr>dn_decision_id := i\<rparr> in rbind (check_declassification_decision y) (\<lambda>_. Inr y))"

definition declassification_decision_to_dict :: "declassification_decision \<Rightarrow> jobject" where
  "declassification_decision_to_dict x =
     (''decision_id'', JStr (dn_decision_id x)) # declassification_decision_identity x"

definition declassification_decision_from_dict :: "builtins \<Rightarrow> jobject \<Rightarrow> declassification_decision result" where
  "declassification_decision_from_dict b d =
     rbind (rbind (j_obj d ''request'') (declassification_request_from_dict b)) (\<lambda>request.
     rbind (j_str b d ''composition_id'') (\<lambda>composition_id.
     rbind (rbind (j_obj d ''policy_decision'') (policy_decision_from_dict b)) (\<lambda>policy_decision.
     rbind (j_time b d ''decided_at'') (\<lambda>decided_at.
     rbind (j_int b d ''causal_event_cursor'') (\<lambda>causal_event_cursor.
     rbind (create_declassification_decision b \<lparr>dn_decision_id = [], dn_request = request, dn_composition_id = composition_id,
              dn_policy_decision = policy_decision, dn_decided_at = decided_at,
              dn_causal_event_cursor = causal_event_cursor\<rparr>) (\<lambda>x.
     rbind (j_str b d ''decision_id'') (\<lambda>found.
     (if found \<noteq> dn_decision_id x
        then Inl (ValueError ''declassification decision id does not match immutable content'') else
     Inr x))))))))"

definition declassification_decision_to_event :: "declassification_decision \<Rightarrow> string \<Rightarrow> jobject event result" where
  "declassification_decision_to_event x source =
     governance_event 1 (''information-declassification-decided:''
        @ (dn_decision_id x)) DECLASSIFICATION_DECIDED_EVENT source (dn_decision_id x)
       (dn_decided_at x) (declassification_decision_to_dict x)"

definition declassification_decision_from_event :: "builtins \<Rightarrow> jobject event \<Rightarrow> declassification_decision result" where
  "declassification_decision_from_event b e =
     (if ev_type e \<noteq> DECLASSIFICATION_DECIDED_EVENT
        then Inl (ValueError ''event is not a declassification decision'') else
     rbind (declassification_decision_from_dict b (ev_payload e)) (\<lambda>x.
     rbind (validate_envelope e (''information-declassification-decided:''
        @ (dn_decision_id x)) (dn_decision_id x) (dn_decided_at x)) (\<lambda>_.
     Inr x)))"

definition declassification_decision_ok :: "builtins \<Rightarrow> declassification_decision \<Rightarrow> bool" where
  "declassification_decision_ok b x \<longleftrightarrow> create_declassification_decision b x = Inr x \<and>
     declassification_request_ok b (dn_request x) \<and>
     policy_decision_ok b (dn_policy_decision x)"

lemma create_declassification_decision_same:
  "create_declassification_decision b x = Inr x \<Longrightarrow> governance_id b ''declassdecision'' (declassification_decision_identity x) = Inr (dn_decision_id x) \<and> check_declassification_decision x = Inr ()"
  by (cases x) (auto simp: create_declassification_decision_def Let_def rbind_Inr_iff)

lemma create_declassification_decision_id: "create_declassification_decision b (x\<lparr>dn_decision_id := i\<rparr>) = create_declassification_decision b x"
  by (cases x) (simp add: create_declassification_decision_def declassification_decision_identity_def Let_def)

lemma check_declassification_decision_aware:
  "check_declassification_decision x = Inr () \<Longrightarrow> is_aware (dn_decided_at x)"
  by (auto simp: check_declassification_decision_def raise_first_no_errors simp del: raise_first_ok split: option.splits if_splits)

lemma declassification_decision_round_trip:
  assumes "declassification_decision_ok b x"
  shows "declassification_decision_from_dict b (declassification_decision_to_dict x) = Inr x"
proof -
  have c: "create_declassification_decision b x = Inr x" using assms by (simp add: declassification_decision_ok_def)
  note k = create_declassification_decision_same [OF c]
  note a = check_declassification_decision_aware [OF k [THEN conjunct2]]
  note n = create_declassification_decision_id [where b = b and x = x and i = "[]"]
  show ?thesis
    using c k a n assms
    by (cases x) (simp add: declassification_decision_ok_def declassification_decision_from_dict_def declassification_decision_to_dict_def declassification_decision_identity_def codec declassification_request_round_trip policy_decision_round_trip Let_def)
qed

lemma declassification_decision_event_round_trip:
  assumes "declassification_decision_ok b x" "declassification_decision_to_event x source = Inr e"
  shows "declassification_decision_from_event b (with_sequence e n) = Inr x"
  using governance_event_fields [OF assms(2) [unfolded declassification_decision_to_event_def]] declassification_decision_round_trip [OF assms(1)]
  by (simp add: declassification_decision_from_event_def expect_envelope_def)

definition declassification_decision_allowed :: "declassification_decision \<Rightarrow> bool" where
  "declassification_decision_allowed x = (policy_decision_allowed (dn_policy_decision x))"

subsection \<open>DeclassifiedDisclosureView\<close>

record declassified_disclosure_view =
  ddv_view_id :: string
  ddv_information_ref :: governed_information_ref
  ddv_source_information_ref :: governed_information_ref
  ddv_approved_policy_id :: string
  ddv_declassification_decision_id :: string
  ddv_source_policy_ids :: "string list"
  ddv_source_lineage_refs :: "string list"
  ddv_created_at :: datetime
  ddv_causal_event_cursor :: int

text \<open>\<open>_canonical_id("info", {key: view_id})\<close>: the payload holds no float, so nothing is refused.\<close>

definition view_information_id :: "builtins \<Rightarrow> string \<Rightarrow> string \<Rightarrow> string" where
  "view_information_id b key view_id = ''info_'' @ take 32 (bi_sha b (dump_obj [(key, JStr view_id)]))"

definition declassified_disclosure_view_identity :: "declassified_disclosure_view \<Rightarrow> jobject" where
  "declassified_disclosure_view_identity x =
     [(''source_information_ref'', JObj (governed_information_ref_to_dict (ddv_source_information_ref x))),
      (''approved_policy_id'', JStr (ddv_approved_policy_id x)),
      (''declassification_decision_id'', JStr (ddv_declassification_decision_id x)),
      (''source_policy_ids'', JStrs (ddv_source_policy_ids x)),
      (''source_lineage_refs'', JStrs (ddv_source_lineage_refs x)),
      (''created_at'', JTime (ddv_created_at x)),
      (''causal_event_cursor'', JInt (ddv_causal_event_cursor x))]"

definition check_declassified_disclosure_view :: "builtins \<Rightarrow> declassified_disclosure_view \<Rightarrow> unit result" where
  "check_declassified_disclosure_view b x = raise_first
     (require_opaque (ddv_view_id x) ''declassified view id'' @
      require_opaque (ddv_approved_policy_id x) ''declassified view policy id'' @
      require_opaque (ddv_declassification_decision_id x) ''declassified view decision id'' @
      concat (map (\<lambda>value. require_opaque value ''declassified view source policy id'') (ddv_source_policy_ids x)) @
      concat (map (\<lambda>value. require_opaque value ''declassified view source lineage ref'') (ddv_source_lineage_refs x)) @
      unique_text (ddv_source_policy_ids x) ''declassified view source policy ids'' True @
      unique_text (ddv_source_lineage_refs x) ''declassified view source lineage refs'' True @
      require_aware (ddv_created_at x) ''declassified view creation time'' @
      [(ddv_causal_event_cursor x < 0, ValueError ''declassified view causal cursor cannot be negative'')] @
      [(gi_information_id (ddv_information_ref x) \<noteq> view_information_id b ''declassified_view_id'' (ddv_view_id x),
        ValueError ''declassified view information id is inconsistent'')])"

definition create_declassified_disclosure_view ::
  "builtins \<Rightarrow> declassification_decision \<Rightarrow> datetime \<Rightarrow> int \<Rightarrow> declassified_disclosure_view result" where
  "create_declassified_disclosure_view b decision created_at cursor =
     rbind (raise_first
       [(\<not> declassification_decision_allowed decision,
         ValueError ''declassified view requires an allowed declassification decision''),
        (dt_before created_at (dn_decided_at decision),
         ValueError ''declassified view cannot precede its authorizing decision'')]) (\<lambda>_.
     let request = dn_request decision; context = dq_context request;
         x = \<lparr>ddv_view_id = [], ddv_information_ref = \<lparr>gi_information_id = []\<rparr>,
              ddv_source_information_ref = dq_information_ref request,
              ddv_approved_policy_id = dq_proposed_policy_id request,
              ddv_declassification_decision_id = dn_decision_id decision,
              ddv_source_policy_ids = ac_policy_ids context, ddv_source_lineage_refs = ac_source_lineage_refs context,
              ddv_created_at = created_at, ddv_causal_event_cursor = cursor\<rparr> in
     rbind (governance_id b ''declassview'' (declassified_disclosure_view_identity x)) (\<lambda>view_id.
     let r = \<lparr>gi_information_id = view_information_id b ''declassified_view_id'' view_id\<rparr> in
     rbind (check_governed_information_ref r) (\<lambda>_.
     let y = x\<lparr>ddv_view_id := view_id, ddv_information_ref := r\<rparr> in
     rbind (check_declassified_disclosure_view b y) (\<lambda>_. Inr y))))"

definition declassified_disclosure_view_to_dict :: "declassified_disclosure_view \<Rightarrow> jobject" where
  "declassified_disclosure_view_to_dict x =
     [(''view_id'', JStr (ddv_view_id x)),
      (''information_ref'', JObj (governed_information_ref_to_dict (ddv_information_ref x))),
      (''source_information_ref'', JObj (governed_information_ref_to_dict (ddv_source_information_ref x))),
      (''approved_policy_id'', JStr (ddv_approved_policy_id x)),
      (''declassification_decision_id'', JStr (ddv_declassification_decision_id x)),
      (''source_policy_ids'', JStrs (ddv_source_policy_ids x)),
      (''source_lineage_refs'', JStrs (ddv_source_lineage_refs x)),
      (''created_at'', JTime (ddv_created_at x)),
      (''causal_event_cursor'', JInt (ddv_causal_event_cursor x))]"

definition declassified_disclosure_view_from_dict :: "builtins \<Rightarrow> jobject \<Rightarrow> declassified_disclosure_view result" where
  "declassified_disclosure_view_from_dict b d =
     rbind (j_str b d ''view_id'') (\<lambda>view_id.
     rbind (rbind (j_obj d ''information_ref'') (governed_information_ref_from_dict b)) (\<lambda>information_ref.
     rbind (rbind (j_obj d ''source_information_ref'') (governed_information_ref_from_dict b)) (\<lambda>source_information_ref.
     rbind (j_str b d ''approved_policy_id'') (\<lambda>approved_policy_id.
     rbind (j_str b d ''declassification_decision_id'') (\<lambda>declassification_decision_id.
     rbind (j_strs b d ''source_policy_ids'') (\<lambda>source_policy_ids.
     rbind (j_strs b d ''source_lineage_refs'') (\<lambda>source_lineage_refs.
     rbind (j_time b d ''created_at'') (\<lambda>created_at.
     rbind (j_int b d ''causal_event_cursor'') (\<lambda>causal_event_cursor.
     let x = \<lparr>ddv_view_id = view_id, ddv_information_ref = information_ref,
              ddv_source_information_ref = source_information_ref, ddv_approved_policy_id = approved_policy_id,
              ddv_declassification_decision_id = declassification_decision_id,
              ddv_source_policy_ids = source_policy_ids, ddv_source_lineage_refs = source_lineage_refs,
              ddv_created_at = created_at, ddv_causal_event_cursor = causal_event_cursor\<rparr> in
     rbind (check_declassified_disclosure_view b x) (\<lambda>_.
     rbind (governance_id b ''declassview'' (declassified_disclosure_view_identity x)) (\<lambda>expected.
     if ddv_view_id x \<noteq> expected
     then Inl (ValueError ''declassified view id does not match immutable content'') else
     Inr x)))))))))))"

definition declassified_disclosure_view_to_event :: "declassified_disclosure_view \<Rightarrow> string \<Rightarrow> jobject event result" where
  "declassified_disclosure_view_to_event x source =
     governance_event 1 (''information-declassified-view-recorded:''
        @ (ddv_view_id x)) DECLASSIFIED_VIEW_RECORDED_EVENT source (gi_information_id (ddv_information_ref x))
       (ddv_created_at x) (declassified_disclosure_view_to_dict x)"

definition declassified_disclosure_view_from_event :: "builtins \<Rightarrow> jobject event \<Rightarrow> declassified_disclosure_view result" where
  "declassified_disclosure_view_from_event b e =
     (if ev_type e \<noteq> DECLASSIFIED_VIEW_RECORDED_EVENT
        then Inl (ValueError ''event is not a declassified disclosure view'') else
     rbind (declassified_disclosure_view_from_dict b (ev_payload e)) (\<lambda>x.
     rbind (validate_envelope e (''information-declassified-view-recorded:''
        @ (ddv_view_id x)) (gi_information_id (ddv_information_ref x)) (ddv_created_at x)) (\<lambda>_.
     Inr x)))"

definition declassified_disclosure_view_ok :: "builtins \<Rightarrow> declassified_disclosure_view \<Rightarrow> bool" where
  "declassified_disclosure_view_ok b x \<longleftrightarrow>
     governance_id b ''declassview'' (declassified_disclosure_view_identity x) = Inr (ddv_view_id x) \<and>
     check_declassified_disclosure_view b x = Inr () \<and>
     governed_information_ref_ok b (ddv_information_ref x) \<and>
     governed_information_ref_ok b (ddv_source_information_ref x)"

lemma check_declassified_disclosure_view_aware:
  "check_declassified_disclosure_view b x = Inr () \<Longrightarrow> is_aware (ddv_created_at x)"
  by (auto simp: check_declassified_disclosure_view_def raise_first_no_errors simp del: raise_first_ok split: option.splits if_splits)

lemma declassified_disclosure_view_round_trip:
  assumes "declassified_disclosure_view_ok b x"
  shows "declassified_disclosure_view_from_dict b (declassified_disclosure_view_to_dict x) = Inr x"
proof -
  have k: "check_declassified_disclosure_view b x = Inr ()" using assms by (simp add: declassified_disclosure_view_ok_def)
  note a = check_declassified_disclosure_view_aware [OF k]
  show ?thesis
    using k a assms
    by (cases x) (simp add: declassified_disclosure_view_ok_def declassified_disclosure_view_from_dict_def declassified_disclosure_view_to_dict_def codec governed_information_ref_round_trip Let_def)
qed

lemma declassified_disclosure_view_event_round_trip:
  assumes "declassified_disclosure_view_ok b x" "declassified_disclosure_view_to_event x source = Inr e"
  shows "declassified_disclosure_view_from_event b (with_sequence e n) = Inr x"
  using governance_event_fields [OF assms(2) [unfolded declassified_disclosure_view_to_event_def]] declassified_disclosure_view_round_trip [OF assms(1)]
  by (simp add: declassified_disclosure_view_from_event_def expect_envelope_def)

subsection \<open>DisclosureView\<close>

record disclosure_view =
  dv_view_id :: string
  dv_information_ref :: governed_information_ref
  dv_source_information_ref :: governed_information_ref
  dv_transformation :: lineage_transformation
  dv_inherited_policy_ids :: "string list"
  dv_created_at :: datetime

definition check_disclosure_view :: "disclosure_view \<Rightarrow> unit result" where
  "check_disclosure_view x = raise_first
     (require_opaque (dv_view_id x) ''disclosure view id'' @
      concat (map (\<lambda>value. require_opaque value ''disclosure view policy id'') (dv_inherited_policy_ids x)) @
      require_aware (dv_created_at x) ''disclosure view creation time'')"

definition create_disclosure_view ::
  "builtins \<Rightarrow> governed_information_ref \<Rightarrow> lineage_transformation \<Rightarrow> string list \<Rightarrow> datetime \<Rightarrow> disclosure_view result" where
  "create_disclosure_view b source_ref transformation inherited_policy_ids created_at =
     (if transformation \<notin> {REDACTION, ABSTRACTION}
      then Inl (ValueError ''disclosure view requires redaction or abstraction'') else
      rbind (governance_id b ''view''
        [(''source_information_ref'', JObj (governed_information_ref_to_dict source_ref)),
         (''transformation'', JStr (lineage_transformation_value transformation)),
         (''inherited_policy_ids'', JStrs (ordered inherited_policy_ids)),
         (''created_at'', JTime created_at)]) (\<lambda>view_id.
      let r = \<lparr>gi_information_id = view_information_id b ''disclosure_view_id'' view_id\<rparr> in
      rbind (check_governed_information_ref r) (\<lambda>_.
      let x = \<lparr>dv_view_id = view_id, dv_information_ref = r, dv_source_information_ref = source_ref,
               dv_transformation = transformation, dv_inherited_policy_ids = ordered inherited_policy_ids,
               dv_created_at = created_at\<rparr> in
      rbind (check_disclosure_view x) (\<lambda>_. Inr x))))"

definition disclosure_view_lineage :: "builtins \<Rightarrow> disclosure_view \<Rightarrow> information_lineage result" where
  "disclosure_view_lineage b x =
     create_information_lineage b
       \<lparr>il_lineage_id = [], il_information_id = gi_information_id (dv_information_ref x),
        il_source_information_ids = [gi_information_id (dv_source_information_ref x)],
        il_transformation = dv_transformation x, il_recorded_at = dv_created_at x\<rparr>"

subsection \<open>SecurityAuditReceipt\<close>

record security_audit_receipt =
  sar_receipt_id :: string
  sar_decision_type :: string
  sar_decision_id :: string
  sar_context_id :: string
  sar_disposition :: decision_disposition
  sar_recorded_at :: datetime

definition check_security_audit_receipt :: "security_audit_receipt \<Rightarrow> unit result" where
  "check_security_audit_receipt x = raise_first
     (require_opaque (sar_receipt_id x) ''security audit receipt id'' @
      require_opaque (sar_decision_id x) ''audit decision id'' @
      require_opaque (sar_context_id x) ''audit context id'' @
      [(sar_decision_type x \<notin> {''access'', ''disclosure''},
       ValueError ''unsupported security audit receipt type''),
       (sar_disposition x \<noteq> ALLOW, ValueError ''material denials require canonical decision admission'')] @
      require_aware (sar_recorded_at x) ''audit receipt time'')"

definition security_audit_receipt_to_dict :: "security_audit_receipt \<Rightarrow> jobject" where
  "security_audit_receipt_to_dict x =
     [(''receipt_id'', JStr (sar_receipt_id x)),
      (''decision_type'', JStr (sar_decision_type x)),
      (''decision_id'', JStr (sar_decision_id x)),
      (''context_id'', JStr (sar_context_id x)),
      (''disposition'', JStr (decision_disposition_value (sar_disposition x))),
      (''recorded_at'', JTime (sar_recorded_at x))]"

definition security_audit_receipt_from_dict :: "builtins \<Rightarrow> jobject \<Rightarrow> security_audit_receipt result" where
  "security_audit_receipt_from_dict b d =
     rbind (j_str b d ''receipt_id'') (\<lambda>receipt_id.
     rbind (j_str b d ''decision_type'') (\<lambda>decision_type.
     rbind (j_str b d ''decision_id'') (\<lambda>decision_id.
     rbind (j_str b d ''context_id'') (\<lambda>context_id.
     rbind (rbind (j_str b d ''disposition'') decision_disposition_of) (\<lambda>disposition.
     rbind (j_time b d ''recorded_at'') (\<lambda>recorded_at.
     let x = \<lparr>sar_receipt_id = receipt_id, sar_decision_type = decision_type, sar_decision_id = decision_id,
              sar_context_id = context_id, sar_disposition = disposition, sar_recorded_at = recorded_at\<rparr> in
     rbind (check_security_audit_receipt x) (\<lambda>_.
     Inr x)))))))"

definition security_audit_receipt_to_event :: "security_audit_receipt \<Rightarrow> string \<Rightarrow> jobject event result" where
  "security_audit_receipt_to_event x source =
     governance_event 1 (''information-security-audit:'' @ (sar_receipt_id x)) SECURITY_AUDIT_RECEIPT_EVENT
        source (sar_receipt_id x)
       (sar_recorded_at x) (security_audit_receipt_to_dict x)"

definition security_audit_receipt_from_event :: "builtins \<Rightarrow> jobject event \<Rightarrow> security_audit_receipt result" where
  "security_audit_receipt_from_event b e =
     (if ev_type e \<noteq> SECURITY_AUDIT_RECEIPT_EVENT
        then Inl (ValueError ''event is not a security audit receipt'') else
     rbind (security_audit_receipt_from_dict b (ev_payload e)) (\<lambda>x.
     rbind (validate_envelope e (''information-security-audit:''
        @ (sar_receipt_id x)) (sar_receipt_id x) (sar_recorded_at x)) (\<lambda>_.
     Inr x)))"

definition security_audit_receipt_ok :: "builtins \<Rightarrow> security_audit_receipt \<Rightarrow> bool" where
  "security_audit_receipt_ok b x \<longleftrightarrow> check_security_audit_receipt x = Inr ()"

lemma check_security_audit_receipt_aware:
  "check_security_audit_receipt x = Inr () \<Longrightarrow> is_aware (sar_recorded_at x)"
  by (auto simp: check_security_audit_receipt_def raise_first_no_errors simp del: raise_first_ok split: option.splits if_splits)

lemma security_audit_receipt_round_trip:
  assumes "security_audit_receipt_ok b x"
  shows "security_audit_receipt_from_dict b (security_audit_receipt_to_dict x) = Inr x"
proof -
  have k: "check_security_audit_receipt x = Inr ()" using assms by (simp add: security_audit_receipt_ok_def)
  note a = check_security_audit_receipt_aware [OF k]
  show ?thesis
    using k a assms
    by (cases x) (simp add: security_audit_receipt_ok_def security_audit_receipt_from_dict_def security_audit_receipt_to_dict_def codec Let_def)
qed

lemma security_audit_receipt_event_round_trip:
  assumes "security_audit_receipt_ok b x" "security_audit_receipt_to_event x source = Inr e"
  shows "security_audit_receipt_from_event b (with_sequence e n) = Inr x"
  using governance_event_fields [OF assms(2) [unfolded security_audit_receipt_to_event_def]] security_audit_receipt_round_trip [OF assms(1)]
  by (simp add: security_audit_receipt_from_event_def expect_envelope_def)

text \<open>\<open>from_decision\<close> of an access decision or of a disclosure decision.\<close>

definition security_audit_receipt_from_decision ::
  "builtins \<Rightarrow> information_access_decision + disclosure_decision \<Rightarrow> security_audit_receipt result" where
  "security_audit_receipt_from_decision b decision =
     (let (decision_type, decision_id, context, disposition, decided_at) =
        (case decision of
           Inl d \<Rightarrow> (''access'', iad_decision_id d, iar_context (iad_request d),
                      pd_disposition (iad_policy_decision d), iad_decided_at d)
         | Inr d \<Rightarrow> (''disclosure'', dd_decision_id d, dr_context (dd_request d),
                      pd_disposition (dd_policy_decision d), dd_decided_at d)) in
      rbind (governance_id b ''audit''
        [(''decision_type'', JStr decision_type), (''decision_id'', JStr decision_id),
         (''context_id'', JStr (ac_context_id context)),
         (''disposition'', JStr (decision_disposition_value disposition)),
         (''recorded_at'', JTime decided_at)]) (\<lambda>i.
      let x = \<lparr>sar_receipt_id = i, sar_decision_type = decision_type, sar_decision_id = decision_id,
               sar_context_id = ac_context_id context, sar_disposition = disposition,
               sar_recorded_at = decided_at\<rparr> in
      rbind (check_security_audit_receipt x) (\<lambda>_. Inr x)))"

end
