(* ===== verification/InformationPolicy.thy ===== *)
theory InformationPolicy
  imports InformationDecisions
begin

section \<open>Composition and evaluation of information policies\<close>

text \<open>
  Models \<^verbatim>\<open>src/noema/information/policy.py\<close>. The read-only state that the engine needs
  (\<open>GovernanceState\<close>) is the part of the projection that it reads: dictionaries as association lists.
  Sets of reasons and conflicts are lists, sorted without duplicates when a decision is made.
\<close>

subsection \<open>Operations by what restricts them\<close>

definition internal_operations :: "information_operation list" where
  "internal_operations = [READ, RETRIEVE, REASON, MODEL_CONTEXT, WORK_ASSIGN, DELETE, CLASSIFY, SHARED_INDEX,
     TELEMETRY, EXTERNAL_CONNECTOR, CROSS_AGENT_SHARE, LEARN, EVALUATE]"

definition content_operations :: "information_operation list" where
  "content_operations = internal_operations"

definition purpose_operations :: "information_operation list" where
  "purpose_operations = content_operations @ [DISCLOSE, DECLASSIFY]"

definition recipient_operations :: "information_operation list" where
  "recipient_operations = content_operations @ [DISCLOSE]"

definition trust_domain_operations :: "information_operation list" where
  "trust_domain_operations = recipient_operations @ [DECLASSIFY]"

definition locality_operations :: "information_operation list" where
  "locality_operations = trust_domain_operations"

definition provider_required_operations :: "information_operation list" where
  "provider_required_operations = [MODEL_CONTEXT, EXTERNAL_CONNECTOR]"

definition sharing_operations :: "information_operation list" where
  "sharing_operations = [WORK_ASSIGN, SHARED_INDEX, CROSS_AGENT_SHARE]"

definition principal_destination_operations :: "information_operation list" where
  "principal_destination_operations = [WORK_ASSIGN, CROSS_AGENT_SHARE]"

definition secondary_use_operations :: "information_operation list" where
  "secondary_use_operations = [LEARN, EVALUATE]"

text \<open>Every operation but \<open>UNKNOWN\<close> and \<open>CLASSIFY\<close>, in the order of the enumeration.\<close>

definition all_restricted_operations :: "information_operation list" where
  "all_restricted_operations = [READ, RETRIEVE, REASON, MODEL_CONTEXT, WORK_ASSIGN, DISCLOSE, DELETE, DECLASSIFY,
     SHARED_INDEX, TELEMETRY, EXTERNAL_CONNECTOR, CROSS_AGENT_SHARE, LEARN, EVALUATE]"

lemmas operation_defs = internal_operations_def content_operations_def purpose_operations_def
  recipient_operations_def trust_domain_operations_def locality_operations_def provider_required_operations_def
  sharing_operations_def principal_destination_operations_def secondary_use_operations_def all_restricted_operations_def

fun classification_rank :: "classification \<Rightarrow> nat" where
  "classification_rank PUBLIC = 0"
| "classification_rank INTERNAL = 1"
| "classification_rank CONFIDENTIAL = 2"
| "classification_rank RESTRICTED = 3"
| "classification_rank UNKNOWN = 4"

subsection \<open>Composition\<close>

text \<open>\<open>_intersection\<close> and \<open>_enum_intersection\<close>\<close>

definition intersection :: "string list list \<Rightarrow> string list" where
  "intersection vss = (case vss of [] \<Rightarrow> [] | vs # rest \<Rightarrow>
     sort (remdups (foldl (\<lambda>r current. filter (\<lambda>v. v \<in> set current) r) vs rest)))"

definition form_intersection :: "disclosure_form list list \<Rightarrow> disclosure_form list" where
  "form_intersection vss = (case vss of [] \<Rightarrow> [] | vs # rest \<Rightarrow>
     sort_key disclosure_form_value (remdups (foldl (\<lambda>r current. filter (\<lambda>v. v \<in> set current) r) vs rest)))"

definition failed_composition ::
  "builtins \<Rightarrow> string list \<Rightarrow> policy_conflict list \<Rightarrow> policy_composition result" where
  "failed_composition b source_information_ids conflicts =
     create_policy_composition b
       \<lparr>pc_composition_id = [], pc_source_policy_ids = [], pc_source_information_ids = source_information_ids,
        pc_origin_domains = [''unknown''], pc_classification = UNKNOWN, pc_allowed_purposes = [],
        pc_allowed_recipients = [], pc_allowed_trust_domains = [], pc_allowed_localities = [],
        pc_allowed_providers = [], pc_cross_agent_sharing = False,
        pc_retention = \<lparr>rp_retain_until = None, rp_delete_after = None, rp_deletion_required = False, rp_holds = []\<rparr>,
        pc_disclosure_forms = [], pc_declassification_authorities = [], pc_allowed_secondary_uses = [],
        pc_secondary_use_semantics_version = 1, pc_conflicts = conflicts\<rparr>"

definition conflict :: "policy_conflict_kind \<Rightarrow> information_operation list \<Rightarrow> policy_conflict" where
  "conflict kind operations = \<lparr>pf_kind = kind, pf_affected_operations = operations\<rparr>"

text \<open>\<open>max(values, key=rank)\<close>: the first of the highest.\<close>

definition strictest :: "classification list \<Rightarrow> classification" where
  "strictest cs = foldl (\<lambda>c c'. if classification_rank c < classification_rank c' then c' else c) (hd cs) (tl cs)"

definition latest_time :: "datetime list \<Rightarrow> datetime" where
  "latest_time ts = foldl (\<lambda>t t'. if dt_before t t' then t' else t) (hd ts) (tl ts)"

definition earliest_time :: "datetime list \<Rightarrow> datetime" where
  "earliest_time ts = foldl (\<lambda>t t'. if dt_before t' t then t' else t) (hd ts) (tl ts)"

text \<open>The holds of all policies by identifier; of two with the same identifier the later one stays.\<close>

definition collect_holds :: "information_policy list \<Rightarrow> (string \<times> hold_constraint) list" where
  "collect_holds values =
     foldl (\<lambda>d h. AList.update (hc_hold_id h) h d) [] (concat (map (rp_holds \<circ> ip_retention) values))"

definition compose_retention :: "information_policy list \<Rightarrow> retention_policy" where
  "compose_retention values =
     (let retain = concat (map (\<lambda>v. case rp_retain_until (ip_retention v) of None \<Rightarrow> [] | Some t \<Rightarrow> [t]) values);
          delete = concat (map (\<lambda>v. case rp_delete_after (ip_retention v) of None \<Rightarrow> [] | Some t \<Rightarrow> [t]) values) in
      \<lparr>rp_retain_until = (if retain = [] then None else Some (latest_time retain)),
       rp_delete_after = (if delete = [] then None else Some (earliest_time delete)),
       rp_deletion_required = list_ex (rp_deletion_required \<circ> ip_retention) values,
       rp_holds = map snd (sort_key fst (collect_holds values))\<rparr>)"

definition compose_values :: "information_policy list \<Rightarrow> string list \<Rightarrow> policy_composition" where
  "compose_values values source_information_ids =
     \<lparr>pc_composition_id = [], pc_source_policy_ids = map ip_policy_id values,
      pc_source_information_ids = source_information_ids,
      pc_origin_domains = concat (map ip_origin_domains values),
      pc_classification = strictest (map ip_classification values),
      pc_allowed_purposes = intersection (map ip_allowed_purposes values),
      pc_allowed_recipients = intersection (map ip_allowed_recipients values),
      pc_allowed_trust_domains = intersection (map ip_allowed_trust_domains values),
      pc_allowed_localities = intersection (map ip_allowed_localities values),
      pc_allowed_providers = intersection (map ip_allowed_providers values),
      pc_cross_agent_sharing = list_all ip_cross_agent_sharing values,
      pc_retention = compose_retention values,
      pc_disclosure_forms = form_intersection (map ip_disclosure_forms values),
      pc_declassification_authorities = intersection (map ip_declassification_authorities values),
      pc_allowed_secondary_uses = sort_key information_operation_value
        (remdups (filter (\<lambda>u. list_all (\<lambda>v. u \<in> set (ip_allowed_secondary_uses v)) (tl values))
          (ip_allowed_secondary_uses (hd values)))),
      pc_secondary_use_semantics_version =
        (if list_all (\<lambda>v. ip_secondary_use_semantics_version v = 1) values then 1 else 2),
      pc_conflicts = []\<rparr>"

definition composition_conflicts :: "policy_composition \<Rightarrow> policy_conflict list" where
  "composition_conflicts c =
     map (\<lambda>(_, kind, operations). conflict kind operations) (filter fst
       [(pc_classification c = UNKNOWN, UNKNOWN_CLASSIFICATION, all_restricted_operations),
        (pc_allowed_purposes c = [], EMPTY_PURPOSES, purpose_operations),
        (pc_allowed_recipients c = [], EMPTY_RECIPIENTS, recipient_operations),
        (pc_allowed_trust_domains c = [], EMPTY_TRUST_DOMAINS, trust_domain_operations),
        (pc_allowed_localities c = [], EMPTY_LOCALITIES, locality_operations),
        (pc_allowed_providers c = [], EMPTY_PROVIDERS, provider_required_operations),
        (pc_disclosure_forms c = [], EMPTY_DISCLOSURE_FORMS, [DISCLOSE]),
        (pc_declassification_authorities c = [], NO_DECLASSIFICATION_AUTHORITY, [DECLASSIFY]),
        (pc_allowed_secondary_uses c = [], EMPTY_SECONDARY_USES, secondary_use_operations),
        (active_holds (pc_retention c) \<noteq> [], LEGAL_HOLD_DELETION, [DELETE]),
        (case (rp_retain_until (pc_retention c), rp_delete_after (pc_retention c)) of
           (Some retain, Some delete) \<Rightarrow> dt_le delete retain | _ \<Rightarrow> False, RETENTION_WINDOW, [DELETE])])"

definition compose_policies ::
  "builtins \<Rightarrow> information_policy list \<Rightarrow> string list \<Rightarrow> policy_conflict list \<Rightarrow> policy_composition result" where
  "compose_policies b policies source_information_ids extra_conflicts =
     (let values = sort_key ip_policy_id policies in
      if values = [] then
        failed_composition b source_information_ids
          (extra_conflicts @ [conflict MISSING_POLICY_VERSION all_restricted_operations])
      else
        let c = compose_values values source_information_ids in
        rbind (check_retention_policy (pc_retention c)) (\<lambda>_.
        create_policy_composition b (c\<lparr>pc_conflicts := extra_conflicts @ composition_conflicts c\<rparr>)))"

subsection \<open>Governance state\<close>

record governance_state =
  gv_policies :: "(string \<times> information_policy) list"
  gv_lineages :: "(string \<times> information_lineage) list"
  gv_bindings :: "(string \<times> policy_binding) list"
  gv_quarantines :: "(string \<times> quarantined_information_ref) list"
  gv_declassified_views :: "(string \<times> declassified_disclosure_view) list"
  gv_last_sequence :: int

text \<open>
  \<open>_resolve\<close> walks the lineage of an item and collects policies, sources and conflicts. Every step
  into the parents of an item adds the item to \<open>visiting\<close>, so the walk ends: the items with a
  lineage that are not being visited decrease.
\<close>

type_synonym resolution = "string list \<times> string list \<times> policy_conflict list"

definition incomplete :: policy_conflict where
  "incomplete = conflict INCOMPLETE_LINEAGE all_restricted_operations"

definition unvisited :: "governance_state \<Rightarrow> string list \<Rightarrow> nat" where
  "unvisited g visiting = length (filter (\<lambda>k. k \<notin> set visiting) (map fst (gv_lineages g)))"

lemma unvisited_Cons:
  assumes "map_of (gv_lineages g) i = Some l" "i \<notin> set visiting"
  shows "unvisited g (i # visiting) < unvisited g visiting"
proof -
  have "i \<in> set (map fst (gv_lineages g))" using assms(1) by (force dest: map_of_SomeD)
  moreover have "length (filter (\<lambda>k. k \<notin> set (i # visiting)) ks) < length (filter (\<lambda>k. k \<notin> set visiting) ks)"
    if "i \<in> set ks" for ks
  proof -
    have "length (filter (\<lambda>k. k \<noteq> i) (filter (\<lambda>k. k \<notin> set visiting) ks)) < length (filter (\<lambda>k. k \<notin> set visiting) ks)"
      using that assms(2) by (intro length_filter_less [of i]) auto
    then show ?thesis by (simp add: conj_commute)
  qed
  ultimately show ?thesis by (simp only: unvisited_def)
qed

function (sequential) resolve_info :: "governance_state \<Rightarrow> string list \<Rightarrow> string \<Rightarrow> resolution \<Rightarrow> resolution"
  and resolve_infos :: "governance_state \<Rightarrow> string list \<Rightarrow> string list \<Rightarrow> resolution \<Rightarrow> resolution" where
  "resolve_info g visiting i (policy_ids, source_ids, conflicts) =
     (if i \<in> set visiting then (policy_ids, source_ids, conflicts @ [incomplete]) else
      case (map_of (gv_bindings g) i, map_of (gv_lineages g) i) of
        (Some binding, Some lineage) \<Rightarrow>
          if pb_lineage_id binding \<noteq> il_lineage_id lineage
          then (policy_ids, source_ids @ [i], conflicts @ [incomplete])
          else if il_source_information_ids lineage = []
          then (policy_ids @ pb_policy_ids binding, source_ids @ [i], conflicts)
          else resolve_infos g (i # visiting) (il_source_information_ids lineage)
                 (policy_ids @ pb_policy_ids binding, source_ids, conflicts)
      | _ \<Rightarrow> (policy_ids, source_ids @ [i], conflicts @ [incomplete]))"
| "resolve_infos g visiting [] acc = acc"
| "resolve_infos g visiting (p # parents) acc = resolve_infos g visiting parents (resolve_info g visiting p acc)"
  by pat_completeness auto

termination
  by (relation "measures
      [\<lambda>x. case x of Inl (g, visiting, i, acc) \<Rightarrow> unvisited g visiting | Inr (g, visiting, ps, acc) \<Rightarrow> unvisited g visiting,
       \<lambda>x. case x of Inl (g, visiting, i, acc) \<Rightarrow> 0 | Inr (g, visiting, ps, acc) \<Rightarrow> Suc (length ps)]")
    (auto intro: unvisited_Cons [OF sym])

subsection \<open>The engine\<close>

definition missing_policy :: policy_conflict where
  "missing_policy = conflict MISSING_POLICY_VERSION all_restricted_operations"

definition composition_for :: "builtins \<Rightarrow> governance_state \<Rightarrow> governed_information_ref \<Rightarrow> policy_composition result" where
  "composition_for b g ref =
     (let i = gi_information_id ref in
      case map_of (gv_quarantines g) i of
        Some _ \<Rightarrow> failed_composition b [i] [conflict QUARANTINED all_restricted_operations]
      | None \<Rightarrow>
        (case map_of (gv_declassified_views g) i of
           Some view \<Rightarrow>
             (case map_of (gv_policies g) (ddv_approved_policy_id view) of
                None \<Rightarrow> failed_composition b (ddv_source_lineage_refs view) [missing_policy]
              | Some approved \<Rightarrow> compose_policies b [approved] (ddv_source_lineage_refs view) [])
         | None \<Rightarrow>
             let (policy_ids, source_ids, conflicts) = resolve_info g [] i ([], [], []);
                 found = map (map_of (gv_policies g)) (sort (remdups policy_ids));
                 missing = map (\<lambda>_. missing_policy) (filter (\<lambda>p. p = None) found);
                 policies = map the (filter (\<lambda>p. p \<noteq> None) found) in
             compose_policies b policies (if source_ids = [] then [i] else sort (remdups source_ids))
               (conflicts @ missing)))"

definition context_for :: "builtins \<Rightarrow> governance_state \<Rightarrow> governed_information_ref \<Rightarrow> access_context \<Rightarrow> access_context result" where
  "context_for b g ref c =
     rbind (composition_for b g ref) (\<lambda>composition.
     create_access_context b
       (c\<lparr>ac_context_id := [], ac_policy_ids := pc_source_policy_ids composition,
          ac_source_lineage_refs := pc_source_information_ids composition\<rparr>))"

text \<open>The constructor of a policy decision.\<close>

definition new_policy_decision ::
  "information_operation \<Rightarrow> decision_disposition \<Rightarrow> decision_reason list \<Rightarrow> policy_conflict_kind list \<Rightarrow> policy_decision result" where
  "new_policy_decision operation disposition reasons conflicts =
     (let d = \<lparr>pd_operation = operation, pd_disposition = disposition, pd_reasons = reasons, pd_conflicts = conflicts\<rparr> in
      rbind (check_policy_decision d) (\<lambda>_. Inr d))"

definition decision_of ::
  "information_operation \<Rightarrow> decision_reason list \<Rightarrow> policy_conflict_kind list \<Rightarrow> policy_decision result" where
  "decision_of operation reasons conflicts =
     (if reasons = [] \<and> conflicts = [] then new_policy_decision operation ALLOW [PERMITTED] []
      else new_policy_decision operation DENY
        (sort_key decision_reason_value (remdups (reasons @ (if conflicts \<noteq> [] then [POLICY_CONFLICT] else []))))
        (sort_key policy_conflict_kind_value (remdups conflicts)))"

definition opt_in :: "'a option \<Rightarrow> 'a list \<Rightarrow> bool" where
  "opt_in v vs = (case v of None \<Rightarrow> False | Some x \<Rightarrow> x \<in> set vs)"

text \<open>\<open>if condition: reasons.add(reason)\<close>\<close>

definition reasons_when :: "(bool \<times> decision_reason) list \<Rightarrow> decision_reason list" where
  "reasons_when cs = map snd (filter fst cs)"

definition common_reasons ::
  "policy_composition \<Rightarrow> access_context \<Rightarrow> information_operation \<Rightarrow> decision_reason list \<times> policy_conflict_kind list" where
  "common_reasons composition c operation =
     (let conflicts = map pf_kind (conflicts_for composition operation) in
      (reasons_when
        [(conflicts \<noteq> [], POLICY_CONFLICT),
         (sort (ac_policy_ids c) \<noteq> pc_source_policy_ids composition, CONTEXT_POLICY_MISMATCH),
         (sort (ac_source_lineage_refs c) \<noteq> pc_source_information_ids composition, CONTEXT_LINEAGE_MISMATCH),
         (operation \<in> set purpose_operations \<and> ac_purpose c \<notin> set (pc_allowed_purposes composition),
          PURPOSE_NOT_PERMITTED),
         (operation \<in> set secondary_use_operations \<and> operation \<notin> set (pc_allowed_secondary_uses composition),
          SECONDARY_USE_NOT_PERMITTED),
         (operation \<in> set locality_operations \<and> ac_locality c \<notin> set (pc_allowed_localities composition),
          LOCALITY_NOT_PERMITTED),
         (operation \<in> set trust_domain_operations \<and>
          ac_source_trust_domain c \<notin> set (pc_allowed_trust_domains composition), TRUST_DOMAIN_NOT_PERMITTED),
         ((operation \<in> set provider_required_operations \<or> operation = DISCLOSE \<and> ac_provider_id c \<noteq> None) \<and>
          \<not> opt_in (ac_provider_id c) (pc_allowed_providers composition), PROVIDER_NOT_PERMITTED)],
       conflicts))"

definition evaluate_access :: "policy_composition \<Rightarrow> access_context \<Rightarrow> policy_decision result" where
  "evaluate_access composition c =
     (let operation = ac_operation c; principal = ac_principal c;
          (reasons, conflicts) = common_reasons composition c operation in
      if operation = InformationOperation_UNKNOWN then new_policy_decision operation DENY [UNKNOWN_OPERATION] [] else
      decision_of operation
        (reasons @ reasons_when
          [(operation \<in> set content_operations \<and>
            \<not> list_ex (\<lambda>i. i \<in> set (pc_allowed_recipients composition)) (recipient_identities principal),
            RECIPIENT_NOT_PERMITTED),
           (operation \<in> set principal_destination_operations \<and> ac_recipient c \<noteq> Some (ps_principal_id principal),
            RECIPIENT_NOT_PERMITTED),
           (operation \<in> set principal_destination_operations \<and>
            \<not> opt_in (ac_destination_trust_domain c) (ps_trust_domains principal), PRINCIPAL_TRUST_DOMAIN_MISMATCH),
           (operation \<in> set principal_destination_operations \<and>
            \<not> opt_in (ac_destination_trust_domain c) (pc_allowed_trust_domains composition), TRUST_DOMAIN_NOT_PERMITTED),
           (operation \<in> set sharing_operations \<and> \<not> pc_cross_agent_sharing composition, SHARING_NOT_PERMITTED),
           (operation = DELETE \<and> (case rp_retain_until (pc_retention composition) of None \<Rightarrow> False
              | Some t \<Rightarrow> dt_before (ac_decision_time c) t), RETENTION_REQUIRES_PRESERVATION)])
        conflicts)"

definition evaluate_quarantine :: "quarantine_policy \<Rightarrow> access_context \<Rightarrow> policy_decision result" where
  "evaluate_quarantine policy c =
     (if ac_operation c = CLASSIFY \<and> \<not> qp_human_resolution_required policy \<and>
         ac_locality c \<in> set (qp_allowed_localities policy) \<and>
         ac_source_trust_domain c \<in> set (qp_allowed_trust_domains policy)
      then new_policy_decision (ac_operation c) ALLOW [PERMITTED] []
      else new_policy_decision (ac_operation c) DENY [DecisionReason_QUARANTINED] [QUARANTINED])"

definition decide_access ::
  "builtins \<Rightarrow> governance_state \<Rightarrow> information_access_request \<Rightarrow> information_access_decision result" where
  "decide_access b g request =
     rbind (composition_for b g (iar_information_ref request)) (\<lambda>composition.
     rbind (case map_of (gv_quarantines g) (gi_information_id (iar_information_ref request)) of
              Some q \<Rightarrow> evaluate_quarantine (qir_policy q) (iar_context request)
            | None \<Rightarrow> evaluate_access composition (iar_context request)) (\<lambda>decision.
     create_information_access_decision b
       \<lparr>iad_decision_id = [], iad_request = request, iad_composition_id = pc_composition_id composition,
        iad_policy_decision = decision, iad_decided_at = ac_decision_time (iar_context request),
        iad_causal_event_cursor = gv_last_sequence g\<rparr>))"

definition decide_disclosure ::
  "builtins \<Rightarrow> governance_state \<Rightarrow> disclosure_request \<Rightarrow> disclosure_decision result" where
  "decide_disclosure b g request =
     rbind (composition_for b g (dr_information_ref request)) (\<lambda>composition.
     let c = dr_context request; (reasons, conflicts) = common_reasons composition c DISCLOSE in
     rbind (decision_of DISCLOSE
       (reasons @ reasons_when
         [(\<not> opt_in (ac_recipient c) (pc_allowed_recipients composition), RECIPIENT_NOT_PERMITTED),
          (\<not> opt_in (ac_destination_trust_domain c) (pc_allowed_trust_domains composition), TRUST_DOMAIN_NOT_PERMITTED),
          (\<not> opt_in (ac_disclosure_form c) (pc_disclosure_forms composition), DISCLOSURE_FORM_NOT_PERMITTED),
          (ac_operation c = CROSS_AGENT_SHARE \<and> \<not> pc_cross_agent_sharing composition, SHARING_NOT_PERMITTED)])
       conflicts) (\<lambda>decision.
     create_disclosure_decision b
       \<lparr>dd_decision_id = [], dd_request = request, dd_composition_id = pc_composition_id composition,
        dd_policy_decision = decision, dd_decided_at = ac_decision_time c,
        dd_causal_event_cursor = gv_last_sequence g\<rparr>))"

definition decide_declassification ::
  "builtins \<Rightarrow> governance_state \<Rightarrow> declassification_request \<Rightarrow> declassification_decision result" where
  "decide_declassification b g request =
     rbind (composition_for b g (dq_information_ref request)) (\<lambda>composition.
     let c = dq_context request; (reasons, conflicts) = common_reasons composition c DECLASSIFY;
         proposed = map_of (gv_policies g) (dq_proposed_policy_id request) in
     rbind (decision_of DECLASSIFY
       (reasons @ reasons_when
         [(proposed = None, POLICY_CONFLICT),
          (\<not> list_ex (\<lambda>i. i \<in> set (pc_declassification_authorities composition)) (recipient_identities (ac_principal c)),
           DECLASSIFICATION_AUTHORITY_REQUIRED),
          (case proposed of None \<Rightarrow> False | Some p \<Rightarrow>
             classification_rank (pc_classification composition) \<le> classification_rank (ip_classification p),
           DECLASSIFICATION_AUTHORITY_REQUIRED)])
       (conflicts @ (if proposed = None then [MISSING_POLICY_VERSION] else []))) (\<lambda>decision.
     create_declassification_decision b
       \<lparr>dn_decision_id = [], dn_request = request, dn_composition_id = pc_composition_id composition,
        dn_policy_decision = decision, dn_decided_at = ac_decision_time c,
        dn_causal_event_cursor = gv_last_sequence g\<rparr>))"

end
