(* ===== verification/InformationProjection.thy ===== *)
theory InformationProjection
  imports InformationPolicy
begin

section \<open>Replay of information governance\<close>

text \<open>
  Models \<^verbatim>\<open>src/noema/information/projection.py\<close>: the projection that rebuilds policies, lineage,
  bindings, quarantines and declassified views from canonical events and runs every material decision
  again, and the bounded projection of audit receipts. Every check of an event comes before the first
  change, so an event that raises changes nothing.
\<close>

subsection \<open>State\<close>

record governance = governance_state +
  gp_last_event_id :: "string option"
  gp_quarantine_records :: "(string \<times> quarantined_information_ref) list"
  gp_access_decisions :: "(string \<times> information_access_decision) list"
  gp_disclosure_decisions :: "(string \<times> disclosure_decision) list"
  gp_declassification_decisions :: "(string \<times> declassification_decision) list"

definition empty_governance :: governance where
  "empty_governance = \<lparr>gv_policies = [], gv_lineages = [], gv_bindings = [], gv_quarantines = [],
     gv_declassified_views = [], gv_last_sequence = 0, gp_last_event_id = None, gp_quarantine_records = [],
     gp_access_decisions = [], gp_disclosure_decisions = [], gp_declassification_decisions = []\<rparr>"

text \<open>The state that the engine reads.\<close>

definition engine_state :: "governance \<Rightarrow> governance_state" where
  "engine_state g = governance_state.truncate g"

definition put_immutable :: "(string \<times> 'v) list \<Rightarrow> string \<Rightarrow> 'v \<Rightarrow> string \<Rightarrow> (string \<times> 'v) list result" where
  "put_immutable d k v name =
     (case map_of d k of
        Some existing \<Rightarrow> if existing \<noteq> v then Inl (ValueError (''conflicting '' @ name @ '' identity''))
                         else Inr (AList.update k v d)
      | None \<Rightarrow> Inr (AList.update k v d))"

definition require_exact_decision_cursor :: "governance \<Rightarrow> int \<Rightarrow> string \<Rightarrow> unit result" where
  "require_exact_decision_cursor g cursor name =
     (if cursor \<noteq> gv_last_sequence g
      then Inl (ValueError (name @ '' does not cite the exact preceding canonical head'')) else Inr ())"

subsection \<open>Handlers\<close>

definition apply_policy :: "builtins \<Rightarrow> governance \<Rightarrow> jobject event \<Rightarrow> governance result" where
  "apply_policy b g e =
     rbind (information_policy_from_event b e) (\<lambda>p.
     rbind (put_immutable (gv_policies g) (ip_policy_id p) p ''policy'') (\<lambda>d. Inr (g\<lparr>gv_policies := d\<rparr>)))"

definition apply_lineage :: "builtins \<Rightarrow> governance \<Rightarrow> jobject event \<Rightarrow> governance result" where
  "apply_lineage b g e =
     rbind (information_lineage_from_event b e) (\<lambda>l.
     let i = il_information_id l in
     rbind (raise_first
       [(case map_of (gv_lineages g) i of None \<Rightarrow> False | Some existing \<Rightarrow> existing \<noteq> l,
         ValueError ''information lineage is immutable''),
        (list_ex (\<lambda>s. map_of (gv_lineages g) s = None) (il_source_information_ids l),
         ValueError ''derived lineage references an unknown source'')]) (\<lambda>_.
     Inr (g\<lparr>gv_lineages := AList.update i l (gv_lineages g)\<rparr>)))"

definition apply_binding :: "builtins \<Rightarrow> governance \<Rightarrow> jobject event \<Rightarrow> governance result" where
  "apply_binding b g e =
     rbind (policy_binding_from_event b e) (\<lambda>x.
     let i = pb_information_id x in
     rbind (raise_first
       [(case map_of (gv_lineages g) i of None \<Rightarrow> True | Some l \<Rightarrow> il_lineage_id l \<noteq> pb_lineage_id x,
         ValueError ''policy binding requires its exact canonical lineage''),
        (pb_policy_ids x = [], ValueError ''policy binding requires at least one policy version''),
        (list_ex (\<lambda>p. map_of (gv_policies g) p = None) (pb_policy_ids x),
         ValueError ''policy binding references an unknown policy version''),
        (case map_of (gv_bindings g) i of None \<Rightarrow> False | Some existing \<Rightarrow> existing \<noteq> x,
         ValueError ''policy binding is immutable'')]) (\<lambda>_.
     Inr (g\<lparr>gv_bindings := AList.update i x (gv_bindings g),
            gv_quarantines := AList.delete i (gv_quarantines g)\<rparr>)))"

definition apply_quarantine :: "builtins \<Rightarrow> governance \<Rightarrow> jobject event \<Rightarrow> governance result" where
  "apply_quarantine b g e =
     rbind (quarantined_information_ref_from_event b e) (\<lambda>q.
     rbind (raise_first
       [(case map_of (gp_quarantine_records g) (qir_quarantine_id q) of None \<Rightarrow> False | Some existing \<Rightarrow> existing \<noteq> q,
         ValueError ''conflicting quarantine identity''),
        (case map_of (gv_quarantines g) (qir_information_id q) of None \<Rightarrow> False | Some existing \<Rightarrow> existing \<noteq> q,
         ValueError ''information already has a different quarantine'')]) (\<lambda>_.
     Inr (g\<lparr>gp_quarantine_records := AList.update (qir_quarantine_id q) q (gp_quarantine_records g),
            gv_quarantines := AList.update (qir_information_id q) q (gv_quarantines g)\<rparr>)))"

definition apply_access_decision :: "builtins \<Rightarrow> governance \<Rightarrow> jobject event \<Rightarrow> governance result" where
  "apply_access_decision b g e =
     rbind (information_access_decision_from_event b e) (\<lambda>d.
     rbind (require_exact_decision_cursor g (iad_causal_event_cursor d) ''access decision'') (\<lambda>_.
     rbind (decide_access b (engine_state g) (iad_request d)) (\<lambda>expected.
     if d \<noteq> expected then Inl (ValueError ''access decision differs from deterministic policy evaluation'') else
     rbind (put_immutable (gp_access_decisions g) (iad_decision_id d) d ''access decision'') (\<lambda>ds.
     Inr (g\<lparr>gp_access_decisions := ds\<rparr>)))))"

definition apply_disclosure_decision :: "builtins \<Rightarrow> governance \<Rightarrow> jobject event \<Rightarrow> governance result" where
  "apply_disclosure_decision b g e =
     rbind (disclosure_decision_from_event b e) (\<lambda>d.
     rbind (require_exact_decision_cursor g (dd_causal_event_cursor d) ''disclosure decision'') (\<lambda>_.
     rbind (decide_disclosure b (engine_state g) (dd_request d)) (\<lambda>expected.
     if d \<noteq> expected then Inl (ValueError ''disclosure decision differs from deterministic policy evaluation'') else
     rbind (put_immutable (gp_disclosure_decisions g) (dd_decision_id d) d ''disclosure decision'') (\<lambda>ds.
     Inr (g\<lparr>gp_disclosure_decisions := ds\<rparr>)))))"

definition apply_declassification_decision :: "builtins \<Rightarrow> governance \<Rightarrow> jobject event \<Rightarrow> governance result" where
  "apply_declassification_decision b g e =
     rbind (declassification_decision_from_event b e) (\<lambda>d.
     rbind (require_exact_decision_cursor g (dn_causal_event_cursor d) ''declassification decision'') (\<lambda>_.
     rbind (decide_declassification b (engine_state g) (dn_request d)) (\<lambda>expected.
     if d \<noteq> expected
     then Inl (ValueError ''declassification decision differs from deterministic policy evaluation'') else
     rbind (put_immutable (gp_declassification_decisions g) (dn_decision_id d) d ''declassification decision'') (\<lambda>ds.
     Inr (g\<lparr>gp_declassification_decisions := ds\<rparr>)))))"

definition apply_declassified_view :: "builtins \<Rightarrow> governance \<Rightarrow> jobject event \<Rightarrow> governance result" where
  "apply_declassified_view b g e =
     rbind (declassified_disclosure_view_from_event b e) (\<lambda>v.
     rbind (require_exact_decision_cursor g (ddv_causal_event_cursor v) ''declassified view'') (\<lambda>_.
     case map_of (gp_declassification_decisions g) (ddv_declassification_decision_id v) of
       None \<Rightarrow> Inl (ValueError ''declassified view requires its canonical allowed decision'')
     | Some decision \<Rightarrow>
       if \<not> declassification_decision_allowed decision
       then Inl (ValueError ''declassified view requires its canonical allowed decision'') else
       rbind (create_declassified_disclosure_view b decision (ddv_created_at v) (gv_last_sequence g)) (\<lambda>expected.
       rbind (raise_first
         [(v \<noteq> expected, ValueError ''declassified view differs from its canonical decision''),
          (map_of (gv_policies g) (ddv_approved_policy_id v) = None,
           ValueError ''declassified view references an unknown approved policy'')]) (\<lambda>_.
       rbind (put_immutable (gv_declassified_views g) (gi_information_id (ddv_information_ref v)) v
                ''declassified view'') (\<lambda>ds.
       Inr (g\<lparr>gv_declassified_views := ds\<rparr>))))))"

definition handle_governance_event :: "builtins \<Rightarrow> governance \<Rightarrow> jobject event \<Rightarrow> (bool \<times> governance) result" where
  "handle_governance_event b g e =
     (let done' = \<lambda>r. rbind r (\<lambda>g'. Inr (True, g')) in
      if ev_type e = POLICY_RECORDED_EVENT then done' (apply_policy b g e)
      else if ev_type e = LINEAGE_RECORDED_EVENT then done' (apply_lineage b g e)
      else if ev_type e = POLICY_BOUND_EVENT then done' (apply_binding b g e)
      else if ev_type e = INFORMATION_QUARANTINED_EVENT then done' (apply_quarantine b g e)
      else if ev_type e = INFORMATION_ACCESS_DECIDED_EVENT then done' (apply_access_decision b g e)
      else if ev_type e = DISCLOSURE_DECIDED_EVENT then done' (apply_disclosure_decision b g e)
      else if ev_type e = DECLASSIFICATION_DECIDED_EVENT then done' (apply_declassification_decision b g e)
      else if ev_type e = DECLASSIFIED_VIEW_RECORDED_EVENT then done' (apply_declassified_view b g e)
      else if ev_type e = SECURITY_AUDIT_RECEIPT_EVENT
      then rbind (security_audit_receipt_from_event b e) (\<lambda>_. Inr (False, g))
      else Inr (False, g))"

definition governance_apply :: "builtins \<Rightarrow> governance \<Rightarrow> jobject event \<Rightarrow> (bool \<times> governance) result" where
  "governance_apply b g e =
     (case ev_sequence e of
        None \<Rightarrow> Inl (ValueError ''information governance requires canonical sequenced events'')
      | Some n \<Rightarrow>
        if n \<le> gv_last_sequence g
        then if n = gv_last_sequence g \<and> Some (ev_id e) = gp_last_event_id g then Inr (False, g)
             else Inl (ValueError ''governance events must be applied in canonical order'')
        else rbind (handle_governance_event b g e) (\<lambda>(handled, g').
             Inr (handled, g'\<lparr>gp_last_event_id := Some (ev_id e), gv_last_sequence := n\<rparr>)))"

definition governance_rebuild :: "builtins \<Rightarrow> jobject event list \<Rightarrow> governance result" where
  "governance_rebuild b events =
     foldM (\<lambda>g e. rbind (governance_apply b g e) (\<lambda>(_, g'). Inr g')) empty_governance events"

definition semantic_snapshot :: "governance \<Rightarrow> jobject" where
  "semantic_snapshot g =
     (let listed = (\<lambda>f d. JList (map (JObj \<circ> f) (map snd (sort_key fst d)))) in
      [(''event_cursor'', JInt (gv_last_sequence g)),
       (''policies'', JList (map (JObj \<circ> information_policy_to_dict) (map snd (sort_key fst (gv_policies g))))),
       (''lineages'', JList (map (JObj \<circ> information_lineage_to_dict) (map snd (sort_key fst (gv_lineages g))))),
       (''bindings'', JList (map (JObj \<circ> policy_binding_to_dict) (map snd (sort_key fst (gv_bindings g))))),
       (''quarantines'', listed quarantined_information_ref_to_dict (gv_quarantines g)),
       (''quarantine_records'', listed quarantined_information_ref_to_dict (gp_quarantine_records g)),
       (''access_decisions'', JList (map (JObj \<circ> information_access_decision_to_dict)
          (map snd (sort_key fst (gp_access_decisions g))))),
       (''disclosure_decisions'', JList (map (JObj \<circ> disclosure_decision_to_dict)
          (map snd (sort_key fst (gp_disclosure_decisions g))))),
       (''declassification_decisions'', JList (map (JObj \<circ> declassification_decision_to_dict)
          (map snd (sort_key fst (gp_declassification_decisions g))))),
       (''declassified_views'', JList (map (JObj \<circ> declassified_disclosure_view_to_dict)
          (map snd (sort_key fst (gv_declassified_views g)))))])"

subsection \<open>Audit receipts\<close>

record security_audit =
  au_max_receipts :: int
  au_last_event_id :: "string option"
  au_receipts :: "(string \<times> security_audit_receipt) list"
  au_receipt_order :: "string list"
  au_last_sequence :: int

definition new_security_audit :: "int \<Rightarrow> security_audit result" where
  "new_security_audit max_receipts =
     (if max_receipts \<le> 0 then Inl (ValueError ''security audit receipt bound must be positive'')
      else Inr \<lparr>au_max_receipts = max_receipts, au_last_event_id = None, au_receipts = [], au_receipt_order = [],
                au_last_sequence = 0\<rparr>)"

definition audit_receipts :: "security_audit \<Rightarrow> security_audit_receipt list" where
  "audit_receipts s = map (\<lambda>k. the (map_of (au_receipts s) k)) (au_receipt_order s)"

definition store_receipt :: "security_audit \<Rightarrow> security_audit_receipt \<Rightarrow> security_audit result" where
  "store_receipt s r =
     rbind (put_immutable (au_receipts s) (sar_receipt_id r) r ''audit receipt'') (\<lambda>d.
     let order = au_receipt_order s @ [sar_receipt_id r] in
     if au_max_receipts s < int (length order)
     then Inr (s\<lparr>au_receipts := AList.delete (hd order) d, au_receipt_order := tl order\<rparr>)
     else Inr (s\<lparr>au_receipts := d, au_receipt_order := order\<rparr>))"

definition audit_apply :: "builtins \<Rightarrow> security_audit \<Rightarrow> jobject event \<Rightarrow> (bool \<times> security_audit) result" where
  "audit_apply b s e =
     (case ev_sequence e of
        None \<Rightarrow> Inl (ValueError ''security audit projection requires canonical events'')
      | Some n \<Rightarrow>
        if n \<le> au_last_sequence s
        then if n = au_last_sequence s \<and> Some (ev_id e) = au_last_event_id s then Inr (False, s)
             else Inl (ValueError ''security audit events must be applied in canonical order'')
        else rbind (if ev_type e = SECURITY_AUDIT_RECEIPT_EVENT
                    then rbind (security_audit_receipt_from_event b e) (\<lambda>r.
                         rbind (store_receipt s r) (\<lambda>s'. Inr (True, s')))
                    else Inr (False, s)) (\<lambda>(handled, s').
             Inr (handled, s'\<lparr>au_last_event_id := Some (ev_id e), au_last_sequence := n\<rparr>)))"

definition audit_rebuild :: "builtins \<Rightarrow> security_audit \<Rightarrow> jobject event list \<Rightarrow> security_audit result" where
  "audit_rebuild b s events =
     foldM (\<lambda>s e. rbind (audit_apply b s e) (\<lambda>(_, s'). Inr s'))
       (s\<lparr>au_last_event_id := None, au_receipts := [], au_receipt_order := [], au_last_sequence := 0\<rparr>) events"

end
