(* ===== verification/InformationProperties.thy ===== *)
theory InformationProperties
  imports InformationProjection Contracts
begin

section \<open>Properties of information governance\<close>

text \<open>
  Derived information is accessible only where every policy along its lineage permits it; what a rebuilt
  projection records is what the engine decides on the history before it; recorded state is immutable
  and its lineage has no cycle.
\<close>

subsection \<open>Compositions\<close>

lemma create_composition_result:
  "create_policy_composition b c = Inr c' \<Longrightarrow> \<exists>i. c' = (normal_policy_composition c)\<lparr>pc_composition_id := i\<rparr>"
  by (auto simp: create_policy_composition_def Let_def rbind_Inr_iff)

lemma set_foldl_filter: "set (foldl (\<lambda>r current. filter (\<lambda>v. v \<in> set current) r) vs rest) = {v \<in> set vs. \<forall>c \<in> set rest. v \<in> set c}"
  by (induction rest arbitrary: vs) auto

lemma set_intersection: "vss \<noteq> [] \<Longrightarrow> set (intersection vss) = {v. \<forall>vs \<in> set vss. v \<in> set vs}"
  by (cases vss) (auto simp: intersection_def set_foldl_filter)

lemma intersectionD: "v \<in> set (intersection (map f values)) \<Longrightarrow> p \<in> set values \<Longrightarrow> v \<in> set (f p)"
  using set_intersection [of "map f values"] by (cases "values = []") auto

lemma foldl_max_ge:
  fixes f :: "'a \<Rightarrow> 'b::linorder"
  assumes "x \<in> set (u # us)"
  shows "f x \<le> f (foldl (\<lambda>t t'. if f t < f t' then t' else t) u us)"
  using assms
proof (induction us arbitrary: u x)
  case (Cons v us)
  let ?w = "if f u < f v then v else u"
  have "f ?w \<le> f (foldl (\<lambda>t t'. if f t < f t' then t' else t) ?w us)" by (rule Cons.IH) simp
  moreover have "f u \<le> f ?w" "f v \<le> f ?w" by auto
  ultimately show ?case using Cons.prems Cons.IH [of x ?w] by (auto simp del: foldl_Cons) auto
qed simp

lemma strictest_known:
  assumes "strictest cs \<noteq> UNKNOWN" "c \<in> set cs"
  shows "c \<noteq> UNKNOWN"
proof
  assume c: "c = UNKNOWN"
  obtain h t where cs: "cs = h # t" using assms(2) by (cases cs) auto
  have "classification_rank c \<le> classification_rank (strictest cs)"
    unfolding strictest_def cs list.sel by (rule foldl_max_ge) (use assms(2) cs in simp)
  with assms(1) show False by (cases "strictest cs") (simp_all add: c)
qed

lemma latest_time_ge: "t \<in> set ts \<Longrightarrow> instant t \<le> instant (latest_time ts)"
  by (cases ts) (simp_all add: latest_time_def dt_before_def foldl_max_ge)

subsection \<open>Decisions\<close>

lemma reasons_when_Nil [simp]: "reasons_when cs = [] \<longleftrightarrow> list_all (\<lambda>c. \<not> fst c) cs"
  by (auto simp: reasons_when_def filter_empty_conv list_all_iff)

lemma new_policy_decision_result:
  "new_policy_decision op disp rs cs = Inr d \<Longrightarrow>
   d = \<lparr>pd_operation = op, pd_disposition = disp, pd_reasons = rs, pd_conflicts = cs\<rparr>"
  by (auto simp: new_policy_decision_def Let_def rbind_Inr_iff)

lemma decision_of_allowed:
  "decision_of op rs cs = Inr d \<Longrightarrow> pd_disposition d = ALLOW \<longleftrightarrow> rs = [] \<and> cs = []"
  by (auto simp: decision_of_def dest!: new_policy_decision_result split: if_splits)

lemma common_reasons_Nil:
  assumes "common_reasons comp0 c op = ([], cs)"
  shows "cs = []" "conflicts_for comp0 op = []"
    "op \<in> set purpose_operations \<Longrightarrow> ac_purpose c \<in> set (pc_allowed_purposes comp0)"
    "op \<in> set secondary_use_operations \<Longrightarrow> op \<in> set (pc_allowed_secondary_uses comp0)"
    "op \<in> set locality_operations \<Longrightarrow> ac_locality c \<in> set (pc_allowed_localities comp0)"
    "op \<in> set trust_domain_operations \<Longrightarrow> ac_source_trust_domain c \<in> set (pc_allowed_trust_domains comp0)"
    "op \<in> set provider_required_operations \<Longrightarrow> opt_in (ac_provider_id c) (pc_allowed_providers comp0)"
  using assms by (auto simp: common_reasons_def Let_def)

lemma evaluate_access_allowed:
  assumes "evaluate_access comp0 c = Inr d" "pd_disposition d = ALLOW"
  shows "common_reasons comp0 c (ac_operation c) = ([], [])"
    "ac_operation c \<noteq> InformationOperation_UNKNOWN"
    "ac_operation c \<in> set content_operations \<Longrightarrow>
      \<exists>i \<in> set (recipient_identities (ac_principal c)). i \<in> set (pc_allowed_recipients comp0)"
    "ac_operation c \<in> set principal_destination_operations \<Longrightarrow>
      opt_in (ac_destination_trust_domain c) (pc_allowed_trust_domains comp0)"
    "ac_operation c \<in> set sharing_operations \<Longrightarrow> pc_cross_agent_sharing comp0"
    "ac_operation c = DELETE \<Longrightarrow> case rp_retain_until (pc_retention comp0) of None \<Rightarrow> True
       | Some t \<Rightarrow> \<not> dt_before (ac_decision_time c) t"
proof -
  obtain rs cs where cr: "common_reasons comp0 c (ac_operation c) = (rs, cs)" by force
  have known: "ac_operation c \<noteq> InformationOperation_UNKNOWN"
    using assms cr by (auto simp: evaluate_access_def Let_def dest!: new_policy_decision_result)
  then show "ac_operation c \<noteq> InformationOperation_UNKNOWN" .
  note all = decision_of_allowed [OF assms(1) [unfolded evaluate_access_def Let_def cr prod.case if_not_P [OF known]],
      unfolded assms(2)]
  then show "common_reasons comp0 c (ac_operation c) = ([], [])"
    "ac_operation c \<in> set content_operations \<Longrightarrow>
      \<exists>i \<in> set (recipient_identities (ac_principal c)). i \<in> set (pc_allowed_recipients comp0)"
    "ac_operation c \<in> set principal_destination_operations \<Longrightarrow>
      opt_in (ac_destination_trust_domain c) (pc_allowed_trust_domains comp0)"
    "ac_operation c \<in> set sharing_operations \<Longrightarrow> pc_cross_agent_sharing comp0"
    "ac_operation c = DELETE \<Longrightarrow> case rp_retain_until (pc_retention comp0) of None \<Rightarrow> True
       | Some t \<Rightarrow> \<not> dt_before (ac_decision_time c) t"
    by (auto simp: cr list_ex_iff split: option.splits)
qed

subsection \<open>Walking the lineage\<close>

definition parent :: "governance_state \<Rightarrow> string \<Rightarrow> string \<Rightarrow> bool" where
  "parent g i p \<longleftrightarrow> (\<exists>l. map_of (gv_lineages g) i = Some l \<and> p \<in> set (il_source_information_ids l))"

text \<open>An item whose binding cites its lineage and whose policies are among the given ones.\<close>

definition covered :: "governance_state \<Rightarrow> string list \<Rightarrow> string \<Rightarrow> bool" where
  "covered g policy_ids i \<longleftrightarrow> (\<exists>x l. map_of (gv_bindings g) i = Some x \<and> map_of (gv_lineages g) i = Some l \<and>
     pb_lineage_id x = il_lineage_id l \<and> set (pb_policy_ids x) \<subseteq> set policy_ids)"

definition covers :: "governance_state \<Rightarrow> string \<Rightarrow> resolution \<Rightarrow> resolution \<Rightarrow> bool" where
  "covers g i acc res \<longleftrightarrow> set (fst acc) \<subseteq> set (fst res) \<and> set (snd (snd acc)) \<subseteq> set (snd (snd res)) \<and>
     (incomplete \<notin> set (snd (snd res)) \<longrightarrow> (\<forall>a. (parent g)\<^sup>*\<^sup>* i a \<longrightarrow> covered g (fst res) a))"

lemma covered_mono: "covered g ps a \<Longrightarrow> set ps \<subseteq> set ps' \<Longrightarrow> covered g ps' a"
  unfolding covered_def by blast

lemma resolve_covers:
  "covers g i acc (resolve_info g v i acc)"
  "set (fst acc) \<subseteq> set (fst (resolve_infos g v ps acc)) \<and>
   set (snd (snd acc)) \<subseteq> set (snd (snd (resolve_infos g v ps acc))) \<and>
   (incomplete \<notin> set (snd (snd (resolve_infos g v ps acc))) \<longrightarrow>
     (\<forall>p \<in> set ps. \<forall>a. (parent g)\<^sup>*\<^sup>* p a \<longrightarrow> covered g (fst (resolve_infos g v ps acc)) a))"
proof (induction g v i acc and g v ps acc rule: resolve_info_resolve_infos.induct)
  case (1 g v i policy_ids source_ids conflicts)
  show ?case
  proof (cases "i \<in> set v \<or> map_of (gv_bindings g) i = None \<or> map_of (gv_lineages g) i = None")
    case True
    then show ?thesis by (auto simp: covers_def split: option.splits)
  next
    case False
    then obtain x l where x: "map_of (gv_bindings g) i = Some x" and l: "map_of (gv_lineages g) i = Some l"
      and v: "i \<notin> set v" by auto
    show ?thesis
    proof (cases "pb_lineage_id x = il_lineage_id l")
      case False
      then show ?thesis using x l v by (auto simp add: covers_def)
    next
      case same: True
      have self: "covered g ps i" if "set (pb_policy_ids x) \<subseteq> set ps" for ps
        using x l same that by (simp add: covered_def)
      show ?thesis
      proof (cases "il_source_information_ids l = []")
        case True
        have only: "a = i" if "(parent g)\<^sup>*\<^sup>* i a" for a
          using that by (cases rule: converse_rtranclpE) (auto simp: parent_def l True)
        have "covered g (policy_ids @ pb_policy_ids x) a" if "(parent g)\<^sup>*\<^sup>* i a" for a
          using only [OF that] self by simp
        then show ?thesis using x l v same True by (auto simp: covers_def)
      next
        case False
        let ?res = "resolve_infos g (i # v) (il_source_information_ids l) (policy_ids @ pb_policy_ids x, source_ids, conflicts)"
        have res: "resolve_info g v i (policy_ids, source_ids, conflicts) = ?res"
          using x l v same False by simp
        note ih = "1.IH" [OF v, of "Some x" "Some l" x l, simplified x l same False, simplified]
        have "covered g (fst ?res) a" if a: "(parent g)\<^sup>*\<^sup>* i a" and c: "incomplete \<notin> set (snd (snd ?res))" for a
          using a
        proof (cases rule: converse_rtranclpE)
          case base
          then show ?thesis using self ih by auto
        next
          case (step p)
          then have "p \<in> set (il_source_information_ids l)" by (auto simp: parent_def l)
          then show ?thesis using ih c step(2) by blast
        qed
        then show ?thesis using ih unfolding res covers_def by auto
      qed
    qed
  qed
next
  case (3 g v p parents acc)
  let ?one = "resolve_info g v p acc" and ?all = "resolve_infos g v (p # parents) acc"
  have one: "covers g p acc ?one" by (rule "3.IH"(1))
  note rest = "3.IH"(2)
  have "covered g (fst ?all) a" if c: "incomplete \<notin> set (snd (snd ?all))" and p: "p' \<in> set (p # parents)"
    and a: "(parent g)\<^sup>*\<^sup>* p' a" for p' a
  proof (cases "p' = p")
    case True
    have "incomplete \<notin> set (snd (snd ?one))" using rest c by auto
    then have "covered g (fst ?one) a" using one a True unfolding covers_def by blast
    then show ?thesis by (rule covered_mono) (use rest in auto)
  next
    case False
    then show ?thesis using rest c p a by auto
  qed
  then show ?case using one rest unfolding covers_def by auto
qed (simp_all)

subsection \<open>What an allowed access respects\<close>

text \<open>What one policy demands of an access to content derived from its source.\<close>

definition policy_permits :: "information_policy \<Rightarrow> access_context \<Rightarrow> bool" where
  "policy_permits p c =
     (let operation = ac_operation c in
      ip_classification p \<noteq> UNKNOWN \<and>
      (operation \<in> set purpose_operations \<longrightarrow> ac_purpose c \<in> set (ip_allowed_purposes p)) \<and>
      (operation \<in> set trust_domain_operations \<longrightarrow> ac_source_trust_domain c \<in> set (ip_allowed_trust_domains p)) \<and>
      (operation \<in> set locality_operations \<longrightarrow> ac_locality c \<in> set (ip_allowed_localities p)) \<and>
      (operation \<in> set provider_required_operations \<longrightarrow> opt_in (ac_provider_id c) (ip_allowed_providers p)) \<and>
      (operation \<in> set secondary_use_operations \<longrightarrow> operation \<in> set (ip_allowed_secondary_uses p)) \<and>
      (operation \<in> set sharing_operations \<longrightarrow> ip_cross_agent_sharing p) \<and>
      (operation \<in> set principal_destination_operations \<longrightarrow>
         opt_in (ac_destination_trust_domain c) (ip_allowed_trust_domains p)) \<and>
      (operation = DELETE \<longrightarrow> (case rp_retain_until (ip_retention p) of None \<Rightarrow> True
         | Some t \<Rightarrow> \<not> dt_before (ac_decision_time c) t)))"

lemma compose_retention_keeps:
  assumes "p \<in> set ps" "rp_retain_until (ip_retention p) = Some t"
  shows "\<exists>u. rp_retain_until (compose_retention ps) = Some u \<and> instant t \<le> instant u"
proof -
  let ?ts = "concat (map (\<lambda>v. case rp_retain_until (ip_retention v) of None \<Rightarrow> [] | Some t \<Rightarrow> [t]) ps)"
  have t: "t \<in> set ?ts" using assms by (auto intro!: bexI [of _ p])
  then have "?ts \<noteq> []" by (metis empty_iff list.set(1))
  then have "rp_retain_until (compose_retention ps) = Some (latest_time ?ts)"
    by (simp only: compose_retention_def Let_def retention_policy.select_convs if_False)
  then show ?thesis using latest_time_ge [OF t] by blast
qed

lemma compose_policies_bounds:
  assumes "compose_policies b ps src extra = Inr c" "ps \<noteq> []"
  shows "set extra \<subseteq> set (pc_conflicts c)"
    "set (composition_conflicts (compose_values (sort_key ip_policy_id ps) src)) \<subseteq> set (pc_conflicts c)"
    "pc_classification c = strictest (map ip_classification (sort_key ip_policy_id ps))"
    "pc_retention c = compose_retention (sort_key ip_policy_id ps)"
    "pc_cross_agent_sharing c \<Longrightarrow> p \<in> set ps \<Longrightarrow> ip_cross_agent_sharing p"
    "v \<in> set (pc_allowed_purposes c) \<Longrightarrow> p \<in> set ps \<Longrightarrow> v \<in> set (ip_allowed_purposes p)"
    "v \<in> set (pc_allowed_recipients c) \<Longrightarrow> p \<in> set ps \<Longrightarrow> v \<in> set (ip_allowed_recipients p)"
    "v \<in> set (pc_allowed_trust_domains c) \<Longrightarrow> p \<in> set ps \<Longrightarrow> v \<in> set (ip_allowed_trust_domains p)"
    "v \<in> set (pc_allowed_localities c) \<Longrightarrow> p \<in> set ps \<Longrightarrow> v \<in> set (ip_allowed_localities p)"
    "v \<in> set (pc_allowed_providers c) \<Longrightarrow> p \<in> set ps \<Longrightarrow> v \<in> set (ip_allowed_providers p)"
    "u \<in> set (pc_allowed_secondary_uses c) \<Longrightarrow> p \<in> set ps \<Longrightarrow> u \<in> set (ip_allowed_secondary_uses p)"
proof -
  let ?vs = "sort_key ip_policy_id ps"
  have ne: "?vs \<noteq> []" using assms(2) by (metis set_empty set_sort)
  obtain i where c: "c = (normal_policy_composition
      (compose_values ?vs src\<lparr>pc_conflicts := extra @ composition_conflicts (compose_values ?vs src)\<rparr>))\<lparr>pc_composition_id := i\<rparr>"
    using assms(1) ne by (auto simp: compose_policies_def Let_def rbind_Inr_iff dest!: create_composition_result)
  note sel = c normal_policy_composition_def compose_values_def
  show "set extra \<subseteq> set (pc_conflicts c)"
    "set (composition_conflicts (compose_values ?vs src)) \<subseteq> set (pc_conflicts c)" by (auto simp: c normal_policy_composition_def)
  show "pc_classification c = strictest (map ip_classification ?vs)" "pc_retention c = compose_retention ?vs"
    by (simp_all add: sel)
  show "ip_cross_agent_sharing p" if "pc_cross_agent_sharing c" "p \<in> set ps"
    using that by (simp add: sel list_all_iff)
  have p: "p \<in> set ?vs" if "p \<in> set ps" using that by simp
  show "v \<in> set (ip_allowed_purposes p)" if "v \<in> set (pc_allowed_purposes c)" "p \<in> set ps"
    using that p by (auto simp: sel dest: intersectionD)
  show "v \<in> set (ip_allowed_recipients p)" if "v \<in> set (pc_allowed_recipients c)" "p \<in> set ps"
    using that p by (auto simp: sel dest: intersectionD)
  show "v \<in> set (ip_allowed_trust_domains p)" if "v \<in> set (pc_allowed_trust_domains c)" "p \<in> set ps"
    using that p by (auto simp: sel dest: intersectionD)
  show "v \<in> set (ip_allowed_localities p)" if "v \<in> set (pc_allowed_localities c)" "p \<in> set ps"
    using that p by (auto simp: sel dest: intersectionD)
  show "v \<in> set (ip_allowed_providers p)" if "v \<in> set (pc_allowed_providers c)" "p \<in> set ps"
    using that p by (auto simp: sel dest: intersectionD)
  show "u \<in> set (ip_allowed_secondary_uses p)" if "u \<in> set (pc_allowed_secondary_uses c)" "p \<in> set ps"
    using that(1) p [OF that(2)] ne by (cases ?vs) (auto simp: sel list_all_iff)
qed

lemma conflicts_for_Nil: "conflicts_for c operation = [] \<Longrightarrow> f \<in> set (pc_conflicts c) \<Longrightarrow> operation \<notin> set (pf_affected_operations f)"
  by (auto simp: conflicts_for_def filter_empty_conv)

lemma affected [simp]:
  "pf_affected_operations incomplete = all_restricted_operations"
  "pf_affected_operations missing_policy = all_restricted_operations"
  by (simp_all add: incomplete_def missing_policy_def conflict_def)

lemma failed_composition_conflicts:
  "failed_composition b is cs = Inr c \<Longrightarrow> set (pc_conflicts c) = set cs"
  by (auto simp: failed_composition_def normal_policy_composition_def dest!: create_composition_result)

lemma resolve_info_start:
  fixes g i
  defines "r \<equiv> resolve_info g [] i ([], [], [])"
  assumes "incomplete \<notin> set (snd (snd r))" "(parent g)\<^sup>*\<^sup>* i a"
  shows "covered g (fst r) a"
  using resolve_covers(1) [of g i "([], [], [])" "[]"] assms unfolding covers_def r_def by blast

lemma composition_for_clear:
  assumes c: "composition_for b g ref = Inr k" and clear: "conflicts_for k operation = []"
    and restricted: "operation \<in> set all_restricted_operations"
    and view: "map_of (gv_declassified_views g) (gi_information_id ref) = None"
  obtains policies source_ids extra where
    "map_of (gv_quarantines g) (gi_information_id ref) = None" "policies \<noteq> []"
    "compose_policies b policies source_ids extra = Inr k"
    "\<And>a. (parent g)\<^sup>*\<^sup>* (gi_information_id ref) a \<Longrightarrow> \<exists>x l. map_of (gv_bindings g) a = Some x \<and>
       map_of (gv_lineages g) a = Some l \<and> pb_lineage_id x = il_lineage_id l \<and>
       (\<forall>pid \<in> set (pb_policy_ids x). \<exists>p \<in> set policies. map_of (gv_policies g) pid = Some p)"
proof -
  let ?i = "gi_information_id ref"
  have free: "f \<notin> set (pc_conflicts k)" if "pf_affected_operations f = all_restricted_operations" for f
    using conflicts_for_Nil [OF clear] restricted that by metis
  have q: "map_of (gv_quarantines g) ?i = None"
  proof (rule ccontr)
    assume "map_of (gv_quarantines g) ?i \<noteq> None"
    then have "failed_composition b [?i] [conflict QUARANTINED all_restricted_operations] = Inr k"
      using c by (auto simp: composition_for_def)
    from failed_composition_conflicts [OF this] show False
      using free [of "conflict QUARANTINED all_restricted_operations"] by (simp add: conflict_def)
  qed
  obtain policy_ids source_ids conflicts where r: "resolve_info g [] ?i ([], [], []) = (policy_ids, source_ids, conflicts)"
    by (cases "resolve_info g [] ?i ([], [], [])") auto
  define found where "found = map (map_of (gv_policies g)) (sort (remdups policy_ids))"
  define missing where "missing = map (\<lambda>_. missing_policy) (filter (\<lambda>p. p = None) found)"
  define policies where "policies = map the (filter (\<lambda>p. p \<noteq> None) found)"
  define sources where "sources = (if source_ids = [] then [?i] else sort (remdups source_ids))"
  have k: "compose_policies b policies sources (conflicts @ missing) = Inr k"
    using c unfolding composition_for_def Let_def q view r option.case prod.case
      found_def missing_def policies_def sources_def .
  have ne: "policies \<noteq> []"
  proof
    assume "policies = []"
    then have "missing_policy \<in> set (pc_conflicts k)"
      using failed_composition_conflicts k by (fastforce simp: compose_policies_def missing_policy_def)
    then show False using free [of missing_policy] by simp
  qed
  note extra = compose_policies_bounds(1) [OF k ne]
  have const: "c \<in> set (map (\<lambda>_. c) xs)" if "xs \<noteq> []" for xs :: "'x list" and c :: policy_conflict
    using that by (cases xs) simp_all
  have none: "filter (\<lambda>p. p = None) found = []"
  proof (rule ccontr)
    assume "filter (\<lambda>p. p = None) found \<noteq> []"
    from const [OF this] have "missing_policy \<in> set missing" unfolding missing_def .
    with extra free [of missing_policy] show False by auto
  qed
  then have known: "\<exists>p \<in> set policies. map_of (gv_policies g) pid = Some p" if "pid \<in> set policy_ids" for pid
    using that by (force simp: policies_def found_def filter_empty_conv)
  have "incomplete \<notin> set conflicts" using extra free [of incomplete] by auto
  then have cov: "covered g policy_ids a" if "(parent g)\<^sup>*\<^sup>* ?i a" for a
    using resolve_info_start [of g ?i a, unfolded r] that by simp
  show thesis
  proof (rule that [OF q ne k])
    fix a assume "(parent g)\<^sup>*\<^sup>* ?i a"
    from cov [OF this] show "\<exists>x l. map_of (gv_bindings g) a = Some x \<and>
       map_of (gv_lineages g) a = Some l \<and> pb_lineage_id x = il_lineage_id l \<and>
       (\<forall>pid \<in> set (pb_policy_ids x). \<exists>p \<in> set policies. map_of (gv_policies g) pid = Some p)"
      unfolding covered_def using known by blast
  qed
qed

lemma allowed_access_permitted:
  assumes k: "compose_policies b policies source_ids extra = Inr k" "policies \<noteq> []"
    and d: "evaluate_access k c = Inr d" "pd_disposition d = ALLOW"
    and restricted: "ac_operation c \<in> set all_restricted_operations" and p: "p \<in> set policies"
  shows "policy_permits p c"
proof -
  note bounds = compose_policies_bounds [OF k]
  note common = common_reasons_Nil [OF evaluate_access_allowed(1) [OF d]]
  note allowed = evaluate_access_allowed [OF d]
  have vp: "p \<in> set (sort_key ip_policy_id policies)" using p by simp
  have "pc_classification k \<noteq> UNKNOWN"
  proof
    assume u: "pc_classification k = UNKNOWN"
    have "conflict UNKNOWN_CLASSIFICATION all_restricted_operations \<in> set (pc_conflicts k)"
      by (rule subsetD [OF bounds(2)]) (use u bounds(3) in \<open>simp add: composition_conflicts_def compose_values_def\<close>)
    from conflicts_for_Nil [OF common(2) this] restricted show False by (simp add: conflict_def)
  qed
  then have "ip_classification p \<noteq> UNKNOWN"
    unfolding bounds(3) by (rule strictest_known) (use vp in simp)
  moreover have "opt_in (ac_provider_id c) (ip_allowed_providers p)" if "ac_operation c \<in> set provider_required_operations"
    using common(7) [OF that] bounds(10) [OF _ p] by (auto simp: opt_in_def split: option.splits)
  moreover have "opt_in (ac_destination_trust_domain c) (ip_allowed_trust_domains p)"
    if "ac_operation c \<in> set principal_destination_operations"
    using allowed(4) [OF that] bounds(8) [OF _ p] by (auto simp: opt_in_def split: option.splits)
  moreover have "case rp_retain_until (ip_retention p) of None \<Rightarrow> True | Some t \<Rightarrow> \<not> dt_before (ac_decision_time c) t"
    if "ac_operation c = DELETE"
  proof (cases "rp_retain_until (ip_retention p)")
    case (Some t)
    from compose_retention_keeps [OF vp Some] obtain u where
      u: "rp_retain_until (compose_retention (sort_key ip_policy_id policies)) = Some u" "instant t \<le> instant u" by blast
    show ?thesis using allowed(6) [OF that] u unfolding bounds(4) by (auto simp: Some dt_before_def)
  qed simp
  moreover have "ac_operation c \<in> set purpose_operations \<longrightarrow> ac_purpose c \<in> set (ip_allowed_purposes p)"
    using common(3) bounds(6) [OF _ p] by blast
  moreover have "ac_operation c \<in> set trust_domain_operations \<longrightarrow> ac_source_trust_domain c \<in> set (ip_allowed_trust_domains p)"
    using common(6) bounds(8) [OF _ p] by blast
  moreover have "ac_operation c \<in> set locality_operations \<longrightarrow> ac_locality c \<in> set (ip_allowed_localities p)"
    using common(5) bounds(9) [OF _ p] by blast
  moreover have "ac_operation c \<in> set secondary_use_operations \<longrightarrow> ac_operation c \<in> set (ip_allowed_secondary_uses p)"
    using common(4) bounds(11) [OF _ p] by blast
  moreover have "ac_operation c \<in> set sharing_operations \<longrightarrow> ip_cross_agent_sharing p"
    using allowed(5) bounds(5) [OF _ p] by blast
  ultimately show ?thesis unfolding policy_permits_def Let_def by blast
qed


subsection \<open>Replay\<close>

lemma engine_state_fields [simp]:
  "gv_policies (engine_state g) = gv_policies g" "gv_lineages (engine_state g) = gv_lineages g"
  "gv_bindings (engine_state g) = gv_bindings g" "gv_quarantines (engine_state g) = gv_quarantines g"
  "gv_declassified_views (engine_state g) = gv_declassified_views g" "gv_last_sequence (engine_state g) = gv_last_sequence g"
  by (simp_all add: engine_state_def governance_state.defs)

definition governance_step :: "builtins \<Rightarrow> governance \<Rightarrow> jobject event \<Rightarrow> governance result" where
  "governance_step b g e = rbind (governance_apply b g e) (\<lambda>(_, g'). Inr g')"

lemma governance_step_apply: "governance_step b g e = Inr g' \<longleftrightarrow> (\<exists>handled. governance_apply b g e = Inr (handled, g'))"
  by (auto simp: governance_step_def rbind_Inr_iff)

lemma governance_rebuild_fold: "governance_rebuild b es = foldM (governance_step b) empty_governance es"
  by (simp add: governance_rebuild_def governance_step_def [abs_def])

lemma governance_rebuild_snoc:
  "governance_rebuild b (es @ [e]) = Inr g' \<longleftrightarrow>
   (\<exists>g handled. governance_rebuild b es = Inr g \<and> governance_apply b g e = Inr (handled, g'))"
  by (auto simp: governance_rebuild_fold foldM_append rbind_Inr_iff governance_step_apply)

lemma put_immutable_result:
  "put_immutable d k v n = Inr d' \<Longrightarrow> d' = AList.update k v d \<and> (map_of d k = None \<or> map_of d k = Some v)"
  by (auto simp: put_immutable_def split: option.splits if_splits)

lemma put_immutable_le: "put_immutable d k v n = Inr d' \<Longrightarrow> map_of d \<subseteq>\<^sub>m map_of d'"
  by (auto dest!: put_immutable_result simp: map_le_def map_of_update)

lemma update_le: "map_of d k = None \<or> map_of d k = Some v \<Longrightarrow> map_of d \<subseteq>\<^sub>m map_of (AList.update k v d)"
  by (auto simp: map_le_def map_of_update)

lemma governance_applyE:
  assumes "governance_apply b g e = Inr (handled, g')"
  obtains "g' = g"
    | g1 n where "handle_governance_event b g e = Inr (handled, g1)"
        "g' = g1\<lparr>gp_last_event_id := Some (ev_id e), gv_last_sequence := n\<rparr>"
proof (cases "ev_sequence e")
  case None
  then show ?thesis using assms by (simp add: governance_apply_def)
next
  case (Some n)
  show ?thesis
  proof (cases "n \<le> gv_last_sequence g")
    case True
    then show ?thesis using assms that(1) by (simp add: governance_apply_def Some split: if_splits)
  next
    case False
    then obtain r where r: "handle_governance_event b g e = Inr r"
      "(handled, g') = (fst r, (snd r)\<lparr>gp_last_event_id := Some (ev_id e), gv_last_sequence := n\<rparr>)"
      using assms by (auto simp: governance_apply_def Some elim!: rbindE split: prod.splits)
    show ?thesis by (rule that(2) [of "snd r" n]) (use r in simp_all)
  qed
qed

text \<open>What one handled event changes.\<close>

lemma apply_policy_result:
  "apply_policy b g e = Inr g' \<Longrightarrow> \<exists>p. map_of (gv_policies g) \<subseteq>\<^sub>m map_of (AList.update (ip_policy_id p) p (gv_policies g)) \<and>
     g' = g\<lparr>gv_policies := AList.update (ip_policy_id p) p (gv_policies g)\<rparr>"
  by (auto simp: apply_policy_def dest!: put_immutable_result elim!: rbindE intro: update_le)

lemma apply_lineage_result:
  "apply_lineage b g e = Inr g' \<Longrightarrow> \<exists>l. (map_of (gv_lineages g) (il_information_id l) = None \<or>
       map_of (gv_lineages g) (il_information_id l) = Some l) \<and>
     (\<forall>s \<in> set (il_source_information_ids l). map_of (gv_lineages g) s \<noteq> None) \<and>
     g' = g\<lparr>gv_lineages := AList.update (il_information_id l) l (gv_lineages g)\<rparr>"
  by (force simp: apply_lineage_def Let_def list_ex_iff elim!: rbindE split: option.splits if_splits)

lemma apply_binding_result:
  "apply_binding b g e = Inr g' \<Longrightarrow> \<exists>x. (map_of (gv_bindings g) (pb_information_id x) = None \<or>
       map_of (gv_bindings g) (pb_information_id x) = Some x) \<and>
     (\<exists>l. map_of (gv_lineages g) (pb_information_id x) = Some l \<and> il_lineage_id l = pb_lineage_id x) \<and>
     (\<forall>p \<in> set (pb_policy_ids x). map_of (gv_policies g) p \<noteq> None) \<and> pb_policy_ids x \<noteq> [] \<and>
     g' = g\<lparr>gv_bindings := AList.update (pb_information_id x) x (gv_bindings g),
            gv_quarantines := AList.delete (pb_information_id x) (gv_quarantines g)\<rparr>"
  by (force simp: apply_binding_def Let_def list_ex_iff elim!: rbindE split: option.splits if_splits)

lemma apply_quarantine_result:
  "apply_quarantine b g e = Inr g' \<Longrightarrow> \<exists>q. (map_of (gp_quarantine_records g) (qir_quarantine_id q) = None \<or>
       map_of (gp_quarantine_records g) (qir_quarantine_id q) = Some q) \<and>
     g' = g\<lparr>gp_quarantine_records := AList.update (qir_quarantine_id q) q (gp_quarantine_records g),
            gv_quarantines := AList.update (qir_information_id q) q (gv_quarantines g)\<rparr>"
  by (force simp: apply_quarantine_def elim!: rbindE split: option.splits if_splits)

lemma apply_access_decision_result:
  "apply_access_decision b g e = Inr g' \<Longrightarrow> \<exists>d. decide_access b (engine_state g) (iad_request d) = Inr d \<and>
     (map_of (gp_access_decisions g) (iad_decision_id d) = None \<or> map_of (gp_access_decisions g) (iad_decision_id d) = Some d) \<and>
     g' = g\<lparr>gp_access_decisions := AList.update (iad_decision_id d) d (gp_access_decisions g)\<rparr>"
  by (auto simp: apply_access_decision_def dest!: put_immutable_result elim!: rbindE split: if_splits)

lemma apply_disclosure_decision_result:
  "apply_disclosure_decision b g e = Inr g' \<Longrightarrow> \<exists>d. decide_disclosure b (engine_state g) (dd_request d) = Inr d \<and>
     (map_of (gp_disclosure_decisions g) (dd_decision_id d) = None \<or>
      map_of (gp_disclosure_decisions g) (dd_decision_id d) = Some d) \<and>
     g' = g\<lparr>gp_disclosure_decisions := AList.update (dd_decision_id d) d (gp_disclosure_decisions g)\<rparr>"
  by (auto simp: apply_disclosure_decision_def dest!: put_immutable_result elim!: rbindE split: if_splits)

lemma apply_declassification_decision_result:
  "apply_declassification_decision b g e = Inr g' \<Longrightarrow> \<exists>d. decide_declassification b (engine_state g) (dn_request d) = Inr d \<and>
     (map_of (gp_declassification_decisions g) (dn_decision_id d) = None \<or>
      map_of (gp_declassification_decisions g) (dn_decision_id d) = Some d) \<and>
     g' = g\<lparr>gp_declassification_decisions := AList.update (dn_decision_id d) d (gp_declassification_decisions g)\<rparr>"
  by (auto simp: apply_declassification_decision_def dest!: put_immutable_result elim!: rbindE split: if_splits)

lemma apply_declassified_view_result:
  "apply_declassified_view b g e = Inr g' \<Longrightarrow> \<exists>v decision.
     map_of (gp_declassification_decisions g) (ddv_declassification_decision_id v) = Some decision \<and>
     declassification_decision_allowed decision \<and>
     create_declassified_disclosure_view b decision (ddv_created_at v) (gv_last_sequence g) = Inr v \<and>
     map_of (gv_policies g) (ddv_approved_policy_id v) \<noteq> None \<and>
     (map_of (gv_declassified_views g) (gi_information_id (ddv_information_ref v)) = None \<or>
      map_of (gv_declassified_views g) (gi_information_id (ddv_information_ref v)) = Some v) \<and>
     g' = g\<lparr>gv_declassified_views := AList.update (gi_information_id (ddv_information_ref v)) v (gv_declassified_views g)\<rparr>"
proof -
  assume "apply_declassified_view b g e = Inr g'"
  then obtain v where v: "(case map_of (gp_declassification_decisions g) (ddv_declassification_decision_id v) of
       None \<Rightarrow> Inl (ValueError ''declassified view requires its canonical allowed decision'')
     | Some decision \<Rightarrow>
       if \<not> declassification_decision_allowed decision
       then Inl (ValueError ''declassified view requires its canonical allowed decision'') else
       rbind (create_declassified_disclosure_view b decision (ddv_created_at v) (gv_last_sequence g)) (\<lambda>expected.
       rbind (raise_first
         [(v \<noteq> expected, ValueError ''declassified view differs from its canonical decision''),
          (map_of (gv_policies g) (ddv_approved_policy_id v) = None,
           ValueError ''declassified view references an unknown approved policy'')]) (\<lambda>_.
       rbind (put_immutable (gv_declassified_views g) (gi_information_id (ddv_information_ref v)) v
                ''declassified view'') (\<lambda>ds.
       Inr (g\<lparr>gv_declassified_views := ds\<rparr>))))) = Inr g'"
    by (auto simp: apply_declassified_view_def elim!: rbindE)
  then obtain decision where d: "map_of (gp_declassification_decisions g) (ddv_declassification_decision_id v) = Some decision"
    "declassification_decision_allowed decision" by (auto split: option.splits if_splits)
  from v d show ?thesis
    by (intro exI [of _ v] exI [of _ decision]) (auto dest!: put_immutable_result elim!: rbindE split: if_splits)
qed

lemma handle_governance_eventE:
  assumes "handle_governance_event b g e = Inr (handled, g')"
  obtains "g' = g" | "apply_policy b g e = Inr g'" | "apply_lineage b g e = Inr g'" | "apply_binding b g e = Inr g'"
    | "apply_quarantine b g e = Inr g'" | "apply_access_decision b g e = Inr g'"
    | "apply_disclosure_decision b g e = Inr g'" | "apply_declassification_decision b g e = Inr g'"
    | "apply_declassified_view b g e = Inr g'"
proof -
  show thesis
    using assms unfolding handle_governance_event_def Let_def
    by (simp split: if_splits; (elim rbindE)?; simp add: that)
qed

text \<open>The records that later events cannot change.\<close>

definition extends :: "governance \<Rightarrow> governance \<Rightarrow> bool" where
  "extends g g' \<longleftrightarrow> map_of (gv_policies g) \<subseteq>\<^sub>m map_of (gv_policies g') \<and>
     map_of (gv_lineages g) \<subseteq>\<^sub>m map_of (gv_lineages g') \<and> map_of (gv_bindings g) \<subseteq>\<^sub>m map_of (gv_bindings g') \<and>
     map_of (gp_quarantine_records g) \<subseteq>\<^sub>m map_of (gp_quarantine_records g') \<and>
     map_of (gp_access_decisions g) \<subseteq>\<^sub>m map_of (gp_access_decisions g') \<and>
     map_of (gp_disclosure_decisions g) \<subseteq>\<^sub>m map_of (gp_disclosure_decisions g') \<and>
     map_of (gp_declassification_decisions g) \<subseteq>\<^sub>m map_of (gp_declassification_decisions g') \<and>
     map_of (gv_declassified_views g) \<subseteq>\<^sub>m map_of (gv_declassified_views g')"

lemma extends_refl: "extends g g"
  by (simp add: extends_def)

lemma extends_trans: "extends g g' \<Longrightarrow> extends g' g'' \<Longrightarrow> extends g g''"
  unfolding extends_def by (elim conjE, intro conjI; rule map_le_trans)

lemma extends_step:
  assumes "governance_apply b g e = Inr (handled, g')"
  shows "extends g g'"
  using assms
proof (cases rule: governance_applyE)
  case 1
  then show ?thesis by (simp add: extends_refl)
next
  case (2 g1 n)
  have "extends g g1"
    using 2(1)
  proof (cases rule: handle_governance_eventE)
    case 1
    then show ?thesis by (simp add: extends_refl)
  next
    case 2
    then show ?thesis by (auto simp: extends_def dest!: apply_policy_result)
  next
    case 3
    from apply_lineage_result [OF this] show ?thesis by (elim exE conjE) (simp add: extends_def update_le)
  next
    case 4
    from apply_binding_result [OF this] show ?thesis by (elim exE conjE) (simp add: extends_def update_le)
  next
    case 5
    from apply_quarantine_result [OF this] show ?thesis by (elim exE conjE) (simp add: extends_def update_le)
  next
    case 6
    from apply_access_decision_result [OF this] show ?thesis by (elim exE conjE) (simp add: extends_def update_le)
  next
    case 7
    from apply_disclosure_decision_result [OF this] show ?thesis by (elim exE conjE) (simp add: extends_def update_le)
  next
    case 8
    from apply_declassification_decision_result [OF this] show ?thesis by (elim exE conjE) (simp add: extends_def update_le)
  next
    case 9
    from apply_declassified_view_result [OF this] show ?thesis by (elim exE conjE) (simp add: extends_def update_le)
  qed
  then show ?thesis by (simp add: 2(2) extends_def)
qed

text \<open>\<open>P\<close> holds of the state at some point of the history.\<close>

definition at_some_point :: "builtins \<Rightarrow> jobject event list \<Rightarrow> (governance \<Rightarrow> bool) \<Rightarrow> bool" where
  "at_some_point b events P \<longleftrightarrow> (\<exists>before later h. events = before @ later \<and> governance_rebuild b before = Inr h \<and> P h)"

lemma at_some_point_now: "governance_rebuild b events = Inr g \<Longrightarrow> P g \<Longrightarrow> at_some_point b (events @ es) P"
  unfolding at_some_point_def by blast

lemma at_some_point_more: "at_some_point b events P \<Longrightarrow> at_some_point b (events @ es) P"
  unfolding at_some_point_def by (metis append.assoc)

definition decided_then :: "builtins \<Rightarrow> jobject event list \<Rightarrow> governance \<Rightarrow> bool" where
  "decided_then b events g \<longleftrightarrow>
    (\<forall>k d. map_of (gp_access_decisions g) k = Some d \<longrightarrow> k = iad_decision_id d \<and>
       at_some_point b events (\<lambda>h. decide_access b (engine_state h) (iad_request d) = Inr d)) \<and>
    (\<forall>k d. map_of (gp_disclosure_decisions g) k = Some d \<longrightarrow> k = dd_decision_id d \<and>
       at_some_point b events (\<lambda>h. decide_disclosure b (engine_state h) (dd_request d) = Inr d)) \<and>
    (\<forall>k d. map_of (gp_declassification_decisions g) k = Some d \<longrightarrow> k = dn_decision_id d \<and>
       at_some_point b events (\<lambda>h. decide_declassification b (engine_state h) (dn_request d) = Inr d)) \<and>
    (\<forall>k v. map_of (gv_declassified_views g) k = Some v \<longrightarrow> k = gi_information_id (ddv_information_ref v) \<and>
       at_some_point b events (\<lambda>h. \<exists>decision.
         map_of (gp_declassification_decisions h) (ddv_declassification_decision_id v) = Some decision \<and>
         declassification_decision_allowed decision \<and>
         create_declassified_disclosure_view b decision (ddv_created_at v) (gv_last_sequence h) = Inr v \<and>
         map_of (gv_policies h) (ddv_approved_policy_id v) \<noteq> None))"

lemma decided_then_record:
  fixes P :: "'v \<Rightarrow> governance \<Rightarrow> bool"
  assumes old: "\<forall>k d. map_of m k = Some d \<longrightarrow> k = key d \<and> at_some_point b events (P d)"
    and new: "m' = m \<or> (\<exists>d. P d g \<and> m' = AList.update (key d) d m)" and g: "governance_rebuild b events = Inr g"
  shows "\<forall>k d. map_of m' k = Some d \<longrightarrow> k = key d \<and> at_some_point b (events @ es) (P d)"
  using new
proof
  assume "m' = m"
  then show ?thesis using old by (blast intro: at_some_point_more)
next
  assume "\<exists>d. P d g \<and> m' = AList.update (key d) d m"
  then obtain d where d: "P d g" "m' = AList.update (key d) d m" by blast
  have now: "at_some_point b (events @ es) (P d)" by (rule at_some_point_now [where P = "P d", OF g d(1)])
  show ?thesis
  proof (intro allI impI)
    fix k v assume "map_of m' k = Some v"
    then show "k = key v \<and> at_some_point b (events @ es) (P v)"
      using old now by (cases "k = key d") (auto simp: d(2) map_of_update intro: at_some_point_more)
  qed
qed

text \<open>What one event adds to the recorded decisions and views.\<close>

lemma apply_decisions:
  assumes "governance_apply b g e = Inr (handled, g')"
  shows "gp_access_decisions g' = gp_access_decisions g \<or>
      (\<exists>d. decide_access b (engine_state g) (iad_request d) = Inr d \<and>
        gp_access_decisions g' = AList.update (iad_decision_id d) d (gp_access_decisions g))" (is ?access)
    and "gp_disclosure_decisions g' = gp_disclosure_decisions g \<or>
      (\<exists>d. decide_disclosure b (engine_state g) (dd_request d) = Inr d \<and>
        gp_disclosure_decisions g' = AList.update (dd_decision_id d) d (gp_disclosure_decisions g))" (is ?disclosure)
    and "gp_declassification_decisions g' = gp_declassification_decisions g \<or>
      (\<exists>d. decide_declassification b (engine_state g) (dn_request d) = Inr d \<and>
        gp_declassification_decisions g' = AList.update (dn_decision_id d) d (gp_declassification_decisions g))"
      (is ?declassification)
    and "gv_declassified_views g' = gv_declassified_views g \<or>
      (\<exists>v. (\<exists>decision. map_of (gp_declassification_decisions g) (ddv_declassification_decision_id v) = Some decision \<and>
         declassification_decision_allowed decision \<and>
         create_declassified_disclosure_view b decision (ddv_created_at v) (gv_last_sequence g) = Inr v \<and>
         map_of (gv_policies g) (ddv_approved_policy_id v) \<noteq> None) \<and>
        gv_declassified_views g' = AList.update (gi_information_id (ddv_information_ref v)) v (gv_declassified_views g))"
      (is ?view)
proof -
  have "?access \<and> ?disclosure \<and> ?declassification \<and> ?view"
    using assms
  proof (cases rule: governance_applyE)
    case (2 g1 n)
    from 2(1) show ?thesis
    proof (cases rule: handle_governance_eventE)
      case 2
      from apply_policy_result [OF this] show ?thesis by (elim exE conjE) (simp add: \<open>g' = _\<close>)
    next
      case 3
      from apply_lineage_result [OF this] show ?thesis by (elim exE conjE) (simp add: \<open>g' = _\<close>)
    next
      case 4
      from apply_binding_result [OF this] show ?thesis by (elim exE conjE) (simp add: \<open>g' = _\<close>)
    next
      case 5
      from apply_quarantine_result [OF this] show ?thesis by (elim exE conjE) (simp add: \<open>g' = _\<close>)
    next
      case 6
      from apply_access_decision_result [OF this] show ?thesis by (elim exE conjE) (auto simp: \<open>g' = _\<close>)
    next
      case 7
      from apply_disclosure_decision_result [OF this] show ?thesis by (elim exE conjE) (auto simp: \<open>g' = _\<close>)
    next
      case 8
      from apply_declassification_decision_result [OF this] show ?thesis by (elim exE conjE) (auto simp: \<open>g' = _\<close>)
    next
      case 9
      from apply_declassified_view_result [OF this] show ?thesis by (elim exE conjE) (auto simp: \<open>g' = _\<close>)
    qed (simp add: \<open>g' = _\<close>)
  qed simp
  note all = this
  show ?access by (rule all [THEN conjunct1])
  show ?disclosure by (rule all [THEN conjunct2, THEN conjunct1])
  show ?declassification by (rule all [THEN conjunct2, THEN conjunct2, THEN conjunct1])
  show ?view by (rule all [THEN conjunct2, THEN conjunct2, THEN conjunct2])
qed

lemma rebuild_decided_then:
  "governance_rebuild b events = Inr g \<Longrightarrow> decided_then b events g"
proof (induction events arbitrary: g rule: rev_induct)
  case Nil
  then show ?case by (auto simp: governance_rebuild_def decided_then_def empty_governance_def)
next
  case (snoc e events)
  then obtain h handled where h: "governance_rebuild b events = Inr h" "governance_apply b h e = Inr (handled, g)"
    by (auto simp: governance_rebuild_snoc)
  note ih = snoc.IH [OF h(1), unfolded decided_then_def]
  note step = apply_decisions [OF h(2)]
  show ?case unfolding decided_then_def
    by (intro conjI; rule decided_then_record [OF _ _ h(1)]) (use ih step in simp_all)
qed

text \<open>Lineage in the order of recording: an item only derives from items recorded before it.\<close>

definition lineage_ordered :: "(string \<times> information_lineage) list \<Rightarrow> bool" where
  "lineage_ordered ls \<longleftrightarrow> distinct (map fst ls) \<and>
     (\<forall>n < length ls. set (il_source_information_ids (snd (ls ! n))) \<subseteq> set (map fst (take n ls)))"

lemma lineage_ordered_snoc:
  "lineage_ordered ls \<Longrightarrow> i \<notin> set (map fst ls) \<Longrightarrow> set (il_source_information_ids l) \<subseteq> set (map fst ls) \<Longrightarrow>
   lineage_ordered (ls @ [(i, l)])"
  by (auto simp: lineage_ordered_def nth_append less_Suc_eq)

lemma apply_lineages:
  assumes "governance_apply b g e = Inr (handled, g')" "lineage_ordered (gv_lineages g)"
  shows "lineage_ordered (gv_lineages g')"
  using assms(1)
proof (cases rule: governance_applyE)
  case (2 g1 n)
  from 2(1) have "lineage_ordered (gv_lineages g1)"
  proof (cases rule: handle_governance_eventE)
    case 2
    from apply_policy_result [OF this] show ?thesis using assms(2) by (elim exE conjE) simp
  next
    case 3
    from apply_lineage_result [OF this] obtain l where
      l: "map_of (gv_lineages g) (il_information_id l) = None \<or> map_of (gv_lineages g) (il_information_id l) = Some l"
      "\<forall>s \<in> set (il_source_information_ids l). map_of (gv_lineages g) s \<noteq> None"
      "g1 = g\<lparr>gv_lineages := AList.update (il_information_id l) l (gv_lineages g)\<rparr>" by (elim exE conjE)
    then have g1: "gv_lineages g1 = AList.update (il_information_id l) l (gv_lineages g)" by simp
    have known: "set (il_source_information_ids l) \<subseteq> set (map fst (gv_lineages g))"
    proof
      fix s assume "s \<in> set (il_source_information_ids l)"
      with l(2) have "map_of (gv_lineages g) s \<noteq> None" by blast
      then show "s \<in> set (map fst (gv_lineages g))" by (simp add: map_of_eq_None_iff)
    qed
    from l(1) show ?thesis
    proof
      assume new: "map_of (gv_lineages g) (il_information_id l) = None"
      then have "il_information_id l \<notin> set (map fst (gv_lineages g))" by (simp add: map_of_eq_None_iff)
      from lineage_ordered_snoc [OF assms(2) this known] show ?thesis unfolding g1 update_new [OF new] .
    next
      assume "map_of (gv_lineages g) (il_information_id l) = Some l"
      then show ?thesis using assms(2) by (simp add: g1 update_present)
    qed
  next
    case 4
    from apply_binding_result [OF this] show ?thesis using assms(2) by (elim exE conjE) simp
  next
    case 5
    from apply_quarantine_result [OF this] show ?thesis using assms(2) by (elim exE conjE) simp
  next
    case 6
    from apply_access_decision_result [OF this] show ?thesis using assms(2) by (elim exE conjE) simp
  next
    case 7
    from apply_disclosure_decision_result [OF this] show ?thesis using assms(2) by (elim exE conjE) simp
  next
    case 8
    from apply_declassification_decision_result [OF this] show ?thesis using assms(2) by (elim exE conjE) simp
  next
    case 9
    from apply_declassified_view_result [OF this] show ?thesis using assms(2) by (elim exE conjE) simp
  qed (use assms(2) in simp)
  then show ?thesis by (simp add: 2(2))
qed (use assms(2) in simp)

interpretation governed: append_only empty_governance "governance_step b" "\<lambda>g. lineage_ordered (gv_lineages g)" extends
proof unfold_locales
  show "lineage_ordered (gv_lineages empty_governance)" by (simp add: lineage_ordered_def empty_governance_def)
next
  fix b g e g' assume "lineage_ordered (gv_lineages g)" "governance_step b g e = Inr g'"
  then show "lineage_ordered (gv_lineages g')" by (auto simp: governance_step_apply intro: apply_lineages)
next
  fix b g e g' assume "governance_step b g e = Inr g'"
  then show "extends g g'" by (auto simp: governance_step_apply intro: extends_step)
qed (fact extends_refl extends_trans)+

lemma rebuild_lineage_ordered: "governance_rebuild b events = Inr g \<Longrightarrow> lineage_ordered (gv_lineages g)"
  unfolding governance_rebuild_fold by (rule governed.inv_rebuild)

lemma lineage_ordered_acyclic:
  assumes "lineage_ordered (gv_lineages g)"
  shows "\<not> (parent g)\<^sup>+\<^sup>+ i i"
proof -
  let ?ls = "gv_lineages g"
  define rank where "rank i = (THE n. n < length ?ls \<and> fst (?ls ! n) = i)" for i
  have d: "distinct (map fst ?ls)" using assms by (simp add: lineage_ordered_def)
  have rank: "rank (fst (?ls ! n)) = n" if "n < length ?ls" for n
    unfolding rank_def
  proof (rule the_equality)
    show "n < length ?ls \<and> fst (?ls ! n) = fst (?ls ! n)" using that by simp
  next
    fix m assume m: "m < length ?ls \<and> fst (?ls ! m) = fst (?ls ! n)"
    then show "m = n" using d that nth_eq_iff_index_eq [of "map fst ?ls" m n] by simp
  qed
  have down: "rank p < rank j" if "parent g j p" for j p
  proof -
    from that obtain l where l: "map_of ?ls j = Some l" "p \<in> set (il_source_information_ids l)"
      by (auto simp: parent_def)
    from map_of_SomeD [OF l(1)] obtain n where n: "n < length ?ls" "?ls ! n = (j, l)" by (auto simp: in_set_conv_nth)
    then have "p \<in> set (map fst (take n ?ls))" using assms l(2) by (force simp: lineage_ordered_def)
    then obtain m where m: "m < n" "fst (?ls ! m) = p" by (auto simp: in_set_conv_nth)
    then show ?thesis using rank [of n] rank [of m] n by simp
  qed
  have "rank p < rank j" if "(parent g)\<^sup>+\<^sup>+ j p" for j p
    using that by (induction) (auto dest: down)
  from this [of i i] show ?thesis by blast
qed

text \<open>
  C33: Every material decision that a projection rebuilt from a history holds is the one that the engine
  makes, on the state rebuilt from the events before it, for its request; and every declassified view
  was created from a declassification decision that was recorded before it and allowed, under an
  approved policy that was known.
\<close>

theorem recorded_decisions_are_replayed:
  assumes "governance_rebuild b events = Inr g"
  shows "(\<forall>k d. map_of (gp_access_decisions g) k = Some d \<longrightarrow> k = iad_decision_id d \<and>
       at_some_point b events (\<lambda>h. decide_access b (engine_state h) (iad_request d) = Inr d)) \<and>
    (\<forall>k d. map_of (gp_disclosure_decisions g) k = Some d \<longrightarrow> k = dd_decision_id d \<and>
       at_some_point b events (\<lambda>h. decide_disclosure b (engine_state h) (dd_request d) = Inr d)) \<and>
    (\<forall>k d. map_of (gp_declassification_decisions g) k = Some d \<longrightarrow> k = dn_decision_id d \<and>
       at_some_point b events (\<lambda>h. decide_declassification b (engine_state h) (dn_request d) = Inr d)) \<and>
    (\<forall>k v. map_of (gv_declassified_views g) k = Some v \<longrightarrow> k = gi_information_id (ddv_information_ref v) \<and>
       at_some_point b events (\<lambda>h. \<exists>decision.
         map_of (gp_declassification_decisions h) (ddv_declassification_decision_id v) = Some decision \<and>
         declassification_decision_allowed decision \<and>
         create_declassified_disclosure_view b decision (ddv_created_at v) (gv_last_sequence h) = Inr v \<and>
         map_of (gv_policies h) (ddv_approved_policy_id v) \<noteq> None))"
  using rebuild_decided_then [OF assms] unfolding decided_then_def .

text \<open>
  C34: Governance records are append-only. Whatever events follow, a rebuilt projection keeps every policy
  version, lineage, binding, quarantine record, material decision and declassified view that it had, and
  no item ever derives from itself through its lineage.
\<close>

theorem governance_records_are_append_only:
  assumes "governance_rebuild b (events @ later) = Inr g'"
  shows "\<exists>g. governance_rebuild b events = Inr g \<and> extends g g' \<and> (\<forall>i. \<not> (parent (engine_state g'))\<^sup>+\<^sup>+ i i)"
  using governed.history_kept [of b events later g'] assms lineage_ordered_acyclic [of "engine_state g'"]
  by (auto simp: governance_rebuild_fold)

subsection \<open>Completeness of a composition\<close>

text \<open>Every item that \<open>i\<close> derives from, itself included, is bound under its own lineage.\<close>

definition fully_bound :: "governance_state \<Rightarrow> string \<Rightarrow> bool" where
  "fully_bound g i \<longleftrightarrow> (\<forall>a. (parent g)\<^sup>*\<^sup>* i a \<longrightarrow> (\<exists>x l. map_of (gv_bindings g) a = Some x \<and>
     map_of (gv_lineages g) a = Some l \<and> pb_lineage_id x = il_lineage_id l))"

definition governing_policies :: "governance_state \<Rightarrow> string \<Rightarrow> string set" where
  "governing_policies g i = {p. \<exists>a x. (parent g)\<^sup>*\<^sup>* i a \<and> map_of (gv_bindings g) a = Some x \<and> p \<in> set (pb_policy_ids x)}"

lemma fully_bound_parent: "fully_bound g i \<Longrightarrow> parent g i p \<Longrightarrow> fully_bound g p"
  unfolding fully_bound_def by (meson converse_rtranclp_into_rtranclp)

lemma governing_step:
  assumes "map_of (gv_bindings g) i = Some x" "map_of (gv_lineages g) i = Some l"
  shows "governing_policies g i = set (pb_policy_ids x) \<union> (\<Union>p \<in> set (il_source_information_ids l). governing_policies g p)"
proof -
  have "(parent g)\<^sup>*\<^sup>* i a \<longleftrightarrow> a = i \<or> (\<exists>p \<in> set (il_source_information_ids l). (parent g)\<^sup>*\<^sup>* p a)" for a
    using assms(2) by (auto simp: parent_def elim: converse_rtranclpE intro: converse_rtranclp_into_rtranclp)
  then show ?thesis using assms(1) by (auto simp: governing_policies_def)
qed

lemma collected:
  "(\<forall>i. \<not> (parent g)\<^sup>+\<^sup>+ i i) \<Longrightarrow> (\<forall>v \<in> set visiting. (parent g)\<^sup>+\<^sup>+ v i) \<Longrightarrow> fully_bound g i \<Longrightarrow>
      set (fst (resolve_info g visiting i acc)) = set (fst acc) \<union> governing_policies g i \<and>
      snd (snd (resolve_info g visiting i acc)) = snd (snd acc)"
  "(\<forall>i. \<not> (parent g)\<^sup>+\<^sup>+ i i) \<Longrightarrow> (\<forall>p \<in> set ps. \<forall>v \<in> set visiting. (parent g)\<^sup>+\<^sup>+ v p) \<Longrightarrow> (\<forall>p \<in> set ps. fully_bound g p) \<Longrightarrow>
      set (fst (resolve_infos g visiting ps acc)) = set (fst acc) \<union> (\<Union>p \<in> set ps. governing_policies g p) \<and>
      snd (snd (resolve_infos g visiting ps acc)) = snd (snd acc)"
proof (induction g visiting i acc and g visiting ps acc rule: resolve_info_resolve_infos.induct)
  case (1 g visiting i policy_ids source_ids conflicts)
  have new: "i \<notin> set visiting" using "1.prems"(1,2) by blast
  obtain x l where x: "map_of (gv_bindings g) i = Some x" and l: "map_of (gv_lineages g) i = Some l"
    and same: "pb_lineage_id x = il_lineage_id l"
    using "1.prems"(3) unfolding fully_bound_def by blast
  note step = governing_step [OF x l]
  show ?case
  proof (cases "il_source_information_ids l = []")
    case True
    then show ?thesis using new x l same step by simp
  next
    case False
    have p: "parent g i p" if "p \<in> set (il_source_information_ids l)" for p
      using that l by (auto simp: parent_def)
    have "(parent g)\<^sup>+\<^sup>+ v p" if "p \<in> set (il_source_information_ids l)" "v \<in> set (i # visiting)" for v p
      using p [OF that(1)] that(2) "1.prems"(2) by (auto intro: tranclp.trancl_into_trancl)
    moreover have "fully_bound g p" if "p \<in> set (il_source_information_ids l)" for p
      by (rule fully_bound_parent [OF "1.prems"(3) p [OF that]])
    ultimately show ?thesis
      using "1.IH" [OF new, of "Some x" "Some l" x l] "1.prems"(1) False new x l same step by (simp add: Un_assoc)
  qed
next
  case (3 g visiting p parents acc)
  then show ?case by (simp add: Un_assoc)
qed simp_all

text \<open>
  C35: The engine sees exactly the policies that govern an item. On a state rebuilt from any history, when
  every item of the lineage of \<open>i\<close> is bound under its own lineage, the walk through the
  lineage collects exactly the policies of those bindings, each one of them, and reports no conflict:
  neither a policy is missed nor is access denied for a lineage that is complete.
\<close>

theorem lineage_walk_is_exact:
  assumes "governance_rebuild b events = Inr g" "fully_bound (engine_state g) i"
  shows "\<exists>policy_ids source_ids. resolve_info (engine_state g) [] i ([], [], []) = (policy_ids, source_ids, []) \<and>
     set policy_ids = governing_policies (engine_state g) i"
proof -
  have "\<forall>j. \<not> (parent (engine_state g))\<^sup>+\<^sup>+ j j"
    using lineage_ordered_acyclic [of "engine_state g"] rebuild_lineage_ordered [OF assms(1)] by simp
  from collected(1) [where acc = "([], [], [])" and visiting = "[]", OF this _ assms(2)] show ?thesis
    by (cases "resolve_info (engine_state g) [] i ([], [], [])") simp
qed

text \<open>
  The identifier of a hold is not checked against its content. When two policies carry the same hold
  identifier, the composition keeps the hold of the later policy only: an active hold disappears behind
  an inactive one, and with it the conflict that denies deletion.
\<close>

lemma reused_hold_id_loses_hold:
  assumes "rp_holds (ip_retention p) = [h]" "rp_holds (ip_retention q) = [h']"
    "hc_hold_id h = hc_hold_id h'" "hc_active h" "\<not> hc_active h'"
  shows "active_holds (ip_retention p) = [h]" "active_holds (compose_retention [p, q]) = []"
  using assms by (simp_all add: active_holds_def compose_retention_def Let_def collect_holds_def)

subsection \<open>A run\<close>

text \<open>
  A report recorded under a narrow policy and a summary derived from it under a wider one: the summary may
  be read by the analyst, whom both policies name, and not by the guest, whom only its own policy names.
\<close>

definition governed_builtins :: builtins where
  "governed_builtins = \<lparr>bi_str = (\<lambda>_. ''?''), bi_int = (\<lambda>_. Inl (TypeError ''int'')),
     bi_dict = (\<lambda>_. Inl (TypeError ''dict'')), bi_float = (\<lambda>_. Inl (TypeError ''float'')),
     bi_iter = (\<lambda>_. Inl (TypeError ''iter'')), bi_fromiso = (\<lambda>_. Inl (ValueError ''iso'')),
     bi_sha = (\<lambda>d. replicate 32 (case jget d ''version'' of JInt n \<Rightarrow> if n = 2 then CHR ''b'' else CHR ''a''
       | _ \<Rightarrow> CHR ''0''))\<rparr>"

definition gid :: "string \<Rightarrow> char \<Rightarrow> string" where
  "gid prefix c = prefix @ replicate 32 c"

definition run_policy :: "int \<Rightarrow> char \<Rightarrow> string list \<Rightarrow> information_policy" where
  "run_policy n c recipients =
     \<lparr>ip_policy_id = gid ''ipol_'' c, ip_version = n, ip_origin_domains = [''hq''], ip_classification = CONFIDENTIAL,
      ip_allowed_purposes = [''review''], ip_allowed_recipients = recipients, ip_allowed_trust_domains = [''hq''],
      ip_allowed_localities = [''local''], ip_allowed_providers = [''p''], ip_cross_agent_sharing = False,
      ip_retention = \<lparr>rp_retain_until = None, rp_delete_after = None, rp_deletion_required = False, rp_holds = []\<rparr>,
      ip_disclosure_forms = [FULL], ip_declassification_authorities = [''boss''], ip_recorded_at = Aware 1,
      ip_allowed_secondary_uses = [LEARN], ip_secondary_use_semantics_version = 2\<rparr>"

definition run_lineage :: "char \<Rightarrow> char list \<Rightarrow> information_lineage" where
  "run_lineage c sources =
     \<lparr>il_lineage_id = gid ''lineage_'' CHR ''0'', il_information_id = gid ''info_'' c,
      il_source_information_ids = map (gid ''info_'') sources,
      il_transformation = (if sources = [] then SOURCE else DERIVATION), il_recorded_at = Aware 2\<rparr>"

definition run_binding :: "char \<Rightarrow> char \<Rightarrow> policy_binding" where
  "run_binding c p =
     \<lparr>pb_binding_id = gid ''binding_'' CHR ''0'', pb_information_id = gid ''info_'' c,
      pb_lineage_id = gid ''lineage_'' CHR ''0'', pb_policy_ids = [gid ''ipol_'' p], pb_bound_at = Aware 3\<rparr>"

definition run_request :: "string \<Rightarrow> information_access_request" where
  "run_request who =
     \<lparr>iar_request_id = gid ''iarequest_'' CHR ''0'', iar_information_ref = \<lparr>gi_information_id = gid ''info_'' CHR ''d''\<rparr>,
      iar_context = \<lparr>ac_context_id = gid ''access_'' CHR ''0'', ac_actor_id = ''host'',
      ac_principal = \<lparr>ps_snapshot_id = gid ''principal_'' CHR ''0'', ps_principal_id = who,
        ps_roles = [], ps_groups = [], ps_trust_domains = [''hq''], ps_captured_at = Aware 4\<rparr>,
      ac_purpose = ''review'', ac_operation = READ, ac_source_trust_domain = ''hq'', ac_destination_trust_domain = None,
      ac_recipient = None, ac_decision_time = Aware 5, ac_policy_ids = [gid ''ipol_'' CHR ''a'', gid ''ipol_'' CHR ''b''],
      ac_source_lineage_refs = [gid ''info_'' CHR ''c''],
      ac_locality = ''local'', ac_provider_id = None, ac_provider_security_posture = [], ac_disclosure_form = None\<rparr>\<rparr>"

definition run_decision :: information_access_decision where
  "run_decision =
     \<lparr>iad_decision_id = gid ''iadecision_'' CHR ''0'', iad_request = run_request ''ann'',
      iad_composition_id = gid ''composition_'' CHR ''0'',
      iad_policy_decision = \<lparr>pd_operation = READ, pd_disposition = ALLOW, pd_reasons = [PERMITTED], pd_conflicts = []\<rparr>,
      iad_decided_at = Aware 5, iad_causal_event_cursor = 6\<rparr>"

definition run_events :: "jobject event list" where
  "run_events = map (\<lambda>(e, n). with_sequence (projr e) n) (zip
     [information_policy_to_event (run_policy 1 CHR ''a'' [''ann'']) ''run'',
      information_policy_to_event (run_policy 2 CHR ''b'' [''ann'', ''guest'']) ''run'',
      information_lineage_to_event (run_lineage CHR ''c'' []) ''run'',
      information_lineage_to_event (run_lineage CHR ''d'' [CHR ''c'']) ''run'',
      policy_binding_to_event (run_binding CHR ''c'' CHR ''a'') ''run'',
      policy_binding_to_event (run_binding CHR ''d'' CHR ''b'') ''run'']
     [1, 2, 3, 4, 5, 6])"

definition run_decided :: "jobject event" where
  "run_decided = with_sequence (projr (information_access_decision_to_event run_decision ''run'')) 7"

definition run_state :: governance where
  "run_state = \<lparr>gv_policies = [(gid ''ipol_'' CHR ''a'', run_policy 1 CHR ''a'' [''ann'']),
       (gid ''ipol_'' CHR ''b'', run_policy 2 CHR ''b'' [''ann'', ''guest''])],
     gv_lineages = [(gid ''info_'' CHR ''c'', run_lineage CHR ''c'' []), (gid ''info_'' CHR ''d'', run_lineage CHR ''d'' [CHR ''c''])],
     gv_bindings = [(gid ''info_'' CHR ''c'', run_binding CHR ''c'' CHR ''a''),
       (gid ''info_'' CHR ''d'', run_binding CHR ''d'' CHR ''b'')],
     gv_quarantines = [], gv_declassified_views = [], gv_last_sequence = 6,
     gp_last_event_id = Some (ev_id (run_events ! 5)), gp_quarantine_records = [],
     gp_access_decisions = [], gp_disclosure_decisions = [], gp_declassification_decisions = []\<rparr>"

lemma run_allowed: "decide_access governed_builtins (engine_state run_state) (run_request ''ann'') = Inr run_decision"
  by code_simp

lemma run_refused:
  "map_sum id iad_policy_decision (decide_access governed_builtins (engine_state run_state) (run_request ''guest'')) =
     Inr \<lparr>pd_operation = READ, pd_disposition = DENY, pd_reasons = [RECIPIENT_NOT_PERMITTED], pd_conflicts = []\<rparr>"
  by code_simp

lemma run_rebuilt: "governance_rebuild governed_builtins run_events = Inr run_state"
  by code_simp

lemma run_recorded:
  "map_sum id (gp_access_decisions \<circ> snd) (governance_apply governed_builtins run_state run_decided) =
   Inr [(gid ''iadecision_'' CHR ''0'', run_decision)]"
  by code_simp

lemma run_decided_rebuilt:
  obtains g where "governance_rebuild governed_builtins (run_events @ [run_decided]) = Inr g"
    "map_of (gp_access_decisions g) (gid ''iadecision_'' CHR ''0'') = Some run_decision"
proof (cases "governance_apply governed_builtins run_state run_decided")
  case (Inl x)
  then show thesis using run_recorded by simp
next
  case (Inr r)
  have "governance_rebuild governed_builtins (run_events @ [run_decided]) = Inr (snd r)"
    unfolding governance_rebuild_snoc using run_rebuilt Inr by (intro exI [of _ run_state] exI [of _ "fst r"]) simp
  then show thesis by (rule that) (use run_recorded Inr in simp)
qed


theorem recorded_decisions_are_replayed_witness:
  "\<exists>g. governance_rebuild governed_builtins (run_events @ [run_decided]) = Inr g \<and>
     map_of (gp_access_decisions g) (gid ''iadecision_'' CHR ''0'') = Some run_decision \<and>
     at_some_point governed_builtins (run_events @ [run_decided])
       (\<lambda>h. decide_access governed_builtins (engine_state h) (iad_request run_decision) = Inr run_decision)"
proof -
  obtain g where g: "governance_rebuild governed_builtins (run_events @ [run_decided]) = Inr g"
    "map_of (gp_access_decisions g) (gid ''iadecision_'' CHR ''0'') = Some run_decision" by (rule run_decided_rebuilt)
  with recorded_decisions_are_replayed [OF g(1), THEN conjunct1] show ?thesis by blast
qed

theorem governance_records_are_append_only_witness:
  "\<exists>g'. governance_rebuild governed_builtins (run_events @ [run_decided]) = Inr g' \<and> extends run_state g'"
proof -
  obtain g' where g': "governance_rebuild governed_builtins (run_events @ [run_decided]) = Inr g'"
    by (rule run_decided_rebuilt)
  from governance_records_are_append_only [OF this] run_rebuilt show ?thesis using g' by auto
qed

lemma fully_bound_walk: "incomplete \<notin> set (snd (snd (resolve_info g [] i ([], [], [])))) \<Longrightarrow> fully_bound g i"
  unfolding fully_bound_def using resolve_info_start [of g i] unfolding covered_def by blast

theorem lineage_walk_is_exact_witness:
  "fully_bound (engine_state run_state) (gid ''info_'' CHR ''d'') \<and>
   (\<exists>policy_ids source_ids.
     resolve_info (engine_state run_state) [] (gid ''info_'' CHR ''d'') ([], [], []) = (policy_ids, source_ids, []) \<and>
     set policy_ids = governing_policies (engine_state run_state) (gid ''info_'' CHR ''d''))"
proof -
  have "snd (snd (resolve_info (engine_state run_state) [] (gid ''info_'' CHR ''d'') ([], [], []))) = []" by code_simp
  then have "fully_bound (engine_state run_state) (gid ''info_'' CHR ''d'')" by (intro fully_bound_walk) simp
  with lineage_walk_is_exact [OF run_rebuilt] show ?thesis by blast
qed

end
