(* ===== verification/EndogenousModels.thy ===== *)
theory EndogenousModels
  imports JsonFields "HOL-Library.Product_Lexorder"
begin

section \<open>Contracts of endogenous cognition\<close>

text \<open>
  Models \<^verbatim>\<open>src/noema/endogenous/models.py\<close>: the immutable contracts of background cognition
  (policy, scan request, dream epoch, inquiry, activity, value-of-cognition estimate, agenda, calibration).
  The identifier of a contract is the digest of its content, which its constructor checks again, so a
  payload whose content was changed does not read back. Each contract has a lemma that what it writes it
  reads back. \<open>round(x, 12)\<close> is \<open>round12\<close> on exact reals.
\<close>

subsection \<open>Vocabulary\<close>

definition POLICY_SNAPSHOT_RECORDED_EVENT :: string where "POLICY_SNAPSHOT_RECORDED_EVENT = ''endogenous.policy_snapshot_recorded''"
definition COGNITION_SCAN_REQUESTED_EVENT :: string where "COGNITION_SCAN_REQUESTED_EVENT = ''endogenous.scan_requested''"
definition DREAM_EPOCH_STARTED_EVENT :: string where "DREAM_EPOCH_STARTED_EVENT = ''endogenous.dream_epoch_started''"
definition INQUIRY_RECORDED_EVENT :: string where "INQUIRY_RECORDED_EVENT = ''endogenous.inquiry_recorded''"
definition INTRINSIC_ACTIVITY_RECORDED_EVENT :: string where "INTRINSIC_ACTIVITY_RECORDED_EVENT = ''endogenous.activity_recorded''"
definition VOC_EVALUATED_EVENT :: string where "VOC_EVALUATED_EVENT = ''endogenous.voc_evaluated''"
definition AGENDA_SELECTED_EVENT :: string where "AGENDA_SELECTED_EVENT = ''endogenous.agenda_selected''"
definition CALIBRATION_EXCHANGE_RECORDED_EVENT :: string where "CALIBRATION_EXCHANGE_RECORDED_EVENT = ''endogenous.calibration_exchange_recorded''"
definition DREAM_EPOCH_PREEMPTED_EVENT :: string where "DREAM_EPOCH_PREEMPTED_EVENT = ''endogenous.dream_epoch_preempted''"
definition DREAM_EPOCH_EXPIRED_EVENT :: string where "DREAM_EPOCH_EXPIRED_EVENT = ''endogenous.dream_epoch_expired''"
definition DREAM_EPOCH_ABANDONED_EVENT :: string where "DREAM_EPOCH_ABANDONED_EVENT = ''endogenous.dream_epoch_abandoned''"
definition STABLE_GREEDY_SELECTOR_ID :: string where "STABLE_GREEDY_SELECTOR_ID = ''stable-greedy-multidimensional''"
definition STABLE_GREEDY_SELECTOR_VERSION :: int where "STABLE_GREEDY_SELECTOR_VERSION = 1"

definition ENDOGENOUS_EVENT_TYPES :: "string list" where
  "ENDOGENOUS_EVENT_TYPES =
     [POLICY_SNAPSHOT_RECORDED_EVENT, COGNITION_SCAN_REQUESTED_EVENT, DREAM_EPOCH_STARTED_EVENT, INQUIRY_RECORDED_EVENT,
      INTRINSIC_ACTIVITY_RECORDED_EVENT, VOC_EVALUATED_EVENT, AGENDA_SELECTED_EVENT,
      CALIBRATION_EXCHANGE_RECORDED_EVENT, DREAM_EPOCH_PREEMPTED_EVENT, DREAM_EPOCH_EXPIRED_EVENT,
      DREAM_EPOCH_ABANDONED_EVENT]"

lemmas endogenous_event_defs = POLICY_SNAPSHOT_RECORDED_EVENT_def COGNITION_SCAN_REQUESTED_EVENT_def
  DREAM_EPOCH_STARTED_EVENT_def INQUIRY_RECORDED_EVENT_def INTRINSIC_ACTIVITY_RECORDED_EVENT_def VOC_EVALUATED_EVENT_def
  AGENDA_SELECTED_EVENT_def CALIBRATION_EXCHANGE_RECORDED_EVENT_def DREAM_EPOCH_PREEMPTED_EVENT_def
  DREAM_EPOCH_EXPIRED_EVENT_def DREAM_EPOCH_ABANDONED_EVENT_def

datatype endogenous_drive = COHERENCE | CURIOSITY | GOAL_MAINTENANCE | SOCIAL_CALIBRATION

primrec endogenous_drive_value :: "endogenous_drive \<Rightarrow> string" where
  "endogenous_drive_value COHERENCE = ''coherence''"
| "endogenous_drive_value CURIOSITY = ''curiosity''"
| "endogenous_drive_value GOAL_MAINTENANCE = ''goal_maintenance''"
| "endogenous_drive_value SOCIAL_CALIBRATION = ''social_calibration''"

definition endogenous_drive_of :: "string \<Rightarrow> endogenous_drive result" where
  "endogenous_drive_of s =
     (if s = ''coherence'' then Inr COHERENCE
      else if s = ''curiosity'' then Inr CURIOSITY
      else if s = ''goal_maintenance'' then Inr GOAL_MAINTENANCE
      else if s = ''social_calibration'' then Inr SOCIAL_CALIBRATION
      else Inl (ValueError ''not a valid EndogenousDrive''))"

lemma endogenous_drive_of_value [simp]: "endogenous_drive_of (endogenous_drive_value x) = Inr x"
  by (cases x) (simp_all add: endogenous_drive_of_def)

lemma endogenous_drive_of_values [simp]: "mapM endogenous_drive_of (map endogenous_drive_value xs) = Inr xs"
  by (rule mapM_read_written) simp

datatype inquiry_status = OPEN

primrec inquiry_status_value :: "inquiry_status \<Rightarrow> string" where
  "inquiry_status_value OPEN = ''open''"

definition inquiry_status_of :: "string \<Rightarrow> inquiry_status result" where
  "inquiry_status_of s =
     (if s = ''open'' then Inr OPEN
      else Inl (ValueError ''not a valid InquiryStatus''))"

lemma inquiry_status_of_value [simp]: "inquiry_status_of (inquiry_status_value x) = Inr x"
  by (cases x) (simp_all add: inquiry_status_of_def)

lemma inquiry_status_of_values [simp]: "mapM inquiry_status_of (map inquiry_status_value xs) = Inr xs"
  by (rule mapM_read_written) simp

datatype intrinsic_activity_kind = INQUIRY | BELIEF_MAINTENANCE | GOAL_OR_ROADMAP_MAINTENANCE | PEER_CALIBRATION
    | BOUNDED_SIMULATION_CANDIDATE

primrec intrinsic_activity_kind_value :: "intrinsic_activity_kind \<Rightarrow> string" where
  "intrinsic_activity_kind_value INQUIRY = ''inquiry''"
| "intrinsic_activity_kind_value BELIEF_MAINTENANCE = ''belief_maintenance''"
| "intrinsic_activity_kind_value GOAL_OR_ROADMAP_MAINTENANCE = ''goal_or_roadmap_maintenance''"
| "intrinsic_activity_kind_value PEER_CALIBRATION = ''peer_calibration''"
| "intrinsic_activity_kind_value BOUNDED_SIMULATION_CANDIDATE = ''bounded_simulation_candidate''"

definition intrinsic_activity_kind_of :: "string \<Rightarrow> intrinsic_activity_kind result" where
  "intrinsic_activity_kind_of s =
     (if s = ''inquiry'' then Inr INQUIRY
      else if s = ''belief_maintenance'' then Inr BELIEF_MAINTENANCE
      else if s = ''goal_or_roadmap_maintenance'' then Inr GOAL_OR_ROADMAP_MAINTENANCE
      else if s = ''peer_calibration'' then Inr PEER_CALIBRATION
      else if s = ''bounded_simulation_candidate'' then Inr BOUNDED_SIMULATION_CANDIDATE
      else Inl (ValueError ''not a valid IntrinsicActivityKind''))"

lemma intrinsic_activity_kind_of_value [simp]: "intrinsic_activity_kind_of (intrinsic_activity_kind_value x) = Inr x"
  by (cases x) (simp_all add: intrinsic_activity_kind_of_def)

lemma intrinsic_activity_kind_of_values [simp]: "mapM intrinsic_activity_kind_of (map intrinsic_activity_kind_value xs) = Inr xs"
  by (rule mapM_read_written) simp

datatype activity_disposition = SELECTED | DEFERRED | SUPPRESSED

primrec activity_disposition_value :: "activity_disposition \<Rightarrow> string" where
  "activity_disposition_value SELECTED = ''selected''"
| "activity_disposition_value DEFERRED = ''deferred''"
| "activity_disposition_value SUPPRESSED = ''suppressed''"

definition activity_disposition_of :: "string \<Rightarrow> activity_disposition result" where
  "activity_disposition_of s =
     (if s = ''selected'' then Inr SELECTED
      else if s = ''deferred'' then Inr DEFERRED
      else if s = ''suppressed'' then Inr SUPPRESSED
      else Inl (ValueError ''not a valid ActivityDisposition''))"

lemma activity_disposition_of_value [simp]: "activity_disposition_of (activity_disposition_value x) = Inr x"
  by (cases x) (simp_all add: activity_disposition_of_def)

lemma activity_disposition_of_values [simp]: "mapM activity_disposition_of (map activity_disposition_value xs) = Inr xs"
  by (rule mapM_read_written) simp

datatype dream_epoch_status = ACTIVE | PREEMPTED | EXPIRED | ABANDONED

primrec dream_epoch_status_value :: "dream_epoch_status \<Rightarrow> string" where
  "dream_epoch_status_value ACTIVE = ''active''"
| "dream_epoch_status_value PREEMPTED = ''preempted''"
| "dream_epoch_status_value EXPIRED = ''expired''"
| "dream_epoch_status_value ABANDONED = ''abandoned''"

definition dream_epoch_status_of :: "string \<Rightarrow> dream_epoch_status result" where
  "dream_epoch_status_of s =
     (if s = ''active'' then Inr ACTIVE
      else if s = ''preempted'' then Inr PREEMPTED
      else if s = ''expired'' then Inr EXPIRED
      else if s = ''abandoned'' then Inr ABANDONED
      else Inl (ValueError ''not a valid DreamEpochStatus''))"

lemma dream_epoch_status_of_value [simp]: "dream_epoch_status_of (dream_epoch_status_value x) = Inr x"
  by (cases x) (simp_all add: dream_epoch_status_of_def)

lemma dream_epoch_status_of_values [simp]: "mapM dream_epoch_status_of (map dream_epoch_status_value xs) = Inr xs"
  by (rule mapM_read_written) simp

datatype dream_abandonment_reason = GOVERNING_INTENT_CHANGED

primrec dream_abandonment_reason_value :: "dream_abandonment_reason \<Rightarrow> string" where
  "dream_abandonment_reason_value GOVERNING_INTENT_CHANGED = ''governing_intent_changed''"

definition dream_abandonment_reason_of :: "string \<Rightarrow> dream_abandonment_reason result" where
  "dream_abandonment_reason_of s =
     (if s = ''governing_intent_changed'' then Inr GOVERNING_INTENT_CHANGED
      else Inl (ValueError ''not a valid DreamAbandonmentReason''))"

lemma dream_abandonment_reason_of_value [simp]: "dream_abandonment_reason_of (dream_abandonment_reason_value x) = Inr x"
  by (cases x) (simp_all add: dream_abandonment_reason_of_def)

lemma dream_abandonment_reason_of_values [simp]: "mapM dream_abandonment_reason_of (map dream_abandonment_reason_value xs) = Inr xs"
  by (rule mapM_read_written) simp

datatype cognitive_authority_ceiling = DREAM_PROPOSAL_ONLY

primrec cognitive_authority_ceiling_value :: "cognitive_authority_ceiling \<Rightarrow> string" where
  "cognitive_authority_ceiling_value DREAM_PROPOSAL_ONLY = ''dream_proposal_only''"

definition cognitive_authority_ceiling_of :: "string \<Rightarrow> cognitive_authority_ceiling result" where
  "cognitive_authority_ceiling_of s =
     (if s = ''dream_proposal_only'' then Inr DREAM_PROPOSAL_ONLY
      else Inl (ValueError ''not a valid CognitiveAuthorityCeiling''))"

lemma cognitive_authority_ceiling_of_value [simp]: "cognitive_authority_ceiling_of (cognitive_authority_ceiling_value x) = Inr x"
  by (cases x) (simp_all add: cognitive_authority_ceiling_of_def)

lemma cognitive_authority_ceiling_of_values [simp]: "mapM cognitive_authority_ceiling_of (map cognitive_authority_ceiling_value xs) = Inr xs"
  by (rule mapM_read_written) simp

subsection \<open>Numbers\<close>

definition round12 :: "pyfloat \<Rightarrow> pyfloat" where
  "round12 x = (case x of Fin a \<Rightarrow> Fin (of_int (round_half_even (a * 10 ^ 12)) / 10 ^ 12) | _ \<Rightarrow> x)"

subsection \<open>GoverningIntentRef\<close>

record governing_intent_ref =
  gir_goal_id :: string
  gir_goal_revision_id :: string

definition check_governing_intent_ref :: "governing_intent_ref \<Rightarrow> unit result" where
  "check_governing_intent_ref x = raise_first
     (require_text (gir_goal_id x) ''governing goal id'' @
      require_text (gir_goal_revision_id x) ''governing goal revision id'')"

definition governing_intent_ref_to_dict :: "governing_intent_ref \<Rightarrow> jobject" where
  "governing_intent_ref_to_dict x =
     [(''goal_id'', JStr (gir_goal_id x)),
      (''goal_revision_id'', JStr (gir_goal_revision_id x))]"

definition governing_intent_ref_from_dict :: "builtins \<Rightarrow> jobject \<Rightarrow> governing_intent_ref result" where
  "governing_intent_ref_from_dict b d =
     rbind (j_str b d ''goal_id'') (\<lambda>goal_id.
     rbind (j_str b d ''goal_revision_id'') (\<lambda>goal_revision_id.
     let x = \<lparr>gir_goal_id = goal_id, gir_goal_revision_id = goal_revision_id\<rparr> in
     rbind (check_governing_intent_ref x) (\<lambda>_.
     Inr x)))"

definition governing_intent_ref_ok :: "builtins \<Rightarrow> governing_intent_ref \<Rightarrow> bool" where
  "governing_intent_ref_ok b x \<longleftrightarrow> check_governing_intent_ref x = Inr ()"

lemma governing_intent_ref_round_trip:
  assumes "governing_intent_ref_ok b x"
  shows "governing_intent_ref_from_dict b (governing_intent_ref_to_dict x) = Inr x"
proof -
  have k: "check_governing_intent_ref x = Inr ()" using assms by (simp add: governing_intent_ref_ok_def)
  show ?thesis
    using k assms
    by (cases x) (simp add: governing_intent_ref_ok_def governing_intent_ref_from_dict_def governing_intent_ref_to_dict_def codec Let_def)
qed

lemma governing_intent_ref_list_round_trip:
  "list_all (governing_intent_ref_ok b) xs \<Longrightarrow> mapM (\<lambda>v. rbind (as_obj v) (governing_intent_ref_from_dict b)) (map (JObj \<circ> governing_intent_ref_to_dict) xs) = Inr xs"
  by (rule mapM_read_written) (auto simp: list_all_iff governing_intent_ref_round_trip codec)

text \<open>\<open>sorted(set(refs))\<close>: the dataclass compares field by field.\<close>

definition ordered_intents :: "governing_intent_ref list \<Rightarrow> governing_intent_ref list" where
  "ordered_intents refs = sort_key (\<lambda>r. (gir_goal_id r, gir_goal_revision_id r)) (remdups refs)"

subsection \<open>CognitiveResourceVector\<close>

record cognitive_resource_vector =
  crv_activities :: int
  crv_compute_units :: pyfloat
  crv_wall_time_seconds :: pyfloat
  crv_attention_units :: pyfloat
  crv_privacy_risk_units :: pyfloat

definition check_cognitive_resource_vector :: "cognitive_resource_vector \<Rightarrow> unit result" where
  "check_cognitive_resource_vector x = raise_first
     ([(crv_activities x < 0, ValueError ''cognitive activity count cannot be negative'')] @
      non_negative (crv_compute_units x) ''compute units'' @
      non_negative (crv_wall_time_seconds x) ''wall-time seconds'' @
      non_negative (crv_attention_units x) ''attention units'' @
      non_negative (crv_privacy_risk_units x) ''privacy/risk units'')"

definition cognitive_resource_vector_to_dict :: "cognitive_resource_vector \<Rightarrow> jobject" where
  "cognitive_resource_vector_to_dict x =
     [(''activities'', JInt (crv_activities x)),
      (''compute_units'', JFloat (crv_compute_units x)),
      (''wall_time_seconds'', JFloat (crv_wall_time_seconds x)),
      (''attention_units'', JFloat (crv_attention_units x)),
      (''privacy_risk_units'', JFloat (crv_privacy_risk_units x))]"

definition cognitive_resource_vector_from_dict :: "builtins \<Rightarrow> jobject \<Rightarrow> cognitive_resource_vector result" where
  "cognitive_resource_vector_from_dict b d =
     rbind (py_int b (jget_or d ''activities'' (JInt 0))) (\<lambda>activities.
     rbind (py_float b (jget_or d ''compute_units'' (JFloat 0))) (\<lambda>compute_units.
     rbind (py_float b (jget_or d ''wall_time_seconds'' (JFloat 0))) (\<lambda>wall_time_seconds.
     rbind (py_float b (jget_or d ''attention_units'' (JFloat 0))) (\<lambda>attention_units.
     rbind (py_float b (jget_or d ''privacy_risk_units'' (JFloat 0))) (\<lambda>privacy_risk_units.
     let x = \<lparr>crv_activities = activities, crv_compute_units = compute_units,
              crv_wall_time_seconds = wall_time_seconds, crv_attention_units = attention_units,
              crv_privacy_risk_units = privacy_risk_units\<rparr> in
     rbind (check_cognitive_resource_vector x) (\<lambda>_.
     Inr x))))))"

definition cognitive_resource_vector_ok :: "builtins \<Rightarrow> cognitive_resource_vector \<Rightarrow> bool" where
  "cognitive_resource_vector_ok b x \<longleftrightarrow> check_cognitive_resource_vector x = Inr ()"

lemma cognitive_resource_vector_round_trip:
  assumes "cognitive_resource_vector_ok b x"
  shows "cognitive_resource_vector_from_dict b (cognitive_resource_vector_to_dict x) = Inr x"
proof -
  have k: "check_cognitive_resource_vector x = Inr ()" using assms by (simp add: cognitive_resource_vector_ok_def)
  show ?thesis
    using k assms
    by (cases x) (simp add: cognitive_resource_vector_ok_def cognitive_resource_vector_from_dict_def cognitive_resource_vector_to_dict_def codec Let_def)
qed

definition cognitive_resource_vector_zero :: cognitive_resource_vector where
  "cognitive_resource_vector_zero = \<lparr>crv_activities = 0, crv_compute_units = 0, crv_wall_time_seconds = 0,
     crv_attention_units = 0, crv_privacy_risk_units = 0\<rparr>"

definition cognitive_resource_vector_plus ::
  "cognitive_resource_vector \<Rightarrow> cognitive_resource_vector \<Rightarrow> cognitive_resource_vector result" where
  "cognitive_resource_vector_plus x y =
     (let z = \<lparr>crv_activities = crv_activities x + crv_activities y,
               crv_compute_units = round12 (crv_compute_units x + crv_compute_units y),
               crv_wall_time_seconds = round12 (crv_wall_time_seconds x + crv_wall_time_seconds y),
               crv_attention_units = round12 (crv_attention_units x + crv_attention_units y),
               crv_privacy_risk_units = round12 (crv_privacy_risk_units x + crv_privacy_risk_units y)\<rparr> in
      rbind (check_cognitive_resource_vector z) (\<lambda>_. Inr z))"

definition cognitive_resource_vector_minus ::
  "cognitive_resource_vector \<Rightarrow> cognitive_resource_vector \<Rightarrow> cognitive_resource_vector result" where
  "cognitive_resource_vector_minus x y =
     (let activities = crv_activities x - crv_activities y;
          compute = crv_compute_units x - crv_compute_units y;
          wall = crv_wall_time_seconds x - crv_wall_time_seconds y;
          attention = crv_attention_units x - crv_attention_units y;
          risk = crv_privacy_risk_units x - crv_privacy_risk_units y;
          low = Fin (- (1 / 10 ^ 9)) in
      if activities < 0 \<or> compute < low \<or> wall < low \<or> attention < low \<or> risk < low
      then Inl (ValueError ''cognitive resource use exceeds its budget'') else
      let z = \<lparr>crv_activities = max 0 activities, crv_compute_units = round12 (py_max 0 compute),
               crv_wall_time_seconds = round12 (py_max 0 wall), crv_attention_units = round12 (py_max 0 attention),
               crv_privacy_risk_units = round12 (py_max 0 risk)\<rparr> in
      rbind (check_cognitive_resource_vector z) (\<lambda>_. Inr z))"

definition cognitive_resource_vector_fits_within :: "cognitive_resource_vector \<Rightarrow> cognitive_resource_vector \<Rightarrow> bool" where
  "cognitive_resource_vector_fits_within x limit =
     (crv_activities x \<le> crv_activities limit \<and>
      crv_compute_units x \<le> crv_compute_units limit + Fin (1 / 10 ^ 12) \<and>
      crv_wall_time_seconds x \<le> crv_wall_time_seconds limit + Fin (1 / 10 ^ 12) \<and>
      crv_attention_units x \<le> crv_attention_units limit + Fin (1 / 10 ^ 12) \<and>
      crv_privacy_risk_units x \<le> crv_privacy_risk_units limit + Fin (1 / 10 ^ 12))"

subsection \<open>BackgroundCognitiveBudget\<close>

record background_cognitive_budget =
  bcb_budget_id :: string
  bcb_ceiling :: cognitive_resource_vector

definition background_cognitive_budget_identity :: "background_cognitive_budget \<Rightarrow> jobject" where
  "background_cognitive_budget_identity x =
     [(''ceiling'', JObj (cognitive_resource_vector_to_dict (bcb_ceiling x)))]"

definition check_background_cognitive_budget :: "builtins \<Rightarrow> background_cognitive_budget \<Rightarrow> unit result" where
  "check_background_cognitive_budget b x =
     rbind (raise_first (require_text (bcb_budget_id x) ''background cognitive budget id'' @
      [(crv_activities (bcb_ceiling x) \<le> 0,
       ValueError ''background cognitive budget must permit at least one activity'')])) (\<lambda>_.
     rbind (canonical_id b ''cognitive-budget'' (background_cognitive_budget_identity x)) (\<lambda>i.
     raise_first [(bcb_budget_id x \<noteq> i,
      ValueError ''background cognitive budget id does not match its ceiling'')]))"

definition create_background_cognitive_budget :: "builtins \<Rightarrow> background_cognitive_budget \<Rightarrow> background_cognitive_budget result" where
  "create_background_cognitive_budget b x =
           rbind (canonical_id b ''cognitive-budget'' (background_cognitive_budget_identity x)) (\<lambda>i.
      let y = x\<lparr>bcb_budget_id := i\<rparr> in rbind (check_background_cognitive_budget b y) (\<lambda>_. Inr y))"

definition background_cognitive_budget_to_dict :: "background_cognitive_budget \<Rightarrow> jobject" where
  "background_cognitive_budget_to_dict x =
     (''budget_id'', JStr (bcb_budget_id x)) # background_cognitive_budget_identity x"

definition background_cognitive_budget_from_dict :: "builtins \<Rightarrow> jobject \<Rightarrow> background_cognitive_budget result" where
  "background_cognitive_budget_from_dict b d =
     rbind (j_str b d ''budget_id'') (\<lambda>budget_id.
     rbind (rbind (j_obj d ''ceiling'') (cognitive_resource_vector_from_dict b)) (\<lambda>limit.
     let x = \<lparr>bcb_budget_id = budget_id, bcb_ceiling = limit\<rparr> in
     rbind (check_background_cognitive_budget b x) (\<lambda>_.
     Inr x)))"

definition background_cognitive_budget_ok :: "builtins \<Rightarrow> background_cognitive_budget \<Rightarrow> bool" where
  "background_cognitive_budget_ok b x \<longleftrightarrow> check_background_cognitive_budget b x = Inr () \<and>
     cognitive_resource_vector_ok b (bcb_ceiling x)"

lemma background_cognitive_budget_round_trip:
  assumes "background_cognitive_budget_ok b x"
  shows "background_cognitive_budget_from_dict b (background_cognitive_budget_to_dict x) = Inr x"
proof -
  have k: "check_background_cognitive_budget b x = Inr ()" using assms by (simp add: background_cognitive_budget_ok_def)
  show ?thesis
    using k assms
    by (cases x) (simp add: background_cognitive_budget_ok_def background_cognitive_budget_from_dict_def background_cognitive_budget_to_dict_def background_cognitive_budget_identity_def codec cognitive_resource_vector_round_trip Let_def)
qed

subsection \<open>EndogenousPolicySnapshot\<close>

record endogenous_policy_snapshot =
  eps_policy_id :: string
  eps_version :: string
  eps_selector_id :: string
  eps_selector_version :: int
  eps_compute_cost_weight :: pyfloat
  eps_delay_cost_weight :: pyfloat
  eps_attention_cost_weight :: pyfloat
  eps_opportunity_cost_weight :: pyfloat
  eps_privacy_risk_cost_weight :: pyfloat
  eps_minimum_net_voc :: pyfloat

definition endogenous_policy_snapshot_identity :: "endogenous_policy_snapshot \<Rightarrow> jobject" where
  "endogenous_policy_snapshot_identity x =
     [(''version'', JStr (eps_version x)),
      (''selector_id'', JStr (eps_selector_id x)),
      (''selector_version'', JInt (eps_selector_version x)),
      (''compute_cost_weight'', JFloat (eps_compute_cost_weight x)),
      (''delay_cost_weight'', JFloat (eps_delay_cost_weight x)),
      (''attention_cost_weight'', JFloat (eps_attention_cost_weight x)),
      (''opportunity_cost_weight'', JFloat (eps_opportunity_cost_weight x)),
      (''privacy_risk_cost_weight'', JFloat (eps_privacy_risk_cost_weight x)),
      (''minimum_net_voc'', JFloat (eps_minimum_net_voc x))]"

definition check_endogenous_policy_snapshot :: "builtins \<Rightarrow> endogenous_policy_snapshot \<Rightarrow> unit result" where
  "check_endogenous_policy_snapshot b x =
     rbind (raise_first (require_text (eps_policy_id x) ''endogenous policy id'' @
      require_text (eps_version x) ''endogenous policy version'' @
      require_text (eps_selector_id x) ''endogenous agenda selector id'' @
      [(eps_selector_version x \<le> 0, ValueError ''endogenous agenda selector version must be positive'')] @
      non_negative (eps_compute_cost_weight x) ''compute cost weight'' @
      non_negative (eps_delay_cost_weight x) ''delay cost weight'' @
      non_negative (eps_attention_cost_weight x) ''attention cost weight'' @
      non_negative (eps_opportunity_cost_weight x) ''opportunity cost weight'' @
      non_negative (eps_privacy_risk_cost_weight x) ''privacy/risk cost weight'' @
      non_negative (eps_minimum_net_voc x) ''minimum NetVOC'')) (\<lambda>_.
     rbind (canonical_id b ''endogenous-policy'' (endogenous_policy_snapshot_identity x)) (\<lambda>i.
     raise_first [(eps_policy_id x \<noteq> i,
      ValueError ''endogenous policy id does not match its immutable weights'')]))"

definition create_endogenous_policy_snapshot :: "builtins \<Rightarrow> endogenous_policy_snapshot \<Rightarrow> endogenous_policy_snapshot result" where
  "create_endogenous_policy_snapshot b x =
           rbind (canonical_id b ''endogenous-policy'' (endogenous_policy_snapshot_identity x)) (\<lambda>i.
      let y = x\<lparr>eps_policy_id := i\<rparr> in rbind (check_endogenous_policy_snapshot b y) (\<lambda>_. Inr y))"

definition endogenous_policy_snapshot_to_dict :: "endogenous_policy_snapshot \<Rightarrow> jobject" where
  "endogenous_policy_snapshot_to_dict x =
     (''policy_id'', JStr (eps_policy_id x)) # endogenous_policy_snapshot_identity x"

definition endogenous_policy_snapshot_from_dict :: "builtins \<Rightarrow> jobject \<Rightarrow> endogenous_policy_snapshot result" where
  "endogenous_policy_snapshot_from_dict b d =
     rbind (j_str b d ''policy_id'') (\<lambda>policy_id.
     rbind (j_str b d ''version'') (\<lambda>version.
     rbind (j_str b d ''selector_id'') (\<lambda>selector_id.
     rbind (j_int b d ''selector_version'') (\<lambda>selector_version.
     rbind (j_float b d ''compute_cost_weight'') (\<lambda>compute_cost_weight.
     rbind (j_float b d ''delay_cost_weight'') (\<lambda>delay_cost_weight.
     rbind (j_float b d ''attention_cost_weight'') (\<lambda>attention_cost_weight.
     rbind (j_float b d ''opportunity_cost_weight'') (\<lambda>opportunity_cost_weight.
     rbind (j_float b d ''privacy_risk_cost_weight'') (\<lambda>privacy_risk_cost_weight.
     rbind (py_float b (jget_or d ''minimum_net_voc'' (JFloat 0))) (\<lambda>minimum_net_voc.
     let x = \<lparr>eps_policy_id = policy_id, eps_version = version, eps_selector_id = selector_id,
              eps_selector_version = selector_version, eps_compute_cost_weight = compute_cost_weight,
              eps_delay_cost_weight = delay_cost_weight, eps_attention_cost_weight = attention_cost_weight,
              eps_opportunity_cost_weight = opportunity_cost_weight,
              eps_privacy_risk_cost_weight = privacy_risk_cost_weight, eps_minimum_net_voc = minimum_net_voc\<rparr> in
     rbind (check_endogenous_policy_snapshot b x) (\<lambda>_.
     Inr x)))))))))))"

definition endogenous_policy_snapshot_to_event :: "endogenous_policy_snapshot \<Rightarrow> string \<Rightarrow> datetime \<Rightarrow> jobject event result" where
  "endogenous_policy_snapshot_to_event x source recorded_at =
     make_event (''endogenous-policy-recorded:'' @ eps_policy_id x) POLICY_SNAPSHOT_RECORDED_EVENT
        source (eps_policy_id x)
       recorded_at (endogenous_policy_snapshot_to_dict x) None"

definition endogenous_policy_snapshot_ok :: "builtins \<Rightarrow> endogenous_policy_snapshot \<Rightarrow> bool" where
  "endogenous_policy_snapshot_ok b x \<longleftrightarrow> check_endogenous_policy_snapshot b x = Inr ()"

lemma endogenous_policy_snapshot_round_trip:
  assumes "endogenous_policy_snapshot_ok b x"
  shows "endogenous_policy_snapshot_from_dict b (endogenous_policy_snapshot_to_dict x) = Inr x"
proof -
  have k: "check_endogenous_policy_snapshot b x = Inr ()" using assms by (simp add: endogenous_policy_snapshot_ok_def)
  show ?thesis
    using k assms
    by (cases x) (simp add: endogenous_policy_snapshot_ok_def endogenous_policy_snapshot_from_dict_def endogenous_policy_snapshot_to_dict_def endogenous_policy_snapshot_identity_def codec Let_def)
qed

subsection \<open>CognitionScanRequest\<close>

record cognition_scan_request =
  csr_request_id :: string
  csr_policy_id :: string
  csr_budget :: background_cognitive_budget
  csr_requested_at :: datetime
  csr_expires_at :: datetime

definition cognition_scan_request_identity :: "cognition_scan_request \<Rightarrow> jobject" where
  "cognition_scan_request_identity x =
     [(''policy_id'', JStr (csr_policy_id x)),
      (''budget'', JObj (background_cognitive_budget_to_dict (csr_budget x))),
      (''requested_at'', JTime (csr_requested_at x)),
      (''expires_at'', JTime (csr_expires_at x))]"

definition check_cognition_scan_request :: "builtins \<Rightarrow> cognition_scan_request \<Rightarrow> unit result" where
  "check_cognition_scan_request b x =
     rbind (raise_first (require_text (csr_request_id x) ''cognition scan request id'' @
      require_text (csr_policy_id x) ''cognition scan policy id'' @
      require_aware (csr_requested_at x) ''cognition scan requested_at'' @
      require_aware (csr_expires_at x) ''cognition scan expires_at'' @
      [(dt_le (csr_expires_at x) (csr_requested_at x),
       ValueError ''cognition scan expiry must follow its request time'')])) (\<lambda>_.
     rbind (canonical_id b ''cognition-scan'' (cognition_scan_request_identity x)) (\<lambda>i.
     raise_first [(csr_request_id x \<noteq> i,
      ValueError ''cognition scan request id does not match its content'')]))"

definition create_cognition_scan_request :: "builtins \<Rightarrow> cognition_scan_request \<Rightarrow> cognition_scan_request result" where
  "create_cognition_scan_request b x =
           rbind (canonical_id b ''cognition-scan'' (cognition_scan_request_identity x)) (\<lambda>i.
      let y = x\<lparr>csr_request_id := i\<rparr> in rbind (check_cognition_scan_request b y) (\<lambda>_. Inr y))"

definition cognition_scan_request_to_dict :: "cognition_scan_request \<Rightarrow> jobject" where
  "cognition_scan_request_to_dict x =
     (''request_id'', JStr (csr_request_id x)) # cognition_scan_request_identity x"

definition cognition_scan_request_from_dict :: "builtins \<Rightarrow> jobject \<Rightarrow> cognition_scan_request result" where
  "cognition_scan_request_from_dict b d =
     rbind (j_str b d ''request_id'') (\<lambda>request_id.
     rbind (j_str b d ''policy_id'') (\<lambda>policy_id.
     rbind (rbind (j_obj d ''budget'') (background_cognitive_budget_from_dict b)) (\<lambda>budget.
     rbind (j_time b d ''requested_at'') (\<lambda>requested_at.
     rbind (j_time b d ''expires_at'') (\<lambda>expires_at.
     let x = \<lparr>csr_request_id = request_id, csr_policy_id = policy_id, csr_budget = budget,
              csr_requested_at = requested_at, csr_expires_at = expires_at\<rparr> in
     rbind (check_cognition_scan_request b x) (\<lambda>_.
     Inr x))))))"

definition cognition_scan_request_to_event :: "cognition_scan_request \<Rightarrow> string \<Rightarrow> jobject event result" where
  "cognition_scan_request_to_event x source =
     make_event (''cognition-scan-requested:'' @ csr_request_id x) COGNITION_SCAN_REQUESTED_EVENT
        source (csr_request_id x)
       (csr_requested_at x) (cognition_scan_request_to_dict x) None"

definition cognition_scan_request_ok :: "builtins \<Rightarrow> cognition_scan_request \<Rightarrow> bool" where
  "cognition_scan_request_ok b x \<longleftrightarrow> check_cognition_scan_request b x = Inr () \<and>
     background_cognitive_budget_ok b (csr_budget x)"

lemma check_cognition_scan_request_aware:
  "check_cognition_scan_request b x = Inr () \<Longrightarrow> is_aware (csr_requested_at x) \<and>
     is_aware (csr_expires_at x)"
  by (auto simp: check_cognition_scan_request_def rbind_Inr_iff raise_first_no_errors simp del: raise_first_ok split: option.splits if_splits)

lemma cognition_scan_request_round_trip:
  assumes "cognition_scan_request_ok b x"
  shows "cognition_scan_request_from_dict b (cognition_scan_request_to_dict x) = Inr x"
proof -
  have k: "check_cognition_scan_request b x = Inr ()" using assms by (simp add: cognition_scan_request_ok_def)
  note a = check_cognition_scan_request_aware [OF k]
  show ?thesis
    using k a assms
    by (cases x) (simp add: cognition_scan_request_ok_def cognition_scan_request_from_dict_def cognition_scan_request_to_dict_def cognition_scan_request_identity_def codec background_cognitive_budget_round_trip Let_def)
qed

subsection \<open>DreamEpoch\<close>

record dream_epoch =
  de_epoch_id :: string
  de_consumer_id :: string
  de_trigger_event_id :: string
  de_event_log_cursor :: int
  de_policy_id :: string
  de_policy_version :: string
  de_selector_id :: string
  de_selector_version :: int
  de_budget :: background_cognitive_budget
  de_started_at :: datetime
  de_expires_at :: datetime
  de_authority_ceiling :: cognitive_authority_ceiling

definition dream_epoch_identity :: "dream_epoch \<Rightarrow> jobject" where
  "dream_epoch_identity x =
     [(''consumer_id'', JStr (de_consumer_id x)),
      (''trigger_event_id'', JStr (de_trigger_event_id x)),
      (''event_log_cursor'', JInt (de_event_log_cursor x)),
      (''policy_id'', JStr (de_policy_id x)),
      (''policy_version'', JStr (de_policy_version x)),
      (''selector_id'', JStr (de_selector_id x)),
      (''selector_version'', JInt (de_selector_version x)),
      (''budget'', JObj (background_cognitive_budget_to_dict (de_budget x))),
      (''started_at'', JTime (de_started_at x)),
      (''expires_at'', JTime (de_expires_at x)),
      (''authority_ceiling'', JStr (cognitive_authority_ceiling_value (de_authority_ceiling x)))]"

definition check_dream_epoch :: "builtins \<Rightarrow> dream_epoch \<Rightarrow> unit result" where
  "check_dream_epoch b x =
     rbind (raise_first (require_text (de_epoch_id x) ''dream epoch id'' @
      require_text (de_consumer_id x) ''dream epoch consumer id'' @
      require_text (de_trigger_event_id x) ''dream epoch trigger event id'' @
      require_text (de_policy_id x) ''dream epoch policy id'' @
      require_text (de_policy_version x) ''dream epoch policy version'' @
      require_text (de_selector_id x) ''dream epoch selector id'' @
      [(de_selector_version x \<le> 0, ValueError ''dream epoch selector version must be positive''),
       (de_event_log_cursor x \<le> 0, ValueError ''dream epoch cursor must identify a canonical event'')] @
      require_aware (de_started_at x) ''dream epoch started_at'' @
      require_aware (de_expires_at x) ''dream epoch expires_at'' @
      [(dt_le (de_expires_at x) (de_started_at x),
       ValueError ''dream epoch expiry must follow its start'')])) (\<lambda>_.
     rbind (canonical_id b ''dream-epoch'' (dream_epoch_identity x)) (\<lambda>i.
     raise_first [(de_epoch_id x \<noteq> i, ValueError ''dream epoch id does not match its immutable content'')]))"

definition dream_epoch_to_dict :: "dream_epoch \<Rightarrow> jobject" where
  "dream_epoch_to_dict x =
     [(''epoch_id'', JStr (de_epoch_id x)),
      (''consumer_id'', JStr (de_consumer_id x)),
      (''trigger_event_id'', JStr (de_trigger_event_id x)),
      (''event_log_cursor'', JInt (de_event_log_cursor x)),
      (''policy_id'', JStr (de_policy_id x)),
      (''policy_version'', JStr (de_policy_version x)),
      (''selector_id'', JStr (de_selector_id x)),
      (''selector_version'', JInt (de_selector_version x)),
      (''budget'', JObj (background_cognitive_budget_to_dict (de_budget x))),
      (''started_at'', JTime (de_started_at x)),
      (''expires_at'', JTime (de_expires_at x)),
      (''authority_ceiling'', JStr (cognitive_authority_ceiling_value (de_authority_ceiling x)))]"

definition dream_epoch_from_dict :: "builtins \<Rightarrow> jobject \<Rightarrow> dream_epoch result" where
  "dream_epoch_from_dict b d =
     rbind (j_str b d ''epoch_id'') (\<lambda>epoch_id.
     rbind (j_str b d ''consumer_id'') (\<lambda>consumer_id.
     rbind (j_str b d ''trigger_event_id'') (\<lambda>trigger_event_id.
     rbind (j_int b d ''event_log_cursor'') (\<lambda>event_log_cursor.
     rbind (j_str b d ''policy_id'') (\<lambda>policy_id.
     rbind (j_str b d ''policy_version'') (\<lambda>policy_version.
     rbind (j_str b d ''selector_id'') (\<lambda>selector_id.
     rbind (j_int b d ''selector_version'') (\<lambda>selector_version.
     rbind (rbind (j_obj d ''budget'') (background_cognitive_budget_from_dict b)) (\<lambda>budget.
     rbind (j_time b d ''started_at'') (\<lambda>started_at.
     rbind (j_time b d ''expires_at'') (\<lambda>expires_at.
     rbind (rbind (j_str b d ''authority_ceiling'') cognitive_authority_ceiling_of) (\<lambda>authority_ceiling.
     let x = \<lparr>de_epoch_id = epoch_id, de_consumer_id = consumer_id, de_trigger_event_id = trigger_event_id,
              de_event_log_cursor = event_log_cursor, de_policy_id = policy_id, de_policy_version = policy_version,
              de_selector_id = selector_id, de_selector_version = selector_version, de_budget = budget,
              de_started_at = started_at, de_expires_at = expires_at, de_authority_ceiling = authority_ceiling\<rparr> in
     rbind (check_dream_epoch b x) (\<lambda>_.
     Inr x)))))))))))))"

definition dream_epoch_to_event :: "dream_epoch \<Rightarrow> string \<Rightarrow> jobject event result" where
  "dream_epoch_to_event x source =
     make_event (''dream-epoch-started:'' @ de_epoch_id x) DREAM_EPOCH_STARTED_EVENT source (de_epoch_id x)
       (de_started_at x) (dream_epoch_to_dict x) (Some (de_trigger_event_id x))"

definition dream_epoch_ok :: "builtins \<Rightarrow> dream_epoch \<Rightarrow> bool" where
  "dream_epoch_ok b x \<longleftrightarrow> check_dream_epoch b x = Inr () \<and>
     background_cognitive_budget_ok b (de_budget x)"

lemma check_dream_epoch_aware:
  "check_dream_epoch b x = Inr () \<Longrightarrow> is_aware (de_started_at x) \<and>
     is_aware (de_expires_at x)"
  by (auto simp: check_dream_epoch_def rbind_Inr_iff raise_first_no_errors simp del: raise_first_ok split: option.splits if_splits)

lemma dream_epoch_round_trip:
  assumes "dream_epoch_ok b x"
  shows "dream_epoch_from_dict b (dream_epoch_to_dict x) = Inr x"
proof -
  have k: "check_dream_epoch b x = Inr ()" using assms by (simp add: dream_epoch_ok_def)
  note a = check_dream_epoch_aware [OF k]
  show ?thesis
    using k a assms
    by (cases x) (simp add: dream_epoch_ok_def dream_epoch_from_dict_def dream_epoch_to_dict_def dream_epoch_identity_def codec background_cognitive_budget_round_trip Let_def)
qed

definition dream_epoch_start ::
  "builtins \<Rightarrow> string \<Rightarrow> string \<Rightarrow> int \<Rightarrow> endogenous_policy_snapshot \<Rightarrow> background_cognitive_budget \<Rightarrow>
   datetime \<Rightarrow> datetime \<Rightarrow> dream_epoch result" where
  "dream_epoch_start b consumer_id trigger_event_id cursor policy budget started_at expires_at =
     (let x = \<lparr>de_epoch_id = [], de_consumer_id = consumer_id, de_trigger_event_id = trigger_event_id,
               de_event_log_cursor = cursor, de_policy_id = eps_policy_id policy, de_policy_version = eps_version policy,
               de_selector_id = eps_selector_id policy, de_selector_version = eps_selector_version policy,
               de_budget = budget, de_started_at = started_at, de_expires_at = expires_at,
               de_authority_ceiling = DREAM_PROPOSAL_ONLY\<rparr> in
      rbind (canonical_id b ''dream-epoch'' (dream_epoch_identity x)) (\<lambda>i.
      let y = x\<lparr>de_epoch_id := i\<rparr> in rbind (check_dream_epoch b y) (\<lambda>_. Inr y)))"

subsection \<open>Inquiry\<close>

record inquiry =
  i_inquiry_id :: string
  i_question :: string
  i_origin :: endogenous_drive
  i_governing_intent_refs :: "governing_intent_ref list"
  i_evidence_refs :: "string list"
  i_target_refs :: "string list"
  i_decision_relevance :: pyfloat
  i_expected_information_value :: pyfloat
  i_uncertainty :: pyfloat
  i_possible_methods :: "string list"
  i_estimated_cognitive_cost :: pyfloat
  i_privacy_risk_cost :: pyfloat
  i_deadline :: "datetime option"
  i_expires_at :: datetime
  i_status :: inquiry_status
  i_causal_cursor :: int
  i_created_at :: datetime
  i_producer_id :: string

definition inquiry_identity :: "inquiry \<Rightarrow> jobject" where
  "inquiry_identity x =
     [(''question'', JStr (i_question x)),
      (''origin'', JStr (endogenous_drive_value (i_origin x))),
      (''governing_intent_refs'', JList (map (JObj \<circ> governing_intent_ref_to_dict) (i_governing_intent_refs x))),
      (''evidence_refs'', JStrs (i_evidence_refs x)),
      (''target_refs'', JStrs (i_target_refs x)),
      (''producer_id'', JStr (i_producer_id x))]"

definition check_inquiry :: "builtins \<Rightarrow> inquiry \<Rightarrow> unit result" where
  "check_inquiry b x =
     rbind (raise_first (require_text (i_inquiry_id x) ''inquiry id'' @
      require_text (i_question x) ''inquiry question'' @
      require_text (i_producer_id x) ''inquiry producer id'' @
      [(i_governing_intent_refs x = [], ValueError ''inquiry requires at least one governing intent reference''),
       (\<not> distinct (i_governing_intent_refs x),
        ValueError ''inquiry governing intent references must be unique'')] @
      unique_text (i_evidence_refs x) ''inquiry evidence refs'' True @
      unique_text (i_target_refs x) ''inquiry target refs'' True @
      unique_text (i_possible_methods x) ''inquiry methods'' True @
      bounded (i_decision_relevance x) ''inquiry decision relevance'' @
      bounded (i_expected_information_value x) ''inquiry information value'' @
      bounded (i_uncertainty x) ''inquiry uncertainty'' @
      non_negative (i_estimated_cognitive_cost x) ''inquiry cognitive cost'' @
      non_negative (i_privacy_risk_cost x) ''inquiry privacy/risk cost'' @
      [(i_causal_cursor x \<le> 0, ValueError ''inquiry causal cursor must identify a canonical cut'')] @
      require_aware (i_created_at x) ''inquiry created_at'' @
      require_aware (i_expires_at x) ''inquiry expires_at'' @
      [(dt_le (i_expires_at x) (i_created_at x), ValueError ''inquiry expiry must follow creation'')] @
      (case i_deadline x of None \<Rightarrow> [] | Some d1 \<Rightarrow>
        require_aware d1 ''inquiry deadline'' @
        [(dt_before d1 (i_created_at x), ValueError ''inquiry deadline cannot precede creation'')]))) (\<lambda>_.
     rbind (canonical_id b ''inquiry'' (inquiry_identity x)) (\<lambda>i.
     raise_first [(i_inquiry_id x \<noteq> i, ValueError ''inquiry id does not match its semantic identity'')]))"

text \<open>The order that \<open>create\<close> gives to its arguments.\<close>

definition normal_inquiry :: "inquiry \<Rightarrow> inquiry" where
  "normal_inquiry x = x\<lparr>i_governing_intent_refs := ordered_intents (i_governing_intent_refs x),
     i_evidence_refs := sort (remdups (i_evidence_refs x)),
     i_target_refs := sort (remdups (i_target_refs x)),
     i_possible_methods := sort (remdups (i_possible_methods x)), i_status := OPEN\<rparr>"

definition create_inquiry :: "builtins \<Rightarrow> inquiry \<Rightarrow> inquiry result" where
  "create_inquiry b x0 =
     (let x = normal_inquiry x0 in
      rbind (canonical_id b ''inquiry'' (inquiry_identity x)) (\<lambda>i.
      let y = x\<lparr>i_inquiry_id := i\<rparr> in rbind (check_inquiry b y) (\<lambda>_. Inr y)))"

definition inquiry_to_dict :: "inquiry \<Rightarrow> jobject" where
  "inquiry_to_dict x =
     [(''inquiry_id'', JStr (i_inquiry_id x)),
      (''question'', JStr (i_question x)),
      (''origin'', JStr (endogenous_drive_value (i_origin x))),
      (''governing_intent_refs'', JList (map (JObj \<circ> governing_intent_ref_to_dict) (i_governing_intent_refs x))),
      (''evidence_refs'', JStrs (i_evidence_refs x)),
      (''target_refs'', JStrs (i_target_refs x)),
      (''decision_relevance'', JFloat (i_decision_relevance x)),
      (''expected_information_value'', JFloat (i_expected_information_value x)),
      (''uncertainty'', JFloat (i_uncertainty x)),
      (''possible_methods'', JStrs (i_possible_methods x)),
      (''estimated_cognitive_cost'', JFloat (i_estimated_cognitive_cost x)),
      (''privacy_risk_cost'', JFloat (i_privacy_risk_cost x)),
      (''deadline'', json_opt JTime (i_deadline x)),
      (''expires_at'', JTime (i_expires_at x)),
      (''status'', JStr (inquiry_status_value (i_status x))),
      (''causal_cursor'', JInt (i_causal_cursor x)),
      (''created_at'', JTime (i_created_at x)),
      (''producer_id'', JStr (i_producer_id x))]"

definition inquiry_from_dict :: "builtins \<Rightarrow> jobject \<Rightarrow> inquiry result" where
  "inquiry_from_dict b d =
     rbind (j_str b d ''inquiry_id'') (\<lambda>inquiry_id.
     rbind (j_str b d ''question'') (\<lambda>question.
     rbind (rbind (j_str b d ''origin'') endogenous_drive_of) (\<lambda>origin.
     rbind (j_items b (\<lambda>v. rbind (as_obj v) (governing_intent_ref_from_dict b)) d ''governing_intent_refs'') (\<lambda>governing_intent_refs.
     rbind (j_strs b d ''evidence_refs'') (\<lambda>evidence_refs.
     rbind (j_strs b d ''target_refs'') (\<lambda>target_refs.
     rbind (j_float b d ''decision_relevance'') (\<lambda>decision_relevance.
     rbind (j_float b d ''expected_information_value'') (\<lambda>expected_information_value.
     rbind (j_float b d ''uncertainty'') (\<lambda>uncertainty.
     rbind (j_strs b d ''possible_methods'') (\<lambda>possible_methods.
     rbind (j_float b d ''estimated_cognitive_cost'') (\<lambda>estimated_cognitive_cost.
     rbind (j_float b d ''privacy_risk_cost'') (\<lambda>privacy_risk_cost.
     rbind (j_time_opt b d ''deadline'') (\<lambda>deadline.
     rbind (j_time b d ''expires_at'') (\<lambda>expires_at.
     rbind (rbind (j_str b d ''status'') inquiry_status_of) (\<lambda>status.
     rbind (j_int b d ''causal_cursor'') (\<lambda>causal_cursor.
     rbind (j_time b d ''created_at'') (\<lambda>created_at.
     rbind (j_str b d ''producer_id'') (\<lambda>producer_id.
     let x = \<lparr>i_inquiry_id = inquiry_id, i_question = question, i_origin = origin,
              i_governing_intent_refs = governing_intent_refs, i_evidence_refs = evidence_refs,
              i_target_refs = target_refs, i_decision_relevance = decision_relevance,
              i_expected_information_value = expected_information_value, i_uncertainty = uncertainty,
              i_possible_methods = possible_methods, i_estimated_cognitive_cost = estimated_cognitive_cost,
              i_privacy_risk_cost = privacy_risk_cost, i_deadline = deadline, i_expires_at = expires_at,
              i_status = status, i_causal_cursor = causal_cursor, i_created_at = created_at,
              i_producer_id = producer_id\<rparr> in
     rbind (check_inquiry b x) (\<lambda>_.
     Inr x)))))))))))))))))))"

definition inquiry_to_event :: "inquiry \<Rightarrow> string \<Rightarrow> string \<Rightarrow> jobject event result" where
  "inquiry_to_event x source epoch_id =
     make_event (''inquiry-recorded:'' @ i_inquiry_id x) INQUIRY_RECORDED_EVENT source (i_inquiry_id x)
       (i_created_at x)
       [(''epoch_id'', JStr epoch_id),
      (''inquiry'', JObj (inquiry_to_dict x))] None"

definition inquiry_ok :: "builtins \<Rightarrow> inquiry \<Rightarrow> bool" where
  "inquiry_ok b x \<longleftrightarrow> check_inquiry b x = Inr () \<and>
     list_all (\<lambda>v. governing_intent_ref_ok b v) (i_governing_intent_refs x)"

lemma check_inquiry_aware:
  "check_inquiry b x = Inr () \<Longrightarrow> (\<forall>t. i_deadline x = Some t \<longrightarrow> is_aware t) \<and>
     is_aware (i_expires_at x) \<and>
     is_aware (i_created_at x)"
  by (auto simp: check_inquiry_def rbind_Inr_iff raise_first_no_errors simp del: raise_first_ok split: option.splits if_splits)

lemma inquiry_round_trip:
  assumes "inquiry_ok b x"
  shows "inquiry_from_dict b (inquiry_to_dict x) = Inr x"
proof -
  have k: "check_inquiry b x = Inr ()" using assms by (simp add: inquiry_ok_def)
  note a = check_inquiry_aware [OF k]
  show ?thesis
    using k a assms
    by (cases x) (simp add: inquiry_ok_def inquiry_from_dict_def inquiry_to_dict_def inquiry_identity_def codec governing_intent_ref_list_round_trip Let_def)
qed

subsection \<open>ValueOfCognitionInputs\<close>

record value_of_cognition_inputs =
  voci_expected_decision_improvement :: pyfloat
  voci_compute_cost_basis :: pyfloat
  voci_delay_cost_basis :: pyfloat
  voci_attention_cost_basis :: pyfloat
  voci_opportunity_cost_basis :: pyfloat
  voci_privacy_risk_cost_basis :: pyfloat

definition check_value_of_cognition_inputs :: "value_of_cognition_inputs \<Rightarrow> unit result" where
  "check_value_of_cognition_inputs x = raise_first
     (non_negative (voci_expected_decision_improvement x) ''expected decision improvement'' @
      non_negative (voci_compute_cost_basis x) ''compute cost basis'' @
      non_negative (voci_delay_cost_basis x) ''delay cost basis'' @
      non_negative (voci_attention_cost_basis x) ''attention cost basis'' @
      non_negative (voci_opportunity_cost_basis x) ''opportunity cost basis'' @
      non_negative (voci_privacy_risk_cost_basis x) ''privacy/risk cost basis'')"

definition value_of_cognition_inputs_to_dict :: "value_of_cognition_inputs \<Rightarrow> jobject" where
  "value_of_cognition_inputs_to_dict x =
     [(''expected_decision_improvement'', JFloat (voci_expected_decision_improvement x)),
      (''compute_cost_basis'', JFloat (voci_compute_cost_basis x)),
      (''delay_cost_basis'', JFloat (voci_delay_cost_basis x)),
      (''attention_cost_basis'', JFloat (voci_attention_cost_basis x)),
      (''opportunity_cost_basis'', JFloat (voci_opportunity_cost_basis x)),
      (''privacy_risk_cost_basis'', JFloat (voci_privacy_risk_cost_basis x))]"

definition value_of_cognition_inputs_from_dict :: "builtins \<Rightarrow> jobject \<Rightarrow> value_of_cognition_inputs result" where
  "value_of_cognition_inputs_from_dict b d =
     rbind (j_float b d ''expected_decision_improvement'') (\<lambda>expected_decision_improvement.
     rbind (j_float b d ''compute_cost_basis'') (\<lambda>compute_cost_basis.
     rbind (j_float b d ''delay_cost_basis'') (\<lambda>delay_cost_basis.
     rbind (j_float b d ''attention_cost_basis'') (\<lambda>attention_cost_basis.
     rbind (j_float b d ''opportunity_cost_basis'') (\<lambda>opportunity_cost_basis.
     rbind (j_float b d ''privacy_risk_cost_basis'') (\<lambda>privacy_risk_cost_basis.
     let x = \<lparr>voci_expected_decision_improvement = expected_decision_improvement,
              voci_compute_cost_basis = compute_cost_basis, voci_delay_cost_basis = delay_cost_basis,
              voci_attention_cost_basis = attention_cost_basis,
              voci_opportunity_cost_basis = opportunity_cost_basis,
              voci_privacy_risk_cost_basis = privacy_risk_cost_basis\<rparr> in
     rbind (check_value_of_cognition_inputs x) (\<lambda>_.
     Inr x)))))))"

definition value_of_cognition_inputs_ok :: "builtins \<Rightarrow> value_of_cognition_inputs \<Rightarrow> bool" where
  "value_of_cognition_inputs_ok b x \<longleftrightarrow> check_value_of_cognition_inputs x = Inr ()"

lemma value_of_cognition_inputs_round_trip:
  assumes "value_of_cognition_inputs_ok b x"
  shows "value_of_cognition_inputs_from_dict b (value_of_cognition_inputs_to_dict x) = Inr x"
proof -
  have k: "check_value_of_cognition_inputs x = Inr ()" using assms by (simp add: value_of_cognition_inputs_ok_def)
  show ?thesis
    using k assms
    by (cases x) (simp add: value_of_cognition_inputs_ok_def value_of_cognition_inputs_from_dict_def value_of_cognition_inputs_to_dict_def codec Let_def)
qed

subsection \<open>IntrinsicActivity\<close>

record intrinsic_activity =
  ia_activity_id :: string
  ia_kind :: intrinsic_activity_kind
  ia_inquiry_id :: string
  ia_governing_intent_refs :: "governing_intent_ref list"
  ia_evidence_refs :: "string list"
  ia_target_refs :: "string list"
  ia_voc_inputs :: value_of_cognition_inputs
  ia_urgency :: pyfloat
  ia_confidence :: pyfloat
  ia_interruptible :: bool
  ia_expires_at :: datetime
  ia_resources :: cognitive_resource_vector
  ia_causal_cursor :: int
  ia_producer_id :: string

definition intrinsic_activity_identity :: "intrinsic_activity \<Rightarrow> jobject" where
  "intrinsic_activity_identity x =
     [(''kind'', JStr (intrinsic_activity_kind_value (ia_kind x))),
      (''inquiry_id'', JStr (ia_inquiry_id x)),
      (''governing_intent_refs'', JList (map (JObj \<circ> governing_intent_ref_to_dict) (ia_governing_intent_refs x))),
      (''evidence_refs'', JStrs (ia_evidence_refs x)),
      (''target_refs'', JStrs (ia_target_refs x)),
      (''voc_inputs'', JObj (value_of_cognition_inputs_to_dict (ia_voc_inputs x))),
      (''urgency'', JFloat (ia_urgency x)),
      (''confidence'', JFloat (ia_confidence x)),
      (''interruptible'', JBool (ia_interruptible x)),
      (''expires_at'', JTime (ia_expires_at x)),
      (''resources'', JObj (cognitive_resource_vector_to_dict (ia_resources x))),
      (''causal_cursor'', JInt (ia_causal_cursor x)),
      (''producer_id'', JStr (ia_producer_id x))]"

definition check_intrinsic_activity :: "builtins \<Rightarrow> intrinsic_activity \<Rightarrow> unit result" where
  "check_intrinsic_activity b x =
     rbind (raise_first (require_text (ia_activity_id x) ''intrinsic activity id'' @
      require_text (ia_inquiry_id x) ''intrinsic activity inquiry id'' @
      require_text (ia_producer_id x) ''intrinsic activity producer id'' @
      [(ia_governing_intent_refs x = [], ValueError ''intrinsic activity requires governing intent''),
       (\<not> distinct (ia_governing_intent_refs x),
        ValueError ''intrinsic activity governing intent refs must be unique'')] @
      unique_text (ia_evidence_refs x) ''intrinsic activity evidence refs'' True @
      unique_text (ia_target_refs x) ''intrinsic activity target refs'' True @
      bounded (ia_urgency x) ''intrinsic activity urgency'' @
      bounded (ia_confidence x) ''intrinsic activity confidence'' @
      require_aware (ia_expires_at x) ''intrinsic activity expires_at'' @
      [(crv_activities (ia_resources x) \<noteq> 1,
       ValueError ''each intrinsic activity consumes exactly one activity slot''),
       (ia_causal_cursor x \<le> 0,
        ValueError ''intrinsic activity causal cursor must identify a canonical cut'')])) (\<lambda>_.
     rbind (canonical_id b ''intrinsic-activity'' (intrinsic_activity_identity x)) (\<lambda>i.
     raise_first [(ia_activity_id x \<noteq> i,
      ValueError ''intrinsic activity id does not match its immutable content'')]))"

text \<open>The order that \<open>create\<close> gives to its arguments.\<close>

definition normal_intrinsic_activity :: "intrinsic_activity \<Rightarrow> intrinsic_activity" where
  "normal_intrinsic_activity x = x\<lparr>ia_governing_intent_refs := ordered_intents (ia_governing_intent_refs x),
     ia_evidence_refs := sort (remdups (ia_evidence_refs x)),
     ia_target_refs := sort (remdups (ia_target_refs x))\<rparr>"

definition create_intrinsic_activity :: "builtins \<Rightarrow> intrinsic_activity \<Rightarrow> intrinsic_activity result" where
  "create_intrinsic_activity b x0 =
     (let x = normal_intrinsic_activity x0 in
      rbind (canonical_id b ''intrinsic-activity'' (intrinsic_activity_identity x)) (\<lambda>i.
      let y = x\<lparr>ia_activity_id := i\<rparr> in rbind (check_intrinsic_activity b y) (\<lambda>_. Inr y)))"

definition intrinsic_activity_to_dict :: "intrinsic_activity \<Rightarrow> jobject" where
  "intrinsic_activity_to_dict x =
     (''activity_id'', JStr (ia_activity_id x)) # intrinsic_activity_identity x"

definition intrinsic_activity_from_dict :: "builtins \<Rightarrow> jobject \<Rightarrow> intrinsic_activity result" where
  "intrinsic_activity_from_dict b d =
     rbind (j_str b d ''activity_id'') (\<lambda>activity_id.
     rbind (rbind (j_str b d ''kind'') intrinsic_activity_kind_of) (\<lambda>kind1.
     rbind (j_str b d ''inquiry_id'') (\<lambda>inquiry_id.
     rbind (j_items b (\<lambda>v. rbind (as_obj v) (governing_intent_ref_from_dict b)) d ''governing_intent_refs'') (\<lambda>governing_intent_refs.
     rbind (j_strs b d ''evidence_refs'') (\<lambda>evidence_refs.
     rbind (j_strs b d ''target_refs'') (\<lambda>target_refs.
     rbind (rbind (j_obj d ''voc_inputs'') (value_of_cognition_inputs_from_dict b)) (\<lambda>voc_inputs.
     rbind (j_float b d ''urgency'') (\<lambda>urgency.
     rbind (j_float b d ''confidence'') (\<lambda>confidence.
     rbind (j_bool d ''interruptible'') (\<lambda>interruptible.
     rbind (j_time b d ''expires_at'') (\<lambda>expires_at.
     rbind (rbind (j_obj d ''resources'') (cognitive_resource_vector_from_dict b)) (\<lambda>resources.
     rbind (j_int b d ''causal_cursor'') (\<lambda>causal_cursor.
     rbind (j_str b d ''producer_id'') (\<lambda>producer_id.
     let x = \<lparr>ia_activity_id = activity_id, ia_kind = kind1, ia_inquiry_id = inquiry_id,
              ia_governing_intent_refs = governing_intent_refs, ia_evidence_refs = evidence_refs,
              ia_target_refs = target_refs, ia_voc_inputs = voc_inputs, ia_urgency = urgency,
              ia_confidence = confidence, ia_interruptible = interruptible, ia_expires_at = expires_at,
              ia_resources = resources, ia_causal_cursor = causal_cursor, ia_producer_id = producer_id\<rparr> in
     rbind (check_intrinsic_activity b x) (\<lambda>_.
     Inr x)))))))))))))))"

definition intrinsic_activity_to_event :: "intrinsic_activity \<Rightarrow> string \<Rightarrow> string \<Rightarrow> datetime \<Rightarrow> jobject event result" where
  "intrinsic_activity_to_event x source epoch_id recorded_at =
     make_event (''intrinsic-activity-recorded:'' @ epoch_id @ '':''
        @ (ia_activity_id x)) INTRINSIC_ACTIVITY_RECORDED_EVENT source (ia_activity_id x)
       recorded_at
       [(''epoch_id'', JStr epoch_id),
      (''activity'', JObj (intrinsic_activity_to_dict x))] None"

definition intrinsic_activity_ok :: "builtins \<Rightarrow> intrinsic_activity \<Rightarrow> bool" where
  "intrinsic_activity_ok b x \<longleftrightarrow> check_intrinsic_activity b x = Inr () \<and>
     list_all (\<lambda>v. governing_intent_ref_ok b v) (ia_governing_intent_refs x) \<and>
     value_of_cognition_inputs_ok b (ia_voc_inputs x) \<and>
     cognitive_resource_vector_ok b (ia_resources x)"

lemma check_intrinsic_activity_aware:
  "check_intrinsic_activity b x = Inr () \<Longrightarrow> is_aware (ia_expires_at x)"
  by (auto simp: check_intrinsic_activity_def rbind_Inr_iff raise_first_no_errors simp del: raise_first_ok split: option.splits if_splits)

lemma intrinsic_activity_round_trip:
  assumes "intrinsic_activity_ok b x"
  shows "intrinsic_activity_from_dict b (intrinsic_activity_to_dict x) = Inr x"
proof -
  have k: "check_intrinsic_activity b x = Inr ()" using assms by (simp add: intrinsic_activity_ok_def)
  note a = check_intrinsic_activity_aware [OF k]
  show ?thesis
    using k a assms
    by (cases x) (simp add: intrinsic_activity_ok_def intrinsic_activity_from_dict_def intrinsic_activity_to_dict_def intrinsic_activity_identity_def codec cognitive_resource_vector_round_trip governing_intent_ref_list_round_trip value_of_cognition_inputs_round_trip Let_def)
qed

subsection \<open>ValueOfCognitionEstimate\<close>

record value_of_cognition_estimate =
  voce_estimate_id :: string
  voce_epoch_id :: string
  voce_activity_id :: string
  voce_policy_id :: string
  voce_expected_decision_improvement :: pyfloat
  voce_compute_cost :: pyfloat
  voce_delay_cost :: pyfloat
  voce_attention_cost :: pyfloat
  voce_opportunity_cost :: pyfloat
  voce_privacy_risk_cost :: pyfloat
  voce_net_value :: pyfloat
  voce_evaluated_at :: datetime

definition check_value_of_cognition_estimate :: "value_of_cognition_estimate \<Rightarrow> unit result" where
  "check_value_of_cognition_estimate x = raise_first
     (require_text (voce_estimate_id x) ''VOC estimate id'' @
      require_text (voce_epoch_id x) ''VOC epoch id'' @
      require_text (voce_activity_id x) ''VOC activity id'' @
      require_text (voce_policy_id x) ''VOC policy id'' @
      non_negative (voce_expected_decision_improvement x) ''VOC expected improvement'' @
      non_negative (voce_compute_cost x) ''VOC compute cost'' @
      non_negative (voce_delay_cost x) ''VOC delay cost'' @
      non_negative (voce_attention_cost x) ''VOC attention cost'' @
      non_negative (voce_opportunity_cost x) ''VOC opportunity cost'' @
      non_negative (voce_privacy_risk_cost x) ''VOC privacy/risk cost'' @
      [(\<not> fin (voce_net_value x), ValueError ''VOC net value must be finite''),
       (voce_net_value x \<noteq> round12 (voce_expected_decision_improvement x - voce_compute_cost x - voce_delay_cost x -
          voce_attention_cost x - voce_opportunity_cost x - voce_privacy_risk_cost x),
        ValueError ''VOC net value does not match its recorded terms'')] @
      require_aware (voce_evaluated_at x) ''VOC evaluated_at'')"

definition value_of_cognition_estimate_to_dict :: "value_of_cognition_estimate \<Rightarrow> jobject" where
  "value_of_cognition_estimate_to_dict x =
     [(''estimate_id'', JStr (voce_estimate_id x)),
      (''epoch_id'', JStr (voce_epoch_id x)),
      (''activity_id'', JStr (voce_activity_id x)),
      (''policy_id'', JStr (voce_policy_id x)),
      (''expected_decision_improvement'', JFloat (voce_expected_decision_improvement x)),
      (''compute_cost'', JFloat (voce_compute_cost x)),
      (''delay_cost'', JFloat (voce_delay_cost x)),
      (''attention_cost'', JFloat (voce_attention_cost x)),
      (''opportunity_cost'', JFloat (voce_opportunity_cost x)),
      (''privacy_risk_cost'', JFloat (voce_privacy_risk_cost x)),
      (''net_value'', JFloat (voce_net_value x)),
      (''evaluated_at'', JTime (voce_evaluated_at x))]"

definition value_of_cognition_estimate_from_dict :: "builtins \<Rightarrow> jobject \<Rightarrow> value_of_cognition_estimate result" where
  "value_of_cognition_estimate_from_dict b d =
     rbind (j_str b d ''estimate_id'') (\<lambda>estimate_id.
     rbind (j_str b d ''epoch_id'') (\<lambda>epoch_id.
     rbind (j_str b d ''activity_id'') (\<lambda>activity_id.
     rbind (j_str b d ''policy_id'') (\<lambda>policy_id.
     rbind (j_float b d ''expected_decision_improvement'') (\<lambda>expected_decision_improvement.
     rbind (j_float b d ''compute_cost'') (\<lambda>compute_cost.
     rbind (j_float b d ''delay_cost'') (\<lambda>delay_cost.
     rbind (j_float b d ''attention_cost'') (\<lambda>attention_cost.
     rbind (j_float b d ''opportunity_cost'') (\<lambda>opportunity_cost.
     rbind (j_float b d ''privacy_risk_cost'') (\<lambda>privacy_risk_cost.
     rbind (j_float b d ''net_value'') (\<lambda>net_value.
     rbind (j_time b d ''evaluated_at'') (\<lambda>evaluated_at.
     let x = \<lparr>voce_estimate_id = estimate_id, voce_epoch_id = epoch_id, voce_activity_id = activity_id,
              voce_policy_id = policy_id, voce_expected_decision_improvement = expected_decision_improvement,
              voce_compute_cost = compute_cost, voce_delay_cost = delay_cost, voce_attention_cost = attention_cost,
              voce_opportunity_cost = opportunity_cost, voce_privacy_risk_cost = privacy_risk_cost,
              voce_net_value = net_value, voce_evaluated_at = evaluated_at\<rparr> in
     rbind (check_value_of_cognition_estimate x) (\<lambda>_.
     Inr x)))))))))))))"

definition value_of_cognition_estimate_to_event :: "value_of_cognition_estimate \<Rightarrow> string \<Rightarrow> jobject event result" where
  "value_of_cognition_estimate_to_event x source =
     make_event (''voc-evaluated:'' @ (voce_epoch_id x) @ '':'' @ (voce_activity_id x)) VOC_EVALUATED_EVENT
        source (voce_activity_id x)
       (voce_evaluated_at x) (value_of_cognition_estimate_to_dict x) None"

definition value_of_cognition_estimate_ok :: "builtins \<Rightarrow> value_of_cognition_estimate \<Rightarrow> bool" where
  "value_of_cognition_estimate_ok b x \<longleftrightarrow> check_value_of_cognition_estimate x = Inr ()"

lemma check_value_of_cognition_estimate_aware:
  "check_value_of_cognition_estimate x = Inr () \<Longrightarrow> is_aware (voce_evaluated_at x)"
  by (auto simp: check_value_of_cognition_estimate_def rbind_Inr_iff raise_first_no_errors simp del: raise_first_ok split: option.splits if_splits)

lemma value_of_cognition_estimate_round_trip:
  assumes "value_of_cognition_estimate_ok b x"
  shows "value_of_cognition_estimate_from_dict b (value_of_cognition_estimate_to_dict x) = Inr x"
proof -
  have k: "check_value_of_cognition_estimate x = Inr ()" using assms by (simp add: value_of_cognition_estimate_ok_def)
  note a = check_value_of_cognition_estimate_aware [OF k]
  show ?thesis
    using k a assms
    by (cases x) (simp add: value_of_cognition_estimate_ok_def value_of_cognition_estimate_from_dict_def value_of_cognition_estimate_to_dict_def codec Let_def)
qed

subsection \<open>AgendaDecision\<close>

record agenda_decision =
  ad_activity_id :: string
  ad_disposition :: activity_disposition
  ad_reason :: string

definition check_agenda_decision :: "agenda_decision \<Rightarrow> unit result" where
  "check_agenda_decision x = raise_first
     (require_text (ad_activity_id x) ''agenda activity id'' @
      require_text (ad_reason x) ''agenda decision reason'')"

definition agenda_decision_to_dict :: "agenda_decision \<Rightarrow> jobject" where
  "agenda_decision_to_dict x =
     [(''activity_id'', JStr (ad_activity_id x)),
      (''disposition'', JStr (activity_disposition_value (ad_disposition x))),
      (''reason'', JStr (ad_reason x))]"

definition agenda_decision_from_dict :: "builtins \<Rightarrow> jobject \<Rightarrow> agenda_decision result" where
  "agenda_decision_from_dict b d =
     rbind (j_str b d ''activity_id'') (\<lambda>activity_id.
     rbind (rbind (j_str b d ''disposition'') activity_disposition_of) (\<lambda>disposition.
     rbind (j_str b d ''reason'') (\<lambda>reason.
     let x = \<lparr>ad_activity_id = activity_id, ad_disposition = disposition, ad_reason = reason\<rparr> in
     rbind (check_agenda_decision x) (\<lambda>_.
     Inr x))))"

definition agenda_decision_ok :: "builtins \<Rightarrow> agenda_decision \<Rightarrow> bool" where
  "agenda_decision_ok b x \<longleftrightarrow> check_agenda_decision x = Inr ()"

lemma agenda_decision_round_trip:
  assumes "agenda_decision_ok b x"
  shows "agenda_decision_from_dict b (agenda_decision_to_dict x) = Inr x"
proof -
  have k: "check_agenda_decision x = Inr ()" using assms by (simp add: agenda_decision_ok_def)
  show ?thesis
    using k assms
    by (cases x) (simp add: agenda_decision_ok_def agenda_decision_from_dict_def agenda_decision_to_dict_def codec Let_def)
qed

lemma agenda_decision_list_round_trip:
  "list_all (agenda_decision_ok b) xs \<Longrightarrow> mapM (\<lambda>v. rbind (as_obj v) (agenda_decision_from_dict b)) (map (JObj \<circ> agenda_decision_to_dict) xs) = Inr xs"
  by (rule mapM_read_written) (auto simp: list_all_iff agenda_decision_round_trip codec)

subsection \<open>IntrinsicAgendaSelection\<close>

record intrinsic_agenda_selection =
  ias_selection_id :: string
  ias_epoch_id :: string
  ias_policy_id :: string
  ias_decisions :: "agenda_decision list"
  ias_consumed :: cognitive_resource_vector
  ias_remaining :: cognitive_resource_vector
  ias_selected_at :: datetime

definition intrinsic_agenda_selection_identity :: "intrinsic_agenda_selection \<Rightarrow> jobject" where
  "intrinsic_agenda_selection_identity x =
     [(''epoch_id'', JStr (ias_epoch_id x)),
      (''policy_id'', JStr (ias_policy_id x)),
      (''decisions'', JList (map (JObj \<circ> agenda_decision_to_dict) (ias_decisions x))),
      (''consumed'', JObj (cognitive_resource_vector_to_dict (ias_consumed x))),
      (''remaining'', JObj (cognitive_resource_vector_to_dict (ias_remaining x))),
      (''selected_at'', JTime (ias_selected_at x))]"

definition check_intrinsic_agenda_selection :: "builtins \<Rightarrow> intrinsic_agenda_selection \<Rightarrow> unit result" where
  "check_intrinsic_agenda_selection b x =
     rbind (raise_first (require_text (ias_selection_id x) ''intrinsic agenda selection id'' @
      require_text (ias_epoch_id x) ''intrinsic agenda epoch id'' @
      require_text (ias_policy_id x) ''intrinsic agenda policy id'' @
      [(ias_decisions x = [], ValueError ''intrinsic agenda selection requires candidate decisions'')] @
      unique_text (map ad_activity_id (ias_decisions x)) ''intrinsic agenda activity ids'' True @
      require_aware (ias_selected_at x) ''intrinsic agenda selected_at'')) (\<lambda>_.
     rbind (canonical_id b ''intrinsic-agenda'' (intrinsic_agenda_selection_identity x)) (\<lambda>i.
     raise_first [(ias_selection_id x \<noteq> i,
      ValueError ''intrinsic agenda id does not match its semantic decision'')]))"

definition create_intrinsic_agenda_selection :: "builtins \<Rightarrow> intrinsic_agenda_selection \<Rightarrow> intrinsic_agenda_selection result" where
  "create_intrinsic_agenda_selection b x =
           rbind (canonical_id b ''intrinsic-agenda'' (intrinsic_agenda_selection_identity x)) (\<lambda>i.
      let y = x\<lparr>ias_selection_id := i\<rparr> in rbind (check_intrinsic_agenda_selection b y) (\<lambda>_. Inr y))"

definition intrinsic_agenda_selection_to_dict :: "intrinsic_agenda_selection \<Rightarrow> jobject" where
  "intrinsic_agenda_selection_to_dict x =
     (''selection_id'', JStr (ias_selection_id x)) # intrinsic_agenda_selection_identity x"

definition intrinsic_agenda_selection_from_dict :: "builtins \<Rightarrow> jobject \<Rightarrow> intrinsic_agenda_selection result" where
  "intrinsic_agenda_selection_from_dict b d =
     rbind (j_str b d ''selection_id'') (\<lambda>selection_id.
     rbind (j_str b d ''epoch_id'') (\<lambda>epoch_id.
     rbind (j_str b d ''policy_id'') (\<lambda>policy_id.
     rbind (j_items b (\<lambda>v. rbind (as_obj v) (agenda_decision_from_dict b)) d ''decisions'') (\<lambda>decisions.
     rbind (rbind (j_obj d ''consumed'') (cognitive_resource_vector_from_dict b)) (\<lambda>consumed.
     rbind (rbind (j_obj d ''remaining'') (cognitive_resource_vector_from_dict b)) (\<lambda>remaining.
     rbind (j_time b d ''selected_at'') (\<lambda>selected_at.
     let x = \<lparr>ias_selection_id = selection_id, ias_epoch_id = epoch_id, ias_policy_id = policy_id,
              ias_decisions = decisions, ias_consumed = consumed, ias_remaining = remaining,
              ias_selected_at = selected_at\<rparr> in
     rbind (check_intrinsic_agenda_selection b x) (\<lambda>_.
     Inr x))))))))"

definition intrinsic_agenda_selection_to_event :: "intrinsic_agenda_selection \<Rightarrow> string \<Rightarrow> jobject event result" where
  "intrinsic_agenda_selection_to_event x source =
     make_event (''intrinsic-agenda-selected:'' @ ias_selection_id x) AGENDA_SELECTED_EVENT source (ias_epoch_id x)
       (ias_selected_at x) (intrinsic_agenda_selection_to_dict x) None"

definition intrinsic_agenda_selection_ok :: "builtins \<Rightarrow> intrinsic_agenda_selection \<Rightarrow> bool" where
  "intrinsic_agenda_selection_ok b x \<longleftrightarrow> check_intrinsic_agenda_selection b x = Inr () \<and>
     list_all (\<lambda>v. agenda_decision_ok b v) (ias_decisions x) \<and>
     cognitive_resource_vector_ok b (ias_consumed x) \<and>
     cognitive_resource_vector_ok b (ias_remaining x)"

lemma check_intrinsic_agenda_selection_aware:
  "check_intrinsic_agenda_selection b x = Inr () \<Longrightarrow> is_aware (ias_selected_at x)"
  by (auto simp: check_intrinsic_agenda_selection_def rbind_Inr_iff raise_first_no_errors simp del: raise_first_ok split: option.splits if_splits)

lemma intrinsic_agenda_selection_round_trip:
  assumes "intrinsic_agenda_selection_ok b x"
  shows "intrinsic_agenda_selection_from_dict b (intrinsic_agenda_selection_to_dict x) = Inr x"
proof -
  have k: "check_intrinsic_agenda_selection b x = Inr ()" using assms by (simp add: intrinsic_agenda_selection_ok_def)
  note a = check_intrinsic_agenda_selection_aware [OF k]
  show ?thesis
    using k a assms
    by (cases x) (simp add: intrinsic_agenda_selection_ok_def intrinsic_agenda_selection_from_dict_def intrinsic_agenda_selection_to_dict_def intrinsic_agenda_selection_identity_def codec agenda_decision_list_round_trip cognitive_resource_vector_round_trip Let_def)
qed

definition intrinsic_agenda_selection_selected_activity_ids :: "intrinsic_agenda_selection \<Rightarrow> string list" where
  "intrinsic_agenda_selection_selected_activity_ids x =
     map ad_activity_id (filter (\<lambda>d. ad_disposition d = SELECTED) (ias_decisions x))"

definition intrinsic_agenda_selection_deferred_activity_ids :: "intrinsic_agenda_selection \<Rightarrow> string list" where
  "intrinsic_agenda_selection_deferred_activity_ids x =
     map ad_activity_id (filter (\<lambda>d. ad_disposition d = DEFERRED) (ias_decisions x))"

definition intrinsic_agenda_selection_suppressed_activity_ids :: "intrinsic_agenda_selection \<Rightarrow> string list" where
  "intrinsic_agenda_selection_suppressed_activity_ids x =
     map ad_activity_id (filter (\<lambda>d. ad_disposition d = SUPPRESSED) (ias_decisions x))"

subsection \<open>CalibrationExchange\<close>

record calibration_exchange =
  ce_exchange_id :: string
  ce_proposition :: string
  ce_local_confidence :: pyfloat
  ce_peer_confidence :: pyfloat
  ce_local_evidence_refs :: "string list"
  ce_peer_evidence_refs :: "string list"
  ce_local_assumptions :: "string list"
  ce_peer_assumptions :: "string list"
  ce_governing_intent_refs :: "governing_intent_ref list"
  ce_peer_id :: string
  ce_protocol_version :: string
  ce_request_provenance_ref :: string
  ce_response_provenance_ref :: string
  ce_recorded_at :: datetime

definition calibration_exchange_identity :: "calibration_exchange \<Rightarrow> jobject" where
  "calibration_exchange_identity x =
     [(''proposition'', JStr (ce_proposition x)),
      (''local_confidence'', JFloat (ce_local_confidence x)),
      (''peer_confidence'', JFloat (ce_peer_confidence x)),
      (''local_evidence_refs'', JStrs (ce_local_evidence_refs x)),
      (''peer_evidence_refs'', JStrs (ce_peer_evidence_refs x)),
      (''local_assumptions'', JStrs (ce_local_assumptions x)),
      (''peer_assumptions'', JStrs (ce_peer_assumptions x)),
      (''governing_intent_refs'', JList (map (JObj \<circ> governing_intent_ref_to_dict) (ce_governing_intent_refs x))),
      (''peer_id'', JStr (ce_peer_id x)),
      (''protocol_version'', JStr (ce_protocol_version x)),
      (''request_provenance_ref'', JStr (ce_request_provenance_ref x)),
      (''response_provenance_ref'', JStr (ce_response_provenance_ref x)),
      (''recorded_at'', JTime (ce_recorded_at x))]"

definition check_calibration_exchange :: "builtins \<Rightarrow> calibration_exchange \<Rightarrow> unit result" where
  "check_calibration_exchange b x =
     rbind (raise_first (require_text (ce_exchange_id x) ''calibration exchange id'' @
      require_text (ce_proposition x) ''calibration proposition'' @
      require_text (ce_peer_id x) ''calibration peer id'' @
      require_text (ce_protocol_version x) ''calibration protocol version'' @
      require_text (ce_request_provenance_ref x) ''calibration request provenance'' @
      require_text (ce_response_provenance_ref x) ''calibration response provenance'' @
      bounded (ce_local_confidence x) ''local calibration confidence'' @
      bounded (ce_peer_confidence x) ''peer calibration confidence'' @
      unique_text (ce_local_evidence_refs x) ''local calibration evidence'' True @
      unique_text (ce_peer_evidence_refs x) ''peer calibration evidence'' True @
      unique_text (ce_local_assumptions x) ''local calibration assumptions'' False @
      unique_text (ce_peer_assumptions x) ''peer calibration assumptions'' False @
      [(ce_governing_intent_refs x = [], ValueError ''calibration exchange requires governing intent''),
       (\<not> distinct (ce_governing_intent_refs x),
        ValueError ''calibration governing intent refs must be unique'')] @
      require_aware (ce_recorded_at x) ''calibration recorded_at'')) (\<lambda>_.
     rbind (canonical_id b ''calibration-exchange'' (calibration_exchange_identity x)) (\<lambda>i.
     raise_first [(ce_exchange_id x \<noteq> i,
      ValueError ''calibration exchange id does not match its immutable content'')]))"

text \<open>The order that \<open>create\<close> gives to its arguments.\<close>

definition normal_calibration_exchange :: "calibration_exchange \<Rightarrow> calibration_exchange" where
  "normal_calibration_exchange x = x\<lparr>ce_local_evidence_refs := sort (remdups (ce_local_evidence_refs x)),
     ce_peer_evidence_refs := sort (remdups (ce_peer_evidence_refs x)),
     ce_local_assumptions := sort (remdups (ce_local_assumptions x)),
     ce_peer_assumptions := sort (remdups (ce_peer_assumptions x)),
     ce_governing_intent_refs := ordered_intents (ce_governing_intent_refs x)\<rparr>"

definition create_calibration_exchange :: "builtins \<Rightarrow> calibration_exchange \<Rightarrow> calibration_exchange result" where
  "create_calibration_exchange b x0 =
     (let x = normal_calibration_exchange x0 in
      rbind (canonical_id b ''calibration-exchange'' (calibration_exchange_identity x)) (\<lambda>i.
      let y = x\<lparr>ce_exchange_id := i\<rparr> in rbind (check_calibration_exchange b y) (\<lambda>_. Inr y)))"

definition calibration_exchange_to_dict :: "calibration_exchange \<Rightarrow> jobject" where
  "calibration_exchange_to_dict x =
     [(''exchange_id'', JStr (ce_exchange_id x)),
      (''proposition'', JStr (ce_proposition x)),
      (''local_confidence'', JFloat (ce_local_confidence x)),
      (''peer_confidence'', JFloat (ce_peer_confidence x)),
      (''local_evidence_refs'', JStrs (ce_local_evidence_refs x)),
      (''peer_evidence_refs'', JStrs (ce_peer_evidence_refs x)),
      (''local_assumptions'', JStrs (ce_local_assumptions x)),
      (''peer_assumptions'', JStrs (ce_peer_assumptions x)),
      (''governing_intent_refs'', JList (map (JObj \<circ> governing_intent_ref_to_dict) (ce_governing_intent_refs x))),
      (''peer_id'', JStr (ce_peer_id x)),
      (''protocol_version'', JStr (ce_protocol_version x)),
      (''request_provenance_ref'', JStr (ce_request_provenance_ref x)),
      (''response_provenance_ref'', JStr (ce_response_provenance_ref x)),
      (''recorded_at'', JTime (ce_recorded_at x))]"

definition calibration_exchange_from_dict :: "builtins \<Rightarrow> jobject \<Rightarrow> calibration_exchange result" where
  "calibration_exchange_from_dict b d =
     rbind (j_str b d ''exchange_id'') (\<lambda>exchange_id.
     rbind (j_str b d ''proposition'') (\<lambda>proposition.
     rbind (j_float b d ''local_confidence'') (\<lambda>local_confidence.
     rbind (j_float b d ''peer_confidence'') (\<lambda>peer_confidence.
     rbind (j_strs b d ''local_evidence_refs'') (\<lambda>local_evidence_refs.
     rbind (j_strs b d ''peer_evidence_refs'') (\<lambda>peer_evidence_refs.
     rbind (j_strs b d ''local_assumptions'') (\<lambda>local_assumptions.
     rbind (j_strs b d ''peer_assumptions'') (\<lambda>peer_assumptions.
     rbind (j_items b (\<lambda>v. rbind (as_obj v) (governing_intent_ref_from_dict b)) d ''governing_intent_refs'') (\<lambda>governing_intent_refs.
     rbind (j_str b d ''peer_id'') (\<lambda>peer_id.
     rbind (j_str b d ''protocol_version'') (\<lambda>protocol_version.
     rbind (j_str b d ''request_provenance_ref'') (\<lambda>request_provenance_ref.
     rbind (j_str b d ''response_provenance_ref'') (\<lambda>response_provenance_ref.
     rbind (j_time b d ''recorded_at'') (\<lambda>recorded_at.
     let x = \<lparr>ce_exchange_id = exchange_id, ce_proposition = proposition, ce_local_confidence = local_confidence,
              ce_peer_confidence = peer_confidence, ce_local_evidence_refs = local_evidence_refs,
              ce_peer_evidence_refs = peer_evidence_refs, ce_local_assumptions = local_assumptions,
              ce_peer_assumptions = peer_assumptions, ce_governing_intent_refs = governing_intent_refs,
              ce_peer_id = peer_id, ce_protocol_version = protocol_version,
              ce_request_provenance_ref = request_provenance_ref,
              ce_response_provenance_ref = response_provenance_ref, ce_recorded_at = recorded_at\<rparr> in
     rbind (check_calibration_exchange b x) (\<lambda>_.
     Inr x)))))))))))))))"

definition calibration_exchange_to_event :: "calibration_exchange \<Rightarrow> string \<Rightarrow> jobject event result" where
  "calibration_exchange_to_event x source =
     make_event (''calibration-exchange-recorded:'' @ ce_exchange_id x) CALIBRATION_EXCHANGE_RECORDED_EVENT
        source (ce_exchange_id x)
       (ce_recorded_at x) (calibration_exchange_to_dict x) None"

definition calibration_exchange_ok :: "builtins \<Rightarrow> calibration_exchange \<Rightarrow> bool" where
  "calibration_exchange_ok b x \<longleftrightarrow> check_calibration_exchange b x = Inr () \<and>
     list_all (\<lambda>v. governing_intent_ref_ok b v) (ce_governing_intent_refs x)"

lemma check_calibration_exchange_aware:
  "check_calibration_exchange b x = Inr () \<Longrightarrow> is_aware (ce_recorded_at x)"
  by (auto simp: check_calibration_exchange_def rbind_Inr_iff raise_first_no_errors simp del: raise_first_ok split: option.splits if_splits)

lemma calibration_exchange_round_trip:
  assumes "calibration_exchange_ok b x"
  shows "calibration_exchange_from_dict b (calibration_exchange_to_dict x) = Inr x"
proof -
  have k: "check_calibration_exchange b x = Inr ()" using assms by (simp add: calibration_exchange_ok_def)
  note a = check_calibration_exchange_aware [OF k]
  show ?thesis
    using k a assms
    by (cases x) (simp add: calibration_exchange_ok_def calibration_exchange_from_dict_def calibration_exchange_to_dict_def calibration_exchange_identity_def codec governing_intent_ref_list_round_trip Let_def)
qed

subsection \<open>Events that end an epoch\<close>

definition dream_epoch_preempted_event :: "dream_epoch \<Rightarrow> jobject event \<Rightarrow> string \<Rightarrow> datetime \<Rightarrow> jobject event result" where
  "dream_epoch_preempted_event epoch foreground source preempted_at =
     make_event (''dream-epoch-preempted:'' @ de_epoch_id epoch @ '':'' @ ev_id foreground) DREAM_EPOCH_PREEMPTED_EVENT source
       (de_epoch_id epoch) preempted_at
       [(''epoch_id'', JStr (de_epoch_id epoch)), (''foreground_event_id'', JStr (ev_id foreground)),
        (''preempted_at'', JTime preempted_at),
        (''reason'', JStr ''foreground demand preempts background cognition'')]
       (Some (ev_id foreground))"

definition dream_epoch_expired_event :: "dream_epoch \<Rightarrow> string \<Rightarrow> datetime \<Rightarrow> jobject event result" where
  "dream_epoch_expired_event epoch source expired_at =
     make_event (''dream-epoch-expired:'' @ de_epoch_id epoch) DREAM_EPOCH_EXPIRED_EVENT source (de_epoch_id epoch)
       expired_at [(''epoch_id'', JStr (de_epoch_id epoch)), (''expired_at'', JTime expired_at)] None"

definition dream_epoch_abandoned_event ::
  "dream_epoch \<Rightarrow> dream_abandonment_reason \<Rightarrow> string \<Rightarrow> datetime \<Rightarrow> jobject event result" where
  "dream_epoch_abandoned_event epoch reason source abandoned_at =
     make_event (''dream-epoch-abandoned:'' @ de_epoch_id epoch) DREAM_EPOCH_ABANDONED_EVENT source (de_epoch_id epoch)
       abandoned_at
       [(''epoch_id'', JStr (de_epoch_id epoch)), (''reason'', JStr (dream_abandonment_reason_value reason)),
        (''abandoned_at'', JTime abandoned_at)]
       (Some (de_trigger_event_id epoch))"

end
