(* ===== verification/EndogenousPolicy.thy ===== *)
theory EndogenousPolicy
  imports EndogenousModels
begin

section \<open>Value of cognition and the agenda\<close>

text \<open>
  Models \<^verbatim>\<open>src/noema/endogenous/policy.py\<close>: the evaluation of one activity and the greedy
  selection of an agenda under a budget of several resources.
\<close>

subsection \<open>Evaluation\<close>

definition voc_identity :: "value_of_cognition_estimate \<Rightarrow> jobject" where
  "voc_identity x = tl (value_of_cognition_estimate_to_dict x)"

definition evaluate_value_of_cognition ::
  "builtins \<Rightarrow> intrinsic_activity \<Rightarrow> dream_epoch \<Rightarrow> endogenous_policy_snapshot \<Rightarrow> datetime \<Rightarrow>
   value_of_cognition_estimate result" where
  "evaluate_value_of_cognition b activity epoch policy evaluated_at =
     rbind (raise_first
       [(de_policy_id epoch \<noteq> eps_policy_id policy \<or> de_policy_version epoch \<noteq> eps_version policy,
         ValueError ''dream epoch does not pin the supplied endogenous policy''),
        (ia_causal_cursor activity \<noteq> de_event_log_cursor epoch,
         ValueError ''intrinsic activity does not belong to the dream epoch causal cut'')]) (\<lambda>_.
     let inputs = ia_voc_inputs activity;
         improvement = round12 (voci_expected_decision_improvement inputs);
         compute = round12 (voci_compute_cost_basis inputs * eps_compute_cost_weight policy);
         delay = round12 (voci_delay_cost_basis inputs * eps_delay_cost_weight policy);
         attention = round12 (voci_attention_cost_basis inputs * eps_attention_cost_weight policy);
         opportunity = round12 (voci_opportunity_cost_basis inputs * eps_opportunity_cost_weight policy);
         risk = round12 (voci_privacy_risk_cost_basis inputs * eps_privacy_risk_cost_weight policy);
         x = \<lparr>voce_estimate_id = [], voce_epoch_id = de_epoch_id epoch, voce_activity_id = ia_activity_id activity,
              voce_policy_id = eps_policy_id policy, voce_expected_decision_improvement = improvement,
              voce_compute_cost = compute, voce_delay_cost = delay, voce_attention_cost = attention,
              voce_opportunity_cost = opportunity, voce_privacy_risk_cost = risk,
              voce_net_value = round12 (improvement - compute - delay - attention - opportunity - risk),
              voce_evaluated_at = evaluated_at\<rparr> in
     rbind (canonical_id b ''voc-estimate'' (voc_identity x)) (\<lambda>i.
     let y = x\<lparr>voce_estimate_id := i\<rparr> in rbind (check_value_of_cognition_estimate y) (\<lambda>_. Inr y)))"

subsection \<open>Selection\<close>

definition ensure_selector_supported :: "endogenous_policy_snapshot \<Rightarrow> unit result" where
  "ensure_selector_supported policy =
     (if (eps_selector_id policy, eps_selector_version policy) \<noteq> (STABLE_GREEDY_SELECTOR_ID, STABLE_GREEDY_SELECTOR_VERSION)
      then Inl (ValueError ''unsupported endogenous agenda selector'') else Inr ())"

text \<open>\<open>{value.activity_id: value for value in estimates}\<close>\<close>

definition estimate_of :: "value_of_cognition_estimate list \<Rightarrow> string \<Rightarrow> value_of_cognition_estimate option" where
  "estimate_of estimates i = map_of (map (\<lambda>e. (voce_activity_id e, e)) (rev estimates)) i"

definition net_value_of :: "value_of_cognition_estimate list \<Rightarrow> intrinsic_activity \<Rightarrow> pyfloat" where
  "net_value_of estimates a = voce_net_value (the (estimate_of estimates (ia_activity_id a)))"

text \<open>The order of the ranking: net value, urgency and confidence from high to low, then the identifier.\<close>

definition ranked_before :: "value_of_cognition_estimate list \<Rightarrow> intrinsic_activity \<Rightarrow> intrinsic_activity \<Rightarrow> bool" where
  "ranked_before estimates x y =
     (let n = net_value_of estimates in
      n y < n x \<or> n x = n y \<and> (ia_urgency y < ia_urgency x \<or> ia_urgency x = ia_urgency y \<and>
        (ia_confidence y < ia_confidence x \<or> ia_confidence x = ia_confidence y \<and> ia_activity_id x < ia_activity_id y)))"

definition new_agenda_decision :: "string \<Rightarrow> activity_disposition \<Rightarrow> string \<Rightarrow> agenda_decision result" where
  "new_agenda_decision i disposition reason =
     (let d = \<lparr>ad_activity_id = i, ad_disposition = disposition, ad_reason = reason\<rparr> in
      rbind (check_agenda_decision d) (\<lambda>_. Inr d))"

text \<open>One turn of the loop over the ranked activities: the resources consumed, and the decisions so far.\<close>

definition decide_activity ::
  "dream_epoch \<Rightarrow> pyfloat \<Rightarrow> value_of_cognition_estimate list \<Rightarrow> datetime \<Rightarrow>
   cognitive_resource_vector \<times> agenda_decision list \<Rightarrow> intrinsic_activity \<Rightarrow>
   (cognitive_resource_vector \<times> agenda_decision list) result" where
  "decide_activity epoch threshold estimates selected_at = (\<lambda>(consumed, decisions) a.
     let i = ia_activity_id a;
         decided = \<lambda>c disposition reason. rbind (new_agenda_decision i disposition reason) (\<lambda>d. Inr (c, decisions @ [d])) in
     if dt_le (ia_expires_at a) selected_at
     then decided consumed SUPPRESSED ''activity expired before agenda selection''
     else if net_value_of estimates a \<le> threshold
     then decided consumed SUPPRESSED ''NetVOC is not positive under the pinned policy''
     else rbind (cognitive_resource_vector_plus consumed (ia_resources a)) (\<lambda>proposed.
       if \<not> cognitive_resource_vector_fits_within proposed (bcb_ceiling (de_budget epoch))
       then decided consumed DEFERRED ''finite background cognitive budget is insufficient''
       else decided proposed SELECTED ''positive NetVOC fits every pinned budget ceiling''))"

definition select_stable_greedy_v1 ::
  "builtins \<Rightarrow> dream_epoch \<Rightarrow> endogenous_policy_snapshot \<Rightarrow> intrinsic_activity list \<Rightarrow>
   value_of_cognition_estimate list \<Rightarrow> datetime \<Rightarrow> intrinsic_agenda_selection result" where
  "select_stable_greedy_v1 b epoch policy activities estimates selected_at =
     rbind (raise_first
       [(\<not> is_aware selected_at, ValueError ''agenda selection time must be timezone-aware''),
        (dt_le (de_expires_at epoch) selected_at, ValueError ''an expired dream epoch cannot select an agenda''),
        (de_policy_id epoch \<noteq> eps_policy_id policy, ValueError ''agenda policy differs from the dream epoch policy''),
        (\<not> distinct (map ia_activity_id activities), ValueError ''intrinsic agenda activities must be unique''),
        (set (map voce_activity_id estimates) \<noteq> set (map ia_activity_id activities),
         ValueError ''every intrinsic activity requires exactly one VOC estimate''),
        (list_ex (\<lambda>e. voce_epoch_id e \<noteq> de_epoch_id epoch \<or> voce_policy_id e \<noteq> eps_policy_id policy) estimates,
         ValueError ''VOC estimates do not belong to the selected epoch and policy'')]) (\<lambda>_.
     let ranked = py_sorted (ranked_before estimates) activities;
         threshold = py_max 0 (eps_minimum_net_voc policy) in
     rbind (foldM (decide_activity epoch threshold estimates selected_at) (cognitive_resource_vector_zero, []) ranked)
       (\<lambda>(consumed, decisions).
     if decisions = [] then Inl (ValueError ''agenda selection requires at least one evaluated candidate'') else
     rbind (cognitive_resource_vector_minus (bcb_ceiling (de_budget epoch)) consumed) (\<lambda>remaining.
     create_intrinsic_agenda_selection b
       \<lparr>ias_selection_id = [], ias_epoch_id = de_epoch_id epoch, ias_policy_id = eps_policy_id policy,
        ias_decisions = decisions, ias_consumed = consumed, ias_remaining = remaining, ias_selected_at = selected_at\<rparr>)))"

definition select_intrinsic_agenda ::
  "builtins \<Rightarrow> dream_epoch \<Rightarrow> endogenous_policy_snapshot \<Rightarrow> intrinsic_activity list \<Rightarrow>
   value_of_cognition_estimate list \<Rightarrow> datetime \<Rightarrow> intrinsic_agenda_selection result" where
  "select_intrinsic_agenda b epoch policy activities estimates selected_at =
     (let selector = (eps_selector_id policy, eps_selector_version policy) in
      if (de_selector_id epoch, de_selector_version epoch) \<noteq> selector
      then Inl (ValueError ''dream epoch does not pin the supplied agenda selector'')
      else if selector = (STABLE_GREEDY_SELECTOR_ID, STABLE_GREEDY_SELECTOR_VERSION)
      then select_stable_greedy_v1 b epoch policy activities estimates selected_at
      else Inl (ValueError ''unsupported endogenous agenda selector''))"

end
