(* ===== verification/EndogenousProperties.thy ===== *)
theory EndogenousProperties
  imports EndogenousPolicy
begin

section \<open>The agenda of background cognition\<close>

text \<open>
  What \<open>select_intrinsic_agenda\<close> promises: it decides every candidate exactly once, in the order of the ranking;
  it suppresses exactly what has expired or is not worth its cost, selects whatever else still fits into the
  budget beside what it selected before, and defers the rest; what it reports as consumed is what the selected
  activities use.
\<close>

subsection \<open>The ranking\<close>

definition rank_key :: "value_of_cognition_estimate list \<Rightarrow> intrinsic_activity \<Rightarrow> real \<times> real \<times> real \<times> string" where
  "rank_key estimates a = (- real_of (net_value_of estimates a), - real_of (ia_urgency a), - real_of (ia_confidence a), ia_activity_id a)"

definition rankable :: "value_of_cognition_estimate list \<Rightarrow> intrinsic_activity \<Rightarrow> bool" where
  "rankable estimates a \<longleftrightarrow> fin (net_value_of estimates a) \<and> fin (ia_urgency a) \<and> fin (ia_confidence a)"

lemma fin_compare:
  assumes "fin x" "fin y"
  shows "x < y \<longleftrightarrow> real_of x < real_of y" "x = y \<longleftrightarrow> real_of x = real_of y"
  using assms by (cases x; cases y; simp add: fin_def real_of_def)+

lemma ranked_before_key:
  assumes "rankable estimates x" "rankable estimates y"
  shows "ranked_before estimates x y \<longleftrightarrow> rank_key estimates x < rank_key estimates y"
  using assms by (auto simp: rankable_def ranked_before_def rank_key_def fin_compare Let_def)

lemma ranked_in_order:
  assumes "list_all (rankable estimates) activities"
  shows "sorted_wrt (\<lambda>x y. \<not> ranked_before estimates y x) (py_sorted (ranked_before estimates) activities)"
proof (rule sorted_py_sorted)
  have "rankable estimates a" if "a \<in> set activities" for a using assms that by (simp add: list_all_iff)
  then show "weak_order_on (set activities) (ranked_before estimates)"
    unfolding weak_order_on_def by (auto simp: ranked_before_key)
qed

subsection \<open>The decisions\<close>

text \<open>The resources of the selected activities, added in the order of the ranking.\<close>

definition resources_used :: "(intrinsic_activity \<times> activity_disposition) list \<Rightarrow> cognitive_resource_vector result" where
  "resources_used ps = foldM cognitive_resource_vector_plus cognitive_resource_vector_zero
     (map (ia_resources \<circ> fst) (filter (\<lambda>p. snd p = SELECTED) ps))"

definition worthless :: "pyfloat \<Rightarrow> value_of_cognition_estimate list \<Rightarrow> datetime \<Rightarrow> intrinsic_activity \<Rightarrow> bool" where
  "worthless threshold estimates t a \<longleftrightarrow> dt_le (ia_expires_at a) t \<or> net_value_of estimates a \<le> threshold"

text \<open>The rule for one activity, given the decisions before it.\<close>

definition decided_rightly ::
  "cognitive_resource_vector \<Rightarrow> (intrinsic_activity \<Rightarrow> bool) \<Rightarrow> (intrinsic_activity \<times> activity_disposition) list \<Rightarrow>
   intrinsic_activity \<times> activity_disposition \<Rightarrow> bool" where
  "decided_rightly limit worthless1 earlier p \<longleftrightarrow>
     (if worthless1 (fst p) then snd p = SUPPRESSED
      else \<exists>used total. resources_used earlier = Inr used \<and>
        cognitive_resource_vector_plus used (ia_resources (fst p)) = Inr total \<and>
        snd p = (if cognitive_resource_vector_fits_within total limit then SELECTED else DEFERRED))"

definition greedy :: "cognitive_resource_vector \<Rightarrow> (intrinsic_activity \<Rightarrow> bool) \<Rightarrow> (intrinsic_activity \<times> activity_disposition) list \<Rightarrow> bool" where
  "greedy limit worthless1 ps \<longleftrightarrow> (\<forall>k < length ps. decided_rightly limit worthless1 (take k ps) (ps ! k))"

lemma greedy_snoc [simp]:
  "greedy limit w (ps @ [p]) \<longleftrightarrow> greedy limit w ps \<and> decided_rightly limit w ps p"
  by (auto simp: greedy_def nth_append less_Suc_eq)

lemma resources_used_snoc:
  "resources_used (ps @ [(a, d)]) =
     (if d = SELECTED then rbind (resources_used ps) (\<lambda>u. cognitive_resource_vector_plus u (ia_resources a)) else resources_used ps)"
proof -
  have "rbind r Inr = r" for r :: "cognitive_resource_vector result" by (cases r) simp_all
  then show ?thesis by (simp add: resources_used_def foldM_append)
qed

lemma new_agenda_decision_fields:
  assumes "new_agenda_decision i disposition reason = Inr d"
  shows "ad_activity_id d = i" "ad_disposition d = disposition"
  using assms by (auto simp: new_agenda_decision_def Let_def elim!: rbindE)

definition written :: "intrinsic_activity \<times> activity_disposition \<Rightarrow> string \<times> activity_disposition" where
  "written p = (ia_activity_id (fst p), snd p)"

lemma decide_activity_result:
  assumes "decide_activity epoch threshold estimates t (used, ds) a = Inr (used', ds')" "resources_used ps = Inr used"
  shows "\<exists>d disposition. ds' = ds @ [d] \<and> (ad_activity_id d, ad_disposition d) = written (a, disposition) \<and>
     decided_rightly (bcb_ceiling (de_budget epoch)) (worthless threshold estimates t) ps (a, disposition) \<and>
     resources_used (ps @ [(a, disposition)]) = Inr used' \<and>
     (disposition = SELECTED \<longrightarrow> cognitive_resource_vector_fits_within used' (bcb_ceiling (de_budget epoch)))"
proof (cases "worthless threshold estimates t a")
  case True
  then obtain reason d where "new_agenda_decision (ia_activity_id a) SUPPRESSED reason = Inr d" "used' = used" "ds' = ds @ [d]"
    using assms(1) by (auto simp: decide_activity_def Let_def worthless_def elim!: rbindE split: if_splits)
  then show ?thesis
    using True assms(2) new_agenda_decision_fields
    by (intro exI [of _ d] exI [of _ SUPPRESSED]) (auto simp: decided_rightly_def resources_used_snoc written_def)
next
  case False
  then obtain total where p: "cognitive_resource_vector_plus used (ia_resources a) = Inr total"
    using assms(1) by (auto simp: decide_activity_def Let_def worthless_def elim!: rbindE split: if_splits)
  let ?fits = "cognitive_resource_vector_fits_within total (bcb_ceiling (de_budget epoch))"
  obtain reason d where "new_agenda_decision (ia_activity_id a) (if ?fits then SELECTED else DEFERRED) reason = Inr d"
      "used' = (if ?fits then total else used)" "ds' = ds @ [d]"
    using assms(1) False p by (auto simp: decide_activity_def Let_def worthless_def elim!: rbindE split: if_splits)
  then show ?thesis
    using False p assms(2) new_agenda_decision_fields
    by (intro exI [of _ d] exI [of _ "if ?fits then SELECTED else DEFERRED"])
      (auto simp: decided_rightly_def resources_used_snoc written_def split: if_splits)
qed

lemma decide_all:
  assumes "foldM (decide_activity epoch threshold estimates t) (cognitive_resource_vector_zero, []) ranked = Inr (used, ds)"
  shows "\<exists>ps. map fst ps = ranked \<and> map (\<lambda>d. (ad_activity_id d, ad_disposition d)) ds = map written ps \<and>
     greedy (bcb_ceiling (de_budget epoch)) (worthless threshold estimates t) ps \<and> resources_used ps = Inr used \<and>
     (SELECTED \<in> snd ` set ps \<longrightarrow> cognitive_resource_vector_fits_within used (bcb_ceiling (de_budget epoch)))"
  using assms
proof (induction ranked arbitrary: used ds rule: rev_induct)
  case Nil
  then show ?case by (intro exI [of _ "[]"]) (simp add: greedy_def resources_used_def)
next
  case (snoc a ranked)
  then obtain u es where before: "foldM (decide_activity epoch threshold estimates t) (cognitive_resource_vector_zero, []) ranked = Inr (u, es)"
    and last: "decide_activity epoch threshold estimates t (u, es) a = Inr (used, ds)"
    by (auto simp: foldM_append elim!: rbindE)
  obtain ps where ps: "map fst ps = ranked" "map (\<lambda>d. (ad_activity_id d, ad_disposition d)) es = map written ps"
      "greedy (bcb_ceiling (de_budget epoch)) (worthless threshold estimates t) ps" "resources_used ps = Inr u"
      "SELECTED \<in> snd ` set ps \<longrightarrow> cognitive_resource_vector_fits_within u (bcb_ceiling (de_budget epoch))"
    using snoc.IH [OF before] by blast
  obtain d disposition where d: "ds = es @ [d]" "(ad_activity_id d, ad_disposition d) = written (a, disposition)"
      "decided_rightly (bcb_ceiling (de_budget epoch)) (worthless threshold estimates t) ps (a, disposition)"
      "resources_used (ps @ [(a, disposition)]) = Inr used"
      "disposition = SELECTED \<longrightarrow> cognitive_resource_vector_fits_within used (bcb_ceiling (de_budget epoch))"
    using decide_activity_result [OF last ps(4)] by blast
  have "used = u" if "disposition \<noteq> SELECTED" using d(4) ps(4) that by (simp add: resources_used_snoc)
  then show ?case
    using ps d by (intro exI [of _ "ps @ [(a, disposition)]"]) auto
qed

text \<open>C40: the agenda is decided greedily within the budget. When a selection is made, every candidate is decided
  exactly once, in the order of the ranking; it is suppressed exactly if it has expired or its net value is
  not above the threshold, selected exactly if it then fits beside what was selected before it, and otherwise deferred;
  the reported consumption is that of the selected activities, and it fits within the ceiling of the budget.\<close>

theorem agenda_is_greedy_within_budget:
  assumes "select_intrinsic_agenda b epoch policy activities estimates t = Inr sel"
    and "list_all (rankable estimates) activities"
  shows "\<exists>ps. distinct (map fst ps) \<and> set (map fst ps) = set activities \<and>
     sorted_wrt (\<lambda>x y. \<not> ranked_before estimates y x) (map fst ps) \<and>
     map (\<lambda>d. (ad_activity_id d, ad_disposition d)) (ias_decisions sel) = map written ps \<and>
     greedy (bcb_ceiling (de_budget epoch)) (worthless (py_max 0 (eps_minimum_net_voc policy)) estimates t) ps \<and>
     resources_used ps = Inr (ias_consumed sel) \<and>
     (SELECTED \<in> snd ` set ps \<longrightarrow> cognitive_resource_vector_fits_within (ias_consumed sel) (bcb_ceiling (de_budget epoch)))"
proof -
  have run: "select_stable_greedy_v1 b epoch policy activities estimates t = Inr sel"
    using assms(1) by (auto simp: select_intrinsic_agenda_def Let_def split: if_splits)
  then obtain used ds where d: "distinct (map ia_activity_id activities)" and
    f: "foldM (decide_activity epoch (py_max 0 (eps_minimum_net_voc policy)) estimates t) (cognitive_resource_vector_zero, [])
      (py_sorted (ranked_before estimates) activities) = Inr (used, ds)"
    and s: "ias_decisions sel = ds" "ias_consumed sel = used"
    by (auto simp: select_stable_greedy_v1_def create_intrinsic_agenda_selection_def Let_def raise_first_no_errors
      simp del: raise_first_ok elim!: rbindE split: if_splits)
  obtain ps where ps: "map fst ps = py_sorted (ranked_before estimates) activities"
      "map (\<lambda>d. (ad_activity_id d, ad_disposition d)) ds = map written ps"
      "greedy (bcb_ceiling (de_budget epoch)) (worthless (py_max 0 (eps_minimum_net_voc policy)) estimates t) ps"
      "resources_used ps = Inr used"
      "SELECTED \<in> snd ` set ps \<longrightarrow> cognitive_resource_vector_fits_within used (bcb_ceiling (de_budget epoch))"
    using decide_all [OF f] by blast
  show ?thesis
    unfolding s
  proof (rule exI [of _ ps], intro conjI)
    show "distinct (map fst ps)" using d by (simp add: ps(1) distinct_map)
    show "sorted_wrt (\<lambda>x y. \<not> ranked_before estimates y x) (map fst ps)"
      unfolding ps(1) by (rule ranked_in_order [OF assms(2)])
    show "set (map fst ps) = set activities" unfolding ps(1) by simp
  qed (rule ps)+
qed


subsection \<open>An agenda\<close>

text \<open>
  Room for one activity: of two that are worth as much the more urgent one is selected, the other is
  deferred, and the one without value is suppressed.
\<close>

definition agenda_builtins :: builtins where
  "agenda_builtins = \<lparr>bi_str = (\<lambda>_. []), bi_int = (\<lambda>_. Inl (TypeError [])), bi_dict = (\<lambda>_. Inl (TypeError [])),
     bi_float = (\<lambda>_. Inl (TypeError [])), bi_iter = (\<lambda>_. Inl (TypeError [])), bi_fromiso = (\<lambda>_. Inl (ValueError [])),
     bi_sha = (\<lambda>_. ''x'')\<rparr>"

definition one_activity :: cognitive_resource_vector where
  "one_activity = cognitive_resource_vector_zero\<lparr>crv_activities := 1\<rparr>"

definition small_epoch :: dream_epoch where
  "small_epoch = \<lparr>de_epoch_id = ''e'', de_consumer_id = ''k'', de_trigger_event_id = ''t'', de_event_log_cursor = 1,
     de_policy_id = ''p'', de_policy_version = ''1'', de_selector_id = STABLE_GREEDY_SELECTOR_ID,
     de_selector_version = STABLE_GREEDY_SELECTOR_VERSION,
     de_budget = \<lparr>bcb_budget_id = ''cognitive-budget:x'', bcb_ceiling = one_activity\<rparr>,
     de_started_at = Aware 0, de_expires_at = Aware 9, de_authority_ceiling = DREAM_PROPOSAL_ONLY\<rparr>"

definition small_policy :: endogenous_policy_snapshot where
  "small_policy = \<lparr>eps_policy_id = ''p'', eps_version = ''1'', eps_selector_id = STABLE_GREEDY_SELECTOR_ID,
     eps_selector_version = STABLE_GREEDY_SELECTOR_VERSION, eps_compute_cost_weight = 1, eps_delay_cost_weight = 1,
     eps_attention_cost_weight = 1, eps_opportunity_cost_weight = 1, eps_privacy_risk_cost_weight = 1,
     eps_minimum_net_voc = 0\<rparr>"

definition candidate :: "string \<Rightarrow> pyfloat \<Rightarrow> pyfloat \<Rightarrow> intrinsic_activity" where
  "candidate i improvement urgency = \<lparr>ia_activity_id = i, ia_kind = INQUIRY, ia_inquiry_id = ''q'', ia_governing_intent_refs = [],
     ia_evidence_refs = [], ia_target_refs = [],
     ia_voc_inputs = \<lparr>voci_expected_decision_improvement = improvement, voci_compute_cost_basis = 0, voci_delay_cost_basis = 0,
       voci_attention_cost_basis = 0, voci_opportunity_cost_basis = 0, voci_privacy_risk_cost_basis = 0\<rparr>,
     ia_urgency = urgency, ia_confidence = 1, ia_interruptible = True, ia_expires_at = Aware 9, ia_resources = one_activity,
     ia_causal_cursor = 1, ia_producer_id = ''d''\<rparr>"

definition candidates :: "intrinsic_activity list" where
  "candidates = [candidate ''a'' 1 0, candidate ''b'' 1 1, candidate ''c'' 0 1]"

definition estimated :: "string \<Rightarrow> pyfloat \<Rightarrow> value_of_cognition_estimate" where
  "estimated i net = \<lparr>voce_estimate_id = ''voc-estimate:x'', voce_epoch_id = ''e'', voce_activity_id = i, voce_policy_id = ''p'',
     voce_expected_decision_improvement = net, voce_compute_cost = 0, voce_delay_cost = 0, voce_attention_cost = 0,
     voce_opportunity_cost = 0, voce_privacy_risk_cost = 0, voce_net_value = net, voce_evaluated_at = Aware 1\<rparr>"

definition estimates1 :: "value_of_cognition_estimate list" where
  "estimates1 = [estimated ''a'' 1, estimated ''b'' 1, estimated ''c'' 0]"

lemma round12_zero: "round12 0 = 0"
  by (simp add: round12_def pyfloat_zero_one round_half_even_def)

lemma candidates_ranked: "py_sorted (ranked_before estimates1) candidates = [candidate ''b'' 1 1, candidate ''a'' 1 0, candidate ''c'' 0 1]"
  by (simp add: candidates_def candidate_def estimates1_def estimated_def ranked_before_def net_value_of_def estimate_of_def
    pyfloat_zero_one Let_def)

lemma small_resources:
  "cognitive_resource_vector_plus cognitive_resource_vector_zero one_activity = Inr one_activity"
  "cognitive_resource_vector_plus one_activity one_activity = Inr (one_activity\<lparr>crv_activities := 2\<rparr>)"
  "cognitive_resource_vector_minus one_activity one_activity = Inr cognitive_resource_vector_zero"
  "cognitive_resource_vector_fits_within one_activity one_activity"
  "\<not> cognitive_resource_vector_fits_within (one_activity\<lparr>crv_activities := 2\<rparr>) one_activity"
proof -
  have z: "0 + (0 :: pyfloat) = 0" "0 - (0 :: pyfloat) = 0" "py_max 0 (0 :: pyfloat) = 0" "\<not> 0 < (0 :: pyfloat)" "fin 0"
    "\<not> 0 < Fin (- (1 / 1000000000))" "(0 :: pyfloat) \<le> 0 + Fin (1 / 1000000000000)"
    by (simp_all add: pyfloat_zero_one py_max_def)
  note facts = z cognitive_resource_vector_plus_def cognitive_resource_vector_minus_def cognitive_resource_vector_fits_within_def
    check_cognitive_resource_vector_def non_negative_def one_activity_def cognitive_resource_vector_zero_def round12_zero Let_def
  show "cognitive_resource_vector_plus cognitive_resource_vector_zero one_activity = Inr one_activity"
    "cognitive_resource_vector_plus one_activity one_activity = Inr (one_activity\<lparr>crv_activities := 2\<rparr>)"
    "cognitive_resource_vector_minus one_activity one_activity = Inr cognitive_resource_vector_zero"
    "cognitive_resource_vector_fits_within one_activity one_activity"
    "\<not> cognitive_resource_vector_fits_within (one_activity\<lparr>crv_activities := 2\<rparr>) one_activity"
    by (simp_all add: facts)
qed

lemma small_agenda_decisions:
  "\<exists>ds. foldM (decide_activity small_epoch 0 estimates1 (Aware 1)) (cognitive_resource_vector_zero, [])
       [candidate ''b'' 1 1, candidate ''a'' 1 0, candidate ''c'' 0 1] = Inr (one_activity, ds) \<and>
     map (\<lambda>d. (ad_activity_id d, ad_disposition d)) ds = [(''b'', SELECTED), (''a'', DEFERRED), (''c'', SUPPRESSED)]"
proof -
  have n: "net_value_of estimates1 (candidate ''b'' 1 1) = 1" "net_value_of estimates1 (candidate ''a'' 1 0) = 1"
    "net_value_of estimates1 (candidate ''c'' 0 1) = 0"
    by (simp_all add: estimates1_def estimated_def net_value_of_def estimate_of_def candidate_def)
  have c: "ia_activity_id (candidate i v u) = i" "ia_resources (candidate i v u) = one_activity"
    "ia_expires_at (candidate i v u) = Aware 9" "bcb_ceiling (de_budget small_epoch) = one_activity" for i v u
    by (simp_all add: candidate_def small_epoch_def)
  have z: "\<not> (1 :: pyfloat) \<le> 0" "(0 :: pyfloat) \<le> 0" by (simp_all add: pyfloat_zero_one)
  show ?thesis
    by (simp add: decide_activity_def n c z small_resources new_agenda_decision_def check_agenda_decision_def
      require_text_def is_space_def Let_def)
qed

lemma agenda_made:
  "\<exists>sel. select_intrinsic_agenda agenda_builtins small_epoch small_policy candidates estimates1 (Aware 1) = Inr sel \<and>
     map (\<lambda>d. (ad_activity_id d, ad_disposition d)) (ias_decisions sel) = [(''b'', SELECTED), (''a'', DEFERRED), (''c'', SUPPRESSED)]"
proof -
  obtain ds where f: "foldM (decide_activity small_epoch 0 estimates1 (Aware 1)) (cognitive_resource_vector_zero, [])
       [candidate ''b'' 1 1, candidate ''a'' 1 0, candidate ''c'' 0 1] = Inr (one_activity, ds)"
    and ds: "map (\<lambda>d. (ad_activity_id d, ad_disposition d)) ds = [(''b'', SELECTED), (''a'', DEFERRED), (''c'', SUPPRESSED)]"
    using small_agenda_decisions by (elim exE conjE) (rule that)
  have "map ad_activity_id ds = map fst (map (\<lambda>d. (ad_activity_id d, ad_disposition d)) ds)" by simp
  then have ids: "map ad_activity_id ds = [''b'', ''a'', ''c'']" unfolding ds by simp
  have t: "py_max 0 (eps_minimum_net_voc small_policy) = 0" "bcb_ceiling (de_budget small_epoch) = one_activity"
    by (simp_all add: py_max_def small_policy_def small_epoch_def)
  have g: "map ia_activity_id candidates = [''a'', ''b'', ''c'']" "map voce_activity_id estimates1 = [''a'', ''b'', ''c'']"
    "\<not> list_ex (\<lambda>e. voce_epoch_id e = ''e'' \<longrightarrow> voce_policy_id e \<noteq> ''p'') estimates1"
    by (simp_all add: candidates_def candidate_def estimates1_def estimated_def)
  have "list_all (\<lambda>x. json_finite (JObj (agenda_decision_to_dict x))) ds"
    by (simp add: list_all_iff agenda_decision_to_dict_def)
  moreover have "json_finite (JObj (cognitive_resource_vector_to_dict one_activity))"
    "json_finite (JObj (cognitive_resource_vector_to_dict cognitive_resource_vector_zero))"
    by (simp_all add: cognitive_resource_vector_to_dict_def one_activity_def cognitive_resource_vector_zero_def pyfloat_zero_one fin_def)
  ultimately have i: "canonical_id agenda_builtins ''intrinsic-agenda'' (intrinsic_agenda_selection_identity
      \<lparr>ias_selection_id = j, ias_epoch_id = ''e'', ias_policy_id = ''p'', ias_decisions = ds, ias_consumed = one_activity,
       ias_remaining = cognitive_resource_vector_zero, ias_selected_at = Aware 1\<rparr>) = Inr ''intrinsic-agenda:x''" for j
    by (simp add: canonical_id_def intrinsic_agenda_selection_identity_def agenda_builtins_def list_all_iff)
  have p: "eps_policy_id small_policy = ''p''" "de_policy_id small_epoch = ''p''" "de_epoch_id small_epoch = ''e''"
    "de_expires_at small_epoch = Aware 9" "de_selector_id small_epoch = STABLE_GREEDY_SELECTOR_ID"
    "de_selector_version small_epoch = STABLE_GREEDY_SELECTOR_VERSION" "eps_selector_id small_policy = STABLE_GREEDY_SELECTOR_ID"
    "eps_selector_version small_policy = STABLE_GREEDY_SELECTOR_VERSION"
    by (simp_all add: small_policy_def small_epoch_def)
  have "ds \<noteq> []" using ids by auto
  then have "select_stable_greedy_v1 agenda_builtins small_epoch small_policy candidates estimates1 (Aware 1) = Inr
      \<lparr>ias_selection_id = ''intrinsic-agenda:x'', ias_epoch_id = ''e'', ias_policy_id = ''p'', ias_decisions = ds,
       ias_consumed = one_activity, ias_remaining = cognitive_resource_vector_zero, ias_selected_at = Aware 1\<rparr>"
    unfolding select_stable_greedy_v1_def candidates_ranked
    by (simp del: foldM.simps add: p g f t i ids small_resources create_intrinsic_agenda_selection_def check_intrinsic_agenda_selection_def
      require_text_def require_aware_def unique_text_def is_space_def)
  then show ?thesis using ds by (simp add: select_intrinsic_agenda_def p)
qed

theorem agenda_is_greedy_within_budget_witness:
  "\<exists>sel ps. select_intrinsic_agenda agenda_builtins small_epoch small_policy candidates estimates1 (Aware 1) = Inr sel \<and>
     map (\<lambda>d. (ad_activity_id d, ad_disposition d)) (ias_decisions sel) = [(''b'', SELECTED), (''a'', DEFERRED), (''c'', SUPPRESSED)] \<and>
     map written ps = [(''b'', SELECTED), (''a'', DEFERRED), (''c'', SUPPRESSED)] \<and>
     resources_used ps = Inr (ias_consumed sel) \<and>
     cognitive_resource_vector_fits_within (ias_consumed sel) one_activity"
proof -
  obtain sel where s: "select_intrinsic_agenda agenda_builtins small_epoch small_policy candidates estimates1 (Aware 1) = Inr sel"
    "map (\<lambda>d. (ad_activity_id d, ad_disposition d)) (ias_decisions sel) = [(''b'', SELECTED), (''a'', DEFERRED), (''c'', SUPPRESSED)]"
    using agenda_made by (elim exE conjE) (rule that)
  have "list_all (rankable estimates1) candidates"
    by (simp add: candidates_def candidate_def rankable_def estimates1_def estimated_def net_value_of_def estimate_of_def
      pyfloat_zero_one fin_def)
  from agenda_is_greedy_within_budget [OF s(1) this, unfolded s(2)]
  obtain ps where ps: "[(''b'', SELECTED), (''a'', DEFERRED), (''c'', SUPPRESSED)] = map written ps"
    "resources_used ps = Inr (ias_consumed sel)"
    "SELECTED \<in> snd ` set ps \<longrightarrow> cognitive_resource_vector_fits_within (ias_consumed sel) (bcb_ceiling (de_budget small_epoch))"
    by (elim exE conjE) (rule that)
  have "map snd ps = map snd (map written ps)" by (simp add: written_def)
  then have "map snd ps = [SELECTED, DEFERRED, SUPPRESSED]" unfolding ps(1) [symmetric] by simp
  then have "SELECTED \<in> set (map snd ps)" by simp
  then have "cognitive_resource_vector_fits_within (ias_consumed sel) one_activity"
    using ps(3) by (simp add: small_epoch_def)
  then show ?thesis using s ps(1) [symmetric] ps(2) by (intro exI conjI)
qed

end
