(* ===== verification/IntentModels.thy ===== *)
theory IntentModels
  imports Situation WorkModels JsonFields
begin

section \<open>Contracts of intent and outcome stewardship\<close>

text \<open>
  Models \<^verbatim>\<open>src/noema/intent/models.py\<close>: goal and roadmap revisions, commitment transitions,
  outcome roles, assistance envelopes, external workstreams and work order proposals, each with the checks
  of its constructor, the identifier derived from its content, and its conversions to and from payloads and
  events; and the codec of commitments. Each contract has a lemma that what it writes it reads back.
  Commitments are those of \<open>Situation\<close>, work orders those of \<open>WorkModels\<close>.
\<close>

subsection \<open>Vocabulary\<close>

definition GOAL_REVISION_RECORDED_EVENT :: string where "GOAL_REVISION_RECORDED_EVENT = ''intent.goal_revision_recorded''"
definition ROADMAP_REVISION_RECORDED_EVENT :: string where "ROADMAP_REVISION_RECORDED_EVENT = ''intent.roadmap_revision_recorded''"
definition COMMITMENT_RECORDED_EVENT :: string where "COMMITMENT_RECORDED_EVENT = ''intent.commitment_recorded''"
definition COMMITMENT_TRANSITIONED_EVENT :: string where "COMMITMENT_TRANSITIONED_EVENT = ''intent.commitment_transitioned''"
definition OUTCOME_ROLES_RECORDED_EVENT :: string where "OUTCOME_ROLES_RECORDED_EVENT = ''intent.outcome_roles_recorded''"
definition ASSISTANCE_ENVELOPE_RECORDED_EVENT :: string where "ASSISTANCE_ENVELOPE_RECORDED_EVENT = ''intent.assistance_envelope_recorded''"
definition EXTERNAL_WORKSTREAM_OBSERVED_EVENT :: string where "EXTERNAL_WORKSTREAM_OBSERVED_EVENT = ''intent.external_workstream_observed''"
definition WORK_ORDER_PROPOSED_EVENT :: string where "WORK_ORDER_PROPOSED_EVENT = ''intent.work_order_proposed''"

lemma situation_vocabulary_of_value [simp]:
  "goal_status_of (goal_status_value g) = Inr g"
  "commitment_status_of (commitment_status_value c) = Inr c"
  "closure_reason_of (closure_reason_value r) = Inr r"
    apply (cases g; simp add: goal_status_of_def enum_of_def)
   apply (cases c; simp add: commitment_status_of_def enum_of_def)
  apply (cases r; simp add: closure_reason_of_def enum_of_def)
  done

datatype goal_kind = CONSTITUTIONAL | USER_AUTHORED | DELEGATED | INSTRUMENTAL | EPISTEMIC | MAINTENANCE | EXPLORATORY
    | LEGACY_UNCLASSIFIED

primrec goal_kind_value :: "goal_kind \<Rightarrow> string" where
  "goal_kind_value CONSTITUTIONAL = ''constitutional''"
| "goal_kind_value USER_AUTHORED = ''user_authored''"
| "goal_kind_value DELEGATED = ''delegated''"
| "goal_kind_value INSTRUMENTAL = ''instrumental''"
| "goal_kind_value EPISTEMIC = ''epistemic''"
| "goal_kind_value MAINTENANCE = ''maintenance''"
| "goal_kind_value EXPLORATORY = ''exploratory''"
| "goal_kind_value LEGACY_UNCLASSIFIED = ''legacy_unclassified''"

definition goal_kind_of :: "string \<Rightarrow> goal_kind result" where
  "goal_kind_of s =
     (if s = ''constitutional'' then Inr CONSTITUTIONAL
      else if s = ''user_authored'' then Inr USER_AUTHORED
      else if s = ''delegated'' then Inr DELEGATED
      else if s = ''instrumental'' then Inr INSTRUMENTAL
      else if s = ''epistemic'' then Inr EPISTEMIC
      else if s = ''maintenance'' then Inr MAINTENANCE
      else if s = ''exploratory'' then Inr EXPLORATORY
      else if s = ''legacy_unclassified'' then Inr LEGACY_UNCLASSIFIED
      else Inl (ValueError ''not a valid GoalKind''))"

lemma goal_kind_of_value [simp]: "goal_kind_of (goal_kind_value x) = Inr x"
  by (cases x) (simp_all add: goal_kind_of_def)

lemma goal_kind_of_values [simp]: "mapM goal_kind_of (map goal_kind_value xs) = Inr xs"
  by (rule mapM_read_written) simp

datatype origin_kind = OriginKind_CONSTITUTIONAL | USER | OriginKind_DELEGATED | AGENT | SYSTEM | LEGACY_UNVERIFIED

primrec origin_kind_value :: "origin_kind \<Rightarrow> string" where
  "origin_kind_value OriginKind_CONSTITUTIONAL = ''constitutional''"
| "origin_kind_value USER = ''user''"
| "origin_kind_value OriginKind_DELEGATED = ''delegated''"
| "origin_kind_value AGENT = ''agent''"
| "origin_kind_value SYSTEM = ''system''"
| "origin_kind_value LEGACY_UNVERIFIED = ''legacy_unverified''"

definition origin_kind_of :: "string \<Rightarrow> origin_kind result" where
  "origin_kind_of s =
     (if s = ''constitutional'' then Inr OriginKind_CONSTITUTIONAL
      else if s = ''user'' then Inr USER
      else if s = ''delegated'' then Inr OriginKind_DELEGATED
      else if s = ''agent'' then Inr AGENT
      else if s = ''system'' then Inr SYSTEM
      else if s = ''legacy_unverified'' then Inr LEGACY_UNVERIFIED
      else Inl (ValueError ''not a valid OriginKind''))"

lemma origin_kind_of_value [simp]: "origin_kind_of (origin_kind_value x) = Inr x"
  by (cases x) (simp_all add: origin_kind_of_def)

lemma origin_kind_of_values [simp]: "mapM origin_kind_of (map origin_kind_value xs) = Inr xs"
  by (rule mapM_read_written) simp

datatype intent_authority_scope = PROPOSE | IntentAuthorityScope_DELEGATED | IntentAuthorityScope_USER
    | IntentAuthorityScope_CONSTITUTIONAL

primrec intent_authority_scope_value :: "intent_authority_scope \<Rightarrow> string" where
  "intent_authority_scope_value PROPOSE = ''propose''"
| "intent_authority_scope_value IntentAuthorityScope_DELEGATED = ''delegated''"
| "intent_authority_scope_value IntentAuthorityScope_USER = ''user''"
| "intent_authority_scope_value IntentAuthorityScope_CONSTITUTIONAL = ''constitutional''"

definition intent_authority_scope_of :: "string \<Rightarrow> intent_authority_scope result" where
  "intent_authority_scope_of s =
     (if s = ''propose'' then Inr PROPOSE
      else if s = ''delegated'' then Inr IntentAuthorityScope_DELEGATED
      else if s = ''user'' then Inr IntentAuthorityScope_USER
      else if s = ''constitutional'' then Inr IntentAuthorityScope_CONSTITUTIONAL
      else Inl (ValueError ''not a valid IntentAuthorityScope''))"

lemma intent_authority_scope_of_value [simp]: "intent_authority_scope_of (intent_authority_scope_value x) = Inr x"
  by (cases x) (simp_all add: intent_authority_scope_of_def)

lemma intent_authority_scope_of_values [simp]: "mapM intent_authority_scope_of (map intent_authority_scope_value xs) = Inr xs"
  by (rule mapM_read_written) simp

datatype execution_locus = ExecutionLocus_USER | ExecutionLocus_AGENT | SHARED | EXTERNAL_HUMAN | EXTERNAL_SYSTEM

primrec execution_locus_value :: "execution_locus \<Rightarrow> string" where
  "execution_locus_value ExecutionLocus_USER = ''user''"
| "execution_locus_value ExecutionLocus_AGENT = ''agent''"
| "execution_locus_value SHARED = ''shared''"
| "execution_locus_value EXTERNAL_HUMAN = ''external_human''"
| "execution_locus_value EXTERNAL_SYSTEM = ''external_system''"

definition execution_locus_of :: "string \<Rightarrow> execution_locus result" where
  "execution_locus_of s =
     (if s = ''user'' then Inr ExecutionLocus_USER
      else if s = ''agent'' then Inr ExecutionLocus_AGENT
      else if s = ''shared'' then Inr SHARED
      else if s = ''external_human'' then Inr EXTERNAL_HUMAN
      else if s = ''external_system'' then Inr EXTERNAL_SYSTEM
      else Inl (ValueError ''not a valid ExecutionLocus''))"

lemma execution_locus_of_value [simp]: "execution_locus_of (execution_locus_value x) = Inr x"
  by (cases x) (simp_all add: execution_locus_of_def)

lemma execution_locus_of_values [simp]: "mapM execution_locus_of (map execution_locus_value xs) = Inr xs"
  by (rule mapM_read_written) simp

datatype intervention_level = InterventionLevel_PREPARE | InterventionLevel_PROPOSE | CO_EXECUTE | ACT

primrec intervention_level_value :: "intervention_level \<Rightarrow> string" where
  "intervention_level_value InterventionLevel_PREPARE = ''prepare''"
| "intervention_level_value InterventionLevel_PROPOSE = ''propose''"
| "intervention_level_value CO_EXECUTE = ''co_execute''"
| "intervention_level_value ACT = ''act''"

definition intervention_level_of :: "string \<Rightarrow> intervention_level result" where
  "intervention_level_of s =
     (if s = ''prepare'' then Inr InterventionLevel_PREPARE
      else if s = ''propose'' then Inr InterventionLevel_PROPOSE
      else if s = ''co_execute'' then Inr CO_EXECUTE
      else if s = ''act'' then Inr ACT
      else Inl (ValueError ''not a valid InterventionLevel''))"

lemma intervention_level_of_value [simp]: "intervention_level_of (intervention_level_value x) = Inr x"
  by (cases x) (simp_all add: intervention_level_of_def)

lemma intervention_level_of_values [simp]: "mapM intervention_level_of (map intervention_level_value xs) = Inr xs"
  by (rule mapM_read_written) simp

datatype work_proposal_eligibility = WorkProposalEligibility_ACTIVE | ACTIVATION_DUE | PREREQUISITE_LEAD_TIME

primrec work_proposal_eligibility_value :: "work_proposal_eligibility \<Rightarrow> string" where
  "work_proposal_eligibility_value WorkProposalEligibility_ACTIVE = ''active''"
| "work_proposal_eligibility_value ACTIVATION_DUE = ''activation_due''"
| "work_proposal_eligibility_value PREREQUISITE_LEAD_TIME = ''prerequisite_lead_time''"

definition work_proposal_eligibility_of :: "string \<Rightarrow> work_proposal_eligibility result" where
  "work_proposal_eligibility_of s =
     (if s = ''active'' then Inr WorkProposalEligibility_ACTIVE
      else if s = ''activation_due'' then Inr ACTIVATION_DUE
      else if s = ''prerequisite_lead_time'' then Inr PREREQUISITE_LEAD_TIME
      else Inl (ValueError ''not a valid WorkProposalEligibility''))"

lemma work_proposal_eligibility_of_value [simp]: "work_proposal_eligibility_of (work_proposal_eligibility_value x) = Inr x"
  by (cases x) (simp_all add: work_proposal_eligibility_of_def)

lemma work_proposal_eligibility_of_values [simp]: "mapM work_proposal_eligibility_of (map work_proposal_eligibility_value xs) = Inr xs"
  by (rule mapM_read_written) simp

datatype coverage_disposition = INACTIVE | UNCOVERED | CoverageDisposition_PROPOSED | COVERED

primrec coverage_disposition_value :: "coverage_disposition \<Rightarrow> string" where
  "coverage_disposition_value INACTIVE = ''inactive''"
| "coverage_disposition_value UNCOVERED = ''uncovered''"
| "coverage_disposition_value CoverageDisposition_PROPOSED = ''proposed''"
| "coverage_disposition_value COVERED = ''covered''"

definition coverage_disposition_of :: "string \<Rightarrow> coverage_disposition result" where
  "coverage_disposition_of s =
     (if s = ''inactive'' then Inr INACTIVE
      else if s = ''uncovered'' then Inr UNCOVERED
      else if s = ''proposed'' then Inr CoverageDisposition_PROPOSED
      else if s = ''covered'' then Inr COVERED
      else Inl (ValueError ''not a valid CoverageDisposition''))"

lemma coverage_disposition_of_value [simp]: "coverage_disposition_of (coverage_disposition_value x) = Inr x"
  by (cases x) (simp_all add: coverage_disposition_of_def)

lemma coverage_disposition_of_values [simp]: "mapM coverage_disposition_of (map coverage_disposition_value xs) = Inr xs"
  by (rule mapM_read_written) simp

datatype health_signal = SATISFIED | NEEDS_REVIEW | UNKNOWN

primrec health_signal_value :: "health_signal \<Rightarrow> string" where
  "health_signal_value SATISFIED = ''satisfied''"
| "health_signal_value NEEDS_REVIEW = ''needs_review''"
| "health_signal_value UNKNOWN = ''unknown''"

definition health_signal_of :: "string \<Rightarrow> health_signal result" where
  "health_signal_of s =
     (if s = ''satisfied'' then Inr SATISFIED
      else if s = ''needs_review'' then Inr NEEDS_REVIEW
      else if s = ''unknown'' then Inr UNKNOWN
      else Inl (ValueError ''not a valid HealthSignal''))"

lemma health_signal_of_value [simp]: "health_signal_of (health_signal_value x) = Inr x"
  by (cases x) (simp_all add: health_signal_of_def)

lemma health_signal_of_values [simp]: "mapM health_signal_of (map health_signal_value xs) = Inr xs"
  by (rule mapM_read_written) simp

subsection \<open>OriginProvenance\<close>

record origin_provenance =
  op_provenance_id :: string
  op_kind :: origin_kind
  op_principal_id :: string
  op_authentication_ref :: string

definition check_origin_provenance :: "origin_provenance \<Rightarrow> unit result" where
  "check_origin_provenance x = raise_first
     (require_text (op_provenance_id x) ''origin provenance id'' @
      require_text (op_principal_id x) ''origin principal id'' @
      require_text (op_authentication_ref x) ''origin authentication ref'')"

definition origin_provenance_to_dict :: "origin_provenance \<Rightarrow> jobject" where
  "origin_provenance_to_dict x =
     [(''provenance_id'', JStr (op_provenance_id x)),
      (''kind'', JStr (origin_kind_value (op_kind x))),
      (''principal_id'', JStr (op_principal_id x)),
      (''authentication_ref'', JStr (op_authentication_ref x))]"

definition origin_provenance_from_dict :: "builtins \<Rightarrow> jobject \<Rightarrow> origin_provenance result" where
  "origin_provenance_from_dict b d =
     rbind (j_str b d ''provenance_id'') (\<lambda>provenance_id.
     rbind (rbind (j_str b d ''kind'') origin_kind_of) (\<lambda>kind1.
     rbind (j_str b d ''principal_id'') (\<lambda>principal_id.
     rbind (j_str b d ''authentication_ref'') (\<lambda>authentication_ref.
     let x = \<lparr>op_provenance_id = provenance_id, op_kind = kind1, op_principal_id = principal_id,
              op_authentication_ref = authentication_ref\<rparr> in
     rbind (check_origin_provenance x) (\<lambda>_.
     Inr x)))))"

definition origin_provenance_ok :: "builtins \<Rightarrow> origin_provenance \<Rightarrow> bool" where
  "origin_provenance_ok b x \<longleftrightarrow> check_origin_provenance x = Inr ()"

lemma origin_provenance_round_trip:
  assumes "origin_provenance_ok b x"
  shows "origin_provenance_from_dict b (origin_provenance_to_dict x) = Inr x"
proof -
  have k: "check_origin_provenance x = Inr ()" using assms by (simp add: origin_provenance_ok_def)
  show ?thesis
    using k assms
    by (cases x) (simp add: origin_provenance_ok_def origin_provenance_from_dict_def origin_provenance_to_dict_def codec Let_def)
qed

subsection \<open>IntentAuthority\<close>

record intent_authority =
  iu_authority_id :: string
  iu_principal_id :: string
  iu_scope :: intent_authority_scope
  iu_allowed_goal_kinds :: "goal_kind list"
  iu_goal_refs :: "string list"
  iu_provenance_ref :: string

definition check_intent_authority :: "intent_authority \<Rightarrow> unit result" where
  "check_intent_authority x = raise_first
     (require_text (iu_authority_id x) ''intent authority id'' @
      require_text (iu_principal_id x) ''intent authority principal'' @
      require_text (iu_provenance_ref x) ''intent authority provenance'' @
      [(iu_allowed_goal_kinds x = [], ValueError ''intent authority must allow at least one goal kind''),
       (\<not> distinct (iu_allowed_goal_kinds x), ValueError ''intent authority goal kinds must be unique'')] @
      unique_text (iu_goal_refs x) ''intent authority goal refs'' False)"

definition intent_authority_to_dict :: "intent_authority \<Rightarrow> jobject" where
  "intent_authority_to_dict x =
     [(''authority_id'', JStr (iu_authority_id x)),
      (''principal_id'', JStr (iu_principal_id x)),
      (''scope'', JStr (intent_authority_scope_value (iu_scope x))),
      (''allowed_goal_kinds'', JStrs (map goal_kind_value (iu_allowed_goal_kinds x))),
      (''goal_refs'', JStrs (iu_goal_refs x)),
      (''provenance_ref'', JStr (iu_provenance_ref x))]"

definition intent_authority_from_dict :: "builtins \<Rightarrow> jobject \<Rightarrow> intent_authority result" where
  "intent_authority_from_dict b d =
     rbind (j_str b d ''authority_id'') (\<lambda>authority_id.
     rbind (j_str b d ''principal_id'') (\<lambda>principal_id.
     rbind (rbind (j_str b d ''scope'') intent_authority_scope_of) (\<lambda>scope.
     rbind (rbind (j_strs_req b d ''allowed_goal_kinds'') (mapM goal_kind_of)) (\<lambda>allowed_goal_kinds.
     rbind (j_strs b d ''goal_refs'') (\<lambda>goal_refs.
     rbind (j_str b d ''provenance_ref'') (\<lambda>provenance_ref.
     let x = \<lparr>iu_authority_id = authority_id, iu_principal_id = principal_id, iu_scope = scope,
              iu_allowed_goal_kinds = allowed_goal_kinds, iu_goal_refs = goal_refs,
              iu_provenance_ref = provenance_ref\<rparr> in
     rbind (check_intent_authority x) (\<lambda>_.
     Inr x)))))))"

definition intent_authority_ok :: "builtins \<Rightarrow> intent_authority \<Rightarrow> bool" where
  "intent_authority_ok b x \<longleftrightarrow> check_intent_authority x = Inr ()"

lemma intent_authority_round_trip:
  assumes "intent_authority_ok b x"
  shows "intent_authority_from_dict b (intent_authority_to_dict x) = Inr x"
proof -
  have k: "check_intent_authority x = Inr ()" using assms by (simp add: intent_authority_ok_def)
  show ?thesis
    using k assms
    by (cases x) (simp add: intent_authority_ok_def intent_authority_from_dict_def intent_authority_to_dict_def codec Let_def)
qed

subsection \<open>GoalRevision\<close>

record goal_revision =
  gr_revision_id :: string
  gr_goal_id :: string
  gr_version :: int
  gr_description :: string
  gr_priority :: pyfloat
  gr_utility :: pyfloat
  gr_success_criteria :: "string list"
  gr_owner :: string
  gr_status :: goal_status
  gr_deadline :: "datetime option"
  gr_kind :: goal_kind
  gr_governing_goal_refs :: "string list"
  gr_origin :: origin_provenance
  gr_intent_authority :: intent_authority
  gr_based_on_event_cursor :: int
  gr_author :: string
  gr_revision_reason :: string
  gr_recorded_at :: datetime
  gr_supersedes_revision_id :: "string option"

definition check_goal_revision :: "goal_revision \<Rightarrow> unit result" where
  "check_goal_revision x = raise_first
     (require_text (gr_revision_id x) ''goal revision id'' @
      require_text (gr_goal_id x) ''goal id'' @
      require_text (gr_description x) ''goal description'' @
      require_text (gr_owner x) ''goal owner'' @
      require_text (gr_author x) ''goal revision author'' @
      require_text (gr_revision_reason x) ''goal revision reason'' @
      [(gr_version x \<le> 0, ValueError ''goal revision version must be positive''),
       (gr_based_on_event_cursor x < 0, ValueError ''goal revision cursor cannot be negative'')] @
      bounded (gr_priority x) ''goal priority'' @
      [(\<not> fin (gr_utility x), ValueError ''goal utility must be finite'')] @
      unique_text (gr_success_criteria x) ''goal success criteria'' (gr_kind x \<noteq> LEGACY_UNCLASSIFIED) @
      unique_text (gr_governing_goal_refs x) ''governing goal refs'' False @
      (case gr_deadline x of None \<Rightarrow> [] | Some d1 \<Rightarrow>
        require_aware d1 ''goal deadline'') @
      require_aware (gr_recorded_at x) ''goal revision recorded_at'')"

definition goal_revision_identity :: "goal_revision \<Rightarrow> jobject" where
  "goal_revision_identity x =
     [(''goal_id'', JStr (gr_goal_id x)),
      (''version'', JInt (gr_version x)),
      (''description'', JStr (gr_description x)),
      (''priority'', JFloat (gr_priority x)),
      (''utility'', JFloat (gr_utility x)),
      (''success_criteria'', JStrs (gr_success_criteria x)),
      (''owner'', JStr (gr_owner x)),
      (''status'', JStr (goal_status_value (gr_status x))),
      (''deadline'', json_opt JTime (gr_deadline x)),
      (''kind'', JStr (goal_kind_value (gr_kind x))),
      (''governing_goal_refs'', JStrs (gr_governing_goal_refs x)),
      (''origin'', JObj (origin_provenance_to_dict (gr_origin x))),
      (''intent_authority'', JObj (intent_authority_to_dict (gr_intent_authority x))),
      (''based_on_event_cursor'', JInt (gr_based_on_event_cursor x)),
      (''author'', JStr (gr_author x)),
      (''revision_reason'', JStr (gr_revision_reason x)),
      (''recorded_at'', JTime (gr_recorded_at x)),
      (''supersedes_revision_id'', json_opt JStr (gr_supersedes_revision_id x))]"

definition create_goal_revision :: "builtins \<Rightarrow> goal_revision \<Rightarrow> goal_revision result" where
  "create_goal_revision b x =
           rbind (canonical_id b ''goal-revision'' (goal_revision_identity x)) (\<lambda>i.
      let y = x\<lparr>gr_revision_id := i\<rparr> in rbind (check_goal_revision y) (\<lambda>_. Inr y))"

definition goal_revision_to_dict :: "goal_revision \<Rightarrow> jobject" where
  "goal_revision_to_dict x =
     (''revision_id'', JStr (gr_revision_id x)) # goal_revision_identity x"

definition goal_revision_from_dict :: "builtins \<Rightarrow> jobject \<Rightarrow> goal_revision result" where
  "goal_revision_from_dict b d =
     rbind (j_str b d ''revision_id'') (\<lambda>revision_id.
     rbind (j_str b d ''goal_id'') (\<lambda>goal_id.
     rbind (j_int b d ''version'') (\<lambda>version.
     rbind (j_str b d ''description'') (\<lambda>description.
     rbind (j_float b d ''priority'') (\<lambda>priority.
     rbind (j_float b d ''utility'') (\<lambda>utility.
     rbind (j_strs b d ''success_criteria'') (\<lambda>success_criteria.
     rbind (j_str b d ''owner'') (\<lambda>owner.
     rbind (rbind (j_str b d ''status'') goal_status_of) (\<lambda>status.
     rbind (j_time_opt b d ''deadline'') (\<lambda>deadline.
     rbind (rbind (j_str b d ''kind'') goal_kind_of) (\<lambda>kind1.
     rbind (j_strs b d ''governing_goal_refs'') (\<lambda>governing_goal_refs.
     rbind (rbind (j_obj d ''origin'') (origin_provenance_from_dict b)) (\<lambda>origin.
     rbind (rbind (j_obj d ''intent_authority'') (intent_authority_from_dict b)) (\<lambda>intent_authority.
     rbind (j_int b d ''based_on_event_cursor'') (\<lambda>based_on_event_cursor.
     rbind (j_str b d ''author'') (\<lambda>author.
     rbind (j_str b d ''revision_reason'') (\<lambda>revision_reason.
     rbind (j_time b d ''recorded_at'') (\<lambda>recorded_at.
     let x = \<lparr>gr_revision_id = revision_id, gr_goal_id = goal_id, gr_version = version,
              gr_description = description, gr_priority = priority, gr_utility = utility,
              gr_success_criteria = success_criteria, gr_owner = owner, gr_status = status, gr_deadline = deadline,
              gr_kind = kind1, gr_governing_goal_refs = governing_goal_refs, gr_origin = origin,
              gr_intent_authority = intent_authority, gr_based_on_event_cursor = based_on_event_cursor,
              gr_author = author, gr_revision_reason = revision_reason, gr_recorded_at = recorded_at,
              gr_supersedes_revision_id = opt_text b d ''supersedes_revision_id''\<rparr> in
     rbind (check_goal_revision x) (\<lambda>_.
     rbind (create_goal_revision b x) (\<lambda>expected.
     (if gr_revision_id x \<noteq> gr_revision_id expected
        then Inl (ValueError ''goal revision id does not match immutable content'') else
     Inr x)))))))))))))))))))))"

definition goal_revision_to_event :: "goal_revision \<Rightarrow> string \<Rightarrow> jobject event result" where
  "goal_revision_to_event x source =
     make_event (''goal-revision-recorded:'' @ gr_revision_id x) GOAL_REVISION_RECORDED_EVENT source (gr_goal_id x)
       (gr_recorded_at x) (goal_revision_to_dict x) None"

definition goal_revision_ok :: "builtins \<Rightarrow> goal_revision \<Rightarrow> bool" where
  "goal_revision_ok b x \<longleftrightarrow> create_goal_revision b x = Inr x \<and>
     origin_provenance_ok b (gr_origin x) \<and>
     intent_authority_ok b (gr_intent_authority x) \<and>
     gr_supersedes_revision_id x \<noteq> Some []"

lemma create_goal_revision_same:
  "create_goal_revision b x = Inr x \<Longrightarrow> canonical_id b ''goal-revision'' (goal_revision_identity x) = Inr (gr_revision_id x) \<and> check_goal_revision x = Inr ()"
  by (cases x) (auto simp: create_goal_revision_def Let_def rbind_Inr_iff)

lemma check_goal_revision_aware:
  "check_goal_revision x = Inr () \<Longrightarrow> (\<forall>t. gr_deadline x = Some t \<longrightarrow> is_aware t) \<and>
     is_aware (gr_recorded_at x)"
  by (auto simp: check_goal_revision_def rbind_Inr_iff raise_first_no_errors simp del: raise_first_ok split: option.splits if_splits)

lemma goal_revision_round_trip:
  assumes "goal_revision_ok b x"
  shows "goal_revision_from_dict b (goal_revision_to_dict x) = Inr x"
proof -
  have c: "create_goal_revision b x = Inr x" using assms by (simp add: goal_revision_ok_def)
  note k = create_goal_revision_same [OF c]
  note a = check_goal_revision_aware [OF k [THEN conjunct2]]
  show ?thesis
    using c k a assms
    by (cases x) (simp add: goal_revision_ok_def goal_revision_from_dict_def goal_revision_to_dict_def goal_revision_identity_def codec intent_authority_round_trip origin_provenance_round_trip Let_def)
qed

subsection \<open>OutcomeNode\<close>

record outcome_node =
  on_node_id :: string
  on_description :: string
  on_success_criteria :: "string list"
  on_approximate_dependencies :: "string list"
  on_assumption_refs :: "string list"
  on_confidence :: pyfloat

definition check_outcome_node :: "outcome_node \<Rightarrow> unit result" where
  "check_outcome_node x = raise_first
     (require_text (on_node_id x) ''outcome node id'' @
      require_text (on_description x) ''outcome node description'' @
      unique_text (on_success_criteria x) ''outcome success criteria'' True @
      unique_text (on_approximate_dependencies x) ''outcome dependencies'' False @
      unique_text (on_assumption_refs x) ''outcome assumption refs'' False @
      bounded (on_confidence x) ''outcome confidence'' @
      [(on_node_id x \<in> set (on_approximate_dependencies x),
       ValueError ''outcome node cannot depend on itself'')])"

definition outcome_node_to_dict :: "outcome_node \<Rightarrow> jobject" where
  "outcome_node_to_dict x =
     [(''node_id'', JStr (on_node_id x)),
      (''description'', JStr (on_description x)),
      (''success_criteria'', JStrs (on_success_criteria x)),
      (''approximate_dependencies'', JStrs (on_approximate_dependencies x)),
      (''assumption_refs'', JStrs (on_assumption_refs x)),
      (''confidence'', JFloat (on_confidence x))]"

definition outcome_node_from_dict :: "builtins \<Rightarrow> jobject \<Rightarrow> outcome_node result" where
  "outcome_node_from_dict b d =
     rbind (j_str b d ''node_id'') (\<lambda>node_id.
     rbind (j_str b d ''description'') (\<lambda>description.
     rbind (j_strs b d ''success_criteria'') (\<lambda>success_criteria.
     rbind (j_strs b d ''approximate_dependencies'') (\<lambda>approximate_dependencies.
     rbind (j_strs b d ''assumption_refs'') (\<lambda>assumption_refs.
     rbind (j_float b d ''confidence'') (\<lambda>confidence.
     let x = \<lparr>on_node_id = node_id, on_description = description, on_success_criteria = success_criteria,
              on_approximate_dependencies = approximate_dependencies, on_assumption_refs = assumption_refs,
              on_confidence = confidence\<rparr> in
     rbind (check_outcome_node x) (\<lambda>_.
     Inr x)))))))"

definition outcome_node_ok :: "builtins \<Rightarrow> outcome_node \<Rightarrow> bool" where
  "outcome_node_ok b x \<longleftrightarrow> check_outcome_node x = Inr ()"

lemma outcome_node_round_trip:
  assumes "outcome_node_ok b x"
  shows "outcome_node_from_dict b (outcome_node_to_dict x) = Inr x"
proof -
  have k: "check_outcome_node x = Inr ()" using assms by (simp add: outcome_node_ok_def)
  show ?thesis
    using k assms
    by (cases x) (simp add: outcome_node_ok_def outcome_node_from_dict_def outcome_node_to_dict_def codec Let_def)
qed

lemma outcome_node_list_round_trip:
  "list_all (outcome_node_ok b) xs \<Longrightarrow> mapM (\<lambda>v. rbind (as_obj v) (outcome_node_from_dict b)) (map (JObj \<circ> outcome_node_to_dict) xs) = Inr xs"
  by (rule mapM_read_written) (auto simp: list_all_iff outcome_node_round_trip codec)

subsection \<open>RoadmapRevision\<close>

record roadmap_revision =
  rr_revision_id :: string
  rr_roadmap_id :: string
  rr_version :: int
  rr_governing_goal_revision_ids :: "string list"
  rr_outcome_nodes :: "outcome_node list"
  rr_assumptions :: "string list"
  rr_confidence :: pyfloat
  rr_success_criteria :: "string list"
  rr_resource_envelope :: "(string \<times> pyfloat) list"
  rr_intent_authority :: intent_authority
  rr_based_on_event_cursor :: int
  rr_author :: string
  rr_revision_reason :: string
  rr_recorded_at :: datetime
  rr_supersedes_revision_id :: "string option"

definition check_roadmap_revision :: "roadmap_revision \<Rightarrow> unit result" where
  "check_roadmap_revision x = raise_first
     (require_text (rr_revision_id x) ''roadmap revision id'' @
      require_text (rr_roadmap_id x) ''roadmap id'' @
      require_text (rr_author x) ''roadmap author'' @
      require_text (rr_revision_reason x) ''roadmap revision reason'' @
      [(rr_version x \<le> 0 \<or> rr_based_on_event_cursor x < 0,
       ValueError ''roadmap version must be positive and cursor non-negative'')] @
      unique_text (rr_governing_goal_revision_ids x) ''governing goal revisions'' True @
      unique_text (rr_assumptions x) ''roadmap assumptions'' False @
      unique_text (rr_success_criteria x) ''roadmap success criteria'' True @
      bounded (rr_confidence x) ''roadmap confidence'' @
      require_aware (rr_recorded_at x) ''roadmap recorded_at'' @
      unique_text (map on_node_id (rr_outcome_nodes x)) ''roadmap outcome ids'' True @
      [(list_ex (\<lambda>(k, v). blank k) (rr_resource_envelope x),
        ValueError ''roadmap resource envelope keys must be non-empty''),
       (list_ex (\<lambda>(k, v). \<not> fin v \<or> v < 0) (rr_resource_envelope x),
        ValueError ''roadmap resource envelope values must be finite and non-negative'')])"

text \<open>The order that \<open>create\<close> gives to its arguments.\<close>

definition normal_roadmap_revision :: "roadmap_revision \<Rightarrow> roadmap_revision" where
  "normal_roadmap_revision x = x\<lparr>rr_outcome_nodes := sort_key (\<lambda>value. on_node_id value) (rr_outcome_nodes x),
     rr_resource_envelope := sort_key fst (rr_resource_envelope x)\<rparr>"

definition roadmap_revision_identity :: "roadmap_revision \<Rightarrow> jobject" where
  "roadmap_revision_identity x =
     [(''roadmap_id'', JStr (rr_roadmap_id x)),
      (''version'', JInt (rr_version x)),
      (''governing_goal_revision_ids'', JStrs (rr_governing_goal_revision_ids x)),
      (''outcome_nodes'', JList (map (JObj \<circ> outcome_node_to_dict) (rr_outcome_nodes x))),
      (''assumptions'', JStrs (rr_assumptions x)),
      (''confidence'', JFloat (rr_confidence x)),
      (''success_criteria'', JStrs (rr_success_criteria x)),
      (''resource_envelope'', JFloats (rr_resource_envelope x)),
      (''intent_authority'', JObj (intent_authority_to_dict (rr_intent_authority x))),
      (''based_on_event_cursor'', JInt (rr_based_on_event_cursor x)),
      (''author'', JStr (rr_author x)),
      (''revision_reason'', JStr (rr_revision_reason x)),
      (''recorded_at'', JTime (rr_recorded_at x)),
      (''supersedes_revision_id'', json_opt JStr (rr_supersedes_revision_id x))]"

definition create_roadmap_revision :: "builtins \<Rightarrow> roadmap_revision \<Rightarrow> roadmap_revision result" where
  "create_roadmap_revision b x0 =
     (let x = normal_roadmap_revision x0 in
      rbind (canonical_id b ''roadmap-revision'' (roadmap_revision_identity x)) (\<lambda>i.
      let y = x\<lparr>rr_revision_id := i\<rparr> in rbind (check_roadmap_revision y) (\<lambda>_. Inr y)))"

definition roadmap_revision_to_dict :: "roadmap_revision \<Rightarrow> jobject" where
  "roadmap_revision_to_dict x =
     [(''revision_id'', JStr (rr_revision_id x)),
      (''roadmap_id'', JStr (rr_roadmap_id x)),
      (''version'', JInt (rr_version x)),
      (''governing_goal_revision_ids'', JStrs (rr_governing_goal_revision_ids x)),
      (''outcome_nodes'', JList (map (JObj \<circ> outcome_node_to_dict) (rr_outcome_nodes x))),
      (''assumptions'', JStrs (rr_assumptions x)),
      (''confidence'', JFloat (rr_confidence x)),
      (''success_criteria'', JStrs (rr_success_criteria x)),
      (''resource_envelope'', JFloats (rr_resource_envelope x)),
      (''intent_authority'', JObj (intent_authority_to_dict (rr_intent_authority x))),
      (''based_on_event_cursor'', JInt (rr_based_on_event_cursor x)),
      (''author'', JStr (rr_author x)),
      (''revision_reason'', JStr (rr_revision_reason x)),
      (''recorded_at'', JTime (rr_recorded_at x)),
      (''supersedes_revision_id'', json_opt JStr (rr_supersedes_revision_id x))]"

definition roadmap_revision_from_dict :: "builtins \<Rightarrow> jobject \<Rightarrow> roadmap_revision result" where
  "roadmap_revision_from_dict b d =
     rbind (j_str b d ''revision_id'') (\<lambda>revision_id.
     rbind (j_str b d ''roadmap_id'') (\<lambda>roadmap_id.
     rbind (j_int b d ''version'') (\<lambda>version.
     rbind (j_strs b d ''governing_goal_revision_ids'') (\<lambda>governing_goal_revision_ids.
     rbind (j_items b (\<lambda>v. rbind (as_obj v) (outcome_node_from_dict b)) d ''outcome_nodes'') (\<lambda>outcome_nodes.
     rbind (j_strs b d ''assumptions'') (\<lambda>assumptions.
     rbind (j_float b d ''confidence'') (\<lambda>confidence.
     rbind (j_strs b d ''success_criteria'') (\<lambda>success_criteria.
     rbind (j_floats b d ''resource_envelope'') (\<lambda>resource_envelope.
     rbind (rbind (j_obj d ''intent_authority'') (intent_authority_from_dict b)) (\<lambda>intent_authority.
     rbind (j_int b d ''based_on_event_cursor'') (\<lambda>based_on_event_cursor.
     rbind (j_str b d ''author'') (\<lambda>author.
     rbind (j_str b d ''revision_reason'') (\<lambda>revision_reason.
     rbind (j_time b d ''recorded_at'') (\<lambda>recorded_at.
     let x = \<lparr>rr_revision_id = revision_id, rr_roadmap_id = roadmap_id, rr_version = version,
              rr_governing_goal_revision_ids = governing_goal_revision_ids, rr_outcome_nodes = outcome_nodes,
              rr_assumptions = assumptions, rr_confidence = confidence, rr_success_criteria = success_criteria,
              rr_resource_envelope = sort_key fst resource_envelope,
              rr_intent_authority = intent_authority, rr_based_on_event_cursor = based_on_event_cursor,
              rr_author = author, rr_revision_reason = revision_reason, rr_recorded_at = recorded_at,
              rr_supersedes_revision_id = opt_text b d ''supersedes_revision_id''\<rparr> in
     rbind (check_roadmap_revision x) (\<lambda>_.
     rbind (create_roadmap_revision b x) (\<lambda>expected.
     (if rr_revision_id x \<noteq> rr_revision_id expected
        then Inl (ValueError ''roadmap revision id does not match immutable content'') else
     Inr x)))))))))))))))))"

definition roadmap_revision_to_event :: "roadmap_revision \<Rightarrow> string \<Rightarrow> jobject event result" where
  "roadmap_revision_to_event x source =
     make_event (''roadmap-revision-recorded:'' @ rr_revision_id x) ROADMAP_REVISION_RECORDED_EVENT
        source (rr_roadmap_id x)
       (rr_recorded_at x) (roadmap_revision_to_dict x) None"

definition roadmap_revision_ok :: "builtins \<Rightarrow> roadmap_revision \<Rightarrow> bool" where
  "roadmap_revision_ok b x \<longleftrightarrow> create_roadmap_revision b x = Inr x \<and>
     list_all (\<lambda>v. outcome_node_ok b v) (rr_outcome_nodes x) \<and>
     intent_authority_ok b (rr_intent_authority x) \<and>
     rr_supersedes_revision_id x \<noteq> Some []"

lemma create_roadmap_revision_same:
  "create_roadmap_revision b x = Inr x \<Longrightarrow> canonical_id b ''roadmap-revision'' (roadmap_revision_identity x) = Inr (rr_revision_id x) \<and> check_roadmap_revision x = Inr ()"
  by (cases x) (auto simp: create_roadmap_revision_def normal_roadmap_revision_def Let_def rbind_Inr_iff)

lemma check_roadmap_revision_aware:
  "check_roadmap_revision x = Inr () \<Longrightarrow> is_aware (rr_recorded_at x)"
  by (auto simp: check_roadmap_revision_def rbind_Inr_iff raise_first_no_errors simp del: raise_first_ok split: option.splits if_splits)

lemma created_roadmap_revision_normal:
  "create_roadmap_revision b x0 = Inr x \<Longrightarrow> sort_key fst (rr_resource_envelope x) = rr_resource_envelope x"
  by (auto simp: create_roadmap_revision_def normal_roadmap_revision_def Let_def rbind_Inr_iff sorted_sort_id sort_key_id_if_sorted)

lemma roadmap_revision_round_trip:
  assumes "roadmap_revision_ok b x"
  shows "roadmap_revision_from_dict b (roadmap_revision_to_dict x) = Inr x"
proof -
  have c: "create_roadmap_revision b x = Inr x" using assms by (simp add: roadmap_revision_ok_def)
  note k = create_roadmap_revision_same [OF c]
  note a = check_roadmap_revision_aware [OF k [THEN conjunct2]] created_roadmap_revision_normal [OF c]
  show ?thesis
    using c k a assms
    by (cases x) (simp add: roadmap_revision_ok_def roadmap_revision_from_dict_def roadmap_revision_to_dict_def roadmap_revision_identity_def codec intent_authority_round_trip outcome_node_list_round_trip Let_def)
qed

definition roadmap_revision_node :: "roadmap_revision \<Rightarrow> string \<Rightarrow> outcome_node option" where
  "roadmap_revision_node x i = find (\<lambda>n. on_node_id n = i) (rr_outcome_nodes x)"

subsection \<open>Roadmap\<close>

record roadmap =
  rm_roadmap_id :: string
  rm_current_revision_id :: string
  rm_version :: int

subsection \<open>CommitmentTransition\<close>

text \<open>\<open>CommitmentClosureReason(closure) if closure else None\<close>\<close>

definition optional_closure :: "builtins \<Rightarrow> jobject \<Rightarrow> closure_reason option result" where
  "optional_closure b d =
     (case opt_text b d ''closure_reason'' of None \<Rightarrow> Inr None
      | Some s \<Rightarrow> rbind (closure_reason_of s) (\<lambda>r. Inr (Some r)))"

lemma optional_closure_hit [codec]:
  "optional_closure b ((''closure_reason'', json_opt (JStr \<circ> closure_reason_value) r) # d) = Inr r"
  "k \<noteq> ''closure_reason'' \<Longrightarrow> optional_closure b ((k, v) # d) = optional_closure b d"
proof -
  have "closure_reason_value c \<noteq> []" for c by (cases c) simp_all
  then show "optional_closure b ((''closure_reason'', json_opt (JStr \<circ> closure_reason_value) r) # d) = Inr r"
    by (cases r) (simp_all add: optional_closure_def opt_text_def jget_def json_opt_def py_str_def)
qed (simp add: optional_closure_def opt_text_def jget_def)

record commitment_transition =
  ct_transition_id :: string
  ct_commitment_id :: string
  ct_from_state :: commitment_status
  ct_to_state :: commitment_status
  ct_closure_reason :: "closure_reason option"
  ct_based_on_event_cursor :: int
  ct_author :: string
  ct_reason :: string
  ct_transitioned_at :: datetime
  ct_reactivation_roadmap_revision_id :: "string option"
  ct_reactivation_role_assignment_id :: "string option"
  ct_reactivation_assistance_envelope_id :: "string option"
  ct_reorientation_evidence_refs :: "string list"

definition check_commitment_transition :: "commitment_transition \<Rightarrow> unit result" where
  "check_commitment_transition x = raise_first
     (require_text (ct_transition_id x) ''commitment transition id'' @
      require_text (ct_commitment_id x) ''commitment id'' @
      require_text (ct_author x) ''commitment transition author'' @
      require_text (ct_reason x) ''commitment transition reason'' @
      [(ct_based_on_event_cursor x < 0, ValueError ''commitment transition cursor cannot be negative'')] @
      unique_text (ct_reorientation_evidence_refs x) ''reorientation evidence refs'' False @
      require_aware (ct_transitioned_at x) ''commitment transitioned_at'')"

definition commitment_transition_identity :: "commitment_transition \<Rightarrow> jobject" where
  "commitment_transition_identity x =
     [(''commitment_id'', JStr (ct_commitment_id x)),
      (''from_state'', JStr (commitment_status_value (ct_from_state x))),
      (''to_state'', JStr (commitment_status_value (ct_to_state x))),
      (''closure_reason'', json_opt (JStr \<circ> closure_reason_value) (ct_closure_reason x)),
      (''based_on_event_cursor'', JInt (ct_based_on_event_cursor x)),
      (''author'', JStr (ct_author x)),
      (''reason'', JStr (ct_reason x)),
      (''transitioned_at'', JTime (ct_transitioned_at x)),
      (''reactivation_roadmap_revision_id'', json_opt JStr (ct_reactivation_roadmap_revision_id x)),
      (''reactivation_role_assignment_id'', json_opt JStr (ct_reactivation_role_assignment_id x)),
      (''reactivation_assistance_envelope_id'', json_opt JStr (ct_reactivation_assistance_envelope_id x)),
      (''reorientation_evidence_refs'', JStrs (ct_reorientation_evidence_refs x))]"

definition create_commitment_transition :: "builtins \<Rightarrow> commitment_transition \<Rightarrow> commitment_transition result" where
  "create_commitment_transition b x =
           rbind (canonical_id b ''commitment-transition'' (commitment_transition_identity x)) (\<lambda>i.
      let y = x\<lparr>ct_transition_id := i\<rparr> in rbind (check_commitment_transition y) (\<lambda>_. Inr y))"

definition commitment_transition_to_dict :: "commitment_transition \<Rightarrow> jobject" where
  "commitment_transition_to_dict x =
     (''transition_id'', JStr (ct_transition_id x)) # commitment_transition_identity x"

definition commitment_transition_from_dict :: "builtins \<Rightarrow> jobject \<Rightarrow> commitment_transition result" where
  "commitment_transition_from_dict b d =
     rbind (j_str b d ''transition_id'') (\<lambda>transition_id.
     rbind (j_str b d ''commitment_id'') (\<lambda>commitment_id.
     rbind (rbind (j_str b d ''from_state'') commitment_status_of) (\<lambda>from_state.
     rbind (rbind (j_str b d ''to_state'') commitment_status_of) (\<lambda>to_state.
     rbind (optional_closure b d) (\<lambda>closure_reason.
     rbind (j_int b d ''based_on_event_cursor'') (\<lambda>based_on_event_cursor.
     rbind (j_str b d ''author'') (\<lambda>author.
     rbind (j_str b d ''reason'') (\<lambda>reason.
     rbind (j_time b d ''transitioned_at'') (\<lambda>transitioned_at.
     rbind (j_strs b d ''reorientation_evidence_refs'') (\<lambda>reorientation_evidence_refs.
     let x = \<lparr>ct_transition_id = transition_id, ct_commitment_id = commitment_id, ct_from_state = from_state,
              ct_to_state = to_state,
              ct_closure_reason = closure_reason,
              ct_based_on_event_cursor = based_on_event_cursor, ct_author = author, ct_reason = reason,
              ct_transitioned_at = transitioned_at,
              ct_reactivation_roadmap_revision_id = opt_text b d ''reactivation_roadmap_revision_id'',
              ct_reactivation_role_assignment_id = opt_text b d ''reactivation_role_assignment_id'',
              ct_reactivation_assistance_envelope_id = opt_text b d ''reactivation_assistance_envelope_id'',
              ct_reorientation_evidence_refs = reorientation_evidence_refs\<rparr> in
     rbind (check_commitment_transition x) (\<lambda>_.
     rbind (create_commitment_transition b x) (\<lambda>expected.
     (if ct_transition_id x \<noteq> ct_transition_id expected
        then Inl (ValueError ''commitment transition id does not match immutable content'') else
     Inr x)))))))))))))"

definition commitment_transition_to_event :: "commitment_transition \<Rightarrow> string \<Rightarrow> jobject event result" where
  "commitment_transition_to_event x source =
     make_event (''commitment-transitioned:'' @ ct_transition_id x) COMMITMENT_TRANSITIONED_EVENT
        source (ct_commitment_id x)
       (ct_transitioned_at x) (commitment_transition_to_dict x) None"

definition commitment_transition_ok :: "builtins \<Rightarrow> commitment_transition \<Rightarrow> bool" where
  "commitment_transition_ok b x \<longleftrightarrow> create_commitment_transition b x = Inr x \<and>
     ct_reactivation_roadmap_revision_id x \<noteq> Some [] \<and>
     ct_reactivation_role_assignment_id x \<noteq> Some [] \<and>
     ct_reactivation_assistance_envelope_id x \<noteq> Some []"

lemma create_commitment_transition_same:
  "create_commitment_transition b x = Inr x \<Longrightarrow> canonical_id b ''commitment-transition'' (commitment_transition_identity x) = Inr (ct_transition_id x) \<and> check_commitment_transition x = Inr ()"
  by (cases x) (auto simp: create_commitment_transition_def Let_def rbind_Inr_iff)

lemma check_commitment_transition_aware:
  "check_commitment_transition x = Inr () \<Longrightarrow> is_aware (ct_transitioned_at x)"
  by (auto simp: check_commitment_transition_def rbind_Inr_iff raise_first_no_errors simp del: raise_first_ok split: option.splits if_splits)

lemma commitment_transition_round_trip:
  assumes "commitment_transition_ok b x"
  shows "commitment_transition_from_dict b (commitment_transition_to_dict x) = Inr x"
proof -
  have c: "create_commitment_transition b x = Inr x" using assms by (simp add: commitment_transition_ok_def)
  note k = create_commitment_transition_same [OF c]
  note a = check_commitment_transition_aware [OF k [THEN conjunct2]]
  show ?thesis
    using c k a assms
    by (cases x) (simp add: commitment_transition_ok_def commitment_transition_from_dict_def commitment_transition_to_dict_def commitment_transition_identity_def codec Let_def)
qed

subsection \<open>Commitment\<close>

definition commitment_to_dict :: "commitment \<Rightarrow> jobject" where
  "commitment_to_dict c =
     [(''id'', JStr (co_id c)), (''description'', JStr (co_description c)), (''owner'', JStr (co_owner c)),
      (''priority'', JFloat (co_priority c)), (''status'', JStr (commitment_status_value (co_status c))),
      (''deadline'', json_opt JTime (co_deadline c)), (''terminal'', JBool (co_terminal c)),
      (''attention_cost'', JFloat (co_attention_cost c)), (''social_cost_of_failure'', JFloat (co_social_cost c)),
      (''created_at'', JTime (co_created_at c)), (''updated_at'', JTime (co_updated_at c)),
      (''closure_reason'', json_opt (JStr \<circ> closure_reason_value) (co_closure_reason c)),
      (''governing_goal_refs'', JStrs (co_goal_refs c)),
      (''roadmap_revision_id'', json_opt JStr (co_roadmap_revision_id c)),
      (''outcome_node_id'', json_opt JStr (co_outcome_node_id c)),
      (''role_assignment_id'', json_opt JStr (co_role_assignment_id c)),
      (''assistance_envelope_id'', json_opt JStr (co_assistance_envelope_id c)),
      (''activation_due_at'', json_opt JTime (co_activation_due_at c)),
      (''lead_time_evidence_refs'', JStrs (co_lead_time_evidence_refs c))]"

definition commitment_from_dict :: "builtins \<Rightarrow> jobject \<Rightarrow> commitment result" where
  "commitment_from_dict b d =
     rbind (j_str b d ''id'') (\<lambda>i.
     rbind (j_str b d ''description'') (\<lambda>description.
     rbind (j_str b d ''owner'') (\<lambda>owner.
     rbind (py_float b (jget_or d ''priority'' (JFloat (Fin (1 / 2))))) (\<lambda>priority.
     rbind (commitment_status_of (py_str b (jget_or d ''status'' (JStr (commitment_status_value CAccepted))))) (\<lambda>status.
     rbind (j_time_opt b d ''deadline'') (\<lambda>deadline.
     rbind (py_float b (jget_or d ''attention_cost'' (JFloat 1))) (\<lambda>attention_cost.
     rbind (py_float b (jget_or d ''social_cost_of_failure'' (JFloat 0))) (\<lambda>social_cost.
     rbind (j_time b d ''created_at'') (\<lambda>created_at.
     rbind (j_time b d ''updated_at'') (\<lambda>updated_at.
     rbind (optional_closure b d) (\<lambda>closure_reason.
     rbind (j_strs b d ''governing_goal_refs'') (\<lambda>goal_refs.
     rbind (j_time_opt b d ''activation_due_at'') (\<lambda>activation_due_at.
     rbind (j_strs b d ''lead_time_evidence_refs'') (\<lambda>evidence.
     Inr \<lparr>co_id = i, co_description = description, co_owner = owner, co_priority = priority, co_status = status,
          co_deadline = deadline, co_terminal = j_bool_or d ''terminal'' True, co_attention_cost = attention_cost,
          co_social_cost = social_cost, co_created_at = created_at, co_updated_at = updated_at,
          co_closure_reason = closure_reason, co_goal_refs = goal_refs,
          co_roadmap_revision_id = opt_text b d ''roadmap_revision_id'',
          co_outcome_node_id = opt_text b d ''outcome_node_id'',
          co_role_assignment_id = opt_text b d ''role_assignment_id'',
          co_assistance_envelope_id = opt_text b d ''assistance_envelope_id'',
          co_activation_due_at = activation_due_at, co_lead_time_evidence_refs = evidence\<rparr>))))))))))))))"

definition commitment_recorded_event :: "commitment \<Rightarrow> string \<Rightarrow> jobject event result" where
  "commitment_recorded_event c source =
     make_event (''commitment-recorded:'' @ co_id c) COMMITMENT_RECORDED_EVENT source (co_id c)
       (co_created_at c) (commitment_to_dict c) None"

definition commitment_ok :: "commitment \<Rightarrow> bool" where
  "commitment_ok c \<longleftrightarrow> is_aware (co_created_at c) \<and> is_aware (co_updated_at c) \<and>
     (\<forall>t. co_deadline c = Some t \<longrightarrow> is_aware t) \<and> (\<forall>t. co_activation_due_at c = Some t \<longrightarrow> is_aware t) \<and>
     co_roadmap_revision_id c \<noteq> Some [] \<and> co_outcome_node_id c \<noteq> Some [] \<and>
     co_role_assignment_id c \<noteq> Some [] \<and> co_assistance_envelope_id c \<noteq> Some []"

lemma commitment_round_trip:
  assumes "commitment_ok c"
  shows "commitment_from_dict b (commitment_to_dict c) = Inr c"
  using assms
  by (cases c) (simp add: commitment_ok_def commitment_from_dict_def commitment_to_dict_def jget_or_def j_bool_or_def falsy_def codec)

subsection \<open>OutcomeActor\<close>

record outcome_actor =
  oa_actor_id :: string
  oa_locus :: execution_locus

definition check_outcome_actor :: "outcome_actor \<Rightarrow> unit result" where
  "check_outcome_actor x = raise_first
     (require_text (oa_actor_id x) ''outcome actor id'')"

definition outcome_actor_to_dict :: "outcome_actor \<Rightarrow> jobject" where
  "outcome_actor_to_dict x =
     [(''actor_id'', JStr (oa_actor_id x)),
      (''locus'', JStr (execution_locus_value (oa_locus x)))]"

definition outcome_actor_from_dict :: "builtins \<Rightarrow> jobject \<Rightarrow> outcome_actor result" where
  "outcome_actor_from_dict b d =
     rbind (j_str b d ''actor_id'') (\<lambda>actor_id.
     rbind (rbind (j_str b d ''locus'') execution_locus_of) (\<lambda>locus.
     let x = \<lparr>oa_actor_id = actor_id, oa_locus = locus\<rparr> in
     rbind (check_outcome_actor x) (\<lambda>_.
     Inr x)))"

definition outcome_actor_ok :: "builtins \<Rightarrow> outcome_actor \<Rightarrow> bool" where
  "outcome_actor_ok b x \<longleftrightarrow> check_outcome_actor x = Inr ()"

lemma outcome_actor_round_trip:
  assumes "outcome_actor_ok b x"
  shows "outcome_actor_from_dict b (outcome_actor_to_dict x) = Inr x"
proof -
  have k: "check_outcome_actor x = Inr ()" using assms by (simp add: outcome_actor_ok_def)
  show ?thesis
    using k assms
    by (cases x) (simp add: outcome_actor_ok_def outcome_actor_from_dict_def outcome_actor_to_dict_def codec Let_def)
qed

subsection \<open>OutcomeRoleAssignment\<close>

record outcome_role_assignment =
  ora_assignment_id :: string
  ora_outcome_ref :: string
  ora_outcome_owner :: outcome_actor
  ora_decision_owner :: outcome_actor
  ora_executor :: outcome_actor
  ora_verifier :: outcome_actor
  ora_recorded_at :: datetime

definition check_outcome_role_assignment :: "outcome_role_assignment \<Rightarrow> unit result" where
  "check_outcome_role_assignment x = raise_first
     (require_text (ora_assignment_id x) ''outcome role assignment id'' @
      require_text (ora_outcome_ref x) ''outcome ref'' @
      require_aware (ora_recorded_at x) ''outcome roles recorded_at'')"

definition outcome_role_assignment_identity :: "outcome_role_assignment \<Rightarrow> jobject" where
  "outcome_role_assignment_identity x =
     [(''outcome_ref'', JStr (ora_outcome_ref x)),
      (''outcome_owner'', JObj (outcome_actor_to_dict (ora_outcome_owner x))),
      (''decision_owner'', JObj (outcome_actor_to_dict (ora_decision_owner x))),
      (''executor'', JObj (outcome_actor_to_dict (ora_executor x))),
      (''verifier'', JObj (outcome_actor_to_dict (ora_verifier x))),
      (''recorded_at'', JTime (ora_recorded_at x))]"

definition create_outcome_role_assignment :: "builtins \<Rightarrow> outcome_role_assignment \<Rightarrow> outcome_role_assignment result" where
  "create_outcome_role_assignment b x =
           rbind (canonical_id b ''outcome-roles'' (outcome_role_assignment_identity x)) (\<lambda>i.
      let y = x\<lparr>ora_assignment_id := i\<rparr> in rbind (check_outcome_role_assignment y) (\<lambda>_. Inr y))"

definition outcome_role_assignment_to_dict :: "outcome_role_assignment \<Rightarrow> jobject" where
  "outcome_role_assignment_to_dict x =
     (''assignment_id'', JStr (ora_assignment_id x)) # outcome_role_assignment_identity x"

definition outcome_role_assignment_from_dict :: "builtins \<Rightarrow> jobject \<Rightarrow> outcome_role_assignment result" where
  "outcome_role_assignment_from_dict b d =
     rbind (j_str b d ''assignment_id'') (\<lambda>assignment_id.
     rbind (j_str b d ''outcome_ref'') (\<lambda>outcome_ref.
     rbind (rbind (j_obj d ''outcome_owner'') (outcome_actor_from_dict b)) (\<lambda>outcome_owner.
     rbind (rbind (j_obj d ''decision_owner'') (outcome_actor_from_dict b)) (\<lambda>decision_owner.
     rbind (rbind (j_obj d ''executor'') (outcome_actor_from_dict b)) (\<lambda>executor.
     rbind (rbind (j_obj d ''verifier'') (outcome_actor_from_dict b)) (\<lambda>verifier.
     rbind (j_time b d ''recorded_at'') (\<lambda>recorded_at.
     let x = \<lparr>ora_assignment_id = assignment_id, ora_outcome_ref = outcome_ref, ora_outcome_owner = outcome_owner,
              ora_decision_owner = decision_owner, ora_executor = executor, ora_verifier = verifier,
              ora_recorded_at = recorded_at\<rparr> in
     rbind (check_outcome_role_assignment x) (\<lambda>_.
     rbind (create_outcome_role_assignment b x) (\<lambda>expected.
     (if ora_assignment_id x \<noteq> ora_assignment_id expected
        then Inl (ValueError ''outcome role id does not match immutable content'') else
     Inr x))))))))))"

definition outcome_role_assignment_to_event :: "outcome_role_assignment \<Rightarrow> string \<Rightarrow> jobject event result" where
  "outcome_role_assignment_to_event x source =
     make_event (''outcome-roles-recorded:'' @ ora_assignment_id x) OUTCOME_ROLES_RECORDED_EVENT
        source (ora_outcome_ref x)
       (ora_recorded_at x) (outcome_role_assignment_to_dict x) None"

definition outcome_role_assignment_ok :: "builtins \<Rightarrow> outcome_role_assignment \<Rightarrow> bool" where
  "outcome_role_assignment_ok b x \<longleftrightarrow> create_outcome_role_assignment b x = Inr x \<and>
     outcome_actor_ok b (ora_outcome_owner x) \<and>
     outcome_actor_ok b (ora_decision_owner x) \<and>
     outcome_actor_ok b (ora_executor x) \<and>
     outcome_actor_ok b (ora_verifier x)"

lemma create_outcome_role_assignment_same:
  "create_outcome_role_assignment b x = Inr x \<Longrightarrow> canonical_id b ''outcome-roles'' (outcome_role_assignment_identity x) = Inr (ora_assignment_id x) \<and> check_outcome_role_assignment x = Inr ()"
  by (cases x) (auto simp: create_outcome_role_assignment_def Let_def rbind_Inr_iff)

lemma check_outcome_role_assignment_aware:
  "check_outcome_role_assignment x = Inr () \<Longrightarrow> is_aware (ora_recorded_at x)"
  by (auto simp: check_outcome_role_assignment_def rbind_Inr_iff raise_first_no_errors simp del: raise_first_ok split: option.splits if_splits)

lemma outcome_role_assignment_round_trip:
  assumes "outcome_role_assignment_ok b x"
  shows "outcome_role_assignment_from_dict b (outcome_role_assignment_to_dict x) = Inr x"
proof -
  have c: "create_outcome_role_assignment b x = Inr x" using assms by (simp add: outcome_role_assignment_ok_def)
  note k = create_outcome_role_assignment_same [OF c]
  note a = check_outcome_role_assignment_aware [OF k [THEN conjunct2]]
  show ?thesis
    using c k a assms
    by (cases x) (simp add: outcome_role_assignment_ok_def outcome_role_assignment_from_dict_def outcome_role_assignment_to_dict_def outcome_role_assignment_identity_def codec outcome_actor_round_trip Let_def)
qed

subsection \<open>AssistanceEnvelope\<close>

record assistance_envelope =
  ae_envelope_id :: string
  ae_role_assignment_id :: string
  ae_maximum_intervention :: intervention_level
  ae_identity_bound :: bool
  ae_physical_presence_required :: bool
  ae_relationship_bound :: bool
  ae_institutional_restrictions :: "string list"
  ae_user_development_value :: pyfloat
  ae_permitted_agent_support :: "string list"
  ae_required_human_work :: "string list"
  ae_checkpoints :: "string list"
  ae_reversible :: bool
  ae_risk_limit :: pyfloat
  ae_privacy_limit :: pyfloat
  ae_attention_budget :: pyfloat
  ae_recorded_at :: datetime

definition check_assistance_envelope :: "assistance_envelope \<Rightarrow> unit result" where
  "check_assistance_envelope x = raise_first
     (require_text (ae_envelope_id x) ''assistance envelope id'' @
      require_text (ae_role_assignment_id x) ''assistance role assignment ref'' @
      unique_text (ae_institutional_restrictions x) ''institutional restrictions'' False @
      unique_text (ae_permitted_agent_support x) ''permitted agent support'' False @
      unique_text (ae_required_human_work x) ''required human work'' False @
      unique_text (ae_checkpoints x) ''assistance checkpoints'' False @
      bounded (ae_user_development_value x) ''user development value'' @
      bounded (ae_risk_limit x) ''risk limit'' @
      bounded (ae_privacy_limit x) ''privacy limit'' @
      [(\<not> fin (ae_attention_budget x) \<or> ae_attention_budget x < 0,
       ValueError ''attention budget must be finite and non-negative'')] @
      require_aware (ae_recorded_at x) ''assistance envelope recorded_at'')"

definition assistance_envelope_identity :: "assistance_envelope \<Rightarrow> jobject" where
  "assistance_envelope_identity x =
     [(''role_assignment_id'', JStr (ae_role_assignment_id x)),
      (''maximum_intervention'', JStr (intervention_level_value (ae_maximum_intervention x))),
      (''identity_bound'', JBool (ae_identity_bound x)),
      (''physical_presence_required'', JBool (ae_physical_presence_required x)),
      (''relationship_bound'', JBool (ae_relationship_bound x)),
      (''institutional_restrictions'', JStrs (ae_institutional_restrictions x)),
      (''user_development_value'', JFloat (ae_user_development_value x)),
      (''permitted_agent_support'', JStrs (ae_permitted_agent_support x)),
      (''required_human_work'', JStrs (ae_required_human_work x)),
      (''checkpoints'', JStrs (ae_checkpoints x)),
      (''reversible'', JBool (ae_reversible x)),
      (''risk_limit'', JFloat (ae_risk_limit x)),
      (''privacy_limit'', JFloat (ae_privacy_limit x)),
      (''attention_budget'', JFloat (ae_attention_budget x)),
      (''recorded_at'', JTime (ae_recorded_at x))]"

definition create_assistance_envelope :: "builtins \<Rightarrow> assistance_envelope \<Rightarrow> assistance_envelope result" where
  "create_assistance_envelope b x =
           rbind (canonical_id b ''assistance-envelope'' (assistance_envelope_identity x)) (\<lambda>i.
      let y = x\<lparr>ae_envelope_id := i\<rparr> in rbind (check_assistance_envelope y) (\<lambda>_. Inr y))"

definition assistance_envelope_to_dict :: "assistance_envelope \<Rightarrow> jobject" where
  "assistance_envelope_to_dict x =
     (''envelope_id'', JStr (ae_envelope_id x)) # assistance_envelope_identity x"

definition assistance_envelope_from_dict :: "builtins \<Rightarrow> jobject \<Rightarrow> assistance_envelope result" where
  "assistance_envelope_from_dict b d =
     rbind (j_str b d ''envelope_id'') (\<lambda>envelope_id.
     rbind (j_str b d ''role_assignment_id'') (\<lambda>role_assignment_id.
     rbind (rbind (j_str b d ''maximum_intervention'') intervention_level_of) (\<lambda>maximum_intervention.
     rbind (j_bool d ''identity_bound'') (\<lambda>identity_bound.
     rbind (j_bool d ''physical_presence_required'') (\<lambda>physical_presence_required.
     rbind (j_bool d ''relationship_bound'') (\<lambda>relationship_bound.
     rbind (j_strs b d ''institutional_restrictions'') (\<lambda>institutional_restrictions.
     rbind (j_float b d ''user_development_value'') (\<lambda>user_development_value.
     rbind (j_strs b d ''permitted_agent_support'') (\<lambda>permitted_agent_support.
     rbind (j_strs b d ''required_human_work'') (\<lambda>required_human_work.
     rbind (j_strs b d ''checkpoints'') (\<lambda>checkpoints.
     rbind (j_bool d ''reversible'') (\<lambda>reversible.
     rbind (j_float b d ''risk_limit'') (\<lambda>risk_limit.
     rbind (j_float b d ''privacy_limit'') (\<lambda>privacy_limit.
     rbind (j_float b d ''attention_budget'') (\<lambda>attention_budget.
     rbind (j_time b d ''recorded_at'') (\<lambda>recorded_at.
     let x = \<lparr>ae_envelope_id = envelope_id, ae_role_assignment_id = role_assignment_id,
              ae_maximum_intervention = maximum_intervention, ae_identity_bound = identity_bound,
              ae_physical_presence_required = physical_presence_required,
              ae_relationship_bound = relationship_bound,
              ae_institutional_restrictions = institutional_restrictions,
              ae_user_development_value = user_development_value,
              ae_permitted_agent_support = permitted_agent_support, ae_required_human_work = required_human_work,
              ae_checkpoints = checkpoints, ae_reversible = reversible, ae_risk_limit = risk_limit,
              ae_privacy_limit = privacy_limit, ae_attention_budget = attention_budget,
              ae_recorded_at = recorded_at\<rparr> in
     rbind (check_assistance_envelope x) (\<lambda>_.
     rbind (create_assistance_envelope b x) (\<lambda>expected.
     (if ae_envelope_id x \<noteq> ae_envelope_id expected
        then Inl (ValueError ''assistance envelope id does not match immutable content'') else
     Inr x)))))))))))))))))))"

definition assistance_envelope_to_event :: "assistance_envelope \<Rightarrow> string \<Rightarrow> jobject event result" where
  "assistance_envelope_to_event x source =
     make_event (''assistance-envelope-recorded:'' @ ae_envelope_id x) ASSISTANCE_ENVELOPE_RECORDED_EVENT
        source (ae_role_assignment_id x)
       (ae_recorded_at x) (assistance_envelope_to_dict x) None"

definition assistance_envelope_ok :: "builtins \<Rightarrow> assistance_envelope \<Rightarrow> bool" where
  "assistance_envelope_ok b x \<longleftrightarrow> create_assistance_envelope b x = Inr x"

lemma create_assistance_envelope_same:
  "create_assistance_envelope b x = Inr x \<Longrightarrow> canonical_id b ''assistance-envelope'' (assistance_envelope_identity x) = Inr (ae_envelope_id x) \<and> check_assistance_envelope x = Inr ()"
  by (cases x) (auto simp: create_assistance_envelope_def Let_def rbind_Inr_iff)

lemma check_assistance_envelope_aware:
  "check_assistance_envelope x = Inr () \<Longrightarrow> is_aware (ae_recorded_at x)"
  by (auto simp: check_assistance_envelope_def rbind_Inr_iff raise_first_no_errors simp del: raise_first_ok split: option.splits if_splits)

lemma assistance_envelope_round_trip:
  assumes "assistance_envelope_ok b x"
  shows "assistance_envelope_from_dict b (assistance_envelope_to_dict x) = Inr x"
proof -
  have c: "create_assistance_envelope b x = Inr x" using assms by (simp add: assistance_envelope_ok_def)
  note k = create_assistance_envelope_same [OF c]
  note a = check_assistance_envelope_aware [OF k [THEN conjunct2]]
  show ?thesis
    using c k a assms
    by (cases x) (simp add: assistance_envelope_ok_def assistance_envelope_from_dict_def assistance_envelope_to_dict_def assistance_envelope_identity_def codec Let_def)
qed

subsection \<open>ExternalWorkstream\<close>

record external_workstream =
  ew_observation_id :: string
  ew_workstream_id :: string
  ew_source_of_truth_id :: string
  ew_observed_roadmap_ref :: string
  ew_provenance_refs :: "string list"
  ew_valid_at :: datetime
  ew_recorded_at :: datetime
  ew_confidence :: pyfloat
  ew_freshness_expires_at :: datetime
  ew_user_role :: string
  ew_noema_role :: string
  ew_support_commitment_refs :: "string list"
  ew_support_required :: bool

definition check_external_workstream :: "external_workstream \<Rightarrow> unit result" where
  "check_external_workstream x = raise_first
     (require_text (ew_observation_id x) ''external observation id'' @
      require_text (ew_workstream_id x) ''external workstream id'' @
      require_text (ew_source_of_truth_id x) ''external source-of-truth id'' @
      require_text (ew_observed_roadmap_ref x) ''external roadmap ref'' @
      require_text (ew_user_role x) ''external workstream user role'' @
      require_text (ew_noema_role x) ''external workstream Noema role'' @
      unique_text (ew_provenance_refs x) ''external provenance refs'' True @
      unique_text (ew_support_commitment_refs x) ''external support commitment refs'' False @
      require_aware (ew_valid_at x) ''external valid_at'' @
      require_aware (ew_recorded_at x) ''external recorded_at'' @
      require_aware (ew_freshness_expires_at x) ''external freshness expiry'' @
      bounded (ew_confidence x) ''external confidence'' @
      [(dt_le (ew_freshness_expires_at x) (ew_recorded_at x),
       ValueError ''external freshness expiry must follow recording'')])"

definition external_workstream_identity :: "external_workstream \<Rightarrow> jobject" where
  "external_workstream_identity x =
     [(''workstream_id'', JStr (ew_workstream_id x)),
      (''source_of_truth_id'', JStr (ew_source_of_truth_id x)),
      (''observed_roadmap_ref'', JStr (ew_observed_roadmap_ref x)),
      (''provenance_refs'', JStrs (ew_provenance_refs x)),
      (''valid_at'', JTime (ew_valid_at x)),
      (''recorded_at'', JTime (ew_recorded_at x)),
      (''confidence'', JFloat (ew_confidence x)),
      (''freshness_expires_at'', JTime (ew_freshness_expires_at x)),
      (''user_role'', JStr (ew_user_role x)),
      (''noema_role'', JStr (ew_noema_role x)),
      (''support_commitment_refs'', JStrs (ew_support_commitment_refs x)),
      (''support_required'', JBool (ew_support_required x))]"

definition create_external_workstream :: "builtins \<Rightarrow> external_workstream \<Rightarrow> external_workstream result" where
  "create_external_workstream b x =
           rbind (canonical_id b ''external-workstream'' (external_workstream_identity x)) (\<lambda>i.
      let y = x\<lparr>ew_observation_id := i\<rparr> in rbind (check_external_workstream y) (\<lambda>_. Inr y))"

definition external_workstream_to_dict :: "external_workstream \<Rightarrow> jobject" where
  "external_workstream_to_dict x =
     (''observation_id'', JStr (ew_observation_id x)) # external_workstream_identity x"

definition external_workstream_from_dict :: "builtins \<Rightarrow> jobject \<Rightarrow> external_workstream result" where
  "external_workstream_from_dict b d =
     rbind (j_str b d ''observation_id'') (\<lambda>observation_id.
     rbind (j_str b d ''workstream_id'') (\<lambda>workstream_id.
     rbind (j_str b d ''source_of_truth_id'') (\<lambda>source_of_truth_id.
     rbind (j_str b d ''observed_roadmap_ref'') (\<lambda>observed_roadmap_ref.
     rbind (j_strs b d ''provenance_refs'') (\<lambda>provenance_refs.
     rbind (j_time b d ''valid_at'') (\<lambda>valid_at.
     rbind (j_time b d ''recorded_at'') (\<lambda>recorded_at.
     rbind (j_float b d ''confidence'') (\<lambda>confidence.
     rbind (j_time b d ''freshness_expires_at'') (\<lambda>freshness_expires_at.
     rbind (j_str b d ''user_role'') (\<lambda>user_role.
     rbind (j_str b d ''noema_role'') (\<lambda>noema_role.
     rbind (j_strs b d ''support_commitment_refs'') (\<lambda>support_commitment_refs.
     rbind (j_bool d ''support_required'') (\<lambda>support_required.
     let x = \<lparr>ew_observation_id = observation_id, ew_workstream_id = workstream_id,
              ew_source_of_truth_id = source_of_truth_id, ew_observed_roadmap_ref = observed_roadmap_ref,
              ew_provenance_refs = provenance_refs, ew_valid_at = valid_at, ew_recorded_at = recorded_at,
              ew_confidence = confidence, ew_freshness_expires_at = freshness_expires_at, ew_user_role = user_role,
              ew_noema_role = noema_role, ew_support_commitment_refs = support_commitment_refs,
              ew_support_required = support_required\<rparr> in
     rbind (check_external_workstream x) (\<lambda>_.
     rbind (create_external_workstream b x) (\<lambda>expected.
     (if ew_observation_id x \<noteq> ew_observation_id expected
        then Inl (ValueError ''external observation id does not match immutable content'') else
     Inr x))))))))))))))))"

definition external_workstream_to_event :: "external_workstream \<Rightarrow> string \<Rightarrow> jobject event result" where
  "external_workstream_to_event x source =
     make_event (''external-workstream-observed:'' @ ew_observation_id x) EXTERNAL_WORKSTREAM_OBSERVED_EVENT
        source (ew_workstream_id x)
       (ew_recorded_at x) (external_workstream_to_dict x) None"

definition external_workstream_ok :: "builtins \<Rightarrow> external_workstream \<Rightarrow> bool" where
  "external_workstream_ok b x \<longleftrightarrow> create_external_workstream b x = Inr x"

lemma create_external_workstream_same:
  "create_external_workstream b x = Inr x \<Longrightarrow> canonical_id b ''external-workstream'' (external_workstream_identity x) = Inr (ew_observation_id x) \<and> check_external_workstream x = Inr ()"
  by (cases x) (auto simp: create_external_workstream_def Let_def rbind_Inr_iff)

lemma check_external_workstream_aware:
  "check_external_workstream x = Inr () \<Longrightarrow> is_aware (ew_valid_at x) \<and>
     is_aware (ew_recorded_at x) \<and>
     is_aware (ew_freshness_expires_at x)"
  by (auto simp: check_external_workstream_def rbind_Inr_iff raise_first_no_errors simp del: raise_first_ok split: option.splits if_splits)

lemma external_workstream_round_trip:
  assumes "external_workstream_ok b x"
  shows "external_workstream_from_dict b (external_workstream_to_dict x) = Inr x"
proof -
  have c: "create_external_workstream b x = Inr x" using assms by (simp add: external_workstream_ok_def)
  note k = create_external_workstream_same [OF c]
  note a = check_external_workstream_aware [OF k [THEN conjunct2]]
  show ?thesis
    using c k a assms
    by (cases x) (simp add: external_workstream_ok_def external_workstream_from_dict_def external_workstream_to_dict_def external_workstream_identity_def codec Let_def)
qed

subsection \<open>PortfolioSignals\<close>

record portfolio_signals =
  ps_expected_goal_value :: pyfloat
  ps_commitment_strength :: pyfloat
  ps_urgency :: pyfloat
  ps_critical_path_pressure :: pyfloat
  ps_success_estimate :: pyfloat
  ps_cost :: pyfloat
  ps_coordination_cost :: pyfloat
  ps_context_affinity :: pyfloat
  ps_verification_capacity :: pyfloat
  ps_wip :: int
  ps_scarce_competence_pressure :: pyfloat
  ps_future_information_access_requirements :: "string list"

definition check_portfolio_signals :: "portfolio_signals \<Rightarrow> unit result" where
  "check_portfolio_signals x = raise_first
     (bounded (ps_expected_goal_value x) ''expected goal value'' @
      bounded (ps_commitment_strength x) ''commitment strength'' @
      bounded (ps_urgency x) ''urgency'' @
      bounded (ps_critical_path_pressure x) ''critical path pressure'' @
      bounded (ps_success_estimate x) ''success estimate'' @
      bounded (ps_context_affinity x) ''context affinity'' @
      bounded (ps_verification_capacity x) ''verification capacity'' @
      bounded (ps_scarce_competence_pressure x) ''scarce competence pressure'' @
      [(\<not> fin (ps_cost x) \<or> ps_cost x < 0, ValueError ''must be finite and non-negative''),
       (\<not> fin (ps_coordination_cost x) \<or> ps_coordination_cost x < 0,
        ValueError ''must be finite and non-negative''),
       (ps_wip x < 0, ValueError ''WIP cannot be negative'')] @
      unique_text (ps_future_information_access_requirements x) ''future information access requirements'' False)"

definition portfolio_signals_to_dict :: "portfolio_signals \<Rightarrow> jobject" where
  "portfolio_signals_to_dict x =
     [(''expected_goal_value'', JFloat (ps_expected_goal_value x)),
      (''commitment_strength'', JFloat (ps_commitment_strength x)),
      (''urgency'', JFloat (ps_urgency x)),
      (''critical_path_pressure'', JFloat (ps_critical_path_pressure x)),
      (''success_estimate'', JFloat (ps_success_estimate x)),
      (''cost'', JFloat (ps_cost x)),
      (''coordination_cost'', JFloat (ps_coordination_cost x)),
      (''context_affinity'', JFloat (ps_context_affinity x)),
      (''verification_capacity'', JFloat (ps_verification_capacity x)),
      (''wip'', JInt (ps_wip x)),
      (''scarce_competence_pressure'', JFloat (ps_scarce_competence_pressure x)),
      (''future_information_access_requirements'', JStrs (ps_future_information_access_requirements x))]"

definition portfolio_signals_from_dict :: "builtins \<Rightarrow> jobject \<Rightarrow> portfolio_signals result" where
  "portfolio_signals_from_dict b d =
     rbind (j_float b d ''expected_goal_value'') (\<lambda>expected_goal_value.
     rbind (j_float b d ''commitment_strength'') (\<lambda>commitment_strength.
     rbind (j_float b d ''urgency'') (\<lambda>urgency.
     rbind (j_float b d ''critical_path_pressure'') (\<lambda>critical_path_pressure.
     rbind (j_float b d ''success_estimate'') (\<lambda>success_estimate.
     rbind (j_float b d ''cost'') (\<lambda>cost.
     rbind (j_float b d ''coordination_cost'') (\<lambda>coordination_cost.
     rbind (j_float b d ''context_affinity'') (\<lambda>context_affinity.
     rbind (j_float b d ''verification_capacity'') (\<lambda>verification_capacity.
     rbind (j_int b d ''wip'') (\<lambda>wip.
     rbind (j_float b d ''scarce_competence_pressure'') (\<lambda>scarce_competence_pressure.
     rbind (j_strs b d ''future_information_access_requirements'') (\<lambda>future_information_access_requirements.
     let x = \<lparr>ps_expected_goal_value = expected_goal_value, ps_commitment_strength = commitment_strength,
              ps_urgency = urgency, ps_critical_path_pressure = critical_path_pressure,
              ps_success_estimate = success_estimate, ps_cost = cost, ps_coordination_cost = coordination_cost,
              ps_context_affinity = context_affinity, ps_verification_capacity = verification_capacity,
              ps_wip = wip, ps_scarce_competence_pressure = scarce_competence_pressure,
              ps_future_information_access_requirements = future_information_access_requirements\<rparr> in
     rbind (check_portfolio_signals x) (\<lambda>_.
     Inr x)))))))))))))"

definition portfolio_signals_ok :: "builtins \<Rightarrow> portfolio_signals \<Rightarrow> bool" where
  "portfolio_signals_ok b x \<longleftrightarrow> check_portfolio_signals x = Inr ()"

lemma portfolio_signals_round_trip:
  assumes "portfolio_signals_ok b x"
  shows "portfolio_signals_from_dict b (portfolio_signals_to_dict x) = Inr x"
proof -
  have k: "check_portfolio_signals x = Inr ()" using assms by (simp add: portfolio_signals_ok_def)
  show ?thesis
    using k assms
    by (cases x) (simp add: portfolio_signals_ok_def portfolio_signals_from_dict_def portfolio_signals_to_dict_def codec Let_def)
qed

subsection \<open>WorkOrderProposal\<close>

record work_order_proposal =
  wop_proposal_id :: string
  wop_commitment_id :: string
  wop_roadmap_revision_id :: string
  wop_outcome_node_id :: string
  wop_work_order :: work_order
  wop_intervention :: intervention_level
  wop_declared_agent_support :: "string list"
  wop_eligibility :: work_proposal_eligibility
  wop_portfolio_signals :: portfolio_signals
  wop_wip_limit :: int
  wop_based_on_event_cursor :: int
  wop_proposed_at :: datetime
  wop_validator_id :: string

definition check_work_order_proposal :: "work_order_proposal \<Rightarrow> unit result" where
  "check_work_order_proposal x = raise_first
     (require_text (wop_proposal_id x) ''work order proposal id'' @
      require_text (wop_commitment_id x) ''proposal commitment id'' @
      require_text (wop_roadmap_revision_id x) ''proposal roadmap revision id'' @
      require_text (wop_outcome_node_id x) ''proposal outcome node id'' @
      require_text (wop_validator_id x) ''proposal validator id'' @
      [(wop_based_on_event_cursor x < 0, ValueError ''work proposal cursor cannot be negative''),
       (wop_wip_limit x \<le> 0, ValueError ''work proposal WIP limit must be positive'')] @
      unique_text (wop_declared_agent_support x) ''declared agent support'' True @
      require_aware (wop_proposed_at x) ''work proposal proposed_at'')"

definition work_order_proposal_identity :: "work_order_proposal \<Rightarrow> jobject" where
  "work_order_proposal_identity x =
     [(''commitment_id'', JStr (wop_commitment_id x)),
      (''roadmap_revision_id'', JStr (wop_roadmap_revision_id x)),
      (''outcome_node_id'', JStr (wop_outcome_node_id x)),
      (''work_order'', JObj (work_order_to_dict (wop_work_order x))),
      (''intervention'', JStr (intervention_level_value (wop_intervention x))),
      (''declared_agent_support'', JStrs (wop_declared_agent_support x)),
      (''eligibility'', JStr (work_proposal_eligibility_value (wop_eligibility x))),
      (''portfolio_signals'', JObj (portfolio_signals_to_dict (wop_portfolio_signals x))),
      (''wip_limit'', JInt (wop_wip_limit x)),
      (''based_on_event_cursor'', JInt (wop_based_on_event_cursor x)),
      (''proposed_at'', JTime (wop_proposed_at x)),
      (''validator_id'', JStr (wop_validator_id x))]"

definition create_work_order_proposal :: "builtins \<Rightarrow> work_order_proposal \<Rightarrow> work_order_proposal result" where
  "create_work_order_proposal b x =
           rbind (canonical_id b ''work-order-proposal'' (work_order_proposal_identity x)) (\<lambda>i.
      let y = x\<lparr>wop_proposal_id := i\<rparr> in rbind (check_work_order_proposal y) (\<lambda>_. Inr y))"

definition work_order_proposal_to_dict :: "work_order_proposal \<Rightarrow> jobject" where
  "work_order_proposal_to_dict x =
     (''proposal_id'', JStr (wop_proposal_id x)) # work_order_proposal_identity x"

definition work_order_proposal_from_dict :: "builtins \<Rightarrow> jobject \<Rightarrow> work_order_proposal result" where
  "work_order_proposal_from_dict b d =
     rbind (j_str b d ''proposal_id'') (\<lambda>proposal_id.
     rbind (j_str b d ''commitment_id'') (\<lambda>commitment_id.
     rbind (j_str b d ''roadmap_revision_id'') (\<lambda>roadmap_revision_id.
     rbind (j_str b d ''outcome_node_id'') (\<lambda>outcome_node_id.
     rbind (rbind (j_obj d ''work_order'') (work_order_from_dict b)) (\<lambda>work_order.
     rbind (rbind (j_str b d ''intervention'') intervention_level_of) (\<lambda>intervention.
     rbind (j_strs b d ''declared_agent_support'') (\<lambda>declared_agent_support.
     rbind (rbind (j_str b d ''eligibility'') work_proposal_eligibility_of) (\<lambda>eligibility.
     rbind (rbind (j_obj d ''portfolio_signals'') (portfolio_signals_from_dict b)) (\<lambda>portfolio_signals.
     rbind (j_int b d ''wip_limit'') (\<lambda>wip_limit.
     rbind (j_int b d ''based_on_event_cursor'') (\<lambda>based_on_event_cursor.
     rbind (j_time b d ''proposed_at'') (\<lambda>proposed_at.
     rbind (j_str b d ''validator_id'') (\<lambda>validator_id.
     let x = \<lparr>wop_proposal_id = proposal_id, wop_commitment_id = commitment_id,
              wop_roadmap_revision_id = roadmap_revision_id, wop_outcome_node_id = outcome_node_id,
              wop_work_order = work_order, wop_intervention = intervention,
              wop_declared_agent_support = declared_agent_support, wop_eligibility = eligibility,
              wop_portfolio_signals = portfolio_signals, wop_wip_limit = wip_limit,
              wop_based_on_event_cursor = based_on_event_cursor, wop_proposed_at = proposed_at,
              wop_validator_id = validator_id\<rparr> in
     rbind (check_work_order_proposal x) (\<lambda>_.
     rbind (create_work_order_proposal b x) (\<lambda>expected.
     (if wop_proposal_id x \<noteq> wop_proposal_id expected
        then Inl (ValueError ''work order proposal id does not match immutable content'') else
     Inr x))))))))))))))))"

definition work_order_proposal_to_event :: "work_order_proposal \<Rightarrow> string \<Rightarrow> jobject event result" where
  "work_order_proposal_to_event x source =
     make_event (''work-order-proposed:'' @ wop_proposal_id x) WORK_ORDER_PROPOSED_EVENT
        source (wop_commitment_id x)
       (wop_proposed_at x) (work_order_proposal_to_dict x) None"

definition work_order_proposal_ok :: "builtins \<Rightarrow> work_order_proposal \<Rightarrow> bool" where
  "work_order_proposal_ok b x \<longleftrightarrow> create_work_order_proposal b x = Inr x \<and>
     work_order_ok b (wop_work_order x) \<and>
     portfolio_signals_ok b (wop_portfolio_signals x)"

lemma create_work_order_proposal_same:
  "create_work_order_proposal b x = Inr x \<Longrightarrow> canonical_id b ''work-order-proposal'' (work_order_proposal_identity x) = Inr (wop_proposal_id x) \<and> check_work_order_proposal x = Inr ()"
  by (cases x) (auto simp: create_work_order_proposal_def Let_def rbind_Inr_iff)

lemma check_work_order_proposal_aware:
  "check_work_order_proposal x = Inr () \<Longrightarrow> is_aware (wop_proposed_at x)"
  by (auto simp: check_work_order_proposal_def rbind_Inr_iff raise_first_no_errors simp del: raise_first_ok split: option.splits if_splits)

lemma work_order_proposal_round_trip:
  assumes "work_order_proposal_ok b x"
  shows "work_order_proposal_from_dict b (work_order_proposal_to_dict x) = Inr x"
proof -
  have c: "create_work_order_proposal b x = Inr x" using assms by (simp add: work_order_proposal_ok_def)
  note k = create_work_order_proposal_same [OF c]
  note a = check_work_order_proposal_aware [OF k [THEN conjunct2]]
  show ?thesis
    using c k a assms
    by (cases x) (simp add: work_order_proposal_ok_def work_order_proposal_from_dict_def work_order_proposal_to_dict_def work_order_proposal_identity_def codec portfolio_signals_round_trip work_order_round_trip Let_def)
qed

subsection \<open>CommitmentCoverage\<close>

record commitment_coverage =
  cc_commitment_id :: string
  cc_disposition :: coverage_disposition
  cc_required_criteria :: "string list"
  cc_covered_criteria :: "string list"
  cc_uncovered_criteria :: "string list"
  cc_work_proposal_ids :: "string list"
  cc_admitted_work_order_ids :: "string list"
  cc_external_support_required :: bool

subsection \<open>RoadmapHealth\<close>

record roadmap_health =
  rh_roadmap_id :: string
  rh_revision_id :: string
  rh_goal_alignment :: health_signal
  rh_assumption_validity :: health_signal
  rh_dependency_validity :: health_signal
  rh_progress_consistency :: health_signal
  rh_schedule_feasibility :: health_signal
  rh_capacity_fit :: health_signal
  rh_opportunity_validity :: health_signal
  rh_review_reasons :: "string list"

definition roadmap_health_review_required :: "roadmap_health \<Rightarrow> bool" where
  "roadmap_health_review_required x \<longleftrightarrow> rh_review_reasons x \<noteq> []"

end
