(* ===== verification/IntentSchemas.thy ===== *)
theory IntentSchemas
  imports JsonFields
begin

section \<open>Migration of the legacy goal and commitment events\<close>

text \<open>
  Models \<^verbatim>\<open>src/noema/intent/schemas.py\<close>: the upcasters from schema version 1 to 2 of the events written
  before intent was governed, their validator and their registration. The context that an upcaster adds
  to the payload is what the strategic projection migrates the event with.
\<close>

definition LEGACY_INTENT_KEY :: string where "LEGACY_INTENT_KEY = ''_intent_v2''"

definition COMMITMENT_STATE :: "(string \<times> string) list" where
  "COMMITMENT_STATE = [(''open'', ''accepted''), (''in_progress'', ''active''), (''completed'', ''closed''),
     (''failed'', ''closed''), (''cancelled'', ''closed'')]"

definition COMMITMENT_CLOSURE :: "(string \<times> string) list" where
  "COMMITMENT_CLOSURE = [(''completed'', ''fulfilled''), (''failed'', ''failed''), (''cancelled'', ''cancelled'')]"

definition legacy_context_of :: "jobject event \<Rightarrow> string \<Rightarrow> jobject" where
  "legacy_context_of e operation =
     [(''operation'', JStr operation),
      (''legacy_event_type'', JStr (ev_type e)),
      (''author'', JStr (ev_source e)),
      (''origin'', JObj
        [(''provenance_id'', JStr (''legacy-origin:'' @ ev_id e)),
         (''kind'', JStr ''legacy_unverified''),
         (''principal_id'', JStr (ev_source e)),
         (''authentication_ref'', JStr (''legacy-event:'' @ ev_id e))]),
      (''intent_authority'', JObj
        [(''authority_id'', JStr (''legacy-authority:'' @ ev_id e)),
         (''principal_id'', JStr (ev_source e)),
         (''scope'', JStr ''delegated''),
         (''allowed_goal_kinds'', JList [JStr ''legacy_unclassified'']),
         (''goal_refs'', JList []),
         (''provenance_ref'', JStr (''legacy-event:'' @ ev_id e))])]"

text \<open>\<open>payload.setdefault(k, v)\<close>, and \<open>replace(event, payload=..., schema_version=2)\<close>\<close>

definition setdefault :: "string \<Rightarrow> json \<Rightarrow> jobject \<Rightarrow> jobject" where
  "setdefault k v d = (if map_of d k = None then AList.update k v d else d)"

definition migrated :: "jobject event \<Rightarrow> jobject \<Rightarrow> jobject event result" where
  "migrated e payload =
     (let e' = e\<lparr>ev_payload := payload, ev_schema_version := 2\<rparr> in rbind (check_event e') (\<lambda>_. Inr e'))"

definition subject_or_id :: "jobject event \<Rightarrow> json" where
  "subject_or_id e = JStr (str_or (ev_subject e) (ev_id e))"

definition upcast_goal_created :: "jobject event \<Rightarrow> jobject event result" where
  "upcast_goal_created e =
     migrated e (AList.update LEGACY_INTENT_KEY (JObj (legacy_context_of e ''create''))
       (setdefault ''owner'' (JStr (ev_source e))
       (setdefault ''success_criteria'' (JList [])
       (setdefault ''status'' (JStr ''active'')
       (setdefault ''utility'' (JFloat 1)
       (setdefault ''priority'' (JFloat (Fin (1 / 2)))
       (setdefault ''id'' (subject_or_id e) (ev_payload e))))))))"

definition upcast_goal_updated :: "jobject event \<Rightarrow> jobject event result" where
  "upcast_goal_updated e =
     migrated e (AList.update LEGACY_INTENT_KEY (JObj (legacy_context_of e ''patch''))
       (setdefault ''id'' (json_opt JStr (ev_subject e)) (ev_payload e)))"

text \<open>The status of a payload in the new vocabulary, with the closure reason it implies.\<close>

definition mapped_status :: "string \<Rightarrow> jobject \<Rightarrow> jobject" where
  "mapped_status raw d =
     (let d' = AList.update ''status'' (JStr (case map_of COMMITMENT_STATE raw of Some s \<Rightarrow> s | None \<Rightarrow> raw)) d in
      case map_of COMMITMENT_CLOSURE raw of
        Some closure \<Rightarrow> AList.update ''closure_reason'' (JStr closure) d'
      | None \<Rightarrow> d')"

definition mapped_commitment_payload :: "builtins \<Rightarrow> jobject event \<Rightarrow> string \<Rightarrow> jobject" where
  "mapped_commitment_payload b e operation =
     (let d = setdefault ''id'' (subject_or_id e) (ev_payload e);
          raw = (case map_of d ''status'' of None \<Rightarrow> ''open'' | Some v \<Rightarrow> py_str b v) in
      AList.update LEGACY_INTENT_KEY (JObj (legacy_context_of e operation)) (mapped_status raw d))"

definition upcast_commitment_created :: "builtins \<Rightarrow> jobject event \<Rightarrow> jobject event result" where
  "upcast_commitment_created b e =
     migrated e
       (setdefault ''social_cost_of_failure'' (JFloat 0)
       (setdefault ''attention_cost'' (JFloat 1)
       (setdefault ''terminal'' (JBool True)
       (setdefault ''priority'' (JFloat (Fin (1 / 2)))
       (setdefault ''owner'' (JStr (ev_source e)) (mapped_commitment_payload b e ''create''))))))"

definition upcast_commitment_updated :: "builtins \<Rightarrow> jobject event \<Rightarrow> jobject event result" where
  "upcast_commitment_updated b e =
     (let d = setdefault ''id'' (json_opt JStr (ev_subject e)) (ev_payload e);
          d' = (case map_of d ''status'' of None \<Rightarrow> d | Some v \<Rightarrow> mapped_status (py_str b v) d) in
      migrated e (AList.update LEGACY_INTENT_KEY (JObj (legacy_context_of e ''patch'')) d'))"

text \<open>\<open>event.type.split(".", 1)[1]\<close>\<close>

definition after_dot :: "string \<Rightarrow> string" where
  "after_dot s = tl (dropWhile (\<lambda>c. c \<noteq> CHR ''.'') s)"

definition upcast_commitment_terminal :: "jobject event \<Rightarrow> jobject event result" where
  "upcast_commitment_terminal e =
     (case map_of COMMITMENT_CLOSURE (after_dot (ev_type e)) of
        None \<Rightarrow> Inl (KeyError (after_dot (ev_type e)))
      | Some closure \<Rightarrow>
          migrated e (AList.update LEGACY_INTENT_KEY (JObj (legacy_context_of e ''terminal''))
            (AList.update ''closure_reason'' (JStr closure)
            (AList.update ''status'' (JStr ''closed'')
            (setdefault ''id'' (json_opt JStr (ev_subject e)) (ev_payload e))))))"

definition validate_legacy_v2 :: "builtins \<Rightarrow> jobject event \<Rightarrow> unit result" where
  "validate_legacy_v2 b e =
     (case jget (ev_payload e) LEGACY_INTENT_KEY of
        JObj metadata \<Rightarrow>
          if blank (case map_of metadata ''operation'' of None \<Rightarrow> [] | Some v \<Rightarrow> py_str b v)
          then Inl (ValueError (ev_type e @ '' v2 requires deterministic migration metadata'')) else Inr ()
      | _ \<Rightarrow> Inl (ValueError (ev_type e @ '' v2 requires deterministic migration metadata'')))"

definition legacy_upcasters :: "builtins \<Rightarrow> (string \<times> (jobject event \<Rightarrow> jobject event result)) list" where
  "legacy_upcasters b =
     [(''goal.created'', upcast_goal_created),
      (''goal.updated'', upcast_goal_updated),
      (''commitment.created'', upcast_commitment_created b),
      (''commitment.updated'', upcast_commitment_updated b),
      (''commitment.completed'', upcast_commitment_terminal),
      (''commitment.failed'', upcast_commitment_terminal),
      (''commitment.cancelled'', upcast_commitment_terminal)]"

definition register_intent_event_schemas :: "builtins \<Rightarrow> jobject registry \<Rightarrow> jobject registry result" where
  "register_intent_event_schemas b r =
     foldM (\<lambda>r (ty, upcaster).
       rbind (register r ty 1 None (Some upcaster)) (\<lambda>r'. register r' ty 2 (Some (validate_legacy_v2 b)) None))
       r (legacy_upcasters b)"

definition is_legacy_intent_event :: "jobject event \<Rightarrow> bool" where
  "is_legacy_intent_event e \<longleftrightarrow> ev_schema_version e = 2 \<and> map_of (ev_payload e) LEGACY_INTENT_KEY \<noteq> None"

definition legacy_context :: "jobject event \<Rightarrow> jobject result" where
  "legacy_context e =
     (case jget (ev_payload e) LEGACY_INTENT_KEY of
        JObj d \<Rightarrow> Inr d
      | _ \<Rightarrow> Inl (ValueError ''event does not carry legacy intent migration context''))"

subsection \<open>What migration keeps and adds\<close>

lemma migrated_result:
  "migrated e payload = Inr n \<Longrightarrow> n = e\<lparr>ev_payload := payload, ev_schema_version := 2\<rparr>"
  by (auto simp: migrated_def Let_def rbind_Inr_iff)

lemma map_of_setdefault [dict_simps]:
  "map_of (setdefault k v d) k' = (if k' = k \<and> map_of d k = None then Some v else map_of d k')"
  by (simp add: setdefault_def map_of_update)

lemma legacy_context_valid:
  "map_of (ev_payload n) LEGACY_INTENT_KEY = Some (JObj (legacy_context_of e operation)) \<Longrightarrow> \<not> blank operation \<Longrightarrow>
   validate_legacy_v2 b n = Inr ()"
  by (simp add: validate_legacy_v2_def jget_def legacy_context_of_def py_str_def)

text \<open>Every upcaster records its operation and keeps everything but the payload and the version.\<close>

lemma legacy_upcaster_result:
  assumes "(ty, up) \<in> set (legacy_upcasters b)" "up e = Inr n"
  shows "n = e\<lparr>ev_payload := ev_payload n, ev_schema_version := 2\<rparr> \<and>
     (\<exists>operation \<in> {''create'', ''patch'', ''terminal''}.
        map_of (ev_payload n) LEGACY_INTENT_KEY = Some (JObj (legacy_context_of e operation)))"
proof -
  have keep: "map_of (setdefault k v d) LEGACY_INTENT_KEY = map_of d LEGACY_INTENT_KEY"
    if "k \<noteq> LEGACY_INTENT_KEY" for k v d
    using that by (simp add: map_of_setdefault)
  have "LEGACY_INTENT_KEY \<notin> {''owner'', ''priority'', ''terminal'', ''attention_cost'', ''social_cost_of_failure''}"
    by (simp add: LEGACY_INTENT_KEY_def)
  then show ?thesis
    using assms
    by (auto simp: legacy_upcasters_def upcast_goal_created_def upcast_goal_updated_def upcast_commitment_created_def
        upcast_commitment_updated_def upcast_commitment_terminal_def mapped_commitment_payload_def Let_def map_of_update
        keep dest!: migrated_result split: option.splits)
qed

text \<open>A legacy event of a registered type, and the registry it is normalised with.\<close>

lemma legacy_upcaster_total:
  assumes "(ty, up) \<in> set (legacy_upcasters b)" "ev_type e = ty" "event_ok e"
  shows "\<exists>n. up e = Inr n"
proof -
  have "migrated e payload = Inr (e\<lparr>ev_payload := payload, ev_schema_version := 2\<rparr>)" for payload
    using assms(3) by (simp add: migrated_def Let_def check_event_def event_ok_iff)
  with assms(1,2) show ?thesis
    by (auto simp: legacy_upcasters_def upcast_goal_created_def upcast_goal_updated_def upcast_commitment_created_def
        upcast_commitment_updated_def upcast_commitment_terminal_def Let_def after_dot_def COMMITMENT_CLOSURE_def
        split: option.splits)
qed

lemma registered_intent_schemas:
  "\<exists>r. register_intent_event_schemas b empty_registry = Inr r \<and>
     (\<forall>(ty, up) \<in> set (legacy_upcasters b). map_of (reg_current r) ty = Some 2 \<and>
        map_of (reg_upcasters r) (ty, 1) = Some up \<and> map_of (reg_validators r) (ty, 2) = Some (validate_legacy_v2 b))"
  by (simp add: register_intent_event_schemas_def legacy_upcasters_def register_def Let_def empty_registry_def)

theorem legacy_events_migrate:
  assumes "register_intent_event_schemas b empty_registry = Inr r"
    and "ev_type e \<in> fst ` set (legacy_upcasters b)" "ev_schema_version e = 1" "event_ok e"
  shows "\<exists>n. normalize r e = Inr n \<and> is_legacy_intent_event n \<and> n = e\<lparr>ev_payload := ev_payload n, ev_schema_version := 2\<rparr>"
proof -
  obtain up where up: "(ev_type e, up) \<in> set (legacy_upcasters b)" using assms(2) by auto
  obtain n where n: "up e = Inr n" using legacy_upcaster_total [OF up refl assms(4)] by auto
  note res = legacy_upcaster_result [OF up n]
  have v: "ev_schema_version n = 2" "ev_id n = ev_id e" "ev_sequence n = ev_sequence e" "ev_type n = ev_type e"
    by (subst conjunct1 [OF res], simp)+
  have r: "map_of (reg_current r) (ev_type e) = Some 2" "map_of (reg_upcasters r) (ev_type e, 1) = Some up"
    "map_of (reg_validators r) (ev_type e, 2) = Some (validate_legacy_v2 b)"
    using registered_intent_schemas [of b] assms(1) up by auto
  have "validate_legacy_v2 b n = Inr ()" using res by (elim conjE bexE) (erule legacy_context_valid, auto simp: is_space_def)
  then have "normalize r e = Inr n"
    using r v n assms(3) by (simp add: normalize_def current_version_def upcast_loop.simps)
  moreover have "is_legacy_intent_event n" using v(1) res by (auto simp: is_legacy_intent_event_def)
  ultimately show ?thesis using res by blast
qed

end
