(* ===== verification/IntentProjection.thy ===== *)
theory IntentProjection
  imports IntentModels IntentSchemas
begin

section \<open>Replay of strategic history\<close>

text \<open>
  Models \<^verbatim>\<open>src/noema/intent/projection.py\<close>: the projection of goals, roadmaps, commitments, outcome roles,
  assistance, external workstreams and work proposals from one canonical event cut, with the structural
  checks that both admission and replay run. A \<open>raise\<close> gives \<open>Inl\<close>; the projection is then rebuilt by its
  owner, so its state after an exception is not modelled.
\<close>

subsection \<open>State\<close>

record strategy =
  sp_events :: "(string \<times> jobject event) list"
  sp_last_sequence :: int
  sp_goal_revisions :: "(string \<times> goal_revision) list"
  sp_goal_history :: "(string \<times> string list) list"
  sp_current_goal :: "(string \<times> string) list"
  sp_roadmap_revisions :: "(string \<times> roadmap_revision) list"
  sp_roadmap_history :: "(string \<times> string list) list"
  sp_current_roadmap :: "(string \<times> string) list"
  sp_commitments :: "(string \<times> commitment) list"
  sp_commitment_versions :: "(string \<times> commitment list) list"
  sp_commitment_transitions :: "(string \<times> commitment_transition list) list"
  sp_roles :: "(string \<times> outcome_role_assignment) list"
  sp_assistance :: "(string \<times> assistance_envelope) list"
  sp_external_history :: "(string \<times> external_workstream list) list"
  sp_external_current :: "(string \<times> external_workstream) list"
  sp_work_proposals :: "(string \<times> work_order_proposal) list"
  sp_admitted_orders :: "(string \<times> work_order) list"
  sp_work_graph_ids :: "string list"

definition empty_strategy :: strategy where
  "empty_strategy = \<lparr>sp_events = [], sp_last_sequence = 0, sp_goal_revisions = [], sp_goal_history = [],
     sp_current_goal = [], sp_roadmap_revisions = [], sp_roadmap_history = [], sp_current_roadmap = [],
     sp_commitments = [], sp_commitment_versions = [], sp_commitment_transitions = [], sp_roles = [],
     sp_assistance = [], sp_external_history = [], sp_external_current = [], sp_work_proposals = [],
     sp_admitted_orders = [], sp_work_graph_ids = []\<rparr>"

definition entries :: "(string \<times> 'v list) list \<Rightarrow> string \<Rightarrow> 'v list" where
  "entries d k = (case map_of d k of None \<Rightarrow> [] | Some vs \<Rightarrow> vs)"

text \<open>\<open>d.setdefault(k, []).append(v)\<close>, and \<open>f(v) if v else None\<close> for an optional text.\<close>

definition append_entry :: "string \<Rightarrow> 'v \<Rightarrow> (string \<times> 'v list) list \<Rightarrow> (string \<times> 'v list) list" where
  "append_entry k v d = AList.update k (entries d k @ [v]) d"

definition if_text :: "(string \<Rightarrow> 'v option) \<Rightarrow> string option \<Rightarrow> 'v option" where
  "if_text f v = (case v of None \<Rightarrow> None | Some i \<Rightarrow> if i = [] then None else f i)"

subsection \<open>Queries\<close>

definition current_goal_revision :: "strategy \<Rightarrow> string \<Rightarrow> goal_revision option" where
  "current_goal_revision s goal_id = if_text (map_of (sp_goal_revisions s)) (map_of (sp_current_goal s) goal_id)"

definition goal_history :: "strategy \<Rightarrow> string \<Rightarrow> goal_revision list" where
  "goal_history s goal_id = map (\<lambda>i. the (map_of (sp_goal_revisions s) i)) (entries (sp_goal_history s) goal_id)"

definition current_roadmap_revision :: "strategy \<Rightarrow> string \<Rightarrow> roadmap_revision option" where
  "current_roadmap_revision s roadmap_id =
     if_text (map_of (sp_roadmap_revisions s)) (map_of (sp_current_roadmap s) roadmap_id)"

definition strategy_roadmap :: "strategy \<Rightarrow> string \<Rightarrow> roadmap option" where
  "strategy_roadmap s roadmap_id = map_option (\<lambda>r. \<lparr>rm_roadmap_id = roadmap_id, rm_current_revision_id = rr_revision_id r,
     rm_version = rr_version r\<rparr>) (current_roadmap_revision s roadmap_id)"

definition roadmap_history :: "strategy \<Rightarrow> string \<Rightarrow> roadmap_revision list" where
  "roadmap_history s roadmap_id =
     map (\<lambda>i. the (map_of (sp_roadmap_revisions s) i)) (entries (sp_roadmap_history s) roadmap_id)"

definition strategy_goal_revisions :: "strategy \<Rightarrow> goal_revision list" where
  "strategy_goal_revisions s =
     map snd (py_sorted (\<lambda>(i, r) (j, q). gr_goal_id r < gr_goal_id q \<or> gr_goal_id r = gr_goal_id q \<and>
       (gr_version r < gr_version q \<or> gr_version r = gr_version q \<and> i < j)) (sp_goal_revisions s))"

definition strategy_roadmap_revisions :: "strategy \<Rightarrow> roadmap_revision list" where
  "strategy_roadmap_revisions s =
     map snd (py_sorted (\<lambda>(i, r) (j, q). rr_roadmap_id r < rr_roadmap_id q \<or> rr_roadmap_id r = rr_roadmap_id q \<and>
       (rr_version r < rr_version q \<or> rr_version r = rr_version q \<and> i < j)) (sp_roadmap_revisions s))"

definition strategy_commitments :: "strategy \<Rightarrow> commitment list" where
  "strategy_commitments s = map snd (sort_key fst (sp_commitments s))"

definition commitment_history :: "strategy \<Rightarrow> string \<Rightarrow> commitment list" where
  "commitment_history s i = entries (sp_commitment_versions s) i"

definition commitment_transitions :: "strategy \<Rightarrow> string \<Rightarrow> commitment_transition list" where
  "commitment_transitions s i = entries (sp_commitment_transitions s) i"

definition external_history :: "strategy \<Rightarrow> string \<Rightarrow> external_workstream list" where
  "external_history s i = entries (sp_external_history s) i"

definition strategy_work_proposals :: "strategy \<Rightarrow> work_order_proposal list" where
  "strategy_work_proposals s = map snd (sort_key fst (sp_work_proposals s))"

definition strategy_external_workstreams :: "strategy \<Rightarrow> external_workstream list" where
  "strategy_external_workstreams s = map snd (sort_key fst (sp_external_current s))"

subsection \<open>Goals\<close>

definition derived_kind :: "goal_kind \<Rightarrow> bool" where
  "derived_kind k \<longleftrightarrow> k \<in> {DELEGATED, INSTRUMENTAL, EPISTEMIC, MAINTENANCE, EXPLORATORY}"

definition live_goal_status :: "goal_status \<Rightarrow> bool" where
  "live_goal_status g \<longleftrightarrow> g \<in> {GActive, GBlocked}"

definition terminal_goal_status :: "goal_status \<Rightarrow> bool" where
  "terminal_goal_status g \<longleftrightarrow> g \<in> {GCompleted, GFailed, GCancelled}"

text \<open>The version and the superseded revision that follow the current one.\<close>

definition next_goal_version :: "strategy \<Rightarrow> string \<Rightarrow> int" where
  "next_goal_version s g = (case current_goal_revision s g of None \<Rightarrow> 1 | Some c \<Rightarrow> gr_version c + 1)"

definition goal_predecessor :: "strategy \<Rightarrow> string \<Rightarrow> string option" where
  "goal_predecessor s g = map_option gr_revision_id (current_goal_revision s g)"

definition goal_authority_errors :: "goal_revision \<Rightarrow> (bool \<times> py_error) list" where
  "goal_authority_errors r = (let a = gr_intent_authority r in
     [(gr_kind r = LEGACY_UNCLASSIFIED, ValueError ''native admission cannot manufacture legacy goal provenance''),
      (iu_scope a = PROPOSE, ValueError ''proposal-only intent authority cannot admit a goal revision''),
      (iu_principal_id a \<noteq> op_principal_id (gr_origin r) \<or> iu_provenance_ref a \<noteq> op_provenance_id (gr_origin r),
       ValueError ''goal origin and intent authority belong to different principals''),
      (gr_owner r \<noteq> op_principal_id (gr_origin r), ValueError ''goal owner must match authenticated origin principal''),
      (gr_author r \<noteq> iu_principal_id a,
       ValueError ''goal revision author does not hold the supplied intent authority''),
      (gr_kind r \<notin> set (iu_allowed_goal_kinds a), ValueError ''intent authority does not cover the goal kind'')])"

definition goal_lineage_errors :: "goal_revision option \<Rightarrow> goal_revision \<Rightarrow> (bool \<times> py_error) list" where
  "goal_lineage_errors current r = (case current of None \<Rightarrow> [] | Some c \<Rightarrow>
     [(gr_kind r \<noteq> gr_kind c \<or> gr_origin r \<noteq> gr_origin c \<or> gr_owner r \<noteq> gr_owner c \<or>
         gr_governing_goal_refs r \<noteq> gr_governing_goal_refs c,
       ValueError ''goal revision cannot change semantic lineage in place''),
      (gr_kind c \<in> {USER_AUTHORED, CONSTITUTIONAL} \<and>
         iu_principal_id (gr_intent_authority r) \<noteq> op_principal_id (gr_origin c),
       ValueError ''delegated authority cannot rewrite a governing goal'')])"

definition goal_provenance_errors :: "goal_revision \<Rightarrow> (bool \<times> py_error) list" where
  "goal_provenance_errors r = (let scope = iu_scope (gr_intent_authority r) in
     if gr_kind r = USER_AUTHORED then
       [(op_kind (gr_origin r) \<noteq> USER, ValueError ''user-authored goals require authenticated user provenance''),
        (scope \<notin> {IntentAuthorityScope_USER, IntentAuthorityScope_CONSTITUTIONAL},
         ValueError ''user-authored goals require user intent authority'')]
     else if gr_kind r = CONSTITUTIONAL then
       [(op_kind (gr_origin r) \<noteq> OriginKind_CONSTITUTIONAL,
         ValueError ''constitutional goals require authenticated constitutional provenance''),
        (scope \<noteq> IntentAuthorityScope_CONSTITUTIONAL,
         ValueError ''constitutional goals require constitutional intent authority'')]
     else [])"

definition goal_governing_errors :: "strategy \<Rightarrow> goal_revision \<Rightarrow> (bool \<times> py_error) list" where
  "goal_governing_errors s r = (let a = gr_intent_authority r; refs = gr_governing_goal_refs r in
     if derived_kind (gr_kind r) then
       [(refs = [], ValueError ''derived goal requires explicit governing goal lineage''),
        (gr_goal_id r \<in> set refs, ValueError ''derived goal cannot govern itself''),
        (list_ex (\<lambda>g. current_goal_revision s g = None) refs,
         ValueError ''derived goal references unknown governing goals''),
        (iu_scope a = IntentAuthorityScope_DELEGATED \<and> iu_goal_refs a = [],
         ValueError ''delegated intent authority requires an explicit goal scope''),
        (iu_goal_refs a \<noteq> [] \<and> \<not> set refs \<subseteq> set (iu_goal_refs a),
         ValueError ''derived goal lineage exceeds delegated intent scope'')]
     else
       [(refs \<noteq> [], ValueError ''governing goals cannot themselves have derived-goal lineage''),
        (iu_goal_refs a \<noteq> [] \<and> gr_goal_id r \<notin> set (iu_goal_refs a),
         ValueError ''intent authority does not cover this governing goal'')])"

definition validate_goal_revision_structure :: "strategy \<Rightarrow> goal_revision \<Rightarrow> unit result" where
  "validate_goal_revision_structure s r = raise_first
     ([(gr_version r \<noteq> next_goal_version s (gr_goal_id r), ValueError ''goal revision version is not the next version''),
       (gr_supersedes_revision_id r \<noteq> goal_predecessor s (gr_goal_id r),
        ValueError ''goal revision must supersede the current revision'')] @
      goal_authority_errors r @
      goal_lineage_errors (current_goal_revision s (gr_goal_id r)) r @
      goal_provenance_errors r @
      goal_governing_errors s r)"

subsection \<open>Roadmaps\<close>

definition next_roadmap_version :: "strategy \<Rightarrow> string \<Rightarrow> int" where
  "next_roadmap_version s i = (case current_roadmap_revision s i of None \<Rightarrow> 1 | Some c \<Rightarrow> rr_version c + 1)"

definition roadmap_predecessor :: "strategy \<Rightarrow> string \<Rightarrow> string option" where
  "roadmap_predecessor s i = map_option rr_revision_id (current_roadmap_revision s i)"

text \<open>
  \<open>_require_dag\<close>: the dictionary of the dependencies of the outcomes (their identifiers are unique), the loop
  over its items for one visited outcome, and the loop \<open>while ready\<close>, with as many rounds as there are
  outcomes (enough by \<open>require_dag_iff\<close>).
\<close>

definition outcome_ids :: "roadmap_revision \<Rightarrow> string list" where
  "outcome_ids r = map on_node_id (rr_outcome_nodes r)"

definition outcome_dependencies :: "roadmap_revision \<Rightarrow> string \<Rightarrow> string set" where
  "outcome_dependencies r n =
     (case map_of (map (\<lambda>v. (on_node_id v, set (on_approximate_dependencies v))) (rr_outcome_nodes r)) n of
        None \<Rightarrow> {} | Some ds \<Rightarrow> ds)"

fun release_outcomes ::
  "string \<Rightarrow> string list \<Rightarrow> string list \<Rightarrow> string list \<Rightarrow> (string \<Rightarrow> string set) \<Rightarrow> string list \<times> (string \<Rightarrow> string set)"
where
  "release_outcomes n [] visited ready remaining = (ready, remaining)"
| "release_outcomes n (s # ss) visited ready remaining =
     (if n \<in> remaining s then
        (let remaining' = remaining(s := remaining s - {n});
             ready' = (if remaining' s = {} \<and> s \<notin> set visited \<and> s \<notin> set ready then sort (ready @ [s]) else ready)
         in release_outcomes n ss visited ready' remaining')
      else release_outcomes n ss visited ready remaining)"

fun dag_rounds ::
  "nat \<Rightarrow> string list \<Rightarrow> string list \<Rightarrow> string list \<Rightarrow> (string \<Rightarrow> string set) \<Rightarrow> string list \<times> string list" where
  "dag_rounds 0 ids ready visited remaining = (ready, visited)"
| "dag_rounds (Suc k) ids [] visited remaining = ([], visited)"
| "dag_rounds (Suc k) ids (n # ready) visited remaining =
     (let (ready', remaining') = release_outcomes n ids (visited @ [n]) ready remaining
      in dag_rounds k ids ready' (visited @ [n]) remaining')"

definition require_dag :: "roadmap_revision \<Rightarrow> unit result" where
  "require_dag r =
     (let ids = outcome_ids r;
          visited = snd (dag_rounds (length ids) ids (sort (filter (\<lambda>n. outcome_dependencies r n = {}) ids)) []
            (outcome_dependencies r)) in
      if length visited \<noteq> length ids
      then Inl (ValueError ''roadmap approximate dependencies must form a DAG'') else Inr ())"

definition governing_goals :: "strategy \<Rightarrow> roadmap_revision \<Rightarrow> goal_revision list" where
  "governing_goals s r = List.map_filter (map_of (sp_goal_revisions s)) (rr_governing_goal_revision_ids r)"

definition is_current_goal :: "strategy \<Rightarrow> goal_revision \<Rightarrow> bool" where
  "is_current_goal s g \<longleftrightarrow> current_goal_revision s (gr_goal_id g) = Some g"

definition validate_roadmap_revision_structure :: "strategy \<Rightarrow> roadmap_revision \<Rightarrow> unit result" where
  "validate_roadmap_revision_structure s r =
     (let a = rr_intent_authority r; goals = governing_goals s r in
      rbind (raise_first
        [(rr_version r \<noteq> next_roadmap_version s (rr_roadmap_id r),
          ValueError ''roadmap revision version is not the next version''),
         (rr_supersedes_revision_id r \<noteq> roadmap_predecessor s (rr_roadmap_id r),
          ValueError ''roadmap revision must supersede the current revision''),
         (iu_scope a = PROPOSE, ValueError ''proposal-only intent authority cannot admit a roadmap revision''),
         (rr_author r \<noteq> iu_principal_id a, ValueError ''roadmap author lacks the supplied intent authority''),
         (list_ex (\<lambda>i. map_of (sp_goal_revisions s) i = None) (rr_governing_goal_revision_ids r),
          ValueError ''roadmap references unknown goal revisions''),
         (list_ex (\<lambda>g. \<not> is_current_goal s g) goals, ValueError ''roadmap requires current governing goal revisions''),
         (list_ex (\<lambda>g. terminal_goal_status (gr_status g)) goals,
          ValueError ''roadmap requires non-terminal governing goals''),
         (iu_goal_refs a \<noteq> [] \<and> list_ex (\<lambda>g. gr_goal_id g \<notin> set (iu_goal_refs a)) goals,
          ValueError ''roadmap intent authority does not cover its governing goals''),
         (iu_goal_refs a = [] \<and> list_ex (\<lambda>g. gr_owner g \<noteq> iu_principal_id a) goals,
          ValueError ''roadmap author does not own its governing goals''),
         (list_ex (\<lambda>v. list_ex (\<lambda>d. d \<notin> set (outcome_ids r)) (on_approximate_dependencies v)) (rr_outcome_nodes r),
          ValueError ''roadmap dependencies reference unknown outcomes''),
         (list_ex (\<lambda>v. list_ex (\<lambda>d. d \<notin> set (rr_assumptions r)) (on_assumption_refs v)) (rr_outcome_nodes r),
          ValueError ''roadmap outcomes reference unknown assumptions'')]) (\<lambda>_.
      require_dag r))"

definition require_current_roadmap :: "strategy \<Rightarrow> string \<Rightarrow> roadmap_revision result" where
  "require_current_roadmap s revision_id =
     (case map_of (sp_roadmap_revisions s) revision_id of
        None \<Rightarrow> Inl (ValueError ''strategic reference uses an unknown roadmap revision'')
      | Some r \<Rightarrow>
          if current_roadmap_revision s (rr_roadmap_id r) \<noteq> Some r
          then Inl (ValueError ''strategic reference uses a stale roadmap revision'') else Inr r)"

definition require_live_goals :: "strategy \<Rightarrow> roadmap_revision \<Rightarrow> unit result" where
  "require_live_goals s r = raise_first
     [(list_ex (\<lambda>i. case map_of (sp_goal_revisions s) i of None \<Rightarrow> True | Some g \<Rightarrow> \<not> is_current_goal s g)
         (rr_governing_goal_revision_ids r), ValueError ''strategic reference uses stale governing intent''),
      (list_ex (\<lambda>i. case map_of (sp_goal_revisions s) i of None \<Rightarrow> True | Some g \<Rightarrow> \<not> live_goal_status (gr_status g))
         (rr_governing_goal_revision_ids r),
       ValueError ''strategic execution requires ACTIVE or BLOCKED governing goals'')]"

subsection \<open>Roles and assistance\<close>

text \<open>\<open>outcome_ref.partition("#")\<close>: the revision, whether there is a separator, and the node.\<close>

definition partition_ref :: "string \<Rightarrow> string \<times> bool \<times> string" where
  "partition_ref ref = (takeWhile (\<lambda>c. c \<noteq> CHR ''#'') ref, CHR ''#'' \<in> set ref, tl (dropWhile (\<lambda>c. c \<noteq> CHR ''#'') ref))"

definition validate_roles_structure :: "strategy \<Rightarrow> outcome_role_assignment \<Rightarrow> unit result" where
  "validate_roles_structure s x =
     (let (revision_id, separator, node_id) = partition_ref (ora_outcome_ref x) in
      case map_of (sp_roadmap_revisions s) revision_id of
        None \<Rightarrow> Inl (ValueError ''outcome role assignment requires canonical roadmap outcome'')
      | Some r \<Rightarrow> raise_first
          [(\<not> separator, ValueError ''outcome role assignment requires canonical roadmap outcome''),
           (node_id \<notin> set (outcome_ids r), ValueError ''outcome role assignment references unknown outcome node'')])"

definition validate_assistance_structure :: "strategy \<Rightarrow> assistance_envelope \<Rightarrow> unit result" where
  "validate_assistance_structure s x =
     (if map_of (sp_roles s) (ae_role_assignment_id x) = None
      then Inl (ValueError ''assistance envelope must reference canonical outcome roles'') else Inr ())"

definition outcome_ref_of :: "roadmap_revision \<Rightarrow> string \<Rightarrow> string" where
  "outcome_ref_of r node = rr_revision_id r @ ''#'' @ node"

text \<open>
  The roles and the assistance that work on an outcome needs (shared by admission and reactivation; an
  assignment is stored under its own identifier): independent roles for exactly that outcome,
  and an envelope for these roles, which execution by anyone but the agent cannot do without.
\<close>

definition require_roles ::
  "strategy \<Rightarrow> string \<Rightarrow> string \<Rightarrow> string option \<Rightarrow> unit result" where
  "require_roles s role_id expected_ref envelope_id =
     (let envelope = if_text (map_of (sp_assistance s)) envelope_id in
      case map_of (sp_roles s) role_id of
        None \<Rightarrow> Inl (ValueError ''roles do not target the outcome'')
      | Some roles \<Rightarrow> raise_first
          [(ora_outcome_ref roles \<noteq> expected_ref, ValueError ''roles do not target the outcome''),
           (envelope_id \<noteq> None \<and> (case envelope of None \<Rightarrow> True | Some v \<Rightarrow> ae_role_assignment_id v \<noteq> ora_assignment_id roles),
            ValueError ''assistance does not reference the outcome roles''),
           (oa_locus (ora_executor roles) \<noteq> ExecutionLocus_AGENT \<and> envelope = None,
            ValueError ''human or external execution requires an assistance envelope'')])"

subsection \<open>Commitments\<close>

definition commitment_field_errors :: "commitment \<Rightarrow> (bool \<times> py_error) list" where
  "commitment_field_errors c =
     require_text (co_id c) ''commitment id'' @
     require_text (co_description c) ''commitment description'' @
     require_text (co_owner c) ''commitment owner'' @
     bounded (co_priority c) ''commitment priority'' @
     non_negative (co_attention_cost c) ''commitment attention cost'' @
     non_negative (co_social_cost c) ''commitment social cost of failure'' @
     require_aware (co_created_at c) ''commitment created_at'' @
     require_aware (co_updated_at c) ''commitment updated_at'' @
     (case co_deadline c of None \<Rightarrow> [] | Some t \<Rightarrow> require_aware t ''commitment deadline'') @
     (case co_activation_due_at c of None \<Rightarrow> [] | Some t \<Rightarrow> require_aware t ''commitment activation_due_at'') @
     [(dt_before (co_updated_at c) (co_created_at c), ValueError ''commitment updated_at cannot precede created_at'')]"

definition commitment_admission_errors :: "strategy \<Rightarrow> commitment \<Rightarrow> intent_authority \<Rightarrow> (bool \<times> py_error) list" where
  "commitment_admission_errors s c a =
     [(iu_scope a = PROPOSE, ValueError ''proposal-only intent authority cannot admit a commitment''),
      (co_owner c \<noteq> iu_principal_id a, ValueError ''commitment owner lacks supplied intent authority''),
      (iu_goal_refs a \<noteq> [] \<and> \<not> set (co_goal_refs c) \<subseteq> set (iu_goal_refs a),
       ValueError ''commitment intent authority does not cover governing goals''),
      (map_of (sp_commitments s) (co_id c) \<noteq> None, ValueError ''commitment identity already exists''),
      (co_status c \<notin> {CProposed, CAccepted, CActive}, ValueError ''new commitment has an invalid lifecycle state''),
      (co_closure_reason c \<noteq> None, ValueError ''open commitment cannot have a closure reason''),
      (co_goal_refs c = [], ValueError ''strategic commitment requires governing goal refs''),
      (co_roadmap_revision_id c = None \<or> co_outcome_node_id c = None,
       ValueError ''roadmap-derived commitment requires roadmap outcome provenance'')]"

definition validate_commitment_structure :: "strategy \<Rightarrow> commitment \<Rightarrow> intent_authority \<Rightarrow> unit result" where
  "validate_commitment_structure s c a =
     rbind (raise_first (commitment_field_errors c @ commitment_admission_errors s c a)) (\<lambda>_.
     rbind (require_current_roadmap s (the (co_roadmap_revision_id c))) (\<lambda>r.
     rbind (require_live_goals s r) (\<lambda>_.
     let node = the (co_outcome_node_id c) in
     rbind (raise_first
       [(node \<notin> set (outcome_ids r), ValueError ''commitment references an unknown roadmap outcome''),
        (set (co_goal_refs c) \<noteq> set (map gr_goal_id (governing_goals s r)),
         ValueError ''commitment governing goals differ from its roadmap''),
        (co_role_assignment_id c = None, ValueError ''commitment requires independent outcome role assignment'')]) (\<lambda>_.
     require_roles s (the (co_role_assignment_id c)) (outcome_ref_of r node) (co_assistance_envelope_id c)))))"

definition allowed_transitions :: "commitment_status \<Rightarrow> commitment_status list" where
  "allowed_transitions c = (case c of
     CProposed \<Rightarrow> [CAccepted]
   | CAccepted \<Rightarrow> [CActive, CSuspended, CClosed]
   | CActive \<Rightarrow> [CSuspended, CClosed]
   | CSuspended \<Rightarrow> [CActive, CClosed]
   | _ \<Rightarrow> [])"

definition is_reactivation :: "commitment \<Rightarrow> commitment_transition \<Rightarrow> bool" where
  "is_reactivation c x \<longleftrightarrow> co_status c = CSuspended \<and> ct_to_state x = CActive"

definition transition_errors :: "commitment \<Rightarrow> commitment_transition \<Rightarrow> intent_authority \<Rightarrow> (bool \<times> py_error) list" where
  "transition_errors c x a =
     [(co_owner c \<noteq> iu_principal_id a, ValueError ''commitment transition authority does not own the obligation''),
      (iu_goal_refs a \<noteq> [] \<and> \<not> set (co_goal_refs c) \<subseteq> set (iu_goal_refs a),
       ValueError ''commitment transition authority does not cover governing goals''),
      (co_status c = CClosed, ValueError ''closed commitment history cannot mutate''),
      (ct_from_state x \<noteq> co_status c, ValueError ''commitment transition starts from stale state''),
      (ct_to_state x \<notin> set (allowed_transitions (co_status c)), ValueError ''illegal commitment lifecycle transition''),
      (ct_to_state x = CClosed \<and> ct_closure_reason x = None, ValueError ''closed commitment requires a closure reason''),
      (ct_to_state x \<noteq> CClosed \<and> ct_closure_reason x \<noteq> None,
       ValueError ''non-closed commitment cannot have a closure reason'')]"

definition validate_reactivation :: "strategy \<Rightarrow> commitment \<Rightarrow> commitment_transition \<Rightarrow> unit result" where
  "validate_reactivation s c x =
     (case (ct_reactivation_roadmap_revision_id x, ct_reactivation_role_assignment_id x) of
        (Some revision_id, Some role_id) \<Rightarrow>
          if ct_reorientation_evidence_refs x = []
          then Inl (ValueError ''reactivation requires current roadmap, remapped roles, and current evidence'') else
          rbind (require_current_roadmap s revision_id) (\<lambda>r.
          rbind (require_live_goals s r) (\<lambda>_.
          rbind (raise_first
            [(case if_text (map_of (sp_roadmap_revisions s)) (co_roadmap_revision_id c) of
                None \<Rightarrow> True
              | Some prior \<Rightarrow> rr_roadmap_id r \<noteq> rr_roadmap_id prior \<or> rr_version r \<le> rr_version prior,
              ValueError ''reactivation roadmap revision is not newer than suspension''),
             (case co_outcome_node_id c of None \<Rightarrow> True | Some n \<Rightarrow> n \<notin> set (outcome_ids r),
              ValueError ''reactivation outcome no longer exists in current roadmap'')]) (\<lambda>_.
          require_roles s role_id (outcome_ref_of r (the (co_outcome_node_id c)))
            (ct_reactivation_assistance_envelope_id x))))
      | _ \<Rightarrow> Inl (ValueError ''reactivation requires current roadmap, remapped roles, and current evidence''))"

definition validate_transition_structure ::
  "strategy \<Rightarrow> commitment_transition \<Rightarrow> intent_authority \<Rightarrow> unit result" where
  "validate_transition_structure s x a =
     rbind (raise_first
       [(iu_scope a = PROPOSE, ValueError ''proposal-only intent authority cannot transition a commitment''),
        (ct_author x \<noteq> iu_principal_id a, ValueError ''commitment transition author lacks the supplied authority'')]) (\<lambda>_.
     case map_of (sp_commitments s) (ct_commitment_id x) of
       None \<Rightarrow> Inl (ValueError ''unknown commitment'')
     | Some c \<Rightarrow>
         rbind (raise_first (transition_errors c x a)) (\<lambda>_.
         if is_reactivation c x then validate_reactivation s c x
         else if ct_reactivation_roadmap_revision_id x \<noteq> None \<or> ct_reactivation_role_assignment_id x \<noteq> None \<or>
           ct_reactivation_assistance_envelope_id x \<noteq> None \<or> ct_reorientation_evidence_refs x \<noteq> []
         then Inl (ValueError ''reactivation remapping belongs only on suspended-to-active'')
         else if ct_to_state x \<in> {CAccepted, CActive} then
           (case co_roadmap_revision_id c of
              None \<Rightarrow> Inl (ValueError ''commitment activation lacks roadmap provenance'')
            | Some i \<Rightarrow> rbind (require_current_roadmap s i) (require_live_goals s))
         else Inr ()))"

subsection \<open>External workstreams\<close>

definition validate_external_structure :: "strategy \<Rightarrow> external_workstream \<Rightarrow> unit result" where
  "validate_external_structure s x = raise_first
     [(starts_with ''work-graph:'' (ew_observed_roadmap_ref x) \<or> ew_observed_roadmap_ref x \<in> set (sp_work_graph_ids s),
       ValueError ''external roadmap cannot reuse a Noema work graph id''),
      (list_ex (\<lambda>i. map_of (sp_commitments s) i = None) (ew_support_commitment_refs x),
       ValueError ''external support references unknown commitments'')]"

subsection \<open>Work proposals\<close>

definition work_eligibility :: "commitment \<Rightarrow> datetime \<Rightarrow> work_proposal_eligibility option" where
  "work_eligibility c t =
     (if co_status c = CActive then Some WorkProposalEligibility_ACTIVE
      else if co_status c \<noteq> CAccepted then None
      else if (case co_activation_due_at c of None \<Rightarrow> False | Some due \<Rightarrow> dt_le due t) then Some ACTIVATION_DUE
      else if co_lead_time_evidence_refs c \<noteq> [] then Some PREREQUISITE_LEAD_TIME
      else None)"

primrec intervention_rank :: "intervention_level \<Rightarrow> int" where
  "intervention_rank InterventionLevel_PREPARE = 0"
| "intervention_rank InterventionLevel_PROPOSE = 1"
| "intervention_rank CO_EXECUTE = 2"
| "intervention_rank ACT = 3"

definition validate_work_assistance :: "strategy \<Rightarrow> work_order_proposal \<Rightarrow> commitment \<Rightarrow> unit result" where
  "validate_work_assistance s p c =
     (case co_role_assignment_id c of
        None \<Rightarrow> Inl (ValueError ''commitment-derived work requires outcome roles'')
      | Some role_id \<Rightarrow>
      case map_of (sp_roles s) role_id of
        None \<Rightarrow> Inl (ValueError ''commitment-derived work references unknown outcome roles'')
      | Some roles \<Rightarrow>
      case if_text (map_of (sp_assistance s)) (co_assistance_envelope_id c) of
        None \<Rightarrow>
          if oa_locus (ora_executor roles) \<noteq> ExecutionLocus_AGENT
          then Inl (ValueError ''human or external execution requires bounded assistance'') else Inr ()
      | Some envelope \<Rightarrow> raise_first
          [(intervention_rank (ae_maximum_intervention envelope) < intervention_rank (wop_intervention p),
            ValueError ''work proposal exceeds the assistance intervention limit''),
           (\<not> set (wop_declared_agent_support p) \<subseteq> set (ae_permitted_agent_support envelope),
            ValueError ''work proposal declares support outside the assistance envelope''),
           (wop_intervention p = ACT \<and> ae_identity_bound envelope \<and>
              oa_locus (ora_executor roles) \<in> {ExecutionLocus_USER, SHARED},
            ValueError ''agent cannot act for user or shared identity-bound execution'')])"

text \<open>The proposals whose order is not admitted.\<close>

definition pending_work :: "strategy \<Rightarrow> int" where
  "pending_work s = int (length (filter (\<lambda>p. map_of (sp_admitted_orders s) (wo_id (wop_work_order p)) = None)
     (strategy_work_proposals s)))"

definition validate_work_proposal_structure :: "strategy \<Rightarrow> work_order_proposal \<Rightarrow> datetime \<Rightarrow> unit result" where
  "validate_work_proposal_structure s p t =
     (case map_of (sp_commitments s) (wop_commitment_id p) of
        None \<Rightarrow> Inl (ValueError ''work proposal requires a canonical commitment'')
      | Some c \<Rightarrow>
      rbind (raise_first
        [(co_roadmap_revision_id c \<noteq> Some (wop_roadmap_revision_id p),
          ValueError ''work proposal roadmap provenance differs from commitment''),
         (co_outcome_node_id c \<noteq> Some (wop_outcome_node_id p),
          ValueError ''work proposal outcome provenance differs from commitment'')]) (\<lambda>_.
      rbind (require_current_roadmap s (wop_roadmap_revision_id p)) (\<lambda>r.
      rbind (require_live_goals s r) (\<lambda>_.
      rbind (raise_first
        [(wop_outcome_node_id p \<notin> set (outcome_ids r),
          ValueError ''work proposal references an unknown current roadmap outcome''),
         (work_eligibility c t \<noteq> Some (wop_eligibility p),
          ValueError ''commitment is not eligible for automatic work proposal''),
         (\<not> {''commitment:'' @ co_id c, ''roadmap-revision:'' @ wop_roadmap_revision_id p,
             ''outcome-node:'' @ wop_outcome_node_id p} \<subseteq> set (wo_created_from (wop_work_order p)),
          ValueError ''roadmap-derived work lacks commitment provenance''),
         (set (wo_governing_goal_refs (wop_work_order p)) \<noteq> set (co_goal_refs c),
          ValueError ''work proposal governing goals differ from commitment'')]) (\<lambda>_.
      rbind (validate_work_assistance s p c) (\<lambda>_.
      raise_first
        [(ps_wip (wop_portfolio_signals p) \<noteq> pending_work s,
          ValueError ''work proposal WIP input differs from canonical pending work''),
         (wop_wip_limit p \<le> pending_work s, ValueError ''deterministic strategic WIP limit reached'')]))))))"

definition validate_work_admission_structure :: "strategy \<Rightarrow> work_order_proposal \<Rightarrow> unit result" where
  "validate_work_admission_structure s p =
     (case map_of (sp_commitments s) (wop_commitment_id p) of
        None \<Rightarrow> Inl (ValueError ''commitment-derived execution requires ACTIVE commitment'')
      | Some c \<Rightarrow>
      if co_status c \<noteq> CActive then Inl (ValueError ''commitment-derived execution requires ACTIVE commitment'') else
      rbind (require_current_roadmap s (wop_roadmap_revision_id p)) (\<lambda>r.
      rbind (require_live_goals s r) (\<lambda>_.
      validate_work_assistance s p c)))"

subsection \<open>Recording\<close>

definition record_immutable :: "(string \<times> 'v) list \<Rightarrow> string \<Rightarrow> 'v \<Rightarrow> string \<Rightarrow> (string \<times> 'v) list result" where
  "record_immutable d k v name =
     (case map_of d k of
        None \<Rightarrow> Inr (AList.update k v d)
      | Some existing \<Rightarrow> if existing \<noteq> v then Inl (ValueError (name @ '' changed in place'')) else Inr (AList.update k v d))"

definition event_intent_authority :: "builtins \<Rightarrow> jobject event \<Rightarrow> intent_authority result" where
  "event_intent_authority b e =
     (case jget (ev_metadata e) ''intent_authority'' of
        JObj d \<Rightarrow> intent_authority_from_dict b d
      | _ \<Rightarrow> Inl (ValueError ''strategic event lacks an intent-authority admission receipt''))"

definition validate_native_envelope ::
  "strategy \<Rightarrow> jobject event \<Rightarrow> string \<Rightarrow> string \<Rightarrow> datetime \<Rightarrow> int option \<Rightarrow> unit result" where
  "validate_native_envelope s e expected_id subject timestamp cursor =
     (let validated = jget (ev_metadata e) ''validated_at_event_cursor'' in raise_first
       [(ev_id e \<noteq> expected_id \<or> ev_subject e \<noteq> Some subject \<or> ev_timestamp e \<noteq> timestamp,
         ValueError ''strategic event envelope is inconsistent''),
        (\<not> json_eq validated (JInt (sp_last_sequence s)), ValueError ''strategic event lacks exact-head admission evidence''),
        (case cursor of None \<Rightarrow> False | Some n \<Rightarrow> \<not> json_eq validated (JInt n),
         ValueError ''strategic event cursor differs from admitted content'')])"

definition record_goal_revision :: "strategy \<Rightarrow> goal_revision \<Rightarrow> jobject event \<Rightarrow> strategy result" where
  "record_goal_revision s r e =
     (let g = gr_goal_id r in
      rbind (raise_first
        [(\<not> (ev_subject e = Some g \<or> is_legacy_intent_event e \<and> ev_subject e = None) \<or> ev_timestamp e \<noteq> gr_recorded_at r,
          ValueError ''goal revision event envelope is inconsistent''),
         (gr_version r \<noteq> next_goal_version s g \<or> gr_supersedes_revision_id r \<noteq> goal_predecessor s g,
          ValueError ''goal revision does not extend immutable history''),
         (seq0 e \<le> gr_based_on_event_cursor r, ValueError ''goal revision cursor must precede its canonical event'')]) (\<lambda>_.
      rbind (record_immutable (sp_goal_revisions s) (gr_revision_id r) r ''goal revision'') (\<lambda>d.
      Inr (s\<lparr>sp_goal_revisions := d,
             sp_goal_history := append_entry g (gr_revision_id r) (sp_goal_history s),
             sp_current_goal := AList.update g (gr_revision_id r) (sp_current_goal s)\<rparr>))))"

definition record_roadmap_revision :: "strategy \<Rightarrow> roadmap_revision \<Rightarrow> jobject event \<Rightarrow> strategy result" where
  "record_roadmap_revision s r e =
     (let i = rr_roadmap_id r in
      rbind (raise_first
        [(ev_subject e \<noteq> Some i \<or> ev_timestamp e \<noteq> rr_recorded_at r,
          ValueError ''roadmap revision event envelope is inconsistent''),
         (rr_version r \<noteq> next_roadmap_version s i \<or> rr_supersedes_revision_id r \<noteq> roadmap_predecessor s i,
          ValueError ''roadmap revision does not extend immutable history''),
         (seq0 e \<le> rr_based_on_event_cursor r, ValueError ''roadmap revision cursor must precede its canonical event'')]) (\<lambda>_.
      rbind (record_immutable (sp_roadmap_revisions s) (rr_revision_id r) r ''roadmap revision'') (\<lambda>d.
      Inr (s\<lparr>sp_roadmap_revisions := d,
             sp_roadmap_history := append_entry i (rr_revision_id r) (sp_roadmap_history s),
             sp_current_roadmap := AList.update i (rr_revision_id r) (sp_current_roadmap s)\<rparr>))))"

definition store_commitment :: "strategy \<Rightarrow> string \<Rightarrow> commitment \<Rightarrow> strategy" where
  "store_commitment s i c = s\<lparr>sp_commitments := AList.update i c (sp_commitments s),
     sp_commitment_versions := append_entry i c (sp_commitment_versions s)\<rparr>"

definition record_commitment :: "strategy \<Rightarrow> commitment \<Rightarrow> jobject event \<Rightarrow> strategy result" where
  "record_commitment s c e =
     rbind (raise_first
       [(ev_subject e \<noteq> Some (co_id c) \<or> ev_timestamp e \<noteq> co_created_at c,
         ValueError ''commitment event envelope is inconsistent''),
        (case map_of (sp_commitments s) (co_id c) of None \<Rightarrow> False | Some existing \<Rightarrow> existing \<noteq> c,
         ValueError ''commitment identity changed'')]) (\<lambda>_.
     Inr (store_commitment s (co_id c) c))"

text \<open>\<open>a or b\<close> on optional texts.\<close>

definition or_text :: "string option \<Rightarrow> string option \<Rightarrow> string option" where
  "or_text v w = (case v of None \<Rightarrow> w | Some i \<Rightarrow> if i = [] then w else v)"

definition transitioned :: "commitment \<Rightarrow> commitment_transition \<Rightarrow> commitment" where
  "transitioned c x = c\<lparr>co_status := ct_to_state x, co_closure_reason := ct_closure_reason x,
     co_roadmap_revision_id := or_text (ct_reactivation_roadmap_revision_id x) (co_roadmap_revision_id c),
     co_role_assignment_id := or_text (ct_reactivation_role_assignment_id x) (co_role_assignment_id c),
     co_assistance_envelope_id := (if ct_reactivation_roadmap_revision_id x \<noteq> None
       then ct_reactivation_assistance_envelope_id x else co_assistance_envelope_id c),
     co_updated_at := ct_transitioned_at x\<rparr>"

definition record_transition :: "strategy \<Rightarrow> commitment_transition \<Rightarrow> jobject event \<Rightarrow> strategy result" where
  "record_transition s x e =
     (case map_of (sp_commitments s) (ct_commitment_id x) of
        None \<Rightarrow> Inl (ValueError ''commitment transition references unknown commitment'')
      | Some c \<Rightarrow>
      rbind (raise_first
        [(ev_subject e \<noteq> Some (co_id c) \<or> ev_timestamp e \<noteq> ct_transitioned_at x,
          ValueError ''commitment transition event envelope is inconsistent''),
         (co_status c \<noteq> ct_from_state x, ValueError ''commitment transition does not start at current state'')]) (\<lambda>_.
      Inr ((store_commitment s (co_id c) (transitioned c x))
        \<lparr>sp_commitment_transitions := append_entry (co_id c) x (sp_commitment_transitions s)\<rparr>)))"

subsection \<open>Migrated legacy events\<close>

definition apply_legacy_goal ::
  "builtins \<Rightarrow> strategy \<Rightarrow> jobject event \<Rightarrow> string \<Rightarrow> jobject \<Rightarrow> (bool \<times> strategy) result" where
  "apply_legacy_goal b s e operation context1 =
     (let d = ev_payload e; g = id_or_event b e; current = current_goal_revision s g;
          from_current = (\<lambda>f dflt. case current of None \<Rightarrow> dflt | Some c \<Rightarrow> f c) in
      if operation = ''patch'' \<and> current = None then Inr (False, s) else
      rbind (case current of Some c \<Rightarrow> Inr (gr_origin c)
             | None \<Rightarrow> rbind (j_obj context1 ''origin'') (origin_provenance_from_dict b)) (\<lambda>origin.
      rbind (case current of Some c \<Rightarrow> Inr (gr_intent_authority c)
             | None \<Rightarrow> rbind (j_obj context1 ''intent_authority'') (intent_authority_from_dict b)) (\<lambda>authority.
      rbind (j_float_or b d ''priority'' (case current of None \<Rightarrow> Fin (1 / 2) | Some c \<Rightarrow> gr_priority c)) (\<lambda>priority.
      rbind (j_float_or b d ''utility'' (case current of None \<Rightarrow> 1 | Some c \<Rightarrow> gr_utility c)) (\<lambda>utility.
      rbind (j_strs_or b d ''success_criteria'' (case current of None \<Rightarrow> [] | Some c \<Rightarrow> gr_success_criteria c)) (\<lambda>criteria.
      rbind (goal_status_of (j_str_or b d ''status''
               (case current of None \<Rightarrow> ''active'' | Some c \<Rightarrow> goal_status_value (gr_status c)))) (\<lambda>status.
      rbind (j_time_or b d ''deadline'' (case current of None \<Rightarrow> None | Some c \<Rightarrow> gr_deadline c)) (\<lambda>deadline.
      rbind (create_goal_revision b
        \<lparr>gr_revision_id = [], gr_goal_id = g, gr_version = next_goal_version s g,
         gr_description = j_str_or b d ''description'' (from_current gr_description []),
         gr_priority = priority, gr_utility = utility, gr_success_criteria = criteria,
         gr_owner = j_str_or b d ''owner'' (from_current gr_owner (ev_source e)), gr_status = status,
         gr_deadline = deadline,
         gr_kind = (case current of None \<Rightarrow> LEGACY_UNCLASSIFIED | Some c \<Rightarrow> gr_kind c),
         gr_governing_goal_refs = (case current of None \<Rightarrow> [] | Some c \<Rightarrow> gr_governing_goal_refs c),
         gr_origin = origin, gr_intent_authority = authority, gr_based_on_event_cursor = sp_last_sequence s,
         gr_author = ev_source e, gr_revision_reason = ''deterministic migration of '' @ ev_type e,
         gr_recorded_at = ev_timestamp e, gr_supersedes_revision_id = goal_predecessor s g\<rparr>) (\<lambda>r.
      rbind (record_goal_revision s r e) (\<lambda>s'. Inr (True, s')))))))))))"

definition apply_legacy_commitment ::
  "builtins \<Rightarrow> strategy \<Rightarrow> jobject event \<Rightarrow> string \<Rightarrow> (bool \<times> strategy) result" where
  "apply_legacy_commitment b s e operation =
     (let d = ev_payload e; i = id_or_event b e in
      case map_of (sp_commitments s) i of
        None \<Rightarrow>
          if operation \<noteq> ''create'' then Inr (False, s) else
          rbind (commitment_from_dict b (dict_update d
            [(''id'', JStr i), (''created_at'', JTime (ev_timestamp e)), (''updated_at'', JTime (ev_timestamp e))])) (\<lambda>c.
          Inr (True, store_commitment s (co_id c) c))
      | Some c \<Rightarrow>
          rbind (commitment_status_of (j_str_or b d ''status'' (commitment_status_value (co_status c)))) (\<lambda>status.
          rbind (case map_of d ''closure_reason'' of None \<Rightarrow> Inr (co_closure_reason c)
                 | Some v \<Rightarrow> closure_reason_json b v) (\<lambda>closure.
          rbind (j_float_or b d ''priority'' (co_priority c)) (\<lambda>priority.
          rbind (j_time_or b d ''deadline'' (co_deadline c)) (\<lambda>deadline.
          rbind (j_float_or b d ''attention_cost'' (co_attention_cost c)) (\<lambda>attention_cost.
          rbind (j_float_or b d ''social_cost_of_failure'' (co_social_cost c)) (\<lambda>social_cost.
          let c' = c\<lparr>co_description := j_str_or b d ''description'' (co_description c),
                     co_owner := j_str_or b d ''owner'' (co_owner c), co_priority := priority, co_status := status,
                     co_deadline := deadline, co_terminal := j_bool_or d ''terminal'' (co_terminal c),
                     co_attention_cost := attention_cost, co_social_cost := social_cost,
                     co_closure_reason := closure, co_updated_at := ev_timestamp e\<rparr>;
              s' = store_commitment s i c' in
          if status = co_status c then Inr (True, s') else
          rbind (create_commitment_transition b
            \<lparr>ct_transition_id = [], ct_commitment_id = i, ct_from_state = co_status c, ct_to_state = status,
             ct_closure_reason = closure, ct_based_on_event_cursor = sp_last_sequence s, ct_author = ev_source e,
             ct_reason = ''deterministic migration of '' @ ev_type e, ct_transitioned_at = ev_timestamp e,
             ct_reactivation_roadmap_revision_id = None, ct_reactivation_role_assignment_id = None,
             ct_reactivation_assistance_envelope_id = None, ct_reorientation_evidence_refs = []\<rparr>) (\<lambda>x.
          Inr (True, s'\<lparr>sp_commitment_transitions := append_entry i x (sp_commitment_transitions s)\<rparr>)))))))))"

definition apply_legacy :: "builtins \<Rightarrow> strategy \<Rightarrow> jobject event \<Rightarrow> (bool \<times> strategy) result" where
  "apply_legacy b s e =
     rbind (legacy_context e) (\<lambda>context1.
     rbind (j_str b context1 ''operation'') (\<lambda>operation.
     if starts_with ''goal.'' (ev_type e) then apply_legacy_goal b s e operation context1
     else if starts_with ''commitment.'' (ev_type e) then apply_legacy_commitment b s e operation
     else Inr (False, s)))"

subsection \<open>Handlers\<close>

definition apply_goal_event :: "builtins \<Rightarrow> strategy \<Rightarrow> jobject event \<Rightarrow> strategy result" where
  "apply_goal_event b s e =
     rbind (goal_revision_from_dict b (ev_payload e)) (\<lambda>r.
     rbind (validate_native_envelope s e (''goal-revision-recorded:'' @ gr_revision_id r) (gr_goal_id r)
              (gr_recorded_at r) (Some (gr_based_on_event_cursor r))) (\<lambda>_.
     rbind (validate_goal_revision_structure s r) (\<lambda>_. record_goal_revision s r e)))"

definition apply_roadmap_event :: "builtins \<Rightarrow> strategy \<Rightarrow> jobject event \<Rightarrow> strategy result" where
  "apply_roadmap_event b s e =
     rbind (roadmap_revision_from_dict b (ev_payload e)) (\<lambda>r.
     rbind (validate_native_envelope s e (''roadmap-revision-recorded:'' @ rr_revision_id r) (rr_roadmap_id r)
              (rr_recorded_at r) (Some (rr_based_on_event_cursor r))) (\<lambda>_.
     rbind (validate_roadmap_revision_structure s r) (\<lambda>_. record_roadmap_revision s r e)))"

definition apply_commitment_event :: "builtins \<Rightarrow> strategy \<Rightarrow> jobject event \<Rightarrow> strategy result" where
  "apply_commitment_event b s e =
     rbind (commitment_from_dict b (ev_payload e)) (\<lambda>c.
     rbind (validate_native_envelope s e (''commitment-recorded:'' @ co_id c) (co_id c) (co_created_at c) None) (\<lambda>_.
     rbind (event_intent_authority b e) (\<lambda>a.
     rbind (validate_commitment_structure s c a) (\<lambda>_. record_commitment s c e))))"

definition apply_transition_event :: "builtins \<Rightarrow> strategy \<Rightarrow> jobject event \<Rightarrow> strategy result" where
  "apply_transition_event b s e =
     rbind (commitment_transition_from_dict b (ev_payload e)) (\<lambda>x.
     rbind (validate_native_envelope s e (''commitment-transitioned:'' @ ct_transition_id x) (ct_commitment_id x)
              (ct_transitioned_at x) (Some (ct_based_on_event_cursor x))) (\<lambda>_.
     rbind (event_intent_authority b e) (\<lambda>a.
     rbind (validate_transition_structure s x a) (\<lambda>_. record_transition s x e))))"

definition apply_roles_event :: "builtins \<Rightarrow> strategy \<Rightarrow> jobject event \<Rightarrow> strategy result" where
  "apply_roles_event b s e =
     rbind (outcome_role_assignment_from_dict b (ev_payload e)) (\<lambda>x.
     rbind (validate_native_envelope s e (''outcome-roles-recorded:'' @ ora_assignment_id x) (ora_outcome_ref x)
              (ora_recorded_at x) None) (\<lambda>_.
     rbind (validate_roles_structure s x) (\<lambda>_.
     rbind (record_immutable (sp_roles s) (ora_assignment_id x) x ''outcome roles'') (\<lambda>d.
     Inr (s\<lparr>sp_roles := d\<rparr>)))))"

definition apply_assistance_event :: "builtins \<Rightarrow> strategy \<Rightarrow> jobject event \<Rightarrow> strategy result" where
  "apply_assistance_event b s e =
     rbind (assistance_envelope_from_dict b (ev_payload e)) (\<lambda>x.
     rbind (validate_native_envelope s e (''assistance-envelope-recorded:'' @ ae_envelope_id x)
              (ae_role_assignment_id x) (ae_recorded_at x) None) (\<lambda>_.
     rbind (validate_assistance_structure s x) (\<lambda>_.
     rbind (record_immutable (sp_assistance s) (ae_envelope_id x) x ''assistance'') (\<lambda>d.
     Inr (s\<lparr>sp_assistance := d\<rparr>)))))"

definition apply_external_event :: "builtins \<Rightarrow> strategy \<Rightarrow> jobject event \<Rightarrow> strategy result" where
  "apply_external_event b s e =
     rbind (external_workstream_from_dict b (ev_payload e)) (\<lambda>x.
     let i = ew_workstream_id x; past = entries (sp_external_history s) i in
     rbind (validate_native_envelope s e (''external-workstream-observed:'' @ ew_observation_id x) i
              (ew_recorded_at x) None) (\<lambda>_.
     rbind (validate_external_structure s x) (\<lambda>_.
     rbind (raise_first
       [(past \<noteq> [] \<and> dt_before (ew_recorded_at x) (ew_recorded_at (last past)),
         ValueError ''external workstream knowledge time cannot regress''),
        (list_ex (\<lambda>y. ew_observation_id y = ew_observation_id x) past, ValueError ''external observation id changed'')]) (\<lambda>_.
     Inr (s\<lparr>sp_external_history := append_entry i x (sp_external_history s),
            sp_external_current := AList.update i x (sp_external_current s)\<rparr>)))))"

definition apply_proposal_event :: "builtins \<Rightarrow> strategy \<Rightarrow> jobject event \<Rightarrow> strategy result" where
  "apply_proposal_event b s e =
     rbind (work_order_proposal_from_dict b (ev_payload e)) (\<lambda>p.
     rbind (validate_native_envelope s e (''work-order-proposed:'' @ wop_proposal_id p) (wop_commitment_id p)
              (wop_proposed_at p) (Some (wop_based_on_event_cursor p))) (\<lambda>_.
     rbind (validate_work_proposal_structure s p (wop_proposed_at p)) (\<lambda>_.
     rbind (record_immutable (sp_work_proposals s) (wop_proposal_id p) p ''work order proposal'') (\<lambda>d.
     Inr (s\<lparr>sp_work_proposals := d\<rparr>)))))"

definition apply_admitted_order :: "builtins \<Rightarrow> strategy \<Rightarrow> jobject event \<Rightarrow> strategy result" where
  "apply_admitted_order b s e =
     rbind (work_order_from_event b e) (\<lambda>w.
     rbind (foldM (\<lambda>_. validate_work_admission_structure s) ()
       (filter (\<lambda>p. wo_id (wop_work_order p) = wo_id w) (map snd (sp_work_proposals s)))) (\<lambda>_.
     rbind (record_immutable (sp_admitted_orders s) (wo_id w) w ''work order'') (\<lambda>d.
     Inr (s\<lparr>sp_admitted_orders := d\<rparr>))))"

definition apply_strategy_event :: "builtins \<Rightarrow> strategy \<Rightarrow> jobject event \<Rightarrow> (bool \<times> strategy) result" where
  "apply_strategy_event b s e =
     (let handled = \<lambda>r. rbind r (\<lambda>s'. Inr (True, s')) in
      if is_legacy_intent_event e then apply_legacy b s e
      else if ev_type e = GOAL_REVISION_RECORDED_EVENT then handled (apply_goal_event b s e)
      else if ev_type e = ROADMAP_REVISION_RECORDED_EVENT then handled (apply_roadmap_event b s e)
      else if ev_type e = COMMITMENT_RECORDED_EVENT then handled (apply_commitment_event b s e)
      else if ev_type e = COMMITMENT_TRANSITIONED_EVENT then handled (apply_transition_event b s e)
      else if ev_type e = OUTCOME_ROLES_RECORDED_EVENT then handled (apply_roles_event b s e)
      else if ev_type e = ASSISTANCE_ENVELOPE_RECORDED_EVENT then handled (apply_assistance_event b s e)
      else if ev_type e = EXTERNAL_WORKSTREAM_OBSERVED_EVENT then handled (apply_external_event b s e)
      else if ev_type e = WORK_ORDER_PROPOSED_EVENT then handled (apply_proposal_event b s e)
      else if ev_type e = WORK_ORDER_RECORDED_EVENT then handled (apply_admitted_order b s e)
      else if ev_type e = WORK_GRAPH_ACCEPTED_EVENT
      then rbind (graph_from_event b e) (\<lambda>g.
           Inr (True, s\<lparr>sp_work_graph_ids := List.insert (wg_id g) (sp_work_graph_ids s)\<rparr>))
      else Inr (False, s))"

definition strategy_apply :: "builtins \<Rightarrow> strategy \<Rightarrow> jobject event \<Rightarrow> (bool \<times> strategy) result" where
  "strategy_apply b s e =
     (case map_of (sp_events s) (ev_id e) of
        Some existing \<Rightarrow>
          if \<not> same_event existing e then Inl (ValueError ''conflicting canonical strategic event identity'')
          else Inr (False, s)
      | None \<Rightarrow>
      case ev_sequence e of
        None \<Rightarrow> Inl (ValueError ''strategic projection requires canonical sequenced events'')
      | Some n \<Rightarrow>
          if n \<le> sp_last_sequence s
          then Inl (ValueError ''strategic events must be applied in canonical sequence order'')
          else rbind (apply_strategy_event b s e) (\<lambda>(handled, s').
               Inr (handled, s'\<lparr>sp_events := AList.update (ev_id e) e (sp_events s'), sp_last_sequence := n\<rparr>)))"

definition strategy_step :: "builtins \<Rightarrow> strategy \<Rightarrow> jobject event \<Rightarrow> strategy result" where
  "strategy_step b s e = rbind (strategy_apply b s e) (\<lambda>(_, s'). Inr s')"

definition strategy_rebuild :: "builtins \<Rightarrow> jobject event list \<Rightarrow> strategy result" where
  "strategy_rebuild b events = foldM (strategy_step b) empty_strategy events"

subsection \<open>Coverage and health\<close>

definition coverage :: "strategy \<Rightarrow> string \<Rightarrow> datetime \<Rightarrow> commitment_coverage result" where
  "coverage s commitment_id t =
     (case map_of (sp_commitments s) commitment_id of
        None \<Rightarrow> Inl (KeyError commitment_id)
      | Some c \<Rightarrow>
        let admitted_order = (\<lambda>p. map_of (sp_admitted_orders s) (wo_id (wop_work_order p)));
            scoped = filter (\<lambda>p. wop_commitment_id p = commitment_id \<and>
              Some (wop_roadmap_revision_id p) = co_roadmap_revision_id c \<and>
              Some (wop_outcome_node_id p) = co_outcome_node_id c) (map snd (sp_work_proposals s));
            admitted = sort (map (wo_id \<circ> wop_work_order) (filter (\<lambda>p. admitted_order p \<noteq> None) scoped));
            required = (case (if_text (map_of (sp_roadmap_revisions s)) (co_roadmap_revision_id c), co_outcome_node_id c) of
              (Some r, Some n) \<Rightarrow>
                (case find (\<lambda>v. on_node_id v = n) (rr_outcome_nodes r) of None \<Rightarrow> [] | Some v \<Rightarrow> on_success_criteria v)
            | _ \<Rightarrow> []);
            admitted_criteria = concat (map (\<lambda>i. wo_success_criteria (the (map_of (sp_admitted_orders s) i))) admitted);
            uncovered = filter (\<lambda>k. k \<notin> set admitted_criteria) required;
            pending = filter (\<lambda>p. admitted_order p = None) scoped;
            external = list_ex (\<lambda>x. ew_support_required x \<and> commitment_id \<in> set (ew_support_commitment_refs x) \<and>
              dt_before t (ew_freshness_expires_at x)) (map snd (sp_external_current s));
            eligible = (co_status c = CActive \<or> co_status c = CAccepted \<and>
              ((case co_activation_due_at c of None \<Rightarrow> False | Some due \<Rightarrow> dt_le due t) \<or>
               co_lead_time_evidence_refs c \<noteq> [])) in
        Inr \<lparr>cc_commitment_id = commitment_id,
             cc_disposition = (if required \<noteq> [] \<and> uncovered = [] then COVERED
               else if pending \<noteq> [] then CoverageDisposition_PROPOSED
               else if eligible then UNCOVERED else INACTIVE),
             cc_required_criteria = required,
             cc_covered_criteria = filter (\<lambda>k. k \<in> set admitted_criteria) required,
             cc_uncovered_criteria = uncovered,
             cc_work_proposal_ids = sort (map wop_proposal_id scoped),
             cc_admitted_work_order_ids = admitted,
             cc_external_support_required = external\<rparr>)"

definition review_when :: "bool \<Rightarrow> health_signal" where
  "review_when bad = (if bad then NEEDS_REVIEW else SATISFIED)"

definition assess_roadmap_health :: "strategy \<Rightarrow> string \<Rightarrow> datetime \<Rightarrow> int \<Rightarrow> roadmap_health result" where
  "assess_roadmap_health s roadmap_id t wip_limit =
     (case current_roadmap_revision s roadmap_id of
        None \<Rightarrow> Inl (KeyError roadmap_id)
      | Some r \<Rightarrow>
        let aligned = list_all (\<lambda>i. case map_of (sp_goal_revisions s) i of
              None \<Rightarrow> False | Some g \<Rightarrow> map_of (sp_current_goal s) (gr_goal_id g) = Some i) (rr_governing_goal_revision_ids r);
            linked = filter (\<lambda>c. co_roadmap_revision_id c = Some (rr_revision_id r)) (map snd (sp_commitments s));
            failed = list_ex (\<lambda>c. co_status c = CClosed \<and> co_closure_reason c \<in> {Some RFailed, Some RBreached}) linked;
            late = list_ex (\<lambda>c. co_status c \<in> {CAccepted, CActive} \<and>
              (case co_deadline c of None \<Rightarrow> False | Some d \<Rightarrow> dt_before d t)) linked;
            wip = int (length (filter (\<lambda>p. wop_commitment_id p \<in> set (map co_id linked) \<and>
              map_of (sp_admitted_orders s) (wo_id (wop_work_order p)) = None) (map snd (sp_work_proposals s))));
            external_change = list_ex (\<lambda>x. ew_support_required x \<and> dt_before t (ew_freshness_expires_at x) \<and>
              list_ex (\<lambda>i. i \<in> set (map co_id linked)) (ew_support_commitment_refs x)) (map snd (sp_external_current s));
            signals =
              [(''goal alignment'', review_when (\<not> aligned)),
               (''assumption validity'', if rr_assumptions r \<noteq> [] then UNKNOWN else SATISFIED),
               (''dependency validity'', SATISFIED),
               (''progress consistency'', review_when failed),
               (''schedule feasibility'', review_when late),
               (''capacity fit'', review_when (wip_limit < wip)),
               (''opportunity validity'', review_when external_change)];
            signal = (\<lambda>k. the (map_of signals k)) in
        Inr \<lparr>rh_roadmap_id = roadmap_id, rh_revision_id = rr_revision_id r,
             rh_goal_alignment = signal ''goal alignment'', rh_assumption_validity = signal ''assumption validity'',
             rh_dependency_validity = signal ''dependency validity'', rh_progress_consistency = signal ''progress consistency'',
             rh_schedule_feasibility = signal ''schedule feasibility'', rh_capacity_fit = signal ''capacity fit'',
             rh_opportunity_validity = signal ''opportunity validity'',
             rh_review_reasons = map fst (filter (\<lambda>(_, v). v \<noteq> SATISFIED) signals)\<rparr>)"

end
