(* ===== verification/IntentProperties.thy ===== *)
theory IntentProperties
  imports IntentProjection Contracts WorkPlanning
begin

section \<open>Properties of strategic history\<close>

text \<open>
  What a rebuilt strategic projection promises: the revisions of a goal or a roadmap form one chain whose
  entries never change, recorded roadmaps have no cyclic dependencies, commitments move along the permitted
  transitions, and pending work stays within its limit. The events are abstracted to the changes they make
  (\<open>strategy_change\<close>), and each property is an invariant of these changes.
\<close>

subsection \<open>Dictionaries of lists\<close>

lemma entries_append_entry [dict_simps]:
  "entries (append_entry k v d) k' = (if k' = k then entries d k @ [v] else entries d k')"
  by (simp add: entries_def append_entry_def map_of_update)

lemma if_text_Some [simp]: "if_text f v = Some x \<longleftrightarrow> (\<exists>i. v = Some i \<and> i \<noteq> [] \<and> f i = Some x)"
  by (auto simp: if_text_def split: option.splits if_splits)

lemma record_immutable_result:
  "record_immutable d k v n = Inr d' \<longleftrightarrow> (map_of d k = None \<or> map_of d k = Some v) \<and> d' = AList.update k v d"
  by (auto simp: record_immutable_def split: option.splits)

subsection \<open>Chains of revisions\<close>

text \<open>
  A log of revisions: every stored revision is in the history of its key under its own identifier; the
  versions of a history count from one, each revision supersedes the one before it, and the last one is
  current.
\<close>

definition chained ::
  "('r \<Rightarrow> string) \<Rightarrow> ('r \<Rightarrow> string) \<Rightarrow> ('r \<Rightarrow> int) \<Rightarrow> ('r \<Rightarrow> string option) \<Rightarrow> string \<Rightarrow> 'r list \<Rightarrow> bool" where
  "chained rid key version supersedes k h \<longleftrightarrow>
     list_all (\<lambda>r. key r = k) h \<and>
     map version h = map int [1 ..< Suc (length h)] \<and>
     map supersedes h = take (length h) (None # map (Some \<circ> rid) h)"

definition versioned ::
  "('r \<Rightarrow> string) \<Rightarrow> ('r \<Rightarrow> string) \<Rightarrow> ('r \<Rightarrow> int) \<Rightarrow> ('r \<Rightarrow> string option) \<Rightarrow>
   (string \<times> 'r) list \<Rightarrow> (string \<times> string list) list \<Rightarrow> (string \<times> string) list \<Rightarrow> bool" where
  "versioned rid key version supersedes revs hist cur \<longleftrightarrow>
     (\<forall>i r. map_of revs i = Some r \<longrightarrow> rid r = i \<and> i \<noteq> [] \<and> i \<in> set (entries hist (key r))) \<and>
     (\<forall>k. set (entries hist k) \<subseteq> dom (map_of revs) \<and>
          chained rid key version supersedes k (map (\<lambda>i. the (map_of revs i)) (entries hist k)) \<and>
          map_of cur k = (if entries hist k = [] then None else Some (last (entries hist k))))"

lemma chained_Nil [simp]: "chained rid key version supersedes k []"
  by (simp add: chained_def)

lemma chained_snoc:
  "chained rid key version supersedes k (h @ [r]) \<longleftrightarrow>
     chained rid key version supersedes k h \<and> key r = k \<and> version r = int (length h) + 1 \<and>
     supersedes r = (if h = [] then None else Some (rid (last h)))"
  by (cases h rule: rev_cases) (auto simp: chained_def)

lemma versioned_empty [simp]: "versioned rid key version supersedes [] [] []"
  by (simp add: versioned_def entries_def)

lemma versionedD:
  assumes "versioned rid key version supersedes revs hist cur"
  shows "map_of revs i = Some r \<Longrightarrow> rid r = i \<and> i \<noteq> [] \<and> i \<in> set (entries hist (key r))"
    and "i \<in> set (entries hist k) \<Longrightarrow> i \<in> dom (map_of revs)"
    and "chained rid key version supersedes k (map (\<lambda>i. the (map_of revs i)) (entries hist k))"
    and "map_of cur k = (if entries hist k = [] then None else Some (last (entries hist k)))"
  using assms unfolding versioned_def by (blast | simp)+

text \<open>The current revision is the last of its history, and its version is the number of revisions.\<close>

lemma versioned_current:
  assumes "versioned rid key version supersedes revs hist cur"
  shows "if_text (map_of revs) (map_of cur k) =
           (let h = map (\<lambda>i. the (map_of revs i)) (entries hist k) in if h = [] then None else Some (last h))"
proof (cases "entries hist k" rule: rev_cases)
  case Nil
  then show ?thesis using versionedD(4) [OF assms, of k] by (simp add: if_text_def)
next
  case (snoc js i)
  then obtain r where r: "map_of revs i = Some r" using versionedD(2) [OF assms, of i k] by auto
  then have "i \<noteq> []" using versionedD(1) [OF assms r] by simp
  then show ?thesis using snoc r versionedD(4) [OF assms, of k] by (simp add: if_text_def)
qed

lemma chained_version:
  assumes "chained rid key version supersedes k h" "r \<in> set h"
  shows "version r \<le> int (length h)"
proof -
  have "version r \<in> set (map version h)" using assms(2) by simp
  with assms(1) show ?thesis unfolding chained_def by auto
qed

text \<open>Recording the next revision of a key extends its chain by a new entry.\<close>

lemma versioned_record:
  assumes v: "versioned rid key version supersedes revs hist cur"
    and r: "rid r \<noteq> []"
      "version r = (case if_text (map_of revs) (map_of cur (key r)) of None \<Rightarrow> 1 | Some c \<Rightarrow> version c + 1)"
      "supersedes r = map_option rid (if_text (map_of revs) (map_of cur (key r)))"
    and rec: "record_immutable revs (rid r) r name = Inr revs'"
  shows "map_of revs (rid r) = None \<and>
    versioned rid key version supersedes revs' (append_entry (key r) (rid r) hist) (AList.update (key r) (rid r) cur)"
proof -
  let ?ids = "entries hist (key r)" and ?get = "\<lambda>i. the (map_of revs i)"
  let ?h = "map ?get ?ids"
  have chain: "chained rid key version supersedes (key r) ?h" using v by (simp add: versioned_def)
  have next_version: "version r = int (length ?h) + 1"
    and next_supersedes: "supersedes r = (if ?h = [] then None else Some (rid (last ?h)))"
  proof -
    show "version r = int (length ?h) + 1"
    proof (cases "?h" rule: rev_cases)
      case (snoc h c)
      then show ?thesis using chain r(2) versioned_current [OF v, of "key r"] by (simp add: chained_snoc)
    qed (use r(2) versioned_current [OF v, of "key r"] in simp)
    show "supersedes r = (if ?h = [] then None else Some (rid (last ?h)))"
      using r(3) versioned_current [OF v, of "key r"] by (simp add: Let_def)
  qed
  have new: "map_of revs (rid r) = None"
  proof (rule ccontr)
    assume "map_of revs (rid r) \<noteq> None"
    with rec have s: "map_of revs (rid r) = Some r" by (simp add: record_immutable_result)
    then have "rid r \<in> set ?ids" using versionedD(1) [OF v s] by simp
    then have "?get (rid r) \<in> set ?h" by (simp only: set_map image_eqI)
    then have "r \<in> set ?h" by (simp add: s)
    from chained_version [OF chain this] next_version show False by simp
  qed
  have revs': "map_of revs' = (map_of revs)(rid r \<mapsto> r)"
    using rec by (simp add: record_immutable_result map_of_update)
  have old: "the (map_of revs' i) = ?get i" if "i \<in> set (entries hist k)" for i k
  proof -
    have "i \<in> dom (map_of revs)" using versionedD(2) [OF v that] .
    with new revs' show ?thesis by auto
  qed
  have stored: "the (map_of revs' (rid r)) = r" by (simp add: revs')
  have same: "map (\<lambda>i. the (map_of revs' i)) (entries hist k) = map ?get (entries hist k)" for k
    using old by simp
  have "chained rid key version supersedes k (map (\<lambda>i. the (map_of revs' i)) (entries (append_entry (key r) (rid r) hist) k))"
    for k
    using versionedD(3) [OF v, of k] next_version next_supersedes
    by (cases "k = key r") (simp_all add: entries_append_entry same chained_snoc stored)
  moreover have "rid r' = i \<and> i \<noteq> [] \<and> i \<in> set (entries (append_entry (key r) (rid r) hist) (key r'))"
    if "map_of revs' i = Some r'" for i r'
    using that versionedD(1) [OF v, of i r'] r(1) by (auto simp: revs' entries_append_entry split: if_splits)
  moreover have "set (entries (append_entry (key r) (rid r) hist) k) \<subseteq> dom (map_of revs')" for k
    using versionedD(2) [OF v] by (auto simp: revs' entries_append_entry)
  moreover have "map_of (AList.update (key r) (rid r) cur) k =
      (let h = entries (append_entry (key r) (rid r) hist) k in if h = [] then None else Some (last h))" for k
    using versionedD(4) [OF v, of k] by (simp add: entries_append_entry map_of_update)
  ultimately show ?thesis using new unfolding versioned_def by (simp add: Let_def)
qed

subsection \<open>The changes an event can make\<close>

inductive strategy_change :: "strategy \<Rightarrow> jobject event \<Rightarrow> strategy \<Rightarrow> bool" for s e where
  ignored: "strategy_change s e s"
| goal_revised: "\<lbrakk>\<not> is_legacy_intent_event e; check_goal_revision r = Inr ();
    validate_goal_revision_structure s r = Inr (); record_goal_revision s r e = Inr s'\<rbrakk> \<Longrightarrow> strategy_change s e s'"
| goal_migrated: "\<lbrakk>is_legacy_intent_event e; check_goal_revision r = Inr ();
    \<And>c. current_goal_revision s (gr_goal_id r) = Some c \<Longrightarrow> gr_kind r = gr_kind c \<and> gr_origin r = gr_origin c \<and>
      gr_governing_goal_refs r = gr_governing_goal_refs c;
    record_goal_revision s r e = Inr s'\<rbrakk> \<Longrightarrow> strategy_change s e s'"
| roadmap_revised: "\<lbrakk>\<not> is_legacy_intent_event e; check_roadmap_revision r = Inr ();
    validate_roadmap_revision_structure s r = Inr (); record_roadmap_revision s r e = Inr s'\<rbrakk> \<Longrightarrow> strategy_change s e s'"
| commitment_made: "\<lbrakk>\<not> is_legacy_intent_event e; validate_commitment_structure s c a = Inr ();
    record_commitment s c e = Inr s'\<rbrakk> \<Longrightarrow> strategy_change s e s'"
| commitment_moved: "\<lbrakk>\<not> is_legacy_intent_event e; validate_transition_structure s x a = Inr ();
    record_transition s x e = Inr s'\<rbrakk> \<Longrightarrow> strategy_change s e s'"
| commitment_migrated: "\<lbrakk>is_legacy_intent_event e;
    s' = (store_commitment s (co_id c) c)\<lparr>sp_commitment_transitions := d\<rparr>\<rbrakk> \<Longrightarrow> strategy_change s e s'"
| roles_assigned: "\<lbrakk>\<not> is_legacy_intent_event e; validate_roles_structure s x = Inr ();
    record_immutable (sp_roles s) (ora_assignment_id x) x n = Inr d\<rbrakk> \<Longrightarrow> strategy_change s e (s\<lparr>sp_roles := d\<rparr>)"
| assistance_granted: "\<lbrakk>\<not> is_legacy_intent_event e; validate_assistance_structure s y = Inr ();
    record_immutable (sp_assistance s) (ae_envelope_id y) y n = Inr d\<rbrakk> \<Longrightarrow> strategy_change s e (s\<lparr>sp_assistance := d\<rparr>)"
| external_observed: "\<not> is_legacy_intent_event e \<Longrightarrow>
    strategy_change s e (s\<lparr>sp_external_history := append_entry (ew_workstream_id o2) o2 (sp_external_history s),
      sp_external_current := AList.update (ew_workstream_id o2) o2 (sp_external_current s)\<rparr>)"
| work_proposed: "\<lbrakk>\<not> is_legacy_intent_event e; validate_work_proposal_structure s p t = Inr ();
    record_immutable (sp_work_proposals s) (wop_proposal_id p) p n = Inr d\<rbrakk> \<Longrightarrow>
    strategy_change s e (s\<lparr>sp_work_proposals := d\<rparr>)"
| work_admitted: "\<lbrakk>\<not> is_legacy_intent_event e;
    \<And>p. p \<in> snd ` set (sp_work_proposals s) \<Longrightarrow> wo_id (wop_work_order p) = wo_id o1 \<Longrightarrow>
      validate_work_admission_structure s p = Inr ();
    record_immutable (sp_admitted_orders s) (wo_id o1) o1 n = Inr d\<rbrakk> \<Longrightarrow>
    strategy_change s e (s\<lparr>sp_admitted_orders := d\<rparr>)"
| graph_accepted: "\<not> is_legacy_intent_event e \<Longrightarrow>
    strategy_change s e (s\<lparr>sp_work_graph_ids := List.insert g (sp_work_graph_ids s)\<rparr>)"

lemma foldM_unit: "foldM (\<lambda>_. f) u xs = Inr v \<Longrightarrow> x \<in> set xs \<Longrightarrow> \<exists>w. f x = Inr w"
  by (induction xs arbitrary: u) (auto elim!: rbindE)

lemma goal_revision_from_dict_checked: "goal_revision_from_dict b d = Inr r \<Longrightarrow> check_goal_revision r = Inr ()"
  by (auto simp: goal_revision_from_dict_def Let_def elim!: rbindE split: if_splits)

lemma roadmap_revision_from_dict_checked: "roadmap_revision_from_dict b d = Inr r \<Longrightarrow> check_roadmap_revision r = Inr ()"
  by (auto simp: roadmap_revision_from_dict_def Let_def elim!: rbindE split: if_splits)

lemma created_goal_revision:
  "create_goal_revision b x = Inr r \<Longrightarrow> check_goal_revision r = Inr () \<and> (\<exists>i. r = x\<lparr>gr_revision_id := i\<rparr>)"
  by (auto simp: create_goal_revision_def Let_def elim!: rbindE)

lemma commitment_from_dict_id: "commitment_from_dict b d = Inr c \<Longrightarrow> j_str b d ''id'' = Inr (co_id c)"
  by (auto simp: commitment_from_dict_def elim!: rbindE)

lemma legacy_goal_change:
  assumes "apply_legacy_goal b s e operation context1 = Inr (h, s')" "is_legacy_intent_event e"
  shows "strategy_change s e s'"
proof (cases "operation = ''patch'' \<and> current_goal_revision s (id_or_event b e) = None")
  case True
  with assms(1) show ?thesis by (simp add: apply_legacy_goal_def Let_def ignored)
next
  case False
  with assms(1) obtain origin authority priority utility criteria status deadline r where
    o1: "(case current_goal_revision s (id_or_event b e) of Some c \<Rightarrow> Inr (gr_origin c)
             | None \<Rightarrow> rbind (j_obj context1 ''origin'') (origin_provenance_from_dict b)) = Inr origin"
    and r: "create_goal_revision b
        \<lparr>gr_revision_id = [], gr_goal_id = id_or_event b e, gr_version = next_goal_version s (id_or_event b e),
         gr_description = j_str_or b (ev_payload e) ''description''
           (case current_goal_revision s (id_or_event b e) of None \<Rightarrow> [] | Some c \<Rightarrow> gr_description c),
         gr_priority = priority, gr_utility = utility, gr_success_criteria = criteria,
         gr_owner = j_str_or b (ev_payload e) ''owner''
           (case current_goal_revision s (id_or_event b e) of None \<Rightarrow> ev_source e | Some c \<Rightarrow> gr_owner c),
         gr_status = status, gr_deadline = deadline,
         gr_kind = (case current_goal_revision s (id_or_event b e) of None \<Rightarrow> LEGACY_UNCLASSIFIED | Some c \<Rightarrow> gr_kind c),
         gr_governing_goal_refs = (case current_goal_revision s (id_or_event b e) of None \<Rightarrow> []
           | Some c \<Rightarrow> gr_governing_goal_refs c),
         gr_origin = origin, gr_intent_authority = authority, gr_based_on_event_cursor = sp_last_sequence s,
         gr_author = ev_source e, gr_revision_reason = ''deterministic migration of '' @ ev_type e,
         gr_recorded_at = ev_timestamp e, gr_supersedes_revision_id = goal_predecessor s (id_or_event b e)\<rparr> = Inr r"
    and rec: "record_goal_revision s r e = Inr s'"
    unfolding apply_legacy_goal_def Let_def by (auto elim!: rbindE)
  note c = created_goal_revision [OF r]
  have id: "gr_goal_id r = id_or_event b e" using c by auto
  show ?thesis
  proof (rule goal_migrated [OF assms(2) _ _ rec])
    show "check_goal_revision r = Inr ()" using c by simp
    fix c' assume "current_goal_revision s (gr_goal_id r) = Some c'"
    then show "gr_kind r = gr_kind c' \<and> gr_origin r = gr_origin c' \<and>
        gr_governing_goal_refs r = gr_governing_goal_refs c'"
      using c o1 id by auto
  qed
qed

lemma migrated_commitment:
  assumes "is_legacy_intent_event e" "co_id c = i"
  shows "strategy_change s e (store_commitment s i c)"
    and "strategy_change s e ((store_commitment s i c)\<lparr>sp_commitment_transitions := d\<rparr>)"
proof -
  show t: "strategy_change s e ((store_commitment s i c)\<lparr>sp_commitment_transitions := d\<rparr>)" for d
    by (rule commitment_migrated [OF assms(1), where c = c and d = d]) (simp add: assms(2))
  show "strategy_change s e (store_commitment s i c)"
    using t [of "sp_commitment_transitions s"] by (simp add: store_commitment_def)
qed

lemma legacy_commitment_change:
  assumes "apply_legacy_commitment b s e operation = Inr (h, s')" "is_legacy_intent_event e"
    and keyed: "\<And>i c. map_of (sp_commitments s) i = Some c \<Longrightarrow> co_id c = i"
  shows "strategy_change s e s'"
proof (cases "map_of (sp_commitments s) (id_or_event b e)")
  case None
  with assms(1) show ?thesis
    by (auto simp: apply_legacy_commitment_def Let_def elim!: rbindE split: if_splits
        intro: ignored migrated_commitment [OF assms(2)])
next
  case (Some c)
  with assms(1) show ?thesis
    unfolding apply_legacy_commitment_def Let_def
    by (auto elim!: rbindE split: if_splits intro!: migrated_commitment [OF assms(2)] simp: keyed [OF Some])
qed

lemma if_InrE:
  "(if c then m else n) = Inr x \<Longrightarrow> (c \<Longrightarrow> m = Inr x \<Longrightarrow> P) \<Longrightarrow> (\<not> c \<Longrightarrow> n = Inr x \<Longrightarrow> P) \<Longrightarrow> P"
  by (cases c) auto

lemma handledE: "rbind r (\<lambda>s'. Inr (True, s')) = Inr (h, s') \<Longrightarrow> (r = Inr s' \<Longrightarrow> P) \<Longrightarrow> P"
  by (auto elim!: rbindE)

lemma event_changes:
  assumes native: "\<not> is_legacy_intent_event e"
  shows "apply_goal_event b s e = Inr s' \<Longrightarrow> strategy_change s e s'"
    and "apply_roadmap_event b s e = Inr s' \<Longrightarrow> strategy_change s e s'"
    and "apply_commitment_event b s e = Inr s' \<Longrightarrow> strategy_change s e s'"
    and "apply_transition_event b s e = Inr s' \<Longrightarrow> strategy_change s e s'"
    and "apply_roles_event b s e = Inr s' \<Longrightarrow> strategy_change s e s'"
    and "apply_assistance_event b s e = Inr s' \<Longrightarrow> strategy_change s e s'"
    and "apply_external_event b s e = Inr s' \<Longrightarrow> strategy_change s e s'"
    and "apply_proposal_event b s e = Inr s' \<Longrightarrow> strategy_change s e s'"
    and "apply_admitted_order b s e = Inr s' \<Longrightarrow> strategy_change s e s'"
proof -
  show "apply_goal_event b s e = Inr s' \<Longrightarrow> strategy_change s e s'"
    unfolding apply_goal_event_def
    by (elim rbindE) (rule goal_revised [OF native goal_revision_from_dict_checked], assumption, simp_all)
  show "apply_roadmap_event b s e = Inr s' \<Longrightarrow> strategy_change s e s'"
    unfolding apply_roadmap_event_def
    by (elim rbindE) (rule roadmap_revised [OF native roadmap_revision_from_dict_checked], assumption, simp_all)
  show "apply_commitment_event b s e = Inr s' \<Longrightarrow> strategy_change s e s'"
    unfolding apply_commitment_event_def by (elim rbindE) (rule commitment_made [OF native], simp_all)
  show "apply_transition_event b s e = Inr s' \<Longrightarrow> strategy_change s e s'"
    unfolding apply_transition_event_def by (elim rbindE) (rule commitment_moved [OF native], simp_all)
  show "apply_roles_event b s e = Inr s' \<Longrightarrow> strategy_change s e s'"
    unfolding apply_roles_event_def by (auto elim!: rbindE intro: roles_assigned [OF native])
  show "apply_assistance_event b s e = Inr s' \<Longrightarrow> strategy_change s e s'"
    unfolding apply_assistance_event_def by (auto elim!: rbindE intro: assistance_granted [OF native])
  show "apply_external_event b s e = Inr s' \<Longrightarrow> strategy_change s e s'"
    unfolding apply_external_event_def Let_def by (auto elim!: rbindE intro: external_observed [OF native])
  show "apply_proposal_event b s e = Inr s' \<Longrightarrow> strategy_change s e s'"
    unfolding apply_proposal_event_def by (auto elim!: rbindE intro: work_proposed [OF native])
  show "strategy_change s e s'" if a: "apply_admitted_order b s e = Inr s'"
  proof -
    obtain w u d where w: "foldM (\<lambda>_. validate_work_admission_structure s) ()
          (filter (\<lambda>p. wo_id (wop_work_order p) = wo_id w) (map snd (sp_work_proposals s))) = Inr u"
        "record_immutable (sp_admitted_orders s) (wo_id w) w ''work order'' = Inr d" "s' = s\<lparr>sp_admitted_orders := d\<rparr>"
      using a unfolding apply_admitted_order_def by (auto elim!: rbindE)
    have "validate_work_admission_structure s p = Inr ()"
      if "p \<in> snd ` set (sp_work_proposals s)" "wo_id (wop_work_order p) = wo_id w" for p
      using foldM_unit [OF w(1), of p] that by auto
    with w(2,3) show ?thesis by (auto intro: work_admitted [OF native])
  qed
qed

lemma strategy_event_change:
  assumes "apply_strategy_event b s e = Inr (h, s')"
    and keyed: "\<And>i c. map_of (sp_commitments s) i = Some c \<Longrightarrow> co_id c = i"
  shows "strategy_change s e s'"
proof (cases "is_legacy_intent_event e")
  case True
  with assms(1) have "apply_legacy b s e = Inr (h, s')" by (simp add: apply_strategy_event_def Let_def)
  then show ?thesis
    unfolding apply_legacy_def
    by (elim rbindE if_InrE) (erule legacy_goal_change [OF _ True],
      erule legacy_commitment_change [OF _ True keyed], simp_all add: ignored)
next
  case False
  show ?thesis
    using assms(1) unfolding apply_strategy_event_def Let_def if_not_P [OF False]
    by (elim if_InrE handledE) (auto elim!: rbindE intro: ignored graph_accepted [OF False] event_changes [OF False])
qed

lemma strategy_stepD:
  assumes "strategy_step b s e = Inr s'"
  shows "s' = s \<or> (\<exists>h t n. apply_strategy_event b s e = Inr (h, t) \<and> ev_sequence e = Some n \<and> sp_last_sequence s < n \<and>
     map_of (sp_events s) (ev_id e) = None \<and>
     s' = t\<lparr>sp_events := AList.update (ev_id e) e (sp_events t), sp_last_sequence := n\<rparr>)"
  using assms by (auto simp: strategy_step_def strategy_apply_def elim!: rbindE split: option.splits if_splits)

subsection \<open>Acyclic roadmaps\<close>

text \<open>
  The loop of \<open>_require_dag\<close> is that of the planner with another inner order, so the planner's invariant
  carries over: it visits every outcome exactly when the dependencies have no cycle.
\<close>

definition dependency_edges :: "roadmap_revision \<Rightarrow> work_dependency list" where
  "dependency_edges r = concat (map (\<lambda>v. map (\<lambda>d. \<lparr>wd_predecessor_id = d, wd_successor_id = on_node_id v\<rparr>)
     (on_approximate_dependencies v)) (rr_outcome_nodes r))"

definition dependency_rel :: "roadmap_revision \<Rightarrow> (string \<times> string) set" where
  "dependency_rel r = {(d, on_node_id v) | d v. v \<in> set (rr_outcome_nodes r) \<and> d \<in> set (on_approximate_dependencies v)}"

lemma dep_rel_edges: "dep_rel (dependency_edges r) = dependency_rel r"
  by (force simp: dep_rel_def dependency_edges_def dependency_rel_def)

lemma outcome_dependencies_edges:
  assumes "distinct (outcome_ids r)"
  shows "outcome_dependencies r = deps_predecessors (dependency_edges r)"
proof
  fix n
  show "outcome_dependencies r n = deps_predecessors (dependency_edges r) n"
  proof (cases "n \<in> set (outcome_ids r)")
    case True
    then obtain v where v: "v \<in> set (rr_outcome_nodes r)" "on_node_id v = n" by (auto simp: outcome_ids_def)
    have only: "w = v" if "w \<in> set (rr_outcome_nodes r)" "on_node_id w = n" for w
      using that v assms by (auto simp: outcome_ids_def distinct_map inj_on_def)
    have "deps_predecessors (dependency_edges r) n = set (on_approximate_dependencies v)"
    proof (rule set_eqI)
      fix d show "d \<in> deps_predecessors (dependency_edges r) n \<longleftrightarrow> d \<in> set (on_approximate_dependencies v)"
        unfolding deps_predecessors_rel dep_rel_edges dependency_rel_def mem_Collect_eq Pair_inject
        using v only by blast
    qed
    moreover have "map_of (map (\<lambda>v. (on_node_id v, set (on_approximate_dependencies v))) (rr_outcome_nodes r)) n =
        Some (set (on_approximate_dependencies v))"
      by (rule map_of_is_SomeI) (use assms v in \<open>auto simp: outcome_ids_def comp_def\<close>)
    ultimately show ?thesis by (simp add: outcome_dependencies_def)
  next
    case False
    then have "map_of (map (\<lambda>v. (on_node_id v, set (on_approximate_dependencies v))) (rr_outcome_nodes r)) n = None"
      by (auto simp: map_of_eq_None_iff outcome_ids_def)
    moreover have "deps_predecessors (dependency_edges r) n = {}"
      using False by (auto simp: deps_predecessors_rel dep_rel_edges dependency_rel_def outcome_ids_def)
    ultimately show ?thesis by (simp add: outcome_dependencies_def)
  qed
qed

lemma release_outcomes_as_successors:
  "distinct ss \<Longrightarrow> release_outcomes n ss visited ready remaining =
     release_successors n (filter (\<lambda>s. n \<in> remaining s) ss) visited ready remaining"
proof (induction n ss visited ready remaining rule: release_outcomes.induct)
  case (2 n s ss visited ready remaining)
  have "filter (\<lambda>t. n \<in> (if t = s then remaining s - {n} else remaining t)) ss = filter (\<lambda>t. n \<in> remaining t) ss"
    using "2.prems" by (intro filter_cong) auto
  with 2 show ?case by (auto simp: Let_def fun_upd_def)
qed simp

lemma dag_rounds_inv:
  assumes "kahn_inv (set ids) ds ready visited remaining" "dep_rel ds \<subseteq> set ids \<times> set ids" "distinct ids"
    and "card (set ids) \<le> k + length visited" "dag_rounds k ids ready visited remaining = (ready', visited')"
  shows "\<exists>remaining'. kahn_inv (set ids) ds [] visited' remaining'"
  using assms
proof (induction k ids ready visited remaining rule: dag_rounds.induct)
  case (1 ids ready visited remaining)
  then have d: "distinct (visited @ ready)" "set (visited @ ready) \<subseteq> set ids" "card (set ids) \<le> length visited"
    by (auto simp: kahn_inv_def)
  have "length (visited @ ready) \<le> card (set ids)"
    using card_mono [OF finite_set d(2)] distinct_card [OF d(1)] by simp
  then have "length ready = 0" using d(3) unfolding length_append by linarith
  with 1 show ?case by auto
next
  case (3 k ids n ready visited remaining)
  obtain r1 m1 where rel: "release_outcomes n ids (visited @ [n]) ready remaining = (r1, m1)" by fastforce
  let ?ss = "filter (\<lambda>s. n \<in> remaining s) ids"
  have "set ?ss = deps_successors ds n"
    using "3.prems"(1,2) by (auto simp: kahn_inv_def deps_successors_rel deps_predecessors_rel)
  then have inv: "kahn_inv (set ids) ds r1 (visited @ [n]) m1"
    using rel "3.prems"(3)
    by (intro kahn_inv_step [OF "3.prems"(1,2), where ss = ?ss]) (simp_all add: release_outcomes_as_successors)
  show ?case
    using "3.IH" [OF rel [symmetric] refl inv "3.prems"(2,3)] "3.prems"(4,5) rel by (simp add: Let_def)
qed auto

lemma require_dag_iff:
  assumes "distinct (outcome_ids r)" "dependency_rel r \<subseteq> set (outcome_ids r) \<times> set (outcome_ids r)"
  shows "require_dag r = Inr () \<longleftrightarrow> acyclic (dependency_rel r)"
proof -
  let ?ids = "outcome_ids r" and ?ds = "dependency_edges r"
  have rel: "dep_rel ?ds \<subseteq> set ?ids \<times> set ?ids" using assms(2) by (simp add: dep_rel_edges)
  obtain rd v where run: "dag_rounds (length ?ids) ?ids (sort (filter (\<lambda>n. deps_predecessors ?ds n = {}) ?ids)) []
      (deps_predecessors ?ds) = (rd, v)" by fastforce
  have "card (set ?ids) \<le> length ?ids + length []" by (simp add: card_length)
  then obtain m where "kahn_inv (set ?ids) ?ds [] v m"
    using dag_rounds_inv [OF kahn_inv_initial [OF assms(1)] rel assms(1) _ run] by auto
  from kahn_inv_complete_iff(3) [OF this assms(1) rel] run show ?thesis
    by (simp add: require_dag_def Let_def outcome_dependencies_edges [OF assms(1)] dep_rel_edges)
qed

lemma validated_roadmap:
  assumes "validate_roadmap_revision_structure s r = Inr ()" "check_roadmap_revision r = Inr ()"
  shows "distinct (outcome_ids r)" "dependency_rel r \<subseteq> set (outcome_ids r) \<times> set (outcome_ids r)"
    "acyclic (dependency_rel r)"
proof -
  show d: "distinct (outcome_ids r)"
    using assms(2) by (simp add: check_roadmap_revision_def raise_first_no_errors outcome_ids_def del: raise_first_ok)
  have "\<not> list_ex (\<lambda>v. list_ex (\<lambda>d. d \<notin> set (outcome_ids r)) (on_approximate_dependencies v)) (rr_outcome_nodes r)"
    and dag: "require_dag r = Inr ()"
    using assms(1) by (auto simp: validate_roadmap_revision_structure_def Let_def elim!: rbindE)
  then show sub: "dependency_rel r \<subseteq> set (outcome_ids r) \<times> set (outcome_ids r)"
    by (auto simp: dependency_rel_def list_ex_iff outcome_ids_def)
  show "acyclic (dependency_rel r)" using require_dag_iff [OF d sub] dag by simp
qed

subsection \<open>The invariant\<close>

definition goals_versioned :: "strategy \<Rightarrow> bool" where
  "goals_versioned s = versioned gr_revision_id gr_goal_id gr_version gr_supersedes_revision_id
     (sp_goal_revisions s) (sp_goal_history s) (sp_current_goal s)"

definition roadmaps_versioned :: "strategy \<Rightarrow> bool" where
  "roadmaps_versioned s = versioned rr_revision_id rr_roadmap_id rr_version rr_supersedes_revision_id
     (sp_roadmap_revisions s) (sp_roadmap_history s) (sp_current_roadmap s)"

definition sound_roadmap :: "roadmap_revision \<Rightarrow> bool" where
  "sound_roadmap r \<longleftrightarrow> distinct (outcome_ids r) \<and> dependency_rel r \<subseteq> set (outcome_ids r) \<times> set (outcome_ids r) \<and>
     acyclic (dependency_rel r)"

text \<open>The current version of a commitment is the last one recorded.\<close>

definition last_versions :: "(string \<times> commitment) list \<Rightarrow> (string \<times> commitment list) list \<Rightarrow> bool" where
  "last_versions d vs \<longleftrightarrow>
     (\<forall>i. map_of d i = (if entries vs i = [] then None else Some (last (entries vs i))))"

definition values_all :: "('v \<Rightarrow> bool) \<Rightarrow> (string \<times> 'v) list \<Rightarrow> bool" where
  "values_all P d \<longleftrightarrow> (\<forall>i v. map_of d i = Some v \<longrightarrow> P v)"

lemma dictionary_inv_update [inv_intros]:
  "last_versions d vs \<Longrightarrow> last_versions (AList.update i c d) (append_entry i c vs)"
  "values_all P r \<Longrightarrow> P v \<Longrightarrow> values_all P (AList.update k v r)"
  by (auto simp: last_versions_def values_all_def map_of_update entries_append_entry)

lemmas keyed_intros [inv_intros] = keyed_by_update

definition strategy_inv :: "strategy \<Rightarrow> bool" where
  "strategy_inv s \<longleftrightarrow> goals_versioned s \<and> roadmaps_versioned s \<and>
     last_versions (sp_commitments s) (sp_commitment_versions s) \<and>
     values_all sound_roadmap (sp_roadmap_revisions s) \<and>
     keyed_by co_id (sp_commitments s) \<and> keyed_by ora_assignment_id (sp_roles s) \<and>
     keyed_by wop_proposal_id (sp_work_proposals s)"

lemma strategy_inv_empty: "strategy_inv empty_strategy"
  by (simp add: strategy_inv_def goals_versioned_def roadmaps_versioned_def last_versions_def values_all_def keyed_by_def
      empty_strategy_def entries_def)

lemma checked_revision_ids:
  "check_goal_revision r = Inr () \<Longrightarrow> gr_revision_id r \<noteq> []"
  "check_roadmap_revision q = Inr () \<Longrightarrow> rr_revision_id q \<noteq> []"
  by (auto simp: check_goal_revision_def check_roadmap_revision_def raise_first_no_errors simp del: raise_first_ok)

lemma recorded_goal:
  assumes "record_goal_revision s r e = Inr s'" "check_goal_revision r = Inr ()" "goals_versioned s"
  shows "map_of (sp_goal_revisions s) (gr_revision_id r) = None \<and> goals_versioned s' \<and>
    s' = s\<lparr>sp_goal_revisions := AList.update (gr_revision_id r) r (sp_goal_revisions s),
      sp_goal_history := append_entry (gr_goal_id r) (gr_revision_id r) (sp_goal_history s),
      sp_current_goal := AList.update (gr_goal_id r) (gr_revision_id r) (sp_current_goal s)\<rparr>"
proof -
  obtain d where d: "record_immutable (sp_goal_revisions s) (gr_revision_id r) r ''goal revision'' = Inr d"
    and next_version: "gr_version r = next_goal_version s (gr_goal_id r)"
      "gr_supersedes_revision_id r = goal_predecessor s (gr_goal_id r)"
    and s': "s' = s\<lparr>sp_goal_revisions := d,
      sp_goal_history := append_entry (gr_goal_id r) (gr_revision_id r) (sp_goal_history s),
      sp_current_goal := AList.update (gr_goal_id r) (gr_revision_id r) (sp_current_goal s)\<rparr>"
    using assms(1) unfolding record_goal_revision_def Let_def by (auto elim!: rbindE)
  have v: "versioned gr_revision_id gr_goal_id gr_version gr_supersedes_revision_id
     (sp_goal_revisions s) (sp_goal_history s) (sp_current_goal s)"
    using assms(3) by (simp add: goals_versioned_def)
  note rec = versioned_record [OF v checked_revision_ids(1) [OF assms(2)] _ _ d]
  have "map_of (sp_goal_revisions s) (gr_revision_id r) = None \<and> goals_versioned s'"
    unfolding goals_versioned_def s'
    using rec next_version by (simp add: next_goal_version_def goal_predecessor_def current_goal_revision_def)
  then show ?thesis using s' d by (simp add: record_immutable_result)
qed

lemma recorded_roadmap:
  assumes "record_roadmap_revision s r e = Inr s'" "check_roadmap_revision r = Inr ()" "roadmaps_versioned s"
  shows "map_of (sp_roadmap_revisions s) (rr_revision_id r) = None \<and> roadmaps_versioned s' \<and>
    s' = s\<lparr>sp_roadmap_revisions := AList.update (rr_revision_id r) r (sp_roadmap_revisions s),
      sp_roadmap_history := append_entry (rr_roadmap_id r) (rr_revision_id r) (sp_roadmap_history s),
      sp_current_roadmap := AList.update (rr_roadmap_id r) (rr_revision_id r) (sp_current_roadmap s)\<rparr>"
proof -
  obtain d where d: "record_immutable (sp_roadmap_revisions s) (rr_revision_id r) r ''roadmap revision'' = Inr d"
    and next_version: "rr_version r = next_roadmap_version s (rr_roadmap_id r)"
      "rr_supersedes_revision_id r = roadmap_predecessor s (rr_roadmap_id r)"
    and s': "s' = s\<lparr>sp_roadmap_revisions := d,
      sp_roadmap_history := append_entry (rr_roadmap_id r) (rr_revision_id r) (sp_roadmap_history s),
      sp_current_roadmap := AList.update (rr_roadmap_id r) (rr_revision_id r) (sp_current_roadmap s)\<rparr>"
    using assms(1) unfolding record_roadmap_revision_def Let_def by (auto elim!: rbindE)
  have v: "versioned rr_revision_id rr_roadmap_id rr_version rr_supersedes_revision_id
     (sp_roadmap_revisions s) (sp_roadmap_history s) (sp_current_roadmap s)"
    using assms(3) by (simp add: roadmaps_versioned_def)
  note rec = versioned_record [OF v checked_revision_ids(2) [OF assms(2)] _ _ d]
  have "map_of (sp_roadmap_revisions s) (rr_revision_id r) = None \<and> roadmaps_versioned s'"
    unfolding roadmaps_versioned_def s'
    using rec next_version by (simp add: next_roadmap_version_def roadmap_predecessor_def current_roadmap_revision_def)
  then show ?thesis using s' d by (simp add: record_immutable_result)
qed

text \<open>A transition is recorded as the commitment's next version.\<close>

lemma recorded_transition:
  "record_transition s x e = Inr s' \<Longrightarrow> \<exists>c. map_of (sp_commitments s) (ct_commitment_id x) = Some c \<and>
     co_status c = ct_from_state x \<and>
     s' = (store_commitment s (co_id c) (transitioned c x))\<lparr>sp_commitment_transitions :=
       append_entry (co_id c) x (sp_commitment_transitions s)\<rparr>"
  by (auto simp: record_transition_def split: option.splits elim!: rbindE)

lemma recorded_commitment: "record_commitment s c e = Inr s' \<Longrightarrow> s' = store_commitment s (co_id c) c"
  by (auto simp: record_commitment_def elim!: rbindE)

lemma transitioned_id [simp]: "co_id (transitioned c x) = co_id c"
  by (simp add: transitioned_def)

lemmas strategy_inv_fields = strategy_inv_def goals_versioned_def roadmaps_versioned_def store_commitment_def
  record_immutable_result

lemma strategy_change_inv:
  assumes "strategy_change s e s'" "strategy_inv s"
  shows "strategy_inv s'"
  using assms(1)
proof cases
  case ignored
  with assms(2) show ?thesis by simp
next
  case (goal_revised r)
  have g: "goals_versioned s" using assms(2) by (simp add: strategy_inv_def)
  show ?thesis
    using assms(2) recorded_goal [OF goal_revised(4,2) g] unfolding strategy_inv_def
    by (elim conjE) (simp add: roadmaps_versioned_def)
next
  case (goal_migrated r)
  have g: "goals_versioned s" using assms(2) by (simp add: strategy_inv_def)
  show ?thesis
    using assms(2) recorded_goal [OF goal_migrated(4,2) g] unfolding strategy_inv_def
    by (elim conjE) (simp add: roadmaps_versioned_def)
next
  case (roadmap_revised r)
  have "sound_roadmap r" using validated_roadmap [OF roadmap_revised(3,2)] by (simp add: sound_roadmap_def)
  moreover have g: "roadmaps_versioned s" using assms(2) by (simp add: strategy_inv_def)
  ultimately show ?thesis
    using assms(2) recorded_roadmap [OF roadmap_revised(4,2) g] unfolding strategy_inv_def
    by (elim conjE) (simp add: goals_versioned_def inv_intros)
next
  case (commitment_made c a)
  with assms(2) recorded_commitment [OF commitment_made(3)] show ?thesis by (simp add: strategy_inv_fields inv_intros)
next
  case (commitment_moved x a)
  then obtain c where "map_of (sp_commitments s) (ct_commitment_id x) = Some c" and
    "s' = (store_commitment s (co_id c) (transitioned c x))\<lparr>sp_commitment_transitions :=
       append_entry (co_id c) x (sp_commitment_transitions s)\<rparr>"
    using recorded_transition by blast
  with assms(2) show ?thesis by (simp add: strategy_inv_fields inv_intros)
next
  case (commitment_migrated c d)
  with assms(2) show ?thesis by (simp add: strategy_inv_fields inv_intros)
qed (use assms(2) in \<open>simp_all add: strategy_inv_fields inv_intros\<close>)

lemma strategy_step_result:
  assumes "strategy_step b s e = Inr s'" "strategy_inv s"
  shows "s' = s \<or> (\<exists>t n. strategy_change s e t \<and> ev_sequence e = Some n \<and> sp_last_sequence s < n \<and>
     s' = t\<lparr>sp_events := AList.update (ev_id e) e (sp_events t), sp_last_sequence := n\<rparr>)"
proof -
  have "co_id c = i" if "map_of (sp_commitments s) i = Some c" for i c
    using assms(2) that by (auto simp: strategy_inv_def intro: keyed_by_lookup)
  then show ?thesis using strategy_stepD [OF assms(1)] strategy_event_change [of b s e] by blast
qed

lemma strategy_inv_bookkeeping [simp]:
  "strategy_inv (s\<lparr>sp_events := v, sp_last_sequence := n\<rparr>) = strategy_inv s"
  by (simp add: strategy_inv_def goals_versioned_def roadmaps_versioned_def)

lemma strategy_step_inv:
  assumes "strategy_inv s" "strategy_step b s e = Inr s'"
  shows "strategy_inv s'"
  using strategy_step_result [OF assms(2,1)] strategy_change_inv [OF _ assms(1)] assms(1) by auto

subsection \<open>What later events keep\<close>

text \<open>Histories are extended at the end, and recorded values never change.\<close>

definition longer_entries :: "(string \<times> 'v list) list \<Rightarrow> (string \<times> 'v list) list \<Rightarrow> bool" where
  "longer_entries d d' \<longleftrightarrow> (\<forall>k. \<exists>vs. entries d' k = entries d k @ vs)"

definition extends_dict :: "(string \<times> 'v) list \<Rightarrow> (string \<times> 'v) list \<Rightarrow> bool" where
  "extends_dict d d' \<longleftrightarrow> map_of d \<subseteq>\<^sub>m map_of d'"

definition strategy_advances :: "strategy \<Rightarrow> strategy \<Rightarrow> bool" where
  "strategy_advances s s' \<longleftrightarrow>
     extends_dict (sp_goal_revisions s) (sp_goal_revisions s') \<and> longer_entries (sp_goal_history s) (sp_goal_history s') \<and>
     extends_dict (sp_roadmap_revisions s) (sp_roadmap_revisions s') \<and>
     longer_entries (sp_roadmap_history s) (sp_roadmap_history s') \<and>
     longer_entries (sp_commitment_versions s) (sp_commitment_versions s') \<and>
     extends_dict (sp_roles s) (sp_roles s') \<and> extends_dict (sp_assistance s) (sp_assistance s') \<and>
     longer_entries (sp_external_history s) (sp_external_history s') \<and>
     extends_dict (sp_work_proposals s) (sp_work_proposals s') \<and>
     extends_dict (sp_admitted_orders s) (sp_admitted_orders s') \<and>
     set (sp_work_graph_ids s) \<subseteq> set (sp_work_graph_ids s')"

lemma dict_advance [intro]:
  "longer_entries d d" "extends_dict w w" "longer_entries d (append_entry k v d)"
  "map_of w k' = None \<or> map_of w k' = Some x \<Longrightarrow> extends_dict w (AList.update k' x w)"
  by (auto simp: longer_entries_def extends_dict_def entries_append_entry map_of_update map_le_def)

lemma dict_advance_trans:
  "longer_entries d d' \<Longrightarrow> longer_entries d' d'' \<Longrightarrow> longer_entries d d''"
  "extends_dict w w' \<Longrightarrow> extends_dict w' w'' \<Longrightarrow> extends_dict w w''"
proof -
  show "longer_entries d d'' " if a: "longer_entries d d'" and b: "longer_entries d' d''"
    unfolding longer_entries_def
  proof
    fix k
    obtain vs ws where "entries d' k = entries d k @ vs" "entries d'' k = entries d' k @ ws"
      using a b by (meson longer_entries_def)
    then show "\<exists>us. entries d'' k = entries d k @ us" by simp
  qed
qed (auto simp: extends_dict_def intro: map_le_trans)

lemma strategy_advances_refl: "strategy_advances s s"
  by (auto simp: strategy_advances_def)

lemma strategy_advances_trans: "strategy_advances s s' \<Longrightarrow> strategy_advances s' s'' \<Longrightarrow> strategy_advances s s''"
  unfolding strategy_advances_def by (elim conjE) (intro conjI; (erule (1) dict_advance_trans)?; simp)

lemma strategy_change_advances:
  assumes "strategy_change s e s'" "strategy_inv s"
  shows "strategy_advances s s'"
  using assms(1)
proof cases
  case (goal_revised r)
  have g: "goals_versioned s" using assms(2) by (simp add: strategy_inv_def)
  show ?thesis using recorded_goal [OF goal_revised(4,2) g] by (auto simp: strategy_advances_def)
next
  case (goal_migrated r)
  have g: "goals_versioned s" using assms(2) by (simp add: strategy_inv_def)
  show ?thesis using recorded_goal [OF goal_migrated(4,2) g] by (auto simp: strategy_advances_def)
next
  case (roadmap_revised r)
  have g: "roadmaps_versioned s" using assms(2) by (simp add: strategy_inv_def)
  show ?thesis using recorded_roadmap [OF roadmap_revised(4,2) g] by (auto simp: strategy_advances_def)
next
  case (commitment_made c a)
  then show ?thesis by (auto simp: strategy_advances_def store_commitment_def dest!: recorded_commitment)
next
  case (commitment_moved x a)
  then show ?thesis by (auto simp: strategy_advances_def store_commitment_def dest!: recorded_transition)
qed (auto simp: strategy_advances_def store_commitment_def record_immutable_result strategy_advances_refl)

interpretation strategy: append_only empty_strategy "strategy_step b" strategy_inv strategy_advances
  for b
proof
  show "strategy_inv empty_strategy" by (rule strategy_inv_empty)
  show "strategy_inv s \<Longrightarrow> strategy_step b s e = Inr s' \<Longrightarrow> strategy_inv s'" for s e s' by (rule strategy_step_inv)
  show "strategy_advances s s" for s by (rule strategy_advances_refl)
  show "strategy_advances s s' \<Longrightarrow> strategy_advances s' s'' \<Longrightarrow> strategy_advances s s''" for s s' s''
    by (rule strategy_advances_trans)
  show "strategy_advances s s'" if a: "strategy_inv s" "strategy_step b s e = Inr s'" for s e s'
    using strategy_step_result [OF a(2,1)]
  proof (elim disjE exE conjE)
    fix t n assume t: "strategy_change s e t"
      "s' = t\<lparr>sp_events := AList.update (ev_id e) e (sp_events t), sp_last_sequence := n\<rparr>"
    show ?thesis using strategy_change_advances [OF t(1) a(1)] unfolding t(2) strategy_advances_def by simp
  qed (simp add: strategy_advances_refl)
qed

text \<open>C36: the revisions of a goal form one chain whose entries never change. After any replay, the versions
  in a goal's history count from one, each revision names the one before it, and the last one is the current
  revision; whatever was in the history after a prefix of the events is still there at the same place.\<close>

theorem goal_history_is_an_immutable_chain:
  assumes "strategy_rebuild b (es @ fs) = Inr s'"
  shows "\<exists>s. strategy_rebuild b es = Inr s \<and>
     (\<forall>g. (\<exists>later. goal_history s' g = goal_history s g @ later) \<and>
       (let h = goal_history s' g in
        map gr_version h = map int [1 ..< Suc (length h)] \<and> list_all (\<lambda>r. gr_goal_id r = g) h \<and>
        map gr_supersedes_revision_id h = take (length h) (None # map (Some \<circ> gr_revision_id) h) \<and>
        current_goal_revision s' g = (if h = [] then None else Some (last h))))"
proof -
  obtain s where s: "strategy_rebuild b es = Inr s" "strategy_inv s" "strategy_inv s'" "strategy_advances s s'"
    using strategy.history_kept [of b es fs s'] assms by (auto simp: strategy_rebuild_def)
  have v: "versioned gr_revision_id gr_goal_id gr_version gr_supersedes_revision_id
      (sp_goal_revisions x) (sp_goal_history x) (sp_current_goal x)" if "x = s \<or> x = s'" for x
    using s that by (auto simp: strategy_inv_def goals_versioned_def)
  have "(\<exists>later. goal_history s' g = goal_history s g @ later) \<and>
      (let h = goal_history s' g in
        map gr_version h = map int [1 ..< Suc (length h)] \<and> list_all (\<lambda>r. gr_goal_id r = g) h \<and>
        map gr_supersedes_revision_id h = take (length h) (None # map (Some \<circ> gr_revision_id) h) \<and>
        current_goal_revision s' g = (if h = [] then None else Some (last h)))" for g
  proof -
    obtain vs where vs: "entries (sp_goal_history s') g = entries (sp_goal_history s) g @ vs"
      using s(4) unfolding strategy_advances_def by (meson longer_entries_def)
    have "map_of (sp_goal_revisions s') i = map_of (sp_goal_revisions s) i"
      if "i \<in> set (entries (sp_goal_history s) g)" for i
    proof -
      have "i \<in> dom (map_of (sp_goal_revisions s))" using versionedD(2) [OF v that] by simp
      then show ?thesis using s(4) by (auto simp: strategy_advances_def extends_dict_def map_le_def)
    qed
    then have "goal_history s' g = goal_history s g @ map (\<lambda>i. the (map_of (sp_goal_revisions s') i)) vs"
      by (simp add: goal_history_def vs)
    moreover have "chained gr_revision_id gr_goal_id gr_version gr_supersedes_revision_id g (goal_history s' g)"
      using versionedD(3) [OF v [of s']] by (simp add: goal_history_def)
    moreover have "current_goal_revision s' g = (let h = goal_history s' g in if h = [] then None else Some (last h))"
      using versioned_current [OF v [of s'], of g] by (simp add: current_goal_revision_def goal_history_def)
    ultimately show ?thesis unfolding chained_def Let_def by blast
  qed
  with s(1) show ?thesis by blast
qed

subsection \<open>Commitments\<close>

text \<open>One version of a commitment follows another along a permitted transition, for the same obligation.\<close>

definition follows :: "commitment \<Rightarrow> commitment \<Rightarrow> bool" where
  "follows c c' \<longleftrightarrow> co_status c' \<in> set (allowed_transitions (co_status c)) \<and> co_id c' = co_id c \<and>
     co_owner c' = co_owner c \<and> co_description c' = co_description c \<and> co_goal_refs c' = co_goal_refs c \<and>
     co_outcome_node_id c' = co_outcome_node_id c \<and> co_created_at c' = co_created_at c"

definition legal_history :: "commitment list \<Rightarrow> bool" where
  "legal_history h \<longleftrightarrow> successively follows h \<and>
     (h \<noteq> [] \<longrightarrow> co_status (hd h) \<in> {CProposed, CAccepted, CActive}) \<and>
     list_all (\<lambda>c. co_status c = CClosed \<longleftrightarrow> co_closure_reason c \<noteq> None) h"

lemma legal_history_simps [simp]:
  "legal_history []"
  "legal_history [c] \<longleftrightarrow> co_status c \<in> {CProposed, CAccepted, CActive} \<and> co_closure_reason c = None"
  "h \<noteq> [] \<Longrightarrow> legal_history (h @ [c]) \<longleftrightarrow> legal_history h \<and> follows (last h) c \<and>
     (co_status c = CClosed \<longleftrightarrow> co_closure_reason c \<noteq> None)"
  by (auto simp: legal_history_def successively_append_iff)

lemma validated_commitment:
  assumes "validate_commitment_structure s c a = Inr ()"
  shows "map_of (sp_commitments s) (co_id c) = None" "co_status c \<in> {CProposed, CAccepted, CActive}"
    "co_closure_reason c = None"
proof -
  have "no_errors (commitment_admission_errors s c a)"
    using assms unfolding validate_commitment_structure_def
    by (auto simp: raise_first_no_errors simp del: raise_first_ok elim!: rbindE)
  then show "map_of (sp_commitments s) (co_id c) = None" "co_status c \<in> {CProposed, CAccepted, CActive}"
    "co_closure_reason c = None"
    by (auto simp: commitment_admission_errors_def)
qed

lemma validated_transition:
  assumes "validate_transition_structure s x a = Inr ()" "map_of (sp_commitments s) (ct_commitment_id x) = Some c"
  shows "ct_to_state x \<in> set (allowed_transitions (co_status c))"
    "ct_to_state x = CClosed \<longleftrightarrow> ct_closure_reason x \<noteq> None"
proof -
  have "no_errors (transition_errors c x a)"
    using assms unfolding validate_transition_structure_def
    by (auto simp: raise_first_no_errors simp del: raise_first_ok elim!: rbindE)
  then show "ct_to_state x \<in> set (allowed_transitions (co_status c))"
    "ct_to_state x = CClosed \<longleftrightarrow> ct_closure_reason x \<noteq> None"
    by (auto simp: transition_errors_def)
qed

lemma transitioned_follows:
  "ct_to_state x \<in> set (allowed_transitions (co_status c)) \<Longrightarrow> follows c (transitioned c x)"
  by (simp add: follows_def transitioned_def)

definition legal_commitments :: "strategy \<Rightarrow> bool" where
  "legal_commitments s \<longleftrightarrow> (\<forall>i. legal_history (commitment_history s i))"

lemma legal_commitments_step:
  assumes "legal_commitments s" "strategy_inv s" "strategy_change s e s'" "\<not> is_legacy_intent_event e"
  shows "legal_commitments s'"
  using assms(3)
proof cases
  case (goal_revised r)
  have g: "goals_versioned s" using assms(2) by (simp add: strategy_inv_def)
  show ?thesis
    using recorded_goal [OF goal_revised(4,2) g] assms(1) by (simp add: legal_commitments_def commitment_history_def)
next
  case (roadmap_revised r)
  have g: "roadmaps_versioned s" using assms(2) by (simp add: strategy_inv_def)
  show ?thesis
    using recorded_roadmap [OF roadmap_revised(4,2) g] assms(1)
    by (simp add: legal_commitments_def commitment_history_def)
next
  case (commitment_made c a)
  note c = validated_commitment [OF commitment_made(2)]
  have "entries (sp_commitment_versions s) (co_id c) = []"
    using assms(2) c(1) by (auto simp: strategy_inv_def last_versions_def split: if_splits)
  with c recorded_commitment [OF commitment_made(3)] assms(1) show ?thesis
    by (simp add: legal_commitments_def commitment_history_def store_commitment_def entries_append_entry)
next
  case (commitment_moved x a)
  obtain c where c: "map_of (sp_commitments s) (ct_commitment_id x) = Some c"
    and s': "s' = (store_commitment s (co_id c) (transitioned c x))\<lparr>sp_commitment_transitions :=
       append_entry (co_id c) x (sp_commitment_transitions s)\<rparr>"
    using recorded_transition [OF commitment_moved(3)] by blast
  note v = validated_transition [OF commitment_moved(2) c]
  have "co_id c = ct_commitment_id x" using assms(2) c by (auto simp: strategy_inv_def dest: keyed_by_lookup)
  then have "entries (sp_commitment_versions s) (co_id c) \<noteq> []" "last (entries (sp_commitment_versions s) (co_id c)) = c"
    using assms(2) c by (auto simp: strategy_inv_def last_versions_def split: if_splits)
  with v transitioned_follows [OF v(1)] assms(1) show ?thesis
    by (simp add: s' legal_commitments_def commitment_history_def store_commitment_def entries_append_entry)
      (simp add: transitioned_def)
qed (use assms in \<open>simp_all add: legal_commitments_def commitment_history_def\<close>)

text \<open>C37: without migrated events, a commitment only moves along the permitted transitions. In every replay of
  native events, the history of a commitment starts proposed, accepted or active; each version follows the one
  before it by a transition the lifecycle permits, for the same owner, goals and outcome; a version has a
  closure reason exactly if it is closed; and a closed version is the last one. (A migrated legacy event may
  set any status: \<open>commitment.updated\<close> reopens a closed commitment.)\<close>

theorem commitments_move_along_the_lifecycle:
  assumes "strategy_rebuild b events = Inr s" "list_all (\<lambda>e. \<not> is_legacy_intent_event e) events"
  shows "legal_history (commitment_history s i) \<and>
     (\<forall>j. Suc j < length (commitment_history s i) \<longrightarrow> co_status (commitment_history s i ! j) \<noteq> CClosed)"
proof -
  have "strategy_inv s \<and> legal_commitments s"
  proof (rule foldM_invariant [OF assms(1) [unfolded strategy_rebuild_def], where P = "\<lambda>s. strategy_inv s \<and> legal_commitments s"])
    show "strategy_inv empty_strategy \<and> legal_commitments empty_strategy"
      by (rule conjI [OF strategy_inv_empty])
        (simp add: legal_commitments_def commitment_history_def empty_strategy_def entries_def)
    fix t e t' assume e: "e \<in> set events" and t: "strategy_inv t \<and> legal_commitments t" and st: "strategy_step b t e = Inr t'"
    have native: "\<not> is_legacy_intent_event e" using assms(2) e by (simp add: list_all_iff)
    have "legal_commitments t'"
      using strategy_step_result [OF st conjunct1 [OF t]]
    proof (elim disjE exE conjE)
      fix u n assume u: "strategy_change t e u"
        "t' = u\<lparr>sp_events := AList.update (ev_id e) e (sp_events u), sp_last_sequence := n\<rparr>"
      show ?thesis
        using legal_commitments_step [OF conjunct2 [OF t] conjunct1 [OF t] u(1) native]
        by (simp add: u(2) legal_commitments_def commitment_history_def)
    qed (use t in simp)
    with strategy_step_inv [OF conjunct1 [OF t] st] show "strategy_inv t' \<and> legal_commitments t'" by simp
  qed
  then have legal: "legal_history (commitment_history s i)" by (simp add: legal_commitments_def)
  have "co_status (commitment_history s i ! j) \<noteq> CClosed" if "Suc j < length (commitment_history s i)" for j
  proof -
    have "follows (commitment_history s i ! j) (commitment_history s i ! Suc j)"
      using legal that by (auto simp: legal_history_def successively_conv_nth)
    then show ?thesis by (auto simp: follows_def allowed_transitions_def)
  qed
  with legal show ?thesis by blast
qed

subsection \<open>Pending work\<close>

lemma pending_work_alt:
  "pending_work s = int (length (filter (\<lambda>p. map_of (sp_admitted_orders s) (wo_id (wop_work_order p)) = None)
     (map snd (sp_work_proposals s))))"
  by (simp add: pending_work_def strategy_work_proposals_def filter_sort)

definition wip_limited :: "strategy \<Rightarrow> bool" where
  "wip_limited s \<longleftrightarrow> (\<forall>limit \<ge> 0. (\<forall>p \<in> snd ` set (sp_work_proposals s). wop_wip_limit p \<le> limit) \<longrightarrow> pending_work s \<le> limit)"

lemma wip_limited_cong:
  "sp_work_proposals s' = sp_work_proposals s \<Longrightarrow> sp_admitted_orders s' = sp_admitted_orders s \<Longrightarrow>
   wip_limited s' = wip_limited s"
  by (simp add: wip_limited_def pending_work_alt)

lemma validated_proposal: "validate_work_proposal_structure s p t = Inr () \<Longrightarrow> pending_work s < wop_wip_limit p"
  unfolding validate_work_proposal_structure_def by (auto elim!: rbindE split: option.splits)

lemma wip_limited_proposal:
  assumes "wip_limited s" "pending_work s < wop_wip_limit p"
    and "map_of (sp_work_proposals s) i = None \<or> map_of (sp_work_proposals s) i = Some p"
  shows "wip_limited (s\<lparr>sp_work_proposals := AList.update i p (sp_work_proposals s)\<rparr>)"
proof (cases "map_of (sp_work_proposals s) i")
  case None
  have "pending_work (s\<lparr>sp_work_proposals := AList.update i p (sp_work_proposals s)\<rparr>) \<le> pending_work s + 1"
    by (simp add: pending_work_alt update_new [OF None])
  with assms(2) show ?thesis by (force simp: wip_limited_def update_new [OF None])
next
  case (Some q)
  with assms show ?thesis by (simp add: update_present)
qed

lemma wip_limited_admission:
  assumes "wip_limited s" "extends_dict (sp_admitted_orders s) d"
  shows "wip_limited (s\<lparr>sp_admitted_orders := d\<rparr>)"
proof -
  have none: "map_of (sp_admitted_orders s) k = None" if "map_of d k = None" for k
    using that assms(2) by (force simp: extends_dict_def map_le_def dom_def)
  have "length (filter (\<lambda>p. map_of d (wo_id (wop_work_order p)) = None) ps) \<le>
      length (filter (\<lambda>p. map_of (sp_admitted_orders s) (wo_id (wop_work_order p)) = None) ps)"
    for ps :: "work_order_proposal list"
    using none by (induction ps) (auto simp: le_SucI)
  from this [of "map snd (sp_work_proposals s)"]
  have "pending_work (s\<lparr>sp_admitted_orders := d\<rparr>) \<le> pending_work s" by (simp add: pending_work_alt)
  with assms(1) show ?thesis by (force simp: wip_limited_def)
qed

lemma wip_limited_step:
  assumes "wip_limited s" "strategy_inv s" "strategy_change s e s'"
  shows "wip_limited s'"
  using assms(3)
proof cases
  case (goal_revised r)
  have g: "goals_versioned s" using assms(2) by (simp add: strategy_inv_def)
  show ?thesis using recorded_goal [OF goal_revised(4,2) g] wip_limited_cong [of s' s] assms(1) by simp
next
  case (goal_migrated r)
  have g: "goals_versioned s" using assms(2) by (simp add: strategy_inv_def)
  show ?thesis using recorded_goal [OF goal_migrated(4,2) g] wip_limited_cong [of s' s] assms(1) by simp
next
  case (roadmap_revised r)
  have g: "roadmaps_versioned s" using assms(2) by (simp add: strategy_inv_def)
  show ?thesis using recorded_roadmap [OF roadmap_revised(4,2) g] wip_limited_cong [of s' s] assms(1) by simp
next
  case (commitment_made c a)
  then show ?thesis
    using recorded_commitment [OF commitment_made(3)] wip_limited_cong [of s' s] assms(1)
    by (simp add: store_commitment_def)
next
  case (commitment_moved x a)
  then show ?thesis
    using recorded_transition [OF commitment_moved(3)] wip_limited_cong [of s' s] assms(1)
    by (auto simp: store_commitment_def)
next
  case (commitment_migrated c d)
  then show ?thesis using wip_limited_cong [of s' s] assms(1) by (simp add: store_commitment_def)
next
  case (work_proposed p t n d)
  then show ?thesis
    using wip_limited_proposal [OF assms(1) validated_proposal [OF work_proposed(3)], of "wop_proposal_id p"]
    by (simp add: record_immutable_result)
next
  case (work_admitted o1 n d)
  then show ?thesis using wip_limited_admission [OF assms(1), of d] by (auto simp: record_immutable_result)
qed (use assms(1) wip_limited_cong [of s' s] in simp_all)

text \<open>C38: pending work stays within the limit the proposals were admitted with. After any replay, the number
  of proposed work orders that are not yet admitted is at most any bound on the limits of the recorded
  proposals.\<close>

theorem pending_work_is_bounded:
  assumes "strategy_rebuild b events = Inr s"
    and "list_all (\<lambda>p. wop_wip_limit p \<le> limit) (strategy_work_proposals s)" "0 \<le> limit"
  shows "pending_work s \<le> limit"
proof -
  have "strategy_inv s \<and> wip_limited s"
  proof (rule foldM_invariant [OF assms(1) [unfolded strategy_rebuild_def], where P = "\<lambda>s. strategy_inv s \<and> wip_limited s"])
    show "strategy_inv empty_strategy \<and> wip_limited empty_strategy"
      by (rule conjI [OF strategy_inv_empty]) (simp add: wip_limited_def pending_work_alt empty_strategy_def)
    fix t e t' assume t: "strategy_inv t \<and> wip_limited t" and st: "strategy_step b t e = Inr t'"
    have "wip_limited t'"
      using strategy_step_result [OF st conjunct1 [OF t]]
    proof (elim disjE exE conjE)
      fix u n assume u: "strategy_change t e u"
        "t' = u\<lparr>sp_events := AList.update (ev_id e) e (sp_events u), sp_last_sequence := n\<rparr>"
      show ?thesis
        using wip_limited_step [OF conjunct2 [OF t] conjunct1 [OF t] u(1)] wip_limited_cong [of t' u] by (simp add: u(2))
    qed (use t in simp)
    with strategy_step_inv [OF conjunct1 [OF t] st] show "strategy_inv t' \<and> wip_limited t'" by simp
  qed
  moreover have "\<forall>p \<in> snd ` set (sp_work_proposals s). wop_wip_limit p \<le> limit"
    using assms(2) by (auto simp: strategy_work_proposals_def list_all_iff)
  ultimately show ?thesis using assms(3) by (simp add: wip_limited_def)
qed

subsection \<open>Admission receipts\<close>

definition STRATEGIC_EVENT_TYPES :: "string list" where
  "STRATEGIC_EVENT_TYPES = [GOAL_REVISION_RECORDED_EVENT, ROADMAP_REVISION_RECORDED_EVENT, COMMITMENT_RECORDED_EVENT,
     COMMITMENT_TRANSITIONED_EVENT, OUTCOME_ROLES_RECORDED_EVENT, ASSISTANCE_ENVELOPE_RECORDED_EVENT,
     EXTERNAL_WORKSTREAM_OBSERVED_EVENT, WORK_ORDER_PROPOSED_EVENT]"

definition head_of :: "jobject event list \<Rightarrow> int" where
  "head_of events = foldl (\<lambda>m e. max m (seq0 e)) 0 events"

lemma head_of_snoc [simp]: "head_of (es @ [e]) = max (head_of es) (seq0 e)" "head_of [] = 0"
  by (simp_all add: head_of_def)

lemma strategy_change_bookkeeping:
  assumes "strategy_change s e s'"
  shows "sp_events s' = sp_events s \<and> sp_last_sequence s' = sp_last_sequence s"
  using assms
proof cases
  case (goal_revised r)
  then show ?thesis unfolding record_goal_revision_def Let_def by (auto elim!: rbindE)
next
  case (goal_migrated r)
  then show ?thesis unfolding record_goal_revision_def Let_def by (auto elim!: rbindE)
next
  case (roadmap_revised r)
  then show ?thesis unfolding record_roadmap_revision_def Let_def by (auto elim!: rbindE)
next
  case (commitment_made c a)
  then show ?thesis using recorded_commitment [OF commitment_made(3)] by (simp add: store_commitment_def)
next
  case (commitment_moved x a)
  then show ?thesis using recorded_transition [OF commitment_moved(3)] by (auto simp: store_commitment_def)
qed (simp_all add: store_commitment_def)

text \<open>What replay knows of the events it has applied: every one is at most the last sequence.\<close>

lemma strategy_step_head:
  assumes "strategy_step b s e = Inr s'" "strategy_inv s"
    and stored: "\<And>i x. map_of (sp_events s) i = Some x \<Longrightarrow> ev_id x = i \<and> seq0 x \<le> sp_last_sequence s"
    and positive: "0 \<le> sp_last_sequence s"
  shows "sp_last_sequence s' = max (sp_last_sequence s) (seq0 e)"
    and "map_of (sp_events s') i = Some x \<Longrightarrow> ev_id x = i \<and> seq0 x \<le> sp_last_sequence s'"
    and "dom (map_of (sp_events s')) = insert (ev_id e) (dom (map_of (sp_events s)))"
proof -
  have "(\<exists>x. map_of (sp_events s) (ev_id e) = Some x \<and> same_event x e \<and> s' = s) \<or>
      (\<exists>h t n. apply_strategy_event b s e = Inr (h, t) \<and> ev_sequence e = Some n \<and> sp_last_sequence s < n \<and>
        s' = t\<lparr>sp_events := AList.update (ev_id e) e (sp_events t), sp_last_sequence := n\<rparr>)"
    using assms(1) by (auto simp: strategy_step_def strategy_apply_def elim!: rbindE split: option.splits if_splits)
  then have "sp_last_sequence s' = max (sp_last_sequence s) (seq0 e) \<and>
      (map_of (sp_events s') i = Some x \<longrightarrow> ev_id x = i \<and> seq0 x \<le> sp_last_sequence s') \<and>
      dom (map_of (sp_events s')) = insert (ev_id e) (dom (map_of (sp_events s)))"
  proof (elim disjE exE conjE)
    fix y assume y: "map_of (sp_events s) (ev_id e) = Some y" "same_event y e" "s' = s"
    have "seq0 y = seq0 e" using y(2) by (cases y; cases e) (simp add: same_event_def seq0_def)
    then show ?thesis using stored [OF y(1)] stored [of i x] y(1,3) by (auto simp: max_def)
  next
    fix h t n assume t: "apply_strategy_event b s e = Inr (h, t)" "ev_sequence e = Some n" "sp_last_sequence s < n"
      and s': "s' = t\<lparr>sp_events := AList.update (ev_id e) e (sp_events t), sp_last_sequence := n\<rparr>"
    have "co_id c = i" if "map_of (sp_commitments s) i = Some c" for i c
      using assms(2) that by (auto simp: strategy_inv_def intro: keyed_by_lookup)
    then have "strategy_change s e t" using strategy_event_change [OF t(1)] by blast
    from strategy_change_bookkeeping [OF this] show ?thesis
      using t(2,3) stored [of i x] by (auto simp: s' seq0_def map_of_update)
  qed
  then show "sp_last_sequence s' = max (sp_last_sequence s) (seq0 e)"
    "map_of (sp_events s') i = Some x \<Longrightarrow> ev_id x = i \<and> seq0 x \<le> sp_last_sequence s'"
    "dom (map_of (sp_events s')) = insert (ev_id e) (dom (map_of (sp_events s)))" by auto
qed

lemma strategy_rebuild_head:
  assumes "strategy_rebuild b es = Inr s"
  shows "strategy_inv s \<and> sp_last_sequence s = head_of es \<and> 0 \<le> head_of es \<and> dom (map_of (sp_events s)) = ev_id ` set es \<and>
    (\<forall>i x. map_of (sp_events s) i = Some x \<longrightarrow> ev_id x = i \<and> seq0 x \<le> head_of es)"
  using assms
proof (induction es arbitrary: s rule: rev_induct)
  case Nil
  have "sp_last_sequence empty_strategy = 0" "sp_events empty_strategy = []" by (simp_all add: empty_strategy_def)
  with Nil show ?case using strategy_inv_empty by (auto simp: strategy_rebuild_def)
next
  case (snoc e es)
  then obtain t where t: "strategy_rebuild b es = Inr t" "strategy_step b t e = Inr s"
    by (auto simp: strategy_rebuild_def foldM_append elim!: rbindE)
  have ih: "strategy_inv t" "sp_last_sequence t = head_of es" "0 \<le> head_of es"
    "dom (map_of (sp_events t)) = ev_id ` set es"
    "\<And>i x. map_of (sp_events t) i = Some x \<Longrightarrow> ev_id x = i \<and> seq0 x \<le> sp_last_sequence t"
    using snoc.IH [OF t(1)] by simp_all
  have pos: "0 \<le> sp_last_sequence t" using ih(2,3) by simp
  note step = strategy_step_head [OF t(2) ih(1,5) pos]
  have "strategy_inv s" by (rule strategy_step_inv [OF ih(1) t(2)])
  moreover have "sp_last_sequence s = head_of (es @ [e])" using step(1) ih(2) by simp
  moreover have "dom (map_of (sp_events s)) = ev_id ` set (es @ [e])" using step(3) ih(4) by (simp only: set_append image_Un) auto
  moreover have "0 \<le> head_of (es @ [e])" using ih(3) by simp
  ultimately show ?case using step(2) by metis
qed

lemma native_event_receipt:
  assumes "apply_strategy_event b s e = Inr r" "\<not> is_legacy_intent_event e" "ev_type e \<in> set STRATEGIC_EVENT_TYPES"
  shows "json_eq (jget (ev_metadata e) ''validated_at_event_cursor'') (JInt (sp_last_sequence s))"
proof -
  have envelope: "validate_native_envelope s e i sub t c = Inr u \<Longrightarrow> ?thesis" for i sub t c u
    by (simp add: validate_native_envelope_def Let_def)
  have "\<exists>s'. apply_goal_event b s e = Inr s' \<or> apply_roadmap_event b s e = Inr s' \<or>
      apply_commitment_event b s e = Inr s' \<or> apply_transition_event b s e = Inr s' \<or> apply_roles_event b s e = Inr s' \<or>
      apply_assistance_event b s e = Inr s' \<or> apply_external_event b s e = Inr s' \<or> apply_proposal_event b s e = Inr s'"
    using assms(3) assms(1) [unfolded apply_strategy_event_def Let_def if_not_P [OF assms(2)]]
    unfolding STRATEGIC_EVENT_TYPES_def by - (elim if_InrE rbindE; auto)
  then show ?thesis
    unfolding apply_goal_event_def apply_roadmap_event_def apply_commitment_event_def apply_transition_event_def
      apply_roles_event_def apply_assistance_event_def apply_external_event_def apply_proposal_event_def Let_def
    by - (elim exE disjE rbindE; erule envelope)
qed

lemma applied_receipt:
  assumes "strategy_rebuild b (es @ e # fs) = Inr s" "ev_type e \<in> set STRATEGIC_EVENT_TYPES"
    and "\<not> is_legacy_intent_event e" "ev_id e \<notin> ev_id ` set es"
  shows "json_eq (jget (ev_metadata e) ''validated_at_event_cursor'') (JInt (head_of es)) \<and> head_of es < seq0 e"
proof -
  obtain t t' where t: "strategy_rebuild b es = Inr t" "strategy_step b t e = Inr t'"
    using assms(1) by (auto simp: strategy_rebuild_def foldM_append elim!: rbindE)
  note head = strategy_rebuild_head [OF t(1)]
  have "ev_id e \<notin> dom (map_of (sp_events t))" using head assms(4) by simp
  then have fresh: "map_of (sp_events t) (ev_id e) = None" by (simp add: domIff)
  obtain h u n where u: "apply_strategy_event b t e = Inr (h, u)" "ev_sequence e = Some n" "sp_last_sequence t < n"
    using t(2) fresh by (auto simp: strategy_step_def strategy_apply_def elim!: rbindE split: option.splits if_splits)
  show ?thesis using native_event_receipt [OF u(1) assms(3,2)] u(2,3) head by (simp add: seq0_def)
qed

text \<open>C39: a strategic mutation was validated against exactly the history that precedes it. An event of one of the
  eight native types that a replay applies for the first time carries, as its admission receipt, the highest
  sequence among the events before it: nothing was appended between its validation and its admission.\<close>

theorem mutations_are_validated_at_the_exact_head:
  assumes "strategy_rebuild b (es @ e # fs) = Inr s" "ev_type e \<in> set STRATEGIC_EVENT_TYPES"
    and "\<not> is_legacy_intent_event e" "ev_id e \<notin> ev_id ` set es"
  shows "json_eq (jget (ev_metadata e) ''validated_at_event_cursor'') (JInt (head_of es)) \<and> head_of es < seq0 e"
  by (rule applied_receipt [OF assms])

end
