(* ===== verification/IntentScenario.thy ===== *)
theory IntentScenario
  imports IntentProperties
begin

section \<open>A strategic history\<close>

text \<open>
  A complete history, replayed step by step: a goal and its revision, a roadmap of two outcomes, the roles
  for the first, a commitment that is accepted and activated, a work order that is proposed and admitted,
  and the closure of the commitment. It satisfies the hypotheses of the properties of \<open>IntentProperties\<close>.
\<close>

definition intent_builtins :: builtins where
  "intent_builtins = \<lparr>bi_str = (\<lambda>_. []), bi_int = (\<lambda>_. Inl (TypeError [])), bi_dict = (\<lambda>_. Inl (TypeError [])),
     bi_float = (\<lambda>_. Inl (TypeError [])), bi_iter = (\<lambda>_. Inl (TypeError [])), bi_fromiso = (\<lambda>_. Inl (ValueError [])),
     bi_sha = (\<lambda>d. case map_of d ''version'' of Some (JInt n) \<Rightarrow> if n = 2 then ''2'' else ''1''
       | _ \<Rightarrow> (case map_of d ''to_state'' of Some (JStr t) \<Rightarrow> t | _ \<Rightarrow> ''x''))\<rparr>"

definition strategic_event :: "string \<Rightarrow> string \<Rightarrow> string \<Rightarrow> int \<Rightarrow> jobject \<Rightarrow> jobject \<Rightarrow> jobject event" where
  "strategic_event ty i subject n payload receipt =
     \<lparr>ev_type = ty, ev_source = ''intent'', ev_payload = payload, ev_subject = Some subject, ev_id = i,
      ev_timestamp = Aware n, ev_correlation_id = None, ev_causation_id = None, ev_priority = 0, ev_sequence = Some n,
      ev_metadata = (''validated_at_event_cursor'', JInt (n - 1)) # receipt, ev_schema_version = 1\<rparr>"

definition user_authority :: intent_authority where
  "user_authority = \<lparr>iu_authority_id = ''a'', iu_principal_id = ''u'', iu_scope = IntentAuthorityScope_USER,
     iu_allowed_goal_kinds = [USER_AUTHORED], iu_goal_refs = [], iu_provenance_ref = ''o''\<rparr>"

definition goal1 :: goal_revision where
  "goal1 = \<lparr>gr_revision_id = ''goal-revision:1'', gr_goal_id = ''g'', gr_version = 1, gr_description = ''ship'',
     gr_priority = 1, gr_utility = 1, gr_success_criteria = [''done''], gr_owner = ''u'', gr_status = GActive,
     gr_deadline = None, gr_kind = USER_AUTHORED, gr_governing_goal_refs = [],
     gr_origin = \<lparr>op_provenance_id = ''o'', op_kind = USER, op_principal_id = ''u'', op_authentication_ref = ''t''\<rparr>,
     gr_intent_authority = user_authority, gr_based_on_event_cursor = 0, gr_author = ''u'',
     gr_revision_reason = ''first'', gr_recorded_at = Aware 1, gr_supersedes_revision_id = None\<rparr>"

definition goal2 :: goal_revision where
  "goal2 = goal1\<lparr>gr_revision_id := ''goal-revision:2'', gr_version := 2, gr_description := ''ship it'',
     gr_based_on_event_cursor := 1, gr_recorded_at := Aware 2, gr_supersedes_revision_id := Some ''goal-revision:1''\<rparr>"

definition roadmap1 :: roadmap_revision where
  "roadmap1 = \<lparr>rr_revision_id = ''roadmap-revision:1'', rr_roadmap_id = ''r'', rr_version = 1,
     rr_governing_goal_revision_ids = [''goal-revision:2''],
     rr_outcome_nodes =
       [\<lparr>on_node_id = ''n1'', on_description = ''build'', on_success_criteria = [''built''],
         on_approximate_dependencies = [], on_assumption_refs = [], on_confidence = 1\<rparr>,
        \<lparr>on_node_id = ''n2'', on_description = ''release'', on_success_criteria = [''released''],
         on_approximate_dependencies = [''n1''], on_assumption_refs = [], on_confidence = 1\<rparr>],
     rr_assumptions = [], rr_confidence = 1, rr_success_criteria = [''done''], rr_resource_envelope = [],
     rr_intent_authority = user_authority, rr_based_on_event_cursor = 2, rr_author = ''u'',
     rr_revision_reason = ''first'', rr_recorded_at = Aware 3, rr_supersedes_revision_id = None\<rparr>"

definition roles1 :: outcome_role_assignment where
  "roles1 = (let agent1 = \<lparr>oa_actor_id = ''w'', oa_locus = ExecutionLocus_AGENT\<rparr>;
                 user1 = \<lparr>oa_actor_id = ''u'', oa_locus = ExecutionLocus_USER\<rparr> in
     \<lparr>ora_assignment_id = ''outcome-roles:x'', ora_outcome_ref = ''roadmap-revision:1#n1'', ora_outcome_owner = user1,
      ora_decision_owner = user1, ora_executor = agent1, ora_verifier = user1, ora_recorded_at = Aware 4\<rparr>)"

definition commitment1 :: commitment where
  "commitment1 = \<lparr>co_id = ''c'', co_description = ''build it'', co_owner = ''u'', co_priority = 1, co_status = CAccepted,
     co_deadline = None, co_terminal = True, co_attention_cost = 1, co_social_cost = 0, co_created_at = Aware 5,
     co_updated_at = Aware 5, co_closure_reason = None, co_goal_refs = [''g''],
     co_roadmap_revision_id = Some ''roadmap-revision:1'', co_outcome_node_id = Some ''n1'',
     co_role_assignment_id = Some ''outcome-roles:x'', co_assistance_envelope_id = None, co_activation_due_at = None,
     co_lead_time_evidence_refs = []\<rparr>"

definition move :: "commitment_status \<Rightarrow> commitment_status \<Rightarrow> closure_reason option \<Rightarrow> int \<Rightarrow> commitment_transition" where
  "move old new reason n = \<lparr>ct_transition_id = ''commitment-transition:'' @ commitment_status_value new,
     ct_commitment_id = ''c'', ct_from_state = old, ct_to_state = new, ct_closure_reason = reason,
     ct_based_on_event_cursor = n - 1, ct_author = ''u'', ct_reason = ''agreed'', ct_transitioned_at = Aware n,
     ct_reactivation_roadmap_revision_id = None, ct_reactivation_role_assignment_id = None,
     ct_reactivation_assistance_envelope_id = None, ct_reorientation_evidence_refs = []\<rparr>"

definition activation :: commitment_transition where "activation = move CAccepted CActive None 6"
definition closure :: commitment_transition where "closure = move CActive CClosed (Some RFulfilled) 9"

definition order1 :: work_order where
  "order1 = \<lparr>wo_id = ''work-order:x'', wo_purpose = ''build'', wo_governing_goal_refs = [''g''],
     wo_created_from = [''commitment:c'', ''roadmap-revision:roadmap-revision:1'', ''outcome-node:n1''], wo_priority = 1,
     wo_desired_outcome = ''built'', wo_success_criteria = [''built''], wo_deadline = None,
     wo_opportunity_window_end = None, wo_authority_ceiling = ACT_REVERSIBLE, wo_epistemic_prerequisites = [],
     wo_created_at = Aware 8\<rparr>"

definition proposal1 :: work_order_proposal where
  "proposal1 = \<lparr>wop_proposal_id = ''work-order-proposal:x'', wop_commitment_id = ''c'',
     wop_roadmap_revision_id = ''roadmap-revision:1'', wop_outcome_node_id = ''n1'', wop_work_order = order1,
     wop_intervention = ACT, wop_declared_agent_support = [''draft''], wop_eligibility = WorkProposalEligibility_ACTIVE,
     wop_portfolio_signals = \<lparr>ps_expected_goal_value = 1, ps_commitment_strength = 1, ps_urgency = 1,
       ps_critical_path_pressure = 1, ps_success_estimate = 1, ps_cost = 0, ps_coordination_cost = 0,
       ps_context_affinity = 1, ps_verification_capacity = 1, ps_wip = 0, ps_scarce_competence_pressure = 0,
       ps_future_information_access_requirements = []\<rparr>,
     wop_wip_limit = 1, wop_based_on_event_cursor = 6, wop_proposed_at = Aware 7, wop_validator_id = ''v''\<rparr>"

definition receipt :: jobject where
  "receipt = [(''intent_authority'', JObj (intent_authority_to_dict user_authority))]"

definition strategic_events :: "jobject event list" where
  "strategic_events =
     [strategic_event GOAL_REVISION_RECORDED_EVENT ''goal-revision-recorded:goal-revision:1'' ''g'' 1
        (goal_revision_to_dict goal1) [],
      strategic_event GOAL_REVISION_RECORDED_EVENT ''goal-revision-recorded:goal-revision:2'' ''g'' 2
        (goal_revision_to_dict goal2) [],
      strategic_event ROADMAP_REVISION_RECORDED_EVENT ''roadmap-revision-recorded:roadmap-revision:1'' ''r'' 3
        (roadmap_revision_to_dict roadmap1) [],
      strategic_event OUTCOME_ROLES_RECORDED_EVENT ''outcome-roles-recorded:outcome-roles:x'' ''roadmap-revision:1#n1'' 4
        (outcome_role_assignment_to_dict roles1) [],
      strategic_event COMMITMENT_RECORDED_EVENT ''commitment-recorded:c'' ''c'' 5 (commitment_to_dict commitment1) receipt,
      strategic_event COMMITMENT_TRANSITIONED_EVENT ''commitment-transitioned:commitment-transition:active'' ''c'' 6
        (commitment_transition_to_dict activation) receipt,
      strategic_event WORK_ORDER_PROPOSED_EVENT ''work-order-proposed:work-order-proposal:x'' ''c'' 7
        (work_order_proposal_to_dict proposal1) [],
      strategic_event WORK_ORDER_RECORDED_EVENT ''work-order-recorded:work-order:x'' ''work-order:x'' 8
        (work_order_to_dict order1) [],
      strategic_event COMMITMENT_TRANSITIONED_EVENT ''commitment-transitioned:commitment-transition:closed'' ''c'' 9
        (commitment_transition_to_dict closure) receipt]"

subsection \<open>The contracts are well-formed\<close>

lemma sha_of: "bi_sha intent_builtins d =
   (case map_of d ''version'' of Some (JInt n) \<Rightarrow> if n = 2 then ''2'' else ''1''
    | _ \<Rightarrow> (case map_of d ''to_state'' of Some (JStr t) \<Rightarrow> t | _ \<Rightarrow> ''x''))"
  by (simp add: intent_builtins_def)

lemma authority_fields:
  "iu_authority_id user_authority = ''a''" "iu_principal_id user_authority = ''u''"
  "iu_scope user_authority = IntentAuthorityScope_USER" "iu_allowed_goal_kinds user_authority = [USER_AUTHORED]"
  "iu_goal_refs user_authority = []" "iu_provenance_ref user_authority = ''o''"
  by (simp_all add: user_authority_def)

lemma unit_values: "unit_interval 1" "unit_interval 0" "fin 1" "fin 0" "\<not> (0 :: pyfloat) < 0" "\<not> (1 :: pyfloat) < 0" "(0 :: pyfloat) \<le> 0"
  by (simp_all add: unit_interval_def pyfloat_zero_one)

lemmas scenario_checks = unit_values require_text_def require_aware_def bounded_def non_negative_def unique_text_def is_space_def
  canonical_id_def map_of_dump_obj JStrs_def JFloats_def Let_def sha_of authority_fields intent_authority_to_dict_def

lemma authority_readable: "intent_authority_ok intent_builtins user_authority"
  by (simp add: intent_authority_ok_def check_intent_authority_def scenario_checks)

lemma goals_readable: "goal_revision_ok intent_builtins goal1" "goal_revision_ok intent_builtins goal2"
  unfolding goal_revision_ok_def goal2_def goal1_def
  by (simp_all add: authority_readable create_goal_revision_def goal_revision_identity_def check_goal_revision_def
    origin_provenance_ok_def check_origin_provenance_def origin_provenance_to_dict_def scenario_checks)

lemma outcomes_in_order: "sort_key (\<lambda>v. on_node_id v) (rr_outcome_nodes roadmap1) = rr_outcome_nodes roadmap1"
proof -
  have "''n1'' \<le> ''n2''" by code_simp
  then show ?thesis by (simp add: roadmap1_def)
qed

lemma roadmap_readable: "roadmap_revision_ok intent_builtins roadmap1"
  unfolding roadmap_revision_ok_def create_roadmap_revision_def normal_roadmap_revision_def outcomes_in_order
  unfolding roadmap1_def
  by (simp add: authority_readable create_roadmap_revision_def roadmap_revision_identity_def check_roadmap_revision_def
    outcome_node_ok_def check_outcome_node_def outcome_node_to_dict_def scenario_checks)

lemma roles_readable: "outcome_role_assignment_ok intent_builtins roles1"
  unfolding outcome_role_assignment_ok_def roles1_def
  by (simp add: create_outcome_role_assignment_def outcome_role_assignment_identity_def check_outcome_role_assignment_def
    outcome_actor_ok_def check_outcome_actor_def outcome_actor_to_dict_def scenario_checks)

lemma moves_readable:
  "commitment_transition_ok intent_builtins activation" "commitment_transition_ok intent_builtins closure"
  unfolding commitment_transition_ok_def activation_def closure_def move_def
  by (simp_all add: create_commitment_transition_def commitment_transition_identity_def check_commitment_transition_def scenario_checks)

lemma order_readable: "work_order_ok intent_builtins order1"
  unfolding work_order_ok_def order1_def
  by (simp add: create_work_order_def work_order_identity_def check_work_order_def prerequisites_ok_def
    prerequisites_json_def not_before_creation_def scenario_checks)

lemma order_finite: "list_all (\<lambda>(k, v). json_finite v) (work_order_to_dict order1)"
  by (simp add: work_order_to_dict_def work_order_identity_def order1_def prerequisites_json_def scenario_checks)

lemma proposal_readable: "work_order_proposal_ok intent_builtins proposal1"
  unfolding work_order_proposal_ok_def proposal1_def
  by (simp add: order_readable order_finite create_work_order_proposal_def work_order_proposal_identity_def check_work_order_proposal_def
    portfolio_signals_ok_def check_portfolio_signals_def portfolio_signals_to_dict_def scenario_checks)

lemmas contracts_read = goals_readable [THEN goal_revision_round_trip] roadmap_readable [THEN roadmap_revision_round_trip]
  roles_readable [THEN outcome_role_assignment_round_trip] moves_readable [THEN commitment_transition_round_trip]
  order_readable [THEN work_order_round_trip] proposal_readable [THEN work_order_proposal_round_trip]
  authority_readable [THEN intent_authority_round_trip]

lemma commitment_reads: "commitment_from_dict intent_builtins (commitment_to_dict commitment1) = Inr commitment1"
  by (rule commitment_round_trip) (simp add: commitment_ok_def commitment1_def)

subsection \<open>The states of the replay\<close>

definition replayed :: "nat \<Rightarrow> strategy" where
  "replayed n = \<lparr>sp_events = map (\<lambda>e. (ev_id e, e)) (take n strategic_events), sp_last_sequence = int n,
     sp_goal_revisions = take n [(''goal-revision:1'', goal1), (''goal-revision:2'', goal2)],
     sp_goal_history = (if n = 0 then [] else [(''g'', take n [''goal-revision:1'', ''goal-revision:2''])]),
     sp_current_goal = (if n = 0 then [] else [(''g'', if n = 1 then ''goal-revision:1'' else ''goal-revision:2'')]),
     sp_roadmap_revisions = (if n < 3 then [] else [(''roadmap-revision:1'', roadmap1)]),
     sp_roadmap_history = (if n < 3 then [] else [(''r'', [''roadmap-revision:1''])]),
     sp_current_roadmap = (if n < 3 then [] else [(''r'', ''roadmap-revision:1'')]),
     sp_commitments = (if n < 5 then [] else [(''c'', if n < 6 then commitment1
       else if n < 9 then transitioned commitment1 activation else transitioned (transitioned commitment1 activation) closure)]),
     sp_commitment_versions = (if n < 5 then [] else [(''c'', take (if n < 6 then 1 else if n < 9 then 2 else 3)
       [commitment1, transitioned commitment1 activation, transitioned (transitioned commitment1 activation) closure])]),
     sp_commitment_transitions = (if n < 6 then [] else [(''c'', if n < 9 then [activation] else [activation, closure])]),
     sp_roles = (if n < 4 then [] else [(''outcome-roles:x'', roles1)]),
     sp_assistance = [], sp_external_history = [], sp_external_current = [],
     sp_work_proposals = (if n < 7 then [] else [(''work-order-proposal:x'', proposal1)]),
     sp_admitted_orders = (if n < 8 then [] else [(''work-order:x'', order1)]), sp_work_graph_ids = []\<rparr>"

lemma event_fields [simp]:
  "ev_type (strategic_event ty i subject n d m) = ty" "ev_id (strategic_event ty i subject n d m) = i"
  "ev_payload (strategic_event ty i subject n d m) = d" "ev_subject (strategic_event ty i subject n d m) = Some subject"
  "ev_sequence (strategic_event ty i subject n d m) = Some n" "ev_timestamp (strategic_event ty i subject n d m) = Aware n"
  "jget (ev_metadata (strategic_event ty i subject n d m)) ''validated_at_event_cursor'' = JInt (n - 1)"
  "is_legacy_intent_event (strategic_event ty i subject n d m) \<longleftrightarrow> False"
  by (simp_all add: strategic_event_def jget_def is_legacy_intent_event_def)

text \<open>Each event is new and next in order: what remains for a step is its handler.\<close>

lemma update_fresh: "map_of d k = None \<Longrightarrow> AList.update k v d = d @ [(k, v)]"
  by (induction d) (auto split: if_splits)

lemma nth_not_before: "distinct xs \<Longrightarrow> n < length xs \<Longrightarrow> xs ! n \<notin> set (take n xs)"
  by (auto simp: in_set_conv_nth nth_eq_iff_index_eq)

lemma replay_step:
  assumes "apply_strategy_event intent_builtins (replayed n) (strategic_events ! n)
      = Inr (True, (replayed (Suc n))\<lparr>sp_events := sp_events (replayed n), sp_last_sequence := int n\<rparr>)"
    and n: "n < 9"
  shows "strategy_step intent_builtins (replayed n) (strategic_events ! n) = Inr (replayed (Suc n))"
proof -
  let ?e = "strategic_events ! n"
  have l: "length strategic_events = 9" by (simp add: strategic_events_def)
  have d: "distinct (map ev_id strategic_events)" by (simp add: strategic_events_def)
  have q: "map ev_sequence strategic_events = map (\<lambda>i. Some (int i + 1)) [0 ..< 9]"
    by (simp add: strategic_events_def upt_rec)
  have "map ev_id strategic_events ! n \<notin> set (take n (map ev_id strategic_events))"
    using nth_not_before [OF d] n l by simp
  then have "ev_id ?e \<notin> ev_id ` set (take n strategic_events)"
    using n l by (simp add: take_map)
  then have fresh: "map_of (sp_events (replayed n)) (ev_id ?e) = None"
    by (auto simp: replayed_def map_of_eq_None_iff)
  have "ev_sequence ?e = Some (int n + 1)"
    using arg_cong [OF q, of "\<lambda>xs. xs ! n"] n l by simp
  then show ?thesis
    using assms(1) fresh n l
    by (simp add: strategy_step_def strategy_apply_def update_fresh replayed_def take_Suc_conv_app_nth)
qed

lemmas dispatch = apply_strategy_event_def apply_goal_event_def apply_roadmap_event_def
  apply_roles_event_def apply_commitment_event_def apply_transition_event_def apply_proposal_event_def apply_admitted_order_def
  GOAL_REVISION_RECORDED_EVENT_def ROADMAP_REVISION_RECORDED_EVENT_def OUTCOME_ROLES_RECORDED_EVENT_def
  COMMITMENT_RECORDED_EVENT_def COMMITMENT_TRANSITIONED_EVENT_def WORK_ORDER_PROPOSED_EVENT_def
  ASSISTANCE_ENVELOPE_RECORDED_EVENT_def EXTERNAL_WORKSTREAM_OBSERVED_EVENT_def WORK_ORDER_RECORDED_EVENT_def

lemmas validations = Let_def authority_fields validate_native_envelope_def validate_goal_revision_structure_def goal_authority_errors_def goal_lineage_errors_def
  goal_provenance_errors_def goal_governing_errors_def derived_kind_def next_goal_version_def goal_predecessor_def
  current_goal_revision_def if_text_def record_goal_revision_def record_immutable_def append_entry_def entries_def seq0_def

text \<open>The handlers, in turn.\<close>

lemma step1: "strategy_step intent_builtins (replayed 0) (strategic_events ! 0) = Inr (replayed (Suc 0))"
  by (rule replay_step, simp add: dispatch contracts_read strategic_events_def replayed_def)
    (simp_all add: validations goal1_def)

lemma step2: "strategy_step intent_builtins (replayed 1) (strategic_events ! 1) = Inr (replayed (Suc 1))"
  by (rule replay_step, simp add: dispatch contracts_read strategic_events_def replayed_def)
    (simp_all add: validations goal1_def goal2_def)

lemma acyclic_roadmap: "require_dag roadmap1 = Inr ()"
proof -
  have "''n1'' \<le> ''n2''" by code_simp
  then show ?thesis
    by (simp add: require_dag_def outcome_ids_def outcome_dependencies_def roadmap1_def numeral_2_eq_2)
qed

lemmas roadmap_validations = validate_roadmap_revision_structure_def next_roadmap_version_def roadmap_predecessor_def
  current_roadmap_revision_def governing_goals_def List.map_filter_def is_current_goal_def terminal_goal_status_def
  outcome_ids_def record_roadmap_revision_def acyclic_roadmap [unfolded roadmap1_def]

lemma step3: "strategy_step intent_builtins (replayed 2) (strategic_events ! 2) = Inr (replayed (Suc 2))"
  by (rule replay_step, simp add: dispatch contracts_read strategic_events_def replayed_def)
    (simp_all add: validations roadmap_validations goal1_def goal2_def roadmap1_def)

lemma step4: "strategy_step intent_builtins (replayed 3) (strategic_events ! 3) = Inr (replayed (Suc 3))"
  by (rule replay_step, simp add: dispatch contracts_read strategic_events_def replayed_def)
    (simp_all add: validations validate_roles_structure_def partition_ref_def outcome_ids_def roadmap1_def roles1_def)

text \<open>The roadmap is the current one, and its goal is live.\<close>

lemma roadmap_usable:
  assumes "3 \<le> n"
  shows "require_current_roadmap (replayed n) ''roadmap-revision:1'' = Inr roadmap1"
    "require_live_goals (replayed n) roadmap1 = Inr ()"
    "governing_goals (replayed n) roadmap1 = [goal2]"
  using assms by (simp_all add: require_current_roadmap_def require_live_goals_def replayed_def current_roadmap_revision_def
    current_goal_revision_def if_text_def is_current_goal_def live_goal_status_def governing_goals_def List.map_filter_def
    roadmap1_def goal1_def goal2_def)

lemma receipt_read: "event_intent_authority intent_builtins (strategic_event ty i subject n d receipt) = Inr user_authority"
  by (simp add: event_intent_authority_def strategic_event_def receipt_def jget_def contracts_read)

lemma roles_usable: "4 \<le> n \<Longrightarrow> map_of (sp_roles (replayed n)) ''outcome-roles:x'' = Some roles1"
  by (simp add: replayed_def)

lemma outcome_known: "outcome_ids roadmap1 = [''n1'', ''n2'']" "outcome_ref_of roadmap1 ''n1'' = ora_outcome_ref roles1"
  "ora_assignment_id roles1 = ''outcome-roles:x''" "oa_locus (ora_executor roles1) = ExecutionLocus_AGENT" "gr_goal_id goal2 = ''g''"
  by (simp_all add: outcome_ids_def outcome_ref_of_def roadmap1_def roles1_def goal2_def goal1_def Let_def)

lemma commitment_admissible: "validate_commitment_structure (replayed 4) commitment1 user_authority = Inr ()"
proof -
  have "map_of (sp_commitments (replayed 4)) ''c'' = None" by (simp add: replayed_def)
  then show ?thesis
    by (simp add: validate_commitment_structure_def commitment_field_errors_def commitment_admission_errors_def
      commitment1_def roadmap_usable roles_usable outcome_known require_roles_def if_text_def scenario_checks)
qed

lemma step5: "strategy_step intent_builtins (replayed 4) (strategic_events ! 4) = Inr (replayed (Suc 4))"
  by (rule replay_step, simp add: dispatch strategic_events_def commitment_reads receipt_read commitment_admissible)
    (simp_all add: replayed_def validations record_commitment_def store_commitment_def commitment1_def)

lemma activation_legal: "validate_transition_structure (replayed 5) activation user_authority = Inr ()"
proof -
  have "map_of (sp_commitments (replayed 5)) ''c'' = Some commitment1" by (simp add: replayed_def)
  then show ?thesis
    by (simp add: validate_transition_structure_def transition_errors_def allowed_transitions_def is_reactivation_def
      activation_def move_def commitment1_def roadmap_usable scenario_checks)
qed

lemma step6: "strategy_step intent_builtins (replayed 5) (strategic_events ! 5) = Inr (replayed (Suc 5))"
  by (rule replay_step, simp add: dispatch strategic_events_def contracts_read receipt_read activation_legal)
    (simp_all add: replayed_def validations record_transition_def store_commitment_def commitment1_def activation_def move_def)

lemma proposal_admissible: "validate_work_proposal_structure (replayed 6) proposal1 (wop_proposed_at proposal1) = Inr ()"
proof -
  have "map_of (sp_commitments (replayed 6)) ''c'' = Some (transitioned commitment1 activation)" "pending_work (replayed 6) = 0"
    by (simp_all add: replayed_def pending_work_def strategy_work_proposals_def)
  then show ?thesis
    by (simp add: validate_work_proposal_structure_def work_eligibility_def validate_work_assistance_def transitioned_def
      or_text_def if_text_def activation_def move_def proposal1_def order1_def commitment1_def roadmap_usable roles_usable outcome_known)
qed

lemma step7: "strategy_step intent_builtins (replayed 6) (strategic_events ! 6) = Inr (replayed (Suc 6))"
  by (rule replay_step, simp add: dispatch strategic_events_def contracts_read proposal_admissible)
    (simp_all add: replayed_def validations proposal1_def)

lemma order_admissible: "validate_work_admission_structure (replayed 7) proposal1 = Inr ()"
proof -
  have "map_of (sp_commitments (replayed 7)) ''c'' = Some (transitioned commitment1 activation)"
    by (simp add: replayed_def)
  then show ?thesis
    by (simp add: validate_work_admission_structure_def validate_work_assistance_def transitioned_def or_text_def if_text_def
      activation_def move_def proposal1_def commitment1_def roadmap_usable roles_usable outcome_known)
qed

lemma step8: "strategy_step intent_builtins (replayed 7) (strategic_events ! 7) = Inr (replayed (Suc 7))"
proof -
  have w: "work_order_from_event intent_builtins (strategic_events ! 7) = Inr order1"
    by (simp add: work_order_from_event_def strategic_events_def contracts_read work_order_event_id_def) (simp add: order1_def)
  have p: "sp_work_proposals (replayed 7) = [(''work-order-proposal:x'', proposal1)]" "wop_work_order proposal1 = order1"
    by (simp_all add: replayed_def proposal1_def)
  have a: "apply_admitted_order intent_builtins (replayed 7) (strategic_events ! 7)
      = Inr ((replayed 7)\<lparr>sp_admitted_orders := [(''work-order:x'', order1)]\<rparr>)"
    by (simp add: apply_admitted_order_def w p order_admissible record_immutable_def) (simp add: replayed_def order1_def)
  have t: "ev_type (strategic_events ! 7) = WORK_ORDER_RECORDED_EVENT" "\<not> is_legacy_intent_event (strategic_events ! 7)"
    by (simp_all add: strategic_events_def)
  show ?thesis
    by (rule replay_step) (simp_all add: apply_strategy_event_def a t, simp_all add: dispatch replayed_def)
qed

lemma closure_legal: "validate_transition_structure (replayed 8) closure user_authority = Inr ()"
proof -
  have "map_of (sp_commitments (replayed 8)) ''c'' = Some (transitioned commitment1 activation)" by (simp add: replayed_def)
  then show ?thesis
    by (simp add: validate_transition_structure_def transition_errors_def allowed_transitions_def is_reactivation_def
      transitioned_def closure_def activation_def move_def commitment1_def scenario_checks)
qed

lemma step9: "strategy_step intent_builtins (replayed 8) (strategic_events ! 8) = Inr (replayed (Suc 8))"
  by (rule replay_step, simp add: dispatch strategic_events_def contracts_read receipt_read closure_legal)
    (simp_all add: replayed_def validations record_transition_def store_commitment_def transitioned_def commitment1_def
      activation_def closure_def move_def)

lemma scenario_replayed: "n \<le> 9 \<Longrightarrow> strategy_rebuild intent_builtins (take n strategic_events) = Inr (replayed n)"
proof (induction n)
  case 0
  show ?case by (simp add: strategy_rebuild_def replayed_def empty_strategy_def)
next
  case (Suc n)
  have "length strategic_events = 9" by (simp add: strategic_events_def)
  moreover have "strategy_step intent_builtins (replayed n) (strategic_events ! n) = Inr (replayed (Suc n))"
  proof -
    have "n \<in> {0, 1, 2, 3, 4, 5, 6, 7, 8}" using Suc.prems by auto
    then show ?thesis
      by (elim insertE emptyE) (simp_all only: step1 step2 step3 step4 step5 step6 step7 step8 step9)
  qed
  ultimately show ?case
    using Suc by (simp add: strategy_rebuild_def take_Suc_conv_app_nth foldM_append)
qed

lemma scenario_rebuilt: "strategy_rebuild intent_builtins strategic_events = Inr (replayed 9)"
  using scenario_replayed [of 9] by (simp add: strategic_events_def)


subsection \<open>The properties on this history\<close>

lemma scenario_native: "list_all (\<lambda>e. \<not> is_legacy_intent_event e) strategic_events"
  by (simp add: strategic_events_def)

theorem goal_history_is_an_immutable_chain_witness:
  "goal_history (replayed 2) ''g'' = [goal1, goal2] \<and>
   (\<exists>later. goal_history (replayed 2) ''g'' = goal_history (replayed 1) ''g'' @ later) \<and>
   map gr_supersedes_revision_id (goal_history (replayed 2) ''g'') = [None, Some ''goal-revision:1''] \<and>
   current_goal_revision (replayed 2) ''g'' = Some goal2"
proof -
  have h: "goal_history (replayed 2) ''g'' = [goal1, goal2]" by (simp add: goal_history_def entries_def replayed_def)
  have r: "strategy_rebuild intent_builtins (take 1 strategic_events @ [strategic_events ! 1]) = Inr (replayed 2)"
    using scenario_replayed [of 2] by (simp add: strategic_events_def numeral_2_eq_2)
  obtain s where s: "strategy_rebuild intent_builtins (take 1 strategic_events) = Inr s"
    "\<exists>later. goal_history (replayed 2) ''g'' = goal_history s ''g'' @ later"
    "map gr_supersedes_revision_id (goal_history (replayed 2) ''g'')
      = take (length (goal_history (replayed 2) ''g'')) (None # map (Some \<circ> gr_revision_id) (goal_history (replayed 2) ''g''))"
    "current_goal_revision (replayed 2) ''g''
      = (if goal_history (replayed 2) ''g'' = [] then None else Some (last (goal_history (replayed 2) ''g'')))"
    using goal_history_is_an_immutable_chain [OF r] unfolding Let_def by meson
  have "s = replayed 1" using s(1) scenario_replayed [of 1] by simp
  then show ?thesis using s(2,3,4) unfolding h by (simp add: goal1_def)
qed

theorem commitments_move_along_the_lifecycle_witness:
  "map co_status (commitment_history (replayed 9) ''c'') = [CAccepted, CActive, CClosed] \<and>
   legal_history (commitment_history (replayed 9) ''c'')"
  using commitments_move_along_the_lifecycle [OF scenario_rebuilt scenario_native, of "''c''"]
  by (simp add: commitment_history_def entries_def replayed_def transitioned_def commitment1_def activation_def closure_def move_def)

theorem pending_work_is_bounded_witness: "strategy_work_proposals (replayed 7) = [proposal1] \<and> pending_work (replayed 7) \<le> 1"
proof -
  have w: "strategy_work_proposals (replayed 7) = [proposal1]" by (simp add: strategy_work_proposals_def replayed_def)
  have "list_all (\<lambda>p. wop_wip_limit p \<le> 1) (strategy_work_proposals (replayed 7))" by (simp add: w proposal1_def)
  then show ?thesis
    using pending_work_is_bounded [OF scenario_replayed [of 7], of 1] w by simp
qed

theorem mutations_are_validated_at_the_exact_head_witness:
  "json_eq (jget (ev_metadata (strategic_events ! 6)) ''validated_at_event_cursor'') (JInt 6) \<and>
   head_of (take 6 strategic_events) < seq0 (strategic_events ! 6)"
proof -
  have r: "strategy_rebuild intent_builtins (take 6 strategic_events @ strategic_events ! 6 # drop 7 strategic_events) = Inr (replayed 9)"
    using scenario_rebuilt id_take_nth_drop [of 6 strategic_events] by (simp add: strategic_events_def)
  have "ev_type (strategic_events ! 6) \<in> set STRATEGIC_EVENT_TYPES" "\<not> is_legacy_intent_event (strategic_events ! 6)"
    "ev_id (strategic_events ! 6) \<notin> ev_id ` set (take 6 strategic_events)"
    by (simp_all add: strategic_events_def STRATEGIC_EVENT_TYPES_def)
  moreover have "head_of (take 6 strategic_events) = 6" by (simp add: strategic_events_def head_of_def seq0_def)
  ultimately show ?thesis using mutations_are_validated_at_the_exact_head [OF r] by simp
qed

end
