(* ===== verification/Steward.thy ===== *)
theory Steward
  imports IntentProjection Kernel Commands
begin

section \<open>Admission of strategic mutations\<close>

text \<open>
  Models \<^verbatim>\<open>src/noema/intent/validation.py\<close> and \<^verbatim>\<open>src/noema/intent/coordination.py\<close>: the validator, which adds the
  checks of authentication and of the event cursor to the structural checks of the projection, and the
  coordinator, whose every command rebuilds the projection, builds and validates an event at its head, and
  appends it on the condition that the head has not moved. What others do to the kernel at the suspension points of
  a command is an argument: \<open>f\<close> between the capture of the current revision and the admission, and a list with one
  entry for each round of the admission that others disturb between its reload and its append. The trust port is a
  pair of predicates. A projection that a reload left when it raised is not read again before the next
  reload; the model leaves the projection that the failing event found.
\<close>

subsection \<open>The validator\<close>

record static_trust =
  tr_origins :: "origin_provenance list"
  tr_authorities :: "intent_authority list"

definition static_verifies_origin :: "static_trust \<Rightarrow> origin_provenance \<Rightarrow> bool" where
  "static_verifies_origin t x \<longleftrightarrow> x \<in> set (tr_origins t)"

definition static_verifies_authority :: "static_trust \<Rightarrow> intent_authority \<Rightarrow> bool" where
  "static_verifies_authority t x \<longleftrightarrow> x \<in> set (tr_authorities t)"

record strategic_validator =
  va_verifies_origin :: "origin_provenance \<Rightarrow> bool"
  va_verifies_authority :: "intent_authority \<Rightarrow> bool"
  va_id :: string
  va_wip_limit :: int

definition check_strategic_validator :: "strategic_validator \<Rightarrow> unit result" where
  "check_strategic_validator v = raise_first
     [(blank (va_id v), ValueError ''strategic validator id must be non-empty''),
      (va_wip_limit v \<le> 0, ValueError ''strategic WIP limit must be positive'')]"

definition require_cursor :: "strategy \<Rightarrow> int \<Rightarrow> bool \<times> py_error" where
  "require_cursor s cursor =
     (cursor \<noteq> sp_last_sequence s, ValueError ''strategic mutation was not validated through current head'')"

definition validate_goal_revision ::
  "strategic_validator \<Rightarrow> goal_revision \<Rightarrow> strategy \<Rightarrow> string option \<Rightarrow> unit result" where
  "validate_goal_revision v r s expected =
     rbind (raise_first
       [require_cursor s (gr_based_on_event_cursor r),
        (goal_predecessor s (gr_goal_id r) \<noteq> expected, ValueError ''goal changed after the revision command was captured''),
        (\<not> va_verifies_origin v (gr_origin r), ValueError ''goal origin provenance is not authenticated''),
        (\<not> va_verifies_authority v (gr_intent_authority r), ValueError ''intent authority is not authenticated'')]) (\<lambda>_.
     validate_goal_revision_structure s r)"

definition validate_roadmap_revision ::
  "strategic_validator \<Rightarrow> roadmap_revision \<Rightarrow> strategy \<Rightarrow> string option \<Rightarrow> unit result" where
  "validate_roadmap_revision v r s expected =
     rbind (raise_first
       [require_cursor s (rr_based_on_event_cursor r),
        (roadmap_predecessor s (rr_roadmap_id r) \<noteq> expected,
         ValueError ''roadmap changed after the revision command was captured''),
        (\<not> va_verifies_authority v (rr_intent_authority r),
         ValueError ''roadmap revision lacks authenticated intent authority'')]) (\<lambda>_.
     validate_roadmap_revision_structure s r)"

definition validate_commitment :: "strategic_validator \<Rightarrow> commitment \<Rightarrow> strategy \<Rightarrow> intent_authority \<Rightarrow> unit result" where
  "validate_commitment v c s a =
     (if \<not> va_verifies_authority v a then Inl (ValueError ''commitment lacks authenticated intent authority'')
      else validate_commitment_structure s c a)"

definition validate_transition ::
  "strategic_validator \<Rightarrow> commitment_transition \<Rightarrow> strategy \<Rightarrow> intent_authority \<Rightarrow> unit result" where
  "validate_transition v x s a =
     rbind (raise_first
       [require_cursor s (ct_based_on_event_cursor x),
        (\<not> va_verifies_authority v a, ValueError ''commitment transition lacks authenticated intent authority'')]) (\<lambda>_.
     validate_transition_structure s x a)"

definition validate_work_proposal ::
  "strategic_validator \<Rightarrow> work_order_proposal \<Rightarrow> strategy \<Rightarrow> datetime \<Rightarrow> unit result" where
  "validate_work_proposal v p s t =
     rbind (raise_first
       [require_cursor s (wop_based_on_event_cursor p),
        (wop_validator_id p \<noteq> va_id v, ValueError ''work proposal validator identity is inconsistent''),
        (wop_wip_limit p \<noteq> va_wip_limit v, ValueError ''work proposal WIP policy differs from its validator'')]) (\<lambda>_.
     validate_work_proposal_structure s p t)"

definition validate_work_admission :: "work_order_proposal \<Rightarrow> strategy \<Rightarrow> unit result" where
  "validate_work_admission p s =
     (if map_of (sp_admitted_orders s) (wo_id (wop_work_order p)) \<noteq> None then Inr ()
      else validate_work_admission_structure s p)"

subsection \<open>The coordinator\<close>

record 's steward =
  sw_kernel :: "'s kernel"
  sw_projection :: strategy

record 's steward_env =
  se_kernel :: "'s kernel_env"
  se_validator :: strategic_validator
  se_source :: string

type_synonym ('s, 'a) admission = "('s steward, 'a) stateful"

abbreviation se_builtins :: "'s steward_env \<Rightarrow> builtins" where
  "se_builtins env \<equiv> ke_builtins (se_kernel env)"

definition new_steward :: "'s steward_env \<Rightarrow> 's kernel \<Rightarrow> 's steward result" where
  "new_steward env k =
     (if blank (se_source env) then Inl (ValueError ''intent coordinator source must be non-empty'')
      else Inr \<lparr>sw_kernel = k, sw_projection = empty_strategy\<rparr>)"

text \<open>\<open>rebuild\<close> over the normalized events of the history.\<close>

fun strategy_replay :: "builtins \<Rightarrow> jobject registry \<Rightarrow> strategy \<Rightarrow> jobject event list \<Rightarrow> unit result \<times> strategy" where
  "strategy_replay b reg s [] = (Inr (), s)"
| "strategy_replay b reg s (e # es) = (case rbind (normalize reg e) (strategy_step b s) of
     Inl err \<Rightarrow> (Inl err, s)
   | Inr s' \<Rightarrow> strategy_replay b reg s' es)"

definition reload_strategy :: "'s steward_env \<Rightarrow> ('s, unit) admission" where
  "reload_strategy env c = (case ke_read (se_kernel env) (kn_store (sw_kernel c)) of
     Inl err \<Rightarrow> (Inl err, c)
   | Inr es \<Rightarrow> (let (r, s) = strategy_replay (se_builtins env) (ke_registry (se_kernel env)) empty_strategy es
      in (r, c\<lparr>sw_projection := s\<rparr>)))"

definition disturb :: "('s kernel \<Rightarrow> 's kernel) \<Rightarrow> ('s, unit) admission" where
  "disturb f c = (Inr (), c\<lparr>sw_kernel := f (sw_kernel c)\<rparr>)"

definition from_projection :: "(strategy \<Rightarrow> 'a result) \<Rightarrow> ('s, 'a) admission" where
  "from_projection f c = (f (sw_projection c), c)"

definition with_receipt :: "int \<Rightarrow> jobject event \<Rightarrow> jobject event" where
  "with_receipt head e =
     e\<lparr>ev_metadata := AList.update ''validated_at_event_cursor'' (JInt head) (ev_metadata e)\<rparr>"

text \<open>One round of \<open>_admit\<close> before the append: the event to append, and the head it was validated at.\<close>

definition prepare_mutation ::
  "'s steward_env \<Rightarrow> (strategy \<Rightarrow> int \<Rightarrow> jobject event result) \<Rightarrow> ('s, jobject event \<times> int) admission" where
  "prepare_mutation env factory =
     cbind (reload_strategy env) (\<lambda>_. from_projection (\<lambda>s.
       rbind (factory s (sp_last_sequence s)) (\<lambda>e. Inr (with_receipt (sp_last_sequence s) e, sp_last_sequence s))))"

definition append_mutation :: "'s steward_env \<Rightarrow> datetime \<Rightarrow> jobject event \<Rightarrow> int \<Rightarrow> ('s, jobject event) admission" where
  "append_mutation env now e head c = (case emit_if_head (se_kernel env) now (sw_kernel c) e head of
     (r, k) \<Rightarrow> (r, c\<lparr>sw_kernel := k\<rparr>))"

text \<open>What follows a successful append.\<close>

definition project_mutation :: "'s steward_env \<Rightarrow> jobject event \<Rightarrow> jobject event \<Rightarrow> ('s, jobject event) admission" where
  "project_mutation env e stored c =
     (if \<not> same_event (stored\<lparr>ev_sequence := None\<rparr>) e then (Inl (ValueError ''canonical event id conflict''), c)
      else case normalize (ke_registry (se_kernel env)) stored of
          Inl err \<Rightarrow> (Inl err, c)
        | Inr projected \<Rightarrow> (case strategy_step (se_builtins env) (sw_projection c) projected of
            Inl err \<Rightarrow> (Inl err, c)
          | Inr s \<Rightarrow> (Inr projected, c\<lparr>sw_projection := s\<rparr>)))"

primrec admit ::
  "'s steward_env \<Rightarrow> datetime \<Rightarrow> (strategy \<Rightarrow> int \<Rightarrow> jobject event result) \<Rightarrow> ('s kernel \<Rightarrow> 's kernel) list \<Rightarrow>
   ('s, jobject event) admission" where
  "admit env now factory [] =
     cbind (prepare_mutation env factory) (\<lambda>(e, head).
     cbind (append_mutation env now e head) (project_mutation env e))"
| "admit env now factory (f # fs) =
     cbind (prepare_mutation env factory) (\<lambda>(e, head).
     cbind (disturb f) (\<lambda>_ c. case append_mutation env now e head c of
         (Inl (ConcurrentAppendError _ _), c1) \<Rightarrow> admit env now factory fs c1
       | (Inl err, c1) \<Rightarrow> (Inl err, c1)
       | (Inr stored, c1) \<Rightarrow> project_mutation env e stored c1))"

text \<open>Admit an event and read back its contract.\<close>

definition admit_as ::
  "'s steward_env \<Rightarrow> datetime \<Rightarrow> (strategy \<Rightarrow> int \<Rightarrow> jobject event result) \<Rightarrow> ('s kernel \<Rightarrow> 's kernel) list \<Rightarrow>
   (jobject event \<Rightarrow> 'a result) \<Rightarrow> ('s, 'a) admission" where
  "admit_as env now factory fs decode = cbind (admit env now factory fs) (\<lambda>e. pure_result (decode e))"

subsection \<open>The commands\<close>

text \<open>
  The arguments of a command are the fields of \<open>draft\<close>; the fields that the command fills in itself are ignored
  there.
\<close>

definition goal_event ::
  "'s steward_env \<Rightarrow> datetime \<Rightarrow> goal_revision \<Rightarrow> string option \<Rightarrow> strategy \<Rightarrow> int \<Rightarrow> jobject event result" where
  "goal_event env time draft expected s head =
     (let g = gr_goal_id draft in
      rbind (create_goal_revision (se_builtins env)
        (draft\<lparr>gr_version := next_goal_version s g, gr_based_on_event_cursor := head, gr_recorded_at := time,
               gr_supersedes_revision_id := goal_predecessor s g\<rparr>)) (\<lambda>r.
      rbind (validate_goal_revision (se_validator env) r s expected) (\<lambda>_.
      goal_revision_to_event r (se_source env))))"

definition steward_goal_revision ::
  "'s steward_env \<Rightarrow> datetime \<Rightarrow> datetime \<Rightarrow> ('s kernel \<Rightarrow> 's kernel) \<Rightarrow> ('s kernel \<Rightarrow> 's kernel) list \<Rightarrow> goal_revision \<Rightarrow>
   ('s, goal_revision) admission" where
  "steward_goal_revision env now time f fs draft =
     cbind (reload_strategy env) (\<lambda>_.
     cbind (from_projection (\<lambda>s. Inr (goal_predecessor s (gr_goal_id draft)))) (\<lambda>expected.
     cbind (disturb f) (\<lambda>_.
     admit_as env now (goal_event env time draft expected) fs (\<lambda>e. goal_revision_from_dict (se_builtins env) (ev_payload e)))))"

definition roadmap_event ::
  "'s steward_env \<Rightarrow> datetime \<Rightarrow> roadmap_revision \<Rightarrow> string option \<Rightarrow> strategy \<Rightarrow> int \<Rightarrow> jobject event result" where
  "roadmap_event env time draft expected s head =
     (let i = rr_roadmap_id draft in
      rbind (create_roadmap_revision (se_builtins env)
        (draft\<lparr>rr_version := next_roadmap_version s i, rr_based_on_event_cursor := head, rr_recorded_at := time,
               rr_supersedes_revision_id := roadmap_predecessor s i\<rparr>)) (\<lambda>r.
      rbind (validate_roadmap_revision (se_validator env) r s expected) (\<lambda>_.
      roadmap_revision_to_event r (se_source env))))"

definition steward_roadmap_revision ::
  "'s steward_env \<Rightarrow> datetime \<Rightarrow> datetime \<Rightarrow> ('s kernel \<Rightarrow> 's kernel) \<Rightarrow> ('s kernel \<Rightarrow> 's kernel) list \<Rightarrow> roadmap_revision \<Rightarrow>
   ('s, roadmap_revision) admission" where
  "steward_roadmap_revision env now time f fs draft =
     cbind (reload_strategy env) (\<lambda>_.
     cbind (from_projection (\<lambda>s. Inr (roadmap_predecessor s (rr_roadmap_id draft)))) (\<lambda>expected.
     cbind (disturb f) (\<lambda>_.
     admit_as env now (roadmap_event env time draft expected) fs
       (\<lambda>e. roadmap_revision_from_dict (se_builtins env) (ev_payload e)))))"

definition steward_outcome_roles ::
  "'s steward_env \<Rightarrow> datetime \<Rightarrow> ('s kernel \<Rightarrow> 's kernel) list \<Rightarrow> outcome_role_assignment \<Rightarrow>
   ('s, outcome_role_assignment) admission" where
  "steward_outcome_roles env now fs x = admit_as env now
     (\<lambda>s head. rbind (validate_roles_structure s x) (\<lambda>_. outcome_role_assignment_to_event x (se_source env))) fs
     (\<lambda>e. outcome_role_assignment_from_dict (se_builtins env) (ev_payload e))"

definition steward_assistance_envelope ::
  "'s steward_env \<Rightarrow> datetime \<Rightarrow> ('s kernel \<Rightarrow> 's kernel) list \<Rightarrow> assistance_envelope \<Rightarrow> ('s, assistance_envelope) admission" where
  "steward_assistance_envelope env now fs x = admit_as env now
     (\<lambda>s head. rbind (validate_assistance_structure s x) (\<lambda>_. assistance_envelope_to_event x (se_source env))) fs
     (\<lambda>e. assistance_envelope_from_dict (se_builtins env) (ev_payload e))"

definition authorized_by_user :: "intent_authority \<Rightarrow> jobject event \<Rightarrow> jobject event" where
  "authorized_by_user a e = e\<lparr>ev_metadata := [(''intent_authority'', JObj (intent_authority_to_dict a))]\<rparr>"

definition steward_commitment ::
  "'s steward_env \<Rightarrow> datetime \<Rightarrow> ('s kernel \<Rightarrow> 's kernel) list \<Rightarrow> commitment \<Rightarrow> intent_authority \<Rightarrow> ('s, commitment) admission" where
  "steward_commitment env now fs c a = admit_as env now
     (\<lambda>s head. rbind (validate_commitment (se_validator env) c s a) (\<lambda>_.
        rbind (commitment_recorded_event c (se_source env)) (\<lambda>e. Inr (authorized_by_user a e)))) fs
     (\<lambda>e. commitment_from_dict (se_builtins env) (ev_payload e))"

definition transition_event ::
  "'s steward_env \<Rightarrow> datetime \<Rightarrow> commitment_transition \<Rightarrow> intent_authority \<Rightarrow> commitment_status \<Rightarrow> strategy \<Rightarrow> int \<Rightarrow>
   jobject event result" where
  "transition_event env time draft a expected s head =
     (case map_of (sp_commitments s) (ct_commitment_id draft) of
        None \<Rightarrow> Inl (ValueError ''commitment changed after transition command was captured'')
      | Some current \<Rightarrow>
          if co_status current \<noteq> expected
          then Inl (ValueError ''commitment changed after transition command was captured'') else
          rbind (create_commitment_transition (se_builtins env)
            (draft\<lparr>ct_from_state := co_status current, ct_based_on_event_cursor := head, ct_transitioned_at := time\<rparr>)) (\<lambda>x.
          rbind (validate_transition (se_validator env) x s a) (\<lambda>_.
          rbind (commitment_transition_to_event x (se_source env)) (\<lambda>e. Inr (authorized_by_user a e)))))"

definition steward_transition ::
  "'s steward_env \<Rightarrow> datetime \<Rightarrow> datetime \<Rightarrow> ('s kernel \<Rightarrow> 's kernel) \<Rightarrow> ('s kernel \<Rightarrow> 's kernel) list \<Rightarrow>
   commitment_transition \<Rightarrow> intent_authority \<Rightarrow> ('s, commitment_transition) admission" where
  "steward_transition env now time f fs draft a =
     cbind (reload_strategy env) (\<lambda>_.
     cbind (from_projection (\<lambda>s. case map_of (sp_commitments s) (ct_commitment_id draft) of
         None \<Rightarrow> Inl (KeyError (ct_commitment_id draft)) | Some c \<Rightarrow> Inr (co_status c))) (\<lambda>expected.
     cbind (disturb f) (\<lambda>_.
     admit_as env now (transition_event env time draft a expected) fs
       (\<lambda>e. commitment_transition_from_dict (se_builtins env) (ev_payload e)))))"

definition steward_external ::
  "'s steward_env \<Rightarrow> datetime \<Rightarrow> ('s kernel \<Rightarrow> 's kernel) list \<Rightarrow> external_workstream \<Rightarrow> ('s, external_workstream) admission" where
  "steward_external env now fs x = admit_as env now
     (\<lambda>s head. rbind (validate_external_structure s x) (\<lambda>_. external_workstream_to_event x (se_source env))) fs
     (\<lambda>e. external_workstream_from_dict (se_builtins env) (ev_payload e))"

text \<open>The arguments of \<open>propose_work_for_commitment\<close> for the order and the proposal, and the additional provenance.\<close>

definition proposal_event ::
  "'s steward_env \<Rightarrow> datetime \<Rightarrow> work_order \<Rightarrow> work_order_proposal \<Rightarrow> string list \<Rightarrow> strategy \<Rightarrow> int \<Rightarrow> jobject event result" where
  "proposal_event env time order_draft draft provenance s head =
     (case map_of (sp_commitments s) (wop_commitment_id draft) of
        None \<Rightarrow> Inl (KeyError (wop_commitment_id draft))
      | Some c \<Rightarrow>
      case (co_roadmap_revision_id c, co_outcome_node_id c) of
        (Some revision, Some node) \<Rightarrow>
          (case work_eligibility c time of
             None \<Rightarrow> Inl (ValueError ''accepted future commitment is not yet eligible for work'')
           | Some eligibility \<Rightarrow>
               rbind (create_work_order (se_builtins env)
                 (order_draft\<lparr>wo_governing_goal_refs := co_goal_refs c,
                    wo_created_from := [''commitment:'' @ co_id c, ''roadmap-revision:'' @ revision, ''outcome-node:'' @ node] @ provenance,
                    wo_priority := co_priority c, wo_deadline := co_deadline c, wo_opportunity_window_end := None,
                    wo_authority_ceiling := authority_level.PROPOSE, wo_epistemic_prerequisites := [], wo_created_at := time\<rparr>)) (\<lambda>w.
               rbind (create_work_order_proposal (se_builtins env)
                 (draft\<lparr>wop_commitment_id := co_id c, wop_roadmap_revision_id := revision, wop_outcome_node_id := node,
                    wop_work_order := w, wop_eligibility := eligibility, wop_wip_limit := va_wip_limit (se_validator env),
                    wop_based_on_event_cursor := head, wop_proposed_at := time, wop_validator_id := va_id (se_validator env)\<rparr>)) (\<lambda>p.
               rbind (validate_work_proposal (se_validator env) p s time) (\<lambda>_.
               work_order_proposal_to_event p (se_source env)))))
      | _ \<Rightarrow> Inl (ValueError ''commitment lacks roadmap outcome provenance''))"

definition steward_proposal ::
  "'s steward_env \<Rightarrow> datetime \<Rightarrow> datetime \<Rightarrow> ('s kernel \<Rightarrow> 's kernel) list \<Rightarrow> work_order \<Rightarrow> work_order_proposal \<Rightarrow> string list \<Rightarrow>
   ('s, work_order_proposal) admission" where
  "steward_proposal env now time fs order_draft draft provenance =
     admit_as env now (proposal_event env time order_draft draft provenance) fs
       (\<lambda>e. work_order_proposal_from_dict (se_builtins env) (ev_payload e))"

definition admission_event :: "'s steward_env \<Rightarrow> string \<Rightarrow> strategy \<Rightarrow> int \<Rightarrow> jobject event result" where
  "admission_event env proposal_id s head =
     (case map_of (sp_work_proposals s) proposal_id of
        None \<Rightarrow> Inl (KeyError proposal_id)
      | Some p \<Rightarrow> rbind (validate_work_admission p s) (\<lambda>_. work_order_to_event (wop_work_order p) (se_source env)))"

definition steward_admit_order ::
  "'s steward_env \<Rightarrow> datetime \<Rightarrow> ('s kernel \<Rightarrow> 's kernel) \<Rightarrow> ('s kernel \<Rightarrow> 's kernel) list \<Rightarrow> string \<Rightarrow> ('s, work_order) admission" where
  "steward_admit_order env now f fs proposal_id =
     cbind (reload_strategy env) (\<lambda>_.
     cbind (from_projection (\<lambda>s. case map_of (sp_work_proposals s) proposal_id of
         None \<Rightarrow> Inl (KeyError proposal_id)
       | Some p \<Rightarrow> Inr (map_of (sp_admitted_orders s) (wo_id (wop_work_order p))))) (\<lambda>already.
     case already of
       Some w \<Rightarrow> pure_result (Inr w)
     | None \<Rightarrow> cbind (disturb f) (\<lambda>_.
         admit_as env now (admission_event env proposal_id) fs (work_order_from_event (se_builtins env)))))"

definition steward_coverage :: "'s steward_env \<Rightarrow> datetime \<Rightarrow> string \<Rightarrow> ('s, commitment_coverage) admission" where
  "steward_coverage env t i = cbind (reload_strategy env) (\<lambda>_. from_projection (\<lambda>s. coverage s i t))"

definition steward_roadmap_health :: "'s steward_env \<Rightarrow> datetime \<Rightarrow> string \<Rightarrow> ('s, roadmap_health) admission" where
  "steward_roadmap_health env t i =
     cbind (reload_strategy env) (\<lambda>_. from_projection (\<lambda>s. assess_roadmap_health s i t (va_wip_limit (se_validator env))))"

end
